(* ===== verification/Prelude.thy ===== *)
theory Prelude
  imports Main "HOL-Library.List_Lexorder" "HOL-Library.Char_ord" "HOL-Library.Product_Lexorder" "HOL-Library.Sublist"
begin

section \<open>Shared vocabulary: errors as values, guarded sequences, strings\<close>

text \<open>
  Every component raises Python exceptions; here an exception is a value of the type
  \<open>error\<close>, its class and its message, and a function that may raise returns
  \<open>error + 'a\<close>. Two combinators write the control flow of the code: \<open>rbind\<close> runs
  the next statement only when the previous one returned, and \<open>raise_if\<close> is a column of
  guards \<open>if c: raise e\<close> tried from the top. A loop whose body may raise is
  \<open>rfor\<close>, a comprehension whose body may raise is \<open>rmap\<close>.

  Strings are Python texts over the code points 0 to 255 (one \<open>char\<close> is one code
  point). Every literal of the source lies in that range. The library methods the source
  uses on them (\<open>strip\<close>, \<open>lower\<close>, \<open>split\<close>, \<open>join\<close>, \<open>isalnum\<close>) are
  written out for that range.
\<close>

subsection \<open>Exceptions\<close>

datatype exn =
    ValueError | TypeError | ValidationError | ResourceLimitError | StrictJsonError
  | ApprovalIntentError | AttackDeliveryError | ProtocolDeliveryError
  | RetrievalDeliveryError | RetrievalReceiptError
  | SideEffectObservationError | SideEffectReceiptError
  | SemanticJudgmentError | AdapterConformanceError
  | ResetIsolationError | SamplingProvenanceError | PopulationProvenanceError | MetricProvenanceError
  | SemanticJudgeConfigurationError | EvidenceMinimizationError | OperationalObservabilityError
  | AssertionError | ZeroDivisionError | OverflowError

datatype error = Err (err_class: exn) (err_msg: string)

text \<open>
  The classes that derive from \<open>ValueError\<close>: all of the above but those of the language itself
  and \<open>AdapterConformanceError\<close>, \<open>EvidenceMinimizationError\<close> and
  \<open>OperationalObservabilityError\<close> (each a \<open>RuntimeError\<close>). Pydantic documents its
  \<open>ValidationError\<close> as a \<open>ValueError\<close>.
\<close>

definition is_value_error :: "error \<Rightarrow> bool" where
  "is_value_error e \<longleftrightarrow> err_class e \<noteq> TypeError \<and> err_class e \<noteq> AdapterConformanceError \<and>
     err_class e \<notin> {EvidenceMinimizationError, OperationalObservabilityError, AssertionError, ZeroDivisionError, OverflowError}"

text \<open>Messages are data: the simplifier leaves them alone.\<close>

lemma Err_cong [cong]: "Err c m = Err c m"
  by (rule refl)

subsection \<open>Results\<close>

named_theorems result_simps

fun rbind :: "'e + 'a \<Rightarrow> ('a \<Rightarrow> 'e + 'b) \<Rightarrow> 'e + 'b" where
  "rbind (Inl e) f = Inl e"
| "rbind (Inr x) f = f x"

fun raise_if :: "(bool \<times> 'e) list \<Rightarrow> 'e + unit" where
  "raise_if [] = Inr ()"
| "raise_if ((c, e) # cs) = (if c then Inl e else raise_if cs)"

fun rmap :: "('a \<Rightarrow> 'e + 'b) \<Rightarrow> 'a list \<Rightarrow> 'e + 'b list" where
  "rmap f [] = Inr []"
| "rmap f (x # xs) = rbind (f x) (\<lambda>y. rbind (rmap f xs) (\<lambda>ys. Inr (y # ys)))"

fun rfor :: "('a \<Rightarrow> 'e + unit) \<Rightarrow> 'a list \<Rightarrow> 'e + unit" where
  "rfor f [] = Inr ()"
| "rfor f (x # xs) = rbind (f x) (\<lambda>_. rfor f xs)"

text \<open>\<open>try: r except c: raise e\<close>: an error of a caught class is replaced.\<close>

definition rcatch :: "('e \<Rightarrow> bool) \<Rightarrow> 'e \<Rightarrow> 'e + 'a \<Rightarrow> 'e + 'a" where
  "rcatch caught e r = (case r of Inl e' \<Rightarrow> Inl (if caught e' then e else e') | Inr x \<Rightarrow> Inr x)"

definition map_error :: "('e \<Rightarrow> 'f) \<Rightarrow> 'e + 'a \<Rightarrow> 'f + 'a" where
  "map_error f r = (case r of Inl e \<Rightarrow> Inl (f e) | Inr x \<Rightarrow> Inr x)"

definition returns :: "'e + 'a \<Rightarrow> bool" where
  "returns r \<longleftrightarrow> (case r of Inl _ \<Rightarrow> False | Inr _ \<Rightarrow> True)"

lemma rbind_Inr [result_simps]: "rbind r f = Inr y \<longleftrightarrow> (\<exists>x. r = Inr x \<and> f x = Inr y)"
  by (cases r) auto

lemma rbind_Inl [result_simps]:
  "rbind r f = Inl e \<longleftrightarrow> r = Inl e \<or> (\<exists>x. r = Inr x \<and> f x = Inl e)"
  by (cases r) auto

lemma raise_if_Inr [result_simps]:
  "raise_if ((c, e) # cs) = Inr u \<longleftrightarrow> \<not> c \<and> raise_if cs = Inr u"
  by (simp add: raise_if.simps)

lemma raise_if_Nil [simp]: "raise_if [] = Inr ()"
  by simp

declare raise_if.simps(2) [simp del]

lemma raise_if_True [simp]: "raise_if ((True, e) # cs) = Inl e"
  by (simp add: raise_if.simps)

lemma raise_if_False [simp]: "raise_if ((False, e) # cs) = raise_if cs"
  by (simp add: raise_if.simps)

lemma raise_if_Inr_iff: "raise_if cs = Inr u \<longleftrightarrow> (\<forall>(c, e) \<in> set cs. \<not> c)"
  by (induction cs rule: raise_if.induct) (auto simp: result_simps)

lemma raise_if_Inl_mem: "raise_if cs = Inl e \<Longrightarrow> (True, e) \<in> set cs"
  by (induction cs rule: raise_if.induct) (auto simp: raise_if.simps split: if_splits)

lemma raise_if_append: "raise_if (cs @ ds) = rbind (raise_if cs) (\<lambda>_. raise_if ds)"
  by (induction cs rule: raise_if.induct) (auto simp: raise_if.simps)

lemma rcatch_Inr [result_simps]: "rcatch c e r = Inr x \<longleftrightarrow> r = Inr x"
  by (auto simp: rcatch_def split: sum.splits)

lemma map_error_Inr [result_simps]: "map_error f r = Inr x \<longleftrightarrow> r = Inr x"
  by (auto simp: map_error_def split: sum.splits)

lemma map_error_simps [simp]: "map_error f (Inl e) = Inl (f e)" "map_error f (Inr x) = Inr x"
  by (simp_all add: map_error_def)

lemma rcatch_simps [simp]:
  "rcatch c e (Inr x) = Inr x" "rcatch c e (Inl e') = Inl (if c e' then e else e')"
  by (simp_all add: rcatch_def)

lemma returns_simps [simp]: "returns (Inr x)" "\<not> returns (Inl e)"
  by (simp_all add: returns_def)

lemma returns_iff: "returns r \<longleftrightarrow> (\<exists>x. r = Inr x)"
  by (auto simp: returns_def split: sum.splits)

lemma rmap_Inr: "rmap f xs = Inr ys \<longleftrightarrow> list_all2 (\<lambda>x y. f x = Inr y) xs ys"
  by (induction xs arbitrary: ys) (auto simp: result_simps list_all2_Cons1)

lemma rmap_Inr_length: "rmap f xs = Inr ys \<Longrightarrow> length ys = length xs"
  by (auto simp: rmap_Inr list_all2_lengthD)

lemma rfor_Inr: "rfor f xs = Inr u \<longleftrightarrow> (\<forall>x \<in> set xs. f x = Inr ())"
  by (induction xs) (auto simp: result_simps)

lemma rfor_append: "rfor f (xs @ ys) = rbind (rfor f xs) (\<lambda>_. rfor f ys)"
proof (induction xs)
  case (Cons x xs)
  then show ?case by (cases "f x") auto
qed simp

text \<open>The first element on which the body raises decides the error of the loop.\<close>

lemma rfor_Inl:
  assumes "rfor f xs = Inl e"
  obtains ys x zs where "xs = ys @ x # zs" "\<forall>y \<in> set ys. f y = Inr ()" "f x = Inl e"
  using assms
proof (induction xs arbitrary: thesis)
  case (Cons x xs)
  show ?case
  proof (cases "f x")
    case (Inl e')
    with Cons.prems show ?thesis by (intro Cons.prems(1) [of "[]" x xs]) auto
  next
    case (Inr u)
    with Cons.prems have "rfor f xs = Inl e" by simp
    then obtain ys y zs where "xs = ys @ y # zs" "\<forall>z \<in> set ys. f z = Inr ()" "f y = Inl e"
      using Cons.IH by blast
    with Inr show ?thesis by (intro Cons.prems(1) [of "x # ys" y zs]) auto
  qed
qed simp

text \<open>\<open>raise ValueError(msg)\<close>\<close>

definition vale :: "string \<Rightarrow> error" where
  "vale msg = Err ValueError msg"

lemma vale_cong [cong]: "vale m = vale m"
  by (rule refl)

text \<open>A guard that requires an equation, and a sequence of them raised as \<open>ValueError\<close>.\<close>

definition require_all :: "(bool \<times> string) list \<Rightarrow> error + unit" where
  "require_all gs = raise_if (map (\<lambda>(ok, msg). (\<not> ok, vale msg)) gs)"

lemma require_all_Inr: "require_all gs = Inr u \<longleftrightarrow> (\<forall>(ok, msg) \<in> set gs. ok)"
  by (auto simp: require_all_def raise_if_Inr_iff)

subsection \<open>Python text\<close>

text \<open>White space of \<open>str.strip\<close> and letters of \<open>str.lower\<close>, up to code point 255.\<close>

definition py_space :: "char \<Rightarrow> bool" where
  "py_space c \<longleftrightarrow> (let n = (of_char c :: nat) in
     (9 \<le> n \<and> n \<le> 13) \<or> (28 \<le> n \<and> n \<le> 32) \<or> n = 133 \<or> n = 160)"

definition py_strip :: "string \<Rightarrow> string" where
  "py_strip s = rev (dropWhile py_space (rev (dropWhile py_space s)))"

definition py_lower_char :: "char \<Rightarrow> char" where
  "py_lower_char c = (let n = (of_char c :: nat) in
     if (65 \<le> n \<and> n \<le> 90) \<or> (192 \<le> n \<and> n \<le> 222 \<and> n \<noteq> 215)
     then char_of (n + 32) else c)"

definition py_lower :: "string \<Rightarrow> string" where
  "py_lower s = map py_lower_char s"

definition is_digit_char :: "char \<Rightarrow> bool" where
  "is_digit_char c \<longleftrightarrow> (let n = (of_char c :: nat) in 48 \<le> n \<and> n \<le> 57)"

definition is_lower_char :: "char \<Rightarrow> bool" where
  "is_lower_char c \<longleftrightarrow> (let n = (of_char c :: nat) in 97 \<le> n \<and> n \<le> 122)"

definition is_hex_char :: "char \<Rightarrow> bool" where
  "is_hex_char c \<longleftrightarrow> is_digit_char c \<or>
     (let n = (of_char c :: nat) in 97 \<le> n \<and> n \<le> 102)"

text \<open>The pattern \<open>^[0-9a-f]{64}$\<close> that guards every digest field.\<close>

definition is_sha256 :: "string \<Rightarrow> bool" where
  "is_sha256 s \<longleftrightarrow> length s = 64 \<and> list_all is_hex_char s"

text \<open>\<open>sep.join(parts)\<close> and \<open>text.split(c)\<close>.\<close>

fun str_join :: "string \<Rightarrow> string list \<Rightarrow> string" where
  "str_join sep [] = []"
| "str_join sep [x] = x"
| "str_join sep (x # y # xs) = x @ sep @ str_join sep (y # xs)"

fun str_split :: "char \<Rightarrow> string \<Rightarrow> string list" where
  "str_split c [] = [[]]"
| "str_split c (x # xs) =
     (if x = c then [] # str_split c xs
      else (case str_split c xs of [] \<Rightarrow> [[x]] | w # ws \<Rightarrow> (x # w) # ws))"

lemma str_split_nonempty [simp]: "str_split c s \<noteq> []"
  by (induction s) (auto split: list.splits)

lemma join_split: "str_join [c] (str_split c s) = s"
proof (induction s)
  case (Cons x xs)
  then show ?case
    by (cases "str_split c xs") (auto split: list.splits, cases "tl (str_split c xs)", auto)
qed simp

lemma str_split_append:
  "c \<notin> set w \<Longrightarrow> str_split c (w @ c # s) = w # str_split c s"
  by (induction w) auto

lemma str_split_single: "c \<notin> set w \<Longrightarrow> str_split c w = [w]"
  by (induction w) auto

lemma split_join:
  "ws \<noteq> [] \<Longrightarrow> \<forall>w \<in> set ws. c \<notin> set w \<Longrightarrow> str_split c (str_join [c] ws) = ws"
  by (induction "[c]" ws rule: str_join.induct) (auto simp: str_split_append str_split_single)

lemma str_split_no_sep: "w \<in> set (str_split c s) \<Longrightarrow> c \<notin> set w"
  by (induction s arbitrary: w) (auto split: list.splits if_splits)

text \<open>\<open>str(n)\<close> for the unbounded integers of Python.\<close>

definition digit_char :: "nat \<Rightarrow> char" where
  "digit_char d = char_of (48 + d)"

fun nat_str :: "nat \<Rightarrow> string" where
  "nat_str n = (if n < 10 then [digit_char n] else nat_str (n div 10) @ [digit_char (n mod 10)])"

declare nat_str.simps [simp del]

definition int_str :: "int \<Rightarrow> string" where
  "int_str i = (if i < 0 then CHR ''-'' # nat_str (nat (- i)) else nat_str (nat i))"

definition digit_val :: "char \<Rightarrow> nat" where
  "digit_val c = of_char c - 48"

definition digits_val :: "string \<Rightarrow> nat" where
  "digits_val s = foldl (\<lambda>n c. 10 * n + digit_val c) 0 s"

lemma digit_char_range [simp]: "d < 10 \<Longrightarrow> (of_char (digit_char d) :: nat) = 48 + d"
  by (simp add: digit_char_def)

lemma digit_char_is_digit [simp]: "d < 10 \<Longrightarrow> is_digit_char (digit_char d)"
  by (simp add: is_digit_char_def)

lemma digit_val_char [simp]: "d < 10 \<Longrightarrow> digit_val (digit_char d) = d"
  by (simp add: digit_val_def)

lemma nat_str_digits: "\<forall>c \<in> set (nat_str n). is_digit_char c"
proof (induction n rule: nat_str.induct)
  case (1 n)
  then show ?case by (subst nat_str.simps) auto
qed

lemma nat_str_nonempty [simp]: "nat_str n \<noteq> []"
  by (subst nat_str.simps) simp

lemma digits_val_snoc [simp]: "digits_val (s @ [c]) = 10 * digits_val s + digit_val c"
  by (simp add: digits_val_def)

lemma digits_val_nat_str [simp]: "digits_val (nat_str n) = n"
proof (induction n rule: nat_str.induct)
  case (1 n)
  show ?case
  proof (cases "n < 10")
    case True
    then show ?thesis by (subst nat_str.simps) (simp add: digits_val_def)
  next
    case False
    with 1 show ?thesis by (subst nat_str.simps) simp
  qed
qed

lemma nat_str_inj: "nat_str m = nat_str n \<longleftrightarrow> m = n"
  by (metis digits_val_nat_str)

lemma nat_str_hd: "n \<noteq> 0 \<Longrightarrow> hd (nat_str n) \<noteq> CHR ''0''"
proof (induction n rule: nat_str.induct)
  case (1 n)
  show ?case
  proof (cases "n < 10")
    case True
    then have "hd (nat_str n) = digit_char n" by (subst nat_str.simps) simp
    moreover have "of_char (digit_char n) \<noteq> (of_char (CHR ''0'') :: nat)"
      using True "1.prems" by simp
    ultimately show ?thesis by metis
  next
    case False
    then have "hd (nat_str n) = hd (nat_str (n div 10))"
      by (subst nat_str.simps) simp
    with 1 False show ?thesis by simp
  qed
qed

text \<open>A finite set of texts is listed in code point order (\<open>sorted\<close>).\<close>

abbreviation py_sorted :: "string set \<Rightarrow> string list" where
  "py_sorted S \<equiv> sorted_list_of_set S"

end
