(* ===== verification/PyFloat.thy ===== *)
theory PyFloat
  imports Prelude
begin

section \<open>Python floats (IEEE 754 binary64)\<close>

text \<open>
  A finite float is its sign, mantissa and exponent, \<open>(-1)^s * m * 2^e\<close> with
  \<open>m < 2^53\<close>; zero is \<open>FFin s 0 0\<close>, so that both signed zeros exist. Rounding is to the
  nearest representable value, ties to even, with overflow to infinity and gradual
  underflow. Comparison and the arithmetic the evaluator uses (the clock subtraction and
  the scaling to milliseconds) are exact operations followed by that rounding, as the
  hardware's are. \<open>float_repr\<close> is \<open>repr\<close>: the shortest decimal that rounds back.
\<close>

datatype pyfloat = FFin bool nat int | FInf bool | FNaN

fun isfinite :: "pyfloat \<Rightarrow> bool" where
  "isfinite (FFin _ _ _) = True"
| "isfinite _ = False"

fun nlog2 :: "nat \<Rightarrow> nat" where
  "nlog2 n = (if n \<le> 1 then 0 else Suc (nlog2 (n div 2)))"

declare nlog2.simps [simp del]

text \<open>Round the positive or zero ratio \<open>num / den\<close> with the given sign.\<close>

definition fl_ratio :: "bool \<Rightarrow> nat \<Rightarrow> nat \<Rightarrow> pyfloat" where
  "fl_ratio neg num den = (if num = 0 then FFin neg 0 0 else
     let k0 = int (nlog2 num) - int (nlog2 den);
         ge = (if k0 \<ge> 0 then num \<ge> den * 2 ^ nat k0 else num * 2 ^ nat (- k0) \<ge> den);
         k = (if ge then k0 else k0 - 1);
         e = max (k - 52) (- 1074);
         num' = (if e < 0 then num * 2 ^ nat (- e) else num);
         den' = (if e < 0 then den else den * 2 ^ nat e);
         q = num' div den'; r = num' mod den';
         q' = (if 2 * r > den' \<or> (2 * r = den' \<and> odd q) then q + 1 else q);
         m = (if q' = 2 ^ 53 then 2 ^ 52 else q');
         e' = (if q' = 2 ^ 53 then e + 1 else e)
     in if m = 0 then FFin neg 0 0 else if e' > 971 then FInf neg else FFin neg m e')"

text \<open>Round the dyadic value \<open>m * 2^e\<close>, \<open>m\<close> an integer; \<open>neg0\<close> is the sign of a zero result.\<close>

definition fl_dyadic :: "bool \<Rightarrow> int \<Rightarrow> int \<Rightarrow> pyfloat" where
  "fl_dyadic neg0 m e = (let neg = (if m = 0 then neg0 else m < 0) in
     if e \<ge> 0 then fl_ratio neg (nat \<bar>m\<bar> * 2 ^ nat e) 1
     else fl_ratio neg (nat \<bar>m\<bar>) (2 ^ nat (- e)))"

definition fl_of_int :: "int \<Rightarrow> pyfloat" where
  "fl_of_int i = fl_dyadic False i 0"

definition signed :: "bool \<Rightarrow> nat \<Rightarrow> int" where
  "signed s m = (if s then - int m else int m)"

fun fl_neg :: "pyfloat \<Rightarrow> pyfloat" where
  "fl_neg (FFin s m e) = FFin (\<not> s) m e"
| "fl_neg (FInf s) = FInf (\<not> s)"
| "fl_neg FNaN = FNaN"

text \<open>Both mantissas at the smaller of the two exponents.\<close>

definition align :: "bool \<Rightarrow> nat \<Rightarrow> int \<Rightarrow> bool \<Rightarrow> nat \<Rightarrow> int \<Rightarrow> int \<times> int \<times> int" where
  "align s m e s' m' e' = (let lo = min e e' in
     (signed s m * 2 ^ nat (e - lo), signed s' m' * 2 ^ nat (e' - lo), lo))"

fun fl_add :: "pyfloat \<Rightarrow> pyfloat \<Rightarrow> pyfloat" where
  "fl_add (FFin s m e) (FFin s' m' e') =
     (case align s m e s' m' e' of (a, b, lo) \<Rightarrow> fl_dyadic (s \<and> s') (a + b) lo)"
| "fl_add (FInf s) (FInf s') = (if s = s' then FInf s else FNaN)"
| "fl_add FNaN _ = FNaN"
| "fl_add _ FNaN = FNaN"
| "fl_add (FInf s) _ = FInf s"
| "fl_add _ (FInf s) = FInf s"

definition fl_sub :: "pyfloat \<Rightarrow> pyfloat \<Rightarrow> pyfloat" where
  "fl_sub x y = fl_add x (fl_neg y)"

fun fl_mul :: "pyfloat \<Rightarrow> pyfloat \<Rightarrow> pyfloat" where
  "fl_mul (FFin s m e) (FFin s' m' e') =
     fl_dyadic (s \<noteq> s') (signed s m * signed s' m') (e + e')"
| "fl_mul FNaN _ = FNaN"
| "fl_mul _ FNaN = FNaN"
| "fl_mul (FInf s) (FFin s' m' _) = (if m' = 0 then FNaN else FInf (s \<noteq> s'))"
| "fl_mul (FFin s m _) (FInf s') = (if m = 0 then FNaN else FInf (s \<noteq> s'))"
| "fl_mul (FInf s) (FInf s') = FInf (s \<noteq> s')"

fun fl_lt :: "pyfloat \<Rightarrow> pyfloat \<Rightarrow> bool" where
  "fl_lt (FFin s m e) (FFin s' m' e') = (case align s m e s' m' e' of (a, b, _) \<Rightarrow> a < b)"
| "fl_lt (FInf s) (FInf s') = (s \<and> \<not> s')"
| "fl_lt FNaN _ = False"
| "fl_lt _ FNaN = False"
| "fl_lt (FInf s) _ = s"
| "fl_lt _ (FInf s) = (\<not> s)"

fun fl_eq :: "pyfloat \<Rightarrow> pyfloat \<Rightarrow> bool" where
  "fl_eq (FFin s m e) (FFin s' m' e') = (case align s m e s' m' e' of (a, b, _) \<Rightarrow> a = b)"
| "fl_eq (FInf s) (FInf s') = (s = s')"
| "fl_eq _ _ = False"

definition fl_le :: "pyfloat \<Rightarrow> pyfloat \<Rightarrow> bool" where
  "fl_le x y \<longleftrightarrow> fl_lt x y \<or> fl_eq x y"

text \<open>Python's \<open>max(a, b)\<close> keeps the first of two equal or unordered arguments.\<close>

definition fl_max :: "pyfloat \<Rightarrow> pyfloat \<Rightarrow> pyfloat" where
  "fl_max a b = (if fl_lt a b then b else a)"

text \<open>Exact comparison of a float with an integer.\<close>

fun fl_eq_int :: "pyfloat \<Rightarrow> int \<Rightarrow> bool" where
  "fl_eq_int (FFin s m e) i =
     (if e \<ge> 0 then signed s m * 2 ^ nat e = i else signed s m = i * 2 ^ nat (- e))"
| "fl_eq_int _ _ = False"

definition fl_0 :: pyfloat where
  "fl_0 = FFin False 0 0"

definition fl_1000 :: pyfloat where
  "fl_1000 = fl_of_int 1000"

subsection \<open>Decimal text\<close>

definition ratio10 :: "bool \<Rightarrow> nat \<Rightarrow> int \<Rightarrow> pyfloat" where
  "ratio10 neg d k = (if k \<ge> 0 then fl_ratio neg (d * 10 ^ nat k) 1
                      else fl_ratio neg d (10 ^ nat (- k)))"

text \<open>
  The decimals with \<open>n\<close> digits next to \<open>m * 2^e\<close>: \<open>10^(p-1) <= x < 10^p\<close> and the
  digits are those of \<open>x * 10^(n-p)\<close>, rounded down and up; the nearer one that rounds back
  is taken.
\<close>

fun pow10_above :: "nat \<Rightarrow> nat \<Rightarrow> nat \<Rightarrow> int \<Rightarrow> int" where
  "pow10_above 0 num den p = p"
| "pow10_above (Suc fuel) num den p =
     (if num < den then
        (if num * 10 < den then pow10_above fuel (num * 10) den (p - 1) else p)
      else pow10_above fuel num (den * 10) (p + 1))"

definition try_digits :: "bool \<Rightarrow> nat \<Rightarrow> nat \<Rightarrow> int \<Rightarrow> pyfloat \<Rightarrow> nat \<Rightarrow> (nat \<times> int) option" where
  "try_digits neg num den p x n =
     (let k = p - int n;
          num' = (if k < 0 then num * 10 ^ nat (- k) else num);
          den' = (if k < 0 then den else den * 10 ^ nat k);
          lo = num' div den'; hi = lo + 1;
          lo_ok = ratio10 neg lo k = x; hi_ok = ratio10 neg hi k = x;
          lo_near = 2 * (num' mod den') \<le> den'
      in if lo_ok \<and> (lo_near \<or> \<not> hi_ok) then Some (lo, k)
         else if hi_ok then Some (hi, k) else None)"

fun first_some :: "('a \<Rightarrow> 'b option) \<Rightarrow> 'a list \<Rightarrow> 'b option" where
  "first_some f [] = None"
| "first_some f (x # xs) = (case f x of Some y \<Rightarrow> Some y | None \<Rightarrow> first_some f xs)"

definition shortest :: "bool \<Rightarrow> nat \<Rightarrow> int \<Rightarrow> nat \<times> int" where
  "shortest neg m e =
     (let num = (if e \<ge> 0 then m * 2 ^ nat e else m);
          den = (if e \<ge> 0 then 1 else 2 ^ nat (- e));
          p = pow10_above 700 num den 0
      in case first_some (try_digits neg num den p (FFin neg m e)) [1..<18] of
           Some r \<Rightarrow> r | None \<Rightarrow> (0, 0))"

definition exp_str :: "int \<Rightarrow> string" where
  "exp_str x = (if x < 0 then ''-'' else ''+'') @
     (if \<bar>x\<bar> < 10 then ''0'' else []) @ nat_str (nat \<bar>x\<bar>)"

text \<open>\<open>decpt\<close> is the position of the point: the value is 0.digits times \<open>10^decpt\<close>.\<close>

definition layout_float :: "string \<Rightarrow> int \<Rightarrow> string" where
  "layout_float ds decpt = (let n = int (length ds) in
     if decpt \<le> - 4 \<or> decpt > 16 then
       take 1 ds @ (if n > 1 then ''.'' @ drop 1 ds else []) @ ''e'' @ exp_str (decpt - 1)
     else if decpt \<le> 0 then ''0.'' @ replicate (nat (- decpt)) (CHR ''0'') @ ds
     else if decpt \<ge> n then ds @ replicate (nat (decpt - n)) (CHR ''0'') @ ''.0''
     else take (nat decpt) ds @ ''.'' @ drop (nat decpt) ds)"

definition strip_zeros :: "string \<Rightarrow> string" where
  "strip_zeros s = rev (dropWhile (\<lambda>c. c = CHR ''0'') (rev s))"

fun float_repr :: "pyfloat \<Rightarrow> string" where
  "float_repr (FFin s m e) = (if s then ''-'' else []) @
     (if m = 0 then ''0.0'' else
        case shortest s m e of (d, k) \<Rightarrow>
          let ds = nat_str d in layout_float (strip_zeros ds) (int (length ds) + k))"
| "float_repr (FInf s) = (if s then ''-inf'' else ''inf'')"
| "float_repr FNaN = ''nan''"

end
