(* ===== verification/Sha256.thy ===== *)
theory Sha256
  imports Prelude "HOL-Library.Word"
begin

unbundle bit_operations_syntax

section \<open>SHA-256 and UTF-8\<close>

text \<open>
  Identities, digests and receipt roots are \<open>hashlib.sha256(...)\<close> of canonical bytes.
  The standard library's function is modelled as FIPS 180-4 defines it, on 32-bit words, so
  that the identities of the model are the identities of the code; a byte is a \<open>char\<close>.
  No theorem below assumes that the function is injective: where the code relies on
  collision resistance, the statement names the two colliding messages instead
  (\<open>sha256_collision\<close>).
\<close>

type_synonym u32 = "32 word"

definition sha_k :: "u32 list" where
  "sha_k = [
    1116352408, 1899447441, 3049323471, 3921009573, 961987163, 1508970993, 2453635748, 2870763221,
    3624381080, 310598401, 607225278, 1426881987, 1925078388, 2162078206, 2614888103, 3248222580,
    3835390401, 4022224774, 264347078, 604807628, 770255983, 1249150122, 1555081692, 1996064986,
    2554220882, 2821834349, 2952996808, 3210313671, 3336571891, 3584528711, 113926993, 338241895,
    666307205, 773529912, 1294757372, 1396182291, 1695183700, 1986661051, 2177026350, 2456956037,
    2730485921, 2820302411, 3259730800, 3345764771, 3516065817, 3600352804, 4094571909, 275423344,
    430227734, 506948616, 659060556, 883997877, 958139571, 1322822218, 1537002063, 1747873779,
    1955562222, 2024104815, 2227730452, 2361852424, 2428436474, 2756734187, 3204031479, 3329325298]"

type_synonym sha_state = "u32 \<times> u32 \<times> u32 \<times> u32 \<times> u32 \<times> u32 \<times> u32 \<times> u32"

definition sha_init :: sha_state where
  "sha_init = (1779033703, 3144134277, 1013904242, 2773480762,
               1359893119, 2600822924, 528734635, 1541459225)"

definition sha_round :: "sha_state \<Rightarrow> u32 \<times> u32 \<Rightarrow> sha_state" where
  "sha_round st kw = (case st of (a, b, c, d, e, f, g, h) \<Rightarrow>
     (let s1 = (word_rotr 6 e) XOR (word_rotr 11 e) XOR (word_rotr 25 e);
          ch = (e AND f) XOR ((NOT e) AND g);
          t1 = h + s1 + ch + fst kw + snd kw;
          s0 = (word_rotr 2 a) XOR (word_rotr 13 a) XOR (word_rotr 22 a);
          mj = (a AND b) XOR (a AND c) XOR (b AND c)
      in (t1 + (s0 + mj), a, b, c, d + t1, e, f, g)))"

text \<open>The message schedule, the sixteen words of a block extended to sixty-four.\<close>

definition sha_next :: "u32 list \<Rightarrow> u32" where
  "sha_next w = (let n = length w; x = w ! (n - 15); y = w ! (n - 2) in
     w ! (n - 16) + ((word_rotr 7 x) XOR (word_rotr 18 x) XOR (drop_bit 3 x))
     + w ! (n - 7) + ((word_rotr 17 y) XOR (word_rotr 19 y) XOR (drop_bit 10 y)))"

primrec sha_schedule :: "nat \<Rightarrow> u32 list \<Rightarrow> u32 list" where
  "sha_schedule 0 w = w"
| "sha_schedule (Suc n) w = sha_schedule n (w @ [sha_next w])"

definition sha_add :: "sha_state \<Rightarrow> sha_state \<Rightarrow> sha_state" where
  "sha_add s t = (case s of (a, b, c, d, e, f, g, h) \<Rightarrow>
     (case t of (a', b', c', d', e', f', g', h') \<Rightarrow>
       (a + a', b + b', c + c', d + d', e + e', f + f', g + g', h + h')))"

definition sha_block :: "sha_state \<Rightarrow> u32 list \<Rightarrow> sha_state" where
  "sha_block st w = sha_add st (foldl sha_round st (zip sha_k (sha_schedule 48 w)))"

fun sha_words :: "string \<Rightarrow> u32 list" where
  "sha_words (a # b # c # d # s) =
     (push_bit 24 (of_char a) OR push_bit 16 (of_char b) OR push_bit 8 (of_char c) OR of_char d)
     # sha_words s"
| "sha_words _ = []"

fun sha_blocks :: "sha_state \<Rightarrow> u32 list \<Rightarrow> sha_state" where
  "sha_blocks st w =
     (if length w < 16 then st else sha_blocks (sha_block st (take 16 w)) (drop 16 w))"

declare sha_blocks.simps [simp del]

text \<open>Padding: a one bit, zeros, and the length in bits as a 64-bit big-endian number.\<close>

definition sha_byte :: "'w::len word \<Rightarrow> nat \<Rightarrow> char" where
  "sha_byte w i = char_of (uint (drop_bit (8 * i) w AND 255))"

definition sha_pad :: "string \<Rightarrow> string" where
  "sha_pad m = (let n = length m; bits = (of_nat (8 * n) :: 64 word) in
     m @ [char_of (128 :: int)] @ replicate ((119 - n mod 64) mod 64) (char_of (0 :: int))
       @ map (sha_byte bits) [7, 6, 5, 4, 3, 2, 1, 0])"

definition word_bytes :: "u32 \<Rightarrow> string" where
  "word_bytes w = map (sha_byte w) [3, 2, 1, 0]"

definition sha256_digest :: "string \<Rightarrow> string" where
  "sha256_digest m = (case sha_blocks sha_init (sha_words (sha_pad m)) of
     (a, b, c, d, e, f, g, h) \<Rightarrow> concat (map word_bytes [a, b, c, d, e, f, g, h]))"

definition hex_char :: "nat \<Rightarrow> char" where
  "hex_char n = (if n < 10 then char_of (48 + n) else char_of (87 + n))"

definition hex_byte :: "char \<Rightarrow> string" where
  "hex_byte c = (let n = (of_char c :: nat) in [hex_char (n div 16), hex_char (n mod 16)])"

definition to_hex :: "string \<Rightarrow> string" where
  "to_hex s = concat (map hex_byte s)"

definition sha256_hex :: "string \<Rightarrow> string" where
  "sha256_hex m = to_hex (sha256_digest m)"

text \<open>\<open>text.encode("utf-8")\<close> for code points up to 255.\<close>

definition utf8_char :: "char \<Rightarrow> string" where
  "utf8_char c = (let n = (of_char c :: nat) in
     if n < 128 then [c] else [char_of (192 + n div 64), char_of (128 + n mod 64)])"

definition utf8 :: "string \<Rightarrow> string" where
  "utf8 s = concat (map utf8_char s)"

definition sha256_collision :: "string \<Rightarrow> string \<Rightarrow> bool" where
  "sha256_collision x y \<longleftrightarrow> x \<noteq> y \<and> sha256_digest x = sha256_digest y"

subsection \<open>Shape of a digest\<close>

lemma hex_char_is_hex: "n < 16 \<Longrightarrow> is_hex_char (hex_char n)"
  by (auto simp: is_hex_char_def hex_char_def is_digit_char_def Let_def)

lemma length_digest: "length (sha256_digest m) = 32"
  by (simp add: sha256_digest_def word_bytes_def split: prod.splits)

lemma length_to_hex: "length (to_hex s) = 2 * length s"
  by (induction s) (auto simp: to_hex_def hex_byte_def Let_def)

lemma of_char_bound: "(of_char c :: nat) < 256"
  by (simp add: nat_of_char_less_256)

lemma of_char_nibbles: "(of_char c :: nat) div 16 < 16" "(of_char c :: nat) mod 16 < 16"
  using of_char_bound [of c] by (auto simp: less_mult_imp_div_less)

lemma to_hex_hex: "list_all is_hex_char (to_hex s)"
  by (induction s)
    (auto simp: to_hex_def hex_byte_def Let_def intro!: hex_char_is_hex of_char_nibbles)

lemma is_sha256_hex [simp]: "is_sha256 (sha256_hex m)"
  by (simp add: is_sha256_def sha256_hex_def length_to_hex length_digest to_hex_hex)

lemma of_hex_char: "k < 16 \<Longrightarrow> (of_char (hex_char k) :: nat) = (if k < 10 then 48 + k else 87 + k)"
  by (auto simp: hex_char_def)

lemma hex_char_inj:
  assumes "m < 16" "n < 16" "hex_char m = hex_char n"
  shows "m = n"
proof -
  have "(if m < 10 then 48 + m else 87 + m) = (if n < 10 then 48 + n else 87 + n)"
    using assms of_hex_char [of m] of_hex_char [of n] by simp
  with assms(1,2) show ?thesis by (auto split: if_splits)
qed

lemma hex_byte_inj: "hex_byte c = hex_byte d \<Longrightarrow> c = d"
proof -
  assume "hex_byte c = hex_byte d"
  then have "(of_char c :: nat) div 16 = of_char d div 16"
    and "(of_char c :: nat) mod 16 = of_char d mod 16"
    by (auto simp: hex_byte_def Let_def intro: hex_char_inj of_char_nibbles)
  then have "(of_char c :: nat) = of_char d" by (metis div_mult_mod_eq)
  then show "c = d" by simp
qed

lemma to_hex_inj: "to_hex s = to_hex t \<Longrightarrow> s = t"
proof (induction s arbitrary: t)
  case Nil
  then show ?case using length_to_hex [of t] by (cases t) (auto simp: to_hex_def hex_byte_def Let_def)
next
  case (Cons c s)
  then obtain d u where t: "t = d # u"
    by (cases t) (auto simp: to_hex_def hex_byte_def Let_def)
  have "hex_byte c @ to_hex s = hex_byte d @ to_hex u"
    using Cons.prems t by (simp add: to_hex_def)
  then have "hex_byte c = hex_byte d" "to_hex s = to_hex u"
    by (auto simp: hex_byte_def Let_def)
  with Cons.IH t hex_byte_inj show ?case by blast
qed

text \<open>Equal hexadecimal digests are equal messages or an explicit collision.\<close>

lemma sha256_hex_eqD: "sha256_hex x = sha256_hex y \<Longrightarrow> x = y \<or> sha256_collision x y"
  by (auto simp: sha256_hex_def sha256_collision_def dest: to_hex_inj)

end
