(* ===== verification/PyJson.thy ===== *)
theory PyJson
  imports PyFloat Sha256 "HOL-Library.Monad_Syntax"
begin

section \<open>JSON values, their Python equality and text, and the \<open>json\<close> module\<close>

text \<open>
  Evidence payloads, terminal states and outcome expectations are JSON values. A Python
  \<open>dict\<close> with text keys is an association list in insertion order; \<open>d.get(k)\<close> is
  \<open>map_of d k\<close>.
\<close>

datatype json =
    JNull
  | JBool bool
  | JInt int
  | JFloat pyfloat
  | JStr string
  | JArr "json list"
  | JObj "(string \<times> json) list"

type_synonym dict = "(string \<times> json) list"

abbreviation dict_get :: "dict \<Rightarrow> string \<Rightarrow> json option" where
  "dict_get d k \<equiv> map_of d k"

abbreviation dict_has :: "dict \<Rightarrow> string \<Rightarrow> bool" where
  "dict_has d k \<equiv> map_of d k \<noteq> None"

text \<open>\<open>isinstance(x, str)\<close> of a value that may be missing (\<open>None\<close>).\<close>

fun as_str :: "json option \<Rightarrow> string option" where
  "as_str (Some (JStr s)) = Some s"
| "as_str _ = None"

lemma as_str_Some [simp]: "as_str x = Some s \<longleftrightarrow> x = Some (JStr s)"
  by (cases x rule: as_str.cases) auto

text \<open>Every object of the value has distinct keys, as a Python dict has.\<close>

fun distinct_keys :: "json \<Rightarrow> bool" where
  "distinct_keys (JArr xs) = list_all distinct_keys xs"
| "distinct_keys (JObj kvs) =
     (distinct (map fst kvs) \<and> list_all (\<lambda>kv. distinct_keys (snd kv)) kvs)"
| "distinct_keys _ = True"

fun finite_json :: "json \<Rightarrow> bool" where
  "finite_json (JFloat x) = isfinite x"
| "finite_json (JArr xs) = list_all finite_json xs"
| "finite_json (JObj kvs) = list_all (\<lambda>kv. finite_json (snd kv)) kvs"
| "finite_json _ = True"

fun no_floats :: "json \<Rightarrow> bool" where
  "no_floats (JFloat x) = False"
| "no_floats (JArr xs) = list_all no_floats xs"
| "no_floats (JObj kvs) = list_all (\<lambda>kv. no_floats (snd kv)) kvs"
| "no_floats _ = True"

subsection \<open>Python's \<open>==\<close>: numbers compare across types, dicts ignore order\<close>

fun py_eq :: "json \<Rightarrow> json \<Rightarrow> bool" where
  "py_eq JNull JNull = True"
| "py_eq (JBool a) (JBool b) = (a = b)"
| "py_eq (JBool a) (JInt j) = (of_bool a = j)"
| "py_eq (JInt i) (JBool b) = (i = of_bool b)"
| "py_eq (JBool a) (JFloat y) = fl_eq_int y (of_bool a)"
| "py_eq (JFloat x) (JBool b) = fl_eq_int x (of_bool b)"
| "py_eq (JInt i) (JInt j) = (i = j)"
| "py_eq (JInt i) (JFloat y) = fl_eq_int y i"
| "py_eq (JFloat x) (JInt j) = fl_eq_int x j"
| "py_eq (JFloat x) (JFloat y) = fl_eq x y"
| "py_eq (JStr s) (JStr t) = (s = t)"
| "py_eq (JArr xs) (JArr ys) = list_all2 py_eq xs ys"
| "py_eq (JObj xs) (JObj ys) =
     (length xs = length ys \<and>
      list_all (\<lambda>kv. case map_of ys (fst kv) of None \<Rightarrow> False | Some w \<Rightarrow> py_eq (snd kv) w) xs)"
| "py_eq _ _ = False"

lemma py_eq_str [simp]: "py_eq (JStr s) v \<longleftrightarrow> v = JStr s" "py_eq v (JStr s) \<longleftrightarrow> v = JStr s"
  by (cases v; auto)+

lemma fl_eq_refl: "isfinite x \<Longrightarrow> fl_eq x x"
  by (cases x) (auto simp: align_def Let_def)

lemma json_induct [case_names Null Bool Int Float Str Arr Obj]:
  assumes "P JNull" "\<And>b. P (JBool b)" "\<And>i. P (JInt i)" "\<And>x. P (JFloat x)" "\<And>s. P (JStr s)"
    and "\<And>xs. (\<And>x. x \<in> set xs \<Longrightarrow> P x) \<Longrightarrow> P (JArr xs)"
    and "\<And>kvs. (\<And>k v. (k, v) \<in> set kvs \<Longrightarrow> P v) \<Longrightarrow> P (JObj kvs)"
  shows "P v"
proof (induction v)
  case (JObj kvs)
  have "P w" if "(k, w) \<in> set kvs" for k w
    using JObj.IH [OF that] by simp
  then show ?case by (rule assms(7))
qed (auto intro: assms)

lemma py_eq_refl: "finite_json v \<Longrightarrow> distinct_keys v \<Longrightarrow> py_eq v v"
proof (induction v rule: json_induct)
  case (Float x)
  then show ?case by (simp add: fl_eq_refl)
next
  case (Arr xs)
  then show ?case by (auto simp: list_all_iff list.rel_refl_strong)
next
  case (Obj kvs)
  then show ?case by (fastforce simp: list_all_iff)
qed auto

text \<open>\<open>a == b\<close> where either side may be \<open>None\<close> for a missing key.\<close>

definition opt_json :: "json option \<Rightarrow> json" where
  "opt_json x = (case x of None \<Rightarrow> JNull | Some v \<Rightarrow> v)"

subsection \<open>\<open>repr\<close>\<close>

definition quote_char :: char where "quote_char = CHR 0x22"
definition backslash :: char where "backslash = CHR 0x5C"

definition nonprintable :: "char \<Rightarrow> bool" where
  "nonprintable c \<longleftrightarrow> (let n = (of_char c :: nat) in n < 32 \<or> (127 \<le> n \<and> n \<le> 160) \<or> n = 173)"

definition repr_char :: "char \<Rightarrow> char \<Rightarrow> string" where
  "repr_char q c =
     (if c = q \<or> c = backslash then [backslash, c]
      else if c = CHR 0x0A then [backslash, CHR ''n'']
      else if c = CHR 0x0D then [backslash, CHR ''r'']
      else if c = CHR 0x09 then [backslash, CHR ''t'']
      else if nonprintable c then [backslash, CHR ''x''] @ hex_byte c
      else [c])"

definition str_repr :: "string \<Rightarrow> string" where
  "str_repr s = (let q = (if CHR 0x27 \<in> set s \<and> quote_char \<notin> set s then quote_char else CHR 0x27)
     in [q] @ concat (map (repr_char q) s) @ [q])"

fun py_repr :: "json \<Rightarrow> string" where
  "py_repr JNull = ''None''"
| "py_repr (JBool b) = (if b then ''True'' else ''False'')"
| "py_repr (JInt i) = int_str i"
| "py_repr (JFloat x) = float_repr x"
| "py_repr (JStr s) = str_repr s"
| "py_repr (JArr xs) = ''['' @ str_join '', '' (map py_repr xs) @ '']''"
| "py_repr (JObj kvs) =
     ''{'' @ str_join '', '' (map (\<lambda>kv. str_repr (fst kv) @ '': '' @ py_repr (snd kv)) kvs) @ ''}''"

text \<open>\<open>repr\<close> of a list of texts, and of a text that may be \<open>None\<close>.\<close>

definition strs_repr :: "string list \<Rightarrow> string" where
  "strs_repr xs = py_repr (JArr (map JStr xs))"

definition opt_str_repr :: "string option \<Rightarrow> string" where
  "opt_str_repr x = (case x of None \<Rightarrow> ''None'' | Some s \<Rightarrow> str_repr s)"

subsection \<open>\<open>json.dumps(value, sort_keys=True, separators=(",", ":"))\<close>\<close>

definition u_escape :: "char \<Rightarrow> string" where
  "u_escape c = [backslash, CHR ''u'', CHR ''0'', CHR ''0''] @ hex_byte c"

definition esc_char :: "bool \<Rightarrow> char \<Rightarrow> string" where
  "esc_char ensure_ascii c =
     (if c = quote_char \<or> c = backslash then [backslash, c]
      else if c = CHR 0x0A then [backslash, CHR ''n'']
      else if c = CHR 0x0D then [backslash, CHR ''r'']
      else if c = CHR 0x09 then [backslash, CHR ''t'']
      else if c = CHR 0x0C then [backslash, CHR ''f'']
      else if c = CHR 0x08 then [backslash, CHR ''b'']
      else if (of_char c :: nat) < 32 then u_escape c
      else if ensure_ascii \<and> (of_char c :: nat) \<ge> 127 then u_escape c
      else [c])"

definition json_str :: "bool \<Rightarrow> string \<Rightarrow> string" where
  "json_str ea s = [quote_char] @ concat (map (esc_char ea) s) @ [quote_char]"

definition json_float :: "pyfloat \<Rightarrow> string" where
  "json_float x = (case x of FFin _ _ _ \<Rightarrow> float_repr x
     | FInf s \<Rightarrow> (if s then ''-Infinity'' else ''Infinity'') | FNaN \<Rightarrow> ''NaN'')"

fun dumps_raw :: "bool \<Rightarrow> json \<Rightarrow> string" where
  "dumps_raw ea JNull = ''null''"
| "dumps_raw ea (JBool b) = (if b then ''true'' else ''false'')"
| "dumps_raw ea (JInt i) = int_str i"
| "dumps_raw ea (JFloat x) = json_float x"
| "dumps_raw ea (JStr s) = json_str ea s"
| "dumps_raw ea (JArr xs) = ''['' @ str_join '','' (map (dumps_raw ea) xs) @ '']''"
| "dumps_raw ea (JObj kvs) =
     ''{'' @ str_join '','' (map (\<lambda>kv. json_str ea (fst kv) @ '':'' @ dumps_raw ea (snd kv)) kvs) @ ''}''"

fun sort_keys :: "json \<Rightarrow> json" where
  "sort_keys (JArr xs) = JArr (map sort_keys xs)"
| "sort_keys (JObj kvs) = JObj (sort_key fst (map (\<lambda>kv. (fst kv, sort_keys (snd kv))) kvs))"
| "sort_keys v = v"

text \<open>
  Texts with \<open>ensure_ascii\<close> are ASCII, so their UTF-8 bytes are their characters; the
  canonical texts with \<open>ensure_ascii=False\<close> are encoded by \<open>utf8\<close> where they are
  hashed. \<open>allow_nan=False\<close> raises \<open>ValueError\<close> on a non-finite float.
\<close>

definition json_dumps :: "json \<Rightarrow> string" where
  "json_dumps v = dumps_raw True (sort_keys v)"

definition json_dumps_unicode :: "json \<Rightarrow> string" where
  "json_dumps_unicode v = dumps_raw False (sort_keys v)"

definition checked_dumps :: "json \<Rightarrow> error + string" where
  "checked_dumps v = (if finite_json v then Inr (json_dumps v)
     else Inl (Err ValueError ''Out of range float values are not JSON compliant''))"

definition sha256_json :: "json \<Rightarrow> string" where
  "sha256_json v = sha256_hex (json_dumps v)"

lemma is_sha256_json [simp]: "is_sha256 (sha256_json v)"
  by (simp add: sha256_json_def)

subsection \<open>\<open>json.loads\<close>\<close>

text \<open>
  The scanner of the standard library: it reads one value, its objects as lists of pairs
  in source order (what \<open>object_pairs_hook\<close> is given). \<open>None\<close> is a
  \<open>JSONDecodeError\<close>. Integers of more than 4300 digits raise \<open>ValueError\<close>, as
  \<open>int\<close> does by default. An escape above code point 255 lies outside the texts modelled
  here and is refused.
\<close>

definition json_space :: "char \<Rightarrow> bool" where
  "json_space c \<longleftrightarrow> c = CHR 0x20 \<or> c = CHR 0x09 \<or> c = CHR 0x0A \<or> c = CHR 0x0D"

definition skip_ws :: "string \<Rightarrow> string" where
  "skip_ws s = dropWhile json_space s"

definition hex_value :: "char \<Rightarrow> nat option" where
  "hex_value c = (let n = (of_char c :: nat) in
     if 48 \<le> n \<and> n \<le> 57 then Some (n - 48)
     else if 97 \<le> n \<and> n \<le> 102 then Some (n - 87)
     else if 65 \<le> n \<and> n \<le> 70 then Some (n - 55) else None)"

fun p_hex4 :: "string \<Rightarrow> (char \<times> string) option" where
  "p_hex4 (a # b # c # d # s) =
     do { x \<leftarrow> hex_value a; y \<leftarrow> hex_value b; z \<leftarrow> hex_value c; w \<leftarrow> hex_value d;
          if x = 0 \<and> y = 0 then Some (char_of (16 * z + w), s) else None }"
| "p_hex4 _ = None"

fun p_escape :: "string \<Rightarrow> (char \<times> string) option" where
  "p_escape [] = None"
| "p_escape (c # s) =
     (if c = quote_char \<or> c = backslash \<or> c = CHR ''/'' then Some (c, s)
      else if c = CHR ''n'' then Some (CHR 0x0A, s)
      else if c = CHR ''r'' then Some (CHR 0x0D, s)
      else if c = CHR ''t'' then Some (CHR 0x09, s)
      else if c = CHR ''f'' then Some (CHR 0x0C, s)
      else if c = CHR ''b'' then Some (CHR 0x08, s)
      else if c = CHR ''u'' then p_hex4 s
      else None)"

lemma p_hex4_shorter: "p_hex4 s = Some (c, r) \<Longrightarrow> length r < length s"
  by (cases s rule: p_hex4.cases) (auto split: bind_splits if_splits)

lemma p_escape_shorter: "p_escape s = Some (c, r) \<Longrightarrow> length r < length s"
  by (cases s) (auto split: if_splits dest: p_hex4_shorter)

function p_str :: "string \<Rightarrow> (string \<times> string) option" where
  "p_str [] = None"
| "p_str (c # s) =
     (if c = quote_char then Some ([], s)
      else if c = backslash then
        (case p_escape s of None \<Rightarrow> None
         | Some (d, r) \<Rightarrow> map_option (\<lambda>(t, r'). (d # t, r')) (p_str r))
      else if (of_char c :: nat) < 32 then None
      else map_option (\<lambda>(t, r'). (c # t, r')) (p_str s))"
  by pat_completeness auto
termination
  by (relation "measure length") (auto dest: p_escape_shorter)

text \<open>\<open>(-?(?:0|[1-9]\d*))(\.\d+)?([eE][-+]?\d+)?\<close>\<close>

definition p_int :: "string \<Rightarrow> (string \<times> string) option" where
  "p_int s = (case s of [] \<Rightarrow> None | c # r \<Rightarrow>
     if c = CHR ''0'' then Some ([c], r)
     else if is_digit_char c then Some (takeWhile is_digit_char s, dropWhile is_digit_char s)
     else None)"

definition p_frac :: "string \<Rightarrow> (string \<times> string) option" where
  "p_frac s = (case s of c # d # r \<Rightarrow>
     if c = CHR ''.'' \<and> is_digit_char d
     then Some (takeWhile is_digit_char (d # r), dropWhile is_digit_char (d # r)) else None
   | _ \<Rightarrow> None)"

definition p_exp_digits :: "bool \<Rightarrow> string \<Rightarrow> (int \<times> string) option" where
  "p_exp_digits neg s = (let ds = takeWhile is_digit_char s in
     if ds = [] then None
     else Some ((if neg then - int (digits_val ds) else int (digits_val ds)),
                dropWhile is_digit_char s))"

definition p_exp :: "string \<Rightarrow> (int \<times> string) option" where
  "p_exp s = (case s of [] \<Rightarrow> None | c # r \<Rightarrow>
     if c = CHR ''e'' \<or> c = CHR ''E'' then
       (case r of [] \<Rightarrow> None | d # r' \<Rightarrow>
          if d = CHR ''-'' then p_exp_digits True r'
          else if d = CHR ''+'' then p_exp_digits False r'
          else p_exp_digits False r)
     else None)"

definition p_number :: "string \<Rightarrow> (json \<times> string) option" where
  "p_number s =
     (let neg = (case s of [] \<Rightarrow> False | c # _ \<Rightarrow> c = CHR ''-'');
          s1 = (if neg then tl s else s)
      in do { (ds, r) \<leftarrow> p_int s1;
              (let fr = p_frac r; r2 = (case fr of None \<Rightarrow> r | Some (_, r') \<Rightarrow> r');
                   ex = p_exp r2; r3 = (case ex of None \<Rightarrow> r2 | Some (_, r') \<Rightarrow> r')
               in if fr = None \<and> ex = None then
                    (if length ds > 4300 then None
                     else Some (JInt (if neg then - int (digits_val ds) else int (digits_val ds)), r))
                  else
                    (let fds = (case fr of None \<Rightarrow> [] | Some (x, _) \<Rightarrow> x);
                         e = (case ex of None \<Rightarrow> 0 | Some (x, _) \<Rightarrow> x)
                     in Some (JFloat (ratio10 neg (digits_val (ds @ fds)) (e - int (length fds))), r3))) })"

definition p_literal :: "string \<Rightarrow> (json \<times> string) option" where
  "p_literal s =
     (if prefix ''null'' s then Some (JNull, drop 4 s)
      else if prefix ''true'' s then Some (JBool True, drop 4 s)
      else if prefix ''false'' s then Some (JBool False, drop 5 s)
      else if prefix ''NaN'' s then Some (JFloat FNaN, drop 3 s)
      else if prefix ''Infinity'' s then Some (JFloat (FInf False), drop 8 s)
      else if prefix ''-Infinity'' s then Some (JFloat (FInf True), drop 9 s)
      else p_number s)"

definition expect :: "char \<Rightarrow> string \<Rightarrow> string option" where
  "expect c s = (case s of [] \<Rightarrow> None | d # r \<Rightarrow> if c = d then Some r else None)"

definition starts :: "char \<Rightarrow> string \<Rightarrow> bool" where
  "starts c s \<longleftrightarrow> (case s of [] \<Rightarrow> False | d # _ \<Rightarrow> c = d)"

fun p_value :: "nat \<Rightarrow> string \<Rightarrow> (json \<times> string) option"
and p_elems :: "nat \<Rightarrow> string \<Rightarrow> (json list \<times> string) option"
and p_members :: "nat \<Rightarrow> string \<Rightarrow> (dict \<times> string) option" where
  "p_value 0 s = None"
| "p_value (Suc n) s =
     (if starts quote_char s then do { (t, r) \<leftarrow> p_str (tl s); Some (JStr t, r) }
      else if starts (CHR ''{'') s then
        (let r = skip_ws (tl s) in
         if starts (CHR ''}'') r then Some (JObj [], tl r)
         else do { (kvs, r') \<leftarrow> p_members n r; Some (JObj kvs, r') })
      else if starts (CHR ''['') s then
        (let r = skip_ws (tl s) in
         if starts (CHR '']'') r then Some (JArr [], tl r)
         else do { (xs, r') \<leftarrow> p_elems n r; Some (JArr xs, r') })
      else p_literal s)"
| "p_elems 0 s = None"
| "p_elems (Suc n) s =
     do { (x, r) \<leftarrow> p_value n s;
          (let r1 = skip_ws r in
           if starts (CHR '']'') r1 then Some ([x], tl r1)
           else do { r2 \<leftarrow> expect (CHR '','') r1;
                     (xs, r3) \<leftarrow> p_elems n (skip_ws r2);
                     Some (x # xs, r3) }) }"
| "p_members 0 s = None"
| "p_members (Suc n) s =
     do { s1 \<leftarrow> expect quote_char s;
          (k, r) \<leftarrow> p_str s1;
          r1 \<leftarrow> expect (CHR '':'') (skip_ws r);
          (v, r2) \<leftarrow> p_value n (skip_ws r1);
          (let r3 = skip_ws r2 in
           if starts (CHR ''}'') r3 then Some ([(k, v)], tl r3)
           else do { r4 \<leftarrow> expect (CHR '','') r3;
                     (kvs, r5) \<leftarrow> p_members n (skip_ws r4);
                     Some ((k, v) # kvs, r5) }) }"

definition json_scan :: "string \<Rightarrow> json option" where
  "json_scan s = do { (v, r) \<leftarrow> p_value (2 * length s + 2) (skip_ws s);
                      if skip_ws r = [] then Some v else None }"

text \<open>
  \<open>json.loads(s, object_pairs_hook=reject_duplicate_keys)\<close>: the hook raises
  \<open>ValueError\<close> on a repeated key of any object.
\<close>

definition loads_unique :: "string \<Rightarrow> json option" where
  "loads_unique s = do { v \<leftarrow> json_scan s; if distinct_keys v then Some v else None }"

end
