(* ===== verification/JsonRoundtrip.thy ===== *)
theory JsonRoundtrip
  imports PyJson
begin

section \<open>Reading canonical JSON text back\<close>

text \<open>
  The scanner reads every canonical text of a float-free value back to that value, with the
  fuel \<open>json_scan\<close> gives it. Canonical text is therefore injective: two values with the
  same canonical text are equal up to the order of object members, and two values with the
  same digest are equal or exhibit a SHA-256 collision. The float-free fragment is what the
  handoff path, the approval receipt and the delivery receipts hash.
\<close>

text \<open>No floats, and integers within the limit of 4300 digits that \<open>int\<close> enforces.\<close>

fun plain_json :: "json \<Rightarrow> bool" where
  "plain_json (JFloat x) = False"
| "plain_json (JInt i) = (length (nat_str (nat \<bar>i\<bar>)) \<le> 4300)"
| "plain_json (JArr xs) = list_all plain_json xs"
| "plain_json (JObj kvs) = list_all (\<lambda>kv. plain_json (snd kv)) kvs"
| "plain_json _ = True"

definition sep_start :: "string \<Rightarrow> bool" where
  "sep_start s \<longleftrightarrow> (case s of [] \<Rightarrow> True | c # _ \<Rightarrow> c = CHR '','' \<or> c = CHR '']'' \<or> c = CHR ''}'')"

subsection \<open>Strings\<close>

lemma hex_value_hex_char: "n < 16 \<Longrightarrow> hex_value (hex_char n) = Some n"
  by (auto simp: hex_value_def of_hex_char Let_def)

lemma char_of_48: "char_of (48 :: nat) = CHR ''0''"
proof -
  have "(of_char (CHR ''0'') :: nat) = 48" by simp
  then show ?thesis by (metis char_of_char)
qed

lemma hex_char_0: "hex_char 0 = CHR ''0''"
  by (simp add: hex_char_def char_of_48)

lemma hex_value_0: "hex_value (CHR ''0'') = Some 0"
  using hex_value_hex_char [of 0] by (simp add: hex_char_0)

lemma p_hex4_u_escape: "p_hex4 (CHR ''0'' # CHR ''0'' # hex_byte c @ s) = Some (c, s)"
  by (simp add: hex_byte_def Let_def hex_value_hex_char of_char_nibbles hex_value_0)

lemma p_str_esc:
  "p_str (esc_char ea c @ s) = map_option (\<lambda>(t, r). (c # t, r)) (p_str s)"
proof -
  have u: "p_escape (CHR ''u'' # CHR ''0'' # CHR ''0'' # hex_byte c @ s) = Some (c, s)"
    by (simp add: p_hex4_u_escape quote_char_def backslash_def)
  have p: "p_str (u_escape c @ s) = map_option (\<lambda>(t, r). (c # t, r)) (p_str s)"
    using u by (simp add: u_escape_def backslash_def quote_char_def)
  show ?thesis
    unfolding esc_char_def using p
    by (simp add: quote_char_def backslash_def)
qed

lemma p_str_text:
  "p_str (concat (map (esc_char ea) t) @ quote_char # s) = Some (t, s)"
proof (induction t)
  case Nil
  show ?case by simp
next
  case (Cons c t)
  then show ?case by (simp add: p_str_esc)
qed

subsection \<open>Integers\<close>

lemma digit_bounds: "is_digit_char c \<longleftrightarrow> 48 \<le> (of_char c :: nat) \<and> (of_char c :: nat) \<le> 57"
  by (simp add: is_digit_char_def Let_def)

lemma not_digit [simp]:
  "\<not> is_digit_char (CHR '','')" "\<not> is_digit_char (CHR '']'')" "\<not> is_digit_char (CHR ''}'')"
  "\<not> is_digit_char (CHR ''-'')" "is_digit_char (CHR ''0'')"
  by (simp_all add: digit_bounds)

lemma p_int_nat_str:
  assumes "sep_start s"
  shows "p_int (nat_str n @ s) = Some (nat_str n, s)"
proof (cases "n = 0")
  case True
  then have "nat_str n = [CHR ''0'']"
    by (subst nat_str.simps) (simp add: digit_char_def char_of_48)
  then show ?thesis by (simp add: p_int_def)
next
  case False
  obtain c cs where nc: "nat_str n = c # cs" by (cases "nat_str n") auto
  from nat_str_hd [OF False] nc have "c \<noteq> CHR ''0''" by simp
  moreover from nat_str_digits [of n] nc have "is_digit_char c" by simp
  moreover have "takeWhile is_digit_char (nat_str n @ s) = nat_str n"
    and "dropWhile is_digit_char (nat_str n @ s) = s"
    using nat_str_digits [of n] assms
    by (auto simp: takeWhile_append2 dropWhile_append2 sep_start_def split: list.splits)
  ultimately show ?thesis using nc by (simp add: p_int_def)
qed

lemma no_frac_exp: "sep_start s \<Longrightarrow> p_frac s = None" "sep_start s \<Longrightarrow> p_exp s = None"
  by (auto simp: sep_start_def p_frac_def p_exp_def split: list.splits)

lemma p_number_int_str:
  assumes "sep_start s" "length (nat_str (nat \<bar>i\<bar>)) \<le> 4300"
  shows "p_number (int_str i @ s) = Some (JInt i, s)"
proof (cases "i < 0")
  case True
  with assms show ?thesis
    by (simp add: p_number_def int_str_def p_int_nat_str no_frac_exp Let_def)
next
  case False
  obtain c cs where nc: "nat_str (nat i) = c # cs" by (cases "nat_str (nat i)") auto
  from nat_str_digits [of "nat i"] nc have "is_digit_char c" by simp
  then have "c \<noteq> CHR ''-''" by auto
  with False assms nc show ?thesis
    using p_int_nat_str [OF assms(1), of "nat i"]
    by (simp add: p_number_def int_str_def no_frac_exp Let_def)
      (metis digits_val_nat_str int_nat_eq linorder_not_less)
qed

text \<open>The first character of a plain value's text decides which reader it reaches.\<close>

definition value_start :: "char \<Rightarrow> bool" where
  "value_start c \<longleftrightarrow> c = CHR ''n'' \<or> c = CHR ''t'' \<or> c = CHR ''f'' \<or> c = CHR ''-'' \<or>
     is_digit_char c \<or> c = quote_char \<or> c = CHR ''['' \<or> c = CHR ''{''"

lemma int_str_hd: "\<exists>c s. int_str i = c # s \<and> (c = CHR ''-'' \<or> is_digit_char c)"
  using nat_str_digits [of "nat i"] by (cases "nat_str (nat i)") (auto simp: int_str_def)

lemma dumps_hd: "plain_json v \<Longrightarrow> \<exists>c s. dumps_raw ea v = c # s \<and> value_start c"
proof (cases v)
  case (JInt i)
  then show ?thesis using int_str_hd [of i] by (auto simp: value_start_def)
qed (auto simp: value_start_def json_str_def)

lemma value_start_no_space: "value_start c \<Longrightarrow> \<not> json_space c \<and> c \<noteq> CHR '']'' \<and> c \<noteq> CHR ''}''"
  by (auto simp: value_start_def json_space_def quote_char_def digit_bounds)

lemma skip_ws_dumps: "plain_json v \<Longrightarrow> skip_ws (dumps_raw ea v @ s) = dumps_raw ea v @ s"
  using dumps_hd [of v ea] value_start_no_space by (auto simp: skip_ws_def)

lemma skip_ws_sep [simp]:
  "skip_ws (CHR '','' # s) = CHR '','' # s" "skip_ws (CHR '']'' # s) = CHR '']'' # s"
  "skip_ws (CHR ''}'' # s) = CHR ''}'' # s" "skip_ws (CHR '':'' # s) = CHR '':'' # s"
  "skip_ws (quote_char # s) = quote_char # s"
  by (simp_all add: skip_ws_def json_space_def quote_char_def)

lemma starts_simps [simp]: "starts c (d # s) \<longleftrightarrow> c = d" "\<not> starts c []"
  by (simp_all add: starts_def)

lemma expect_simps [simp]: "expect c (d # s) = (if c = d then Some s else None)"
  by (simp add: expect_def)

lemma p_literal_int:
  assumes "sep_start s" "length (nat_str (nat \<bar>i\<bar>)) \<le> 4300"
  shows "p_literal (int_str i @ s) = Some (JInt i, s)"
proof -
  obtain c t where c: "int_str i = c # t" "c = CHR ''-'' \<or> is_digit_char c"
    using int_str_hd by blast
  have "\<not> prefix ''-Infinity'' (int_str i @ s)"
  proof
    assume p: "prefix ''-Infinity'' (int_str i @ s)"
    then have "i < 0" using c nat_str_digits [of "nat i"]
      by (cases "i < 0") (auto simp: int_str_def)
    moreover obtain d u where "nat_str (nat (- i)) = d # u" by (cases "nat_str (nat (- i))") auto
    moreover have "is_digit_char d" using calculation nat_str_digits [of "nat (- i)"] by simp
    ultimately show False using p by (auto simp: int_str_def digit_bounds)
  qed
  moreover have "c \<noteq> CHR ''n''" "c \<noteq> CHR ''t''" "c \<noteq> CHR ''f''" "c \<noteq> CHR ''N''" "c \<noteq> CHR ''I''"
    using c(2) by (auto simp: digit_bounds)
  ultimately show ?thesis
    using p_number_int_str [OF assms] c(1) by (simp add: p_literal_def)
qed


subsection \<open>Values\<close>

lemma starts_int:
  "\<not> starts quote_char (int_str i @ s)" "\<not> starts (CHR ''{'') (int_str i @ s)"
  "\<not> starts (CHR ''['') (int_str i @ s)"
  using int_str_hd [of i] by (auto simp: quote_char_def digit_bounds)

lemma p_elems_dumps:
  assumes "\<And>x n rest. x \<in> set xs \<Longrightarrow> sep_start rest \<Longrightarrow> 2 * length (dumps_raw ea x) \<le> n \<Longrightarrow>
      p_value n (dumps_raw ea x @ rest) = Some (x, rest)"
    and "xs \<noteq> []" and "list_all plain_json xs"
    and "2 * length (str_join '','' (map (dumps_raw ea) xs)) + 1 \<le> n"
  shows "p_elems n (str_join '','' (map (dumps_raw ea) xs) @ '']'' @ rest) = Some (xs, rest)"
  using assms
proof (induction xs arbitrary: n)
  case (Cons x xs)
  then obtain m where n: "n = Suc m" by (cases n) auto
  show ?case
  proof (cases xs)
    case Nil
    have "p_value m (dumps_raw ea x @ '']'' @ rest) = Some (x, '']'' @ rest)"
      using Cons.prems n Nil by (intro Cons.prems(1)) (auto simp: sep_start_def)
    with n Nil show ?thesis by simp
  next
    case (Cons y ys)
    let ?j = "str_join '','' (map (dumps_raw ea) xs)"
    have j: "str_join '','' (map (dumps_raw ea) (x # xs)) = dumps_raw ea x @ '','' @ ?j"
      using Cons by simp
    have v: "p_value m (dumps_raw ea x @ '','' @ ?j @ '']'' @ rest)
        = Some (x, '','' @ ?j @ '']'' @ rest)"
      using Cons.prems n j by (intro Cons.prems(1)) (auto simp: sep_start_def)
    have e: "p_elems m (?j @ '']'' @ rest) = Some (xs, rest)"
      using Cons.prems n j Cons by (intro Cons.IH) auto
    have s: "skip_ws (?j @ '']'' @ rest) = ?j @ '']'' @ rest"
    proof -
      have "\<exists>u. ?j = dumps_raw ea y @ u" using Cons by (cases ys) auto
      then show ?thesis using Cons.prems(3) Cons skip_ws_dumps [of y ea] by auto
    qed
    show ?thesis using v e s n j by simp
  qed
qed simp

abbreviation member_text :: "bool \<Rightarrow> string \<times> json \<Rightarrow> string" where
  "member_text ea kv \<equiv> json_str ea (fst kv) @ '':'' @ dumps_raw ea (snd kv)"

lemma p_members_dumps:
  assumes "\<And>k v n rest. (k, v) \<in> set kvs \<Longrightarrow> sep_start rest \<Longrightarrow> 2 * length (dumps_raw ea v) \<le> n \<Longrightarrow>
      p_value n (dumps_raw ea v @ rest) = Some (v, rest)"
    and "kvs \<noteq> []" and "list_all (\<lambda>kv. plain_json (snd kv)) kvs"
    and "2 * length (str_join '','' (map (member_text ea) kvs)) + 1 \<le> n"
  shows "p_members n (str_join '','' (map (member_text ea) kvs) @ ''}'' @ rest) = Some (kvs, rest)"
  using assms
proof (induction kvs arbitrary: n)
  case (Cons kv kvs)
  obtain k v where kv: "kv = (k, v)" by (cases kv)
  from Cons.prems obtain m where n: "n = Suc m" by (cases n) auto
  have key: "expect quote_char (json_str ea k @ u) = Some (concat (map (esc_char ea) k) @ quote_char # u)"
    for u by (simp add: json_str_def)
  have pl: "plain_json v" using Cons.prems kv by simp
  show ?case
  proof (cases kvs)
    case Nil
    have "p_value m (dumps_raw ea v @ ''}'' @ rest) = Some (v, ''}'' @ rest)"
      using Cons.prems n Nil kv by (intro Cons.prems(1)) (auto simp: sep_start_def)
    with n Nil kv show ?thesis
      using skip_ws_dumps [OF pl] by (simp add: key p_str_text)
  next
    case (Cons kv' kvs')
    let ?j = "str_join '','' (map (member_text ea) kvs)"
    have j: "str_join '','' (map (member_text ea) (kv # kvs)) = member_text ea kv @ '','' @ ?j"
      using Cons by simp
    have v: "p_value m (dumps_raw ea v @ '','' @ ?j @ ''}'' @ rest) = Some (v, '','' @ ?j @ ''}'' @ rest)"
      using Cons.prems n j kv by (intro Cons.prems(1)) (auto simp: sep_start_def)
    have e: "p_members m (?j @ ''}'' @ rest) = Some (kvs, rest)"
      using Cons.prems n j Cons by (intro Cons.IH) auto
    have s: "skip_ws (?j @ ''}'' @ rest) = ?j @ ''}'' @ rest"
    proof -
      have "\<exists>u. ?j = quote_char # u" using Cons by (cases kvs') (auto simp: json_str_def)
      then show ?thesis by auto
    qed
    show ?thesis
      using v e s n j kv skip_ws_dumps [OF pl] by (simp add: key p_str_text)
  qed
qed simp

theorem p_value_dumps:
  "plain_json v \<Longrightarrow> sep_start rest \<Longrightarrow> 2 * length (dumps_raw ea v) \<le> n \<Longrightarrow>
   p_value n (dumps_raw ea v @ rest) = Some (v, rest)"
proof (induction v arbitrary: n rest rule: json_induct)
  case (Int i)
  obtain c s where "int_str i = c # s" using int_str_hd by blast
  with Int obtain m where n: "n = Suc m" by (cases n) auto
  from Int p_literal_int show ?case unfolding n by (simp add: starts_int)
next
  case (Str s)
  then obtain m where n: "n = Suc m" by (cases n) (auto simp: json_str_def)
  show ?case unfolding n by (simp add: json_str_def p_str_text)
next
  case (Arr xs)
  then obtain m where n: "n = Suc m" by (cases n) auto
  show ?case
  proof (cases "xs = []")
    case True
    then show ?thesis unfolding n by (simp add: quote_char_def)
  next
    case False
    let ?j = "str_join '','' (map (dumps_raw ea) xs)"
    have e: "p_elems m (?j @ '']'' @ rest) = Some (xs, rest)"
      using Arr n False by (intro p_elems_dumps) (auto simp: list_all_iff)
    obtain x ys where x: "xs = x # ys" using False by (cases xs) auto
    then have pl: "plain_json x" using Arr.prems by simp
    have "\<exists>u. ?j = dumps_raw ea x @ u" using x by (cases ys) auto
    then obtain c u where c: "?j = c # u" "value_start c" using dumps_hd [OF pl, of ea] by auto
    then have "skip_ws (?j @ '']'' @ rest) = ?j @ '']'' @ rest" "\<not> starts (CHR '']'') (?j @ '']'' @ rest)"
      using value_start_no_space [of c] by (auto simp: skip_ws_def)
    with e show ?thesis unfolding n by (simp add: quote_char_def)
  qed
next
  case (Obj kvs)
  then obtain m where n: "n = Suc m" by (cases n) auto
  show ?case
  proof (cases "kvs = []")
    case True
    then show ?thesis unfolding n by (simp add: quote_char_def)
  next
    case False
    let ?j = "str_join '','' (map (member_text ea) kvs)"
    have e: "p_members m (?j @ ''}'' @ rest) = Some (kvs, rest)"
      using Obj n False by (intro p_members_dumps) (auto simp: list_all_iff)
    obtain kv ys where x: "kvs = kv # ys" using False by (cases kvs) auto
    have "\<exists>u. ?j = quote_char # u" using x by (cases ys) (auto simp: json_str_def)
    then have "skip_ws (?j @ ''}'' @ rest) = ?j @ ''}'' @ rest" "\<not> starts (CHR ''}'') (?j @ ''}'' @ rest)"
      by (auto simp: quote_char_def skip_ws_def json_space_def)
    with e show ?thesis unfolding n by (simp add: quote_char_def)
  qed
qed (auto simp: quote_char_def p_literal_def numeral_2_eq_2 Suc_le_eq elim!: less_natE)


subsection \<open>The fuel of the scanner is enough\<close>

lemma p_str_shorter: "p_str s = Some (t, r) \<Longrightarrow> length r < length s"
proof (induction s arbitrary: t r rule: p_str.induct)
  case (2 c s)
  show ?case
  proof (cases "c = quote_char \<or> c = backslash")
    case True
    with 2 show ?thesis
      by (fastforce split: if_splits option.splits dest: p_escape_shorter)
  next
    case False
    with 2 show ?thesis by (fastforce split: if_splits)
  qed
qed simp

lemma skip_ws_length: "length (skip_ws s) \<le> length s"
  by (simp add: skip_ws_def length_dropWhile_le)

lemma expect_shorter: "expect c s = Some r \<Longrightarrow> length r < length s"
  by (auto simp: expect_def split: list.splits if_splits)

lemma dropWhile_shorter: "s \<noteq> [] \<Longrightarrow> P (hd s) \<Longrightarrow> length (dropWhile P s) < length s"
  by (cases s) (auto simp: less_Suc_eq_le length_dropWhile_le)

lemma p_int_shorter: "p_int s = Some (ds, r) \<Longrightarrow> length r < length s"
  by (auto simp: p_int_def less_Suc_eq_le length_dropWhile_le split: list.splits if_splits)

lemma p_frac_shorter: "p_frac s = Some (ds, r) \<Longrightarrow> length r < length s"
  by (auto simp: p_frac_def length_dropWhile_le less_Suc_eq_le le_SucI split: list.splits if_splits)

lemma p_exp_shorter: "p_exp s = Some (x, r) \<Longrightarrow> length r < length s"
  by (auto simp: p_exp_def p_exp_digits_def Let_def length_dropWhile_le less_Suc_eq_le le_SucI
      split: list.splits if_splits)

lemma p_number_shorter:
  assumes "p_number s = Some (v, r)"
  shows "length r < length s"
proof -
  define neg where "neg = (case s of [] \<Rightarrow> False | c # _ \<Rightarrow> c = CHR ''-'')"
  from assms obtain ds q where pi: "p_int (if neg then tl s else s) = Some (ds, q)"
    and r: "r = q \<or> r = (case p_exp (case p_frac q of None \<Rightarrow> q | Some (_, r') \<Rightarrow> r') of
        None \<Rightarrow> (case p_frac q of None \<Rightarrow> q | Some (_, r') \<Rightarrow> r') | Some (_, r') \<Rightarrow> r')"
    by (auto simp: p_number_def neg_def [symmetric] Let_def split: bind_splits if_splits)
  have "length q < length s"
    using p_int_shorter [OF pi] by (cases s) (auto split: if_splits)
  moreover have "length r \<le> length q"
    using r by (auto split: option.splits dest!: p_exp_shorter p_frac_shorter)
  ultimately show ?thesis by simp
qed

lemma p_literal_shorter: "p_literal s = Some (v, r) \<Longrightarrow> length r < length s"
  by (auto simp: p_literal_def split: if_splits dest: p_number_shorter prefix_length_le)


lemma starts_tl: "starts c s \<Longrightarrow> length (tl s) < length s"
  by (cases s) auto

lemma skip_tl_shorter: "starts c s \<Longrightarrow> length (skip_ws (tl s)) < length s"
  using skip_ws_length [of "tl s"] starts_tl by (meson le_less_trans)

lemma tl_skip_shorter: "length q < k \<Longrightarrow> length (tl (skip_ws q)) < k"
  using skip_ws_length [of q] by simp

lemma expect_skip_shorter:
  "expect c (skip_ws q) = Some r \<Longrightarrow> length q < k \<Longrightarrow> length (skip_ws r) < k"
  using expect_shorter [of c "skip_ws q" r] skip_ws_length [of q] skip_ws_length [of r] by simp

lemma parsers_shorter:
  "p_value n s = Some (v, r) \<Longrightarrow> length r < length s"
  "p_elems n s = Some (xs, r) \<Longrightarrow> length r < length s"
  "p_members n s = Some (kvs, r) \<Longrightarrow> length r < length s"
proof (induction n s and n s and n s arbitrary: v r and xs r and kvs r
    rule: p_value_p_elems_p_members.induct)
  case (2 n s)
  consider (str) "starts quote_char s"
    | (obj0) "\<not> starts quote_char s" "starts (CHR ''{'') s" "starts (CHR ''}'') (skip_ws (tl s))"
    | (obj) "\<not> starts quote_char s" "starts (CHR ''{'') s" "\<not> starts (CHR ''}'') (skip_ws (tl s))"
    | (arr0) "\<not> starts quote_char s" "\<not> starts (CHR ''{'') s" "starts (CHR ''['') s"
        "starts (CHR '']'') (skip_ws (tl s))"
    | (arr) "\<not> starts quote_char s" "\<not> starts (CHR ''{'') s" "starts (CHR ''['') s"
        "\<not> starts (CHR '']'') (skip_ws (tl s))"
    | (lit) "\<not> starts quote_char s" "\<not> starts (CHR ''{'') s" "\<not> starts (CHR ''['') s"
    by blast
  then show ?case
  proof cases
    case str
    with 2(3) obtain t where "p_str (tl s) = Some (t, r)" by (auto split: bind_splits)
    from p_str_shorter [OF this] starts_tl [OF str] show ?thesis by simp
  next
    case obj0
    with 2(3) tl_skip_shorter [OF starts_tl [OF obj0(2)]] show ?thesis by simp
  next
    case obj
    with 2(3) obtain kvs where "p_members n (skip_ws (tl s)) = Some (kvs, r)"
      by (auto split: bind_splits)
    from 2(1) [OF obj(1,2) refl obj(3) this] skip_tl_shorter [OF obj(2)] show ?thesis by simp
  next
    case arr0
    with 2(3) tl_skip_shorter [OF starts_tl [OF arr0(3)]] show ?thesis by simp
  next
    case arr
    with 2(3) obtain xs where "p_elems n (skip_ws (tl s)) = Some (xs, r)"
      by (auto split: bind_splits)
    from 2(2) [OF arr(1,2,3) refl arr(4) this] skip_tl_shorter [OF arr(3)] show ?thesis by simp
  next
    case lit
    with 2(3) show ?thesis by (auto dest: p_literal_shorter)
  qed
next
  case (4 n s)
  from 4(3) obtain x q where v: "p_value n s = Some (x, q)" by (auto split: bind_splits)
  have q: "length q < length s" by (rule 4(1) [OF v])
  show ?case
  proof (cases "starts (CHR '']'') (skip_ws q)")
    case True
    with 4(3) v tl_skip_shorter [OF q] show ?thesis by (auto simp: Let_def)
  next
    case False
    with 4(3) v obtain r2 ys where e: "expect (CHR '','') (skip_ws q) = Some r2"
      and p: "p_elems n (skip_ws r2) = Some (ys, r)"
      by (auto simp: Let_def split: bind_splits)
    from 4(2) [OF v refl refl False e p] expect_skip_shorter [OF e q] show ?thesis by simp
  qed
next
  case (6 n s)
  from 6(3) obtain s1 k q r1 v q' where *: "expect quote_char s = Some s1" "p_str s1 = Some (k, q)"
    "expect (CHR '':'') (skip_ws q) = Some r1" "p_value n (skip_ws r1) = Some (v, q')"
    by (auto split: bind_splits)
  have q: "length q < length s"
    using expect_shorter [OF *(1)] p_str_shorter [OF *(2)] by simp
  have q': "length q' < length s"
    using 6(1) [OF *(1) *(2) refl *(3) *(4)] expect_skip_shorter [OF *(3) q] by simp
  show ?case
  proof (cases "starts (CHR ''}'') (skip_ws q')")
    case True
    with 6(3) * tl_skip_shorter [OF q'] show ?thesis by (auto simp: Let_def)
  next
    case False
    with 6(3) * obtain r4 ws where e: "expect (CHR '','') (skip_ws q') = Some r4"
      and p: "p_members n (skip_ws r4) = Some (ws, r)"
      by (auto simp: Let_def split: bind_splits)
    from 6(2) [OF *(1) *(2) refl *(3) *(4) refl refl False e p] expect_skip_shorter [OF e q']
    show ?thesis by simp
  qed
qed auto

text \<open>
  Any fuel above twice the length of the text gives the same result, so running out is
  never the reason for a refusal.
\<close>

lemma parsers_enough:
  "(2 * length s + 1 \<le> n \<longrightarrow> 2 * length s + 1 \<le> m \<longrightarrow> p_value n s = p_value m s) \<and>
   (2 * length s + 2 \<le> n \<longrightarrow> 2 * length s + 2 \<le> m \<longrightarrow> p_elems n s = p_elems m s) \<and>
   (2 * length s + 2 \<le> n \<longrightarrow> 2 * length s + 2 \<le> m \<longrightarrow> p_members n s = p_members m s)"
proof (induction s arbitrary: n m rule: length_induct)
  case (1 s)
  have V: "p_value a t = p_value b t" if "length t < length s" "2 * length t + 1 \<le> a" "2 * length t + 1 \<le> b" for a b t
    using 1 that by blast
  have E: "p_elems a t = p_elems b t" if "length t < length s" "2 * length t + 2 \<le> a" "2 * length t + 2 \<le> b" for a b t
    using 1 that by blast
  have M: "p_members a t = p_members b t" if "length t < length s" "2 * length t + 2 \<le> a" "2 * length t + 2 \<le> b" for a b t
    using 1 that by blast
  have val: "p_value (Suc a) s = p_value (Suc b) s" if "2 * length s \<le> a" "2 * length s \<le> b" for a b
  proof -
    have "p_members a (skip_ws (tl s)) = p_members b (skip_ws (tl s))" if "starts (CHR ''{'') s"
      using skip_tl_shorter [OF that] \<open>2 * length s \<le> a\<close> \<open>2 * length s \<le> b\<close> by (intro M) auto
    moreover have "p_elems a (skip_ws (tl s)) = p_elems b (skip_ws (tl s))" if "starts (CHR ''['') s"
      using skip_tl_shorter [OF that] \<open>2 * length s \<le> a\<close> \<open>2 * length s \<le> b\<close> by (intro E) auto
    ultimately show ?thesis by (simp add: Let_def)
  qed
  have el: "p_elems (Suc a) s = p_elems (Suc b) s" if ab: "2 * length s + 1 \<le> a" "2 * length s + 1 \<le> b" for a b
  proof -
    have v: "p_value a s = p_value b s"
      using val [of "a - 1" "b - 1"] ab by (cases a; cases b) auto
    show ?thesis
    proof (cases "p_value b s")
      case (Some xq)
      obtain x q where xq: "xq = (x, q)" by (cases xq)
      have q: "length q < length s" using parsers_shorter(1) Some xq by blast
      have "p_elems a (skip_ws r2) = p_elems b (skip_ws r2)" if "expect (CHR '','') (skip_ws q) = Some r2" for r2
        using expect_skip_shorter [OF that q] ab by (intro E) auto
      with v Some xq show ?thesis by (auto simp: Let_def intro!: Option.bind_cong)
    qed (use v in auto)
  qed
  have mem: "p_members (Suc a) s = p_members (Suc b) s" if ab: "2 * length s + 1 \<le> a" "2 * length s + 1 \<le> b" for a b
  proof (cases "expect quote_char s")
    case (Some s1)
    show ?thesis
    proof (cases "p_str s1")
      case s1: (Some kq)
      obtain k q where kq: "kq = (k, q)" by (cases kq)
      have q: "length q < length s"
        using expect_shorter [OF Some] p_str_shorter s1 kq by (metis order.strict_trans)
      show ?thesis
      proof (cases "expect (CHR '':'') (skip_ws q)")
        case r1: (Some r1)
        have v: "p_value a (skip_ws r1) = p_value b (skip_ws r1)"
          using expect_skip_shorter [OF r1 q] ab by (intro V) auto
        show ?thesis
        proof (cases "p_value b (skip_ws r1)")
          case vq: (Some vq)
          obtain v' q' where vq': "vq = (v', q')" by (cases vq)
          have q': "length q' < length s"
            using parsers_shorter(1) [of b "skip_ws r1" v' q'] vq vq' expect_skip_shorter [OF r1 q] by simp
          have "p_members a (skip_ws r4) = p_members b (skip_ws r4)"
            if "expect (CHR '','') (skip_ws q') = Some r4" for r4
            using expect_skip_shorter [OF that q'] ab by (intro M) auto
          with Some s1 kq r1 v vq vq' show ?thesis by (auto simp: Let_def intro!: Option.bind_cong)
        qed (use Some s1 kq r1 v in auto)
      qed (use Some s1 kq in auto)
    qed (use Some in auto)
  qed auto
  show ?case
    using val [of "n - 1" "m - 1"] el [of "n - 1" "m - 1"] mem [of "n - 1" "m - 1"]
    by (cases n; cases m) auto
qed

lemma json_scan_fuel:
  assumes "2 * length s + 1 \<le> n"
  shows "json_scan s = do { (v, r) \<leftarrow> p_value n (skip_ws s); if skip_ws r = [] then Some v else None }"
  using parsers_enough [of "skip_ws s" n "2 * length s + 2"] assms skip_ws_length [of s]
  by (simp add: json_scan_def)


subsection \<open>Canonical text and digests identify values\<close>

lemma plain_sort_keys [simp]: "plain_json (sort_keys v) = plain_json v"
  by (induction v rule: json_induct) (auto simp: list_all_iff)

lemma json_scan_dumps:
  assumes "plain_json v"
  shows "json_scan (dumps_raw ea v) = Some v"
proof -
  have "p_value (2 * length (dumps_raw ea v) + 2) (dumps_raw ea v @ []) = Some (v, [])"
    using assms by (intro p_value_dumps) (auto simp: sep_start_def)
  moreover have "skip_ws (dumps_raw ea v) = dumps_raw ea v"
    using skip_ws_dumps [OF assms, of ea "[]"] by simp
  ultimately show ?thesis by (simp add: json_scan_def skip_ws_def)
qed

lemma json_dumps_inj:
  assumes "plain_json v" "plain_json w" "json_dumps v = json_dumps w"
  shows "sort_keys v = sort_keys w"
proof -
  have "json_scan (json_dumps v) = Some (sort_keys v)" "json_scan (json_dumps w) = Some (sort_keys w)"
    using assms(1,2) by (simp_all add: json_dumps_def json_scan_dumps)
  with assms(3) show ?thesis by simp
qed

lemma map_of_sort_key:
  assumes "distinct (map fst kvs)"
  shows "map_of (sort_key fst kvs) = map_of kvs"
proof (rule map_of_eqI)
  have "distinct (map fst (sort_key fst kvs))"
    using assms by (simp add: distinct_map)
  then show "\<forall>k \<in> set (map fst (sort_key fst kvs)). map_of (sort_key fst kvs) k = map_of kvs k"
    using assms by (auto simp: map_of_eq_Some_iff intro: trans [OF map_of_is_SomeI sym])
qed simp

lemma sort_keys_objD:
  assumes "sort_keys (JObj kvs) = sort_keys (JObj kws)"
    and "distinct (map fst kvs)" "distinct (map fst kws)"
  shows "map_option sort_keys (map_of kvs k) = map_option sort_keys (map_of kws k)"
proof -
  let ?f = "\<lambda>kv. (fst kv, sort_keys (snd kv))"
  have m: "map_of (map ?f xs) k = map_option sort_keys (map_of xs k)" for xs
    by (induction xs) auto
  have "map_of (map ?f kvs) = map_of (map ?f kws)"
    using assms map_of_sort_key [of "map ?f kvs"] map_of_sort_key [of "map ?f kws"]
    by (simp add: comp_def)
  then show ?thesis by (metis m)
qed

text \<open>
  A digest \<open>sha256(tag + canonical(material))\<close>: the client proves once that its material
  determines the value, and gets that the digest does, up to an exhibited collision.
\<close>

locale canonical_digest =
  fixes material :: "'a \<Rightarrow> json" and domain_tag :: string and valid :: "'a \<Rightarrow> bool"
  assumes plain: "valid x \<Longrightarrow> plain_json (material x)"
    and determined: "valid x \<Longrightarrow> valid y \<Longrightarrow>
      sort_keys (material x) = sort_keys (material y) \<Longrightarrow> x = y"
begin

lemma binding:
  assumes "valid x" "valid y"
    and "sha256_hex (domain_tag @ json_dumps (material x)) = sha256_hex (domain_tag @ json_dumps (material y))"
  shows "x = y \<or> sha256_collision (domain_tag @ json_dumps (material x)) (domain_tag @ json_dumps (material y))"
  using sha256_hex_eqD [OF assms(3)] json_dumps_inj [OF plain [OF assms(1)] plain [OF assms(2)]]
    determined [OF assms(1,2)] by auto

end

end
