(* ===== verification/Resource.thy ===== *)
theory Resource
  imports JsonRoundtrip
begin

section \<open>Typed resources and their scopes (\<open>contracts/resource.py\<close>)\<close>

text \<open>
  A resource identity is a domain and a path of components; a scope is the same shape and
  contains what its components are leading components of. Identities reach the evaluator
  inside event payloads, where only the exact canonical JSON material is accepted.
\<close>

datatype resource_kind = HIERARCHICAL

definition resource_schema :: string where
  "resource_schema = ''agent-evals/resource/v1''"

record resource_identifier =
  ri_schema_version :: string
  ri_kind :: resource_kind
  ri_domain :: string
  ri_components :: "string list"

record resource_scope =
  rs_schema_version :: string
  rs_kind :: resource_kind
  rs_domain :: string
  rs_components :: "string list"

fun kind_value :: "resource_kind \<Rightarrow> string" where
  "kind_value HIERARCHICAL = ''hierarchical''"

fun parse_kind :: "string \<Rightarrow> resource_kind option" where
  "parse_kind s = (if s = ''hierarchical'' then Some HIERARCHICAL else None)"

subsection \<open>Validators\<close>

text \<open>\<open>^[a-z][a-z0-9_-]{0,63}$\<close>, matched against the whole text.\<close>

definition domain_char :: "char \<Rightarrow> bool" where
  "domain_char c \<longleftrightarrow> is_lower_char c \<or> is_digit_char c \<or> c = CHR ''_'' \<or> c = CHR ''-''"

definition domain_re :: "string \<Rightarrow> bool" where
  "domain_re s \<longleftrightarrow> (case s of [] \<Rightarrow> False
     | c # r \<Rightarrow> is_lower_char c \<and> list_all domain_char r \<and> length r \<le> 63)"

definition validate_domain :: "string \<Rightarrow> error + unit" where
  "validate_domain s = raise_if
     [(s = [], Err ValidationError ''domain: min_length''),
      (length s > 64, Err ValidationError ''domain: max_length''),
      (\<not> domain_re s, Err ValidationError (''resource domain must be canonical lowercase ASCII: letter followed by letters, digits, '_' or '-'' @ [CHR 0x27]))]"

text \<open>
  Every text over code points up to 255 is its own NFC normal form. Category C holds the
  control characters and the soft hyphen there.
\<close>

definition nfc :: "string \<Rightarrow> string" where
  "nfc s = s"

definition category_c :: "char \<Rightarrow> bool" where
  "category_c c \<longleftrightarrow> (let n = (of_char c :: nat) in n < 32 \<or> (127 \<le> n \<and> n < 160) \<or> n = 173)"

definition component_checks :: "string \<Rightarrow> error + unit" where
  "component_checks c = raise_if
     [(c = [], Err ValidationError ''resource components must be non-empty''),
      (length c > 256, Err ValidationError ''resource components must be at most 256 characters''),
      (c \<noteq> py_strip c, Err ValidationError ''resource components must not contain surrounding whitespace''),
      (c = ''.'' \<or> c = ''..'', Err ValidationError ''resource components must not use dot-segment aliases''),
      (CHR ''/'' \<in> set c \<or> backslash \<in> set c,
       Err ValidationError ''resource separators must be represented as distinct components''),
      (CHR ''%'' \<in> set c, Err ValidationError ''percent-encoded resource material is not accepted by v1''),
      (nfc c \<noteq> c, Err ValidationError ''resource components must already be NFC-normalized''),
      (list_ex category_c c, Err ValidationError ''resource components must not contain control, format, surrogate, private-use, or unassigned Unicode characters'')]"

definition validate_components :: "string list \<Rightarrow> error + unit" where
  "validate_components cs =
     (if length cs > 64 then Inl (Err ValidationError ''resource paths may contain at most 64 components'')
      else rfor component_checks cs)"

definition mk_resource_identifier :: "string \<Rightarrow> string list \<Rightarrow> error + resource_identifier" where
  "mk_resource_identifier d cs =
     rbind (validate_domain d) (\<lambda>_.
     rbind (if cs = [] then Inl (Err ValidationError ''resource identifier requires at least one component'')
            else validate_components cs) (\<lambda>_.
     Inr \<lparr>ri_schema_version = resource_schema, ri_kind = HIERARCHICAL,
          ri_domain = d, ri_components = cs\<rparr>))"

definition mk_resource_scope :: "string \<Rightarrow> string list \<Rightarrow> error + resource_scope" where
  "mk_resource_scope d cs =
     rbind (validate_domain d) (\<lambda>_.
     rbind (validate_components cs) (\<lambda>_.
     Inr \<lparr>rs_schema_version = resource_schema, rs_kind = HIERARCHICAL,
          rs_domain = d, rs_components = cs\<rparr>))"

definition valid_identifier :: "resource_identifier \<Rightarrow> bool" where
  "valid_identifier r \<longleftrightarrow> mk_resource_identifier (ri_domain r) (ri_components r) = Inr r"

definition valid_scope :: "resource_scope \<Rightarrow> bool" where
  "valid_scope s \<longleftrightarrow> mk_resource_scope (rs_domain s) (rs_components s) = Inr s"

subsection \<open>Containment\<close>

definition components_contain :: "string list \<Rightarrow> string list \<Rightarrow> bool" where
  "components_contain scope candidate \<longleftrightarrow>
     length scope \<le> length candidate \<and> take (length scope) candidate = scope"

definition contains_identifier :: "resource_scope \<Rightarrow> resource_identifier \<Rightarrow> bool" where
  "contains_identifier s r =
     (if rs_schema_version s \<noteq> ri_schema_version r then False
      else if rs_kind s \<noteq> ri_kind r \<or> rs_domain s \<noteq> ri_domain r then False
      else components_contain (rs_components s) (ri_components r))"

definition contains_scope :: "resource_scope \<Rightarrow> resource_scope \<Rightarrow> bool" where
  "contains_scope s t =
     (if rs_schema_version s \<noteq> rs_schema_version t then False
      else if rs_kind s \<noteq> rs_kind t \<or> rs_domain s \<noteq> rs_domain t then False
      else components_contain (rs_components s) (rs_components t))"

lemma components_contain_prefix: "components_contain xs ys \<longleftrightarrow> prefix xs ys"
  by (auto simp: components_contain_def prefix_def) (metis append_take_drop_id)

text \<open>
  What a client of scopes relies on: containment of scopes is a preorder and contained
  scopes admit no further resource. Lists of scopes inherit both.
\<close>

locale scope_order =
  fixes contains :: "'s \<Rightarrow> 's \<Rightarrow> bool" and admits :: "'s \<Rightarrow> 'r \<Rightarrow> bool"
  assumes contains_refl: "contains s s"
    and contains_trans: "contains s t \<Longrightarrow> contains t u \<Longrightarrow> contains s u"
    and admits_mono: "contains s t \<Longrightarrow> admits t r \<Longrightarrow> admits s r"
begin

definition covers :: "'s list \<Rightarrow> 's list \<Rightarrow> bool" where
  "covers ps ss \<longleftrightarrow> (\<forall>s \<in> set ss. \<exists>p \<in> set ps. contains p s)"

lemma covers_refl: "covers ss ss"
  using contains_refl by (auto simp: covers_def)

lemma covers_trans: "covers ps qs \<Longrightarrow> covers qs ss \<Longrightarrow> covers ps ss"
  unfolding covers_def using contains_trans by meson

lemma covers_admits: "covers ps ss \<Longrightarrow> \<exists>s \<in> set ss. admits s r \<Longrightarrow> \<exists>p \<in> set ps. admits p r"
  unfolding covers_def using admits_mono by meson

end

interpretation scopes: scope_order contains_scope contains_identifier
proof unfold_locales
  show "contains_scope s s" for s
    by (simp add: contains_scope_def components_contain_prefix)
  show "contains_scope s u" if "contains_scope s t" "contains_scope t u" for s t u
    using that by (auto simp: contains_scope_def components_contain_prefix split: if_splits)
  show "contains_identifier s r" if "contains_scope s t" "contains_identifier t r" for s t r
    using that by (auto simp: contains_scope_def contains_identifier_def components_contain_prefix
        split: if_splits)
qed

subsection \<open>Canonical material\<close>

definition resource_identifier_payload :: "resource_identifier \<Rightarrow> json" where
  "resource_identifier_payload r = JObj
     [(''schema_version'', JStr (ri_schema_version r)),
      (''kind'', JStr (kind_value (ri_kind r))),
      (''domain'', JStr (ri_domain r)),
      (''components'', JArr (map JStr (ri_components r)))]"

definition scope_material :: "resource_scope \<Rightarrow> json" where
  "scope_material s = JObj
     [(''schema_version'', JStr (rs_schema_version s)),
      (''kind'', JStr (kind_value (rs_kind s))),
      (''domain'', JStr (rs_domain s)),
      (''components'', JArr (map JStr (rs_components s)))]"

definition identifier_canonical_json :: "resource_identifier \<Rightarrow> string" where
  "identifier_canonical_json r = json_dumps_unicode (resource_identifier_payload r)"

definition scope_canonical_json :: "resource_scope \<Rightarrow> string" where
  "scope_canonical_json s = json_dumps_unicode (scope_material s)"

definition resource_fields :: "string set" where
  "resource_fields = {''schema_version'', ''kind'', ''domain'', ''components''}"

fun str_list :: "json option \<Rightarrow> string list option" where
  "str_list (Some (JArr xs)) = those (map (\<lambda>x. as_str (Some x)) xs)"
| "str_list _ = None"

text \<open>\<open>ResourceIdentifier.model_validate\<close> on the four texts of a well-shaped object.\<close>

definition validate_identifier_fields ::
  "string \<Rightarrow> string \<Rightarrow> string \<Rightarrow> string list \<Rightarrow> error + resource_identifier" where
  "validate_identifier_fields sv k d cs =
     (if sv \<noteq> resource_schema then Inl (Err ValidationError ''schema_version: literal'')
      else if parse_kind k = None then Inl (Err ValidationError ''kind: enum'')
      else mk_resource_identifier d cs)"

fun parse_resource_identifier_payload :: "json \<Rightarrow> error + resource_identifier" where
  "parse_resource_identifier_payload (JObj m) =
     (if set (map fst m) \<noteq> resource_fields
      then Inl (Err ValueError ''resource evidence must contain the exact typed resource fields'')
      else case as_str (dict_get m ''schema_version'') of
        None \<Rightarrow> Inl (Err ValueError ''resource evidence schema_version must be a string'')
      | Some sv \<Rightarrow> (case as_str (dict_get m ''kind'') of
        None \<Rightarrow> Inl (Err ValueError ''resource evidence kind must be a string'')
      | Some k \<Rightarrow> (case as_str (dict_get m ''domain'') of
        None \<Rightarrow> Inl (Err ValueError ''resource evidence domain must be a string'')
      | Some d \<Rightarrow> (case str_list (dict_get m ''components'') of
        None \<Rightarrow> Inl (Err ValueError ''resource evidence components must be a JSON string array'')
      | Some cs \<Rightarrow> rbind (validate_identifier_fields sv k d cs) (\<lambda>r.
          if \<not> py_eq (JObj m) (resource_identifier_payload r)
          then Inl (Err ValueError ''resource evidence is not canonical typed resource material'')
          else Inr r)))))"
| "parse_resource_identifier_payload _ =
     Inl (Err ValueError ''resource evidence must be a canonical typed JSON object'')"

subsection \<open>Round trips\<close>

lemma parse_kind_value [simp]: "parse_kind (kind_value k) = Some k"
  by (cases k) simp

lemma those_strs: "those (map (\<lambda>x. as_str (Some x)) xs) = Some cs \<longleftrightarrow> xs = map JStr cs"
proof (induction xs arbitrary: cs)
  case (Cons x xs)
  show ?case
    by (cases cs) (auto simp: Cons.IH split: option.splits)
qed auto

lemma str_list_Some: "str_list v = Some cs \<longleftrightarrow> v = Some (JArr (map JStr cs))"
  by (cases v rule: str_list.cases) (auto simp: those_strs)

lemma str_list_map [simp]: "str_list (Some (JArr (map JStr cs))) = Some cs"
  by (simp add: str_list_Some del: str_list.simps)

lemma py_eq_strs: "py_eq (JArr (map JStr xs)) v \<longleftrightarrow> v = JArr (map JStr xs)"
proof (cases v)
  case (JArr ys)
  have "list_all2 py_eq (map JStr xs) ys \<longleftrightarrow> ys = map JStr xs"
    by (induction xs arbitrary: ys) (auto simp: list_all2_Cons1)
  with JArr show ?thesis by auto
qed auto

lemma valid_identifier_mk: "mk_resource_identifier d cs = Inr r \<Longrightarrow> valid_identifier r"
  by (auto simp: mk_resource_identifier_def valid_identifier_def result_simps split: if_splits)

lemma mk_identifier_fields:
  "mk_resource_identifier d cs = Inr r \<Longrightarrow>
   ri_schema_version r = resource_schema \<and> ri_kind r = HIERARCHICAL \<and>
   ri_domain r = d \<and> ri_components r = cs"
  by (auto simp: mk_resource_identifier_def result_simps split: if_splits)

lemma parse_payload:
  assumes "valid_identifier r"
  shows "parse_resource_identifier_payload (resource_identifier_payload r) = Inr r"
proof -
  have f: "ri_schema_version r = resource_schema" "ri_kind r = HIERARCHICAL"
    using mk_identifier_fields assms unfolding valid_identifier_def by blast+
  have eq: "py_eq (resource_identifier_payload r) (resource_identifier_payload r)"
    by (intro py_eq_refl) (auto simp: resource_identifier_payload_def list_all_iff)
  show ?thesis
    using assms eq unfolding valid_identifier_def
    by (simp add: resource_identifier_payload_def resource_fields_def validate_identifier_fields_def
        f insert_commute del: py_eq.simps str_list.simps)
qed

lemma parse_payloadD:
  assumes "parse_resource_identifier_payload v = Inr r"
  shows "valid_identifier r \<and> py_eq v (resource_identifier_payload r)"
  using assms
  by (cases v rule: parse_resource_identifier_payload.cases)
    (auto simp: validate_identifier_fields_def result_simps valid_identifier_mk
      split: if_splits option.splits)

lemma plain_payload [simp]: "plain_json (resource_identifier_payload r)"
  by (simp add: resource_identifier_payload_def list_all_iff)

end
