(* ===== verification/SpecModels.thy ===== *)
theory SpecModels
  imports JsonRoundtrip
begin

section \<open>Scenario-owned contracts: side effects, retrieval, semantic rubrics\<close>

text \<open>
  The three optional contracts a scenario may carry: \<open>side_effect/models.py\<close>,
  \<open>retrieval/models.py\<close> and \<open>contracts/semantic.py\<close>. A pydantic model is a record;
  what its fields and validators demand is a \<open>validate_...\<close> function that returns the
  (canonicalised) record or the first violated demand; its \<open>identity\<close> is the digest of
  its dumped fields. Enum members are written to JSON as their values.
\<close>

lemma rmap_cong [fundef_cong]:
  "xs = ys \<Longrightarrow> (\<And>x. x \<in> set ys \<Longrightarrow> f x = g x) \<Longrightarrow> rmap f xs = rmap g ys"
  by (induction ys arbitrary: xs) auto

subsection \<open>Shared field patterns\<close>

text \<open>\<open>^[a-z0-9][a-z0-9<extra>]{lo,hi}$\<close>\<close>

definition id_char :: "string \<Rightarrow> char \<Rightarrow> bool" where
  "id_char extra c \<longleftrightarrow> is_lower_char c \<or> is_digit_char c \<or> c \<in> set extra"

definition id_pattern :: "string \<Rightarrow> nat \<Rightarrow> nat \<Rightarrow> string \<Rightarrow> bool" where
  "id_pattern extra lo hi s \<longleftrightarrow> (case s of [] \<Rightarrow> False
     | c # r \<Rightarrow> id_char [] c \<and> list_all (id_char extra) r \<and> lo \<le> length r \<and> length r \<le> hi)"

text \<open>A text field with \<open>min_length\<close> and \<open>max_length\<close>.\<close>

definition bounded_text :: "nat \<Rightarrow> nat \<Rightarrow> string \<Rightarrow> bool" where
  "bounded_text lo hi s \<longleftrightarrow> lo \<le> length s \<and> length s \<le> hi"

definition verr :: "string \<Rightarrow> error" where
  "verr msg = Err ValidationError msg"

lemma verr_cong [cong]: "verr m = verr m"
  by (rule refl)

text \<open>
  \<open>_canonicalize_json\<close> of both modules: copies JSON material and refuses a non-finite
  number; they differ in the text of the error.
\<close>

fun canonicalize_json :: "string \<Rightarrow> json \<Rightarrow> error + json" where
  "canonicalize_json msg (JObj kvs) =
     rbind (rmap (\<lambda>kv. rbind (canonicalize_json msg (snd kv)) (\<lambda>v. Inr (fst kv, v))) kvs)
       (\<lambda>kvs'. Inr (JObj kvs'))"
| "canonicalize_json msg (JArr xs) = rbind (rmap (canonicalize_json msg) xs) (\<lambda>xs'. Inr (JArr xs'))"
| "canonicalize_json msg (JFloat x) = (if isfinite x then Inr (JFloat x) else Inl (Err ValueError msg))"
| "canonicalize_json msg v = Inr v"

lemma canonicalize_json_Inr: "canonicalize_json msg v = Inr w \<longleftrightarrow> finite_json v \<and> w = v"
proof (induction v arbitrary: w rule: json_induct)
  case (Arr xs)
  have "list_all2 (\<lambda>x y. canonicalize_json msg x = Inr y) xs ys \<longleftrightarrow> list_all finite_json xs \<and> ys = xs" for ys
    using Arr by (induction xs arbitrary: ys) (auto simp: list_all2_Cons1)
  then show ?case by (auto simp: result_simps rmap_Inr)
next
  case (Obj kvs)
  have "list_all2 (\<lambda>kv y. rbind (canonicalize_json msg (snd kv)) (\<lambda>v. Inr (fst kv, v)) = Inr y) kvs ys
      \<longleftrightarrow> list_all (\<lambda>kv. finite_json (snd kv)) kvs \<and> ys = kvs" for ys
    using Obj
  proof (induction kvs arbitrary: ys)
    case (Cons kv kvs)
    obtain k v where kv: "kv = (k, v)" by (cases kv)
    have "\<And>w. canonicalize_json msg v = Inr w \<longleftrightarrow> finite_json v \<and> w = v"
      using Cons.prems kv by auto
    moreover have "\<And>ys. list_all2 (\<lambda>kv y. rbind (canonicalize_json msg (snd kv)) (\<lambda>v. Inr (fst kv, v)) = Inr y) kvs ys
      \<longleftrightarrow> list_all (\<lambda>kv. finite_json (snd kv)) kvs \<and> ys = kvs"
      using Cons.prems by (intro Cons.IH) auto
    ultimately show ?case using kv by (auto simp: list_all2_Cons1 result_simps)
  qed simp
  then show ?case by (auto simp: result_simps rmap_Inr)
qed (auto split: if_splits)

subsection \<open>Side-effect idempotency (\<open>side_effect/models.py\<close>)\<close>

record side_effect_spec =
  se_tool :: string
  se_key_argument :: string
  se_expected_arguments :: dict
  se_attempts :: int
  se_require_first_mutation :: bool

definition side_effect_finite_msg :: string where
  "side_effect_finite_msg = ''side-effect JSON values must be finite''"

definition validate_side_effect_spec :: "side_effect_spec \<Rightarrow> error + side_effect_spec" where
  "validate_side_effect_spec s =
     rbind (raise_if
       [(\<not> bounded_text 1 256 (se_tool s), verr ''tool: length''),
        (se_tool s \<noteq> py_strip (se_tool s),
         verr ''side-effect identities must not contain surrounding whitespace''),
        (\<not> bounded_text 1 256 (se_key_argument s), verr ''key_argument: length''),
        (se_key_argument s \<noteq> py_strip (se_key_argument s),
         verr ''side-effect identities must not contain surrounding whitespace'')]) (\<lambda>_.
     rbind (canonicalize_json side_effect_finite_msg (JObj (se_expected_arguments s))) (\<lambda>_.
     rbind (raise_if
       [(se_attempts s \<noteq> 2, verr ''attempts: literal''),
        (\<not> dict_has (se_expected_arguments s) (se_key_argument s),
         verr ''side-effect key_argument must exist in expected_arguments''),
        (case dict_get (se_expected_arguments s) (se_key_argument s) of
           Some (JStr _) \<Rightarrow> False | Some (JInt _) \<Rightarrow> False | _ \<Rightarrow> True,
         verr ''side-effect logical-operation key must be a string or integer'')]) (\<lambda>_.
     Inr s)))"

definition expected_arguments_sha256 :: "side_effect_spec \<Rightarrow> string" where
  "expected_arguments_sha256 s = sha256_json (JObj (se_expected_arguments s))"

definition key_sha256 :: "side_effect_spec \<Rightarrow> string" where
  "key_sha256 s = sha256_json (opt_json (dict_get (se_expected_arguments s) (se_key_argument s)))"

definition operation_domain :: string where
  "operation_domain = ''agent-evals/side-effect-operation/v1'' @ [CHR 0x00]"

definition logical_operation_identity :: "side_effect_spec \<Rightarrow> string" where
  "logical_operation_identity s = sha256_hex (operation_domain @ json_dumps (JObj
     [(''tool'', JStr (se_tool s)),
      (''key_argument'', JStr (se_key_argument s)),
      (''key_sha256'', JStr (key_sha256 s)),
      (''arguments_sha256'', JStr (expected_arguments_sha256 s))]))"

definition side_effect_material :: "side_effect_spec \<Rightarrow> json" where
  "side_effect_material s = JObj
     [(''tool'', JStr (se_tool s)),
      (''key_argument'', JStr (se_key_argument s)),
      (''expected_arguments'', JObj (se_expected_arguments s)),
      (''attempts'', JInt (se_attempts s)),
      (''require_first_mutation'', JBool (se_require_first_mutation s))]"

definition side_effect_identity :: "side_effect_spec \<Rightarrow> string" where
  "side_effect_identity s = sha256_json (side_effect_material s)"

subsection \<open>Semantic rubrics (\<open>contracts/semantic.py\<close>)\<close>

record semantic_criterion =
  cr_criterion_id :: string
  cr_description :: string
  cr_minimum_score :: int

record semantic_rubric =
  ru_schema_version :: string
  ru_rubric_id :: string
  ru_revision :: string
  ru_criteria :: "semantic_criterion list"

definition rubric_schema :: string where
  "rubric_schema = ''agent-evals/semantic-rubric/v1''"

definition validate_criterion :: "semantic_criterion \<Rightarrow> error + unit" where
  "validate_criterion c = raise_if
     [(\<not> id_pattern ''._-'' 1 63 (cr_criterion_id c), verr ''criterion_id: pattern''),
      (\<not> bounded_text 1 4000 (cr_description c), verr ''description: length''),
      (cr_description c \<noteq> py_strip (cr_description c),
       verr ''semantic criterion description must not contain surrounding whitespace''),
      (cr_minimum_score c < 0 \<or> cr_minimum_score c > 4, verr ''minimum_score: range'')]"

definition validate_rubric :: "semantic_rubric \<Rightarrow> error + semantic_rubric" where
  "validate_rubric r =
     rbind (raise_if
       [(ru_schema_version r \<noteq> rubric_schema, verr ''schema_version: literal''),
        (\<not> id_pattern ''._-'' 2 127 (ru_rubric_id r), verr ''rubric_id: pattern''),
        (\<not> bounded_text 1 128 (ru_revision r), verr ''revision: length''),
        (length (ru_criteria r) < 1 \<or> length (ru_criteria r) > 32, verr ''criteria: length'')]) (\<lambda>_.
     rbind (rfor validate_criterion (ru_criteria r)) (\<lambda>_.
     if \<not> distinct (map cr_criterion_id (ru_criteria r))
     then Inl (verr ''semantic rubric criterion IDs must be unique'') else Inr r))"

definition criterion_material :: "semantic_criterion \<Rightarrow> json" where
  "criterion_material c = JObj
     [(''criterion_id'', JStr (cr_criterion_id c)),
      (''description'', JStr (cr_description c)),
      (''minimum_score'', JInt (cr_minimum_score c))]"

definition rubric_material :: "semantic_rubric \<Rightarrow> json" where
  "rubric_material r = JObj
     [(''schema_version'', JStr (ru_schema_version r)),
      (''rubric_id'', JStr (ru_rubric_id r)),
      (''revision'', JStr (ru_revision r)),
      (''criteria'', JArr (map criterion_material (ru_criteria r)))]"

definition rubric_identity :: "semantic_rubric \<Rightarrow> string" where
  "rubric_identity r = sha256_hex (utf8 (json_dumps_unicode (rubric_material r)))"

end
