(* ===== verification/RetrievalModels.thy ===== *)
theory RetrievalModels
  imports SpecModels "HOL-Library.Multiset"
begin

section \<open>Retrieval contracts (\<open>retrieval/models.py\<close>)\<close>

text \<open>
  A retrieval contract fixes a corpus, a query and, for an adversarial scenario, one
  inserted chunk and the ranking relation the insertion must produce. Corpora are
  canonical: chunk identifiers are unique and the chunks are sorted by them.
\<close>

datatype poison_relation = ENTER_TOP_K | DISPLACE_CHUNK

fun relation_value :: "poison_relation \<Rightarrow> string" where
  "relation_value ENTER_TOP_K = ''enter_top_k''"
| "relation_value DISPLACE_CHUNK = ''displace_chunk''"

definition parse_relation :: "string \<Rightarrow> poison_relation option" where
  "parse_relation s = (if s = ''enter_top_k'' then Some ENTER_TOP_K
     else if s = ''displace_chunk'' then Some DISPLACE_CHUNK else None)"

definition retrieval_id :: "string \<Rightarrow> bool" where
  "retrieval_id s \<longleftrightarrow> id_pattern ''._:-'' 0 127 s"

record ranker_profile =
  rp_ranker_id :: string
  rp_revision :: string
  rp_tokenizer :: string
  rp_overlap_weight :: int
  rp_coverage_weight :: int
  rp_phrase_bonus :: int

definition validate_ranker :: "ranker_profile \<Rightarrow> error + unit" where
  "validate_ranker p = raise_if
     [(\<not> retrieval_id (rp_ranker_id p), verr ''ranker_id: pattern''),
      (\<not> bounded_text 1 64 (rp_revision p), verr ''revision: length''),
      (\<not> bounded_text 1 128 (rp_tokenizer p), verr ''tokenizer: length''),
      (rp_overlap_weight p < 1 \<or> rp_overlap_weight p > 100000, verr ''overlap_weight: range''),
      (rp_coverage_weight p < 0 \<or> rp_coverage_weight p > 100000, verr ''coverage_weight: range''),
      (rp_phrase_bonus p < 0 \<or> rp_phrase_bonus p > 1000000, verr ''phrase_bonus: range'')]"

definition ranker_material :: "ranker_profile \<Rightarrow> json" where
  "ranker_material p = JObj
     [(''ranker_id'', JStr (rp_ranker_id p)),
      (''revision'', JStr (rp_revision p)),
      (''tokenizer'', JStr (rp_tokenizer p)),
      (''overlap_weight'', JInt (rp_overlap_weight p)),
      (''coverage_weight'', JInt (rp_coverage_weight p)),
      (''phrase_bonus'', JInt (rp_phrase_bonus p))]"

definition ranker_identity :: "ranker_profile \<Rightarrow> string" where
  "ranker_identity p = sha256_json (ranker_material p)"

record retrieval_chunk =
  rc_chunk_id :: string
  rc_document_id :: string
  rc_source :: string
  rc_content :: string
  rc_metadata :: dict

definition retrieval_finite_msg :: string where
  "retrieval_finite_msg = ''retrieval JSON values must be finite''"

definition validate_chunk :: "retrieval_chunk \<Rightarrow> error + unit" where
  "validate_chunk c = rbind (raise_if
     [(\<not> retrieval_id (rc_chunk_id c), verr ''chunk_id: pattern''),
      (\<not> retrieval_id (rc_document_id c), verr ''document_id: pattern''),
      (\<not> bounded_text 1 2048 (rc_source c), verr ''source: length''),
      (rc_source c \<noteq> py_strip (rc_source c),
       verr ''retrieval source must not contain surrounding whitespace''),
      (\<not> bounded_text 1 200000 (rc_content c), verr ''content: length'')]) (\<lambda>_.
     rbind (canonicalize_json retrieval_finite_msg (JObj (rc_metadata c))) (\<lambda>_. Inr ()))"

definition content_sha256 :: "retrieval_chunk \<Rightarrow> string" where
  "content_sha256 c = sha256_hex (utf8 (rc_content c))"

definition chunk_material :: "retrieval_chunk \<Rightarrow> json" where
  "chunk_material c = JObj
     [(''chunk_id'', JStr (rc_chunk_id c)),
      (''document_id'', JStr (rc_document_id c)),
      (''source'', JStr (rc_source c)),
      (''content'', JStr (rc_content c)),
      (''metadata'', JObj (rc_metadata c))]"

definition chunk_identity :: "retrieval_chunk \<Rightarrow> string" where
  "chunk_identity c = sha256_json (chunk_material c)"

record retrieval_corpus =
  co_corpus_id :: string
  co_revision :: string
  co_chunks :: "retrieval_chunk list"

definition canonicalize_chunks :: "retrieval_chunk list \<Rightarrow> error + retrieval_chunk list" where
  "canonicalize_chunks cs =
     (if \<not> distinct (map rc_chunk_id cs)
      then Inl (verr ''retrieval corpus chunk_id values must be unique'')
      else Inr (sort_key (\<lambda>c. (rc_chunk_id c, chunk_identity c)) cs))"

definition mk_corpus :: "string \<Rightarrow> string \<Rightarrow> retrieval_chunk list \<Rightarrow> error + retrieval_corpus" where
  "mk_corpus cid rv cs = rbind (raise_if
     [(\<not> retrieval_id cid, verr ''corpus_id: pattern''),
      (\<not> bounded_text 1 128 rv, verr ''revision: length''),
      (length cs < 1 \<or> length cs > 512, verr ''chunks: length'')]) (\<lambda>_.
     rbind (rfor validate_chunk cs) (\<lambda>_.
     rbind (canonicalize_chunks cs) (\<lambda>cs'.
     Inr \<lparr>co_corpus_id = cid, co_revision = rv, co_chunks = cs'\<rparr>)))"

definition corpus_material :: "retrieval_corpus \<Rightarrow> json" where
  "corpus_material c = JObj
     [(''corpus_id'', JStr (co_corpus_id c)),
      (''revision'', JStr (co_revision c)),
      (''chunks'', JArr (map chunk_material (co_chunks c)))]"

definition corpus_identity :: "retrieval_corpus \<Rightarrow> string" where
  "corpus_identity c = sha256_json (corpus_material c)"

record retrieval_query =
  rq_query :: string
  rq_top_k :: nat
  rq_ranker :: ranker_profile

definition validate_query :: "retrieval_query \<Rightarrow> error + unit" where
  "validate_query q = rbind (raise_if
     [(\<not> bounded_text 1 20000 (rq_query q), verr ''query: length''),
      (rq_query q \<noteq> py_strip (rq_query q),
       verr ''retrieval query must not contain surrounding whitespace''),
      (rq_top_k q < 1 \<or> rq_top_k q > 64, verr ''top_k: range'')]) (\<lambda>_.
     validate_ranker (rq_ranker q))"

definition query_material :: "retrieval_query \<Rightarrow> json" where
  "query_material q = JObj
     [(''query'', JStr (rq_query q)),
      (''top_k'', JInt (int (rq_top_k q))),
      (''ranker'', ranker_material (rq_ranker q))]"

definition query_identity :: "retrieval_query \<Rightarrow> string" where
  "query_identity q = sha256_json (query_material q)"

record retrieval_poison =
  po_poison_id :: string
  po_revision :: string
  po_base_corpus_identity :: string
  po_inserted_chunk :: retrieval_chunk
  po_relation :: poison_relation
  po_expected_displaced_chunk_id :: "string option"

definition validate_poison :: "retrieval_poison \<Rightarrow> error + unit" where
  "validate_poison p = rbind (raise_if
     [(\<not> retrieval_id (po_poison_id p), verr ''poison_id: pattern''),
      (\<not> bounded_text 1 64 (po_revision p), verr ''revision: length''),
      (\<not> is_sha256 (po_base_corpus_identity p), verr ''base_corpus_identity: pattern'')]) (\<lambda>_.
     rbind (validate_chunk (po_inserted_chunk p)) (\<lambda>_.
     case po_expected_displaced_chunk_id p of
       None \<Rightarrow> (if po_relation p = DISPLACE_CHUNK
         then Inl (verr ''displace_chunk poison relation requires an expected displaced chunk'')
         else Inr ())
     | Some d \<Rightarrow> raise_if
         [(\<not> retrieval_id d, verr ''expected_displaced_chunk_id: pattern''),
          (po_relation p = DISPLACE_CHUNK \<and> d = rc_chunk_id (po_inserted_chunk p),
           verr ''inserted poison chunk cannot also be the displaced chunk''),
          (po_relation p \<noteq> DISPLACE_CHUNK,
           verr ''expected displaced chunk is valid only for displace_chunk relation'')]))"

text \<open>\<open>model_dump\<close> keeps a missing value as \<open>null\<close>; \<open>exclude_none\<close> drops the field.\<close>

definition opt_field :: "bool \<Rightarrow> string \<Rightarrow> json option \<Rightarrow> dict" where
  "opt_field exclude_none k v = (case v of Some x \<Rightarrow> [(k, x)]
     | None \<Rightarrow> (if exclude_none then [] else [(k, JNull)]))"

definition poison_material :: "bool \<Rightarrow> retrieval_poison \<Rightarrow> json" where
  "poison_material exclude_none p = JObj
     ([(''poison_id'', JStr (po_poison_id p)),
       (''revision'', JStr (po_revision p)),
       (''base_corpus_identity'', JStr (po_base_corpus_identity p)),
       (''inserted_chunk'', chunk_material (po_inserted_chunk p)),
       (''relation'', JStr (relation_value (po_relation p)))]
      @ opt_field exclude_none ''expected_displaced_chunk_id''
          (map_option JStr (po_expected_displaced_chunk_id p)))"

definition poison_identity :: "retrieval_poison \<Rightarrow> string" where
  "poison_identity p = sha256_json (poison_material False p)"

definition apply_poison :: "retrieval_poison \<Rightarrow> retrieval_corpus \<Rightarrow> error + retrieval_corpus" where
  "apply_poison p base =
     (if corpus_identity base \<noteq> po_base_corpus_identity p
      then Inl (Err ValueError ''retrieval poison is bound to a different base corpus'')
      else if list_ex (\<lambda>c. rc_chunk_id c = rc_chunk_id (po_inserted_chunk p)) (co_chunks base)
      then Inl (Err ValueError ''retrieval poison insertion cannot replace an existing chunk_id'')
      else mk_corpus (co_corpus_id base) (co_revision base) (co_chunks base @ [po_inserted_chunk p]))"

record retrieval_contract =
  rk_tool_name :: string
  rk_corpus :: retrieval_corpus
  rk_query :: retrieval_query
  rk_poison :: "retrieval_poison option"

definition validate_retrieval_contract :: "retrieval_contract \<Rightarrow> error + retrieval_contract" where
  "validate_retrieval_contract k =
     (let cs = co_chunks (rk_corpus k) in
     rbind (raise_if [(\<not> retrieval_id (rk_tool_name k), verr ''tool_name: pattern'')]) (\<lambda>_.
     rbind (mk_corpus (co_corpus_id (rk_corpus k)) (co_revision (rk_corpus k)) cs) (\<lambda>corpus.
     rbind (validate_query (rk_query k)) (\<lambda>_.
     rbind (case rk_poison k of None \<Rightarrow> Inr () | Some p \<Rightarrow> validate_poison p) (\<lambda>_.
     rbind (raise_if
       ((rq_top_k (rk_query k) > length (co_chunks corpus) + (if rk_poison k \<noteq> None then 1 else 0),
         verr ''retrieval top_k cannot exceed the available attacked corpus size'')
        # (case rk_poison k of None \<Rightarrow> [] | Some p \<Rightarrow>
            [(po_base_corpus_identity p \<noteq> corpus_identity corpus,
              verr ''retrieval poison must bind the exact scenario base corpus''),
             (case po_expected_displaced_chunk_id p of None \<Rightarrow> False
                | Some d \<Rightarrow> d \<notin> set (map rc_chunk_id (co_chunks corpus)),
              verr ''expected displaced chunk must exist in the base corpus'')]))) (\<lambda>_.
     Inr (k\<lparr>rk_corpus := corpus\<rparr>)))))))"

definition retrieval_material :: "retrieval_contract \<Rightarrow> json" where
  "retrieval_material k = JObj
     ([(''tool_name'', JStr (rk_tool_name k)),
       (''corpus'', corpus_material (rk_corpus k)),
       (''query'', query_material (rk_query k))]
      @ opt_field True ''poison'' (map_option (poison_material True) (rk_poison k)))"

definition retrieval_identity :: "retrieval_contract \<Rightarrow> string" where
  "retrieval_identity k = sha256_json (retrieval_material k)"

subsection \<open>Canonical corpora\<close>

lemma canonicalize_chunks_Inr:
  assumes "canonicalize_chunks cs = Inr cs'"
  shows "mset cs' = mset cs" "distinct (map rc_chunk_id cs')"
    "sorted (map (\<lambda>c. (rc_chunk_id c, chunk_identity c)) cs')"
proof -
  have d: "distinct (map rc_chunk_id cs)" and cs': "cs' = sort_key (\<lambda>c. (rc_chunk_id c, chunk_identity c)) cs"
    using assms by (auto simp: canonicalize_chunks_def split: if_splits)
  show m: "mset cs' = mset cs" by (simp add: cs')
  show "distinct (map rc_chunk_id cs')"
    using d mset_eq_imp_distinct_iff [of "map rc_chunk_id cs'" "map rc_chunk_id cs"] m by simp
  show "sorted (map (\<lambda>c. (rc_chunk_id c, chunk_identity c)) cs')" by (simp add: cs')
qed

lemma sort_key_perm:
  assumes "mset xs = mset ys" "inj_on f (set xs)"
  shows "sort_key f xs = sort_key f ys"
proof -
  have "mset (map f (sort_key f ys)) = mset (map f xs)"
    using assms(1) by simp
  then have "sort (map f xs) = map f (sort_key f ys)"
    by (intro properties_for_sort) simp_all
  moreover have "sort (map f xs) = map f (sort_key f xs)"
    by (intro properties_for_sort) simp_all
  ultimately have "map f (sort_key f xs) = map f (sort_key f ys)" by simp
  moreover have "inj_on f (set (sort_key f xs) \<union> set (sort_key f ys))"
    using assms mset_eq_setD [OF assms(1)] by simp
  ultimately show ?thesis using map_inj_on by blast
qed

text \<open>A corpus does not depend on the order its chunks were supplied in.\<close>

lemma canonicalize_chunks_perm:
  assumes "mset cs = mset ds"
  shows "canonicalize_chunks cs = canonicalize_chunks ds"
proof (cases "distinct (map rc_chunk_id cs)")
  case True
  have d: "distinct (map rc_chunk_id ds)"
    using True assms mset_eq_imp_distinct_iff [of "map rc_chunk_id ds" "map rc_chunk_id cs"] by simp
  have inj: "inj_on (\<lambda>c. (rc_chunk_id c, chunk_identity c)) (set cs)"
    using True by (auto simp: distinct_map inj_on_def)
  let ?k = "\<lambda>c. (rc_chunk_id c, chunk_identity c)"
  have "sort_key ?k cs = sort_key ?k ds"
    using inj assms by (intro sort_key_perm) simp_all
  with True d show ?thesis by (simp add: canonicalize_chunks_def)
next
  case False
  then show ?thesis
    using assms mset_eq_imp_distinct_iff [of "map rc_chunk_id ds" "map rc_chunk_id cs"]
    by (simp add: canonicalize_chunks_def)
qed

end
