(* ===== verification/Contracts.thy ===== *)
theory Contracts
  imports Resource SpecModels RetrievalModels
begin

section \<open>Subject, scenario and authority contracts (\<open>contracts/models.py\<close>)\<close>

text \<open>
  A scenario owns an authority policy: what the root agent may do and, per directed handoff
  transition, what the receiving agent may do. A policy only exists validated: its grants stay
  within the root authority and every grant is reachable from the root agent. A
  \<open>frozenset\<close> of texts is a set, listed in code point order where the code sorts it; the
  set fields of validated records are finite, as Python's are.
\<close>

datatype scenario_kind = CAPABILITY | REGRESSION | SECURITY | RESILIENCE | METAMORPHIC

fun scenario_kind_value :: "scenario_kind \<Rightarrow> string" where
  "scenario_kind_value CAPABILITY = ''capability''"
| "scenario_kind_value REGRESSION = ''regression''"
| "scenario_kind_value SECURITY = ''security''"
| "scenario_kind_value RESILIENCE = ''resilience''"
| "scenario_kind_value METAMORPHIC = ''metamorphic''"

datatype approval_decision = APPROVE | REJECT

fun decision_value :: "approval_decision \<Rightarrow> string" where
  "decision_value APPROVE = ''approve''"
| "decision_value REJECT = ''reject''"

definition parse_decision :: "string \<Rightarrow> approval_decision option" where
  "parse_decision s = (if s = ''approve'' then Some APPROVE
     else if s = ''reject'' then Some REJECT else None)"

lemma parse_decision_value [simp]: "parse_decision (decision_value d) = Some d"
  by (cases d) (simp_all add: parse_decision_def)

subsection \<open>Approval intent\<close>

record approval_intent_spec =
  ai_agent :: string
  ai_tool :: string
  ai_decision :: approval_decision

definition validate_approval_spec :: "approval_intent_spec \<Rightarrow> error + unit" where
  "validate_approval_spec a =
     (let msg = verr ''approval intent identities must not contain surrounding whitespace'' in
      raise_if
       [(\<not> bounded_text 1 256 (ai_agent a), verr ''agent: length''),
        (ai_agent a \<noteq> py_strip (ai_agent a), msg),
        (\<not> bounded_text 1 256 (ai_tool a), verr ''tool: length''),
        (ai_tool a \<noteq> py_strip (ai_tool a), msg)])"

definition approval_spec_material :: "approval_intent_spec \<Rightarrow> json" where
  "approval_spec_material a = JObj
     [(''agent'', JStr (ai_agent a)), (''tool'', JStr (ai_tool a)),
      (''decision'', JStr (decision_value (ai_decision a)))]"

subsection \<open>Subject fingerprint\<close>

record subject_fingerprint =
  sf_provider :: string
  sf_model :: string
  sf_application_revision :: string
  sf_instructions_sha256 :: string
  sf_tool_schema_sha256 :: string
  sf_policy_sha256 :: string
  sf_memory_policy_sha256 :: string
  sf_adapter :: string
  sf_adapter_version :: string

definition validate_subject :: "subject_fingerprint \<Rightarrow> error + subject_fingerprint" where
  "validate_subject s = rbind (raise_if
     [(sf_provider s = [], verr ''provider: min_length''),
      (sf_model s = [], verr ''model: min_length''),
      (sf_application_revision s = [], verr ''application_revision: min_length''),
      (\<not> is_sha256 (sf_instructions_sha256 s), verr ''instructions_sha256: pattern''),
      (\<not> is_sha256 (sf_tool_schema_sha256 s), verr ''tool_schema_sha256: pattern''),
      (\<not> is_sha256 (sf_policy_sha256 s), verr ''policy_sha256: pattern''),
      (\<not> is_sha256 (sf_memory_policy_sha256 s), verr ''memory_policy_sha256: pattern''),
      (sf_adapter s = [], verr ''adapter: min_length''),
      (sf_adapter_version s = [], verr ''adapter_version: min_length'')]) (\<lambda>_. Inr s)"

definition sha256_text :: "string \<Rightarrow> string" where
  "sha256_text s = sha256_hex (utf8 s)"

definition checked_sha256_json :: "json \<Rightarrow> error + string" where
  "checked_sha256_json v = rbind (checked_dumps v) (\<lambda>t. Inr (sha256_text t))"

definition from_material ::
  "string \<Rightarrow> string \<Rightarrow> string \<Rightarrow> string \<Rightarrow> json \<Rightarrow> json \<Rightarrow> json \<Rightarrow> string \<Rightarrow> string \<Rightarrow> error + subject_fingerprint" where
  "from_material provider model revision instructions tool_schema policy memory_policy adapter adapter_version =
     rbind (checked_sha256_json tool_schema) (\<lambda>ts.
     rbind (checked_sha256_json policy) (\<lambda>ps.
     rbind (checked_sha256_json memory_policy) (\<lambda>ms.
     validate_subject
       \<lparr>sf_provider = provider, sf_model = model, sf_application_revision = revision,
        sf_instructions_sha256 = sha256_text instructions, sf_tool_schema_sha256 = ts,
        sf_policy_sha256 = ps, sf_memory_policy_sha256 = ms,
        sf_adapter = adapter, sf_adapter_version = adapter_version\<rparr>)))"

definition subject_material :: "subject_fingerprint \<Rightarrow> json" where
  "subject_material s = JObj
     [(''provider'', JStr (sf_provider s)),
      (''model'', JStr (sf_model s)),
      (''application_revision'', JStr (sf_application_revision s)),
      (''instructions_sha256'', JStr (sf_instructions_sha256 s)),
      (''tool_schema_sha256'', JStr (sf_tool_schema_sha256 s)),
      (''policy_sha256'', JStr (sf_policy_sha256 s)),
      (''memory_policy_sha256'', JStr (sf_memory_policy_sha256 s)),
      (''adapter'', JStr (sf_adapter s)),
      (''adapter_version'', JStr (sf_adapter_version s))]"

definition subject_identity :: "subject_fingerprint \<Rightarrow> string" where
  "subject_identity s = sha256_json (subject_material s)"

text \<open>
  \<open>snapshot\<close> re-validates the object's own JSON, which holds every field; so does
  \<open>validate_subject\<close> on the record.
\<close>

definition snapshot_subject :: "subject_fingerprint \<Rightarrow> error + subject_fingerprint" where
  "snapshot_subject s = validate_subject s"

subsection \<open>Handoff grants\<close>

record handoff_grant =
  hg_source_agent :: string
  hg_target_agent :: string
  hg_allowed_tools :: "string set"
  hg_allowed_resource_scopes :: "resource_scope list"
  hg_additional_approval :: "string set"
  hg_max_tool_calls :: int
  hg_max_handoffs :: int

text \<open>A dict keyed by canonical text: a later scope replaces an equal earlier one.\<close>

definition canonical_resource_scopes :: "resource_scope list \<Rightarrow> resource_scope list" where
  "canonical_resource_scopes ss =
     (let m = map (\<lambda>s. (scope_canonical_json s, s)) ss
      in map (\<lambda>k. the (map_of (rev m) k)) (sort (remdups (map fst m))))"

definition blank_name :: "string set \<Rightarrow> bool" where
  "blank_name S \<longleftrightarrow> (\<exists>n \<in> S. py_strip n = [])"

definition validate_scope :: "resource_scope \<Rightarrow> error + unit" where
  "validate_scope s =
     (if rs_schema_version s \<noteq> resource_schema then Inl (verr ''schema_version: literal'')
      else rbind (mk_resource_scope (rs_domain s) (rs_components s)) (\<lambda>_. Inr ()))"

definition grant_transition :: "handoff_grant \<Rightarrow> string \<times> string" where
  "grant_transition g = (hg_source_agent g, hg_target_agent g)"

definition validate_grant :: "handoff_grant \<Rightarrow> error + handoff_grant" where
  "validate_grant g =
     (let ws = verr ''agent identities must not contain surrounding whitespace'';
          nm = verr ''tool identities must be non-empty strings'' in
     rbind (raise_if
       [(\<not> bounded_text 1 256 (hg_source_agent g), verr ''source_agent: length''),
        (hg_source_agent g \<noteq> py_strip (hg_source_agent g), ws),
        (\<not> bounded_text 1 256 (hg_target_agent g), verr ''target_agent: length''),
        (hg_target_agent g \<noteq> py_strip (hg_target_agent g), ws),
        (blank_name (hg_allowed_tools g), nm)]) (\<lambda>_.
     rbind (rfor validate_scope (hg_allowed_resource_scopes g)) (\<lambda>_.
     rbind (raise_if
       [(blank_name (hg_additional_approval g), nm),
        (hg_max_tool_calls g < 0 \<or> hg_max_tool_calls g > 10000, verr ''max_tool_calls: range''),
        (hg_max_handoffs g < 0 \<or> hg_max_handoffs g > 1000, verr ''max_handoffs: range''),
        (hg_source_agent g = hg_target_agent g,
         verr ''handoff authority must transfer to a distinct target agent''),
        (\<not> hg_additional_approval g \<subseteq> hg_allowed_tools g,
         verr (''additional approval-required tools must also be delegated: ''
               @ strs_repr (py_sorted (hg_additional_approval g - hg_allowed_tools g))))]) (\<lambda>_.
     Inr (g\<lparr>hg_allowed_resource_scopes := canonical_resource_scopes (hg_allowed_resource_scopes g)\<rparr>)))))"

definition grant_authorizes_tool :: "handoff_grant \<Rightarrow> string \<Rightarrow> bool" where
  "grant_authorizes_tool g t \<longleftrightarrow> t \<in> hg_allowed_tools g"

definition scopes_admit :: "resource_scope list \<Rightarrow> resource_identifier \<Rightarrow> bool" where
  "scopes_admit ss r \<longleftrightarrow> list_ex (\<lambda>s. contains_identifier s r) ss"

definition grant_authorizes_resource :: "handoff_grant \<Rightarrow> resource_identifier \<Rightarrow> bool" where
  "grant_authorizes_resource g r \<longleftrightarrow> scopes_admit (hg_allowed_resource_scopes g) r"

subsection \<open>Authority policy\<close>

record authority_policy =
  ap_allowed_tools :: "string set"
  ap_forbidden_tools :: "string set"
  ap_approval_required_tools :: "string set"
  ap_allowed_resource_scopes :: "resource_scope list"
  ap_max_turns :: int
  ap_max_tool_calls :: int
  ap_max_handoffs :: int
  ap_root_agent :: "string option"
  ap_handoff_grants :: "handoff_grant list"

text \<open>
  The reachability loop: one pass walks the pending grants in order, following those whose
  source is already reachable; passes repeat until none is pending, and one without progress
  raises.
\<close>

fun reach_pass ::
  "handoff_grant list \<Rightarrow> string set \<Rightarrow> string set \<times> bool \<times> handoff_grant list" where
  "reach_pass [] R = (R, False, [])"
| "reach_pass (g # gs) R =
     (if hg_source_agent g \<in> R
      then (let (R', _, remaining) = reach_pass gs (insert (hg_target_agent g) R)
            in (R', True, remaining))
      else (let (R', progressed, remaining) = reach_pass gs R
            in (R', progressed, g # remaining)))"

lemma reach_pass_length: "reach_pass gs R = (R', p, rs) \<Longrightarrow> length rs \<le> length gs \<and> (p \<longrightarrow> length rs < length gs)"
  by (induction gs R arbitrary: R' p rs rule: reach_pass.induct)
    (fastforce split: if_splits prod.splits)+

definition unreachable_error :: "handoff_grant list \<Rightarrow> error" where
  "unreachable_error rs =
     verr (''handoff authority graph contains transitions unreachable from root_agent: ''
       @ strs_repr (sort (map (\<lambda>g. hg_source_agent g @ ''->'' @ hg_target_agent g) rs)))"

function reach_loop :: "handoff_grant list \<Rightarrow> string set \<Rightarrow> error + unit" where
  "reach_loop pending R =
     (if pending = [] then Inr ()
      else (let (R', progressed, remaining) = reach_pass pending R
            in if progressed then reach_loop remaining R' else Inl (unreachable_error remaining)))"
  by pat_completeness auto
termination
  by (relation "measure (length \<circ> fst)") (auto dest: reach_pass_length [OF sym])

declare reach_loop.simps [simp del]

text \<open>The checks on one grant, in the loop over the grants.\<close>

definition grant_within_root :: "authority_policy \<Rightarrow> handoff_grant \<Rightarrow> error + unit" where
  "grant_within_root p g = rbind (raise_if
     [(\<not> hg_allowed_tools g \<subseteq> ap_allowed_tools p,
       verr (''handoff grant tools must remain within root authority: ''
             @ strs_repr (py_sorted (hg_allowed_tools g - ap_allowed_tools p)))),
      (hg_max_tool_calls g > ap_max_tool_calls p,
       verr ''handoff grant tool budget cannot exceed root tool budget''),
      (hg_max_handoffs g > ap_max_handoffs p,
       verr ''handoff grant handoff budget cannot exceed root handoff budget'')]) (\<lambda>_.
     rfor (\<lambda>s. raise_if
       [(\<not> list_ex (\<lambda>parent. contains_scope parent s) (ap_allowed_resource_scopes p),
         verr (''handoff grant resource scope must remain within root resource authority: ''
               @ scope_canonical_json s))]) (hg_allowed_resource_scopes g))"

definition validate_authority :: "authority_policy \<Rightarrow> error + unit" where
  "validate_authority p =
     rbind (raise_if
       [(ap_allowed_tools p \<inter> ap_forbidden_tools p \<noteq> {},
         verr (''tools cannot be both allowed and forbidden: ''
               @ strs_repr (py_sorted (ap_allowed_tools p \<inter> ap_forbidden_tools p)))),
        (\<not> ap_approval_required_tools p \<subseteq> ap_allowed_tools p,
         verr (''approval-required tools must also be allowed: ''
               @ strs_repr (py_sorted (ap_approval_required_tools p - ap_allowed_tools p)))),
        (ap_handoff_grants p \<noteq> [] \<and> ap_root_agent p = None,
         verr ''handoff authority grants require an exact root_agent identity''),
        (\<not> distinct (map grant_transition (ap_handoff_grants p)),
         verr ''handoff authority transitions must be unique'')]) (\<lambda>_.
     rbind (rfor (grant_within_root p) (ap_handoff_grants p)) (\<lambda>_.
     case ap_root_agent p of
       None \<Rightarrow> Inr ()
     | Some root \<Rightarrow> if ap_handoff_grants p = [] then Inr ()
                    else reach_loop (ap_handoff_grants p) {root}))"

definition policy_field_checks :: "authority_policy \<Rightarrow> error + unit" where
  "policy_field_checks p =
     (let nm = verr ''tool identities must be non-empty strings'' in
     rbind (raise_if
       [(blank_name (ap_allowed_tools p), nm),
        (blank_name (ap_forbidden_tools p), nm),
        (blank_name (ap_approval_required_tools p), nm)]) (\<lambda>_.
     rbind (rfor validate_scope (ap_allowed_resource_scopes p)) (\<lambda>_.
     raise_if
       [(ap_max_turns p < 1 \<or> ap_max_turns p > 10000, verr ''max_turns: range''),
        (ap_max_tool_calls p < 0 \<or> ap_max_tool_calls p > 10000, verr ''max_tool_calls: range''),
        (ap_max_handoffs p < 0 \<or> ap_max_handoffs p > 1000, verr ''max_handoffs: range''),
        (case ap_root_agent p of None \<Rightarrow> False | Some a \<Rightarrow> \<not> bounded_text 1 256 a,
         verr ''root_agent: length''),
        (case ap_root_agent p of None \<Rightarrow> False | Some a \<Rightarrow> a \<noteq> py_strip a,
         verr ''root agent identity must not contain surrounding whitespace'')])))"

definition validate_policy :: "authority_policy \<Rightarrow> error + authority_policy" where
  "validate_policy p =
     rbind (policy_field_checks p) (\<lambda>_.
     rbind (rmap validate_grant (ap_handoff_grants p)) (\<lambda>gs.
     let p' = p\<lparr>ap_allowed_resource_scopes := canonical_resource_scopes (ap_allowed_resource_scopes p),
                ap_handoff_grants := sort_key grant_transition gs\<rparr>
     in rbind (validate_authority p') (\<lambda>_. Inr p')))"

definition has_handoff_authority :: "authority_policy \<Rightarrow> bool" where
  "has_handoff_authority p \<longleftrightarrow> ap_root_agent p \<noteq> None \<or> ap_handoff_grants p \<noteq> []"

definition find_handoff_grant :: "authority_policy \<Rightarrow> string \<Rightarrow> string \<Rightarrow> handoff_grant option" where
  "find_handoff_grant p src tgt =
     List.find (\<lambda>g. hg_source_agent g = src \<and> hg_target_agent g = tgt) (ap_handoff_grants p)"

definition policy_authorizes_tool :: "authority_policy \<Rightarrow> string \<Rightarrow> bool" where
  "policy_authorizes_tool p t \<longleftrightarrow> t \<in> ap_allowed_tools p \<and> t \<notin> ap_forbidden_tools p"

definition policy_authorizes_resource :: "authority_policy \<Rightarrow> resource_identifier \<Rightarrow> bool" where
  "policy_authorizes_resource p r \<longleftrightarrow> scopes_admit (ap_allowed_resource_scopes p) r"

subsection \<open>Approval paths\<close>

text \<open>
  \<open>_agent_path_requires_approval\<close> searches the grant graph depth first over pairs of an
  agent and whether approval is already required on the path to it. The stack \<open>pending\<close> is
  kept with its top first. \<open>path_scan\<close> is the inner loop over the grants: \<open>None\<close> is
  its early \<open>return True\<close>, otherwise the stack it leaves.
\<close>

type_synonym path_state = "string \<times> bool"

fun path_scan ::
  "string \<Rightarrow> string \<Rightarrow> string \<Rightarrow> bool \<Rightarrow> handoff_grant list \<Rightarrow> path_state list \<Rightarrow> path_state list option" where
  "path_scan agent tool src required [] pending = Some pending"
| "path_scan agent tool src required (g # gs) pending =
     (if hg_source_agent g \<noteq> src \<or> tool \<notin> hg_allowed_tools g
      then path_scan agent tool src required gs pending
      else (let child_required = required \<or> tool \<in> hg_additional_approval g in
        if hg_target_agent g = agent \<and> child_required then None
        else path_scan agent tool src required gs ((hg_target_agent g, child_required) # pending)))"

lemma path_scan_pushes:
  "path_scan agent tool src r gs pending = Some pending' \<Longrightarrow>
   \<exists>new. pending' = new @ pending \<and> fst ` set new \<subseteq> hg_target_agent ` set gs"
proof (induction gs arbitrary: pending)
  case (Cons g gs)
  show ?case
  proof (cases "hg_source_agent g \<noteq> src \<or> tool \<notin> hg_allowed_tools g")
    case True
    with Cons.prems have "path_scan agent tool src r gs pending = Some pending'" by simp
    then obtain new where "pending' = new @ pending" "fst ` set new \<subseteq> hg_target_agent ` set gs"
      using Cons.IH by blast
    then show ?thesis by (intro exI [of _ new]) auto
  next
    case False
    let ?n = "(hg_target_agent g, r \<or> tool \<in> hg_additional_approval g)"
    have "path_scan agent tool src r gs (?n # pending) = Some pending'"
      using False Cons.prems by (auto simp: Let_def split: if_splits)
    then obtain new where "pending' = new @ ?n # pending" "fst ` set new \<subseteq> hg_target_agent ` set gs"
      using Cons.IH by blast
    then show ?thesis by (intro exI [of _ "new @ [?n]"]) auto
  qed
qed simp

definition path_universe :: "handoff_grant list \<Rightarrow> path_state list \<Rightarrow> path_state set" where
  "path_universe gs pending = (fst ` set pending \<union> hg_target_agent ` set gs) \<times> UNIV"

lemma finite_path_universe [simp]: "finite (path_universe gs pending)"
  by (simp add: path_universe_def)

function path_search ::
  "handoff_grant list \<Rightarrow> string \<Rightarrow> string \<Rightarrow> path_state list \<Rightarrow> path_state set \<Rightarrow> bool" where
  "path_search gs agent tool [] visited = False"
| "path_search gs agent tool ((src, required) # pending) visited =
     (if (src, required) \<in> visited then path_search gs agent tool pending visited
      else (case path_scan agent tool src required gs pending of
          None \<Rightarrow> True
        | Some pending' \<Rightarrow> path_search gs agent tool pending' (insert (src, required) visited)))"
  by pat_completeness auto

text \<open>A popped state is dropped or visited for the first time; there are finitely many.\<close>

termination
proof (relation "inv_image (less_than <*lex*> less_than)
    (\<lambda>(gs, agent, tool, pending, visited). (card (path_universe gs pending - visited), length pending))",
    goal_cases)
  case (2 gs agent tool src r pending visited)
  have "path_universe gs pending - visited \<subseteq> path_universe gs ((src, r) # pending) - visited"
    by (auto simp: path_universe_def)
  then have "card (path_universe gs pending - visited) \<le> card (path_universe gs ((src, r) # pending) - visited)"
    by (intro card_mono) auto
  then show ?case by auto
next
  case (3 gs agent tool src r pending visited pending')
  then obtain new where "pending' = new @ pending" "fst ` set new \<subseteq> hg_target_agent ` set gs"
    using path_scan_pushes by blast
  then have "path_universe gs pending' \<subseteq> path_universe gs ((src, r) # pending)"
    by (auto simp: path_universe_def)
  moreover have "(src, r) \<in> path_universe gs ((src, r) # pending)"
    by (simp add: path_universe_def)
  ultimately have "path_universe gs pending' - insert (src, r) visited \<subset> path_universe gs ((src, r) # pending) - visited"
    using 3(1) by blast
  then have "card (path_universe gs pending' - insert (src, r) visited) < card (path_universe gs ((src, r) # pending) - visited)"
    by (intro psubset_card_mono) auto
  then show ?case by simp
qed (intro wf_inv_image wf_lex_prod wf_less_than)

definition agent_path_requires_approval :: "authority_policy \<Rightarrow> string \<Rightarrow> string \<Rightarrow> bool" where
  "agent_path_requires_approval p agent tool =
     (let root_required = tool \<in> ap_approval_required_tools p in
      if \<not> has_handoff_authority p then root_required
      else if ap_root_agent p = Some agent then root_required
      else (case ap_root_agent p of None \<Rightarrow> False
        | Some root \<Rightarrow> path_search (ap_handoff_grants p) agent tool [(root, root_required)] {}))"

subsection \<open>Evaluation scenario\<close>

record evaluation_scenario =
  es_scenario_id :: string
  es_revision :: string
  es_kind :: scenario_kind
  es_objective :: string
  es_initial_state :: dict
  es_authority :: authority_policy
  es_approval_intent :: "approval_intent_spec option"
  es_semantic_rubric :: "semantic_rubric option"
  es_retrieval :: "retrieval_contract option"
  es_side_effect :: "side_effect_spec option"
  es_required_outcomes :: dict
  es_forbidden_outcomes :: dict
  es_tags :: "string set"

definition outcome_conflicts :: "dict \<Rightarrow> dict \<Rightarrow> string list" where
  "outcome_conflicts required forbidden =
     map fst (filter (\<lambda>(k, v). case dict_get forbidden k of None \<Rightarrow> False | Some w \<Rightarrow> py_eq w v) required)"

definition require_json_serializable :: "dict \<Rightarrow> error + unit" where
  "require_json_serializable d =
     (if finite_json (JObj d) then Inr ()
      else Inl (verr ''scenario state/outcomes must be finite JSON-compatible data''))"

definition validate_optional :: "('a \<Rightarrow> error + 'a) \<Rightarrow> 'a option \<Rightarrow> error + 'a option" where
  "validate_optional f x = (case x of None \<Rightarrow> Inr None | Some y \<Rightarrow> rbind (f y) (\<lambda>z. Inr (Some z)))"

definition scenario_model_checks :: "evaluation_scenario \<Rightarrow> error + unit" where
  "scenario_model_checks s =
     (let conflicts = outcome_conflicts (es_required_outcomes s) (es_forbidden_outcomes s) in
      raise_if
       ((conflicts \<noteq> [],
         verr (''outcomes cannot be simultaneously required and forbidden: ''
               @ strs_repr (sort conflicts)))
        # (case es_approval_intent s of None \<Rightarrow> [] | Some a \<Rightarrow>
            [(\<not> policy_authorizes_tool (es_authority s) (ai_tool a),
              verr ''approval intent target tool must be inside root scenario authority''),
             (\<not> agent_path_requires_approval (es_authority s) (ai_agent a) (ai_tool a),
              verr ''approval intent target must be approval-required on at least one configured authority path to that agent'')])))"

definition validate_scenario :: "evaluation_scenario \<Rightarrow> error + evaluation_scenario" where
  "validate_scenario s =
     rbind (raise_if
       [(\<not> id_pattern ''._-'' 2 127 (es_scenario_id s), verr ''scenario_id: pattern''),
        (es_revision s = [], verr ''revision: min_length''),
        (\<not> bounded_text 1 20000 (es_objective s), verr ''objective: length'')]) (\<lambda>_.
     rbind (require_json_serializable (es_initial_state s)) (\<lambda>_.
     rbind (validate_policy (es_authority s)) (\<lambda>authority.
     rbind (validate_optional (\<lambda>a. rbind (validate_approval_spec a) (\<lambda>_. Inr a)) (es_approval_intent s)) (\<lambda>_.
     rbind (validate_optional validate_rubric (es_semantic_rubric s)) (\<lambda>rubric.
     rbind (validate_optional validate_retrieval_contract (es_retrieval s)) (\<lambda>retrieval.
     rbind (validate_optional validate_side_effect_spec (es_side_effect s)) (\<lambda>side_effect.
     rbind (require_json_serializable (es_required_outcomes s)) (\<lambda>_.
     rbind (require_json_serializable (es_forbidden_outcomes s)) (\<lambda>_.
     rbind (raise_if [(blank_name (es_tags s), verr ''scenario tags must be non-empty strings'')]) (\<lambda>_.
     let s' = s\<lparr>es_authority := authority, es_semantic_rubric := rubric, es_retrieval := retrieval,
               es_side_effect := side_effect\<rparr>
     in rbind (scenario_model_checks s') (\<lambda>_. Inr s')))))))))))"

text \<open>\<open>snapshot\<close> re-validates the scenario's own JSON, which holds every field.\<close>

definition snapshot_scenario :: "evaluation_scenario \<Rightarrow> error + evaluation_scenario" where
  "snapshot_scenario s = validate_scenario s"

subsection \<open>Identity material\<close>

text \<open>\<open>_canonicalize\<close> of a frozenset lists its members in the order of their JSON texts.\<close>

definition set_material :: "string set \<Rightarrow> json" where
  "set_material S = JArr (sort_key json_dumps (map JStr (py_sorted S)))"

definition grant_material :: "handoff_grant \<Rightarrow> json" where
  "grant_material g = JObj
     [(''source_agent'', JStr (hg_source_agent g)),
      (''target_agent'', JStr (hg_target_agent g)),
      (''allowed_tools'', set_material (hg_allowed_tools g)),
      (''allowed_resource_scopes'', JArr (map scope_material (hg_allowed_resource_scopes g))),
      (''additional_approval_required_tools'', set_material (hg_additional_approval g)),
      (''max_tool_calls'', JInt (hg_max_tool_calls g)),
      (''max_handoffs'', JInt (hg_max_handoffs g))]"

definition policy_material :: "authority_policy \<Rightarrow> json" where
  "policy_material p = JObj
     ([(''allowed_tools'', set_material (ap_allowed_tools p)),
       (''forbidden_tools'', set_material (ap_forbidden_tools p)),
       (''approval_required_tools'', set_material (ap_approval_required_tools p)),
       (''allowed_resource_scopes'', JArr (map scope_material (ap_allowed_resource_scopes p))),
       (''max_turns'', JInt (ap_max_turns p)),
       (''max_tool_calls'', JInt (ap_max_tool_calls p)),
       (''max_handoffs'', JInt (ap_max_handoffs p))]
      @ opt_field True ''root_agent'' (map_option JStr (ap_root_agent p))
      @ [(''handoff_grants'', JArr (map grant_material (ap_handoff_grants p)))])"

definition scenario_material :: "evaluation_scenario \<Rightarrow> json" where
  "scenario_material s = JObj
     ([(''scenario_id'', JStr (es_scenario_id s)),
       (''revision'', JStr (es_revision s)),
       (''kind'', JStr (scenario_kind_value (es_kind s))),
       (''objective'', JStr (es_objective s)),
       (''initial_state'', JObj (es_initial_state s)),
       (''authority'', policy_material (es_authority s))]
      @ opt_field True ''approval_intent'' (map_option approval_spec_material (es_approval_intent s))
      @ opt_field True ''semantic_rubric'' (map_option rubric_material (es_semantic_rubric s))
      @ opt_field True ''retrieval'' (map_option retrieval_material (es_retrieval s))
      @ opt_field True ''side_effect_idempotency'' (map_option side_effect_material (es_side_effect s))
      @ [(''required_outcomes'', JObj (es_required_outcomes s)),
         (''forbidden_outcomes'', JObj (es_forbidden_outcomes s)),
         (''tags'', set_material (es_tags s))])"

definition scenario_identity :: "evaluation_scenario \<Rightarrow> string" where
  "scenario_identity s = sha256_json (scenario_material s)"

end
