(* ===== verification/PolicyGraph.thy ===== *)
theory PolicyGraph
  imports Contracts
begin

section \<open>Handoff graphs and validated contracts\<close>

text \<open>
  The two graph searches of \<open>contracts/models.py\<close> against inductive specifications, and
  what a validated policy or scenario satisfies: its invariant \<open>wf_policy\<close>, and that
  validating it again (\<open>snapshot\<close>) gives the same record.
\<close>

subsection \<open>Reachability from the root agent\<close>

inductive reaches :: "handoff_grant list \<Rightarrow> string \<Rightarrow> string \<Rightarrow> bool" for gs root where
  reaches_root: "reaches gs root root"
| reaches_step: "reaches gs root (hg_source_agent g) \<Longrightarrow> g \<in> set gs \<Longrightarrow> reaches gs root (hg_target_agent g)"

lemma reach_pass_facts:
  assumes "reach_pass ps R = (R', progressed, remaining)"
  shows "R \<subseteq> R' \<and> set remaining \<subseteq> set ps
    \<and> (\<forall>g \<in> set ps. g \<in> set remaining \<or> hg_source_agent g \<in> R' \<and> hg_target_agent g \<in> R')
    \<and> (\<not> progressed \<longrightarrow> R' = R \<and> remaining = ps \<and> (\<forall>g \<in> set ps. hg_source_agent g \<notin> R))"
  using assms
proof (induction ps R arbitrary: R' progressed remaining rule: reach_pass.induct)
  case (2 g gs R)
  show ?case
  proof (cases "hg_source_agent g \<in> R")
    case True
    then obtain pr where "reach_pass gs (insert (hg_target_agent g) R) = (R', pr, remaining)" "progressed"
      using 2(3) by (auto split: prod.splits)
    from 2(1) [OF True this(1)] this(2) True show ?thesis
      by (intro conjI ballI) auto
  next
    case False
    then obtain rs where "reach_pass gs R = (R', progressed, rs)" "remaining = g # rs"
      using 2(3) by (auto split: prod.splits)
    from 2(2) [OF False this(1)] this(2) False show ?thesis
      by (intro conjI ballI impI) auto
  qed
qed simp

lemma reach_pass_sound:
  assumes "reach_pass ps R = (R', progressed, remaining)" "set ps \<subseteq> set gs" "\<forall>a \<in> R. reaches gs root a"
  shows "\<forall>a \<in> R'. reaches gs root a"
  using assms
proof (induction ps R arbitrary: R' progressed remaining rule: reach_pass.induct)
  case (2 g ps R)
  then show ?case
    by (cases "hg_source_agent g \<in> R") (auto intro: reaches_step split: prod.splits)
qed simp

lemma reaches_closed:
  assumes "reaches gs root a" "root \<in> R" "\<forall>g \<in> set gs. hg_source_agent g \<in> R \<longrightarrow> hg_target_agent g \<in> R"
  shows "a \<in> R"
  using assms by (induction rule: reaches.induct) auto

lemma reach_loop_iff:
  assumes "set ps \<subseteq> set gs" "root \<in> R" "\<forall>a \<in> R. reaches gs root a"
    and "\<forall>g \<in> set gs. g \<in> set ps \<or> hg_source_agent g \<in> R \<and> hg_target_agent g \<in> R"
  shows "reach_loop ps R = Inr () \<longleftrightarrow> (\<forall>g \<in> set ps. reaches gs root (hg_source_agent g))"
  using assms
proof (induction ps R rule: reach_loop.induct)
  case (1 ps R)
  obtain R' progressed rs where pass: "reach_pass ps R = (R', progressed, rs)"
    by (cases "reach_pass ps R") auto
  note f = reach_pass_facts [OF pass] and sound = reach_pass_sound [OF pass 1(2) 1(4)]
  show ?case
  proof (cases "ps = [] \<or> \<not> progressed")
    case True
    show ?thesis
    proof (cases "ps = []")
      case False
      then have np: "\<not> progressed" using True by simp
      then have closed: "\<forall>g \<in> set gs. hg_source_agent g \<in> R \<longrightarrow> hg_target_agent g \<in> R"
        using f 1(5) by blast
      have "\<not> reaches gs root (hg_source_agent g)" if "g \<in> set ps" for g
        using reaches_closed [OF _ 1(3) closed] f np that by blast
      moreover obtain g where "g \<in> set ps" using False by (cases ps) auto
      ultimately show ?thesis using np pass False by (subst reach_loop.simps) auto
    qed (simp add: reach_loop.simps)
  next
    case False
    then have "reach_loop ps R = reach_loop rs R'"
      using pass by (subst reach_loop.simps) simp
    also have "\<dots> = Inr () \<longleftrightarrow> (\<forall>g \<in> set rs. reaches gs root (hg_source_agent g))"
      using False pass f 1(2-5) sound by (intro 1(1)) auto
    also have "\<dots> \<longleftrightarrow> (\<forall>g \<in> set ps. reaches gs root (hg_source_agent g))"
      using f sound by blast
    finally show ?thesis .
  qed
qed

lemma reach_loop_reaches:
  "reach_loop gs {root} = Inr () \<longleftrightarrow> (\<forall>g \<in> set gs. reaches gs root (hg_source_agent g))"
  by (intro reach_loop_iff) (auto intro: reaches_root)

subsection \<open>Approval paths\<close>

text \<open>
  \<open>tool_path gs t a0 r0 a r\<close>: authority over the tool \<open>t\<close> can be handed from \<open>a0\<close>
  to \<open>a\<close>, arriving with approval required iff \<open>r\<close>.
\<close>

inductive tool_path ::
  "handoff_grant list \<Rightarrow> string \<Rightarrow> string \<Rightarrow> bool \<Rightarrow> string \<Rightarrow> bool \<Rightarrow> bool" for gs tool a0 r0 where
  tool_path_root: "tool_path gs tool a0 r0 a0 r0"
| tool_path_step: "tool_path gs tool a0 r0 (hg_source_agent g) r \<Longrightarrow> g \<in> set gs \<Longrightarrow>
    tool \<in> hg_allowed_tools g \<Longrightarrow>
    tool_path gs tool a0 r0 (hg_target_agent g) (r \<or> tool \<in> hg_additional_approval g)"

definition path_succ :: "handoff_grant list \<Rightarrow> string \<Rightarrow> path_state \<Rightarrow> path_state set" where
  "path_succ gs tool st =
     {(hg_target_agent g, snd st \<or> tool \<in> hg_additional_approval g) | g.
        g \<in> set gs \<and> hg_source_agent g = fst st \<and> tool \<in> hg_allowed_tools g}"

lemma path_scan_result:
  "case path_scan agent tool src r gs pending of
     None \<Rightarrow> (agent, True) \<in> path_succ gs tool (src, r)
   | Some p' \<Rightarrow> set p' = set pending \<union> path_succ gs tool (src, r) \<and>
       (agent, True) \<notin> path_succ gs tool (src, r)"
proof (induction gs arbitrary: pending)
  case Nil
  then show ?case by (simp add: path_succ_def)
next
  case (Cons g gs)
  let ?n = "(hg_target_agent g, r \<or> tool \<in> hg_additional_approval g)"
  show ?case
  proof (cases "hg_source_agent g \<noteq> src \<or> tool \<notin> hg_allowed_tools g")
    case True
    then have "path_succ (g # gs) tool (src, r) = path_succ gs tool (src, r)"
      by (auto simp: path_succ_def)
    with Cons.IH [of pending] True show ?thesis by (auto split: option.splits)
  next
    case False
    then have "path_succ (g # gs) tool (src, r) = insert ?n (path_succ gs tool (src, r))"
      by (auto simp: path_succ_def)
    with Cons.IH [of "?n # pending"] False show ?thesis by (auto simp: Let_def split: option.splits)
  qed
qed

lemma path_scan_None:
  "path_scan agent tool src r gs pending = None \<longleftrightarrow> (agent, True) \<in> path_succ gs tool (src, r)"
  using path_scan_result [of agent gs tool src r pending]
  by (cases "path_scan agent tool src r gs pending") auto

lemma path_scan_Some:
  "path_scan agent tool src r gs pending = Some p' \<Longrightarrow> set p' = set pending \<union> path_succ gs tool (src, r)"
  using path_scan_result [of agent gs tool src r pending] by simp

lemma tool_path_succ:
  "tool_path gs tool a0 r0 (fst st) (snd st) \<Longrightarrow> st' \<in> path_succ gs tool st \<Longrightarrow>
   tool_path gs tool a0 r0 (fst st') (snd st')"
  by (clarsimp simp: path_succ_def) (metis tool_path_step)

lemma tool_path_closed:
  assumes "tool_path gs tool a0 r0 a r" "(a0, r0) \<in> V" "\<forall>st \<in> V. path_succ gs tool st \<subseteq> V"
  shows "(a, r) \<in> V"
  using assms
proof (induction rule: tool_path.induct)
  case (tool_path_step g r)
  then have "(hg_target_agent g, r \<or> tool \<in> hg_additional_approval g) \<in> path_succ gs tool (hg_source_agent g, r)"
    by (auto simp: path_succ_def)
  with tool_path_step show ?case by blast
qed

lemma path_search_iff:
  assumes "(a0, r0) \<in> set pending \<union> visited"
    and "\<forall>st \<in> set pending \<union> visited. tool_path gs tool a0 r0 (fst st) (snd st)"
    and "\<forall>st \<in> visited. path_succ gs tool st \<subseteq> set pending \<union> visited \<and> (agent, True) \<notin> path_succ gs tool st"
  shows "path_search gs agent tool pending visited \<longleftrightarrow>
    (\<exists>a r. tool_path gs tool a0 r0 a r \<and> (agent, True) \<in> path_succ gs tool (a, r))"
  using assms
proof (induction gs agent tool pending visited rule: path_search.induct)
  case (1 gs agent tool visited)
  have "(agent, True) \<notin> path_succ gs tool (a, r)" if "tool_path gs tool a0 r0 a r" for a r
    using tool_path_closed [OF that, of visited] 1 by auto
  then show ?case by auto
next
  case (2 gs agent tool src r pending visited)
  show ?case
  proof (cases "(src, r) \<in> visited")
    case True
    then have u: "set ((src, r) # pending) \<union> visited = set pending \<union> visited" by auto
    show ?thesis
      using 2(1) [OF True] 2(3-5) True unfolding u by simp
  next
    case False
    show ?thesis
    proof (cases "path_scan agent tool src r gs pending")
      case None
      then have "(agent, True) \<in> path_succ gs tool (src, r)"
        using path_scan_None [of agent tool src r gs pending] by simp
      with None 2(4) False show ?thesis by auto
    next
      case (Some p')
      have p': "set p' = set pending \<union> path_succ gs tool (src, r)"
        by (rule path_scan_Some [OF Some])
      have none: "(agent, True) \<notin> path_succ gs tool (src, r)"
        using Some path_scan_None [of agent tool src r gs pending] by simp
      have "path_search gs agent tool p' (insert (src, r) visited) \<longleftrightarrow>
        (\<exists>a r. tool_path gs tool a0 r0 a r \<and> (agent, True) \<in> path_succ gs tool (a, r))"
      proof (rule 2(2) [OF False Some])
        show "(a0, r0) \<in> set p' \<union> insert (src, r) visited" using 2(3) p' by auto
        show "\<forall>st \<in> set p' \<union> insert (src, r) visited. tool_path gs tool a0 r0 (fst st) (snd st)"
          using 2(4) p' tool_path_succ [of gs tool a0 r0 "(src, r)"] by auto
        show "\<forall>st \<in> insert (src, r) visited. path_succ gs tool st \<subseteq> set p' \<union> insert (src, r) visited
            \<and> (agent, True) \<notin> path_succ gs tool st"
          using 2(5) p' none by auto
      qed
      with False Some show ?thesis by simp
    qed
  qed
qed

text \<open>The specification of \<open>_agent_path_requires_approval\<close>.\<close>

definition approval_path :: "authority_policy \<Rightarrow> string \<Rightarrow> string \<Rightarrow> string \<Rightarrow> bool" where
  "approval_path p root agent tool \<longleftrightarrow>
     (\<exists>g r. g \<in> set (ap_handoff_grants p) \<and> hg_target_agent g = agent \<and> tool \<in> hg_allowed_tools g \<and>
        tool_path (ap_handoff_grants p) tool root (tool \<in> ap_approval_required_tools p) (hg_source_agent g) r \<and>
        (r \<or> tool \<in> hg_additional_approval g))"

lemma path_search_approval:
  "path_search (ap_handoff_grants p) agent tool [(root, tool \<in> ap_approval_required_tools p)] {} \<longleftrightarrow>
   approval_path p root agent tool"
proof -
  have "path_search (ap_handoff_grants p) agent tool [(root, tool \<in> ap_approval_required_tools p)] {} \<longleftrightarrow>
    (\<exists>a r. tool_path (ap_handoff_grants p) tool root (tool \<in> ap_approval_required_tools p) a r \<and>
      (agent, True) \<in> path_succ (ap_handoff_grants p) tool (a, r))"
    by (rule path_search_iff) (auto intro: tool_path_root)
  also have "\<dots> \<longleftrightarrow> approval_path p root agent tool"
    unfolding approval_path_def path_succ_def by auto
  finally show ?thesis .
qed

subsection \<open>Canonical forms\<close>

lemma map_of_keyed:
  assumes "k \<in> f ` set ss"
  shows "\<exists>s \<in> set ss. map_of (rev (map (\<lambda>s. (f s, s)) ss)) k = Some s \<and> f s = k"
proof -
  have "map_of (rev (map (\<lambda>s. (f s, s)) ss)) k \<noteq> None"
    using assms by (auto simp: map_of_eq_None_iff image_iff)
  then obtain s where "map_of (rev (map (\<lambda>s. (f s, s)) ss)) k = Some s" by auto
  with map_of_SomeD [OF this] show ?thesis by auto
qed

lemma canonical_scopes_keys:
  "map scope_canonical_json (canonical_resource_scopes ss) = sort (remdups (map scope_canonical_json ss))"
proof -
  have "scope_canonical_json (the (map_of (rev (map (\<lambda>s. (scope_canonical_json s, s)) ss)) k)) = k"
    if "k \<in> scope_canonical_json ` set ss" for k
    using map_of_keyed [OF that] by auto
  then show ?thesis
    by (auto simp: canonical_resource_scopes_def Let_def comp_def intro!: map_idI)
qed

lemma canonical_scopes_subset: "set (canonical_resource_scopes ss) \<subseteq> set ss"
proof
  fix s assume "s \<in> set (canonical_resource_scopes ss)"
  then obtain k where k: "k \<in> scope_canonical_json ` set ss"
    "s = the (map_of (rev (map (\<lambda>s. (scope_canonical_json s, s)) ss)) k)"
    by (auto simp: canonical_resource_scopes_def Let_def)
  with map_of_keyed [OF k(1)] show "s \<in> set ss" by auto
qed

lemma canonical_scopes_fixed:
  assumes "sorted (map scope_canonical_json ss)" "distinct (map scope_canonical_json ss)"
  shows "canonical_resource_scopes ss = ss"
proof -
  have d: "distinct (map fst (rev (map (\<lambda>s. (scope_canonical_json s, s)) ss)))"
    using assms(2) by (simp add: rev_map [symmetric] comp_def)
  have "the (map_of (rev (map (\<lambda>s. (scope_canonical_json s, s)) ss)) (scope_canonical_json s)) = s"
    if "s \<in> set ss" for s
    using map_of_is_SomeI [OF d, of "scope_canonical_json s" s] that by simp
  then show ?thesis
    using assms by (simp add: canonical_resource_scopes_def Let_def comp_def sorted_sort_id
        distinct_remdups_id map_idI)
qed

lemma canonical_scopes_idem [simp]:
  "canonical_resource_scopes (canonical_resource_scopes ss) = canonical_resource_scopes ss"
  by (rule canonical_scopes_fixed) (simp_all add: canonical_scopes_keys)

lemma validate_grant_idem:
  assumes "validate_grant g = Inr h"
  shows "validate_grant h = Inr h" "grant_transition h = grant_transition g"
    "hg_source_agent h \<noteq> hg_target_agent h" "hg_additional_approval h \<subseteq> hg_allowed_tools h"
    "0 \<le> hg_max_tool_calls h" "0 \<le> hg_max_handoffs h"
proof -
  have h: "h = g\<lparr>hg_allowed_resource_scopes := canonical_resource_scopes (hg_allowed_resource_scopes g)\<rparr>"
    using assms by (auto simp: validate_grant_def Let_def result_simps)
  have "rfor validate_scope (canonical_resource_scopes (hg_allowed_resource_scopes g)) = Inr ()"
    using assms canonical_scopes_subset
    by (fastforce simp: validate_grant_def Let_def result_simps rfor_Inr)
  then show "validate_grant h = Inr h"
    using assms by (auto simp: validate_grant_def Let_def result_simps h)
  show "grant_transition h = grant_transition g"
    "hg_source_agent h \<noteq> hg_target_agent h" "hg_additional_approval h \<subseteq> hg_allowed_tools h"
    "0 \<le> hg_max_tool_calls h" "0 \<le> hg_max_handoffs h"
    using assms by (auto simp: validate_grant_def Let_def result_simps h grant_transition_def)
qed

subsection \<open>The invariant of a validated policy\<close>

definition wf_policy :: "authority_policy \<Rightarrow> bool" where
  "wf_policy p \<longleftrightarrow>
     ap_allowed_tools p \<inter> ap_forbidden_tools p = {} \<and>
     ap_approval_required_tools p \<subseteq> ap_allowed_tools p \<and>
     distinct (map grant_transition (ap_handoff_grants p)) \<and>
     sorted (map grant_transition (ap_handoff_grants p)) \<and>
     (\<forall>g \<in> set (ap_handoff_grants p).
        hg_source_agent g \<noteq> hg_target_agent g \<and>
        hg_additional_approval g \<subseteq> hg_allowed_tools g \<and>
        hg_allowed_tools g \<subseteq> ap_allowed_tools p \<and>
        hg_max_tool_calls g \<le> ap_max_tool_calls p \<and>
        hg_max_handoffs g \<le> ap_max_handoffs p \<and>
        scopes.covers (ap_allowed_resource_scopes p) (hg_allowed_resource_scopes g)) \<and>
     (ap_handoff_grants p \<noteq> [] \<longrightarrow> (\<exists>root. ap_root_agent p = Some root \<and>
        (\<forall>g \<in> set (ap_handoff_grants p). reaches (ap_handoff_grants p) root (hg_source_agent g))))"

lemma grant_within_root_iff:
  "grant_within_root p g = Inr () \<longleftrightarrow>
     hg_allowed_tools g \<subseteq> ap_allowed_tools p \<and> hg_max_tool_calls g \<le> ap_max_tool_calls p \<and>
     hg_max_handoffs g \<le> ap_max_handoffs p \<and>
     scopes.covers (ap_allowed_resource_scopes p) (hg_allowed_resource_scopes g)"
  by (auto simp: grant_within_root_def result_simps rfor_Inr scopes.covers_def list_ex_iff)

text \<open>What \<open>validate_authority\<close> demands of a policy.\<close>

definition authority_contract :: "authority_policy \<Rightarrow> bool" where
  "authority_contract p \<longleftrightarrow>
     ap_allowed_tools p \<inter> ap_forbidden_tools p = {} \<and>
     ap_approval_required_tools p \<subseteq> ap_allowed_tools p \<and>
     distinct (map grant_transition (ap_handoff_grants p)) \<and>
     (\<forall>g \<in> set (ap_handoff_grants p).
        hg_allowed_tools g \<subseteq> ap_allowed_tools p \<and> hg_max_tool_calls g \<le> ap_max_tool_calls p \<and>
        hg_max_handoffs g \<le> ap_max_handoffs p \<and>
        scopes.covers (ap_allowed_resource_scopes p) (hg_allowed_resource_scopes g)) \<and>
     (ap_handoff_grants p \<noteq> [] \<longrightarrow> (\<exists>root. ap_root_agent p = Some root \<and>
        (\<forall>g \<in> set (ap_handoff_grants p). reaches (ap_handoff_grants p) root (hg_source_agent g))))"

lemma validate_authority_iff:
  "validate_authority p = Inr () \<longleftrightarrow>
     ap_allowed_tools p \<inter> ap_forbidden_tools p = {} \<and>
     ap_approval_required_tools p \<subseteq> ap_allowed_tools p \<and>
     distinct (map grant_transition (ap_handoff_grants p)) \<and>
     (\<forall>g \<in> set (ap_handoff_grants p). grant_within_root p g = Inr ()) \<and>
     (ap_handoff_grants p \<noteq> [] \<longrightarrow> (\<exists>root. ap_root_agent p = Some root \<and>
        (\<forall>g \<in> set (ap_handoff_grants p). reaches (ap_handoff_grants p) root (hg_source_agent g))))"
proof (cases "ap_root_agent p")
  case None
  then show ?thesis
    by (simp add: validate_authority_def result_simps rfor_Inr) blast
next
  case (Some root)
  then show ?thesis
    by (simp add: validate_authority_def result_simps rfor_Inr reach_loop_reaches)
qed

lemma validate_policy_Inr:
  assumes "validate_policy p = Inr q"
  obtains gs where "rmap validate_grant (ap_handoff_grants p) = Inr gs"
    "policy_field_checks p = Inr ()" "validate_authority q = Inr ()"
    "q = p\<lparr>ap_allowed_resource_scopes := canonical_resource_scopes (ap_allowed_resource_scopes p),
            ap_handoff_grants := sort_key grant_transition gs\<rparr>"
proof -
  from assms obtain u gs where "policy_field_checks p = Inr u" "rmap validate_grant (ap_handoff_grants p) = Inr gs"
    and "rbind (validate_authority (p\<lparr>ap_allowed_resource_scopes := canonical_resource_scopes (ap_allowed_resource_scopes p),
            ap_handoff_grants := sort_key grant_transition gs\<rparr>)) (\<lambda>_.
          Inr (p\<lparr>ap_allowed_resource_scopes := canonical_resource_scopes (ap_allowed_resource_scopes p),
            ap_handoff_grants := sort_key grant_transition gs\<rparr>)) = Inr q"
    unfolding validate_policy_def Let_def rbind_Inr by blast
  then show thesis by (intro that [of gs]) (auto simp: rbind_Inr)
qed

lemma rmap_range: "rmap f xs = Inr ys \<Longrightarrow> y \<in> set ys \<Longrightarrow> \<exists>x \<in> set xs. f x = Inr y"
  by (fastforce simp: rmap_Inr list_all2_conv_all_nth in_set_conv_nth)

lemma validate_policy_wf:
  assumes "validate_policy p = Inr q"
  shows "wf_policy q"
proof -
  obtain gs where gs: "rmap validate_grant (ap_handoff_grants p) = Inr gs"
    and va: "validate_authority q = Inr ()"
    and q: "q = p\<lparr>ap_allowed_resource_scopes := canonical_resource_scopes (ap_allowed_resource_scopes p),
                ap_handoff_grants := sort_key grant_transition gs\<rparr>"
    using assms by (rule validate_policy_Inr)
  have g: "hg_source_agent h \<noteq> hg_target_agent h" "hg_additional_approval h \<subseteq> hg_allowed_tools h"
    if "h \<in> set (ap_handoff_grants q)" for h
  proof -
    have "h \<in> set gs" using that by (simp add: q)
    then obtain g0 where "validate_grant g0 = Inr h"
      using rmap_range [OF gs] by blast
    then show "hg_source_agent h \<noteq> hg_target_agent h" "hg_additional_approval h \<subseteq> hg_allowed_tools h"
      by (auto dest: validate_grant_idem)
  qed
  have "sorted (map grant_transition (ap_handoff_grants q))" by (simp add: q)
  then show ?thesis
    using va g unfolding wf_policy_def validate_authority_iff grant_within_root_iff by blast
qed

lemma rfor_validate_scope_canonical:
  "rfor validate_scope ss = Inr () \<Longrightarrow> rfor validate_scope (canonical_resource_scopes ss) = Inr ()"
  unfolding rfor_Inr using canonical_scopes_subset by blast

lemma policy_field_checks_cong:
  assumes "policy_field_checks p = Inr ()"
  shows "policy_field_checks (p\<lparr>ap_allowed_resource_scopes := canonical_resource_scopes (ap_allowed_resource_scopes p),
    ap_handoff_grants := gs\<rparr>) = Inr ()"
  using assms rfor_validate_scope_canonical
  by (simp add: policy_field_checks_def Let_def result_simps)

lemma validate_policy_idem:
  assumes "validate_policy p = Inr q"
  shows "validate_policy q = Inr q"
proof -
  obtain gs where gs: "rmap validate_grant (ap_handoff_grants p) = Inr gs"
    and f: "policy_field_checks p = Inr ()" and va: "validate_authority q = Inr ()"
    and q: "q = p\<lparr>ap_allowed_resource_scopes := canonical_resource_scopes (ap_allowed_resource_scopes p),
                ap_handoff_grants := sort_key grant_transition gs\<rparr>"
    using assms by (rule validate_policy_Inr)
  have "validate_grant h = Inr h" if "h \<in> set (ap_handoff_grants q)" for h
    using rmap_range [OF gs, of h] that validate_grant_idem(1) unfolding q by simp blast
  then have m: "rmap validate_grant (ap_handoff_grants q) = Inr (ap_handoff_grants q)"
    by (auto simp: rmap_Inr list_all2_same)
  have fq: "policy_field_checks q = Inr ()"
    unfolding q by (rule policy_field_checks_cong [OF f])
  have "sort_key grant_transition (ap_handoff_grants q) = ap_handoff_grants q"
    by (rule sort_key_id_if_sorted) (simp add: q)
  then have "q\<lparr>ap_allowed_resource_scopes := canonical_resource_scopes (ap_allowed_resource_scopes q),
      ap_handoff_grants := sort_key grant_transition (ap_handoff_grants q)\<rparr> = q"
    by (simp add: q)
  then show ?thesis
    using va m fq by (simp add: validate_policy_def Let_def)
qed

subsection \<open>Snapshots of validated contracts\<close>

lemma validate_corpus_idem:
  assumes "mk_corpus cid rv cs = Inr c"
  shows "mk_corpus (co_corpus_id c) (co_revision c) (co_chunks c) = Inr c"
proof -
  obtain cs' where cs': "canonicalize_chunks cs = Inr cs'" and v: "rfor validate_chunk cs = Inr ()"
    and c: "c = \<lparr>co_corpus_id = cid, co_revision = rv, co_chunks = cs'\<rparr>"
    using assms by (auto simp: mk_corpus_def result_simps)
  note f = canonicalize_chunks_Inr [OF cs']
  have "set cs' = set cs" "length cs' = length cs"
    using mset_eq_setD [OF f(1)] mset_eq_length [OF f(1)] by auto
  moreover have "canonicalize_chunks cs' = Inr cs'"
    using f(2,3) by (simp add: canonicalize_chunks_def sort_key_id_if_sorted)
  ultimately show ?thesis
    using assms v by (simp add: mk_corpus_def result_simps rfor_Inr c)
qed

lemma validate_retrieval_idem:
  assumes "validate_retrieval_contract k = Inr k'"
  shows "validate_retrieval_contract k' = Inr k'"
proof -
  obtain c where c: "mk_corpus (co_corpus_id (rk_corpus k)) (co_revision (rk_corpus k)) (co_chunks (rk_corpus k)) = Inr c"
    and k': "k' = k\<lparr>rk_corpus := c\<rparr>"
    using assms by (auto simp: validate_retrieval_contract_def Let_def rbind_Inr)
  show ?thesis
    using assms c validate_corpus_idem [OF c]
    by (simp add: validate_retrieval_contract_def Let_def k')
qed

lemma validate_rubric_idem: "validate_rubric r = Inr r' \<Longrightarrow> r' = r"
  by (auto simp: validate_rubric_def rbind_Inr split: if_splits)

lemma validate_side_effect_idem: "validate_side_effect_spec s = Inr s' \<Longrightarrow> s' = s"
  by (auto simp: validate_side_effect_spec_def rbind_Inr)

lemma validate_optional_idem:
  assumes "validate_optional f x = Inr y" "\<And>a b. f a = Inr b \<Longrightarrow> f b = Inr b"
  shows "validate_optional f y = Inr y"
  using assms by (cases x) (auto simp: validate_optional_def rbind_Inr)

text \<open>A validated scenario survives \<open>snapshot\<close> unchanged.\<close>

lemma validate_scenario_idem:
  assumes "validate_scenario s = Inr t"
  shows "validate_scenario t = Inr t"
proof -
  obtain a r k e where f: "validate_policy (es_authority s) = Inr a"
    "validate_optional validate_rubric (es_semantic_rubric s) = Inr r"
    "validate_optional validate_retrieval_contract (es_retrieval s) = Inr k"
    "validate_optional validate_side_effect_spec (es_side_effect s) = Inr e"
    and t: "t = s\<lparr>es_authority := a, es_semantic_rubric := r, es_retrieval := k, es_side_effect := e\<rparr>"
    using assms unfolding validate_scenario_def Let_def rbind_Inr by blast
  have "validate_policy a = Inr a" "validate_optional validate_rubric r = Inr r"
    "validate_optional validate_retrieval_contract k = Inr k"
    "validate_optional validate_side_effect_spec e = Inr e"
    using f validate_policy_idem validate_optional_idem validate_retrieval_idem
      validate_rubric_idem validate_side_effect_idem by metis+
  then show ?thesis
    using assms f by (simp add: validate_scenario_def Let_def t)
qed

lemma validate_scenario_wf:
  assumes "validate_scenario s = Inr t"
  shows "wf_policy (es_authority t)"
  using assms validate_policy_wf by (auto simp: validate_scenario_def Let_def rbind_Inr)

end
