(* ===== verification/EvidenceLimits.thy ===== *)
theory EvidenceLimits
  imports PyJson
begin

section \<open>Resource budgets of JSON material (\<open>evidence/limits.py\<close>)\<close>

text \<open>
  \<open>validate_json_material\<close> walks a Python object graph: containers are objects with an
  identity, may be shared and may be cyclic. The graph is a store from identities to dicts
  and lists; a value is a scalar, a reference or an object of some other type. The walker is
  iterative, with a stack of values and of exit markers (kept with its top first). What it
  accepts is characterised at the end: exactly the values that unfold to a finite JSON tree
  within the budget.
\<close>

record json_budget =
  bu_max_depth :: nat
  bu_max_nodes :: nat
  bu_max_utf8_bytes :: nat

definition event_payload_budget :: json_budget where
  "event_payload_budget = \<lparr>bu_max_depth = 32, bu_max_nodes = 8192, bu_max_utf8_bytes = 256 * 1024\<rparr>"

definition final_state_budget :: json_budget where
  "final_state_budget = \<lparr>bu_max_depth = 32, bu_max_nodes = 32768, bu_max_utf8_bytes = 1024 * 1024\<rparr>"

definition receipt_material_budget :: json_budget where
  "receipt_material_budget = \<lparr>bu_max_depth = 48, bu_max_nodes = 65536, bu_max_utf8_bytes = 2 * 1024 * 1024\<rparr>"

definition max_trial_events :: nat where
  "max_trial_events = 4096"

definition max_final_output_utf8_bytes :: nat where
  "max_final_output_utf8_bytes = 1024 * 1024"

definition max_json_integer_decimal_digits :: nat where
  "max_json_integer_decimal_digits = 4096"

text \<open>\<open>ceil(4096 * log2 10)\<close>\<close>

definition max_json_integer_bits :: nat where
  "max_json_integer_bits = 13607"

subsection \<open>Object graphs\<close>

datatype pyval = PNone | PBool bool | PInt int | PFloat pyfloat | PStr string | PRef nat | POther string

datatype pyobj = PDict "(pyval \<times> pyval) list" | PList "pyval list"

type_synonym store = "nat \<Rightarrow> pyobj"

datatype stack_entry = Visit pyval nat | Exit nat

definition resource_error :: "string \<Rightarrow> string \<Rightarrow> error" where
  "resource_error label msg = Err ResourceLimitError (label @ msg)"

definition bytes_error :: "string \<Rightarrow> json_budget \<Rightarrow> error" where
  "bytes_error label b = resource_error label
     ('' exceeds maximum UTF-8 material bytes '' @ nat_str (bu_max_utf8_bytes b))"

definition nodes_error :: "string \<Rightarrow> json_budget \<Rightarrow> error" where
  "nodes_error label b = resource_error label
     ('' exceeds maximum JSON node count '' @ nat_str (bu_max_nodes b))"

definition digits_error :: "string \<Rightarrow> error" where
  "digits_error label = resource_error label
     ('' contains an integer exceeding maximum decimal digits '' @ nat_str max_json_integer_decimal_digits)"

definition bit_length :: "int \<Rightarrow> nat" where
  "bit_length i = (if i = 0 then 0 else Suc (nlog2 (nat \<bar>i\<bar>)))"

definition decimal_digits :: "int \<Rightarrow> nat" where
  "decimal_digits i = length (int_str i) - (if i < 0 then 1 else 0)"

text \<open>The material bytes of a scalar, or why it is refused.\<close>

fun scalar_bytes :: "json_budget \<Rightarrow> string \<Rightarrow> pyval \<Rightarrow> error + nat" where
  "scalar_bytes b label PNone = Inr 4"
| "scalar_bytes b label (PBool v) = Inr (if v then 4 else 5)"
| "scalar_bytes b label (PStr s) =
     (if length s > bu_max_utf8_bytes b then Inl (bytes_error label b) else Inr (length (utf8 s)))"
| "scalar_bytes b label (PInt i) =
     (if bit_length i > max_json_integer_bits then Inl (digits_error label)
      else if decimal_digits i > max_json_integer_decimal_digits then Inl (digits_error label)
      else Inr (length (int_str i)))"
| "scalar_bytes b label (PFloat x) =
     (if isfinite x then Inr 24 else Inl (resource_error label '' contains a non-finite number''))"
| "scalar_bytes b label (POther t) =
     Inl (resource_error label ('' contains unsupported JSON value type '' @ t))"
| "scalar_bytes b label (PRef a) = Inr 0"

text \<open>The loop over the items of a dict: the bytes after it and the values it pushed.\<close>

fun scan_items ::
  "json_budget \<Rightarrow> string \<Rightarrow> nat \<Rightarrow> (pyval \<times> pyval) list \<Rightarrow> nat \<Rightarrow> stack_entry list \<Rightarrow> error + nat \<times> stack_entry list" where
  "scan_items b label depth [] bytes stack = Inr (bytes, stack)"
| "scan_items b label depth ((key, child) # items) bytes stack =
     (case key of
        PStr k \<Rightarrow>
          if length k > bu_max_utf8_bytes b then Inl (bytes_error label b)
          else if bytes + length (utf8 k) > bu_max_utf8_bytes b then Inl (bytes_error label b)
          else scan_items b label depth items (bytes + length (utf8 k)) (Visit child (depth + 1) # stack)
      | _ \<Rightarrow> Inl (resource_error label '' object keys must be exact strings''))"

text \<open>One popped value: the active containers, bytes and stack after it.\<close>

definition visit ::
  "store \<Rightarrow> json_budget \<Rightarrow> string \<Rightarrow> pyval \<Rightarrow> nat \<Rightarrow> stack_entry list \<Rightarrow> nat set \<Rightarrow> nat \<Rightarrow> nat
   \<Rightarrow> error + nat set \<times> nat \<times> stack_entry list" where
  "visit h b label v depth stack active nodes bytes =
     (case v of
        PRef a \<Rightarrow>
          if a \<in> active then Inl (resource_error label '' contains a reference cycle'')
          else (case h a of
              PDict items \<Rightarrow>
                if length items > bu_max_nodes b - nodes then Inl (nodes_error label b)
                else rbind (scan_items b label depth items bytes (Exit a # stack))
                  (\<lambda>(bytes', stack'). Inr (insert a active, bytes', stack'))
            | PList xs \<Rightarrow>
                if length xs > bu_max_nodes b - nodes then Inl (nodes_error label b)
                else Inr (insert a active, bytes, rev (map (\<lambda>x. Visit x (depth + 1)) xs) @ Exit a # stack))
      | _ \<Rightarrow> rbind (scalar_bytes b label v) (\<lambda>n. Inr (active, bytes + n, stack)))"

function walk ::
  "store \<Rightarrow> json_budget \<Rightarrow> string \<Rightarrow> stack_entry list \<Rightarrow> nat set \<Rightarrow> nat \<Rightarrow> nat \<Rightarrow> error + unit" where
  "walk h b label [] active nodes bytes = Inr ()"
| "walk h b label (Exit a # stack) active nodes bytes = walk h b label stack (active - {a}) nodes bytes"
| "walk h b label (Visit v depth # stack) active nodes bytes =
     (if depth > bu_max_depth b then
        Inl (resource_error label ('' exceeds maximum JSON nesting depth '' @ nat_str (bu_max_depth b)))
      else if nodes + 1 > bu_max_nodes b then Inl (nodes_error label b)
      else (case visit h b label v depth stack active (nodes + 1) bytes of
          Inl e \<Rightarrow> Inl e
        | Inr (active', bytes', stack') \<Rightarrow>
            if bytes' > bu_max_utf8_bytes b then Inl (bytes_error label b)
            else walk h b label stack' active' (nodes + 1) bytes'))"
  by pat_completeness auto

text \<open>Every value popped counts a node below the ceiling; an exit marker shortens the stack.\<close>

termination
  by (relation "inv_image (less_than <*lex*> less_than)
    (\<lambda>(h, b, label, stack, active, nodes, bytes). (bu_max_nodes b - nodes, length stack))") auto

definition validate_json_material :: "store \<Rightarrow> pyval \<Rightarrow> json_budget \<Rightarrow> string \<Rightarrow> error + unit" where
  "validate_json_material h v b label = walk h b label [Visit v 0] {} 0 0"

definition validate_utf8_text :: "string option \<Rightarrow> nat \<Rightarrow> string \<Rightarrow> error + unit" where
  "validate_utf8_text v max_bytes label = (case v of None \<Rightarrow> Inr ()
     | Some s \<Rightarrow> if length s > max_bytes \<or> length (utf8 s) > max_bytes
         then Inl (resource_error label ('' exceeds maximum UTF-8 bytes '' @ nat_str max_bytes))
         else Inr ())"

subsection \<open>Specification: finite trees within the budget\<close>

inductive denotes :: "store \<Rightarrow> pyval \<Rightarrow> json \<Rightarrow> bool" for h where
  denotes_none: "denotes h PNone JNull"
| denotes_bool: "denotes h (PBool v) (JBool v)"
| denotes_int: "denotes h (PInt i) (JInt i)"
| denotes_float: "denotes h (PFloat x) (JFloat x)"
| denotes_str: "denotes h (PStr s) (JStr s)"
| denotes_list: "h a = PList vs \<Longrightarrow> list_all2 (denotes h) vs js \<Longrightarrow> denotes h (PRef a) (JArr js)"
| denotes_dict: "h a = PDict items \<Longrightarrow>
    list_all2 (\<lambda>kv tj. fst kv = PStr (fst tj) \<and> denotes h (snd kv) (snd tj)) items kvs \<Longrightarrow> denotes h (PRef a) (JObj kvs)"

inductive_cases denotes_cases:
  "denotes h PNone j" "denotes h (PBool v) j" "denotes h (PInt i) j" "denotes h (PFloat x) j"
  "denotes h (PStr s) j" "denotes h (POther t) j" "denotes h (PRef a) j"

fun json_nodes :: "json \<Rightarrow> nat" where
  "json_nodes (JArr xs) = Suc (sum_list (map json_nodes xs))"
| "json_nodes (JObj kvs) = Suc (sum_list (map (\<lambda>kv. json_nodes (snd kv)) kvs))"
| "json_nodes _ = 1"

fun json_bytes :: "json \<Rightarrow> nat" where
  "json_bytes JNull = 4"
| "json_bytes (JBool v) = (if v then 4 else 5)"
| "json_bytes (JInt i) = length (int_str i)"
| "json_bytes (JFloat x) = 24"
| "json_bytes (JStr s) = length (utf8 s)"
| "json_bytes (JArr xs) = sum_list (map json_bytes xs)"
| "json_bytes (JObj kvs) = sum_list (map (\<lambda>kv. length (utf8 (fst kv)) + json_bytes (snd kv)) kvs)"

fun json_scalars_ok :: "json \<Rightarrow> bool" where
  "json_scalars_ok (JInt i) =
     (bit_length i \<le> max_json_integer_bits \<and> decimal_digits i \<le> max_json_integer_decimal_digits)"
| "json_scalars_ok (JFloat x) = isfinite x"
| "json_scalars_ok (JArr xs) = list_all json_scalars_ok xs"
| "json_scalars_ok (JObj kvs) = list_all (\<lambda>kv. json_scalars_ok (snd kv)) kvs"
| "json_scalars_ok _ = True"

text \<open>All values at most \<open>d\<close> levels below the root.\<close>

fun depth_within :: "json \<Rightarrow> nat \<Rightarrow> bool" where
  "depth_within (JArr xs) d = (case d of 0 \<Rightarrow> xs = [] | Suc n \<Rightarrow> list_all (\<lambda>x. depth_within x n) xs)"
| "depth_within (JObj kvs) d =
     (case d of 0 \<Rightarrow> kvs = [] | Suc n \<Rightarrow> list_all (\<lambda>kv. depth_within (snd kv) n) kvs)"
| "depth_within _ d = True"

definition within_budget :: "json_budget \<Rightarrow> json \<Rightarrow> bool" where
  "within_budget b j \<longleftrightarrow> depth_within j (bu_max_depth b) \<and> json_nodes j \<le> bu_max_nodes b \<and>
     json_bytes j \<le> bu_max_utf8_bytes b \<and> json_scalars_ok j"

subsection \<open>The walker decides the specification\<close>

lemma denotes_fun: "denotes h v j \<Longrightarrow> denotes h v j' \<Longrightarrow> j = j'"
proof (induction arbitrary: j' rule: denotes.induct)
  case (denotes_list a vs js)
  from denotes_list.prems denotes_list.hyps(1) obtain js' where js': "j' = JArr js'" "list_all2 (denotes h) vs js'"
    by (auto elim: denotes_cases)
  have "js = js'"
    using denotes_list.IH js'(2) by (auto simp: list_all2_conv_all_nth intro: nth_equalityI)
  with js' show ?case by simp
next
  case (denotes_dict a items kvs)
  from denotes_dict.prems denotes_dict.hyps(1) obtain kvs' where kvs': "j' = JObj kvs'"
    "list_all2 (\<lambda>kv tj. fst kv = PStr (fst tj) \<and> denotes h (snd kv) (snd tj)) items kvs'"
    by (auto elim: denotes_cases)
  have "kvs ! i = kvs' ! i" if "i < length kvs" for i
    using denotes_dict.IH kvs'(2) that by (auto simp: list_all2_conv_all_nth intro!: prod_eqI)
  moreover have "length kvs = length kvs'"
    using denotes_dict.IH kvs'(2) by (simp add: list_all2_conv_all_nth)
  ultimately have "kvs = kvs'" by (auto intro: nth_equalityI)
  with kvs' show ?case by simp
qed (auto elim: denotes_cases)

lemma length_utf8: "length s \<le> length (utf8 s)"
proof (induction s)
  case (Cons c s)
  have "1 \<le> length (utf8_char c)" by (simp add: utf8_char_def Let_def)
  with Cons show ?case by (simp add: utf8_def)
qed (simp add: utf8_def)

lemma json_nodes_pos: "0 < json_nodes j"
  by (cases j) auto

lemma length_le_nodes: "length js \<le> sum_list (map json_nodes js)"
proof (induction js)
  case (Cons j js)
  then show ?case using json_nodes_pos [of j] by simp
qed simp

definition push_all :: "nat \<Rightarrow> pyval list \<Rightarrow> stack_entry list" where
  "push_all d vs = rev (map (\<lambda>v. Visit v d) vs)"

lemma scan_items_Inr:
  "scan_items b label d items bytes st = Inr (bytes', st') \<Longrightarrow>
   \<exists>ks. map fst items = map PStr ks \<and> bytes' = bytes + sum_list (map (\<lambda>k. length (utf8 k)) ks)
     \<and> st' = push_all (d + 1) (map snd items) @ st"
proof (induction items arbitrary: bytes st)
  case (Cons kv items)
  obtain k v where kv: "kv = (k, v)" by (cases kv)
  obtain t where t: "k = PStr t"
    and rest: "scan_items b label d items (bytes + length (utf8 t)) (Visit v (d + 1) # st) = Inr (bytes', st')"
    using Cons.prems by (auto simp: kv split: pyval.splits if_splits)
  from Cons.IH [OF rest] obtain ks where "map fst items = map PStr ks"
    "bytes' = bytes + length (utf8 t) + sum_list (map (\<lambda>k. length (utf8 k)) ks)"
    "st' = push_all (d + 1) (map snd items) @ Visit v (d + 1) # st" by blast
  then show ?case by (intro exI [of _ "t # ks"]) (simp add: kv t push_all_def)
qed (simp add: push_all_def)

lemma scan_items_ok:
  assumes "map fst items = map PStr ks" "bytes + sum_list (map (\<lambda>k. length (utf8 k)) ks) \<le> bu_max_utf8_bytes b"
  shows "scan_items b label d items bytes st =
    Inr (bytes + sum_list (map (\<lambda>k. length (utf8 k)) ks), push_all (d + 1) (map snd items) @ st)"
  using assms
proof (induction items arbitrary: bytes st ks)
  case (Cons kv items)
  then obtain t ks' where ks: "ks = t # ks'" "fst kv = PStr t" "map fst items = map PStr ks'"
    by (cases ks) auto
  obtain v where kv: "kv = (PStr t, v)" using ks(2) by (cases kv) auto
  have "length t \<le> bu_max_utf8_bytes b"
    using Cons.prems(2) length_utf8 [of t] by (simp add: ks)
  then show ?case
    using Cons.IH [OF ks(3), of "bytes + length (utf8 t)"] Cons.prems(2)
    by (simp add: kv ks push_all_def add.assoc)
qed (simp add: push_all_def)

fun visits :: "stack_entry list \<Rightarrow> (pyval \<times> nat) list" where
  "visits [] = []"
| "visits (Visit v d # st) = (v, d) # visits st"
| "visits (Exit a # st) = visits st"

lemma visits_append [simp]: "visits (st @ st') = visits st @ visits st'"
  by (induction st rule: visits.induct) auto

lemma visits_push [simp]: "visits (push_all d vs) = rev (map (\<lambda>v. (v, d)) vs)"
  by (induction vs) (auto simp: push_all_def)

definition entry_ok :: "store \<Rightarrow> json_budget \<Rightarrow> pyval \<times> nat \<Rightarrow> json \<Rightarrow> bool" where
  "entry_ok h b vd j \<longleftrightarrow> denotes h (fst vd) j \<and> snd vd \<le> bu_max_depth b \<and>
     depth_within j (bu_max_depth b - snd vd) \<and> json_scalars_ok j"

definition stack_ok :: "store \<Rightarrow> json_budget \<Rightarrow> (pyval \<times> nat) list \<Rightarrow> nat \<Rightarrow> nat \<Rightarrow> json list \<Rightarrow> bool" where
  "stack_ok h b vs nodes bytes js \<longleftrightarrow> list_all2 (entry_ok h b) vs js \<and>
     nodes + sum_list (map json_nodes js) \<le> bu_max_nodes b \<and>
     bytes + sum_list (map json_bytes js) \<le> bu_max_utf8_bytes b"

text \<open>Children one level deeper make their container, and conversely.\<close>

lemma entry_ok_children:
  assumes "list_all2 (entry_ok h b) (map (\<lambda>v. (v, d + 1)) vs) cs" "d \<le> bu_max_depth b"
  shows "list_all2 (denotes h) vs cs \<and> list_all json_scalars_ok cs \<and>
    (case bu_max_depth b - d of 0 \<Rightarrow> cs = [] | Suc n \<Rightarrow> list_all (\<lambda>x. depth_within x n) cs)"
proof -
  have "denotes h (vs ! i) (cs ! i)" "json_scalars_ok (cs ! i)" "d + 1 \<le> bu_max_depth b"
    "depth_within (cs ! i) (bu_max_depth b - (d + 1))" if "i < length cs" for i
    using assms(1) that by (auto simp: list_all2_conv_all_nth entry_ok_def)
  moreover have "length vs = length cs" using assms(1) by (auto dest: list_all2_lengthD)
  ultimately show ?thesis
    by (cases "bu_max_depth b - d")
      (force simp: list_all2_conv_all_nth list_all_length Suc_diff_Suc diff_Suc split: nat.splits)+
qed

lemma scalar_bytes_Inr:
  assumes "scalar_bytes b label v = Inr n" "\<forall>a. v \<noteq> PRef a"
  shows "\<exists>j. denotes h v j \<and> n = json_bytes j \<and> json_nodes j = 1 \<and> json_scalars_ok j \<and> depth_within j d"
  using assms by (cases v) (auto split: if_splits intro: denotes.intros)

lemma sum_zip:
  "length ks = length cs \<Longrightarrow>
   sum_list (map (\<lambda>kv. f (fst kv) + g (snd kv)) (zip ks cs)) = sum_list (map f ks) + (sum_list (map g cs) :: nat)"
  by (induction ks cs rule: list_induct2) auto

lemma sum_list_map_rev: "sum_list (map f (rev xs)) = (sum_list (map f xs) :: nat)"
  by (simp add: rev_map [symmetric] sum_list_rev)

text \<open>The two shapes of a container, as trees over the trees of its children.\<close>

lemma list_entry:
  assumes "h a = PList vs" "list_all2 (entry_ok h b) (map (\<lambda>v. (v, d + 1)) vs) cs" "d \<le> bu_max_depth b"
  shows "entry_ok h b (PRef a, d) (JArr cs)"
  using entry_ok_children [OF assms(2,3)] assms(1,3)
  by (auto simp: entry_ok_def intro: denotes_list split: nat.splits)

lemma dict_entry:
  assumes "h a = PDict items" "map fst items = map PStr ks"
    and cs: "list_all2 (entry_ok h b) (map (\<lambda>v. (v, d + 1)) (map snd items)) cs" and d: "d \<le> bu_max_depth b"
  shows "entry_ok h b (PRef a, d) (JObj (zip ks cs))"
proof -
  note c = entry_ok_children [OF cs d]
  have len: "length cs = length items" "length ks = length items"
    using c assms(2) by (auto dest: list_all2_lengthD map_eq_imp_length_eq)
  have "list_all2 (\<lambda>kv tj. fst kv = PStr (fst tj) \<and> denotes h (snd kv) (snd tj)) items (zip ks cs)"
    using c len assms(2) by (auto simp: list_all2_conv_all_nth) (metis nth_map)
  then have "denotes h (PRef a) (JObj (zip ks cs))" by (rule denotes_dict [of h, OF assms(1)])
  moreover have "list_all (\<lambda>kv. P (snd kv)) (zip ks cs)" if "list_all P cs" for P
    using that by (auto simp: list_all_iff dest: set_zip_rightD)
  ultimately show ?thesis
    using c d len by (auto simp: entry_ok_def split: nat.splits)
qed

lemma walk_sound:
  assumes "walk h b label st A n y = Inr u" "n \<le> bu_max_nodes b" "y \<le> bu_max_utf8_bytes b"
  shows "\<exists>js. stack_ok h b (visits st) n y js"
  using assms
proof (induction h b label st A n y rule: walk.induct)
  case (3 h b label v d st A n y)
  have d: "d \<le> bu_max_depth b" and n: "n + 1 \<le> bu_max_nodes b"
    using 3(2) by (auto split: if_splits)
  obtain A' y' st' where vis: "visit h b label v d st A (n + 1) y = Inr (A', y', st')"
    using 3(2) d n by (cases "visit h b label v d st A (n + 1) y") auto
  have y': "y' \<le> bu_max_utf8_bytes b" and w: "walk h b label st' A' (n + 1) y' = Inr u"
    using 3(2) d n vis by (auto split: if_splits)
  obtain js where js: "stack_ok h b (visits st') (n + 1) y' js"
    using 3(1) [OF _ _ vis] d n y' w by force
  show ?case
  proof (cases "\<exists>a. v = PRef a")
    case False
    then obtain m where m: "scalar_bytes b label v = Inr m" "y' = y + m" "st' = st"
      using vis by (cases v) (auto simp: visit_def result_simps)
    obtain j where "denotes h v j" "m = json_bytes j" "json_nodes j = 1" "json_scalars_ok j"
      "depth_within j (bu_max_depth b - d)"
      using scalar_bytes_Inr [OF m(1)] False by blast
    then show ?thesis
      using js m(2,3) d by (intro exI [of _ "j # js"]) (auto simp: stack_ok_def entry_ok_def)
  next
    case True
    then obtain a where v: "v = PRef a" ..
    have split: "\<exists>cs js'. js = rev cs @ js' \<and> list_all2 (entry_ok h b) (map (\<lambda>v. (v, d + 1)) vs) cs
        \<and> list_all2 (entry_ok h b) (visits st) js'"
      if "st' = push_all (d + 1) vs @ Exit a # st" for vs
      using js that unfolding stack_ok_def
      by (auto simp: list_all2_append1) (metis list_all2_rev1 rev_rev_ident)
    show ?thesis
    proof (cases "h a")
      case (PList vs)
      then have st': "st' = push_all (d + 1) vs @ Exit a # st" "y' = y"
        using vis by (auto simp: visit_def v push_all_def split: if_splits)
      then obtain cs js' where cs: "js = rev cs @ js'" "list_all2 (entry_ok h b) (map (\<lambda>v. (v, d + 1)) vs) cs"
        "list_all2 (entry_ok h b) (visits st) js'" using split by blast
      then show ?thesis
        using list_entry [where h = h, OF PList cs(2) d] js st'(2)
        by (intro exI [of _ "JArr cs # js'"]) (auto simp: stack_ok_def v sum_list_map_rev)
    next
      case (PDict items)
      then obtain ks where ks: "map fst items = map PStr ks"
        "y' = y + sum_list (map (\<lambda>k. length (utf8 k)) ks)"
        "st' = push_all (d + 1) (map snd items) @ Exit a # st"
        using vis scan_items_Inr by (fastforce simp: visit_def v result_simps split: if_splits)
      then obtain cs js' where cs: "js = rev cs @ js'"
        "list_all2 (entry_ok h b) (map (\<lambda>v. (v, d + 1)) (map snd items)) cs"
        "list_all2 (entry_ok h b) (visits st) js'" using split by blast
      have len: "length ks = length cs"
        using cs(2) ks(1) by (metis length_map list_all2_lengthD)
      have s: "sum_list (map (\<lambda>kv. json_nodes (snd kv)) (zip ks cs)) = sum_list (map json_nodes cs)"
        using sum_zip [OF len, of "\<lambda>_. 0" json_nodes] by simp
      show ?thesis
        using dict_entry [where h = h, OF PDict ks(1) cs(2) d] cs js ks(2) s
          sum_zip [OF len, of "\<lambda>k. length (utf8 k)" json_bytes]
        by (intro exI [of _ "JObj (zip ks cs) # js'"])
          (auto simp: stack_ok_def v sum_list_map_rev)
    qed
  qed
next
  case (1 h b label A n y)
  then show ?case by (intro exI [of _ "[]"]) (simp add: stack_ok_def)
qed auto

type_synonym stack_tree = "stack_entry \<times> json"

definition tree_ok :: "store \<Rightarrow> json_budget \<Rightarrow> stack_tree \<Rightarrow> bool" where
  "tree_ok h b x = (case fst x of Visit v d \<Rightarrow> entry_ok h b (v, d) (snd x)
     | Exit a \<Rightarrow> denotes h (PRef a) (snd x))"

text \<open>Everything above an exit marker is a proper part of the marked container.\<close>

definition tree_above :: "stack_tree \<Rightarrow> stack_tree \<Rightarrow> bool" where
  "tree_above x y = (case fst y of Visit v d \<Rightarrow> True | Exit a \<Rightarrow> json_nodes (snd x) < json_nodes (snd y))"

definition tree_sum :: "(json \<Rightarrow> nat) \<Rightarrow> stack_tree list \<Rightarrow> nat" where
  "tree_sum f xs = sum_list (map (\<lambda>x. case fst x of Visit v d \<Rightarrow> f (snd x) | Exit a \<Rightarrow> 0) xs)"

definition exits :: "stack_tree list \<Rightarrow> nat set" where
  "exits xs = {a. Exit a \<in> fst ` set xs}"

lemma tree_sum_simps [simp]:
  "tree_sum f [] = 0" "tree_sum f ((Visit v d, j) # xs) = f j + tree_sum f xs"
  "tree_sum f ((Exit a, j) # xs) = tree_sum f xs" "tree_sum f (xs @ ys) = tree_sum f xs + tree_sum f ys"
  by (simp_all add: tree_sum_def)

definition child_trees :: "nat \<Rightarrow> pyval list \<Rightarrow> json list \<Rightarrow> stack_tree list" where
  "child_trees d vs cs = rev (map2 (\<lambda>v c. (Visit v d, c)) vs cs)"

lemma child_trees_fst: "length vs = length cs \<Longrightarrow> map fst (child_trees d vs cs) = push_all d vs"
  by (induction vs cs rule: list_induct2) (auto simp: child_trees_def push_all_def)

lemma child_trees_sum: "length vs = length cs \<Longrightarrow> tree_sum f (child_trees d vs cs) = sum_list (map f cs)"
  by (induction vs cs rule: list_induct2) (auto simp: child_trees_def)

lemma child_trees_mem:
  "x \<in> set (child_trees d vs cs) \<Longrightarrow> \<exists>i < length cs. i < length vs \<and> x = (Visit (vs ! i) d, cs ! i)"
  by (fastforce simp: child_trees_def set_zip)

lemma nodes_child: "c \<in> set cs \<Longrightarrow> json_nodes c \<le> sum_list (map json_nodes cs)"
  by (simp add: member_le_sum_list)

lemma exit_not_below:
  assumes "tree_ok h b y" "\<forall>x \<in> set xs. tree_ok h b x" "\<forall>x \<in> set xs. tree_above y x" "denotes h (PRef a) (snd y)"
  shows "a \<notin> exits xs"
proof
  assume "a \<in> exits xs"
  then obtain j where j: "(Exit a, j) \<in> set xs" by (auto simp: exits_def)
  then have "denotes h (PRef a) j" "json_nodes (snd y) < json_nodes j"
    using assms(2,3) by (auto simp: tree_ok_def tree_above_def)
  with denotes_fun [OF assms(4)] show False by blast
qed

lemma push_children:
  assumes ok: "\<forall>x \<in> set xs. tree_ok h b x" "sorted_wrt tree_above ((Visit (PRef a) d, j) # xs)"
    and cs: "list_all2 (entry_ok h b) (map (\<lambda>v. (v, d + 1)) vs) cs"
    and j: "denotes h (PRef a) j" "sum_list (map json_nodes cs) < json_nodes j"
  defines "ys \<equiv> child_trees (d + 1) vs cs @ (Exit a, j) # xs"
  shows "\<forall>y \<in> set ys. tree_ok h b y" "sorted_wrt tree_above ys" "exits ys = insert a (exits xs)"
    "map fst ys = push_all (d + 1) vs @ Exit a # map fst xs"
    "tree_sum f ys = sum_list (map f cs) + tree_sum f xs"
proof -
  have len: "length vs = length cs" using cs by (auto dest: list_all2_lengthD)
  have child: "tree_ok h b x \<and> json_nodes (snd x) < json_nodes j \<and> (\<exists>v. fst x = Visit v (d + 1))"
    if x: "x \<in> set (child_trees (d + 1) vs cs)" for x
  proof -
    obtain i where i: "i < length cs" "x = (Visit (vs ! i) (d + 1), cs ! i)"
      using child_trees_mem [OF x] by blast
    then have "entry_ok h b (vs ! i, d + 1) (cs ! i)"
      using cs by (auto simp: list_all2_conv_all_nth)
    with i j(2) nodes_child [of "cs ! i" cs] show ?thesis by (auto simp: tree_ok_def)
  qed
  show "\<forall>y \<in> set ys. tree_ok h b y"
    using child ok(1) j(1) by (auto simp: ys_def tree_ok_def)
  have above: "tree_above x y" if "y \<in> set (child_trees (d + 1) vs cs)" for x y
    using child [OF that] by (auto simp: tree_above_def)
  have "sorted_wrt tree_above (child_trees (d + 1) vs cs)"
    by (rule sorted_wrt_mono_rel [where P = "\<lambda>_ _. True"]) (auto intro: above simp: sorted_wrt_iff_nth_less)
  then show "sorted_wrt tree_above ys"
    using ok(2) child by (auto simp: ys_def sorted_wrt_append tree_above_def split: stack_entry.splits)
      fastforce
  show "exits ys = insert a (exits xs)"
    using child by (auto simp: ys_def exits_def image_iff) force
  show "map fst ys = push_all (d + 1) vs @ Exit a # map fst xs"
    by (simp add: ys_def child_trees_fst [OF len])
  show "tree_sum f ys = sum_list (map f cs) + tree_sum f xs"
    by (simp add: ys_def child_trees_sum [OF len])
qed

lemma pred_level: "D - d = Suc n \<Longrightarrow> D - Suc d = n \<and> Suc d \<le> D"
  by auto

lemma entry_list:
  assumes e: "entry_ok h b (PRef a, d) j" and h: "h a = PList vs"
  obtains cs where "j = JArr cs" "list_all2 (entry_ok h b) (map (\<lambda>v. (v, d + 1)) vs) cs"
proof -
  obtain cs where j: "j = JArr cs" and cs: "list_all2 (denotes h) vs cs"
    using e h by (auto simp: entry_ok_def elim: denotes_cases)
  have "entry_ok h b (vs ! i, d + 1) (cs ! i)" if "i < length cs" for i
    using e cs that by (auto simp: entry_ok_def j list_all2_conv_all_nth list_all_length
        split: nat.splits dest!: pred_level)
  with cs have "list_all2 (entry_ok h b) (map (\<lambda>v. (v, d + 1)) vs) cs"
    by (auto simp: list_all2_conv_all_nth)
  with j show thesis by (rule that)
qed

lemma entry_dict:
  assumes e: "entry_ok h b (PRef a, d) j" and h: "h a = PDict items"
  obtains kvs where "j = JObj kvs" "map fst items = map PStr (map fst kvs)"
    "list_all2 (entry_ok h b) (map (\<lambda>v. (v, d + 1)) (map snd items)) (map snd kvs)"
proof -
  obtain kvs where j: "j = JObj kvs"
    and kvs: "list_all2 (\<lambda>kv tj. fst kv = PStr (fst tj) \<and> denotes h (snd kv) (snd tj)) items kvs"
    using e h by (auto simp: entry_ok_def elim: denotes_cases)
  have len: "length items = length kvs" using kvs by (rule list_all2_lengthD)
  have "entry_ok h b (snd (items ! i), d + 1) (snd (kvs ! i))" if "i < length kvs" for i
    using e kvs that by (auto simp: entry_ok_def j list_all2_conv_all_nth list_all_length
        split: nat.splits dest!: pred_level)
  then have "list_all2 (entry_ok h b) (map (\<lambda>v. (v, d + 1)) (map snd items)) (map snd kvs)"
    using len by (auto simp: list_all2_conv_all_nth)
  moreover have "map fst items = map PStr (map fst kvs)"
    using kvs len by (auto simp: list_all2_conv_all_nth intro: nth_equalityI)
  ultimately show thesis using j that by blast
qed

lemma scalar_bytes_ok:
  assumes "entry_ok h b (v, d) j" "\<forall>a. v \<noteq> PRef a" "json_bytes j \<le> bu_max_utf8_bytes b"
  shows "scalar_bytes b label v = Inr (json_bytes j) \<and> json_nodes j = 1"
proof -
  have "length s \<le> bu_max_utf8_bytes b" if "length (utf8 s) \<le> bu_max_utf8_bytes b" for s
    using that length_utf8 [of s] by simp
  with assms show ?thesis
    by (cases v) (auto simp: entry_ok_def not_less elim!: denotes_cases)
qed

lemma walk_complete:
  assumes "st = map fst xs" "\<forall>x \<in> set xs. tree_ok h b x" "sorted_wrt tree_above xs" "A = exits xs"
    and "n + tree_sum json_nodes xs \<le> bu_max_nodes b" "y + tree_sum json_bytes xs \<le> bu_max_utf8_bytes b"
  shows "walk h b label st A n y = Inr ()"
  using assms
proof (induction h b label st A n y arbitrary: xs rule: walk.induct)
  case (2 h b label a st A n y)
  then obtain j xs' where xs: "xs = (Exit a, j) # xs'" "st = map fst xs'" by auto
  have "a \<notin> exits xs'"
    using 2(3,4) exit_not_below [of h b "(Exit a, j)" xs' a] by (auto simp: xs(1) tree_ok_def)
  then have "A - {a} = exits xs'"
    using 2(5) by (auto simp: xs(1) exits_def)
  then show ?case
    using 2(1) [of xs'] 2(3,4,6,7) xs by simp
next
  case (3 h b label v d st A n y)
  then obtain j xs' where xs: "xs = (Visit v d, j) # xs'" "st = map fst xs'" by auto
  have e: "entry_ok h b (v, d) j" using 3(3) by (auto simp: xs(1) tree_ok_def)
  have d: "d \<le> bu_max_depth b" using e by (simp add: entry_ok_def)
  have n: "n + 1 \<le> bu_max_nodes b" using 3(6) json_nodes_pos [of j] by (simp add: xs(1))
  have go: "walk h b label (Visit v d # st) A n y = Inr ()"
    if vis: "visit h b label v d st A (n + 1) y = Inr (exits ys, y', map fst ys)"
      and ys: "\<forall>x \<in> set ys. tree_ok h b x" "sorted_wrt tree_above ys"
        "n + 1 + tree_sum json_nodes ys \<le> bu_max_nodes b" "y' + tree_sum json_bytes ys \<le> bu_max_utf8_bytes b"
    for ys y'
    using 3(1) [OF _ _ vis refl refl _ refl ys(1,2) refl ys(3,4)] d n vis ys(4) by simp
  show ?case
  proof (cases "\<exists>a. v = PRef a")
    case False
    have s: "scalar_bytes b label v = Inr (json_bytes j)" "json_nodes j = 1"
      using scalar_bytes_ok [OF e] False 3(7) by (auto simp: xs(1))
    have "visit h b label v d st A (n + 1) y = Inr (exits xs', y + json_bytes j, map fst xs')"
      using False s(1) 3(5) xs by (cases v) (auto simp: visit_def exits_def)
    then show ?thesis
      using 3(3,4,6,7) s(2) by (intro go) (auto simp: xs(1))
  next
    case True
    then obtain a where v: "v = PRef a" ..
    have den: "denotes h (PRef a) j" using e by (simp add: entry_ok_def v)
    have "a \<notin> exits xs'"
      using 3(3,4) exit_not_below [of h b "(Visit v d, j)" xs' a] den by (auto simp: xs(1))
    then have fresh: "a \<notin> A" using 3(5) by (simp add: xs(1) exits_def)
    have A: "A = exits xs'" using 3(5) by (simp add: xs(1) exits_def)
    have ok: "\<forall>x \<in> set xs'. tree_ok h b x" "sorted_wrt tree_above ((Visit (PRef a) d, j) # xs')"
      using 3(3,4) by (auto simp: xs(1) v)
    show ?thesis
    proof (cases "h a")
      case (PList vs)
      then obtain cs where j: "j = JArr cs" and cs: "list_all2 (entry_ok h b) (map (\<lambda>v. (v, d + 1)) vs) cs"
        using entry_list e v by blast
      note push = push_children [OF ok cs den]
      have "length vs \<le> bu_max_nodes b - (n + 1)"
        using 3(6) length_le_nodes [of cs] list_all2_lengthD [OF cs] by (simp add: xs(1) j)
      then have "visit h b label v d st A (n + 1) y = Inr (insert a A, y, push_all (d + 1) vs @ Exit a # st)"
        using fresh PList by (simp add: visit_def v push_all_def)
      with push 3(6,7) show ?thesis
        by (intro go [where ys = "child_trees (d + 1) vs cs @ (Exit a, j) # xs'" and y' = y])
          (auto simp: j A xs)
    next
      case (PDict items)
      then obtain kvs where j: "j = JObj kvs" and keys: "map fst items = map PStr (map fst kvs)"
        and cs: "list_all2 (entry_ok h b) (map (\<lambda>v. (v, d + 1)) (map snd items)) (map snd kvs)"
        using entry_dict e v by blast
      have lt: "sum_list (map json_nodes (map snd kvs)) < json_nodes j" by (simp add: j comp_def)
      note push = push_children [OF ok cs den lt]
      let ?k = "sum_list (map (\<lambda>k. length (utf8 k)) (map fst kvs))"
      have bytes: "json_bytes j = ?k + sum_list (map json_bytes (map snd kvs))"
        by (simp add: j sum_list_addf comp_def)
      have "length items \<le> bu_max_nodes b - (n + 1)"
        using 3(6) length_le_nodes [of "map snd kvs"] list_all2_lengthD [OF cs] by (simp add: xs(1) j comp_def)
      then have "visit h b label v d st A (n + 1) y =
          Inr (insert a A, y + ?k, push_all (d + 1) (map snd items) @ Exit a # st)"
        using fresh PDict 3(7) scan_items_ok [OF keys, of y b label d "Exit a # st"] bytes
        by (simp add: visit_def v xs(1))
      with push 3(6,7) bytes show ?thesis
        by (intro go [where ys = "child_trees (d + 1) (map snd items) (map snd kvs) @ (Exit a, j) # xs'" and y' = "y + ?k"])
          (auto simp: j A xs comp_def)
    qed
  qed
qed simp

text \<open>Material is accepted exactly when it unfolds to a finite JSON tree within the budget.\<close>

lemma validate_json_material_iff:
  "validate_json_material h v b label = Inr () \<longleftrightarrow> (\<exists>j. denotes h v j \<and> within_budget b j)"
proof
  assume "validate_json_material h v b label = Inr ()"
  then obtain js where "stack_ok h b [(v, 0)] 0 0 js"
    using walk_sound unfolding validate_json_material_def by fastforce
  then obtain j where "js = [j]" "entry_ok h b (v, 0) j"
    by (auto simp: stack_ok_def list_all2_Cons1)
  with \<open>stack_ok h b [(v, 0)] 0 0 js\<close> show "\<exists>j. denotes h v j \<and> within_budget b j"
    by (auto simp: stack_ok_def entry_ok_def within_budget_def)
next
  assume "\<exists>j. denotes h v j \<and> within_budget b j"
  then obtain j where "denotes h v j" "within_budget b j" by blast
  then show "validate_json_material h v b label = Inr ()"
    unfolding validate_json_material_def
    by (intro walk_complete [where xs = "[(Visit v 0, j)]"])
      (auto simp: within_budget_def tree_ok_def entry_ok_def exits_def)
qed

end
