(* ===== verification/Evidence.thy ===== *)
theory Evidence
  imports EvidenceLimits JsonRoundtrip SpecModels
begin

section \<open>Evidence events and envelopes (\<open>evidence/models.py\<close>)\<close>

text \<open>
  A trial leaves one envelope: its events in causal order, numbered from zero, and its
  terminal observations. The evidence root is a hash chain over the events between the
  identities and the terminal material. JSON values reach these functions as the trees the
  walker of \<open>EvidenceLimits\<close> accepts; \<open>json.loads(json.dumps(v, sort_keys=True))\<close> is the same
  value with its keys sorted (\<open>json_scan_dumps\<close> shows it for values without floats, whose
  shortest decimals round-trip by definition of \<open>repr\<close>).
\<close>

datatype evidence_kind =
    ATTACK_DELIVERY | PROTOCOL_DELIVERY | RETRIEVAL_DELIVERY | SIDE_EFFECT_OBSERVATION
  | TOOL_REQUEST | TOOL_RESULT | HANDOFF | APPROVAL_REQUEST | APPROVAL | APPROVAL_DECISION
  | GUARDRAIL | STATE | OUTPUT | POLICY_VIOLATION | SEMANTIC_JUDGMENT | EVALUATION_ERROR | RUNTIME_ERROR

fun kind_text :: "evidence_kind \<Rightarrow> string" where
  "kind_text ATTACK_DELIVERY = ''attack_delivery''"
| "kind_text PROTOCOL_DELIVERY = ''protocol_delivery''"
| "kind_text RETRIEVAL_DELIVERY = ''retrieval_delivery''"
| "kind_text SIDE_EFFECT_OBSERVATION = ''side_effect_observation''"
| "kind_text TOOL_REQUEST = ''tool_request''"
| "kind_text TOOL_RESULT = ''tool_result''"
| "kind_text HANDOFF = ''handoff''"
| "kind_text APPROVAL_REQUEST = ''approval_request''"
| "kind_text APPROVAL = ''approval''"
| "kind_text APPROVAL_DECISION = ''approval_decision''"
| "kind_text GUARDRAIL = ''guardrail''"
| "kind_text STATE = ''state''"
| "kind_text OUTPUT = ''output''"
| "kind_text POLICY_VIOLATION = ''policy_violation''"
| "kind_text SEMANTIC_JUDGMENT = ''semantic_judgment''"
| "kind_text EVALUATION_ERROR = ''evaluation_error''"
| "kind_text RUNTIME_ERROR = ''runtime_error''"

datatype verdict = PASS | FAIL | BLOCKED | INCONCLUSIVE

fun verdict_text :: "verdict \<Rightarrow> string" where
  "verdict_text PASS = ''pass''"
| "verdict_text FAIL = ''fail''"
| "verdict_text BLOCKED = ''blocked''"
| "verdict_text INCONCLUSIVE = ''inconclusive''"

lemma kind_text_inj: "kind_text k = kind_text l \<longleftrightarrow> k = l"
  by (cases k; cases l) simp_all

subsection \<open>Instants\<close>

text \<open>
  A \<open>datetime\<close> is its wall clock in microseconds from 1970 and its offset to UTC, if it has
  one; an accepted event keeps the UTC instant, written to JSON in the ISO form pydantic
  documents. Years run from 1 to 9999, as Python's do.
\<close>

record py_datetime =
  dt_wall :: int
  dt_utcoffset :: "int option"

definition zero_pad :: "nat \<Rightarrow> nat \<Rightarrow> string" where
  "zero_pad w n = (let s = nat_str n in replicate (w - length s) (CHR ''0'') @ s)"

definition civil_of_days :: "int \<Rightarrow> nat \<times> nat \<times> nat" where
  "civil_of_days days =
     (let z = days + 719468; era = z div 146097; doe = z mod 146097;
          yoe = (doe - doe div 1460 + doe div 36524 - doe div 146096) div 365;
          doy = doe - (365 * yoe + yoe div 4 - yoe div 100);
          mp = (5 * doy + 2) div 153;
          d = doy - (153 * mp + 2) div 5 + 1;
          m = (if mp < 10 then mp + 3 else mp - 9);
          y = yoe + era * 400 + (if m \<le> 2 then 1 else 0)
      in (nat y, nat m, nat d))"

definition iso_utc :: "int \<Rightarrow> string" where
  "iso_utc micros =
     (let secs = micros div 1000000; us = nat (micros mod 1000000);
          day = secs div 86400; sod = nat (secs mod 86400)
      in case civil_of_days day of (y, m, d) \<Rightarrow>
        zero_pad 4 y @ ''-'' @ zero_pad 2 m @ ''-'' @ zero_pad 2 d @ ''T''
        @ zero_pad 2 (sod div 3600) @ '':'' @ zero_pad 2 (sod div 60 mod 60) @ '':'' @ zero_pad 2 (sod mod 60)
        @ (if us = 0 then [] else ''.'' @ zero_pad 6 us) @ ''Z'')"

definition require_aware_utc :: "py_datetime \<Rightarrow> error + int" where
  "require_aware_utc t = (case dt_utcoffset t of
       None \<Rightarrow> Inl (verr ''evidence observed_at must be timezone-aware'')
     | Some off \<Rightarrow> Inr (dt_wall t - off))"

subsection \<open>Events\<close>

record evidence_event =
  ev_sequence :: int
  ev_kind :: evidence_kind
  ev_source :: string
  ev_payload :: dict
  ev_observed_at :: int
  ev_critical :: bool

abbreviation payload_get :: "evidence_event \<Rightarrow> string \<Rightarrow> json option" where
  "payload_get e k \<equiv> dict_get (ev_payload e) k"

definition sort_dict :: "dict \<Rightarrow> dict" where
  "sort_dict d = sort_key fst (map (\<lambda>kv. (fst kv, sort_keys (snd kv))) d)"

definition detached_dict :: "string \<Rightarrow> json_budget \<Rightarrow> dict \<Rightarrow> error + dict" where
  "detached_dict msg b d = (if within_budget b (JObj d) then Inr (sort_dict d) else Inl (verr msg))"

definition mk_event ::
  "int \<Rightarrow> evidence_kind \<Rightarrow> string \<Rightarrow> dict \<Rightarrow> py_datetime \<Rightarrow> bool \<Rightarrow> error + evidence_event" where
  "mk_event sequence kind source payload observed_at critical =
     rbind (raise_if
       [(sequence < 0, verr ''sequence: range''), (source = [], verr ''source: min_length'')]) (\<lambda>_.
     rbind (detached_dict ''evidence payload must be finite JSON-compatible data within resource limits''
              event_payload_budget payload) (\<lambda>payload'.
     rbind (require_aware_utc observed_at) (\<lambda>utc.
     Inr \<lparr>ev_sequence = sequence, ev_kind = kind, ev_source = source, ev_payload = payload',
          ev_observed_at = utc, ev_critical = critical\<rparr>)))"

definition event_material :: "evidence_event \<Rightarrow> json" where
  "event_material e = JObj
     [(''sequence'', JInt (ev_sequence e)),
      (''kind'', JStr (kind_text (ev_kind e))),
      (''source'', JStr (ev_source e)),
      (''payload'', JObj (ev_payload e)),
      (''observed_at'', JStr (iso_utc (ev_observed_at e))),
      (''critical'', JBool (ev_critical e))]"

definition event_digest :: "evidence_event \<Rightarrow> string" where
  "event_digest e = sha256_hex (json_dumps (event_material e))"

text \<open>Re-validation of a complete event (\<open>snapshot\<close>, \<open>revalidate_instances\<close>).\<close>

definition snapshot_event :: "evidence_event \<Rightarrow> error + evidence_event" where
  "snapshot_event e = mk_event (ev_sequence e) (ev_kind e) (ev_source e) (ev_payload e)
     \<lparr>dt_wall = ev_observed_at e, dt_utcoffset = Some 0\<rparr> (ev_critical e)"

subsection \<open>Envelopes\<close>

record trial_evidence =
  te_trial_id :: string
  te_subject_identity :: string
  te_scenario_identity :: string
  te_events :: "evidence_event list"
  te_final_state :: dict
  te_final_output :: "string option"
  te_elapsed_ms :: pyfloat
  te_input_tokens :: int
  te_output_tokens :: int
  te_estimated_cost_usd :: pyfloat

definition nonneg_float :: "pyfloat \<Rightarrow> bool" where
  "nonneg_float x \<longleftrightarrow> isfinite x \<and> fl_le fl_0 x"

definition ints_repr :: "int list \<Rightarrow> string" where
  "ints_repr xs = py_repr (JArr (map JInt xs))"

definition event_sequence_check :: "evidence_event list \<Rightarrow> error + unit" where
  "event_sequence_check events =
     (let expected = map int [0..<length events]; actual = map ev_sequence events in
      if actual \<noteq> expected
      then Inl (verr (''event sequence must be contiguous from zero: expected ''
             @ ints_repr expected @ '', got '' @ ints_repr actual))
      else Inr ())"

definition validate_evidence :: "trial_evidence \<Rightarrow> error + trial_evidence" where
  "validate_evidence t =
     rbind (raise_if
       [(te_trial_id t = [], verr ''trial_id: min_length''),
        (\<not> is_sha256 (te_subject_identity t), verr ''subject_identity: pattern''),
        (\<not> is_sha256 (te_scenario_identity t), verr ''scenario_identity: pattern''),
        (length (te_events t) > max_trial_events,
         verr (''trial evidence exceeds maximum event count '' @ nat_str max_trial_events))]) (\<lambda>_.
     rbind (rmap snapshot_event (te_events t)) (\<lambda>events.
     rbind (detached_dict ''final_state must be finite JSON-compatible data within resource limits''
              final_state_budget (te_final_state t)) (\<lambda>final_state.
     rbind (map_error (\<lambda>e. verr (err_msg e))
              (validate_utf8_text (te_final_output t) max_final_output_utf8_bytes ''final_output'')) (\<lambda>_.
     rbind (raise_if
       [(\<not> nonneg_float (te_elapsed_ms t), verr ''elapsed_ms: range''),
        (te_input_tokens t < 0, verr ''input_tokens: range''),
        (te_output_tokens t < 0, verr ''output_tokens: range''),
        (\<not> nonneg_float (te_estimated_cost_usd t), verr ''estimated_cost_usd: range'')]) (\<lambda>_.
     rbind (event_sequence_check events) (\<lambda>_.
     Inr (t\<lparr>te_events := events, te_final_state := final_state\<rparr>)))))))"

definition snapshot_evidence :: "trial_evidence \<Rightarrow> error + trial_evidence" where
  "snapshot_evidence t = validate_evidence t"

definition critical_events :: "trial_evidence \<Rightarrow> evidence_event list" where
  "critical_events t = filter ev_critical (te_events t)"

definition evidence_root_domain :: string where
  "evidence_root_domain = ''agent-evals/trial-evidence/v2'' @ [CHR 0x00]"

definition envelope_identity :: "trial_evidence \<Rightarrow> json" where
  "envelope_identity t = JObj
     [(''trial_id'', JStr (te_trial_id t)),
      (''subject_identity'', JStr (te_subject_identity t)),
      (''scenario_identity'', JStr (te_scenario_identity t))]"

definition terminal_material :: "trial_evidence \<Rightarrow> json" where
  "terminal_material t = JObj
     [(''final_state'', JObj (te_final_state t)),
      (''final_output'', opt_json (map_option JStr (te_final_output t))),
      (''elapsed_ms'', JFloat (te_elapsed_ms t)),
      (''input_tokens'', JInt (te_input_tokens t)),
      (''output_tokens'', JInt (te_output_tokens t)),
      (''estimated_cost_usd'', JFloat (te_estimated_cost_usd t))]"

text \<open>
  \<open>bytes.fromhex(event.digest)\<close> is the raw digest of the event's text: \<open>event_digest\<close> is
  its hexadecimal form.
\<close>

fun chain_events :: "string \<Rightarrow> evidence_event list \<Rightarrow> string" where
  "chain_events chain [] = chain"
| "chain_events chain (e # es) =
     chain_events (sha256_digest (chain @ sha256_digest (json_dumps (event_material e)))) es"

definition evidence_root :: "trial_evidence \<Rightarrow> string" where
  "evidence_root t =
     (let chain0 = sha256_digest (evidence_root_domain @ json_dumps (envelope_identity t));
          chain = chain_events chain0 (te_events t)
      in sha256_hex (evidence_root_domain @ chain @ json_dumps (terminal_material t)))"

subsection \<open>Validated events and envelopes\<close>

lemma sort_dict_json: "JObj (sort_dict d) = sort_keys (JObj d)"
  by (simp add: sort_dict_def)

lemma sort_keys_idem [simp]: "sort_keys (sort_keys v) = sort_keys v"
proof (induction v rule: json_induct)
  case (Obj kvs)
  let ?f = "\<lambda>kv. (fst kv, sort_keys (snd kv))"
  have "map ?f (sort_key fst (map ?f kvs)) = sort_key fst (map ?f kvs)"
    using Obj by (intro map_idI) auto
  then show ?case by (simp add: sort_key_id_if_sorted comp_def del: list.map_comp)
qed auto

lemma sort_dict_idem [simp]: "sort_dict (sort_dict d) = sort_dict d"
  using sort_keys_idem [of "JObj d"] by (simp add: sort_dict_def)

end
