(* ===== verification/Authority.thy ===== *)
theory Authority
  imports PolicyGraph Evidence
begin

section \<open>Delegated authority along a handoff path (\<open>authority.py\<close>)\<close>

text \<open>
  The evaluator follows the observed handoffs of a run. Its state is the active agent, the
  authority that agent holds and the accepted transitions. A handoff advances the state only
  along a grant of the policy that widens nothing the source holds.
\<close>

record effective_authority =
  ea_allowed_tools :: "string set"
  ea_approval_required_tools :: "string set"
  ea_allowed_resource_scopes :: "resource_scope list"
  ea_max_tool_calls :: int
  ea_max_handoffs :: int

definition from_root :: "authority_policy \<Rightarrow> effective_authority" where
  "from_root p =
     \<lparr>ea_allowed_tools = ap_allowed_tools p - ap_forbidden_tools p,
      ea_approval_required_tools = ap_approval_required_tools p,
      ea_allowed_resource_scopes = ap_allowed_resource_scopes p,
      ea_max_tool_calls = ap_max_tool_calls p,
      ea_max_handoffs = ap_max_handoffs p\<rparr>"

definition authority_authorizes_tool :: "effective_authority \<Rightarrow> string \<Rightarrow> bool" where
  "authority_authorizes_tool a t \<longleftrightarrow> t \<in> ea_allowed_tools a"

definition authority_authorizes_resource :: "effective_authority \<Rightarrow> resource_identifier \<Rightarrow> bool" where
  "authority_authorizes_resource a r \<longleftrightarrow> scopes_admit (ea_allowed_resource_scopes a) r"

record handoff_path_state =
  hp_root_agent :: "string option"
  hp_active_agent :: "string option"
  hp_authority :: effective_authority
  hp_transitions :: "(string \<times> string) list"

definition path_from_policy :: "authority_policy \<Rightarrow> handoff_path_state" where
  "path_from_policy p =
     (let root = (if has_handoff_authority p then ap_root_agent p else None) in
      \<lparr>hp_root_agent = root, hp_active_agent = root, hp_authority = from_root p, hp_transitions = []\<rparr>)"

definition path_epoch :: "handoff_path_state \<Rightarrow> nat" where
  "path_epoch st = length (hp_transitions st)"

definition handoff_path_domain :: string where
  "handoff_path_domain = ''agent-evals/handoff-authority-path/v1'' @ [CHR 0x00]"

definition transition_material :: "string \<times> string \<Rightarrow> json" where
  "transition_material t = JObj [(''source_agent'', JStr (fst t)), (''target_agent'', JStr (snd t))]"

definition path_material :: "string option \<times> (string \<times> string) list \<Rightarrow> json" where
  "path_material rt = JObj
     [(''root_agent'', opt_json (map_option JStr (fst rt))),
      (''transitions'', JArr (map transition_material (snd rt)))]"

definition path_sha256 :: "handoff_path_state \<Rightarrow> string" where
  "path_sha256 st =
     sha256_hex (handoff_path_domain @ json_dumps (path_material (hp_root_agent st, hp_transitions st)))"

definition event_agent_identity :: "json option \<Rightarrow> string option" where
  "event_agent_identity v = (case v of
       Some (JStr s) \<Rightarrow> if s = [] \<or> s \<noteq> py_strip s then None else Some s
     | _ \<Rightarrow> None)"

text \<open>\<open>{source!r} -> {target!r}\<close>\<close>

definition transition_repr :: "string \<Rightarrow> string \<Rightarrow> string" where
  "transition_repr s t = str_repr s @ '' -> '' @ str_repr t"

definition attenuate_authority ::
  "effective_authority \<Rightarrow> handoff_grant \<Rightarrow> effective_authority \<times> string list" where
  "attenuate_authority source g =
     (let tr = transition_repr (hg_source_agent g) (hg_target_agent g);
          widened_tools = hg_allowed_tools g - ea_allowed_tools source;
          widened_scopes = filter (\<lambda>s. \<not> list_ex (\<lambda>parent. contains_scope parent s)
             (ea_allowed_resource_scopes source)) (hg_allowed_resource_scopes g);
          reasons =
            (if widened_tools \<noteq> {} then
               [''handoff authority broadens source tool authority for transition '' @ tr @ '': ''
                @ strs_repr (py_sorted widened_tools)] else [])
            @ (if widened_scopes \<noteq> [] then
               [''handoff authority broadens source resource authority for transition '' @ tr @ '': ''
                @ strs_repr (map scope_canonical_json widened_scopes)] else [])
            @ (if hg_max_tool_calls g > ea_max_tool_calls source then
               [''handoff authority broadens source tool-call budget for transition '' @ tr @ '': ''
                @ int_str (hg_max_tool_calls g) @ '' > '' @ int_str (ea_max_tool_calls source)] else [])
            @ (if hg_max_handoffs g > ea_max_handoffs source then
               [''handoff authority broadens source handoff budget for transition '' @ tr @ '': ''
                @ int_str (hg_max_handoffs g) @ '' > '' @ int_str (ea_max_handoffs source)] else []);
          inherited_approvals = ea_approval_required_tools source \<inter> hg_allowed_tools g
      in (\<lparr>ea_allowed_tools = hg_allowed_tools g,
           ea_approval_required_tools = inherited_approvals \<union> hg_additional_approval g,
           ea_allowed_resource_scopes = hg_allowed_resource_scopes g,
           ea_max_tool_calls = hg_max_tool_calls g,
           ea_max_handoffs = hg_max_handoffs g\<rparr>, reasons))"

definition advance_handoff ::
  "authority_policy \<Rightarrow> handoff_path_state \<Rightarrow> evidence_event \<Rightarrow> error + handoff_path_state \<times> string list" where
  "advance_handoff p st e =
     (if ev_kind e \<noteq> HANDOFF then Inl (Err ValueError ''advance_handoff requires HANDOFF evidence'')
      else (case (event_agent_identity (payload_get e ''source_agent''),
                  event_agent_identity (payload_get e ''target_agent'')) of
        (Some source, Some target) \<Rightarrow>
          if Some source \<noteq> hp_active_agent st then
            Inr (st, [''handoff source is not the currently active agent: observed='' @ str_repr source
                      @ '' active='' @ opt_str_repr (hp_active_agent st)])
          else (case find_handoff_grant p source target of
              None \<Rightarrow> Inr (st, [''unauthorized handoff transition: '' @ transition_repr source target])
            | Some g \<Rightarrow> (case attenuate_authority (hp_authority st) g of (child, errors) \<Rightarrow>
                if errors \<noteq> [] then Inr (st, errors)
                else Inr (\<lparr>hp_root_agent = hp_root_agent st, hp_active_agent = Some target,
                           hp_authority = child,
                           hp_transitions = hp_transitions st @ [(source, target)]\<rparr>, [])))
      | _ \<Rightarrow> Inr (st, [''handoff evidence requires non-empty source_agent and target_agent identities while handoff authority is enabled''])))"

text \<open>\<open>events[:n]\<close>\<close>

definition py_take :: "int \<Rightarrow> 'a list \<Rightarrow> 'a list" where
  "py_take n xs = take (nat (if n < 0 then n + int (length xs) else n)) xs"

fun replay_handoffs ::
  "authority_policy \<Rightarrow> handoff_path_state \<Rightarrow> evidence_event list \<Rightarrow> error + handoff_path_state" where
  "replay_handoffs p st [] = Inr st"
| "replay_handoffs p st (e # es) =
     (if ev_kind e \<noteq> HANDOFF then replay_handoffs p st es
      else rbind (advance_handoff p st e) (\<lambda>(st', _). replay_handoffs p st' es))"

definition validated_handoff_state_before ::
  "authority_policy \<Rightarrow> evidence_event list \<Rightarrow> int \<Rightarrow> error + handoff_path_state" where
  "validated_handoff_state_before p events sequence =
     (let st = path_from_policy p in
      if \<not> has_handoff_authority p then Inr st
      else replay_handoffs p st (py_take sequence events))"

definition validated_handoff_epoch_before ::
  "authority_policy \<Rightarrow> evidence_event list \<Rightarrow> int \<Rightarrow> error + nat" where
  "validated_handoff_epoch_before p events sequence =
     rbind (validated_handoff_state_before p events sequence) (\<lambda>st. Inr (path_epoch st))"

subsection \<open>Authority only narrows\<close>

text \<open>
  A state machine whose steps go down in a preorder ends below its start: the client lemma
  for every replay of the evaluator that may only take authority away.
\<close>

locale narrowing =
  fixes below :: "'s \<Rightarrow> 's \<Rightarrow> bool" and step :: "'s \<Rightarrow> 'e \<Rightarrow> 's"
  assumes below_refl: "below s s"
    and below_trans: "below s t \<Longrightarrow> below t u \<Longrightarrow> below s u"
    and step_below: "below (step s e) s"
begin

lemma run_below: "below (foldl step s es) s"
proof (induction es rule: rev_induct)
  case (snoc e es)
  then show ?case using step_below below_trans by simp blast
qed (simp add: below_refl)

lemma run_prefix_below: "below (foldl step s (es @ fs)) (foldl step s es)"
  using run_below by simp

end

text \<open>
  \<open>authority_within c p\<close>: what \<open>c\<close> allows, \<open>p\<close> allows, and an approval \<open>p\<close> requires
  of a tool \<open>c\<close> still holds is required by \<open>c\<close>.
\<close>

definition authority_within :: "effective_authority \<Rightarrow> effective_authority \<Rightarrow> bool" where
  "authority_within c p \<longleftrightarrow>
     ea_allowed_tools c \<subseteq> ea_allowed_tools p \<and>
     ea_approval_required_tools p \<inter> ea_allowed_tools c \<subseteq> ea_approval_required_tools c \<and>
     scopes.covers (ea_allowed_resource_scopes p) (ea_allowed_resource_scopes c) \<and>
     ea_max_tool_calls c \<le> ea_max_tool_calls p \<and> ea_max_handoffs c \<le> ea_max_handoffs p"

lemma authority_within_refl: "authority_within a a"
  using scopes.covers_refl by (auto simp: authority_within_def)

lemma authority_within_trans: "authority_within a b \<Longrightarrow> authority_within b c \<Longrightarrow> authority_within a c"
  unfolding authority_within_def using scopes.covers_trans by fastforce

lemma authority_within_admits:
  assumes "authority_within c p" "authority_authorizes_resource c r"
  shows "authority_authorizes_resource p r"
  using assms scopes.covers_admits
  by (auto simp: authority_within_def authority_authorizes_resource_def scopes_admit_def list_ex_iff) blast

lemma attenuate_within:
  "snd (attenuate_authority a g) = [] \<longleftrightarrow>
     hg_allowed_tools g \<subseteq> ea_allowed_tools a \<and>
     scopes.covers (ea_allowed_resource_scopes a) (hg_allowed_resource_scopes g) \<and>
     hg_max_tool_calls g \<le> ea_max_tool_calls a \<and> hg_max_handoffs g \<le> ea_max_handoffs a"
  by (auto simp: attenuate_authority_def Let_def scopes.covers_def filter_empty_conv list_ex_iff)

lemma attenuate_child_within:
  assumes "snd (attenuate_authority a g) = []"
  shows "authority_within (fst (attenuate_authority a g)) a"
  using assms unfolding attenuate_within
  by (auto simp: authority_within_def attenuate_authority_def Let_def)

subsection \<open>One handoff\<close>

text \<open>The outcomes of a handoff event: refused with a reason and no change, or one step.\<close>

lemma advance_handoff_cases:
  assumes "ev_kind e = HANDOFF"
  obtains (refused) reasons where "advance_handoff p st e = Inr (st, reasons)" "reasons \<noteq> []"
  | (accepted) source target g where
      "payload_get e ''source_agent'' = Some (JStr source)" "payload_get e ''target_agent'' = Some (JStr target)"
      "hp_active_agent st = Some source" "find_handoff_grant p source target = Some g"
      "snd (attenuate_authority (hp_authority st) g) = []"
      "advance_handoff p st e = Inr (\<lparr>hp_root_agent = hp_root_agent st, hp_active_agent = Some target,
         hp_authority = fst (attenuate_authority (hp_authority st) g),
         hp_transitions = hp_transitions st @ [(source, target)]\<rparr>, [])"
proof (cases "event_agent_identity (payload_get e ''source_agent'')")
  case None
  then show thesis using refused assms by (simp add: advance_handoff_def)
next
  case s: (Some source)
  show thesis
  proof (cases "event_agent_identity (payload_get e ''target_agent'')")
    case None
    then show thesis using refused assms by (simp add: advance_handoff_def s)
  next
    case t: (Some target)
    have st: "payload_get e ''source_agent'' = Some (JStr source)" "payload_get e ''target_agent'' = Some (JStr target)"
      using s t by (auto simp: event_agent_identity_def split: option.splits json.splits if_splits)
    show thesis
    proof (cases "hp_active_agent st = Some source")
      case False
      then show thesis using refused assms by (simp add: advance_handoff_def s t)
    next
      case act: True
      show thesis
      proof (cases "find_handoff_grant p source target")
        case None
        then show thesis using refused assms act by (simp add: advance_handoff_def s t)
      next
        case g: (Some g)
        show thesis
        proof (cases "snd (attenuate_authority (hp_authority st) g) = []")
          case True
          then show thesis
            using accepted [OF st act g True] assms act
            by (simp add: advance_handoff_def s t g split_beta)
        next
          case False
          then show thesis
            using refused assms act by (simp add: advance_handoff_def s t g split_beta)
        qed
      qed
    qed
  qed
qed

text \<open>The state after a step, whatever the event.\<close>

definition handoff_step :: "authority_policy \<Rightarrow> handoff_path_state \<Rightarrow> evidence_event \<Rightarrow> handoff_path_state" where
  "handoff_step p st e = (case advance_handoff p st e of Inl _ \<Rightarrow> st | Inr (st', _) \<Rightarrow> st')"

lemma advance_total: "ev_kind e = HANDOFF \<Longrightarrow> \<exists>reasons. advance_handoff p st e = Inr (handoff_step p st e, reasons)"
  by (rule advance_handoff_cases [of e p st]) (auto simp: handoff_step_def)

lemma step_within: "authority_within (hp_authority (handoff_step p st e)) (hp_authority st)"
proof (cases "ev_kind e = HANDOFF")
  case True
  then show ?thesis
    by (rule advance_handoff_cases [of e p st])
      (auto simp: handoff_step_def authority_within_refl attenuate_child_within)
qed (simp add: handoff_step_def advance_handoff_def authority_within_refl)

interpretation handoffs: narrowing
  "\<lambda>st st'. authority_within (hp_authority st) (hp_authority st')" "handoff_step p" for p
  by unfold_locales (auto intro: authority_within_refl authority_within_trans step_within)

lemma replay_foldl: "replay_handoffs p st es = Inr (foldl (handoff_step p) st es)"
proof (induction p st es rule: replay_handoffs.induct)
  case (2 p st e es)
  show ?case
  proof (cases "ev_kind e = HANDOFF")
    case True
    then obtain reasons where "advance_handoff p st e = Inr (handoff_step p st e, reasons)"
      using advance_total by blast
    with True 2(2) show ?thesis by simp
  next
    case False
    then have "handoff_step p st e = st" by (simp add: handoff_step_def advance_handoff_def)
    with False 2(1) show ?thesis by simp
  qed
qed simp

text \<open>The accepted transitions are a walk from the root to the active agent along grants.\<close>

fun path_walk :: "authority_policy \<Rightarrow> string option \<Rightarrow> (string \<times> string) list \<Rightarrow> string option \<Rightarrow> bool" where
  "path_walk p a [] b \<longleftrightarrow> a = b"
| "path_walk p a ((s, t) # ts) b \<longleftrightarrow> a = Some s \<and> find_handoff_grant p s t \<noteq> None \<and> path_walk p (Some t) ts b"

lemma path_walk_snoc:
  "path_walk p a (ts @ [(s, t)]) b \<longleftrightarrow> path_walk p a ts (Some s) \<and> find_handoff_grant p s t \<noteq> None \<and> b = Some t"
  by (induction p a ts "Some s" rule: path_walk.induct) auto

definition path_inv :: "authority_policy \<Rightarrow> handoff_path_state \<Rightarrow> bool" where
  "path_inv p st \<longleftrightarrow> authority_within (hp_authority st) (from_root p) \<and>
     path_walk p (hp_root_agent st) (hp_transitions st) (hp_active_agent st)"

lemma path_inv_init: "path_inv p (path_from_policy p)"
  by (simp add: path_inv_def path_from_policy_def Let_def authority_within_refl)

lemma path_inv_step: "path_inv p st \<Longrightarrow> path_inv p (handoff_step p st e)"
proof (cases "ev_kind e = HANDOFF")
  case True
  assume inv: "path_inv p st"
  from True show ?thesis
  proof (cases rule: advance_handoff_cases [of e p st])
    case (accepted source target g)
    then show ?thesis
      using inv step_within [of p st e] authority_within_trans
      by (auto simp: path_inv_def handoff_step_def path_walk_snoc)
  qed (use inv in \<open>auto simp: handoff_step_def\<close>)
qed (simp add: handoff_step_def advance_handoff_def)

lemma path_inv_run: "path_inv p st \<Longrightarrow> path_inv p (foldl (handoff_step p) st es)"
  by (induction es arbitrary: st) (auto intro: path_inv_step)

lemma state_before_foldl:
  "validated_handoff_state_before p events n =
     Inr (if has_handoff_authority p then foldl (handoff_step p) (path_from_policy p) (py_take n events)
          else path_from_policy p)"
  by (simp add: validated_handoff_state_before_def Let_def replay_foldl)

lemma state_before_inv: "validated_handoff_state_before p events n = Inr st \<Longrightarrow> path_inv p st"
  by (auto simp: state_before_foldl path_inv_init intro: path_inv_run split: if_splits)

text \<open>A grant out of the root agent is always accepted from the initial state.\<close>

lemma root_grant_accepted:
  assumes "wf_policy p" "g \<in> set (ap_handoff_grants p)"
  shows "snd (attenuate_authority (from_root p) g) = []"
  using assms by (auto simp: attenuate_within wf_policy_def from_root_def)

subsection \<open>The path digest\<close>

lemma path_transitions_inj:
  "map (sort_keys \<circ> transition_material) ts = map (sort_keys \<circ> transition_material) us \<Longrightarrow> ts = us"
proof (rule map_injective)
  show "inj (sort_keys \<circ> transition_material)"
    by (auto simp: inj_def transition_material_def insort_key.simps)
qed

interpretation handoff_path: canonical_digest path_material handoff_path_domain "\<lambda>_. True"
proof unfold_locales
  show "plain_json (path_material x)" for x
    by (cases "fst x") (auto simp: path_material_def transition_material_def list_all_iff opt_json_def)
  fix x y assume "sort_keys (path_material x) = sort_keys (path_material y)"
  then have f: "map_option sort_keys (dict_get [(''root_agent'', opt_json (map_option JStr (fst x))),
      (''transitions'', JArr (map transition_material (snd x)))] k) =
    map_option sort_keys (dict_get [(''root_agent'', opt_json (map_option JStr (fst y))),
      (''transitions'', JArr (map transition_material (snd y)))] k)" for k
    unfolding path_material_def by (rule sort_keys_objD) simp_all
  have "fst x = fst y"
    using f [of "''root_agent''"] by (cases "fst x"; cases "fst y") (auto simp: opt_json_def)
  moreover have "snd x = snd y"
    using f [of "''transitions''"] by (intro path_transitions_inj) simp
  ultimately show "x = y" by (rule prod_eqI)
qed

end
