(* ===== verification/ModelFields.thy ===== *)
theory ModelFields
  imports Resource SpecModels Evidence
begin

section \<open>Reading models out of JSON objects\<close>

text \<open>
  \<open>Model.model_validate(d)\<close> on a JSON object: no key outside the model, every field of its
  type. Where the code replaces the \<open>ValidationError\<close> by an error of its own, the reader
  returns an option. Only what the pydantic documentation states of its conversions is used:
  a \<open>str\<close> field takes a text, a strict \<open>int\<close> field an integer (not a boolean), an enum
  field the value of a member, an optional field also \<open>null\<close>.
\<close>

definition only_keys :: "string list \<Rightarrow> dict \<Rightarrow> bool" where
  "only_keys ks d \<longleftrightarrow> set (map fst d) \<subseteq> set ks"

fun as_int :: "json option \<Rightarrow> int option" where
  "as_int (Some (JInt i)) = Some i"
| "as_int _ = None"

fun as_bool :: "json option \<Rightarrow> bool option" where
  "as_bool (Some (JBool b)) = Some b"
| "as_bool _ = None"

fun as_obj :: "json option \<Rightarrow> dict option" where
  "as_obj (Some (JObj d)) = Some d"
| "as_obj _ = None"

fun as_arr :: "json option \<Rightarrow> json list option" where
  "as_arr (Some (JArr xs)) = Some xs"
| "as_arr _ = None"

lemma as_int_Some [simp]: "as_int x = Some i \<longleftrightarrow> x = Some (JInt i)"
  by (cases x rule: as_int.cases) auto

lemma as_bool_Some [simp]: "as_bool x = Some i \<longleftrightarrow> x = Some (JBool i)"
  by (cases x rule: as_bool.cases) auto

lemma as_obj_Some [simp]: "as_obj x = Some i \<longleftrightarrow> x = Some (JObj i)"
  by (cases x rule: as_obj.cases) auto

lemma as_arr_Some [simp]: "as_arr x = Some i \<longleftrightarrow> x = Some (JArr i)"
  by (cases x rule: as_arr.cases) auto

text \<open>A field with a default, and an optional field with default \<open>None\<close>.\<close>

definition with_default :: "'a \<Rightarrow> (json option \<Rightarrow> 'a option) \<Rightarrow> json option \<Rightarrow> 'a option" where
  "with_default v f x = (case x of None \<Rightarrow> Some v | Some _ \<Rightarrow> f x)"

definition nullable :: "(json option \<Rightarrow> 'a option) \<Rightarrow> json option \<Rightarrow> 'a option option" where
  "nullable f x = (case x of None \<Rightarrow> Some None | Some JNull \<Rightarrow> Some None | Some _ \<Rightarrow> map_option Some (f x))"

text \<open>An error raised inside a validator, as pydantic reports it.\<close>

definition as_validation :: "error + 'a \<Rightarrow> error + 'a" where
  "as_validation r = map_error (\<lambda>e. verr (err_msg e)) r"

definition of_result :: "error + 'a \<Rightarrow> 'a option" where
  "of_result r = (case r of Inl _ \<Rightarrow> None | Inr x \<Rightarrow> Some x)"

lemma of_result_Some [simp]: "of_result r = Some x \<longleftrightarrow> r = Inr x"
  by (auto simp: of_result_def split: sum.splits)

text \<open>\<open>ResourceIdentifier.model_validate\<close>, whose schema and kind have defaults.\<close>

definition read_identifier :: "json option \<Rightarrow> resource_identifier option" where
  "read_identifier v = do {
     m \<leftarrow> as_obj v;
     (if only_keys [''schema_version'', ''kind'', ''domain'', ''components''] m then Some () else None);
     sv \<leftarrow> with_default resource_schema as_str (dict_get m ''schema_version'');
     k \<leftarrow> with_default ''hierarchical'' as_str (dict_get m ''kind'');
     d \<leftarrow> as_str (dict_get m ''domain'');
     cs \<leftarrow> str_list (dict_get m ''components'');
     of_result (validate_identifier_fields sv k d cs) }"

text \<open>\<open>event.payload.get(k) == s\<close> for a text \<open>s\<close>.\<close>

definition payload_is :: "evidence_event \<Rightarrow> string \<Rightarrow> string \<Rightarrow> bool" where
  "payload_is e k s \<longleftrightarrow> payload_get e k = Some (JStr s)"

text \<open>\<open>xs[n:]\<close>\<close>

definition py_drop :: "int \<Rightarrow> 'a list \<Rightarrow> 'a list" where
  "py_drop n xs = drop (nat (if n < 0 then n + int (length xs) else n)) xs"

subsection \<open>Guards of fields\<close>

text \<open>
  The guards of one field, in the order pydantic tries them. \<open>ident_guards\<close> are those of
  \<open>_validate_identity_text\<close>; the class of their error is that of the caller, a
  \<open>ValueError\<close> in a constructor and a \<open>ValidationError\<close> in a field validator.
\<close>

definition sha_field :: "string \<Rightarrow> string \<Rightarrow> (bool \<times> error) list" where
  "sha_field name v = [(\<not> is_sha256 v, verr (name @ '': pattern''))]"

definition text_field :: "string \<Rightarrow> nat \<Rightarrow> string \<Rightarrow> (bool \<times> error) list" where
  "text_field name hi v = [(\<not> bounded_text 1 hi v, verr (name @ '': length''))]"

definition ident_guards :: "(string \<Rightarrow> error) \<Rightarrow> string \<Rightarrow> string \<Rightarrow> (bool \<times> error) list" where
  "ident_guards mk label v =
     [(py_strip v = [], mk (label @ '' must be non-empty'')),
      (v \<noteq> py_strip v, mk (label @ '' must not contain surrounding whitespace''))]"

definition ident_field :: "string \<Rightarrow> string \<Rightarrow> nat \<Rightarrow> string \<Rightarrow> (bool \<times> error) list" where
  "ident_field name label hi v = text_field name hi v @ ident_guards verr label v"

definition int_field :: "string \<Rightarrow> int \<Rightarrow> int option \<Rightarrow> int \<Rightarrow> (bool \<times> error) list" where
  "int_field name lo hi v =
     [(v < lo \<or> (case hi of None \<Rightarrow> False | Some h \<Rightarrow> v > h), verr (name @ '': range''))]"

definition literal_field :: "string \<Rightarrow> string \<Rightarrow> string \<Rightarrow> (bool \<times> error) list" where
  "literal_field name expected v = [(v \<noteq> expected, verr (name @ '': literal''))]"

end
