(* ===== verification/ApprovalIntent.thy ===== *)
theory ApprovalIntent
  imports Authority ModelFields
begin

section \<open>Approval intent evidence (\<open>evidence/approval_intent.py\<close>)\<close>

text \<open>
  A receipt binds the evaluator's decision to one approval interruption: the call, the digest
  of its arguments, its resource and the authority path it was observed on. Verification
  replays request, decision and continuation; every refusal is an \<open>ApprovalIntentError\<close>.
\<close>

record approval_receipt =
  ar_receipt_schema :: string
  ar_scenario_identity :: string
  ar_decision :: approval_decision
  ar_agent :: string
  ar_tool :: string
  ar_call_id :: string
  ar_arguments_sha256 :: string
  ar_resource :: "resource_identifier option"
  ar_authority_epoch :: int
  ar_authority_path_sha256 :: string
  ar_approval_request_sequence :: int
  ar_root_sha256 :: string

definition approval_intent_domain :: string where
  "approval_intent_domain = ''agent-evals/approval-intent/v2'' @ [CHR 0x00]"

definition approval_intent_schema :: string where
  "approval_intent_schema = ''agent-evals/approval-intent/v2''"

definition approval_decision_source :: string where
  "approval_decision_source = ''evaluator:openai-hitl-approval-intent''"

definition approval_request_source :: string where
  "approval_request_source = ''openai-agents:new_items''"

definition approved_tool_request_source :: string where
  "approved_tool_request_source = ''openai-agents:approved-execution''"

definition approved_tool_result_source :: string where
  "approved_tool_result_source = ''openai-agents:new_items''"

definition rejection_tool_result_source :: string where
  "rejection_tool_result_source = ''openai-agents:approval-rejection-result''"

definition aerr :: "string \<Rightarrow> error" where
  "aerr msg = Err ApprovalIntentError msg"

lemma aerr_cong [cong]: "aerr m = aerr m"
  by (rule refl)

definition approval_receipt_material :: "approval_receipt \<Rightarrow> json" where
  "approval_receipt_material r = JObj
     [(''receipt_schema'', JStr (ar_receipt_schema r)),
      (''scenario_identity'', JStr (ar_scenario_identity r)),
      (''decision'', JStr (decision_value (ar_decision r))),
      (''agent'', JStr (ar_agent r)),
      (''tool'', JStr (ar_tool r)),
      (''call_id'', JStr (ar_call_id r)),
      (''arguments_sha256'', JStr (ar_arguments_sha256 r)),
      (''resource'', opt_json (map_option resource_identifier_payload (ar_resource r))),
      (''authority_epoch'', JInt (ar_authority_epoch r)),
      (''authority_path_sha256'', JStr (ar_authority_path_sha256 r)),
      (''approval_request_sequence'', JInt (ar_approval_request_sequence r))]"

definition approval_root :: "json \<Rightarrow> string" where
  "approval_root material = sha256_hex (approval_intent_domain @ json_dumps material)"

definition approval_expected_root :: "approval_receipt \<Rightarrow> string" where
  "approval_expected_root r = approval_root (approval_receipt_material r)"

definition validate_approval_receipt :: "approval_receipt \<Rightarrow> error + approval_receipt" where
  "validate_approval_receipt r = rbind (raise_if
     [(ar_receipt_schema r \<noteq> approval_intent_schema, verr ''receipt_schema: pattern''),
      (\<not> is_sha256 (ar_scenario_identity r), verr ''scenario_identity: pattern''),
      (\<not> bounded_text 1 256 (ar_agent r), verr ''agent: length''),
      (\<not> bounded_text 1 256 (ar_tool r), verr ''tool: length''),
      (\<not> bounded_text 1 512 (ar_call_id r), verr ''call_id: length''),
      (\<not> is_sha256 (ar_arguments_sha256 r), verr ''arguments_sha256: pattern''),
      (ar_authority_epoch r < 0, verr ''authority_epoch: range''),
      (\<not> is_sha256 (ar_authority_path_sha256 r), verr ''authority_path_sha256: pattern''),
      (ar_approval_request_sequence r < 0, verr ''approval_request_sequence: range''),
      (\<not> is_sha256 (ar_root_sha256 r), verr ''root_sha256: pattern''),
      (list_ex (\<lambda>v. v \<noteq> py_strip v) [ar_agent r, ar_tool r, ar_call_id r],
       verr ''approval receipt identities must not contain surrounding whitespace''),
      (ar_root_sha256 r \<noteq> approval_expected_root r, verr ''approval intent receipt root mismatch'')])
     (\<lambda>_. Inr r)"

text \<open>
  \<open>json.loads\<close> with a duplicate-key hook and \<open>parse_constant\<close> refused, then the check for
  an overflowing float; the parser's recursion limit is not modelled.
\<close>

definition canonical_arguments_sha256 :: "string \<Rightarrow> error + string" where
  "canonical_arguments_sha256 arguments =
     (if arguments = [] then Inl (aerr ''approval intent requires non-empty string arguments'')
      else (case loads_unique arguments of
          None \<Rightarrow> Inl (aerr ''approval intent arguments must be finite unambiguous JSON'')
        | Some parsed \<Rightarrow>
            if \<not> finite_json parsed then Inl (aerr ''approval intent arguments must be finite unambiguous JSON'')
            else (case parsed of
                JObj _ \<Rightarrow> Inr (sha256_json parsed)
              | _ \<Rightarrow> Inl (aerr ''approval intent arguments must be a JSON object with string keys''))))"

definition create_approval_receipt ::
  "evaluation_scenario \<Rightarrow> string \<Rightarrow> string \<Rightarrow> string \<Rightarrow> string \<Rightarrow> resource_identifier option \<Rightarrow> int \<Rightarrow> string \<Rightarrow> int
   \<Rightarrow> error + approval_receipt" where
  "create_approval_receipt scenario agent tool call_id arguments resource epoch path request_sequence =
     (case es_approval_intent scenario of
        None \<Rightarrow> Inl (aerr ''scenario does not declare an approval intent'')
      | Some spec \<Rightarrow>
          rbind (canonical_arguments_sha256 arguments) (\<lambda>args.
          let r = \<lparr>ar_receipt_schema = approval_intent_schema,
                   ar_scenario_identity = scenario_identity scenario,
                   ar_decision = ai_decision spec, ar_agent = agent, ar_tool = tool, ar_call_id = call_id,
                   ar_arguments_sha256 = args, ar_resource = resource, ar_authority_epoch = epoch,
                   ar_authority_path_sha256 = path, ar_approval_request_sequence = request_sequence,
                   ar_root_sha256 = []\<rparr>
          in validate_approval_receipt (r\<lparr>ar_root_sha256 := approval_root (approval_receipt_material r)\<rparr>)))"

definition approval_receipt_json :: "approval_receipt \<Rightarrow> json" where
  "approval_receipt_json r = (case approval_receipt_material r of
     JObj kvs \<Rightarrow> JObj (kvs @ [(''root_sha256'', JStr (ar_root_sha256 r))]) | v \<Rightarrow> v)"

definition approval_receipt_event ::
  "approval_receipt \<Rightarrow> int \<Rightarrow> string \<Rightarrow> py_datetime \<Rightarrow> error + evidence_event" where
  "approval_receipt_event r sequence source now =
     mk_event sequence APPROVAL_DECISION source [(''receipt'', approval_receipt_json r)] now False"

definition approval_receipt_fields :: "string list" where
  "approval_receipt_fields =
     [''receipt_schema'', ''scenario_identity'', ''decision'', ''agent'', ''tool'', ''call_id'',
      ''arguments_sha256'', ''resource'', ''authority_epoch'', ''authority_path_sha256'',
      ''approval_request_sequence'', ''root_sha256'']"

definition read_approval_receipt :: "json option \<Rightarrow> approval_receipt option" where
  "read_approval_receipt v = do {
     m \<leftarrow> as_obj v;
     (if only_keys approval_receipt_fields m then Some () else None);
     schema \<leftarrow> with_default approval_intent_schema as_str (dict_get m ''receipt_schema'');
     scen \<leftarrow> as_str (dict_get m ''scenario_identity'');
     dec_text \<leftarrow> as_str (dict_get m ''decision'');
     dec \<leftarrow> parse_decision dec_text;
     agent \<leftarrow> as_str (dict_get m ''agent'');
     tool \<leftarrow> as_str (dict_get m ''tool'');
     call \<leftarrow> as_str (dict_get m ''call_id'');
     args \<leftarrow> as_str (dict_get m ''arguments_sha256'');
     res \<leftarrow> nullable read_identifier (dict_get m ''resource'');
     epoch \<leftarrow> as_int (dict_get m ''authority_epoch'');
     path \<leftarrow> as_str (dict_get m ''authority_path_sha256'');
     req \<leftarrow> as_int (dict_get m ''approval_request_sequence'');
     root \<leftarrow> as_str (dict_get m ''root_sha256'');
     of_result (validate_approval_receipt
       \<lparr>ar_receipt_schema = schema, ar_scenario_identity = scen, ar_decision = dec, ar_agent = agent,
        ar_tool = tool, ar_call_id = call, ar_arguments_sha256 = args, ar_resource = res,
        ar_authority_epoch = epoch, ar_authority_path_sha256 = path,
        ar_approval_request_sequence = req, ar_root_sha256 = root\<rparr>) }"

definition parse_approval_intent_event :: "evidence_event \<Rightarrow> error + approval_receipt" where
  "parse_approval_intent_event e =
     (if ev_kind e \<noteq> APPROVAL_DECISION then Inl (aerr ''event is not approval-decision evidence'')
      else if set (map fst (ev_payload e)) \<noteq> {''receipt''}
      then Inl (aerr ''approval-decision event must contain exactly one receipt'')
      else (case read_approval_receipt (payload_get e ''receipt'') of
          None \<Rightarrow> Inl (aerr ''approval-decision receipt is malformed'')
        | Some r \<Rightarrow> Inr r))"

definition event_resource :: "string \<Rightarrow> evidence_event \<Rightarrow> error + resource_identifier option" where
  "event_resource phase e = (case payload_get e ''resource'' of
       None \<Rightarrow> Inr None
     | Some v \<Rightarrow> (case parse_resource_identifier_payload v of
           Inl _ \<Rightarrow> Inl (aerr (phase @ '' resource identity is malformed''))
         | Inr r \<Rightarrow> Inr (Some r)))"

definition verify_event_intent ::
  "evidence_event \<Rightarrow> approval_receipt \<Rightarrow> handoff_path_state \<Rightarrow> string \<Rightarrow> error + unit" where
  "verify_event_intent e r st phase =
     rbind (raise_if
       [(\<not> payload_is e ''agent'' (ar_agent r),
         aerr (phase @ '' agent identity does not match approval receipt'')),
        (\<not> payload_is e ''tool'' (ar_tool r),
         aerr (phase @ '' tool identity does not match approval receipt'')),
        (\<not> payload_is e ''call_id'' (ar_call_id r),
         aerr (phase @ '' call identity does not match approval receipt''))]) (\<lambda>_.
     case as_str (payload_get e ''arguments'') of
       None \<Rightarrow> Inl (aerr (phase @ '' lacks canonicalizable string arguments''))
     | Some arguments \<Rightarrow>
         rbind (canonical_arguments_sha256 arguments) (\<lambda>digest.
         if digest \<noteq> ar_arguments_sha256 r
         then Inl (aerr (phase @ '' arguments do not match approved intent''))
         else rbind (event_resource phase e) (\<lambda>resource.
           raise_if
             [(resource \<noteq> ar_resource r, aerr (phase @ '' resource does not match approved intent'')),
              (int (path_epoch st) \<noteq> ar_authority_epoch r,
               aerr (phase @ '' occurred in a different authority epoch'')),
              (path_sha256 st \<noteq> ar_authority_path_sha256 r,
               aerr (phase @ '' occurred on a different authority path''))])))"

definition verify_result_identity :: "evidence_event \<Rightarrow> approval_receipt \<Rightarrow> string \<Rightarrow> error + unit" where
  "verify_result_identity e r phase = raise_if
     [(\<not> payload_is e ''agent'' (ar_agent r),
       aerr (phase @ '' agent identity does not match approval receipt'')),
      (\<not> payload_is e ''call_id'' (ar_call_id r),
       aerr (phase @ '' call identity does not match approval receipt''))]"

subsection \<open>\<open>verify_approval_intent\<close>\<close>

text \<open>
  The function in the order of its sections: the receipt against the scenario, its request,
  the uniqueness of that request, the tool requests before the decision, and the continuation
  after an approval or a rejection.
\<close>

definition verify_event_at ::
  "evaluation_scenario \<Rightarrow> trial_evidence \<Rightarrow> approval_receipt \<Rightarrow> string \<Rightarrow> evidence_event \<Rightarrow> error + unit" where
  "verify_event_at s t r phase e =
     rbind (validated_handoff_state_before (es_authority s) (te_events t) (ev_sequence e)) (\<lambda>st.
     verify_event_intent e r st phase)"

definition verify_receipt_binding ::
  "evaluation_scenario \<Rightarrow> approval_intent_spec \<Rightarrow> trial_evidence \<Rightarrow> evidence_event \<Rightarrow> approval_receipt \<Rightarrow> error + unit" where
  "verify_receipt_binding s spec t d r = raise_if
     [(ev_source d \<noteq> approval_decision_source, aerr ''approval decision source is not recognized''),
      (ar_scenario_identity r \<noteq> scenario_identity s, aerr ''approval receipt scenario identity mismatch''),
      (ar_decision r \<noteq> ai_decision spec, aerr ''approval receipt decision does not match scenario intent''),
      (ar_agent r \<noteq> ai_agent spec \<or> ar_tool r \<noteq> ai_tool spec,
       aerr ''approval receipt target does not match scenario intent''),
      (ar_approval_request_sequence r \<ge> ev_sequence d,
       aerr ''approval decision must follow its bound approval request''),
      (ar_approval_request_sequence r \<ge> int (length (te_events t)),
       aerr ''approval receipt request sequence is outside trial evidence'')]"

definition verify_bound_request ::
  "evaluation_scenario \<Rightarrow> approval_intent_spec \<Rightarrow> trial_evidence \<Rightarrow> approval_receipt \<Rightarrow> error + unit" where
  "verify_bound_request s spec t r =
     (let q = te_events t ! nat (ar_approval_request_sequence r);
          bound = filter (\<lambda>e. ev_kind e = APPROVAL_REQUEST \<and> payload_is e ''call_id'' (ar_call_id r)) (te_events t);
          target = filter (\<lambda>e. ev_kind e = APPROVAL_REQUEST \<and> payload_is e ''agent'' (ai_agent spec)
                      \<and> payload_is e ''tool'' (ai_tool spec)) (te_events t) in
      if ev_kind q \<noteq> APPROVAL_REQUEST
      then Inl (aerr ''approval receipt does not reference an approval-request event'')
      else rbind (verify_event_at s t r ''approval request'' q) (\<lambda>_.
        raise_if
          [(ev_source q \<noteq> approval_request_source, aerr ''approval request source is not recognized''),
           (length bound \<noteq> 1,
            aerr ''approval intent requires exactly one approval-request event for the bound call''),
           (ev_sequence (bound ! 0) \<noteq> ar_approval_request_sequence r,
            aerr ''approval receipt does not reference the unique bound-call approval request''),
           (length target \<noteq> 1,
            aerr ''approval intent requires exactly one target approval-request event''),
           (ev_sequence (target ! 0) \<noteq> ar_approval_request_sequence r,
            aerr ''approval receipt does not reference the unique target approval request'')]))"

definition verify_predecision ::
  "evaluation_scenario \<Rightarrow> trial_evidence \<Rightarrow> evidence_event \<Rightarrow> approval_receipt \<Rightarrow> error + unit" where
  "verify_predecision s t d r =
     rbind (rfor (\<lambda>e. rcatch (\<lambda>err. err_class err = ApprovalIntentError)
         (aerr ''approval call identity collides with an unrelated pre-decision tool request'')
         (verify_event_at s t r ''pre-decision tool request'' e))
       (filter (\<lambda>e. ev_kind e = TOOL_REQUEST \<and> payload_is e ''call_id'' (ar_call_id r))
          (py_take (ev_sequence d) (te_events t)))) (\<lambda>_.
     if list_ex (\<lambda>e. ev_kind e = TOOL_RESULT \<and> payload_is e ''call_id'' (ar_call_id r)
          \<and> ev_sequence e \<le> ev_sequence d) (te_events t)
     then Inl (aerr ''approval continuation result cannot precede its decision'')
     else Inr ())"

definition verify_approved ::
  "evaluation_scenario \<Rightarrow> trial_evidence \<Rightarrow> approval_receipt \<Rightarrow> evidence_event list \<Rightarrow> evidence_event list \<Rightarrow> error + unit" where
  "verify_approved s t r resumed results =
     (case resumed of
        [] \<Rightarrow> Inl (aerr ''approved interruption produced no matching resumed tool request'')
      | q # _ \<Rightarrow>
          rbind (verify_event_at s t r ''resumed tool request'' q) (\<lambda>_.
          if ev_source q \<noteq> approved_tool_request_source
          then Inl (aerr ''approved resumed tool request source is not recognized'')
          else (case results of
              [m] \<Rightarrow>
                if ev_sequence m \<le> ev_sequence q
                then Inl (aerr ''approved tool result must follow the resumed tool request'')
                else rbind (verify_result_identity m r ''approved tool result'') (\<lambda>_.
                  raise_if
                    [(payload_get m ''approval_rejected'' = Some (JBool True),
                      aerr ''approved invocation produced rejection-marked tool result''),
                     (ev_source m \<noteq> approved_tool_result_source,
                      aerr ''approved tool result source is not recognized'')])
            | _ \<Rightarrow> Inl (aerr ''approved interruption must produce exactly one matching resumed tool result''))))"

definition verify_rejected ::
  "evaluation_scenario \<Rightarrow> trial_evidence \<Rightarrow> approval_receipt \<Rightarrow> evidence_event list \<Rightarrow> evidence_event list \<Rightarrow> error + unit" where
  "verify_rejected s t r resumed results =
     (case resumed of
        q # _ \<Rightarrow>
          rbind (verify_event_at s t r ''rejected resumed tool request'' q) (\<lambda>_.
          case results of
            [m] \<Rightarrow>
              if ev_sequence m \<le> ev_sequence q
              then Inl (aerr ''rejected bypass result must follow the resumed tool request'')
              else verify_result_identity m r ''rejected bypass result''
          | _ \<Rightarrow> Inl (aerr ''rejected bypass must produce exactly one matching tool result''))
      | [] \<Rightarrow> (case results of
            [m] \<Rightarrow>
              rbind (verify_result_identity m r ''rejection continuation result'') (\<lambda>_.
              raise_if
                [(payload_get m ''approval_rejected'' \<noteq> Some (JBool True),
                  aerr ''rejection continuation result lacks explicit rejection marker''),
                 (ev_source m \<noteq> rejection_tool_result_source,
                  aerr ''rejection continuation result source is not recognized'')])
          | _ \<Rightarrow> Inl (aerr ''rejected interruption must produce exactly one matching continuation result'')))"

definition resumed_requests :: "trial_evidence \<Rightarrow> evidence_event \<Rightarrow> approval_receipt \<Rightarrow> evidence_event list" where
  "resumed_requests t d r = filter (\<lambda>e. ev_kind e = TOOL_REQUEST \<and> payload_is e ''call_id'' (ar_call_id r))
     (py_drop (ev_sequence d + 1) (te_events t))"

definition matching_results :: "trial_evidence \<Rightarrow> evidence_event \<Rightarrow> approval_receipt \<Rightarrow> evidence_event list" where
  "matching_results t d r = filter (\<lambda>e. ev_kind e = TOOL_RESULT \<and> payload_is e ''call_id'' (ar_call_id r))
     (py_drop (ev_sequence d + 1) (te_events t))"

definition verify_decision ::
  "evaluation_scenario \<Rightarrow> approval_intent_spec \<Rightarrow> trial_evidence \<Rightarrow> evidence_event \<Rightarrow> error + unit" where
  "verify_decision s spec t d =
     rbind (parse_approval_intent_event d) (\<lambda>r.
     rbind (verify_receipt_binding s spec t d r) (\<lambda>_.
     rbind (verify_bound_request s spec t r) (\<lambda>_.
     rbind (verify_predecision s t d r) (\<lambda>_.
     if length (resumed_requests t d r) > 1
     then Inl (aerr ''approval decision maps to multiple resumed tool requests'')
     else if ar_decision r = APPROVE
     then verify_approved s t r (resumed_requests t d r) (matching_results t d r)
     else verify_rejected s t r (resumed_requests t d r) (matching_results t d r)))))"

definition decision_events :: "trial_evidence \<Rightarrow> evidence_event list" where
  "decision_events t = filter (\<lambda>e. ev_kind e = APPROVAL_DECISION) (te_events t)"

definition verify_approval_intent :: "evaluation_scenario \<Rightarrow> trial_evidence \<Rightarrow> error + unit" where
  "verify_approval_intent s t =
     (case es_approval_intent s of
        None \<Rightarrow> if decision_events t \<noteq> []
          then Inl (aerr ''approval-decision evidence is present but the scenario has no approval intent'')
          else Inr ()
      | Some spec \<Rightarrow>
          if te_scenario_identity t \<noteq> scenario_identity s
          then Inl (aerr ''trial evidence does not match the approval-intent scenario'')
          else (case decision_events t of
              [] \<Rightarrow>
                if list_ex (\<lambda>e. ev_kind e = TOOL_REQUEST \<and> payload_is e ''agent'' (ai_agent spec)
                     \<and> payload_is e ''tool'' (ai_tool spec)) (te_events t)
                then Inr ()
                else Inl (aerr ''scenario approval target produced no bound decision evidence'')
            | [d] \<Rightarrow> verify_decision s spec t d
            | _ \<Rightarrow> Inl (aerr ''approval intent requires exactly one decision event'')))"

end
