(* ===== verification/EvidenceProofs.thy ===== *)
theory EvidenceProofs
  imports Evidence "HOL-Library.Multiset"
begin

section \<open>Validated evidence and its root\<close>

text \<open>
  Snapshots are fixed points, validated evidence is contiguous, and the evidence root binds the
  trial up to a SHA-256 collision.
\<close>

subsection \<open>Snapshots\<close>

lemma sum_list_sort_key: "sum_list (map f (sort_key g xs)) = (sum_list (map f xs) :: nat)"
  by (metis mset_map mset_sort sum_mset_sum_list)

lemma json_nodes_sort_keys [simp]: "json_nodes (sort_keys v) = json_nodes v"
proof (induction v rule: json_induct)
  case (Arr xs)
  then show ?case by (simp add: comp_def cong: map_cong)
next
  case (Obj kvs)
  have "(\<Sum>x\<leftarrow>kvs. json_nodes (sort_keys (snd x))) = (\<Sum>x\<leftarrow>kvs. json_nodes (snd x))"
    using Obj by (intro arg_cong [where f = sum_list] map_cong) auto
  then show ?case by (simp add: sum_list_sort_key comp_def)
qed auto

lemma json_bytes_sort_keys [simp]: "json_bytes (sort_keys v) = json_bytes v"
proof (induction v rule: json_induct)
  case (Arr xs)
  then show ?case by (simp add: comp_def cong: map_cong)
next
  case (Obj kvs)
  have "(\<Sum>x\<leftarrow>kvs. length (utf8 (fst x)) + json_bytes (sort_keys (snd x)))
      = (\<Sum>x\<leftarrow>kvs. length (utf8 (fst x)) + json_bytes (snd x))"
    using Obj by (intro arg_cong [where f = sum_list] map_cong) auto
  then show ?case by (simp add: sum_list_sort_key comp_def)
qed auto

lemma json_scalars_sort_keys [simp]: "json_scalars_ok (sort_keys v) = json_scalars_ok v"
  by (induction v rule: json_induct) (auto simp: list_all_iff)

lemma sort_key_empty [simp]: "sort_key f xs = [] \<longleftrightarrow> xs = []"
  using length_sort [of f xs] by (metis length_0_conv)

lemma depth_within_sort_keys [simp]: "depth_within (sort_keys v) d = depth_within v d"
proof (induction v arbitrary: d rule: json_induct)
  case (Obj kvs)
  have "sort_key fst (map (\<lambda>kv. (fst kv, sort_keys (snd kv))) kvs) = [] \<longleftrightarrow> kvs = []"
    by simp
  moreover have "depth_within (sort_keys (snd x)) n = depth_within (snd x) n" if "x \<in> set kvs" for x n
    using Obj [of "fst x" "snd x"] that by simp
  ultimately show ?case by (cases d) (simp_all add: list_all_iff)
next
  case (Arr xs)
  then show ?case by (cases d) (auto simp: list_all_iff)
qed auto

lemma within_budget_sort_keys [simp]: "within_budget b (sort_keys v) = within_budget b v"
  by (simp add: within_budget_def)

lemma detached_dict_idem: "detached_dict msg b d = Inr d' \<Longrightarrow> detached_dict msg b d' = Inr d'"
  by (auto simp: detached_dict_def sort_dict_json simp del: sort_keys.simps split: if_splits)

lemma mk_event_snapshot:
  assumes "mk_event s k src p t c = Inr e"
  shows "snapshot_event e = Inr e"
proof -
  obtain p' u where p': "detached_dict ''evidence payload must be finite JSON-compatible data within resource limits''
      event_payload_budget p = Inr p'" and u: "require_aware_utc t = Inr u"
    and e: "e = \<lparr>ev_sequence = s, ev_kind = k, ev_source = src, ev_payload = p', ev_observed_at = u, ev_critical = c\<rparr>"
    and g: "0 \<le> s" "src \<noteq> []"
    using assms by (auto simp: mk_event_def result_simps)
  show ?thesis
    using g by (simp add: snapshot_event_def mk_event_def e detached_dict_idem [OF p'] require_aware_utc_def)
qed

lemma snapshot_event_snapshot: "snapshot_event e = Inr e' \<Longrightarrow> snapshot_event e' = Inr e'"
  unfolding snapshot_event_def [of e] by (rule mk_event_snapshot)

lemma validate_evidence_Inr:
  assumes "validate_evidence t = Inr t'"
  obtains es fs where "rmap snapshot_event (te_events t) = Inr es"
    "detached_dict ''final_state must be finite JSON-compatible data within resource limits''
       final_state_budget (te_final_state t) = Inr fs"
    "event_sequence_check es = Inr ()" "length (te_events t) \<le> max_trial_events"
    "is_sha256 (te_subject_identity t)" "is_sha256 (te_scenario_identity t)"
    "t' = t\<lparr>te_events := es, te_final_state := fs\<rparr>"
proof -
  from assms obtain es fs where "rmap snapshot_event (te_events t) = Inr es"
    "detached_dict ''final_state must be finite JSON-compatible data within resource limits''
       final_state_budget (te_final_state t) = Inr fs"
    "rbind (event_sequence_check es) (\<lambda>_. Inr (t\<lparr>te_events := es, te_final_state := fs\<rparr>)) = Inr t'"
    "length (te_events t) \<le> max_trial_events"
    "is_sha256 (te_subject_identity t)" "is_sha256 (te_scenario_identity t)"
    unfolding validate_evidence_def rbind_Inr raise_if_Inr not_less not_not by blast
  then show thesis by (intro that [of es fs]) (auto simp: rbind_Inr)
qed

lemma rmap_fixed: "rmap f xs = Inr ys \<Longrightarrow> (\<And>x y. f x = Inr y \<Longrightarrow> f y = Inr y) \<Longrightarrow> rmap f ys = Inr ys"
  by (auto simp: rmap_Inr list_all2_conv_all_nth)

lemma validate_evidence_idem:
  assumes "validate_evidence t = Inr t'"
  shows "validate_evidence t' = Inr t'"
proof -
  obtain es fs where f: "rmap snapshot_event (te_events t) = Inr es"
    "detached_dict ''final_state must be finite JSON-compatible data within resource limits''
       final_state_budget (te_final_state t) = Inr fs"
    "event_sequence_check es = Inr ()" "length (te_events t) \<le> max_trial_events"
    and t': "t' = t\<lparr>te_events := es, te_final_state := fs\<rparr>"
    using assms by (rule validate_evidence_Inr)
  have "rmap snapshot_event es = Inr es"
    using f(1) snapshot_event_snapshot by (rule rmap_fixed)
  with assms f detached_dict_idem [OF f(2)] rmap_Inr_length [OF f(1)] show ?thesis
    by (simp add: validate_evidence_def t')
qed

text \<open>The events of a validated envelope are numbered by their positions.\<close>

lemma event_sequence_check_Inr:
  "event_sequence_check es = Inr u \<longleftrightarrow> (\<forall>i < length es. ev_sequence (es ! i) = int i)"
proof -
  have "event_sequence_check es = Inr u \<longleftrightarrow> map ev_sequence es = map int [0..<length es]"
    by (simp add: event_sequence_check_def Let_def)
  also have "\<dots> \<longleftrightarrow> (\<forall>i < length es. ev_sequence (es ! i) = int i)"
    by (subst list_eq_iff_nth_eq) simp
  finally show ?thesis .
qed

lemma validate_evidence_sequence:
  assumes "validate_evidence t = Inr t'" "i < length (te_events t')"
  shows "ev_sequence (te_events t' ! i) = int i"
  using assms(1) by (rule validate_evidence_Inr) (use assms(2) in \<open>simp add: event_sequence_check_Inr\<close>)

subsection \<open>What the evidence root binds\<close>

definition event_text :: "evidence_event \<Rightarrow> string" where
  "event_text e = json_dumps (event_material e)"

text \<open>Every message hashed on the way to the root.\<close>

fun chain_messages :: "string \<Rightarrow> evidence_event list \<Rightarrow> string list" where
  "chain_messages chain [] = []"
| "chain_messages chain (e # es) =
     event_text e # (chain @ sha256_digest (event_text e))
     # chain_messages (sha256_digest (chain @ sha256_digest (event_text e))) es"

definition root_seed :: "trial_evidence \<Rightarrow> string" where
  "root_seed t = evidence_root_domain @ json_dumps (envelope_identity t)"

definition root_messages :: "trial_evidence \<Rightarrow> string list" where
  "root_messages t = root_seed t # chain_messages (sha256_digest (root_seed t)) (te_events t)
     @ [evidence_root_domain @ chain_events (sha256_digest (root_seed t)) (te_events t)
          @ json_dumps (terminal_material t)]"

definition messages_collide :: "string list \<Rightarrow> string list \<Rightarrow> bool" where
  "messages_collide xs ys \<longleftrightarrow> (\<exists>x \<in> set xs. \<exists>y \<in> set ys. sha256_collision x y)"

lemma collideI: "x \<in> set xs \<Longrightarrow> y \<in> set ys \<Longrightarrow> sha256_digest x = sha256_digest y \<Longrightarrow> x = y \<or> messages_collide xs ys"
  by (auto simp: messages_collide_def sha256_collision_def)

lemma messages_collide_mono:
  "messages_collide xs ys \<Longrightarrow> set xs \<subseteq> set xs' \<Longrightarrow> set ys \<subseteq> set ys' \<Longrightarrow> messages_collide xs' ys'"
  unfolding messages_collide_def by blast

lemma chain_events_snoc:
  "chain_events c (es @ [e]) = sha256_digest (chain_events c es @ sha256_digest (event_text e))"
  by (induction c es rule: chain_events.induct) (simp_all add: event_text_def)

lemma chain_messages_snoc:
  "chain_messages c (es @ [e]) = chain_messages c es @ [event_text e, chain_events c es @ sha256_digest (event_text e)]"
  by (induction c es rule: chain_events.induct) (simp_all add: event_text_def)

lemma length_chain: "length c = 32 \<Longrightarrow> length (chain_events c es) = 32"
  by (induction c es rule: chain_events.induct) (simp_all add: length_digest)

text \<open>
  Equal chains have equal seeds and events, or two of the hashed messages collide: the seed
  is longer than the 64 bytes of a chaining step, so the two chains have equal length.
\<close>

lemma chain_binding:
  assumes "chain_events (sha256_digest s) es = chain_events (sha256_digest s') es'"
    and "length s > 64" "length s' > 64"
  shows "(s = s' \<and> map event_text es = map event_text es') \<or>
    messages_collide (s # chain_messages (sha256_digest s) es) (s' # chain_messages (sha256_digest s') es')"
  using assms(1)
proof (induction es arbitrary: es' rule: rev_induct)
  case Nil
  show ?case
  proof (cases es' rule: rev_cases)
    case Nil
    with Nil.prems collideI [of s "[s]" s' "[s']"] show ?thesis by auto
  next
    case (snoc fs f)
    let ?m = "chain_events (sha256_digest s') fs @ sha256_digest (event_text f)"
    have "sha256_digest s = sha256_digest ?m" using Nil.prems by (simp add: snoc chain_events_snoc)
    moreover have "length ?m = 64" by (simp add: length_chain length_digest)
    ultimately have "sha256_collision s ?m" using assms(2) by (auto simp: sha256_collision_def)
    then show ?thesis by (auto simp: messages_collide_def snoc chain_messages_snoc)
  qed
next
  case (snoc e es)
  let ?m = "chain_events (sha256_digest s) es @ sha256_digest (event_text e)"
  have lm: "length ?m = 64" by (simp add: length_chain length_digest)
  show ?case
  proof (cases es' rule: rev_cases)
    case Nil
    have "sha256_digest ?m = sha256_digest s'" using snoc.prems by (simp add: Nil chain_events_snoc)
    with lm assms(3) have "sha256_collision ?m s'" by (auto simp: sha256_collision_def)
    then show ?thesis by (auto simp: messages_collide_def Nil chain_messages_snoc)
  next
    case es': (snoc fs f)
    let ?l = "chain_events (sha256_digest s') fs @ sha256_digest (event_text f)"
    let ?M = "s # chain_messages (sha256_digest s) (es @ [e])"
    let ?L = "s' # chain_messages (sha256_digest s') (fs @ [f])"
    have "?m = ?l \<or> messages_collide ?M ?L"
      using snoc.prems by (intro collideI) (simp_all add: es' chain_events_snoc chain_messages_snoc)
    moreover have ?thesis if eq: "?m = ?l"
    proof -
      have c: "chain_events (sha256_digest s) es = chain_events (sha256_digest s') fs"
        and d: "sha256_digest (event_text e) = sha256_digest (event_text f)"
        using eq by (auto simp: length_chain length_digest append_eq_append_conv)
      have "event_text e = event_text f \<or> messages_collide ?M ?L"
        using d by (intro collideI) (simp_all add: chain_messages_snoc)
      moreover have "messages_collide ?M ?L"
        if "messages_collide (s # chain_messages (sha256_digest s) es) (s' # chain_messages (sha256_digest s') fs)"
        using that by (rule messages_collide_mono) (auto simp: chain_messages_snoc)
      ultimately show ?thesis using snoc.IH [OF c] by (auto simp: es')
    qed
    ultimately show ?thesis by (auto simp: es')
  qed
qed

lemma length_json_str: "length s + 2 \<le> length (json_str ea s)"
proof -
  have "length s \<le> length (concat (map (esc_char ea) s))"
  proof (induction s)
    case (Cons c s)
    have "1 \<le> length (esc_char ea c)" by (simp add: esc_char_def u_escape_def)
    with Cons show ?case by simp
  qed simp
  then show ?thesis by (simp add: json_str_def)
qed

lemma seed_long: "length (root_seed t) > 64"
proof -
  define J where "J = json_dumps (envelope_identity t)"
  have "length J \<ge> 40"
    using length_json_str [of "''scenario_identity''" True] length_json_str [of "''subject_identity''" True]
    by (simp add: J_def json_dumps_def envelope_identity_def)
  then show ?thesis by (simp add: root_seed_def evidence_root_domain_def J_def)
qed

text \<open>
  Equal roots: the same identities, event texts and terminal text, or two of the messages
  hashed for the roots collide.
\<close>

lemma evidence_root_binding:
  assumes "evidence_root t = evidence_root t'"
  shows "(te_trial_id t = te_trial_id t' \<and> te_subject_identity t = te_subject_identity t' \<and>
      te_scenario_identity t = te_scenario_identity t' \<and>
      map event_text (te_events t) = map event_text (te_events t') \<and>
      json_dumps (terminal_material t) = json_dumps (terminal_material t'))
    \<or> messages_collide (root_messages t) (root_messages t')"
proof -
  let ?c = "\<lambda>t. chain_events (sha256_digest (root_seed t)) (te_events t)"
  let ?last = "\<lambda>t. evidence_root_domain @ ?c t @ json_dumps (terminal_material t)"
  have "sha256_digest (?last t) = sha256_digest (?last t')"
    using assms to_hex_inj by (simp add: evidence_root_def sha256_hex_def Let_def root_seed_def)
  then have "?last t = ?last t' \<or> messages_collide (root_messages t) (root_messages t')"
    by (intro collideI) (simp_all add: root_messages_def)
  moreover have ?thesis if "?last t = ?last t'"
  proof -
    have c: "?c t = ?c t'" "json_dumps (terminal_material t) = json_dumps (terminal_material t')"
      using that by (auto simp: length_chain length_digest append_eq_append_conv)
    from chain_binding [OF c(1) seed_long seed_long] show ?thesis
    proof
      assume eq: "root_seed t = root_seed t' \<and> map event_text (te_events t) = map event_text (te_events t')"
      then have "json_dumps (envelope_identity t) = json_dumps (envelope_identity t')"
        by (simp add: root_seed_def)
      then have s: "sort_keys (envelope_identity t) = sort_keys (envelope_identity t')"
        by (intro json_dumps_inj) (simp_all add: envelope_identity_def)
      have "map_option sort_keys (dict_get [(''trial_id'', JStr (te_trial_id t)),
          (''subject_identity'', JStr (te_subject_identity t)), (''scenario_identity'', JStr (te_scenario_identity t))] k)
        = map_option sort_keys (dict_get [(''trial_id'', JStr (te_trial_id t')),
          (''subject_identity'', JStr (te_subject_identity t')), (''scenario_identity'', JStr (te_scenario_identity t'))] k)" for k
        using s unfolding envelope_identity_def by (rule sort_keys_objD) simp_all
      from this [of "''trial_id''"] this [of "''subject_identity''"] this [of "''scenario_identity''"] eq c(2)
      show ?thesis by simp
    next
      assume "messages_collide (root_seed t # chain_messages (sha256_digest (root_seed t)) (te_events t))
        (root_seed t' # chain_messages (sha256_digest (root_seed t')) (te_events t'))"
      then have "messages_collide (root_messages t) (root_messages t')"
        by (rule messages_collide_mono) (auto simp: root_messages_def)
      then show ?thesis ..
    qed
  qed
  ultimately show ?thesis by blast
qed

end
