(* ===== verification/ApprovalProofs.thy ===== *)
theory ApprovalProofs
  imports ApprovalIntent EvidenceProofs
begin

section \<open>What approval verification establishes\<close>

text \<open>
  A sorted receipt is read back, verification raises its own error only, and its acceptance is
  characterised step by step down to the resumed request (\<open>approval_closed\<close>).
\<close>

subsection \<open>Reading back sorted objects\<close>

lemma dict_get_sort_dict:
  assumes "distinct (map fst d)"
  shows "dict_get (sort_dict d) k = map_option sort_keys (dict_get d k)"
proof -
  let ?f = "\<lambda>kv. (fst kv, sort_keys (snd kv))"
  have "map_of (sort_key fst (map ?f d)) = map_of (map ?f d)"
    using assms by (intro map_of_sort_key) (simp add: comp_def)
  moreover have "map_of (map ?f d) k = map_option sort_keys (map_of d k)"
    by (induction d) auto
  ultimately show ?thesis by (simp add: sort_dict_def)
qed

lemma keys_sort_dict [simp]: "set (map fst (sort_dict d)) = fst ` set d"
  by (force simp: sort_dict_def)

lemma sort_keys_JStr [simp]: "sort_keys \<circ> JStr = JStr"
  by auto

lemma those_strs_JStr [simp]: "those (map ((\<lambda>x. as_str (Some x)) \<circ> JStr) xs) = Some xs"
  by (induction xs) auto

lemma validate_identifier_fields_valid:
  "valid_identifier r \<Longrightarrow>
   validate_identifier_fields (ri_schema_version r) (kind_value (ri_kind r)) (ri_domain r) (ri_components r) = Inr r"
  using mk_identifier_fields [of "ri_domain r" "ri_components r" r]
  by (simp add: validate_identifier_fields_def valid_identifier_def)

lemma read_identifier_sorted:
  assumes "valid_identifier r"
  shows "read_identifier (Some (sort_keys (resource_identifier_payload r))) = Some r"
proof -
  define d where "d = [(''schema_version'', JStr (ri_schema_version r)), (''kind'', JStr (kind_value (ri_kind r))),
      (''domain'', JStr (ri_domain r)), (''components'', JArr (map JStr (ri_components r)))]"
  have p: "sort_keys (resource_identifier_payload r) = JObj (sort_dict d)"
    by (simp add: resource_identifier_payload_def d_def sort_dict_json del: sort_keys.simps)
  have g: "dict_get (sort_dict d) k = map_option sort_keys (dict_get d k)" for k
    by (rule dict_get_sort_dict) (simp add: d_def)
  have fields: "dict_get d ''schema_version'' = Some (JStr (ri_schema_version r))"
    "dict_get d ''kind'' = Some (JStr (kind_value (ri_kind r)))" "dict_get d ''domain'' = Some (JStr (ri_domain r))"
    "dict_get d ''components'' = Some (JArr (map JStr (ri_components r)))" and keys: "fst ` set d = resource_fields"
    by (auto simp: d_def resource_fields_def)
  have only: "only_keys [''schema_version'', ''kind'', ''domain'', ''components''] (sort_dict d)"
    unfolding only_keys_def keys_sort_dict keys by (simp add: resource_fields_def)
  show ?thesis
    using validate_identifier_fields_valid [OF assms]
    by (simp add: read_identifier_def p g only fields with_default_def)
qed

subsection \<open>Receipts: digest and round trip\<close>

lemma validate_approval_receipt_id: "validate_approval_receipt r = Inr r' \<Longrightarrow> r' = r"
  by (auto simp: validate_approval_receipt_def rbind_Inr)

lemma validate_approval_receipt_facts:
  assumes "validate_approval_receipt r = Inr r'"
  shows "ar_root_sha256 r = approval_expected_root r" "ar_receipt_schema r = approval_intent_schema"
    "0 \<le> ar_approval_request_sequence r" "0 \<le> ar_authority_epoch r"
  using assms by (auto simp: validate_approval_receipt_def result_simps)

lemma payload_inj: "sort_keys (resource_identifier_payload r) = sort_keys (resource_identifier_payload s) \<Longrightarrow> r = s"
proof -
  assume "sort_keys (resource_identifier_payload r) = sort_keys (resource_identifier_payload s)"
  then have f: "map_option sort_keys (dict_get [(''schema_version'', JStr (ri_schema_version r)),
      (''kind'', JStr (kind_value (ri_kind r))), (''domain'', JStr (ri_domain r)),
      (''components'', JArr (map JStr (ri_components r)))] k) =
    map_option sort_keys (dict_get [(''schema_version'', JStr (ri_schema_version s)),
      (''kind'', JStr (kind_value (ri_kind s))), (''domain'', JStr (ri_domain s)),
      (''components'', JArr (map JStr (ri_components s)))] k)" for k
    unfolding resource_identifier_payload_def by (rule sort_keys_objD) simp_all
  have "ri_kind r = ri_kind s" by (metis (full_types) resource_kind.exhaust)
  moreover have "map JStr (ri_components r) = map JStr (ri_components s)"
    using f [of "''components''"] by simp
  then have "ri_components r = ri_components s" by (rule map_injective) (simp add: inj_def)
  ultimately show "r = s"
    using f [of "''schema_version''"] f [of "''domain''"] by (cases r; cases s) simp
qed

definition approval_fields :: "approval_receipt \<Rightarrow> dict" where
  "approval_fields r = (case approval_receipt_material r of JObj d \<Rightarrow> d | _ \<Rightarrow> [])"

lemma approval_material_fields: "approval_receipt_material r = JObj (approval_fields r)"
  by (simp add: approval_fields_def approval_receipt_material_def)

lemma approval_fields_keys: "map fst (approval_fields r) = butlast approval_receipt_fields"
  by (simp add: approval_fields_def approval_receipt_material_def approval_receipt_fields_def)

lemma decision_value_inj: "decision_value d = decision_value e \<longleftrightarrow> d = e"
  by (metis option.inject parse_decision_value)

interpretation approval_receipt_digest: canonical_digest approval_receipt_material approval_intent_domain
  "\<lambda>r. ar_root_sha256 r = [] \<and> plain_json (approval_receipt_material r)"
proof unfold_locales
  show "plain_json (approval_receipt_material r)"
    if "ar_root_sha256 r = [] \<and> plain_json (approval_receipt_material r)" for r
    using that ..
  fix r s :: approval_receipt
  assume root: "ar_root_sha256 r = [] \<and> plain_json (approval_receipt_material r)"
      "ar_root_sha256 s = [] \<and> plain_json (approval_receipt_material s)"
    and "sort_keys (approval_receipt_material r) = sort_keys (approval_receipt_material s)"
  then have f: "map_option sort_keys (dict_get (approval_fields r) k) =
      map_option sort_keys (dict_get (approval_fields s) k)" for k
    unfolding approval_material_fields
    by (rule_tac sort_keys_objD) (simp_all add: approval_fields_keys approval_receipt_fields_def)
  note get = f [unfolded approval_fields_def approval_receipt_material_def]
  have res: "ar_resource r = ar_resource s"
    using get [of "''resource''"] payload_inj
    by (cases "ar_resource r"; cases "ar_resource s")
      (auto simp: opt_json_def resource_identifier_payload_def)
  from root res get [of "''receipt_schema''"] get [of "''scenario_identity''"] get [of "''decision''"]
    get [of "''agent''"] get [of "''tool''"] get [of "''call_id''"] get [of "''arguments_sha256''"]
    get [of "''authority_epoch''"] get [of "''authority_path_sha256''"] get [of "''approval_request_sequence''"]
  show "r = s"
    by (cases r; cases s) (simp add: decision_value_inj)
qed

lemma create_approval_receipt_facts:
  assumes "create_approval_receipt s agent tool call arguments res epoch path req = Inr r"
  shows "validate_approval_receipt r = Inr r" "ar_resource r = res"
    "canonical_arguments_sha256 arguments = Inr (ar_arguments_sha256 r)"
    "ar_scenario_identity r = scenario_identity s" "ar_call_id r = call"
  using assms
  by (auto simp: create_approval_receipt_def result_simps Let_def split: option.splits
      dest: validate_approval_receipt_id)

lemma approval_json_dict:
  "approval_receipt_json r = JObj (approval_fields r @ [(''root_sha256'', JStr (ar_root_sha256 r))])"
  by (simp add: approval_receipt_json_def approval_material_fields)

text \<open>The receipt written into an event is the receipt read from it.\<close>

lemma read_approval_receipt_json:
  assumes v: "validate_approval_receipt r = Inr r"
    and res: "\<And>x. ar_resource r = Some x \<Longrightarrow> valid_identifier x"
  shows "read_approval_receipt (Some (sort_keys (approval_receipt_json r))) = Some r"
proof -
  define d where "d = approval_fields r @ [(''root_sha256'', JStr (ar_root_sha256 r))]"
  have keys: "map fst d = approval_receipt_fields"
    by (simp add: d_def approval_fields_keys approval_receipt_fields_def)
  have p: "sort_keys (approval_receipt_json r) = JObj (sort_dict d)"
    by (simp add: approval_json_dict d_def sort_dict_json del: sort_keys.simps)
  have "distinct (map fst d)" unfolding keys by (simp add: approval_receipt_fields_def)
  then have g: "dict_get (sort_dict d) k = map_option sort_keys (dict_get d k)" for k
    by (rule dict_get_sort_dict)
  have only: "only_keys approval_receipt_fields (sort_dict d)"
    unfolding only_keys_def keys_sort_dict using keys by (metis list.set_map subset_refl)
  have r: "nullable read_identifier (map_option sort_keys (dict_get d ''resource'')) = Some (ar_resource r)"
  proof (cases "ar_resource r")
    case None
    then show ?thesis by (simp add: d_def approval_fields_def approval_receipt_material_def nullable_def opt_json_def)
  next
    case (Some x)
    then have "read_identifier (Some (sort_keys (resource_identifier_payload x))) = Some x"
      using res by (intro read_identifier_sorted) blast
    moreover obtain kvs where "sort_keys (resource_identifier_payload x) = JObj kvs"
      by (simp add: resource_identifier_payload_def)
    ultimately show ?thesis
      using Some by (simp add: d_def approval_fields_def approval_receipt_material_def nullable_def opt_json_def)
  qed
  have fields: "dict_get d ''receipt_schema'' = Some (JStr (ar_receipt_schema r))"
    "dict_get d ''scenario_identity'' = Some (JStr (ar_scenario_identity r))"
    "dict_get d ''decision'' = Some (JStr (decision_value (ar_decision r)))"
    "dict_get d ''agent'' = Some (JStr (ar_agent r))" "dict_get d ''tool'' = Some (JStr (ar_tool r))"
    "dict_get d ''call_id'' = Some (JStr (ar_call_id r))"
    "dict_get d ''arguments_sha256'' = Some (JStr (ar_arguments_sha256 r))"
    "dict_get d ''authority_epoch'' = Some (JInt (ar_authority_epoch r))"
    "dict_get d ''authority_path_sha256'' = Some (JStr (ar_authority_path_sha256 r))"
    "dict_get d ''approval_request_sequence'' = Some (JInt (ar_approval_request_sequence r))"
    "dict_get d ''root_sha256'' = Some (JStr (ar_root_sha256 r))"
    by (simp_all add: d_def approval_fields_def approval_receipt_material_def)
  show ?thesis
    using v by (simp add: read_approval_receipt_def p only g r fields with_default_def) (cases r, simp)
qed

lemma parse_created_event:
  assumes "approval_receipt_event r sequence source now = Inr e"
    and "validate_approval_receipt r = Inr r"
    and "\<And>x. ar_resource r = Some x \<Longrightarrow> valid_identifier x"
  shows "parse_approval_intent_event e = Inr r"
proof -
  have e: "ev_kind e = APPROVAL_DECISION" "ev_payload e = [(''receipt'', sort_keys (approval_receipt_json r))]"
    using assms(1)
    by (auto simp: approval_receipt_event_def mk_event_def result_simps detached_dict_def sort_dict_def
        split: if_splits)
  show ?thesis
    using read_approval_receipt_json [OF assms(2,3)] by (simp add: parse_approval_intent_event_def e)
qed

subsection \<open>Errors of verification\<close>

definition approval_error :: "error \<Rightarrow> bool" where
  "approval_error e \<longleftrightarrow> err_class e = ApprovalIntentError"

lemma approval_error_aerr [simp]: "approval_error (aerr m)"
  by (simp add: approval_error_def aerr_def)

text \<open>Results whose errors, if any, are approval errors; closed under the combinators.\<close>

definition approval_result :: "error + 'a \<Rightarrow> bool" where
  "approval_result r \<longleftrightarrow> (\<forall>e. r = Inl e \<longrightarrow> approval_error e)"

lemma approval_result_simps [simp]:
  "approval_result (Inr x)" "approval_result (Inl e) \<longleftrightarrow> approval_error e"
  by (simp_all add: approval_result_def)

lemma approval_result_rbind:
  "approval_result r \<Longrightarrow> (\<And>x. r = Inr x \<Longrightarrow> approval_result (f x)) \<Longrightarrow> approval_result (rbind r f)"
  by (cases r) auto

lemma approval_result_raise_if: "\<forall>(c, e) \<in> set cs. approval_error e \<Longrightarrow> approval_result (raise_if cs)"
  unfolding approval_result_def by (blast dest: raise_if_Inl_mem)

lemma approval_result_rfor: "(\<And>x. x \<in> set xs \<Longrightarrow> approval_result (f x)) \<Longrightarrow> approval_result (rfor f xs)"
  by (induction xs) (auto intro: approval_result_rbind)

lemma approval_result_rcatch: "approval_result r \<Longrightarrow> approval_error e \<Longrightarrow> approval_result (rcatch c e r)"
  by (cases r) auto

lemma arguments_result: "approval_result (canonical_arguments_sha256 a)"
  by (simp add: canonical_arguments_sha256_def split: option.splits json.splits)

lemma event_intent_result: "approval_result (verify_event_intent e r st phase)"
  unfolding verify_event_intent_def event_resource_def
  by (intro approval_result_rbind approval_result_raise_if)
    (auto intro!: approval_result_rbind approval_result_raise_if arguments_result
      split: option.splits sum.splits)

lemma event_at_result: "approval_result (verify_event_at s t r phase e)"
  by (simp add: verify_event_at_def state_before_foldl event_intent_result)

lemma result_identity_result: "approval_result (verify_result_identity e r phase)"
  unfolding verify_result_identity_def by (intro approval_result_raise_if) auto

lemma parse_event_result: "approval_result (parse_approval_intent_event d)"
  by (simp add: parse_approval_intent_event_def split: option.splits)

lemma verify_decision_result: "approval_result (verify_decision s spec t d)"
proof -
  have bound: "approval_result (verify_bound_request s spec t r)" for r
    unfolding verify_bound_request_def Let_def
    by (auto intro!: approval_result_rbind approval_result_raise_if event_at_result)
  have pre: "approval_result (verify_predecision s t d r)" for r
    unfolding verify_predecision_def
    by (intro approval_result_rbind approval_result_rfor approval_result_rcatch event_at_result) auto
  have app: "approval_result (verify_approved s t r qs ms)" for r qs ms
    unfolding verify_approved_def
    by (auto intro!: approval_result_rbind approval_result_raise_if event_at_result result_identity_result
        split: list.splits)
  have rej: "approval_result (verify_rejected s t r qs ms)" for r qs ms
    unfolding verify_rejected_def
    by (auto intro!: approval_result_rbind approval_result_raise_if event_at_result result_identity_result
        split: list.splits)
  show ?thesis
    unfolding verify_decision_def verify_receipt_binding_def
    by (intro approval_result_rbind parse_event_result bound pre approval_result_raise_if)
      (simp_all add: app rej)
qed

lemma verify_approval_intent_errors: "verify_approval_intent s t = Inl e \<Longrightarrow> err_class e = ApprovalIntentError"
  using verify_decision_result [of s _ t]
  by (auto simp: verify_approval_intent_def approval_result_def approval_error_def aerr_def
      split: option.splits list.splits if_splits)

subsection \<open>What acceptance means\<close>

text \<open>The event carries exactly the intent of the receipt, on the same authority path.\<close>

definition carries_intent :: "evaluation_scenario \<Rightarrow> trial_evidence \<Rightarrow> approval_receipt \<Rightarrow> evidence_event \<Rightarrow> bool" where
  "carries_intent s t r e \<longleftrightarrow>
     payload_is e ''agent'' (ar_agent r) \<and> payload_is e ''tool'' (ar_tool r) \<and>
     payload_is e ''call_id'' (ar_call_id r) \<and>
     (\<exists>args. payload_is e ''arguments'' args \<and> canonical_arguments_sha256 args = Inr (ar_arguments_sha256 r)) \<and>
     event_resource [] e = Inr (ar_resource r) \<and>
     (\<exists>st. validated_handoff_state_before (es_authority s) (te_events t) (ev_sequence e) = Inr st \<and>
        int (path_epoch st) = ar_authority_epoch r \<and> path_sha256 st = ar_authority_path_sha256 r)"

lemma event_resource_phase: "event_resource ph e = Inr x \<longleftrightarrow> event_resource [] e = Inr x"
  by (auto simp: event_resource_def split: option.splits sum.splits)

lemma verify_event_at_Inr: "verify_event_at s t r phase e = Inr () \<longleftrightarrow> carries_intent s t r e"
  by (auto simp: verify_event_at_def verify_event_intent_def carries_intent_def result_simps payload_is_def
      event_resource_phase [of phase] split: option.splits if_splits)

definition of_call :: "evidence_kind \<Rightarrow> approval_receipt \<Rightarrow> evidence_event \<Rightarrow> bool" where
  "of_call k r e \<longleftrightarrow> ev_kind e = k \<and> payload_is e ''call_id'' (ar_call_id r)"

definition for_target :: "evidence_kind \<Rightarrow> approval_intent_spec \<Rightarrow> evidence_event \<Rightarrow> bool" where
  "for_target k spec e \<longleftrightarrow> ev_kind e = k \<and> payload_is e ''agent'' (ai_agent spec) \<and> payload_is e ''tool'' (ai_tool spec)"

text \<open>
  The request of a receipt: the only approval request of its call and the only one of the
  scenario's target, at the recorded place, and it carries the intent.
\<close>

definition request_bound :: "evaluation_scenario \<Rightarrow> approval_intent_spec \<Rightarrow> trial_evidence \<Rightarrow> approval_receipt \<Rightarrow> bool" where
  "request_bound s spec t r \<longleftrightarrow> (let q = te_events t ! nat (ar_approval_request_sequence r) in
     ev_kind q = APPROVAL_REQUEST \<and> ev_source q = approval_request_source \<and> carries_intent s t r q \<and>
     (\<exists>q. filter (of_call APPROVAL_REQUEST r) (te_events t) = [q] \<and> ev_sequence q = ar_approval_request_sequence r) \<and>
     (\<exists>q. filter (for_target APPROVAL_REQUEST spec) (te_events t) = [q] \<and>
        ev_sequence q = ar_approval_request_sequence r))"

text \<open>
  An accepted decision: its receipt is one of this scenario and target, its request is earlier,
  every request of the call before it carries the intent, and no result of the call is.
\<close>

definition decision_bound ::
  "evaluation_scenario \<Rightarrow> approval_intent_spec \<Rightarrow> trial_evidence \<Rightarrow> evidence_event \<Rightarrow> approval_receipt \<Rightarrow> bool" where
  "decision_bound s spec t d r \<longleftrightarrow>
     parse_approval_intent_event d = Inr r \<and> ev_source d = approval_decision_source \<and>
     ar_scenario_identity r = scenario_identity s \<and>
     ar_decision r = ai_decision spec \<and> ar_agent r = ai_agent spec \<and> ar_tool r = ai_tool spec \<and>
     ar_approval_request_sequence r < ev_sequence d \<and>
     ar_approval_request_sequence r < int (length (te_events t)) \<and> request_bound s spec t r \<and>
     (\<forall>e \<in> set (py_take (ev_sequence d) (te_events t)). of_call TOOL_REQUEST r e \<longrightarrow> carries_intent s t r e) \<and>
     (\<forall>e \<in> set (te_events t). of_call TOOL_RESULT r e \<longrightarrow> ev_sequence d < ev_sequence e)"

text \<open>The continuation of an approved call: one request that carries the intent, then one result.\<close>

definition approved_run :: "evaluation_scenario \<Rightarrow> trial_evidence \<Rightarrow> evidence_event \<Rightarrow> approval_receipt \<Rightarrow> bool" where
  "approved_run s t d r \<longleftrightarrow> (\<exists>q m. resumed_requests t d r = [q] \<and> matching_results t d r = [m] \<and>
     carries_intent s t r q \<and> ev_source q = approved_tool_request_source \<and> ev_sequence q < ev_sequence m \<and>
     payload_is m ''agent'' (ar_agent r) \<and> payload_is m ''call_id'' (ar_call_id r) \<and>
     payload_get m ''approval_rejected'' \<noteq> Some (JBool True) \<and> ev_source m = approved_tool_result_source)"

text \<open>After a rejection: a marked continuation, or the bypass the policy oracle then fails.\<close>

definition rejected_run :: "evaluation_scenario \<Rightarrow> trial_evidence \<Rightarrow> evidence_event \<Rightarrow> approval_receipt \<Rightarrow> bool" where
  "rejected_run s t d r \<longleftrightarrow> (\<exists>m. matching_results t d r = [m] \<and>
     payload_is m ''agent'' (ar_agent r) \<and> payload_is m ''call_id'' (ar_call_id r) \<and>
     (resumed_requests t d r = [] \<and> payload_get m ''approval_rejected'' = Some (JBool True) \<and>
        ev_source m = rejection_tool_result_source \<or>
      (\<exists>q. resumed_requests t d r = [q] \<and> carries_intent s t r q \<and> ev_sequence q < ev_sequence m)))"

lemma rbind_unit: "rbind r f = Inr y \<longleftrightarrow> r = Inr () \<and> f () = Inr y"
  by (cases r) auto

lemma single_iff: "length xs = 1 \<and> P (xs ! 0) \<longleftrightarrow> (\<exists>x. xs = [x] \<and> P x)"
  by (cases xs) auto

lemma verify_bound_request_Inr: "verify_bound_request s spec t r = Inr () \<longleftrightarrow> request_bound s spec t r"
proof -
  have f: "filter (\<lambda>e. ev_kind e = APPROVAL_REQUEST \<and> payload_is e ''call_id'' (ar_call_id r)) (te_events t) =
      filter (of_call APPROVAL_REQUEST r) (te_events t)"
    "filter (\<lambda>e. ev_kind e = APPROVAL_REQUEST \<and> payload_is e ''agent'' (ai_agent spec)
       \<and> payload_is e ''tool'' (ai_tool spec)) (te_events t) = filter (for_target APPROVAL_REQUEST spec) (te_events t)"
    by (rule filter_cong; simp add: of_call_def for_target_def)+
  show ?thesis
    unfolding verify_bound_request_def request_bound_def Let_def f
    by (simp add: result_simps verify_event_at_Inr flip: single_iff) blast
qed

lemma verify_predecision_Inr:
  "verify_predecision s t d r = Inr () \<longleftrightarrow>
     (\<forall>e \<in> set (py_take (ev_sequence d) (te_events t)). of_call TOOL_REQUEST r e \<longrightarrow> carries_intent s t r e) \<and>
     (\<forall>e \<in> set (te_events t). of_call TOOL_RESULT r e \<longrightarrow> ev_sequence d < ev_sequence e)"
  by (auto simp: verify_predecision_def result_simps rfor_Inr verify_event_at_Inr of_call_def list_ex_iff
      split: if_splits)

lemma verify_approved_Inr:
  "\<not> length qs > 1 \<and> verify_approved s t r qs ms = Inr () \<longleftrightarrow> (\<exists>q m. qs = [q] \<and> ms = [m] \<and>
     carries_intent s t r q \<and> ev_source q = approved_tool_request_source \<and> ev_sequence q < ev_sequence m \<and>
     payload_is m ''agent'' (ar_agent r) \<and> payload_is m ''call_id'' (ar_call_id r) \<and>
     payload_get m ''approval_rejected'' \<noteq> Some (JBool True) \<and> ev_source m = approved_tool_result_source)"
proof (cases "\<exists>q m. qs = [q] \<and> ms = [m]")
  case True
  then obtain q m where "qs = [q]" "ms = [m]" by blast
  then show ?thesis
    by (auto simp: verify_approved_def result_simps verify_event_at_Inr verify_result_identity_def)
qed (auto simp: verify_approved_def result_simps split: list.splits if_splits)

lemma verify_rejected_Inr:
  "\<not> length qs > 1 \<and> verify_rejected s t r qs ms = Inr () \<longleftrightarrow> (\<exists>m. ms = [m] \<and>
     payload_is m ''agent'' (ar_agent r) \<and> payload_is m ''call_id'' (ar_call_id r) \<and>
     (qs = [] \<and> payload_get m ''approval_rejected'' = Some (JBool True) \<and> ev_source m = rejection_tool_result_source \<or>
      (\<exists>q. qs = [q] \<and> carries_intent s t r q \<and> ev_sequence q < ev_sequence m)))"
proof (cases "\<exists>m. ms = [m]")
  case True
  then obtain m where m: "ms = [m]" by blast
  consider "qs = []" | q where "qs = [q]" | q q' qs' where "qs = q # q' # qs'" by (metis neq_Nil_conv)
  then show ?thesis
    by cases (auto simp: m verify_rejected_def result_simps verify_event_at_Inr verify_result_identity_def)
qed (auto simp: verify_rejected_def result_simps split: list.splits if_splits)

definition decision_closed :: "evaluation_scenario \<Rightarrow> approval_intent_spec \<Rightarrow> trial_evidence \<Rightarrow> evidence_event \<Rightarrow> bool" where
  "decision_closed s spec t d \<longleftrightarrow> (\<exists>r. decision_bound s spec t d r \<and>
     (case ai_decision spec of APPROVE \<Rightarrow> approved_run s t d r | REJECT \<Rightarrow> rejected_run s t d r))"

lemma verify_decision_Inr: "verify_decision s spec t d = Inr () \<longleftrightarrow> decision_closed s spec t d"
proof -
  have binding: "verify_receipt_binding s spec t d r = Inr () \<longleftrightarrow> ev_source d = approval_decision_source \<and>
      ar_scenario_identity r = scenario_identity s \<and> ar_decision r = ai_decision spec \<and>
      ar_agent r = ai_agent spec \<and> ar_tool r = ai_tool spec \<and> ar_approval_request_sequence r < ev_sequence d \<and>
      ar_approval_request_sequence r < int (length (te_events t))" for r
    by (auto simp: verify_receipt_binding_def result_simps)
  have "verify_decision s spec t d = Inr () \<longleftrightarrow> (\<exists>r. parse_approval_intent_event d = Inr r \<and>
      verify_receipt_binding s spec t d r = Inr () \<and> verify_bound_request s spec t r = Inr () \<and>
      verify_predecision s t d r = Inr () \<and> (case ar_decision r of
        APPROVE \<Rightarrow> \<not> length (resumed_requests t d r) > 1 \<and>
          verify_approved s t r (resumed_requests t d r) (matching_results t d r) = Inr ()
      | REJECT \<Rightarrow> \<not> length (resumed_requests t d r) > 1 \<and>
          verify_rejected s t r (resumed_requests t d r) (matching_results t d r) = Inr ()))"
    unfolding verify_decision_def
    by (subst rbind_Inr, intro arg_cong [where f = Ex] ext)
      (simp add: rbind_unit del: One_nat_def split: approval_decision.splits)
  also have "\<dots> \<longleftrightarrow> (\<exists>r. decision_bound s spec t d r \<and>
     (case ar_decision r of APPROVE \<Rightarrow> approved_run s t d r | REJECT \<Rightarrow> rejected_run s t d r))"
    unfolding binding verify_bound_request_Inr verify_predecision_Inr verify_approved_Inr verify_rejected_Inr
      approved_run_def rejected_run_def decision_bound_def by (simp only: conj_assoc)
  finally have "verify_decision s spec t d = Inr () \<longleftrightarrow> (\<exists>r. decision_bound s spec t d r \<and>
     (case ar_decision r of APPROVE \<Rightarrow> approved_run s t d r | REJECT \<Rightarrow> rejected_run s t d r))" .
  then show ?thesis by (auto simp: decision_closed_def decision_bound_def)
qed

text \<open>
  The whole relation. A scenario with an intent is closed by one accepted decision, or by no
  decision at all when its target was requested without one, which the policy oracle fails.
\<close>

definition approval_closed :: "evaluation_scenario \<Rightarrow> trial_evidence \<Rightarrow> bool" where
  "approval_closed s t \<longleftrightarrow> (case es_approval_intent s of
       None \<Rightarrow> decision_events t = []
     | Some spec \<Rightarrow> te_scenario_identity t = scenario_identity s \<and>
         (decision_events t = [] \<and> list_ex (for_target TOOL_REQUEST spec) (te_events t) \<or>
          (\<exists>d. decision_events t = [d] \<and> decision_closed s spec t d)))"

lemma verify_approval_intent_Inr: "verify_approval_intent s t = Inr () \<longleftrightarrow> approval_closed s t"
  by (auto simp: verify_approval_intent_def approval_closed_def verify_decision_Inr for_target_def list_ex_iff
      split: option.splits list.splits if_splits)

end
