(* ===== verification/Selector.thy ===== *)
theory Selector
  imports SpecModels
begin

section \<open>Outcome selectors (\<open>contracts/outcome_selector.py\<close>)\<close>

text \<open>
  A selector is a JSON pointer in one canonical form: non-empty segments, \<open>~\<close> and
  \<open>/\<close> escaped. A pointer is the same thing as its list of segments, which the lemmas at
  the end state as a round trip in both directions.
\<close>

record outcome_selector =
  os_schema_version :: string
  os_pointer :: string

definition selector_schema :: string where
  "selector_schema = ''agent-evals/outcome-selector/v1''"

definition replace_char :: "char \<Rightarrow> string \<Rightarrow> string \<Rightarrow> string" where
  "replace_char c t s = concat (map (\<lambda>x. if x = c then t else [x]) s)"

definition escape :: "string \<Rightarrow> string" where
  "escape segment = replace_char (CHR ''/'') ''~1'' (replace_char (CHR ''~'') ''~0'' segment)"

fun unescape :: "string \<Rightarrow> error + string" where
  "unescape [] = Inr []"
| "unescape (c # s) =
     (if c \<noteq> CHR ''~'' then rbind (unescape s) (\<lambda>t. Inr (c # t))
      else (case s of
          [] \<Rightarrow> Inl (Err ValueError ''outcome selector contains a dangling escape'')
        | d # r \<Rightarrow>
            if d = CHR ''0'' then rbind (unescape r) (\<lambda>t. Inr (CHR ''~'' # t))
            else if d = CHR ''1'' then rbind (unescape r) (\<lambda>t. Inr (CHR ''/'' # t))
            else Inl (Err ValueError ''outcome selector contains an unsupported escape'')))"

definition pointer_of :: "string list \<Rightarrow> string" where
  "pointer_of segments = CHR ''/'' # str_join ''/'' (map escape segments)"

definition pointer_segments :: "string \<Rightarrow> error + string list" where
  "pointer_segments p =
     (case p of
        [] \<Rightarrow> Inl (Err ValueError (''outcome selector v1 must start with '' @ str_repr ''/''))
      | c # r \<Rightarrow>
          if c \<noteq> CHR ''/'' then Inl (Err ValueError (''outcome selector v1 must start with '' @ str_repr ''/''))
          else (let raw = str_split (CHR ''/'') r in
            if raw = [] \<or> list_ex (\<lambda>s. s = []) raw
            then Inl (Err ValueError ''outcome selector v1 requires non-empty path segments'')
            else rmap unescape raw))"

definition selector_segments :: "outcome_selector \<Rightarrow> error + string list" where
  "selector_segments s = pointer_segments (os_pointer s)"

definition mk_selector :: "string \<Rightarrow> string \<Rightarrow> error + outcome_selector" where
  "mk_selector sv pointer =
     rbind (raise_if
       [(sv \<noteq> selector_schema, verr ''schema_version: literal''),
        (\<not> bounded_text 1 4096 pointer, verr ''pointer: length'')]) (\<lambda>_.
     rbind (map_error (\<lambda>e. verr (err_msg e)) (pointer_segments pointer)) (\<lambda>segments.
     if pointer \<noteq> pointer_of segments
     then Inl (verr ''outcome selector pointer is not canonical v1 form'')
     else Inr \<lparr>os_schema_version = sv, os_pointer = pointer\<rparr>))"

definition from_segments :: "string list \<Rightarrow> error + outcome_selector" where
  "from_segments segments =
     (if segments = [] \<or> list_ex (\<lambda>s. s = []) segments
      then Inl (Err ValueError ''outcome selector requires non-empty exact string segments'')
      else mk_selector selector_schema (pointer_of segments))"

text \<open>\<open>(True, value)\<close> is \<open>Some value\<close>, \<open>(False, None)\<close> is \<open>None\<close>.\<close>

fun lookup_path :: "json \<Rightarrow> string list \<Rightarrow> json option" where
  "lookup_path current [] = Some current"
| "lookup_path current (segment # rest) =
     (case current of
        JObj m \<Rightarrow> (case dict_get m segment of None \<Rightarrow> None | Some v \<Rightarrow> lookup_path v rest)
      | _ \<Rightarrow> None)"

definition selector_lookup :: "outcome_selector \<Rightarrow> dict \<Rightarrow> error + json option" where
  "selector_lookup s state = rbind (selector_segments s) (\<lambda>segments. Inr (lookup_path (JObj state) segments))"

subsection \<open>Round trips\<close>

definition esc_char_of :: "char \<Rightarrow> string" where
  "esc_char_of c = (if c = CHR ''~'' then ''~0'' else if c = CHR ''/'' then ''~1'' else [c])"

lemma escape_map: "escape s = concat (map esc_char_of s)"
  by (induction s) (auto simp: escape_def replace_char_def esc_char_of_def)

lemma escape_Cons: "escape (c # s) = esc_char_of c @ escape s"
  by (simp add: escape_map)

lemma escape_Nil [simp]: "escape [] = []"
  by (simp add: escape_map)

lemma unescape_escape [simp]: "unescape (escape s) = Inr s"
  by (induction s) (auto simp: escape_Cons esc_char_of_def)

lemma escape_no_slash: "CHR ''/'' \<notin> set (escape s)"
  by (induction s) (auto simp: escape_Cons esc_char_of_def)

lemma escape_empty [simp]: "escape s = [] \<longleftrightarrow> s = []" "[] = escape s \<longleftrightarrow> s = []"
  by (cases s; auto simp: escape_Cons esc_char_of_def)+

lemma rmap_unescape_escape: "rmap unescape (map escape segments) = Inr segments"
  by (induction segments) auto

lemma pointer_segments_of:
  assumes "segments \<noteq> []" "\<forall>s \<in> set segments. s \<noteq> []"
  shows "pointer_segments (pointer_of segments) = Inr segments"
proof -
  have "str_split (CHR ''/'') (str_join ''/'' (map escape segments)) = map escape segments"
    using assms(1) by (intro split_join) (auto simp: escape_no_slash)
  then show ?thesis
    using assms by (auto simp: pointer_segments_def pointer_of_def rmap_unescape_escape list_ex_iff)
qed

text \<open>A selector built from segments reads back as those segments.\<close>

lemma from_segments_roundtrip:
  assumes "from_segments segments = Inr s"
  shows "selector_segments s = Inr segments"
proof -
  have ne: "segments \<noteq> []" "\<forall>s \<in> set segments. s \<noteq> []"
    and mk: "mk_selector selector_schema (pointer_of segments) = Inr s"
    using assms by (auto simp: from_segments_def list_ex_iff split: if_splits)
  then have "os_pointer s = pointer_of segments"
    by (auto simp: mk_selector_def result_simps split: if_splits)
  with ne show ?thesis by (simp add: selector_segments_def pointer_segments_of)
qed

lemma unescape_nonempty: "unescape s = Inr t \<Longrightarrow> s \<noteq> [] \<Longrightarrow> t \<noteq> []"
  by (cases s) (auto simp: rbind_Inr split: if_splits list.splits)

text \<open>An accepted pointer is the pointer of its own segments, which rebuild it.\<close>

lemma mk_selector_segments:
  assumes "mk_selector sv pointer = Inr s"
  obtains segments where "selector_segments s = Inr segments" "pointer = pointer_of segments"
    "from_segments segments = Inr s"
proof -
  obtain segs where segs: "pointer_segments pointer = Inr segs" "pointer = pointer_of segs"
    and s: "s = \<lparr>os_schema_version = selector_schema, os_pointer = pointer\<rparr>" "sv = selector_schema"
    using assms by (auto simp: mk_selector_def result_simps split: if_splits)
  obtain r where r: "\<forall>x \<in> set (str_split (CHR ''/'') r). x \<noteq> []"
    "rmap unescape (str_split (CHR ''/'') r) = Inr segs"
    using segs(1) by (auto simp: pointer_segments_def Let_def list_ex_iff split: list.splits if_splits)
  have l: "list_all2 (\<lambda>x y. unescape x = Inr y) (str_split (CHR ''/'') r) segs"
    using r(2) by (simp add: rmap_Inr)
  then have "segs \<noteq> []" by auto
  moreover have "\<forall>x \<in> set segs. x \<noteq> []"
    using l r(1) unescape_nonempty by (fastforce simp: list_all2_conv_all_nth in_set_conv_nth)
  ultimately have "from_segments segs = Inr s"
    using assms s(2) segs(2) by (auto simp: from_segments_def list_ex_iff)
  with segs s show thesis by (intro that [of segs]) (simp_all add: selector_segments_def)
qed

text \<open>Looking up along a path composes.\<close>

lemma lookup_path_append:
  "lookup_path v (xs @ ys) = (case lookup_path v xs of None \<Rightarrow> None | Some w \<Rightarrow> lookup_path w ys)"
  by (induction v xs rule: lookup_path.induct) (auto split: json.splits option.splits)

end
