(* ===== verification/OracleProofs.thy ===== *)
theory OracleProofs
  imports Oracles
begin

section \<open>What the deterministic oracles decide\<close>

text \<open>
  Reasons only accumulate, a pass constrains every request, approvals are consumed once and the
  authority in force is the one the handoffs reach.
\<close>

subsection \<open>Outcome oracle\<close>

definition outcomes_met :: "dict \<Rightarrow> dict \<Rightarrow> dict \<Rightarrow> bool" where
  "outcomes_met required forbidden state \<longleftrightarrow>
     (\<forall>(k, v) \<in> set required. \<exists>a. outcome_lookup state k = Some a \<and> py_eq a v) \<and>
     (\<forall>(k, v) \<in> set forbidden. \<forall>a. outcome_lookup state k = Some a \<longrightarrow> \<not> py_eq a v)"

lemma required_reason_Nil:
  "required_reason state kv = [] \<longleftrightarrow> (case kv of (k, v) \<Rightarrow> \<exists>a. outcome_lookup state k = Some a \<and> py_eq a v)"
  by (auto simp: required_reason_def split: option.splits if_splits)

lemma forbidden_reason_Nil:
  "forbidden_reason state kv = [] \<longleftrightarrow> (case kv of (k, v) \<Rightarrow> \<forall>a. outcome_lookup state k = Some a \<longrightarrow> \<not> py_eq a v)"
  by (auto simp: forbidden_reason_def split: option.splits if_splits)

lemma outcome_oracle_pass:
  "or_verdict (outcome_oracle s t) = PASS \<longleftrightarrow>
   outcomes_met (es_required_outcomes s) (es_forbidden_outcomes s) (te_final_state t)"
  by (simp add: outcome_oracle_def Let_def outcomes_met_def required_reason_Nil forbidden_reason_Nil)

lemma structured_outcome:
  "structured_oracle_failures (outcome_oracle s t) =
     map (\<lambda>(reason, c). \<lparr>of_code = c, of_reason = reason\<rparr>)
       (concat (map (required_reason (te_final_state t)) (es_required_outcomes s))
        @ concat (map (forbidden_reason (te_final_state t)) (es_forbidden_outcomes s)))"
  by (simp add: structured_oracle_failures_def outcome_oracle_def Let_def zip_map_fst_snd [symmetric]
      zip_commute [of "map snd _"] split_beta del: map_append)
    (simp add: zip_map1 zip_map2 zip_same_conv_map comp_def split_beta)

subsection \<open>Reasons only accumulate\<close>

text \<open>
  \<open>grows f\<close>: the step \<open>f\<close> appends to the reasons and touches neither the path nor lowers
  a counter; every event of the policy oracle but a handoff is such a step.
\<close>

definition grows :: "policy_state \<Rightarrow> policy_state \<Rightarrow> bool" where
  "grows st st' \<longleftrightarrow> prefix (gs_reasons st) (gs_reasons st') \<and> gs_tool_calls st \<le> gs_tool_calls st' \<and>
     gs_handoffs st \<le> gs_handoffs st'"

lemma grows_refl [simp]: "grows st st"
  by (simp add: grows_def)

lemma grows_trans: "grows a b \<Longrightarrow> grows b c \<Longrightarrow> grows a c"
  unfolding grows_def by (meson le_trans prefix_order.trans)

lemma grows_add [simp]: "grows st (add_reasons rs st)"
  by (simp add: grows_def add_reasons_def)

lemma grows_sets [simp]:
  "grows st (gs_legacy_update f st)" "grows st (gs_strong_update f st)" "grows st (gs_rejected_update f st)"
  "grows st (gs_persistent_update f' st)" "grows st (gs_path_update g st)"
  "grows st (gs_calls_by_update h st)" "grows st (gs_handoffs_by_update h st)"
  by (simp_all add: grows_def)

lemma grows_counts [simp]:
  "grows st (st\<lparr>gs_tool_calls := Suc (gs_tool_calls st)\<rparr>)" "grows st (st\<lparr>gs_handoffs := Suc (gs_handoffs st)\<rparr>)"
  by (simp_all add: grows_def)

lemma add_reasons_fields [simp]:
  "gs_reasons (add_reasons rs st) = gs_reasons st @ rs" "gs_path (add_reasons rs st) = gs_path st"
  "gs_legacy (add_reasons rs st) = gs_legacy st" "gs_strong (add_reasons rs st) = gs_strong st"
  "gs_rejected (add_reasons rs st) = gs_rejected st" "gs_persistent (add_reasons rs st) = gs_persistent st"
  "gs_tool_calls (add_reasons rs st) = gs_tool_calls st" "gs_handoffs (add_reasons rs st) = gs_handoffs st"
  by (simp_all add: add_reasons_def)

lemma approval_step_grows: "grows st (approval_step e st) \<and> gs_path (approval_step e st) = gs_path st"
  by (simp add: approval_step_def Let_def grows_def add_reasons_def split: option.splits list.splits)

lemma approval_request_step_grows:
  "grows st (approval_request_step p e st) \<and> gs_path (approval_request_step p e st) = gs_path st"
  by (simp add: approval_request_step_def split: option.splits)

lemma approval_decision_step_grows:
  "grows st (approval_decision_step e st) \<and> gs_path (approval_decision_step e st) = gs_path st"
  by (simp add: approval_decision_step_def Let_def grows_def add_reasons_def split: sum.splits)

lemma consume_approval_grows:
  "grows st (consume_approval i e tool st) \<and> gs_path (consume_approval i e tool st) = gs_path st"
  by (simp add: consume_approval_def Let_def grows_def add_reasons_def split: option.splits)

lemma tool_request_body_grows:
  "grows st (tool_request_body p i e st) \<and> gs_path (tool_request_body p i e st) = gs_path st"
proof -
  have c: "grows st (consume_approval i e tool (add_reasons rs st))" for tool rs
    using consume_approval_grows grows_add grows_trans by blast
  show ?thesis
    using consume_approval_grows c
    by (auto simp: tool_request_body_def Let_def split: option.splits intro: grows_trans [OF _ grows_add])
qed

lemma charge_tool_call_grows: "grows st (charge_tool_call a st) \<and> gs_path (charge_tool_call a st) = gs_path st"
  by (simp add: charge_tool_call_def Let_def grows_def)

lemma charge_handoff_grows: "grows st (charge_handoff e st) \<and> gs_path (charge_handoff e st) = gs_path st"
  by (simp add: charge_handoff_def Let_def grows_def split: option.splits)

lemma tool_request_step_grows:
  "grows st (tool_request_step p i e st) \<and> gs_path (tool_request_step p i e st) = gs_path st"
proof -
  let ?st = "st\<lparr>gs_tool_calls := Suc (gs_tool_calls st)\<rparr>"
  have "grows st (tool_request_body p i e ?st)" "grows st (add_reasons rs ?st)"
    "grows st (tool_request_body p i e (charge_tool_call a ?st))" for rs a
    using grows_counts(1) grows_add charge_tool_call_grows tool_request_body_grows grows_trans by meson+
  then show ?thesis
    using tool_request_body_grows charge_tool_call_grows
    by (simp add: tool_request_step_def Let_def split: option.splits)
qed

lemma follow_handoff_path:
  assumes "ev_kind e = HANDOFF"
  shows "gs_path (follow_handoff p e st) = handoff_step p (gs_path st) e"
  by (rule advance_handoff_cases [OF assms, of p "gs_path st"])
    (auto simp: follow_handoff_def handoff_step_def)

lemma follow_handoff_grows: "grows st (follow_handoff p e st)"
  by (simp add: follow_handoff_def split: sum.splits)

lemma handoff_event_step_path:
  assumes "ev_kind e = HANDOFF" "has_handoff_authority p"
  shows "gs_path (handoff_event_step p e st) = handoff_step p (gs_path st) e"
  using assms charge_handoff_grows
  by (simp add: handoff_event_step_def Let_def follow_handoff_path)

lemma handoff_event_step_grows: "grows st (handoff_event_step p e st)"
proof -
  have "grows st (follow_handoff p e (charge_handoff e (st\<lparr>gs_handoffs := Suc (gs_handoffs st)\<rparr>)))"
    using grows_counts(2) charge_handoff_grows follow_handoff_grows grows_trans by meson
  then show ?thesis by (simp add: handoff_event_step_def Let_def)
qed

lemma policy_step_grows: "grows st (policy_step p i st e)"
  using approval_step_grows approval_request_step_grows approval_decision_step_grows tool_request_step_grows
    handoff_event_step_grows
  by (simp add: policy_step_def split: evidence_kind.splits)

lemma policy_step_path:
  "gs_path (policy_step p i st e) =
     (if has_handoff_authority p then handoff_step p (gs_path st) e else gs_path st)"
proof (cases "ev_kind e = HANDOFF")
  case True
  then show ?thesis
    using handoff_event_step_path
    by (auto simp: policy_step_def) (auto simp: handoff_event_step_def Let_def)
next
  case False
  then have "handoff_step p (gs_path st) e = gs_path st" by (simp add: handoff_step_def advance_handoff_def)
  moreover have "gs_path (policy_step p i st e) = gs_path st"
    using False approval_step_grows approval_request_step_grows approval_decision_step_grows tool_request_step_grows
    by (auto simp: policy_step_def split: evidence_kind.splits)
  ultimately show ?thesis by simp
qed

lemma policy_run_snoc [simp]: "policy_run p i (es @ [e]) = policy_step p i (policy_run p i es) e"
  by (simp add: policy_run_def)

lemma policy_run_grows: "grows (policy_run p i es) (policy_run p i (es @ fs))"
proof (induction fs rule: rev_induct)
  case (snoc f fs)
  have "policy_run p i (es @ fs @ [f]) = policy_step p i (policy_run p i (es @ fs)) f"
    using policy_run_snoc [of p i "es @ fs" f] by simp
  then show ?case using snoc policy_step_grows grows_trans by metis
qed simp

text \<open>The path the policy oracle follows is the replay of \<open>authority.py\<close>.\<close>

lemma policy_run_path:
  "gs_path (policy_run p i es) =
     (if has_handoff_authority p then foldl (handoff_step p) (path_from_policy p) es else path_from_policy p)"
proof (induction es rule: rev_induct)
  case Nil
  then show ?case by (simp add: policy_run_def initial_policy_state_def)
qed (simp add: policy_step_path)

definition authority_before :: "authority_policy \<Rightarrow> evidence_event list \<Rightarrow> nat \<Rightarrow> handoff_path_state" where
  "authority_before p events n = gs_path (policy_run p None (take n events))"

lemma policy_run_take_path: "gs_path (policy_run p i (take n events)) = authority_before p events n"
  by (simp add: authority_before_def policy_run_path)

lemma authority_before_replay:
  "validated_handoff_state_before p events (int n) = Inr (authority_before p events n)"
  by (simp add: state_before_foldl authority_before_def policy_run_path py_take_def)

lemma authority_before_inv: "path_inv p (authority_before p events n)"
  using state_before_inv [OF authority_before_replay] .

lemma effective_tool:
  "tool_authorized p (policy_run p i es) tool \<longleftrightarrow>
   authority_authorizes_tool (hp_authority (gs_path (policy_run p i es))) tool"
  by (simp add: tool_authorized_def policy_run_path path_from_policy_def Let_def from_root_def
      policy_authorizes_tool_def authority_authorizes_tool_def)

lemma effective_approval:
  "approval_required p (policy_run p i es) = ea_approval_required_tools (hp_authority (gs_path (policy_run p i es)))"
  by (simp add: approval_required_def policy_run_path path_from_policy_def Let_def from_root_def)

lemma effective_scopes:
  "allowed_scopes p (policy_run p i es) = ea_allowed_resource_scopes (hp_authority (gs_path (policy_run p i es)))"
  by (simp add: allowed_scopes_def policy_run_path path_from_policy_def Let_def from_root_def)

subsection \<open>A passing policy verdict\<close>

lemma policy_reasons_extend:
  "\<exists>rs. gs_reasons (policy_run (es_authority s) (es_approval_intent s) es) @ rs
      = gs_reasons (policy_run (es_authority s) (es_approval_intent s) (es @ fs))"
  using policy_run_grows [of "es_authority s" "es_approval_intent s" es fs]
  by (auto simp: grows_def prefix_def)

text \<open>No later event withdraws a violation.\<close>

lemma policy_fail_permanent:
  assumes "policy_reasons s es \<noteq> []"
  shows "policy_reasons s (es @ fs) \<noteq> []"
  using assms policy_run_grows [of "es_authority s" "es_approval_intent s" es fs]
  by (auto simp: policy_reasons_def Let_def grows_def split: if_splits)

lemma policy_pass_prefix:
  assumes "or_verdict (policy_oracle s t) = PASS"
  shows "gs_reasons (policy_run (es_authority s) (es_approval_intent s) (take n (te_events t))) = []"
proof -
  have "policy_reasons s (te_events t) = []"
    using assms by (auto simp: policy_oracle_def Let_def split: if_splits)
  then have "gs_reasons (policy_run (es_authority s) (es_approval_intent s) (te_events t)) = []"
    by (simp add: policy_reasons_def Let_def)
  then show ?thesis
    using policy_reasons_extend [of s "take n (te_events t)" "drop n (te_events t)"] by auto
qed

lemma policy_pass_step:
  assumes "or_verdict (policy_oracle s t) = PASS" "n < length (te_events t)"
  shows "gs_reasons (policy_step (es_authority s) (es_approval_intent s)
      (policy_run (es_authority s) (es_approval_intent s) (take n (te_events t))) (te_events t ! n)) = []"
  using policy_pass_prefix [OF assms(1), of "Suc n"] assms(2)
  by (simp add: take_Suc_conv_app_nth)

lemma body_clean:
  assumes "gs_reasons (tool_request_body p i e st) = []"
  obtains tool where "payload_get e ''tool'' = Some (JStr tool)" "tool_authorized p st tool"
    "resource_reasons ''resource identity missing for scoped tool request: ''
       ''resource identity malformed for scoped tool request: '' ''unauthorized resource requested by ''
       ''resource-bearing request has no authorized resource scope: '' (allowed_scopes p st) e tool = []"
    "tool \<in> approval_required p st \<Longrightarrow> gs_reasons (consume_approval i e tool st) = []"
proof -
  obtain tool where t: "payload_get e ''tool'' = Some (JStr tool)" "tool_authorized p st tool"
    using assms by (auto simp: tool_request_body_def Let_def split: option.splits if_splits)
  moreover have "resource_reasons ''resource identity missing for scoped tool request: ''
       ''resource identity malformed for scoped tool request: '' ''unauthorized resource requested by ''
       ''resource-bearing request has no authorized resource scope: '' (allowed_scopes p st) e tool = []"
    using assms t by (simp add: tool_request_body_def Let_def)
  moreover have "gs_reasons (consume_approval i e tool st) = []" if "tool \<in> approval_required p st"
  proof -
    have "gs_reasons (consume_approval i e tool (add_reasons [r] st)) \<noteq> []" for r
      using consume_approval_grows [of "add_reasons [r] st" i e tool] by (auto simp: grows_def)
    then show ?thesis
      using assms t that by (auto simp: tool_request_body_def Let_def split: if_splits)
  qed
  ultimately show thesis by (rule that)
qed

lemma charge_clean:
  "gs_reasons (charge_tool_call a st) = [] \<Longrightarrow> gs_reasons st = [] \<and>
   int (Suc (gs_calls_by st a)) \<le> ea_max_tool_calls (hp_authority (gs_path st))"
  by (auto simp: charge_tool_call_def Let_def split: if_splits)

lemma charge_sets [simp]:
  "gs_legacy (charge_tool_call a st) = gs_legacy st" "gs_strong (charge_tool_call a st) = gs_strong st"
  "gs_rejected (charge_tool_call a st) = gs_rejected st" "gs_persistent (charge_tool_call a st) = gs_persistent st"
  by (simp_all add: charge_tool_call_def Let_def)

text \<open>A tool request that adds no reason was made by the active agent and inside its authority.\<close>

lemma tool_request_clean:
  assumes "gs_reasons (tool_request_step p i e st) = []"
  obtains tool st' where "payload_get e ''tool'' = Some (JStr tool)" "tool_authorized p st tool"
    "has_handoff_authority p \<Longrightarrow> \<exists>a. payload_is e ''agent'' a \<and> hp_active_agent (gs_path st) = Some a"
    "resource_reasons ''resource identity missing for scoped tool request: ''
       ''resource identity malformed for scoped tool request: '' ''unauthorized resource requested by ''
       ''resource-bearing request has no authorized resource scope: '' (allowed_scopes p st) e tool = []"
    "tool \<in> approval_required p st \<Longrightarrow> gs_reasons (consume_approval i e tool st') = []"
    "gs_legacy st' = gs_legacy st" "gs_persistent st' = gs_persistent st"
    "gs_strong st' = gs_strong st" "gs_rejected st' = gs_rejected st"
proof -
  obtain st' where st': "gs_path st' = gs_path st" "gs_legacy st' = gs_legacy st" "gs_persistent st' = gs_persistent st"
    "gs_strong st' = gs_strong st" "gs_rejected st' = gs_rejected st"
    "gs_reasons (tool_request_body p i e st') = []"
    "has_handoff_authority p \<Longrightarrow> \<exists>a. payload_is e ''agent'' a \<and> hp_active_agent (gs_path st) = Some a"
  proof (cases "has_handoff_authority p")
    case False
    then show thesis using assms by (intro that [of "st\<lparr>gs_tool_calls := Suc (gs_tool_calls st)\<rparr>"])
        (simp_all add: tool_request_step_def)
  next
    case True
    then obtain a where a: "event_agent_identity (payload_get e ''agent'') = Some a"
      "hp_active_agent (gs_path st) = Some a"
      "gs_reasons (tool_request_body p i e (charge_tool_call a (st\<lparr>gs_tool_calls := Suc (gs_tool_calls st)\<rparr>))) = []"
      using assms by (auto simp: tool_request_step_def Let_def split: option.splits if_splits)
    then show thesis
      using charge_tool_call_grows [of "st\<lparr>gs_tool_calls := Suc (gs_tool_calls st)\<rparr>" a]
      by (intro that [of "charge_tool_call a (st\<lparr>gs_tool_calls := Suc (gs_tool_calls st)\<rparr>)"])
        (auto simp: event_agent_identity_def payload_is_def split: option.splits json.splits if_splits)
  qed
  have eq: "tool_authorized p st' = tool_authorized p st" "allowed_scopes p st' = allowed_scopes p st"
    "approval_required p st' = approval_required p st"
    by (simp_all add: tool_authorized_def allowed_scopes_def approval_required_def st'(1) fun_eq_iff)
  from st'(6) show thesis
    by (rule body_clean) (use that st' in \<open>auto simp: eq\<close>)
qed

lemma resource_reasons_Nil:
  assumes "resource_reasons a b c d scopes e tool = []"
  shows "(case payload_get e ''resource'' of None \<Rightarrow> scopes = []
    | Some v \<Rightarrow> \<exists>r. parse_resource_identifier_payload v = Inr r \<and> scopes_admit scopes r)"
  using assms
  by (auto simp: resource_reasons_def split: if_splits option.splits sum.splits)

definition request_admissible :: "authority_policy \<Rightarrow> handoff_path_state \<Rightarrow> evidence_event \<Rightarrow> bool" where
  "request_admissible p path e \<longleftrightarrow>
     (\<exists>tool. payload_is e ''tool'' tool \<and> authority_authorizes_tool (hp_authority path) tool) \<and>
     (has_handoff_authority p \<longrightarrow> (\<exists>a. payload_is e ''agent'' a \<and> hp_active_agent path = Some a)) \<and>
     (case payload_get e ''resource'' of None \<Rightarrow> ea_allowed_resource_scopes (hp_authority path) = []
      | Some v \<Rightarrow> \<exists>r. parse_resource_identifier_payload v = Inr r \<and> authority_authorizes_resource (hp_authority path) r)"

lemma policy_pass_requests:
  assumes "or_verdict (policy_oracle s t) = PASS" "n < length (te_events t)"
    and "ev_kind (te_events t ! n) = TOOL_REQUEST"
  shows "request_admissible (es_authority s) (authority_before (es_authority s) (te_events t) n) (te_events t ! n)"
proof -
  let ?st = "policy_run (es_authority s) (es_approval_intent s) (take n (te_events t))"
  have "gs_reasons (tool_request_step (es_authority s) (es_approval_intent s) (te_events t ! n) ?st) = []"
    using policy_pass_step [OF assms(1,2)] assms(3) by (simp add: policy_step_def)
  then obtain tool where t: "payload_get (te_events t ! n) ''tool'' = Some (JStr tool)"
      "tool_authorized (es_authority s) ?st tool"
    and a: "has_handoff_authority (es_authority s) \<Longrightarrow>
      \<exists>a. payload_is (te_events t ! n) ''agent'' a \<and> hp_active_agent (gs_path ?st) = Some a"
    and r: "resource_reasons ''resource identity missing for scoped tool request: ''
       ''resource identity malformed for scoped tool request: '' ''unauthorized resource requested by ''
       ''resource-bearing request has no authorized resource scope: ''
       (allowed_scopes (es_authority s) ?st) (te_events t ! n) tool = []"
    by (rule tool_request_clean) (rule that)
  show ?thesis
    unfolding request_admissible_def
  proof (intro conjI impI)
    show "\<exists>tool. payload_is (te_events t ! n) ''tool'' tool \<and> authority_authorizes_tool
        (hp_authority (authority_before (es_authority s) (te_events t) n)) tool"
      using t by (auto simp: payload_is_def effective_tool policy_run_take_path)
    show "\<exists>a. payload_is (te_events t ! n) ''agent'' a \<and>
        hp_active_agent (authority_before (es_authority s) (te_events t) n) = Some a"
      if "has_handoff_authority (es_authority s)"
      using a [OF that] by (simp add: policy_run_take_path)
    show "case payload_get (te_events t ! n) ''resource'' of
        None \<Rightarrow> ea_allowed_resource_scopes (hp_authority (authority_before (es_authority s) (te_events t) n)) = []
      | Some v \<Rightarrow> \<exists>r. parse_resource_identifier_payload v = Inr r \<and>
          authority_authorizes_resource (hp_authority (authority_before (es_authority s) (te_events t) n)) r"
      using resource_reasons_Nil [OF r]
      by (simp add: effective_scopes policy_run_take_path authority_authorizes_resource_def split: option.splits)
  qed
qed

lemma consume_approval_calls [simp]: "gs_tool_calls (consume_approval i e tool st) = gs_tool_calls st"
  by (simp add: consume_approval_def Let_def split: option.splits)

lemma tool_request_body_calls [simp]: "gs_tool_calls (tool_request_body p i e st) = gs_tool_calls st"
  by (simp add: tool_request_body_def Let_def split: option.splits)

lemma charge_calls [simp]: "gs_tool_calls (charge_tool_call a st) = gs_tool_calls st"
  "gs_tool_calls (charge_handoff e st) = gs_tool_calls st"
  by (simp_all add: charge_tool_call_def charge_handoff_def Let_def split: option.splits)

lemma tool_request_step_calls [simp]: "gs_tool_calls (tool_request_step p i e st) = Suc (gs_tool_calls st)"
  by (simp add: tool_request_step_def Let_def split: option.splits)

lemma other_steps_calls [simp]:
  "gs_tool_calls (handoff_event_step p e st) = gs_tool_calls st"
  "gs_tool_calls (approval_step e st) = gs_tool_calls st"
  "gs_tool_calls (approval_request_step p e st) = gs_tool_calls st"
  "gs_tool_calls (approval_decision_step e st) = gs_tool_calls st"
  by (simp_all add: handoff_event_step_def follow_handoff_def approval_step_def approval_request_step_def
      approval_decision_step_def Let_def split: option.splits sum.splits list.splits)

lemma count_tool_requests:
  "gs_tool_calls (policy_run p i es) = length (filter (\<lambda>e. ev_kind e = TOOL_REQUEST) es)"
proof (induction es rule: rev_induct)
  case Nil
  then show ?case by (simp add: policy_run_def initial_policy_state_def)
next
  case (snoc e es)
  then show ?case by (cases "ev_kind e") (auto simp: policy_step_def)
qed

lemma policy_pass_budget:
  assumes "or_verdict (policy_oracle s t) = PASS"
  shows "int (length (filter (\<lambda>e. ev_kind e = TOOL_REQUEST) (te_events t))) \<le> ap_max_tool_calls (es_authority s)"
  using assms
  by (auto simp: policy_oracle_def policy_reasons_def Let_def count_tool_requests split: if_splits)

subsection \<open>A call-scoped approval serves one call\<close>

definition grants_call :: "string \<Rightarrow> string \<Rightarrow> evidence_event \<Rightarrow> bool" where
  "grants_call tool c e \<longleftrightarrow> ev_kind e = APPROVAL \<and> payload_is e ''tool'' tool \<and> payload_is e ''call_id'' c \<and>
     c \<noteq> [] \<and> (payload_get e ''scope'' = None \<or> payload_is e ''scope'' ''call'')"

definition grants_tool :: "string \<Rightarrow> evidence_event \<Rightarrow> bool" where
  "grants_tool tool e \<longleftrightarrow> ev_kind e = APPROVAL \<and> payload_is e ''tool'' tool \<and> payload_is e ''scope'' ''tool''"

text \<open>
  Event \<open>k\<close> is a request that a call-scoped approval must cover: its tool requires approval
  there, it is not the target of the stronger intent and no tool-wide approval precedes it.
\<close>

definition protected_call ::
  "authority_policy \<Rightarrow> approval_intent_spec option \<Rightarrow> evidence_event list \<Rightarrow> nat \<Rightarrow> string \<Rightarrow> string \<Rightarrow> bool" where
  "protected_call p i es k tool c \<longleftrightarrow> k < length es \<and> ev_kind (es ! k) = TOOL_REQUEST \<and>
     payload_is (es ! k) ''tool'' tool \<and> payload_is (es ! k) ''call_id'' c \<and> c \<noteq> [] \<and>
     tool \<in> ea_approval_required_tools (hp_authority (authority_before p es k)) \<and>
     (\<forall>spec. i = Some spec \<longrightarrow> \<not> (tool = ai_tool spec \<and> payload_is (es ! k) ''agent'' (ai_agent spec))) \<and>
     (\<forall>j < k. \<not> grants_tool tool (es ! j))"

lemma consume_sets:
  "gs_persistent (consume_approval i e tool st) = gs_persistent st"
  "gs_legacy (consume_approval i e tool st) \<subseteq> gs_legacy st"
  by (auto simp: consume_approval_def Let_def split: option.splits)

lemma body_sets:
  "gs_persistent (tool_request_body p i e st) = gs_persistent st"
  "gs_legacy (tool_request_body p i e st) \<subseteq> gs_legacy st"
proof -
  show "gs_persistent (tool_request_body p i e st) = gs_persistent st"
    by (simp add: tool_request_body_def Let_def consume_sets(1) split: option.splits)
  have "gs_legacy (consume_approval i e tool (add_reasons rs st)) \<subseteq> gs_legacy st" for tool rs
    using consume_sets(2) [of i e tool "add_reasons rs st"] by simp
  then show "gs_legacy (tool_request_body p i e st) \<subseteq> gs_legacy st"
    using consume_sets(2) by (simp add: tool_request_body_def Let_def split: option.splits)
qed

lemma request_step_sets:
  "gs_persistent (tool_request_step p i e st) = gs_persistent st"
  "gs_legacy (tool_request_step p i e st) \<subseteq> gs_legacy st"
proof -
  show "gs_persistent (tool_request_step p i e st) = gs_persistent st"
    by (simp add: tool_request_step_def Let_def body_sets(1) split: option.splits)
  have "gs_legacy (tool_request_body p i e st') \<subseteq> gs_legacy st" if "gs_legacy st' = gs_legacy st" for st'
    using body_sets(2) [of p i e st'] that by simp
  then show "gs_legacy (tool_request_step p i e st) \<subseteq> gs_legacy st"
    by (auto simp: tool_request_step_def Let_def split: option.splits)
qed

lemma other_steps_sets:
  "gs_persistent (handoff_event_step p e st) = gs_persistent st" "gs_legacy (handoff_event_step p e st) = gs_legacy st"
  "gs_persistent (approval_request_step p e st) = gs_persistent st" "gs_legacy (approval_request_step p e st) = gs_legacy st"
  "gs_persistent (approval_decision_step e st) = gs_persistent st" "gs_legacy (approval_decision_step e st) = gs_legacy st"
  by (simp_all add: handoff_event_step_def follow_handoff_def charge_handoff_def approval_request_step_def
      approval_decision_step_def Let_def split: option.splits sum.splits)

lemma approval_step_sets:
  "gs_persistent (approval_step e st) =
     gs_persistent st \<union> {tool. ev_kind e = APPROVAL \<and> payload_is e ''tool'' tool \<and> payload_is e ''scope'' ''tool''}"
  "gs_legacy (approval_step e st) = gs_legacy st \<union> {(tool, c). grants_call tool c e}"
  if "ev_kind e = APPROVAL"
  using that
  by (auto simp: approval_step_def Let_def payload_is_def grants_call_def split: option.splits list.splits json.splits)

lemma policy_step_persistent:
  "gs_persistent (policy_step p i st e) = gs_persistent st \<union> {tool. grants_tool tool e}"
  by (cases "ev_kind e")
    (auto simp: policy_step_def request_step_sets other_steps_sets approval_step_sets grants_tool_def)

lemma ex_nth: "(\<exists>j < length xs. P (xs ! j)) \<longleftrightarrow> (\<exists>x \<in> set xs. P x)"
  by (metis in_set_conv_nth)

lemma persistent_granted:
  "tool \<in> gs_persistent (policy_run p i es) \<longleftrightarrow> (\<exists>j < length es. grants_tool tool (es ! j))"
  unfolding ex_nth
proof (induction es rule: rev_induct)
  case Nil
  then show ?case by (simp add: policy_run_def initial_policy_state_def)
qed (auto simp: policy_step_persistent)

lemma persistent_before:
  "n \<le> length es \<Longrightarrow>
   tool \<in> gs_persistent (policy_run p i (take n es)) \<longleftrightarrow> (\<exists>j < n. grants_tool tool (es ! j))"
  by (auto simp: persistent_granted)

lemma policy_step_legacy:
  "ev_kind e \<noteq> TOOL_REQUEST \<Longrightarrow> gs_legacy (policy_step p i st e) = gs_legacy st \<union> {(t, c). grants_call t c e}"
  by (cases "ev_kind e")
    (auto simp: policy_step_def other_steps_sets approval_step_sets grants_call_def)

lemma bindable_payload: "payload_is e ''call_id'' c \<Longrightarrow> c \<noteq> [] \<Longrightarrow> bindable_call_id e = Some c"
  by (cases c) (auto simp: payload_is_def bindable_call_id_def)

text \<open>A protected request that adds no reason held its approval and consumes it.\<close>

lemma protected_consumes:
  assumes "protected_call p i es k tool c"
    and clean: "gs_reasons (policy_step p i (policy_run p i (take k es)) (es ! k)) = []"
  shows "(tool, c) \<in> gs_legacy (policy_run p i (take k es))"
    "(tool, c) \<notin> gs_legacy (policy_step p i (policy_run p i (take k es)) (es ! k))"
proof -
  let ?st = "policy_run p i (take k es)" and ?e = "es ! k"
  note pc = assms(1) [unfolded protected_call_def]
  have step: "policy_step p i ?st ?e = tool_request_step p i ?e ?st" using pc by (simp add: policy_step_def)
  have req: "tool \<in> approval_required p ?st"
    using pc by (simp add: effective_approval policy_run_take_path)
  have np: "tool \<notin> gs_persistent ?st" using pc by (simp add: persistent_before)
  have b: "bindable_call_id ?e = Some c" using pc by (simp add: bindable_payload)
  have weak: "\<not> (case i of None \<Rightarrow> False | Some sp \<Rightarrow> tool = ai_tool sp \<and> payload_is ?e ''agent'' (ai_agent sp))"
    using pc by (auto split: option.splits)
  have consume: "consume_approval i ?e tool st' =
      (if (tool, c) \<in> gs_legacy st' then st'\<lparr>gs_legacy := gs_legacy st' - {(tool, c)}\<rparr>
       else add_reasons [''approval-required tool requested without matching prior approval: '' @ call_text tool c] st')"
    if "gs_persistent st' = gs_persistent ?st" for st'
    using weak np b that by (simp add: consume_approval_def Let_def)
  obtain t st' where t: "payload_get ?e ''tool'' = Some (JStr t)"
    and cr: "t \<in> approval_required p ?st \<Longrightarrow> gs_reasons (consume_approval i ?e t st') = []"
    and sets: "gs_legacy st' = gs_legacy ?st" "gs_persistent st' = gs_persistent ?st"
    using clean [unfolded step] by (rule tool_request_clean) (rule that)
  have "t = tool" using t pc by (simp add: payload_is_def)
  then show held: "(tool, c) \<in> gs_legacy ?st"
    using cr req consume [OF sets(2)] sets(1) by (auto split: if_splits)
  have body: "(tool, c) \<notin> gs_legacy (tool_request_body p i ?e st'')"
    if "gs_legacy st'' = gs_legacy ?st" "gs_persistent st'' = gs_persistent ?st" "gs_path st'' = gs_path ?st" for st''
  proof -
    have "tool \<in> approval_required p st''" "tool_authorized p st'' = tool_authorized p ?st"
      using req that(3) by (auto simp: approval_required_def tool_authorized_def fun_eq_iff split: if_splits)
    moreover have "tool_authorized p ?st tool"
      using clean [unfolded step] by (rule tool_request_clean) (use t \<open>t = tool\<close> in simp)
    moreover have "payload_get ?e ''tool'' = Some (JStr tool)" using t \<open>t = tool\<close> by simp
    ultimately show ?thesis
      using that(1,2) held
      by (simp add: tool_request_body_def Let_def consume b)
  qed
  let ?st1 = "?st\<lparr>gs_tool_calls := Suc (gs_tool_calls ?st)\<rparr>"
  have clean': "gs_reasons (tool_request_step p i ?e ?st) = []" using clean step by simp
  show "(tool, c) \<notin> gs_legacy (policy_step p i ?st ?e)"
  proof (cases "has_handoff_authority p")
    case False
    then have "tool_request_step p i ?e ?st = tool_request_body p i ?e ?st1"
      by (simp add: tool_request_step_def)
    then show ?thesis using body [of ?st1] step by simp
  next
    case True
    then obtain a where "tool_request_step p i ?e ?st = tool_request_body p i ?e (charge_tool_call a ?st1)"
      using clean' by (auto simp: tool_request_step_def Let_def split: option.splits if_splits)
    then show ?thesis
      using body [of "charge_tool_call a ?st1"] charge_tool_call_grows [of ?st1 a] step by simp
  qed
qed

lemma legacy_origin:
  assumes "\<And>n. n \<le> m \<Longrightarrow> gs_reasons (policy_run p i (take n es)) = []" "m \<le> length es"
    and "(tool, c) \<in> gs_legacy (policy_run p i (take m es))"
  shows "\<exists>j < m. grants_call tool c (es ! j) \<and> (\<forall>k. j < k \<and> k < m \<longrightarrow> \<not> protected_call p i es k tool c)"
  using assms
proof (induction m)
  case 0
  then show ?case by (simp add: policy_run_def initial_policy_state_def)
next
  case (Suc m)
  let ?st = "policy_run p i (take m es)"
  have m: "m < length es" using Suc.prems(2) by simp
  have run: "policy_run p i (take (Suc m) es) = policy_step p i ?st (es ! m)"
    using m by (simp add: take_Suc_conv_app_nth)
  have clean: "gs_reasons (policy_step p i ?st (es ! m)) = []"
    using Suc.prems(1) [of "Suc m"] run by simp
  have np: "\<not> protected_call p i es m tool c"
    using protected_consumes(2) [OF _ clean] Suc.prems(3) run by auto
  have earlier: ?case if held: "(tool, c) \<in> gs_legacy ?st"
  proof -
    obtain j where "j < m" "grants_call tool c (es ! j)"
      "\<forall>k. j < k \<and> k < m \<longrightarrow> \<not> protected_call p i es k tool c"
      using Suc.IH Suc.prems(1) held m by auto
    with np show ?thesis by (intro exI [of _ j]) (auto simp: less_Suc_eq)
  qed
  show ?case
  proof (cases "ev_kind (es ! m) = TOOL_REQUEST")
    case True
    then have "(tool, c) \<in> gs_legacy ?st"
      using Suc.prems(3) run request_step_sets(2) [of p i "es ! m" ?st] by (auto simp: policy_step_def)
    then show ?thesis by (rule earlier)
  next
    case False
    then have "(tool, c) \<in> gs_legacy ?st \<or> grants_call tool c (es ! m)"
      using Suc.prems(3) run by (auto simp: policy_step_legacy)
    then show ?thesis using earlier by (auto intro: exI [of _ m])
  qed
qed

lemma policy_pass_one_shot:
  assumes "or_verdict (policy_oracle s t) = PASS"
    and "protected_call (es_authority s) (es_approval_intent s) (te_events t) n tool c"
  shows "\<exists>j < n. grants_call tool c (te_events t ! j) \<and>
    (\<forall>k. j < k \<and> k < n \<longrightarrow> \<not> protected_call (es_authority s) (es_approval_intent s) (te_events t) k tool c)"
proof (rule legacy_origin)
  have n: "n < length (te_events t)" using assms(2) by (simp add: protected_call_def)
  then show "n \<le> length (te_events t)" by simp
  show "gs_reasons (policy_run (es_authority s) (es_approval_intent s) (take m (te_events t))) = []" for m
    by (rule policy_pass_prefix [OF assms(1)])
  show "(tool, c) \<in> gs_legacy (policy_run (es_authority s) (es_approval_intent s) (take n (te_events t)))"
    by (rule protected_consumes(1) [OF assms(2) policy_pass_step [OF assms(1) n]])
qed

end
