(* ===== verification/Retrieval.thy ===== *)
theory Retrieval
  imports OracleProofs
begin

section \<open>Deterministic retrieval (\<open>retrieval/ranker.py\<close>, \<open>receipt.py\<close>, \<open>verification.py\<close>)\<close>

text \<open>
  A lexical ranker scores the chunks of a corpus with integers; a receipt projects the
  ranking before and after poisoning; verification recomputes the receipt from the scenario
  and the text the model was shown, and accepts nothing else.
\<close>

subsection \<open>Tokens\<close>

text \<open>
  \<open>normalize("NFKC", c).casefold()\<close> of a code point up to 255. Compatibility forms are
  written as their base characters; the spacing diacritics and fractions decompose into
  characters that are not alphanumeric around digits. The micro sign folds to a letter
  outside this range, represented by itself.
\<close>

definition fold_char :: "char \<Rightarrow> string" where
  "fold_char c = (let n = (of_char c :: nat) in
     if n = 160 \<or> n = 168 \<or> n = 175 \<or> n = 180 \<or> n = 184 then '' ''
     else if n = 170 then ''a'' else if n = 186 then ''o''
     else if n = 178 then ''2'' else if n = 179 then ''3'' else if n = 185 then ''1''
     else if n = 188 then ''1/4'' else if n = 189 then ''1/2'' else if n = 190 then ''3/4''
     else if n = 223 then ''ss''
     else [py_lower_char c])"

definition is_alnum :: "char \<Rightarrow> bool" where
  "is_alnum c \<longleftrightarrow> (let n = (of_char c :: nat) in
     is_digit_char c \<or> is_lower_char c \<or> (65 \<le> n \<and> n \<le> 90) \<or>
     n = 170 \<or> n = 178 \<or> n = 179 \<or> n = 181 \<or> n = 185 \<or> n = 186 \<or> (188 \<le> n \<and> n \<le> 190) \<or>
     (192 \<le> n \<and> n \<noteq> 215 \<and> n \<noteq> 247))"

text \<open>The loop of \<open>_tokens\<close> with its \<open>current\<close> token.\<close>

fun token_loop :: "string \<Rightarrow> string \<Rightarrow> string list" where
  "token_loop current [] = (if current \<noteq> [] then [current] else [])"
| "token_loop current (c # cs) =
     (if is_alnum c then token_loop (current @ [c]) cs
      else if current \<noteq> [] then current # token_loop [] cs
      else token_loop [] cs)"

definition retrieval_tokens :: "string \<Rightarrow> string list" where
  "retrieval_tokens value = token_loop [] (concat (map fold_char value))"

subsection \<open>Ranking\<close>

record retrieval_hit =
  rh_rank :: int
  rh_chunk_id :: string
  rh_document_id :: string
  rh_source :: string
  rh_score :: int
  rh_content :: string
  rh_content_sha256 :: string

definition validate_hit :: "retrieval_hit \<Rightarrow> error + unit" where
  "validate_hit h = raise_if
     [(rh_rank h < 1 \<or> rh_rank h > 64, verr ''rank: range''),
      (rh_score h < 0, verr ''score: range''),
      (\<not> is_sha256 (rh_content_sha256 h), verr ''content_sha256: pattern''),
      (rh_content_sha256 h \<noteq> sha256_hex (utf8 (rh_content h)),
       verr ''retrieval hit content digest does not match content'')]"

record retrieval_result =
  rr_query :: string
  rr_hits :: "retrieval_hit list"

definition validate_result :: "retrieval_result \<Rightarrow> error + retrieval_result" where
  "validate_result r =
     rbind (rfor validate_hit (rr_hits r)) (\<lambda>_.
     rbind (raise_if
       [(length (rr_hits r) > 64, verr ''hits: length''),
        (map rh_rank (rr_hits r) \<noteq> map int [1..<length (rr_hits r) + 1],
         verr ''retrieval result ranks must be contiguous from one''),
        (card (set (map rh_chunk_id (rr_hits r))) \<noteq> length (rr_hits r),
         verr ''retrieval result cannot contain duplicate chunk identities'')]) (\<lambda>_. Inr r))"

definition hit_material :: "retrieval_hit \<Rightarrow> json" where
  "hit_material h = JObj
     [(''rank'', JInt (rh_rank h)), (''chunk_id'', JStr (rh_chunk_id h)),
      (''document_id'', JStr (rh_document_id h)), (''source'', JStr (rh_source h)),
      (''score'', JInt (rh_score h)), (''content'', JStr (rh_content h)),
      (''content_sha256'', JStr (rh_content_sha256 h))]"

definition result_canonical_json :: "retrieval_result \<Rightarrow> string" where
  "result_canonical_json r = json_dumps (JObj
     [(''query'', JStr (rr_query r)), (''hits'', JArr (map hit_material (rr_hits r)))])"

text \<open>\<open>Counter\<close> entries of the query in first-occurrence order.\<close>

definition query_overlap :: "string list \<Rightarrow> string list \<Rightarrow> nat" where
  "query_overlap q c = sum_list (map (\<lambda>t. min (count_list q t) (count_list c t)) (remdups q))"

definition query_coverage :: "string list \<Rightarrow> string list \<Rightarrow> nat" where
  "query_coverage q c = length (filter (\<lambda>t. count_list c t > 0) (remdups q))"

definition phrase_match :: "string list \<Rightarrow> string list \<Rightarrow> bool" where
  "phrase_match q c \<longleftrightarrow> str_join '' '' q \<noteq> [] \<and> text_contains (str_join '' '' q) (str_join '' '' c)"

definition chunk_score :: "retrieval_query \<Rightarrow> retrieval_chunk \<Rightarrow> int" where
  "chunk_score query chunk =
     (let q = retrieval_tokens (rq_query query); c = retrieval_tokens (rc_content chunk);
          profile = rq_ranker query in
      int (query_overlap q c) * rp_overlap_weight profile
      + int (query_coverage q c) * rp_coverage_weight profile
      + (if phrase_match q c then rp_phrase_bonus profile else 0))"

definition rank_key :: "retrieval_query \<Rightarrow> retrieval_chunk \<Rightarrow> int \<times> string \<times> string" where
  "rank_key query chunk = (- chunk_score query chunk, rc_chunk_id chunk, rc_document_id chunk)"

definition ranked_chunks :: "retrieval_corpus \<Rightarrow> retrieval_query \<Rightarrow> retrieval_chunk list" where
  "ranked_chunks corpus query = sort_key (rank_key query) (co_chunks corpus)"

definition mk_hit :: "retrieval_query \<Rightarrow> int \<Rightarrow> retrieval_chunk \<Rightarrow> retrieval_hit" where
  "mk_hit query rank chunk =
     \<lparr>rh_rank = rank, rh_chunk_id = rc_chunk_id chunk, rh_document_id = rc_document_id chunk,
      rh_source = rc_source chunk, rh_score = chunk_score query chunk,
      rh_content = rc_content chunk, rh_content_sha256 = content_sha256 chunk\<rparr>"

definition rank_corpus :: "retrieval_corpus \<Rightarrow> retrieval_query \<Rightarrow> error + retrieval_result" where
  "rank_corpus corpus query =
     (let top = take (rq_top_k query) (ranked_chunks corpus query) in
      validate_result
       \<lparr>rr_query = rq_query query,
        rr_hits = map (\<lambda>(i, c). mk_hit query i c) (zip (map int [1..<length top + 1]) top)\<rparr>)"

subsection \<open>Receipts\<close>

record hit_digest =
  hd_rank :: int
  hd_chunk_id :: string
  hd_document_id :: string
  hd_score :: int
  hd_content_sha256 :: string

definition validate_hit_digest :: "hit_digest \<Rightarrow> error + unit" where
  "validate_hit_digest h = raise_if
     [(hd_rank h < 1 \<or> hd_rank h > 64, verr ''rank: range''),
      (\<not> bounded_text 1 128 (hd_chunk_id h), verr ''chunk_id: length''),
      (\<not> bounded_text 1 128 (hd_document_id h), verr ''document_id: length''),
      (hd_score h < 0, verr ''score: range''),
      (\<not> is_sha256 (hd_content_sha256 h), verr ''content_sha256: pattern'')]"

definition digest_of_hit :: "retrieval_hit \<Rightarrow> hit_digest" where
  "digest_of_hit h = \<lparr>hd_rank = rh_rank h, hd_chunk_id = rh_chunk_id h, hd_document_id = rh_document_id h,
     hd_score = rh_score h, hd_content_sha256 = rh_content_sha256 h\<rparr>"

definition hit_digest_material :: "hit_digest \<Rightarrow> json" where
  "hit_digest_material h = JObj
     [(''rank'', JInt (hd_rank h)), (''chunk_id'', JStr (hd_chunk_id h)),
      (''document_id'', JStr (hd_document_id h)), (''score'', JInt (hd_score h)),
      (''content_sha256'', JStr (hd_content_sha256 h))]"

record retrieval_receipt =
  re_schema_version :: string
  re_scenario_identity :: string
  re_contract_identity :: string
  re_tool_name :: string
  re_call_id :: string
  re_base_corpus_identity :: string
  re_attacked_corpus_identity :: "string option"
  re_query_identity :: string
  re_ranker_identity :: string
  re_poison_identity :: "string option"
  re_poison_relation :: "poison_relation option"
  re_baseline_hits :: "hit_digest list"
  re_active_hits :: "hit_digest list"
  re_model_visible_result_sha256 :: string
  re_receipt_root :: string

definition retrieval_schema :: string where
  "retrieval_schema = ''agent-evals/retrieval-delivery-receipt/v1''"

definition retrieval_event_source :: string where
  "retrieval_event_source = ''bridge:retrieval:openai''"

definition retrieval_root_domain :: string where
  "retrieval_root_domain = ''agent-evals/retrieval-delivery-receipt/v1'' @ [CHR 0x00]"

definition retrieval_receipt_material :: "retrieval_receipt \<Rightarrow> json" where
  "retrieval_receipt_material r = JObj
     [(''schema_version'', JStr (re_schema_version r)),
      (''scenario_identity'', JStr (re_scenario_identity r)),
      (''contract_identity'', JStr (re_contract_identity r)),
      (''tool_name'', JStr (re_tool_name r)),
      (''call_id'', JStr (re_call_id r)),
      (''base_corpus_identity'', JStr (re_base_corpus_identity r)),
      (''attacked_corpus_identity'', opt_json (map_option JStr (re_attacked_corpus_identity r))),
      (''query_identity'', JStr (re_query_identity r)),
      (''ranker_identity'', JStr (re_ranker_identity r)),
      (''poison_identity'', opt_json (map_option JStr (re_poison_identity r))),
      (''poison_relation'', opt_json (map_option (\<lambda>x. JStr (relation_value x)) (re_poison_relation r))),
      (''baseline_hits'', JArr (map hit_digest_material (re_baseline_hits r))),
      (''active_hits'', JArr (map hit_digest_material (re_active_hits r))),
      (''model_visible_result_sha256'', JStr (re_model_visible_result_sha256 r))]"

text \<open>\<open>_receipt_root\<close>: the budget walker, then the tagged digest.\<close>

definition receipt_root_of :: "string \<Rightarrow> string \<Rightarrow> json \<Rightarrow> error + string" where
  "receipt_root_of label tag material =
     (if within_budget receipt_material_budget material then Inr (sha256_hex (tag @ json_dumps material))
      else Inl (Err ResourceLimitError (label @ '' exceeds the receipt material budget'')))"

definition retrieval_root :: "retrieval_receipt \<Rightarrow> error + string" where
  "retrieval_root r = receipt_root_of ''retrieval receipt material'' retrieval_root_domain (retrieval_receipt_material r)"

definition require_contiguous_ranks :: "hit_digest list \<Rightarrow> string \<Rightarrow> error + unit" where
  "require_contiguous_ranks hits label = raise_if
     [(map hd_rank hits \<noteq> map int [1..<length hits + 1],
       verr (''retrieval '' @ label @ '' receipt ranks must be contiguous from one'')),
      (card (set (map hd_chunk_id hits)) \<noteq> length hits,
       verr (''retrieval '' @ label @ '' receipt hits must have unique chunk identities''))]"

definition opt_sha256 :: "string option \<Rightarrow> bool" where
  "opt_sha256 x = (case x of None \<Rightarrow> True | Some s \<Rightarrow> is_sha256 s)"

definition validate_retrieval_receipt :: "retrieval_receipt \<Rightarrow> error + retrieval_receipt" where
  "validate_retrieval_receipt r =
     rbind (raise_if
       [(re_schema_version r \<noteq> retrieval_schema, verr ''schema_version: literal''),
        (\<not> is_sha256 (re_scenario_identity r), verr ''scenario_identity: pattern''),
        (\<not> is_sha256 (re_contract_identity r), verr ''contract_identity: pattern''),
        (\<not> bounded_text 1 128 (re_tool_name r), verr ''tool_name: length''),
        (\<not> bounded_text 1 512 (re_call_id r), verr ''call_id: length''),
        (\<not> is_sha256 (re_base_corpus_identity r), verr ''base_corpus_identity: pattern''),
        (\<not> opt_sha256 (re_attacked_corpus_identity r), verr ''attacked_corpus_identity: pattern''),
        (\<not> is_sha256 (re_query_identity r), verr ''query_identity: pattern''),
        (\<not> is_sha256 (re_ranker_identity r), verr ''ranker_identity: pattern''),
        (\<not> opt_sha256 (re_poison_identity r), verr ''poison_identity: pattern''),
        (length (re_baseline_hits r) < 1 \<or> length (re_baseline_hits r) > 64, verr ''baseline_hits: length''),
        (length (re_active_hits r) < 1 \<or> length (re_active_hits r) > 64, verr ''active_hits: length''),
        (\<not> is_sha256 (re_model_visible_result_sha256 r), verr ''model_visible_result_sha256: pattern''),
        (\<not> is_sha256 (re_receipt_root r), verr ''receipt_root: pattern'')]) (\<lambda>_.
     rbind (rfor validate_hit_digest (re_baseline_hits r @ re_active_hits r)) (\<lambda>_.
     rbind (raise_if
       [((re_poison_identity r = None) \<noteq> (re_attacked_corpus_identity r = None),
         verr ''poison and attacked-corpus identities must appear together''),
        ((re_poison_identity r = None) \<noteq> (re_poison_relation r = None),
         verr ''poison identity and relation must appear together'')]) (\<lambda>_.
     rbind (require_contiguous_ranks (re_baseline_hits r) ''baseline'') (\<lambda>_.
     rbind (require_contiguous_ranks (re_active_hits r) ''active'') (\<lambda>_.
     rbind (as_validation (retrieval_root r)) (\<lambda>root.
     if re_receipt_root r \<noteq> root then Inl (verr ''retrieval delivery receipt root mismatch'') else Inr r))))))"

definition require_poison_relation ::
  "retrieval_contract \<Rightarrow> retrieval_hit list \<Rightarrow> retrieval_hit list \<Rightarrow> error + unit" where
  "require_poison_relation k baseline active = (case rk_poison k of
       None \<Rightarrow> Inr ()
     | Some p \<Rightarrow> (let active_ids = set (map rh_chunk_id active); baseline_ids = set (map rh_chunk_id baseline) in
         raise_if
           [(rc_chunk_id (po_inserted_chunk p) \<notin> active_ids,
             Err RetrievalReceiptError ''controlled poison did not enter the active top-k ranking''),
            (po_relation p = DISPLACE_CHUNK \<and> (case po_expected_displaced_chunk_id p of
                None \<Rightarrow> True | Some d \<Rightarrow> d \<notin> baseline_ids \<or> d \<in> active_ids),
             Err RetrievalReceiptError ''controlled poison did not displace the exact expected baseline chunk'')]))"

text \<open>The ranking the model is shown: the attacked corpus under a poison, else the baseline.\<close>

definition active_ranking ::
  "retrieval_contract \<Rightarrow> retrieval_result \<Rightarrow> error + retrieval_result \<times> string option" where
  "active_ranking k baseline = (case rk_poison k of
       None \<Rightarrow> Inr (baseline, None)
     | Some p \<Rightarrow>
         rbind (rcatch is_value_error (Err RetrievalReceiptError ''retrieval poison could not be applied'')
                  (apply_poison p (rk_corpus k))) (\<lambda>attacked.
         rbind (rank_corpus attacked (rk_query k)) (\<lambda>active.
         rbind (require_poison_relation k (rr_hits baseline) (rr_hits active)) (\<lambda>_.
         Inr (active, Some (corpus_identity attacked))))))"

definition unsigned_retrieval_receipt ::
  "string \<Rightarrow> retrieval_contract \<Rightarrow> string \<Rightarrow> string \<Rightarrow> retrieval_result \<Rightarrow> retrieval_result \<Rightarrow> string option \<Rightarrow> retrieval_receipt" where
  "unsigned_retrieval_receipt sid k call_id visible baseline active attacked =
     \<lparr>re_schema_version = retrieval_schema, re_scenario_identity = sid,
      re_contract_identity = retrieval_identity k, re_tool_name = rk_tool_name k, re_call_id = call_id,
      re_base_corpus_identity = corpus_identity (rk_corpus k), re_attacked_corpus_identity = attacked,
      re_query_identity = query_identity (rk_query k), re_ranker_identity = ranker_identity (rq_ranker (rk_query k)),
      re_poison_identity = map_option poison_identity (rk_poison k),
      re_poison_relation = map_option po_relation (rk_poison k),
      re_baseline_hits = map digest_of_hit (rr_hits baseline), re_active_hits = map digest_of_hit (rr_hits active),
      re_model_visible_result_sha256 = sha256_hex (utf8 visible), re_receipt_root = []\<rparr>"

definition create_retrieval_receipt ::
  "string \<Rightarrow> retrieval_contract \<Rightarrow> string \<Rightarrow> string \<Rightarrow> error + retrieval_receipt" where
  "create_retrieval_receipt sid k call_id visible =
     (if call_id = [] then Inl (Err RetrievalReceiptError ''retrieval tool call identity must be non-empty'')
      else
       rbind (rank_corpus (rk_corpus k) (rk_query k)) (\<lambda>baseline.
       rbind (active_ranking k baseline) (\<lambda>(active, attacked).
       if visible \<noteq> result_canonical_json active
       then Inl (Err RetrievalReceiptError ''model-visible retrieval result does not equal the canonical active ranking'')
       else
        let r = unsigned_retrieval_receipt sid k call_id visible baseline active attacked in
        rbind (retrieval_root r) (\<lambda>root. validate_retrieval_receipt (r\<lparr>re_receipt_root := root\<rparr>)))))"

definition retrieval_receipt_dict :: "retrieval_receipt \<Rightarrow> dict" where
  "retrieval_receipt_dict r = (case retrieval_receipt_material r of
     JObj kvs \<Rightarrow> kvs @ [(''receipt_root'', JStr (re_receipt_root r))] | _ \<Rightarrow> [])"

definition retrieval_receipt_event :: "retrieval_receipt \<Rightarrow> int \<Rightarrow> py_datetime \<Rightarrow> error + evidence_event" where
  "retrieval_receipt_event r sequence now =
     mk_event sequence RETRIEVAL_DELIVERY retrieval_event_source (retrieval_receipt_dict r) now False"

definition read_hit_digest :: "json \<Rightarrow> hit_digest option" where
  "read_hit_digest v = do {
     m \<leftarrow> as_obj (Some v);
     (if only_keys [''rank'', ''chunk_id'', ''document_id'', ''score'', ''content_sha256''] m then Some () else None);
     rank \<leftarrow> as_int (dict_get m ''rank'');
     cid \<leftarrow> as_str (dict_get m ''chunk_id'');
     did \<leftarrow> as_str (dict_get m ''document_id'');
     score \<leftarrow> as_int (dict_get m ''score'');
     sha \<leftarrow> as_str (dict_get m ''content_sha256'');
     Some \<lparr>hd_rank = rank, hd_chunk_id = cid, hd_document_id = did, hd_score = score, hd_content_sha256 = sha\<rparr> }"

definition read_hits :: "json option \<Rightarrow> hit_digest list option" where
  "read_hits v = do { xs \<leftarrow> as_arr v; those (map read_hit_digest xs) }"

definition read_relation :: "json option \<Rightarrow> poison_relation option" where
  "read_relation v = do { s \<leftarrow> as_str v; parse_relation s }"

definition retrieval_receipt_fields :: "string list" where
  "retrieval_receipt_fields =
     [''schema_version'', ''scenario_identity'', ''contract_identity'', ''tool_name'', ''call_id'',
      ''base_corpus_identity'', ''attacked_corpus_identity'', ''query_identity'', ''ranker_identity'',
      ''poison_identity'', ''poison_relation'', ''baseline_hits'', ''active_hits'',
      ''model_visible_result_sha256'', ''receipt_root'']"

definition read_retrieval_receipt :: "dict \<Rightarrow> retrieval_receipt option" where
  "read_retrieval_receipt m = do {
     (if only_keys retrieval_receipt_fields m then Some () else None);
     schema \<leftarrow> with_default retrieval_schema as_str (dict_get m ''schema_version'');
     scen \<leftarrow> as_str (dict_get m ''scenario_identity'');
     con \<leftarrow> as_str (dict_get m ''contract_identity'');
     tool \<leftarrow> as_str (dict_get m ''tool_name'');
     call \<leftarrow> as_str (dict_get m ''call_id'');
     base \<leftarrow> as_str (dict_get m ''base_corpus_identity'');
     att \<leftarrow> nullable as_str (dict_get m ''attacked_corpus_identity'');
     qid \<leftarrow> as_str (dict_get m ''query_identity'');
     rid \<leftarrow> as_str (dict_get m ''ranker_identity'');
     pid \<leftarrow> nullable as_str (dict_get m ''poison_identity'');
     rel \<leftarrow> nullable read_relation (dict_get m ''poison_relation'');
     bh \<leftarrow> read_hits (dict_get m ''baseline_hits'');
     ah \<leftarrow> read_hits (dict_get m ''active_hits'');
     vis \<leftarrow> as_str (dict_get m ''model_visible_result_sha256'');
     root \<leftarrow> as_str (dict_get m ''receipt_root'');
     of_result (validate_retrieval_receipt
       \<lparr>re_schema_version = schema, re_scenario_identity = scen, re_contract_identity = con,
        re_tool_name = tool, re_call_id = call, re_base_corpus_identity = base,
        re_attacked_corpus_identity = att, re_query_identity = qid, re_ranker_identity = rid,
        re_poison_identity = pid, re_poison_relation = rel, re_baseline_hits = bh, re_active_hits = ah,
        re_model_visible_result_sha256 = vis, re_receipt_root = root\<rparr>) }"

subsection \<open>Verification\<close>

definition rderr :: "string \<Rightarrow> error" where
  "rderr msg = Err RetrievalDeliveryError msg"

lemma rderr_cong [cong]: "rderr m = rderr m"
  by (rule refl)

definition verify_request_arguments :: "evidence_event \<Rightarrow> string \<Rightarrow> error + unit" where
  "verify_request_arguments e expected_query = (case as_str (payload_get e ''arguments'') of
       None \<Rightarrow> Inl (rderr ''retrieval tool request arguments must be canonical JSON text'')
     | Some arguments \<Rightarrow> (case loads_unique arguments of
         None \<Rightarrow> Inl (rderr ''retrieval tool request arguments are invalid JSON'')
       | Some decoded \<Rightarrow>
           if \<not> py_eq decoded (JObj [(''query'', JStr expected_query)])
           then Inl (rderr ''retrieval tool request must contain only the exact bound query'')
           else Inr ()))"

definition events_of :: "evidence_kind \<Rightarrow> trial_evidence \<Rightarrow> evidence_event list" where
  "events_of k t = filter (\<lambda>e. ev_kind e = k) (te_events t)"

definition call_results :: "trial_evidence \<Rightarrow> string \<Rightarrow> evidence_event list" where
  "call_results t call_id = filter (\<lambda>e. payload_is e ''call_id'' call_id) (events_of TOOL_RESULT t)"

definition tool_requests :: "trial_evidence \<Rightarrow> string \<Rightarrow> evidence_event list" where
  "tool_requests t tool = filter (\<lambda>e. payload_is e ''tool'' tool) (events_of TOOL_REQUEST t)"

text \<open>The request and result of the receipt's call, around the delivery.\<close>

definition retrieval_output ::
  "retrieval_contract \<Rightarrow> trial_evidence \<Rightarrow> evidence_event \<Rightarrow> retrieval_receipt \<Rightarrow> error + string" where
  "retrieval_output k t delivery r = (case tool_requests t (rk_tool_name k) of
       [request] \<Rightarrow>
         if \<not> payload_is request ''call_id'' (re_call_id r)
         then Inl (rderr ''retrieval request call identity does not match receipt'')
         else rbind (verify_request_arguments request (rq_query (rk_query k))) (\<lambda>_.
           case call_results t (re_call_id r) of
             [result] \<Rightarrow> (case as_str (payload_get result ''output'') of
                 None \<Rightarrow> Inl (rderr ''retrieval tool result must expose one canonical JSON string'')
               | Some output \<Rightarrow>
                   if \<not> (ev_sequence request < ev_sequence delivery \<and> ev_sequence delivery < ev_sequence result)
                   then Inl (rderr ''retrieval chronology must order request before delivery before tool result'')
                   else Inr output)
           | _ \<Rightarrow> Inl (rderr ''retrieval receipt requires exactly one matching tool result''))
     | _ \<Rightarrow> Inl (rderr ''retrieval contract requires exactly one target tool request''))"

definition verify_retrieval_receipt ::
  "evaluation_scenario \<Rightarrow> retrieval_contract \<Rightarrow> trial_evidence \<Rightarrow> evidence_event \<Rightarrow> error + retrieval_receipt" where
  "verify_retrieval_receipt s k t delivery =
     rbind (raise_if
       [(ev_critical delivery, rderr ''retrieval delivery evidence must remain non-critical''),
        (ev_source delivery \<noteq> retrieval_event_source,
         rderr ''retrieval delivery evidence source is not recognized'')]) (\<lambda>_.
     case read_retrieval_receipt (ev_payload delivery) of
       None \<Rightarrow> Inl (rderr ''retrieval delivery receipt failed schema validation'')
     | Some r \<Rightarrow>
         rbind (raise_if
           [(te_scenario_identity t \<noteq> scenario_identity s,
             rderr ''retrieval evidence scenario identity does not match scenario''),
            (re_scenario_identity r \<noteq> scenario_identity s,
             rderr ''retrieval receipt scenario identity does not match scenario''),
            (re_contract_identity r \<noteq> retrieval_identity k,
             rderr ''retrieval receipt contract identity does not match scenario''),
            (re_tool_name r \<noteq> rk_tool_name k,
             rderr ''retrieval receipt tool identity does not match scenario'')]) (\<lambda>_.
         rbind (retrieval_output k t delivery r) (\<lambda>output.
         rbind (rcatch (\<lambda>e. err_class e = RetrievalReceiptError)
                  (rderr ''retrieval relation cannot be reconstructed from scenario'')
                  (create_retrieval_receipt (scenario_identity s) k (re_call_id r) output)) (\<lambda>expected.
         if r \<noteq> expected
         then Inl (rderr ''retrieval receipt does not match rederived scenario relation'')
         else Inr r))))"

definition verify_retrieval_delivery ::
  "evaluation_scenario \<Rightarrow> trial_evidence \<Rightarrow> error + retrieval_receipt option" where
  "verify_retrieval_delivery s t =
     (let deliveries = events_of RETRIEVAL_DELIVERY t in
      case es_retrieval s of
        None \<Rightarrow> if deliveries \<noteq> []
          then Inl (rderr ''retrieval delivery evidence is invalid when the scenario has no retrieval contract'')
          else Inr None
      | Some k \<Rightarrow> (case deliveries of
            [delivery] \<Rightarrow> rbind (verify_retrieval_receipt s k t delivery) (\<lambda>r. Inr (Some r))
          | _ \<Rightarrow> Inl (rderr ''scenario retrieval contract requires exactly one delivery receipt'')))"

end
