(* ===== verification/SideEffect.thy ===== *)
theory SideEffect
  imports Retrieval
begin

section \<open>Side-effect idempotency (\<open>side_effect/receipt.py\<close>, \<open>verification.py\<close>, \<open>oracle.py\<close>)\<close>

text \<open>
  A receipt binds the effect digests around two physical attempts of one logical operation.
  Verification closes it over the requests and results of the trial; the oracle then fails a
  duplicate that changes the effect state again.

  The field \<open>mutated: bool\<close> is read in pydantic's lax mode. What that conversion accepts
  beside a boolean is a parameter, \<open>lax_bool\<close>; \<open>lax_bool_keeps\<close> states the documented
  part of it that the code relies on, that a boolean is itself.
\<close>

definition lax_bool_keeps :: "(json \<Rightarrow> bool option) \<Rightarrow> bool" where
  "lax_bool_keeps lax_bool \<longleftrightarrow> (\<forall>b. lax_bool (JBool b) = Some b)"

subsection \<open>Receipts\<close>

record effect_attempt =
  at_ordinal :: int
  at_call_id :: string
  at_arguments_sha256 :: string
  at_key_sha256 :: string
  at_before_effect_sha256 :: string
  at_after_effect_sha256 :: string
  at_mutated :: bool

definition validate_attempt :: "effect_attempt \<Rightarrow> error + unit" where
  "validate_attempt a = raise_if
     [(at_ordinal a < 1 \<or> at_ordinal a > 2, verr ''ordinal: range''),
      (\<not> bounded_text 1 512 (at_call_id a), verr ''call_id: length''),
      (\<not> is_sha256 (at_arguments_sha256 a), verr ''arguments_sha256: pattern''),
      (\<not> is_sha256 (at_key_sha256 a), verr ''key_sha256: pattern''),
      (\<not> is_sha256 (at_before_effect_sha256 a), verr ''before_effect_sha256: pattern''),
      (\<not> is_sha256 (at_after_effect_sha256 a), verr ''after_effect_sha256: pattern''),
      (at_mutated a \<noteq> (at_before_effect_sha256 a \<noteq> at_after_effect_sha256 a),
       verr ''side-effect mutation flag disagrees with observed effect digests'')]"

definition attempt_material :: "effect_attempt \<Rightarrow> json" where
  "attempt_material a = JObj
     [(''ordinal'', JInt (at_ordinal a)), (''call_id'', JStr (at_call_id a)),
      (''arguments_sha256'', JStr (at_arguments_sha256 a)), (''key_sha256'', JStr (at_key_sha256 a)),
      (''before_effect_sha256'', JStr (at_before_effect_sha256 a)),
      (''after_effect_sha256'', JStr (at_after_effect_sha256 a)), (''mutated'', JBool (at_mutated a))]"

record effect_receipt =
  er_schema_version :: string
  er_scenario_identity :: string
  er_contract_identity :: string
  er_tool :: string
  er_logical_operation_identity :: string
  er_arguments_sha256 :: string
  er_key_sha256 :: string
  er_attempts :: "effect_attempt list"
  er_mutation_count :: int
  er_receipt_root :: string

definition effect_schema :: string where
  "effect_schema = ''agent-evals/side-effect-idempotency-receipt/v1''"

definition effect_event_source :: string where
  "effect_event_source = ''bridge:side-effect-idempotency''"

definition effect_root_domain :: string where
  "effect_root_domain = ''agent-evals/side-effect-idempotency-receipt/v1'' @ [CHR 0x00]"

definition effect_receipt_material :: "effect_receipt \<Rightarrow> json" where
  "effect_receipt_material r = JObj
     [(''schema_version'', JStr (er_schema_version r)),
      (''scenario_identity'', JStr (er_scenario_identity r)),
      (''contract_identity'', JStr (er_contract_identity r)),
      (''tool'', JStr (er_tool r)),
      (''logical_operation_identity'', JStr (er_logical_operation_identity r)),
      (''arguments_sha256'', JStr (er_arguments_sha256 r)),
      (''key_sha256'', JStr (er_key_sha256 r)),
      (''attempts'', JArr (map attempt_material (er_attempts r))),
      (''mutation_count'', JInt (er_mutation_count r))]"

definition effect_root :: "effect_receipt \<Rightarrow> error + string" where
  "effect_root r = receipt_root_of ''side-effect receipt material'' effect_root_domain (effect_receipt_material r)"

definition mutations :: "effect_attempt list \<Rightarrow> int" where
  "mutations as = int (length (filter at_mutated as))"

definition effect_shape :: "effect_receipt \<Rightarrow> error + unit" where
  "effect_shape r = raise_if
     [(map at_ordinal (er_attempts r) \<noteq> [1, 2],
       verr ''side-effect attempt ordinals must be exactly one then two''),
      (card (set (map at_call_id (er_attempts r))) \<noteq> 2,
       verr ''side-effect duplicate attempts require distinct call identities''),
      (list_ex (\<lambda>a. at_arguments_sha256 a \<noteq> er_arguments_sha256 r) (er_attempts r),
       verr ''side-effect attempts must share the bound canonical arguments''),
      (list_ex (\<lambda>a. at_key_sha256 a \<noteq> er_key_sha256 r) (er_attempts r),
       verr ''side-effect attempts must share the bound logical-operation key''),
      (at_after_effect_sha256 (er_attempts r ! 0) \<noteq> at_before_effect_sha256 (er_attempts r ! 1),
       verr ''side-effect observation chronology is discontinuous between attempts''),
      (er_mutation_count r \<noteq> mutations (er_attempts r),
       verr ''side-effect mutation count disagrees with attempt observations'')]"

definition validate_effect_receipt :: "effect_receipt \<Rightarrow> error + effect_receipt" where
  "validate_effect_receipt r =
     rbind (raise_if
       [(er_schema_version r \<noteq> effect_schema, verr ''schema_version: literal''),
        (\<not> is_sha256 (er_scenario_identity r), verr ''scenario_identity: pattern''),
        (\<not> is_sha256 (er_contract_identity r), verr ''contract_identity: pattern''),
        (\<not> bounded_text 1 256 (er_tool r), verr ''tool: length''),
        (\<not> is_sha256 (er_logical_operation_identity r), verr ''logical_operation_identity: pattern''),
        (\<not> is_sha256 (er_arguments_sha256 r), verr ''arguments_sha256: pattern''),
        (\<not> is_sha256 (er_key_sha256 r), verr ''key_sha256: pattern''),
        (length (er_attempts r) \<noteq> 2, verr ''attempts: length''),
        (er_mutation_count r < 0 \<or> er_mutation_count r > 2, verr ''mutation_count: range''),
        (\<not> is_sha256 (er_receipt_root r), verr ''receipt_root: pattern'')]) (\<lambda>_.
     rbind (rfor validate_attempt (er_attempts r)) (\<lambda>_.
     rbind (effect_shape r) (\<lambda>_.
     rbind (as_validation (effect_root r)) (\<lambda>root.
     if er_receipt_root r \<noteq> root then Inl (verr ''side-effect idempotency receipt root mismatch'') else Inr r))))"

definition unsigned_effect_receipt :: "string \<Rightarrow> side_effect_spec \<Rightarrow> effect_attempt list \<Rightarrow> effect_receipt" where
  "unsigned_effect_receipt sid k attempts =
     \<lparr>er_schema_version = effect_schema, er_scenario_identity = sid,
      er_contract_identity = side_effect_identity k, er_tool = se_tool k,
      er_logical_operation_identity = logical_operation_identity k,
      er_arguments_sha256 = expected_arguments_sha256 k, er_key_sha256 = key_sha256 k,
      er_attempts = attempts, er_mutation_count = mutations attempts, er_receipt_root = []\<rparr>"

definition create_effect_receipt ::
  "string \<Rightarrow> side_effect_spec \<Rightarrow> effect_attempt list \<Rightarrow> error + effect_receipt" where
  "create_effect_receipt sid k attempts =
     rbind (raise_if
       [(list_ex (\<lambda>a. at_arguments_sha256 a \<noteq> expected_arguments_sha256 k) attempts,
         Err SideEffectReceiptError ''observed side-effect attempts do not match scenario-bound canonical arguments''),
        (list_ex (\<lambda>a. at_key_sha256 a \<noteq> key_sha256 k) attempts,
         Err SideEffectReceiptError ''observed side-effect attempts do not match scenario-bound logical-operation key'')]) (\<lambda>_.
     let r = unsigned_effect_receipt sid k attempts in
     rbind (effect_root r) (\<lambda>root. validate_effect_receipt (r\<lparr>er_receipt_root := root\<rparr>)))"

definition effect_receipt_dict :: "effect_receipt \<Rightarrow> dict" where
  "effect_receipt_dict r = (case effect_receipt_material r of
     JObj kvs \<Rightarrow> kvs @ [(''receipt_root'', JStr (er_receipt_root r))] | _ \<Rightarrow> [])"

definition effect_receipt_event :: "effect_receipt \<Rightarrow> int \<Rightarrow> py_datetime \<Rightarrow> error + evidence_event" where
  "effect_receipt_event r sequence now =
     mk_event sequence SIDE_EFFECT_OBSERVATION effect_event_source (effect_receipt_dict r) now False"

subsection \<open>Reading\<close>

definition read_attempt :: "(json \<Rightarrow> bool option) \<Rightarrow> json \<Rightarrow> effect_attempt option" where
  "read_attempt lax_bool v = do {
     m \<leftarrow> as_obj (Some v);
     (if only_keys [''ordinal'', ''call_id'', ''arguments_sha256'', ''key_sha256'',
        ''before_effect_sha256'', ''after_effect_sha256'', ''mutated''] m then Some () else None);
     ordinal \<leftarrow> as_int (dict_get m ''ordinal'');
     call \<leftarrow> as_str (dict_get m ''call_id'');
     args \<leftarrow> as_str (dict_get m ''arguments_sha256'');
     key \<leftarrow> as_str (dict_get m ''key_sha256'');
     before \<leftarrow> as_str (dict_get m ''before_effect_sha256'');
     after \<leftarrow> as_str (dict_get m ''after_effect_sha256'');
     flag \<leftarrow> dict_get m ''mutated'';
     mutated \<leftarrow> lax_bool flag;
     Some \<lparr>at_ordinal = ordinal, at_call_id = call, at_arguments_sha256 = args, at_key_sha256 = key,
       at_before_effect_sha256 = before, at_after_effect_sha256 = after, at_mutated = mutated\<rparr> }"

definition effect_receipt_fields :: "string list" where
  "effect_receipt_fields =
     [''schema_version'', ''scenario_identity'', ''contract_identity'', ''tool'',
      ''logical_operation_identity'', ''arguments_sha256'', ''key_sha256'', ''attempts'',
      ''mutation_count'', ''receipt_root'']"

definition read_effect_receipt :: "(json \<Rightarrow> bool option) \<Rightarrow> dict \<Rightarrow> effect_receipt option" where
  "read_effect_receipt lax_bool m = do {
     (if only_keys effect_receipt_fields m then Some () else None);
     schema \<leftarrow> with_default effect_schema as_str (dict_get m ''schema_version'');
     scen \<leftarrow> as_str (dict_get m ''scenario_identity'');
     con \<leftarrow> as_str (dict_get m ''contract_identity'');
     tool \<leftarrow> as_str (dict_get m ''tool'');
     opid \<leftarrow> as_str (dict_get m ''logical_operation_identity'');
     args \<leftarrow> as_str (dict_get m ''arguments_sha256'');
     key \<leftarrow> as_str (dict_get m ''key_sha256'');
     xs \<leftarrow> as_arr (dict_get m ''attempts'');
     attempts \<leftarrow> those (map (read_attempt lax_bool) xs);
     count \<leftarrow> as_int (dict_get m ''mutation_count'');
     root \<leftarrow> as_str (dict_get m ''receipt_root'');
     of_result (validate_effect_receipt
       \<lparr>er_schema_version = schema, er_scenario_identity = scen, er_contract_identity = con,
        er_tool = tool, er_logical_operation_identity = opid, er_arguments_sha256 = args,
        er_key_sha256 = key, er_attempts = attempts, er_mutation_count = count, er_receipt_root = root\<rparr>) }"

subsection \<open>Verification\<close>

definition soerr :: "string \<Rightarrow> error" where
  "soerr msg = Err SideEffectObservationError msg"

lemma soerr_cong [cong]: "soerr m = soerr m"
  by (rule refl)

text \<open>\<open>canonical_json_sha256\<close>, which refuses non-finite numbers.\<close>

definition canonical_json_sha256 :: "json \<Rightarrow> error + string" where
  "canonical_json_sha256 v = rbind (canonicalize_json side_effect_finite_msg v) (\<lambda>w. Inr (sha256_json w))"

definition parse_exact_arguments :: "evidence_event \<Rightarrow> side_effect_spec \<Rightarrow> error + dict" where
  "parse_exact_arguments e k = (case as_str (payload_get e ''arguments'') of
       None \<Rightarrow> Inl (soerr ''side-effect tool arguments must be JSON text'')
     | Some arguments \<Rightarrow> (case loads_unique arguments of
         None \<Rightarrow> Inl (soerr ''side-effect tool arguments are not strict JSON'')
       | Some (JObj d) \<Rightarrow>
           if py_eq (JObj d) (JObj (se_expected_arguments k)) then Inr d
           else Inl (soerr ''duplicate side-effect attempts must equal the scenario-bound canonical operation'')
       | Some _ \<Rightarrow>
           Inl (soerr ''duplicate side-effect attempts must equal the scenario-bound canonical operation'')))"

definition at_request :: "nat \<Rightarrow> string \<Rightarrow> error" where
  "at_request i msg = soerr (''side-effect request '' @ nat_str i @ msg)"

text \<open>One pass of the loop: the request is the attempt's, and exactly one result answers it.\<close>

definition verify_attempt ::
  "side_effect_spec \<Rightarrow> trial_evidence \<Rightarrow> nat \<times> evidence_event \<times> effect_attempt \<Rightarrow> error + evidence_event" where
  "verify_attempt k t x = (case x of (i, request, attempt) \<Rightarrow>
     if \<not> payload_is request ''call_id'' (at_call_id attempt)
     then Inl (at_request i '' call identity does not match receipt'')
     else
      rbind (parse_exact_arguments request k) (\<lambda>arguments.
      rbind (canonical_json_sha256 (JObj arguments)) (\<lambda>args_sha.
      if args_sha \<noteq> at_arguments_sha256 attempt
      then Inl (at_request i '' argument digest does not match receipt'')
      else
       rbind (canonical_json_sha256 (opt_json (dict_get arguments (se_key_argument k)))) (\<lambda>key_sha.
       if key_sha \<noteq> at_key_sha256 attempt
       then Inl (at_request i '' logical-operation key does not match receipt'')
       else (case call_results t (at_call_id attempt) of
           [result] \<Rightarrow> Inr result
         | _ \<Rightarrow> Inl (at_request i '' requires exactly one matching tool result''))))))"

definition effect_identity_checks ::
  "evaluation_scenario \<Rightarrow> side_effect_spec \<Rightarrow> trial_evidence \<Rightarrow> effect_receipt \<Rightarrow> error + unit" where
  "effect_identity_checks s k t r = raise_if
     [(te_scenario_identity t \<noteq> scenario_identity s,
       soerr ''side-effect evidence scenario identity does not match scenario''),
      (er_scenario_identity r \<noteq> scenario_identity s,
       soerr ''side-effect receipt scenario identity does not match scenario''),
      (er_contract_identity r \<noteq> side_effect_identity k,
       soerr ''side-effect receipt contract identity does not match scenario''),
      (er_tool r \<noteq> se_tool k, soerr ''side-effect receipt tool identity does not match scenario''),
      (er_logical_operation_identity r \<noteq> logical_operation_identity k,
       soerr ''side-effect receipt logical-operation identity does not match scenario''),
      (int (length (tool_requests t (se_tool k))) \<noteq> se_attempts k,
       soerr ''idempotency contract requires exactly two target tool requests'')]"

text \<open>The strict chain \<open>a < b < c < d < e\<close> of sequence numbers.\<close>

definition serialized :: "evidence_event list \<Rightarrow> evidence_event list \<Rightarrow> evidence_event \<Rightarrow> bool" where
  "serialized requests results observation = (case (requests, results) of
     ([q1, q2], [s1, s2]) \<Rightarrow>
       ev_sequence q1 < ev_sequence s1 \<and> ev_sequence s1 < ev_sequence q2 \<and>
       ev_sequence q2 < ev_sequence s2 \<and> ev_sequence s2 < ev_sequence observation
   | _ \<Rightarrow> False)"

definition verify_effect_event ::
  "(json \<Rightarrow> bool option) \<Rightarrow> evaluation_scenario \<Rightarrow> side_effect_spec \<Rightarrow> trial_evidence \<Rightarrow> evidence_event
   \<Rightarrow> error + effect_receipt" where
  "verify_effect_event lax_bool s k t observation =
     rbind (raise_if
       [(ev_critical observation, soerr ''side-effect observation evidence must remain non-critical''),
        (ev_source observation \<noteq> effect_event_source,
         soerr ''side-effect observation evidence source is not recognized'')]) (\<lambda>_.
     case read_effect_receipt lax_bool (ev_payload observation) of
       None \<Rightarrow> Inl (soerr ''side-effect observation receipt failed schema validation'')
     | Some r \<Rightarrow>
         rbind (effect_identity_checks s k t r) (\<lambda>_.
         let requests = tool_requests t (se_tool k) in
         rbind (rmap (verify_attempt k t) (zip [1..<length requests + 1] (zip requests (er_attempts r)))) (\<lambda>results.
         if \<not> serialized requests results observation
         then Inl (soerr ''side-effect chronology must serialize request/result pairs before observation'')
         else
          rbind (rcatch (\<lambda>e. err_class e = SideEffectReceiptError)
                   (soerr ''side-effect relation cannot be reconstructed from scenario'')
                   (create_effect_receipt (scenario_identity s) k (er_attempts r))) (\<lambda>expected.
          if r \<noteq> expected
          then Inl (soerr ''side-effect receipt does not match rederived scenario relation'')
          else Inr r))))"

definition verify_side_effect_observation ::
  "(json \<Rightarrow> bool option) \<Rightarrow> evaluation_scenario \<Rightarrow> trial_evidence \<Rightarrow> error + effect_receipt option" where
  "verify_side_effect_observation lax_bool s t =
     (let observations = events_of SIDE_EFFECT_OBSERVATION t in
      case es_side_effect s of
        None \<Rightarrow> if observations \<noteq> []
          then Inl (soerr ''side-effect observation is invalid when the scenario has no idempotency contract'')
          else Inr None
      | Some k \<Rightarrow> (case observations of
            [observation] \<Rightarrow> rbind (verify_effect_event lax_bool s k t observation) (\<lambda>r. Inr (Some r))
          | _ \<Rightarrow> Inl (soerr ''scenario idempotency contract requires exactly one side-effect observation receipt'')))"

subsection \<open>Grading\<close>

definition effect_reasons :: "side_effect_spec \<Rightarrow> effect_receipt \<Rightarrow> string list" where
  "effect_reasons k r =
     (let first = er_attempts r ! 0; second = er_attempts r ! 1 in
        (if se_require_first_mutation k \<and> \<not> at_mutated first
         then [''first logical-operation attempt produced no required observable effect''] else [])
      @ (if at_mutated first \<and> at_mutated second
         then [''duplicate logical-operation attempt produced a second observable physical effect''] else [])
      @ (if er_mutation_count r > 1
         then [''logical operation mutated effect state '' @ int_str (er_mutation_count r)
               @ '' times; maximum is one''] else []))"

definition effect_result :: "string list \<Rightarrow> oracle_result" where
  "effect_result reasons =
     \<lparr>or_name = ''side-effect-idempotency'', or_verdict = (if reasons \<noteq> [] then FAIL else PASS),
      or_reasons = reasons, or_critical = (reasons \<noteq> []), or_failure_codes = []\<rparr>"

definition side_effect_oracle ::
  "(json \<Rightarrow> bool option) \<Rightarrow> evaluation_scenario \<Rightarrow> trial_evidence \<Rightarrow> oracle_result" where
  "side_effect_oracle lax_bool s t = (case es_side_effect s of
       None \<Rightarrow> effect_result []
     | Some k \<Rightarrow> (case events_of SIDE_EFFECT_OBSERVATION t of
           [e] \<Rightarrow> (case read_effect_receipt lax_bool (ev_payload e) of
               None \<Rightarrow> effect_result [''verified side-effect observation became malformed during grading'']
             | Some r \<Rightarrow> effect_result (effect_reasons k r))
         | _ \<Rightarrow> effect_result [''verified side-effect observation is unavailable during grading'']))"

end
