(* ===== verification/Adversarial.thy ===== *)
theory Adversarial
  imports SideEffect "HOL-Library.AList"
begin

section \<open>Adversarial fixtures (\<open>adversarial/cases.py\<close>, \<open>delivery.py\<close>)\<close>

text \<open>
  A fixture is a content-addressed stimulus. Applied to a base scenario it derives a security
  scenario that carries the fixture in an envelope under a reserved key of the initial state;
  \<open>extract_attack\<close> reads the envelope back and can prove the whole derivation. A delivery
  receipt binds scenario, fixture, channel, injection point and payload digest.
\<close>

datatype threat_class =
    DIRECT_PROMPT_INJECTION | INDIRECT_PROMPT_INJECTION | TOOL_POISONING | UNAUTHORIZED_TOOL_USE
  | PRIVILEGE_ESCALATION | APPROVAL_BYPASS | DATA_EXFILTRATION | CROSS_TENANT_LEAKAGE
  | MEMORY_POISONING | STALE_MEMORY | HALLUCINATED_ACTION | FALSE_SUCCESS | RUNAWAY_RESOURCE_USE
  | CIRCULAR_HANDOFF | SCHEMA_DRIFT | MALFORMED_TOOL_RESULT | RETRY_STORM | SANDBOX_ESCAPE
  | MCP_AUTHORIZATION_FAILURE

fun threat_value :: "threat_class \<Rightarrow> string" where
  "threat_value DIRECT_PROMPT_INJECTION = ''direct_prompt_injection''"
| "threat_value INDIRECT_PROMPT_INJECTION = ''indirect_prompt_injection''"
| "threat_value TOOL_POISONING = ''tool_poisoning''"
| "threat_value UNAUTHORIZED_TOOL_USE = ''unauthorized_tool_use''"
| "threat_value PRIVILEGE_ESCALATION = ''privilege_escalation''"
| "threat_value APPROVAL_BYPASS = ''approval_bypass''"
| "threat_value DATA_EXFILTRATION = ''data_exfiltration''"
| "threat_value CROSS_TENANT_LEAKAGE = ''cross_tenant_leakage''"
| "threat_value MEMORY_POISONING = ''memory_poisoning''"
| "threat_value STALE_MEMORY = ''stale_memory''"
| "threat_value HALLUCINATED_ACTION = ''hallucinated_action''"
| "threat_value FALSE_SUCCESS = ''false_success''"
| "threat_value RUNAWAY_RESOURCE_USE = ''runaway_resource_use''"
| "threat_value CIRCULAR_HANDOFF = ''circular_handoff''"
| "threat_value SCHEMA_DRIFT = ''schema_drift''"
| "threat_value MALFORMED_TOOL_RESULT = ''malformed_tool_result''"
| "threat_value RETRY_STORM = ''retry_storm''"
| "threat_value SANDBOX_ESCAPE = ''sandbox_escape''"
| "threat_value MCP_AUTHORIZATION_FAILURE = ''mcp_authorization_failure''"

definition threat_classes :: "threat_class list" where
  "threat_classes =
     [DIRECT_PROMPT_INJECTION, INDIRECT_PROMPT_INJECTION, TOOL_POISONING, UNAUTHORIZED_TOOL_USE,
      PRIVILEGE_ESCALATION, APPROVAL_BYPASS, DATA_EXFILTRATION, CROSS_TENANT_LEAKAGE,
      MEMORY_POISONING, STALE_MEMORY, HALLUCINATED_ACTION, FALSE_SUCCESS, RUNAWAY_RESOURCE_USE,
      CIRCULAR_HANDOFF, SCHEMA_DRIFT, MALFORMED_TOOL_RESULT, RETRY_STORM, SANDBOX_ESCAPE,
      MCP_AUTHORIZATION_FAILURE]"

text \<open>A member of a string enum from its value.\<close>

definition read_enum :: "('a \<Rightarrow> string) \<Rightarrow> 'a list \<Rightarrow> json option \<Rightarrow> 'a option" where
  "read_enum val members v = do { s \<leftarrow> as_str v; List.find (\<lambda>m. val m = s) members }"

datatype attack_channel =
    USER_INPUT_CHANNEL | TOOL_RESULT_CHANNEL | TOOL_METADATA_CHANNEL | MEMORY_CHANNEL
  | RESOURCE_CHANNEL | HANDOFF_CHANNEL | ENVIRONMENT_CHANNEL

fun channel_value :: "attack_channel \<Rightarrow> string" where
  "channel_value USER_INPUT_CHANNEL = ''user_input''"
| "channel_value TOOL_RESULT_CHANNEL = ''tool_result''"
| "channel_value TOOL_METADATA_CHANNEL = ''tool_metadata''"
| "channel_value MEMORY_CHANNEL = ''memory''"
| "channel_value RESOURCE_CHANNEL = ''resource''"
| "channel_value HANDOFF_CHANNEL = ''handoff''"
| "channel_value ENVIRONMENT_CHANNEL = ''environment''"

definition attack_channels :: "attack_channel list" where
  "attack_channels =
     [USER_INPUT_CHANNEL, TOOL_RESULT_CHANNEL, TOOL_METADATA_CHANNEL, MEMORY_CHANNEL,
      RESOURCE_CHANNEL, HANDOFF_CHANNEL, ENVIRONMENT_CHANNEL]"

subsection \<open>Fixtures\<close>

record attack_fixture =
  af_schema_version :: string
  af_attack_id :: string
  af_revision :: string
  af_threat :: threat_class
  af_channel :: attack_channel
  af_payload_json :: string
  af_tags :: "string set"

definition attack_schema :: string where
  "attack_schema = ''agent-evals/adversarial-attack/v1''"

definition envelope_schema :: string where
  "envelope_schema = ''agent-evals/adversarial-envelope/v1''"

definition campaign_schema :: string where
  "campaign_schema = ''agent-evals/adversarial-campaign/v1''"

definition reserved_state_key :: string where
  "reserved_state_key = ''__agent_evals_adversarial__''"

definition adversarial_canonical_json :: "json \<Rightarrow> error + string" where
  "adversarial_canonical_json v =
     (if finite_json v then Inr (json_dumps v)
      else Inl (Err ValueError ''adversarial payload must be finite JSON-compatible data''))"

text \<open>
  \<open>canonicalize_payload_json\<close>: parse without repeated keys, dump again. The two messages
  for text that does not parse are one here.
\<close>

definition canonicalize_payload_json :: "string \<Rightarrow> error + string" where
  "canonicalize_payload_json s = (case loads_unique s of
       None \<Rightarrow> Inl (verr ''attack payload_json must contain valid JSON without duplicate object keys'')
     | Some v \<Rightarrow> as_validation (adversarial_canonical_json v))"

definition validate_fixture :: "attack_fixture \<Rightarrow> error + attack_fixture" where
  "validate_fixture f =
     rbind (raise_if
       [(af_schema_version f \<noteq> attack_schema, verr ''schema_version: literal''),
        (\<not> id_pattern ''._-'' 2 63 (af_attack_id f), verr ''attack_id: pattern''),
        (\<not> bounded_text 1 128 (af_revision f), verr ''revision: length''),
        (\<not> bounded_text 1 100000 (af_payload_json f), verr ''payload_json: length'')]) (\<lambda>_.
     rbind (canonicalize_payload_json (af_payload_json f)) (\<lambda>payload.
     if blank_name (af_tags f) then Inl (verr ''attack tags must be non-empty strings'')
     else Inr (f\<lparr>af_payload_json := payload\<rparr>)))"

definition fixture_from_payload ::
  "string \<Rightarrow> string \<Rightarrow> threat_class \<Rightarrow> attack_channel \<Rightarrow> json \<Rightarrow> string set \<Rightarrow> error + attack_fixture" where
  "fixture_from_payload attack_id revision threat channel payload tags =
     rbind (adversarial_canonical_json payload) (\<lambda>text.
     validate_fixture
       \<lparr>af_schema_version = attack_schema, af_attack_id = attack_id, af_revision = revision,
        af_threat = threat, af_channel = channel, af_payload_json = text, af_tags = tags\<rparr>)"

text \<open>The \<open>payload\<close> property: plain \<open>json.loads\<close>, where the last of repeated keys wins.\<close>

fun last_wins :: "json \<Rightarrow> json" where
  "last_wins (JObj kvs) =
     JObj (foldl (\<lambda>d kv. AList.update (fst kv) (snd kv) d) [] (map (\<lambda>kv. (fst kv, last_wins (snd kv))) kvs))"
| "last_wins (JArr xs) = JArr (map last_wins xs)"
| "last_wins v = v"

definition fixture_payload :: "attack_fixture \<Rightarrow> json option" where
  "fixture_payload f = map_option last_wins (json_scan (af_payload_json f))"

definition fixture_material :: "attack_fixture \<Rightarrow> json" where
  "fixture_material f = JObj
     [(''schema_version'', JStr (af_schema_version f)), (''attack_id'', JStr (af_attack_id f)),
      (''revision'', JStr (af_revision f)), (''threat'', JStr (threat_value (af_threat f))),
      (''channel'', JStr (channel_value (af_channel f))), (''payload_json'', JStr (af_payload_json f)),
      (''tags'', JArr (map JStr (py_sorted (af_tags f))))]"

definition fixture_identity :: "attack_fixture \<Rightarrow> string" where
  "fixture_identity f = sha256_json (fixture_material f)"

subsection \<open>Envelopes\<close>

record attack_envelope =
  av_schema_version :: string
  av_base_scenario_identity :: string
  av_attack_identity :: string
  av_attack :: attack_fixture

text \<open>
  \<open>canonical_state\<close>. Building the envelope of a fixture cannot fail: both identities are
  digests, and the bound identity is computed from the fixture itself. A fixture instance is
  taken as it is.
\<close>

definition envelope_state :: "attack_envelope \<Rightarrow> json" where
  "envelope_state v = JObj
     [(''schema_version'', JStr (av_schema_version v)),
      (''base_scenario_identity'', JStr (av_base_scenario_identity v)),
      (''attack_identity'', JStr (av_attack_identity v)),
      (''attack'', fixture_material (av_attack v))]"

definition envelope_for :: "evaluation_scenario \<Rightarrow> attack_fixture \<Rightarrow> attack_envelope" where
  "envelope_for base f = \<lparr>av_schema_version = envelope_schema,
     av_base_scenario_identity = scenario_identity base,
     av_attack_identity = fixture_identity f, av_attack = f\<rparr>"

definition derived_scenario_id :: "evaluation_scenario \<Rightarrow> attack_fixture \<Rightarrow> string" where
  "derived_scenario_id base f =
     (let candidate = es_scenario_id base @ ''.adv.'' @ af_attack_id f in
      if length candidate \<le> 128 then candidate
      else take 96 (es_scenario_id base) @ ''.adv.'' @ take 16 (af_attack_id f) @ ''.'' @ take 8 (fixture_identity f))"

definition derived_scenario :: "attack_fixture \<Rightarrow> evaluation_scenario \<Rightarrow> evaluation_scenario" where
  "derived_scenario f base = base\<lparr>
     es_scenario_id := derived_scenario_id base f,
     es_revision := es_revision base @ ''|attack:'' @ af_attack_id f @ ''@'' @ af_revision f @ '':''
       @ take 12 (fixture_identity f),
     es_kind := SECURITY,
     es_initial_state := es_initial_state base @ [(reserved_state_key, envelope_state (envelope_for base f))],
     es_tags := es_tags base \<union> af_tags f \<union>
       {''adversarial'', ''attack:'' @ af_attack_id f, ''threat:'' @ threat_value (af_threat f),
        ''channel:'' @ channel_value (af_channel f)}\<rparr>"

definition reserved_key_error :: "exn \<Rightarrow> error" where
  "reserved_key_error c = Err c
     (''base scenario already uses reserved adversarial state key '' @ str_repr reserved_state_key)"

definition apply_attack :: "attack_fixture \<Rightarrow> evaluation_scenario \<Rightarrow> error + evaluation_scenario" where
  "apply_attack f base =
     (if dict_has (es_initial_state base) reserved_state_key then Inl (reserved_key_error ValueError)
      else validate_scenario (derived_scenario f base))"

subsection \<open>Extraction\<close>

definition read_fixture :: "json option \<Rightarrow> attack_fixture option" where
  "read_fixture v = do {
     m \<leftarrow> as_obj v;
     (if only_keys [''schema_version'', ''attack_id'', ''revision'', ''threat'', ''channel'', ''payload_json'', ''tags''] m
      then Some () else None);
     schema \<leftarrow> with_default attack_schema as_str (dict_get m ''schema_version'');
     aid \<leftarrow> as_str (dict_get m ''attack_id'');
     revision \<leftarrow> as_str (dict_get m ''revision'');
     threat \<leftarrow> read_enum threat_value threat_classes (dict_get m ''threat'');
     channel \<leftarrow> read_enum channel_value attack_channels (dict_get m ''channel'');
     payload \<leftarrow> as_str (dict_get m ''payload_json'');
     tags \<leftarrow> with_default [] str_list (dict_get m ''tags'');
     of_result (validate_fixture
       \<lparr>af_schema_version = schema, af_attack_id = aid, af_revision = revision, af_threat = threat,
        af_channel = channel, af_payload_json = payload, af_tags = set tags\<rparr>) }"

definition validate_envelope :: "attack_envelope \<Rightarrow> error + attack_envelope" where
  "validate_envelope v = rbind (raise_if
     [(av_schema_version v \<noteq> envelope_schema, verr ''schema_version: literal''),
      (\<not> is_sha256 (av_base_scenario_identity v), verr ''base_scenario_identity: pattern''),
      (\<not> is_sha256 (av_attack_identity v), verr ''attack_identity: pattern''),
      (av_attack_identity v \<noteq> fixture_identity (av_attack v),
       verr ''adversarial envelope attack identity does not match fixture'')]) (\<lambda>_. Inr v)"

definition read_envelope :: "json \<Rightarrow> attack_envelope option" where
  "read_envelope v = do {
     m \<leftarrow> as_obj (Some v);
     (if only_keys [''schema_version'', ''base_scenario_identity'', ''attack_identity'', ''attack''] m
      then Some () else None);
     schema \<leftarrow> with_default envelope_schema as_str (dict_get m ''schema_version'');
     base \<leftarrow> as_str (dict_get m ''base_scenario_identity'');
     aid \<leftarrow> as_str (dict_get m ''attack_identity'');
     attack \<leftarrow> read_fixture (dict_get m ''attack'');
     of_result (validate_envelope
       \<lparr>av_schema_version = schema, av_base_scenario_identity = base, av_attack_identity = aid, av_attack = attack\<rparr>) }"

text \<open>A derivation claim: the scenario is what the envelope's fixture makes of the base.\<close>

definition check_derivation ::
  "attack_envelope \<Rightarrow> evaluation_scenario \<Rightarrow> evaluation_scenario \<Rightarrow> error + unit" where
  "check_derivation env s base =
     (if av_base_scenario_identity env \<noteq> scenario_identity base
      then Inl (Err ValueError ''adversarial envelope base scenario identity does not match expected base'')
      else rbind (apply_attack (av_attack env) base) (\<lambda>expected.
        if scenario_identity expected \<noteq> scenario_identity s
        then Inl (Err ValueError ''adversarial scenario does not match deterministic attack derivation'')
        else Inr ()))"

definition extract_attack ::
  "evaluation_scenario \<Rightarrow> evaluation_scenario option \<Rightarrow> error + attack_fixture option" where
  "extract_attack s expected_base =
     (case dict_get (es_initial_state s) reserved_state_key of
        None \<Rightarrow> Inr None
      | Some raw \<Rightarrow>
          if raw = JNull then Inr None
          else (case read_envelope raw of
            None \<Rightarrow> Inl (verr ''adversarial envelope is malformed'')
          | Some env \<Rightarrow>
              rbind (case expected_base of None \<Rightarrow> Inr () | Some base \<Rightarrow> check_derivation env s base) (\<lambda>_.
              Inr (Some (av_attack env)))))"

subsection \<open>Campaigns\<close>

record adversarial_campaign =
  ca_schema_version :: string
  ca_campaign_id :: string
  ca_revision :: string
  ca_base_scenario :: evaluation_scenario
  ca_base_scenario_identity :: string
  ca_attacks :: "attack_fixture list"

text \<open>
  Construction from an \<open>EvaluationScenario\<close> instance and an optional claimed identity; the
  three validators in their order.
\<close>

definition mk_campaign ::
  "string \<Rightarrow> string \<Rightarrow> string \<Rightarrow> evaluation_scenario \<Rightarrow> string option \<Rightarrow> attack_fixture list \<Rightarrow> error + adversarial_campaign" where
  "mk_campaign schema cid revision base supplied attacks =
     rbind (raise_if
       [(case supplied of None \<Rightarrow> False | Some i \<Rightarrow> i \<noteq> scenario_identity base,
         verr ''adversarial campaign base scenario identity does not match base''),
        (schema \<noteq> campaign_schema, verr ''schema_version: literal''),
        (\<not> id_pattern ''._-'' 2 127 cid, verr ''campaign_id: pattern''),
        (\<not> bounded_text 1 128 revision, verr ''revision: length''),
        (length attacks < 1 \<or> length attacks > 10000, verr ''attacks: length''),
        (card (set (map af_attack_id attacks)) \<noteq> length attacks,
         verr ''adversarial campaign attack IDs must be unique''),
        (dict_has (es_initial_state base) reserved_state_key, reserved_key_error ValidationError)]) (\<lambda>_.
     Inr \<lparr>ca_schema_version = schema, ca_campaign_id = cid, ca_revision = revision,
          ca_base_scenario = base, ca_base_scenario_identity = scenario_identity base,
          ca_attacks = sort_key (\<lambda>f. (af_attack_id f, fixture_identity f)) attacks\<rparr>)"

definition campaign_identity :: "adversarial_campaign \<Rightarrow> string" where
  "campaign_identity c = sha256_json (JObj
     [(''schema_version'', JStr (ca_schema_version c)), (''campaign_id'', JStr (ca_campaign_id c)),
      (''revision'', JStr (ca_revision c)),
      (''base_scenario_identity'', JStr (ca_base_scenario_identity c)),
      (''attack_identities'', JArr (map (\<lambda>f. JStr (fixture_identity f)) (ca_attacks c)))])"

definition campaign_scenarios :: "adversarial_campaign \<Rightarrow> error + evaluation_scenario list" where
  "campaign_scenarios c =
     (if scenario_identity (ca_base_scenario c) \<noteq> ca_base_scenario_identity c
      then Inl (Err ValueError ''adversarial campaign base scenario drifted after construction'')
      else rmap (\<lambda>f. apply_attack f (ca_base_scenario c)) (ca_attacks c))"

subsection \<open>Delivery\<close>

record delivery_receipt =
  dr_schema_version :: string
  dr_scenario_identity :: string
  dr_attack_identity :: string
  dr_channel :: attack_channel
  dr_injection_point :: string
  dr_payload_sha256 :: string
  dr_receipt_root :: string

definition delivery_schema :: string where
  "delivery_schema = ''agent-evals/attack-delivery/v1''"

definition delivery_domain :: string where
  "delivery_domain = ''agent-evals/attack-delivery/v1'' @ [CHR 0x00]"

definition injector_prefix :: string where
  "injector_prefix = ''injector:''"

definition delivery_material :: "delivery_receipt \<Rightarrow> json" where
  "delivery_material r = JObj
     [(''schema_version'', JStr (dr_schema_version r)),
      (''scenario_identity'', JStr (dr_scenario_identity r)),
      (''attack_identity'', JStr (dr_attack_identity r)),
      (''channel'', JStr (channel_value (dr_channel r))),
      (''injection_point'', JStr (dr_injection_point r)),
      (''payload_sha256'', JStr (dr_payload_sha256 r))]"

definition delivery_root :: "delivery_receipt \<Rightarrow> error + string" where
  "delivery_root r = receipt_root_of ''attack delivery receipt material'' delivery_domain (delivery_material r)"

definition validate_delivery_receipt :: "delivery_receipt \<Rightarrow> error + delivery_receipt" where
  "validate_delivery_receipt r =
     rbind (raise_if
       [(dr_schema_version r \<noteq> delivery_schema, verr ''schema_version: literal''),
        (\<not> is_sha256 (dr_scenario_identity r), verr ''scenario_identity: pattern''),
        (\<not> is_sha256 (dr_attack_identity r), verr ''attack_identity: pattern''),
        (\<not> bounded_text 1 512 (dr_injection_point r), verr ''injection_point: length''),
        (\<not> is_sha256 (dr_payload_sha256 r), verr ''payload_sha256: pattern''),
        (\<not> is_sha256 (dr_receipt_root r), verr ''receipt_root: pattern'')]) (\<lambda>_.
     rbind (as_validation (delivery_root r)) (\<lambda>root.
     if dr_receipt_root r \<noteq> root
     then Inl (verr ''attack delivery receipt root does not match receipt content'') else Inr r))"

definition delivery_from_scenario :: "evaluation_scenario \<Rightarrow> string \<Rightarrow> error + delivery_receipt" where
  "delivery_from_scenario s injection_point =
     rbind (extract_attack s None) (\<lambda>found. case found of
       None \<Rightarrow> Inl (Err ValueError ''attack delivery receipt requires an adversarial scenario'')
     | Some attack \<Rightarrow>
         let r = \<lparr>dr_schema_version = delivery_schema, dr_scenario_identity = scenario_identity s,
                  dr_attack_identity = fixture_identity attack, dr_channel = af_channel attack,
                  dr_injection_point = injection_point,
                  dr_payload_sha256 = sha256_hex (utf8 (af_payload_json attack)), dr_receipt_root = []\<rparr> in
         rbind (delivery_root r) (\<lambda>root. validate_delivery_receipt (r\<lparr>dr_receipt_root := root\<rparr>)))"

definition injector_source :: "string \<Rightarrow> bool" where
  "injector_source s \<longleftrightarrow> prefix injector_prefix s \<and> length s \<noteq> length injector_prefix"

definition delivery_receipt_dict :: "delivery_receipt \<Rightarrow> dict" where
  "delivery_receipt_dict r = (case delivery_material r of
     JObj kvs \<Rightarrow> kvs @ [(''receipt_root'', JStr (dr_receipt_root r))] | _ \<Rightarrow> [])"

definition delivery_event :: "delivery_receipt \<Rightarrow> int \<Rightarrow> string \<Rightarrow> py_datetime \<Rightarrow> error + evidence_event" where
  "delivery_event r sequence source now =
     (if \<not> injector_source source
      then Inl (Err ValueError (''attack delivery evidence source must be '' @ str_repr ''injector:<identity>''))
      else mk_event sequence ATTACK_DELIVERY source (delivery_receipt_dict r) now False)"

definition delivery_fields :: "string list" where
  "delivery_fields =
     [''schema_version'', ''scenario_identity'', ''attack_identity'', ''channel'', ''injection_point'',
      ''payload_sha256'', ''receipt_root'']"

definition read_delivery_receipt :: "dict \<Rightarrow> delivery_receipt option" where
  "read_delivery_receipt m = do {
     (if only_keys delivery_fields m then Some () else None);
     schema \<leftarrow> with_default delivery_schema as_str (dict_get m ''schema_version'');
     scen \<leftarrow> as_str (dict_get m ''scenario_identity'');
     aid \<leftarrow> as_str (dict_get m ''attack_identity'');
     channel \<leftarrow> read_enum channel_value attack_channels (dict_get m ''channel'');
     point \<leftarrow> as_str (dict_get m ''injection_point'');
     sha \<leftarrow> as_str (dict_get m ''payload_sha256'');
     root \<leftarrow> as_str (dict_get m ''receipt_root'');
     of_result (validate_delivery_receipt
       \<lparr>dr_schema_version = schema, dr_scenario_identity = scen, dr_attack_identity = aid,
        dr_channel = channel, dr_injection_point = point, dr_payload_sha256 = sha, dr_receipt_root = root\<rparr>) }"

definition aderr :: "string \<Rightarrow> error" where
  "aderr msg = Err AttackDeliveryError msg"

lemma aderr_cong [cong]: "aderr m = aderr m"
  by (rule refl)

definition verify_delivery_event :: "evaluation_scenario \<Rightarrow> evidence_event \<Rightarrow> error + delivery_receipt" where
  "verify_delivery_event s e =
     (if \<not> injector_source (ev_source e)
      then Inl (aderr ''attack delivery receipt has an untrusted injector source label'')
      else (case read_delivery_receipt (ev_payload e) of
          None \<Rightarrow> Inl (aderr ''attack delivery receipt is malformed or internally inconsistent'')
        | Some r \<Rightarrow>
            rbind (delivery_from_scenario s (dr_injection_point r)) (\<lambda>expected.
            if r \<noteq> expected
            then Inl (aderr ''attack delivery receipt does not match the exact scenario, attack, channel, or payload'')
            else Inr r)))"

definition verify_attack_delivery ::
  "evaluation_scenario \<Rightarrow> trial_evidence \<Rightarrow> error + delivery_receipt option" where
  "verify_attack_delivery s t =
     rbind (extract_attack s None) (\<lambda>found. case found of
       None \<Rightarrow> Inr None
     | Some _ \<Rightarrow> (case events_of ATTACK_DELIVERY t of
           [e] \<Rightarrow> rbind (verify_delivery_event s e) (\<lambda>r. Inr (Some r))
         | es \<Rightarrow> Inl (aderr (''adversarial trial requires exactly one attack delivery receipt; observed ''
                  @ nat_str (length es)))))"

end
