(* ===== verification/StrictJson.thy ===== *)
theory StrictJson
  imports EvidenceLimits SpecModels
begin

section \<open>Strict JSON decoding (\<open>_strict_json.py\<close>)\<close>

text \<open>
  Material from outside is decoded with bounds of its own: the structural depth is checked on
  the text before the parser sees it, a repeated key, an integer of too many digits and a
  number that is not finite are refused where the parser meets them. The decoder is the
  scanner of \<open>PyJson\<close> with the hooks of the code in place, so that the first violation met
  is the one reported. Texts are code points up to 255, which are all scalars: the check for
  surrogates at the end of \<open>strict_json_loads\<close> has nothing to refuse. The value is given as
  text; bytes that are not UTF-8 never become one.
\<close>

definition strict_default_max_depth :: nat where
  "strict_default_max_depth = 64"

definition strict_error :: "string \<Rightarrow> error" where
  "strict_error msg = Err StrictJsonError msg"

lemma strict_error_cong [cong]: "strict_error m = strict_error m"
  by (rule refl)

subsection \<open>Structural depth\<close>

text \<open>\<open>_preflight_nesting\<close>: the state is the depth, whether in a string, whether after a backslash.\<close>

fun preflight :: "string \<Rightarrow> int \<Rightarrow> int \<Rightarrow> bool \<Rightarrow> bool \<Rightarrow> string \<Rightarrow> error + unit" where
  "preflight label max_depth depth in_string escaped [] = Inr ()"
| "preflight label max_depth depth in_string escaped (c # s) =
     (if in_string then
        (if escaped then preflight label max_depth depth True False s
         else if c = backslash then preflight label max_depth depth True True s
         else if c = quote_char then preflight label max_depth depth False False s
         else preflight label max_depth depth True False s)
      else if c = quote_char then preflight label max_depth depth True escaped s
      else if c = CHR ''['' \<or> c = CHR ''{'' then
        (if depth + 1 > max_depth
         then Inl (strict_error (label @ '' exceeds maximum JSON structural depth '' @ int_str max_depth))
         else preflight label max_depth (depth + 1) False escaped s)
      else if c = CHR '']'' \<or> c = CHR ''}'' then
        (if depth - 1 < 0 then Inl (strict_error (label @ '' contains unbalanced JSON structure''))
         else preflight label max_depth (depth - 1) False escaped s)
      else preflight label max_depth depth False escaped s)"

definition preflight_nesting :: "string \<Rightarrow> int \<Rightarrow> string \<Rightarrow> error + unit" where
  "preflight_nesting label max_depth text = preflight label max_depth 0 False False text"

subsection \<open>The scanner with its hooks\<close>

definition not_json :: "string \<Rightarrow> error" where
  "not_json label = strict_error (label @ '' must contain valid bounded JSON'')"

lemma not_json_cong [cong]: "not_json l = not_json l"
  by (rule refl)

text \<open>\<open>JSONDecodeError\<close> where the scanner finds no value.\<close>

definition decoded :: "string \<Rightarrow> 'a option \<Rightarrow> error + 'a" where
  "decoded label x = (case x of None \<Rightarrow> Inl (not_json label) | Some y \<Rightarrow> Inr y)"

definition reject_constant :: "string \<Rightarrow> string \<Rightarrow> error" where
  "reject_constant label token = strict_error (label @ '' contains non-finite JSON number '' @ str_repr token)"

text \<open>\<open>parse_int\<close> and \<open>parse_float\<close> on the number at the start of the text.\<close>

definition strict_number :: "string \<Rightarrow> string \<Rightarrow> error + json \<times> string" where
  "strict_number label s =
     rbind (decoded label (p_int (if starts (CHR ''-'') s then tl s else s))) (\<lambda>(ds, r).
     let fr = p_frac r; ex = p_exp (case fr of None \<Rightarrow> r | Some (_, r') \<Rightarrow> r') in
     if fr = None \<and> ex = None then
       (if length ds > max_json_integer_decimal_digits
        then Inl (strict_error (label @ '' contains an integer exceeding maximum decimal digits ''
               @ nat_str max_json_integer_decimal_digits))
        else decoded label (p_number s))
     else
      rbind (decoded label (p_number s)) (\<lambda>(v, r').
      if finite_json v then Inr (v, r')
      else Inl (strict_error (label @ '' contains a non-finite floating-point number''))))"

definition strict_token :: "string \<Rightarrow> string \<Rightarrow> error + json \<times> string" where
  "strict_token label s =
     (if prefix ''null'' s then Inr (JNull, drop 4 s)
      else if prefix ''true'' s then Inr (JBool True, drop 4 s)
      else if prefix ''false'' s then Inr (JBool False, drop 5 s)
      else if prefix ''NaN'' s then Inl (reject_constant label ''NaN'')
      else if prefix ''Infinity'' s then Inl (reject_constant label ''Infinity'')
      else if prefix ''-Infinity'' s then Inl (reject_constant label ''-Infinity'')
      else strict_number label s)"

text \<open>\<open>reject_duplicate_keys\<close>, the hook of a finished object; \<open>seen\<close> are the keys before.\<close>

fun unique_keys :: "string \<Rightarrow> string list \<Rightarrow> dict \<Rightarrow> error + unit" where
  "unique_keys label seen [] = Inr ()"
| "unique_keys label seen ((k, v) # kvs) =
     (if k \<in> set seen then Inl (strict_error (label @ '' contains duplicate object key '' @ str_repr k))
      else unique_keys label (k # seen) kvs)"

definition strict_object :: "string \<Rightarrow> dict \<Rightarrow> string \<Rightarrow> error + json \<times> string" where
  "strict_object label kvs r = rbind (unique_keys label [] kvs) (\<lambda>_. Inr (JObj kvs, r))"

fun s_value :: "string \<Rightarrow> nat \<Rightarrow> string \<Rightarrow> error + json \<times> string"
and s_elems :: "string \<Rightarrow> nat \<Rightarrow> string \<Rightarrow> error + json list \<times> string"
and s_members :: "string \<Rightarrow> nat \<Rightarrow> string \<Rightarrow> error + dict \<times> string" where
  "s_value l 0 s = Inl (not_json l)"
| "s_value l (Suc n) s =
     (if starts quote_char s then rbind (decoded l (p_str (tl s))) (\<lambda>(t, r). Inr (JStr t, r))
      else if starts (CHR ''{'') s then
        (let r = skip_ws (tl s) in
         if starts (CHR ''}'') r then strict_object l [] (tl r)
         else rbind (s_members l n r) (\<lambda>(kvs, r'). strict_object l kvs r'))
      else if starts (CHR ''['') s then
        (let r = skip_ws (tl s) in
         if starts (CHR '']'') r then Inr (JArr [], tl r)
         else rbind (s_elems l n r) (\<lambda>(xs, r'). Inr (JArr xs, r')))
      else strict_token l s)"
| "s_elems l 0 s = Inl (not_json l)"
| "s_elems l (Suc n) s =
     rbind (s_value l n s) (\<lambda>(x, r).
     let r1 = skip_ws r in
     if starts (CHR '']'') r1 then Inr ([x], tl r1)
     else
      rbind (decoded l (expect (CHR '','') r1)) (\<lambda>r2.
      rbind (s_elems l n (skip_ws r2)) (\<lambda>(xs, r3). Inr (x # xs, r3))))"
| "s_members l 0 s = Inl (not_json l)"
| "s_members l (Suc n) s =
     rbind (decoded l (expect quote_char s)) (\<lambda>s1.
     rbind (decoded l (p_str s1)) (\<lambda>(k, r).
     rbind (decoded l (expect (CHR '':'') (skip_ws r))) (\<lambda>r1.
     rbind (s_value l n (skip_ws r1)) (\<lambda>(v, r2).
     let r3 = skip_ws r2 in
     if starts (CHR ''}'') r3 then Inr ([(k, v)], tl r3)
     else
      rbind (decoded l (expect (CHR '','') r3)) (\<lambda>r4.
      rbind (s_members l n (skip_ws r4)) (\<lambda>(kvs, r5). Inr ((k, v) # kvs, r5)))))))"

definition strict_scan :: "string \<Rightarrow> string \<Rightarrow> error + json" where
  "strict_scan label s =
     rbind (s_value label (2 * length s + 2) (skip_ws s)) (\<lambda>(v, r).
     if skip_ws r = [] then Inr v else Inl (not_json label))"

definition strict_json_loads :: "string \<Rightarrow> bool \<Rightarrow> int \<Rightarrow> string \<Rightarrow> error + json" where
  "strict_json_loads label require_object max_depth text =
     (if max_depth < 1 then Inl (Err ValueError ''max_depth must be a positive exact integer'')
      else
       rbind (preflight_nesting label max_depth text) (\<lambda>_.
       rbind (strict_scan label text) (\<lambda>v.
       if require_object \<and> (case v of JObj _ \<Rightarrow> False | _ \<Rightarrow> True)
       then Inl (strict_error (label @ '' JSON root must be an object''))
       else Inr v)))"

end
