(* ===== verification/McpFaults.thy ===== *)
theory McpFaults
  imports StrictJson ModelFields
begin

section \<open>MCP faults and their receipts (\<open>mcp/models.py\<close>)\<close>

text \<open>
  A fault is a content-addressed stimulus of the MCP laboratory; a fault receipt says that one
  fault reached one exact protocol boundary and was observed there. Receipts enter the evaluator
  inside the agent-side receipts of the bridges, and are validated again at each of them.
\<close>

datatype fault_kind =
    TOOL_METADATA_POISON | TOOL_RESULT_POISON | TOOL_ERROR | TOOL_LIST_STALE_CACHE
  | TOOL_SCHEMA_DRIFT | TOOL_IDENTITY_DRIFT

fun fault_value :: "fault_kind \<Rightarrow> string" where
  "fault_value TOOL_METADATA_POISON = ''tool_metadata_poison''"
| "fault_value TOOL_RESULT_POISON = ''tool_result_poison''"
| "fault_value TOOL_ERROR = ''tool_error''"
| "fault_value TOOL_LIST_STALE_CACHE = ''tool_list_stale_cache''"
| "fault_value TOOL_SCHEMA_DRIFT = ''tool_schema_drift''"
| "fault_value TOOL_IDENTITY_DRIFT = ''tool_identity_drift''"

definition fault_kinds :: "fault_kind list" where
  "fault_kinds = [TOOL_METADATA_POISON, TOOL_RESULT_POISON, TOOL_ERROR, TOOL_LIST_STALE_CACHE,
     TOOL_SCHEMA_DRIFT, TOOL_IDENTITY_DRIFT]"

definition parse_fault :: "string \<Rightarrow> fault_kind option" where
  "parse_fault s = find (\<lambda>k. fault_value k = s) fault_kinds"

lemma parse_fault_value [simp]: "parse_fault (fault_value k) = Some k"
  by (cases k) (simp_all add: parse_fault_def fault_kinds_def)

lemma fault_value_inj: "fault_value k = fault_value l \<longleftrightarrow> k = l"
  by (metis option.inject parse_fault_value)

subsection \<open>Fault specifications\<close>

definition fault_schema :: string where
  "fault_schema = ''agent-evals/mcp-fault/v1''"

definition fault_receipt_schema :: string where
  "fault_receipt_schema = ''agent-evals/mcp-fault-receipt/v1''"

definition protocol_version :: string where
  "protocol_version = ''2026-07-28''"

definition max_cache_ttl_ms :: int where
  "max_cache_ttl_ms = 86400000"

definition initial_required :: json where
  "initial_required = JObj [(''query'', JStr ''string'')]"

definition replacement_required :: json where
  "replacement_required = JObj [(''customer_id'', JStr ''integer''), (''include_history'', JStr ''boolean'')]"

record fault_spec =
  fs_schema_version :: string
  fs_fault_id :: string
  fs_revision :: string
  fs_kind :: fault_kind
  fs_tool_name :: string
  fs_payload_json :: string

text \<open>\<open>_parse_payload_json\<close> distinguishes a repeated key by the text of the error.\<close>

definition parse_fault_payload :: "string \<Rightarrow> error + json" where
  "parse_fault_payload text = (case strict_json_loads ''MCP fault payload_json'' False 32 text of
       Inr v \<Rightarrow> Inr v
     | Inl e \<Rightarrow> if err_class e \<noteq> StrictJsonError then Inl e
         else if sublist ''duplicate object key'' (err_msg e)
         then Inl (vale ''MCP fault payload_json must not contain duplicate object keys'')
         else Inl (vale ''MCP fault payload_json must contain valid JSON under strict bounded decoding''))"

definition fault_canonical_json :: "json \<Rightarrow> error + string" where
  "fault_canonical_json v = (if finite_json v then Inr (json_dumps v)
     else Inl (vale ''MCP fault payload must be finite JSON-compatible data''))"

definition object_payload :: "string \<Rightarrow> json \<Rightarrow> error + dict" where
  "object_payload label v = (case v of JObj d \<Rightarrow> Inr d
     | _ \<Rightarrow> Inl (vale (label @ '' payload must be an object'')))"

definition require_exact_keys :: "string \<Rightarrow> string list \<Rightarrow> dict \<Rightarrow> error + unit" where
  "require_exact_keys label expected d =
     (if set (map fst d) \<noteq> set expected
      then Inl (vale (label @ '' payload must contain exactly: '' @ str_join '', '' (sort expected)))
      else Inr ())"

definition bounded_ttl_ms :: "string \<Rightarrow> json option \<Rightarrow> error + int" where
  "bounded_ttl_ms label v = (case as_int v of
       None \<Rightarrow> Inl (vale (label @ '' ttl_ms must be an integer''))
     | Some i \<Rightarrow> if i \<le> 0 \<or> i > max_cache_ttl_ms
         then Inl (vale (label @ '' ttl_ms must be between 1 and 86400000 milliseconds'')) else Inr i)"

definition replacement_guards :: "string \<Rightarrow> string \<Rightarrow> (bool \<times> error) list" where
  "replacement_guards tool r =
     [(py_strip r = [], vale ''MCP identity-drift replacement_tool_name must be non-empty''),
      (r \<noteq> py_strip r, vale ''MCP identity-drift replacement_tool_name must not contain surrounding whitespace''),
      (length r > 128, vale ''MCP identity-drift replacement_tool_name must be at most 128 characters''),
      (r = tool, vale ''MCP identity-drift replacement_tool_name must differ from the original tool'')]"

text \<open>\<open>validate_kind_payload\<close> on the decoded payload.\<close>

definition check_kind_payload :: "fault_kind \<Rightarrow> string \<Rightarrow> json \<Rightarrow> error + unit" where
  "check_kind_payload k tool payload = (case k of
       TOOL_LIST_STALE_CACHE \<Rightarrow>
         rbind (object_payload ''MCP stale-cache fault'' payload) (\<lambda>d.
         rbind (require_exact_keys ''MCP stale-cache fault'' [''ttl_ms''] d) (\<lambda>_.
         rbind (bounded_ttl_ms ''MCP stale-cache'' (dict_get d ''ttl_ms'')) (\<lambda>_. Inr ())))
     | TOOL_SCHEMA_DRIFT \<Rightarrow>
         rbind (object_payload ''MCP schema-drift fault'' payload) (\<lambda>d.
         rbind (require_exact_keys ''MCP schema-drift fault'' [''ttl_ms'', ''initial_required'', ''replacement_required''] d) (\<lambda>_.
         rbind (bounded_ttl_ms ''MCP schema-drift'' (dict_get d ''ttl_ms'')) (\<lambda>_.
         raise_if
           [(\<not> py_eq (opt_json (dict_get d ''initial_required'')) initial_required,
             vale ''MCP schema-drift initial_required must bind the v1 query:string contract''),
            (\<not> py_eq (opt_json (dict_get d ''replacement_required'')) replacement_required,
             vale ''MCP schema-drift replacement_required must bind the v1 customer_id:integer/include_history:boolean contract'')])))
     | TOOL_IDENTITY_DRIFT \<Rightarrow>
         rbind (object_payload ''MCP identity-drift fault'' payload) (\<lambda>d.
         rbind (require_exact_keys ''MCP identity-drift fault'' [''ttl_ms'', ''replacement_tool_name''] d) (\<lambda>_.
         rbind (bounded_ttl_ms ''MCP identity-drift'' (dict_get d ''ttl_ms'')) (\<lambda>_.
         (case as_str (dict_get d ''replacement_tool_name'') of
            None \<Rightarrow> Inl (vale ''MCP identity-drift replacement_tool_name must be a string'')
          | Some r \<Rightarrow> raise_if (replacement_guards tool r)))))
     | _ \<Rightarrow> Inr ())"

text \<open>
  \<open>payload\<close>: the decoded \<open>payload_json\<close>. An accepted specification holds canonical text,
  which has no repeated keys, so that the plain \<open>json.loads\<close> of the code agrees with this one.
\<close>

definition fault_payload :: "fault_spec \<Rightarrow> error + json" where
  "fault_payload f = (case loads_unique (fs_payload_json f) of
       None \<Rightarrow> Inl (vale ''payload_json is not JSON'') | Some v \<Rightarrow> Inr v)"

definition validate_fault_spec :: "fault_spec \<Rightarrow> error + fault_spec" where
  "validate_fault_spec f =
     rbind (raise_if (
         literal_field ''schema_version'' fault_schema (fs_schema_version f)
       @ [(\<not> id_pattern ''._-'' 2 63 (fs_fault_id f), verr ''fault_id: pattern'')]
       @ text_field ''revision'' 128 (fs_revision f)
       @ text_field ''tool_name'' 128 (fs_tool_name f)
       @ ident_guards verr ''MCP fault tool name'' (fs_tool_name f)
       @ text_field ''payload_json'' 100000 (fs_payload_json f))) (\<lambda>_.
     rbind (as_validation (rbind (parse_fault_payload (fs_payload_json f)) fault_canonical_json)) (\<lambda>text.
     let g = f\<lparr>fs_payload_json := text\<rparr> in
     rbind (as_validation (rbind (fault_payload g) (check_kind_payload (fs_kind g) (fs_tool_name g)))) (\<lambda>_. Inr g)))"

definition fault_spec_from_payload ::
  "string \<Rightarrow> string \<Rightarrow> fault_kind \<Rightarrow> string \<Rightarrow> json \<Rightarrow> error + fault_spec" where
  "fault_spec_from_payload fault_id revision k tool payload =
     rbind (fault_canonical_json payload) (\<lambda>text.
     validate_fault_spec
       \<lparr>fs_schema_version = fault_schema, fs_fault_id = fault_id, fs_revision = revision, fs_kind = k,
        fs_tool_name = tool, fs_payload_json = text\<rparr>)"

definition text_sha256 :: "string \<Rightarrow> string" where
  "text_sha256 s = sha256_hex (utf8 s)"

lemma is_sha256_text [simp]: "is_sha256 (text_sha256 s)"
  by (simp add: text_sha256_def)

definition fault_payload_sha256 :: "fault_spec \<Rightarrow> string" where
  "fault_payload_sha256 f = text_sha256 (fs_payload_json f)"

definition fault_identity :: "fault_spec \<Rightarrow> string" where
  "fault_identity f = sha256_json (JObj
     [(''schema_version'', JStr (fs_schema_version f)), (''fault_id'', JStr (fs_fault_id f)),
      (''revision'', JStr (fs_revision f)), (''kind'', JStr (fault_value (fs_kind f))),
      (''tool_name'', JStr (fs_tool_name f)), (''payload_json'', JStr (fs_payload_json f))])"

subsection \<open>Fault receipts\<close>

record fault_receipt =
  fr_schema_version :: string
  fr_fault_identity :: string
  fr_kind :: fault_kind
  fr_protocol_version :: string
  fr_tool_name :: string
  fr_injection_point :: string
  fr_payload_sha256 :: string
  fr_observation_sha256 :: string
  fr_receipt_root :: string

definition fault_receipt_dict :: "fault_receipt \<Rightarrow> dict" where
  "fault_receipt_dict r =
     [(''schema_version'', JStr (fr_schema_version r)), (''fault_identity'', JStr (fr_fault_identity r)),
      (''kind'', JStr (fault_value (fr_kind r))), (''protocol_version'', JStr (fr_protocol_version r)),
      (''tool_name'', JStr (fr_tool_name r)), (''injection_point'', JStr (fr_injection_point r)),
      (''payload_sha256'', JStr (fr_payload_sha256 r)), (''observation_sha256'', JStr (fr_observation_sha256 r))]"

definition fault_receipt_material :: "fault_receipt \<Rightarrow> json" where
  "fault_receipt_material r = JObj (fault_receipt_dict r)"

definition fault_receipt_root :: "fault_receipt \<Rightarrow> string" where
  "fault_receipt_root r = sha256_json (fault_receipt_material r)"

text \<open>\<open>model_dump(mode="json")\<close>\<close>

definition fault_receipt_json :: "fault_receipt \<Rightarrow> json" where
  "fault_receipt_json r = JObj (fault_receipt_dict r @ [(''receipt_root'', JStr (fr_receipt_root r))])"

definition validate_fault_receipt :: "fault_receipt \<Rightarrow> error + fault_receipt" where
  "validate_fault_receipt r =
     rbind (raise_if (
         literal_field ''schema_version'' fault_receipt_schema (fr_schema_version r)
       @ sha_field ''fault_identity'' (fr_fault_identity r)
       @ text_field ''protocol_version'' 64 (fr_protocol_version r)
       @ text_field ''tool_name'' 128 (fr_tool_name r)
       @ text_field ''injection_point'' 512 (fr_injection_point r)
       @ sha_field ''payload_sha256'' (fr_payload_sha256 r)
       @ sha_field ''observation_sha256'' (fr_observation_sha256 r)
       @ sha_field ''receipt_root'' (fr_receipt_root r))) (\<lambda>_.
     if fr_receipt_root r \<noteq> fault_receipt_root r
     then Inl (verr ''MCP fault receipt root does not match receipt material'') else Inr r)"

definition create_fault_receipt :: "fault_spec \<Rightarrow> string \<Rightarrow> string \<Rightarrow> error + fault_receipt" where
  "create_fault_receipt f injection_point observed_text =
     (let r = \<lparr>fr_schema_version = fault_receipt_schema, fr_fault_identity = fault_identity f,
          fr_kind = fs_kind f, fr_protocol_version = protocol_version, fr_tool_name = fs_tool_name f,
          fr_injection_point = injection_point, fr_payload_sha256 = fault_payload_sha256 f,
          fr_observation_sha256 = text_sha256 observed_text, fr_receipt_root = []\<rparr>
      in validate_fault_receipt (r\<lparr>fr_receipt_root := fault_receipt_root r\<rparr>))"

definition fault_receipt_keys :: "string list" where
  "fault_receipt_keys =
     [''schema_version'', ''fault_identity'', ''kind'', ''protocol_version'', ''tool_name'',
      ''injection_point'', ''payload_sha256'', ''observation_sha256'', ''receipt_root'']"

definition read_fault_receipt :: "json option \<Rightarrow> fault_receipt option" where
  "read_fault_receipt v = do {
     m \<leftarrow> as_obj v;
     (if only_keys fault_receipt_keys m then Some () else None);
     schema \<leftarrow> with_default fault_receipt_schema as_str (dict_get m ''schema_version'');
     fault \<leftarrow> as_str (dict_get m ''fault_identity'');
     kv \<leftarrow> as_str (dict_get m ''kind'');
     k \<leftarrow> parse_fault kv;
     version \<leftarrow> as_str (dict_get m ''protocol_version'');
     tool \<leftarrow> as_str (dict_get m ''tool_name'');
     point \<leftarrow> as_str (dict_get m ''injection_point'');
     payload \<leftarrow> as_str (dict_get m ''payload_sha256'');
     observation \<leftarrow> as_str (dict_get m ''observation_sha256'');
     root \<leftarrow> as_str (dict_get m ''receipt_root'');
     of_result (validate_fault_receipt
       \<lparr>fr_schema_version = schema, fr_fault_identity = fault, fr_kind = k, fr_protocol_version = version,
        fr_tool_name = tool, fr_injection_point = point, fr_payload_sha256 = payload,
        fr_observation_sha256 = observation, fr_receipt_root = root\<rparr>) }"

end
