(* ===== verification/McpBridges.thy ===== *)
theory McpBridges
  imports McpFaults
begin

section \<open>From the MCP boundary to the agent (\<open>mcp/agent_*bridge.py\<close>)\<close>

text \<open>
  A bridge receipt binds one observation at the MCP boundary, a fault receipt, to what the agent
  observed of it: a tool result, a tool description, or an error and the retry that followed.
  It holds digests only. Every receipt is validated the same way: its fault receipt again, its
  fields, the relation of its bridge and its root. This theory holds the direct bridges;
  \<open>McpDrift\<close> holds the three whose stimulus is a change of the tool list.

  Tool arguments, outputs and schemas are JSON values; the arguments of a call are a mapping or
  missing.
\<close>

subsection \<open>What the bridges share\<close>

definition point :: "string list \<Rightarrow> string" where
  "point parts = ''mcp:'' @ protocol_version @ concat parts"

definition exact_text_keys :: "dict \<Rightarrow> bool" where
  "exact_text_keys m \<longleftrightarrow> set (map fst m) = {''type'', ''text''}"

text \<open>\<open>_extract_single_text_output\<close>; the bridges differ in what they call the value.\<close>

definition single_text_output :: "string \<Rightarrow> json \<Rightarrow> error + string" where
  "single_text_output label v = (case v of
       JObj m \<Rightarrow>
         if \<not> exact_text_keys m
         then Inl (vale (label @ '' must contain exactly '' @ str_repr ''type'' @ '' and '' @ str_repr ''text''))
         else if dict_get m ''type'' \<noteq> Some (JStr ''text'')
         then Inl (vale (label @ '' must be one text output object''))
         else (case as_str (dict_get m ''text'') of
             None \<Rightarrow> Inl (vale (label @ '' must be one text output object''))
           | Some t \<Rightarrow> Inr t)
     | _ \<Rightarrow> Inl (vale (label @ '' must be one model-visible text output object'')))"

text \<open>\<open>_sha256_json(_canonical_arguments(value))\<close>\<close>

definition arguments_sha256 :: "dict option \<Rightarrow> error + string" where
  "arguments_sha256 v = (case v of
       None \<Rightarrow> Inr (sha256_json (JObj []))
     | Some d \<Rightarrow> rbind (checked_dumps (JObj d)) (\<lambda>text. Inr (sha256_hex text)))"

definition bridge_event ::
  "string \<Rightarrow> dict \<Rightarrow> int \<Rightarrow> py_datetime \<Rightarrow> error + evidence_event" where
  "bridge_event source payload sequence now = mk_event sequence PROTOCOL_DELIVERY source payload now False"

subsection \<open>Tool results (\<open>agent_bridge.py\<close>)\<close>

definition tool_result_schema :: string where
  "tool_result_schema = ''agent-evals/mcp-agent-tool-result-receipt/v1''"

definition tool_result_domain :: string where
  "tool_result_domain = ''agent-evals/mcp-agent-tool-result-receipt/v1'' @ [CHR 0x00]"

record tool_result_receipt =
  tr_schema_version :: string
  tr_scenario_identity :: string
  tr_protocol_receipt :: fault_receipt
  tr_agent_tool_name :: string
  tr_agent_call_id :: string
  tr_agent_observation_sha256 :: string
  tr_receipt_root :: string

definition tool_result_dict :: "tool_result_receipt \<Rightarrow> dict" where
  "tool_result_dict r =
     [(''schema_version'', JStr (tr_schema_version r)), (''scenario_identity'', JStr (tr_scenario_identity r)),
      (''protocol_receipt'', fault_receipt_json (tr_protocol_receipt r)),
      (''agent_tool_name'', JStr (tr_agent_tool_name r)), (''agent_call_id'', JStr (tr_agent_call_id r)),
      (''agent_observation_sha256'', JStr (tr_agent_observation_sha256 r))]"

definition tool_result_material :: "tool_result_receipt \<Rightarrow> json" where
  "tool_result_material r = JObj (tool_result_dict r)"

definition tool_result_root :: "tool_result_receipt \<Rightarrow> string" where
  "tool_result_root r = sha256_hex (tool_result_domain @ json_dumps (tool_result_material r))"

definition tool_result_payload :: "tool_result_receipt \<Rightarrow> dict" where
  "tool_result_payload r = tool_result_dict r @ [(''receipt_root'', JStr (tr_receipt_root r))]"

definition tool_result_fields :: "tool_result_receipt \<Rightarrow> (bool \<times> error) list" where
  "tool_result_fields r =
       literal_field ''schema_version'' tool_result_schema (tr_schema_version r)
     @ sha_field ''scenario_identity'' (tr_scenario_identity r)
     @ ident_field ''agent_tool_name'' ''agent tool name'' 128 (tr_agent_tool_name r)
     @ ident_field ''agent_call_id'' ''agent call ID'' 256 (tr_agent_call_id r)
     @ sha_field ''agent_observation_sha256'' (tr_agent_observation_sha256 r)
     @ sha_field ''receipt_root'' (tr_receipt_root r)"

text \<open>\<open>_require_direct_tool_result_receipt\<close> and \<open>verify_bridge\<close>\<close>

definition require_direct_tool_result :: "fault_receipt \<Rightarrow> error + unit" where
  "require_direct_tool_result p = require_all
     [(fr_kind p = TOOL_RESULT_POISON, ''MCP-to-agent bridge requires a TOOL_RESULT_POISON protocol receipt''),
      (fr_protocol_version p = protocol_version,
       ''MCP-to-agent bridge requires protocol version '' @ protocol_version),
      (fr_injection_point p = point ['':tools/call:'', fr_tool_name p, '':result.content[0].text''],
       ''MCP-to-agent bridge requires the exact direct tool-result text observation boundary''),
      (fr_observation_sha256 p = fr_payload_sha256 p,
       ''MCP protocol receipt does not prove exact direct controlled-payload observation'')]"

definition tool_result_bridge :: "tool_result_receipt \<Rightarrow> error + unit" where
  "tool_result_bridge r =
     rbind (require_direct_tool_result (tr_protocol_receipt r)) (\<lambda>_.
     require_all
       [(tr_agent_tool_name r = fr_tool_name (tr_protocol_receipt r),
         ''agent tool name does not match the verified MCP protocol tool''),
        (tr_agent_observation_sha256 r = fr_payload_sha256 (tr_protocol_receipt r),
         ''agent observation digest does not match the verified MCP controlled payload'')])"

definition validate_tool_result :: "tool_result_receipt \<Rightarrow> error + tool_result_receipt" where
  "validate_tool_result r =
     rbind (validate_fault_receipt (tr_protocol_receipt r)) (\<lambda>_.
     rbind (raise_if (tool_result_fields r)) (\<lambda>_.
     rbind (as_validation (tool_result_bridge r)) (\<lambda>_.
     if tool_result_root r \<noteq> tr_receipt_root r
     then Inl (verr ''MCP-to-agent tool-result receipt root does not match receipt content'') else Inr r)))"

definition tool_result_keys :: "string list" where
  "tool_result_keys =
     [''schema_version'', ''scenario_identity'', ''protocol_receipt'', ''agent_tool_name'', ''agent_call_id'',
      ''agent_observation_sha256'', ''receipt_root'']"

definition read_tool_result :: "dict \<Rightarrow> tool_result_receipt option" where
  "read_tool_result m = do {
     (if only_keys tool_result_keys m then Some () else None);
     schema \<leftarrow> with_default tool_result_schema as_str (dict_get m ''schema_version'');
     x1 \<leftarrow> as_str (dict_get m ''scenario_identity'');
     x2 \<leftarrow> read_fault_receipt (dict_get m ''protocol_receipt'');
     x3 \<leftarrow> as_str (dict_get m ''agent_tool_name'');
     x4 \<leftarrow> as_str (dict_get m ''agent_call_id'');
     x5 \<leftarrow> as_str (dict_get m ''agent_observation_sha256'');
     root \<leftarrow> as_str (dict_get m ''receipt_root'');
     of_result (validate_tool_result
       \<lparr>tr_schema_version = schema, tr_scenario_identity = x1, tr_protocol_receipt = x2, tr_agent_tool_name = x3,
        tr_agent_call_id = x4, tr_agent_observation_sha256 = x5, tr_receipt_root = root\<rparr>) }"

definition create_tool_result ::
  "string \<Rightarrow> fault_receipt \<Rightarrow> string \<Rightarrow> string \<Rightarrow> json \<Rightarrow> error + tool_result_receipt" where
  "create_tool_result sid protocol_receipt tool call agent_output =
     rbind (validate_fault_receipt protocol_receipt) (\<lambda>p.
     rbind (require_direct_tool_result p) (\<lambda>_.
     rbind (raise_if (ident_guards vale ''agent tool name'' tool @ ident_guards vale ''agent call ID'' call)) (\<lambda>_.
     rbind (require_all
       [(tool = fr_tool_name p, ''agent tool name does not match the verified MCP protocol tool'')]) (\<lambda>_.
     rbind (single_text_output ''agent MCP tool result'' agent_output) (\<lambda>text.
     rbind (require_all
       [(text_sha256 text = fr_payload_sha256 p,
         ''agent-observed MCP tool result does not match the verified controlled payload'')]) (\<lambda>_.
     let r = \<lparr>tr_schema_version = tool_result_schema, tr_scenario_identity = sid, tr_protocol_receipt = p,
          tr_agent_tool_name = tool, tr_agent_call_id = call,
          tr_agent_observation_sha256 = text_sha256 text, tr_receipt_root = []\<rparr>
     in validate_tool_result (r\<lparr>tr_receipt_root := tool_result_root r\<rparr>)))))))"

definition tool_result_source :: string where
  "tool_result_source = ''bridge:mcp-agent:tool-result''"

definition tool_result_event :: "tool_result_receipt \<Rightarrow> int \<Rightarrow> py_datetime \<Rightarrow> error + evidence_event" where
  "tool_result_event r = bridge_event tool_result_source (tool_result_payload r)"

subsection \<open>Tool descriptions (\<open>agent_metadata_bridge.py\<close>)\<close>

definition metadata_schema :: string where
  "metadata_schema = ''agent-evals/mcp-agent-tool-metadata-receipt/v1''"

definition metadata_domain :: string where
  "metadata_domain = ''agent-evals/mcp-agent-tool-metadata-receipt/v1'' @ [CHR 0x00]"

record metadata_receipt =
  md_schema_version :: string
  md_scenario_identity :: string
  md_protocol_receipt :: fault_receipt
  md_agent_tool_name :: string
  md_protocol_schema_sha256 :: string
  md_model_description_sha256 :: string
  md_model_schema_sha256 :: string
  md_model_snapshot_ordinal :: int
  md_receipt_root :: string

definition metadata_dict :: "metadata_receipt \<Rightarrow> dict" where
  "metadata_dict r =
     [(''schema_version'', JStr (md_schema_version r)), (''scenario_identity'', JStr (md_scenario_identity r)),
      (''protocol_receipt'', fault_receipt_json (md_protocol_receipt r)),
      (''agent_tool_name'', JStr (md_agent_tool_name r)),
      (''protocol_schema_sha256'', JStr (md_protocol_schema_sha256 r)),
      (''model_description_sha256'', JStr (md_model_description_sha256 r)),
      (''model_schema_sha256'', JStr (md_model_schema_sha256 r)),
      (''model_snapshot_ordinal'', JInt (md_model_snapshot_ordinal r))]"

definition metadata_material :: "metadata_receipt \<Rightarrow> json" where
  "metadata_material r = JObj (metadata_dict r)"

definition metadata_root :: "metadata_receipt \<Rightarrow> string" where
  "metadata_root r = sha256_hex (metadata_domain @ utf8 (json_dumps_unicode (metadata_material r)))"

definition metadata_payload :: "metadata_receipt \<Rightarrow> dict" where
  "metadata_payload r = metadata_dict r @ [(''receipt_root'', JStr (md_receipt_root r))]"

definition metadata_fields :: "metadata_receipt \<Rightarrow> (bool \<times> error) list" where
  "metadata_fields r =
       literal_field ''schema_version'' metadata_schema (md_schema_version r)
     @ sha_field ''scenario_identity'' (md_scenario_identity r)
     @ ident_field ''agent_tool_name'' ''agent tool name'' 128 (md_agent_tool_name r)
     @ sha_field ''protocol_schema_sha256'' (md_protocol_schema_sha256 r)
     @ sha_field ''model_description_sha256'' (md_model_description_sha256 r)
     @ sha_field ''model_schema_sha256'' (md_model_schema_sha256 r)
     @ int_field ''model_snapshot_ordinal'' 0 None (md_model_snapshot_ordinal r)
     @ sha_field ''receipt_root'' (md_receipt_root r)"

definition require_metadata :: "fault_receipt \<Rightarrow> error + unit" where
  "require_metadata p = require_all
     [(fr_kind p = TOOL_METADATA_POISON, ''MCP metadata bridge requires a TOOL_METADATA_POISON protocol receipt''),
      (fr_protocol_version p = protocol_version,
       ''MCP metadata bridge requires protocol version '' @ protocol_version),
      (fr_injection_point p = point ['':tools/list:'', fr_tool_name p, '':description''],
       ''MCP metadata bridge requires the exact tools/list target-description observation boundary''),
      (fr_observation_sha256 p = fr_payload_sha256 p,
       ''MCP metadata protocol receipt does not prove exact controlled-description observation'')]"

definition metadata_bridge :: "metadata_receipt \<Rightarrow> error + unit" where
  "metadata_bridge r =
     rbind (require_metadata (md_protocol_receipt r)) (\<lambda>_.
     require_all
       [(md_agent_tool_name r = fr_tool_name (md_protocol_receipt r),
         ''model-visible tool name does not match the verified MCP protocol tool''),
        (md_model_description_sha256 r = fr_observation_sha256 (md_protocol_receipt r),
         ''model-visible description digest does not match verified MCP observation''),
        (md_protocol_schema_sha256 r = md_model_schema_sha256 r,
         ''protocol and model-visible MCP tool schema digests do not match'')])"

definition validate_metadata :: "metadata_receipt \<Rightarrow> error + metadata_receipt" where
  "validate_metadata r =
     rbind (validate_fault_receipt (md_protocol_receipt r)) (\<lambda>_.
     rbind (raise_if (metadata_fields r)) (\<lambda>_.
     rbind (as_validation (metadata_bridge r)) (\<lambda>_.
     if metadata_root r \<noteq> md_receipt_root r
     then Inl (verr ''MCP-to-agent tool-metadata receipt root does not match receipt content'') else Inr r)))"

definition metadata_keys :: "string list" where
  "metadata_keys =
     [''schema_version'', ''scenario_identity'', ''protocol_receipt'', ''agent_tool_name'',
      ''protocol_schema_sha256'', ''model_description_sha256'', ''model_schema_sha256'',
      ''model_snapshot_ordinal'', ''receipt_root'']"

definition read_metadata :: "dict \<Rightarrow> metadata_receipt option" where
  "read_metadata m = do {
     (if only_keys metadata_keys m then Some () else None);
     schema \<leftarrow> with_default metadata_schema as_str (dict_get m ''schema_version'');
     x1 \<leftarrow> as_str (dict_get m ''scenario_identity'');
     x2 \<leftarrow> read_fault_receipt (dict_get m ''protocol_receipt'');
     x3 \<leftarrow> as_str (dict_get m ''agent_tool_name'');
     x4 \<leftarrow> as_str (dict_get m ''protocol_schema_sha256'');
     x5 \<leftarrow> as_str (dict_get m ''model_description_sha256'');
     x6 \<leftarrow> as_str (dict_get m ''model_schema_sha256'');
     x7 \<leftarrow> as_int (dict_get m ''model_snapshot_ordinal'');
     root \<leftarrow> as_str (dict_get m ''receipt_root'');
     of_result (validate_metadata
       \<lparr>md_schema_version = schema, md_scenario_identity = x1, md_protocol_receipt = x2, md_agent_tool_name = x3,
        md_protocol_schema_sha256 = x4, md_model_description_sha256 = x5, md_model_schema_sha256 = x6,
        md_model_snapshot_ordinal = x7, md_receipt_root = root\<rparr>) }"

definition mapping_sha256 :: "dict \<Rightarrow> error + string" where
  "mapping_sha256 d = (if finite_json (JObj d) then Inr (text_sha256 (json_dumps_unicode (JObj d)))
     else Inl (vale ''MCP metadata receipt material must be finite JSON-compatible data''))"

definition create_metadata ::
  "string \<Rightarrow> fault_receipt \<Rightarrow> string \<Rightarrow> dict \<Rightarrow> string \<Rightarrow> dict \<Rightarrow> int \<Rightarrow> error + metadata_receipt" where
  "create_metadata sid protocol_receipt tool protocol_schema description model_schema ordinal =
     rbind (validate_fault_receipt protocol_receipt) (\<lambda>p.
     rbind (require_metadata p) (\<lambda>_.
     rbind (raise_if (ident_guards vale ''agent tool name'' tool)) (\<lambda>_.
     rbind (require_all
       [(tool = fr_tool_name p, ''model-visible tool name does not match the verified MCP protocol tool''),
        (ordinal \<ge> 0, ''model snapshot ordinal must be a non-negative integer''),
        (text_sha256 description = fr_observation_sha256 p,
         ''model-visible MCP tool description does not match the verified protocol observation'')]) (\<lambda>_.
     rbind (mapping_sha256 protocol_schema) (\<lambda>protocol_sha.
     rbind (mapping_sha256 model_schema) (\<lambda>model_sha.
     rbind (require_all
       [(protocol_sha = model_sha,
         ''model-visible MCP tool schema does not match the protocol-discovered target schema'')]) (\<lambda>_.
     let r = \<lparr>md_schema_version = metadata_schema, md_scenario_identity = sid, md_protocol_receipt = p,
          md_agent_tool_name = tool, md_protocol_schema_sha256 = protocol_sha,
          md_model_description_sha256 = text_sha256 description, md_model_schema_sha256 = model_sha,
          md_model_snapshot_ordinal = ordinal, md_receipt_root = []\<rparr>
     in validate_metadata (r\<lparr>md_receipt_root := metadata_root r\<rparr>))))))))"

definition metadata_source :: string where
  "metadata_source = ''bridge:mcp-agent:tool-metadata''"

definition metadata_event :: "metadata_receipt \<Rightarrow> int \<Rightarrow> py_datetime \<Rightarrow> error + evidence_event" where
  "metadata_event r = bridge_event metadata_source (metadata_payload r)"

subsection \<open>Errors and recovery (\<open>agent_error_bridge.py\<close>)\<close>

definition recovery_schema :: string where
  "recovery_schema = ''agent-evals/mcp-agent-tool-error-recovery-receipt/v1''"

definition recovery_domain :: string where
  "recovery_domain = ''agent-evals/mcp-agent-tool-error-recovery-receipt/v1'' @ [CHR 0x00]"

record recovery_receipt =
  rv_schema_version :: string
  rv_scenario_identity :: string
  rv_protocol_receipt :: fault_receipt
  rv_agent_tool_name :: string
  rv_error_call_id :: string
  rv_retry_call_id :: string
  rv_error_arguments_sha256 :: string
  rv_retry_arguments_sha256 :: string
  rv_agent_error_observation_sha256 :: string
  rv_expected_recovery_sha256 :: string
  rv_agent_recovery_observation_sha256 :: string
  rv_receipt_root :: string

definition recovery_dict :: "recovery_receipt \<Rightarrow> dict" where
  "recovery_dict r =
     [(''schema_version'', JStr (rv_schema_version r)), (''scenario_identity'', JStr (rv_scenario_identity r)),
      (''protocol_receipt'', fault_receipt_json (rv_protocol_receipt r)),
      (''agent_tool_name'', JStr (rv_agent_tool_name r)), (''error_call_id'', JStr (rv_error_call_id r)),
      (''retry_call_id'', JStr (rv_retry_call_id r)),
      (''error_arguments_sha256'', JStr (rv_error_arguments_sha256 r)),
      (''retry_arguments_sha256'', JStr (rv_retry_arguments_sha256 r)),
      (''agent_error_observation_sha256'', JStr (rv_agent_error_observation_sha256 r)),
      (''expected_recovery_sha256'', JStr (rv_expected_recovery_sha256 r)),
      (''agent_recovery_observation_sha256'', JStr (rv_agent_recovery_observation_sha256 r))]"

definition recovery_material :: "recovery_receipt \<Rightarrow> json" where
  "recovery_material r = JObj (recovery_dict r)"

definition recovery_root :: "recovery_receipt \<Rightarrow> string" where
  "recovery_root r = sha256_hex (recovery_domain @ json_dumps (recovery_material r))"

definition recovery_payload :: "recovery_receipt \<Rightarrow> dict" where
  "recovery_payload r = recovery_dict r @ [(''receipt_root'', JStr (rv_receipt_root r))]"

definition recovery_fields :: "recovery_receipt \<Rightarrow> (bool \<times> error) list" where
  "recovery_fields r =
       literal_field ''schema_version'' recovery_schema (rv_schema_version r)
     @ sha_field ''scenario_identity'' (rv_scenario_identity r)
     @ ident_field ''agent_tool_name'' ''agent tool name'' 128 (rv_agent_tool_name r)
     @ ident_field ''error_call_id'' ''agent call ID'' 256 (rv_error_call_id r)
     @ ident_field ''retry_call_id'' ''agent call ID'' 256 (rv_retry_call_id r)
     @ sha_field ''error_arguments_sha256'' (rv_error_arguments_sha256 r)
     @ sha_field ''retry_arguments_sha256'' (rv_retry_arguments_sha256 r)
     @ sha_field ''agent_error_observation_sha256'' (rv_agent_error_observation_sha256 r)
     @ sha_field ''expected_recovery_sha256'' (rv_expected_recovery_sha256 r)
     @ sha_field ''agent_recovery_observation_sha256'' (rv_agent_recovery_observation_sha256 r)
     @ sha_field ''receipt_root'' (rv_receipt_root r)"

definition require_tool_error_shape :: "fault_receipt \<Rightarrow> error + unit" where
  "require_tool_error_shape p = require_all
     [(fr_kind p = TOOL_ERROR, ''MCP ToolError recovery bridge requires a TOOL_ERROR protocol receipt''),
      (fr_protocol_version p = protocol_version,
       ''MCP ToolError recovery bridge requires protocol version '' @ protocol_version),
      (fr_injection_point p = point ['':tools/call:'', fr_tool_name p, '':error.content[0].text:message-suffix''],
       ''MCP ToolError protocol receipt uses an unexpected observation boundary'')]"

definition require_tool_error :: "fault_spec \<Rightarrow> fault_receipt \<Rightarrow> error + unit" where
  "require_tool_error f p =
     rbind (require_tool_error_shape p) (\<lambda>_.
     require_all
       [(fs_kind f = TOOL_ERROR, ''MCP ToolError recovery bridge requires a TOOL_ERROR fault''),
        (fr_fault_identity p = fault_identity f,
         ''MCP ToolError protocol receipt identity does not match controlled fault''),
        (fr_tool_name p = fs_tool_name f, ''MCP ToolError protocol receipt tool does not match controlled fault''),
        (fr_payload_sha256 p = fault_payload_sha256 f,
         ''MCP ToolError protocol receipt payload does not match controlled fault''),
        (fr_observation_sha256 p =
           text_sha256 (''Error executing tool '' @ fs_tool_name f @ '': '' @ fs_payload_json f),
         ''MCP ToolError protocol observation does not match controlled fault envelope'')])"

definition recovery_bridge :: "recovery_receipt \<Rightarrow> error + unit" where
  "recovery_bridge r =
     rbind (require_tool_error_shape (rv_protocol_receipt r)) (\<lambda>_.
     require_all
       [(rv_agent_tool_name r = fr_tool_name (rv_protocol_receipt r),
         ''agent tool name does not match verified MCP protocol tool''),
        (rv_error_call_id r \<noteq> rv_retry_call_id r,
         ''MCP ToolError recovery requires distinct OpenAI call IDs''),
        (rv_error_arguments_sha256 r = rv_retry_arguments_sha256 r,
         ''MCP ToolError retry argument digests do not match''),
        (rv_agent_error_observation_sha256 r = fr_observation_sha256 (rv_protocol_receipt r),
         ''agent error digest does not match MCP protocol observation digest''),
        (rv_expected_recovery_sha256 r = rv_agent_recovery_observation_sha256 r,
         ''agent recovery digest does not match expected recovery digest'')])"

definition validate_recovery :: "recovery_receipt \<Rightarrow> error + recovery_receipt" where
  "validate_recovery r =
     rbind (validate_fault_receipt (rv_protocol_receipt r)) (\<lambda>_.
     rbind (raise_if (recovery_fields r)) (\<lambda>_.
     rbind (as_validation (recovery_bridge r)) (\<lambda>_.
     if recovery_root r \<noteq> rv_receipt_root r
     then Inl (verr ''MCP ToolError recovery receipt root does not match receipt content'') else Inr r)))"

definition recovery_keys :: "string list" where
  "recovery_keys =
     [''schema_version'', ''scenario_identity'', ''protocol_receipt'', ''agent_tool_name'', ''error_call_id'',
      ''retry_call_id'', ''error_arguments_sha256'', ''retry_arguments_sha256'',
      ''agent_error_observation_sha256'', ''expected_recovery_sha256'', ''agent_recovery_observation_sha256'',
      ''receipt_root'']"

definition read_recovery :: "dict \<Rightarrow> recovery_receipt option" where
  "read_recovery m = do {
     (if only_keys recovery_keys m then Some () else None);
     schema \<leftarrow> with_default recovery_schema as_str (dict_get m ''schema_version'');
     x1 \<leftarrow> as_str (dict_get m ''scenario_identity'');
     x2 \<leftarrow> read_fault_receipt (dict_get m ''protocol_receipt'');
     x3 \<leftarrow> as_str (dict_get m ''agent_tool_name'');
     x4 \<leftarrow> as_str (dict_get m ''error_call_id'');
     x5 \<leftarrow> as_str (dict_get m ''retry_call_id'');
     x6 \<leftarrow> as_str (dict_get m ''error_arguments_sha256'');
     x7 \<leftarrow> as_str (dict_get m ''retry_arguments_sha256'');
     x8 \<leftarrow> as_str (dict_get m ''agent_error_observation_sha256'');
     x9 \<leftarrow> as_str (dict_get m ''expected_recovery_sha256'');
     x10 \<leftarrow> as_str (dict_get m ''agent_recovery_observation_sha256'');
     root \<leftarrow> as_str (dict_get m ''receipt_root'');
     of_result (validate_recovery
       \<lparr>rv_schema_version = schema, rv_scenario_identity = x1, rv_protocol_receipt = x2, rv_agent_tool_name = x3,
        rv_error_call_id = x4, rv_retry_call_id = x5, rv_error_arguments_sha256 = x6,
        rv_retry_arguments_sha256 = x7, rv_agent_error_observation_sha256 = x8, rv_expected_recovery_sha256 = x9,
        rv_agent_recovery_observation_sha256 = x10, rv_receipt_root = root\<rparr>) }"

text \<open>
  What the constructor takes of the run: the two calls with their arguments, the error and the
  recovery the agent saw, and the text of the benign result.
\<close>

record recovery_run =
  rw_error_call :: string
  rw_retry_call :: string
  rw_error_arguments :: "dict option"
  rw_retry_arguments :: "dict option"
  rw_agent_error :: json
  rw_expected_recovery :: string
  rw_agent_recovery :: json

definition create_recovery ::
  "string \<Rightarrow> fault_spec \<Rightarrow> fault_receipt \<Rightarrow> string \<Rightarrow> recovery_run \<Rightarrow> error + recovery_receipt" where
  "create_recovery sid f protocol_receipt tool w =
     rbind (validate_fault_receipt protocol_receipt) (\<lambda>p.
     rbind (require_tool_error f p) (\<lambda>_.
     rbind (raise_if (ident_guards vale ''agent tool name'' tool
         @ ident_guards vale ''error call ID'' (rw_error_call w)
         @ ident_guards vale ''retry call ID'' (rw_retry_call w))) (\<lambda>_.
     rbind (require_all
       [(rw_error_call w \<noteq> rw_retry_call w, ''MCP ToolError recovery requires distinct OpenAI call IDs''),
        (tool = fs_tool_name f, ''agent tool name does not match the controlled MCP fault tool''),
        (rw_expected_recovery w \<noteq> [], ''expected MCP recovery text must be non-empty'')]) (\<lambda>_.
     rbind (arguments_sha256 (rw_error_arguments w)) (\<lambda>error_args.
     rbind (arguments_sha256 (rw_retry_arguments w)) (\<lambda>retry_args.
     rbind (require_all
       [(error_args = retry_args, ''MCP ToolError retry arguments do not match the original call'')]) (\<lambda>_.
     rbind (single_text_output ''agent MCP error result'' (rw_agent_error w)) (\<lambda>error_text.
     rbind (require_all
       [(text_sha256 error_text = fr_observation_sha256 p,
         ''agent-observed MCP ToolError does not match verified protocol observation'')]) (\<lambda>_.
     rbind (single_text_output ''agent MCP recovery result'' (rw_agent_recovery w)) (\<lambda>recovery_text.
     rbind (require_all
       [(text_sha256 (rw_expected_recovery w) = text_sha256 recovery_text,
         ''agent-observed MCP recovery does not match expected benign result'')]) (\<lambda>_.
     let r = \<lparr>rv_schema_version = recovery_schema, rv_scenario_identity = sid, rv_protocol_receipt = p,
          rv_agent_tool_name = tool, rv_error_call_id = rw_error_call w, rv_retry_call_id = rw_retry_call w,
          rv_error_arguments_sha256 = error_args, rv_retry_arguments_sha256 = retry_args,
          rv_agent_error_observation_sha256 = text_sha256 error_text,
          rv_expected_recovery_sha256 = text_sha256 (rw_expected_recovery w),
          rv_agent_recovery_observation_sha256 = text_sha256 recovery_text, rv_receipt_root = []\<rparr>
     in validate_recovery (r\<lparr>rv_receipt_root := recovery_root r\<rparr>))))))))))))"

definition recovery_source :: string where
  "recovery_source = ''bridge:mcp-agent:tool-error-recovery''"

definition recovery_event :: "recovery_receipt \<Rightarrow> int \<Rightarrow> py_datetime \<Rightarrow> error + evidence_event" where
  "recovery_event r = bridge_event recovery_source (recovery_payload r)"

end
