(* ===== verification/McpDrift.thy ===== *)
theory McpDrift
  imports McpBridges "HOL-Library.AList"
begin

section \<open>When the tool list changes under the agent (\<open>mcp/agent_*bridge.py\<close>)\<close>

text \<open>
  The host caches the tool list while the server removes, redefines or renames a tool. The agent
  calls what the cache shows, is refused, the host refreshes, and the agent adapts. A receipt
  binds the whole history: ordinals of every protocol step, digests of what each list showed and
  of what the calls returned; the fault receipt it embeds observed the very same history.
\<close>

subsection \<open>What the bridges share\<close>

text \<open>\<open>_require_protocol_chronology\<close>; the bridges differ in the two messages.\<close>

definition chronology_guards :: "string \<Rightarrow> string \<Rightarrow> int list \<Rightarrow> (bool \<times> string) list" where
  "chronology_guards label order ordinals =
     [(list_all (\<lambda>n. n \<ge> 0) ordinals, label @ '' protocol ordinals must be non-negative integers''),
      (list_all (\<lambda>(a, b). a < b) (zip ordinals (tl ordinals)),
       label @ '' protocol chronology must be '' @ order)]"

text \<open>\<open>_canonical_tool_names\<close>\<close>

definition canonical_tool_names :: "string \<Rightarrow> string list \<Rightarrow> error + string list" where
  "canonical_tool_names what names =
     rbind (rfor (\<lambda>n. raise_if (ident_guards vale ''model-visible tool name'' n)) names) (\<lambda>_.
     if \<not> distinct names then Inl (vale (''model-visible controlled '' @ what @ '' set must not contain duplicates''))
     else Inr (sort names))"

definition names_sha256 :: "string list \<Rightarrow> string" where
  "names_sha256 names = sha256_json (JArr (map JStr names))"

definition stale_query :: json where
  "stale_query = JObj [(''query'', JStr ''stale'')]"

definition unknown_tool :: "string \<Rightarrow> bool" where
  "unknown_tool text \<longleftrightarrow> text \<noteq> [] \<and> sublist ''unknown tool'' (py_lower text)"

definition payload_equals :: "string \<Rightarrow> json \<Rightarrow> dict \<Rightarrow> bool" where
  "payload_equals k v d \<longleftrightarrow> py_eq (opt_json (dict_get d k)) v"

text \<open>\<open>fault.payload\<close> as an object, with the message of the bridge.\<close>

definition fault_object :: "string \<Rightarrow> fault_spec \<Rightarrow> error + dict" where
  "fault_object label f = rbind (fault_payload f) (\<lambda>v. case v of
       JObj d \<Rightarrow> Inr d
     | _ \<Rightarrow> Inl (vale (label @ '' fault payload must be an object'')))"

subsection \<open>A removed tool (\<open>agent_stale_cache_bridge.py\<close>)\<close>

definition stale_cache_schema :: string where
  "stale_cache_schema = ''agent-evals/mcp-agent-tool-stale-cache-receipt/v2''"

definition stale_cache_domain :: string where
  "stale_cache_domain = ''agent-evals/mcp-agent-tool-stale-cache-receipt/v2'' @ [CHR 0x00]"

record stale_cache_receipt =
  sl_schema_version :: string
  sl_scenario_identity :: string
  sl_protocol_receipt :: fault_receipt
  sl_tool_name :: string
  sl_stale_call_id :: string
  sl_mcp_cache_hint_ttl_ms :: int
  sl_stale_arguments_sha256 :: string
  sl_stale_protocol_observation_sha256 :: string
  sl_agent_error_observation_sha256 :: string
  sl_initial_model_tool_names_sha256 :: string
  sl_refreshed_model_tool_names_sha256 :: string
  sl_initial_list_ordinal :: int
  sl_removal_ordinal :: int
  sl_cached_list_ordinal :: int
  sl_stale_call_ordinal :: int
  sl_cache_invalidation_ordinal :: int
  sl_refreshed_list_ordinal :: int
  sl_receipt_root :: string

definition stale_cache_dict :: "stale_cache_receipt \<Rightarrow> dict" where
  "stale_cache_dict r =
     [(''schema_version'', JStr (sl_schema_version r)), (''scenario_identity'', JStr (sl_scenario_identity r)),
      (''protocol_receipt'', fault_receipt_json (sl_protocol_receipt r)),
      (''tool_name'', JStr (sl_tool_name r)), (''stale_call_id'', JStr (sl_stale_call_id r)),
      (''mcp_cache_hint_ttl_ms'', JInt (sl_mcp_cache_hint_ttl_ms r)),
      (''stale_arguments_sha256'', JStr (sl_stale_arguments_sha256 r)),
      (''stale_protocol_observation_sha256'', JStr (sl_stale_protocol_observation_sha256 r)),
      (''agent_error_observation_sha256'', JStr (sl_agent_error_observation_sha256 r)),
      (''initial_model_tool_names_sha256'', JStr (sl_initial_model_tool_names_sha256 r)),
      (''refreshed_model_tool_names_sha256'', JStr (sl_refreshed_model_tool_names_sha256 r)),
      (''initial_list_ordinal'', JInt (sl_initial_list_ordinal r)),
      (''removal_ordinal'', JInt (sl_removal_ordinal r)),
      (''cached_list_ordinal'', JInt (sl_cached_list_ordinal r)),
      (''stale_call_ordinal'', JInt (sl_stale_call_ordinal r)),
      (''cache_invalidation_ordinal'', JInt (sl_cache_invalidation_ordinal r)),
      (''refreshed_list_ordinal'', JInt (sl_refreshed_list_ordinal r))]"

definition stale_cache_material :: "stale_cache_receipt \<Rightarrow> json" where
  "stale_cache_material r = JObj (stale_cache_dict r)"

definition stale_cache_root :: "stale_cache_receipt \<Rightarrow> string" where
  "stale_cache_root r = sha256_hex (stale_cache_domain @ json_dumps (stale_cache_material r))"

definition stale_cache_payload :: "stale_cache_receipt \<Rightarrow> dict" where
  "stale_cache_payload r = stale_cache_dict r @ [(''receipt_root'', JStr (sl_receipt_root r))]"

definition stale_cache_fields :: "stale_cache_receipt \<Rightarrow> (bool \<times> error) list" where
  "stale_cache_fields r =
       literal_field ''schema_version'' stale_cache_schema (sl_schema_version r)
     @ sha_field ''scenario_identity'' (sl_scenario_identity r)
     @ ident_field ''tool_name'' ''tool name'' 128 (sl_tool_name r)
     @ ident_field ''stale_call_id'' ''stale call ID'' 256 (sl_stale_call_id r)
     @ int_field ''mcp_cache_hint_ttl_ms'' 1 (Some max_cache_ttl_ms) (sl_mcp_cache_hint_ttl_ms r)
     @ sha_field ''stale_arguments_sha256'' (sl_stale_arguments_sha256 r)
     @ sha_field ''stale_protocol_observation_sha256'' (sl_stale_protocol_observation_sha256 r)
     @ sha_field ''agent_error_observation_sha256'' (sl_agent_error_observation_sha256 r)
     @ sha_field ''initial_model_tool_names_sha256'' (sl_initial_model_tool_names_sha256 r)
     @ sha_field ''refreshed_model_tool_names_sha256'' (sl_refreshed_model_tool_names_sha256 r)
     @ int_field ''initial_list_ordinal'' 0 None (sl_initial_list_ordinal r)
     @ int_field ''removal_ordinal'' 0 None (sl_removal_ordinal r)
     @ int_field ''cached_list_ordinal'' 0 None (sl_cached_list_ordinal r)
     @ int_field ''stale_call_ordinal'' 0 None (sl_stale_call_ordinal r)
     @ int_field ''cache_invalidation_ordinal'' 0 None (sl_cache_invalidation_ordinal r)
     @ int_field ''refreshed_list_ordinal'' 0 None (sl_refreshed_list_ordinal r)
     @ sha_field ''receipt_root'' (sl_receipt_root r)"

definition stale_cache_point :: "string \<Rightarrow> string" where
  "stale_cache_point tool =
     point ['':tools/list:cache-use-stale-after-remove:'', tool, '':refresh-proves-absent'']"

definition require_stale_cache_shape :: "fault_receipt \<Rightarrow> error + unit" where
  "require_stale_cache_shape p = require_all
     [(fr_kind p = TOOL_LIST_STALE_CACHE,
       ''MCP stale-cache bridge requires TOOL_LIST_STALE_CACHE protocol receipt''),
      (fr_protocol_version p = protocol_version,
       ''MCP stale-cache bridge requires protocol version '' @ protocol_version),
      (fr_injection_point p = stale_cache_point (fr_tool_name p),
       ''MCP stale-cache receipt uses an unexpected protocol boundary'')]"

definition stale_cache_observation :: "string \<Rightarrow> int \<Rightarrow> string" where
  "stale_cache_observation tool ttl = json_dumps (JObj
     [(''cached_tool_names'', JArr [JStr tool]), (''initial_tool_names'', JArr [JStr tool]),
      (''refreshed_tool_names'', JArr []), (''ttl_ms'', JInt ttl)])"

definition stale_cache_chronology :: "int list \<Rightarrow> (bool \<times> string) list" where
  "stale_cache_chronology = chronology_guards ''MCP stale-cache''
     ''initial-list < removal < cached-list < stale-call < cache-invalidation < refreshed-list''"

definition stale_cache_observed :: "fault_receipt \<Rightarrow> string \<Rightarrow> int \<Rightarrow> bool \<times> string" where
  "stale_cache_observed p tool ttl =
     (fr_observation_sha256 p = text_sha256 (stale_cache_observation tool ttl),
      ''stale-cache protocol receipt does not match bound discovery relation'')"

definition stale_cache_ordinals :: "stale_cache_receipt \<Rightarrow> int list" where
  "stale_cache_ordinals r =
     [sl_initial_list_ordinal r, sl_removal_ordinal r, sl_cached_list_ordinal r, sl_stale_call_ordinal r,
      sl_cache_invalidation_ordinal r, sl_refreshed_list_ordinal r]"

definition stale_cache_bridge :: "stale_cache_receipt \<Rightarrow> error + unit" where
  "stale_cache_bridge r =
     rbind (require_stale_cache_shape (sl_protocol_receipt r)) (\<lambda>_.
     require_all (
       [(sl_tool_name r = fr_tool_name (sl_protocol_receipt r),
         ''stale-cache tool name does not match verified MCP protocol receipt''),
        (fr_payload_sha256 (sl_protocol_receipt r) = sha256_json (JObj [(''ttl_ms'', JInt (sl_mcp_cache_hint_ttl_ms r))]),
         ''stale-cache protocol payload digest does not match bound TTL''),
        (sl_stale_arguments_sha256 r = sha256_json stale_query,
         ''stale argument digest does not match bound target call''),
        (sl_stale_protocol_observation_sha256 r = sl_agent_error_observation_sha256 r,
         ''agent stale-tool rejection digest does not match protocol rejection''),
        (sl_initial_model_tool_names_sha256 r = names_sha256 [sl_tool_name r],
         ''initial model-visible tool digest does not match controlled target''),
        (sl_refreshed_model_tool_names_sha256 r = names_sha256 [],
         ''refreshed model-visible tool digest does not prove target absence'')]
     @ stale_cache_chronology (stale_cache_ordinals r)
     @ [stale_cache_observed (sl_protocol_receipt r) (sl_tool_name r) (sl_mcp_cache_hint_ttl_ms r)]))"

definition validate_stale_cache :: "stale_cache_receipt \<Rightarrow> error + stale_cache_receipt" where
  "validate_stale_cache r =
     rbind (validate_fault_receipt (sl_protocol_receipt r)) (\<lambda>_.
     rbind (raise_if (stale_cache_fields r)) (\<lambda>_.
     rbind (as_validation (stale_cache_bridge r)) (\<lambda>_.
     if stale_cache_root r \<noteq> sl_receipt_root r
     then Inl (verr ''MCP stale-cache bridge root does not match receipt content'') else Inr r)))"

definition stale_cache_keys :: "string list" where
  "stale_cache_keys =
     [''schema_version'', ''scenario_identity'', ''protocol_receipt'', ''tool_name'', ''stale_call_id'',
      ''mcp_cache_hint_ttl_ms'', ''stale_arguments_sha256'', ''stale_protocol_observation_sha256'',
      ''agent_error_observation_sha256'', ''initial_model_tool_names_sha256'',
      ''refreshed_model_tool_names_sha256'', ''initial_list_ordinal'', ''removal_ordinal'',
      ''cached_list_ordinal'', ''stale_call_ordinal'', ''cache_invalidation_ordinal'',
      ''refreshed_list_ordinal'', ''receipt_root'']"

definition read_stale_cache :: "dict \<Rightarrow> stale_cache_receipt option" where
  "read_stale_cache m = do {
     (if only_keys stale_cache_keys m then Some () else None);
     schema \<leftarrow> with_default stale_cache_schema as_str (dict_get m ''schema_version'');
     x1 \<leftarrow> as_str (dict_get m ''scenario_identity'');
     x2 \<leftarrow> read_fault_receipt (dict_get m ''protocol_receipt'');
     x3 \<leftarrow> as_str (dict_get m ''tool_name'');
     x4 \<leftarrow> as_str (dict_get m ''stale_call_id'');
     x5 \<leftarrow> as_int (dict_get m ''mcp_cache_hint_ttl_ms'');
     x6 \<leftarrow> as_str (dict_get m ''stale_arguments_sha256'');
     x7 \<leftarrow> as_str (dict_get m ''stale_protocol_observation_sha256'');
     x8 \<leftarrow> as_str (dict_get m ''agent_error_observation_sha256'');
     x9 \<leftarrow> as_str (dict_get m ''initial_model_tool_names_sha256'');
     x10 \<leftarrow> as_str (dict_get m ''refreshed_model_tool_names_sha256'');
     x11 \<leftarrow> as_int (dict_get m ''initial_list_ordinal'');
     x12 \<leftarrow> as_int (dict_get m ''removal_ordinal'');
     x13 \<leftarrow> as_int (dict_get m ''cached_list_ordinal'');
     x14 \<leftarrow> as_int (dict_get m ''stale_call_ordinal'');
     x15 \<leftarrow> as_int (dict_get m ''cache_invalidation_ordinal'');
     x16 \<leftarrow> as_int (dict_get m ''refreshed_list_ordinal'');
     root \<leftarrow> as_str (dict_get m ''receipt_root'');
     of_result (validate_stale_cache
       \<lparr>sl_schema_version = schema, sl_scenario_identity = x1, sl_protocol_receipt = x2, sl_tool_name = x3,
        sl_stale_call_id = x4, sl_mcp_cache_hint_ttl_ms = x5, sl_stale_arguments_sha256 = x6,
        sl_stale_protocol_observation_sha256 = x7, sl_agent_error_observation_sha256 = x8,
        sl_initial_model_tool_names_sha256 = x9, sl_refreshed_model_tool_names_sha256 = x10,
        sl_initial_list_ordinal = x11, sl_removal_ordinal = x12, sl_cached_list_ordinal = x13,
        sl_stale_call_ordinal = x14, sl_cache_invalidation_ordinal = x15, sl_refreshed_list_ordinal = x16,
        sl_receipt_root = root\<rparr>) }"

definition require_stale_cache_payload :: "fault_spec \<Rightarrow> int \<Rightarrow> error + unit" where
  "require_stale_cache_payload f ttl =
     rbind (fault_object ''MCP stale-cache'' f) (\<lambda>d.
     require_all [(payload_equals ''ttl_ms'' (JInt ttl) d, ''MCP stale-cache TTL does not match controlled fault'')])"

definition require_stale_cache_fault :: "fault_spec \<Rightarrow> fault_receipt \<Rightarrow> int \<Rightarrow> error + unit" where
  "require_stale_cache_fault f p ttl =
     rbind (require_stale_cache_shape p) (\<lambda>_.
     rbind (require_all
       [(fs_kind f = TOOL_LIST_STALE_CACHE, ''MCP stale-cache bridge requires TOOL_LIST_STALE_CACHE'')]) (\<lambda>_.
     rbind (require_stale_cache_payload f ttl) (\<lambda>_.
     require_all
       [(fr_fault_identity p = fault_identity f,
         ''stale-cache protocol receipt identity does not match controlled fault''),
        (fr_tool_name p = fs_tool_name f, ''stale-cache protocol receipt tool does not match controlled fault''),
        (fr_payload_sha256 p = fault_payload_sha256 f,
         ''stale-cache protocol receipt payload does not match controlled fault'')])))"

text \<open>What the constructor takes of the run.\<close>

record stale_cache_run =
  sw_tool_name :: string
  sw_stale_call :: string
  sw_ttl_ms :: int
  sw_stale_arguments :: "dict option"
  sw_protocol_rejection :: string
  sw_agent_error :: json
  sw_initial_names :: "string list"
  sw_refreshed_names :: "string list"
  sw_initial_list :: int
  sw_removal :: int
  sw_cached_list :: int
  sw_stale_call_ordinal :: int
  sw_cache_invalidation :: int
  sw_refreshed_list :: int

definition stale_run_ordinals :: "stale_cache_run \<Rightarrow> int list" where
  "stale_run_ordinals w = [sw_initial_list w, sw_removal w, sw_cached_list w, sw_stale_call_ordinal w,
     sw_cache_invalidation w, sw_refreshed_list w]"

definition unsigned_stale_cache ::
  "string \<Rightarrow> fault_receipt \<Rightarrow> stale_cache_run \<Rightarrow> string \<Rightarrow> string \<Rightarrow> string \<Rightarrow> string list \<Rightarrow> string list \<Rightarrow> stale_cache_receipt" where
  "unsigned_stale_cache sid p w args protocol_sha agent_sha initial refreshed =
     \<lparr>sl_schema_version = stale_cache_schema, sl_scenario_identity = sid, sl_protocol_receipt = p,
      sl_tool_name = sw_tool_name w, sl_stale_call_id = sw_stale_call w, sl_mcp_cache_hint_ttl_ms = sw_ttl_ms w,
      sl_stale_arguments_sha256 = args, sl_stale_protocol_observation_sha256 = protocol_sha,
      sl_agent_error_observation_sha256 = agent_sha,
      sl_initial_model_tool_names_sha256 = names_sha256 initial,
      sl_refreshed_model_tool_names_sha256 = names_sha256 refreshed,
      sl_initial_list_ordinal = sw_initial_list w, sl_removal_ordinal = sw_removal w,
      sl_cached_list_ordinal = sw_cached_list w, sl_stale_call_ordinal = sw_stale_call_ordinal w,
      sl_cache_invalidation_ordinal = sw_cache_invalidation w, sl_refreshed_list_ordinal = sw_refreshed_list w,
      sl_receipt_root = []\<rparr>"

definition create_stale_cache ::
  "string \<Rightarrow> fault_spec \<Rightarrow> fault_receipt \<Rightarrow> stale_cache_run \<Rightarrow> error + stale_cache_receipt" where
  "create_stale_cache sid f protocol_receipt w =
     rbind (validate_fault_receipt protocol_receipt) (\<lambda>p.
     rbind (require_stale_cache_fault f p (sw_ttl_ms w)) (\<lambda>_.
     rbind (raise_if (ident_guards vale ''tool name'' (sw_tool_name w)
         @ ident_guards vale ''stale call ID'' (sw_stale_call w))) (\<lambda>_.
     rbind (require_all
       [(sw_tool_name w = fs_tool_name f, ''stale-cache tool name does not match controlled MCP fault'')]) (\<lambda>_.
     rbind (arguments_sha256 (sw_stale_arguments w)) (\<lambda>args.
     rbind (require_all
       [(args = sha256_json stale_query, ''MCP stale-cache call does not use bound stale arguments''),
        (unknown_tool (sw_protocol_rejection w),
         ''removed MCP stale-cache tool must expose an unknown-tool rejection'')]) (\<lambda>_.
     rbind (single_text_output ''agent MCP stale-tool rejection'' (sw_agent_error w)) (\<lambda>error_text.
     rbind (require_all
       [(text_sha256 (sw_protocol_rejection w) = text_sha256 error_text,
         ''agent-observed stale-tool rejection does not match MCP observation'')]) (\<lambda>_.
     rbind (canonical_tool_names ''tool'' (sw_initial_names w)) (\<lambda>initial.
     rbind (canonical_tool_names ''tool'' (sw_refreshed_names w)) (\<lambda>refreshed.
     rbind (require_all (
       [(initial = [sw_tool_name w],
         ''initial model-visible controlled tool set must contain only target''),
        (refreshed = [], ''refreshed model-visible controlled tool set must prove target absence'')]
       @ stale_cache_chronology (stale_run_ordinals w)
       @ [stale_cache_observed p (sw_tool_name w) (sw_ttl_ms w)])) (\<lambda>_.
     let r = unsigned_stale_cache sid p w args (text_sha256 (sw_protocol_rejection w)) (text_sha256 error_text)
               initial refreshed
     in validate_stale_cache (r\<lparr>sl_receipt_root := stale_cache_root r\<rparr>))))))))))))"

definition stale_cache_source :: string where
  "stale_cache_source = ''bridge:mcp-agent:tool-stale-cache''"

definition stale_cache_event :: "stale_cache_receipt \<Rightarrow> int \<Rightarrow> py_datetime \<Rightarrow> error + evidence_event" where
  "stale_cache_event r = bridge_event stale_cache_source (stale_cache_payload r)"

text \<open>\<open>create_stale_cache_protocol_receipt\<close>\<close>

definition create_stale_cache_protocol ::
  "fault_spec \<Rightarrow> int \<Rightarrow> string list \<Rightarrow> string list \<Rightarrow> string list \<Rightarrow> error + fault_receipt" where
  "create_stale_cache_protocol f ttl initial_names cached_names refreshed_names =
     rbind (require_all
       [(fs_kind f = TOOL_LIST_STALE_CACHE,
         ''agent stale-cache protocol receipt requires TOOL_LIST_STALE_CACHE'')]) (\<lambda>_.
     rbind (require_stale_cache_payload f ttl) (\<lambda>_.
     rbind (canonical_tool_names ''tool'' initial_names) (\<lambda>initial.
     rbind (canonical_tool_names ''tool'' cached_names) (\<lambda>cached.
     rbind (canonical_tool_names ''tool'' refreshed_names) (\<lambda>refreshed.
     rbind (require_all
       [(initial = [fs_tool_name f], ''stale-cache initial discovery must contain only controlled target''),
        (cached = initial, ''stale-cache post-removal cached discovery must retain controlled target''),
        (refreshed = [], ''stale-cache refreshed discovery must prove controlled target absence'')]) (\<lambda>_.
     create_fault_receipt f (stale_cache_point (fs_tool_name f)) (stale_cache_observation (fs_tool_name f) ttl)))))))"

subsection \<open>A redefined tool (\<open>agent_schema_bridge.py\<close>)\<close>

definition schema_drift_schema :: string where
  "schema_drift_schema = ''agent-evals/mcp-agent-tool-schema-drift-receipt/v3''"

definition schema_drift_domain :: string where
  "schema_drift_domain = ''agent-evals/mcp-agent-tool-schema-drift-receipt/v3'' @ [CHR 0x00]"

record schema_drift_receipt =
  sd_schema_version :: string
  sd_scenario_identity :: string
  sd_protocol_receipt :: fault_receipt
  sd_agent_tool_name :: string
  sd_stale_call_id :: string
  sd_recovery_call_id :: string
  sd_mcp_cache_hint_ttl_ms :: int
  sd_initial_schema_sha256 :: string
  sd_cached_schema_sha256 :: string
  sd_refreshed_schema_sha256 :: string
  sd_stale_arguments_sha256 :: string
  sd_recovery_arguments_sha256 :: string
  sd_stale_protocol_observation_sha256 :: string
  sd_agent_error_observation_sha256 :: string
  sd_expected_recovery_sha256 :: string
  sd_protocol_recovery_observation_sha256 :: string
  sd_agent_recovery_observation_sha256 :: string
  sd_initial_list_ordinal :: int
  sd_schema_swap_ordinal :: int
  sd_cached_list_ordinal :: int
  sd_stale_call_ordinal :: int
  sd_cache_invalidation_ordinal :: int
  sd_refreshed_list_ordinal :: int
  sd_recovery_call_ordinal :: int
  sd_receipt_root :: string

definition schema_drift_dict :: "schema_drift_receipt \<Rightarrow> dict" where
  "schema_drift_dict r =
     [(''schema_version'', JStr (sd_schema_version r)), (''scenario_identity'', JStr (sd_scenario_identity r)),
      (''protocol_receipt'', fault_receipt_json (sd_protocol_receipt r)),
      (''agent_tool_name'', JStr (sd_agent_tool_name r)), (''stale_call_id'', JStr (sd_stale_call_id r)),
      (''recovery_call_id'', JStr (sd_recovery_call_id r)),
      (''mcp_cache_hint_ttl_ms'', JInt (sd_mcp_cache_hint_ttl_ms r)),
      (''initial_schema_sha256'', JStr (sd_initial_schema_sha256 r)),
      (''cached_schema_sha256'', JStr (sd_cached_schema_sha256 r)),
      (''refreshed_schema_sha256'', JStr (sd_refreshed_schema_sha256 r)),
      (''stale_arguments_sha256'', JStr (sd_stale_arguments_sha256 r)),
      (''recovery_arguments_sha256'', JStr (sd_recovery_arguments_sha256 r)),
      (''stale_protocol_observation_sha256'', JStr (sd_stale_protocol_observation_sha256 r)),
      (''agent_error_observation_sha256'', JStr (sd_agent_error_observation_sha256 r)),
      (''expected_recovery_sha256'', JStr (sd_expected_recovery_sha256 r)),
      (''protocol_recovery_observation_sha256'', JStr (sd_protocol_recovery_observation_sha256 r)),
      (''agent_recovery_observation_sha256'', JStr (sd_agent_recovery_observation_sha256 r)),
      (''initial_list_ordinal'', JInt (sd_initial_list_ordinal r)),
      (''schema_swap_ordinal'', JInt (sd_schema_swap_ordinal r)),
      (''cached_list_ordinal'', JInt (sd_cached_list_ordinal r)),
      (''stale_call_ordinal'', JInt (sd_stale_call_ordinal r)),
      (''cache_invalidation_ordinal'', JInt (sd_cache_invalidation_ordinal r)),
      (''refreshed_list_ordinal'', JInt (sd_refreshed_list_ordinal r)),
      (''recovery_call_ordinal'', JInt (sd_recovery_call_ordinal r))]"

definition schema_drift_material :: "schema_drift_receipt \<Rightarrow> json" where
  "schema_drift_material r = JObj (schema_drift_dict r)"

definition schema_drift_root :: "schema_drift_receipt \<Rightarrow> string" where
  "schema_drift_root r = sha256_hex (schema_drift_domain @ json_dumps (schema_drift_material r))"

definition schema_drift_payload :: "schema_drift_receipt \<Rightarrow> dict" where
  "schema_drift_payload r = schema_drift_dict r @ [(''receipt_root'', JStr (sd_receipt_root r))]"

definition schema_drift_fields :: "schema_drift_receipt \<Rightarrow> (bool \<times> error) list" where
  "schema_drift_fields r =
       literal_field ''schema_version'' schema_drift_schema (sd_schema_version r)
     @ sha_field ''scenario_identity'' (sd_scenario_identity r)
     @ ident_field ''agent_tool_name'' ''agent tool name'' 128 (sd_agent_tool_name r)
     @ ident_field ''stale_call_id'' ''agent call ID'' 256 (sd_stale_call_id r)
     @ ident_field ''recovery_call_id'' ''agent call ID'' 256 (sd_recovery_call_id r)
     @ int_field ''mcp_cache_hint_ttl_ms'' 1 (Some max_cache_ttl_ms) (sd_mcp_cache_hint_ttl_ms r)
     @ sha_field ''initial_schema_sha256'' (sd_initial_schema_sha256 r)
     @ sha_field ''cached_schema_sha256'' (sd_cached_schema_sha256 r)
     @ sha_field ''refreshed_schema_sha256'' (sd_refreshed_schema_sha256 r)
     @ sha_field ''stale_arguments_sha256'' (sd_stale_arguments_sha256 r)
     @ sha_field ''recovery_arguments_sha256'' (sd_recovery_arguments_sha256 r)
     @ sha_field ''stale_protocol_observation_sha256'' (sd_stale_protocol_observation_sha256 r)
     @ sha_field ''agent_error_observation_sha256'' (sd_agent_error_observation_sha256 r)
     @ sha_field ''expected_recovery_sha256'' (sd_expected_recovery_sha256 r)
     @ sha_field ''protocol_recovery_observation_sha256'' (sd_protocol_recovery_observation_sha256 r)
     @ sha_field ''agent_recovery_observation_sha256'' (sd_agent_recovery_observation_sha256 r)
     @ int_field ''initial_list_ordinal'' 0 None (sd_initial_list_ordinal r)
     @ int_field ''schema_swap_ordinal'' 0 None (sd_schema_swap_ordinal r)
     @ int_field ''cached_list_ordinal'' 0 None (sd_cached_list_ordinal r)
     @ int_field ''stale_call_ordinal'' 0 None (sd_stale_call_ordinal r)
     @ int_field ''cache_invalidation_ordinal'' 0 None (sd_cache_invalidation_ordinal r)
     @ int_field ''refreshed_list_ordinal'' 0 None (sd_refreshed_list_ordinal r)
     @ int_field ''recovery_call_ordinal'' 0 None (sd_recovery_call_ordinal r)
     @ sha_field ''receipt_root'' (sd_receipt_root r)"

definition schema_drift_point :: "string \<Rightarrow> string" where
  "schema_drift_point tool = point ['':tools/list:agent-schema-drift:'', tool,
     '':swap-then-cached-old:call-rejects-old:host-refresh-new:call-succeeds-new'']"

definition require_schema_drift_shape :: "fault_receipt \<Rightarrow> error + unit" where
  "require_schema_drift_shape p = require_all
     [(fr_kind p = TOOL_SCHEMA_DRIFT, ''MCP schema-drift bridge requires TOOL_SCHEMA_DRIFT protocol receipt''),
      (fr_protocol_version p = protocol_version,
       ''MCP schema-drift bridge requires protocol version '' @ protocol_version),
      (fr_injection_point p = schema_drift_point (fr_tool_name p),
       ''MCP schema-drift receipt uses an unexpected protocol observation boundary'')]"

text \<open>\<open>_schema_contract\<close> of a mapping from required names to types.\<close>

definition schema_contract :: "(string \<times> string) list \<Rightarrow> json" where
  "schema_contract required_types = JObj
     [(''property_types'', JObj (map (\<lambda>kv. (fst kv, JStr (snd kv))) (sort_key fst required_types))),
      (''required'', JArr (map JStr (sort (map fst required_types))))]"

definition initial_contract_sha256 :: string where
  "initial_contract_sha256 = sha256_json (schema_contract [(''query'', ''string'')])"

definition replacement_contract_sha256 :: string where
  "replacement_contract_sha256 =
     sha256_json (schema_contract [(''customer_id'', ''integer''), (''include_history'', ''boolean'')])"

definition replacement_query :: json where
  "replacement_query = JObj [(''customer_id'', JInt 7), (''include_history'', JBool True)]"

definition schema_recovery_text :: string where
  "schema_recovery_text = ''replacement:7:true''"

definition schema_drift_chronology :: "int list \<Rightarrow> (bool \<times> string) list" where
  "schema_drift_chronology = chronology_guards ''MCP schema-drift''
     ''initial-list < swap < cached-list < stale-call < cache-invalidation < refreshed-list < recovery-call''"

definition schema_drift_observation ::
  "int \<Rightarrow> string \<Rightarrow> string \<Rightarrow> string \<Rightarrow> string \<Rightarrow> string \<Rightarrow> int list \<Rightarrow> string" where
  "schema_drift_observation ttl initial cached refreshed stale recovery ordinals = json_dumps (JObj
     [(''cache_invalidation_ordinal'', JInt (ordinals ! 4)), (''cached_list_ordinal'', JInt (ordinals ! 2)),
      (''cached_schema_sha256'', JStr cached), (''initial_list_ordinal'', JInt (ordinals ! 0)),
      (''initial_schema_sha256'', JStr initial), (''protocol_recovery_observation_sha256'', JStr recovery),
      (''recovery_call_ordinal'', JInt (ordinals ! 6)), (''refreshed_list_ordinal'', JInt (ordinals ! 5)),
      (''refreshed_schema_sha256'', JStr refreshed), (''schema_swap_ordinal'', JInt (ordinals ! 1)),
      (''stale_call_ordinal'', JInt (ordinals ! 3)), (''stale_protocol_observation_sha256'', JStr stale),
      (''ttl_ms'', JInt ttl)])"

definition schema_drift_ordinals :: "schema_drift_receipt \<Rightarrow> int list" where
  "schema_drift_ordinals r =
     [sd_initial_list_ordinal r, sd_schema_swap_ordinal r, sd_cached_list_ordinal r, sd_stale_call_ordinal r,
      sd_cache_invalidation_ordinal r, sd_refreshed_list_ordinal r, sd_recovery_call_ordinal r]"

definition schema_drift_bridge :: "schema_drift_receipt \<Rightarrow> error + unit" where
  "schema_drift_bridge r =
     rbind (require_schema_drift_shape (sd_protocol_receipt r)) (\<lambda>_.
     require_all (
       [(sd_agent_tool_name r = fr_tool_name (sd_protocol_receipt r),
         ''agent tool name does not match verified MCP schema-drift tool''),
        (sd_stale_call_id r \<noteq> sd_recovery_call_id r,
         ''MCP schema-drift recovery requires distinct OpenAI call IDs''),
        (sd_initial_schema_sha256 r = initial_contract_sha256,
         ''initial schema digest does not match bound v1 schema''),
        (sd_cached_schema_sha256 r = initial_contract_sha256,
         ''cached schema digest does not match bound v1 schema''),
        (sd_refreshed_schema_sha256 r = replacement_contract_sha256,
         ''refreshed schema digest does not match bound replacement schema''),
        (sd_stale_arguments_sha256 r = sha256_json stale_query,
         ''stale argument digest does not match bound v1 call''),
        (sd_recovery_arguments_sha256 r = sha256_json replacement_query,
         ''recovery argument digest does not match bound replacement call''),
        (sd_stale_protocol_observation_sha256 r = sd_agent_error_observation_sha256 r,
         ''agent schema rejection digest does not match protocol rejection digest''),
        (sd_expected_recovery_sha256 r = text_sha256 schema_recovery_text,
         ''expected recovery digest does not match bound replacement result''),
        (sd_protocol_recovery_observation_sha256 r = sd_expected_recovery_sha256 r,
         ''protocol recovery digest does not match expected replacement result''),
        (sd_agent_recovery_observation_sha256 r = sd_expected_recovery_sha256 r,
         ''agent recovery digest does not match expected replacement result'')]
     @ schema_drift_chronology (schema_drift_ordinals r)
     @ [(fr_observation_sha256 (sd_protocol_receipt r) =
           text_sha256 (schema_drift_observation (sd_mcp_cache_hint_ttl_ms r) (sd_initial_schema_sha256 r)
             (sd_cached_schema_sha256 r) (sd_refreshed_schema_sha256 r) (sd_stale_protocol_observation_sha256 r)
             (sd_protocol_recovery_observation_sha256 r) (schema_drift_ordinals r)),
         ''schema-drift protocol receipt does not match root-bound relation'')]))"

definition validate_schema_drift :: "schema_drift_receipt \<Rightarrow> error + schema_drift_receipt" where
  "validate_schema_drift r =
     rbind (validate_fault_receipt (sd_protocol_receipt r)) (\<lambda>_.
     rbind (raise_if (schema_drift_fields r)) (\<lambda>_.
     rbind (as_validation (schema_drift_bridge r)) (\<lambda>_.
     if schema_drift_root r \<noteq> sd_receipt_root r
     then Inl (verr ''MCP schema-drift receipt root does not match receipt content'') else Inr r)))"

definition schema_drift_keys :: "string list" where
  "schema_drift_keys =
     [''schema_version'', ''scenario_identity'', ''protocol_receipt'', ''agent_tool_name'', ''stale_call_id'',
      ''recovery_call_id'', ''mcp_cache_hint_ttl_ms'', ''initial_schema_sha256'', ''cached_schema_sha256'',
      ''refreshed_schema_sha256'', ''stale_arguments_sha256'', ''recovery_arguments_sha256'',
      ''stale_protocol_observation_sha256'', ''agent_error_observation_sha256'', ''expected_recovery_sha256'',
      ''protocol_recovery_observation_sha256'', ''agent_recovery_observation_sha256'', ''initial_list_ordinal'',
      ''schema_swap_ordinal'', ''cached_list_ordinal'', ''stale_call_ordinal'', ''cache_invalidation_ordinal'',
      ''refreshed_list_ordinal'', ''recovery_call_ordinal'', ''receipt_root'']"

definition read_schema_drift :: "dict \<Rightarrow> schema_drift_receipt option" where
  "read_schema_drift m = do {
     (if only_keys schema_drift_keys m then Some () else None);
     schema \<leftarrow> with_default schema_drift_schema as_str (dict_get m ''schema_version'');
     x1 \<leftarrow> as_str (dict_get m ''scenario_identity'');
     x2 \<leftarrow> read_fault_receipt (dict_get m ''protocol_receipt'');
     x3 \<leftarrow> as_str (dict_get m ''agent_tool_name'');
     x4 \<leftarrow> as_str (dict_get m ''stale_call_id'');
     x5 \<leftarrow> as_str (dict_get m ''recovery_call_id'');
     x6 \<leftarrow> as_int (dict_get m ''mcp_cache_hint_ttl_ms'');
     x7 \<leftarrow> as_str (dict_get m ''initial_schema_sha256'');
     x8 \<leftarrow> as_str (dict_get m ''cached_schema_sha256'');
     x9 \<leftarrow> as_str (dict_get m ''refreshed_schema_sha256'');
     x10 \<leftarrow> as_str (dict_get m ''stale_arguments_sha256'');
     x11 \<leftarrow> as_str (dict_get m ''recovery_arguments_sha256'');
     x12 \<leftarrow> as_str (dict_get m ''stale_protocol_observation_sha256'');
     x13 \<leftarrow> as_str (dict_get m ''agent_error_observation_sha256'');
     x14 \<leftarrow> as_str (dict_get m ''expected_recovery_sha256'');
     x15 \<leftarrow> as_str (dict_get m ''protocol_recovery_observation_sha256'');
     x16 \<leftarrow> as_str (dict_get m ''agent_recovery_observation_sha256'');
     x17 \<leftarrow> as_int (dict_get m ''initial_list_ordinal'');
     x18 \<leftarrow> as_int (dict_get m ''schema_swap_ordinal'');
     x19 \<leftarrow> as_int (dict_get m ''cached_list_ordinal'');
     x20 \<leftarrow> as_int (dict_get m ''stale_call_ordinal'');
     x21 \<leftarrow> as_int (dict_get m ''cache_invalidation_ordinal'');
     x22 \<leftarrow> as_int (dict_get m ''refreshed_list_ordinal'');
     x23 \<leftarrow> as_int (dict_get m ''recovery_call_ordinal'');
     root \<leftarrow> as_str (dict_get m ''receipt_root'');
     of_result (validate_schema_drift
       \<lparr>sd_schema_version = schema, sd_scenario_identity = x1, sd_protocol_receipt = x2, sd_agent_tool_name = x3,
        sd_stale_call_id = x4, sd_recovery_call_id = x5, sd_mcp_cache_hint_ttl_ms = x6,
        sd_initial_schema_sha256 = x7, sd_cached_schema_sha256 = x8, sd_refreshed_schema_sha256 = x9,
        sd_stale_arguments_sha256 = x10, sd_recovery_arguments_sha256 = x11,
        sd_stale_protocol_observation_sha256 = x12, sd_agent_error_observation_sha256 = x13,
        sd_expected_recovery_sha256 = x14, sd_protocol_recovery_observation_sha256 = x15,
        sd_agent_recovery_observation_sha256 = x16, sd_initial_list_ordinal = x17, sd_schema_swap_ordinal = x18,
        sd_cached_list_ordinal = x19, sd_stale_call_ordinal = x20, sd_cache_invalidation_ordinal = x21,
        sd_refreshed_list_ordinal = x22, sd_recovery_call_ordinal = x23, sd_receipt_root = root\<rparr>) }"

definition require_schema_drift_payload :: "fault_spec \<Rightarrow> int \<Rightarrow> error + unit" where
  "require_schema_drift_payload f ttl =
     rbind (fault_object ''MCP schema-drift'' f) (\<lambda>d.
     require_all
       [(payload_equals ''ttl_ms'' (JInt ttl) d, ''MCP schema-drift TTL does not match controlled fault''),
        (payload_equals ''initial_required'' initial_required d,
         ''MCP schema-drift initial contract does not match v1''),
        (payload_equals ''replacement_required'' replacement_required d,
         ''MCP schema-drift replacement contract does not match v1'')])"

definition require_schema_drift_fault :: "fault_spec \<Rightarrow> fault_receipt \<Rightarrow> int \<Rightarrow> error + unit" where
  "require_schema_drift_fault f p ttl =
     rbind (require_schema_drift_shape p) (\<lambda>_.
     rbind (require_all
       [(fs_kind f = TOOL_SCHEMA_DRIFT, ''MCP schema-drift bridge requires TOOL_SCHEMA_DRIFT'')]) (\<lambda>_.
     rbind (require_schema_drift_payload f ttl) (\<lambda>_.
     require_all
       [(fr_fault_identity p = fault_identity f,
         ''schema-drift protocol receipt identity does not match controlled fault''),
        (fr_tool_name p = fs_tool_name f, ''schema-drift protocol receipt tool does not match controlled fault''),
        (fr_payload_sha256 p = fault_payload_sha256 f,
         ''schema-drift protocol receipt payload does not match controlled fault'')])))"

text \<open>\<open>schema_projection\<close>: the type of every required property; a repeated name keeps its place.\<close>

definition property_type :: "dict \<Rightarrow> json \<Rightarrow> error + string \<times> string" where
  "property_type properties v = (case v of
       JStr name \<Rightarrow> (case dict_get properties name of
           Some (JObj p) \<Rightarrow> (case as_str (dict_get p ''type'') of
               None \<Rightarrow> Inl (vale (''MCP tool schema lacks a scalar type for '' @ str_repr name))
             | Some ty \<Rightarrow> Inr (name, ty))
         | _ \<Rightarrow> Inl (vale (''MCP tool schema lacks property definition for '' @ str_repr name)))
     | _ \<Rightarrow> Inl (vale ''MCP tool schema contains a non-string required property''))"

definition schema_projection :: "dict \<Rightarrow> error + json" where
  "schema_projection schema =
     (case (case dict_get schema ''required'' of None \<Rightarrow> JArr [] | Some v \<Rightarrow> v,
            case dict_get schema ''properties'' of None \<Rightarrow> JObj [] | Some v \<Rightarrow> v) of
        (JArr required, JObj properties) \<Rightarrow>
          rbind (rmap (property_type properties) required) (\<lambda>types.
          Inr (schema_contract (foldl (\<lambda>m kv. AList.update (fst kv) (snd kv) m) [] types)))
      | _ \<Rightarrow> Inl (vale ''MCP tool schema lacks required/properties structure''))"

definition schema_digest :: "dict \<Rightarrow> error + string" where
  "schema_digest schema = rbind (schema_projection schema) (\<lambda>v. Inr (sha256_json v))"

text \<open>The three schemas of the history, digested in order.\<close>

definition drift_schemas :: "dict \<Rightarrow> dict \<Rightarrow> dict \<Rightarrow> error + string \<times> string \<times> string" where
  "drift_schemas initial cached refreshed =
     rbind (schema_digest initial) (\<lambda>i.
     rbind (schema_digest cached) (\<lambda>c.
     rbind (schema_digest refreshed) (\<lambda>f.
     rbind (require_all
       [(i = initial_contract_sha256, ''initial MCP schema does not match the bound v1 contract''),
        (c = initial_contract_sha256, ''cached MCP schema does not match the bound v1 contract''),
        (f = replacement_contract_sha256, ''refreshed MCP schema does not match the bound replacement contract'')]) (\<lambda>_.
     Inr (i, c, f)))))"

record drift_run =
  dw_stale_call :: string
  dw_recovery_call :: string
  dw_ttl_ms :: int
  dw_stale_arguments :: "dict option"
  dw_recovery_arguments :: "dict option"
  dw_protocol_rejection :: string
  dw_agent_error :: json
  dw_protocol_recovery :: string
  dw_agent_recovery :: json
  dw_initial_list :: int
  dw_swap :: int
  dw_cached_list :: int
  dw_stale_call_ordinal :: int
  dw_cache_invalidation :: int
  dw_refreshed_list :: int
  dw_recovery_call_ordinal :: int

definition drift_ordinals :: "drift_run \<Rightarrow> int list" where
  "drift_ordinals w = [dw_initial_list w, dw_swap w, dw_cached_list w, dw_stale_call_ordinal w,
     dw_cache_invalidation w, dw_refreshed_list w, dw_recovery_call_ordinal w]"

definition unsigned_schema_drift ::
  "string \<Rightarrow> fault_receipt \<Rightarrow> string \<Rightarrow> drift_run \<Rightarrow> string \<times> string \<times> string \<Rightarrow> string \<times> string \<Rightarrow> string \<times> string
   \<Rightarrow> schema_drift_receipt" where
  "unsigned_schema_drift sid p tool w schemas args agent =
     \<lparr>sd_schema_version = schema_drift_schema, sd_scenario_identity = sid, sd_protocol_receipt = p,
      sd_agent_tool_name = tool, sd_stale_call_id = dw_stale_call w, sd_recovery_call_id = dw_recovery_call w,
      sd_mcp_cache_hint_ttl_ms = dw_ttl_ms w, sd_initial_schema_sha256 = fst schemas,
      sd_cached_schema_sha256 = fst (snd schemas), sd_refreshed_schema_sha256 = snd (snd schemas),
      sd_stale_arguments_sha256 = fst args, sd_recovery_arguments_sha256 = snd args,
      sd_stale_protocol_observation_sha256 = text_sha256 (dw_protocol_rejection w),
      sd_agent_error_observation_sha256 = fst agent,
      sd_expected_recovery_sha256 = text_sha256 schema_recovery_text,
      sd_protocol_recovery_observation_sha256 = text_sha256 (dw_protocol_recovery w),
      sd_agent_recovery_observation_sha256 = snd agent,
      sd_initial_list_ordinal = dw_initial_list w, sd_schema_swap_ordinal = dw_swap w,
      sd_cached_list_ordinal = dw_cached_list w, sd_stale_call_ordinal = dw_stale_call_ordinal w,
      sd_cache_invalidation_ordinal = dw_cache_invalidation w, sd_refreshed_list_ordinal = dw_refreshed_list w,
      sd_recovery_call_ordinal = dw_recovery_call_ordinal w, sd_receipt_root = []\<rparr>"

text \<open>The calls of the agent in a schema drift: their arguments, then what it saw of them.\<close>

definition schema_drift_arguments :: "drift_run \<Rightarrow> error + string \<times> string" where
  "schema_drift_arguments w =
     rbind (arguments_sha256 (dw_stale_arguments w)) (\<lambda>stale.
     rbind (arguments_sha256 (dw_recovery_arguments w)) (\<lambda>recovery.
     rbind (require_all
       [(stale = sha256_json stale_query, ''first MCP schema-drift call does not use the bound stale arguments''),
        (recovery = sha256_json replacement_query,
         ''MCP schema-drift recovery does not use the bound replacement arguments''),
        (dw_protocol_rejection w \<noteq> [], ''stale MCP schema-drift call must expose a non-empty rejection'')]) (\<lambda>_.
     Inr (stale, recovery))))"

definition schema_drift_agent :: "drift_run \<Rightarrow> error + string \<times> string" where
  "schema_drift_agent w =
     rbind (single_text_output ''agent MCP stale-call error'' (dw_agent_error w)) (\<lambda>error_text.
     rbind (require_all
       [(text_sha256 (dw_protocol_rejection w) = text_sha256 error_text,
         ''agent-observed schema rejection does not match MCP protocol observation''),
        (dw_protocol_recovery w = schema_recovery_text,
         ''MCP schema-drift recovery does not match the bound replacement result'')]) (\<lambda>_.
     rbind (single_text_output ''agent MCP schema-drift recovery'' (dw_agent_recovery w)) (\<lambda>recovery_text.
     rbind (require_all
       [(text_sha256 (dw_protocol_recovery w) = text_sha256 schema_recovery_text,
         ''MCP protocol recovery does not match expected replacement result''),
        (text_sha256 recovery_text = text_sha256 schema_recovery_text,
         ''agent-observed recovery does not match expected replacement result'')]) (\<lambda>_.
     Inr (text_sha256 error_text, text_sha256 recovery_text)))))"

definition create_schema_drift ::
  "string \<Rightarrow> fault_spec \<Rightarrow> fault_receipt \<Rightarrow> string \<Rightarrow> dict \<Rightarrow> dict \<Rightarrow> dict \<Rightarrow> drift_run \<Rightarrow> error + schema_drift_receipt" where
  "create_schema_drift sid f protocol_receipt tool initial cached refreshed w =
     rbind (validate_fault_receipt protocol_receipt) (\<lambda>p.
     rbind (require_schema_drift_fault f p (dw_ttl_ms w)) (\<lambda>_.
     rbind (raise_if (ident_guards vale ''agent tool name'' tool
         @ ident_guards vale ''stale call ID'' (dw_stale_call w)
         @ ident_guards vale ''recovery call ID'' (dw_recovery_call w))) (\<lambda>_.
     rbind (require_all
       [(dw_stale_call w \<noteq> dw_recovery_call w, ''MCP schema-drift recovery requires distinct OpenAI call IDs''),
        (tool = fs_tool_name f, ''agent tool name does not match controlled MCP schema-drift tool'')]) (\<lambda>_.
     rbind (drift_schemas initial cached refreshed) (\<lambda>schemas.
     rbind (schema_drift_arguments w) (\<lambda>args.
     rbind (schema_drift_agent w) (\<lambda>agent.
     rbind (require_all (schema_drift_chronology (drift_ordinals w)
       @ [(fr_observation_sha256 p = text_sha256 (schema_drift_observation (dw_ttl_ms w) (fst schemas)
             (fst (snd schemas)) (snd (snd schemas)) (text_sha256 (dw_protocol_rejection w))
             (text_sha256 (dw_protocol_recovery w)) (drift_ordinals w)),
           ''MCP schema-drift protocol receipt does not match observed relation'')])) (\<lambda>_.
     let r = unsigned_schema_drift sid p tool w schemas args agent
     in validate_schema_drift (r\<lparr>sd_receipt_root := schema_drift_root r\<rparr>)))))))))"

definition schema_drift_source :: string where
  "schema_drift_source = ''bridge:mcp-agent:tool-schema-drift''"

definition schema_drift_event :: "schema_drift_receipt \<Rightarrow> int \<Rightarrow> py_datetime \<Rightarrow> error + evidence_event" where
  "schema_drift_event r = bridge_event schema_drift_source (schema_drift_payload r)"

text \<open>\<open>create_schema_drift_protocol_receipt\<close>\<close>

definition create_schema_drift_protocol ::
  "fault_spec \<Rightarrow> int \<Rightarrow> dict \<Rightarrow> dict \<Rightarrow> dict \<Rightarrow> string \<Rightarrow> string \<Rightarrow> int list \<Rightarrow> error + fault_receipt" where
  "create_schema_drift_protocol f ttl initial cached refreshed rejection recovery ordinals =
     rbind (require_all
       [(fs_kind f = TOOL_SCHEMA_DRIFT, ''agent schema-drift protocol receipt requires TOOL_SCHEMA_DRIFT'')]) (\<lambda>_.
     rbind (require_schema_drift_payload f ttl) (\<lambda>_.
     rbind (drift_schemas initial cached refreshed) (\<lambda>(i, c, n).
     rbind (require_all (
       [(rejection \<noteq> [], ''stale MCP schema-drift call must expose a non-empty rejection''),
        (recovery = schema_recovery_text, ''MCP schema-drift recovery does not match bound replacement result'')]
       @ schema_drift_chronology ordinals)) (\<lambda>_.
     create_fault_receipt f (schema_drift_point (fs_tool_name f))
       (schema_drift_observation ttl i c n (text_sha256 rejection) (text_sha256 recovery) ordinals)))))"

subsection \<open>A renamed tool (\<open>agent_identity_bridge.py\<close>)\<close>

definition identity_drift_schema :: string where
  "identity_drift_schema = ''agent-evals/mcp-agent-tool-identity-drift-receipt/v3''"

definition identity_drift_domain :: string where
  "identity_drift_domain = ''agent-evals/mcp-agent-tool-identity-drift-receipt/v3'' @ [CHR 0x00]"

record identity_drift_receipt =
  nd_schema_version :: string
  nd_scenario_identity :: string
  nd_protocol_receipt :: fault_receipt
  nd_original_tool_name :: string
  nd_replacement_tool_name :: string
  nd_stale_call_id :: string
  nd_recovery_call_id :: string
  nd_mcp_cache_hint_ttl_ms :: int
  nd_stale_arguments_sha256 :: string
  nd_recovery_arguments_sha256 :: string
  nd_stale_protocol_observation_sha256 :: string
  nd_agent_error_observation_sha256 :: string
  nd_expected_recovery_sha256 :: string
  nd_protocol_recovery_observation_sha256 :: string
  nd_agent_recovery_observation_sha256 :: string
  nd_initial_model_tool_names_sha256 :: string
  nd_refreshed_model_tool_names_sha256 :: string
  nd_initial_list_ordinal :: int
  nd_identity_swap_ordinal :: int
  nd_cached_list_ordinal :: int
  nd_stale_call_ordinal :: int
  nd_cache_invalidation_ordinal :: int
  nd_refreshed_list_ordinal :: int
  nd_recovery_call_ordinal :: int
  nd_receipt_root :: string

definition identity_drift_dict :: "identity_drift_receipt \<Rightarrow> dict" where
  "identity_drift_dict r =
     [(''schema_version'', JStr (nd_schema_version r)), (''scenario_identity'', JStr (nd_scenario_identity r)),
      (''protocol_receipt'', fault_receipt_json (nd_protocol_receipt r)),
      (''original_tool_name'', JStr (nd_original_tool_name r)),
      (''replacement_tool_name'', JStr (nd_replacement_tool_name r)),
      (''stale_call_id'', JStr (nd_stale_call_id r)), (''recovery_call_id'', JStr (nd_recovery_call_id r)),
      (''mcp_cache_hint_ttl_ms'', JInt (nd_mcp_cache_hint_ttl_ms r)),
      (''stale_arguments_sha256'', JStr (nd_stale_arguments_sha256 r)),
      (''recovery_arguments_sha256'', JStr (nd_recovery_arguments_sha256 r)),
      (''stale_protocol_observation_sha256'', JStr (nd_stale_protocol_observation_sha256 r)),
      (''agent_error_observation_sha256'', JStr (nd_agent_error_observation_sha256 r)),
      (''expected_recovery_sha256'', JStr (nd_expected_recovery_sha256 r)),
      (''protocol_recovery_observation_sha256'', JStr (nd_protocol_recovery_observation_sha256 r)),
      (''agent_recovery_observation_sha256'', JStr (nd_agent_recovery_observation_sha256 r)),
      (''initial_model_tool_names_sha256'', JStr (nd_initial_model_tool_names_sha256 r)),
      (''refreshed_model_tool_names_sha256'', JStr (nd_refreshed_model_tool_names_sha256 r)),
      (''initial_list_ordinal'', JInt (nd_initial_list_ordinal r)),
      (''identity_swap_ordinal'', JInt (nd_identity_swap_ordinal r)),
      (''cached_list_ordinal'', JInt (nd_cached_list_ordinal r)),
      (''stale_call_ordinal'', JInt (nd_stale_call_ordinal r)),
      (''cache_invalidation_ordinal'', JInt (nd_cache_invalidation_ordinal r)),
      (''refreshed_list_ordinal'', JInt (nd_refreshed_list_ordinal r)),
      (''recovery_call_ordinal'', JInt (nd_recovery_call_ordinal r))]"

definition identity_drift_material :: "identity_drift_receipt \<Rightarrow> json" where
  "identity_drift_material r = JObj (identity_drift_dict r)"

definition identity_drift_root :: "identity_drift_receipt \<Rightarrow> string" where
  "identity_drift_root r = sha256_hex (identity_drift_domain @ json_dumps (identity_drift_material r))"

definition identity_drift_payload :: "identity_drift_receipt \<Rightarrow> dict" where
  "identity_drift_payload r = identity_drift_dict r @ [(''receipt_root'', JStr (nd_receipt_root r))]"

definition identity_drift_fields :: "identity_drift_receipt \<Rightarrow> (bool \<times> error) list" where
  "identity_drift_fields r =
       literal_field ''schema_version'' identity_drift_schema (nd_schema_version r)
     @ sha_field ''scenario_identity'' (nd_scenario_identity r)
     @ ident_field ''original_tool_name'' ''tool name'' 128 (nd_original_tool_name r)
     @ ident_field ''replacement_tool_name'' ''tool name'' 128 (nd_replacement_tool_name r)
     @ ident_field ''stale_call_id'' ''agent call ID'' 256 (nd_stale_call_id r)
     @ ident_field ''recovery_call_id'' ''agent call ID'' 256 (nd_recovery_call_id r)
     @ int_field ''mcp_cache_hint_ttl_ms'' 1 (Some max_cache_ttl_ms) (nd_mcp_cache_hint_ttl_ms r)
     @ sha_field ''stale_arguments_sha256'' (nd_stale_arguments_sha256 r)
     @ sha_field ''recovery_arguments_sha256'' (nd_recovery_arguments_sha256 r)
     @ sha_field ''stale_protocol_observation_sha256'' (nd_stale_protocol_observation_sha256 r)
     @ sha_field ''agent_error_observation_sha256'' (nd_agent_error_observation_sha256 r)
     @ sha_field ''expected_recovery_sha256'' (nd_expected_recovery_sha256 r)
     @ sha_field ''protocol_recovery_observation_sha256'' (nd_protocol_recovery_observation_sha256 r)
     @ sha_field ''agent_recovery_observation_sha256'' (nd_agent_recovery_observation_sha256 r)
     @ sha_field ''initial_model_tool_names_sha256'' (nd_initial_model_tool_names_sha256 r)
     @ sha_field ''refreshed_model_tool_names_sha256'' (nd_refreshed_model_tool_names_sha256 r)
     @ int_field ''initial_list_ordinal'' 0 None (nd_initial_list_ordinal r)
     @ int_field ''identity_swap_ordinal'' 0 None (nd_identity_swap_ordinal r)
     @ int_field ''cached_list_ordinal'' 0 None (nd_cached_list_ordinal r)
     @ int_field ''stale_call_ordinal'' 0 None (nd_stale_call_ordinal r)
     @ int_field ''cache_invalidation_ordinal'' 0 None (nd_cache_invalidation_ordinal r)
     @ int_field ''refreshed_list_ordinal'' 0 None (nd_refreshed_list_ordinal r)
     @ int_field ''recovery_call_ordinal'' 0 None (nd_recovery_call_ordinal r)
     @ sha_field ''receipt_root'' (nd_receipt_root r)"

definition identity_drift_point :: "string \<Rightarrow> string \<Rightarrow> string" where
  "identity_drift_point original replacement =
     point ['':tools/list:agent-identity-drift:'', original, ''->'', replacement,
       '':swap-then-cached-old:call-rejects-old:host-refresh-new:call-succeeds-new'']"

definition require_identity_drift_shape :: "fault_receipt \<Rightarrow> string \<Rightarrow> error + unit" where
  "require_identity_drift_shape p replacement = require_all
     [(fr_kind p = TOOL_IDENTITY_DRIFT, ''MCP identity-drift bridge requires TOOL_IDENTITY_DRIFT protocol receipt''),
      (fr_protocol_version p = protocol_version,
       ''MCP identity-drift bridge requires protocol version '' @ protocol_version),
      (fr_injection_point p = identity_drift_point (fr_tool_name p) replacement,
       ''MCP identity-drift receipt uses an unexpected protocol boundary'')]"

definition fresh_query :: json where
  "fresh_query = JObj [(''query'', JStr ''fresh'')]"

definition identity_recovery_text :: string where
  "identity_recovery_text = ''replacement:fresh''"

definition identity_drift_chronology :: "int list \<Rightarrow> (bool \<times> string) list" where
  "identity_drift_chronology = chronology_guards ''MCP identity-drift''
     ''initial-list < swap < cached-list < stale-call < cache-invalidation < refreshed-list < recovery-call''"

definition identity_drift_observation ::
  "int \<Rightarrow> string \<Rightarrow> string \<Rightarrow> string \<Rightarrow> string \<Rightarrow> int list \<Rightarrow> string" where
  "identity_drift_observation ttl original replacement stale recovery ordinals = json_dumps (JObj
     [(''cache_invalidation_ordinal'', JInt (ordinals ! 4)), (''cached_list_ordinal'', JInt (ordinals ! 2)),
      (''initial_list_ordinal'', JInt (ordinals ! 0)), (''identity_swap_ordinal'', JInt (ordinals ! 1)),
      (''original_tool_name'', JStr original), (''protocol_recovery_observation_sha256'', JStr recovery),
      (''recovery_call_ordinal'', JInt (ordinals ! 6)), (''refreshed_list_ordinal'', JInt (ordinals ! 5)),
      (''replacement_tool_name'', JStr replacement), (''stale_call_ordinal'', JInt (ordinals ! 3)),
      (''stale_protocol_observation_sha256'', JStr stale), (''ttl_ms'', JInt ttl)])"

definition identity_drift_ordinals :: "identity_drift_receipt \<Rightarrow> int list" where
  "identity_drift_ordinals r =
     [nd_initial_list_ordinal r, nd_identity_swap_ordinal r, nd_cached_list_ordinal r, nd_stale_call_ordinal r,
      nd_cache_invalidation_ordinal r, nd_refreshed_list_ordinal r, nd_recovery_call_ordinal r]"

definition identity_drift_bridge :: "identity_drift_receipt \<Rightarrow> error + unit" where
  "identity_drift_bridge r =
     rbind (require_identity_drift_shape (nd_protocol_receipt r) (nd_replacement_tool_name r)) (\<lambda>_.
     require_all (
       [(nd_original_tool_name r = fr_tool_name (nd_protocol_receipt r),
         ''original tool name does not match verified MCP protocol receipt''),
        (nd_original_tool_name r \<noteq> nd_replacement_tool_name r,
         ''replacement tool identity must differ from original identity''),
        (nd_stale_call_id r \<noteq> nd_recovery_call_id r,
         ''MCP identity-drift recovery requires distinct OpenAI call IDs''),
        (nd_stale_arguments_sha256 r = sha256_json stale_query,
         ''stale argument digest does not match bound old-name call''),
        (nd_recovery_arguments_sha256 r = sha256_json fresh_query,
         ''recovery argument digest does not match bound replacement call''),
        (nd_stale_protocol_observation_sha256 r = nd_agent_error_observation_sha256 r,
         ''agent identity rejection digest does not match protocol rejection''),
        (nd_expected_recovery_sha256 r = text_sha256 identity_recovery_text,
         ''expected recovery digest does not match controlled replacement result''),
        (nd_protocol_recovery_observation_sha256 r = nd_expected_recovery_sha256 r,
         ''protocol recovery digest does not match controlled replacement result''),
        (nd_agent_recovery_observation_sha256 r = nd_expected_recovery_sha256 r,
         ''agent recovery digest does not match controlled replacement result''),
        (nd_initial_model_tool_names_sha256 r = names_sha256 [nd_original_tool_name r],
         ''initial model-visible identity digest does not match original tool''),
        (nd_refreshed_model_tool_names_sha256 r = names_sha256 [nd_replacement_tool_name r],
         ''refreshed model-visible identity digest does not match replacement tool''),
        (fr_payload_sha256 (nd_protocol_receipt r) = sha256_json (JObj
           [(''replacement_tool_name'', JStr (nd_replacement_tool_name r)),
            (''ttl_ms'', JInt (nd_mcp_cache_hint_ttl_ms r))]),
         ''identity-drift protocol payload digest does not match bound relation'')]
     @ identity_drift_chronology (identity_drift_ordinals r)
     @ [(fr_observation_sha256 (nd_protocol_receipt r) =
           text_sha256 (identity_drift_observation (nd_mcp_cache_hint_ttl_ms r) (nd_original_tool_name r)
             (nd_replacement_tool_name r) (nd_stale_protocol_observation_sha256 r)
             (nd_protocol_recovery_observation_sha256 r) (identity_drift_ordinals r)),
         ''identity-drift protocol receipt does not match root-bound relation'')]))"

definition validate_identity_drift :: "identity_drift_receipt \<Rightarrow> error + identity_drift_receipt" where
  "validate_identity_drift r =
     rbind (validate_fault_receipt (nd_protocol_receipt r)) (\<lambda>_.
     rbind (raise_if (identity_drift_fields r)) (\<lambda>_.
     rbind (as_validation (identity_drift_bridge r)) (\<lambda>_.
     if identity_drift_root r \<noteq> nd_receipt_root r
     then Inl (verr ''MCP identity-drift receipt root does not match receipt content'') else Inr r)))"

definition identity_drift_keys :: "string list" where
  "identity_drift_keys =
     [''schema_version'', ''scenario_identity'', ''protocol_receipt'', ''original_tool_name'',
      ''replacement_tool_name'', ''stale_call_id'', ''recovery_call_id'', ''mcp_cache_hint_ttl_ms'',
      ''stale_arguments_sha256'', ''recovery_arguments_sha256'', ''stale_protocol_observation_sha256'',
      ''agent_error_observation_sha256'', ''expected_recovery_sha256'',
      ''protocol_recovery_observation_sha256'', ''agent_recovery_observation_sha256'',
      ''initial_model_tool_names_sha256'', ''refreshed_model_tool_names_sha256'', ''initial_list_ordinal'',
      ''identity_swap_ordinal'', ''cached_list_ordinal'', ''stale_call_ordinal'',
      ''cache_invalidation_ordinal'', ''refreshed_list_ordinal'', ''recovery_call_ordinal'', ''receipt_root'']"

definition read_identity_drift :: "dict \<Rightarrow> identity_drift_receipt option" where
  "read_identity_drift m = do {
     (if only_keys identity_drift_keys m then Some () else None);
     schema \<leftarrow> with_default identity_drift_schema as_str (dict_get m ''schema_version'');
     x1 \<leftarrow> as_str (dict_get m ''scenario_identity'');
     x2 \<leftarrow> read_fault_receipt (dict_get m ''protocol_receipt'');
     x3 \<leftarrow> as_str (dict_get m ''original_tool_name'');
     x4 \<leftarrow> as_str (dict_get m ''replacement_tool_name'');
     x5 \<leftarrow> as_str (dict_get m ''stale_call_id'');
     x6 \<leftarrow> as_str (dict_get m ''recovery_call_id'');
     x7 \<leftarrow> as_int (dict_get m ''mcp_cache_hint_ttl_ms'');
     x8 \<leftarrow> as_str (dict_get m ''stale_arguments_sha256'');
     x9 \<leftarrow> as_str (dict_get m ''recovery_arguments_sha256'');
     x10 \<leftarrow> as_str (dict_get m ''stale_protocol_observation_sha256'');
     x11 \<leftarrow> as_str (dict_get m ''agent_error_observation_sha256'');
     x12 \<leftarrow> as_str (dict_get m ''expected_recovery_sha256'');
     x13 \<leftarrow> as_str (dict_get m ''protocol_recovery_observation_sha256'');
     x14 \<leftarrow> as_str (dict_get m ''agent_recovery_observation_sha256'');
     x15 \<leftarrow> as_str (dict_get m ''initial_model_tool_names_sha256'');
     x16 \<leftarrow> as_str (dict_get m ''refreshed_model_tool_names_sha256'');
     x17 \<leftarrow> as_int (dict_get m ''initial_list_ordinal'');
     x18 \<leftarrow> as_int (dict_get m ''identity_swap_ordinal'');
     x19 \<leftarrow> as_int (dict_get m ''cached_list_ordinal'');
     x20 \<leftarrow> as_int (dict_get m ''stale_call_ordinal'');
     x21 \<leftarrow> as_int (dict_get m ''cache_invalidation_ordinal'');
     x22 \<leftarrow> as_int (dict_get m ''refreshed_list_ordinal'');
     x23 \<leftarrow> as_int (dict_get m ''recovery_call_ordinal'');
     root \<leftarrow> as_str (dict_get m ''receipt_root'');
     of_result (validate_identity_drift
       \<lparr>nd_schema_version = schema, nd_scenario_identity = x1, nd_protocol_receipt = x2,
        nd_original_tool_name = x3, nd_replacement_tool_name = x4, nd_stale_call_id = x5,
        nd_recovery_call_id = x6, nd_mcp_cache_hint_ttl_ms = x7, nd_stale_arguments_sha256 = x8,
        nd_recovery_arguments_sha256 = x9, nd_stale_protocol_observation_sha256 = x10,
        nd_agent_error_observation_sha256 = x11, nd_expected_recovery_sha256 = x12,
        nd_protocol_recovery_observation_sha256 = x13, nd_agent_recovery_observation_sha256 = x14,
        nd_initial_model_tool_names_sha256 = x15, nd_refreshed_model_tool_names_sha256 = x16,
        nd_initial_list_ordinal = x17, nd_identity_swap_ordinal = x18, nd_cached_list_ordinal = x19,
        nd_stale_call_ordinal = x20, nd_cache_invalidation_ordinal = x21, nd_refreshed_list_ordinal = x22,
        nd_recovery_call_ordinal = x23, nd_receipt_root = root\<rparr>) }"

definition require_identity_drift_payload :: "fault_spec \<Rightarrow> int \<Rightarrow> string \<Rightarrow> error + unit" where
  "require_identity_drift_payload f ttl replacement =
     rbind (fault_object ''MCP identity-drift'' f) (\<lambda>d.
     require_all
       [(payload_equals ''ttl_ms'' (JInt ttl) d, ''MCP identity-drift TTL does not match controlled fault''),
        (payload_equals ''replacement_tool_name'' (JStr replacement) d,
         ''MCP identity-drift replacement name does not match controlled fault'')])"

definition require_identity_drift_fault ::
  "fault_spec \<Rightarrow> fault_receipt \<Rightarrow> int \<Rightarrow> string \<Rightarrow> error + unit" where
  "require_identity_drift_fault f p ttl replacement =
     rbind (require_identity_drift_shape p replacement) (\<lambda>_.
     rbind (require_all
       [(fs_kind f = TOOL_IDENTITY_DRIFT, ''MCP identity-drift bridge requires TOOL_IDENTITY_DRIFT'')]) (\<lambda>_.
     rbind (require_identity_drift_payload f ttl replacement) (\<lambda>_.
     require_all
       [(fr_fault_identity p = fault_identity f,
         ''identity-drift protocol receipt identity does not match controlled fault''),
        (fr_tool_name p = fs_tool_name f, ''identity-drift protocol receipt tool does not match controlled fault''),
        (fr_payload_sha256 p = fault_payload_sha256 f,
         ''identity-drift protocol receipt payload does not match controlled fault'')])))"

definition unsigned_identity_drift ::
  "string \<Rightarrow> fault_receipt \<Rightarrow> string \<Rightarrow> string \<Rightarrow> drift_run \<Rightarrow> string \<times> string \<Rightarrow> string \<times> string
   \<Rightarrow> string list \<times> string list \<Rightarrow> identity_drift_receipt" where
  "unsigned_identity_drift sid p original replacement w args agent names =
     \<lparr>nd_schema_version = identity_drift_schema, nd_scenario_identity = sid, nd_protocol_receipt = p,
      nd_original_tool_name = original, nd_replacement_tool_name = replacement,
      nd_stale_call_id = dw_stale_call w, nd_recovery_call_id = dw_recovery_call w,
      nd_mcp_cache_hint_ttl_ms = dw_ttl_ms w,
      nd_stale_arguments_sha256 = fst args, nd_recovery_arguments_sha256 = snd args,
      nd_stale_protocol_observation_sha256 = text_sha256 (dw_protocol_rejection w),
      nd_agent_error_observation_sha256 = fst agent,
      nd_expected_recovery_sha256 = text_sha256 identity_recovery_text,
      nd_protocol_recovery_observation_sha256 = text_sha256 (dw_protocol_recovery w),
      nd_agent_recovery_observation_sha256 = snd agent,
      nd_initial_model_tool_names_sha256 = names_sha256 (fst names),
      nd_refreshed_model_tool_names_sha256 = names_sha256 (snd names),
      nd_initial_list_ordinal = dw_initial_list w, nd_identity_swap_ordinal = dw_swap w,
      nd_cached_list_ordinal = dw_cached_list w, nd_stale_call_ordinal = dw_stale_call_ordinal w,
      nd_cache_invalidation_ordinal = dw_cache_invalidation w, nd_refreshed_list_ordinal = dw_refreshed_list w,
      nd_recovery_call_ordinal = dw_recovery_call_ordinal w, nd_receipt_root = []\<rparr>"

definition identity_drift_arguments :: "drift_run \<Rightarrow> error + string \<times> string" where
  "identity_drift_arguments w =
     rbind (arguments_sha256 (dw_stale_arguments w)) (\<lambda>stale.
     rbind (arguments_sha256 (dw_recovery_arguments w)) (\<lambda>recovery.
     rbind (require_all
       [(stale = sha256_json stale_query, ''first MCP identity-drift call does not use bound stale arguments''),
        (recovery = sha256_json fresh_query,
         ''MCP identity-drift recovery does not use bound replacement arguments''),
        (unknown_tool (dw_protocol_rejection w),
         ''stale MCP identity-drift call must expose an unknown-tool rejection'')]) (\<lambda>_.
     Inr (stale, recovery))))"

definition identity_drift_agent :: "drift_run \<Rightarrow> error + string \<times> string" where
  "identity_drift_agent w =
     rbind (single_text_output ''agent MCP stale-call error'' (dw_agent_error w)) (\<lambda>error_text.
     rbind (require_all
       [(text_sha256 (dw_protocol_rejection w) = text_sha256 error_text,
         ''agent-observed identity rejection does not match MCP observation''),
        (dw_protocol_recovery w = identity_recovery_text,
         ''MCP identity-drift recovery does not match bound replacement result'')]) (\<lambda>_.
     rbind (single_text_output ''agent MCP identity-drift recovery'' (dw_agent_recovery w)) (\<lambda>recovery_text.
     rbind (require_all
       [(text_sha256 recovery_text = text_sha256 identity_recovery_text,
         ''agent-observed replacement result does not match controlled result'')]) (\<lambda>_.
     Inr (text_sha256 error_text, text_sha256 recovery_text)))))"

definition identity_drift_names ::
  "string \<Rightarrow> string \<Rightarrow> string list \<Rightarrow> string list \<Rightarrow> error + string list \<times> string list" where
  "identity_drift_names original replacement initial_names refreshed_names =
     rbind (canonical_tool_names ''identity'' initial_names) (\<lambda>initial.
     rbind (canonical_tool_names ''identity'' refreshed_names) (\<lambda>refreshed.
     rbind (require_all
       [(initial = [original],
         ''initial model-visible controlled identity set must contain only old name''),
        (refreshed = [replacement],
         ''refreshed model-visible controlled identity set must contain only replacement name'')]) (\<lambda>_.
     Inr (initial, refreshed))))"

definition create_identity_drift ::
  "string \<Rightarrow> fault_spec \<Rightarrow> fault_receipt \<Rightarrow> string \<Rightarrow> string \<Rightarrow> string list \<Rightarrow> string list \<Rightarrow> drift_run
   \<Rightarrow> error + identity_drift_receipt" where
  "create_identity_drift sid f protocol_receipt original replacement initial_names refreshed_names w =
     rbind (validate_fault_receipt protocol_receipt) (\<lambda>p.
     rbind (require_identity_drift_fault f p (dw_ttl_ms w) replacement) (\<lambda>_.
     rbind (raise_if (ident_guards vale ''original tool name'' original
         @ ident_guards vale ''replacement tool name'' replacement
         @ ident_guards vale ''stale call ID'' (dw_stale_call w)
         @ ident_guards vale ''recovery call ID'' (dw_recovery_call w))) (\<lambda>_.
     rbind (require_all
       [(original = fs_tool_name f, ''original tool name does not match controlled MCP identity-drift tool''),
        (original \<noteq> replacement, ''MCP identity-drift replacement must differ from original tool name''),
        (dw_stale_call w \<noteq> dw_recovery_call w,
         ''MCP identity-drift recovery requires distinct OpenAI call IDs'')]) (\<lambda>_.
     rbind (identity_drift_arguments w) (\<lambda>args.
     rbind (identity_drift_agent w) (\<lambda>agent.
     rbind (identity_drift_names original replacement initial_names refreshed_names) (\<lambda>names.
     rbind (require_all (identity_drift_chronology (drift_ordinals w)
       @ [(fr_observation_sha256 p = text_sha256 (identity_drift_observation (dw_ttl_ms w) original replacement
             (text_sha256 (dw_protocol_rejection w)) (text_sha256 (dw_protocol_recovery w)) (drift_ordinals w)),
           ''MCP identity-drift protocol receipt does not match observed relation'')])) (\<lambda>_.
     let r = unsigned_identity_drift sid p original replacement w args agent names
     in validate_identity_drift (r\<lparr>nd_receipt_root := identity_drift_root r\<rparr>)))))))))"

definition identity_drift_source :: string where
  "identity_drift_source = ''bridge:mcp-agent:tool-identity-drift''"

definition identity_drift_event :: "identity_drift_receipt \<Rightarrow> int \<Rightarrow> py_datetime \<Rightarrow> error + evidence_event" where
  "identity_drift_event r = bridge_event identity_drift_source (identity_drift_payload r)"

text \<open>\<open>create_identity_drift_protocol_receipt\<close>\<close>

definition create_identity_drift_protocol ::
  "fault_spec \<Rightarrow> int \<Rightarrow> string \<Rightarrow> string \<Rightarrow> string \<Rightarrow> string \<Rightarrow> int list \<Rightarrow> error + fault_receipt" where
  "create_identity_drift_protocol f ttl original replacement rejection recovery ordinals =
     rbind (require_all
       [(fs_kind f = TOOL_IDENTITY_DRIFT,
         ''agent identity-drift protocol receipt requires TOOL_IDENTITY_DRIFT'')]) (\<lambda>_.
     rbind (require_identity_drift_payload f ttl replacement) (\<lambda>_.
     rbind (require_all (
       [(original = fs_tool_name f, ''identity-drift original tool name does not match controlled fault''),
        (unknown_tool rejection, ''identity-drift stale call must expose an unknown-tool rejection''),
        (recovery = identity_recovery_text,
         ''identity-drift replacement call does not match controlled result'')]
       @ identity_drift_chronology ordinals)) (\<lambda>_.
     create_fault_receipt f (identity_drift_point original replacement)
       (identity_drift_observation ttl original replacement (text_sha256 rejection) (text_sha256 recovery) ordinals))))"

end
