(* ===== verification/McpDelivery.thy ===== *)
theory McpDelivery
  imports McpDrift Retrieval
begin

section \<open>Verifying protocol delivery (\<open>mcp/delivery.py\<close>)\<close>

text \<open>
  Every protocol-delivery event of a trial carries the receipt of one of the six bridges, named
  by the source of the event. Verification reads the receipt back, binds it to the scenario,
  refuses a second receipt with the same root, and then finds the requests and results the
  receipt speaks of among the normalized events: same calls, same arguments, same observed text,
  in the order the bridge observed them.
\<close>

datatype protocol_receipt =
    ToolResult tool_result_receipt
  | Recovery recovery_receipt
  | SchemaDrift schema_drift_receipt
  | IdentityDrift identity_drift_receipt
  | StaleCache stale_cache_receipt
  | Metadata metadata_receipt

fun protocol_scenario :: "protocol_receipt \<Rightarrow> string" where
  "protocol_scenario (ToolResult r) = tr_scenario_identity r"
| "protocol_scenario (Recovery r) = rv_scenario_identity r"
| "protocol_scenario (SchemaDrift r) = sd_scenario_identity r"
| "protocol_scenario (IdentityDrift r) = nd_scenario_identity r"
| "protocol_scenario (StaleCache r) = sl_scenario_identity r"
| "protocol_scenario (Metadata r) = md_scenario_identity r"

fun protocol_root :: "protocol_receipt \<Rightarrow> string" where
  "protocol_root (ToolResult r) = tr_receipt_root r"
| "protocol_root (Recovery r) = rv_receipt_root r"
| "protocol_root (SchemaDrift r) = sd_receipt_root r"
| "protocol_root (IdentityDrift r) = nd_receipt_root r"
| "protocol_root (StaleCache r) = sl_receipt_root r"
| "protocol_root (Metadata r) = md_receipt_root r"

definition pderr :: "string \<Rightarrow> error" where
  "pderr msg = Err ProtocolDeliveryError msg"

lemma pderr_cong [cong]: "pderr m = pderr m"
  by (rule refl)

text \<open>The receipt type of a source, and its reading.\<close>

definition protocol_readers :: "(string \<times> (dict \<Rightarrow> protocol_receipt option)) list" where
  "protocol_readers =
     [(tool_result_source, \<lambda>m. map_option ToolResult (read_tool_result m)),
      (recovery_source, \<lambda>m. map_option Recovery (read_recovery m)),
      (schema_drift_source, \<lambda>m. map_option SchemaDrift (read_schema_drift m)),
      (identity_drift_source, \<lambda>m. map_option IdentityDrift (read_identity_drift m)),
      (stale_cache_source, \<lambda>m. map_option StaleCache (read_stale_cache m)),
      (metadata_source, \<lambda>m. map_option Metadata (read_metadata m))]"

definition read_protocol_receipt :: "evidence_event \<Rightarrow> error + protocol_receipt" where
  "read_protocol_receipt e = (case map_of protocol_readers (ev_source e) of
       None \<Rightarrow> Inl (pderr (''unsupported protocol delivery evidence source: '' @ ev_source e))
     | Some reader \<Rightarrow> (case reader (ev_payload e) of
         None \<Rightarrow> Inl (pderr ''protocol delivery receipt is malformed or internally inconsistent'')
       | Some r \<Rightarrow> Inr r))"

subsection \<open>Normalized requests and results\<close>

text \<open>
  \<open>event.payload.get("tool") in tools\<close>: membership in a set hashes the value, and a list or a
  dict has no hash.
\<close>

definition unhashable :: "json option \<Rightarrow> bool" where
  "unhashable v \<longleftrightarrow> (case v of Some (JArr _) \<Rightarrow> True | Some (JObj _) \<Rightarrow> True | _ \<Rightarrow> False)"

definition unhashable_error :: "json option \<Rightarrow> error" where
  "unhashable_error v = Err TypeError (''unhashable type: '' @ str_repr (case v of
     Some (JArr _) \<Rightarrow> ''list'' | _ \<Rightarrow> ''dict''))"

definition requests_for_tools :: "trial_evidence \<Rightarrow> string list \<Rightarrow> error + evidence_event list" where
  "requests_for_tools t tools =
     (case filter (\<lambda>e. unhashable (payload_get e ''tool'')) (events_of TOOL_REQUEST t) of
        e # _ \<Rightarrow> Inl (unhashable_error (payload_get e ''tool''))
      | [] \<Rightarrow> Inr (filter (\<lambda>e. list_ex (payload_is e ''tool'') tools) (events_of TOOL_REQUEST t)))"

definition unique_result :: "trial_evidence \<Rightarrow> string \<Rightarrow> string \<Rightarrow> error + evidence_event" where
  "unique_result t call phase = (case call_results t call of
       [e] \<Rightarrow> Inr e
     | _ \<Rightarrow> Inl (pderr (''MCP '' @ phase @ '' requires exactly one normalized result for call '' @ str_repr call)))"

definition require_call_id :: "evidence_event \<Rightarrow> string \<Rightarrow> string \<Rightarrow> error + unit" where
  "require_call_id e call phase =
     (if payload_is e ''call_id'' call then Inr ()
      else Inl (pderr (''MCP '' @ phase @ '' call identity does not match the delivery receipt'')))"

text \<open>\<open>_strict_json_object\<close>: repeated keys and non-finite numbers are refused.\<close>

definition strict_json_object :: "json option \<Rightarrow> error + dict" where
  "strict_json_object v = (case as_str v of
       None \<Rightarrow> Inl (pderr ''normalized MCP arguments are missing'')
     | Some text \<Rightarrow> if text = [] then Inl (pderr ''normalized MCP arguments are missing'')
         else (case loads_unique text of
             None \<Rightarrow> Inl (pderr ''normalized MCP arguments are not strict finite JSON'')
           | Some w \<Rightarrow> if \<not> finite_json w
               then Inl (pderr ''normalized MCP arguments are not strict finite JSON'')
               else (case w of
                   JObj d \<Rightarrow> Inr d
                 | _ \<Rightarrow> Inl (pderr ''normalized MCP arguments are not a string-keyed object''))))"

definition require_arguments_digest :: "evidence_event \<Rightarrow> string \<Rightarrow> string \<Rightarrow> error + unit" where
  "require_arguments_digest e digest phase =
     rbind (strict_json_object (payload_get e ''arguments'')) (\<lambda>d.
     if sha256_json (JObj d) \<noteq> digest
     then Inl (pderr (''MCP '' @ phase @ '' arguments do not match the delivery receipt'')) else Inr ())"

definition normalized_text :: "json option \<Rightarrow> error + string" where
  "normalized_text v = (case v of
       Some (JObj m) \<Rightarrow>
         if exact_text_keys m \<and> dict_get m ''type'' = Some (JStr ''text'')
         then (case as_str (dict_get m ''text'') of
             None \<Rightarrow> Inl (pderr ''normalized MCP result is not one exact text output object'')
           | Some s \<Rightarrow> Inr s)
         else Inl (pderr ''normalized MCP result is not one exact text output object'')
     | _ \<Rightarrow> Inl (pderr ''normalized MCP result is not one exact text output object''))"

definition require_output_digest :: "evidence_event \<Rightarrow> string \<Rightarrow> string \<Rightarrow> error + unit" where
  "require_output_digest e digest phase =
     rbind (normalized_text (payload_get e ''output'')) (\<lambda>s.
     if text_sha256 s \<noteq> digest
     then Inl (pderr (''MCP '' @ phase @ '' output does not match the delivery receipt'')) else Inr ())"

text \<open>A strictly increasing chain of sequence numbers.\<close>

fun ascending :: "int list \<Rightarrow> bool" where
  "ascending (a # b # xs) = (a < b \<and> ascending (b # xs))"
| "ascending _ = True"

subsection \<open>The relation of each bridge\<close>

definition metadata_behavior :: "evidence_kind list" where
  "metadata_behavior =
     [TOOL_REQUEST, TOOL_RESULT, HANDOFF, APPROVAL_REQUEST, APPROVAL, APPROVAL_DECISION, GUARDRAIL, STATE,
      OUTPUT, POLICY_VIOLATION, EVALUATION_ERROR, RUNTIME_ERROR]"

definition verify_metadata_chronology :: "trial_evidence \<Rightarrow> int \<Rightarrow> error + unit" where
  "verify_metadata_chronology t n =
     (if list_ex (\<lambda>e. ev_kind e \<in> set metadata_behavior) (take (nat n) (te_events t))
      then Inl (pderr ''MCP tool-metadata delivery appears after normalized behavioral evidence'') else Inr ())"

definition verify_tool_result_delivery :: "trial_evidence \<Rightarrow> tool_result_receipt \<Rightarrow> int \<Rightarrow> error + unit" where
  "verify_tool_result_delivery t r n =
     rbind (requests_for_tools t [tr_agent_tool_name r]) (\<lambda>requests. case requests of
       [request] \<Rightarrow>
         rbind (require_call_id request (tr_agent_call_id r) ''tool-result request'') (\<lambda>_.
         rbind (unique_result t (tr_agent_call_id r) ''tool-result'') (\<lambda>result.
         rbind (normalized_text (payload_get result ''output'')) (\<lambda>s.
         if text_sha256 s \<noteq> tr_agent_observation_sha256 r
         then Inl (pderr ''MCP tool-result normalized output does not match the receipt-bound observation'')
         else if \<not> ascending [ev_sequence request, n, ev_sequence result]
         then Inl (pderr ''MCP tool-result delivery must occur between its normalized request and result'')
         else Inr ())))
     | _ \<Rightarrow> Inl (pderr ''MCP tool-result delivery requires exactly one normalized target request''))"

text \<open>
  The two calls of an adaptation: a first call that is answered with an error and a second one
  that is answered with the recovery. The three bridges with two calls differ in their messages
  and in where the receipt keeps the digests.
\<close>

record two_calls =
  tc_first_call :: string
  tc_second_call :: string
  tc_first_arguments :: string
  tc_second_arguments :: string
  tc_first_output :: string
  tc_second_output :: string

record two_phases =
  ph_first_request :: string
  ph_second_request :: string
  ph_first_result :: string
  ph_second_result :: string
  ph_first_output :: string
  ph_second_output :: string
  ph_causality :: string

definition verify_two_calls ::
  "trial_evidence \<Rightarrow> two_calls \<Rightarrow> two_phases \<Rightarrow> evidence_event \<Rightarrow> evidence_event \<Rightarrow> int \<Rightarrow> error + unit" where
  "verify_two_calls t c ph first second n =
     rbind (require_call_id first (tc_first_call c) (ph_first_request ph)) (\<lambda>_.
     rbind (require_call_id second (tc_second_call c) (ph_second_request ph)) (\<lambda>_.
     rbind (require_arguments_digest first (tc_first_arguments c) (ph_first_request ph)) (\<lambda>_.
     rbind (require_arguments_digest second (tc_second_arguments c) (ph_second_request ph)) (\<lambda>_.
     rbind (unique_result t (tc_first_call c) (ph_first_result ph)) (\<lambda>first_result.
     rbind (unique_result t (tc_second_call c) (ph_second_result ph)) (\<lambda>second_result.
     rbind (require_output_digest first_result (tc_first_output c) (ph_first_output ph)) (\<lambda>_.
     rbind (require_output_digest second_result (tc_second_output c) (ph_second_output ph)) (\<lambda>_.
     if \<not> ascending [ev_sequence first, ev_sequence first_result, ev_sequence second, ev_sequence second_result, n]
     then Inl (pderr (ph_causality ph)) else Inr ()))))))))"

definition recovery_calls :: "recovery_receipt \<Rightarrow> two_calls" where
  "recovery_calls r =
     \<lparr>tc_first_call = rv_error_call_id r, tc_second_call = rv_retry_call_id r,
      tc_first_arguments = rv_error_arguments_sha256 r, tc_second_arguments = rv_retry_arguments_sha256 r,
      tc_first_output = rv_agent_error_observation_sha256 r,
      tc_second_output = rv_agent_recovery_observation_sha256 r\<rparr>"

definition recovery_phases :: two_phases where
  "recovery_phases =
     \<lparr>ph_first_request = ''ToolError request'', ph_second_request = ''ToolError retry'',
      ph_first_result = ''ToolError'', ph_second_result = ''ToolError recovery'',
      ph_first_output = ''ToolError rejection'', ph_second_output = ''ToolError recovery'',
      ph_causality =
        ''MCP ToolError recovery evidence does not prove request-result-retry-result-delivery causality''\<rparr>"

definition verify_recovery_delivery :: "trial_evidence \<Rightarrow> recovery_receipt \<Rightarrow> int \<Rightarrow> error + unit" where
  "verify_recovery_delivery t r n =
     rbind (requests_for_tools t [rv_agent_tool_name r]) (\<lambda>requests. case requests of
       [first, second] \<Rightarrow> verify_two_calls t (recovery_calls r) recovery_phases first second n
     | _ \<Rightarrow> Inl (pderr ''MCP ToolError recovery requires exactly two normalized target requests''))"

definition schema_drift_calls :: "schema_drift_receipt \<Rightarrow> two_calls" where
  "schema_drift_calls r =
     \<lparr>tc_first_call = sd_stale_call_id r, tc_second_call = sd_recovery_call_id r,
      tc_first_arguments = sd_stale_arguments_sha256 r, tc_second_arguments = sd_recovery_arguments_sha256 r,
      tc_first_output = sd_agent_error_observation_sha256 r,
      tc_second_output = sd_agent_recovery_observation_sha256 r\<rparr>"

definition drift_phases :: "string \<Rightarrow> string \<Rightarrow> two_phases" where
  "drift_phases label causality =
     \<lparr>ph_first_request = label @ '' stale request'', ph_second_request = label @ '' recovery request'',
      ph_first_result = label @ '' stale call'', ph_second_result = label @ '' recovery'',
      ph_first_output = label @ '' rejection'', ph_second_output = label @ '' recovery'',
      ph_causality = causality\<rparr>"

definition verify_schema_drift_delivery :: "trial_evidence \<Rightarrow> schema_drift_receipt \<Rightarrow> int \<Rightarrow> error + unit" where
  "verify_schema_drift_delivery t r n =
     rbind (requests_for_tools t [sd_agent_tool_name r]) (\<lambda>requests. case requests of
       [first, second] \<Rightarrow> verify_two_calls t (schema_drift_calls r)
         (drift_phases ''schema-drift''
            ''MCP schema-drift normalized evidence does not prove stale-result-recovery-result-delivery causality'')
         first second n
     | _ \<Rightarrow> Inl (pderr ''MCP schema-drift delivery requires exactly two normalized target requests''))"

definition identity_drift_calls :: "identity_drift_receipt \<Rightarrow> two_calls" where
  "identity_drift_calls r =
     \<lparr>tc_first_call = nd_stale_call_id r, tc_second_call = nd_recovery_call_id r,
      tc_first_arguments = nd_stale_arguments_sha256 r, tc_second_arguments = nd_recovery_arguments_sha256 r,
      tc_first_output = nd_agent_error_observation_sha256 r,
      tc_second_output = nd_agent_recovery_observation_sha256 r\<rparr>"

definition verify_identity_drift_delivery :: "trial_evidence \<Rightarrow> identity_drift_receipt \<Rightarrow> int \<Rightarrow> error + unit" where
  "verify_identity_drift_delivery t r n =
     rbind (requests_for_tools t [nd_original_tool_name r, nd_replacement_tool_name r]) (\<lambda>requests. case requests of
       [first, second] \<Rightarrow>
         if \<not> payload_is first ''tool'' (nd_original_tool_name r)
         then Inl (pderr ''MCP identity-drift stale request does not use the receipt-bound original identity'')
         else if \<not> payload_is second ''tool'' (nd_replacement_tool_name r)
         then Inl (pderr ''MCP identity-drift recovery request does not use the receipt-bound replacement identity'')
         else verify_two_calls t (identity_drift_calls r)
           (drift_phases ''identity-drift''
              ''MCP identity-drift normalized evidence does not prove stale-result-recovery-result-delivery causality'')
           first second n
     | _ \<Rightarrow> Inl (pderr ''MCP identity-drift delivery requires exactly two normalized controlled requests''))"

definition verify_stale_cache_delivery :: "trial_evidence \<Rightarrow> stale_cache_receipt \<Rightarrow> int \<Rightarrow> error + unit" where
  "verify_stale_cache_delivery t r n =
     rbind (requests_for_tools t [sl_tool_name r]) (\<lambda>requests. case requests of
       [request] \<Rightarrow>
         rbind (require_call_id request (sl_stale_call_id r) ''stale-cache request'') (\<lambda>_.
         rbind (strict_json_object (payload_get request ''arguments'')) (\<lambda>d.
         if \<not> py_eq (JObj d) stale_query
         then Inl (pderr ''MCP stale-cache normalized request arguments do not match the bound v1 relation'')
         else
          rbind (unique_result t (sl_stale_call_id r) ''stale-cache stale call'') (\<lambda>result.
          rbind (require_output_digest result (sl_agent_error_observation_sha256 r) ''stale-cache normalized rejection'') (\<lambda>_.
          if \<not> ascending [ev_sequence request, ev_sequence result, n]
          then Inl (pderr ''MCP stale-cache delivery must occur after its normalized stale request and result'')
          else Inr ()))))
     | _ \<Rightarrow> Inl (pderr ''MCP stale-cache delivery requires exactly one normalized controlled target request''))"

fun verify_receipt_relation :: "trial_evidence \<Rightarrow> protocol_receipt \<Rightarrow> int \<Rightarrow> error + unit" where
  "verify_receipt_relation t (Metadata r) n = verify_metadata_chronology t n"
| "verify_receipt_relation t (ToolResult r) n = verify_tool_result_delivery t r n"
| "verify_receipt_relation t (Recovery r) n = verify_recovery_delivery t r n"
| "verify_receipt_relation t (SchemaDrift r) n = verify_schema_drift_delivery t r n"
| "verify_receipt_relation t (IdentityDrift r) n = verify_identity_drift_delivery t r n"
| "verify_receipt_relation t (StaleCache r) n = verify_stale_cache_delivery t r n"

subsection \<open>The events of a trial\<close>

text \<open>One protocol-delivery event, given the roots seen before it.\<close>

definition verify_protocol_event ::
  "trial_evidence \<Rightarrow> string list \<Rightarrow> evidence_event \<Rightarrow> error + protocol_receipt" where
  "verify_protocol_event t seen e =
     rbind (read_protocol_receipt e) (\<lambda>r.
     if protocol_scenario r \<noteq> te_scenario_identity t
     then Inl (pderr ''protocol delivery receipt scenario identity does not match trial evidence'')
     else if protocol_root r \<in> set seen then Inl (pderr ''duplicate protocol delivery receipt root'')
     else rbind (verify_receipt_relation t r (ev_sequence e)) (\<lambda>_. Inr r))"

fun verify_protocol_events ::
  "trial_evidence \<Rightarrow> string list \<Rightarrow> evidence_event list \<Rightarrow> error + protocol_receipt list" where
  "verify_protocol_events t seen [] = Inr []"
| "verify_protocol_events t seen (e # es) =
     rbind (verify_protocol_event t seen e) (\<lambda>r.
     rbind (verify_protocol_events t (protocol_root r # seen) es) (\<lambda>rs. Inr (r # rs)))"

definition verify_protocol_delivery :: "trial_evidence \<Rightarrow> error + protocol_receipt list" where
  "verify_protocol_delivery t = verify_protocol_events t [] (events_of PROTOCOL_DELIVERY t)"

end
