(* ===== verification/Runtime.thy ===== *)
theory Runtime
  imports Adversarial McpDelivery
begin

section \<open>Preconditions, grading and regrading (\<open>runtime/\<close>)\<close>

text \<open>
  Before a trial is graded, the evaluator closes every relation it owns, in a fixed order; the
  first one that fails names the error. Grading then runs the deterministic oracles, and
  regrading repeats both over recorded evidence.
\<close>

text \<open>
  What leaves \<open>verify_pregrading_closure\<close>: an \<open>EvaluationPreconditionError\<close> with its source,
  code and reason, or any other exception, which no clause of it catches.
\<close>

datatype closure_error =
    Unverified (ce_source: string) (ce_code: string) (ce_reason: string)
  | Escapes (ce_error: error)

definition has_blocking_evidence :: "trial_evidence \<Rightarrow> bool" where
  "has_blocking_evidence t \<longleftrightarrow>
     list_ex (\<lambda>e. ev_kind e = EVALUATION_ERROR \<or> ev_kind e = RUNTIME_ERROR) (te_events t)"

text \<open>One \<open>try\<close> block: the verifier's own error class is normalised.\<close>

definition close_with :: "exn \<Rightarrow> string \<Rightarrow> string \<Rightarrow> error + 'a \<Rightarrow> closure_error + unit" where
  "close_with c source code r = (case r of
       Inr _ \<Rightarrow> Inr ()
     | Inl e \<Rightarrow> if err_class e = c then Inl (Unverified source code (err_msg e)) else Inl (Escapes e))"

definition resource_unverified :: "string \<Rightarrow> closure_error" where
  "resource_unverified reason = Unverified ''evaluator:resource-identity'' ''resource_identity_unverified'' reason"

text \<open>The scopes in force when the event was recorded.\<close>

definition scopes_at ::
  "evaluation_scenario \<Rightarrow> trial_evidence \<Rightarrow> evidence_event \<Rightarrow> closure_error + resource_scope list" where
  "scopes_at s t e =
     (if has_handoff_authority (es_authority s)
      then map_error Escapes (rbind (validated_handoff_state_before (es_authority s) (te_events t) (ev_sequence e))
             (\<lambda>st. Inr (ea_allowed_resource_scopes (hp_authority st))))
      else Inr (ap_allowed_resource_scopes (es_authority s)))"

definition verify_event_resource ::
  "evaluation_scenario \<Rightarrow> trial_evidence \<Rightarrow> evidence_event \<Rightarrow> closure_error + unit" where
  "verify_event_resource s t e =
     (if ev_kind e \<noteq> TOOL_REQUEST \<and> ev_kind e \<noteq> APPROVAL_REQUEST then Inr ()
      else (case payload_get e ''resource'' of
          Some v \<Rightarrow> (case parse_resource_identifier_payload v of
              Inr _ \<Rightarrow> Inr ()
            | Inl err \<Rightarrow> if is_value_error err \<or> err_class err = TypeError
                then Inl (resource_unverified (kind_text (ev_kind e)
                       @ '' evidence contains a malformed or non-canonical typed resource identity''))
                else Inl (Escapes err))
        | None \<Rightarrow>
            rbind (scopes_at s t e) (\<lambda>scopes.
            if scopes \<noteq> []
            then Inl (resource_unverified (kind_text (ev_kind e)
                   @ '' evidence lacks the resource identity required by the active typed resource scope''))
            else Inr ())))"

definition verify_typed_resource_evidence ::
  "evaluation_scenario \<Rightarrow> trial_evidence \<Rightarrow> closure_error + unit" where
  "verify_typed_resource_evidence s t = rfor (verify_event_resource s t) (te_events t)"

definition provenance_unverified :: "string \<Rightarrow> closure_error" where
  "provenance_unverified reason =
     Unverified ''evaluator:handoff-provenance'' ''handoff_provenance_unverified'' reason"

definition verify_event_provenance :: "evidence_event \<Rightarrow> closure_error + unit" where
  "verify_event_provenance e =
     (if ev_kind e = TOOL_REQUEST \<or> ev_kind e = TOOL_RESULT \<or> ev_kind e = APPROVAL_REQUEST then
        (if event_agent_identity (payload_get e ''agent'') = None
         then Inl (provenance_unverified
           (''specialized OpenAI evidence under delegated handoff authority lacks a stable generating-agent identity for ''
            @ kind_text (ev_kind e)))
         else Inr ())
      else if ev_kind e = HANDOFF then
        (if event_agent_identity (payload_get e ''source_agent'') = None
            \<or> event_agent_identity (payload_get e ''target_agent'') = None
         then Inl (provenance_unverified
           (''specialized OpenAI evidence under delegated handoff authority contains a handoff ''
            @ ''without stable source and target agent identities''))
         else Inr ())
      else Inr ())"

definition verify_composed_handoff_provenance ::
  "evaluation_scenario \<Rightarrow> trial_evidence \<Rightarrow> closure_error + unit" where
  "verify_composed_handoff_provenance s t =
     (if \<not> has_handoff_authority (es_authority s) then Inr ()
      else if es_retrieval s = None \<and> es_side_effect s = None
        \<and> \<not> list_ex (\<lambda>e. ev_kind e = PROTOCOL_DELIVERY) (te_events t) then Inr ()
      else rfor verify_event_provenance (te_events t))"

definition verify_pregrading_closure ::
  "(json \<Rightarrow> bool option) \<Rightarrow> evaluation_scenario \<Rightarrow> trial_evidence \<Rightarrow> closure_error + unit" where
  "verify_pregrading_closure lax_bool s t =
     rbind (close_with AttackDeliveryError ''evaluator:attack-delivery'' ''attack_delivery_unverified''
       (verify_attack_delivery s t)) (\<lambda>_.
     rbind (close_with ProtocolDeliveryError ''evaluator:protocol-delivery'' ''protocol_delivery_unverified''
       (verify_protocol_delivery t)) (\<lambda>_.
     rbind (close_with RetrievalDeliveryError ''evaluator:retrieval-delivery'' ''retrieval_delivery_unverified''
       (verify_retrieval_delivery s t)) (\<lambda>_.
     rbind (close_with SideEffectObservationError ''evaluator:side-effect-observation'' ''side_effect_observation_unverified''
       (verify_side_effect_observation lax_bool s t)) (\<lambda>_.
     rbind (verify_typed_resource_evidence s t) (\<lambda>_.
     rbind (verify_composed_handoff_provenance s t) (\<lambda>_.
     close_with ApprovalIntentError ''evaluator:approval-intent'' ''approval_intent_unverified''
       (verify_approval_intent s t)))))))"

subsection \<open>Grading (\<open>grading.py\<close>)\<close>

definition grade_deterministic_evidence ::
  "(json \<Rightarrow> bool option) \<Rightarrow> evaluation_scenario \<Rightarrow> trial_evidence \<Rightarrow> oracle_result list" where
  "grade_deterministic_evidence lax_bool s t =
     (if es_side_effect s \<noteq> None
      then [policy_oracle s t, side_effect_oracle lax_bool s t, outcome_oracle s t]
      else [policy_oracle s t, outcome_oracle s t])"

definition any_failed :: "oracle_result list \<Rightarrow> bool" where
  "any_failed rs \<longleftrightarrow> list_ex (\<lambda>r. or_verdict r = FAIL) rs"

subsection \<open>Regrading (\<open>regrading.py\<close>)\<close>

record regrade_result =
  rg_index :: int
  rg_trial_id :: string
  rg_evidence_root :: string
  rg_verdict :: verdict
  rg_oracle_results :: "oracle_result list"

text \<open>An exception that leaves regrading.\<close>

datatype regrade_error = Refused error | Unclosed closure_error

definition deterministic_regrade_one ::
  "(json \<Rightarrow> bool option) \<Rightarrow> int \<Rightarrow> evaluation_scenario \<Rightarrow> trial_evidence
   \<Rightarrow> regrade_error + regrade_result" where
  "deterministic_regrade_one lax_bool index s evidence =
     rbind (map_error Refused (snapshot_evidence evidence)) (\<lambda>t.
     rbind (raise_if
       [(te_scenario_identity t \<noteq> scenario_identity s,
         Refused (Err ValueError ''regrade evidence scenario identity does not match scenario contract'')),
        (es_semantic_rubric s \<noteq> None,
         Refused (Err ValueError ''parallel deterministic regrade excludes semantic-judge scenarios''))]) (\<lambda>_.
     let base = \<lparr>rg_index = index, rg_trial_id = te_trial_id t, rg_evidence_root = evidence_root t,
                 rg_verdict = BLOCKED, rg_oracle_results = []\<rparr> in
     if has_blocking_evidence t then Inr base
     else
      rbind (map_error Unclosed (verify_pregrading_closure lax_bool s t)) (\<lambda>_.
      let rs = grade_deterministic_evidence lax_bool s t in
      Inr (base\<lparr>rg_verdict := (if any_failed rs then FAIL else PASS), rg_oracle_results := rs\<rparr>))))"

text \<open>
  A batch. With one worker the items run in order. In a pool they complete in some order,
  \<open>schedule\<close>, a permutation of the indices; the results are read from the futures in submission
  order, so that the first failing index decides the exception, and then sorted by index.
\<close>

definition regrade_serial ::
  "(json \<Rightarrow> bool option) \<Rightarrow> evaluation_scenario \<Rightarrow> trial_evidence list
   \<Rightarrow> regrade_error + regrade_result list" where
  "regrade_serial lax_bool s ts =
     rmap (\<lambda>(i, t). deterministic_regrade_one lax_bool (int i) s t) (zip [0..<length ts] ts)"

text \<open>The futures after every task of the schedule has run: slot \<open>i\<close> holds the outcome of item \<open>i\<close>.\<close>

definition run_pool :: "('i \<Rightarrow> 'r) \<Rightarrow> 'i list \<Rightarrow> nat list \<Rightarrow> 'r option list" where
  "run_pool task items schedule =
     foldl (\<lambda>futures i. futures[i := Some (task (items ! i))]) (replicate (length items) None) schedule"

definition regrade_parallel ::
  "nat list \<Rightarrow> (json \<Rightarrow> bool option) \<Rightarrow> evaluation_scenario \<Rightarrow> trial_evidence list
   \<Rightarrow> (regrade_error + regrade_result list) option" where
  "regrade_parallel schedule lax_bool s ts =
     (case those (run_pool (\<lambda>(i, t). deterministic_regrade_one lax_bool (int i) s t)
               (zip [0..<length ts] ts) schedule) of
        None \<Rightarrow> None
      | Some outcomes \<Rightarrow> Some (rbind (rmap id outcomes) (\<lambda>rs. Inr (sort_key rg_index rs))))"

text \<open>\<open>None\<close> is a pool that still waits for a future.\<close>

definition deterministic_regrade_batch ::
  "nat list \<Rightarrow> (json \<Rightarrow> bool option) \<Rightarrow> evaluation_scenario \<Rightarrow> trial_evidence list
   \<Rightarrow> int \<Rightarrow> (regrade_error + regrade_result list) option" where
  "deterministic_regrade_batch schedule lax_bool s ts workers =
     (if workers < 1 \<or> workers > 64
      then Some (Inl (Refused (Err ValueError ''regrade workers must be an exact integer in [1, 64]'')))
      else if workers = 1 \<or> length ts < 2 then Some (regrade_serial lax_bool s ts)
      else regrade_parallel schedule lax_bool s ts)"

end
