(* ===== verification/Semantic.thy ===== *)
theory Semantic
  imports Adversarial
begin

section \<open>Semantic judgment (\<open>semantic/models.py\<close>, \<open>judge.py\<close>, \<open>receipt.py\<close>, \<open>verification.py\<close>)\<close>

text \<open>
  A judge scores each criterion of a rubric; the decision is derived again from the scores. A
  receipt binds the judgment to the evidence root the subject produced, and stands as the last
  event of the trial. The calibration receipt a judgment embeds is of a type \<open>'c\<close>,
  its operations the fields of \<open>calibration_ops\<close>; \<open>Calibration\<close> instantiates them.
\<close>

datatype semantic_decision = SEM_PASS | SEM_FAIL | SEM_ABSTAIN

fun semantic_value :: "semantic_decision \<Rightarrow> string" where
  "semantic_value SEM_PASS = ''pass''"
| "semantic_value SEM_FAIL = ''fail''"
| "semantic_value SEM_ABSTAIN = ''abstain''"

record criterion_result =
  cs_criterion_id :: string
  cs_decision :: semantic_decision
  cs_score :: "int option"

definition validate_criterion_result :: "criterion_result \<Rightarrow> error + unit" where
  "validate_criterion_result c = raise_if
     [(\<not> id_pattern ''._-'' 1 63 (cs_criterion_id c), verr ''criterion_id: pattern''),
      (case cs_score c of None \<Rightarrow> False | Some n \<Rightarrow> n < 0 \<or> n > 4, verr ''score: range''),
      (cs_decision c = SEM_ABSTAIN \<and> cs_score c \<noteq> None,
       verr ''abstaining semantic criterion must not carry a score''),
      (cs_decision c \<noteq> SEM_ABSTAIN \<and> cs_score c = None,
       verr ''resolved semantic criterion requires an integer score'')]"

record judge_response =
  jr_schema_version :: string
  jr_criteria :: "criterion_result list"
  jr_overall :: semantic_decision

definition response_schema :: string where
  "response_schema = ''agent-evals/semantic-judge-response/v1''"

definition validate_response :: "judge_response \<Rightarrow> error + judge_response" where
  "validate_response r =
     rbind (raise_if
       [(jr_schema_version r \<noteq> response_schema, verr ''schema_version: literal''),
        (length (jr_criteria r) < 1 \<or> length (jr_criteria r) > 32, verr ''criteria: length'')]) (\<lambda>_.
     rbind (rfor validate_criterion_result (jr_criteria r)) (\<lambda>_.
     if \<not> distinct (map cs_criterion_id (jr_criteria r))
     then Inl (verr ''semantic judge response criterion IDs must be unique'') else Inr r))"

definition sha256_unicode_json :: "json \<Rightarrow> string" where
  "sha256_unicode_json v = sha256_hex (utf8 (json_dumps_unicode v))"

definition criterion_result_material :: "criterion_result \<Rightarrow> json" where
  "criterion_result_material c = JObj
     [(''criterion_id'', JStr (cs_criterion_id c)), (''decision'', JStr (semantic_value (cs_decision c))),
      (''score'', opt_json (map_option JInt (cs_score c)))]"

definition response_material :: "judge_response \<Rightarrow> json" where
  "response_material r = JObj
     [(''schema_version'', JStr (jr_schema_version r)),
      (''criteria'', JArr (map criterion_result_material (jr_criteria r))),
      (''overall'', JStr (semantic_value (jr_overall r)))]"

definition response_digest :: "judge_response \<Rightarrow> string" where
  "response_digest r = sha256_unicode_json (response_material r)"

record judge_profile =
  jp_schema_version :: string
  jp_provider :: string
  jp_model :: string
  jp_model_revision :: string
  jp_adapter :: string
  jp_adapter_version :: string
  jp_prompt_template_sha256 :: string
  jp_response_schema :: string
  jp_behavior_config_sha256 :: string

definition profile_schema :: string where
  "profile_schema = ''agent-evals/semantic-judge-profile/v1''"

definition validate_profile :: "judge_profile \<Rightarrow> error + judge_profile" where
  "validate_profile p = rbind (raise_if
     [(jp_schema_version p \<noteq> profile_schema, verr ''schema_version: literal''),
      (\<not> bounded_text 1 128 (jp_provider p), verr ''provider: length''),
      (\<not> bounded_text 1 256 (jp_model p), verr ''model: length''),
      (\<not> bounded_text 1 256 (jp_model_revision p), verr ''model_revision: length''),
      (\<not> bounded_text 1 256 (jp_adapter p), verr ''adapter: length''),
      (\<not> bounded_text 1 128 (jp_adapter_version p), verr ''adapter_version: length''),
      (\<not> is_sha256 (jp_prompt_template_sha256 p), verr ''prompt_template_sha256: pattern''),
      (\<not> bounded_text 1 256 (jp_response_schema p), verr ''response_schema: length''),
      (\<not> is_sha256 (jp_behavior_config_sha256 p), verr ''behavior_config_sha256: pattern'')]) (\<lambda>_. Inr p)"

definition profile_material :: "judge_profile \<Rightarrow> json" where
  "profile_material p = JObj
     [(''schema_version'', JStr (jp_schema_version p)), (''provider'', JStr (jp_provider p)),
      (''model'', JStr (jp_model p)), (''model_revision'', JStr (jp_model_revision p)),
      (''adapter'', JStr (jp_adapter p)), (''adapter_version'', JStr (jp_adapter_version p)),
      (''prompt_template_sha256'', JStr (jp_prompt_template_sha256 p)),
      (''response_schema'', JStr (jp_response_schema p)),
      (''behavior_config_sha256'', JStr (jp_behavior_config_sha256 p))]"

definition profile_identity :: "judge_profile \<Rightarrow> string" where
  "profile_identity p = sha256_unicode_json (profile_material p)"

record judge_input =
  ji_schema_version :: string
  ji_objective :: string
  ji_rubric :: semantic_rubric
  ji_candidate_output :: string

definition input_schema :: string where
  "input_schema = ''agent-evals/semantic-judge-input/v1''"

text \<open>\<open>SemanticJudgeInput(objective=..., rubric=..., candidate_output=...)\<close>\<close>

definition mk_judge_input :: "string \<Rightarrow> semantic_rubric \<Rightarrow> string \<Rightarrow> error + judge_input" where
  "mk_judge_input objective rubric candidate = rbind (raise_if
     [(\<not> bounded_text 1 20000 objective, verr ''objective: length''),
      (length candidate > 100000, verr ''candidate_output: length'')]) (\<lambda>_.
     Inr \<lparr>ji_schema_version = input_schema, ji_objective = objective, ji_rubric = rubric,
          ji_candidate_output = candidate\<rparr>)"

definition input_digest :: "judge_input \<Rightarrow> string" where
  "input_digest i = sha256_unicode_json (JObj
     [(''schema_version'', JStr (ji_schema_version i)), (''objective'', JStr (ji_objective i)),
      (''rubric'', rubric_material (ji_rubric i)), (''candidate_output'', JStr (ji_candidate_output i))])"

subsection \<open>The derived decision\<close>

text \<open>One turn of the loop over criteria and results.\<close>

definition criterion_decision :: "semantic_criterion \<times> criterion_result \<Rightarrow> error + semantic_decision" where
  "criterion_decision x = (case x of (criterion, result) \<Rightarrow>
     if cs_decision result = SEM_ABSTAIN then Inr SEM_ABSTAIN
     else (case cs_score result of
         None \<Rightarrow> Inl (Err ValueError ''resolved semantic criterion is missing its score'')
       | Some score \<Rightarrow>
           let expected = (if score \<ge> cr_minimum_score criterion then SEM_PASS else SEM_FAIL) in
           if cs_decision result \<noteq> expected
           then Inl (Err ValueError (''semantic criterion '' @ str_repr (cr_criterion_id criterion)
                  @ '' decision contradicts its score''))
           else Inr expected))"

definition combine_decisions :: "semantic_decision list \<Rightarrow> semantic_decision" where
  "combine_decisions ds =
     (if SEM_FAIL \<in> set ds then SEM_FAIL else if SEM_ABSTAIN \<in> set ds then SEM_ABSTAIN else SEM_PASS)"

definition derive_semantic_decision :: "semantic_rubric \<Rightarrow> judge_response \<Rightarrow> error + semantic_decision" where
  "derive_semantic_decision rubric response =
     (if map cs_criterion_id (jr_criteria response) \<noteq> map cr_criterion_id (ru_criteria rubric)
      then Inl (Err ValueError
        ''semantic judge response criteria must exactly match rubric criterion identity and order'')
      else
       rbind (rmap criterion_decision (zip (ru_criteria rubric) (jr_criteria response))) (\<lambda>ds.
       if jr_overall response \<noteq> combine_decisions ds
       then Inl (Err ValueError ''semantic judge overall decision contradicts criterion results'')
       else Inr (combine_decisions ds)))"

subsection \<open>Calibrated authority\<close>

record 'c calibration_ops =
  co_accepted :: "'c \<Rightarrow> bool"
  co_profile :: "'c \<Rightarrow> judge_profile"
  co_material :: "'c \<Rightarrow> json"
  co_read :: "json \<Rightarrow> 'c option"

text \<open>
  \<open>validate_semantic_judge_authority\<close> on the profile and calibration the judge exposes, each
  validated again from its own dump.
\<close>

definition validate_judge_authority ::
  "'c calibration_ops \<Rightarrow> judge_profile \<Rightarrow> 'c \<Rightarrow> error + judge_profile \<times> 'c" where
  "validate_judge_authority ops profile calibration =
     (case (validate_profile profile, co_read ops (co_material ops calibration)) of
        (Inr p, Some c) \<Rightarrow>
          if \<not> co_accepted ops c
          then Inl (Err ValueError ''semantic judge calibration has not satisfied its acceptance policy'')
          else if profile_identity (co_profile ops c) \<noteq> profile_identity p
          then Inl (Err ValueError ''semantic judge profile does not match its accepted calibration'')
          else Inr (p, c)
      | _ \<Rightarrow> Inl (Err ValueError ''semantic judge profile or calibration receipt is malformed''))"

subsection \<open>Receipts\<close>

record 'c judgment_receipt =
  jg_schema_version :: string
  jg_scenario_identity :: string
  jg_subject_identity :: string
  jg_subject_evidence_root :: string
  jg_rubric :: semantic_rubric
  jg_rubric_identity :: string
  jg_judge_profile :: judge_profile
  jg_calibration_receipt :: 'c
  jg_judge_input_sha256 :: string
  jg_judge_response_sha256 :: string
  jg_criteria :: "criterion_result list"
  jg_decision :: semantic_decision
  jg_receipt_root :: string

definition judgment_schema :: string where
  "judgment_schema = ''agent-evals/semantic-judgment-receipt/v1''"

definition judgment_domain :: string where
  "judgment_domain = ''agent-evals/semantic-judgment-receipt/v1'' @ [CHR 0x00]"

definition judgment_material :: "'c calibration_ops \<Rightarrow> 'c judgment_receipt \<Rightarrow> json" where
  "judgment_material ops r = JObj
     [(''schema_version'', JStr (jg_schema_version r)),
      (''scenario_identity'', JStr (jg_scenario_identity r)),
      (''subject_identity'', JStr (jg_subject_identity r)),
      (''subject_evidence_root'', JStr (jg_subject_evidence_root r)),
      (''rubric'', rubric_material (jg_rubric r)), (''rubric_identity'', JStr (jg_rubric_identity r)),
      (''judge_profile'', profile_material (jg_judge_profile r)),
      (''calibration_receipt'', co_material ops (jg_calibration_receipt r)),
      (''judge_input_sha256'', JStr (jg_judge_input_sha256 r)),
      (''judge_response_sha256'', JStr (jg_judge_response_sha256 r)),
      (''criteria'', JArr (map criterion_result_material (jg_criteria r))),
      (''decision'', JStr (semantic_value (jg_decision r)))]"

definition judgment_root :: "'c calibration_ops \<Rightarrow> 'c judgment_receipt \<Rightarrow> error + string" where
  "judgment_root ops r =
     (if within_budget receipt_material_budget (judgment_material ops r)
      then Inr (sha256_hex (judgment_domain @ utf8 (json_dumps_unicode (judgment_material ops r))))
      else Inl (Err ResourceLimitError ''semantic judgment receipt material exceeds the receipt material budget''))"

definition require_matching_calibration :: "'c calibration_ops \<Rightarrow> 'c \<Rightarrow> judge_profile \<Rightarrow> error + unit" where
  "require_matching_calibration ops c profile = raise_if
     [(\<not> co_accepted ops c, Err ValueError ''semantic judgment requires an accepted calibration receipt''),
      (profile_identity (co_profile ops c) \<noteq> profile_identity profile,
       Err ValueError ''semantic judgment judge profile does not match calibrated judge profile'')]"

definition reconstructed_response :: "'c judgment_receipt \<Rightarrow> judge_response" where
  "reconstructed_response r =
     \<lparr>jr_schema_version = response_schema, jr_criteria = jg_criteria r, jr_overall = jg_decision r\<rparr>"

text \<open>The model validator, whose \<open>ValueError\<close>s pydantic turns into \<open>ValidationError\<close>s.\<close>

definition verify_judgment_receipt :: "'c calibration_ops \<Rightarrow> 'c judgment_receipt \<Rightarrow> error + unit" where
  "verify_judgment_receipt ops r = as_validation (
     rbind (require_matching_calibration ops (jg_calibration_receipt r) (jg_judge_profile r)) (\<lambda>_.
     rbind (raise_if [(jg_rubric_identity r \<noteq> rubric_identity (jg_rubric r),
       Err ValueError ''semantic judgment rubric identity does not match embedded rubric'')]) (\<lambda>_.
     rbind (validate_response (reconstructed_response r)) (\<lambda>response.
     rbind (derive_semantic_decision (jg_rubric r) response) (\<lambda>derived.
     rbind (raise_if
       [(derived \<noteq> jg_decision r,
         Err ValueError ''semantic judgment decision does not rederive from criterion results''),
        (response_digest response \<noteq> jg_judge_response_sha256 r,
         Err ValueError ''semantic judgment response digest does not match criterion results'')]) (\<lambda>_.
     rbind (judgment_root ops r) (\<lambda>root.
     if root \<noteq> jg_receipt_root r
     then Inl (Err ValueError ''semantic judgment receipt root does not match receipt content'') else Inr ())))))))"

definition validate_judgment_receipt :: "'c calibration_ops \<Rightarrow> 'c judgment_receipt \<Rightarrow> error + 'c judgment_receipt" where
  "validate_judgment_receipt ops r =
     rbind (raise_if
       [(jg_schema_version r \<noteq> judgment_schema, verr ''schema_version: literal''),
        (\<not> is_sha256 (jg_scenario_identity r), verr ''scenario_identity: pattern''),
        (\<not> is_sha256 (jg_subject_identity r), verr ''subject_identity: pattern''),
        (\<not> is_sha256 (jg_subject_evidence_root r), verr ''subject_evidence_root: pattern''),
        (\<not> is_sha256 (jg_rubric_identity r), verr ''rubric_identity: pattern''),
        (\<not> is_sha256 (jg_judge_input_sha256 r), verr ''judge_input_sha256: pattern''),
        (\<not> is_sha256 (jg_judge_response_sha256 r), verr ''judge_response_sha256: pattern''),
        (length (jg_criteria r) < 1 \<or> length (jg_criteria r) > 32, verr ''criteria: length''),
        (\<not> is_sha256 (jg_receipt_root r), verr ''receipt_root: pattern'')]) (\<lambda>_.
     rbind (verify_judgment_receipt ops r) (\<lambda>_. Inr r))"

definition create_judgment_receipt ::
  "'c calibration_ops \<Rightarrow> string \<Rightarrow> string \<Rightarrow> string \<Rightarrow> semantic_rubric \<Rightarrow> judge_profile \<Rightarrow> 'c
   \<Rightarrow> judge_input \<Rightarrow> judge_response \<Rightarrow> error + 'c judgment_receipt" where
  "create_judgment_receipt ops scenario subject root rubric profile calibration input response =
     (case co_read ops (co_material ops calibration) of
        None \<Rightarrow> Inl (verr ''calibration receipt'')
      | Some c \<Rightarrow>
         rbind (require_matching_calibration ops c profile) (\<lambda>_.
         if rubric_identity (ji_rubric input) \<noteq> rubric_identity rubric
         then Inl (Err ValueError ''semantic judge input rubric does not match the scenario rubric'')
         else
          rbind (derive_semantic_decision rubric response) (\<lambda>decision.
          let r = \<lparr>jg_schema_version = judgment_schema, jg_scenario_identity = scenario,
                   jg_subject_identity = subject, jg_subject_evidence_root = root, jg_rubric = rubric,
                   jg_rubric_identity = rubric_identity rubric, jg_judge_profile = profile,
                   jg_calibration_receipt = c, jg_judge_input_sha256 = input_digest input,
                   jg_judge_response_sha256 = response_digest response,
                   jg_criteria = jr_criteria response, jg_decision = decision, jg_receipt_root = []\<rparr> in
          rbind (judgment_root ops r) (\<lambda>receipt_root.
          validate_judgment_receipt ops (r\<lparr>jg_receipt_root := receipt_root\<rparr>)))))"

section \<open>Recorded judgments (\<open>semantic/verification.py\<close>)\<close>

text \<open>
  A recorded judgment is the terminal event of its trial, from the evaluator, and binds the
  root of the evidence without it. Verification reads the receipt back and compares it with the
  scenario's own rubric and judge input; appending is the writer's side of the relation.
\<close>

subsection \<open>Reading\<close>

definition semantic_decisions :: "semantic_decision list" where
  "semantic_decisions = [SEM_PASS, SEM_FAIL, SEM_ABSTAIN]"

definition read_all :: "(json \<Rightarrow> 'a option) \<Rightarrow> json option \<Rightarrow> 'a list option" where
  "read_all f v = do { xs \<leftarrow> as_arr v; those (map f xs) }"

definition read_criterion :: "json \<Rightarrow> semantic_criterion option" where
  "read_criterion v = do {
     m \<leftarrow> as_obj (Some v);
     (if only_keys [''criterion_id'', ''description'', ''minimum_score''] m then Some () else None);
     cid \<leftarrow> as_str (dict_get m ''criterion_id'');
     description \<leftarrow> as_str (dict_get m ''description'');
     score \<leftarrow> as_int (dict_get m ''minimum_score'');
     Some \<lparr>cr_criterion_id = cid, cr_description = description, cr_minimum_score = score\<rparr> }"

definition read_rubric :: "json option \<Rightarrow> semantic_rubric option" where
  "read_rubric v = do {
     m \<leftarrow> as_obj v;
     (if only_keys [''schema_version'', ''rubric_id'', ''revision'', ''criteria''] m then Some () else None);
     schema \<leftarrow> with_default rubric_schema as_str (dict_get m ''schema_version'');
     rid \<leftarrow> as_str (dict_get m ''rubric_id'');
     revision \<leftarrow> as_str (dict_get m ''revision'');
     criteria \<leftarrow> read_all read_criterion (dict_get m ''criteria'');
     of_result (validate_rubric
       \<lparr>ru_schema_version = schema, ru_rubric_id = rid, ru_revision = revision, ru_criteria = criteria\<rparr>) }"

definition read_profile :: "json option \<Rightarrow> judge_profile option" where
  "read_profile v = do {
     m \<leftarrow> as_obj v;
     (if only_keys [''schema_version'', ''provider'', ''model'', ''model_revision'', ''adapter'',
        ''adapter_version'', ''prompt_template_sha256'', ''response_schema'', ''behavior_config_sha256''] m
      then Some () else None);
     schema \<leftarrow> with_default profile_schema as_str (dict_get m ''schema_version'');
     provider \<leftarrow> as_str (dict_get m ''provider'');
     model \<leftarrow> as_str (dict_get m ''model'');
     revision \<leftarrow> as_str (dict_get m ''model_revision'');
     adapter \<leftarrow> as_str (dict_get m ''adapter'');
     adapter_version \<leftarrow> as_str (dict_get m ''adapter_version'');
     prompt \<leftarrow> as_str (dict_get m ''prompt_template_sha256'');
     response \<leftarrow> as_str (dict_get m ''response_schema'');
     config \<leftarrow> as_str (dict_get m ''behavior_config_sha256'');
     of_result (validate_profile
       \<lparr>jp_schema_version = schema, jp_provider = provider, jp_model = model, jp_model_revision = revision,
        jp_adapter = adapter, jp_adapter_version = adapter_version, jp_prompt_template_sha256 = prompt,
        jp_response_schema = response, jp_behavior_config_sha256 = config\<rparr>) }"

definition read_criterion_result :: "json \<Rightarrow> criterion_result option" where
  "read_criterion_result v = do {
     m \<leftarrow> as_obj (Some v);
     (if only_keys [''criterion_id'', ''decision'', ''score''] m then Some () else None);
     cid \<leftarrow> as_str (dict_get m ''criterion_id'');
     decision \<leftarrow> read_enum semantic_value semantic_decisions (dict_get m ''decision'');
     score \<leftarrow> nullable as_int (dict_get m ''score'');
     (let c = \<lparr>cs_criterion_id = cid, cs_decision = decision, cs_score = score\<rparr> in
      case validate_criterion_result c of Inl _ \<Rightarrow> None | Inr _ \<Rightarrow> Some c) }"

definition judgment_fields :: "string list" where
  "judgment_fields =
     [''schema_version'', ''scenario_identity'', ''subject_identity'', ''subject_evidence_root'',
      ''rubric'', ''rubric_identity'', ''judge_profile'', ''calibration_receipt'',
      ''judge_input_sha256'', ''judge_response_sha256'', ''criteria'', ''decision'', ''receipt_root'']"

definition read_judgment_receipt :: "'c calibration_ops \<Rightarrow> dict \<Rightarrow> 'c judgment_receipt option" where
  "read_judgment_receipt ops m = do {
     (if only_keys judgment_fields m then Some () else None);
     schema \<leftarrow> with_default judgment_schema as_str (dict_get m ''schema_version'');
     scen \<leftarrow> as_str (dict_get m ''scenario_identity'');
     subj \<leftarrow> as_str (dict_get m ''subject_identity'');
     pre \<leftarrow> as_str (dict_get m ''subject_evidence_root'');
     rubric \<leftarrow> read_rubric (dict_get m ''rubric'');
     rid \<leftarrow> as_str (dict_get m ''rubric_identity'');
     profile \<leftarrow> read_profile (dict_get m ''judge_profile'');
     cal \<leftarrow> dict_get m ''calibration_receipt'';
     calibration \<leftarrow> co_read ops cal;
     input \<leftarrow> as_str (dict_get m ''judge_input_sha256'');
     response \<leftarrow> as_str (dict_get m ''judge_response_sha256'');
     criteria \<leftarrow> read_all read_criterion_result (dict_get m ''criteria'');
     decision \<leftarrow> read_enum semantic_value semantic_decisions (dict_get m ''decision'');
     root \<leftarrow> as_str (dict_get m ''receipt_root'');
     of_result (validate_judgment_receipt ops
       \<lparr>jg_schema_version = schema, jg_scenario_identity = scen, jg_subject_identity = subj,
        jg_subject_evidence_root = pre, jg_rubric = rubric, jg_rubric_identity = rid,
        jg_judge_profile = profile, jg_calibration_receipt = calibration,
        jg_judge_input_sha256 = input, jg_judge_response_sha256 = response, jg_criteria = criteria,
        jg_decision = decision, jg_receipt_root = root\<rparr>) }"

subsection \<open>Verification\<close>

definition semantic_source :: string where
  "semantic_source = ''evaluator:semantic-judge''"

definition sjerr :: "string \<Rightarrow> error" where
  "sjerr msg = Err SemanticJudgmentError msg"

lemma sjerr_cong [cong]: "sjerr m = sjerr m"
  by (rule refl)

definition evidence_before_semantic_judgment :: "trial_evidence \<Rightarrow> error + trial_evidence" where
  "evidence_before_semantic_judgment t =
     (if te_events t = [] \<or> ev_kind (last (te_events t)) \<noteq> SEMANTIC_JUDGMENT
      then Inl (sjerr ''trial does not end with semantic judgment evidence'')
      else validate_evidence (t\<lparr>te_events := butlast (te_events t)\<rparr>))"

definition verify_judgment_evidence :: "'c calibration_ops \<Rightarrow> trial_evidence \<Rightarrow> error + 'c judgment_receipt option" where
  "verify_judgment_evidence ops t = (case events_of SEMANTIC_JUDGMENT t of
       [] \<Rightarrow> Inr None
     | [e] \<Rightarrow>
         rbind (raise_if
           [(ev_sequence e \<noteq> int (length (te_events t)) - 1,
             sjerr ''semantic judgment must be the terminal evaluator event''),
            (ev_source e \<noteq> semantic_source, sjerr ''semantic judgment source is not recognized''),
            (ev_critical e, sjerr ''semantic judgment evidence must not claim critical authority'')]) (\<lambda>_.
         case read_judgment_receipt ops (ev_payload e) of
           None \<Rightarrow> Inl (sjerr ''semantic judgment receipt is malformed'')
         | Some r \<Rightarrow>
             rbind (raise_if
               [(jg_subject_identity r \<noteq> te_subject_identity t,
                 sjerr ''semantic judgment subject identity does not match evidence''),
                (jg_scenario_identity r \<noteq> te_scenario_identity t,
                 sjerr ''semantic judgment scenario identity does not match evidence'')]) (\<lambda>_.
             rbind (evidence_before_semantic_judgment t) (\<lambda>before.
             if jg_subject_evidence_root r \<noteq> evidence_root before
             then Inl (sjerr ''semantic judgment does not bind the exact pre-judgment subject evidence root'')
             else Inr (Some r))))
     | _ \<Rightarrow> Inl (sjerr ''semantic evidence permits at most one recorded judgment''))"

text \<open>The part of \<open>verify_semantic_judgment\<close> for a verified receipt.\<close>

definition verify_judgment_input ::
  "evaluation_scenario \<Rightarrow> semantic_rubric \<Rightarrow> trial_evidence \<Rightarrow> 'c judgment_receipt \<Rightarrow> error + 'c judgment_receipt option" where
  "verify_judgment_input s rubric t r =
     rbind (raise_if
       [(jg_scenario_identity r \<noteq> scenario_identity s,
         sjerr ''semantic judgment scenario identity does not match''),
        (jg_rubric_identity r \<noteq> rubric_identity rubric,
         sjerr ''semantic judgment rubric identity does not match scenario'')]) (\<lambda>_.
     rbind (evidence_before_semantic_judgment t) (\<lambda>before.
     case te_final_output before of
       None \<Rightarrow> Inl (sjerr ''recorded semantic judgment requires the exact candidate final output'')
     | Some candidate \<Rightarrow>
         rbind (mk_judge_input (es_objective s) rubric candidate) (\<lambda>input.
         if jg_judge_input_sha256 r \<noteq> input_digest input
         then Inl (sjerr (''semantic judgment input digest does not match the exact scenario ''
                @ ''objective, rubric, and candidate output''))
         else Inr (Some r))))"

definition verify_semantic_judgment ::
  "'c calibration_ops \<Rightarrow> evaluation_scenario \<Rightarrow> trial_evidence \<Rightarrow> error + 'c judgment_receipt option" where
  "verify_semantic_judgment ops s t = (case es_semantic_rubric s of
       None \<Rightarrow> if events_of SEMANTIC_JUDGMENT t \<noteq> []
         then Inl (sjerr ''semantic judgment evidence exists for a scenario without a semantic rubric'')
         else Inr None
     | Some rubric \<Rightarrow>
         rbind (verify_judgment_evidence ops t) (\<lambda>found. case found of
           None \<Rightarrow> Inr None
         | Some r \<Rightarrow> verify_judgment_input s rubric t r))"

definition judgment_dict :: "'c calibration_ops \<Rightarrow> 'c judgment_receipt \<Rightarrow> dict" where
  "judgment_dict ops r = (case judgment_material ops r of
     JObj kvs \<Rightarrow> kvs @ [(''receipt_root'', JStr (jg_receipt_root r))] | _ \<Rightarrow> [])"

text \<open>\<open>append_semantic_judgment\<close>; \<open>now\<close> is the event's default time.\<close>

definition append_semantic_judgment ::
  "'c calibration_ops \<Rightarrow> py_datetime \<Rightarrow> trial_evidence \<Rightarrow> 'c judgment_receipt \<Rightarrow> error + trial_evidence" where
  "append_semantic_judgment ops now t r =
     rbind (raise_if
       [(events_of SEMANTIC_JUDGMENT t \<noteq> [], sjerr ''trial already contains semantic judgment evidence''),
        (jg_subject_identity r \<noteq> te_subject_identity t, sjerr ''semantic judgment subject identity does not match''),
        (jg_scenario_identity r \<noteq> te_scenario_identity t, sjerr ''semantic judgment scenario identity does not match''),
        (jg_subject_evidence_root r \<noteq> evidence_root t,
         sjerr ''semantic judgment does not bind the exact pre-judgment subject evidence root'')]) (\<lambda>_.
     rbind (mk_event (int (length (te_events t))) SEMANTIC_JUDGMENT semantic_source (judgment_dict ops r) now False) (\<lambda>e.
     validate_evidence (t\<lparr>te_events := te_events t @ [e]\<rparr>)))"

end
