(* ===== verification/Runner.thy ===== *)
theory Runner
  imports Runtime Semantic
begin

section \<open>The trial runner (\<open>runtime/_evaluator_core.py\<close>, \<open>adapters/base.py\<close>, \<open>conformance.py\<close>, \<open>replay.py\<close>)\<close>

text \<open>
  \<open>TrialRunner\<close> executes one adapter and turns what it observed into a trial with a verdict.
  What the world decides is the record \<open>run_env\<close>: what the adapter and the judge did, whether
  the deadline had passed at each place the code looks at the clock, and the clock readings
  written into evidence. A run looks at each place at most once, so a function of the place
  describes every possible clock.
\<close>

subsection \<open>Adapters\<close>

text \<open>\<open>type(adapter)\<close>: the built-in classes the runner tells apart, and every other.\<close>

datatype adapter_kind =
    REPLAY_ADAPTER | OPENAI_AGENTS | OPENAI_HANDOFF_AUTHORITY | OPENAI_HITL_APPROVAL
  | OPENAI_RETRIEVAL | OPENAI_SIDE_EFFECT | MCP_TOOL_RESULT | MCP_TOOL_METADATA
  | MCP_TOOL_ERROR_RECOVERY | MCP_TOOL_IDENTITY_DRIFT | MCP_TOOL_SCHEMA_DRIFT
  | MCP_TOOL_STALE_CACHE | OTHER_ADAPTER

record adapter_result =
  ad_events :: "evidence_event list"
  ad_final_state :: dict
  ad_final_output :: "string option"
  ad_elapsed_ms :: pyfloat
  ad_input_tokens :: int
  ad_output_tokens :: int
  ad_estimated_cost_usd :: pyfloat

text \<open>What \<open>execute\<close> handed back: an exact \<open>AdapterResult\<close> or another object.\<close>

datatype adapter_value = RESULT adapter_result | NOT_A_RESULT

definition acerr :: "string \<Rightarrow> error" where
  "acerr msg = Err AdapterConformanceError msg"

text \<open>
  \<open>validate_adapter_result\<close>. The exact-type checks of the fields hold by the types of the
  record.
\<close>

definition validate_adapter_result :: "adapter_value \<Rightarrow> error + adapter_result" where
  "validate_adapter_result v = (case v of
       NOT_A_RESULT \<Rightarrow> Inl (acerr ''adapter must return an exact AdapterResult'')
     | RESULT r \<Rightarrow> rbind (raise_if
         [(map ev_sequence (ad_events r) \<noteq> map int [0..<length (ad_events r)],
           acerr ''adapter event sequence must be contiguous from zero''),
          (\<not> nonneg_float (ad_elapsed_ms r), acerr ''adapter elapsed_ms must be a finite non-negative number''),
          (ad_input_tokens r < 0, acerr ''adapter input_tokens must be a non-negative exact integer''),
          (ad_output_tokens r < 0, acerr ''adapter output_tokens must be a non-negative exact integer''),
          (\<not> nonneg_float (ad_estimated_cost_usd r),
           acerr ''adapter estimated_cost_usd must be a finite non-negative number'')]) (\<lambda>_. Inr r))"

datatype adapter_outcome =
    RETURNED adapter_value
  | PRECONDITION string string
  | RAISED string
  | LATE

text \<open>\<open>EvidenceReplayAdapter.execute\<close>\<close>

definition replay_execute :: "trial_evidence \<Rightarrow> string \<Rightarrow> string \<Rightarrow> string \<Rightarrow> adapter_outcome" where
  "replay_execute t subject scenario trial_id =
     (if trial_id \<noteq> te_trial_id t
      then PRECONDITION ''replay_identity_mismatch'' ''recorded evidence trial identity does not match replay trial''
      else if subject \<noteq> te_subject_identity t
      then PRECONDITION ''replay_identity_mismatch'' ''recorded evidence subject identity does not match replay subject''
      else if scenario \<noteq> te_scenario_identity t
      then PRECONDITION ''replay_identity_mismatch'' ''recorded evidence scenario identity does not match replay scenario''
      else RETURNED (RESULT
        \<lparr>ad_events = te_events t, ad_final_state = te_final_state t, ad_final_output = te_final_output t,
         ad_elapsed_ms = te_elapsed_ms t, ad_input_tokens = te_input_tokens t,
         ad_output_tokens = te_output_tokens t, ad_estimated_cost_usd = te_estimated_cost_usd t\<rparr>))"

subsection \<open>The world around a run\<close>

datatype checkpoint =
    BEFORE_ADAPTER | AFTER_ADAPTER_ERROR | AFTER_ADAPTER | AFTER_INVALID_EVIDENCE | AFTER_EVIDENCE
  | AFTER_BLOCKING_SCAN | AFTER_AUTHORITY_SCAN | AFTER_CLOSURE_ERROR | AFTER_CLOSURE | AFTER_GRADING
  | AFTER_SEMANTIC_ERROR | AFTER_SEMANTIC | AFTER_JUDGE_AUTHORITY_ERROR | AFTER_JUDGE_AUTHORITY
  | BEFORE_JUDGE | AFTER_JUDGE_ERROR | AFTER_JUDGE | AFTER_JUDGMENT_ERROR | AFTER_JUDGMENT

datatype judge_outcome =
    JUDGED judge_response
  | JUDGED_OTHER
  | JUDGE_RAISED string
  | JUDGE_LATE

text \<open>A judge exposes its profile and calibration, or raises an exception of some other class.\<close>

record 'c semantic_judge =
  sj_authority :: "string + judge_profile \<times> 'c"
  sj_judges :: "judge_input \<Rightarrow> judge_outcome"

record 'c run_env =
  rn_deadline :: "pyfloat option"
  rn_expired :: "checkpoint \<Rightarrow> bool"
  rn_elapsed_ms :: pyfloat
  rn_now :: "evidence_kind \<Rightarrow> py_datetime"
  rn_adapter_name :: string
  rn_adapter :: adapter_kind
  rn_outcome :: adapter_outcome
  rn_identity_after :: "string option"
  rn_judge :: "'c semantic_judge option"
  rn_calibration :: "'c calibration_ops"
  rn_lax_bool :: "json \<Rightarrow> bool option"

text \<open>The identity of \<open>execution_scenario\<close> after the adapter ran is \<open>rn_identity_after\<close>, or none when computing it raises.\<close>

record run_context =
  cx_subject :: string
  cx_scenario :: evaluation_scenario
  cx_trial_id :: string

record 'c evaluated_trial =
  rt_evidence :: trial_evidence
  rt_oracle_results :: "oracle_result list"
  rt_verdict :: verdict
  rt_semantic_judgment :: "'c judgment_receipt option"

definition completion_evidence_root :: "'c evaluated_trial \<Rightarrow> string" where
  "completion_evidence_root r = evidence_root (rt_evidence r)"

definition critical_violations :: "'c evaluated_trial \<Rightarrow> nat" where
  "critical_violations r =
     length (filter (\<lambda>o'. or_critical o' \<and> or_verdict o' = FAIL) (rt_oracle_results r))
     + (if rt_verdict r = BLOCKED \<and> events_of POLICY_VIOLATION (rt_evidence r) \<noteq> [] then 1 else 0)"

type_synonym 'c run_result = "error + 'c evaluated_trial"

definition deadline_expired :: "'c run_env \<Rightarrow> checkpoint \<Rightarrow> bool" where
  "deadline_expired env c \<longleftrightarrow> rn_deadline env \<noteq> None \<and> rn_expired env c"

subsection \<open>Blocked trials\<close>

definition blocked_trial :: "error + trial_evidence \<Rightarrow> 'c run_result" where
  "blocked_trial r = rbind r (\<lambda>t. Inr
     \<lparr>rt_evidence = t, rt_oracle_results = [], rt_verdict = BLOCKED, rt_semantic_judgment = None\<rparr>)"

text \<open>Evidence that holds one event of the evaluator and nothing of the subject.\<close>

definition single_event_evidence ::
  "'c run_env \<Rightarrow> run_context \<Rightarrow> evidence_kind \<Rightarrow> string \<Rightarrow> dict \<Rightarrow> error + trial_evidence" where
  "single_event_evidence env cx kind source payload =
     rbind (mk_event 0 kind source payload (rn_now env kind) True) (\<lambda>e.
     validate_evidence
       \<lparr>te_trial_id = cx_trial_id cx, te_subject_identity = cx_subject cx,
        te_scenario_identity = scenario_identity (cx_scenario cx), te_events = [e],
        te_final_state = [], te_final_output = None, te_elapsed_ms = rn_elapsed_ms env,
        te_input_tokens = 0, te_output_tokens = 0, te_estimated_cost_usd = fl_0\<rparr>)"

definition append_event ::
  "'c run_env \<Rightarrow> trial_evidence \<Rightarrow> string \<Rightarrow> dict \<Rightarrow> error + evidence_event list" where
  "append_event env t source payload =
     rbind (mk_event (int (length (te_events t))) EVALUATION_ERROR source payload (rn_now env EVALUATION_ERROR) True)
       (\<lambda>e. Inr (te_events t @ [e]))"

definition error_payload :: "string \<Rightarrow> string \<Rightarrow> dict" where
  "error_payload code reason = [(''code'', JStr code), (''reason'', JStr reason)]"

definition append_evaluation_error ::
  "'c run_env \<Rightarrow> trial_evidence \<Rightarrow> string \<Rightarrow> string \<Rightarrow> string \<Rightarrow> error + trial_evidence" where
  "append_evaluation_error env t source code reason =
     rbind (append_event env t source (error_payload code reason)) (\<lambda>es.
     validate_evidence (t\<lparr>te_events := es\<rparr>))"

definition deadline_payload :: "'c run_env \<Rightarrow> dict" where
  "deadline_payload env = error_payload ''trial_deadline_exceeded'' ''evaluator wall-clock deadline exceeded''
     @ [(''deadline_seconds'', opt_json (map_option JFloat (rn_deadline env)))]"

definition deadline_blocked :: "'c run_env \<Rightarrow> run_context \<Rightarrow> trial_evidence option \<Rightarrow> 'c run_result" where
  "deadline_blocked env cx evidence = blocked_trial (case evidence of
       None \<Rightarrow> single_event_evidence env cx EVALUATION_ERROR ''evaluator:deadline'' (deadline_payload env)
     | Some t \<Rightarrow> rbind (append_event env t ''evaluator:deadline'' (deadline_payload env)) (\<lambda>es.
         validate_evidence (t\<lparr>te_events := es, te_elapsed_ms := rn_elapsed_ms env\<rparr>)))"

definition before_deadline ::
  "'c run_env \<Rightarrow> run_context \<Rightarrow> trial_evidence option \<Rightarrow> checkpoint \<Rightarrow> 'c run_result \<Rightarrow> 'c run_result" where
  "before_deadline env cx evidence c k =
     (if deadline_expired env c then deadline_blocked env cx evidence else k)"

definition scenario_contract_drifted :: "'c run_env \<Rightarrow> run_context \<Rightarrow> bool" where
  "scenario_contract_drifted env cx \<longleftrightarrow> rn_identity_after env \<noteq> Some (scenario_identity (cx_scenario cx))"

definition scenario_contract_mutated :: "'c run_env \<Rightarrow> run_context \<Rightarrow> 'c run_result" where
  "scenario_contract_mutated env cx = blocked_trial (single_event_evidence env cx EVALUATION_ERROR
     (''evaluator:adapter:'' @ rn_adapter_name env) (error_payload ''scenario_contract_mutated''
       (''adapter-facing scenario contract changed during execution; ''
        @ ''the evaluator retained the pre-execution contract'')))"

definition invalid_adapter_result :: "'c run_env \<Rightarrow> run_context \<Rightarrow> 'c run_result" where
  "invalid_adapter_result env cx = blocked_trial (single_event_evidence env cx EVALUATION_ERROR
     (''evaluator:adapter:'' @ rn_adapter_name env) (error_payload ''invalid_adapter_result''
       ''adapter result failed normalized evidence validation''))"

definition blocked_by ::
  "'c run_env \<Rightarrow> trial_evidence \<Rightarrow> string \<Rightarrow> string \<Rightarrow> string \<Rightarrow> 'c run_result" where
  "blocked_by env t source code reason = blocked_trial (append_evaluation_error env t source code reason)"

subsection \<open>The adapter's turn\<close>

definition to_evidence :: "adapter_result \<Rightarrow> run_context \<Rightarrow> error + trial_evidence" where
  "to_evidence r cx = validate_evidence
     \<lparr>te_trial_id = cx_trial_id cx, te_subject_identity = cx_subject cx,
      te_scenario_identity = scenario_identity (cx_scenario cx), te_events = ad_events r,
      te_final_state = ad_final_state r, te_final_output = ad_final_output r,
      te_elapsed_ms = ad_elapsed_ms r, te_input_tokens = ad_input_tokens r,
      te_output_tokens = ad_output_tokens r, te_estimated_cost_usd = ad_estimated_cost_usd r\<rparr>"

text \<open>An exception of the adapter becomes one event, unless the deadline or the contract explains it.\<close>

definition adapter_failed :: "'c run_env \<Rightarrow> run_context \<Rightarrow> evidence_kind \<Rightarrow> dict \<Rightarrow> 'c run_result" where
  "adapter_failed env cx kind payload =
     before_deadline env cx None AFTER_ADAPTER_ERROR
       (if scenario_contract_drifted env cx then scenario_contract_mutated env cx
        else blocked_trial (single_event_evidence env cx kind (''adapter:'' @ rn_adapter_name env) payload))"

definition adapter_returned ::
  "'c run_env \<Rightarrow> run_context \<Rightarrow> adapter_value \<Rightarrow> (trial_evidence \<Rightarrow> 'c run_result) \<Rightarrow> 'c run_result" where
  "adapter_returned env cx v grade =
     before_deadline env cx None AFTER_ADAPTER
       (if scenario_contract_drifted env cx then scenario_contract_mutated env cx
        else (case validate_adapter_result v of
            Inl _ \<Rightarrow> invalid_adapter_result env cx
          | Inr r \<Rightarrow> (case to_evidence r cx of
                Inr t \<Rightarrow> grade t
              | Inl e \<Rightarrow> if err_class e = ValidationError
                  then before_deadline env cx None AFTER_INVALID_EVIDENCE (invalid_adapter_result env cx)
                  else Inl e)))"

text \<open>With no deadline the code awaits the adapter, which is then never \<open>LATE\<close>.\<close>

definition adapter_turn :: "'c run_env \<Rightarrow> run_context \<Rightarrow> (trial_evidence \<Rightarrow> 'c run_result) \<Rightarrow> 'c run_result" where
  "adapter_turn env cx grade = before_deadline env cx None BEFORE_ADAPTER (case rn_outcome env of
       LATE \<Rightarrow> deadline_blocked env cx None
     | PRECONDITION code reason \<Rightarrow> adapter_failed env cx EVALUATION_ERROR (error_payload code reason)
     | RAISED name \<Rightarrow> adapter_failed env cx RUNTIME_ERROR
         [(''exception_type'', JStr name), (''detail_retained'', JBool False)]
     | RETURNED v \<Rightarrow> adapter_returned env cx v grade)"

section \<open>From evidence to verdict (\<open>TrialRunner._run_trial\<close>)\<close>

text \<open>
  The graded half of \<open>TrialRunner._run_trial\<close>: live evidence rejection, closure, deterministic
  grading, the semantic turn and the verdict, up to \<open>run_trial\<close> itself.
\<close>

subsection \<open>Evidence only the framework may produce\<close>

definition has_kind :: "trial_evidence \<Rightarrow> evidence_kind \<Rightarrow> bool" where
  "has_kind t k \<longleftrightarrow> list_ex (\<lambda>e. ev_kind e = k) (te_events t)"

text \<open>\<open>_live_attack_delivery_adapter_types\<close>: every built-in adapter but the replay.\<close>

definition live_attack_adapter :: "adapter_kind \<Rightarrow> bool" where
  "live_attack_adapter a \<longleftrightarrow> a \<noteq> OTHER_ADAPTER \<and> a \<noteq> REPLAY_ADAPTER"

definition live_protocol_adapters :: "(string \<times> adapter_kind) list" where
  "live_protocol_adapters =
     [(''bridge:mcp-agent:tool-result'', MCP_TOOL_RESULT),
      (''bridge:mcp-agent:tool-error-recovery'', MCP_TOOL_ERROR_RECOVERY),
      (''bridge:mcp-agent:tool-schema-drift'', MCP_TOOL_SCHEMA_DRIFT),
      (''bridge:mcp-agent:tool-identity-drift'', MCP_TOOL_IDENTITY_DRIFT),
      (''bridge:mcp-agent:tool-stale-cache'', MCP_TOOL_STALE_CACHE),
      (''bridge:mcp-agent:tool-metadata'', MCP_TOOL_METADATA)]"

definition foreign_protocol_event :: "adapter_kind \<Rightarrow> evidence_event \<Rightarrow> bool" where
  "foreign_protocol_event a e \<longleftrightarrow> ev_kind e = PROTOCOL_DELIVERY \<and>
     (case map_of live_protocol_adapters (ev_source e) of None \<Rightarrow> False | Some k \<Rightarrow> a \<noteq> k)"

definition live_evidence_violation ::
  "adapter_kind \<Rightarrow> trial_evidence \<Rightarrow> (string \<times> string \<times> string) option" where
  "live_evidence_violation a t =
     (if a = REPLAY_ADAPTER then None
      else if has_kind t SEMANTIC_JUDGMENT then Some
        (''evaluator:semantic-judgment'', ''semantic_judgment_live_injection'',
         ''live adapter output cannot supply evaluator-owned semantic judgment evidence; recorded ''
         @ ''semantic judgments are accepted only through the exact evidence replay adapter'')
      else if has_kind t ATTACK_DELIVERY \<and> \<not> live_attack_adapter a then Some
        (''evaluator:attack-delivery'', ''attack_delivery_live_injection'',
         ''live adapter output cannot supply evaluator-owned attack-delivery evidence; fresh ''
         @ ''adversarial delivery is accepted only from an exact framework-controlled OpenAI ''
         @ ''injector adapter or through exact evidence replay'')
      else if has_kind t RETRIEVAL_DELIVERY \<and> a \<noteq> OPENAI_RETRIEVAL then Some
        (''evaluator:retrieval-delivery'', ''retrieval_delivery_live_injection'',
         ''live adapter output cannot supply evaluator-owned retrieval-delivery evidence; live ''
         @ ''retrieval delivery is accepted only from the exact built-in retrieval adapter or ''
         @ ''through exact evidence replay'')
      else if has_kind t APPROVAL_DECISION \<and> a \<noteq> OPENAI_HITL_APPROVAL then Some
        (''evaluator:approval-intent'', ''approval_decision_live_injection'',
         ''live adapter output cannot supply framework-owned approval-decision evidence; live ''
         @ ''approval decisions are accepted only from the exact built-in HITL approval adapter or ''
         @ ''through exact evidence replay'')
      else if has_kind t SIDE_EFFECT_OBSERVATION \<and> a \<noteq> OPENAI_SIDE_EFFECT then Some
        (''evaluator:side-effect-observer'', ''side_effect_observation_live_injection'',
         ''live adapter output cannot supply evaluator-owned side-effect observation evidence; ''
         @ ''live physical-effect observations are accepted only from the exact built-in ''
         @ ''side-effect observer or through exact evidence replay'')
      else (case filter (foreign_protocol_event a) (te_events t) of
          [] \<Rightarrow> None
        | e # _ \<Rightarrow> Some
            (''evaluator:protocol-delivery'', ''protocol_delivery_live_injection'',
             ''live adapter output cannot supply framework-owned MCP protocol delivery source ''
             @ str_repr (ev_source e) @ ''; fresh bridge evidence is accepted only from its exact ''
             @ ''built-in bridge adapter or through exact evidence replay'')))"

subsection \<open>The semantic judge's turn\<close>

definition semantic_verdict :: "semantic_decision \<Rightarrow> verdict" where
  "semantic_verdict d = (case d of SEM_PASS \<Rightarrow> PASS | SEM_FAIL \<Rightarrow> FAIL | SEM_ABSTAIN \<Rightarrow> INCONCLUSIVE)"

text \<open>The response becomes a receipt and the receipt the terminal event.\<close>

definition record_judgment ::
  "'c run_env \<Rightarrow> run_context \<Rightarrow> trial_evidence \<Rightarrow> semantic_rubric \<Rightarrow> judge_profile \<times> 'c \<Rightarrow> judge_input
   \<Rightarrow> judge_outcome \<Rightarrow> error + 'c judgment_receipt \<times> trial_evidence" where
  "record_judgment env cx t rubric authority input outcome = (case outcome of
       JUDGED response \<Rightarrow>
         rbind (validate_response response) (\<lambda>response.
         rbind (create_judgment_receipt (rn_calibration env) (scenario_identity (cx_scenario cx)) (cx_subject cx)
                  (evidence_root t) rubric (fst authority) (snd authority) input response) (\<lambda>r.
         rbind (append_semantic_judgment (rn_calibration env) (rn_now env SEMANTIC_JUDGMENT) t r) (\<lambda>t'.
         Inr (r, t'))))
     | _ \<Rightarrow> Inl (Err ValueError ''semantic judge returned an unexpected response type''))"

definition judge_answered ::
  "'c run_env \<Rightarrow> run_context \<Rightarrow> trial_evidence \<Rightarrow> oracle_result list \<Rightarrow> semantic_rubric
   \<Rightarrow> judge_profile \<times> 'c \<Rightarrow> judge_input \<Rightarrow> judge_outcome \<Rightarrow> 'c run_result" where
  "judge_answered env cx t rs rubric authority input outcome =
     before_deadline env cx (Some t) AFTER_JUDGE
       (case record_judgment env cx t rubric authority input outcome of
          Inl e \<Rightarrow> if is_value_error e
            then before_deadline env cx (Some t) AFTER_JUDGMENT_ERROR
              (blocked_by env t ''evaluator:semantic-judgment'' ''semantic_judgment_invalid'' (err_msg e))
            else Inl e
        | Inr (r, t') \<Rightarrow> before_deadline env cx (Some t') AFTER_JUDGMENT
            (Inr \<lparr>rt_evidence = t', rt_oracle_results = rs, rt_verdict = semantic_verdict (jg_decision r),
                  rt_semantic_judgment = Some r\<rparr>))"

definition judge_turn ::
  "'c run_env \<Rightarrow> run_context \<Rightarrow> trial_evidence \<Rightarrow> oracle_result list \<Rightarrow> semantic_rubric
   \<Rightarrow> judge_profile \<times> 'c \<Rightarrow> judge_input \<Rightarrow> (judge_input \<Rightarrow> judge_outcome) \<Rightarrow> 'c run_result" where
  "judge_turn env cx t rs rubric authority input judges =
     before_deadline env cx (Some t) BEFORE_JUDGE (case judges input of
        JUDGE_LATE \<Rightarrow> deadline_blocked env cx (Some t)
      | JUDGE_RAISED name \<Rightarrow> before_deadline env cx (Some t) AFTER_JUDGE_ERROR
          (blocked_by env t ''evaluator:semantic-judge'' ''semantic_judge_runtime_error''
             (''semantic judge invocation failed: '' @ name))
      | outcome \<Rightarrow> judge_answered env cx t rs rubric authority input outcome)"

text \<open>The exception type that \<open>validate_semantic_judge_authority\<close> lets out, or the authority.\<close>

definition judge_authority ::
  "'c run_env \<Rightarrow> 'c semantic_judge \<Rightarrow> string + judge_profile \<times> 'c" where
  "judge_authority env j = (case sj_authority j of
       Inl name \<Rightarrow> Inl name
     | Inr (profile, calibration) \<Rightarrow>
         map_error (\<lambda>_. ''SemanticJudgeConfigurationError'')
           (validate_judge_authority (rn_calibration env) profile calibration))"

text \<open>
  The judge's input is built outside every \<open>try\<close>: an exception of it leaves the runner.
\<close>

definition semantic_turn ::
  "'c run_env \<Rightarrow> run_context \<Rightarrow> trial_evidence \<Rightarrow> oracle_result list \<Rightarrow> semantic_rubric \<Rightarrow> 'c run_result" where
  "semantic_turn env cx t rs rubric = (case rn_judge env of
       None \<Rightarrow> blocked_by env t ''evaluator:semantic-judge'' ''semantic_judge_missing''
         ''scenario requires semantic grading but no calibrated judge is configured''
     | Some j \<Rightarrow> (case te_final_output t of
         None \<Rightarrow> blocked_by env t ''evaluator:semantic-judge'' ''semantic_candidate_missing''
           ''scenario requires semantic grading but the subject produced no final output''
       | Some candidate \<Rightarrow> (case judge_authority env j of
           Inl name \<Rightarrow> before_deadline env cx (Some t) AFTER_JUDGE_AUTHORITY_ERROR
             (blocked_by env t ''evaluator:semantic-judge'' ''semantic_judge_uncalibrated''
                (''semantic judge authority is unavailable: '' @ name))
         | Inr authority \<Rightarrow> before_deadline env cx (Some t) AFTER_JUDGE_AUTHORITY
             (rbind (mk_judge_input (es_objective (cx_scenario cx)) rubric candidate) (\<lambda>input.
              judge_turn env cx t rs rubric authority input (sj_judges j))))))"

subsection \<open>Grading\<close>

text \<open>What follows deterministic grading, given the recorded judgment, if any.\<close>

definition decide_trial ::
  "'c run_env \<Rightarrow> run_context \<Rightarrow> trial_evidence \<Rightarrow> oracle_result list \<Rightarrow> 'c judgment_receipt option \<Rightarrow> 'c run_result" where
  "decide_trial env cx t rs recorded =
     (if any_failed rs then
        (if recorded \<noteq> None
         then blocked_by env t ''evaluator:semantic-judgment'' ''semantic_judgment_after_deterministic_failure''
           (''recorded semantic judgment is impossible because deterministic ''
            @ ''grading already failed and must have short-circuited the judge'')
         else Inr \<lparr>rt_evidence = t, rt_oracle_results = rs, rt_verdict = FAIL, rt_semantic_judgment = None\<rparr>)
      else (case es_semantic_rubric (cx_scenario cx) of
          None \<Rightarrow> Inr \<lparr>rt_evidence = t, rt_oracle_results = rs, rt_verdict = PASS, rt_semantic_judgment = None\<rparr>
        | Some rubric \<Rightarrow> (case recorded of
            Some r \<Rightarrow> Inr \<lparr>rt_evidence = t, rt_oracle_results = rs,
              rt_verdict = semantic_verdict (jg_decision r), rt_semantic_judgment = Some r\<rparr>
          | None \<Rightarrow> semantic_turn env cx t rs rubric)))"

definition grade_closed :: "'c run_env \<Rightarrow> run_context \<Rightarrow> trial_evidence \<Rightarrow> 'c run_result" where
  "grade_closed env cx t =
     (let rs = grade_deterministic_evidence (rn_lax_bool env) (cx_scenario cx) t in
      before_deadline env cx (Some t) AFTER_GRADING
        (case verify_semantic_judgment (rn_calibration env) (cx_scenario cx) t of
           Inl e \<Rightarrow> if err_class e = SemanticJudgmentError
             then before_deadline env cx (Some t) AFTER_SEMANTIC_ERROR
               (blocked_by env t ''evaluator:semantic-judgment'' ''semantic_judgment_unverified'' (err_msg e))
             else Inl e
         | Inr recorded \<Rightarrow> before_deadline env cx (Some t) AFTER_SEMANTIC (decide_trial env cx t rs recorded)))"

definition close_and_grade :: "'c run_env \<Rightarrow> run_context \<Rightarrow> trial_evidence \<Rightarrow> 'c run_result" where
  "close_and_grade env cx t =
     (case verify_pregrading_closure (rn_lax_bool env) (cx_scenario cx) t of
        Inl (Unverified source code reason) \<Rightarrow> before_deadline env cx (Some t) AFTER_CLOSURE_ERROR
          (blocked_by env t source code reason)
      | Inl (Escapes e) \<Rightarrow> Inl e
      | Inr _ \<Rightarrow> before_deadline env cx (Some t) AFTER_CLOSURE (grade_closed env cx t))"

definition grade_evidence :: "'c run_env \<Rightarrow> run_context \<Rightarrow> trial_evidence \<Rightarrow> 'c run_result" where
  "grade_evidence env cx t =
     before_deadline env cx (Some t) AFTER_EVIDENCE (
     before_deadline env cx (Some t) AFTER_BLOCKING_SCAN (
     if has_blocking_evidence t
     then Inr \<lparr>rt_evidence = t, rt_oracle_results = [], rt_verdict = BLOCKED, rt_semantic_judgment = None\<rparr>
     else before_deadline env cx (Some t) AFTER_AUTHORITY_SCAN
       (case live_evidence_violation (rn_adapter env) t of
          Some (source, code, reason) \<Rightarrow> blocked_by env t source code reason
        | None \<Rightarrow> close_and_grade env cx t)))"

definition run_trial ::
  "'c run_env \<Rightarrow> subject_fingerprint \<Rightarrow> evaluation_scenario \<Rightarrow> string \<Rightarrow> 'c run_result" where
  "run_trial env subject scenario trial_id =
     rbind (snapshot_subject subject) (\<lambda>sf.
     rbind (snapshot_scenario scenario) (\<lambda>s.
     rbind (snapshot_scenario s) (\<lambda>_.
     let cx = \<lparr>cx_subject = subject_identity sf, cx_scenario = s, cx_trial_id = trial_id\<rparr> in
     adapter_turn env cx (grade_evidence env cx))))"

text \<open>\<open>_validate_deadline_seconds\<close> on a number.\<close>

definition validate_deadline_seconds :: "pyfloat option \<Rightarrow> error + pyfloat option" where
  "validate_deadline_seconds v = (case v of
       None \<Rightarrow> Inr None
     | Some x \<Rightarrow> if \<not> isfinite x \<or> fl_le x fl_0
         then Inl (Err ValueError ''deadline_seconds must be a finite positive number'') else Inr (Some x))"

end
