(* ===== verification/RetrievalProofs.thy ===== *)
theory RetrievalProofs
  imports Retrieval
begin

section \<open>Rankings and what retrieval verification establishes\<close>

text \<open>
  Ranking is a total order of the corpus, and an accepted retrieval delivery is characterised
  (\<open>retrieval_closed\<close>).
\<close>

subsection \<open>Ranking\<close>

lemma rank_key_inj:
  assumes "distinct (map rc_chunk_id cs)"
  shows "inj_on (rank_key q) (set cs)"
  using assms by (auto simp: inj_on_def rank_key_def distinct_map)

text \<open>The ranking does not depend on the order of the corpus.\<close>

lemma ranked_chunks_perm:
  assumes "mset (co_chunks c) = mset (co_chunks d)" "distinct (map rc_chunk_id (co_chunks c))"
  shows "ranked_chunks c q = ranked_chunks d q"
  unfolding ranked_chunks_def using assms(1) rank_key_inj [OF assms(2)] by (rule sort_key_perm)

lemma rank_corpus_perm:
  assumes "mset (co_chunks c) = mset (co_chunks d)" "distinct (map rc_chunk_id (co_chunks c))"
  shows "rank_corpus c q = rank_corpus d q"
  using ranked_chunks_perm [OF assms] by (simp add: rank_corpus_def)

lemma chunk_score_nonneg: "validate_query q = Inr () \<Longrightarrow> 0 \<le> chunk_score q c"
  by (auto simp: chunk_score_def validate_query_def validate_ranker_def result_simps Let_def)

definition top_chunks :: "retrieval_corpus \<Rightarrow> retrieval_query \<Rightarrow> retrieval_chunk list" where
  "top_chunks c q = take (rq_top_k q) (ranked_chunks c q)"

lemma rank_corpus_total:
  assumes q: "validate_query q = Inr ()" and d: "distinct (map rc_chunk_id (co_chunks c))"
  shows "rank_corpus c q = Inr
    \<lparr>rr_query = rq_query q,
     rr_hits = map (\<lambda>(i, c). mk_hit q i c) (zip (map int [1..<length (top_chunks c q) + 1]) (top_chunks c q))\<rparr>"
proof -
  let ?top = "top_chunks c q"
  let ?z = "zip (map int [1..<length ?top + 1]) ?top"
  have k: "rq_top_k q \<le> 64" using q by (auto simp: validate_query_def result_simps)
  have l: "length ?top \<le> 64" using k by (simp add: top_chunks_def)
  have "distinct (map rc_chunk_id (ranked_chunks c q))"
    using d by (simp add: ranked_chunks_def distinct_map)
  then have dt: "distinct (map rc_chunk_id ?top)"
    by (simp add: top_chunks_def take_map [symmetric])
  have ids: "map rh_chunk_id (map (\<lambda>(i, c). mk_hit q i c) ?z) = map rc_chunk_id ?top"
    by (intro nth_equalityI) (auto simp: mk_hit_def not_less_eq_eq)
  have ranks: "map rh_rank (map (\<lambda>(i, c). mk_hit q i c) ?z) = map int [1..<length ?top + 1]"
    by (intro nth_equalityI) (auto simp: mk_hit_def)
  have hits: "validate_hit h = Inr ()" if h: "h \<in> set (map (\<lambda>(i, c). mk_hit q i c) ?z)" for h
  proof -
    obtain i c' where "h = mk_hit q (int i) c'" "1 \<le> i" "i \<le> length ?top"
      using h by (fastforce dest: set_zip_leftD simp del: upt_Suc)
    then show ?thesis
      using l chunk_score_nonneg [OF q] by (simp add: validate_hit_def result_simps mk_hit_def content_sha256_def not_less)
  qed
  have "card (set (map rh_chunk_id (map (\<lambda>(i, c). mk_hit q i c) ?z))) = length ?z"
    unfolding ids using distinct_card [OF dt] by (simp del: upt_Suc)
  then show ?thesis
    using hits ranks l
    by (simp add: rank_corpus_def Let_def validate_result_def result_simps rfor_Inr top_chunks_def [symmetric] del: upt_Suc)
qed

text \<open>Every chunk left out ranks after every chunk taken.\<close>

lemma top_chunks_best:
  assumes "x \<in> set (top_chunks c q)" "y \<in> set (co_chunks c)" "y \<notin> set (top_chunks c q)"
  shows "rank_key q x \<le> rank_key q y"
proof -
  let ?r = "ranked_chunks c q"
  have s: "sorted (map (rank_key q) ?r)" by (simp add: ranked_chunks_def)
  have "y \<in> set (drop (rq_top_k q) ?r)"
    using assms(2,3) append_take_drop_id [of "rq_top_k q" ?r]
    by (metis Un_iff ranked_chunks_def set_append set_sort top_chunks_def)
  moreover have "sorted (map (rank_key q) (take (rq_top_k q) ?r @ drop (rq_top_k q) ?r))"
    using s by simp
  ultimately show ?thesis
    using assms(1) by (auto simp: top_chunks_def sorted_append simp del: append_take_drop_id)
qed

subsection \<open>Acceptance\<close>

lemma validate_retrieval_receipt_id: "validate_retrieval_receipt r = Inr r' \<Longrightarrow> r' = r"
  by (auto simp: validate_retrieval_receipt_def rbind_Inr split: if_splits)

lemma create_retrieval_receipt_Inr:
  assumes "create_retrieval_receipt sid k call visible = Inr r"
  obtains baseline active attacked where
    "rank_corpus (rk_corpus k) (rk_query k) = Inr baseline"
    "active_ranking k baseline = Inr (active, attacked)"
    "visible = result_canonical_json active"
    "re_scenario_identity r = sid" "re_call_id r = call" "re_attacked_corpus_identity r = attacked"
    "re_baseline_hits r = map digest_of_hit (rr_hits baseline)"
    "re_active_hits r = map digest_of_hit (rr_hits active)"
    "validate_retrieval_receipt r = Inr r"
proof -
  obtain baseline active attacked root where *:
    "rank_corpus (rk_corpus k) (rk_query k) = Inr baseline"
    "active_ranking k baseline = Inr (active, attacked)" "visible = result_canonical_json active"
    "validate_retrieval_receipt ((unsigned_retrieval_receipt sid k call visible baseline active attacked)
       \<lparr>re_receipt_root := root\<rparr>) = Inr r"
    using assms by (auto simp: create_retrieval_receipt_def rbind_Inr Let_def split: if_splits prod.splits)
  from validate_retrieval_receipt_id [OF *(4)] * show thesis
    by (intro that [of baseline active attacked]) (simp_all add: unsigned_retrieval_receipt_def)
qed

lemma create_retrieval_receipt_identities:
  assumes "create_retrieval_receipt sid k call visible = Inr r"
  shows "re_scenario_identity r = sid" "re_contract_identity r = retrieval_identity k"
    "re_tool_name r = rk_tool_name k"
  using assms
  by (auto simp: create_retrieval_receipt_def rbind_Inr Let_def unsigned_retrieval_receipt_def
      dest!: validate_retrieval_receipt_id split: if_splits prod.splits)

lemma active_ranking_Inr:
  assumes "active_ranking k baseline = Inr (active, attacked)"
  shows "case rk_poison k of None \<Rightarrow> active = baseline \<and> attacked = None
    | Some p \<Rightarrow> \<exists>c. apply_poison p (rk_corpus k) = Inr c \<and> attacked = Some (corpus_identity c) \<and>
        rank_corpus c (rk_query k) = Inr active \<and>
        rc_chunk_id (po_inserted_chunk p) \<in> set (map rh_chunk_id (rr_hits active)) \<and>
        (po_relation p = DISPLACE_CHUNK \<longrightarrow> (\<exists>d. po_expected_displaced_chunk_id p = Some d \<and>
           d \<in> set (map rh_chunk_id (rr_hits baseline)) \<and> d \<notin> set (map rh_chunk_id (rr_hits active))))"
  using assms
  by (auto simp: active_ranking_def result_simps require_poison_relation_def Let_def split: option.splits)

text \<open>
  What an accepted delivery is: one receipt, from the framework's source, of the scenario of the
  evidence, between the one request of the bound tool, which carries exactly the bound query,
  and the one result of its call, and equal to the receipt derived again from the scenario and
  the result.
\<close>

definition requests_query :: "retrieval_contract \<Rightarrow> evidence_event \<Rightarrow> bool" where
  "requests_query k q \<longleftrightarrow> (\<exists>text v. payload_is q ''arguments'' text \<and> loads_unique text = Some v \<and>
     py_eq v (JObj [(''query'', JStr (rq_query (rk_query k)))]))"

definition retrieval_closed ::
  "evaluation_scenario \<Rightarrow> trial_evidence \<Rightarrow> retrieval_contract \<Rightarrow> retrieval_receipt \<Rightarrow> bool" where
  "retrieval_closed s t k r \<longleftrightarrow> (\<exists>d q m out.
     events_of RETRIEVAL_DELIVERY t = [d] \<and> \<not> ev_critical d \<and> ev_source d = retrieval_event_source \<and>
     read_retrieval_receipt (ev_payload d) = Some r \<and> te_scenario_identity t = scenario_identity s \<and>
     tool_requests t (rk_tool_name k) = [q] \<and> payload_is q ''call_id'' (re_call_id r) \<and> requests_query k q \<and>
     call_results t (re_call_id r) = [m] \<and> payload_is m ''output'' out \<and>
     ev_sequence q < ev_sequence d \<and> ev_sequence d < ev_sequence m \<and>
     create_retrieval_receipt (scenario_identity s) k (re_call_id r) out = Inr r)"

lemma verify_request_arguments_Inr:
  "verify_request_arguments q (rq_query (rk_query k)) = Inr () \<longleftrightarrow> requests_query k q"
  by (auto simp: verify_request_arguments_def requests_query_def payload_is_def split: option.splits)

lemma retrieval_output_Inr:
  "retrieval_output k t d r = Inr out \<longleftrightarrow> (\<exists>q m.
     tool_requests t (rk_tool_name k) = [q] \<and> payload_is q ''call_id'' (re_call_id r) \<and> requests_query k q \<and>
     call_results t (re_call_id r) = [m] \<and> payload_is m ''output'' out \<and>
     ev_sequence q < ev_sequence d \<and> ev_sequence d < ev_sequence m)"
  by (auto simp: retrieval_output_def rbind_Inr payload_is_def verify_request_arguments_Inr
      split: list.splits option.splits if_splits)

lemma verify_retrieval_receipt_Inr:
  "verify_retrieval_receipt s k t d = Inr r \<longleftrightarrow>
     \<not> ev_critical d \<and> ev_source d = retrieval_event_source \<and> read_retrieval_receipt (ev_payload d) = Some r \<and>
     te_scenario_identity t = scenario_identity s \<and>
     (\<exists>out. retrieval_output k t d r = Inr out \<and>
        create_retrieval_receipt (scenario_identity s) k (re_call_id r) out = Inr r)"
  by (auto simp: verify_retrieval_receipt_def result_simps dest: create_retrieval_receipt_identities
      split: option.splits if_splits)

lemma verify_retrieval_delivery_Some:
  "verify_retrieval_delivery s t = Inr (Some r) \<longleftrightarrow>
   (\<exists>k. es_retrieval s = Some k \<and> retrieval_closed s t k r)"
proof -
  have "verify_retrieval_delivery s t = Inr (Some r) \<longleftrightarrow> (\<exists>k d. es_retrieval s = Some k \<and>
      events_of RETRIEVAL_DELIVERY t = [d] \<and> verify_retrieval_receipt s k t d = Inr r)"
    by (auto simp: verify_retrieval_delivery_def Let_def rbind_Inr split: option.splits list.splits if_splits)
  then show ?thesis
    unfolding verify_retrieval_receipt_Inr retrieval_output_Inr retrieval_closed_def by blast
qed

lemma verify_retrieval_delivery_None:
  "verify_retrieval_delivery s t = Inr None \<longleftrightarrow> es_retrieval s = None \<and> events_of RETRIEVAL_DELIVERY t = []"
  by (auto simp: verify_retrieval_delivery_def Let_def rbind_Inr split: option.splits list.splits)

end
