(* ===== verification/SideEffectProofs.thy ===== *)
theory SideEffectProofs
  imports SideEffect RetrievalProofs
begin

section \<open>What an accepted side-effect observation says\<close>

text \<open>
  An accepted observation is characterised (\<open>effect_closed\<close>), and the oracle decides idempotency on it.
\<close>

subsection \<open>Receipts read back\<close>

lemma validate_effect_receipt_id: "validate_effect_receipt r = Inr r' \<Longrightarrow> r' = r"
  by (auto simp: validate_effect_receipt_def rbind_Inr split: if_splits)

lemma only_keys_sort_dict [simp]: "only_keys ks (sort_dict d) \<longleftrightarrow> only_keys ks d"
  by (force simp: only_keys_def sort_dict_def)

definition attempt_dict :: "effect_attempt \<Rightarrow> dict" where
  "attempt_dict a = (case attempt_material a of JObj d \<Rightarrow> d | _ \<Rightarrow> [])"

lemma attempt_material_dict: "attempt_material a = JObj (attempt_dict a)"
  by (simp add: attempt_dict_def attempt_material_def)

lemma read_attempt_sorted:
  assumes "lax_bool_keeps lax_bool"
  shows "read_attempt lax_bool (sort_keys (attempt_material a)) = Some a"
proof -
  have p: "sort_keys (attempt_material a) = JObj (sort_dict (attempt_dict a))"
    by (simp add: attempt_material_dict sort_dict_json del: sort_keys.simps)
  have g: "dict_get (sort_dict (attempt_dict a)) k = map_option sort_keys (dict_get (attempt_dict a) k)" for k
    by (rule dict_get_sort_dict) (simp add: attempt_dict_def attempt_material_def)
  show ?thesis
    using assms unfolding p
    by (simp add: read_attempt_def g) (simp add: attempt_dict_def attempt_material_def only_keys_def lax_bool_keeps_def)
qed

lemma those_read_attempts:
  "lax_bool_keeps lax_bool \<Longrightarrow> those (map (read_attempt lax_bool \<circ> (sort_keys \<circ> attempt_material)) as) = Some as"
  by (induction as) (simp_all add: read_attempt_sorted)

lemma read_effect_receipt_sorted:
  assumes "lax_bool_keeps lax_bool" and v: "validate_effect_receipt r = Inr r"
  shows "read_effect_receipt lax_bool (sort_dict (effect_receipt_dict r)) = Some r"
proof -
  have g: "dict_get (sort_dict (effect_receipt_dict r)) k = map_option sort_keys (dict_get (effect_receipt_dict r) k)" for k
    by (rule dict_get_sort_dict) (simp add: effect_receipt_dict_def effect_receipt_material_def)
  show ?thesis
    using those_read_attempts [OF assms(1)] v
    by (simp add: read_effect_receipt_def g)
      (cases r, simp add: effect_receipt_dict_def effect_receipt_material_def only_keys_def with_default_def
        effect_receipt_fields_def)
qed

subsection \<open>The closed relation\<close>

text \<open>A request that carries the scenario's operation, with the digests of the attempt.\<close>

definition requests_operation :: "side_effect_spec \<Rightarrow> evidence_event \<Rightarrow> effect_attempt \<Rightarrow> bool" where
  "requests_operation k q a \<longleftrightarrow> payload_is q ''call_id'' (at_call_id a) \<and>
     (\<exists>text d. payload_is q ''arguments'' text \<and> loads_unique text = Some (JObj d) \<and>
        py_eq (JObj d) (JObj (se_expected_arguments k)) \<and>
        canonical_json_sha256 (JObj d) = Inr (at_arguments_sha256 a) \<and>
        canonical_json_sha256 (opt_json (dict_get d (se_key_argument k))) = Inr (at_key_sha256 a))"

definition effect_closed ::
  "(json \<Rightarrow> bool option) \<Rightarrow> evaluation_scenario \<Rightarrow> side_effect_spec \<Rightarrow> trial_evidence \<Rightarrow> effect_receipt \<Rightarrow> bool" where
  "effect_closed lax_bool s k t r \<longleftrightarrow> (\<exists>obs q1 q2 s1 s2 a1 a2.
     events_of SIDE_EFFECT_OBSERVATION t = [obs] \<and> \<not> ev_critical obs \<and> ev_source obs = effect_event_source \<and>
     read_effect_receipt lax_bool (ev_payload obs) = Some r \<and> er_attempts r = [a1, a2] \<and>
     te_scenario_identity t = scenario_identity s \<and> se_attempts k = 2 \<and>
     tool_requests t (se_tool k) = [q1, q2] \<and>
     call_results t (at_call_id a1) = [s1] \<and> call_results t (at_call_id a2) = [s2] \<and>
     requests_operation k q1 a1 \<and> requests_operation k q2 a2 \<and>
     ev_sequence q1 < ev_sequence s1 \<and> ev_sequence s1 < ev_sequence q2 \<and>
     ev_sequence q2 < ev_sequence s2 \<and> ev_sequence s2 < ev_sequence obs \<and>
     create_effect_receipt (scenario_identity s) k [a1, a2] = Inr r)"

lemma parse_exact_arguments_Inr:
  "parse_exact_arguments q k = Inr d \<longleftrightarrow> (\<exists>text. payload_is q ''arguments'' text \<and>
     loads_unique text = Some (JObj d) \<and> py_eq (JObj d) (JObj (se_expected_arguments k)))"
  by (auto simp: parse_exact_arguments_def payload_is_def split: option.splits json.splits)

lemma verify_attempt_Inr:
  "verify_attempt k t (i, q, a) = Inr e \<longleftrightarrow> requests_operation k q a \<and> call_results t (at_call_id a) = [e]"
  by (auto simp: verify_attempt_def rbind_Inr parse_exact_arguments_Inr requests_operation_def
      split: list.splits)

lemma read_effect_receipt_valid: "read_effect_receipt lax_bool d = Some r \<Longrightarrow> validate_effect_receipt r = Inr r"
  by (auto simp: read_effect_receipt_def bind_eq_Some_conv dest: validate_effect_receipt_id split: if_splits)

lemma validate_effect_receipt_attempts:
  assumes "validate_effect_receipt r = Inr r"
  obtains a1 a2 where "er_attempts r = [a1, a2]"
    "at_mutated a1 = (at_before_effect_sha256 a1 \<noteq> at_after_effect_sha256 a1)"
    "at_mutated a2 = (at_before_effect_sha256 a2 \<noteq> at_after_effect_sha256 a2)"
    "at_after_effect_sha256 a1 = at_before_effect_sha256 a2" "at_call_id a1 \<noteq> at_call_id a2"
    "er_mutation_count r = mutations [a1, a2]"
proof -
  have l: "length (er_attempts r) = 2"
    using assms by (auto simp: validate_effect_receipt_def rbind_Inr result_simps split: if_splits)
  then obtain a1 a2 where as: "er_attempts r = [a1, a2]"
    by (auto simp: length_Suc_conv eval_nat_numeral)
  have "validate_attempt a1 = Inr ()" "validate_attempt a2 = Inr ()" "effect_shape r = Inr ()"
    using assms by (auto simp: validate_effect_receipt_def rbind_Inr as split: if_splits)
  then show thesis
    by (intro that [of a1 a2])
      (auto simp: as validate_attempt_def effect_shape_def result_simps split: if_splits)
qed

lemma create_effect_receipt_facts:
  assumes "create_effect_receipt sid k attempts = Inr r"
  shows "er_scenario_identity r = sid" "er_contract_identity r = side_effect_identity k"
    "er_tool r = se_tool k" "er_logical_operation_identity r = logical_operation_identity k"
    "er_attempts r = attempts" "validate_effect_receipt r = Inr r"
  using assms
  by (auto simp: create_effect_receipt_def rbind_Inr Let_def unsigned_effect_receipt_def
      dest: validate_effect_receipt_id)

lemma serialized_iff:
  "serialized qs rs obs \<longleftrightarrow> (\<exists>q1 q2 s1 s2. qs = [q1, q2] \<and> rs = [s1, s2] \<and>
     ev_sequence q1 < ev_sequence s1 \<and> ev_sequence s1 < ev_sequence q2 \<and>
     ev_sequence q2 < ev_sequence s2 \<and> ev_sequence s2 < ev_sequence obs)"
  by (auto simp: serialized_def split: list.splits)

lemma verify_effect_event_Inr:
  "verify_effect_event lax_bool s k t obs = Inr r \<longleftrightarrow>
   \<not> ev_critical obs \<and> ev_source obs = effect_event_source \<and>
   read_effect_receipt lax_bool (ev_payload obs) = Some r \<and> effect_identity_checks s k t r = Inr () \<and>
   (\<exists>results. rmap (verify_attempt k t)
       (zip [1..<length (tool_requests t (se_tool k)) + 1] (zip (tool_requests t (se_tool k)) (er_attempts r))) = Inr results \<and>
     serialized (tool_requests t (se_tool k)) results obs) \<and>
   create_effect_receipt (scenario_identity s) k (er_attempts r) = Inr r"
  by (auto simp: verify_effect_event_def rbind_Inr raise_if_Inr rcatch_Inr Let_def
      simp del: upt_Suc split: option.splits if_splits)

theorem verify_side_effect_observation_iff:
  "verify_side_effect_observation lax_bool s t = Inr (Some r) \<longleftrightarrow>
   (\<exists>k. es_side_effect s = Some k \<and> effect_closed lax_bool s k t r)"
proof
  assume "verify_side_effect_observation lax_bool s t = Inr (Some r)"
  then obtain k obs where k: "es_side_effect s = Some k" and obs: "events_of SIDE_EFFECT_OBSERVATION t = [obs]"
    and v: "verify_effect_event lax_bool s k t obs = Inr r"
    by (auto simp: verify_side_effect_observation_def Let_def rbind_Inr split: option.splits list.splits if_splits)
  note v = v [unfolded verify_effect_event_Inr]
  from v have "validate_effect_receipt r = Inr r" using read_effect_receipt_valid by blast
  then obtain a1 a2 where as: "er_attempts r = [a1, a2]" by (rule validate_effect_receipt_attempts)
  from v as have "effect_closed lax_bool s k t r"
    unfolding effect_closed_def
    by (auto simp: obs serialized_iff verify_attempt_Inr effect_identity_checks_def result_simps eval_nat_numeral)
  with k show "\<exists>k. es_side_effect s = Some k \<and> effect_closed lax_bool s k t r" by blast
next
  assume "\<exists>k. es_side_effect s = Some k \<and> effect_closed lax_bool s k t r"
  then obtain k where k: "es_side_effect s = Some k" and c: "effect_closed lax_bool s k t r" by blast
  then obtain obs where obs: "events_of SIDE_EFFECT_OBSERVATION t = [obs]"
    and v: "verify_effect_event lax_bool s k t obs = Inr r"
    unfolding effect_closed_def verify_effect_event_Inr
    by (auto simp: serialized_iff verify_attempt_Inr effect_identity_checks_def result_simps
        eval_nat_numeral create_effect_receipt_facts)
  from k obs v show "verify_side_effect_observation lax_bool s t = Inr (Some r)"
    by (simp add: verify_side_effect_observation_def)
qed

subsection \<open>The verdict\<close>

text \<open>What the observed digests must say for the operation to be idempotent.\<close>

definition idempotent_effect :: "side_effect_spec \<Rightarrow> effect_attempt \<Rightarrow> effect_attempt \<Rightarrow> bool" where
  "idempotent_effect k a1 a2 \<longleftrightarrow>
     (se_require_first_mutation k \<longrightarrow> at_after_effect_sha256 a1 \<noteq> at_before_effect_sha256 a1) \<and>
     (at_after_effect_sha256 a1 = at_before_effect_sha256 a1 \<or> at_after_effect_sha256 a2 = at_after_effect_sha256 a1)"

lemma effect_reasons_Nil:
  assumes "validate_effect_receipt r = Inr r" "er_attempts r = [a1, a2]"
  shows "effect_reasons k r = [] \<longleftrightarrow> idempotent_effect k a1 a2"
proof -
  from assms(1) obtain b1 b2 where "er_attempts r = [b1, b2]"
    "at_mutated b1 = (at_before_effect_sha256 b1 \<noteq> at_after_effect_sha256 b1)"
    "at_mutated b2 = (at_before_effect_sha256 b2 \<noteq> at_after_effect_sha256 b2)"
    "at_after_effect_sha256 b1 = at_before_effect_sha256 b2"
    "er_mutation_count r = mutations [b1, b2]"
    by (rule validate_effect_receipt_attempts)
  with assms(2) show ?thesis
    by (auto simp: effect_reasons_def idempotent_effect_def mutations_def Let_def)
qed

lemma effect_result_verdict [simp]: "or_verdict (effect_result rs) = PASS \<longleftrightarrow> rs = []"
  by (simp add: effect_result_def)

lemma side_effect_oracle_closed:
  assumes "effect_closed lax_bool s k t r" "es_side_effect s = Some k"
  obtains a1 a2 where "er_attempts r = [a1, a2]"
    "or_verdict (side_effect_oracle lax_bool s t) = PASS \<longleftrightarrow> idempotent_effect k a1 a2"
proof -
  obtain obs a1 a2 where *: "events_of SIDE_EFFECT_OBSERVATION t = [obs]"
    "read_effect_receipt lax_bool (ev_payload obs) = Some r" "er_attempts r = [a1, a2]"
    using assms(1) by (auto simp: effect_closed_def)
  from read_effect_receipt_valid [OF *(2)] *(3) have "effect_reasons k r = [] \<longleftrightarrow> idempotent_effect k a1 a2"
    by (rule effect_reasons_Nil)
  with * assms(2) show thesis by (intro that [of a1 a2]) (simp_all add: side_effect_oracle_def)
qed

end
