(* ===== verification/AdversarialProofs.thy ===== *)
theory AdversarialProofs
  imports Adversarial SideEffectProofs
begin

section \<open>Deriving, extracting and delivering attacks\<close>

text \<open>
  Attack identifiers read back, an attack applied to a scenario is recovered from it, campaigns do not
  depend on the order of their attacks, and the delivery verification is characterised.
\<close>

subsection \<open>Enumerations and fixtures read back\<close>

lemma threat_value_inj: "threat_value a = threat_value b \<longleftrightarrow> a = b"
  by (cases a; cases b) simp_all

lemma channel_value_inj: "channel_value a = channel_value b \<longleftrightarrow> a = b"
  by (cases a; cases b) simp_all

lemma read_enum_member:
  assumes "m \<in> set ms" "\<And>a b. val a = val b \<longleftrightarrow> a = b"
  shows "read_enum val ms (Some (JStr (val m))) = Some m"
  using assms by (induction ms) (auto simp: read_enum_def)

lemma read_threat [simp]: "read_enum threat_value threat_classes (Some (JStr (threat_value t))) = Some t"
  by (rule read_enum_member [OF _ threat_value_inj]) (cases t; simp add: threat_classes_def)

lemma read_channel [simp]: "read_enum channel_value attack_channels (Some (JStr (channel_value c))) = Some c"
  by (rule read_enum_member [OF _ channel_value_inj]) (cases c; simp add: attack_channels_def)

lemma those_Some: "those (map Some xs) = Some xs"
  by (induction xs) auto

lemma read_fixture_material:
  assumes "validate_fixture f = Inr f" "finite (af_tags f)"
  shows "read_fixture (Some (fixture_material f)) = Some f"
  using assms
  by (simp add: read_fixture_def fixture_material_def only_keys_def with_default_def comp_def those_Some) (cases f, simp)

lemma read_envelope_state:
  assumes "validate_fixture f = Inr f" "finite (af_tags f)"
  shows "read_envelope (envelope_state (envelope_for base f)) = Some (envelope_for base f)"
  using read_fixture_material [OF assms]
  by (simp add: read_envelope_def envelope_state_def envelope_for_def only_keys_def with_default_def
      validate_envelope_def scenario_identity_def fixture_identity_def)

subsection \<open>Derivation\<close>

text \<open>Validation changes nothing but the canonical form of the nested contracts.\<close>

lemma validate_scenario_fields:
  assumes "validate_scenario s = Inr t"
  shows "es_scenario_id t = es_scenario_id s" "es_revision t = es_revision s" "es_kind t = es_kind s"
    "es_objective t = es_objective s" "es_initial_state t = es_initial_state s"
    "es_approval_intent t = es_approval_intent s" "es_required_outcomes t = es_required_outcomes s"
    "es_forbidden_outcomes t = es_forbidden_outcomes s" "es_tags t = es_tags s"
    "validate_policy (es_authority s) = Inr (es_authority t)"
    "validate_optional validate_rubric (es_semantic_rubric s) = Inr (es_semantic_rubric t)"
    "validate_optional validate_retrieval_contract (es_retrieval s) = Inr (es_retrieval t)"
    "validate_optional validate_side_effect_spec (es_side_effect s) = Inr (es_side_effect t)"
  using assms unfolding validate_scenario_def Let_def rbind_Inr by auto

text \<open>The contract of a scenario: all that decides what the subject may do and must achieve.\<close>

definition same_contract :: "evaluation_scenario \<Rightarrow> evaluation_scenario \<Rightarrow> bool" where
  "same_contract s t \<longleftrightarrow>
     es_objective s = es_objective t \<and> es_authority s = es_authority t \<and>
     es_approval_intent s = es_approval_intent t \<and> es_semantic_rubric s = es_semantic_rubric t \<and>
     es_retrieval s = es_retrieval t \<and> es_side_effect s = es_side_effect t \<and>
     es_required_outcomes s = es_required_outcomes t \<and> es_forbidden_outcomes s = es_forbidden_outcomes t"

lemma apply_attack_contract:
  assumes base: "validate_scenario base = Inr base" and d: "apply_attack f base = Inr d"
  shows "same_contract d base" "es_kind d = SECURITY"
    "es_initial_state d = es_initial_state base @ [(reserved_state_key, envelope_state (envelope_for base f))]"
    "\<not> dict_has (es_initial_state base) reserved_state_key" "es_tags base \<union> af_tags f \<subseteq> es_tags d"
proof -
  have v: "validate_scenario (derived_scenario f base) = Inr d"
    and n: "\<not> dict_has (es_initial_state base) reserved_state_key"
    using d by (auto simp: apply_attack_def split: if_splits)
  note fd = validate_scenario_fields [OF v] and fb = validate_scenario_fields [OF base]
  show "same_contract d base"
    using fd(4,6-8,10-13) fb(10-13) by (simp add: same_contract_def derived_scenario_def)
  show "es_kind d = SECURITY"
    "es_initial_state d = es_initial_state base @ [(reserved_state_key, envelope_state (envelope_for base f))]"
    "es_tags base \<union> af_tags f \<subseteq> es_tags d"
    using fd by (auto simp: derived_scenario_def)
  show "\<not> dict_has (es_initial_state base) reserved_state_key" by (rule n)
qed

lemma apply_attack_lookup:
  assumes "apply_attack f base = Inr d"
  shows "dict_get (es_initial_state d) reserved_state_key = Some (envelope_state (envelope_for base f))"
proof -
  have v: "validate_scenario (derived_scenario f base) = Inr d"
    and n: "\<not> dict_has (es_initial_state base) reserved_state_key"
    using assms by (auto simp: apply_attack_def split: if_splits)
  have "es_initial_state d = es_initial_state base @ [(reserved_state_key, envelope_state (envelope_for base f))]"
    using validate_scenario_fields(5) [OF v] by (simp add: derived_scenario_def)
  then show ?thesis using n by (auto simp: map_add_def split: option.splits)
qed

lemma envelope_state_not_null [simp]: "envelope_state v \<noteq> JNull"
  by (simp add: envelope_state_def)

lemma extract_apply:
  assumes d: "apply_attack f base = Inr d" and f: "validate_fixture f = Inr f" "finite (af_tags f)"
  shows "extract_attack d (Some base) = Inr (Some f)" "extract_attack d None = Inr (Some f)"
proof -
  have "check_derivation (envelope_for base f) d base = Inr ()" "av_attack (envelope_for base f) = f"
    using d by (simp_all add: check_derivation_def envelope_for_def)
  then show "extract_attack d (Some base) = Inr (Some f)" "extract_attack d None = Inr (Some f)"
    by (simp_all add: extract_attack_def apply_attack_lookup [OF d] read_envelope_state [OF f])
qed

text \<open>What a proved derivation says: the scenario has the identity of the derived one.\<close>

lemma extract_attack_derivation:
  assumes "extract_attack s (Some base) = Inr (Some f)"
  obtains d where "apply_attack f base = Inr d" "scenario_identity d = scenario_identity s"
  using assms
  by (auto simp: extract_attack_def check_derivation_def rbind_Inr split: option.splits if_splits)

subsection \<open>Canonical payloads\<close>

lemma finite_plain: "plain_json v \<Longrightarrow> finite_json v"
  by (induction v rule: json_induct) (auto simp: list_all_iff)

lemma distinct_keys_sort: "distinct (map fst (sort_key fst kvs)) = distinct (map fst kvs)"
  by (metis mset_eq_imp_distinct_iff mset_map mset_sort)

lemma distinct_sort_keys [simp]: "distinct_keys (sort_keys v) = distinct_keys v"
proof (induction v rule: json_induct)
  case (Obj kvs)
  have "list_all (\<lambda>kv. distinct_keys (snd kv)) (sort_key fst (map (\<lambda>kv. (fst kv, sort_keys (snd kv))) kvs))
      = list_all (\<lambda>kv. distinct_keys (snd kv)) kvs"
    using Obj by (auto simp: list_all_iff)
  then show ?case by (simp add: distinct_keys_sort comp_def)
qed (auto simp: list_all_iff)

lemma canonicalize_canonical:
  assumes "plain_json v" "distinct_keys v"
  shows "canonicalize_payload_json (json_dumps v) = Inr (json_dumps v)"
proof -
  have "loads_unique (json_dumps v) = Some (sort_keys v)"
    using assms by (simp add: loads_unique_def json_dumps_def json_scan_dumps)
  moreover have "json_dumps (sort_keys v) = json_dumps v" by (simp add: json_dumps_def)
  ultimately show ?thesis
    using assms finite_plain [of "sort_keys v"]
    by (simp add: canonicalize_payload_json_def adversarial_canonical_json_def as_validation_def)
qed

lemma fixture_from_payload_stable:
  assumes "fixture_from_payload aid revision threat channel payload tags = Inr f"
    and "plain_json payload" "distinct_keys payload"
  shows "validate_fixture f = Inr f" "af_payload_json f = json_dumps payload" "af_tags f = tags"
  using assms canonicalize_canonical [OF assms(2,3)]
  by (auto simp: fixture_from_payload_def adversarial_canonical_json_def validate_fixture_def rbind_Inr
      finite_plain raise_if_Inr split: if_splits)

subsection \<open>A payload that outgrows its limit\<close>

text \<open>
  The length limit is checked before the text is canonicalised, and canonical text escapes
  every character above 127. A payload of 20000 such characters is accepted and stored with
  a text that the same validator refuses.
\<close>

definition wide_payload :: "nat \<Rightarrow> string" where
  "wide_payload n = json_str False (replicate n (CHR 0xE9))"

definition wide_fixture :: "string \<Rightarrow> attack_fixture" where
  "wide_fixture payload =
     \<lparr>af_schema_version = attack_schema, af_attack_id = ''wide'', af_revision = ''1'',
      af_threat = MEMORY_POISONING, af_channel = MEMORY_CHANNEL, af_payload_json = payload, af_tags = {}\<rparr>"

lemma wide_esc: "esc_char False (CHR 0xE9) = [CHR 0xE9]" "length (esc_char True (CHR 0xE9)) = 6"
  by (simp_all add: esc_char_def u_escape_def hex_byte_def quote_char_def backslash_def)

lemma length_wide: "length (wide_payload n) = n + 2" "length (json_str True (replicate n (CHR 0xE9))) = 6 * n + 2"
  by (simp_all add: wide_payload_def json_str_def length_concat wide_esc sum_list_replicate)

lemma wide_loads: "loads_unique (wide_payload n) = Some (JStr (replicate n (CHR 0xE9)))"
  using json_scan_dumps [of "JStr (replicate n (CHR 0xE9))" False]
  by (simp add: loads_unique_def wide_payload_def)

lemma wide_fixture_accepted:
  "validate_fixture (wide_fixture (wide_payload 20000)) =
   Inr (wide_fixture (json_str True (replicate 20000 (CHR 0xE9))))"
proof -
  have "canonicalize_payload_json (wide_payload 20000) = Inr (json_str True (replicate 20000 (CHR 0xE9)))"
    by (simp add: canonicalize_payload_json_def wide_loads adversarial_canonical_json_def as_validation_def
        json_dumps_def)
  moreover have "id_pattern ''._-'' 2 63 ''wide''" by (simp add: id_pattern_def id_char_def is_lower_char_def)
  ultimately show ?thesis
    by (simp add: validate_fixture_def wide_fixture_def bounded_text_def length_wide blank_name_def)
qed

lemma wide_fixture_refused:
  "validate_fixture (wide_fixture (json_str True (replicate 20000 (CHR 0xE9)))) = Inl (verr ''payload_json: length'')"
proof -
  have "id_pattern ''._-'' 2 63 ''wide''" by (simp add: id_pattern_def id_char_def is_lower_char_def)
  then show ?thesis
    by (simp add: validate_fixture_def wide_fixture_def bounded_text_def length_wide)
qed

text \<open>An attack whose stored fixture is refused cannot be read back out of its own scenario.\<close>

lemma read_fixture_refused:
  assumes "validate_fixture f = Inl e" "finite (af_tags f)"
  shows "read_fixture (Some (fixture_material f)) = None"
  using assms
  by (simp add: read_fixture_def fixture_material_def only_keys_def with_default_def comp_def those_Some)
    (cases f, simp add: of_result_def)

lemma extract_apply_refused:
  assumes d: "apply_attack f base = Inr d" and f: "validate_fixture f = Inl e" "finite (af_tags f)"
  shows "extract_attack d x = Inl (verr ''adversarial envelope is malformed'')"
proof -
  have "read_envelope (envelope_state (envelope_for base f)) = None"
    using read_fixture_refused [OF f]
    by (simp add: read_envelope_def envelope_state_def envelope_for_def only_keys_def with_default_def)
  then show ?thesis by (simp add: extract_attack_def apply_attack_lookup [OF d])
qed

subsection \<open>Campaigns\<close>

lemma mk_campaign_perm:
  assumes "mset fs = mset gs"
  shows "mk_campaign schema cid revision base supplied fs = mk_campaign schema cid revision base supplied gs"
proof (cases "card (set (map af_attack_id fs)) = length fs")
  case True
  have l: "length gs = length fs" "set gs = set fs" using assms by (metis mset_eq_length, metis mset_eq_setD)
  have "distinct (map af_attack_id fs)" using True by (simp add: card_distinct)
  then have "sort_key (\<lambda>f. (af_attack_id f, fixture_identity f)) fs = sort_key (\<lambda>f. (af_attack_id f, fixture_identity f)) gs"
    using assms by (intro sort_key_perm) (auto simp: inj_on_def distinct_map)
  then show ?thesis by (simp add: mk_campaign_def l)
next
  case False
  have l: "length gs = length fs" "set gs = set fs" using assms by (metis mset_eq_length, metis mset_eq_setD)
  have c: "card (set (map af_attack_id xs)) = card (af_attack_id ` set xs)" for xs by simp
  show ?thesis
    using False by (simp add: mk_campaign_def l raise_if.simps)
qed

lemma mk_campaign_Inr:
  assumes "mk_campaign schema cid revision base supplied fs = Inr c"
  shows "ca_base_scenario c = base" "set (ca_attacks c) = set fs" "distinct (map af_attack_id (ca_attacks c))"
    "sorted (map af_attack_id (ca_attacks c))" "ca_base_scenario_identity c = scenario_identity base"
proof -
  let ?k = "\<lambda>f. (af_attack_id f, fixture_identity f)"
  have c: "ca_attacks c = sort_key ?k fs" and "card (set (map af_attack_id fs)) = length fs"
    and "ca_base_scenario c = base" "ca_base_scenario_identity c = scenario_identity base"
    using assms by (auto simp: mk_campaign_def rbind_Inr raise_if_Inr)
  then show "ca_base_scenario c = base" "set (ca_attacks c) = set fs"
    "ca_base_scenario_identity c = scenario_identity base" by simp_all
  have "distinct (map af_attack_id fs)" using \<open>card _ = _\<close> by (simp add: card_distinct)
  then show "distinct (map af_attack_id (ca_attacks c))"
    by (metis c mset_eq_imp_distinct_iff mset_map mset_sort)
  have "sorted_wrt (\<lambda>f g. ?k f \<le> ?k g) (ca_attacks c)"
    unfolding c using sorted_sort_key [of ?k fs] by (simp add: sorted_map)
  then show "sorted (map af_attack_id (ca_attacks c))"
    unfolding sorted_map by (rule sorted_wrt_mono_rel [rotated]) (auto simp: less_eq_prod_def)
qed

lemma campaign_scenarios_Inr:
  assumes c: "mk_campaign schema cid revision base supplied fs = Inr c"
    and ss: "campaign_scenarios c = Inr ss" and base: "validate_scenario base = Inr base"
    and f: "\<forall>f \<in> set fs. validate_fixture f = Inr f \<and> finite (af_tags f)"
  shows "list_all2 (\<lambda>f s. extract_attack s (Some base) = Inr (Some f) \<and> same_contract s base \<and> es_kind s = SECURITY)
    (ca_attacks c) ss"
proof -
  have "list_all2 (\<lambda>f s. apply_attack f base = Inr s) (ca_attacks c) ss"
    using ss mk_campaign_Inr(1) [OF c] by (simp add: campaign_scenarios_def rmap_Inr split: if_splits)
  moreover have "list_all (\<lambda>f. validate_fixture f = Inr f \<and> finite (af_tags f)) (ca_attacks c)"
    using f mk_campaign_Inr(2) [OF c] by (simp add: list_all_iff)
  ultimately show ?thesis
    by (induction rule: list_all2_induct) (auto simp: extract_apply apply_attack_contract [OF base])
qed

subsection \<open>Delivery\<close>

lemma validate_delivery_receipt_id: "validate_delivery_receipt r = Inr r' \<Longrightarrow> r' = r"
  by (auto simp: validate_delivery_receipt_def rbind_Inr split: if_splits)

lemma delivery_from_scenario_facts:
  assumes "delivery_from_scenario s point = Inr r"
  obtains f where "extract_attack s None = Inr (Some f)" "validate_delivery_receipt r = Inr r"
    "dr_scenario_identity r = scenario_identity s" "dr_attack_identity r = fixture_identity f"
    "dr_channel r = af_channel f" "dr_injection_point r = point"
    "dr_payload_sha256 r = sha256_hex (utf8 (af_payload_json f))"
proof -
  obtain f root where f: "extract_attack s None = Inr (Some f)" and
    v: "validate_delivery_receipt \<lparr>dr_schema_version = delivery_schema, dr_scenario_identity = scenario_identity s,
       dr_attack_identity = fixture_identity f, dr_channel = af_channel f, dr_injection_point = point,
       dr_payload_sha256 = sha256_hex (utf8 (af_payload_json f)), dr_receipt_root = root\<rparr> = Inr r"
    using assms by (auto simp: delivery_from_scenario_def rbind_Inr Let_def split: option.splits)
  from validate_delivery_receipt_id [OF v] v f show thesis
    by (intro that [of f]) simp_all
qed

lemma read_delivery_receipt_sorted:
  assumes "validate_delivery_receipt r = Inr r"
  shows "read_delivery_receipt (sort_dict (delivery_receipt_dict r)) = Some r"
proof -
  have g: "dict_get (sort_dict (delivery_receipt_dict r)) k = map_option sort_keys (dict_get (delivery_receipt_dict r) k)" for k
    by (rule dict_get_sort_dict) (simp add: delivery_receipt_dict_def delivery_material_def)
  show ?thesis
    using assms
    by (simp add: read_delivery_receipt_def g)
      (cases r, simp add: delivery_receipt_dict_def delivery_material_def only_keys_def with_default_def delivery_fields_def)
qed

lemma verify_delivery_event_Inr:
  "verify_delivery_event s e = Inr r \<longleftrightarrow> injector_source (ev_source e) \<and>
     read_delivery_receipt (ev_payload e) = Some r \<and> delivery_from_scenario s (dr_injection_point r) = Inr r"
  by (auto simp: verify_delivery_event_def rbind_Inr split: option.splits if_splits)

lemma verify_attack_delivery_Some:
  "verify_attack_delivery s t = Inr (Some r) \<longleftrightarrow>
   (\<exists>e. events_of ATTACK_DELIVERY t = [e] \<and> injector_source (ev_source e) \<and>
      read_delivery_receipt (ev_payload e) = Some r \<and> delivery_from_scenario s (dr_injection_point r) = Inr r)"
proof
  assume "verify_attack_delivery s t = Inr (Some r)"
  then show "\<exists>e. events_of ATTACK_DELIVERY t = [e] \<and> injector_source (ev_source e) \<and>
      read_delivery_receipt (ev_payload e) = Some r \<and> delivery_from_scenario s (dr_injection_point r) = Inr r"
    by (auto simp: verify_attack_delivery_def rbind_Inr verify_delivery_event_Inr split: option.splits list.splits)
next
  assume "\<exists>e. events_of ATTACK_DELIVERY t = [e] \<and> injector_source (ev_source e) \<and>
      read_delivery_receipt (ev_payload e) = Some r \<and> delivery_from_scenario s (dr_injection_point r) = Inr r"
  then obtain e where e: "events_of ATTACK_DELIVERY t = [e]" and v: "verify_delivery_event s e = Inr r"
    by (auto simp: verify_delivery_event_Inr)
  obtain f where "extract_attack s None = Inr (Some f)"
    using v by (auto simp: verify_delivery_event_Inr elim: delivery_from_scenario_facts)
  with e v show "verify_attack_delivery s t = Inr (Some r)"
    by (simp add: verify_attack_delivery_def)
qed

text \<open>The event an injector writes is the event verification accepts.\<close>

lemma delivery_event_accepted:
  assumes "delivery_from_scenario s point = Inr r" "delivery_event r n src now = Inr e"
    and "events_of ATTACK_DELIVERY t = [e]"
  shows "verify_attack_delivery s t = Inr (Some r)"
proof -
  obtain f where f: "validate_delivery_receipt r = Inr r" "dr_injection_point r = point"
    using assms(1) by (rule delivery_from_scenario_facts)
  have "injector_source (ev_source e)" "ev_payload e = sort_dict (delivery_receipt_dict r)"
    using assms(2) by (auto simp: delivery_event_def mk_event_def rbind_Inr detached_dict_def split: if_splits)
  then show ?thesis
    using assms(1,3) f read_delivery_receipt_sorted [OF f(1)]
    by (auto simp: verify_attack_delivery_Some)
qed

end
