(* ===== verification/RunnerProofs.thy ===== *)
theory RunnerProofs
  imports Runner AdversarialProofs
begin

section \<open>What a trial's verdict says\<close>

text \<open>
  Every outcome of the runner is evidence of the asked trial: the blocking paths one by one.
\<close>

subsection \<open>Evidence of a run\<close>

lemma mk_event_kind: "mk_event n k src p now c = Inr e \<Longrightarrow> ev_kind e = k"
  by (auto simp: mk_event_def rbind_Inr)

lemma snapshot_event_kind: "snapshot_event e = Inr e' \<Longrightarrow> ev_kind e' = ev_kind e"
  by (simp add: snapshot_event_def mk_event_kind)

lemma snapshot_events_kinds:
  assumes "rmap snapshot_event es = Inr es'"
  shows "map ev_kind es' = map ev_kind es"
proof -
  have "list_all2 (\<lambda>e e'. snapshot_event e = Inr e') es es'" using assms by (simp add: rmap_Inr)
  then show ?thesis by (induction rule: list_all2_induct) (simp_all add: snapshot_event_kind)
qed

lemma validate_evidence_keeps:
  assumes "validate_evidence t = Inr t'"
  shows "te_trial_id t' = te_trial_id t" "te_subject_identity t' = te_subject_identity t"
    "te_scenario_identity t' = te_scenario_identity t"
    "map ev_kind (te_events t') = map ev_kind (te_events t)" "te_final_output t' = te_final_output t"
    "length (te_events t') \<le> max_trial_events"
proof -
  obtain es fs where es: "rmap snapshot_event (te_events t) = Inr es"
    and t': "t' = t\<lparr>te_events := es, te_final_state := fs\<rparr>" and l: "length (te_events t) \<le> max_trial_events"
    using assms by (auto simp: validate_evidence_def rbind_Inr raise_if_Inr)
  then show "te_trial_id t' = te_trial_id t" "te_subject_identity t' = te_subject_identity t"
    "te_scenario_identity t' = te_scenario_identity t"
    "map ev_kind (te_events t') = map ev_kind (te_events t)" "te_final_output t' = te_final_output t"
    "length (te_events t') \<le> max_trial_events"
    using snapshot_events_kinds [OF es] rmap_Inr_length [OF es] by simp_all
qed

definition blocking_kinds :: "evidence_kind set" where
  "blocking_kinds = {EVALUATION_ERROR, RUNTIME_ERROR}"

lemma has_blocking_kinds: "has_blocking_evidence t \<longleftrightarrow> set (map ev_kind (te_events t)) \<inter> blocking_kinds \<noteq> {}"
  unfolding has_blocking_evidence_def blocking_kinds_def list_ex_iff by (simp add: disjoint_iff)

text \<open>Validated evidence of the run's own trial, subject and scenario.\<close>

definition own_evidence :: "run_context \<Rightarrow> trial_evidence \<Rightarrow> bool" where
  "own_evidence cx t \<longleftrightarrow> validate_evidence t = Inr t \<and> te_trial_id t = cx_trial_id cx \<and>
     te_subject_identity t = cx_subject cx \<and> te_scenario_identity t = scenario_identity (cx_scenario cx)"

lemma own_evidenceI:
  assumes "validate_evidence t = Inr t'" "te_trial_id t = cx_trial_id cx"
    "te_subject_identity t = cx_subject cx" "te_scenario_identity t = scenario_identity (cx_scenario cx)"
  shows "own_evidence cx t'"
  using assms validate_evidence_keeps [OF assms(1)] validate_evidence_idem [OF assms(1)]
  by (simp add: own_evidence_def)

subsection \<open>Blocked trials\<close>

definition blocked_outcome :: "run_context \<Rightarrow> 'c evaluated_trial \<Rightarrow> bool" where
  "blocked_outcome cx r \<longleftrightarrow> own_evidence cx (rt_evidence r) \<and> has_blocking_evidence (rt_evidence r) \<and>
     rt_verdict r = BLOCKED \<and> rt_oracle_results r = [] \<and> rt_semantic_judgment r = None"

lemma blocked_trial_Inr:
  "blocked_trial x = Inr r \<longleftrightarrow> (\<exists>t. x = Inr t \<and> r =
     \<lparr>rt_evidence = t, rt_oracle_results = [], rt_verdict = BLOCKED, rt_semantic_judgment = None\<rparr>)"
  by (auto simp: blocked_trial_def rbind_Inr)

lemma single_event_evidence_own:
  assumes "single_event_evidence env cx k src p = Inr t" "k \<in> blocking_kinds"
  shows "own_evidence cx t" "has_blocking_evidence t"
proof -
  obtain e t0 where e: "mk_event 0 k src p (rn_now env k) True = Inr e" and v: "validate_evidence t0 = Inr t"
    and t0: "te_trial_id t0 = cx_trial_id cx" "te_subject_identity t0 = cx_subject cx"
      "te_scenario_identity t0 = scenario_identity (cx_scenario cx)" "te_events t0 = [e]"
    using assms(1) unfolding single_event_evidence_def rbind_Inr by force
  show "own_evidence cx t" using v t0 by (intro own_evidenceI) simp_all
  show "has_blocking_evidence t"
    using validate_evidence_keeps(4) [OF v] mk_event_kind [OF e] assms(2) by (simp add: has_blocking_kinds t0)
qed

text \<open>Appending an error event of the evaluator to the subject's evidence.\<close>

lemma appended_error_own:
  assumes "append_event env t src p = Inr (te_events t1)" "validate_evidence t1 = Inr t'" "own_evidence cx t"
    and "te_trial_id t1 = te_trial_id t" "te_subject_identity t1 = te_subject_identity t"
      "te_scenario_identity t1 = te_scenario_identity t"
  shows "own_evidence cx t'" "has_blocking_evidence t'"
proof -
  obtain e where e: "te_events t1 = te_events t @ [e]" "ev_kind e = EVALUATION_ERROR"
    using assms(1) unfolding append_event_def rbind_Inr by (metis Inr_inject mk_event_kind)
  show "own_evidence cx t'" using assms by (intro own_evidenceI) (simp_all add: own_evidence_def)
  show "has_blocking_evidence t'"
    using validate_evidence_keeps(4) [OF assms(2)] e by (simp add: has_blocking_kinds blocking_kinds_def)
qed

lemma blocked_by_outcome:
  assumes "blocked_by env t src code reason = Inr r" "own_evidence cx t"
  shows "blocked_outcome cx r"
proof -
  obtain es t' where "append_event env t src (error_payload code reason) = Inr es"
    "validate_evidence (t\<lparr>te_events := es\<rparr>) = Inr t'"
    and r: "r = \<lparr>rt_evidence = t', rt_oracle_results = [], rt_verdict = BLOCKED, rt_semantic_judgment = None\<rparr>"
    using assms(1) by (auto simp: blocked_by_def blocked_trial_Inr append_evaluation_error_def rbind_Inr)
  then have "own_evidence cx t'" "has_blocking_evidence t'"
    using appended_error_own [of env t _ _ "t\<lparr>te_events := es\<rparr>"] assms(2) by auto
  then show ?thesis by (simp add: r blocked_outcome_def)
qed

lemma deadline_blocked_outcome:
  assumes "deadline_blocked env cx ev = Inr r" "\<And>t. ev = Some t \<Longrightarrow> own_evidence cx t"
  shows "blocked_outcome cx r"
proof (cases ev)
  case None
  then show ?thesis
    using assms(1) single_event_evidence_own [where k = EVALUATION_ERROR and cx = cx]
    by (fastforce simp: deadline_blocked_def blocked_trial_Inr blocked_outcome_def blocking_kinds_def)
next
  case (Some t)
  then obtain es t' where "append_event env t ''evaluator:deadline'' (deadline_payload env) = Inr es"
    "validate_evidence (t\<lparr>te_events := es, te_elapsed_ms := rn_elapsed_ms env\<rparr>) = Inr t'"
    and r: "r = \<lparr>rt_evidence = t', rt_oracle_results = [], rt_verdict = BLOCKED, rt_semantic_judgment = None\<rparr>"
    using assms(1) by (auto simp: deadline_blocked_def blocked_trial_Inr rbind_Inr)
  then have "own_evidence cx t'" "has_blocking_evidence t'"
    using appended_error_own [of env t _ _ "t\<lparr>te_events := es, te_elapsed_ms := rn_elapsed_ms env\<rparr>"] assms(2) [OF Some]
    by auto
  then show ?thesis by (simp add: r blocked_outcome_def)
qed

lemma before_deadline_Inr:
  assumes "before_deadline env cx ev c k = Inr r" "\<And>t. ev = Some t \<Longrightarrow> own_evidence cx t"
  obtains (blocked) "blocked_outcome cx r" | (passed) "\<not> deadline_expired env c" "k = Inr r"
  using assms deadline_blocked_outcome [of env cx ev r] by (auto simp: before_deadline_def split: if_splits)

lemma single_event_blocked:
  assumes "blocked_trial (single_event_evidence env cx k src p) = Inr r" "k \<in> blocking_kinds"
  shows "blocked_outcome cx r"
  using assms single_event_evidence_own by (fastforce simp: blocked_trial_Inr blocked_outcome_def)

subsection \<open>The adapter's turn\<close>

lemma adapter_failed_outcome:
  assumes "adapter_failed env cx k p = Inr r" "k \<in> blocking_kinds"
  shows "blocked_outcome cx r"
  using assms unfolding adapter_failed_def
  by (auto simp: scenario_contract_mutated_def blocking_kinds_def elim!: before_deadline_Inr
      intro: single_event_blocked split: if_splits)

lemma to_evidence_own: "to_evidence x cx = Inr t \<Longrightarrow> own_evidence cx t"
  unfolding to_evidence_def by (erule own_evidenceI) simp_all

lemma invalid_adapter_result_outcome: "invalid_adapter_result env cx = Inr r \<Longrightarrow> blocked_outcome cx r"
  unfolding invalid_adapter_result_def by (erule single_event_blocked) (simp add: blocking_kinds_def)

lemma scenario_contract_mutated_outcome: "scenario_contract_mutated env cx = Inr r \<Longrightarrow> blocked_outcome cx r"
  unfolding scenario_contract_mutated_def by (erule single_event_blocked) (simp add: blocking_kinds_def)

text \<open>Either the trial is blocked, or the adapter returned evidence that was graded.\<close>

lemma adapter_returned_Inr:
  assumes "adapter_returned env cx v grade = Inr r"
  obtains (blocked) "blocked_outcome cx r"
    | (graded) x t where "validate_adapter_result v = Inr x" "to_evidence x cx = Inr t" "grade t = Inr r"
        "\<not> scenario_contract_drifted env cx" "\<not> deadline_expired env AFTER_ADAPTER"
  using assms unfolding adapter_returned_def
proof (rule before_deadline_Inr)
  assume c: "(if scenario_contract_drifted env cx then scenario_contract_mutated env cx
     else case validate_adapter_result v of Inl _ \<Rightarrow> invalid_adapter_result env cx
       | Inr x \<Rightarrow> (case to_evidence x cx of Inr t \<Rightarrow> grade t
         | Inl e \<Rightarrow> if err_class e = ValidationError
             then before_deadline env cx None AFTER_INVALID_EVIDENCE (invalid_adapter_result env cx) else Inl e)) = Inr r"
    and d: "\<not> deadline_expired env AFTER_ADAPTER"
  show thesis
  proof (cases "scenario_contract_drifted env cx")
    case True
    then show thesis using c scenario_contract_mutated_outcome blocked by auto
  next
    case False
    then show thesis
      using c d blocked graded
      by (auto simp: invalid_adapter_result_outcome elim!: before_deadline_Inr split: sum.splits if_splits)
  qed
qed (use blocked in simp_all)

lemma adapter_turn_Inr:
  assumes "adapter_turn env cx grade = Inr r"
  obtains (blocked) "blocked_outcome cx r"
    | (graded) v x t where "rn_outcome env = RETURNED v" "validate_adapter_result v = Inr x"
        "to_evidence x cx = Inr t" "grade t = Inr r" "\<not> scenario_contract_drifted env cx"
        "\<not> deadline_expired env AFTER_ADAPTER" "\<not> deadline_expired env BEFORE_ADAPTER"
  using assms unfolding adapter_turn_def
proof (rule before_deadline_Inr)
  assume c: "(case rn_outcome env of LATE \<Rightarrow> deadline_blocked env cx None
     | PRECONDITION code reason \<Rightarrow> adapter_failed env cx EVALUATION_ERROR (error_payload code reason)
     | RAISED name \<Rightarrow> adapter_failed env cx RUNTIME_ERROR
         [(''exception_type'', JStr name), (''detail_retained'', JBool False)]
     | RETURNED v \<Rightarrow> adapter_returned env cx v grade) = Inr r" and d: "\<not> deadline_expired env BEFORE_ADAPTER"
  show thesis
  proof (cases "rn_outcome env")
    case (RETURNED v)
    then show thesis using c d by (auto elim!: adapter_returned_Inr intro: blocked graded)
  next
    case (PRECONDITION code reason)
    then show thesis using c blocked by (simp add: adapter_failed_outcome blocking_kinds_def)
  next
    case (RAISED name)
    then show thesis using c blocked by (simp add: adapter_failed_outcome blocking_kinds_def)
  next
    case LATE
    then have "deadline_blocked env cx None = Inr r" using c by simp
    then have "blocked_outcome cx r" by (rule deadline_blocked_outcome) simp
    then show thesis by (rule blocked)
  qed
qed (use blocked in simp_all)

subsection \<open>Graded trials\<close>

text \<open>
  Evidence that went through the whole closure, its deterministic results and, where the rubric
  asks for one, a judgment: recorded in the evidence, or appended to it.
\<close>

definition judged :: "'c run_env \<Rightarrow> run_context \<Rightarrow> trial_evidence \<Rightarrow> semantic_rubric \<Rightarrow> 'c judgment_receipt
  \<Rightarrow> trial_evidence \<Rightarrow> bool" where
  "judged env cx t rubric j t' \<longleftrightarrow>
     (t' = t \<and> verify_semantic_judgment (rn_calibration env) (cx_scenario cx) t = Inr (Some j)) \<or>
     (verify_semantic_judgment (rn_calibration env) (cx_scenario cx) t = Inr None \<and>
      append_semantic_judgment (rn_calibration env) (rn_now env SEMANTIC_JUDGMENT) t j = Inr t' \<and>
      (\<exists>profile calibration input response candidate.
         te_final_output t = Some candidate \<and> mk_judge_input (es_objective (cx_scenario cx)) rubric candidate = Inr input \<and>
         create_judgment_receipt (rn_calibration env) (scenario_identity (cx_scenario cx)) (cx_subject cx)
           (evidence_root t) rubric profile calibration input response = Inr j))"

definition graded_outcome :: "'c run_env \<Rightarrow> run_context \<Rightarrow> trial_evidence \<Rightarrow> 'c evaluated_trial \<Rightarrow> bool" where
  "graded_outcome env cx t r \<longleftrightarrow> own_evidence cx t \<and> \<not> has_blocking_evidence t \<and>
     live_evidence_violation (rn_adapter env) t = None \<and>
     verify_pregrading_closure (rn_lax_bool env) (cx_scenario cx) t = Inr () \<and>
     rt_oracle_results r = grade_deterministic_evidence (rn_lax_bool env) (cx_scenario cx) t \<and>
     (if any_failed (rt_oracle_results r)
      then rt_evidence r = t \<and> rt_verdict r = FAIL \<and> rt_semantic_judgment r = None \<and>
        verify_semantic_judgment (rn_calibration env) (cx_scenario cx) t = Inr None
      else (case es_semantic_rubric (cx_scenario cx) of
          None \<Rightarrow> rt_evidence r = t \<and> rt_verdict r = PASS \<and> rt_semantic_judgment r = None \<and>
            verify_semantic_judgment (rn_calibration env) (cx_scenario cx) t = Inr None
        | Some rubric \<Rightarrow> \<exists>j. rt_semantic_judgment r = Some j \<and>
            rt_verdict r = semantic_verdict (jg_decision j) \<and> judged env cx t rubric j (rt_evidence r)))"

lemma append_semantic_judgment_own:
  assumes "append_semantic_judgment ops now t j = Inr t'" "own_evidence cx t"
  shows "own_evidence cx t'"
proof -
  obtain e where v: "validate_evidence (t\<lparr>te_events := te_events t @ [e]\<rparr>) = Inr t'"
    using assms(1) by (auto simp: append_semantic_judgment_def rbind_Inr)
  then show ?thesis using assms(2) by (intro own_evidenceI [OF v]) (simp_all add: own_evidence_def)
qed

lemma record_judgment_Inr:
  assumes "record_judgment env cx t rubric authority input x = Inr (j, t')"
  obtains response where
    "create_judgment_receipt (rn_calibration env) (scenario_identity (cx_scenario cx)) (cx_subject cx)
       (evidence_root t) rubric (fst authority) (snd authority) input response = Inr j"
    "append_semantic_judgment (rn_calibration env) (rn_now env SEMANTIC_JUDGMENT) t j = Inr t'"
  using assms by (auto simp: record_judgment_def rbind_Inr split: judge_outcome.splits)

text \<open>A trial that came out of a stage on the evidence \<open>t\<close>: blocked, or judged after grading.\<close>

definition semantic_outcome ::
  "'c run_env \<Rightarrow> run_context \<Rightarrow> trial_evidence \<Rightarrow> oracle_result list \<Rightarrow> semantic_rubric \<Rightarrow> 'c evaluated_trial \<Rightarrow> bool" where
  "semantic_outcome env cx t rs rubric r \<longleftrightarrow> blocked_outcome cx r \<or>
     (\<exists>j input response profile calibration candidate.
        te_final_output t = Some candidate \<and> mk_judge_input (es_objective (cx_scenario cx)) rubric candidate = Inr input \<and>
        create_judgment_receipt (rn_calibration env) (scenario_identity (cx_scenario cx)) (cx_subject cx)
          (evidence_root t) rubric profile calibration input response = Inr j \<and>
        append_semantic_judgment (rn_calibration env) (rn_now env SEMANTIC_JUDGMENT) t j = Inr (rt_evidence r) \<and>
        rt_oracle_results r = rs \<and> rt_verdict r = semantic_verdict (jg_decision j) \<and> rt_semantic_judgment r = Some j)"

lemma before_deadline_semantic:
  assumes "before_deadline env cx (Some t) c k = Inr r" "own_evidence cx t"
    and "k = Inr r \<Longrightarrow> semantic_outcome env cx t' rs rubric r"
  shows "semantic_outcome env cx t' rs rubric r"
  using assms(1)
proof (rule before_deadline_Inr)
  show "own_evidence cx x" if "Some t = Some x" for x using that assms(2) by simp
qed (use assms(3) in \<open>simp_all add: semantic_outcome_def\<close>)

lemma blocked_semantic:
  "blocked_by env t src code reason = Inr r \<Longrightarrow> own_evidence cx t \<Longrightarrow> semantic_outcome env cx t rs rubric r"
  by (simp add: semantic_outcome_def blocked_by_outcome)

lemma judge_answered_outcome:
  assumes a: "judge_answered env cx t rs rubric authority input x = Inr r" and t: "own_evidence cx t"
    and input: "te_final_output t = Some candidate" "mk_judge_input (es_objective (cx_scenario cx)) rubric candidate = Inr input"
  shows "semantic_outcome env cx t rs rubric r"
  using a [unfolded judge_answered_def] t
proof (rule before_deadline_semantic)
  assume k: "(case record_judgment env cx t rubric authority input x of
      Inl e \<Rightarrow> if is_value_error e
        then before_deadline env cx (Some t) AFTER_JUDGMENT_ERROR
          (blocked_by env t ''evaluator:semantic-judgment'' ''semantic_judgment_invalid'' (err_msg e))
        else Inl e
    | Inr (j, t') \<Rightarrow> before_deadline env cx (Some t') AFTER_JUDGMENT
        (Inr \<lparr>rt_evidence = t', rt_oracle_results = rs, rt_verdict = semantic_verdict (jg_decision j),
              rt_semantic_judgment = Some j\<rparr>)) = Inr r"
  show "semantic_outcome env cx t rs rubric r"
  proof (cases "record_judgment env cx t rubric authority input x")
    case (Inl e)
    then have "before_deadline env cx (Some t) AFTER_JUDGMENT_ERROR
      (blocked_by env t ''evaluator:semantic-judgment'' ''semantic_judgment_invalid'' (err_msg e)) = Inr r"
      using k by (simp split: if_splits)
    then show ?thesis using t by (rule before_deadline_semantic) (rule blocked_semantic [OF _ t])
  next
    case (Inr y)
    obtain j t' where y: "y = (j, t')" by (cases y)
    from Inr have rj: "record_judgment env cx t rubric authority input x = Inr (j, t')" by (simp add: y)
    then obtain response where j: "create_judgment_receipt (rn_calibration env) (scenario_identity (cx_scenario cx))
        (cx_subject cx) (evidence_root t) rubric (fst authority) (snd authority) input response = Inr j"
      and t': "append_semantic_judgment (rn_calibration env) (rn_now env SEMANTIC_JUDGMENT) t j = Inr t'"
      by (rule record_judgment_Inr)
    from k rj have "before_deadline env cx (Some t') AFTER_JUDGMENT
        (Inr \<lparr>rt_evidence = t', rt_oracle_results = rs, rt_verdict = semantic_verdict (jg_decision j),
              rt_semantic_judgment = Some j\<rparr>) = Inr r" by simp
    then show ?thesis using append_semantic_judgment_own [OF t' t]
      by (rule before_deadline_semantic) (use j t' input in \<open>auto simp: semantic_outcome_def\<close>)
  qed
qed

lemma judge_turn_outcome:
  assumes a: "judge_turn env cx t rs rubric authority input judges = Inr r" and t: "own_evidence cx t"
    and input: "te_final_output t = Some candidate" "mk_judge_input (es_objective (cx_scenario cx)) rubric candidate = Inr input"
  shows "semantic_outcome env cx t rs rubric r"
  using a [unfolded judge_turn_def] t
proof (rule before_deadline_semantic)
  assume k: "(case judges input of
        JUDGE_LATE \<Rightarrow> deadline_blocked env cx (Some t)
      | JUDGE_RAISED name \<Rightarrow> before_deadline env cx (Some t) AFTER_JUDGE_ERROR
          (blocked_by env t ''evaluator:semantic-judge'' ''semantic_judge_runtime_error''
             (''semantic judge invocation failed: '' @ name))
      | y \<Rightarrow> judge_answered env cx t rs rubric authority input y) = Inr r"
  show "semantic_outcome env cx t rs rubric r"
  proof (cases "judges input")
    case JUDGE_LATE
    then show ?thesis using k t deadline_blocked_outcome [of env cx "Some t" r] by (simp add: semantic_outcome_def)
  next
    case (JUDGE_RAISED name)
    then have "before_deadline env cx (Some t) AFTER_JUDGE_ERROR
      (blocked_by env t ''evaluator:semantic-judge'' ''semantic_judge_runtime_error''
         (''semantic judge invocation failed: '' @ name)) = Inr r" using k by simp
    then show ?thesis using t by (rule before_deadline_semantic) (rule blocked_semantic [OF _ t])
  qed (use k judge_answered_outcome [OF _ t input] in simp_all)
qed

lemma semantic_turn_outcome:
  assumes a: "semantic_turn env cx t rs rubric = Inr r" and t: "own_evidence cx t"
  shows "semantic_outcome env cx t rs rubric r"
proof (cases "rn_judge env")
  case None
  then show ?thesis using a t by (simp add: semantic_turn_def blocked_semantic)
next
  case j: (Some j)
  show ?thesis
  proof (cases "te_final_output t")
    case None
    then show ?thesis using a t by (simp add: semantic_turn_def j blocked_semantic)
  next
    case c: (Some candidate)
    show ?thesis
    proof (cases "judge_authority env j")
      case (Inl name)
      then have "before_deadline env cx (Some t) AFTER_JUDGE_AUTHORITY_ERROR
          (blocked_by env t ''evaluator:semantic-judge'' ''semantic_judge_uncalibrated''
            (''semantic judge authority is unavailable: '' @ name)) = Inr r"
        using a by (simp add: semantic_turn_def j c)
      then show ?thesis using t by (rule before_deadline_semantic) (rule blocked_semantic [OF _ t])
    next
      case (Inr authority)
      then have "before_deadline env cx (Some t) AFTER_JUDGE_AUTHORITY
          (rbind (mk_judge_input (es_objective (cx_scenario cx)) rubric candidate) (\<lambda>input.
           judge_turn env cx t rs rubric authority input (sj_judges j))) = Inr r"
        using a by (simp add: semantic_turn_def j c)
      then show ?thesis using t
        by (rule before_deadline_semantic) (auto simp: rbind_Inr intro: judge_turn_outcome [OF _ t c])
    qed
  qed
qed

end
