(* ===== verification/RunOutcome.thy ===== *)
theory RunOutcome
  imports RunnerProofs
begin

section \<open>Every way a run can end\<close>

text \<open>
  A run that returns is blocked, or it graded the evidence the adapter returned. The lemmas
  follow the stages of \<open>_run_trial\<close> from the last to the first.
\<close>

definition run_outcome :: "'c run_env \<Rightarrow> run_context \<Rightarrow> trial_evidence \<Rightarrow> 'c evaluated_trial \<Rightarrow> bool" where
  "run_outcome env cx t r \<longleftrightarrow> blocked_outcome cx r \<or>
     (has_blocking_evidence t \<and> own_evidence cx t \<and>
        r = \<lparr>rt_evidence = t, rt_oracle_results = [], rt_verdict = BLOCKED, rt_semantic_judgment = None\<rparr>) \<or>
     graded_outcome env cx t r"

lemma run_outcome_blocked:
  "run_outcome env cx t r \<longleftrightarrow> blocked_outcome cx r \<or> graded_outcome env cx t r"
  by (auto simp: run_outcome_def blocked_outcome_def)

lemma before_deadline_run:
  assumes "before_deadline env cx (Some t) c k = Inr r" "own_evidence cx t"
    and "k = Inr r \<Longrightarrow> run_outcome env cx t r"
  shows "run_outcome env cx t r"
  using assms(1)
proof (rule before_deadline_Inr)
  show "own_evidence cx x" if "Some t = Some x" for x using that assms(2) by simp
qed (use assms(3) in \<open>simp_all add: run_outcome_def\<close>)

lemma blocked_by_run:
  "blocked_by env t src code reason = Inr r \<Longrightarrow> own_evidence cx t \<Longrightarrow> run_outcome env cx t r"
  by (simp add: run_outcome_def blocked_by_outcome)

text \<open>The evidence of a trial that reached grading.\<close>

definition gradable :: "'c run_env \<Rightarrow> run_context \<Rightarrow> trial_evidence \<Rightarrow> bool" where
  "gradable env cx t \<longleftrightarrow> own_evidence cx t \<and> \<not> has_blocking_evidence t \<and>
     live_evidence_violation (rn_adapter env) t = None \<and>
     verify_pregrading_closure (rn_lax_bool env) (cx_scenario cx) t = Inr ()"

lemma semantic_outcome_run:
  assumes g: "gradable env cx t" and rs: "rs = grade_deterministic_evidence (rn_lax_bool env) (cx_scenario cx) t"
    and "\<not> any_failed rs" "es_semantic_rubric (cx_scenario cx) = Some rubric"
    and v: "verify_semantic_judgment (rn_calibration env) (cx_scenario cx) t = Inr None"
    and o': "semantic_outcome env cx t rs rubric r"
  shows "run_outcome env cx t r"
proof -
  from o' consider "blocked_outcome cx r" | j where "rt_oracle_results r = rs" "rt_semantic_judgment r = Some j"
    "rt_verdict r = semantic_verdict (jg_decision j)" "judged env cx t rubric j (rt_evidence r)"
    using v unfolding semantic_outcome_def judged_def by blast
  then show ?thesis
  proof cases
    case 1
    then show ?thesis by (simp add: run_outcome_def)
  next
    case 2
    then have "graded_outcome env cx t r"
      using assms unfolding graded_outcome_def gradable_def by simp
    then show ?thesis by (simp add: run_outcome_def)
  qed
qed

lemma decide_trial_outcome:
  assumes g: "gradable env cx t" and rs: "rs = grade_deterministic_evidence (rn_lax_bool env) (cx_scenario cx) t"
    and v: "verify_semantic_judgment (rn_calibration env) (cx_scenario cx) t = Inr recorded"
    and d: "decide_trial env cx t rs recorded = Inr r"
  shows "run_outcome env cx t r"
proof (cases "any_failed rs")
  case True
  show ?thesis
  proof (cases recorded)
    case None
    then have "graded_outcome env cx t r"
      using True d g rs v by (auto simp: decide_trial_def graded_outcome_def gradable_def)
    then show ?thesis by (simp add: run_outcome_def)
  next
    case (Some j)
    then show ?thesis
      using True d g by (auto simp: decide_trial_def gradable_def intro: blocked_by_run)
  qed
next
  case False
  show ?thesis
  proof (cases "es_semantic_rubric (cx_scenario cx)")
    case None
    then have "recorded = None" using v by (auto simp: verify_semantic_judgment_def split: if_splits)
    with None have "graded_outcome env cx t r"
      using False d g rs v by (auto simp: decide_trial_def graded_outcome_def gradable_def)
    then show ?thesis by (simp add: run_outcome_def)
  next
    case rubric: (Some rubric)
    show ?thesis
    proof (cases recorded)
      case (Some j)
      then have "graded_outcome env cx t r"
        using False d g rs rubric v by (auto simp: decide_trial_def graded_outcome_def gradable_def judged_def)
      then show ?thesis by (simp add: run_outcome_def)
    next
      case None
      then have "semantic_outcome env cx t rs rubric r"
        using False d g rubric by (intro semantic_turn_outcome) (simp_all add: decide_trial_def gradable_def)
      then show ?thesis using semantic_outcome_run [OF g rs False rubric] v None by simp
    qed
  qed
qed

lemma grade_closed_outcome:
  assumes g: "gradable env cx t" and r: "grade_closed env cx t = Inr r"
  shows "run_outcome env cx t r"
proof -
  have t: "own_evidence cx t" using g by (simp add: gradable_def)
  let ?rs = "grade_deterministic_evidence (rn_lax_bool env) (cx_scenario cx) t"
  let ?v = "verify_semantic_judgment (rn_calibration env) (cx_scenario cx) t"
  from r [unfolded grade_closed_def Let_def] t show ?thesis
  proof (rule before_deadline_run)
    assume k: "(case ?v of
           Inl e \<Rightarrow> if err_class e = SemanticJudgmentError
             then before_deadline env cx (Some t) AFTER_SEMANTIC_ERROR
               (blocked_by env t ''evaluator:semantic-judgment'' ''semantic_judgment_unverified'' (err_msg e))
             else Inl e
         | Inr recorded \<Rightarrow> before_deadline env cx (Some t) AFTER_SEMANTIC (decide_trial env cx t ?rs recorded)) = Inr r"
    show ?thesis
    proof (cases ?v)
      case (Inl e)
      then have "before_deadline env cx (Some t) AFTER_SEMANTIC_ERROR
         (blocked_by env t ''evaluator:semantic-judgment'' ''semantic_judgment_unverified'' (err_msg e)) = Inr r"
        using k by (simp split: if_splits)
      then show ?thesis using t by (rule before_deadline_run) (rule blocked_by_run [OF _ t])
    next
      case (Inr recorded)
      then have "before_deadline env cx (Some t) AFTER_SEMANTIC (decide_trial env cx t ?rs recorded) = Inr r"
        using k by simp
      then show ?thesis using t by (rule before_deadline_run) (rule decide_trial_outcome [OF g refl Inr])
    qed
  qed
qed

lemma grade_evidence_outcome:
  assumes r: "grade_evidence env cx t = Inr r" and t: "own_evidence cx t"
  shows "run_outcome env cx t r"
  using r [unfolded grade_evidence_def] t
proof (rule before_deadline_run, rule_tac before_deadline_run [OF _ t])
  assume k: "(if has_blocking_evidence t
     then Inr \<lparr>rt_evidence = t, rt_oracle_results = [], rt_verdict = BLOCKED, rt_semantic_judgment = None\<rparr>
     else before_deadline env cx (Some t) AFTER_AUTHORITY_SCAN
       (case live_evidence_violation (rn_adapter env) t of
          Some (source, code, reason) \<Rightarrow> blocked_by env t source code reason
        | None \<Rightarrow> close_and_grade env cx t)) = Inr r"
  show "run_outcome env cx t r"
  proof (cases "has_blocking_evidence t")
    case True
    then show ?thesis using k t by (simp add: run_outcome_def)
  next
    case n: False
    have "before_deadline env cx (Some t) AFTER_AUTHORITY_SCAN
       (case live_evidence_violation (rn_adapter env) t of
          Some (source, code, reason) \<Rightarrow> blocked_by env t source code reason
        | None \<Rightarrow> close_and_grade env cx t) = Inr r"
      using k n by simp
    then show ?thesis using t
    proof (rule before_deadline_run)
      assume v: "(case live_evidence_violation (rn_adapter env) t of
          Some (source, code, reason) \<Rightarrow> blocked_by env t source code reason
        | None \<Rightarrow> close_and_grade env cx t) = Inr r"
      show ?thesis
      proof (cases "live_evidence_violation (rn_adapter env) t")
        case (Some x)
        then show ?thesis using v t by (auto split: prod.splits intro: blocked_by_run)
      next
        case live: None
        let ?c = "verify_pregrading_closure (rn_lax_bool env) (cx_scenario cx) t"
        have c: "(case ?c of
            Inl (Unverified source code reason) \<Rightarrow> before_deadline env cx (Some t) AFTER_CLOSURE_ERROR
              (blocked_by env t source code reason)
          | Inl (Escapes e) \<Rightarrow> Inl e
          | Inr _ \<Rightarrow> before_deadline env cx (Some t) AFTER_CLOSURE (grade_closed env cx t)) = Inr r"
          using v live by (simp add: close_and_grade_def)
        show ?thesis
        proof (cases ?c)
          case (Inl e)
          then obtain src code reason where "before_deadline env cx (Some t) AFTER_CLOSURE_ERROR
              (blocked_by env t src code reason) = Inr r"
            using c by (cases e) auto
          then show ?thesis using t by (rule before_deadline_run) (rule blocked_by_run [OF _ t])
        next
          case (Inr u)
          then have "before_deadline env cx (Some t) AFTER_CLOSURE (grade_closed env cx t) = Inr r" using c by simp
          moreover have "gradable env cx t" using Inr n live t by (simp add: gradable_def)
          ultimately show ?thesis using t by (auto elim: before_deadline_run intro: grade_closed_outcome)
        qed
      qed
    qed
  qed
qed

subsection \<open>Runs\<close>

text \<open>The context \<open>run_trial\<close> fixes from the snapshots of its inputs.\<close>

definition context_of :: "subject_fingerprint \<Rightarrow> evaluation_scenario \<Rightarrow> string \<Rightarrow> run_context" where
  "context_of subject s trial_id =
     \<lparr>cx_subject = subject_identity subject, cx_scenario = s, cx_trial_id = trial_id\<rparr>"

lemma run_trial_Inr:
  assumes "run_trial env subject scenario trial_id = Inr r"
  obtains sf s where "snapshot_subject subject = Inr sf" "snapshot_scenario scenario = Inr s"
    "adapter_turn env (context_of sf s trial_id) (grade_evidence env (context_of sf s trial_id)) = Inr r"
  using assms by (auto simp: run_trial_def rbind_Inr Let_def context_of_def)

lemma run_trial_outcome:
  assumes "run_trial env subject scenario trial_id = Inr r"
  obtains sf s where "snapshot_subject subject = Inr sf" "snapshot_scenario scenario = Inr s"
    "blocked_outcome (context_of sf s trial_id) r \<or>
     (\<exists>v x t. rn_outcome env = RETURNED v \<and> validate_adapter_result v = Inr x \<and>
        to_evidence x (context_of sf s trial_id) = Inr t \<and>
        \<not> scenario_contract_drifted env (context_of sf s trial_id) \<and> \<not> deadline_expired env AFTER_ADAPTER \<and>
        graded_outcome env (context_of sf s trial_id) t r)"
proof -
  from assms obtain sf s where s: "snapshot_subject subject = Inr sf" "snapshot_scenario scenario = Inr s"
    and a: "adapter_turn env (context_of sf s trial_id) (grade_evidence env (context_of sf s trial_id)) = Inr r"
    by (rule run_trial_Inr)
  let ?cx = "context_of sf s trial_id"
  from a have "blocked_outcome ?cx r \<or>
     (\<exists>v x t. rn_outcome env = RETURNED v \<and> validate_adapter_result v = Inr x \<and> to_evidence x ?cx = Inr t \<and>
        \<not> scenario_contract_drifted env ?cx \<and> \<not> deadline_expired env AFTER_ADAPTER \<and> graded_outcome env ?cx t r)"
  proof (rule adapter_turn_Inr)
    fix v x t
    assume *: "rn_outcome env = RETURNED v" "validate_adapter_result v = Inr x" "to_evidence x ?cx = Inr t"
      "grade_evidence env ?cx t = Inr r" "\<not> scenario_contract_drifted env ?cx" "\<not> deadline_expired env AFTER_ADAPTER"
    have "run_outcome env ?cx t r"
      using *(4) to_evidence_own [OF *(3)] by (rule grade_evidence_outcome)
    with * show ?thesis by (auto simp: run_outcome_blocked)
  qed simp
  with s show thesis by (rule that)
qed

text \<open>A blocked outcome and a graded one exclude each other, so the verdict tells them apart.\<close>

lemma semantic_verdict_not_blocked: "semantic_verdict d \<noteq> BLOCKED"
  by (cases d) (simp_all add: semantic_verdict_def)

lemma graded_not_blocked: "graded_outcome env cx t r \<Longrightarrow> rt_verdict r \<noteq> BLOCKED"
  by (auto simp: graded_outcome_def semantic_verdict_not_blocked [symmetric] split: if_splits option.splits)

lemma append_semantic_judgment_kinds:
  assumes "append_semantic_judgment ops now t j = Inr t'"
  shows "map ev_kind (te_events t') = map ev_kind (te_events t) @ [SEMANTIC_JUDGMENT]"
proof -
  obtain e where v: "validate_evidence (t\<lparr>te_events := te_events t @ [e]\<rparr>) = Inr t'"
    and e: "ev_kind e = SEMANTIC_JUDGMENT"
    using assms by (auto simp: append_semantic_judgment_def rbind_Inr mk_event_kind)
  from validate_evidence_keeps(4) [OF v] e show ?thesis by simp
qed

lemma graded_evidence:
  assumes "graded_outcome env cx t r"
  obtains (same) "rt_evidence r = t"
    | (appended) j where "append_semantic_judgment (rn_calibration env) (rn_now env SEMANTIC_JUDGMENT) t j = Inr (rt_evidence r)"
  using assms by (auto simp: graded_outcome_def judged_def split: if_splits option.splits)

lemma graded_no_blocking:
  assumes "graded_outcome env cx t r"
  shows "\<not> has_blocking_evidence (rt_evidence r)"
proof -
  have t: "\<not> has_blocking_evidence t" using assms by (simp add: graded_outcome_def)
  from assms show ?thesis
  proof (rule graded_evidence)
    fix j assume "append_semantic_judgment (rn_calibration env) (rn_now env SEMANTIC_JUDGMENT) t j = Inr (rt_evidence r)"
    from append_semantic_judgment_kinds [OF this] t show ?thesis
      by (simp add: has_blocking_kinds blocking_kinds_def)
  qed (use t in simp)
qed

lemma graded_results: "graded_outcome env cx t r \<Longrightarrow> rt_oracle_results r \<noteq> []"
  by (auto simp: graded_outcome_def grade_deterministic_evidence_def)

text \<open>The evidence a trial ends with is valid and its own.\<close>

lemma graded_own:
  assumes "graded_outcome env cx t r"
  shows "own_evidence cx (rt_evidence r)"
proof -
  have t: "own_evidence cx t" using assms by (simp add: graded_outcome_def)
  from assms show ?thesis
    by (rule graded_evidence) (use t append_semantic_judgment_own in auto)
qed

lemma run_trial_evidence:
  assumes "run_trial env subject scenario trial_id = Inr r"
  obtains sf s where "snapshot_subject subject = Inr sf" "snapshot_scenario scenario = Inr s"
    "own_evidence (context_of sf s trial_id) (rt_evidence r)"
    "rt_verdict r = BLOCKED \<longleftrightarrow> has_blocking_evidence (rt_evidence r)"
    "rt_verdict r = BLOCKED \<longleftrightarrow> rt_oracle_results r = []"
proof -
  from assms obtain sf s where s: "snapshot_subject subject = Inr sf" "snapshot_scenario scenario = Inr s"
    and o': "blocked_outcome (context_of sf s trial_id) r \<or> (\<exists>t. graded_outcome env (context_of sf s trial_id) t r)"
    by (rule run_trial_outcome) blast
  have "own_evidence (context_of sf s trial_id) (rt_evidence r)"
    using o' by (auto simp: blocked_outcome_def dest: graded_own)
  moreover have "rt_verdict r = BLOCKED \<longleftrightarrow> has_blocking_evidence (rt_evidence r)"
    using o' by (auto simp: blocked_outcome_def dest: graded_not_blocked graded_no_blocking)
  moreover have "rt_verdict r = BLOCKED \<longleftrightarrow> rt_oracle_results r = []"
    using o' by (auto simp: blocked_outcome_def dest: graded_not_blocked graded_results)
  ultimately show thesis using s by (rule that [rotated 2])
qed

subsection \<open>Regrading\<close>

text \<open>Regrading the evidence of a run without a rubric finds the verdict and results of the run.\<close>

lemma regrade_agrees:
  assumes r: "run_trial env subject s trial_id = Inr r" and s: "validate_scenario s = Inr s"
    and rubric: "es_semantic_rubric s = None"
  shows "deterministic_regrade_one (rn_lax_bool env) i s (rt_evidence r) =
    Inr \<lparr>rg_index = i, rg_trial_id = te_trial_id (rt_evidence r), rg_evidence_root = evidence_root (rt_evidence r),
         rg_verdict = rt_verdict r, rg_oracle_results = rt_oracle_results r\<rparr>"
proof -
  from r obtain sf s' where "snapshot_scenario s = Inr s'" and
    o': "blocked_outcome (context_of sf s' trial_id) r \<or> (\<exists>t. graded_outcome env (context_of sf s' trial_id) t r)"
    by (rule run_trial_outcome) blast
  then have o': "blocked_outcome (context_of sf s trial_id) r \<or> (\<exists>t. graded_outcome env (context_of sf s trial_id) t r)"
    using s by (simp add: snapshot_scenario_def)
  then have own: "own_evidence (context_of sf s trial_id) (rt_evidence r)"
    by (auto simp: blocked_outcome_def dest: graded_own)
  then have b: "deterministic_regrade_one (rn_lax_bool env) i s (rt_evidence r) =
     (let base = \<lparr>rg_index = i, rg_trial_id = te_trial_id (rt_evidence r), rg_evidence_root = evidence_root (rt_evidence r),
                  rg_verdict = BLOCKED, rg_oracle_results = []\<rparr> in
      if has_blocking_evidence (rt_evidence r) then Inr base
      else rbind (map_error Unclosed (verify_pregrading_closure (rn_lax_bool env) s (rt_evidence r))) (\<lambda>_.
        let rs = grade_deterministic_evidence (rn_lax_bool env) s (rt_evidence r) in
        Inr (base\<lparr>rg_verdict := (if any_failed rs then FAIL else PASS), rg_oracle_results := rs\<rparr>)))"
    using rubric by (simp add: deterministic_regrade_one_def snapshot_evidence_def own_evidence_def context_of_def)
  from o' show ?thesis
  proof
    assume "blocked_outcome (context_of sf s trial_id) r"
    then show ?thesis by (simp add: b blocked_outcome_def)
  next
    assume "\<exists>t. graded_outcome env (context_of sf s trial_id) t r"
    then obtain t where t: "graded_outcome env (context_of sf s trial_id) t r" by blast
    then have "rt_evidence r = t" using rubric by (auto simp: graded_outcome_def context_of_def split: if_splits)
    then show ?thesis
      using t rubric by (auto simp: b graded_outcome_def context_of_def Let_def split: if_splits)
  qed
qed

section \<open>Exceptions that leave the runner\<close>

text \<open>
  The runner turns failed preconditions into blocked trials. Three inputs make it raise
  instead: a judge input over its length limit, an adversarial envelope that does not parse,
  and an error to append to evidence that is already full.
\<close>

lemma long_candidate: "100000 < length candidate \<Longrightarrow> bounded_text 1 20000 objective \<Longrightarrow>
    mk_judge_input objective rubric candidate = Inl (verr ''candidate_output: length'')"
  by (simp add: mk_judge_input_def)

lemma semantic_turn_long_output:
  assumes "rn_judge env = Some j" "judge_authority env j = Inr authority" "rn_deadline env = None"
    and "te_final_output t = Some candidate" "100000 < length candidate"
    and "bounded_text 1 20000 (es_objective (cx_scenario cx))"
  shows "semantic_turn env cx t rs rubric = Inl (verr ''candidate_output: length'')"
  using assms by (simp add: semantic_turn_def before_deadline_def deadline_expired_def long_candidate)

lemma malformed_envelope_escapes:
  assumes "dict_get (es_initial_state s) reserved_state_key = Some v" "v \<noteq> JNull" "read_envelope v = None"
  shows "verify_pregrading_closure lax_bool s t = Inl (Escapes (verr ''adversarial envelope is malformed''))"
proof -
  have "extract_attack s None = Inl (verr ''adversarial envelope is malformed'')"
    using assms by (simp add: extract_attack_def)
  then have "verify_attack_delivery s t = Inl (verr ''adversarial envelope is malformed'')"
    by (simp add: verify_attack_delivery_def)
  then show ?thesis by (simp add: verify_pregrading_closure_def close_with_def verr_def)
qed

lemma full_evidence_append:
  assumes "append_event env t src p = Inr es" "length (te_events t) = max_trial_events"
  shows "length es > max_trial_events"
  using assms by (auto simp: append_event_def rbind_Inr)

lemma full_evidence_not_blocked:
  assumes "length (te_events t) = max_trial_events"
  shows "\<not> returns (blocked_by env t src code reason)" "\<not> returns (deadline_blocked env cx (Some t))"
proof -
  have "validate_evidence t' \<noteq> Inr t''" if "length (te_events t') > max_trial_events" for t' t''
    using that by (auto elim: validate_evidence_Inr)
  with full_evidence_append [OF _ assms] show "\<not> returns (blocked_by env t src code reason)"
    "\<not> returns (deadline_blocked env cx (Some t))"
    by (fastforce simp: returns_iff blocked_by_def blocked_trial_Inr append_evaluation_error_def rbind_Inr
        deadline_blocked_def)+
qed

end
