(* ===== verification/SemanticProofs.thy ===== *)
theory SemanticProofs
  imports Semantic RetrievalProofs
begin

section \<open>What a semantic decision says\<close>

text \<open>
  When a decision is derived, and what a recorded judgment is bound to.
\<close>

subsection \<open>The derived decision\<close>

text \<open>The decision a criterion's result must carry, if it carries one.\<close>

definition expected_decision :: "semantic_criterion \<Rightarrow> criterion_result \<Rightarrow> semantic_decision option" where
  "expected_decision c r =
     (if cs_decision r = SEM_ABSTAIN then Some SEM_ABSTAIN
      else map_option (\<lambda>n. if cr_minimum_score c \<le> n then SEM_PASS else SEM_FAIL) (cs_score r))"

lemma criterion_decision_Inr:
  "criterion_decision (c, r) = Inr d \<longleftrightarrow> expected_decision c r = Some d \<and> cs_decision r = d"
  by (auto simp: criterion_decision_def expected_decision_def Let_def split: option.splits if_splits)

lemma criterion_decisions_Inr:
  assumes "length cs = length rs"
  shows "rmap criterion_decision (zip cs rs) = Inr ds \<longleftrightarrow>
    ds = map cs_decision rs \<and> list_all2 (\<lambda>c r. expected_decision c r = Some (cs_decision r)) cs rs"
  using assms
proof (induction cs rs arbitrary: ds rule: list_induct2)
  case (Cons c cs r rs)
  then show ?case by (auto simp: rbind_Inr criterion_decision_Inr)
qed auto

lemma derive_semantic_decision_Inr:
  "derive_semantic_decision rubric response = Inr d \<longleftrightarrow>
     map cs_criterion_id (jr_criteria response) = map cr_criterion_id (ru_criteria rubric) \<and>
     list_all2 (\<lambda>c r. expected_decision c r = Some (cs_decision r)) (ru_criteria rubric) (jr_criteria response) \<and>
     jr_overall response = d \<and> d = combine_decisions (map cs_decision (jr_criteria response))"
proof (cases "map cs_criterion_id (jr_criteria response) = map cr_criterion_id (ru_criteria rubric)")
  case True
  then have "length (ru_criteria rubric) = length (jr_criteria response)" by (metis length_map)
  then show ?thesis
    using True by (auto simp: derive_semantic_decision_def rbind_Inr criterion_decisions_Inr)
qed (simp add: derive_semantic_decision_def)

lemma combine_pass: "combine_decisions ds = SEM_PASS \<longleftrightarrow> (\<forall>d \<in> set ds. d = SEM_PASS)"
  by (auto simp: combine_decisions_def intro: semantic_decision.exhaust)

lemma combine_fail: "combine_decisions ds = SEM_FAIL \<longleftrightarrow> SEM_FAIL \<in> set ds"
  by (auto simp: combine_decisions_def)

text \<open>A criterion met: resolved as a pass with a score that reaches its minimum.\<close>

definition criterion_met :: "semantic_criterion \<Rightarrow> criterion_result \<Rightarrow> bool" where
  "criterion_met c r \<longleftrightarrow> cs_criterion_id r = cr_criterion_id c \<and> cs_decision r = SEM_PASS \<and>
     (case cs_score r of None \<Rightarrow> False | Some n \<Rightarrow> cr_minimum_score c \<le> n)"

lemma criterion_met_expected:
  "criterion_met c r \<longleftrightarrow> cs_criterion_id r = cr_criterion_id c \<and> cs_decision r = SEM_PASS \<and>
     expected_decision c r = Some (cs_decision r)"
  by (auto simp: criterion_met_def expected_decision_def split: option.splits)

lemma derive_pass:
  "derive_semantic_decision rubric response = Inr SEM_PASS \<longleftrightarrow>
   jr_overall response = SEM_PASS \<and> list_all2 criterion_met (ru_criteria rubric) (jr_criteria response)"
proof -
  have "list_all2 criterion_met cs rs \<longleftrightarrow> map cs_criterion_id rs = map cr_criterion_id cs \<and>
      list_all2 (\<lambda>c r. expected_decision c r = Some (cs_decision r)) cs rs \<and>
      (\<forall>r \<in> set rs. cs_decision r = SEM_PASS)" for cs rs
  proof (induction rs arbitrary: cs)
    case (Cons r rs)
    then show ?case by (cases cs) (auto simp: criterion_met_expected)
  qed auto
  then show ?thesis
    unfolding derive_semantic_decision_Inr by (auto simp: combine_pass eq_commute [of SEM_PASS])
qed

subsection \<open>Receipts\<close>

lemma validate_judgment_receipt_decision:
  assumes "validate_judgment_receipt ops r = Inr r'"
  shows "r' = r" "derive_semantic_decision (jg_rubric r) (reconstructed_response r) = Inr (jg_decision r)"
    "co_accepted ops (jg_calibration_receipt r)"
    "profile_identity (co_profile ops (jg_calibration_receipt r)) = profile_identity (jg_judge_profile r)"
proof -
  from assms have r': "r' = r" and v: "verify_judgment_receipt ops r = Inr ()"
    by (auto simp: validate_judgment_receipt_def rbind_Inr)
  from v obtain response where m: "require_matching_calibration ops (jg_calibration_receipt r) (jg_judge_profile r) = Inr ()"
    and "validate_response (reconstructed_response r) = Inr response"
      "derive_semantic_decision (jg_rubric r) response = Inr (jg_decision r)"
    by (auto simp: verify_judgment_receipt_def as_validation_def map_error_Inr rbind_Inr raise_if_Inr split: if_splits)
  moreover from this have "response = reconstructed_response r"
    by (auto simp: validate_response_def rbind_Inr split: if_splits)
  ultimately show "r' = r" "derive_semantic_decision (jg_rubric r) (reconstructed_response r) = Inr (jg_decision r)"
    "co_accepted ops (jg_calibration_receipt r)"
    "profile_identity (co_profile ops (jg_calibration_receipt r)) = profile_identity (jg_judge_profile r)"
    using r' by (auto simp: require_matching_calibration_def raise_if_Inr)
qed

lemma validate_judgment_receipt_rubric:
  "validate_judgment_receipt ops r = Inr r' \<Longrightarrow> jg_rubric_identity r = rubric_identity (jg_rubric r)"
  by (auto simp: validate_judgment_receipt_def verify_judgment_receipt_def as_validation_def result_simps)

lemma create_judgment_receipt_facts:
  assumes "create_judgment_receipt ops scen subj root rubric profile calibration input response = Inr r"
  shows "validate_judgment_receipt ops r = Inr r" "jg_rubric r = rubric" "jg_scenario_identity r = scen"
    "jg_subject_identity r = subj" "jg_subject_evidence_root r = root" "jg_judge_input_sha256 r = input_digest input"
    "jg_criteria r = jr_criteria response"
proof -
  obtain c decision receipt_root where v: "validate_judgment_receipt ops
      \<lparr>jg_schema_version = judgment_schema, jg_scenario_identity = scen, jg_subject_identity = subj,
       jg_subject_evidence_root = root, jg_rubric = rubric, jg_rubric_identity = rubric_identity rubric,
       jg_judge_profile = profile, jg_calibration_receipt = c, jg_judge_input_sha256 = input_digest input,
       jg_judge_response_sha256 = response_digest response, jg_criteria = jr_criteria response,
       jg_decision = decision, jg_receipt_root = receipt_root\<rparr> = Inr r"
    using assms by (auto simp: create_judgment_receipt_def rbind_Inr Let_def split: option.splits if_splits)
  from validate_judgment_receipt_decision(1) [OF v] v
  show "validate_judgment_receipt ops r = Inr r" "jg_rubric r = rubric" "jg_scenario_identity r = scen"
    "jg_subject_identity r = subj" "jg_subject_evidence_root r = root" "jg_judge_input_sha256 r = input_digest input"
    "jg_criteria r = jr_criteria response"
    by auto
qed

lemma read_judgment_receipt_valid:
  "read_judgment_receipt ops d = Some r \<Longrightarrow> validate_judgment_receipt ops r = Inr r"
  by (auto simp: read_judgment_receipt_def bind_eq_Some_conv dest: validate_judgment_receipt_decision(1) split: if_splits)

lemma verify_judgment_evidence_Some:
  "verify_judgment_evidence ops t = Inr (Some r) \<longleftrightarrow> (\<exists>e before.
     events_of SEMANTIC_JUDGMENT t = [e] \<and> ev_sequence e = int (length (te_events t)) - 1 \<and>
     ev_source e = semantic_source \<and> \<not> ev_critical e \<and> read_judgment_receipt ops (ev_payload e) = Some r \<and>
     jg_subject_identity r = te_subject_identity t \<and> jg_scenario_identity r = te_scenario_identity t \<and>
     evidence_before_semantic_judgment t = Inr before \<and> jg_subject_evidence_root r = evidence_root before)"
  by (auto simp: verify_judgment_evidence_def rbind_Inr raise_if_Inr split: list.splits option.splits if_splits)

text \<open>
  What a recorded judgment is: the terminal event of the evaluator, whose receipt validates and
  binds the scenario, its rubric, the subject, the evidence before the judgment and the input
  the judge must have been given.
\<close>

definition judgment_bound :: "'c calibration_ops \<Rightarrow> evaluation_scenario \<Rightarrow> semantic_rubric \<Rightarrow> trial_evidence
  \<Rightarrow> 'c judgment_receipt \<Rightarrow> bool" where
  "judgment_bound ops s rubric t r \<longleftrightarrow>
     (\<exists>e. events_of SEMANTIC_JUDGMENT t = [e] \<and> ev_sequence e = int (length (te_events t)) - 1 \<and>
        ev_source e = semantic_source \<and> \<not> ev_critical e \<and> read_judgment_receipt ops (ev_payload e) = Some r) \<and>
     validate_judgment_receipt ops r = Inr r \<and> jg_rubric_identity r = rubric_identity rubric \<and>
     jg_scenario_identity r = scenario_identity s \<and> te_scenario_identity t = scenario_identity s \<and>
     jg_subject_identity r = te_subject_identity t \<and>
     (\<exists>before candidate input. evidence_before_semantic_judgment t = Inr before \<and>
        jg_subject_evidence_root r = evidence_root before \<and> te_final_output before = Some candidate \<and>
        mk_judge_input (es_objective s) rubric candidate = Inr input \<and> jg_judge_input_sha256 r = input_digest input)"

lemma verify_judgment_input_Some:
  "verify_judgment_input s rubric t r = Inr (Some r') \<longleftrightarrow> r' = r \<and> jg_scenario_identity r = scenario_identity s \<and>
     jg_rubric_identity r = rubric_identity rubric \<and> (\<exists>before candidate input.
       evidence_before_semantic_judgment t = Inr before \<and> te_final_output before = Some candidate \<and>
       mk_judge_input (es_objective s) rubric candidate = Inr input \<and> jg_judge_input_sha256 r = input_digest input)"
    (is "_ \<longleftrightarrow> ?rhs")
proof
  assume ?rhs
  then show "verify_judgment_input s rubric t r = Inr (Some r')"
    by (auto simp: verify_judgment_input_def)
qed (auto simp: verify_judgment_input_def rbind_Inr raise_if_Inr split: option.splits if_splits)

lemma verify_semantic_judgment_Some:
  "verify_semantic_judgment ops s t = Inr (Some r) \<longleftrightarrow>
   (\<exists>rubric. es_semantic_rubric s = Some rubric \<and> judgment_bound ops s rubric t r)"
proof -
  have "verify_semantic_judgment ops s t = Inr (Some r) \<longleftrightarrow> (\<exists>rubric. es_semantic_rubric s = Some rubric \<and>
      verify_judgment_evidence ops t = Inr (Some r) \<and> verify_judgment_input s rubric t r = Inr (Some r))"
    by (auto simp: verify_semantic_judgment_def rbind_Inr verify_judgment_input_Some split: option.splits if_splits)
  then show ?thesis
    unfolding verify_judgment_evidence_Some verify_judgment_input_Some judgment_bound_def
    by (auto dest: read_judgment_receipt_valid)
qed

end
