(* ===== verification/Sample.thy ===== *)
theory Sample
  imports RunOutcome SemanticProofs
begin

section \<open>A sample scenario and its runs\<close>

text \<open>
  Concrete inputs on which the properties of the runner apply: a scenario with one required
  outcome, a subject, a world in which a plain adapter reports the outcome and one in which it
  raises. Digests stay symbolic: that they are digests is all a run needs of them.
\<close>

definition sample_policy :: authority_policy where
  "sample_policy = \<lparr>ap_allowed_tools = {''search''}, ap_forbidden_tools = {}, ap_approval_required_tools = {},
     ap_allowed_resource_scopes = [], ap_max_turns = 8, ap_max_tool_calls = 4, ap_max_handoffs = 0,
     ap_root_agent = None, ap_handoff_grants = []\<rparr>"

definition sample_scenario :: evaluation_scenario where
  "sample_scenario = \<lparr>es_scenario_id = ''sample'', es_revision = ''1'', es_kind = CAPABILITY,
     es_objective = ''answer'', es_initial_state = [], es_authority = sample_policy,
     es_approval_intent = None, es_semantic_rubric = None, es_retrieval = None, es_side_effect = None,
     es_required_outcomes = [(''done'', JBool True)], es_forbidden_outcomes = [], es_tags = {}\<rparr>"

definition zeros :: string where
  "zeros = replicate 64 (CHR ''0'')"

definition sample_subject :: subject_fingerprint where
  "sample_subject = \<lparr>sf_provider = ''p'', sf_model = ''m'', sf_application_revision = ''1'',
     sf_instructions_sha256 = zeros, sf_tool_schema_sha256 = zeros, sf_policy_sha256 = zeros,
     sf_memory_policy_sha256 = zeros, sf_adapter = ''a'', sf_adapter_version = ''1''\<rparr>"

lemma zeros_sha256 [simp]: "is_sha256 zeros"
  by (simp add: zeros_def is_sha256_def is_hex_char_def is_digit_char_def list_all_iff)

lemma nonneg_zero [simp]: "nonneg_float fl_0"
  by (simp add: nonneg_float_def fl_0_def fl_le_def align_def)

lemma sample_policy_valid: "validate_policy sample_policy = Inr sample_policy"
  by (simp add: validate_policy_def policy_field_checks_def sample_policy_def blank_name_def
      canonical_resource_scopes_def validate_authority_def py_strip_def py_space_def)

lemma sample_scenario_valid: "validate_scenario sample_scenario = Inr sample_scenario"
  using sample_policy_valid
  by (simp add: validate_scenario_def sample_scenario_def id_pattern_def id_char_def is_lower_char_def
      bounded_text_def require_json_serializable_def validate_optional_def blank_name_def
      scenario_model_checks_def outcome_conflicts_def)

lemma sample_subject_valid: "validate_subject sample_subject = Inr sample_subject"
  by (simp add: validate_subject_def sample_subject_def)

definition sample_result :: adapter_result where
  "sample_result = \<lparr>ad_events = [], ad_final_state = [(''done'', JBool True)], ad_final_output = Some ''ok'',
     ad_elapsed_ms = fl_0, ad_input_tokens = 1, ad_output_tokens = 1, ad_estimated_cost_usd = fl_0\<rparr>"

definition no_calibration :: "unit calibration_ops" where
  "no_calibration = \<lparr>co_accepted = (\<lambda>_. False),
     co_profile = (\<lambda>_. \<lparr>jp_schema_version = profile_schema, jp_provider = ''p'', jp_model = ''m'',
       jp_model_revision = ''1'', jp_adapter = ''a'', jp_adapter_version = ''1'',
       jp_prompt_template_sha256 = zeros, jp_response_schema = response_schema,
       jp_behavior_config_sha256 = zeros\<rparr>),
     co_material = (\<lambda>_. JNull), co_read = (\<lambda>_. None)\<rparr>"

definition sample_env :: "adapter_outcome \<Rightarrow> unit run_env" where
  "sample_env x = \<lparr>rn_deadline = None, rn_expired = (\<lambda>_. False), rn_elapsed_ms = fl_0,
     rn_now = (\<lambda>_. \<lparr>dt_wall = 0, dt_utcoffset = Some 0\<rparr>), rn_adapter_name = ''plain'',
     rn_adapter = OTHER_ADAPTER, rn_outcome = x,
     rn_identity_after = Some (scenario_identity sample_scenario), rn_judge = None,
     rn_calibration = no_calibration, rn_lax_bool = (\<lambda>v. as_bool (Some v))\<rparr>"

definition sample_context :: run_context where
  "sample_context = context_of sample_subject sample_scenario ''t1''"

definition sample_evidence :: trial_evidence where
  "sample_evidence = \<lparr>te_trial_id = ''t1'', te_subject_identity = subject_identity sample_subject,
     te_scenario_identity = scenario_identity sample_scenario, te_events = [],
     te_final_state = [(''done'', JBool True)], te_final_output = Some ''ok'', te_elapsed_ms = fl_0,
     te_input_tokens = 1, te_output_tokens = 1, te_estimated_cost_usd = fl_0\<rparr>"

lemma sample_evidence_valid: "validate_evidence sample_evidence = Inr sample_evidence"
proof -
  have d: "detached_dict m final_state_budget [(''done'', JBool True)] = Inr [(''done'', JBool True)]" for m
  proof -
    have "depth_within (JObj [(''done'', JBool True)]) (Suc (Suc 30))" by simp
    then show ?thesis
      by (simp add: detached_dict_def sort_dict_def within_budget_def final_state_budget_def utf8_def utf8_char_def)
  qed
  have u: "validate_utf8_text (Some ''ok'') max_final_output_utf8_bytes l = Inr ()" for l
    by (simp add: validate_utf8_text_def max_final_output_utf8_bytes_def utf8_def utf8_char_def)
  show ?thesis
    using d u
    by (simp add: validate_evidence_def sample_evidence_def max_trial_events_def subject_identity_def
        scenario_identity_def event_sequence_check_def map_error_def)
qed

lemma sample_graded:
  "grade_deterministic_evidence lax_bool sample_scenario sample_evidence =
     [policy_oracle sample_scenario sample_evidence, outcome_oracle sample_scenario sample_evidence]"
  "policy_reasons sample_scenario [] = []"
  "or_verdict (outcome_oracle sample_scenario sample_evidence) = PASS"
proof -
  show "grade_deterministic_evidence lax_bool sample_scenario sample_evidence =
     [policy_oracle sample_scenario sample_evidence, outcome_oracle sample_scenario sample_evidence]"
    by (simp add: grade_deterministic_evidence_def sample_scenario_def)
  show "policy_reasons sample_scenario [] = []"
    by (simp add: policy_reasons_def policy_run_def initial_policy_state_def sample_scenario_def sample_policy_def)
  show "or_verdict (outcome_oracle sample_scenario sample_evidence) = PASS"
    by (simp add: outcome_oracle_def sample_scenario_def sample_evidence_def required_reason_def
        outcome_lookup_def)
qed

subsection \<open>Runs\<close>

lemma sample_own: "own_evidence sample_context sample_evidence"
  using sample_evidence_valid by (simp add: own_evidence_def sample_context_def context_of_def sample_evidence_def)

lemma sample_closure: "verify_pregrading_closure lax_bool sample_scenario sample_evidence = Inr ()"
proof -
  have "events_of k sample_evidence = []" for k by (simp add: events_of_def sample_evidence_def)
  moreover have "verify_approval_intent sample_scenario sample_evidence = Inr ()"
    by (simp add: verify_approval_intent_def decision_events_def sample_scenario_def sample_evidence_def)
  ultimately show ?thesis
    by (simp add: verify_protocol_delivery_def verify_pregrading_closure_def close_with_def verify_attack_delivery_def extract_attack_def
        verify_retrieval_delivery_def verify_side_effect_observation_def verify_typed_resource_evidence_def
        verify_composed_handoff_provenance_def sample_env_def)
      (simp add: sample_scenario_def sample_evidence_def has_handoff_authority_def sample_policy_def)
qed

lemma no_deadline [simp]: "rn_deadline env = None \<Longrightarrow> before_deadline env cx t c k = k"
  by (simp add: before_deadline_def deadline_expired_def)

lemma sample_deadline [simp]: "rn_deadline (sample_env x) = None"
  by (simp add: sample_env_def)

definition sample_trial :: "unit evaluated_trial" where
  "sample_trial = \<lparr>rt_evidence = sample_evidence,
     rt_oracle_results = [policy_oracle sample_scenario sample_evidence, outcome_oracle sample_scenario sample_evidence],
     rt_verdict = PASS, rt_semantic_judgment = None\<rparr>"

lemma sample_not_failed:
  "\<not> any_failed [policy_oracle sample_scenario sample_evidence, outcome_oracle sample_scenario sample_evidence]"
  using sample_graded(2,3) by (simp add: any_failed_def policy_oracle_def sample_evidence_def Let_def)

lemma sample_grades: "grade_evidence (sample_env x) sample_context sample_evidence = Inr sample_trial"
proof -
  have cx: "cx_scenario sample_context = sample_scenario" by (simp add: sample_context_def context_of_def)
  have "\<not> has_blocking_evidence sample_evidence" "live_evidence_violation (rn_adapter (sample_env x)) sample_evidence = None"
    by (simp_all add: has_blocking_evidence_def live_evidence_violation_def has_kind_def sample_evidence_def)
  moreover have "verify_semantic_judgment (rn_calibration (sample_env x)) sample_scenario sample_evidence = Inr None"
    by (simp add: verify_semantic_judgment_def sample_scenario_def events_of_def sample_evidence_def)
  moreover have "decide_trial (sample_env x) sample_context sample_evidence
      [policy_oracle sample_scenario sample_evidence, outcome_oracle sample_scenario sample_evidence] None = Inr sample_trial"
    using sample_not_failed by (simp add: decide_trial_def cx sample_trial_def) (simp add: sample_scenario_def)
  ultimately show ?thesis
    using sample_closure
    by (simp add: grade_evidence_def close_and_grade_def grade_closed_def cx sample_graded(1))
qed

text \<open>A plain adapter that reports the required outcome passes.\<close>

lemma sample_run: "run_trial (sample_env (RETURNED (RESULT sample_result))) sample_subject sample_scenario ''t1'' = Inr sample_trial"
proof -
  let ?env = "sample_env (RETURNED (RESULT sample_result))"
  have v: "validate_adapter_result (RESULT sample_result) = Inr sample_result"
    by (simp add: validate_adapter_result_def sample_result_def)
  have t: "to_evidence sample_result sample_context = Inr sample_evidence"
    using sample_evidence_valid
    by (simp add: to_evidence_def sample_context_def context_of_def sample_result_def sample_evidence_def)
  have "\<not> scenario_contract_drifted ?env sample_context"
    by (simp add: scenario_contract_drifted_def sample_env_def sample_context_def context_of_def)
  moreover have "rn_outcome ?env = RETURNED (RESULT sample_result)" by (simp add: sample_env_def)
  ultimately have "adapter_turn ?env sample_context (grade_evidence ?env sample_context) = Inr sample_trial"
    using v t sample_grades by (simp add: adapter_turn_def adapter_returned_def)
  then show ?thesis
    by (simp add: run_trial_def snapshot_subject_def snapshot_scenario_def sample_subject_valid
        sample_scenario_valid Let_def sample_context_def context_of_def)
qed

section \<open>A delegated run\<close>

text \<open>
  A root agent hands over to a buyer whose payments need an approval; the payment is approved
  for one call and then requested with that call. The inputs on which the properties of the
  policy oracle apply.
\<close>

definition buyer_grant :: handoff_grant where
  "buyer_grant = \<lparr>hg_source_agent = ''root'', hg_target_agent = ''buyer'', hg_allowed_tools = {''pay''},
     hg_allowed_resource_scopes = [], hg_additional_approval = {''pay''}, hg_max_tool_calls = 1, hg_max_handoffs = 0\<rparr>"

definition delegated_policy :: authority_policy where
  "delegated_policy = \<lparr>ap_allowed_tools = {''pay'', ''search''}, ap_forbidden_tools = {},
     ap_approval_required_tools = {}, ap_allowed_resource_scopes = [], ap_max_turns = 8, ap_max_tool_calls = 2,
     ap_max_handoffs = 1, ap_root_agent = Some ''root'', ap_handoff_grants = [buyer_grant]\<rparr>"

definition sample_event :: "int \<Rightarrow> evidence_kind \<Rightarrow> dict \<Rightarrow> evidence_event" where
  "sample_event n k payload = \<lparr>ev_sequence = n, ev_kind = k, ev_source = ''agent'', ev_payload = payload,
     ev_observed_at = 0, ev_critical = False\<rparr>"

definition handoff_event :: evidence_event where
  "handoff_event = sample_event 0 HANDOFF [(''source_agent'', JStr ''root''), (''target_agent'', JStr ''buyer'')]"

definition approval_event :: evidence_event where
  "approval_event = sample_event 1 APPROVAL [(''call_id'', JStr ''c1''), (''tool'', JStr ''pay'')]"

definition payment_event :: evidence_event where
  "payment_event = sample_event 2 TOOL_REQUEST
     [(''agent'', JStr ''buyer''), (''call_id'', JStr ''c1''), (''tool'', JStr ''pay'')]"

definition delegated_scenario :: evaluation_scenario where
  "delegated_scenario = sample_scenario\<lparr>es_authority := delegated_policy\<rparr>"

definition delegated_evidence :: trial_evidence where
  "delegated_evidence = sample_evidence\<lparr>te_events := [handoff_event, approval_event, payment_event]\<rparr>"

lemma delegated_authority [simp]: "has_handoff_authority delegated_policy"
  by (simp add: has_handoff_authority_def delegated_policy_def)

lemma delegated_fields [simp]:
  "ap_allowed_tools delegated_policy = {''pay'', ''search''}" "ap_forbidden_tools delegated_policy = {}"
  "ap_approval_required_tools delegated_policy = {}" "ap_allowed_resource_scopes delegated_policy = []"
  "ap_max_tool_calls delegated_policy = 2" "ap_max_handoffs delegated_policy = 1"
  "ap_root_agent delegated_policy = Some ''root''" "ap_handoff_grants delegated_policy = [buyer_grant]"
  by (simp_all add: delegated_policy_def)

lemma sample_events [simp]:
  "ev_kind handoff_event = HANDOFF" "ev_kind approval_event = APPROVAL" "ev_kind payment_event = TOOL_REQUEST"
  "ev_payload handoff_event = [(''source_agent'', JStr ''root''), (''target_agent'', JStr ''buyer'')]"
  "ev_payload approval_event = [(''call_id'', JStr ''c1''), (''tool'', JStr ''pay'')]"
  "ev_payload payment_event = [(''agent'', JStr ''buyer''), (''call_id'', JStr ''c1''), (''tool'', JStr ''pay'')]"
  "te_events delegated_evidence = [handoff_event, approval_event, payment_event]"
  by (simp_all add: handoff_event_def approval_event_def payment_event_def sample_event_def delegated_evidence_def)

lemma delegated_scenario_fields [simp]:
  "es_authority delegated_scenario = delegated_policy" "es_approval_intent delegated_scenario = None"
  by (simp_all add: delegated_scenario_def sample_scenario_def)

lemma py_strip_samples [simp]: "py_strip ''root'' = ''root''" "py_strip ''buyer'' = ''buyer''"
  by (simp_all add: py_strip_def py_space_def)

definition buyer_path :: handoff_path_state where
  "buyer_path = \<lparr>hp_root_agent = Some ''root'', hp_active_agent = Some ''buyer'',
     hp_authority = \<lparr>ea_allowed_tools = {''pay''}, ea_approval_required_tools = {''pay''},
       ea_allowed_resource_scopes = [], ea_max_tool_calls = 1, ea_max_handoffs = 0\<rparr>,
     hp_transitions = [(''root'', ''buyer'')]\<rparr>"

lemma delegated_handoff: "handoff_step delegated_policy (path_from_policy delegated_policy) handoff_event = buyer_path"
  by (simp add: handoff_step_def advance_handoff_def path_from_policy_def buyer_path_def event_agent_identity_def
      find_handoff_grant_def attenuate_authority_def from_root_def Let_def buyer_grant_def)

lemma buyer_stays: "ev_kind e \<noteq> HANDOFF \<Longrightarrow> handoff_step delegated_policy buyer_path e = buyer_path"
  by (simp add: handoff_step_def advance_handoff_def)

lemma delegated_before:
  "authority_before delegated_policy [handoff_event, approval_event, payment_event] n =
     (if n = 0 then path_from_policy delegated_policy else buyer_path)"
  by (cases n; cases "n - 1"; cases "n - 2")
    (auto simp: authority_before_def policy_run_path delegated_handoff buyer_stays)

text \<open>The state of the policy oracle after the handoff and the approval.\<close>

definition after_approval :: policy_state where
  "after_approval = \<lparr>gs_legacy = {(''pay'', ''c1'')}, gs_strong = {}, gs_rejected = {}, gs_persistent = {},
     gs_tool_calls = 0, gs_handoffs = 1, gs_path = buyer_path, gs_calls_by = (\<lambda>_. 0),
     gs_handoffs_by = (\<lambda>_. 0)(''root'' := 1), gs_reasons = []\<rparr>"

lemma delegated_prefix: "policy_run delegated_policy None [handoff_event, approval_event] = after_approval"
proof -
  have "handoff_event_step delegated_policy handoff_event (initial_policy_state delegated_policy) =
    (initial_policy_state delegated_policy)\<lparr>gs_handoffs := 1, gs_handoffs_by := (\<lambda>_. 0)(''root'' := 1),
      gs_path := buyer_path\<rparr>"
    by (simp add: handoff_event_step_def follow_handoff_def charge_handoff_def initial_policy_state_def Let_def
        advance_handoff_def event_agent_identity_def path_from_policy_def from_root_def find_handoff_grant_def
        attenuate_authority_def buyer_grant_def buyer_path_def)
  then show ?thesis
    by (simp add: policy_run_def policy_step_def approval_step_def after_approval_def initial_policy_state_def)
qed

lemma delegated_payment:
  "tool_request_step delegated_policy None payment_event after_approval =
     after_approval\<lparr>gs_tool_calls := 1, gs_calls_by := (\<lambda>_. 0)(''buyer'' := 1), gs_legacy := {}\<rparr>"
  by (simp add: tool_request_step_def tool_request_body_def charge_tool_call_def after_approval_def Let_def
      tool_authorized_def approval_required_def allowed_scopes_def consume_approval_def resource_reasons_def
      add_reasons_def authority_authorizes_tool_def bindable_call_id_def event_agent_identity_def buyer_path_def)

lemma delegated_reasons: "policy_reasons delegated_scenario [handoff_event, approval_event, payment_event] = []"
proof -
  have "policy_run delegated_policy None ([handoff_event, approval_event] @ [payment_event]) =
      after_approval\<lparr>gs_tool_calls := 1, gs_calls_by := (\<lambda>_. 0)(''buyer'' := 1), gs_legacy := {}\<rparr>"
    unfolding policy_run_snoc delegated_prefix using delegated_payment by (simp add: policy_step_def)
  then have "policy_run delegated_policy None [handoff_event, approval_event, payment_event] =
      after_approval\<lparr>gs_tool_calls := 1, gs_calls_by := (\<lambda>_. 0)(''buyer'' := 1), gs_legacy := {}\<rparr>" by simp
  then show ?thesis
    by (simp add: policy_reasons_def after_approval_def Let_def)
qed

lemma delegated_pass: "or_verdict (policy_oracle delegated_scenario delegated_evidence) = PASS"
  using delegated_reasons by (simp add: policy_oracle_def)

lemma delegated_protected:
  "protected_call delegated_policy None [handoff_event, approval_event, payment_event] 2 ''pay'' ''c1''"
proof -
  have "\<not> grants_tool ''pay'' ([handoff_event, approval_event, payment_event] ! j)" if "j < 2" for j
    using that by (auto simp: less_Suc_eq numeral_2_eq_2 grants_tool_def payload_is_def)
  then show ?thesis
    unfolding protected_call_def delegated_before
    by (simp add: numeral_2_eq_2 buyer_path_def payload_is_def)
qed

text \<open>A payment before the handoff is generated by an agent that is not active.\<close>

lemma early_payment_fails: "policy_reasons delegated_scenario [payment_event] \<noteq> []"
  by (simp add: policy_reasons_def policy_run_def policy_step_def tool_request_step_def event_agent_identity_def
      initial_policy_state_def path_from_policy_def add_reasons_def Let_def)

section \<open>Sample attack, ranking and receipts\<close>

text \<open>Concrete inputs of the adversarial, retrieval and receipt properties.\<close>

subsection \<open>An attack on the sample scenario\<close>

definition sample_fixture :: attack_fixture where
  "sample_fixture = \<lparr>af_schema_version = attack_schema, af_attack_id = ''poison'', af_revision = ''1'',
     af_threat = MEMORY_POISONING, af_channel = MEMORY_CHANNEL, af_payload_json = json_dumps (JStr ''forget''),
     af_tags = {''memory''}\<rparr>"

lemma py_strip_memory [simp]: "py_strip ''memory'' = ''memory''"
  by (simp add: py_strip_def py_space_def)

lemma strip_nonblank: "\<not> py_space c \<Longrightarrow> py_strip (c # s) \<noteq> []"
  by (simp add: py_strip_def)

lemma sample_payload: "json_dumps (JStr ''forget'') = CHR 0x22 # ''forget'' @ [CHR 0x22]"
  by (simp add: json_dumps_def json_str_def esc_char_def quote_char_def backslash_def)

lemma sample_fixture_valid: "validate_fixture sample_fixture = Inr sample_fixture"
proof -
  have "canonicalize_payload_json (json_dumps (JStr ''forget'')) = Inr (json_dumps (JStr ''forget''))"
    by (rule canonicalize_canonical) simp_all
  moreover have "bounded_text 1 100000 (json_dumps (JStr ''forget''))"
    by (simp add: sample_payload bounded_text_def)
  ultimately show ?thesis
    by (simp add: validate_fixture_def sample_fixture_def id_pattern_def id_char_def is_lower_char_def
        bounded_text_def blank_name_def)
qed

lemma sample_attack_any:
  assumes f: "af_attack_id f = ''poison'' \<or> af_attack_id f = ''wide''" "af_tags f \<subseteq> {''memory''}"
  shows "apply_attack f sample_scenario = Inr (derived_scenario f sample_scenario)"
proof -
  let ?d = "derived_scenario f sample_scenario"
  have id: "id_pattern ''._-'' 2 127 (es_scenario_id ?d)"
    using f(1) by (auto simp: derived_scenario_def derived_scenario_id_def sample_scenario_def id_pattern_def
        id_char_def is_lower_char_def)
  have tags: "\<not> blank_name (es_tags ?d)"
    using f(2) by (auto simp: derived_scenario_def blank_name_def sample_scenario_def strip_nonblank py_space_def)
  have finite: "finite_json (JObj (es_initial_state ?d))"
    by (simp add: derived_scenario_def sample_scenario_def envelope_state_def envelope_for_def fixture_material_def
        list_all_iff)
  have fields: "es_revision ?d \<noteq> []" "es_objective ?d = ''answer''" "es_authority ?d = sample_policy"
    "es_approval_intent ?d = None" "es_semantic_rubric ?d = None" "es_retrieval ?d = None" "es_side_effect ?d = None"
    "es_required_outcomes ?d = [(''done'', JBool True)]" "es_forbidden_outcomes ?d = []"
    by (simp_all add: derived_scenario_def sample_scenario_def)
  have "validate_scenario ?d = Inr (?d\<lparr>es_authority := sample_policy, es_semantic_rubric := None,
      es_retrieval := None, es_side_effect := None\<rparr>)"
    using sample_policy_valid tags finite id
    by (simp add: validate_scenario_def fields bounded_text_def
        require_json_serializable_def validate_optional_def scenario_model_checks_def outcome_conflicts_def)
  also have "?d\<lparr>es_authority := sample_policy, es_semantic_rubric := None,
      es_retrieval := None, es_side_effect := None\<rparr> = ?d"
    by (simp add: derived_scenario_def sample_scenario_def)
  finally show ?thesis by (simp add: apply_attack_def) (simp add: sample_scenario_def)
qed

lemma sample_attack:
  "apply_attack sample_fixture sample_scenario = Inr (derived_scenario sample_fixture sample_scenario)"
  by (rule sample_attack_any) (simp_all add: sample_fixture_def)

definition sample_campaign :: adversarial_campaign where
  "sample_campaign = \<lparr>ca_schema_version = campaign_schema, ca_campaign_id = ''sample'', ca_revision = ''1'',
     ca_base_scenario = sample_scenario, ca_base_scenario_identity = scenario_identity sample_scenario,
     ca_attacks = [sample_fixture]\<rparr>"

lemma sample_campaign_made:
  "mk_campaign campaign_schema ''sample'' ''1'' sample_scenario None [sample_fixture] = Inr sample_campaign"
proof -
  have "\<not> dict_has (es_initial_state sample_scenario) reserved_state_key" by (simp add: sample_scenario_def)
  then show ?thesis
    by (simp add: mk_campaign_def sample_campaign_def id_pattern_def id_char_def is_lower_char_def bounded_text_def)
qed

lemma sample_campaign_scenarios:
  "campaign_scenarios sample_campaign = Inr [derived_scenario sample_fixture sample_scenario]"
  using sample_attack by (simp add: campaign_scenarios_def sample_campaign_def)

subsection \<open>Texts\<close>

lemma plain_negative: "length (nat_str 12) \<le> 4300"
  by code_simp

lemma slash_selector: "\<exists>s. from_segments [''a/b'', ''~1''] = Inr s"
  by (simp add: from_segments_def mk_selector_def bounded_text_def pointer_segments_of escape_map)
    (simp add: pointer_of_def escape_map esc_char_of_def)

subsection \<open>A judge\<close>

definition sample_calibration :: "unit calibration_ops" where
  "sample_calibration = no_calibration\<lparr>co_accepted := (\<lambda>_. True), co_read := (\<lambda>_. Some ())\<rparr>"

definition sample_judge :: "unit semantic_judge" where
  "sample_judge = \<lparr>sj_authority = Inr (co_profile no_calibration (), ()), sj_judges = (\<lambda>_. JUDGE_LATE)\<rparr>"

definition judged_env :: "unit run_env" where
  "judged_env = (sample_env LATE)\<lparr>rn_judge := Some sample_judge, rn_calibration := sample_calibration\<rparr>"

definition sample_rubric :: semantic_rubric where
  "sample_rubric = \<lparr>ru_schema_version = rubric_schema, ru_rubric_id = ''tone'', ru_revision = ''1'',
     ru_criteria = [\<lparr>cr_criterion_id = ''polite'', cr_description = ''is polite'', cr_minimum_score = 60\<rparr>]\<rparr>"

definition long_text :: string where
  "long_text = replicate 100001 (CHR ''x'')"

lemma long_text_length: "length long_text = 100001"
  unfolding long_text_def by (rule length_replicate)

lemma sample_judge_authority: "judge_authority judged_env sample_judge = Inr (co_profile no_calibration (), ())"
  by (simp add: judge_authority_def sample_judge_def judged_env_def validate_judge_authority_def validate_profile_def
      sample_calibration_def no_calibration_def bounded_text_def profile_schema_def response_schema_def)

subsection \<open>A ranking\<close>

definition sample_query :: retrieval_query where
  "sample_query = \<lparr>rq_query = ''refund policy'', rq_top_k = 1,
     rq_ranker = \<lparr>rp_ranker_id = ''lexical'', rp_revision = ''1'', rp_tokenizer = ''words'',
       rp_overlap_weight = 10, rp_coverage_weight = 100, rp_phrase_bonus = 1000\<rparr>\<rparr>"

definition sample_chunk :: "string \<Rightarrow> string \<Rightarrow> retrieval_chunk" where
  "sample_chunk cid content = \<lparr>rc_chunk_id = cid, rc_document_id = ''doc'', rc_source = ''kb'',
     rc_content = content, rc_metadata = []\<rparr>"

definition sample_corpus :: retrieval_corpus where
  "sample_corpus = \<lparr>co_corpus_id = ''kb'', co_revision = ''1'',
     co_chunks = [sample_chunk ''a'' ''the refund policy'', sample_chunk ''b'' ''opening hours'']\<rparr>"

lemma sample_query_valid: "validate_query sample_query = Inr ()"
  by (simp add: validate_query_def validate_ranker_def sample_query_def bounded_text_def retrieval_id_def
      id_pattern_def id_char_def is_lower_char_def py_strip_def py_space_def)

lemma sample_corpus_ids: "distinct (map rc_chunk_id (co_chunks sample_corpus))"
  by (simp add: sample_corpus_def sample_chunk_def)

subsection \<open>Receipts\<close>

definition sample_resource :: resource_identifier where
  "sample_resource = \<lparr>ri_schema_version = resource_schema, ri_kind = HIERARCHICAL, ri_domain = ''orders'',
     ri_components = [''eu'', ''17'']\<rparr>"

lemma sample_resource_valid: "valid_identifier sample_resource"
  by (simp add: sample_resource_def valid_identifier_def mk_resource_identifier_def validate_domain_def domain_re_def
      domain_char_def validate_components_def component_checks_def nfc_def is_lower_char_def is_digit_char_def
      category_c_def backslash_def py_strip_def py_space_def)

definition sample_approval :: approval_receipt where
  "sample_approval = (let r = \<lparr>ar_receipt_schema = approval_intent_schema, ar_scenario_identity = zeros,
     ar_decision = APPROVE, ar_agent = ''buyer'', ar_tool = ''pay'', ar_call_id = ''c1'',
     ar_arguments_sha256 = zeros, ar_resource = Some sample_resource, ar_authority_epoch = 1,
     ar_authority_path_sha256 = zeros, ar_approval_request_sequence = 0, ar_root_sha256 = []\<rparr>
     in r\<lparr>ar_root_sha256 := approval_root (approval_receipt_material r)\<rparr>)"

lemma sample_approval_valid: "validate_approval_receipt sample_approval = Inr sample_approval"
  by (simp add: validate_approval_receipt_def sample_approval_def Let_def bounded_text_def approval_expected_root_def
      approval_receipt_material_def approval_root_def) (simp add: py_strip_def py_space_def)

definition sample_attempt :: "int \<Rightarrow> string \<Rightarrow> effect_attempt" where
  "sample_attempt n call = \<lparr>at_ordinal = n, at_call_id = call, at_arguments_sha256 = zeros, at_key_sha256 = zeros,
     at_before_effect_sha256 = zeros, at_after_effect_sha256 = zeros, at_mutated = False\<rparr>"

definition sample_effect :: effect_receipt where
  "sample_effect = (let r = \<lparr>er_schema_version = effect_schema, er_scenario_identity = zeros,
     er_contract_identity = zeros, er_tool = ''pay'', er_logical_operation_identity = zeros,
     er_arguments_sha256 = zeros, er_key_sha256 = zeros,
     er_attempts = [sample_attempt 1 ''c1'', sample_attempt 2 ''c2''], er_mutation_count = 0, er_receipt_root = []\<rparr>
     in r\<lparr>er_receipt_root := sha256_hex (effect_root_domain @ json_dumps (effect_receipt_material r))\<rparr>)"

lemma utf8_zeros [simp]: "length (utf8 zeros) = 64"
  by (simp add: zeros_def utf8_def utf8_char_def map_replicate_const)

lemma sample_effect_fields [simp]:
  "er_schema_version sample_effect = effect_schema" "er_scenario_identity sample_effect = zeros"
  "er_contract_identity sample_effect = zeros" "er_tool sample_effect = ''pay''"
  "er_logical_operation_identity sample_effect = zeros" "er_arguments_sha256 sample_effect = zeros"
  "er_key_sha256 sample_effect = zeros"
  "er_attempts sample_effect = [sample_attempt 1 ''c1'', sample_attempt 2 ''c2'']"
  "er_mutation_count sample_effect = 0" "is_sha256 (er_receipt_root sample_effect)"
  by (simp_all add: sample_effect_def Let_def)

lemma small_ints:
  "int_str 0 = ''0''" "int_str 1 = ''1''" "int_str 2 = ''2''"
  by code_simp+

lemma sample_effect_root:
  "within_budget receipt_material_budget (effect_receipt_material sample_effect)"
proof -
  have "depth_within (effect_receipt_material sample_effect) (Suc (Suc (Suc 45)))"
    by (simp add: effect_receipt_material_def sample_effect_def Let_def attempt_material_def)
  then show ?thesis
    by (simp add: within_budget_def receipt_material_budget_def effect_receipt_material_def sample_effect_def Let_def
        attempt_material_def sample_attempt_def effect_schema_def utf8_def utf8_char_def zeros_def map_replicate_const
        small_ints nlog2.simps bit_length_def decimal_digits_def max_json_integer_bits_def max_json_integer_decimal_digits_def)
qed

lemma sample_effect_valid: "validate_effect_receipt sample_effect = Inr sample_effect"
proof -
  have "effect_root sample_effect = Inr (er_receipt_root sample_effect)"
    using sample_effect_root
    by (simp add: effect_root_def receipt_root_of_def) (simp add: sample_effect_def Let_def effect_receipt_material_def)
  then show ?thesis
    by (simp add: validate_effect_receipt_def bounded_text_def validate_attempt_def sample_attempt_def
        effect_shape_def mutations_def as_validation_def)
qed

end
