(* ===== verification/SealedReceipts.thy ===== *)
theory SealedReceipts
  imports ApprovalProofs
begin

section \<open>Receipts sealed by their root\<close>

text \<open>
  The evaluator's receipts share a shape: a model whose last field is the digest of a canonical
  text of the others, written into an event as its dump and read back from the payload. The
  locale states what a receipt type promises of its members, its text, its validation and its
  reader; the clients get that a receipt survives its event and that equal roots mean equal
  receipts, or two texts that collide.
\<close>

definition sealed_dict :: "('r \<Rightarrow> dict) \<Rightarrow> ('r \<Rightarrow> string) \<Rightarrow> 'r \<Rightarrow> dict" where
  "sealed_dict members root r = members r @ [(''receipt_root'', JStr (root r))]"

text \<open>\<open>d\<close> has the members of \<open>e\<close>, whatever their order and the order inside of them.\<close>

definition same_members :: "dict \<Rightarrow> dict \<Rightarrow> bool" where
  "same_members d e \<longleftrightarrow> set (map fst d) = set (map fst e) \<and>
     (\<forall>k. map_option sort_keys (dict_get d k) = map_option sort_keys (dict_get e k))"

lemma image_keys_sort_dict [simp]: "fst ` set (sort_dict d) = fst ` set d"
  using keys_sort_dict [of d] by simp

lemma same_members_sort:
  assumes "distinct (map fst d)"
  shows "same_members (sort_dict d) d"
  using keys_sort_dict [of d] by (simp add: same_members_def dict_get_sort_dict [OF assms] option.map_comp comp_def)

text \<open>What a reader sees in a dict with the members of \<open>e\<close>.\<close>

lemma same_members_get:
  assumes "same_members d e"
  shows "dict_get e k = Some (JStr s) \<Longrightarrow> dict_get d k = Some (JStr s)"
    and "dict_get e k = Some (JInt i) \<Longrightarrow> dict_get d k = Some (JInt i)"
    and "dict_get e k = Some (JBool b) \<Longrightarrow> dict_get d k = Some (JBool b)"
proof -
  have "map_option sort_keys (dict_get d k) = map_option sort_keys (dict_get e k)"
    using assms by (simp add: same_members_def)
  then show "dict_get e k = Some (JStr s) \<Longrightarrow> dict_get d k = Some (JStr s)"
    and "dict_get e k = Some (JInt i) \<Longrightarrow> dict_get d k = Some (JInt i)"
    and "dict_get e k = Some (JBool b) \<Longrightarrow> dict_get d k = Some (JBool b)"
    by (auto elim: sort_keys.elims)
qed

lemma same_members_obj:
  assumes "same_members d e" "dict_get e k = Some (JObj m)" "distinct (map fst m)"
  shows "\<exists>m'. dict_get d k = Some (JObj m') \<and> (distinct (map fst m') \<longrightarrow> same_members m' m)"
proof -
  have "map_option sort_keys (dict_get d k) = Some (sort_keys (JObj m))"
    using assms(1,2) by (simp add: same_members_def)
  then obtain v where v: "dict_get d k = Some v" "sort_keys v = sort_keys (JObj m)" by auto
  then obtain m' where m': "v = JObj m'" by (cases v) auto
  have "same_members m' m" if "distinct (map fst m')"
  proof -
    have "sort_dict m' = sort_dict m"
      using v(2) m' by (simp add: sort_dict_json [symmetric] del: sort_keys.simps)
    then have "fst ` set m' = fst ` set m" by (metis image_keys_sort_dict)
    moreover have "map_option sort_keys (dict_get m' q) = map_option sort_keys (dict_get m q)" for q
      using v(2) m' that assms(3) by (intro sort_keys_objD) auto
    ultimately show ?thesis by (simp add: same_members_def)
  qed
  with v(1) m' show ?thesis by blast
qed

lemma same_members_only: "same_members d e \<Longrightarrow> set (map fst e) \<subseteq> set ks \<Longrightarrow> only_keys ks d"
  by (simp add: same_members_def only_keys_def)

lemma same_members_snoc:
  assumes "same_members d e"
  shows "same_members (d @ [kv]) (e @ [kv])"
proof -
  have "map_option sort_keys (dict_get (d @ [kv]) q) = map_option sort_keys (dict_get (e @ [kv]) q)" for q
  proof -
    have "map_option sort_keys (dict_get d q) = map_option sort_keys (dict_get e q)"
      using assms by (simp add: same_members_def)
    then show ?thesis by (cases "dict_get d q"; cases "dict_get e q") (simp_all add: map_add_def)
  qed
  with assms show ?thesis by (simp add: same_members_def)
qed

lemma same_members_refl: "same_members d d"
  by (simp add: same_members_def)

lemma distinct_sort_fst: "distinct (map fst xs) \<Longrightarrow> distinct (map fst (sort_key fst xs))"
  by (simp add: distinct_map)

locale sealed_receipt =
  fixes members :: "'r \<Rightarrow> dict" and root :: "'r \<Rightarrow> string" and bytes :: "'r \<Rightarrow> string"
    and validate :: "'r \<Rightarrow> error + 'r" and read :: "dict \<Rightarrow> 'r option"
  assumes sealed: "validate r = Inr s \<Longrightarrow> s = r \<and> root r = sha256_hex (bytes r)"
    and keys: "distinct (map fst (sealed_dict members root r))"
    and read_valid: "read d = Some r \<Longrightarrow> validate r = Inr r"
    and read_back: "validate r = Inr r \<Longrightarrow> distinct_keys (JObj d) \<Longrightarrow>
      same_members d (sealed_dict members root r) \<Longrightarrow> read d = Some r"
    and unique: "distinct_keys (JObj (members r))"
    and text_determines: "plain_json (JObj (members r)) \<Longrightarrow> plain_json (JObj (members s)) \<Longrightarrow>
      bytes r = bytes s \<Longrightarrow> sort_keys (JObj (members r)) = sort_keys (JObj (members s))"
begin

abbreviation payload :: "'r \<Rightarrow> dict" where
  "payload \<equiv> sealed_dict members root"

lemma distinct_sorted: "distinct_keys v \<Longrightarrow> distinct_keys (sort_keys v)"
proof (induction v rule: json_induct)
  case (Obj kvs)
  have "distinct (map fst (sort_key fst (map (\<lambda>kv. (fst kv, sort_keys (snd kv))) kvs)))" (is "distinct (map fst (sort_key fst ?kws))")
  proof -
    have "distinct (map fst ?kws)" using Obj.prems by (simp add: comp_def)
    then show ?thesis by (rule distinct_sort_fst)
  qed
  then show ?case using Obj by (fastforce simp: list_all_iff)
qed (auto simp: list_all_iff)

lemma payload_unique: "distinct_keys (JObj (payload r))"
  using unique [of r] keys [of r] by (simp add: sealed_dict_def)

text \<open>The payload of an event is the sorted dump.\<close>

lemma roundtrip:
  assumes "validate r = Inr r"
  shows "read (sort_dict (payload r)) = Some r"
proof (rule read_back [OF assms])
  show "distinct_keys (JObj (sort_dict (payload r)))"
    using distinct_sorted [OF payload_unique] by (simp add: sort_dict_json del: sort_keys.simps distinct_keys.simps)
  show "same_members (sort_dict (payload r)) (payload r)" by (rule same_members_sort [OF keys])
qed

lemma event_roundtrip:
  assumes "validate r = Inr r" "mk_event n k source (payload r) now critical = Inr e"
  shows "read (ev_payload e) = Some r \<and> ev_source e = source \<and> ev_kind e = k \<and> ev_sequence e = n"
proof -
  have "ev_payload e = sort_dict (payload r) \<and> ev_source e = source \<and> ev_kind e = k \<and> ev_sequence e = n"
    using assms(2) by (auto simp: mk_event_def detached_dict_def rbind_Inr split: if_splits)
  with roundtrip [OF assms(1)] show ?thesis by simp
qed

lemma read_root: "read d = Some r \<Longrightarrow> root r = sha256_hex (bytes r)"
  using read_valid sealed by blast

text \<open>Equal roots: the same receipt, or a collision of the texts they digest.\<close>

lemma binding:
  assumes "validate r = Inr r" "validate s = Inr s" "root r = root s"
    and plain: "plain_json (JObj (members r))" "plain_json (JObj (members s))"
  shows "r = s \<or> sha256_collision (bytes r) (bytes s)"
proof -
  have "sha256_hex (bytes r) = sha256_hex (bytes s)"
    using sealed [OF assms(1)] sealed [OF assms(2)] assms(3) by simp
  then consider "bytes r = bytes s" | "sha256_collision (bytes r) (bytes s)" by (meson sha256_hex_eqD)
  then show ?thesis
  proof cases
    case 1
    then have eq: "sort_keys (JObj (members r)) = sort_keys (JObj (members s))"
      using plain by (intro text_determines)
    have "sort_dict (members r) = sort_dict (members s)"
      using eq by (simp add: sort_dict_json [symmetric] del: sort_keys.simps)
    then have "fst ` set (members r) = fst ` set (members s)" by (metis image_keys_sort_dict)
    moreover have "distinct (map fst (members r))" "distinct (map fst (members s))"
      using unique [of r] unique [of s] by simp_all
    then have "map_option sort_keys (dict_get (members r) k) = map_option sort_keys (dict_get (members s) k)" for k
      using eq by (intro sort_keys_objD)
    ultimately have "same_members (members r) (members s)" by (simp add: same_members_def)
    then have "same_members (payload r) (payload s)"
      using assms(3) by (simp add: sealed_dict_def same_members_snoc)
    then have "read (payload r) = Some s" using assms(2) payload_unique by (intro read_back)
    moreover have "read (payload r) = Some r" using assms(1) payload_unique same_members_refl by (intro read_back)
    ultimately show ?thesis by simp
  qed simp
qed

end

end
