(* ===== verification/McpReceipts.thy ===== *)
theory McpReceipts
  imports McpDrift SealedReceipts
begin

section \<open>The receipts of the MCP bridges are sealed\<close>

text \<open>
  Each of the six bridge receipts, and the fault receipt inside them, is an instance of
  \<open>sealed_receipt\<close>: it survives its event, and its root binds it. A constructor that returns
  a receipt returns an accepted one.
\<close>

subsection \<open>Reading from a payload in any order\<close>

lemma as_str_sorted: "as_str (map_option sort_keys x) = as_str x"
  by (cases x rule: as_str.cases) auto

lemma as_int_sorted: "as_int (map_option sort_keys x) = as_int x"
  by (cases x rule: as_int.cases) auto

lemma same_members_read:
  assumes "same_members d e"
  shows "as_str (dict_get d k) = as_str (dict_get e k)" "as_int (dict_get d k) = as_int (dict_get e k)"
    "with_default v as_str (dict_get d k) = with_default v as_str (dict_get e k)"
proof -
  have get: "map_option sort_keys (dict_get d k) = map_option sort_keys (dict_get e k)"
    using assms by (simp add: same_members_def)
  then show str: "as_str (dict_get d k) = as_str (dict_get e k)" by (metis as_str_sorted)
  show "as_int (dict_get d k) = as_int (dict_get e k)" using get by (metis as_int_sorted)
  show "with_default v as_str (dict_get d k) = with_default v as_str (dict_get e k)"
    using get str by (auto simp: with_default_def split: option.splits)
qed

lemma utf8_char_cases:
  "utf8_char c = [c] \<and> (of_char c :: nat) < 128 \<or>
   utf8_char c = [char_of (192 + (of_char c :: nat) div 64), char_of (128 + (of_char c :: nat) mod 64)] \<and>
     128 \<le> (of_char c :: nat)"
  by (auto simp: utf8_char_def Let_def)

lemma utf8_lead:
  "(of_char (char_of (192 + (of_char c :: nat) div 64) :: char) :: nat) = 192 + of_char c div 64"
  "(of_char (char_of (128 + (of_char c :: nat) mod 64) :: char) :: nat) = 128 + of_char c mod 64"
proof -
  have "192 + (of_char c :: nat) div 64 < 256" "128 + (of_char c :: nat) mod 64 < 256"
    using of_char_bound [of c] mod_less_divisor [of 64 "of_char c :: nat"] by linarith+
  then show "(of_char (char_of (192 + (of_char c :: nat) div 64) :: char) :: nat) = 192 + of_char c div 64"
    "(of_char (char_of (128 + (of_char c :: nat) mod 64) :: char) :: nat) = 128 + of_char c mod 64"
    by simp_all
qed

lemma utf8_char_inj:
  assumes "utf8_char c = utf8_char d"
  shows "c = d"
proof (cases "(of_char c :: nat) < 128")
  case True
  with assms show ?thesis using utf8_char_cases [of c] utf8_char_cases [of d] by auto
next
  case False
  then have "char_of (192 + (of_char c :: nat) div 64) = (char_of (192 + (of_char d :: nat) div 64) :: char)"
    "char_of (128 + (of_char c :: nat) mod 64) = (char_of (128 + (of_char d :: nat) mod 64) :: char)"
    using assms utf8_char_cases [of c] utf8_char_cases [of d] by auto
  then have "(of_char c :: nat) div 64 = of_char d div 64" "(of_char c :: nat) mod 64 = of_char d mod 64"
    by (metis utf8_lead add_left_cancel)+
  then have "(of_char c :: nat) = of_char d" by (metis div_mult_mod_eq)
  then show ?thesis by simp
qed

lemma utf8_char_prefix:
  assumes "utf8_char c @ s = utf8_char d @ t"
  shows "c = d \<and> s = t"
proof -
  have "hd (utf8_char c) = hd (utf8_char d)" using assms utf8_char_cases [of c] utf8_char_cases [of d] by auto
  moreover have "(of_char (hd (utf8_char x)) :: nat) < 128 \<longleftrightarrow> (of_char x :: nat) < 128" for x
    using utf8_char_cases [of x] utf8_lead(1) [of x] by auto
  ultimately have "(of_char c :: nat) < 128 \<longleftrightarrow> (of_char d :: nat) < 128" by metis
  then have "length (utf8_char c) = length (utf8_char d)" by (simp add: utf8_char_def Let_def)
  with assms show ?thesis by (simp add: utf8_char_inj)
qed

lemma utf8_inj: "utf8 s = utf8 t \<Longrightarrow> s = t"
proof (induction s arbitrary: t)
  case Nil
  then show ?case by (cases t) (auto simp: utf8_def utf8_char_def Let_def split: if_splits)
next
  case (Cons c s)
  then obtain d u where t: "t = d # u"
    using utf8_char_cases [of c] by (cases t) (auto simp: utf8_def)
  then have "utf8_char c @ utf8 s = utf8_char d @ utf8 u" using Cons.prems by (simp add: utf8_def)
  then show ?case using utf8_char_prefix Cons.IH t by blast
qed

lemma json_dumps_unicode_inj:
  assumes "plain_json v" "plain_json w" "utf8 (json_dumps_unicode v) = utf8 (json_dumps_unicode w)"
  shows "sort_keys v = sort_keys w"
proof -
  have "json_scan (json_dumps_unicode v) = Some (sort_keys v)" "json_scan (json_dumps_unicode w) = Some (sort_keys w)"
    using assms(1,2) by (simp_all add: json_dumps_unicode_def json_scan_dumps)
  then show ?thesis using utf8_inj [OF assms(3)] by simp
qed

subsection \<open>Fault receipts\<close>

lemma validate_fault_receipt_id:
  "validate_fault_receipt r = Inr s \<Longrightarrow> s = r \<and> fr_receipt_root r = fault_receipt_root r"
  by (auto simp: validate_fault_receipt_def rbind_Inr split: if_splits)

interpretation fault_receipts: sealed_receipt fault_receipt_dict fr_receipt_root
  "\<lambda>r. json_dumps (fault_receipt_material r)" validate_fault_receipt "\<lambda>d. read_fault_receipt (Some (JObj d))"
proof unfold_locales
  fix r s :: fault_receipt and d :: dict
  show "s = r \<and> fr_receipt_root r = sha256_hex (json_dumps (fault_receipt_material r))"
    if "validate_fault_receipt r = Inr s"
    using validate_fault_receipt_id [OF that] by (simp add: fault_receipt_root_def sha256_json_def)
  show "distinct (map fst (sealed_dict fault_receipt_dict fr_receipt_root r))"
    by (simp add: sealed_dict_def fault_receipt_dict_def)
  show "validate_fault_receipt r = Inr r" if "read_fault_receipt (Some (JObj d)) = Some r"
    using that by (auto simp: read_fault_receipt_def bind_eq_Some_conv split: if_splits dest: validate_fault_receipt_id)
  show "read_fault_receipt (Some (JObj d)) = Some r"
    if "validate_fault_receipt r = Inr r" "same_members d (sealed_dict fault_receipt_dict fr_receipt_root r)"
    using that(1) same_members_only [OF that(2), of fault_receipt_keys]
    by (simp add: read_fault_receipt_def same_members_read [OF that(2)])
      (cases r, simp add: sealed_dict_def fault_receipt_dict_def fault_receipt_keys_def with_default_def)
  show "distinct_keys (JObj (fault_receipt_dict r))" by (simp add: fault_receipt_dict_def)
  show "sort_keys (JObj (fault_receipt_dict r)) = sort_keys (JObj (fault_receipt_dict s))"
    if "plain_json (JObj (fault_receipt_dict r))" "plain_json (JObj (fault_receipt_dict s))"
      "json_dumps (fault_receipt_material r) = json_dumps (fault_receipt_material s)"
    using json_dumps_inj [OF that(1,2)] that(3) by (simp add: fault_receipt_material_def del: sort_keys.simps)
qed

lemma fault_receipt_json_dict:
  "fault_receipt_json r = JObj (sealed_dict fault_receipt_dict fr_receipt_root r)"
  by (simp add: fault_receipt_json_def sealed_dict_def)

lemma fault_receipt_json_unique [simp]: "distinct_keys (fault_receipt_json r)"
  unfolding fault_receipt_json_dict by (rule fault_receipts.payload_unique)

lemma fault_receipt_json_plain [simp]: "plain_json (fault_receipt_json r)"
  by (simp add: fault_receipt_json_def fault_receipt_dict_def)

text \<open>The fault receipt inside the payload of a bridge receipt.\<close>

lemma read_fault_inside:
  assumes "same_members d e" "distinct_keys (JObj d)" "validate_fault_receipt p = Inr p"
    and "dict_get e k = Some (fault_receipt_json p)"
  shows "read_fault_receipt (dict_get d k) = Some p"
proof -
  obtain m where m: "dict_get d k = Some (JObj m)"
    "distinct (map fst m) \<longrightarrow> same_members m (sealed_dict fault_receipt_dict fr_receipt_root p)"
    using same_members_obj [OF assms(1), of k] assms(4) fault_receipts.keys
    unfolding fault_receipt_json_dict by metis
  then have "distinct_keys (JObj m)"
    using assms(2) map_of_SomeD [OF m(1)] by (fastforce simp: list_all_iff)
  with m fault_receipts.read_back [OF assms(3)] show ?thesis by simp
qed

subsection \<open>Tool results\<close>

lemma validate_tool_result_id:
  "validate_tool_result r = Inr s \<Longrightarrow> s = r \<and> tr_receipt_root r = tool_result_root r \<and>
     validate_fault_receipt (tr_protocol_receipt r) = Inr (tr_protocol_receipt r)"
  by (auto simp: validate_tool_result_def rbind_Inr split: if_splits dest: validate_fault_receipt_id)

lemma read_tool_result_valid: "read_tool_result d = Some r \<Longrightarrow> validate_tool_result r = Inr r"
  by (auto simp: read_tool_result_def bind_eq_Some_conv split: if_splits dest: validate_tool_result_id)

interpretation tool_result_receipts: sealed_receipt tool_result_dict tr_receipt_root
  "\<lambda>r. tool_result_domain @ json_dumps (tool_result_material r)" validate_tool_result read_tool_result
proof unfold_locales
  fix r s :: tool_result_receipt and d :: dict
  show "s = r \<and> tr_receipt_root r = sha256_hex (tool_result_domain @ json_dumps (tool_result_material r))"
    if "validate_tool_result r = Inr s"
    using validate_tool_result_id [OF that] by (simp add: tool_result_root_def)
  show "distinct (map fst (sealed_dict tool_result_dict tr_receipt_root r))"
    by (simp add: sealed_dict_def tool_result_dict_def)
  show "validate_tool_result r = Inr r" if "read_tool_result d = Some r" using that by (rule read_tool_result_valid)
  show "read_tool_result d = Some r"
    if v: "validate_tool_result r = Inr r" and u: "distinct_keys (JObj d)"
      and m: "same_members d (sealed_dict tool_result_dict tr_receipt_root r)"
  proof -
    have p: "read_fault_receipt (dict_get d ''protocol_receipt'') = Some (tr_protocol_receipt r)"
      using validate_tool_result_id [OF v]
      by (intro read_fault_inside [OF m u]) (simp_all add: sealed_dict_def tool_result_dict_def)
    show ?thesis
      using v same_members_only [OF m, of tool_result_keys]
      by (simp add: read_tool_result_def same_members_read [OF m] p)
        (cases r, simp add: sealed_dict_def tool_result_dict_def tool_result_keys_def with_default_def)
  qed
  show "distinct_keys (JObj (tool_result_dict r))" by (simp add: tool_result_dict_def)
  show "sort_keys (JObj (tool_result_dict r)) = sort_keys (JObj (tool_result_dict s))"
    if "plain_json (JObj (tool_result_dict r))" "plain_json (JObj (tool_result_dict s))"
      "tool_result_domain @ json_dumps (tool_result_material r) = tool_result_domain @ json_dumps (tool_result_material s)"
    using json_dumps_inj [OF that(1,2)] that(3) by (simp add: tool_result_material_def del: sort_keys.simps)
qed

lemma tool_result_payload_sealed: "tool_result_payload r = sealed_dict tool_result_dict tr_receipt_root r"
  by (simp add: tool_result_payload_def sealed_dict_def)

subsection \<open>Tool descriptions\<close>

lemma validate_metadata_id:
  "validate_metadata r = Inr s \<Longrightarrow> s = r \<and> md_receipt_root r = metadata_root r \<and>
     validate_fault_receipt (md_protocol_receipt r) = Inr (md_protocol_receipt r)"
  by (auto simp: validate_metadata_def rbind_Inr split: if_splits dest: validate_fault_receipt_id)

lemma read_metadata_valid: "read_metadata d = Some r \<Longrightarrow> validate_metadata r = Inr r"
  by (auto simp: read_metadata_def bind_eq_Some_conv split: if_splits dest: validate_metadata_id)

interpretation metadata_receipts: sealed_receipt metadata_dict md_receipt_root
  "\<lambda>r. metadata_domain @ utf8 (json_dumps_unicode (metadata_material r))" validate_metadata read_metadata
proof unfold_locales
  fix r s :: metadata_receipt and d :: dict
  show "s = r \<and> md_receipt_root r = sha256_hex (metadata_domain @ utf8 (json_dumps_unicode (metadata_material r)))"
    if "validate_metadata r = Inr s"
    using validate_metadata_id [OF that] by (simp add: metadata_root_def)
  show "distinct (map fst (sealed_dict metadata_dict md_receipt_root r))"
    by (simp add: sealed_dict_def metadata_dict_def)
  show "validate_metadata r = Inr r" if "read_metadata d = Some r" using that by (rule read_metadata_valid)
  show "read_metadata d = Some r"
    if v: "validate_metadata r = Inr r" and u: "distinct_keys (JObj d)"
      and m: "same_members d (sealed_dict metadata_dict md_receipt_root r)"
  proof -
    have p: "read_fault_receipt (dict_get d ''protocol_receipt'') = Some (md_protocol_receipt r)"
      using validate_metadata_id [OF v]
      by (intro read_fault_inside [OF m u]) (simp_all add: sealed_dict_def metadata_dict_def)
    show ?thesis
      using v same_members_only [OF m, of metadata_keys]
      by (simp add: read_metadata_def same_members_read [OF m] p)
        (cases r, simp add: sealed_dict_def metadata_dict_def metadata_keys_def with_default_def)
  qed
  show "distinct_keys (JObj (metadata_dict r))" by (simp add: metadata_dict_def)
  show "sort_keys (JObj (metadata_dict r)) = sort_keys (JObj (metadata_dict s))"
    if "plain_json (JObj (metadata_dict r))" "plain_json (JObj (metadata_dict s))"
      "metadata_domain @ utf8 (json_dumps_unicode (metadata_material r)) = metadata_domain @ utf8 (json_dumps_unicode (metadata_material s))"
    using json_dumps_unicode_inj [OF that(1,2)] that(3) by (simp add: metadata_material_def del: sort_keys.simps)
qed

lemma metadata_payload_sealed: "metadata_payload r = sealed_dict metadata_dict md_receipt_root r"
  by (simp add: metadata_payload_def sealed_dict_def)

subsection \<open>Errors and recovery\<close>

lemma validate_recovery_id:
  "validate_recovery r = Inr s \<Longrightarrow> s = r \<and> rv_receipt_root r = recovery_root r \<and>
     validate_fault_receipt (rv_protocol_receipt r) = Inr (rv_protocol_receipt r)"
  by (auto simp: validate_recovery_def rbind_Inr split: if_splits dest: validate_fault_receipt_id)

lemma read_recovery_valid: "read_recovery d = Some r \<Longrightarrow> validate_recovery r = Inr r"
  by (auto simp: read_recovery_def bind_eq_Some_conv split: if_splits dest: validate_recovery_id)

interpretation recovery_receipts: sealed_receipt recovery_dict rv_receipt_root
  "\<lambda>r. recovery_domain @ json_dumps (recovery_material r)" validate_recovery read_recovery
proof unfold_locales
  fix r s :: recovery_receipt and d :: dict
  show "s = r \<and> rv_receipt_root r = sha256_hex (recovery_domain @ json_dumps (recovery_material r))"
    if "validate_recovery r = Inr s"
    using validate_recovery_id [OF that] by (simp add: recovery_root_def)
  show "distinct (map fst (sealed_dict recovery_dict rv_receipt_root r))"
    by (simp add: sealed_dict_def recovery_dict_def)
  show "validate_recovery r = Inr r" if "read_recovery d = Some r" using that by (rule read_recovery_valid)
  show "read_recovery d = Some r"
    if v: "validate_recovery r = Inr r" and u: "distinct_keys (JObj d)"
      and m: "same_members d (sealed_dict recovery_dict rv_receipt_root r)"
  proof -
    have p: "read_fault_receipt (dict_get d ''protocol_receipt'') = Some (rv_protocol_receipt r)"
      using validate_recovery_id [OF v]
      by (intro read_fault_inside [OF m u]) (simp_all add: sealed_dict_def recovery_dict_def)
    show ?thesis
      using v same_members_only [OF m, of recovery_keys]
      by (simp add: read_recovery_def same_members_read [OF m] p)
        (cases r, simp add: sealed_dict_def recovery_dict_def recovery_keys_def with_default_def)
  qed
  show "distinct_keys (JObj (recovery_dict r))" by (simp add: recovery_dict_def)
  show "sort_keys (JObj (recovery_dict r)) = sort_keys (JObj (recovery_dict s))"
    if "plain_json (JObj (recovery_dict r))" "plain_json (JObj (recovery_dict s))"
      "recovery_domain @ json_dumps (recovery_material r) = recovery_domain @ json_dumps (recovery_material s)"
    using json_dumps_inj [OF that(1,2)] that(3) by (simp add: recovery_material_def del: sort_keys.simps)
qed

lemma recovery_payload_sealed: "recovery_payload r = sealed_dict recovery_dict rv_receipt_root r"
  by (simp add: recovery_payload_def sealed_dict_def)

subsection \<open>Removed tools\<close>

lemma validate_stale_cache_id:
  "validate_stale_cache r = Inr s \<Longrightarrow> s = r \<and> sl_receipt_root r = stale_cache_root r \<and>
     validate_fault_receipt (sl_protocol_receipt r) = Inr (sl_protocol_receipt r)"
  by (auto simp: validate_stale_cache_def rbind_Inr split: if_splits dest: validate_fault_receipt_id)

lemma read_stale_cache_valid: "read_stale_cache d = Some r \<Longrightarrow> validate_stale_cache r = Inr r"
  by (auto simp: read_stale_cache_def bind_eq_Some_conv split: if_splits dest: validate_stale_cache_id)

interpretation stale_cache_receipts: sealed_receipt stale_cache_dict sl_receipt_root
  "\<lambda>r. stale_cache_domain @ json_dumps (stale_cache_material r)" validate_stale_cache read_stale_cache
proof unfold_locales
  fix r s :: stale_cache_receipt and d :: dict
  show "s = r \<and> sl_receipt_root r = sha256_hex (stale_cache_domain @ json_dumps (stale_cache_material r))"
    if "validate_stale_cache r = Inr s"
    using validate_stale_cache_id [OF that] by (simp add: stale_cache_root_def)
  show "distinct (map fst (sealed_dict stale_cache_dict sl_receipt_root r))"
    by (simp add: sealed_dict_def stale_cache_dict_def)
  show "validate_stale_cache r = Inr r" if "read_stale_cache d = Some r" using that by (rule read_stale_cache_valid)
  show "read_stale_cache d = Some r"
    if v: "validate_stale_cache r = Inr r" and u: "distinct_keys (JObj d)"
      and m: "same_members d (sealed_dict stale_cache_dict sl_receipt_root r)"
  proof -
    have p: "read_fault_receipt (dict_get d ''protocol_receipt'') = Some (sl_protocol_receipt r)"
      using validate_stale_cache_id [OF v]
      by (intro read_fault_inside [OF m u]) (simp_all add: sealed_dict_def stale_cache_dict_def)
    show ?thesis
      using v same_members_only [OF m, of stale_cache_keys]
      by (simp add: read_stale_cache_def same_members_read [OF m] p)
        (cases r, simp add: sealed_dict_def stale_cache_dict_def stale_cache_keys_def with_default_def)
  qed
  show "distinct_keys (JObj (stale_cache_dict r))" by (simp add: stale_cache_dict_def)
  show "sort_keys (JObj (stale_cache_dict r)) = sort_keys (JObj (stale_cache_dict s))"
    if "plain_json (JObj (stale_cache_dict r))" "plain_json (JObj (stale_cache_dict s))"
      "stale_cache_domain @ json_dumps (stale_cache_material r) = stale_cache_domain @ json_dumps (stale_cache_material s)"
    using json_dumps_inj [OF that(1,2)] that(3) by (simp add: stale_cache_material_def del: sort_keys.simps)
qed

lemma stale_cache_payload_sealed: "stale_cache_payload r = sealed_dict stale_cache_dict sl_receipt_root r"
  by (simp add: stale_cache_payload_def sealed_dict_def)

subsection \<open>Redefined tools\<close>

lemma validate_schema_drift_id:
  "validate_schema_drift r = Inr s \<Longrightarrow> s = r \<and> sd_receipt_root r = schema_drift_root r \<and>
     validate_fault_receipt (sd_protocol_receipt r) = Inr (sd_protocol_receipt r)"
  by (auto simp: validate_schema_drift_def rbind_Inr split: if_splits dest: validate_fault_receipt_id)

lemma read_schema_drift_valid: "read_schema_drift d = Some r \<Longrightarrow> validate_schema_drift r = Inr r"
  by (auto simp: read_schema_drift_def bind_eq_Some_conv split: if_splits dest: validate_schema_drift_id)

interpretation schema_drift_receipts: sealed_receipt schema_drift_dict sd_receipt_root
  "\<lambda>r. schema_drift_domain @ json_dumps (schema_drift_material r)" validate_schema_drift read_schema_drift
proof unfold_locales
  fix r s :: schema_drift_receipt and d :: dict
  show "s = r \<and> sd_receipt_root r = sha256_hex (schema_drift_domain @ json_dumps (schema_drift_material r))"
    if "validate_schema_drift r = Inr s"
    using validate_schema_drift_id [OF that] by (simp add: schema_drift_root_def)
  show "distinct (map fst (sealed_dict schema_drift_dict sd_receipt_root r))"
    by (simp add: sealed_dict_def schema_drift_dict_def)
  show "validate_schema_drift r = Inr r" if "read_schema_drift d = Some r" using that by (rule read_schema_drift_valid)
  show "read_schema_drift d = Some r"
    if v: "validate_schema_drift r = Inr r" and u: "distinct_keys (JObj d)"
      and m: "same_members d (sealed_dict schema_drift_dict sd_receipt_root r)"
  proof -
    have p: "read_fault_receipt (dict_get d ''protocol_receipt'') = Some (sd_protocol_receipt r)"
      using validate_schema_drift_id [OF v]
      by (intro read_fault_inside [OF m u]) (simp_all add: sealed_dict_def schema_drift_dict_def)
    show ?thesis
      using v same_members_only [OF m, of schema_drift_keys]
      by (simp add: read_schema_drift_def same_members_read [OF m] p)
        (cases r, simp add: sealed_dict_def schema_drift_dict_def schema_drift_keys_def with_default_def)
  qed
  show "distinct_keys (JObj (schema_drift_dict r))" by (simp add: schema_drift_dict_def)
  show "sort_keys (JObj (schema_drift_dict r)) = sort_keys (JObj (schema_drift_dict s))"
    if "plain_json (JObj (schema_drift_dict r))" "plain_json (JObj (schema_drift_dict s))"
      "schema_drift_domain @ json_dumps (schema_drift_material r) = schema_drift_domain @ json_dumps (schema_drift_material s)"
    using json_dumps_inj [OF that(1,2)] that(3) by (simp add: schema_drift_material_def del: sort_keys.simps)
qed

lemma schema_drift_payload_sealed: "schema_drift_payload r = sealed_dict schema_drift_dict sd_receipt_root r"
  by (simp add: schema_drift_payload_def sealed_dict_def)

subsection \<open>Renamed tools\<close>

lemma validate_identity_drift_id:
  "validate_identity_drift r = Inr s \<Longrightarrow> s = r \<and> nd_receipt_root r = identity_drift_root r \<and>
     validate_fault_receipt (nd_protocol_receipt r) = Inr (nd_protocol_receipt r)"
  by (auto simp: validate_identity_drift_def rbind_Inr split: if_splits dest: validate_fault_receipt_id)

lemma read_identity_drift_valid: "read_identity_drift d = Some r \<Longrightarrow> validate_identity_drift r = Inr r"
  by (auto simp: read_identity_drift_def bind_eq_Some_conv split: if_splits dest: validate_identity_drift_id)

interpretation identity_drift_receipts: sealed_receipt identity_drift_dict nd_receipt_root
  "\<lambda>r. identity_drift_domain @ json_dumps (identity_drift_material r)" validate_identity_drift read_identity_drift
proof unfold_locales
  fix r s :: identity_drift_receipt and d :: dict
  show "s = r \<and> nd_receipt_root r = sha256_hex (identity_drift_domain @ json_dumps (identity_drift_material r))"
    if "validate_identity_drift r = Inr s"
    using validate_identity_drift_id [OF that] by (simp add: identity_drift_root_def)
  show "distinct (map fst (sealed_dict identity_drift_dict nd_receipt_root r))"
    by (simp add: sealed_dict_def identity_drift_dict_def)
  show "validate_identity_drift r = Inr r" if "read_identity_drift d = Some r" using that by (rule read_identity_drift_valid)
  show "read_identity_drift d = Some r"
    if v: "validate_identity_drift r = Inr r" and u: "distinct_keys (JObj d)"
      and m: "same_members d (sealed_dict identity_drift_dict nd_receipt_root r)"
  proof -
    have p: "read_fault_receipt (dict_get d ''protocol_receipt'') = Some (nd_protocol_receipt r)"
      using validate_identity_drift_id [OF v]
      by (intro read_fault_inside [OF m u]) (simp_all add: sealed_dict_def identity_drift_dict_def)
    show ?thesis
      using v same_members_only [OF m, of identity_drift_keys]
      by (simp add: read_identity_drift_def same_members_read [OF m] p)
        (cases r, simp add: sealed_dict_def identity_drift_dict_def identity_drift_keys_def with_default_def)
  qed
  show "distinct_keys (JObj (identity_drift_dict r))" by (simp add: identity_drift_dict_def)
  show "sort_keys (JObj (identity_drift_dict r)) = sort_keys (JObj (identity_drift_dict s))"
    if "plain_json (JObj (identity_drift_dict r))" "plain_json (JObj (identity_drift_dict s))"
      "identity_drift_domain @ json_dumps (identity_drift_material r) = identity_drift_domain @ json_dumps (identity_drift_material s)"
    using json_dumps_inj [OF that(1,2)] that(3) by (simp add: identity_drift_material_def del: sort_keys.simps)
qed

lemma identity_drift_payload_sealed: "identity_drift_payload r = sealed_dict identity_drift_dict nd_receipt_root r"
  by (simp add: identity_drift_payload_def sealed_dict_def)

end
