(* ===== verification/McpProofs.thy ===== *)
theory McpProofs
  imports McpReceipts McpDelivery
begin

section \<open>What protocol-delivery verification decides\<close>

text \<open>
  Protocol receipts read back from their events, and verification characterised per receipt family
  (\<open>receipt_closed\<close>) and as a whole, its errors included.
\<close>

subsection \<open>Accepted receipts and their events\<close>

fun accepted_receipt :: "protocol_receipt \<Rightarrow> bool" where
  "accepted_receipt (ToolResult r) \<longleftrightarrow> validate_tool_result r = Inr r"
| "accepted_receipt (Recovery r) \<longleftrightarrow> validate_recovery r = Inr r"
| "accepted_receipt (SchemaDrift r) \<longleftrightarrow> validate_schema_drift r = Inr r"
| "accepted_receipt (IdentityDrift r) \<longleftrightarrow> validate_identity_drift r = Inr r"
| "accepted_receipt (StaleCache r) \<longleftrightarrow> validate_stale_cache r = Inr r"
| "accepted_receipt (Metadata r) \<longleftrightarrow> validate_metadata r = Inr r"

fun protocol_event :: "protocol_receipt \<Rightarrow> int \<Rightarrow> py_datetime \<Rightarrow> error + evidence_event" where
  "protocol_event (ToolResult r) = tool_result_event r"
| "protocol_event (Recovery r) = recovery_event r"
| "protocol_event (SchemaDrift r) = schema_drift_event r"
| "protocol_event (IdentityDrift r) = identity_drift_event r"
| "protocol_event (StaleCache r) = stale_cache_event r"
| "protocol_event (Metadata r) = metadata_event r"

lemmas protocol_events = tool_result_event_def recovery_event_def schema_drift_event_def
  identity_drift_event_def stale_cache_event_def metadata_event_def bridge_event_def

lemmas protocol_payloads = tool_result_payload_sealed recovery_payload_sealed schema_drift_payload_sealed
  identity_drift_payload_sealed stale_cache_payload_sealed metadata_payload_sealed

lemmas protocol_sources = tool_result_source_def recovery_source_def schema_drift_source_def
  identity_drift_source_def stale_cache_source_def metadata_source_def

lemma mk_event_source: "mk_event n k source d now critical = Inr e \<Longrightarrow> ev_source e = source \<and> ev_kind e = k \<and> ev_sequence e = n"
  by (auto simp: mk_event_def rbind_Inr)

lemma protocol_event_fields:
  "protocol_event r n now = Inr e \<Longrightarrow> ev_kind e = PROTOCOL_DELIVERY \<and> ev_sequence e = n"
  by (cases r) (auto simp: protocol_events dest: mk_event_source)

text \<open>The reader a source selects.\<close>

lemma protocol_readers_get:
  "map_of protocol_readers tool_result_source = Some (\<lambda>m. map_option ToolResult (read_tool_result m))"
  "map_of protocol_readers recovery_source = Some (\<lambda>m. map_option Recovery (read_recovery m))"
  "map_of protocol_readers schema_drift_source = Some (\<lambda>m. map_option SchemaDrift (read_schema_drift m))"
  "map_of protocol_readers identity_drift_source = Some (\<lambda>m. map_option IdentityDrift (read_identity_drift m))"
  "map_of protocol_readers stale_cache_source = Some (\<lambda>m. map_option StaleCache (read_stale_cache m))"
  "map_of protocol_readers metadata_source = Some (\<lambda>m. map_option Metadata (read_metadata m))"
  by (simp_all add: protocol_readers_def protocol_sources)

lemma read_protocol_event:
  assumes "accepted_receipt r" "protocol_event r n now = Inr e"
  shows "read_protocol_receipt e = Inr r"
proof -
  note events = tool_result_receipts.event_roundtrip recovery_receipts.event_roundtrip
    schema_drift_receipts.event_roundtrip identity_drift_receipts.event_roundtrip
    stale_cache_receipts.event_roundtrip metadata_receipts.event_roundtrip
  show ?thesis
    using assms
    by (cases r)
      (auto simp: protocol_events protocol_payloads read_protocol_receipt_def protocol_readers_get
        dest!: events)
qed

lemma read_protocol_accepted:
  assumes "read_protocol_receipt e = Inr r"
  shows "accepted_receipt r"
proof -
  note valid = read_tool_result_valid read_recovery_valid read_schema_drift_valid read_identity_drift_valid
    read_stale_cache_valid read_metadata_valid
  obtain reader where "map_of protocol_readers (ev_source e) = Some reader" "reader (ev_payload e) = Some r"
    using assms by (auto simp: read_protocol_receipt_def split: option.splits)
  then show ?thesis
    by (auto simp: protocol_readers_def dest: valid split: if_splits)
qed

subsection \<open>Constructors return accepted receipts\<close>

lemma create_fault_receipt_valid:
  "create_fault_receipt f where_at text = Inr r \<Longrightarrow> validate_fault_receipt r = Inr r"
  by (auto simp: create_fault_receipt_def Let_def dest: validate_fault_receipt_id)

lemma create_tool_result_valid:
  "create_tool_result sid p tool call out = Inr r \<Longrightarrow> validate_tool_result r = Inr r"
  by (auto simp: create_tool_result_def rbind_Inr Let_def dest: validate_tool_result_id)

lemma create_metadata_valid:
  "create_metadata sid p tool s d m n = Inr r \<Longrightarrow> validate_metadata r = Inr r"
  by (auto simp: create_metadata_def rbind_Inr Let_def dest: validate_metadata_id)

lemma create_recovery_valid:
  "create_recovery sid f p tool w = Inr r \<Longrightarrow> validate_recovery r = Inr r"
  by (auto simp: create_recovery_def rbind_Inr Let_def dest: validate_recovery_id)

lemma create_stale_cache_valid:
  "create_stale_cache sid f p w = Inr r \<Longrightarrow> validate_stale_cache r = Inr r"
  by (auto simp: create_stale_cache_def rbind_Inr Let_def dest: validate_stale_cache_id)

lemma create_schema_drift_valid:
  "create_schema_drift sid f p tool i c n w = Inr r \<Longrightarrow> validate_schema_drift r = Inr r"
  by (auto simp: create_schema_drift_def rbind_Inr Let_def dest: validate_schema_drift_id)

lemma create_identity_drift_valid:
  "create_identity_drift sid f p old new i n w = Inr r \<Longrightarrow> validate_identity_drift r = Inr r"
  by (auto simp: create_identity_drift_def rbind_Inr Let_def dest: validate_identity_drift_id)

subsection \<open>The relation of a receipt, declaratively\<close>

text \<open>The request is this call with arguments of this digest.\<close>

definition asks :: "evidence_event \<Rightarrow> string \<Rightarrow> string \<Rightarrow> bool" where
  "asks q call digest \<longleftrightarrow> payload_is q ''call_id'' call \<and>
     (\<exists>text d. payload_is q ''arguments'' text \<and> text \<noteq> [] \<and> loads_unique text = Some (JObj d) \<and>
        finite_json (JObj d) \<and> sha256_json (JObj d) = digest)"

definition text_output :: "json option \<Rightarrow> string \<Rightarrow> bool" where
  "text_output v s \<longleftrightarrow> (\<exists>m. v = Some (JObj m) \<and> exact_text_keys m \<and>
     dict_get m ''type'' = Some (JStr ''text'') \<and> dict_get m ''text'' = Some (JStr s))"

text \<open>The one result of the call, with a text of this digest.\<close>

definition answered :: "trial_evidence \<Rightarrow> string \<Rightarrow> string \<Rightarrow> evidence_event \<Rightarrow> bool" where
  "answered t call digest e \<longleftrightarrow> call_results t call = [e] \<and>
     (\<exists>s. text_output (payload_get e ''output'') s \<and> text_sha256 s = digest)"

text \<open>The requests of the tools, when every request names its tool by a value that hashes.\<close>

definition tool_calls :: "trial_evidence \<Rightarrow> string list \<Rightarrow> evidence_event list \<Rightarrow> bool" where
  "tool_calls t tools qs \<longleftrightarrow>
     (\<forall>e \<in> set (events_of TOOL_REQUEST t). \<not> unhashable (payload_get e ''tool'')) \<and>
     qs = filter (\<lambda>e. list_ex (payload_is e ''tool'') tools) (events_of TOOL_REQUEST t)"

definition adapted :: "trial_evidence \<Rightarrow> two_calls \<Rightarrow> evidence_event \<Rightarrow> evidence_event \<Rightarrow> int \<Rightarrow> bool" where
  "adapted t c q1 q2 n \<longleftrightarrow> (\<exists>a1 a2.
     asks q1 (tc_first_call c) (tc_first_arguments c) \<and> asks q2 (tc_second_call c) (tc_second_arguments c) \<and>
     answered t (tc_first_call c) (tc_first_output c) a1 \<and> answered t (tc_second_call c) (tc_second_output c) a2 \<and>
     ev_sequence q1 < ev_sequence a1 \<and> ev_sequence a1 < ev_sequence q2 \<and>
     ev_sequence q2 < ev_sequence a2 \<and> ev_sequence a2 < n)"

fun receipt_closed :: "trial_evidence \<Rightarrow> protocol_receipt \<Rightarrow> int \<Rightarrow> bool" where
  "receipt_closed t (Metadata r) n \<longleftrightarrow>
     (\<forall>e \<in> set (take (nat n) (te_events t)). ev_kind e \<notin> set metadata_behavior)"
| "receipt_closed t (ToolResult r) n \<longleftrightarrow> (\<exists>q a. tool_calls t [tr_agent_tool_name r] [q] \<and>
     payload_is q ''call_id'' (tr_agent_call_id r) \<and>
     answered t (tr_agent_call_id r) (tr_agent_observation_sha256 r) a \<and>
     ev_sequence q < n \<and> n < ev_sequence a)"
| "receipt_closed t (StaleCache r) n \<longleftrightarrow> (\<exists>q a text d. tool_calls t [sl_tool_name r] [q] \<and>
     payload_is q ''call_id'' (sl_stale_call_id r) \<and> payload_is q ''arguments'' text \<and> text \<noteq> [] \<and>
     loads_unique text = Some (JObj d) \<and> finite_json (JObj d) \<and> py_eq (JObj d) stale_query \<and>
     answered t (sl_stale_call_id r) (sl_agent_error_observation_sha256 r) a \<and>
     ev_sequence q < ev_sequence a \<and> ev_sequence a < n)"
| "receipt_closed t (Recovery r) n \<longleftrightarrow> (\<exists>q1 q2.
     tool_calls t [rv_agent_tool_name r] [q1, q2] \<and> adapted t (recovery_calls r) q1 q2 n)"
| "receipt_closed t (SchemaDrift r) n \<longleftrightarrow> (\<exists>q1 q2.
     tool_calls t [sd_agent_tool_name r] [q1, q2] \<and> adapted t (schema_drift_calls r) q1 q2 n)"
| "receipt_closed t (IdentityDrift r) n \<longleftrightarrow> (\<exists>q1 q2.
     tool_calls t [nd_original_tool_name r, nd_replacement_tool_name r] [q1, q2] \<and>
     payload_is q1 ''tool'' (nd_original_tool_name r) \<and> payload_is q2 ''tool'' (nd_replacement_tool_name r) \<and>
     adapted t (identity_drift_calls r) q1 q2 n)"

definition protocol_closed :: "trial_evidence \<Rightarrow> protocol_receipt list \<Rightarrow> bool" where
  "protocol_closed t rs \<longleftrightarrow>
     list_all2 (\<lambda>e r. read_protocol_receipt e = Inr r \<and> protocol_scenario r = te_scenario_identity t \<and>
       receipt_closed t r (ev_sequence e)) (events_of PROTOCOL_DELIVERY t) rs \<and>
     distinct (map protocol_root rs)"

subsection \<open>The checks decide the relation\<close>

lemma guard_Inr: "(if c then Inl e else Inr u) = Inr v \<longleftrightarrow> \<not> c \<and> u = v"
  by simp

lemma requests_for_tools_Inr: "requests_for_tools t tools = Inr qs \<longleftrightarrow> tool_calls t tools qs"
  by (auto simp: requests_for_tools_def tool_calls_def filter_empty_conv split: list.splits)

lemma require_call_id_Inr: "require_call_id q call phase = Inr u \<longleftrightarrow> payload_is q ''call_id'' call"
  by (simp add: require_call_id_def)

lemma unique_result_Inr: "unique_result t call phase = Inr e \<longleftrightarrow> call_results t call = [e]"
  by (auto simp: unique_result_def split: list.splits)

lemma strict_json_object_Inr:
  "strict_json_object v = Inr d \<longleftrightarrow>
   (\<exists>text. v = Some (JStr text) \<and> text \<noteq> [] \<and> loads_unique text = Some (JObj d) \<and> finite_json (JObj d))"
  by (auto simp: strict_json_object_def split: option.splits json.splits if_splits)

lemma require_arguments_digest_Inr:
  "require_call_id q call phase = Inr () \<and> require_arguments_digest q digest phase = Inr () \<longleftrightarrow> asks q call digest"
  by (auto simp: require_arguments_digest_def require_call_id_Inr rbind_Inr strict_json_object_Inr asks_def payload_is_def
      split: if_splits)

lemma normalized_text_Inr: "normalized_text v = Inr s \<longleftrightarrow> text_output v s"
  by (auto simp: normalized_text_def text_output_def split: option.splits json.splits if_splits)

lemma require_output_digest_Inr:
  "unique_result t call phase = Inr e \<and> require_output_digest e digest phase' = Inr () \<longleftrightarrow> answered t call digest e"
  by (auto simp: require_output_digest_def unique_result_Inr rbind_Inr normalized_text_Inr answered_def split: if_splits)

lemma verify_two_calls_Inr: "verify_two_calls t c ph q1 q2 n = Inr () \<longleftrightarrow> adapted t c q1 q2 n"
proof -
  have "verify_two_calls t c ph q1 q2 n = Inr () \<longleftrightarrow> (\<exists>a1 a2.
     (require_call_id q1 (tc_first_call c) (ph_first_request ph) = Inr () \<and>
      require_arguments_digest q1 (tc_first_arguments c) (ph_first_request ph) = Inr ()) \<and>
     (require_call_id q2 (tc_second_call c) (ph_second_request ph) = Inr () \<and>
      require_arguments_digest q2 (tc_second_arguments c) (ph_second_request ph) = Inr ()) \<and>
     (unique_result t (tc_first_call c) (ph_first_result ph) = Inr a1 \<and>
      require_output_digest a1 (tc_first_output c) (ph_first_output ph) = Inr ()) \<and>
     (unique_result t (tc_second_call c) (ph_second_result ph) = Inr a2 \<and>
      require_output_digest a2 (tc_second_output c) (ph_second_output ph) = Inr ()) \<and>
     ascending [ev_sequence q1, ev_sequence a1, ev_sequence q2, ev_sequence a2, n])"
    unfolding verify_two_calls_def rbind_unit rbind_Inr guard_Inr not_not by blast
  then show ?thesis
    unfolding require_arguments_digest_Inr require_output_digest_Inr by (auto simp: adapted_def)
qed

lemma two_requests:
  "(case qs of [q1, q2] \<Rightarrow> f q1 q2 | _ \<Rightarrow> Inl e) = Inr u \<longleftrightarrow> (\<exists>q1 q2. qs = [q1, q2] \<and> f q1 q2 = Inr u)"
  by (auto split: list.splits)

lemma one_request: "(case qs of [q] \<Rightarrow> f q | _ \<Rightarrow> Inl e) = Inr u \<longleftrightarrow> (\<exists>q. qs = [q] \<and> f q = Inr u)"
  by (auto split: list.splits)

lemma verify_tool_result_Inr:
  "verify_tool_result_delivery t r n = Inr () \<longleftrightarrow> receipt_closed t (ToolResult r) n"
  by (simp add: verify_tool_result_delivery_def rbind_unit rbind_Inr one_request guard_Inr requests_for_tools_Inr
      require_call_id_Inr unique_result_Inr normalized_text_Inr answered_def) blast

lemma verify_stale_cache_Inr:
  "verify_stale_cache_delivery t r n = Inr () \<longleftrightarrow> receipt_closed t (StaleCache r) n"
  by (simp add: verify_stale_cache_delivery_def rbind_unit rbind_Inr one_request guard_Inr requests_for_tools_Inr
      require_call_id_Inr unique_result_Inr strict_json_object_Inr require_output_digest_def normalized_text_Inr
      answered_def payload_is_def) blast

lemma verify_receipt_relation_Inr: "verify_receipt_relation t r n = Inr () \<longleftrightarrow> receipt_closed t r n"
proof (cases r)
  case (Recovery x)
  then show ?thesis
    by (auto simp: verify_recovery_delivery_def rbind_Inr two_requests requests_for_tools_Inr verify_two_calls_Inr)
next
  case (SchemaDrift x)
  then show ?thesis
    by (auto simp: verify_schema_drift_delivery_def rbind_Inr two_requests requests_for_tools_Inr verify_two_calls_Inr)
next
  case (IdentityDrift x)
  then show ?thesis
    by (auto simp: verify_identity_drift_delivery_def rbind_Inr two_requests requests_for_tools_Inr verify_two_calls_Inr)
next
  case (Metadata x)
  then show ?thesis by (auto simp: verify_metadata_chronology_def list_ex_iff)
qed (simp_all add: verify_tool_result_Inr verify_stale_cache_Inr del: receipt_closed.simps)

lemma verify_protocol_event_Inr:
  "verify_protocol_event t seen e = Inr r \<longleftrightarrow> read_protocol_receipt e = Inr r \<and>
     protocol_scenario r = te_scenario_identity t \<and> protocol_root r \<notin> set seen \<and> receipt_closed t r (ev_sequence e)"
  by (auto simp: verify_protocol_event_def rbind_Inr rbind_unit verify_receipt_relation_Inr split: if_splits)

lemma verify_protocol_events_Inr:
  "verify_protocol_events t seen es = Inr rs \<longleftrightarrow>
     list_all2 (\<lambda>e r. read_protocol_receipt e = Inr r \<and> protocol_scenario r = te_scenario_identity t \<and>
       receipt_closed t r (ev_sequence e)) es rs \<and>
     distinct (map protocol_root rs) \<and> set (map protocol_root rs) \<inter> set seen = {}"
proof (induction es arbitrary: seen rs)
  case (Cons e es)
  show ?case
    by (cases rs) (auto simp: rbind_Inr Cons.IH verify_protocol_event_Inr)
qed auto

lemma verify_protocol_delivery_Inr: "verify_protocol_delivery t = Inr rs \<longleftrightarrow> protocol_closed t rs"
  by (simp add: verify_protocol_delivery_def verify_protocol_events_Inr protocol_closed_def)

subsection \<open>Errors\<close>

text \<open>
  Verification raises its own error, or the \<open>TypeError\<close> of a request whose tool does not hash.
\<close>

definition delivery_error :: "trial_evidence \<Rightarrow> error \<Rightarrow> bool" where
  "delivery_error t e \<longleftrightarrow> err_class e = ProtocolDeliveryError \<or>
     (\<exists>q \<in> set (events_of TOOL_REQUEST t). unhashable (payload_get q ''tool'') \<and> e = unhashable_error (payload_get q ''tool''))"

lemma pderr_delivery [simp]: "delivery_error t (pderr m)"
  by (simp add: delivery_error_def pderr_def)

lemma filter_Cons_mem: "filter P xs = q # qs \<Longrightarrow> q \<in> set xs \<and> P q"
  by (auto simp: filter_eq_Cons_iff)

lemma requests_for_tools_Inl: "requests_for_tools t tools = Inl e \<Longrightarrow> delivery_error t e"
  unfolding requests_for_tools_def delivery_error_def
  by (cases "filter (\<lambda>e. unhashable (payload_get e ''tool'')) (events_of TOOL_REQUEST t)")
    (auto dest!: filter_Cons_mem)

definition raises_only :: "('e \<Rightarrow> bool) \<Rightarrow> 'e + 'a \<Rightarrow> bool" where
  "raises_only P r \<longleftrightarrow> (\<forall>e. r = Inl e \<longrightarrow> P e)"

named_theorems raises

lemma raises_simps [raises, simp]: "raises_only P (Inr x)" "raises_only P (Inl e) \<longleftrightarrow> P e"
  by (simp_all add: raises_only_def)

lemma raises_rbind [raises]:
  "raises_only P r \<Longrightarrow> (\<And>x. raises_only P (f x)) \<Longrightarrow> raises_only P (rbind r f)"
  by (auto simp: raises_only_def rbind_Inl)

lemma raises_step [raises]:
  "raises_only (delivery_error t) (require_call_id q call phase)"
  "raises_only (delivery_error t) (unique_result t' call phase)"
  "raises_only (delivery_error t) (strict_json_object v)"
  "raises_only (delivery_error t) (normalized_text v)"
  "raises_only (delivery_error t) (requests_for_tools t tools)"
  "raises_only (delivery_error t) (read_protocol_receipt e)"
  using requests_for_tools_Inl [of t tools]
  by (auto simp: raises_only_def require_call_id_def unique_result_def strict_json_object_def normalized_text_def
      read_protocol_receipt_def split: if_splits list.splits option.splits json.splits)

lemma raises_digest [raises]:
  "raises_only (delivery_error t) (require_arguments_digest q d phase)"
  "raises_only (delivery_error t) (require_output_digest q d phase)"
  by (simp_all add: require_arguments_digest_def require_output_digest_def raises)

lemma raises_two_calls [raises]: "raises_only (delivery_error t) (verify_two_calls t' c ph q1 q2 n)"
  by (simp add: verify_two_calls_def raises)

lemma raises_relation [raises]: "raises_only (delivery_error t) (verify_receipt_relation t r n)"
  by (cases r)
    (auto simp: verify_metadata_chronology_def verify_tool_result_delivery_def verify_recovery_delivery_def
      verify_schema_drift_delivery_def verify_identity_drift_delivery_def verify_stale_cache_delivery_def
      intro!: raises split: list.split)

lemma raises_event [raises]: "raises_only (delivery_error t) (verify_protocol_event t seen e)"
  by (auto simp: verify_protocol_event_def intro!: raises)

lemma verify_protocol_delivery_Inl:
  assumes "verify_protocol_delivery t = Inl e"
  shows "delivery_error t e"
proof -
  have "raises_only (delivery_error t) (verify_protocol_events t seen es)" for seen es
    by (induction es arbitrary: seen) (auto intro!: raises)
  then show ?thesis using assms by (simp add: verify_protocol_delivery_def raises_only_def)
qed

text \<open>A request whose tool is a list or a dict makes every bridge with requests raise.\<close>

lemma unhashable_tool_raises:
  assumes "events_of PROTOCOL_DELIVERY t = e # es" "read_protocol_receipt e = Inr r"
    and "\<nexists>m. r = Metadata m" "protocol_scenario r = te_scenario_identity t"
    and "filter (\<lambda>q. unhashable (payload_get q ''tool'')) (events_of TOOL_REQUEST t) = q # qs"
  shows "verify_protocol_delivery t = Inl (unhashable_error (payload_get q ''tool''))"
proof -
  have "requests_for_tools t tools = Inl (unhashable_error (payload_get q ''tool''))" for tools
    using assms(5) by (simp add: requests_for_tools_def)
  then have "verify_receipt_relation t r (ev_sequence e) = Inl (unhashable_error (payload_get q ''tool''))"
    using assms(3) by (cases r) (simp_all add: verify_tool_result_delivery_def verify_recovery_delivery_def
      verify_schema_drift_delivery_def verify_identity_drift_delivery_def verify_stale_cache_delivery_def)
  then show ?thesis
    using assms(1,2,4) by (simp add: verify_protocol_delivery_def verify_protocol_event_def)
qed

end
