(* ===== verification/ClosureProofs.thy ===== *)
theory ClosureProofs
  imports McpProofs Runtime AdversarialProofs SideEffectProofs
begin

section \<open>What the pre-grading closure decides\<close>

text \<open>
  The closure returns exactly when each relation it owns holds. The relations are those of the
  components, each already decided by its verifier; two are the closure's own, the identity of
  the resources and the provenance of delegated runs.
\<close>

definition attack_bound :: "evaluation_scenario \<Rightarrow> trial_evidence \<Rightarrow> bool" where
  "attack_bound s t \<longleftrightarrow> extract_attack s None = Inr None \<or>
     (\<exists>e r. events_of ATTACK_DELIVERY t = [e] \<and> injector_source (ev_source e) \<and>
        read_delivery_receipt (ev_payload e) = Some r \<and> delivery_from_scenario s (dr_injection_point r) = Inr r)"

definition retrieval_bound :: "evaluation_scenario \<Rightarrow> trial_evidence \<Rightarrow> bool" where
  "retrieval_bound s t \<longleftrightarrow> (case es_retrieval s of
       None \<Rightarrow> events_of RETRIEVAL_DELIVERY t = []
     | Some k \<Rightarrow> \<exists>r. retrieval_closed s t k r)"

definition effect_bound :: "(json \<Rightarrow> bool option) \<Rightarrow> evaluation_scenario \<Rightarrow> trial_evidence \<Rightarrow> bool" where
  "effect_bound lax_bool s t \<longleftrightarrow> (case es_side_effect s of
       None \<Rightarrow> events_of SIDE_EFFECT_OBSERVATION t = []
     | Some k \<Rightarrow> \<exists>r. effect_closed lax_bool s k t r)"

text \<open>A request names its resource canonically, or needs no resource where it stands.\<close>

definition resource_bound :: "evaluation_scenario \<Rightarrow> trial_evidence \<Rightarrow> evidence_event \<Rightarrow> bool" where
  "resource_bound s t e \<longleftrightarrow> (ev_kind e = TOOL_REQUEST \<or> ev_kind e = APPROVAL_REQUEST \<longrightarrow>
     (case payload_get e ''resource'' of
        Some v \<Rightarrow> returns (parse_resource_identifier_payload v)
      | None \<Rightarrow> scopes_at s t e = Inr []))"

definition specialized_run :: "evaluation_scenario \<Rightarrow> trial_evidence \<Rightarrow> bool" where
  "specialized_run s t \<longleftrightarrow> has_handoff_authority (es_authority s) \<and>
     (es_retrieval s \<noteq> None \<or> es_side_effect s \<noteq> None \<or> events_of PROTOCOL_DELIVERY t \<noteq> [])"

definition provenanced :: "evidence_event \<Rightarrow> bool" where
  "provenanced e \<longleftrightarrow>
     (ev_kind e \<in> {TOOL_REQUEST, TOOL_RESULT, APPROVAL_REQUEST} \<longrightarrow>
        event_agent_identity (payload_get e ''agent'') \<noteq> None) \<and>
     (ev_kind e = HANDOFF \<longrightarrow>
        event_agent_identity (payload_get e ''source_agent'') \<noteq> None \<and>
        event_agent_identity (payload_get e ''target_agent'') \<noteq> None)"

definition relations_closed :: "(json \<Rightarrow> bool option) \<Rightarrow> evaluation_scenario \<Rightarrow> trial_evidence \<Rightarrow> bool" where
  "relations_closed lax_bool s t \<longleftrightarrow>
     attack_bound s t \<and> (\<exists>rs. protocol_closed t rs) \<and> retrieval_bound s t \<and> effect_bound lax_bool s t \<and>
     (\<forall>e \<in> set (te_events t). resource_bound s t e) \<and>
     (specialized_run s t \<longrightarrow> (\<forall>e \<in> set (te_events t). provenanced e)) \<and>
     approval_closed s t"

subsection \<open>Each step\<close>

lemma close_with_Inr: "close_with c source code r = Inr () \<longleftrightarrow> returns r"
  by (cases r) (auto simp: close_with_def)

lemma attack_returns: "returns (verify_attack_delivery s t) \<longleftrightarrow> attack_bound s t"
proof (cases "extract_attack s None")
  case (Inr found)
  show ?thesis
  proof (cases found)
    case (Some f)
    have "returns (verify_attack_delivery s t) \<longleftrightarrow> (\<exists>r. verify_attack_delivery s t = Inr (Some r))"
      by (auto simp: returns_iff verify_attack_delivery_def Inr Some rbind_Inr split: list.splits)
    then show ?thesis by (auto simp: attack_bound_def Inr Some verify_attack_delivery_Some)
  qed (simp add: attack_bound_def verify_attack_delivery_def Inr)
next
  case (Inl e)
  then have "delivery_from_scenario s p = Inr r \<Longrightarrow> False" for p r
    by (simp add: delivery_from_scenario_def)
  with Inl show ?thesis by (auto simp: attack_bound_def verify_attack_delivery_def)
qed

lemma retrieval_returns: "returns (verify_retrieval_delivery s t) \<longleftrightarrow> retrieval_bound s t"
proof (cases "es_retrieval s")
  case (Some k)
  have "returns (verify_retrieval_delivery s t) \<longleftrightarrow> (\<exists>r. verify_retrieval_delivery s t = Inr (Some r))"
    by (auto simp: returns_iff verify_retrieval_delivery_def Some rbind_Inr split: list.splits)
  then show ?thesis by (simp add: retrieval_bound_def Some verify_retrieval_delivery_Some)
qed (simp add: retrieval_bound_def verify_retrieval_delivery_def)

lemma effect_returns: "returns (verify_side_effect_observation lax_bool s t) \<longleftrightarrow> effect_bound lax_bool s t"
proof (cases "es_side_effect s")
  case (Some k)
  have "returns (verify_side_effect_observation lax_bool s t) \<longleftrightarrow>
      (\<exists>r. verify_side_effect_observation lax_bool s t = Inr (Some r))"
    by (auto simp: returns_iff verify_side_effect_observation_def Some rbind_Inr split: list.splits)
  then show ?thesis by (simp add: effect_bound_def Some verify_side_effect_observation_iff)
qed (simp add: effect_bound_def verify_side_effect_observation_def)

lemma resource_returns: "verify_event_resource s t e = Inr () \<longleftrightarrow> resource_bound s t e"
  by (auto simp: verify_event_resource_def resource_bound_def rbind_Inr returns_iff
      split: option.splits sum.splits if_splits)

lemma provenance_returns: "verify_event_provenance e = Inr () \<longleftrightarrow> provenanced e"
  by (auto simp: verify_event_provenance_def provenanced_def)

lemma composed_returns:
  "verify_composed_handoff_provenance s t = Inr () \<longleftrightarrow>
   (specialized_run s t \<longrightarrow> (\<forall>e \<in> set (te_events t). provenanced e))"
  by (auto simp: verify_composed_handoff_provenance_def specialized_run_def rfor_Inr provenance_returns
      events_of_def list_ex_iff filter_empty_conv)

lemma verify_pregrading_closure_Inr:
  "verify_pregrading_closure lax_bool s t = Inr () \<longleftrightarrow> relations_closed lax_bool s t"
proof -
  have "returns (verify_protocol_delivery t) \<longleftrightarrow> (\<exists>rs. protocol_closed t rs)"
    by (simp add: returns_iff verify_protocol_delivery_Inr)
  moreover have "returns (verify_approval_intent s t) \<longleftrightarrow> approval_closed s t"
    by (simp add: returns_iff verify_approval_intent_Inr)
  moreover have "verify_typed_resource_evidence s t = Inr () \<longleftrightarrow> (\<forall>e \<in> set (te_events t). resource_bound s t e)"
    by (simp add: verify_typed_resource_evidence_def rfor_Inr resource_returns)
  ultimately show ?thesis
    unfolding verify_pregrading_closure_def rbind_unit close_with_Inr relations_closed_def attack_returns
      retrieval_returns effect_returns composed_returns by blast
qed

subsection \<open>Where it raises\<close>

text \<open>A request whose tool does not hash makes the closure raise another error than its own.\<close>

lemma unhashable_tool_escapes:
  assumes "attack_bound s t" "events_of PROTOCOL_DELIVERY t = e # es" "read_protocol_receipt e = Inr r"
    and "\<nexists>m. r = Metadata m" "protocol_scenario r = te_scenario_identity t"
    and "filter (\<lambda>q. unhashable (payload_get q ''tool'')) (events_of TOOL_REQUEST t) = q # qs"
  shows "verify_pregrading_closure lax_bool s t = Inl (Escapes (unhashable_error (payload_get q ''tool'')))"
proof -
  obtain x where "verify_attack_delivery s t = Inr x"
    using assms(1) by (auto simp: attack_returns [symmetric] returns_iff)
  then show ?thesis
    using unhashable_tool_raises [OF assms(2-6)]
    by (simp add: verify_pregrading_closure_def close_with_def unhashable_error_def)
qed

end
