(* ===== verification/Recomputed.thy ===== *)
theory Recomputed
  imports ModelFields JsonRoundtrip
begin

section \<open>Receipts that recompute (\<open>_receipt_validation.py\<close>)\<close>

text \<open>
  The assurance receipts (approval governance, resumption, memory, distributed effects,
  production retrieval) share one construction: \<open>create\<close> checks its inputs, derives the verdict
  and seals everything under a root; reading a receipt back checks its fields, calls
  \<open>create\<close> on the inputs it holds and compares what was derived. What this promises is proved
  once, in a locale, and every receipt type is an instance.
\<close>

definition domain_root :: "string \<Rightarrow> json \<Rightarrow> string" where
  "domain_root domain v = sha256_hex (domain @ utf8 (json_dumps_unicode v))"

definition opt_text_field :: "string \<Rightarrow> nat \<Rightarrow> string option \<Rightarrow> (bool \<times> error) list" where
  "opt_text_field name hi v = (case v of None \<Rightarrow> [] | Some s \<Rightarrow> text_field name hi s)"

definition opt_sha_field :: "string \<Rightarrow> string option \<Rightarrow> (bool \<times> error) list" where
  "opt_sha_field name v = (case v of None \<Rightarrow> [] | Some s \<Rightarrow> sha_field name s)"

definition opt_int_field :: "string \<Rightarrow> int \<Rightarrow> int option \<Rightarrow> int option \<Rightarrow> (bool \<times> error) list" where
  "opt_int_field name lo hi v = (case v of None \<Rightarrow> [] | Some n \<Rightarrow> int_field name lo hi n)"

definition name_field :: "string \<Rightarrow> string \<Rightarrow> (bool \<times> error) list" where
  "name_field name v = [(\<not> id_pattern ''._-'' 2 127 v, verr (name @ '': pattern''))]"

definition count_field :: "string \<Rightarrow> nat \<Rightarrow> nat \<Rightarrow> 'a list \<Rightarrow> (bool \<times> error) list" where
  "count_field name lo hi xs = [(\<not> (lo \<le> length xs \<and> length xs \<le> hi), verr (name @ '': length''))]"

definition opt_str :: "string option \<Rightarrow> json" where
  "opt_str v = opt_json (map_option JStr v)"

definition max_unix_ms :: int where
  "max_unix_ms = 9999999999999"

definition verify_recomputed ::
  "('r \<Rightarrow> error + unit) \<Rightarrow> ('i \<Rightarrow> error + 'r) \<Rightarrow> ('r \<Rightarrow> 'i) \<Rightarrow> ('r \<Rightarrow> 'd) \<Rightarrow> ('d \<Rightarrow> 'd \<Rightarrow> string) \<Rightarrow> 'r \<Rightarrow> error + 'r" where
  "verify_recomputed guards create inputs derived msg r =
     rbind (guards r) (\<lambda>_.
     rbind (as_validation (create (inputs r))) (\<lambda>rebuilt.
     if derived r \<noteq> derived rebuilt then Inl (verr (msg (derived r) (derived rebuilt))) else Inr r))"

lemma rmap_id: "(\<And>x y. f x = Inr y \<Longrightarrow> y = x) \<Longrightarrow> rmap f xs = Inr ys \<Longrightarrow> ys = xs"
  by (induction xs arbitrary: ys) (auto simp: rbind_Inr)

lemma as_validation_Inr [result_simps]: "as_validation r = Inr x \<longleftrightarrow> r = Inr x"
  by (cases r) (auto simp: as_validation_def)

locale recomputed =
  fixes guards :: "'r \<Rightarrow> error + unit" and create :: "'i \<Rightarrow> error + 'r" and inputs :: "'r \<Rightarrow> 'i"
    and derived :: "'r \<Rightarrow> 'd" and msg :: "'d \<Rightarrow> 'd \<Rightarrow> string" and verify :: "'r \<Rightarrow> error + 'r"
  assumes verify: "verify r = verify_recomputed guards create inputs derived msg r"
    and created: "create i = Inr r \<Longrightarrow> inputs r = i \<and> guards r = Inr ()"
    and determined: "inputs r = inputs s \<Longrightarrow> derived r = derived s \<Longrightarrow> r = s"
begin

lemma verify_Inr: "verify r = Inr s \<longleftrightarrow> s = r \<and> create (inputs r) = Inr r"
proof
  assume "verify r = Inr s"
  then have "\<exists>b. create (inputs r) = Inr b \<and> (if derived r \<noteq> derived b
      then Inl (verr (msg (derived r) (derived b))) else Inr r) = Inr s"
    unfolding verify verify_recomputed_def rbind_Inr as_validation_Inr by blast
  then obtain b where "create (inputs r) = Inr b" "(if derived r \<noteq> derived b
      then Inl (verr (msg (derived r) (derived b))) else Inr r) = Inr s" by blast
  then have b: "create (inputs r) = Inr b" "derived r = derived b" "s = r"
    by (simp_all split: if_splits)
  have "r = b" by (rule determined) (use created [OF b(1)] b(2) in simp_all)
  with b show "s = r \<and> create (inputs r) = Inr r" by simp
next
  assume c: "s = r \<and> create (inputs r) = Inr r"
  with created [of "inputs r" r] show "verify r = Inr s"
    by (simp add: verify verify_recomputed_def as_validation_def)
qed

text \<open>What was created is read back, and nothing else is.\<close>

lemma verified_iff_created: "verify r = Inr r \<longleftrightarrow> (\<exists>i. create i = Inr r)"
  using created by (auto simp: verify_Inr)

text \<open>The inputs of a receipt leave it no choice.\<close>

lemma unforgeable: "verify r = Inr x \<Longrightarrow> verify s = Inr y \<Longrightarrow> inputs r = inputs s \<Longrightarrow> r = s"
  by (auto simp: verify_Inr)

end

section \<open>Receipts made in two steps\<close>

text \<open>
  Most receipts check everything they are given and then summarise it; what they read back is
  decided by the check and the summary. \<open>checks\<close> runs checks in their order, up to the first
  that raises.
\<close>

fun checks :: "(error + unit) list \<Rightarrow> error + unit" where
  "checks [] = Inr ()"
| "checks (c # cs) = rbind c (\<lambda>_. checks cs)"

lemma checks_Inr [result_simps, simp]: "checks cs = Inr u \<longleftrightarrow> list_all (\<lambda>c. c = Inr ()) cs"
  by (induction cs) (auto simp: rbind_Inr)

declare checks.simps [simp del]

definition sealed_create ::
  "('i \<Rightarrow> error + unit) \<Rightarrow> ('r \<Rightarrow> error + unit) \<Rightarrow> ('i \<Rightarrow> 'r) \<Rightarrow> 'i \<Rightarrow> error + 'r" where
  "sealed_create check guards summary i =
     rbind (check i) (\<lambda>_. rbind (guards (summary i)) (\<lambda>_. Inr (summary i)))"

lemma sealed_create_Inr:
  "sealed_create check guards summary i = Inr r \<longleftrightarrow> check i = Inr () \<and> guards (summary i) = Inr () \<and> r = summary i"
  by (auto simp: sealed_create_def rbind_Inr)

locale summarised =
  fixes check :: "'i \<Rightarrow> error + unit" and guards :: "'r \<Rightarrow> error + unit" and summary :: "'i \<Rightarrow> 'r"
    and inputs :: "'r \<Rightarrow> 'i" and derived :: "'r \<Rightarrow> 'd" and msg :: "'d \<Rightarrow> 'd \<Rightarrow> string"
    and create :: "'i \<Rightarrow> error + 'r" and verify :: "'r \<Rightarrow> error + 'r"
  assumes creates: "create i = sealed_create check guards summary i"
    and verifies: "verify r = verify_recomputed guards create inputs derived msg r"
    and inputs_summary: "inputs (summary i) = i"
    and decided: "inputs r = inputs s \<Longrightarrow> derived r = derived s \<Longrightarrow> r = s"

sublocale summarised \<subseteq> recomputed guards create inputs derived msg verify
proof
  show "verify r = verify_recomputed guards create inputs derived msg r" for r by (rule verifies)
  show "inputs r = i \<and> guards r = Inr ()" if "create i = Inr r" for i r
    using that by (auto simp: creates sealed_create_Inr inputs_summary)
  show "r = s" if "inputs r = inputs s" "derived r = derived s" for r s
    using that by (rule decided)
qed

context summarised
begin

lemma verified_iff:
  "verify r = Inr s \<longleftrightarrow> s = r \<and> r = summary (inputs r) \<and> check (inputs r) = Inr () \<and> guards r = Inr ()"
proof -
  have "create (inputs r) = Inr r \<longleftrightarrow> r = summary (inputs r) \<and> check (inputs r) = Inr () \<and> guards r = Inr ()"
    unfolding creates sealed_create_Inr by metis
  then show ?thesis unfolding verify_Inr by blast
qed

text \<open>Receipts are determined by their inputs: the verdict of one that is read back is the verdict of the
  summary.\<close>

lemma verdict_iff:
  assumes "\<And>i. verdict (summary i) = spec i"
  shows "(\<exists>s. verify r = Inr s \<and> verdict s) \<longleftrightarrow>
    r = summary (inputs r) \<and> check (inputs r) = Inr () \<and> guards r = Inr () \<and> spec (inputs r)"
  unfolding verified_iff using assms [of "inputs r"] by metis

end

text \<open>The members of a listed enumeration that a sequence covers, in the listed order.\<close>

definition covered :: "'a list \<Rightarrow> 'a list \<Rightarrow> 'a list" where
  "covered members xs = filter (\<lambda>c. c \<in> set xs) members"

lemma covered_set: "set xs \<subseteq> set members \<Longrightarrow> set (covered members xs) = set xs"
  by (auto simp: covered_def)

definition trimmed_name :: "string \<Rightarrow> bool" where
  "trimmed_name s \<longleftrightarrow> py_strip s \<noteq> [] \<and> s = py_strip s"

definition opt_name_field :: "string \<Rightarrow> string \<Rightarrow> nat \<Rightarrow> nat \<Rightarrow> string option \<Rightarrow> (bool \<times> error) list" where
  "opt_name_field name extra lo hi v =
     (case v of None \<Rightarrow> [] | Some s \<Rightarrow> [(\<not> id_pattern extra lo hi s, verr (name @ '': pattern''))])"

definition opt_int :: "int option \<Rightarrow> json" where
  "opt_int v = opt_json (map_option JInt v)"

subsection \<open>What the guards of a field accept\<close>

lemma raise_if_append_Inr: "raise_if (cs @ ds) = Inr () \<longleftrightarrow> raise_if cs = Inr () \<and> raise_if ds = Inr ()"
  by (auto simp: raise_if_append rbind_Inr)

lemma sha_field_ok: "raise_if (sha_field name v) = Inr () \<longleftrightarrow> is_sha256 v"
  by (simp add: sha_field_def raise_if_Inr)

lemma text_field_ok: "raise_if (text_field name hi v) = Inr () \<longleftrightarrow> bounded_text 1 hi v"
  by (simp add: text_field_def raise_if_Inr)

lemma name_field_ok: "raise_if (name_field name v) = Inr () \<longleftrightarrow> id_pattern ''._-'' 2 127 v"
  by (simp add: name_field_def raise_if_Inr)

definition within :: "int \<Rightarrow> int option \<Rightarrow> int \<Rightarrow> bool" where
  "within lo hi v \<longleftrightarrow> lo \<le> v \<and> (case hi of None \<Rightarrow> True | Some h \<Rightarrow> v \<le> h)"

lemma within_simps [simp]: "within lo None v \<longleftrightarrow> lo \<le> v" "within lo (Some h) v \<longleftrightarrow> lo \<le> v \<and> v \<le> h"
  by (simp_all add: within_def)

lemma int_field_ok: "raise_if (int_field name lo hi v) = Inr () \<longleftrightarrow> within lo hi v"
  by (cases hi) (auto simp: int_field_def raise_if_Inr)

lemma count_field_ok: "raise_if (count_field name lo hi xs) = Inr () \<longleftrightarrow> lo \<le> length xs \<and> length xs \<le> hi"
  by (simp add: count_field_def raise_if_Inr)

lemma opt_sha_field_ok: "raise_if (opt_sha_field name v) = Inr () \<longleftrightarrow> pred_option is_sha256 v"
  by (cases v) (simp_all add: opt_sha_field_def sha_field_ok)

lemma opt_text_field_ok: "raise_if (opt_text_field name hi v) = Inr () \<longleftrightarrow> pred_option (bounded_text 1 hi) v"
  by (cases v) (simp_all add: opt_text_field_def text_field_ok)

lemma opt_int_field_ok: "raise_if (opt_int_field name lo hi v) = Inr () \<longleftrightarrow> pred_option (within lo hi) v"
  by (cases v) (simp_all add: opt_int_field_def int_field_ok)

lemma opt_name_field_ok: "raise_if (opt_name_field name extra lo hi v) = Inr () \<longleftrightarrow> pred_option (id_pattern extra lo hi) v"
  by (cases v) (simp_all add: opt_name_field_def raise_if_Inr)

lemmas field_ok = raise_if_append_Inr sha_field_ok text_field_ok name_field_ok int_field_ok count_field_ok opt_sha_field_ok
  opt_text_field_ok opt_int_field_ok opt_name_field_ok

lemma domain_root_sha [simp]: "is_sha256 (domain_root d v)"
  by (simp add: domain_root_def)

end
