(* ===== verification/ApprovalGovernance.thy ===== *)
theory ApprovalGovernance
  imports Recomputed Contracts
begin

section \<open>Human approvals and resumption (\<open>hitl.py\<close>)\<close>

text \<open>
  Approvals of people, authenticated outside, are judged by a governance policy: which of them
  count, whether their signers reach the quorum. A paused run is resumed from a checkpoint by
  workers that may race; one of them completes and the others are turned away.
\<close>

datatype authentication_method = OIDC | WEBAUTHN | MTLS | SIGNED_TOKEN

fun method_value :: "authentication_method \<Rightarrow> string" where
  "method_value OIDC = ''oidc''"
| "method_value WEBAUTHN = ''webauthn''"
| "method_value MTLS = ''mtls''"
| "method_value SIGNED_TOKEN = ''signed-token''"

datatype approval_role = APPROVER | ESCALATION_APPROVER

fun role_value :: "approval_role \<Rightarrow> string" where
  "role_value APPROVER = ''approver''"
| "role_value ESCALATION_APPROVER = ''escalation-approver''"

datatype resume_outcome = RESUME_COMPLETED | RESUME_DUPLICATE_REJECTED | RESUME_ABORTED

fun resume_value :: "resume_outcome \<Rightarrow> string" where
  "resume_value RESUME_COMPLETED = ''completed''"
| "resume_value RESUME_DUPLICATE_REJECTED = ''duplicate-rejected''"
| "resume_value RESUME_ABORTED = ''aborted''"

subsection \<open>Approvals\<close>

record human_approval =
  ha_approval_id :: string
  ha_scenario_identity :: string
  ha_invocation_sha256 :: string
  ha_signer_id :: string
  ha_session_id :: string
  ha_observed_at :: int
  ha_decision :: approval_decision
  ha_role :: approval_role
  ha_method :: authentication_method
  ha_credential_sha256 :: string
  ha_verified :: bool
  ha_delegated_by :: "string option"
  ha_evidence_root :: string

definition human_approval_schema :: string where
  "human_approval_schema = ''agent-evals/human-approval-evidence/v1''"

definition human_approval_domain :: string where
  "human_approval_domain = ''agent-evals/human-approval-evidence/v1'' @ [CHR 0x00]"

definition human_approval_dict :: "human_approval \<Rightarrow> dict" where
  "human_approval_dict a =
     [(''schema_version'', JStr human_approval_schema), (''approval_id'', JStr (ha_approval_id a)),
      (''scenario_identity'', JStr (ha_scenario_identity a)), (''invocation_sha256'', JStr (ha_invocation_sha256 a)),
      (''signer_id'', JStr (ha_signer_id a)), (''session_id'', JStr (ha_session_id a)),
      (''observed_at_unix_ms'', JInt (ha_observed_at a)), (''decision'', JStr (decision_value (ha_decision a))),
      (''role'', JStr (role_value (ha_role a))), (''authentication_method'', JStr (method_value (ha_method a))),
      (''credential_fingerprint_sha256'', JStr (ha_credential_sha256 a)),
      (''authentication_verified'', JBool (ha_verified a)), (''delegated_by'', opt_str (ha_delegated_by a))]"

definition human_approval_root :: "human_approval \<Rightarrow> string" where
  "human_approval_root a = domain_root human_approval_domain (JObj (human_approval_dict a))"

definition validate_human_approval :: "human_approval \<Rightarrow> error + human_approval" where
  "validate_human_approval a = rbind (raise_if
     (name_field ''approval_id'' (ha_approval_id a) @ sha_field ''scenario_identity'' (ha_scenario_identity a)
      @ sha_field ''invocation_sha256'' (ha_invocation_sha256 a) @ text_field ''signer_id'' 256 (ha_signer_id a)
      @ text_field ''session_id'' 256 (ha_session_id a)
      @ int_field ''observed_at_unix_ms'' 0 (Some max_unix_ms) (ha_observed_at a)
      @ sha_field ''credential_fingerprint_sha256'' (ha_credential_sha256 a)
      @ opt_text_field ''delegated_by'' 256 (ha_delegated_by a) @ sha_field ''evidence_root'' (ha_evidence_root a)
      @ [(ha_evidence_root a \<noteq> human_approval_root a, verr ''human approval evidence root mismatch''),
         (ha_signer_id a \<noteq> py_strip (ha_signer_id a) \<or> ha_session_id a \<noteq> py_strip (ha_session_id a),
          verr ''human approval signer/session identity must be trimmed''),
         (ha_delegated_by a = Some (ha_signer_id a), verr ''approval delegation cannot be self-delegation'')]))
     (\<lambda>_. Inr a)"

text \<open>\<open>HumanApprovalEvidence.create\<close> on an approval whose root is not set yet.\<close>

definition create_human_approval :: "human_approval \<Rightarrow> error + human_approval" where
  "create_human_approval a = validate_human_approval (a\<lparr>ha_evidence_root := human_approval_root a\<rparr>)"

record approval_delegation =
  dl_delegator_id :: string
  dl_delegate_id :: string
  dl_scenario_identity :: string
  dl_invocation_sha256 :: string
  dl_expires_at :: int
  dl_externally_verified :: bool

definition delegation_json :: "approval_delegation \<Rightarrow> json" where
  "delegation_json d = JObj
     [(''delegator_id'', JStr (dl_delegator_id d)), (''delegate_id'', JStr (dl_delegate_id d)),
      (''scenario_identity'', JStr (dl_scenario_identity d)), (''invocation_sha256'', JStr (dl_invocation_sha256 d)),
      (''expires_at_unix_ms'', JInt (dl_expires_at d)), (''externally_verified'', JBool (dl_externally_verified d))]"

definition validate_delegation :: "approval_delegation \<Rightarrow> error + approval_delegation" where
  "validate_delegation d = rbind (raise_if
     (text_field ''delegator_id'' 256 (dl_delegator_id d) @ text_field ''delegate_id'' 256 (dl_delegate_id d)
      @ sha_field ''scenario_identity'' (dl_scenario_identity d) @ sha_field ''invocation_sha256'' (dl_invocation_sha256 d)
      @ int_field ''expires_at_unix_ms'' 0 (Some max_unix_ms) (dl_expires_at d)
      @ [(dl_delegator_id d = dl_delegate_id d, verr ''approval delegation must change signer identity'')])) (\<lambda>_. Inr d)"

subsection \<open>Governance\<close>

record governance_policy =
  gp_quorum :: int
  gp_max_age_ms :: int
  gp_require_distinct_sessions :: bool
  gp_require_separation_of_duties :: bool
  gp_allow_delegation :: bool
  gp_require_escalation_approver :: bool
  gp_allowed_methods :: "authentication_method set"

definition governance_policy_schema :: string where
  "governance_policy_schema = ''agent-evals/approval-governance-policy/v1''"

definition validate_governance_policy :: "governance_policy \<Rightarrow> error + governance_policy" where
  "validate_governance_policy p = rbind (raise_if
     (int_field ''quorum'' 1 (Some 100) (gp_quorum p)
      @ int_field ''max_age_ms'' 1 (Some (7 * 24 * 60 * 60 * 1000)) (gp_max_age_ms p))) (\<lambda>_. Inr p)"

definition governance_policy_json :: "governance_policy \<Rightarrow> json" where
  "governance_policy_json p = JObj
     [(''schema_version'', JStr governance_policy_schema), (''quorum'', JInt (gp_quorum p)),
      (''max_age_ms'', JInt (gp_max_age_ms p)), (''require_distinct_sessions'', JBool (gp_require_distinct_sessions p)),
      (''require_separation_of_duties'', JBool (gp_require_separation_of_duties p)),
      (''allow_delegation'', JBool (gp_allow_delegation p)),
      (''require_escalation_approver'', JBool (gp_require_escalation_approver p)),
      (''allowed_authentication_methods'', JArr (map JStr (py_sorted (method_value ` gp_allowed_methods p))))]"

record governance_inputs =
  gi_policy :: governance_policy
  gi_requester_id :: string
  gi_evaluated_at :: int
  gi_approvals :: "human_approval list"
  gi_delegations :: "approval_delegation list"
  gi_revoked :: "string set"

record governance_receipt =
  gv_inputs :: governance_inputs
  gv_effective_signers :: "string list"
  gv_accepted :: bool
  gv_receipt_root :: string

text \<open>The loop over the approvals: the reasons to pass one by, in their order.\<close>

definition delegations_of :: "governance_inputs \<Rightarrow> human_approval \<Rightarrow> string \<Rightarrow> approval_delegation list" where
  "delegations_of g a delegator = filter (\<lambda>d.
     dl_delegator_id d = delegator \<and> dl_delegate_id d = ha_signer_id a \<and>
     dl_scenario_identity d = ha_scenario_identity a \<and> dl_invocation_sha256 d = ha_invocation_sha256 a \<and>
     gi_evaluated_at g \<le> dl_expires_at d \<and> dl_externally_verified d) (gi_delegations g)"

definition approval_counts :: "governance_inputs \<Rightarrow> human_approval \<Rightarrow> bool" where
  "approval_counts g a = (let p = gi_policy g; age = gi_evaluated_at g - ha_observed_at a in
     if \<not> ha_verified a then False
     else if ha_method a \<notin> gp_allowed_methods p then False
     else if ha_approval_id a \<in> gi_revoked g then False
     else if age < 0 \<or> age > gp_max_age_ms p then False
     else if gp_require_separation_of_duties p \<and> ha_signer_id a = gi_requester_id g then False
     else (case ha_delegated_by a of None \<Rightarrow> True
       | Some delegator \<Rightarrow>
          if \<not> gp_allow_delegation p then False else length (delegations_of g a delegator) = 1))"

definition counted :: "governance_inputs \<Rightarrow> human_approval list" where
  "counted g = filter (approval_counts g) (gi_approvals g)"

definition effective_signers :: "governance_inputs \<Rightarrow> string list" where
  "effective_signers g = py_sorted (ha_signer_id ` set (counted g))"

definition governance_accepted :: "governance_inputs \<Rightarrow> bool" where
  "governance_accepted g \<longleftrightarrow>
     gp_quorum (gi_policy g) \<le> int (length (effective_signers g)) \<and>
     (\<not> gp_require_distinct_sessions (gi_policy g) \<or>
        gp_quorum (gi_policy g) \<le> int (card (ha_session_id ` set (counted g)))) \<and>
     (\<not> gp_require_escalation_approver (gi_policy g) \<or> list_ex (\<lambda>a. ha_role a = ESCALATION_APPROVER) (counted g))"

definition governance_schema :: string where
  "governance_schema = ''agent-evals/approval-governance-receipt/v1''"

definition governance_domain :: string where
  "governance_domain = ''agent-evals/approval-governance-receipt/v1'' @ [CHR 0x00]"

definition governance_material :: "governance_receipt \<Rightarrow> json" where
  "governance_material r = (let g = gv_inputs r in JObj
     [(''schema_version'', JStr governance_schema), (''policy'', governance_policy_json (gi_policy g)),
      (''requester_id'', JStr (gi_requester_id g)), (''evaluated_at_unix_ms'', JInt (gi_evaluated_at g)),
      (''approvals'', JArr (map (\<lambda>a. JObj (human_approval_dict a @ [(''evidence_root'', JStr (ha_evidence_root a))]))
        (gi_approvals g))),
      (''delegations'', JArr (map delegation_json (gi_delegations g))),
      (''revoked_approval_ids'', JArr (map JStr (py_sorted (gi_revoked g)))),
      (''effective_signers'', JArr (map JStr (gv_effective_signers r))), (''accepted'', JBool (gv_accepted r))])"

definition governance_root :: "governance_receipt \<Rightarrow> string" where
  "governance_root r = domain_root governance_domain (governance_material r)"

definition governance_fields :: "governance_receipt \<Rightarrow> error + unit" where
  "governance_fields r = (let g = gv_inputs r in raise_if
     (text_field ''requester_id'' 256 (gi_requester_id g)
      @ int_field ''evaluated_at_unix_ms'' 0 (Some max_unix_ms) (gi_evaluated_at g)
      @ count_field ''approvals'' 1 100 (gi_approvals g) @ sha_field ''receipt_root'' (gv_receipt_root r)))"

definition governance_summary :: "governance_inputs \<Rightarrow> governance_receipt" where
  "governance_summary g =
     (let r = \<lparr>gv_inputs = g, gv_effective_signers = effective_signers g, gv_accepted = governance_accepted g,
               gv_receipt_root = []\<rparr>
      in r\<lparr>gv_receipt_root := governance_root r\<rparr>)"

definition one_invocation :: "human_approval list \<Rightarrow> bool" where
  "one_invocation as \<longleftrightarrow> card (ha_scenario_identity ` set as) = 1 \<and> card (ha_invocation_sha256 ` set as) = 1 \<and>
     card (ha_decision ` set as) = 1"

definition create_governance :: "governance_inputs \<Rightarrow> error + governance_receipt" where
  "create_governance g =
     rbind (validate_governance_policy (gi_policy g)) (\<lambda>p.
     rbind (raise_if
       [(py_strip (gi_requester_id g) = [] \<or> gi_requester_id g \<noteq> py_strip (gi_requester_id g),
         vale ''approval requester identity must be trimmed and non-empty''),
        (gi_evaluated_at g < 0, vale ''approval evaluation timestamp must be a non-negative integer'')]) (\<lambda>_.
     rbind (rmap validate_human_approval (gi_approvals g)) (\<lambda>as.
     rbind (raise_if [(as = [], vale ''approval governance requires at least one approval'')]) (\<lambda>_.
     rbind (rmap validate_delegation (gi_delegations g)) (\<lambda>ds.
     rbind (raise_if
       [(\<not> distinct (map ha_approval_id as), vale ''human approval IDs must be unique''),
        (\<not> one_invocation as, vale ''approval quorum must bind one scenario, invocation, and decision'')]) (\<lambda>_.
     let r = governance_summary (g\<lparr>gi_policy := p, gi_approvals := as, gi_delegations := ds\<rparr>)
     in rbind (governance_fields r) (\<lambda>_. Inr r)))))))"

definition governance_derived :: "governance_receipt \<Rightarrow> string list \<times> bool \<times> string" where
  "governance_derived r = (gv_effective_signers r, gv_accepted r, gv_receipt_root r)"

definition governance_mismatch :: "string list \<times> bool \<times> string \<Rightarrow> string list \<times> bool \<times> string \<Rightarrow> string" where
  "governance_mismatch d e = ''approval governance receipt does not recompute''"

definition verify_governance :: "governance_receipt \<Rightarrow> error + governance_receipt" where
  "verify_governance = verify_recomputed governance_fields create_governance gv_inputs governance_derived governance_mismatch"

subsection \<open>Resumption\<close>

record resume_checkpoint =
  ck_run_id :: string
  ck_scenario_identity :: string
  ck_invocation_sha256 :: string
  ck_approval_receipt_root :: string
  ck_generation :: int
  ck_checkpoint_root :: string

definition checkpoint_schema :: string where
  "checkpoint_schema = ''agent-evals/hitl-resume-checkpoint/v1''"

definition checkpoint_domain :: string where
  "checkpoint_domain = ''agent-evals/hitl-resume-checkpoint/v1'' @ [CHR 0x00]"

definition checkpoint_dict :: "resume_checkpoint \<Rightarrow> dict" where
  "checkpoint_dict c =
     [(''schema_version'', JStr checkpoint_schema), (''run_id'', JStr (ck_run_id c)),
      (''scenario_identity'', JStr (ck_scenario_identity c)), (''invocation_sha256'', JStr (ck_invocation_sha256 c)),
      (''approval_receipt_root'', JStr (ck_approval_receipt_root c)), (''generation'', JInt (ck_generation c))]"

definition checkpoint_root :: "resume_checkpoint \<Rightarrow> string" where
  "checkpoint_root c = domain_root checkpoint_domain (JObj (checkpoint_dict c))"

definition validate_checkpoint :: "resume_checkpoint \<Rightarrow> error + resume_checkpoint" where
  "validate_checkpoint c = rbind (raise_if
     (text_field ''run_id'' 512 (ck_run_id c) @ sha_field ''scenario_identity'' (ck_scenario_identity c)
      @ sha_field ''invocation_sha256'' (ck_invocation_sha256 c)
      @ sha_field ''approval_receipt_root'' (ck_approval_receipt_root c)
      @ int_field ''generation'' 0 (Some 1000000) (ck_generation c) @ sha_field ''checkpoint_root'' (ck_checkpoint_root c)
      @ [(ck_checkpoint_root c \<noteq> checkpoint_root c, verr ''HITL resume checkpoint root mismatch'')])) (\<lambda>_. Inr c)"

definition create_checkpoint :: "resume_checkpoint \<Rightarrow> error + resume_checkpoint" where
  "create_checkpoint c = validate_checkpoint (c\<lparr>ck_checkpoint_root := checkpoint_root c\<rparr>)"

record resume_attempt =
  at_checkpoint_root :: string
  at_resume_id :: string
  at_worker_id :: string
  at_outcome :: resume_outcome
  at_continuation_sha256 :: "string option"

definition resume_attempt_json :: "resume_attempt \<Rightarrow> json" where
  "resume_attempt_json a = JObj
     [(''checkpoint_root'', JStr (at_checkpoint_root a)), (''resume_id'', JStr (at_resume_id a)),
      (''worker_id'', JStr (at_worker_id a)), (''outcome'', JStr (resume_value (at_outcome a))),
      (''continuation_sha256'', opt_str (at_continuation_sha256 a))]"

definition validate_resume_attempt :: "resume_attempt \<Rightarrow> error + resume_attempt" where
  "validate_resume_attempt a = rbind (raise_if
     (sha_field ''checkpoint_root'' (at_checkpoint_root a) @ name_field ''resume_id'' (at_resume_id a)
      @ text_field ''worker_id'' 256 (at_worker_id a) @ opt_sha_field ''continuation_sha256'' (at_continuation_sha256 a)
      @ [(at_outcome a = RESUME_COMPLETED \<and> at_continuation_sha256 a = None,
          verr ''completed HITL resume requires continuation digest''),
         (at_outcome a \<noteq> RESUME_COMPLETED \<and> at_continuation_sha256 a \<noteq> None,
          verr ''non-completed HITL resume cannot carry continuation digest'')])) (\<lambda>_. Inr a)"

record resume_receipt =
  hr_checkpoint :: resume_checkpoint
  hr_attempts :: "resume_attempt list"
  hr_completed_resume_id :: "string option"
  hr_duplicate_rejections :: int
  hr_accepted :: bool
  hr_receipt_root :: string

definition resume_schema :: string where
  "resume_schema = ''agent-evals/hitl-resume-receipt/v1''"

definition resume_domain :: string where
  "resume_domain = ''agent-evals/hitl-resume-receipt/v1'' @ [CHR 0x00]"

definition completions :: "resume_attempt list \<Rightarrow> resume_attempt list" where
  "completions = filter (\<lambda>a. at_outcome a = RESUME_COMPLETED)"

definition resume_accepted :: "resume_attempt list \<Rightarrow> bool" where
  "resume_accepted as \<longleftrightarrow> length (completions as) = 1 \<and>
     list_all (\<lambda>a. at_outcome a = RESUME_COMPLETED \<or> at_outcome a = RESUME_DUPLICATE_REJECTED) as"

definition completed_id :: "resume_attempt list \<Rightarrow> string option" where
  "completed_id as = (if length (completions as) = 1 then Some (at_resume_id (hd (completions as))) else None)"

definition resume_material :: "resume_receipt \<Rightarrow> json" where
  "resume_material r = JObj
     [(''schema_version'', JStr resume_schema),
      (''checkpoint'', JObj (checkpoint_dict (hr_checkpoint r) @
         [(''checkpoint_root'', JStr (ck_checkpoint_root (hr_checkpoint r)))])),
      (''attempts'', JArr (map resume_attempt_json (hr_attempts r))),
      (''completed_resume_id'', opt_str (hr_completed_resume_id r)),
      (''duplicate_rejections'', JInt (hr_duplicate_rejections r)), (''accepted'', JBool (hr_accepted r))]"

definition resume_root :: "resume_receipt \<Rightarrow> string" where
  "resume_root r = domain_root resume_domain (resume_material r)"

definition resume_fields :: "resume_receipt \<Rightarrow> error + unit" where
  "resume_fields r = raise_if
     (count_field ''attempts'' 1 10000 (hr_attempts r) @ int_field ''duplicate_rejections'' 0 None (hr_duplicate_rejections r)
      @ sha_field ''receipt_root'' (hr_receipt_root r))"

definition resume_summary :: "resume_checkpoint \<Rightarrow> resume_attempt list \<Rightarrow> resume_receipt" where
  "resume_summary c as =
     (let r = \<lparr>hr_checkpoint = c, hr_attempts = as, hr_completed_resume_id = completed_id as,
               hr_duplicate_rejections = int (length (filter (\<lambda>a. at_outcome a = RESUME_DUPLICATE_REJECTED) as)),
               hr_accepted = resume_accepted as, hr_receipt_root = []\<rparr>
      in r\<lparr>hr_receipt_root := resume_root r\<rparr>)"

definition checked_attempt :: "resume_checkpoint \<Rightarrow> resume_attempt \<Rightarrow> error + resume_attempt" where
  "checked_attempt c a =
     rbind (validate_resume_attempt a) (\<lambda>v.
     if at_checkpoint_root v \<noteq> ck_checkpoint_root c
     then Inl (vale ''HITL resume attempt references a different checkpoint'') else Inr v)"

definition create_resume :: "resume_checkpoint \<times> resume_attempt list \<Rightarrow> error + resume_receipt" where
  "create_resume = (\<lambda>(checkpoint, items).
     rbind (validate_checkpoint checkpoint) (\<lambda>c.
     rbind (rmap (checked_attempt c) items) (\<lambda>as.
     rbind (raise_if [(\<not> distinct (map at_resume_id as), vale ''HITL resume IDs must be unique'')]) (\<lambda>_.
     rbind (resume_fields (resume_summary c as)) (\<lambda>_. Inr (resume_summary c as))))))"

definition resume_inputs :: "resume_receipt \<Rightarrow> resume_checkpoint \<times> resume_attempt list" where
  "resume_inputs r = (hr_checkpoint r, hr_attempts r)"

definition resume_derived :: "resume_receipt \<Rightarrow> string option \<times> int \<times> bool \<times> string" where
  "resume_derived r = (hr_completed_resume_id r, hr_duplicate_rejections r, hr_accepted r, hr_receipt_root r)"

definition resume_mismatch ::
  "string option \<times> int \<times> bool \<times> string \<Rightarrow> string option \<times> int \<times> bool \<times> string \<Rightarrow> string" where
  "resume_mismatch d e = ''HITL resume receipt does not recompute''"

definition verify_resume :: "resume_receipt \<Rightarrow> error + resume_receipt" where
  "verify_resume = verify_recomputed resume_fields create_resume resume_inputs resume_derived resume_mismatch"

subsection \<open>Both receipts recompute\<close>

lemma validate_governance_policy_id: "validate_governance_policy p = Inr q \<Longrightarrow> q = p"
  by (auto simp: validate_governance_policy_def rbind_Inr)

lemma validate_human_approval_id: "validate_human_approval a = Inr b \<Longrightarrow> b = a"
  by (auto simp: validate_human_approval_def rbind_Inr)

lemma validate_delegation_id: "validate_delegation a = Inr b \<Longrightarrow> b = a"
  by (auto simp: validate_delegation_def rbind_Inr)

lemma create_governance_Inr:
  assumes "create_governance g = Inr r"
  shows "r = governance_summary g \<and> governance_fields r = Inr () \<and> one_invocation (gi_approvals g) \<and>
    distinct (map ha_approval_id (gi_approvals g)) \<and> 1 \<le> gp_quorum (gi_policy g)"
proof -
  from assms obtain p as ds where c: "validate_governance_policy (gi_policy g) = Inr p"
    "rmap validate_human_approval (gi_approvals g) = Inr as" "rmap validate_delegation (gi_delegations g) = Inr ds"
    "distinct (map ha_approval_id as)" "one_invocation as"
    "r = governance_summary (g\<lparr>gi_policy := p, gi_approvals := as, gi_delegations := ds\<rparr>)" "governance_fields r = Inr ()"
    unfolding create_governance_def Let_def rbind_Inr by (auto simp: raise_if_Inr_iff)
  have "p = gi_policy g" "as = gi_approvals g" "ds = gi_delegations g"
    using validate_governance_policy_id [OF c(1)] rmap_id [OF validate_human_approval_id c(2)]
      rmap_id [OF validate_delegation_id c(3)] by simp_all
  moreover have "1 \<le> gp_quorum (gi_policy g)"
    using c(1) by (auto simp: validate_governance_policy_def rbind_Inr int_field_def raise_if_Inr_iff)
  ultimately show ?thesis using c by simp
qed

lemma governance_summary_fields [simp]:
  "gv_inputs (governance_summary g) = g" "gv_accepted (governance_summary g) = governance_accepted g"
  "gv_effective_signers (governance_summary g) = effective_signers g"
  by (simp_all add: governance_summary_def Let_def)

interpretation governance_receipts: recomputed governance_fields create_governance gv_inputs governance_derived
  governance_mismatch verify_governance
proof
  show "verify_governance r = verify_recomputed governance_fields create_governance gv_inputs governance_derived
      governance_mismatch r" for r
    by (simp add: verify_governance_def)
  show "gv_inputs r = g \<and> governance_fields r = Inr ()" if "create_governance g = Inr r" for g r
    using create_governance_Inr [OF that] by auto
  show "r = s" if "gv_inputs r = gv_inputs s" "governance_derived r = governance_derived s" for r s
    using that by (simp add: governance_derived_def)
qed

lemma validate_checkpoint_id: "validate_checkpoint a = Inr b \<Longrightarrow> b = a"
  by (auto simp: validate_checkpoint_def rbind_Inr)

lemma validate_resume_attempt_id: "validate_resume_attempt a = Inr b \<Longrightarrow> b = a"
  by (auto simp: validate_resume_attempt_def rbind_Inr)

lemma checked_attempt_Inr:
  "checked_attempt c a = Inr b \<longleftrightarrow>
     b = a \<and> validate_resume_attempt a = Inr a \<and> at_checkpoint_root a = ck_checkpoint_root c"
  unfolding checked_attempt_def rbind_Inr using validate_resume_attempt_id by (auto split: if_splits)

lemma checked_attempt_id: "checked_attempt c a = Inr b \<Longrightarrow> b = a"
  by (simp add: checked_attempt_Inr)

lemma create_resume_Inr:
  assumes "create_resume (c, as) = Inr r"
  shows "r = resume_summary c as \<and> resume_fields r = Inr () \<and> distinct (map at_resume_id as) \<and>
    list_all (\<lambda>a. at_checkpoint_root a = ck_checkpoint_root c \<and> validate_resume_attempt a = Inr a) as"
proof -
  from assms obtain c' bs where x: "validate_checkpoint c = Inr c'" "rmap (checked_attempt c') as = Inr bs"
    "distinct (map at_resume_id bs)" "r = resume_summary c' bs" "resume_fields r = Inr ()"
    unfolding create_resume_def rbind_Inr prod.case by (auto simp: raise_if_Inr_iff)
  have e: "c' = c" "bs = as"
    using validate_checkpoint_id [OF x(1)] rmap_id [OF checked_attempt_id x(2)] by simp_all
  have "checked_attempt c a = Inr a" if "a \<in> set as" for a
    using x(2) that unfolding e rmap_Inr by (auto simp: list_all2_same)
  then have "list_all (\<lambda>a. at_checkpoint_root a = ck_checkpoint_root c \<and> validate_resume_attempt a = Inr a) as"
    by (simp add: list_all_iff checked_attempt_Inr)
  with x e show ?thesis by simp
qed

lemma resume_summary_fields [simp]:
  "hr_checkpoint (resume_summary c as) = c" "hr_attempts (resume_summary c as) = as"
  "hr_accepted (resume_summary c as) = resume_accepted as" "hr_completed_resume_id (resume_summary c as) = completed_id as"
  by (simp_all add: resume_summary_def Let_def)

interpretation resume_receipts: recomputed resume_fields create_resume resume_inputs resume_derived resume_mismatch verify_resume
proof
  show "verify_resume r = verify_recomputed resume_fields create_resume resume_inputs resume_derived resume_mismatch r" for r
    by (simp add: verify_resume_def)
  show "resume_inputs r = i \<and> resume_fields r = Inr ()" if "create_resume i = Inr r" for i r
    using create_resume_Inr [of "fst i" "snd i" r] that by (cases i) (auto simp: resume_inputs_def)
  show "r = s" if "resume_inputs r = resume_inputs s" "resume_derived r = resume_derived s" for r s
    using that by (simp add: resume_inputs_def resume_derived_def)
qed

end
