(* ===== verification/MemoryAssurance.thy ===== *)
theory MemoryAssurance
  imports Recomputed
begin

section \<open>Memory assurance (\<open>memory.py\<close>)\<close>

text \<open>
  Observed operations on one memory record are judged against a policy: did the record persist,
  were other principals kept out, did deletion and expiry take effect, was poison refused.
\<close>

datatype memory_operation = MEM_WRITE | MEM_READ | MEM_DELETE | MEM_EXPIRE | MEM_POISON

fun operation_value :: "memory_operation \<Rightarrow> string" where
  "operation_value MEM_WRITE = ''write''"
| "operation_value MEM_READ = ''read''"
| "operation_value MEM_DELETE = ''delete''"
| "operation_value MEM_EXPIRE = ''expire''"
| "operation_value MEM_POISON = ''poison-attempt''"

record memory_policy =
  mp_record_id :: string
  mp_owner_tenant_id :: string
  mp_owner_user_id :: string
  mp_content_sha256 :: string
  mp_require_persistence :: bool
  mp_require_cross_user_isolation :: bool
  mp_require_delete_enforcement :: bool
  mp_require_ttl_enforcement :: bool
  mp_require_poison_rejection :: bool

record memory_observation =
  mo_record_id :: string
  mo_owner_tenant_id :: string
  mo_owner_user_id :: string
  mo_actor_tenant_id :: string
  mo_actor_user_id :: string
  mo_operation :: memory_operation
  mo_tick :: int
  mo_created_tick :: int
  mo_expires_tick :: int
  mo_content_sha256 :: string
  mo_allowed :: bool
  mo_returned_content_sha256 :: "string option"
  mo_poison_marker :: bool

record memory_receipt =
  mr_policy :: memory_policy
  mr_observations :: "memory_observation list"
  mr_persistence_observed :: bool
  mr_cross_user_isolation_observed :: bool
  mr_deletion_enforced :: bool
  mr_ttl_enforced :: bool
  mr_poison_rejected :: bool
  mr_accepted :: bool
  mr_receipt_root :: string

definition memory_policy_schema :: string where
  "memory_policy_schema = ''agent-evals/memory-assurance-policy/v1''"

definition memory_observation_schema :: string where
  "memory_observation_schema = ''agent-evals/memory-observation/v1''"

definition memory_receipt_schema :: string where
  "memory_receipt_schema = ''agent-evals/memory-assurance-receipt/v1''"

definition memory_domain :: string where
  "memory_domain = ''agent-evals/memory-assurance-receipt/v1'' @ [CHR 0x00]"

definition validate_memory_policy :: "memory_policy \<Rightarrow> error + memory_policy" where
  "validate_memory_policy p = rbind (raise_if
     (text_field ''record_id'' 512 (mp_record_id p) @ text_field ''owner_tenant_id'' 256 (mp_owner_tenant_id p)
      @ text_field ''owner_user_id'' 256 (mp_owner_user_id p) @ sha_field ''content_sha256'' (mp_content_sha256 p)))
     (\<lambda>_. Inr p)"

definition observation_shape :: "memory_observation \<Rightarrow> (bool \<times> error) list" where
  "observation_shape m =
     [(mo_expires_tick m < mo_created_tick m, verr ''memory expiry cannot precede creation''),
      (mo_tick m < mo_created_tick m \<and> mo_operation m \<noteq> MEM_WRITE,
       verr ''memory operation cannot precede record creation''),
      (mo_operation m = MEM_READ \<and> mo_allowed m \<and> mo_returned_content_sha256 m = None,
       verr ''allowed memory read requires returned content identity''),
      (mo_operation m = MEM_READ \<and> \<not> mo_allowed m \<and> mo_returned_content_sha256 m \<noteq> None,
       verr ''denied memory read cannot expose content identity''),
      (mo_operation m \<noteq> MEM_READ \<and> mo_returned_content_sha256 m \<noteq> None,
       verr ''non-read memory operation cannot expose returned content''),
      (mo_operation m = MEM_POISON \<and> \<not> mo_poison_marker m, verr ''poison attempt must be explicitly marked'')]"

definition validate_memory_observation :: "memory_observation \<Rightarrow> error + memory_observation" where
  "validate_memory_observation m = rbind (raise_if
     (text_field ''record_id'' 512 (mo_record_id m) @ text_field ''owner_tenant_id'' 256 (mo_owner_tenant_id m)
      @ text_field ''owner_user_id'' 256 (mo_owner_user_id m) @ text_field ''actor_tenant_id'' 256 (mo_actor_tenant_id m)
      @ text_field ''actor_user_id'' 256 (mo_actor_user_id m) @ int_field ''tick'' 0 None (mo_tick m)
      @ int_field ''created_tick'' 0 None (mo_created_tick m) @ int_field ''expires_tick'' 0 None (mo_expires_tick m)
      @ sha_field ''content_sha256'' (mo_content_sha256 m)
      @ opt_sha_field ''returned_content_sha256'' (mo_returned_content_sha256 m) @ observation_shape m)) (\<lambda>_. Inr m)"

definition same_principal :: "memory_observation \<Rightarrow> bool" where
  "same_principal m \<longleftrightarrow> mo_owner_tenant_id m = mo_actor_tenant_id m \<and> mo_owner_user_id m = mo_actor_user_id m"

subsection \<open>What the operations show\<close>

definition is_read :: "memory_observation \<Rightarrow> bool" where
  "is_read m \<longleftrightarrow> mo_operation m = MEM_READ"

definition persistence_shown :: "memory_observation list \<Rightarrow> bool" where
  "persistence_shown ms \<longleftrightarrow>
     list_ex (\<lambda>m. mo_operation m = MEM_WRITE \<and> same_principal m \<and> mo_allowed m) ms \<and>
     list_ex (\<lambda>m. is_read m \<and> same_principal m \<and> mo_allowed m \<and>
       mo_returned_content_sha256 m = Some (mo_content_sha256 m) \<and> mo_tick m < mo_expires_tick m) ms"

definition isolation_shown :: "memory_observation list \<Rightarrow> bool" where
  "isolation_shown ms \<longleftrightarrow> list_ex (\<lambda>m. is_read m \<and> \<not> same_principal m \<and> \<not> mo_allowed m) ms"

definition deletions :: "memory_observation list \<Rightarrow> memory_observation list" where
  "deletions = filter (\<lambda>m. mo_operation m = MEM_DELETE \<and> same_principal m \<and> mo_allowed m)"

definition deletion_shown :: "memory_observation list \<Rightarrow> bool" where
  "deletion_shown ms \<longleftrightarrow> deletions ms \<noteq> [] \<and>
     (let t = Min (set (map mo_tick (deletions ms))) in
      list_ex (\<lambda>m. is_read m \<and> same_principal m \<and> t \<le> mo_tick m \<and> \<not> mo_allowed m) ms)"

definition expiry_shown :: "memory_observation list \<Rightarrow> bool" where
  "expiry_shown ms \<longleftrightarrow> list_ex (\<lambda>m. mo_operation m = MEM_EXPIRE \<and> mo_allowed m) ms \<and>
     list_ex (\<lambda>m. is_read m \<and> same_principal m \<and> mo_expires_tick m \<le> mo_tick m \<and> \<not> mo_allowed m) ms"

definition poison_refused :: "memory_observation list \<Rightarrow> bool" where
  "poison_refused ms \<longleftrightarrow>
     list_ex (\<lambda>m. mo_operation m = MEM_POISON) ms \<and>
     list_all (\<lambda>m. mo_operation m = MEM_POISON \<longrightarrow> \<not> mo_allowed m) ms \<and>
     list_all (\<lambda>m. \<not> (is_read m \<and> mo_allowed m \<and> \<not> same_principal m \<and>
       mo_returned_content_sha256 m = Some (mo_content_sha256 m))) ms"

definition memory_accepted :: "memory_policy \<Rightarrow> memory_observation list \<Rightarrow> bool" where
  "memory_accepted p ms \<longleftrightarrow>
     (persistence_shown ms \<or> \<not> mp_require_persistence p) \<and>
     (isolation_shown ms \<or> \<not> mp_require_cross_user_isolation p) \<and>
     (deletion_shown ms \<or> \<not> mp_require_delete_enforcement p) \<and>
     (expiry_shown ms \<or> \<not> mp_require_ttl_enforcement p) \<and>
     (poison_refused ms \<or> \<not> mp_require_poison_rejection p)"

subsection \<open>The receipt\<close>

definition memory_policy_json :: "memory_policy \<Rightarrow> json" where
  "memory_policy_json p = JObj
     [(''schema_version'', JStr memory_policy_schema), (''record_id'', JStr (mp_record_id p)),
      (''owner_tenant_id'', JStr (mp_owner_tenant_id p)), (''owner_user_id'', JStr (mp_owner_user_id p)),
      (''content_sha256'', JStr (mp_content_sha256 p)), (''require_persistence'', JBool (mp_require_persistence p)),
      (''require_cross_user_isolation'', JBool (mp_require_cross_user_isolation p)),
      (''require_delete_enforcement'', JBool (mp_require_delete_enforcement p)),
      (''require_ttl_enforcement'', JBool (mp_require_ttl_enforcement p)),
      (''require_poison_rejection'', JBool (mp_require_poison_rejection p))]"

definition memory_observation_json :: "memory_observation \<Rightarrow> json" where
  "memory_observation_json m = JObj
     [(''schema_version'', JStr memory_observation_schema), (''record_id'', JStr (mo_record_id m)),
      (''owner_tenant_id'', JStr (mo_owner_tenant_id m)), (''owner_user_id'', JStr (mo_owner_user_id m)),
      (''actor_tenant_id'', JStr (mo_actor_tenant_id m)), (''actor_user_id'', JStr (mo_actor_user_id m)),
      (''operation'', JStr (operation_value (mo_operation m))), (''tick'', JInt (mo_tick m)),
      (''created_tick'', JInt (mo_created_tick m)), (''expires_tick'', JInt (mo_expires_tick m)),
      (''content_sha256'', JStr (mo_content_sha256 m)), (''allowed'', JBool (mo_allowed m)),
      (''returned_content_sha256'', opt_str (mo_returned_content_sha256 m)),
      (''poison_marker'', JBool (mo_poison_marker m))]"

definition memory_material :: "memory_receipt \<Rightarrow> json" where
  "memory_material r = JObj
     [(''schema_version'', JStr memory_receipt_schema), (''policy'', memory_policy_json (mr_policy r)),
      (''observations'', JArr (map memory_observation_json (mr_observations r))),
      (''persistence_observed'', JBool (mr_persistence_observed r)),
      (''cross_user_isolation_observed'', JBool (mr_cross_user_isolation_observed r)),
      (''deletion_enforced'', JBool (mr_deletion_enforced r)), (''ttl_enforced'', JBool (mr_ttl_enforced r)),
      (''poison_rejected'', JBool (mr_poison_rejected r)), (''accepted'', JBool (mr_accepted r))]"

definition memory_root :: "memory_receipt \<Rightarrow> string" where
  "memory_root r = domain_root memory_domain (memory_material r)"

definition memory_fields :: "memory_receipt \<Rightarrow> error + unit" where
  "memory_fields r = raise_if
     (count_field ''observations'' 1 10000 (mr_observations r) @ sha_field ''receipt_root'' (mr_receipt_root r))"

definition memory_summary :: "memory_policy \<Rightarrow> memory_observation list \<Rightarrow> memory_receipt" where
  "memory_summary p ms =
     (let r = \<lparr>mr_policy = p, mr_observations = ms, mr_persistence_observed = persistence_shown ms,
               mr_cross_user_isolation_observed = isolation_shown ms, mr_deletion_enforced = deletion_shown ms,
               mr_ttl_enforced = expiry_shown ms, mr_poison_rejected = poison_refused ms,
               mr_accepted = memory_accepted p ms, mr_receipt_root = []\<rparr>
      in r\<lparr>mr_receipt_root := memory_root r\<rparr>)"

definition observation_relations :: "memory_policy \<Rightarrow> memory_observation list \<Rightarrow> (bool \<times> error) list" where
  "observation_relations p ms =
     [(ms = [], vale ''memory assurance requires observations''),
      (list_ex (\<lambda>m. mo_record_id m \<noteq> mp_record_id p) ms,
       vale ''memory observation record identity differs from evaluator policy''),
      (list_ex (\<lambda>m. mo_content_sha256 m \<noteq> mp_content_sha256 p) ms,
       vale ''memory observation content identity differs from evaluator policy''),
      (list_ex (\<lambda>m. mo_owner_tenant_id m \<noteq> mp_owner_tenant_id p \<or> mo_owner_user_id m \<noteq> mp_owner_user_id p) ms,
       vale ''memory observation owner identity differs from evaluator policy''),
      (map mo_tick ms \<noteq> sort (map mo_tick ms), vale ''memory observations must be ordered by nondecreasing tick'')]"

definition create_memory_receipt :: "memory_policy \<times> memory_observation list \<Rightarrow> error + memory_receipt" where
  "create_memory_receipt = (\<lambda>(policy, observations).
     rbind (validate_memory_policy policy) (\<lambda>p.
     rbind (rmap validate_memory_observation observations) (\<lambda>ms.
     rbind (raise_if (observation_relations p ms)) (\<lambda>_.
     rbind (memory_fields (memory_summary p ms)) (\<lambda>_. Inr (memory_summary p ms))))))"

definition memory_inputs :: "memory_receipt \<Rightarrow> memory_policy \<times> memory_observation list" where
  "memory_inputs r = (mr_policy r, mr_observations r)"

definition memory_derived :: "memory_receipt \<Rightarrow> bool list \<times> string" where
  "memory_derived r =
     ([mr_persistence_observed r, mr_cross_user_isolation_observed r, mr_deletion_enforced r, mr_ttl_enforced r,
       mr_poison_rejected r, mr_accepted r], mr_receipt_root r)"

definition memory_mismatch :: "bool list \<times> string \<Rightarrow> bool list \<times> string \<Rightarrow> string" where
  "memory_mismatch d e =
     (if fst d \<noteq> fst e then ''memory assurance receipt metrics do not recompute''
      else ''memory assurance receipt root mismatch'')"

definition verify_memory_receipt :: "memory_receipt \<Rightarrow> error + memory_receipt" where
  "verify_memory_receipt = verify_recomputed memory_fields create_memory_receipt memory_inputs memory_derived memory_mismatch"

lemma validate_memory_policy_id: "validate_memory_policy p = Inr q \<Longrightarrow> q = p"
  by (auto simp: validate_memory_policy_def rbind_Inr)

lemma validate_memory_observation_id: "validate_memory_observation p = Inr q \<Longrightarrow> q = p"
  by (auto simp: validate_memory_observation_def rbind_Inr)

lemma create_memory_Inr:
  assumes "create_memory_receipt (p, ms) = Inr r"
  shows "r = memory_summary p ms \<and> memory_fields r = Inr () \<and> validate_memory_policy p = Inr p \<and>
    rmap validate_memory_observation ms = Inr ms \<and> raise_if (observation_relations p ms) = Inr ()"
proof -
  from assms obtain q ns where x: "validate_memory_policy p = Inr q" "rmap validate_memory_observation ms = Inr ns"
    "raise_if (observation_relations q ns) = Inr ()" "memory_fields (memory_summary q ns) = Inr ()" "r = memory_summary q ns"
    unfolding create_memory_receipt_def rbind_Inr prod.case by auto
  have "q = p" "ns = ms"
    using validate_memory_policy_id [OF x(1)] rmap_id [OF validate_memory_observation_id x(2)] by simp_all
  with x show ?thesis by simp
qed

lemma memory_summary_fields [simp]:
  "mr_policy (memory_summary p ms) = p" "mr_observations (memory_summary p ms) = ms"
  "mr_accepted (memory_summary p ms) = memory_accepted p ms"
  by (simp_all add: memory_summary_def Let_def)

interpretation memory_receipts: recomputed memory_fields create_memory_receipt memory_inputs memory_derived
  memory_mismatch verify_memory_receipt
proof
  show "verify_memory_receipt r = verify_recomputed memory_fields create_memory_receipt memory_inputs memory_derived
      memory_mismatch r" for r
    by (simp add: verify_memory_receipt_def)
  show "memory_inputs r = i \<and> memory_fields r = Inr ()" if "create_memory_receipt i = Inr r" for i r
    using create_memory_Inr [of "fst i" "snd i" r] that by (cases i) (auto simp: memory_inputs_def)
  show "r = s" if "memory_inputs r = memory_inputs s" "memory_derived r = memory_derived s" for r s
    using that by (cases r; cases s) (simp add: memory_inputs_def memory_derived_def)
qed

end
