(* ===== verification/DistributedEffects.thy ===== *)
theory DistributedEffects
  imports Recomputed
begin

section \<open>Distributed side effects (\<open>side_effect/distributed.py\<close>)\<close>

text \<open>
  The attempts of several workers and deliveries at one logical operation are judged against a
  policy: which causes were observed, how many physical mutations were committed. One committed
  mutation may be acknowledged by the target system.
\<close>

datatype attempt_cause = CAUSE_INITIAL | CONCURRENT_DUPLICATE | TIMEOUT_RETRY | CANCELLATION_RETRY
  | CRASH_RECOVERY | QUEUE_REDELIVERY | MULTI_WORKER_RACE

fun cause_value :: "attempt_cause \<Rightarrow> string" where
  "cause_value CAUSE_INITIAL = ''initial''"
| "cause_value CONCURRENT_DUPLICATE = ''concurrent-duplicate''"
| "cause_value TIMEOUT_RETRY = ''timeout-retry''"
| "cause_value CANCELLATION_RETRY = ''cancellation-retry''"
| "cause_value CRASH_RECOVERY = ''crash-recovery''"
| "cause_value QUEUE_REDELIVERY = ''queue-redelivery''"
| "cause_value MULTI_WORKER_RACE = ''multi-worker-race''"

datatype attempt_outcome = COMMITTED | DUPLICATE_REJECTED | TIMED_OUT | CANCELLED | CRASHED | ROLLED_BACK

fun effect_outcome_value :: "attempt_outcome \<Rightarrow> string" where
  "effect_outcome_value COMMITTED = ''committed''"
| "effect_outcome_value DUPLICATE_REJECTED = ''duplicate-rejected''"
| "effect_outcome_value TIMED_OUT = ''timed-out''"
| "effect_outcome_value CANCELLED = ''cancelled''"
| "effect_outcome_value CRASHED = ''crashed''"
| "effect_outcome_value ROLLED_BACK = ''rolled-back''"

record distributed_policy =
  dp_required_causes :: "attempt_cause set"
  dp_max_committed :: int
  dp_unique_transaction :: bool
  dp_unique_delivery_ids :: bool
  dp_duplicate_rejection :: bool

record delivery_attempt =
  da_operation_identity :: string
  da_key_sha256 :: string
  da_attempt_id :: string
  da_worker_id :: string
  da_delivery_id :: string
  da_cause :: attempt_cause
  da_outcome :: attempt_outcome
  da_transaction_id :: "string option"
  da_mutation_sha256 :: "string option"
  da_started_tick :: int
  da_completed_tick :: int

record distributed_receipt =
  dr_policy :: distributed_policy
  dr_attempts :: "delivery_attempt list"
  dr_committed :: int
  dr_covered :: "attempt_cause list"
  dr_accepted :: bool
  dr_receipt_root :: string

definition distributed_policy_schema :: string where
  "distributed_policy_schema = ''agent-evals/distributed-side-effect-policy/v1''"

definition distributed_schema :: string where
  "distributed_schema = ''agent-evals/distributed-side-effect-receipt/v1''"

definition distributed_domain :: string where
  "distributed_domain = ''agent-evals/distributed-side-effect-receipt/v1'' @ [CHR 0x00]"

definition validate_distributed_policy :: "distributed_policy \<Rightarrow> error + distributed_policy" where
  "validate_distributed_policy p = rbind (raise_if
     (int_field ''max_committed_mutations'' 0 (Some 10) (dp_max_committed p)
      @ [(dp_required_causes p = {}, verr ''distributed side-effect policy requires attempt-cause coverage'')])) (\<lambda>_. Inr p)"

definition attempt_shape :: "delivery_attempt \<Rightarrow> (bool \<times> error) list" where
  "attempt_shape a =
     [(da_completed_tick a < da_started_tick a, verr ''side-effect attempt cannot complete before it starts''),
      (da_outcome a = COMMITTED \<and> (da_transaction_id a = None \<or> da_mutation_sha256 a = None),
       verr ''committed side effect requires transaction and mutation identity''),
      (da_outcome a \<noteq> COMMITTED \<and> da_mutation_sha256 a \<noteq> None,
       verr ''non-committed side-effect attempt cannot claim physical mutation'')]"

definition validate_delivery_attempt :: "delivery_attempt \<Rightarrow> error + delivery_attempt" where
  "validate_delivery_attempt a = rbind (raise_if
     (sha_field ''operation_identity'' (da_operation_identity a) @ sha_field ''idempotency_key_sha256'' (da_key_sha256 a)
      @ name_field ''attempt_id'' (da_attempt_id a) @ text_field ''worker_id'' 256 (da_worker_id a)
      @ text_field ''delivery_id'' 256 (da_delivery_id a)
      @ opt_text_field ''transaction_id'' 256 (da_transaction_id a)
      @ opt_sha_field ''mutation_sha256'' (da_mutation_sha256 a)
      @ int_field ''started_tick'' 0 None (da_started_tick a) @ int_field ''completed_tick'' 0 None (da_completed_tick a)
      @ attempt_shape a)) (\<lambda>_. Inr a)"

subsection \<open>The judgment\<close>

definition commits :: "delivery_attempt list \<Rightarrow> delivery_attempt list" where
  "commits = filter (\<lambda>a. da_outcome a = COMMITTED)"

definition all_causes :: "attempt_cause list" where
  "all_causes = [CANCELLATION_RETRY, CONCURRENT_DUPLICATE, CRASH_RECOVERY, CAUSE_INITIAL, MULTI_WORKER_RACE,
     QUEUE_REDELIVERY, TIMEOUT_RETRY]"

text \<open>\<open>sorted({item.cause ...}, key=value)\<close>: \<open>all_causes\<close> lists the causes by their values.\<close>

definition covered_causes :: "delivery_attempt list \<Rightarrow> attempt_cause list" where
  "covered_causes as = filter (\<lambda>c. c \<in> set (map da_cause as)) all_causes"

definition safe_outcomes :: "attempt_outcome list" where
  "safe_outcomes = [DUPLICATE_REJECTED, TIMED_OUT, CANCELLED, CRASHED, ROLLED_BACK]"

definition duplicate_causes :: "attempt_cause list" where
  "duplicate_causes = [CONCURRENT_DUPLICATE, TIMEOUT_RETRY, CANCELLATION_RETRY, CRASH_RECOVERY, QUEUE_REDELIVERY,
     MULTI_WORKER_RACE]"

definition duplicates_safe :: "distributed_policy \<Rightarrow> delivery_attempt list \<Rightarrow> bool" where
  "duplicates_safe p as \<longleftrightarrow> \<not> dp_duplicate_rejection p \<or>
     list_all (\<lambda>a. da_outcome a \<in> set safe_outcomes)
       (filter (\<lambda>a. da_outcome a \<noteq> COMMITTED) (filter (\<lambda>a. da_cause a \<in> set duplicate_causes) as))"

definition distributed_accepted :: "distributed_policy \<Rightarrow> delivery_attempt list \<Rightarrow> bool" where
  "distributed_accepted p as \<longleftrightarrow>
     dp_required_causes p \<subseteq> set (covered_causes as) \<and> int (length (commits as)) \<le> dp_max_committed p \<and>
     duplicates_safe p as"

definition distributed_policy_json :: "distributed_policy \<Rightarrow> json" where
  "distributed_policy_json p = JObj
     [(''schema_version'', JStr distributed_policy_schema),
      (''required_causes'', JArr (map JStr (py_sorted (cause_value ` dp_required_causes p)))),
      (''max_committed_mutations'', JInt (dp_max_committed p)),
      (''require_unique_transaction'', JBool (dp_unique_transaction p)),
      (''require_unique_delivery_ids'', JBool (dp_unique_delivery_ids p)),
      (''require_duplicate_rejection'', JBool (dp_duplicate_rejection p))]"

definition delivery_attempt_json :: "delivery_attempt \<Rightarrow> json" where
  "delivery_attempt_json a = JObj
     [(''operation_identity'', JStr (da_operation_identity a)), (''idempotency_key_sha256'', JStr (da_key_sha256 a)),
      (''attempt_id'', JStr (da_attempt_id a)), (''worker_id'', JStr (da_worker_id a)),
      (''delivery_id'', JStr (da_delivery_id a)), (''cause'', JStr (cause_value (da_cause a))),
      (''outcome'', JStr (effect_outcome_value (da_outcome a))), (''transaction_id'', opt_str (da_transaction_id a)),
      (''mutation_sha256'', opt_str (da_mutation_sha256 a)), (''started_tick'', JInt (da_started_tick a)),
      (''completed_tick'', JInt (da_completed_tick a))]"

definition distributed_material :: "distributed_receipt \<Rightarrow> json" where
  "distributed_material r = JObj
     [(''schema_version'', JStr distributed_schema), (''policy'', distributed_policy_json (dr_policy r)),
      (''attempts'', JArr (map delivery_attempt_json (dr_attempts r))),
      (''committed_mutations'', JInt (dr_committed r)),
      (''covered_causes'', JArr (map (JStr \<circ> cause_value) (dr_covered r))), (''accepted'', JBool (dr_accepted r))]"

definition distributed_root :: "distributed_receipt \<Rightarrow> string" where
  "distributed_root r = domain_root distributed_domain (distributed_material r)"

definition distributed_fields :: "distributed_receipt \<Rightarrow> error + unit" where
  "distributed_fields r = raise_if
     (count_field ''attempts'' 1 10000 (dr_attempts r) @ int_field ''committed_mutations'' 0 (Some 10000) (dr_committed r)
      @ sha_field ''receipt_root'' (dr_receipt_root r))"

definition distributed_summary :: "distributed_policy \<Rightarrow> delivery_attempt list \<Rightarrow> distributed_receipt" where
  "distributed_summary p as =
     (let r = \<lparr>dr_policy = p, dr_attempts = as, dr_committed = int (length (commits as)),
               dr_covered = covered_causes as, dr_accepted = distributed_accepted p as, dr_receipt_root = []\<rparr>
      in r\<lparr>dr_receipt_root := distributed_root r\<rparr>)"

definition attempt_relations :: "distributed_policy \<Rightarrow> delivery_attempt list \<Rightarrow> (bool \<times> error) list" where
  "attempt_relations p as =
     [(as = [], vale ''distributed side-effect receipt requires attempts''),
      (card (set (map da_operation_identity as)) \<noteq> 1 \<or> card (set (map da_key_sha256 as)) \<noteq> 1,
       vale ''distributed side-effect attempts must bind one operation and idempotency key''),
      (\<not> distinct (map da_attempt_id as), vale ''distributed side-effect attempt IDs must be unique''),
      (dp_unique_delivery_ids p \<and> \<not> distinct (map da_delivery_id as),
       vale ''distributed side-effect delivery IDs must be unique''),
      (dp_unique_transaction p \<and> \<not> distinct (map da_transaction_id (commits as)),
       vale ''committed side effects must have unique transaction identities'')]"

definition create_distributed :: "distributed_policy \<times> delivery_attempt list \<Rightarrow> error + distributed_receipt" where
  "create_distributed = (\<lambda>(policy, attempts).
     rbind (validate_distributed_policy policy) (\<lambda>p.
     rbind (rmap validate_delivery_attempt attempts) (\<lambda>as.
     rbind (raise_if (attempt_relations p as)) (\<lambda>_.
     rbind (distributed_fields (distributed_summary p as)) (\<lambda>_. Inr (distributed_summary p as))))))"

definition distributed_inputs :: "distributed_receipt \<Rightarrow> distributed_policy \<times> delivery_attempt list" where
  "distributed_inputs r = (dr_policy r, dr_attempts r)"

definition distributed_derived :: "distributed_receipt \<Rightarrow> int \<times> attempt_cause list \<times> bool \<times> string" where
  "distributed_derived r = (dr_committed r, dr_covered r, dr_accepted r, dr_receipt_root r)"

definition distributed_mismatch ::
  "int \<times> attempt_cause list \<times> bool \<times> string \<Rightarrow> int \<times> attempt_cause list \<times> bool \<times> string \<Rightarrow> string" where
  "distributed_mismatch d e = ''distributed side-effect receipt does not recompute''"

definition verify_distributed :: "distributed_receipt \<Rightarrow> error + distributed_receipt" where
  "verify_distributed = verify_recomputed distributed_fields create_distributed distributed_inputs distributed_derived
     distributed_mismatch"

subsection \<open>The acknowledgement of the target\<close>

record target_acknowledgement =
  ta_target_system_identity :: string
  ta_operation_identity :: string
  ta_effect_sha256 :: string
  ta_acknowledgement_id :: string
  ta_key_sha256 :: string
  ta_algorithm :: string
  ta_verified :: bool
  ta_observed_at :: int
  ta_acknowledgement_root :: string

definition acknowledgement_schema :: string where
  "acknowledgement_schema = ''agent-evals/target-effect-acknowledgement/v1''"

definition acknowledgement_domain :: string where
  "acknowledgement_domain = ''agent-evals/target-effect-acknowledgement/v1'' @ [CHR 0x00]"

definition acknowledgement_dict :: "target_acknowledgement \<Rightarrow> dict" where
  "acknowledgement_dict t =
     [(''schema_version'', JStr acknowledgement_schema), (''target_system_identity'', JStr (ta_target_system_identity t)),
      (''operation_identity'', JStr (ta_operation_identity t)), (''effect_sha256'', JStr (ta_effect_sha256 t)),
      (''acknowledgement_id'', JStr (ta_acknowledgement_id t)),
      (''verification_key_sha256'', JStr (ta_key_sha256 t)), (''algorithm'', JStr (ta_algorithm t)),
      (''cryptographically_verified'', JBool (ta_verified t)), (''observed_at_unix_ms'', JInt (ta_observed_at t))]"

definition acknowledgement_root :: "target_acknowledgement \<Rightarrow> string" where
  "acknowledgement_root t = domain_root acknowledgement_domain (JObj (acknowledgement_dict t))"

definition validate_acknowledgement :: "target_acknowledgement \<Rightarrow> error + target_acknowledgement" where
  "validate_acknowledgement t = rbind (raise_if
     (text_field ''target_system_identity'' 512 (ta_target_system_identity t)
      @ sha_field ''operation_identity'' (ta_operation_identity t) @ sha_field ''effect_sha256'' (ta_effect_sha256 t)
      @ text_field ''acknowledgement_id'' 256 (ta_acknowledgement_id t)
      @ sha_field ''verification_key_sha256'' (ta_key_sha256 t) @ text_field ''algorithm'' 128 (ta_algorithm t)
      @ int_field ''observed_at_unix_ms'' 0 (Some max_unix_ms) (ta_observed_at t)
      @ sha_field ''acknowledgement_root'' (ta_acknowledgement_root t)
      @ [(ta_acknowledgement_root t \<noteq> acknowledgement_root t, verr ''target effect acknowledgement root mismatch'')]))
     (\<lambda>_. Inr t)"

definition create_acknowledgement :: "target_acknowledgement \<Rightarrow> error + target_acknowledgement" where
  "create_acknowledgement t = validate_acknowledgement (t\<lparr>ta_acknowledgement_root := acknowledgement_root t\<rparr>)"

definition acknowledges :: "target_acknowledgement \<Rightarrow> delivery_attempt \<Rightarrow> bool" where
  "acknowledges t a \<longleftrightarrow> ta_operation_identity t = da_operation_identity a \<and>
     Some (ta_effect_sha256 t) = da_mutation_sha256 a"

definition verify_target_acknowledgement :: "distributed_receipt \<Rightarrow> target_acknowledgement \<Rightarrow> error + unit" where
  "verify_target_acknowledgement receipt acknowledgement =
     rbind (verify_distributed receipt) (\<lambda>r.
     rbind (validate_acknowledgement acknowledgement) (\<lambda>t.
     if \<not> ta_verified t then Inl (vale ''target acknowledgement lacks external cryptographic verification'')
     else if length (commits (dr_attempts r)) \<noteq> 1
     then Inl (vale ''target acknowledgement requires exactly one committed side effect'')
     else if \<not> acknowledges t (hd (commits (dr_attempts r)))
     then Inl (vale ''target acknowledgement does not bind the committed side effect'')
     else Inr ()))"

subsection \<open>The receipt recomputes\<close>

lemma covered_causes_set [simp]: "set (covered_causes as) = da_cause ` set as"
proof -
  have "c \<in> set all_causes" for c by (cases c) (simp_all add: all_causes_def)
  then show ?thesis by (auto simp: covered_causes_def)
qed

lemma safe_outcomes_all: "x \<in> set safe_outcomes \<longleftrightarrow> x \<noteq> COMMITTED"
  by (cases x) (simp_all add: safe_outcomes_def)

text \<open>Every outcome but \<open>COMMITTED\<close> is a safe one: rejecting duplicates asks for nothing.\<close>

lemma duplicates_safe_vacuous [simp]: "duplicates_safe p as"
  by (simp add: duplicates_safe_def safe_outcomes_all list_all_iff)

lemma validate_distributed_policy_id: "validate_distributed_policy p = Inr q \<Longrightarrow> q = p"
  by (auto simp: validate_distributed_policy_def rbind_Inr)

lemma validate_delivery_attempt_id: "validate_delivery_attempt p = Inr q \<Longrightarrow> q = p"
  by (auto simp: validate_delivery_attempt_def rbind_Inr)

lemma validate_acknowledgement_id: "validate_acknowledgement p = Inr q \<Longrightarrow> q = p"
  by (auto simp: validate_acknowledgement_def rbind_Inr)

lemma create_distributed_Inr:
  assumes "create_distributed (p, as) = Inr r"
  shows "r = distributed_summary p as \<and> distributed_fields r = Inr () \<and> validate_distributed_policy p = Inr p \<and>
    rmap validate_delivery_attempt as = Inr as \<and> raise_if (attempt_relations p as) = Inr ()"
proof -
  from assms obtain q bs where x: "validate_distributed_policy p = Inr q" "rmap validate_delivery_attempt as = Inr bs"
    "raise_if (attempt_relations q bs) = Inr ()" "distributed_fields (distributed_summary q bs) = Inr ()"
    "r = distributed_summary q bs"
    unfolding create_distributed_def rbind_Inr prod.case by auto
  have "q = p" "bs = as"
    using validate_distributed_policy_id [OF x(1)] rmap_id [OF validate_delivery_attempt_id x(2)] by simp_all
  with x show ?thesis by simp
qed

lemma distributed_summary_fields [simp]:
  "dr_policy (distributed_summary p as) = p" "dr_attempts (distributed_summary p as) = as"
  "dr_accepted (distributed_summary p as) = distributed_accepted p as"
  "dr_committed (distributed_summary p as) = int (length (commits as))"
  by (simp_all add: distributed_summary_def Let_def)

interpretation distributed_receipts: recomputed distributed_fields create_distributed distributed_inputs distributed_derived
  distributed_mismatch verify_distributed
proof
  show "verify_distributed r = verify_recomputed distributed_fields create_distributed distributed_inputs
      distributed_derived distributed_mismatch r" for r
    by (simp add: verify_distributed_def)
  show "distributed_inputs r = i \<and> distributed_fields r = Inr ()" if "create_distributed i = Inr r" for i r
    using create_distributed_Inr [of "fst i" "snd i" r] that by (cases i) (auto simp: distributed_inputs_def)
  show "r = s" if "distributed_inputs r = distributed_inputs s" "distributed_derived r = distributed_derived s" for r s
    using that by (simp add: distributed_inputs_def distributed_derived_def)
qed

text \<open>The committed attempt an acknowledged receipt has.\<close>

lemma acknowledged_once:
  assumes "verify_target_acknowledgement r t = Inr ()"
  shows "\<exists>a. commits (dr_attempts r) = [a] \<and> acknowledges t a \<and> ta_verified t \<and> validate_acknowledgement t = Inr t \<and>
    verify_distributed r = Inr r"
proof -
  from assms obtain r' t' where x: "verify_distributed r = Inr r'" "validate_acknowledgement t = Inr t'" "ta_verified t'"
    "length (commits (dr_attempts r')) = 1" "acknowledges t' (hd (commits (dr_attempts r')))"
    unfolding verify_target_acknowledgement_def rbind_Inr by (auto split: if_splits)
  have e: "r' = r" "t' = t"
    using distributed_receipts.verify_Inr x(1) validate_acknowledgement_id [OF x(2)] by auto
  obtain a where "commits (dr_attempts r) = [a]" using x(4) unfolding e by (cases "commits (dr_attempts r)") auto
  with x show ?thesis unfolding e by simp
qed

end
