(* ===== verification/RetrievalPipeline.thy ===== *)
theory RetrievalPipeline
  imports Recomputed "HOL-Library.Multiset"
begin

section \<open>Production retrieval (\<open>retrieval/production.py\<close>)\<close>

text \<open>
  The ranked documents a retrieval pipeline returned are judged against a policy: the tenant, the
  collections, the labels, the lifecycle, the scores its mode needs, citations, the order of a
  reranker. Every deviation is a violation; the receipt is accepted when there is none.
\<close>

datatype retrieval_mode = LEXICAL | VECTOR | HYBRID

fun mode_value :: "retrieval_mode \<Rightarrow> string" where
  "mode_value LEXICAL = ''lexical''"
| "mode_value VECTOR = ''vector''"
| "mode_value HYBRID = ''hybrid''"

datatype document_lifecycle = ACTIVE | TOMBSTONED | EXPIRED

fun lifecycle_value :: "document_lifecycle \<Rightarrow> string" where
  "lifecycle_value ACTIVE = ''active''"
| "lifecycle_value TOMBSTONED = ''tombstoned''"
| "lifecycle_value EXPIRED = ''expired''"

datatype pipeline_violation = WRONG_TENANT | WRONG_COLLECTION | FILTER_MISMATCH | INACTIVE_DOCUMENT
  | MISSING_VECTOR_SCORE | MISSING_LEXICAL_SCORE | RERANK_ORDER | MISSING_CITATION | MISSING_REWRITE | MISSING_RERANKER

fun violation_value :: "pipeline_violation \<Rightarrow> string" where
  "violation_value WRONG_TENANT = ''wrong-tenant''"
| "violation_value WRONG_COLLECTION = ''wrong-collection''"
| "violation_value FILTER_MISMATCH = ''filter-mismatch''"
| "violation_value INACTIVE_DOCUMENT = ''inactive-document''"
| "violation_value MISSING_VECTOR_SCORE = ''missing-vector-score''"
| "violation_value MISSING_LEXICAL_SCORE = ''missing-lexical-score''"
| "violation_value RERANK_ORDER = ''rerank-order''"
| "violation_value MISSING_CITATION = ''missing-citation''"
| "violation_value MISSING_REWRITE = ''missing-rewrite''"
| "violation_value MISSING_RERANKER = ''missing-reranker''"

text \<open>The violations by their values.\<close>

definition all_violations :: "pipeline_violation list" where
  "all_violations = [FILTER_MISMATCH, INACTIVE_DOCUMENT, MISSING_CITATION, MISSING_LEXICAL_SCORE, MISSING_RERANKER,
     MISSING_REWRITE, MISSING_VECTOR_SCORE, RERANK_ORDER, WRONG_COLLECTION, WRONG_TENANT]"

record pipeline_policy =
  pp_tenant_id :: string
  pp_mode :: retrieval_mode
  pp_top_k :: int
  pp_allowed_collections :: "string set"
  pp_required_labels :: "string set"
  pp_require_query_rewrite :: bool
  pp_require_reranker :: bool
  pp_require_citations :: bool

record retrieved_document =
  rd_document_id :: string
  rd_tenant_id :: string
  rd_collection :: string
  rd_labels :: "string set"
  rd_lifecycle :: document_lifecycle
  rd_rank :: int
  rd_lexical_score :: "int option"
  rd_vector_score_micros :: "int option"
  rd_rerank_score :: "int option"
  rd_content_sha256 :: string
  rd_citation_uri :: "string option"

record pipeline_inputs =
  pi_policy :: pipeline_policy
  pi_documents :: "retrieved_document list"
  pi_query_sha256 :: string
  pi_rewritten_query_sha256 :: "string option"
  pi_reranker_identity :: "string option"

record pipeline_receipt =
  pr_inputs :: pipeline_inputs
  pr_violations :: "pipeline_violation list"
  pr_accepted :: bool
  pr_receipt_root :: string

definition pipeline_policy_schema :: string where
  "pipeline_policy_schema = ''agent-evals/retrieval-pipeline-policy/v1''"

definition document_schema :: string where
  "document_schema = ''agent-evals/retrieved-document-observation/v1''"

definition pipeline_schema :: string where
  "pipeline_schema = ''agent-evals/retrieval-pipeline-receipt/v1''"

definition pipeline_domain :: string where
  "pipeline_domain = ''agent-evals/retrieval-pipeline-receipt/v1'' @ [CHR 0x00]"

definition untrimmed_label :: "string \<Rightarrow> bool" where
  "untrimmed_label s \<longleftrightarrow> py_strip s = [] \<or> s \<noteq> py_strip s"

definition validate_pipeline_policy :: "pipeline_policy \<Rightarrow> error + pipeline_policy" where
  "validate_pipeline_policy p = rbind (raise_if
     (text_field ''tenant_id'' 256 (pp_tenant_id p) @ int_field ''top_k'' 1 (Some 1000) (pp_top_k p)
      @ [(pp_allowed_collections p = {}, verr ''allowed_collections: length''),
         ((\<exists>s\<in>pp_allowed_collections p. untrimmed_label s) \<or> (\<exists>s\<in>pp_required_labels p. untrimmed_label s),
          verr ''retrieval policy labels must be trimmed non-empty strings'')])) (\<lambda>_. Inr p)"

definition validate_document :: "retrieved_document \<Rightarrow> error + retrieved_document" where
  "validate_document d = rbind (raise_if
     (text_field ''document_id'' 512 (rd_document_id d) @ text_field ''tenant_id'' 256 (rd_tenant_id d)
      @ text_field ''collection'' 256 (rd_collection d)
      @ [((\<exists>s\<in>rd_labels d. untrimmed_label s), verr ''retrieval document labels must be trimmed non-empty strings'')]
      @ int_field ''rank'' 1 (Some 100000) (rd_rank d)
      @ opt_int_field ''lexical_score'' 0 (Some (2 ^ 63 - 1)) (rd_lexical_score d)
      @ opt_int_field ''vector_score_micros'' (- 1000000) (Some 1000000) (rd_vector_score_micros d)
      @ opt_int_field ''rerank_score'' (- (2 ^ 63)) (Some (2 ^ 63 - 1)) (rd_rerank_score d)
      @ sha_field ''content_sha256'' (rd_content_sha256 d)
      @ opt_text_field ''citation_uri'' 4096 (rd_citation_uri d))) (\<lambda>_. Inr d)"

subsection \<open>The violations\<close>

text \<open>One turn of the loop over the documents.\<close>

definition document_violations :: "pipeline_policy \<Rightarrow> retrieved_document \<Rightarrow> pipeline_violation set" where
  "document_violations p d =
     (if rd_tenant_id d \<noteq> pp_tenant_id p then {WRONG_TENANT} else {})
     \<union> (if rd_collection d \<notin> pp_allowed_collections p then {WRONG_COLLECTION} else {})
     \<union> (if \<not> pp_required_labels p \<subseteq> rd_labels d then {FILTER_MISMATCH} else {})
     \<union> (if rd_lifecycle d \<noteq> ACTIVE then {INACTIVE_DOCUMENT} else {})
     \<union> (if pp_mode p \<in> {VECTOR, HYBRID} \<and> rd_vector_score_micros d = None then {MISSING_VECTOR_SCORE} else {})
     \<union> (if pp_mode p \<in> {LEXICAL, HYBRID} \<and> rd_lexical_score d = None then {MISSING_LEXICAL_SCORE} else {})
     \<union> (if pp_require_citations p \<and> rd_citation_uri d = None then {MISSING_CITATION} else {})"

definition query_violations :: "pipeline_inputs \<Rightarrow> pipeline_violation set" where
  "query_violations q =
     (if pp_require_query_rewrite (pi_policy q) \<and> pi_rewritten_query_sha256 q = None then {MISSING_REWRITE} else {})
     \<union> (if pp_require_reranker (pi_policy q) \<and> pi_reranker_identity q = None then {MISSING_RERANKER} else {})"

definition rerank_violations :: "pipeline_inputs \<Rightarrow> pipeline_violation set" where
  "rerank_violations q =
     (let scores = map rd_rerank_score (pi_documents q); concrete = map the (filter (\<lambda>s. s \<noteq> None) scores) in
      if \<not> (pp_require_reranker (pi_policy q) \<and> pi_documents q \<noteq> []) then {}
      else if list_ex (\<lambda>s. s = None) scores then {RERANK_ORDER}
      else if concrete \<noteq> rev (sort concrete) then {RERANK_ORDER} else {})"

definition violations_found :: "pipeline_inputs \<Rightarrow> pipeline_violation set" where
  "violations_found q =
     fold (\<lambda>d vs. vs \<union> document_violations (pi_policy q) d) (pi_documents q) (query_violations q) \<union> rerank_violations q"

definition pipeline_violations :: "pipeline_inputs \<Rightarrow> pipeline_violation list" where
  "pipeline_violations q = (let vs = violations_found q in filter (\<lambda>v. v \<in> vs) all_violations)"

subsection \<open>The receipt\<close>

definition pipeline_policy_json :: "pipeline_policy \<Rightarrow> json" where
  "pipeline_policy_json p = JObj
     [(''schema_version'', JStr pipeline_policy_schema), (''tenant_id'', JStr (pp_tenant_id p)),
      (''mode'', JStr (mode_value (pp_mode p))), (''top_k'', JInt (pp_top_k p)),
      (''allowed_collections'', JArr (map JStr (py_sorted (pp_allowed_collections p)))),
      (''required_labels'', JArr (map JStr (py_sorted (pp_required_labels p)))),
      (''require_query_rewrite'', JBool (pp_require_query_rewrite p)),
      (''require_reranker'', JBool (pp_require_reranker p)), (''require_citations'', JBool (pp_require_citations p))]"

definition document_json :: "retrieved_document \<Rightarrow> json" where
  "document_json d = JObj
     [(''schema_version'', JStr document_schema), (''document_id'', JStr (rd_document_id d)),
      (''tenant_id'', JStr (rd_tenant_id d)), (''collection'', JStr (rd_collection d)),
      (''labels'', JArr (map JStr (py_sorted (rd_labels d)))), (''lifecycle'', JStr (lifecycle_value (rd_lifecycle d))),
      (''rank'', JInt (rd_rank d)), (''lexical_score'', opt_json (map_option JInt (rd_lexical_score d))),
      (''vector_score_micros'', opt_json (map_option JInt (rd_vector_score_micros d))),
      (''rerank_score'', opt_json (map_option JInt (rd_rerank_score d))),
      (''content_sha256'', JStr (rd_content_sha256 d)), (''citation_uri'', opt_str (rd_citation_uri d))]"

definition pipeline_material :: "pipeline_receipt \<Rightarrow> json" where
  "pipeline_material r = (let q = pr_inputs r in JObj
     [(''schema_version'', JStr pipeline_schema), (''policy'', pipeline_policy_json (pi_policy q)),
      (''documents'', JArr (map document_json (pi_documents q))), (''query_sha256'', JStr (pi_query_sha256 q)),
      (''rewritten_query_sha256'', opt_str (pi_rewritten_query_sha256 q)),
      (''reranker_identity'', opt_str (pi_reranker_identity q)),
      (''violations'', JArr (map (JStr \<circ> violation_value) (pr_violations r))), (''accepted'', JBool (pr_accepted r))])"

definition pipeline_root :: "pipeline_receipt \<Rightarrow> string" where
  "pipeline_root r = domain_root pipeline_domain (pipeline_material r)"

definition pipeline_fields :: "pipeline_receipt \<Rightarrow> error + unit" where
  "pipeline_fields r = (let q = pr_inputs r in raise_if
     (count_field ''documents'' 0 1000 (pi_documents q) @ sha_field ''query_sha256'' (pi_query_sha256 q)
      @ opt_sha_field ''rewritten_query_sha256'' (pi_rewritten_query_sha256 q)
      @ opt_text_field ''reranker_identity'' 512 (pi_reranker_identity q) @ sha_field ''receipt_root'' (pr_receipt_root r)))"

definition pipeline_summary :: "pipeline_inputs \<Rightarrow> pipeline_receipt" where
  "pipeline_summary q =
     (let vs = pipeline_violations q;
          r = \<lparr>pr_inputs = q, pr_violations = vs, pr_accepted = (vs = []), pr_receipt_root = []\<rparr>
      in r\<lparr>pr_receipt_root := pipeline_root r\<rparr>)"

definition document_relations :: "pipeline_policy \<Rightarrow> retrieved_document list \<Rightarrow> (bool \<times> error) list" where
  "document_relations p ds =
     [(int (length ds) > pp_top_k p, vale ''retrieval receipt contains more documents than top_k''),
      (\<not> distinct (map rd_document_id ds), vale ''retrieval receipt document IDs must be unique''),
      (map rd_rank ds \<noteq> map int [1..<length ds + 1], vale ''retrieval receipt ranks must be contiguous from 1'')]"

definition create_pipeline :: "pipeline_inputs \<Rightarrow> error + pipeline_receipt" where
  "create_pipeline q =
     rbind (validate_pipeline_policy (pi_policy q)) (\<lambda>p.
     rbind (rmap validate_document (pi_documents q)) (\<lambda>ds.
     rbind (raise_if (document_relations p ds)) (\<lambda>_.
     let r = pipeline_summary (q\<lparr>pi_policy := p, pi_documents := ds\<rparr>)
     in rbind (pipeline_fields r) (\<lambda>_. Inr r))))"

definition pipeline_derived :: "pipeline_receipt \<Rightarrow> pipeline_violation list \<times> bool \<times> string" where
  "pipeline_derived r = (pr_violations r, pr_accepted r, pr_receipt_root r)"

definition pipeline_mismatch ::
  "pipeline_violation list \<times> bool \<times> string \<Rightarrow> pipeline_violation list \<times> bool \<times> string \<Rightarrow> string" where
  "pipeline_mismatch d e = ''retrieval pipeline receipt does not recompute''"

definition verify_pipeline :: "pipeline_receipt \<Rightarrow> error + pipeline_receipt" where
  "verify_pipeline = verify_recomputed pipeline_fields create_pipeline pr_inputs pipeline_derived pipeline_mismatch"

subsection \<open>The receipt recomputes\<close>

lemma validate_pipeline_policy_id: "validate_pipeline_policy p = Inr q \<Longrightarrow> q = p"
  by (auto simp: validate_pipeline_policy_def rbind_Inr)

lemma validate_document_id: "validate_document p = Inr q \<Longrightarrow> q = p"
  by (auto simp: validate_document_def rbind_Inr)

lemma create_pipeline_Inr:
  assumes "create_pipeline q = Inr r"
  shows "r = pipeline_summary q \<and> pipeline_fields r = Inr () \<and> validate_pipeline_policy (pi_policy q) = Inr (pi_policy q) \<and>
    rmap validate_document (pi_documents q) = Inr (pi_documents q) \<and>
    raise_if (document_relations (pi_policy q) (pi_documents q)) = Inr ()"
proof -
  from assms obtain p ds where x: "validate_pipeline_policy (pi_policy q) = Inr p"
    "rmap validate_document (pi_documents q) = Inr ds" "raise_if (document_relations p ds) = Inr ()"
    "r = pipeline_summary (q\<lparr>pi_policy := p, pi_documents := ds\<rparr>)" "pipeline_fields r = Inr ()"
    unfolding create_pipeline_def Let_def rbind_Inr by auto
  have "p = pi_policy q" "ds = pi_documents q"
    using validate_pipeline_policy_id [OF x(1)] rmap_id [OF validate_document_id x(2)] by simp_all
  with x show ?thesis by simp
qed

lemma pipeline_summary_fields [simp]:
  "pr_inputs (pipeline_summary q) = q" "pr_violations (pipeline_summary q) = pipeline_violations q"
  "pr_accepted (pipeline_summary q) = (pipeline_violations q = [])"
  by (simp_all add: pipeline_summary_def Let_def)

interpretation pipeline_receipts: recomputed pipeline_fields create_pipeline pr_inputs pipeline_derived
  pipeline_mismatch verify_pipeline
proof
  show "verify_pipeline r = verify_recomputed pipeline_fields create_pipeline pr_inputs pipeline_derived
      pipeline_mismatch r" for r
    by (simp add: verify_pipeline_def)
  show "pr_inputs r = q \<and> pipeline_fields r = Inr ()" if "create_pipeline q = Inr r" for q r
    using create_pipeline_Inr [OF that] by auto
  show "r = s" if "pr_inputs r = pr_inputs s" "pipeline_derived r = pipeline_derived s" for r s
    using that by (simp add: pipeline_derived_def)
qed

subsection \<open>What an accepted pipeline delivered\<close>

definition document_conforms :: "pipeline_policy \<Rightarrow> retrieved_document \<Rightarrow> bool" where
  "document_conforms p d \<longleftrightarrow>
     rd_tenant_id d = pp_tenant_id p \<and> rd_collection d \<in> pp_allowed_collections p \<and>
     pp_required_labels p \<subseteq> rd_labels d \<and> rd_lifecycle d = ACTIVE \<and>
     (pp_mode p = LEXICAL \<or> rd_vector_score_micros d \<noteq> None) \<and>
     (pp_mode p = VECTOR \<or> rd_lexical_score d \<noteq> None) \<and>
     (\<not> pp_require_citations p \<or> rd_citation_uri d \<noteq> None)"

definition reranked :: "pipeline_inputs \<Rightarrow> bool" where
  "reranked q \<longleftrightarrow> pi_reranker_identity q \<noteq> None \<and> (\<exists>scores. map rd_rerank_score (pi_documents q) = map Some scores \<and>
     sorted_wrt (\<ge>) scores)"

lemma document_violations_none: "document_violations p d = {} \<longleftrightarrow> document_conforms p d"
  by (cases "pp_mode p") (auto simp: document_violations_def document_conforms_def)

lemma fold_violations: "fold (\<lambda>d vs. vs \<union> document_violations p d) ds vs = vs \<union> (\<Union>d\<in>set ds. document_violations p d)"
  by (induction ds arbitrary: vs) auto

lemma descending_iff: "xs = rev (sort xs) \<longleftrightarrow> sorted_wrt (\<ge>) (xs :: int list)"
proof
  assume "xs = rev (sort xs)"
  moreover have "sorted_wrt (\<ge>) (rev (sort xs))" by (simp add: sorted_wrt_rev)
  ultimately show "sorted_wrt (\<ge>) xs" by simp
next
  assume "sorted_wrt (\<ge>) xs"
  then have "sorted (rev xs)" by (simp add: sorted_wrt_rev)
  then have "sort (rev xs) = rev xs" by (rule sorted_sort_id)
  moreover have "sort (rev xs) = sort xs" by (simp flip: sorted_list_of_multiset_mset)
  ultimately show "xs = rev (sort xs)" by (metis rev_rev_ident)
qed

lemma all_Some: "ss = map Some cs \<longleftrightarrow> \<not> list_ex (\<lambda>s. s = None) ss \<and> map the (filter (\<lambda>s. s \<noteq> None) ss) = cs"
proof (induction ss arbitrary: cs)
  case (Cons s ss)
  then show ?case by (cases s; cases cs) auto
qed auto

lemma rerank_violations_none:
  assumes "pi_reranker_identity q \<noteq> None"
  shows "rerank_violations q = {} \<longleftrightarrow> \<not> pp_require_reranker (pi_policy q) \<or> reranked q"
proof -
  let ?ss = "map rd_rerank_score (pi_documents q)"
  let ?c = "map the (filter (\<lambda>s. s \<noteq> None) ?ss)"
  have "reranked q \<longleftrightarrow> \<not> list_ex (\<lambda>s. s = None) ?ss \<and> sorted_wrt (\<ge>) ?c"
    using assms unfolding reranked_def all_Some by blast
  then show ?thesis
    by (cases "pi_documents q = []") (simp_all add: rerank_violations_def Let_def descending_iff)
qed

lemma pipeline_violations_none:
  "pipeline_violations q = [] \<longleftrightarrow>
     list_all (document_conforms (pi_policy q)) (pi_documents q) \<and>
     (\<not> pp_require_query_rewrite (pi_policy q) \<or> pi_rewritten_query_sha256 q \<noteq> None) \<and>
     (\<not> pp_require_reranker (pi_policy q) \<or> reranked q)"
proof -
  have all: "v \<in> set all_violations" for v by (cases v) (simp_all add: all_violations_def)
  have "pipeline_violations q = [] \<longleftrightarrow> violations_found q = {}"
    unfolding pipeline_violations_def Let_def filter_empty_conv using all by auto
  also have "\<dots> \<longleftrightarrow> (\<forall>d\<in>set (pi_documents q). document_violations (pi_policy q) d = {}) \<and>
      query_violations q = {} \<and> rerank_violations q = {}"
    unfolding violations_found_def fold_violations by auto
  also have "\<dots> \<longleftrightarrow> list_all (document_conforms (pi_policy q)) (pi_documents q) \<and>
     (\<not> pp_require_query_rewrite (pi_policy q) \<or> pi_rewritten_query_sha256 q \<noteq> None) \<and>
     (\<not> pp_require_reranker (pi_policy q) \<or> reranked q)"
  proof (cases "pi_reranker_identity q")
    case None
    then have "\<not> reranked q" by (simp add: reranked_def)
    with None show ?thesis
      by (auto simp: query_violations_def document_violations_none list_all_iff rerank_violations_def)
  next
    case (Some i)
    then show ?thesis
      by (subst rerank_violations_none) (auto simp: query_violations_def document_violations_none list_all_iff)
  qed
  finally show ?thesis .
qed

end
