(* ===== verification/AssuranceProofs.thy ===== *)
theory AssuranceProofs
  imports ApprovalGovernance MemoryAssurance DistributedEffects RetrievalPipeline
begin

section \<open>What accepted assurance receipts mean\<close>

subsection \<open>Approvals\<close>

text \<open>An approval that may count towards the quorum.\<close>

definition qualifies :: "governance_inputs \<Rightarrow> human_approval \<Rightarrow> bool" where
  "qualifies g a \<longleftrightarrow>
     ha_verified a \<and> ha_method a \<in> gp_allowed_methods (gi_policy g) \<and> ha_approval_id a \<notin> gi_revoked g \<and>
     ha_observed_at a \<le> gi_evaluated_at g \<and> gi_evaluated_at g \<le> ha_observed_at a + gp_max_age_ms (gi_policy g) \<and>
     \<not> (gp_require_separation_of_duties (gi_policy g) \<and> ha_signer_id a = gi_requester_id g) \<and>
     (ha_delegated_by a = None \<or> gp_allow_delegation (gi_policy g) \<and>
        (\<exists>d\<in>set (gi_delegations g). dl_externally_verified d \<and> Some (dl_delegator_id d) = ha_delegated_by a \<and>
           dl_delegate_id d = ha_signer_id a \<and> dl_invocation_sha256 d = ha_invocation_sha256 a \<and>
           gi_evaluated_at g \<le> dl_expires_at d))"

lemma approval_counts_qualifies: "approval_counts g a \<Longrightarrow> qualifies g a"
proof -
  assume c: "approval_counts g a"
  have "\<exists>d\<in>set (gi_delegations g). dl_externally_verified d \<and> dl_delegator_id d = s \<and> dl_delegate_id d = ha_signer_id a \<and>
      dl_invocation_sha256 d = ha_invocation_sha256 a \<and> gi_evaluated_at g \<le> dl_expires_at d"
    if "length (delegations_of g a s) = 1" for s
  proof -
    from that obtain d where "d \<in> set (delegations_of g a s)" by (cases "delegations_of g a s") auto
    then show ?thesis by (auto simp: delegations_of_def)
  qed
  with c show ?thesis
    by (auto simp: approval_counts_def qualifies_def Let_def split: if_splits option.splits)
qed

text \<open>One approval of each signer.\<close>

lemma one_each:
  obtains as where "set as \<subseteq> set xs" "distinct (map f as)" "f ` set as = f ` set xs"
proof (induction xs arbitrary: thesis)
  case Nil
  then show ?case by (metis empty_set order_refl distinct.simps(1) list.map(1))
next
  case (Cons x xs)
  obtain as where a: "set as \<subseteq> set xs" "distinct (map f as)" "f ` set as = f ` set xs" using Cons.IH by blast
  show ?case
  proof (cases "f x \<in> f ` set as")
    case True
    show ?thesis by (rule Cons.prems [of as]) (use a True in \<open>auto simp: insert_absorb\<close>)
  next
    case False
    show ?thesis by (rule Cons.prems [of "x # as"]) (use a False in auto)
  qed
qed

lemma verified_governance:
  assumes "verify_governance r = Inr s"
  shows "s = r \<and> r = governance_summary (gv_inputs r) \<and> one_invocation (gi_approvals (gv_inputs r))"
  using assms create_governance_Inr [of "gv_inputs r" r] by (simp add: governance_receipts.verify_Inr)

lemma one_image:
  assumes "card (f ` A) = 1" "a \<in> A" "b \<in> A"
  shows "f a = f b"
proof -
  from assms(1) obtain x where "f ` A = {x}" by (rule card_1_singletonE)
  then have "f y = x" if "y \<in> A" for y using that by blast
  with assms(2,3) show ?thesis by simp
qed

lemma one_invocation_same:
  assumes "one_invocation as" "a \<in> set as" "b \<in> set as"
  shows "ha_invocation_sha256 a = ha_invocation_sha256 b \<and> ha_decision a = ha_decision b \<and>
    ha_scenario_identity a = ha_scenario_identity b"
  using assms(1) one_image [OF _ assms(2,3), of ha_scenario_identity] one_image [OF _ assms(2,3), of ha_invocation_sha256]
    one_image [OF _ assms(2,3), of ha_decision] by (simp add: one_invocation_def)

lemma quorum_of_signers:
  assumes "governance_accepted g"
  shows "\<exists>as. set as \<subseteq> set (gi_approvals g) \<and> distinct (map ha_signer_id as) \<and> gp_quorum (gi_policy g) \<le> int (length as) \<and>
    list_all (qualifies g) as"
proof -
  obtain as where a: "set as \<subseteq> set (counted g)" "distinct (map ha_signer_id as)"
      "ha_signer_id ` set as = ha_signer_id ` set (counted g)"
    by (rule one_each)
  have "length as = length (effective_signers g)"
    using distinct_card [OF a(2)] a(3) by (simp add: effective_signers_def)
  moreover have "list_all (qualifies g) as" using a(1) approval_counts_qualifies by (auto simp: list_all_iff counted_def)
  ultimately show ?thesis
    using a assms by (intro exI [of _ as]) (auto simp: governance_accepted_def counted_def)
qed

subsection \<open>Resumption\<close>

text \<open>Acceptance does not depend on when the duplicates were turned away.\<close>

lemma resume_order_irrelevant:
  assumes "mset as = mset bs"
  shows "resume_accepted as = resume_accepted bs"
proof -
  have "mset (completions as) = mset (completions bs)" using assms by (simp add: completions_def)
  then have "length (completions as) = length (completions bs)" by (metis size_mset)
  then show ?thesis using mset_eq_setD [OF assms] by (simp add: resume_accepted_def list_all_iff)
qed

subsection \<open>Memory\<close>

text \<open>One more observation leaves every property that was shown as it is, unless it is a poison attempt
  that succeeded, content given to another principal, or an earlier deletion.\<close>

definition harmless :: "memory_observation \<Rightarrow> bool" where
  "harmless m \<longleftrightarrow> is_read m \<and> same_principal m"

lemma shown_append:
  assumes "harmless m"
  shows "persistence_shown ms \<Longrightarrow> persistence_shown (ms @ [m])" "isolation_shown ms \<Longrightarrow> isolation_shown (ms @ [m])"
    "deletion_shown ms \<Longrightarrow> deletion_shown (ms @ [m])" "expiry_shown ms \<Longrightarrow> expiry_shown (ms @ [m])"
    "poison_refused ms \<Longrightarrow> poison_refused (ms @ [m])"
proof -
  have "deletions (ms @ [m]) = deletions ms" using assms by (simp add: deletions_def harmless_def is_read_def)
  then show "deletion_shown ms \<Longrightarrow> deletion_shown (ms @ [m])" by (auto simp: deletion_shown_def Let_def)
qed (use assms in \<open>auto simp: persistence_shown_def isolation_shown_def expiry_shown_def poison_refused_def harmless_def
     is_read_def\<close>)

lemma memory_accepted_append:
  "memory_accepted p ms \<Longrightarrow> harmless m \<Longrightarrow> memory_accepted p (ms @ [m])"
  unfolding memory_accepted_def using shown_append [of m ms] by blast

text \<open>What creating a memory receipt checks of the observations.\<close>

definition memory_relations :: "memory_policy \<Rightarrow> memory_observation list \<Rightarrow> bool" where
  "memory_relations p ms \<longleftrightarrow> ms \<noteq> [] \<and> sorted (map mo_tick ms) \<and> length ms \<le> 10000 \<and>
     list_all (\<lambda>m. validate_memory_observation m = Inr m \<and> mo_record_id m = mp_record_id p \<and>
       mo_content_sha256 m = mp_content_sha256 p \<and> mo_owner_tenant_id m = mp_owner_tenant_id p \<and>
       mo_owner_user_id m = mp_owner_user_id p) ms"

lemma sort_eq_iff: "xs = sort xs \<longleftrightarrow> sorted xs"
  by (metis sorted_sort sorted_sort_id)

lemma rmap_valid: "(\<And>x y. f x = Inr y \<Longrightarrow> y = x) \<Longrightarrow> rmap f xs = Inr xs \<longleftrightarrow> list_all (\<lambda>x. f x = Inr x) xs"
  by (simp add: rmap_Inr list_all2_same list_all_iff)

lemma memory_fields_summary: "memory_fields (memory_summary p ms) = Inr () \<longleftrightarrow> 1 \<le> length ms \<and> length ms \<le> 10000"
  by (auto simp: memory_fields_def raise_if_Inr_iff count_field_def sha_field_def memory_summary_def Let_def memory_root_def
      domain_root_def)

lemma create_memory_iff:
  "create_memory_receipt (p, ms) = Inr r \<longleftrightarrow>
     validate_memory_policy p = Inr p \<and> memory_relations p ms \<and> r = memory_summary p ms" (is "?l \<longleftrightarrow> ?r")
proof -
  have o: "raise_if (observation_relations p ms) = Inr () \<and> memory_fields (memory_summary p ms) = Inr () \<and>
      list_all (\<lambda>m. validate_memory_observation m = Inr m) ms \<longleftrightarrow> memory_relations p ms"
    unfolding memory_fields_summary memory_relations_def observation_relations_def raise_if_Inr_iff
    by (auto simp: sort_eq_iff list_all_iff list_ex_iff Suc_le_eq)
  show ?thesis
  proof
    assume ?l
    note c = create_memory_Inr [OF this]
    then have "list_all (\<lambda>m. validate_memory_observation m = Inr m) ms"
      by (simp add: rmap_valid [OF validate_memory_observation_id, symmetric])
    with c o show ?r by auto
  next
    assume r: ?r
    then have "rmap validate_memory_observation ms = Inr ms"
      using o by (simp add: rmap_valid [OF validate_memory_observation_id])
    with r o show ?l by (simp add: create_memory_receipt_def)
  qed
qed

subsection \<open>Distributed effects\<close>

lemma committed_iff_mutation:
  assumes "validate_delivery_attempt a = Inr b"
  shows "da_outcome a = COMMITTED \<longleftrightarrow> da_mutation_sha256 a \<noteq> None"
  using assms by (auto simp: validate_delivery_attempt_def attempt_shape_def rbind_Inr raise_if_Inr_iff)

text \<open>Exactly one of the attempts mutated the target, and the acknowledgement is of it.\<close>

definition one_mutation :: "delivery_attempt list \<Rightarrow> target_acknowledgement \<Rightarrow> bool" where
  "one_mutation as t \<longleftrightarrow> (\<exists>us a vs. as = us @ a # vs \<and> da_operation_identity a = ta_operation_identity t \<and>
     da_mutation_sha256 a = Some (ta_effect_sha256 t) \<and> list_all (\<lambda>x. da_mutation_sha256 x = None) (us @ vs))"

lemma commits_one:
  assumes "list_all (\<lambda>a. da_outcome a = COMMITTED \<longleftrightarrow> da_mutation_sha256 a \<noteq> None) as"
  shows "(\<exists>a. commits as = [a] \<and> acknowledges t a) \<longleftrightarrow> one_mutation as t"
proof
  assume "\<exists>a. commits as = [a] \<and> acknowledges t a"
  then obtain a where a: "filter (\<lambda>a. da_outcome a = COMMITTED) as = a # []" "acknowledges t a"
    by (auto simp: commits_def)
  from a(1) obtain us vs where x: "as = us @ a # vs" "\<forall>u\<in>set us. da_outcome u \<noteq> COMMITTED"
      "[] = filter (\<lambda>a. da_outcome a = COMMITTED) vs"
    unfolding filter_eq_Cons_iff by blast
  then have "list_all (\<lambda>x. da_mutation_sha256 x = None) (us @ vs)"
    using assms by (auto simp: list_all_iff filter_empty_conv eq_commute [of "[]"])
  with x a(2) show "one_mutation as t" unfolding one_mutation_def acknowledges_def by (metis (no_types))
next
  assume "one_mutation as t"
  then obtain us a vs where "as = us @ a # vs" "da_operation_identity a = ta_operation_identity t"
      "da_mutation_sha256 a = Some (ta_effect_sha256 t)" "list_all (\<lambda>x. da_mutation_sha256 x = None) (us @ vs)"
    unfolding one_mutation_def by blast
  with assms show "\<exists>a. commits as = [a] \<and> acknowledges t a"
    by (auto simp: commits_def acknowledges_def list_all_iff filter_empty_conv)
qed

lemma verified_attempts:
  assumes "verify_distributed r = Inr s"
  shows "s = r \<and> r = distributed_summary (dr_policy r) (dr_attempts r) \<and>
    list_all (\<lambda>a. da_outcome a = COMMITTED \<longleftrightarrow> da_mutation_sha256 a \<noteq> None) (dr_attempts r)"
proof -
  have c: "create_distributed (dr_policy r, dr_attempts r) = Inr r" "s = r"
    using assms by (simp_all add: distributed_receipts.verify_Inr distributed_inputs_def)
  then have "list_all (\<lambda>a. validate_delivery_attempt a = Inr a) (dr_attempts r)"
    using create_distributed_Inr [OF c(1)] by (simp add: rmap_valid [OF validate_delivery_attempt_id])
  then show ?thesis using create_distributed_Inr [OF c(1)] c(2) committed_iff_mutation by (simp add: list_all_iff)
qed

lemma acknowledgement_Inr:
  "verify_target_acknowledgement r t = Inr () \<longleftrightarrow>
     verify_distributed r = Inr r \<and> validate_acknowledgement t = Inr t \<and> ta_verified t \<and>
     (\<exists>a. commits (dr_attempts r) = [a] \<and> acknowledges t a)"
proof
  assume "verify_target_acknowledgement r t = Inr ()"
  then show "verify_distributed r = Inr r \<and> validate_acknowledgement t = Inr t \<and> ta_verified t \<and>
     (\<exists>a. commits (dr_attempts r) = [a] \<and> acknowledges t a)"
    using acknowledged_once by blast
qed (auto simp: verify_target_acknowledgement_def)

lemma distributed_accepted_iff:
  "distributed_accepted p as \<longleftrightarrow> dp_required_causes p \<subseteq> da_cause ` set as \<and> int (length (commits as)) \<le> dp_max_committed p"
  by (simp add: distributed_accepted_def)

subsection \<open>Production retrieval\<close>

definition pipeline_well_formed :: "pipeline_inputs \<Rightarrow> bool" where
  "pipeline_well_formed q \<longleftrightarrow>
     validate_pipeline_policy (pi_policy q) = Inr (pi_policy q) \<and> list_all (\<lambda>d. validate_document d = Inr d) (pi_documents q) \<and>
     int (length (pi_documents q)) \<le> pp_top_k (pi_policy q) \<and> distinct (map rd_document_id (pi_documents q)) \<and>
     map rd_rank (pi_documents q) = map int [1..<length (pi_documents q) + 1] \<and> is_sha256 (pi_query_sha256 q) \<and>
     pred_option is_sha256 (pi_rewritten_query_sha256 q) \<and> pred_option (bounded_text 1 512) (pi_reranker_identity q)"

definition pipeline_conforms :: "pipeline_inputs \<Rightarrow> bool" where
  "pipeline_conforms q \<longleftrightarrow>
     list_all (document_conforms (pi_policy q)) (pi_documents q) \<and>
     (\<not> pp_require_query_rewrite (pi_policy q) \<or> pi_rewritten_query_sha256 q \<noteq> None) \<and>
     (\<not> pp_require_reranker (pi_policy q) \<or> reranked q)"

lemma pipeline_fields_iff:
  "pipeline_fields (pipeline_summary q) = Inr () \<longleftrightarrow> length (pi_documents q) \<le> 1000 \<and> is_sha256 (pi_query_sha256 q) \<and>
     pred_option is_sha256 (pi_rewritten_query_sha256 q) \<and> pred_option (bounded_text 1 512) (pi_reranker_identity q)"
proof -
  have "is_sha256 (pr_receipt_root (pipeline_summary q))"
    by (simp add: pipeline_summary_def pipeline_root_def domain_root_def Let_def)
  then show ?thesis
    by (cases "pi_rewritten_query_sha256 q"; cases "pi_reranker_identity q")
      (auto simp: pipeline_fields_def Let_def raise_if_Inr_iff count_field_def sha_field_def opt_sha_field_def
        opt_text_field_def text_field_def)
qed

lemma document_relations_iff:
  "raise_if (document_relations p ds) = Inr () \<longleftrightarrow> int (length ds) \<le> pp_top_k p \<and> distinct (map rd_document_id ds) \<and>
     map rd_rank ds = map int [1..<length ds + 1]"
  by (auto simp: raise_if_Inr_iff document_relations_def)

lemma documents_valid:
  "rmap validate_document ds = Inr ds \<longleftrightarrow> list_all (\<lambda>d. validate_document d = Inr d) ds"
  by (rule rmap_valid) (rule validate_document_id)

lemma top_k_bounded: "validate_pipeline_policy p = Inr p \<Longrightarrow> pp_top_k p \<le> 1000"
  by (auto simp: validate_pipeline_policy_def rbind_Inr raise_if_Inr_iff int_field_def)

lemma create_pipeline_iff:
  "create_pipeline q = Inr r \<longleftrightarrow> pipeline_well_formed q \<and> r = pipeline_summary q"
proof
  assume c: "create_pipeline q = Inr r"
  have s: "r = pipeline_summary q" "pipeline_fields (pipeline_summary q) = Inr ()" using create_pipeline_Inr [OF c] by auto
  show "pipeline_well_formed q \<and> r = pipeline_summary q"
    using create_pipeline_Inr [OF c] s
    unfolding documents_valid pipeline_well_formed_def pipeline_fields_iff document_relations_iff
    by (intro conjI; simp)
next
  assume w: "pipeline_well_formed q \<and> r = pipeline_summary q"
  then have "length (pi_documents q) \<le> 1000"
    using top_k_bounded [of "pi_policy q"] by (simp add: pipeline_well_formed_def)
  then have "pipeline_fields (pipeline_summary q) = Inr ()" "raise_if (document_relations (pi_policy q) (pi_documents q)) = Inr ()"
    "rmap validate_document (pi_documents q) = Inr (pi_documents q)"
    using w unfolding pipeline_fields_iff document_relations_iff documents_valid pipeline_well_formed_def
    by blast+
  then show "create_pipeline q = Inr r"
    using w by (simp add: create_pipeline_def pipeline_well_formed_def)
qed

end
