(* ===== verification/SampleReceipts.thy ===== *)
theory SampleReceipts
  imports Sample ClosureProofs AssuranceProofs
begin

text \<open>
  A poisoned tool result that reaches the agent, from the fault receipt to the trial that closes,
  and the same trial with a request whose tool is not a text.
\<close>

definition unsealed_fault :: fault_receipt where
  "unsealed_fault = \<lparr>fr_schema_version = fault_receipt_schema, fr_fault_identity = text_sha256 ''fault'',
     fr_kind = TOOL_RESULT_POISON, fr_protocol_version = protocol_version, fr_tool_name = ''search'',
     fr_injection_point = point ['':tools/call:'', ''search'', '':result.content[0].text''],
     fr_payload_sha256 = text_sha256 ''boo'', fr_observation_sha256 = text_sha256 ''boo'', fr_receipt_root = []\<rparr>"

definition sample_fault_receipt :: fault_receipt where
  "sample_fault_receipt = unsealed_fault\<lparr>fr_receipt_root := fault_receipt_root unsealed_fault\<rparr>"

lemma fault_root_unsigned [simp]: "fault_receipt_root (r\<lparr>fr_receipt_root := x\<rparr>) = fault_receipt_root r"
  by (simp add: fault_receipt_root_def fault_receipt_material_def fault_receipt_dict_def)

lemma is_sha256_fault_root [simp]: "is_sha256 (fault_receipt_root r)"
  by (simp add: fault_receipt_root_def)

lemma sample_fault_fields [simp]:
  "fr_schema_version sample_fault_receipt = fault_receipt_schema"
  "fr_fault_identity sample_fault_receipt = text_sha256 ''fault''"
  "fr_kind sample_fault_receipt = TOOL_RESULT_POISON" "fr_protocol_version sample_fault_receipt = protocol_version"
  "fr_tool_name sample_fault_receipt = ''search''"
  "fr_injection_point sample_fault_receipt = point ['':tools/call:'', ''search'', '':result.content[0].text'']"
  "fr_payload_sha256 sample_fault_receipt = text_sha256 ''boo''"
  "fr_observation_sha256 sample_fault_receipt = text_sha256 ''boo''"
  "fr_receipt_root sample_fault_receipt = fault_receipt_root unsealed_fault"
  "fault_receipt_root sample_fault_receipt = fault_receipt_root unsealed_fault"
  by (simp_all add: sample_fault_receipt_def) (simp_all add: unsealed_fault_def)

lemma sample_fault_valid: "validate_fault_receipt sample_fault_receipt = Inr sample_fault_receipt"
  by (simp add: validate_fault_receipt_def literal_field_def sha_field_def
      text_field_def bounded_text_def protocol_version_def point_def)

lemma sample_fault_direct: "require_direct_tool_result sample_fault_receipt = Inr ()"
  by (simp add: require_direct_tool_result_def require_all_def)

definition unsealed_tool_result :: tool_result_receipt where
  "unsealed_tool_result = \<lparr>tr_schema_version = tool_result_schema,
     tr_scenario_identity = scenario_identity sample_scenario, tr_protocol_receipt = sample_fault_receipt,
     tr_agent_tool_name = ''search'', tr_agent_call_id = ''c1'', tr_agent_observation_sha256 = text_sha256 ''boo'',
     tr_receipt_root = []\<rparr>"

definition sample_tool_result :: tool_result_receipt where
  "sample_tool_result = unsealed_tool_result\<lparr>tr_receipt_root := tool_result_root unsealed_tool_result\<rparr>"

lemma tool_result_root_unsigned [simp]: "tool_result_root (r\<lparr>tr_receipt_root := x\<rparr>) = tool_result_root r"
  by (simp add: tool_result_root_def tool_result_material_def tool_result_dict_def)

lemma is_sha256_tool_result_root [simp]: "is_sha256 (tool_result_root r)"
  by (simp add: tool_result_root_def)

lemma sample_tool_result_fields [simp]:
  "tr_schema_version sample_tool_result = tool_result_schema"
  "tr_scenario_identity sample_tool_result = scenario_identity sample_scenario"
  "tr_protocol_receipt sample_tool_result = sample_fault_receipt"
  "tr_agent_tool_name sample_tool_result = ''search''" "tr_agent_call_id sample_tool_result = ''c1''"
  "tr_agent_observation_sha256 sample_tool_result = text_sha256 ''boo''"
  "tr_receipt_root sample_tool_result = tool_result_root unsealed_tool_result"
  "tool_result_root sample_tool_result = tool_result_root unsealed_tool_result"
  by (simp_all add: sample_tool_result_def) (simp_all add: unsealed_tool_result_def)

lemma sample_tool_result_valid: "validate_tool_result sample_tool_result = Inr sample_tool_result"
proof -
  have strip: "py_strip ''search'' = ''search''" "py_strip ''c1'' = ''c1''"
    by (simp_all add: py_strip_def py_space_def)
  show ?thesis
    using sample_fault_valid sample_fault_direct
    by (simp add: require_all_def ident_guards_def strip validate_tool_result_def tool_result_fields_def
        literal_field_def sha_field_def ident_field_def text_field_def
        bounded_text_def tool_result_bridge_def as_validation_def scenario_identity_def)
qed

text \<open>The constructor makes it from what the agent saw.\<close>

lemma sample_tool_result_made:
  "create_tool_result (scenario_identity sample_scenario) sample_fault_receipt ''search'' ''c1''
     (JObj [(''type'', JStr ''text''), (''text'', JStr ''boo'')]) = Inr sample_tool_result"
proof -
  have strip: "py_strip ''search'' = ''search''" "py_strip ''c1'' = ''c1''"
    by (simp_all add: py_strip_def py_space_def)
  have out: "single_text_output label (JObj [(''type'', JStr ''text''), (''text'', JStr ''boo'')]) = Inr ''boo''" for label
    by (auto simp: single_text_output_def exact_text_keys_def)
  show ?thesis
    using sample_fault_valid sample_fault_direct sample_tool_result_valid
    by (simp add: create_tool_result_def out require_all_def ident_guards_def strip Let_def
        sample_tool_result_def unsealed_tool_result_def)
qed

lemma sample_tool_result_accepted: "accepted_receipt (ToolResult sample_tool_result)"
  using create_tool_result_valid [OF sample_tool_result_made] by simp

subsection \<open>Its event\<close>

lemma length_utf8_sha: "is_sha256 s \<Longrightarrow> length (utf8 s) = 64"
proof -
  have "list_all is_hex_char s \<Longrightarrow> length (utf8 s) = length s"
    by (induction s) (auto simp: utf8_def utf8_char_def is_hex_char_def is_digit_char_def Let_def)
  then show "is_sha256 s \<Longrightarrow> length (utf8 s) = 64" by (simp add: is_sha256_def)
qed

lemma length_utf8_ascii: "list_all (\<lambda>c. of_char c < (128::nat)) s \<Longrightarrow> length (utf8 s) = length s"
  by (induction s) (auto simp: utf8_def utf8_char_def)

definition sample_delivery :: evidence_event where
  "sample_delivery = \<lparr>ev_sequence = 1, ev_kind = PROTOCOL_DELIVERY, ev_source = tool_result_source,
     ev_payload = sort_dict (tool_result_payload sample_tool_result), ev_observed_at = 0, ev_critical = False\<rparr>"

lemma sample_payload_budget: "within_budget event_payload_budget (JObj (tool_result_payload sample_tool_result))"
proof -
  have sha: "length (utf8 (text_sha256 s)) = 64" "length (utf8 (scenario_identity x)) = 64"
    "length (utf8 (fault_receipt_root r)) = 64" "length (utf8 (tool_result_root q)) = 64" for s x r q
    by (simp_all add: length_utf8_sha scenario_identity_def)
  have d: "depth_within (JObj (tool_result_payload sample_tool_result)) (Suc (Suc 30))"
    by (simp add: tool_result_payload_def tool_result_dict_def fault_receipt_json_def fault_receipt_dict_def)
  then show ?thesis
    by (simp add: within_budget_def event_payload_budget_def)
      (simp add: tool_result_payload_def tool_result_dict_def fault_receipt_json_def fault_receipt_dict_def sha
        length_utf8_ascii tool_result_schema_def fault_receipt_schema_def protocol_version_def point_def)
qed

lemma sample_delivery_made:
  "protocol_event (ToolResult sample_tool_result) 1 \<lparr>dt_wall = 0, dt_utcoffset = Some 0\<rparr> = Inr sample_delivery"
  by (simp add: tool_result_event_def bridge_event_def mk_event_def tool_result_source_def detached_dict_def
      sample_payload_budget require_aware_utc_def sample_delivery_def)

lemma sample_delivery_fields [simp]:
  "ev_kind sample_delivery = PROTOCOL_DELIVERY" "ev_sequence sample_delivery = 1"
  by (simp_all add: sample_delivery_def)

lemma sample_delivery_read: "read_protocol_receipt sample_delivery = Inr (ToolResult sample_tool_result)"
  by (rule read_protocol_event [OF sample_tool_result_accepted sample_delivery_made])

subsection \<open>Trials around it\<close>

definition poisoned_request :: evidence_event where
  "poisoned_request = sample_event 0 TOOL_REQUEST [(''call_id'', JStr ''c1''), (''tool'', JStr ''search'')]"

definition poisoned_result :: evidence_event where
  "poisoned_result = sample_event 2 TOOL_RESULT [(''call_id'', JStr ''c1''),
     (''output'', JObj [(''text'', JStr ''boo''), (''type'', JStr ''text'')])]"

definition poisoned_evidence :: trial_evidence where
  "poisoned_evidence = sample_evidence\<lparr>te_events := [poisoned_request, sample_delivery, poisoned_result]\<rparr>"

lemma sample_poisoned [simp]:
  "ev_kind poisoned_request = TOOL_REQUEST" "ev_kind poisoned_result = TOOL_RESULT"
  "te_events poisoned_evidence = [poisoned_request, sample_delivery, poisoned_result]"
  "te_scenario_identity poisoned_evidence = scenario_identity sample_scenario"
  by (simp_all add: poisoned_request_def poisoned_result_def poisoned_evidence_def sample_event_def sample_evidence_def)

lemma poisoned_closes: "protocol_closed poisoned_evidence [ToolResult sample_tool_result]"
proof -
  have out: "text_output (payload_get poisoned_result ''output'') ''boo''"
    by (auto simp: text_output_def exact_text_keys_def poisoned_result_def sample_event_def)
  have "answered poisoned_evidence ''c1'' (text_sha256 ''boo'') poisoned_result"
    using out by (auto simp: answered_def call_results_def events_of_def payload_is_def poisoned_result_def sample_event_def)
  moreover have "tool_calls poisoned_evidence [''search''] [poisoned_request]"
    by (simp add: tool_calls_def events_of_def payload_is_def unhashable_def poisoned_request_def sample_event_def)
  moreover have "payload_is poisoned_request ''call_id'' ''c1''" "ev_sequence poisoned_request = 0"
    "ev_sequence poisoned_result = 2"
    by (simp_all add: payload_is_def poisoned_request_def poisoned_result_def sample_event_def)
  ultimately have "receipt_closed poisoned_evidence (ToolResult sample_tool_result) 1"
    unfolding receipt_closed.simps sample_tool_result_fields by (metis zero_less_one one_less_numeral_iff semiring_norm(76))
  then show ?thesis by (simp add: protocol_closed_def events_of_def sample_delivery_read)
qed

definition broken_request :: evidence_event where
  "broken_request = sample_event 0 TOOL_REQUEST [(''call_id'', JStr ''c1''), (''tool'', JArr [])]"

definition broken_evidence :: trial_evidence where
  "broken_evidence = sample_evidence\<lparr>te_events := [broken_request, sample_delivery, poisoned_result]\<rparr>"

lemma broken_fields [simp]:
  "ev_kind broken_request = TOOL_REQUEST" "payload_get broken_request ''tool'' = Some (JArr [])"
  "te_events broken_evidence = [broken_request, sample_delivery, poisoned_result]"
  "te_scenario_identity broken_evidence = scenario_identity sample_scenario"
  by (simp_all add: broken_request_def broken_evidence_def sample_event_def sample_evidence_def)

lemma sample_no_attack: "attack_bound sample_scenario t"
  by (simp add: attack_bound_def extract_attack_def sample_scenario_def)

section \<open>Sample assurance receipts\<close>

subsection \<open>Two approvals of one call\<close>

definition unsealed_quorum_approval :: "string \<Rightarrow> string \<Rightarrow> human_approval" where
  "unsealed_quorum_approval i signer = \<lparr>ha_approval_id = i, ha_scenario_identity = zeros, ha_invocation_sha256 = zeros,
     ha_signer_id = signer, ha_session_id = ''s'' @ signer, ha_observed_at = 10, ha_decision = APPROVE, ha_role = APPROVER,
     ha_method = OIDC, ha_credential_sha256 = zeros, ha_verified = True, ha_delegated_by = None, ha_evidence_root = []\<rparr>"

definition quorum_approval :: "string \<Rightarrow> string \<Rightarrow> human_approval" where
  "quorum_approval i signer = (unsealed_quorum_approval i signer)\<lparr>ha_evidence_root := human_approval_root (unsealed_quorum_approval i signer)\<rparr>"

lemma quorum_approval_fields [simp]:
  "ha_approval_id (quorum_approval i s) = i" "ha_scenario_identity (quorum_approval i s) = zeros"
  "ha_invocation_sha256 (quorum_approval i s) = zeros" "ha_signer_id (quorum_approval i s) = s"
  "ha_session_id (quorum_approval i s) = ''s'' @ s" "ha_observed_at (quorum_approval i s) = 10"
  "ha_decision (quorum_approval i s) = APPROVE" "ha_role (quorum_approval i s) = APPROVER"
  "ha_method (quorum_approval i s) = OIDC" "ha_credential_sha256 (quorum_approval i s) = zeros"
  "ha_verified (quorum_approval i s)" "ha_delegated_by (quorum_approval i s) = None"
  by (simp_all add: quorum_approval_def unsealed_quorum_approval_def)

lemma quorum_approval_root [simp]: "ha_evidence_root (quorum_approval i s) = human_approval_root (quorum_approval i s)"
  by (simp add: quorum_approval_def human_approval_root_def human_approval_dict_def)

lemma human_approval_root_sha [simp]: "is_sha256 (human_approval_root a)"
  by (simp add: human_approval_root_def domain_root_def)

definition sample_governance :: governance_inputs where
  "sample_governance = \<lparr>gi_policy = \<lparr>gp_quorum = 2, gp_max_age_ms = 1000, gp_require_distinct_sessions = True,
       gp_require_separation_of_duties = True, gp_allow_delegation = False, gp_require_escalation_approver = False,
       gp_allowed_methods = {OIDC}\<rparr>,
     gi_requester_id = ''r'', gi_evaluated_at = 20, gi_approvals = [quorum_approval ''abc'' ''p'', quorum_approval ''abd'' ''q''],
     gi_delegations = [], gi_revoked = {}\<rparr>"

lemma quorum_approval_valid:
  "validate_human_approval (quorum_approval ''abc'' ''p'') = Inr (quorum_approval ''abc'' ''p'')"
  "validate_human_approval (quorum_approval ''abd'' ''q'') = Inr (quorum_approval ''abd'' ''q'')"
  by (simp_all add: validate_human_approval_def name_field_def id_pattern_def id_char_def is_lower_char_def is_digit_char_def sha_field_def text_field_def bounded_text_def
      int_field_def opt_text_field_def py_strip_def py_space_def max_unix_ms_def)

lemma sample_governance_fields: "governance_fields (governance_summary sample_governance) = Inr ()"
  by (simp add: governance_fields_def governance_summary_def Let_def sample_governance_def text_field_def bounded_text_def
      int_field_def max_unix_ms_def count_field_def sha_field_def governance_root_def domain_root_def)

lemma sample_governance_created: "create_governance sample_governance = Inr (governance_summary sample_governance)"
  using sample_governance_fields
  by (simp add: create_governance_def sample_governance_def validate_governance_policy_def int_field_def py_strip_def
      py_space_def quorum_approval_valid one_invocation_def)

lemma sample_governance_verified:
  "verify_governance (governance_summary sample_governance) = Inr (governance_summary sample_governance)"
  using sample_governance_created by (simp add: governance_receipts.verify_Inr)

lemma sample_counted: "counted sample_governance = gi_approvals sample_governance"
  by (simp add: counted_def sample_governance_def approval_counts_def)

lemma sample_governance_accepted: "gv_accepted (governance_summary sample_governance)"
  by (simp add: governance_accepted_def effective_signers_def sample_counted) (simp add: sample_governance_def)

subsection \<open>A memory record that is deleted and expires\<close>

definition sample_memory_policy :: memory_policy where
  "sample_memory_policy = \<lparr>mp_record_id = ''m'', mp_owner_tenant_id = ''t'', mp_owner_user_id = ''u'',
     mp_content_sha256 = zeros, mp_require_persistence = True, mp_require_cross_user_isolation = True,
     mp_require_delete_enforcement = True, mp_require_ttl_enforcement = True, mp_require_poison_rejection = True\<rparr>"

definition observe :: "memory_operation \<Rightarrow> string \<Rightarrow> int \<Rightarrow> bool \<Rightarrow> memory_observation" where
  "observe operation actor tick allowed = \<lparr>mo_record_id = ''m'', mo_owner_tenant_id = ''t'', mo_owner_user_id = ''u'',
     mo_actor_tenant_id = ''t'', mo_actor_user_id = actor, mo_operation = operation, mo_tick = tick, mo_created_tick = 0,
     mo_expires_tick = 5, mo_content_sha256 = zeros, mo_allowed = allowed,
     mo_returned_content_sha256 = (if operation = MEM_READ \<and> allowed then Some zeros else None),
     mo_poison_marker = (operation = MEM_POISON)\<rparr>"

definition sample_trace :: "memory_observation list" where
  "sample_trace = [observe MEM_WRITE ''u'' 0 True, observe MEM_POISON ''v'' 1 False, observe MEM_READ ''v'' 1 False,
     observe MEM_READ ''u'' 2 True, observe MEM_DELETE ''u'' 3 True, observe MEM_READ ''u'' 4 False,
     observe MEM_EXPIRE ''u'' 5 True, observe MEM_READ ''u'' 6 False]"

lemmas memory_eval = validate_memory_observation_def observation_shape_def observe_def text_field_def bounded_text_def
  int_field_def sha_field_def opt_sha_field_def

lemma sample_memory_created:
  "create_memory_receipt (sample_memory_policy, sample_trace) = Inr (memory_summary sample_memory_policy sample_trace)"
  unfolding create_memory_iff
  by (simp add: memory_relations_def sample_trace_def memory_eval validate_memory_policy_def sample_memory_policy_def)

lemma sample_memory_accepted: "mr_accepted (memory_summary sample_memory_policy sample_trace)"
  by (simp add: memory_accepted_def persistence_shown_def isolation_shown_def deletion_shown_def deletions_def expiry_shown_def
      poison_refused_def sample_trace_def observe_def is_read_def same_principal_def)

text \<open>The owner reads the content after its deletion and after its expiry.\<close>

definition late_read :: memory_observation where
  "late_read = observe MEM_READ ''u'' 7 True"

lemma late_read_valid: "validate_memory_observation late_read = Inr late_read"
  by (simp add: late_read_def memory_eval)

lemma late_read_follows:
  "mo_operation late_read = MEM_READ" "same_principal late_read" "mo_allowed late_read"
  "memory_relations sample_memory_policy [late_read]" "\<forall>x\<in>set sample_trace. mo_tick x \<le> mo_tick late_read"
  "length sample_trace < 10000"
  by (simp_all add: memory_relations_def late_read_valid)
    (simp_all add: late_read_def observe_def same_principal_def sample_memory_policy_def sample_trace_def)

end
