(* ===== verification/StrictJsonProofs.thy ===== *)
theory StrictJsonProofs
  imports StrictJson
begin

section \<open>What strict decoding accepts\<close>

text \<open>
  The decoder with its hooks and its look at the text returns a value exactly when the plain
  scanner returns it and the value itself is within bounds: containers nest no deeper than
  allowed, no object repeats a key, numbers are finite and integers short.
\<close>

fun json_depth :: "json \<Rightarrow> nat" where
  "json_depth (JArr xs) = Suc (fold max (map json_depth xs) 0)"
| "json_depth (JObj kvs) = Suc (fold max (map (\<lambda>kv. json_depth (snd kv)) kvs) 0)"
| "json_depth _ = 0"

fun short_ints :: "json \<Rightarrow> bool" where
  "short_ints (JInt i) = (decimal_digits i \<le> max_json_integer_decimal_digits)"
| "short_ints (JArr xs) = list_all short_ints xs"
| "short_ints (JObj kvs) = list_all (\<lambda>kv. short_ints (snd kv)) kvs"
| "short_ints _ = True"

definition strict_value :: "json \<Rightarrow> bool" where
  "strict_value v \<longleftrightarrow> distinct_keys v \<and> finite_json v \<and> short_ints v"

lemma fold_max_le: "fold max xs (a::nat) \<le> n \<longleftrightarrow> a \<le> n \<and> (\<forall>x \<in> set xs. x \<le> n)"
  by (induction xs arbitrary: a) auto

lemma strict_value_simps [simp]:
  "strict_value JNull" "strict_value (JBool b)" "strict_value (JStr s)"
  "strict_value (JInt i) \<longleftrightarrow> decimal_digits i \<le> max_json_integer_decimal_digits"
  "strict_value (JFloat x) \<longleftrightarrow> isfinite x"
  "strict_value (JArr xs) \<longleftrightarrow> list_all strict_value xs"
  "strict_value (JObj kvs) \<longleftrightarrow> distinct (map fst kvs) \<and> list_all (\<lambda>kv. strict_value (snd kv)) kvs"
  by (auto simp: strict_value_def list_all_iff)

subsection \<open>Numbers\<close>

text \<open>A number's digits, as the grammar has them, are the digits its value is written with.\<close>

definition numeral_digits :: "string \<Rightarrow> bool" where
  "numeral_digits ds \<longleftrightarrow> ds \<noteq> [] \<and> list_all is_digit_char ds \<and> (hd ds = CHR ''0'' \<longrightarrow> length ds = 1)"

lemma p_int_digits: "p_int s = Some (ds, r) \<Longrightarrow> numeral_digits ds"
  by (cases s) (auto simp: p_int_def numeral_digits_def list_all_iff dest: set_takeWhileD split: if_splits)

lemma digit_char_val: "is_digit_char c \<Longrightarrow> digit_char (digit_val c) = c"
  by (simp add: is_digit_char_def digit_char_def digit_val_def Let_def)

lemma digit_val_less: "is_digit_char c \<Longrightarrow> digit_val c < 10"
  by (simp add: is_digit_char_def digit_val_def Let_def less_diff_conv2)

lemma digits_val_pos: "list_all is_digit_char ds \<Longrightarrow> ds \<noteq> [] \<Longrightarrow> hd ds \<noteq> CHR ''0'' \<Longrightarrow> 0 < digits_val ds"
proof (induction ds rule: rev_induct)
  case (snoc c ds)
  then show ?case
  proof (cases "ds = []")
    case True
    with snoc.prems show ?thesis
      using digit_char_val [of c] by (cases "digit_val c = 0") (auto simp: digits_val_def digit_char_def char_of_48)
  qed auto
qed simp

lemma nat_str_digits_val: "numeral_digits ds \<Longrightarrow> nat_str (digits_val ds) = ds"
proof (induction ds rule: rev_induct)
  case (snoc c ds)
  have c: "is_digit_char c" using snoc.prems by (simp add: numeral_digits_def)
  show ?case
  proof (cases "ds = []")
    case True
    with c show ?thesis
      by (subst nat_str.simps) (simp add: digits_val_def digit_char_val digit_val_less)
  next
    case False
    then have d: "numeral_digits ds" "hd ds \<noteq> CHR ''0''"
      using snoc.prems by (auto simp: numeral_digits_def)
    then have "0 < digits_val ds" by (auto simp: numeral_digits_def intro: digits_val_pos)
    with c snoc.IH [OF d(1)] show ?thesis
      by (subst nat_str.simps) (simp add: digit_char_val digit_val_less)
  qed
qed (simp add: numeral_digits_def)

lemma decimal_digits_val:
  assumes "numeral_digits ds"
  shows "decimal_digits (int (digits_val ds)) = length ds" "decimal_digits (- int (digits_val ds)) = length ds"
  using nat_str_digits_val [OF assms] by (auto simp: decimal_digits_def int_str_def)

text \<open>The part of a result that is no error, and what of a parse has a property.\<close>

fun ok :: "error + 'a \<Rightarrow> 'a option" where
  "ok (Inl e) = None"
| "ok (Inr x) = Some x"

definition having :: "('a \<Rightarrow> bool) \<Rightarrow> ('a \<times> 'b) option \<Rightarrow> ('a \<times> 'b) option" where
  "having P x = (case x of None \<Rightarrow> None | Some (v, r) \<Rightarrow> if P v then Some (v, r) else None)"

lemma having_simps [simp]:
  "having P None = None" "having P (Some (v, r)) = (if P v then Some (v, r) else None)"
  by (simp_all add: having_def)

lemma ok_Some: "ok x = Some y \<longleftrightarrow> x = Inr y"
  by (cases x) simp_all

lemma ok_rbind: "ok (rbind x f) = Option.bind (ok x) (\<lambda>y. ok (f y))"
  by (cases x) simp_all

lemma ok_decoded [simp]: "ok (decoded l x) = x"
  by (cases x) (simp_all add: decoded_def)

lemma minus_sign: "(case s of [] \<Rightarrow> False | c # _ \<Rightarrow> c = d) = starts d s"
  by (auto simp: starts_def split: list.split)

lemma strict_number_ok: "ok (strict_number l s) = having strict_value (p_number s)"
proof (cases "p_int (if starts (CHR ''-'') s then tl s else s)")
  case None
  then show ?thesis
    by (simp add: strict_number_def ok_rbind p_number_def minus_sign Let_def)
next
  case (Some p)
  obtain ds r where p: "p = (ds, r)" by (cases p)
  have d: "numeral_digits ds" using Some p by (auto intro: p_int_digits)
  show ?thesis
  proof (cases "p_frac r = None \<and> p_exp (case p_frac r of None \<Rightarrow> r | Some (_, r') \<Rightarrow> r') = None")
    case True
    with Some p show ?thesis
      by (cases "starts (CHR ''-'') s")
        (simp_all add: strict_number_def p_number_def minus_sign Let_def ok_rbind decimal_digits_val [OF d]
          max_json_integer_decimal_digits_def)
  next
    case False
    then have "\<exists>x r'. p_number s = Some (JFloat x, r')"
      using Some p by (cases "starts (CHR ''-'') s") (auto simp: p_number_def minus_sign Let_def)
    with False Some p show ?thesis
      by (cases "starts (CHR ''-'') s") (auto simp: strict_number_def Let_def ok_rbind)
  qed
qed

subsection \<open>Values\<close>

lemma strict_token_ok [simp]: "ok (strict_token l s) = having strict_value (p_literal s)"
  unfolding strict_token_def p_literal_def
  by (simp add: strict_number_ok)

lemma unique_keys_Inr: "unique_keys l seen kvs = Inr () \<longleftrightarrow> distinct (map fst kvs) \<and> set seen \<inter> fst ` set kvs = {}"
  by (induction l seen kvs rule: unique_keys.induct) auto

lemma strict_object_Inr:
  "strict_object l kvs r = Inr (v, r') \<longleftrightarrow> v = JObj kvs \<and> r' = r \<and> distinct (map fst kvs)"
  by (auto simp: strict_object_def rbind_Inr unique_keys_Inr)

lemma ok_object [simp]: "ok (strict_object l kvs r) = (if distinct (map fst kvs) then Some (JObj kvs, r) else None)"
proof -
  have "strict_object l kvs r = Inr (JObj kvs, r) \<longleftrightarrow> distinct (map fst kvs)"
    by (simp add: strict_object_Inr)
  moreover have "\<not> distinct (map fst kvs) \<Longrightarrow> strict_object l kvs r \<noteq> Inr p" for p
    by (cases p) (simp add: strict_object_Inr)
  ultimately show ?thesis by (cases "strict_object l kvs r") auto
qed

lemma ok_if: "ok (if c then x else y) = (if c then ok x else ok y)"
  by simp

lemma strict_scanner:
  "ok (s_value l n s) = having strict_value (p_value n s)"
  "ok (s_elems l n s) = having (list_all strict_value) (p_elems n s)"
  "ok (s_members l n s) = having (list_all (\<lambda>kv. strict_value (snd kv))) (p_members n s)"
proof (induction l n s and l n s and l n s rule: s_value_s_elems_s_members.induct)
  case (2 l n s)
  then show ?case
    by (cases "p_str (tl s)"; cases "p_members n (skip_ws (tl s))"; cases "p_elems n (skip_ws (tl s))")
      (auto simp: ok_rbind Let_def)
next
  case (4 l n s)
  show ?case
  proof (cases "p_value n s")
    case (Some p)
    obtain x r where p: "p = (x, r)" by (cases p)
    show ?thesis
    proof (cases "expect (CHR '','') (skip_ws r)")
      case None
      with 4 Some p show ?thesis by (simp add: ok_rbind Let_def)
    next
      case (Some r2)
      with 4 \<open>p_value n s = Some p\<close> p show ?thesis
        by (cases "p_elems n (skip_ws r2)") (auto simp: ok_rbind Let_def)
    qed
  qed (use 4 in \<open>simp add: ok_rbind\<close>)
next
  case (6 l n s)
  show ?case
  proof (cases "expect quote_char s")
    case (Some s1)
    show ?thesis
    proof (cases "p_str s1")
      case p1: (Some p)
      obtain k r where p: "p = (k, r)" by (cases p)
      show ?thesis
      proof (cases "expect (CHR '':'') (skip_ws r)")
        case e: (Some r1)
        show ?thesis
        proof (cases "p_value n (skip_ws r1)")
          case v: (Some q)
          obtain v r2 where q: "q = (v, r2)" by (cases q)
          show ?thesis
          proof (cases "expect (CHR '','') (skip_ws r2)")
            case None
            with 6 Some p1 p e v q show ?thesis by (simp add: ok_rbind Let_def)
          next
            case c: (Some r4)
            with 6 Some p1 p e v q show ?thesis
              by (cases "p_members n (skip_ws r4)") (auto simp: ok_rbind Let_def)
          qed
        qed (use 6 Some p1 p e in \<open>simp add: ok_rbind\<close>)
      qed (use 6 Some p1 p in \<open>simp add: ok_rbind\<close>)
    qed (use 6 Some in \<open>simp add: ok_rbind\<close>)
  qed (use 6 in \<open>simp add: ok_rbind\<close>)
qed simp_all

lemma strict_scan_Inr: "strict_scan l s = Inr v \<longleftrightarrow> json_scan s = Some v \<and> strict_value v"
proof -
  have "ok (strict_scan l s) = Some v \<longleftrightarrow> json_scan s = Some v \<and> strict_value v"
    by (cases "p_value (2 * length s + 2) (skip_ws s)")
      (auto simp: strict_scan_def json_scan_def ok_rbind strict_scanner
        simp del: s_value.simps p_value.simps mult_2 split: if_splits)
  then show ?thesis by (simp add: ok_Some)
qed

subsection \<open>The look at the text\<close>

text \<open>
  What the text says of its depth is what the value has: reading a value at depth \<open>d\<close> the look
  passes exactly when the value's containers stay within the maximum, and goes on after it.
\<close>

abbreviation nests :: "string \<Rightarrow> int \<Rightarrow> int \<Rightarrow> string \<Rightarrow> bool" where
  "nests l m d s \<equiv> preflight l m d False False s = Inr ()"

definition unstructured :: "char \<Rightarrow> bool" where
  "unstructured c \<longleftrightarrow> c \<notin> set [quote_char, CHR ''['', CHR ''{'', CHR '']'', CHR ''}'']"

lemma nests_unstructured: "list_all unstructured u \<Longrightarrow> nests l m d (u @ s) = nests l m d s"
  by (induction u) (auto simp: unstructured_def)

lemma digits_unstructured [simp]: "is_digit_char c \<Longrightarrow> unstructured c"
  by (auto simp: unstructured_def is_digit_char_def quote_char_def)

lemma space_unstructured: "json_space c \<Longrightarrow> unstructured c"
  by (auto simp: unstructured_def json_space_def quote_char_def)

lemma nests_skip_ws [simp]: "nests l m d (skip_ws s) = nests l m d s"
  using nests_unstructured [of "takeWhile json_space s" l m d "skip_ws s"]
  by (auto simp: skip_ws_def list_all_iff dest: set_takeWhileD space_unstructured)

text \<open>A parser that consumes no structure.\<close>

definition consumes :: "string \<Rightarrow> string \<Rightarrow> bool" where
  "consumes s r \<longleftrightarrow> (\<exists>u. s = u @ r \<and> list_all unstructured u)"

lemma consumes_refl [simp]: "consumes s s"
  by (auto simp: consumes_def)

lemma consumes_trans: "consumes s r \<Longrightarrow> consumes r t \<Longrightarrow> consumes s t"
  by (fastforce simp: consumes_def)

lemma consumes_Cons: "unstructured c \<Longrightarrow> consumes s r \<Longrightarrow> consumes (c # s) r"
  unfolding consumes_def by (metis append_Cons list.pred_inject(2))

lemma consumes_digits: "consumes s (dropWhile is_digit_char s)"
  unfolding consumes_def
  by (rule exI [of _ "takeWhile is_digit_char s"])
    (auto simp: list_all_iff dest: set_takeWhileD digits_unstructured)

lemma nests_consumes: "consumes s r \<Longrightarrow> nests l m d s = nests l m d r"
  by (auto simp: consumes_def nests_unstructured)

lemma unstructured_chars [simp]:
  "unstructured (CHR ''0'')" "unstructured (CHR ''-'')" "unstructured (CHR ''+'')" "unstructured (CHR ''.'')"
  "unstructured (CHR ''e'')" "unstructured (CHR ''E'')"
  by (simp_all add: unstructured_def quote_char_def)

lemma p_int_consumes: "p_int s = Some (ds, r) \<Longrightarrow> consumes s r"
  by (cases s) (auto simp: p_int_def intro: consumes_Cons consumes_digits split: if_splits)

lemma p_frac_consumes: "p_frac s = Some (ds, r) \<Longrightarrow> consumes s r"
  by (auto simp: p_frac_def intro!: consumes_Cons consumes_digits split: list.splits if_splits)

lemma p_exp_consumes: "p_exp s = Some (n, r) \<Longrightarrow> consumes s r"
  by (auto simp: p_exp_def p_exp_digits_def Let_def
      intro!: consumes_Cons consumes_digits split: list.splits if_splits)

lemma p_number_consumes: "p_number s = Some (v, r) \<Longrightarrow> consumes s r"
proof -
  assume n: "p_number s = Some (v, r)"
  define s1 where "s1 = (if starts (CHR ''-'') s then tl s else s)"
  have s1: "consumes s s1" by (auto simp: s1_def starts_def intro: consumes_Cons split: list.splits)
  obtain ds r1 where i: "p_int s1 = Some (ds, r1)"
    using n by (cases "p_int s1") (auto simp: p_number_def minus_sign s1_def Let_def)
  define r2 where "r2 = (case p_frac r1 of None \<Rightarrow> r1 | Some (_, r') \<Rightarrow> r')"
  have r2: "consumes r1 r2" by (auto simp: r2_def intro: p_frac_consumes split: option.split)
  have "r = r1 \<or> r = (case p_exp r2 of None \<Rightarrow> r2 | Some (_, r') \<Rightarrow> r')"
    using n i by (cases "starts (CHR ''-'') s")
      (auto simp: p_number_def minus_sign s1_def r2_def Let_def split: if_splits option.splits)
  moreover have "consumes r2 (case p_exp r2 of None \<Rightarrow> r2 | Some (_, r') \<Rightarrow> r')"
    by (auto intro: p_exp_consumes split: option.split)
  ultimately show ?thesis using s1 p_int_consumes [OF i] r2 by (blast intro: consumes_trans)
qed

lemma consumes_word: "prefix u s \<Longrightarrow> list_all unstructured u \<Longrightarrow> consumes s (drop (length u) s)"
  by (auto simp: consumes_def prefix_def)

lemma p_literal_consumes: "p_literal s = Some (v, r) \<Longrightarrow> consumes s r"
proof -
  have "list_all unstructured u" if "u \<in> set [''null'', ''true'', ''false'', ''NaN'', ''Infinity'', ''-Infinity'']" for u
    using that by (auto simp: unstructured_def quote_char_def)
  then have w: "consumes s (drop (length u) s)"
    if "u \<in> set [''null'', ''true'', ''false'', ''NaN'', ''Infinity'', ''-Infinity'']" "prefix u s" for u
    using that consumes_word by blast
  show "p_literal s = Some (v, r) \<Longrightarrow> consumes s r"
    using w [of "''null''"] w [of "''true''"] w [of "''false''"] w [of "''NaN''"] w [of "''Infinity''"]
      w [of "''-Infinity''"] p_number_consumes [of s v r]
    unfolding p_literal_def by (auto simp: eval_nat_numeral split: if_splits)
qed

lemma p_literal_scalar: "p_literal s = Some (v, r) \<Longrightarrow> json_depth v = 0"
  unfolding p_literal_def p_number_def Let_def
  by (auto split: if_splits bind_splits)

text \<open>Inside a string the look waits for the closing quote, as the scanner does.\<close>

lemma hex_value_inside: "hex_value c = Some n \<Longrightarrow> c \<noteq> quote_char \<and> c \<noteq> backslash"
  by (auto simp: hex_value_def quote_char_def backslash_def)

lemma p_hex4_inside:
  assumes "p_hex4 s = Some (c, r)"
  shows "preflight l m d True False s = preflight l m d True False r"
proof (cases s rule: p_hex4.cases)
  case (1 a b c' e r')
  with assms obtain x y z w where "hex_value a = Some x" "hex_value b = Some y" "hex_value c' = Some z"
    "hex_value e = Some w" "r = r'"
    by (auto simp: bind_eq_Some_conv split: if_splits)
  with 1 show ?thesis by (simp add: hex_value_inside)
qed (use assms in simp_all)

lemma p_escape_inside: "p_escape s = Some (c, r) \<Longrightarrow> preflight l m d True True s = preflight l m d True False r"
  by (cases s) (auto dest: p_hex4_inside split: if_splits)

lemma quote_not_backslash: "quote_char \<noteq> backslash" "backslash \<noteq> quote_char"
  by (simp_all add: quote_char_def backslash_def)

lemma p_str_inside: "p_str s = Some (t, r) \<Longrightarrow> preflight l m d True False s = preflight l m d False False r"
  by (induction s arbitrary: t r rule: p_str.induct)
    (auto simp: p_escape_inside quote_not_backslash split: if_splits option.splits)

lemma starts_elim:
  assumes "starts c s"
  obtains t where "s = c # t"
  using assms by (cases s) (auto simp: starts_def)

lemma structure_chars [simp]:
  "CHR ''['' \<noteq> quote_char" "CHR ''{'' \<noteq> quote_char" "CHR '']'' \<noteq> quote_char" "CHR ''}'' \<noteq> quote_char"
  "CHR '','' \<noteq> quote_char" "CHR '':'' \<noteq> quote_char" "quote_char \<noteq> CHR ''[''" "quote_char \<noteq> CHR ''{''"
  by (simp_all add: quote_char_def)

lemma expect_Some: "expect c s = Some r \<longleftrightarrow> s = c # r"
  by (auto simp: expect_def split: list.splits)

lemma fold_max_int: "(d + 1) + int (fold max xs 0) \<le> m \<longleftrightarrow> d + 1 \<le> m \<and> (\<forall>x \<in> set xs. (d + 1) + int x \<le> m)"
proof -
  have "(d + 1) + int (fold max xs 0) \<le> m \<longleftrightarrow> d + 1 \<le> m \<and> fold max xs 0 \<le> nat (m - (d + 1))"
    by linarith
  also have "\<dots> \<longleftrightarrow> d + 1 \<le> m \<and> (\<forall>x \<in> set xs. x \<le> nat (m - (d + 1)))"
    by (simp add: fold_max_le)
  also have "\<dots> \<longleftrightarrow> d + 1 \<le> m \<and> (\<forall>x \<in> set xs. (d + 1) + int x \<le> m)"
    by fastforce
  finally show ?thesis .
qed

lemma depth_arr: "d + int (json_depth (JArr xs)) \<le> m \<longleftrightarrow> d + 1 \<le> m \<and> (\<forall>x \<in> set xs. (d + 1) + int (json_depth x) \<le> m)"
  using fold_max_int [of d "map json_depth xs" m] by (simp add: add.assoc)

lemma depth_obj:
  "d + int (json_depth (JObj kvs)) \<le> m \<longleftrightarrow> d + 1 \<le> m \<and> (\<forall>kv \<in> set kvs. (d + 1) + int (json_depth (snd kv)) \<le> m)"
  using fold_max_int [of d "map (\<lambda>kv. json_depth (snd kv)) kvs" m] by (simp add: add.assoc)

lemma nests_str: "p_str s = Some (t, r) \<Longrightarrow> nests l m d (quote_char # s) = nests l m d r"
  by (simp add: p_str_inside)

lemma nests_close: "0 < d \<Longrightarrow> nests l m d (CHR '']'' # s) = nests l m (d - 1) s"
  "0 < d \<Longrightarrow> nests l m d (CHR ''}'' # s) = nests l m (d - 1) s"
  by simp_all

lemma nests_open: "nests l m d (CHR ''['' # s) \<longleftrightarrow> d + 1 \<le> m \<and> nests l m (d + 1) s"
  "nests l m d (CHR ''{'' # s) \<longleftrightarrow> d + 1 \<le> m \<and> nests l m (d + 1) s"
  by auto

lemma nests_separator: "nests l m d (CHR '','' # s) = nests l m d s" "nests l m d (CHR '':'' # s) = nests l m d s"
  by simp_all

lemmas nests_chars = nests_str nests_close nests_open nests_separator

lemma nests_parsed:
  "0 \<le> d \<Longrightarrow> d \<le> m \<Longrightarrow> p_value n s = Some (v, r) \<Longrightarrow>
     nests l m d s \<longleftrightarrow> d + int (json_depth v) \<le> m \<and> nests l m d r"
  "0 < d \<Longrightarrow> d \<le> m \<Longrightarrow> p_elems n s = Some (xs, r) \<Longrightarrow>
     nests l m d s \<longleftrightarrow> (\<forall>x \<in> set xs. d + int (json_depth x) \<le> m) \<and> nests l m (d - 1) r"
  "0 < d \<Longrightarrow> d \<le> m \<Longrightarrow> p_members n s = Some (kvs, r) \<Longrightarrow>
     nests l m d s \<longleftrightarrow> (\<forall>kv \<in> set kvs. d + int (json_depth (snd kv)) \<le> m) \<and> nests l m (d - 1) r"
proof (induction n s and n s and n s arbitrary: d v r and d xs r and d kvs r rule: p_value_p_elems_p_members.induct)
  case (2 n s)
  note d = \<open>0 \<le> d\<close> \<open>d \<le> m\<close> and parsed = \<open>p_value (Suc n) s = Some (v, r)\<close>
  consider (str) "starts quote_char s" | (obj) "starts (CHR ''{'') s" | (arr) "starts (CHR ''['') s"
    | (lit) "\<not> starts quote_char s" "\<not> starts (CHR ''{'') s" "\<not> starts (CHR ''['') s" by blast
  then show ?case
  proof cases
    case str
    then obtain u where "s = quote_char # u" by (rule starts_elim)
    with parsed d show ?thesis by (auto simp: starts_def nests_str simp del: preflight.simps split: bind_splits)
  next
    case lit
    then have "p_literal s = Some (v, r)" using parsed by simp
    then show ?thesis using d nests_consumes [OF p_literal_consumes] by (simp add: p_literal_scalar)
  next
    case obj
    then obtain u where s: "s = CHR ''{'' # u" by (rule starts_elim)
    show ?thesis
    proof (cases "starts (CHR ''}'') (skip_ws u)")
      case True
      then obtain w where w: "skip_ws u = CHR ''}'' # w" by (rule starts_elim)
      have "nests l m (d + 1) u = nests l m d w"
        using nests_skip_ws [of l m "d + 1" u] d unfolding w by simp
      moreover have "v = JObj []" "r = w" using parsed s w by (auto simp: starts_def)
      ultimately show ?thesis unfolding s nests_open by simp
    next
      case False
      then obtain kvs where k: "p_members n (skip_ws u) = Some (kvs, r)" "v = JObj kvs"
        using parsed s by (auto simp: starts_def split: bind_splits)
      have "d + 1 \<le> m \<Longrightarrow> nests l m (d + 1) (skip_ws u) \<longleftrightarrow>
          (\<forall>kv \<in> set kvs. d + 1 + int (json_depth (snd kv)) \<le> m) \<and> nests l m (d + 1 - 1) r"
        using False d k s by (intro "2.IH"(1)) (auto simp: starts_def)
      then show ?thesis unfolding s nests_open k depth_obj by auto
    qed
  next
    case arr
    then obtain u where s: "s = CHR ''['' # u" by (rule starts_elim)
    show ?thesis
    proof (cases "starts (CHR '']'') (skip_ws u)")
      case True
      then obtain w where w: "skip_ws u = CHR '']'' # w" by (rule starts_elim)
      have "nests l m (d + 1) u = nests l m d w"
        using nests_skip_ws [of l m "d + 1" u] d unfolding w by simp
      moreover have "v = JArr []" "r = w" using parsed s w by (auto simp: starts_def)
      ultimately show ?thesis unfolding s nests_open by simp
    next
      case False
      then obtain xs where k: "p_elems n (skip_ws u) = Some (xs, r)" "v = JArr xs"
        using parsed s by (auto simp: starts_def split: bind_splits)
      have "d + 1 \<le> m \<Longrightarrow> nests l m (d + 1) (skip_ws u) \<longleftrightarrow>
          (\<forall>x \<in> set xs. d + 1 + int (json_depth x) \<le> m) \<and> nests l m (d + 1 - 1) r"
        using False d k s by (intro "2.IH"(2)) (auto simp: starts_def)
      then show ?thesis unfolding s nests_open k depth_arr by auto
    qed
  qed
next
  case (4 n s)
  note d = \<open>0 < d\<close> \<open>d \<le> m\<close> and parsed = \<open>p_elems (Suc n) s = Some (xs, r)\<close>
  obtain x r1 where v: "p_value n s = Some (x, r1)" using parsed by (auto split: bind_splits)
  have first: "nests l m d s \<longleftrightarrow> d + int (json_depth x) \<le> m \<and> nests l m d (skip_ws r1)"
    using "4.IH"(1) [OF _ d(2) v] d by simp
  show ?case
  proof (cases "starts (CHR '']'') (skip_ws r1)")
    case True
    then obtain w where w: "skip_ws r1 = CHR '']'' # w" by (rule starts_elim)
    then have "xs = [x]" "r = w" using parsed v True by auto
    then show ?thesis using first d unfolding w by (simp add: nests_close)
  next
    case False
    then obtain r2 ys where e: "skip_ws r1 = CHR '','' # r2" "p_elems n (skip_ws r2) = Some (ys, r)" "xs = x # ys"
      using parsed v by (auto simp: expect_Some split: bind_splits)
    have "nests l m d (skip_ws r2) \<longleftrightarrow> (\<forall>x \<in> set ys. d + int (json_depth x) \<le> m) \<and> nests l m (d - 1) r"
      using e False v d by (intro "4.IH"(2)) (auto simp: expect_Some)
    then show ?thesis using first unfolding e nests_separator by auto
  qed
next
  case (6 n s)
  note d = \<open>0 < d\<close> \<open>d \<le> m\<close> and parsed = \<open>p_members (Suc n) s = Some (kvs, r)\<close>
  obtain s1 k r0 r1 v r2 where key: "s = quote_char # s1" "p_str s1 = Some (k, r0)" "skip_ws r0 = CHR '':'' # r1"
    "p_value n (skip_ws r1) = Some (v, r2)"
    using parsed by (auto simp: expect_Some split: bind_splits)
  have "nests l m d (skip_ws r1) \<longleftrightarrow> d + int (json_depth v) \<le> m \<and> nests l m d r2"
    using key d by (intro "6.IH"(1)) (auto simp: expect_Some)
  moreover have "nests l m d s = nests l m d (skip_ws r0)"
    unfolding key(1) nests_str [OF key(2)] by simp
  ultimately have first: "nests l m d s \<longleftrightarrow> d + int (json_depth v) \<le> m \<and> nests l m d (skip_ws r2)"
    unfolding key(3) nests_separator by simp
  show ?case
  proof (cases "starts (CHR ''}'') (skip_ws r2)")
    case True
    then obtain w where w: "skip_ws r2 = CHR ''}'' # w" by (rule starts_elim)
    then have "kvs = [(k, v)]" "r = w" using parsed key True by (auto simp: expect_Some)
    then show ?thesis using first d unfolding w by (simp add: nests_close)
  next
    case False
    then obtain r3 ys where e: "skip_ws r2 = CHR '','' # r3" "p_members n (skip_ws r3) = Some (ys, r)" "kvs = (k, v) # ys"
      using parsed key by (auto simp: expect_Some split: bind_splits)
    have "nests l m d (skip_ws r3) \<longleftrightarrow> (\<forall>kv \<in> set ys. d + int (json_depth (snd kv)) \<le> m) \<and> nests l m (d - 1) r"
      using e False key d by (intro "6.IH"(2)) (auto simp: expect_Some)
    then show ?thesis using first unfolding e nests_separator by auto
  qed
qed simp_all

lemma nests_nothing: "skip_ws r = [] \<Longrightarrow> nests l m d r"
  using nests_skip_ws [of l m d r] by simp

lemma preflight_scanned:
  assumes "1 \<le> m" "json_scan s = Some v"
  shows "preflight_nesting l m s = Inr () \<longleftrightarrow> int (json_depth v) \<le> m"
proof -
  obtain r where r: "p_value (2 * length s + 2) (skip_ws s) = Some (v, r)" "skip_ws r = []"
    using assms(2) unfolding json_scan_def by (auto simp del: p_value.simps mult_2 split: bind_splits if_splits)
  then show ?thesis
    using nests_parsed(1) [OF _ _ r(1), of 0 m l] nests_nothing [OF r(2)] assms(1)
    by (simp add: preflight_nesting_def del: p_value.simps mult_2)
qed

subsection \<open>The decoder\<close>

definition decodes :: "bool \<Rightarrow> int \<Rightarrow> string \<Rightarrow> json \<Rightarrow> bool" where
  "decodes require_object max_depth text v \<longleftrightarrow>
     json_scan text = Some v \<and> 1 \<le> max_depth \<and> int (json_depth v) \<le> max_depth \<and>
     distinct_keys v \<and> finite_json v \<and> short_ints v \<and> (require_object \<longrightarrow> (\<exists>d. v = JObj d))"

lemma not_object: "(case v of JObj d \<Rightarrow> False | _ \<Rightarrow> True) \<longleftrightarrow> (\<forall>d. v \<noteq> JObj d)"
  by (cases v) simp_all

lemma strict_json_loads_Inr:
  "strict_json_loads label require_object max_depth text = Inr v \<longleftrightarrow> decodes require_object max_depth text v"
proof -
  have "strict_json_loads label require_object max_depth text = Inr v \<longleftrightarrow>
      1 \<le> max_depth \<and> preflight_nesting label max_depth text = Inr () \<and> strict_scan label text = Inr v \<and>
      (require_object \<longrightarrow> (\<exists>d. v = JObj d))"
    by (auto simp: strict_json_loads_def rbind_Inr not_object split: if_splits)
  then show ?thesis
    using preflight_scanned [of max_depth "text" v label]
    by (auto simp: decodes_def strict_scan_Inr strict_value_def)
qed

end
