(* ===== verification/RunSafety.thy ===== *)
theory RunSafety
  imports RunOutcome SemanticProofs
begin

section \<open>What a verdict of the runner stands on\<close>

text \<open>
  Consequences of the outcome of a run: a pass was earned on evidence that closed every relation
  of the scenario, evidence of the framework's own kinds came from the framework, and replaying
  the evidence of a run gives the run again.
\<close>

subsection \<open>Passing\<close>

lemma oracle_pass_or_fail:
  "or_verdict (policy_oracle s t) \<noteq> FAIL \<longleftrightarrow> or_verdict (policy_oracle s t) = PASS"
  "or_verdict (outcome_oracle s t) \<noteq> FAIL \<longleftrightarrow> or_verdict (outcome_oracle s t) = PASS"
  "or_verdict (side_effect_oracle lax_bool s t) \<noteq> FAIL \<longleftrightarrow> or_verdict (side_effect_oracle lax_bool s t) = PASS"
  by (auto simp: policy_oracle_def outcome_oracle_def side_effect_oracle_def effect_result_def Let_def
      split: option.splits list.splits)

lemma not_any_failed:
  "\<not> any_failed (grade_deterministic_evidence lax_bool s t) \<longleftrightarrow>
     or_verdict (policy_oracle s t) = PASS \<and> or_verdict (outcome_oracle s t) = PASS \<and>
     or_verdict (side_effect_oracle lax_bool s t) = PASS"
proof -
  have "es_side_effect s = None \<Longrightarrow> or_verdict (side_effect_oracle lax_bool s t) = PASS"
    by (simp add: side_effect_oracle_def)
  then show ?thesis
    by (auto simp: any_failed_def grade_deterministic_evidence_def oracle_pass_or_fail)
qed

text \<open>A pass of the trial of scenario \<open>s\<close> on the evidence \<open>t\<close> the adapter reported.\<close>

definition pass_earned :: "'c run_env \<Rightarrow> evaluation_scenario \<Rightarrow> trial_evidence \<Rightarrow> 'c evaluated_trial \<Rightarrow> bool" where
  "pass_earned env s t r \<longleftrightarrow>
     verify_pregrading_closure (rn_lax_bool env) s t = Inr () \<and>
     or_verdict (policy_oracle s t) = PASS \<and>
     outcomes_met (es_required_outcomes s) (es_forbidden_outcomes s) (te_final_state t) \<and>
     or_verdict (side_effect_oracle (rn_lax_bool env) s t) = PASS \<and>
     (case es_semantic_rubric s of
        None \<Rightarrow> rt_evidence r = t \<and> rt_semantic_judgment r = None
      | Some rubric \<Rightarrow> \<exists>j. rt_semantic_judgment r = Some j \<and> jg_decision j = SEM_PASS \<and>
          derive_semantic_decision (jg_rubric j) (reconstructed_response j) = Inr SEM_PASS \<and>
          jg_rubric_identity j = rubric_identity rubric)"

lemma judged_judgment:
  assumes "judged env cx t rubric j t'" and rubric: "es_semantic_rubric (cx_scenario cx) = Some rubric"
  shows "derive_semantic_decision (jg_rubric j) (reconstructed_response j) = Inr (jg_decision j)"
    "jg_rubric_identity j = rubric_identity rubric"
proof -
  have "validate_judgment_receipt (rn_calibration env) j = Inr j \<and> jg_rubric_identity j = rubric_identity rubric"
    using assms(1) unfolding judged_def
  proof (elim disjE conjE exE)
    assume "verify_semantic_judgment (rn_calibration env) (cx_scenario cx) t = Inr (Some j)"
    then show ?thesis using rubric by (auto simp: verify_semantic_judgment_Some judgment_bound_def)
  next
    fix profile calibration input response
    assume c: "create_judgment_receipt (rn_calibration env) (scenario_identity (cx_scenario cx)) (cx_subject cx)
      (evidence_root t) rubric profile calibration input response = Inr j"
    show ?thesis
      using create_judgment_receipt_facts(1,2) [OF c] validate_judgment_receipt_rubric by fastforce
  qed
  then show "derive_semantic_decision (jg_rubric j) (reconstructed_response j) = Inr (jg_decision j)"
    "jg_rubric_identity j = rubric_identity rubric"
    by (auto dest: validate_judgment_receipt_decision(2))
qed

lemma graded_pass:
  assumes g: "graded_outcome env cx t r" and p: "rt_verdict r = PASS"
  shows "pass_earned env (cx_scenario cx) t r"
proof -
  have n: "\<not> any_failed (rt_oracle_results r)" using g p by (auto simp: graded_outcome_def)
  have "semantic_verdict d = PASS \<longleftrightarrow> d = SEM_PASS" "PASS = semantic_verdict d \<longleftrightarrow> d = SEM_PASS" for d
    by (cases d; simp add: semantic_verdict_def)+
  then show ?thesis
    using g p n not_any_failed [of "rn_lax_bool env" "cx_scenario cx" t] judged_judgment [of env cx t]
    by (fastforce simp: graded_outcome_def pass_earned_def outcome_oracle_pass split: option.splits)
qed

subsection \<open>Evidence of the framework's own kinds\<close>

text \<open>What a live adapter of kind \<open>a\<close> may not report.\<close>

definition framework_evidence :: "adapter_kind \<Rightarrow> evidence_event \<Rightarrow> bool" where
  "framework_evidence a e \<longleftrightarrow> a \<noteq> REPLAY_ADAPTER \<and>
     (ev_kind e = SEMANTIC_JUDGMENT \<or>
      ev_kind e = ATTACK_DELIVERY \<and> \<not> live_attack_adapter a \<or>
      ev_kind e = RETRIEVAL_DELIVERY \<and> a \<noteq> OPENAI_RETRIEVAL \<or>
      ev_kind e = APPROVAL_DECISION \<and> a \<noteq> OPENAI_HITL_APPROVAL \<or>
      ev_kind e = SIDE_EFFECT_OBSERVATION \<and> a \<noteq> OPENAI_SIDE_EFFECT \<or> foreign_protocol_event a e)"

lemma live_evidence_None:
  "live_evidence_violation a t = None \<longleftrightarrow> \<not> list_ex (framework_evidence a) (te_events t)"
proof -
  have "live_evidence_violation a t = None \<longleftrightarrow> a = REPLAY_ADAPTER \<or>
      (\<not> has_kind t SEMANTIC_JUDGMENT \<and> (has_kind t ATTACK_DELIVERY \<longrightarrow> live_attack_adapter a) \<and>
       (has_kind t RETRIEVAL_DELIVERY \<longrightarrow> a = OPENAI_RETRIEVAL) \<and>
       (has_kind t APPROVAL_DECISION \<longrightarrow> a = OPENAI_HITL_APPROVAL) \<and>
       (has_kind t SIDE_EFFECT_OBSERVATION \<longrightarrow> a = OPENAI_SIDE_EFFECT) \<and>
       filter (foreign_protocol_event a) (te_events t) = [])"
    unfolding live_evidence_violation_def
    by (cases "filter (foreign_protocol_event a) (te_events t)") simp_all
  then show ?thesis
    unfolding filter_empty_conv framework_evidence_def has_kind_def list_ex_iff by blast
qed

lemma framework_evidence_kept:
  assumes "validate_evidence t = Inr t'"
  shows "list_ex (framework_evidence a) (te_events t') \<longleftrightarrow> list_ex (framework_evidence a) (te_events t)"
proof -
  obtain es where "rmap snapshot_event (te_events t) = Inr es" and t': "te_events t' = es"
    using assms by (auto simp: validate_evidence_def rbind_Inr)
  then have "list_all2 (\<lambda>e e'. framework_evidence a e' = framework_evidence a e) (te_events t) es"
    by (auto simp: rmap_Inr snapshot_event_def mk_event_def rbind_Inr framework_evidence_def foreign_protocol_event_def
        elim!: list_all2_mono)
  then show ?thesis unfolding t' by (induction rule: list_all2_induct) simp_all
qed

lemma graded_run:
  assumes "run_trial env subject scenario trial_id = Inr r" "rt_verdict r \<noteq> BLOCKED"
  obtains sf s x t where "snapshot_subject subject = Inr sf" "snapshot_scenario scenario = Inr s"
    "rn_outcome env = RETURNED (RESULT x)" "to_evidence x (context_of sf s trial_id) = Inr t"
    "graded_outcome env (context_of sf s trial_id) t r"
proof -
  from assms(1) obtain sf s where s: "snapshot_subject subject = Inr sf" "snapshot_scenario scenario = Inr s" and
    "blocked_outcome (context_of sf s trial_id) r \<or>
     (\<exists>v x t. rn_outcome env = RETURNED v \<and> validate_adapter_result v = Inr x \<and>
        to_evidence x (context_of sf s trial_id) = Inr t \<and>
        \<not> scenario_contract_drifted env (context_of sf s trial_id) \<and> \<not> deadline_expired env AFTER_ADAPTER \<and>
        graded_outcome env (context_of sf s trial_id) t r)"
    by (rule run_trial_outcome)
  then obtain v x t where "rn_outcome env = RETURNED v" "validate_adapter_result v = Inr x"
    "to_evidence x (context_of sf s trial_id) = Inr t" "graded_outcome env (context_of sf s trial_id) t r"
    using assms(2) by (auto simp: blocked_outcome_def)
  moreover from this have "v = RESULT x"
    by (auto simp: validate_adapter_result_def rbind_Inr split: adapter_value.splits)
  ultimately show thesis using s by (intro that) simp_all
qed

lemma graded_reported:
  assumes "run_trial env subject scenario trial_id = Inr r" "rt_verdict r \<noteq> BLOCKED"
  obtains x where "rn_outcome env = RETURNED (RESULT x)" "\<not> list_ex (framework_evidence (rn_adapter env)) (ad_events x)"
  using assms
proof (rule graded_run)
  fix sf s x t
  assume x: "rn_outcome env = RETURNED (RESULT x)" "to_evidence x (context_of sf s trial_id) = Inr t"
    and g: "graded_outcome env (context_of sf s trial_id) t r"
  have "\<not> list_ex (framework_evidence (rn_adapter env)) (te_events t)"
    using g by (simp add: graded_outcome_def live_evidence_None)
  then show thesis
    using x framework_evidence_kept [of _ t] by (intro that [of x]) (auto simp: to_evidence_def)
qed

subsection \<open>Replay\<close>

lemma validate_evidence_numbers:
  assumes "validate_evidence t = Inr t'"
  shows "nonneg_float (te_elapsed_ms t)" "\<not> te_input_tokens t < 0" "\<not> te_output_tokens t < 0"
    "nonneg_float (te_estimated_cost_usd t)"
  using assms by (auto simp: validate_evidence_def result_simps)

text \<open>The world in which the recorded evidence of a trial of \<open>subject\<close> and \<open>s\<close> is replayed.\<close>

definition replays :: "'c run_env \<Rightarrow> subject_fingerprint \<Rightarrow> evaluation_scenario \<Rightarrow> string \<Rightarrow> trial_evidence
  \<Rightarrow> 'c run_env \<Rightarrow> bool" where
  "replays env subject s trial_id t env' \<longleftrightarrow> rn_adapter env' = REPLAY_ADAPTER \<and> rn_deadline env' = None \<and>
     rn_outcome env' = replay_execute t (subject_identity subject) (scenario_identity s) trial_id \<and>
     rn_identity_after env' = Some (scenario_identity s) \<and>
     rn_lax_bool env' = rn_lax_bool env \<and> rn_calibration env' = rn_calibration env"

lemma replayed_adapter:
  assumes own: "own_evidence (context_of subject s trial_id) t"
  obtains x where "replay_execute t (subject_identity subject) (scenario_identity s) trial_id = RETURNED (RESULT x)"
    "validate_adapter_result (RESULT x) = Inr x" "to_evidence x (context_of subject s trial_id) = Inr t"
proof -
  have t: "validate_evidence t = Inr t" using own by (simp add: own_evidence_def)
  have seq: "map ev_sequence (te_events t) = map int [0..<length (te_events t)]"
    using validate_evidence_sequence [OF t] by (intro nth_equalityI) simp_all
  have "\<lparr>te_trial_id = trial_id, te_subject_identity = subject_identity subject,
      te_scenario_identity = scenario_identity s, te_events = te_events t, te_final_state = te_final_state t,
      te_final_output = te_final_output t, te_elapsed_ms = te_elapsed_ms t, te_input_tokens = te_input_tokens t,
      te_output_tokens = te_output_tokens t, te_estimated_cost_usd = te_estimated_cost_usd t\<rparr> = t"
    using own by (cases t) (simp add: own_evidence_def context_of_def)
  note same = this
  let ?x = "\<lparr>ad_events = te_events t, ad_final_state = te_final_state t, ad_final_output = te_final_output t,
         ad_elapsed_ms = te_elapsed_ms t, ad_input_tokens = te_input_tokens t,
         ad_output_tokens = te_output_tokens t, ad_estimated_cost_usd = te_estimated_cost_usd t\<rparr>"
  have "to_evidence ?x (context_of subject s trial_id) = validate_evidence t"
    unfolding to_evidence_def context_of_def by (simp add: same)
  moreover have "replay_execute t (subject_identity subject) (scenario_identity s) trial_id = RETURNED (RESULT ?x)"
    using own by (simp add: replay_execute_def own_evidence_def context_of_def)
  moreover have "validate_adapter_result (RESULT ?x) = Inr ?x"
    using seq validate_evidence_numbers [OF t] by (simp add: validate_adapter_result_def)
  ultimately show thesis using t by (intro that [of ?x]) simp_all
qed

lemma replay_reproduces:
  assumes r: "run_trial env subject s trial_id = Inr r" and s: "validate_scenario s = Inr s"
    and subject: "validate_subject subject = Inr subject" and rubric: "es_semantic_rubric s = None"
    and env: "replays env subject s trial_id (rt_evidence r) env'"
  shows "run_trial env' subject s trial_id = Inr r"
proof -
  let ?cx = "context_of subject s trial_id"
  from r obtain sf s' where "snapshot_subject subject = Inr sf" "snapshot_scenario s = Inr s'"
    and "blocked_outcome (context_of sf s' trial_id) r \<or> (\<exists>t. graded_outcome env (context_of sf s' trial_id) t r)"
    by (rule run_trial_outcome) blast
  then have o': "blocked_outcome ?cx r \<or> (\<exists>t. graded_outcome env ?cx t r)"
    using s subject by (simp add: snapshot_subject_def snapshot_scenario_def)
  then have own: "own_evidence ?cx (rt_evidence r)"
    by (auto simp: blocked_outcome_def dest: graded_own)
  obtain x where x: "replay_execute (rt_evidence r) (subject_identity subject) (scenario_identity s) trial_id =
      RETURNED (RESULT x)" "validate_adapter_result (RESULT x) = Inr x" "to_evidence x ?cx = Inr (rt_evidence r)"
    using own by (rule replayed_adapter)
  have fresh: "\<not> scenario_contract_drifted env' ?cx" "rn_deadline env' = None"
    using env by (simp_all add: replays_def scenario_contract_drifted_def context_of_def)
  have "run_trial env' subject s trial_id = grade_evidence env' ?cx (rt_evidence r)"
    using s subject x fresh env
    by (simp add: run_trial_def snapshot_subject_def snapshot_scenario_def Let_def adapter_turn_def
        adapter_returned_def replays_def context_of_def before_deadline_def deadline_expired_def)
  also have "\<dots> = Inr r"
    using o'
  proof
    assume b: "blocked_outcome ?cx r"
    then have "r = \<lparr>rt_evidence = rt_evidence r, rt_oracle_results = [], rt_verdict = BLOCKED, rt_semantic_judgment = None\<rparr>"
      by (cases r) (simp add: blocked_outcome_def)
    then show ?thesis
      using b fresh by (simp add: grade_evidence_def before_deadline_def deadline_expired_def blocked_outcome_def)
  next
    assume "\<exists>t. graded_outcome env ?cx t r"
    then obtain t where g: "graded_outcome env ?cx t r" ..
    then have t: "rt_evidence r = t" and v: "verify_semantic_judgment (rn_calibration env) s t = Inr None"
      using rubric by (auto simp: graded_outcome_def context_of_def split: if_splits)
    have "r = \<lparr>rt_evidence = t, rt_oracle_results = grade_deterministic_evidence (rn_lax_bool env) s t,
        rt_verdict = (if any_failed (grade_deterministic_evidence (rn_lax_bool env) s t) then FAIL else PASS),
        rt_semantic_judgment = None\<rparr>"
      using g rubric by (cases r) (auto simp: graded_outcome_def context_of_def split: if_splits)
    moreover have "decide_trial env' ?cx t rs None = Inr \<lparr>rt_evidence = t, rt_oracle_results = rs,
        rt_verdict = (if any_failed rs then FAIL else PASS), rt_semantic_judgment = None\<rparr>" for rs
      using rubric by (simp add: decide_trial_def context_of_def)
    moreover have "live_evidence_violation REPLAY_ADAPTER t = None" by (simp add: live_evidence_violation_def)
    ultimately show ?thesis
      using g v env fresh(2)
      by (simp add: grade_evidence_def before_deadline_def deadline_expired_def close_and_grade_def grade_closed_def
          Let_def graded_outcome_def replays_def t context_of_def)
  qed
  finally show ?thesis .
qed

end
