(* ===== verification/Minimization.thy ===== *)
theory Minimization
  imports Prelude
begin

section \<open>Delta debugging (\<open>minimization/delta.py\<close>)\<close>

text \<open>
  \<open>ddmin\<close> reduces a failing input while its failure reproduces. The predicate is asked about a
  live system, so its answer may depend on how often it was asked: it is a function of the
  number of the evaluation and the candidate. Statements about minimality are about predicates
  that ignore the number.
\<close>

record 'a minimization_result =
  mr_original_size :: nat
  mr_minimized :: "'a list"
  mr_evaluations :: nat
  mr_exhausted :: bool

type_synonym 'a failure_predicate = "nat \<Rightarrow> 'a list \<Rightarrow> bool"

subsection \<open>Partitions\<close>

fun ranges_from :: "nat \<Rightarrow> nat list \<Rightarrow> (nat \<times> nat) list" where
  "ranges_from start [] = []"
| "ranges_from start (w # ws) = (start, start + w) # ranges_from (start + w) ws"

definition partition_ranges :: "nat \<Rightarrow> nat \<Rightarrow> (nat \<times> nat) list" where
  "partition_ranges n parts =
     (if n < 1 then []
      else let parts' = max 1 (min parts n) in
        ranges_from 0 (map (\<lambda>i. n div parts' + (if i < n mod parts' then 1 else 0)) [0..<parts']))"

definition subset_of :: "'a list \<Rightarrow> nat \<times> nat \<Rightarrow> 'a list" where
  "subset_of xs r = take (snd r - fst r) (drop (fst r) xs)"

definition complement_of :: "'a list \<Rightarrow> nat \<times> nat \<Rightarrow> 'a list" where
  "complement_of xs r = take (fst r) xs @ drop (snd r) xs"

subsection \<open>The search\<close>

text \<open>One \<open>for\<close> loop over candidates: stop at the budget or at the first that reproduces.\<close>

datatype 'a probe_result = EXHAUSTED nat | REDUCED nat "'a list" | UNREDUCED nat

fun probe :: "'a failure_predicate \<Rightarrow> nat \<Rightarrow> nat \<Rightarrow> 'a list list \<Rightarrow> 'a probe_result" where
  "probe p budget n [] = UNREDUCED n"
| "probe p budget n (c # cs) =
     (if n \<ge> budget then EXHAUSTED n
      else if p (n + 1) c then REDUCED (n + 1) c
      else probe p budget (n + 1) cs)"

lemma probe_count:
  "probe p budget n cs = UNREDUCED m \<Longrightarrow> m = n + length cs \<and> (cs = [] \<or> m \<le> budget)"
  "probe p budget n cs = REDUCED m c \<Longrightarrow> n < m \<and> m \<le> n + length cs \<and> m \<le> budget"
  "probe p budget n cs = EXHAUSTED m \<Longrightarrow> n \<le> m \<and> budget \<le> m \<and> m < n + length cs \<and> m \<le> max n budget"
  by (induction cs arbitrary: n) (fastforce split: if_splits)+

lemma ranges_from_length [simp]: "length (ranges_from s ws) = length ws"
  by (induction ws arbitrary: s) auto

lemma partition_ranges_length: "n \<ge> 1 \<Longrightarrow> length (partition_ranges n parts) = max 1 (min parts n)"
  by (simp add: partition_ranges_def Let_def)

text \<open>The \<open>while\<close> loop. Every turn asks at least once, so the budget bounds the recursion.\<close>

function ddmin_loop :: "'a failure_predicate \<Rightarrow> nat \<Rightarrow> 'a list \<Rightarrow> nat \<Rightarrow> nat \<Rightarrow> 'a list \<times> nat \<times> bool" where
  "ddmin_loop p budget current granularity n =
     (if length current < 2 then (current, n, False)
      else let ranges = partition_ranges (length current) granularity in
      (case probe p budget n (map (subset_of current) ranges) of
        EXHAUSTED m \<Rightarrow> (current, m, True)
      | REDUCED m c \<Rightarrow> ddmin_loop p budget c 2 m
      | UNREDUCED m \<Rightarrow> (case probe p budget m (map (complement_of current) ranges) of
          EXHAUSTED m' \<Rightarrow> (current, m', True)
        | REDUCED m' c \<Rightarrow> ddmin_loop p budget c (max 2 (granularity - 1)) m'
        | UNREDUCED m' \<Rightarrow>
            if granularity \<ge> length current then (current, m', False)
            else ddmin_loop p budget current (min (length current) (granularity * 2)) m')))"
  by pat_completeness auto
termination
proof (relation "measure (\<lambda>(p, budget, current, granularity, n). budget - n)", goal_cases)
  case (2 p budget current granularity n ranges m c)
  then show ?case using probe_count(2) [of p budget n "map (subset_of current) ranges"] by auto
next
  case (3 p budget current granularity n ranges m m' c)
  then show ?case
    using probe_count(1) [of p budget n "map (subset_of current) ranges"]
      probe_count(2) [of p budget m "map (complement_of current) ranges"] by auto
next
  case (4 p budget current granularity n ranges m m')
  have pos: "0 < length ranges"
    using 4(1,2) partition_ranges_length [of "length current" granularity] by simp
  have "m = n + length ranges" using probe_count(1) [OF 4(3)] by simp
  moreover have "m' = m + length ranges" "m' \<le> budget"
    using probe_count(1) [OF 4(4)] pos by auto
  ultimately have "n < m'" "m' \<le> budget" using pos by simp_all
  then show ?case by simp
qed simp

declare ddmin_loop.simps [simp del]

definition ddmin :: "'a list \<Rightarrow> 'a failure_predicate \<Rightarrow> int \<Rightarrow> error + 'a minimization_result" where
  "ddmin items p max_evaluations =
     (if max_evaluations \<le> 0 then Inl (Err ValueError ''max_evaluations must be a positive integer'')
      else if \<not> p 1 items then Inl (Err ValueError ''original input does not reproduce the failure'')
      else if length items < 2 then Inr
        \<lparr>mr_original_size = length items, mr_minimized = items, mr_evaluations = 1, mr_exhausted = False\<rparr>
      else (case ddmin_loop p (nat max_evaluations) items 2 1 of (current, n, exhausted) \<Rightarrow> Inr
        \<lparr>mr_original_size = length items, mr_minimized = current, mr_evaluations = n, mr_exhausted = exhausted\<rparr>))"

subsection \<open>Partitions cover the input\<close>

lemma ranges_from_mem:
  assumes "r \<in> set (ranges_from s ws)"
  shows "s \<le> fst r" "snd r \<le> s + sum_list ws" "\<exists>w \<in> set ws. snd r = fst r + w"
  using assms by (induction ws arbitrary: s) fastforce+

lemma ranges_from_nth: "i < length ws \<Longrightarrow> ranges_from s ws ! i = (s + sum_list (take i ws), s + sum_list (take (Suc i) ws))"
  by (induction ws arbitrary: s i) (auto simp: nth_Cons split: nat.splits)

lemma width_sum: "k \<le> n \<Longrightarrow> sum_list (map (\<lambda>i. b + (if i < k then 1 else 0)) [0..<n]) = b * n + k"
proof (induction n)
  case (Suc n)
  show ?case
  proof (cases "k \<le> n")
    case True
    with Suc show ?thesis by simp
  next
    case False
    then have k: "k = Suc n" using Suc.prems by simp
    have "sum_list (map (\<lambda>i. b + (if i < Suc n then 1 else 0)) [0..<Suc n]) = sum_list (map (\<lambda>i. b + 1) [0..<Suc n])"
      by (intro arg_cong [where f = sum_list] map_cong) auto
    also have "\<dots> = Suc n * (b + 1)" by (simp add: sum_list_triv del: upt_Suc)
    finally show ?thesis unfolding k by (simp add: algebra_simps del: upt_Suc)
  qed
qed simp

text \<open>With at least two parts every range is a proper, non-empty part of the input.\<close>

lemma partition_ranges_mem:
  assumes r: "r \<in> set (partition_ranges n parts)" and n: "2 \<le> n" and parts: "2 \<le> parts"
  shows "fst r < snd r" "snd r \<le> n" "snd r - fst r < n"
proof -
  define k where "k = max 1 (min parts n)"
  have k: "2 \<le> k" "k \<le> n" using n parts by (auto simp: k_def)
  let ?ws = "map (\<lambda>i. n div k + (if i < n mod k then 1 else 0)) [0..<k]"
  have r: "r \<in> set (ranges_from 0 ?ws)" using r n by (simp add: partition_ranges_def k_def Let_def)
  have sum: "sum_list ?ws = n" using k by (subst width_sum) (auto simp: mult.commute [of "n div k"])
  obtain i where i: "i < k" "snd r = fst r + (n div k + (if i < n mod k then 1 else 0))"
    using ranges_from_mem(3) [OF r] by auto
  have d: "1 \<le> n div k" using k by (simp add: div_greater_zero_iff Suc_le_eq)
  show "fst r < snd r" using i d by simp
  show "snd r \<le> n" using ranges_from_mem(2) [OF r] sum by simp
  have "n div k + 1 < n \<or> n mod k = 0"
  proof (cases "n = k")
    case False
    have "n div k \<le> n div 2" using k by (simp add: div_le_mono2)
    then show ?thesis using k False by auto
  qed simp
  moreover have "n div k < n" using k by (simp add: div_less_dividend)
  ultimately show "snd r - fst r < n" using i by auto
qed

text \<open>With as many parts as elements the ranges are the single positions.\<close>

lemma partition_ranges_singletons:
  assumes "n \<le> parts" "i < n"
  shows "(i, Suc i) \<in> set (partition_ranges n parts)"
proof -
  have "partition_ranges n parts = ranges_from 0 (map (\<lambda>i. 1) [0..<n])"
    using assms by (simp add: partition_ranges_def Let_def max_def min_def)
  moreover have "ranges_from 0 (map (\<lambda>i. 1) [0..<n]) ! i = (i, Suc i)"
    using assms(2) by (subst ranges_from_nth) (simp_all add: take_map sum_list_triv)
  ultimately show ?thesis using assms(2) by (metis length_map length_upt minus_nat.diff_0 nth_mem ranges_from_length)
qed

section \<open>Delta debugging terminates in a locally minimal reproducer\<close>

text \<open>
  The loop of \<open>ddmin\<close> ends within its budget with a failing subsequence; if that has two elements
  or more, no single one can be dropped from it.
\<close>

subsection \<open>Candidates\<close>

lemma probe_REDUCED: "probe p budget n cs = REDUCED m c \<Longrightarrow> c \<in> set cs \<and> p m c"
  by (induction cs arbitrary: n) (auto split: if_splits)

lemma probe_UNREDUCED:
  assumes "probe p budget n cs = UNREDUCED m" "c \<in> set cs"
  shows "\<exists>k. n < k \<and> k \<le> m \<and> \<not> p k c"
  using assms
proof (induction cs arbitrary: n)
  case (Cons d cs)
  then have tl: "probe p budget (n + 1) cs = UNREDUCED m" and d: "\<not> p (n + 1) d"
    by (auto split: if_splits)
  have "n + 1 \<le> m" using probe_count(1) [OF tl] by simp
  then show ?case using Cons.IH [OF tl] Cons.prems(2) d by (force dest: Suc_lessD)
qed simp

lemma subseq_subset: "subseq (subset_of xs r) xs"
  unfolding subset_of_def
  by (rule subseq_order.trans [OF sublist_imp_subseq [OF sublist_take] sublist_imp_subseq [OF sublist_drop]])

lemma subseq_complement:
  assumes "fst r \<le> snd r"
  shows "subseq (complement_of xs r) xs"
proof -
  have "drop (snd r) xs = drop (snd r - fst r) (drop (fst r) xs)" using assms by simp
  then have "subseq (drop (snd r) xs) (drop (fst r) xs)" by (metis sublist_drop sublist_imp_subseq)
  then have "subseq (take (fst r) xs @ drop (snd r) xs) (take (fst r) xs @ drop (fst r) xs)"
    by (rule list_emb_append_mono [OF subseq_order.refl])
  then show ?thesis by (simp add: complement_of_def)
qed

text \<open>Candidates of a proper partition are non-empty, shorter subsequences.\<close>

lemma candidate_shrinks:
  assumes "r \<in> set (partition_ranges (length xs) parts)" "2 \<le> length xs" "2 \<le> parts"
  shows "subseq (subset_of xs r) xs" "length (subset_of xs r) < length xs" "subset_of xs r \<noteq> []"
    "subseq (complement_of xs r) xs" "length (complement_of xs r) < length xs" "complement_of xs r \<noteq> []"
proof -
  note r = partition_ranges_mem [OF assms]
  show "subseq (subset_of xs r) xs" by (rule subseq_subset)
  show "subseq (complement_of xs r) xs" using r by (intro subseq_complement) simp
  have "length (subset_of xs r) = snd r - fst r" using r by (simp add: subset_of_def)
  then show "length (subset_of xs r) < length xs" "subset_of xs r \<noteq> []" using r by auto
  have "length (complement_of xs r) = length xs - (snd r - fst r)" using r by (simp add: complement_of_def)
  then show "length (complement_of xs r) < length xs" "complement_of xs r \<noteq> []" using r by auto
qed

subsection \<open>The loop\<close>

text \<open>
  What the loop returns from a turn with \<open>current\<close> after \<open>n\<close> evaluations: a non-empty
  subsequence that reproduced when it was asked about; within the budget; and, unless the budget
  ran out, one from which no single element could be dropped when that was last tried. The last
  element of all is never dropped: the loop stops at one element without asking about none.
\<close>

definition no_single_drop :: "'a failure_predicate \<Rightarrow> nat \<Rightarrow> nat \<Rightarrow> 'a list \<Rightarrow> bool" where
  "no_single_drop p n m xs \<longleftrightarrow>
     (\<forall>i < length xs. \<exists>k. n < k \<and> k \<le> m \<and> \<not> p k (take i xs @ drop (Suc i) xs))"

definition loop_result :: "'a failure_predicate \<Rightarrow> nat \<Rightarrow> 'a list \<Rightarrow> nat \<Rightarrow> 'a list \<times> nat \<times> bool \<Rightarrow> bool" where
  "loop_result p budget current n res \<longleftrightarrow> (case res of (xs, m, exhausted) \<Rightarrow>
     subseq xs current \<and> xs \<noteq> [] \<and> (xs = current \<or> (\<exists>k. n < k \<and> k \<le> m \<and> p k xs)) \<and>
     n \<le> m \<and> m \<le> budget \<and> (exhausted \<longrightarrow> m = budget) \<and>
     (\<not> exhausted \<and> 2 \<le> length xs \<longrightarrow> no_single_drop p n m xs))"

lemma loop_result_reduced:
  assumes "loop_result p budget c m res" "subseq c current" "p m c" "n < m"
  shows "loop_result p budget current n res"
proof -
  obtain xs m' e where res: "res = (xs, m', e)" by (cases res) auto
  have c: "subseq xs c" "xs \<noteq> []" "xs = c \<or> (\<exists>k. m < k \<and> k \<le> m' \<and> p k xs)" "m \<le> m'" "m' \<le> budget"
    "e \<longrightarrow> m' = budget" "\<not> e \<and> 2 \<le> length xs \<longrightarrow> no_single_drop p m m' xs"
    using assms(1) by (simp_all add: loop_result_def res)
  have "\<exists>k. n < k \<and> k \<le> m' \<and> p k xs" using c(3,4) assms(3,4) by (metis less_trans)
  moreover have "no_single_drop p m m' xs \<Longrightarrow> no_single_drop p n m' xs"
    using assms(4) unfolding no_single_drop_def by (meson less_trans)
  moreover have "subseq xs current" using c(1) assms(2) by (rule subseq_order.trans)
  ultimately show ?thesis
    using c assms(4) by (simp add: loop_result_def res)
qed

lemma loop_result_later:
  assumes "loop_result p budget current m res" "n \<le> m"
  shows "loop_result p budget current n res"
proof -
  obtain xs m' e where res: "res = (xs, m', e)" by (cases res) auto
  have "no_single_drop p m m' xs \<Longrightarrow> no_single_drop p n m' xs"
    using assms(2) unfolding no_single_drop_def by (meson le_less_trans)
  then show ?thesis using assms unfolding loop_result_def res by force
qed

lemma all_dropped:
  assumes "probe p budget m (map (complement_of xs) (partition_ranges (length xs) parts)) = UNREDUCED m'"
    and "length xs \<le> parts"
  shows "no_single_drop p m m' xs"
  unfolding no_single_drop_def
proof (intro allI impI)
  fix i assume "i < length xs"
  then have "(i, Suc i) \<in> set (partition_ranges (length xs) parts)" using assms(2) by (intro partition_ranges_singletons)
  then have "complement_of xs (i, Suc i) \<in> set (map (complement_of xs) (partition_ranges (length xs) parts))" by simp
  from probe_UNREDUCED [OF assms(1) this]
  show "\<exists>k. m < k \<and> k \<le> m' \<and> \<not> p k (take i xs @ drop (Suc i) xs)" by (simp add: complement_of_def)
qed

text \<open>One turn of the loop.\<close>

lemma ddmin_loop_turn:
  assumes "\<not> length current < 2" "ranges = partition_ranges (length current) granularity"
  shows "ddmin_loop p budget current granularity n =
      (case probe p budget n (map (subset_of current) ranges) of
        EXHAUSTED m \<Rightarrow> (current, m, True)
      | REDUCED m c \<Rightarrow> ddmin_loop p budget c 2 m
      | UNREDUCED m \<Rightarrow> (case probe p budget m (map (complement_of current) ranges) of
          EXHAUSTED m' \<Rightarrow> (current, m', True)
        | REDUCED m' c \<Rightarrow> ddmin_loop p budget c (max 2 (granularity - 1)) m'
        | UNREDUCED m' \<Rightarrow>
            if granularity \<ge> length current then (current, m', False)
            else ddmin_loop p budget current (min (length current) (granularity * 2)) m'))"
  using assms(1) unfolding assms(2) by (subst ddmin_loop.simps) (simp add: Let_def)

lemma ddmin_loop_result:
  assumes "2 \<le> granularity" "n \<le> budget" "current \<noteq> []"
  shows "loop_result p budget current n (ddmin_loop p budget current granularity n)"
  using assms
proof (induction p budget current granularity n rule: ddmin_loop.induct)
  case (1 p budget current granularity n)
  show ?case
  proof (cases "length current < 2")
    case True
    then show ?thesis using "1.prems" by (subst ddmin_loop.simps) (simp add: loop_result_def)
  next
    case long: False
    define ranges where "ranges = partition_ranges (length current) granularity"
    note shrink = candidate_shrinks [of _ current granularity, folded ranges_def]
    note loop = ddmin_loop_turn [OF long ranges_def]
    show ?thesis
    proof (cases "probe p budget n (map (subset_of current) ranges)")
      case (EXHAUSTED m)
      with probe_count(3) [OF this] "1.prems" show ?thesis by (simp add: loop loop_result_def)
    next
      case (REDUCED m c)
      then have c: "c \<in> subset_of current ` set ranges" "p m c" "n < m" "m \<le> budget"
        using probe_REDUCED [OF REDUCED] probe_count(2) [OF REDUCED] by auto
      then have s: "subseq c current" "c \<noteq> []" using shrink(1,3) long "1.prems"(1) by auto
      have "loop_result p budget c m (ddmin_loop p budget c 2 m)"
        using REDUCED c s long by (intro "1.IH"(1) [of ranges]) (simp_all add: ranges_def)
      from loop_result_reduced [OF this s(1) c(2,3)] show ?thesis by (simp add: loop REDUCED)
    next
      case m: (UNREDUCED m)
      have nm: "n \<le> m" "m \<le> budget" using probe_count(1) [OF m] "1.prems"(2) by auto
      show ?thesis
      proof (cases "probe p budget m (map (complement_of current) ranges)")
        case (EXHAUSTED m')
        with probe_count(3) [OF this] nm "1.prems" show ?thesis by (simp add: loop m loop_result_def)
      next
        case (REDUCED m' c)
        then have c: "c \<in> complement_of current ` set ranges" "p m' c" "m < m'" "m' \<le> budget"
          using probe_REDUCED [OF REDUCED] probe_count(2) [OF REDUCED] by auto
        then have s: "subseq c current" "c \<noteq> []" using shrink(4,6) long "1.prems"(1) by auto
        have "loop_result p budget c m' (ddmin_loop p budget c (max 2 (granularity - 1)) m')"
          using REDUCED m c s long by (intro "1.IH"(2) [of ranges]) (simp_all add: ranges_def)
        from loop_result_reduced [OF this s(1) c(2)] c(3) nm show ?thesis by (simp add: loop REDUCED m)
      next
        case m': (UNREDUCED m')
        have mm: "m \<le> m'" "m' \<le> budget" using probe_count(1) [OF m'] nm by auto
        show ?thesis
        proof (cases "granularity \<ge> length current")
          case True
          have "no_single_drop p m m' current" using all_dropped m' True unfolding ranges_def by blast
          then have "no_single_drop p n m' current" using nm unfolding no_single_drop_def by (meson le_less_trans)
          then show ?thesis using True nm mm "1.prems" by (simp add: loop m m' loop_result_def)
        next
          case False
          have "loop_result p budget current m' (ddmin_loop p budget current (min (length current) (granularity * 2)) m')"
            using m m' False mm long "1.prems" by (intro "1.IH"(3) [of ranges]) (simp_all add: ranges_def)
          from loop_result_later [OF this] mm nm False show ?thesis by (simp add: loop m m')
        qed
      qed
    qed
  qed
qed

lemma ddmin_Inr:
  assumes "ddmin items p budget = Inr res" "items \<noteq> []"
  shows "loop_result p (nat budget) items 1 (mr_minimized res, mr_evaluations res, mr_exhausted res)"
    "p 1 items" "mr_original_size res = length items"
proof -
  have b: "0 < budget" "p 1 items" using assms(1) by (auto simp: ddmin_def split: if_splits)
  then have one: "1 \<le> nat budget" by simp
  obtain xs m e where l: "ddmin_loop p (nat budget) items 2 1 = (xs, m, e)"
    by (cases "ddmin_loop p (nat budget) items 2 1") auto
  have "loop_result p (nat budget) items 1 (xs, m, e)"
    using ddmin_loop_result [of 2 1 "nat budget" items p] one assms(2) l by simp
  then show "loop_result p (nat budget) items 1 (mr_minimized res, mr_evaluations res, mr_exhausted res)"
    "p 1 items" "mr_original_size res = length items"
    using assms b one l by (auto simp: ddmin_def loop_result_def split: if_splits)
qed

subsection \<open>The empty sequence is never asked about\<close>

text \<open>Predicates that differ on the empty sequence only are not told apart.\<close>

definition agree_on_nonempty :: "'a failure_predicate \<Rightarrow> 'a failure_predicate \<Rightarrow> bool" where
  "agree_on_nonempty p q \<longleftrightarrow> (\<forall>k xs. xs \<noteq> [] \<longrightarrow> p k xs = q k xs)"

lemma probe_agree:
  "agree_on_nonempty p q \<Longrightarrow> [] \<notin> set cs \<Longrightarrow> probe q budget n cs = probe p budget n cs"
  by (induction cs arbitrary: n) (auto simp: agree_on_nonempty_def)

lemma ddmin_loop_agree:
  assumes "agree_on_nonempty p q" "2 \<le> granularity"
  shows "ddmin_loop q budget current granularity n = ddmin_loop p budget current granularity n"
  using assms
proof (induction p budget current granularity n rule: ddmin_loop.induct)
  case (1 p budget current granularity n)
  show ?case
  proof (cases "length current < 2")
    case False
    define ranges where "ranges = partition_ranges (length current) granularity"
    have c: "[] \<notin> subset_of current ` set ranges" "[] \<notin> complement_of current ` set ranges"
      using candidate_shrinks(3,6) [of _ current granularity, folded ranges_def] False "1.prems"(2) by force+
    have asked: "probe q budget n (map (subset_of current) ranges) = probe p budget n (map (subset_of current) ranges)"
      "probe q budget m (map (complement_of current) ranges) = probe p budget m (map (complement_of current) ranges)" for m
      using c by (auto intro!: probe_agree "1.prems"(1))
    note IH = "1.IH"(1) [OF False ranges_def _ "1.prems"(1)] "1.IH"(2) [OF False ranges_def _ _ "1.prems"(1)]
      "1.IH"(3) [OF False ranges_def _ _ _ "1.prems"(1)]
    show ?thesis
      unfolding ddmin_loop_turn [OF False ranges_def] asked
      using IH "1.prems"(2) by (auto split: probe_result.split)
  qed (simp add: ddmin_loop.simps)
qed

lemma ddmin_agree:
  assumes "agree_on_nonempty p q" "items \<noteq> []"
  shows "ddmin items q budget = ddmin items p budget"
proof -
  have "q 1 items = p 1 items" using assms by (simp add: agree_on_nonempty_def)
  then show ?thesis using assms(1) by (simp add: ddmin_def ddmin_loop_agree)
qed

subsection \<open>A budget that suffices\<close>

text \<open>An upper bound of the turns left with \<open>l\<close> elements and granularity \<open>g\<close>.\<close>

definition turns_left :: "nat \<Rightarrow> nat \<Rightarrow> nat" where
  "turns_left l g = l * (l + 1) + (l - min g l)"

lemma turns_left_reduced: "l' < l \<Longrightarrow> turns_left l' g' < turns_left l g"
proof -
  assume "l' < l"
  then have "(l' + 1) * (l' + 2) \<le> l * (l + 1)" by (intro mult_le_mono) simp_all
  moreover have "turns_left l' g' \<le> l' * (l' + 1) + l'" by (simp add: turns_left_def)
  ultimately show ?thesis by (simp add: turns_left_def algebra_simps)
qed

lemma turns_left_doubled: "2 \<le> g \<Longrightarrow> g < l \<Longrightarrow> turns_left l (min l (g * 2)) < turns_left l g"
proof -
  assume "2 \<le> g" "g < l"
  then have "min g l < min (min l (g * 2)) l" "min (min l (g * 2)) l \<le> l" by auto
  then show ?thesis unfolding turns_left_def by linarith
qed

lemma one_turn:
  assumes "n + 2 * N * (t + 1) \<le> budget" "t' < t" "m \<le> n + 2 * N"
  shows "m + 2 * N * (t' + 1) \<le> (budget :: nat)"
proof -
  have "2 * N * (t' + 1) \<le> 2 * N * t" using assms(2) by (intro mult_le_mono) simp_all
  then show ?thesis using assms(1,3) by (simp add: algebra_simps)
qed

lemma ddmin_loop_enough:
  assumes "2 \<le> granularity" "length current \<le> N"
    and "n + 2 * N * (turns_left (length current) granularity + 1) \<le> budget"
  shows "\<not> snd (snd (ddmin_loop p budget current granularity n))"
  using assms
proof (induction p budget current granularity n rule: ddmin_loop.induct)
  case (1 p budget current granularity n)
  show ?case
  proof (cases "length current < 2")
    case True
    then show ?thesis by (subst ddmin_loop.simps) simp
  next
    case long: False
    define ranges where "ranges = partition_ranges (length current) granularity"
    note shrink = candidate_shrinks [of _ current granularity, folded ranges_def]
    have l: "length ranges \<le> N" "0 < N"
      using long "1.prems"(2) by (auto simp: ranges_def partition_ranges_length)
    have room: "n + 2 * N \<le> budget" using "1.prems"(3) by (simp add: algebra_simps)
    note step = one_turn [OF "1.prems"(3)]
    note loop = ddmin_loop_turn [OF long ranges_def]
    show ?thesis
    proof (cases "probe p budget n (map (subset_of current) ranges)")
      case (EXHAUSTED m)
      with probe_count(3) [OF this] l room show ?thesis by simp
    next
      case (REDUCED m c)
      then have c: "c \<in> subset_of current ` set ranges" "m \<le> n + 2 * N"
        using probe_REDUCED [OF REDUCED] probe_count(2) [OF REDUCED] l by auto
      then have s: "length c < length current" using shrink(2) long "1.prems"(1) by auto
      have "\<not> snd (snd (ddmin_loop p budget c 2 m))"
        using REDUCED c s long "1.prems"(2) step [OF turns_left_reduced [OF s]]
        by (intro "1.IH"(1) [of ranges]) (simp_all add: ranges_def)
      then show ?thesis by (simp add: loop REDUCED)
    next
      case m: (UNREDUCED m)
      have nm: "m \<le> n + N" using probe_count(1) [OF m] l by auto
      show ?thesis
      proof (cases "probe p budget m (map (complement_of current) ranges)")
        case (EXHAUSTED m')
        with probe_count(3) [OF this] nm l room show ?thesis by simp
      next
        case (REDUCED m' c)
        then have c: "c \<in> complement_of current ` set ranges" "m' \<le> n + 2 * N"
          using probe_REDUCED [OF REDUCED] probe_count(2) [OF REDUCED] l nm by auto
        then have s: "length c < length current" using shrink(5) long "1.prems"(1) by auto
        have "\<not> snd (snd (ddmin_loop p budget c (max 2 (granularity - 1)) m'))"
          using REDUCED m c s long "1.prems"(2) step [OF turns_left_reduced [OF s]]
          by (intro "1.IH"(2) [of ranges]) (simp_all add: ranges_def)
        then show ?thesis by (simp add: loop REDUCED m)
      next
        case m': (UNREDUCED m')
        have mm: "m' \<le> n + 2 * N" using probe_count(1) [OF m'] nm l by auto
        show ?thesis
        proof (cases "granularity \<ge> length current")
          case True
          then show ?thesis by (simp add: loop m m')
        next
          case False
          then have d: "turns_left (length current) (min (length current) (granularity * 2))
              < turns_left (length current) granularity"
            using "1.prems"(1) by (intro turns_left_doubled) simp_all
          have "\<not> snd (snd (ddmin_loop p budget current (min (length current) (granularity * 2)) m'))"
            using m m' False mm long "1.prems"(1,2) step [OF d mm]
            by (intro "1.IH"(3) [of ranges]) (simp_all add: ranges_def)
          then show ?thesis using False by (simp add: loop m m')
        qed
      qed
    qed
  qed
qed

text \<open>A cubic budget is never exhausted.\<close>

definition sufficient_budget :: "nat \<Rightarrow> nat" where
  "sufficient_budget l = 1 + 2 * l * (l + 1) ^ 2"

lemma ddmin_not_exhausted:
  assumes "ddmin items p budget = Inr res" "sufficient_budget (length items) \<le> nat budget"
  shows "\<not> mr_exhausted res"
proof (cases "length items < 2")
  case False
  have "turns_left (length items) 2 + 1 \<le> (length items + 1) ^ 2"
    using False by (simp add: turns_left_def power2_eq_square algebra_simps)
  then have "2 * length items * (turns_left (length items) 2 + 1) \<le> 2 * length items * (length items + 1) ^ 2"
    by (intro mult_le_mono) simp_all
  then have "1 + 2 * length items * (turns_left (length items) 2 + 1) \<le> nat budget"
    using assms(2) unfolding sufficient_budget_def by linarith
  then have "\<not> snd (snd (ddmin_loop p (nat budget) items 2 1))"
    by (intro ddmin_loop_enough [where N = "length items"]) simp_all
  then show ?thesis
    using assms(1) False by (auto simp: ddmin_def split: if_splits prod.splits)
qed (use assms(1) in \<open>auto simp: ddmin_def split: if_splits\<close>)

lemma ddmin_returns: "returns (ddmin items p budget) \<longleftrightarrow> 0 < budget \<and> p 1 items"
  by (simp add: ddmin_def split: prod.splits)

lemma ddmin_finishes:
  assumes "p 1 items" "sufficient_budget (length items) \<le> nat budget"
  shows "\<exists>res. ddmin items p budget = Inr res \<and> \<not> mr_exhausted res"
proof -
  have "0 < budget" using assms(2) by (simp add: sufficient_budget_def split: if_splits)
  then obtain res where "ddmin items p budget = Inr res"
    using assms(1) ddmin_returns [of items p budget] by (auto simp: returns_iff)
  with ddmin_not_exhausted [OF this assms(2)] show ?thesis by blast
qed

end
