(* ===== verification/Aggregates.thy ===== *)
theory Aggregates
  imports Evidence "HOL-Library.Multiset"
begin

section \<open>Sufficient statistics and their streams (\<open>statistics/sufficient.py\<close>, \<open>statistics/streaming.py\<close>)\<close>

text \<open>
  A campaign is counted in integers: verdicts one by one, or the four combinations of a
  candidate with its baseline. The counts are taken from a whole vector, or by an aggregator
  that sees one verdict after the other and can be merged with another. What an aggregator is
  relied on for is a locale; both aggregators are instances of it.
\<close>

subsection \<open>Bounds (\<open>statistics/limits.py\<close>)\<close>

definition max_statistical_trials :: int where
  "max_statistical_trials = 100000"

definition max_reliability_k :: int where
  "max_reliability_k = 1000000"

definition validate_vector :: "string \<Rightarrow> 'a list \<Rightarrow> error + int" where
  "validate_vector label xs =
     (if int (length xs) > max_statistical_trials
      then Inl (vale (label @ '' exceeds maximum statistical trial count '' @ int_str max_statistical_trials))
      else Inr (int (length xs)))"

definition validate_reliability_k :: "int \<Rightarrow> error + int" where
  "validate_reliability_k k =
     (if k < 1 then Inl (vale ''k must be an integer >= 1'')
      else if k > max_reliability_k
      then Inl (vale (''k exceeds maximum reliability retry depth '' @ int_str max_reliability_k))
      else Inr k)"

definition non_negative :: "string \<Rightarrow> int \<Rightarrow> bool \<times> error" where
  "non_negative name v = (v < 0, vale (name @ '' must be a non-negative exact integer''))"

subsection \<open>Binary outcomes\<close>

record binary_stats =
  bs_trials :: int
  bs_passes :: int
  bs_failures :: int
  bs_blocked :: int
  bs_inconclusive :: int

definition bs_resolved :: "binary_stats \<Rightarrow> int" where
  "bs_resolved s = bs_passes s + bs_failures s"

definition binary_schema :: string where
  "binary_schema = ''agent-evals/binary-sufficient-statistics/v1''"

definition validate_binary :: "binary_stats \<Rightarrow> error + binary_stats" where
  "validate_binary s =
     rbind (raise_if
       [non_negative ''trials'' (bs_trials s), non_negative ''passes'' (bs_passes s),
        non_negative ''failures'' (bs_failures s), non_negative ''blocked'' (bs_blocked s),
        non_negative ''inconclusive'' (bs_inconclusive s),
        (bs_trials s > max_statistical_trials,
         vale (''trials exceeds maximum statistical trial count '' @ int_str max_statistical_trials)),
        (bs_trials s \<noteq> bs_passes s + bs_failures s + bs_blocked s + bs_inconclusive s,
         vale ''trials must equal passes + failures + blocked + inconclusive'')])
     (\<lambda>_. Inr s)"

definition binary_json :: "binary_stats \<Rightarrow> json" where
  "binary_json s = JObj
     [(''blocked'', JInt (bs_blocked s)), (''failures'', JInt (bs_failures s)),
      (''inconclusive'', JInt (bs_inconclusive s)), (''passes'', JInt (bs_passes s)),
      (''schema_version'', JStr binary_schema), (''trials'', JInt (bs_trials s))]"

definition binary_root :: "binary_stats \<Rightarrow> string" where
  "binary_root s = sha256_hex (binary_schema @ [CHR 0x00] @ utf8 (json_dumps (binary_json s)))"

text \<open>One verdict counted, as the loops of the batch and of the stream do.\<close>

fun count_verdict :: "verdict \<Rightarrow> binary_stats \<Rightarrow> binary_stats" where
  "count_verdict PASS s = s\<lparr>bs_passes := bs_passes s + 1\<rparr>"
| "count_verdict FAIL s = s\<lparr>bs_failures := bs_failures s + 1\<rparr>"
| "count_verdict BLOCKED s = s\<lparr>bs_blocked := bs_blocked s + 1\<rparr>"
| "count_verdict INCONCLUSIVE s = s\<lparr>bs_inconclusive := bs_inconclusive s + 1\<rparr>"

definition no_trials :: binary_stats where
  "no_trials = \<lparr>bs_trials = 0, bs_passes = 0, bs_failures = 0, bs_blocked = 0, bs_inconclusive = 0\<rparr>"

definition binary_from_verdicts :: "verdict list \<Rightarrow> error + binary_stats" where
  "binary_from_verdicts vs =
     rbind (validate_vector ''binary sufficient-statistics verdict vector'' vs) (\<lambda>n.
     validate_binary ((fold count_verdict vs no_trials)\<lparr>bs_trials := n\<rparr>))"

subsection \<open>Paired outcomes\<close>

record paired_stats =
  ps_pairs :: int
  ps_both_pass :: int
  ps_baseline_only_pass :: int
  ps_candidate_only_pass :: int
  ps_both_fail :: int

definition delta_numerator :: "paired_stats \<Rightarrow> int" where
  "delta_numerator s = ps_candidate_only_pass s - ps_baseline_only_pass s"

definition paired_schema :: string where
  "paired_schema = ''agent-evals/paired-sufficient-statistics/v1''"

definition validate_paired :: "paired_stats \<Rightarrow> error + paired_stats" where
  "validate_paired s =
     rbind (raise_if
       [non_negative ''pairs'' (ps_pairs s), non_negative ''both_pass'' (ps_both_pass s),
        non_negative ''baseline_only_pass'' (ps_baseline_only_pass s),
        non_negative ''candidate_only_pass'' (ps_candidate_only_pass s),
        non_negative ''both_fail'' (ps_both_fail s),
        (ps_pairs s = 0, vale ''paired sufficient statistics require at least one pair''),
        (ps_pairs s > max_statistical_trials,
         vale (''pairs exceeds maximum statistical trial count '' @ int_str max_statistical_trials)),
        (ps_pairs s \<noteq> ps_both_pass s + ps_baseline_only_pass s + ps_candidate_only_pass s + ps_both_fail s,
         vale ''paired sufficient-statistics counts must sum to pairs'')])
     (\<lambda>_. Inr s)"

definition paired_json :: "paired_stats \<Rightarrow> json" where
  "paired_json s = JObj
     [(''baseline_only_pass'', JInt (ps_baseline_only_pass s)), (''both_fail'', JInt (ps_both_fail s)),
      (''both_pass'', JInt (ps_both_pass s)), (''candidate_only_pass'', JInt (ps_candidate_only_pass s)),
      (''pairs'', JInt (ps_pairs s)), (''schema_version'', JStr paired_schema)]"

definition paired_root :: "paired_stats \<Rightarrow> string" where
  "paired_root s = sha256_hex (paired_schema @ [CHR 0x00] @ utf8 (json_dumps (paired_json s)))"

definition unresolved :: "verdict \<Rightarrow> bool" where
  "unresolved v \<longleftrightarrow> v = BLOCKED \<or> v = INCONCLUSIVE"

definition count_pair :: "verdict \<times> verdict \<Rightarrow> paired_stats \<Rightarrow> paired_stats" where
  "count_pair p s =
     (if fst p = PASS \<and> snd p = PASS then s\<lparr>ps_both_pass := ps_both_pass s + 1\<rparr>
      else if fst p = PASS then s\<lparr>ps_baseline_only_pass := ps_baseline_only_pass s + 1\<rparr>
      else if snd p = PASS then s\<lparr>ps_candidate_only_pass := ps_candidate_only_pass s + 1\<rparr>
      else s\<lparr>ps_both_fail := ps_both_fail s + 1\<rparr>)"

definition no_pairs :: paired_stats where
  "no_pairs = \<lparr>ps_pairs = 0, ps_both_pass = 0, ps_baseline_only_pass = 0, ps_candidate_only_pass = 0, ps_both_fail = 0\<rparr>"

fun count_pairs :: "(verdict \<times> verdict) list \<Rightarrow> paired_stats \<Rightarrow> error + paired_stats" where
  "count_pairs [] s = Inr s"
| "count_pairs (p # ps) s =
     (if unresolved (fst p) \<or> unresolved (snd p)
      then Inl (vale (''paired sufficient statistics require resolved PASS/FAIL outcomes; ''
             @ ''BLOCKED and INCONCLUSIVE must remain separate''))
      else count_pairs ps (count_pair p s))"

definition paired_from_verdicts :: "verdict list \<Rightarrow> verdict list \<Rightarrow> error + paired_stats" where
  "paired_from_verdicts baseline candidate =
     rbind (validate_vector ''paired baseline verdict vector'' baseline) (\<lambda>n.
     rbind (validate_vector ''paired candidate verdict vector'' candidate) (\<lambda>m.
     if n \<noteq> m
     then Inl (vale ''paired sufficient statistics require equal-length verdict vectors'')
     else if n = 0 then Inl (vale ''paired sufficient statistics require at least one pair'')
     else rbind (count_pairs (zip baseline candidate) no_pairs) (\<lambda>s. validate_paired (s\<lparr>ps_pairs := n\<rparr>))))"

subsection \<open>Aggregators\<close>

text \<open>The fields of an aggregator are those of the statistics it derives, without their invariant.\<close>

definition binary_update :: "binary_stats \<Rightarrow> verdict \<Rightarrow> error + binary_stats" where
  "binary_update a v =
     (if bs_trials a \<ge> max_statistical_trials
      then Inl (vale (''streaming aggregate exceeds maximum statistical trial count ''
             @ int_str max_statistical_trials))
      else Inr (count_verdict v (a\<lparr>bs_trials := bs_trials a + 1\<rparr>)))"

definition binary_add :: "binary_stats \<Rightarrow> binary_stats \<Rightarrow> binary_stats" where
  "binary_add a b = \<lparr>bs_trials = bs_trials a + bs_trials b, bs_passes = bs_passes a + bs_passes b,
     bs_failures = bs_failures a + bs_failures b, bs_blocked = bs_blocked a + bs_blocked b,
     bs_inconclusive = bs_inconclusive a + bs_inconclusive b\<rparr>"

definition binary_merge :: "binary_stats \<Rightarrow> binary_stats \<Rightarrow> error + binary_stats" where
  "binary_merge a b =
     (if bs_trials a + bs_trials b > max_statistical_trials
      then Inl (vale (''merged aggregate exceeds maximum statistical trial count ''
             @ int_str max_statistical_trials))
      else Inr (binary_add a b))"

definition paired_update :: "paired_stats \<Rightarrow> verdict \<times> verdict \<Rightarrow> error + paired_stats" where
  "paired_update a p =
     (if unresolved (fst p) \<or> unresolved (snd p)
      then Inl (vale (''streaming paired aggregation requires resolved PASS/FAIL outcomes; ''
             @ ''BLOCKED and INCONCLUSIVE remain separate''))
      else if ps_pairs a \<ge> max_statistical_trials
      then Inl (vale (''streaming paired aggregate exceeds maximum statistical trial count ''
             @ int_str max_statistical_trials))
      else Inr (count_pair p (a\<lparr>ps_pairs := ps_pairs a + 1\<rparr>)))"

definition paired_add :: "paired_stats \<Rightarrow> paired_stats \<Rightarrow> paired_stats" where
  "paired_add a b = \<lparr>ps_pairs = ps_pairs a + ps_pairs b, ps_both_pass = ps_both_pass a + ps_both_pass b,
     ps_baseline_only_pass = ps_baseline_only_pass a + ps_baseline_only_pass b,
     ps_candidate_only_pass = ps_candidate_only_pass a + ps_candidate_only_pass b,
     ps_both_fail = ps_both_fail a + ps_both_fail b\<rparr>"

definition paired_merge :: "paired_stats \<Rightarrow> paired_stats \<Rightarrow> error + paired_stats" where
  "paired_merge a b =
     (if ps_pairs a + ps_pairs b > max_statistical_trials
      then Inl (vale (''merged paired aggregate exceeds maximum statistical trial count ''
             @ int_str max_statistical_trials))
      else Inr (paired_add a b))"

text \<open>\<open>snapshot\<close> constructs the statistics, which validates them.\<close>

definition binary_snapshot :: "binary_stats \<Rightarrow> error + binary_stats" where
  "binary_snapshot a = validate_binary a"

definition paired_snapshot :: "paired_stats \<Rightarrow> error + paired_stats" where
  "paired_snapshot a = validate_paired a"

text \<open>An aggregator fed with a sequence.\<close>

fun streamed :: "('s \<Rightarrow> 'v \<Rightarrow> error + 's) \<Rightarrow> 's \<Rightarrow> 'v list \<Rightarrow> error + 's" where
  "streamed update s [] = Inr s"
| "streamed update s (v # vs) = rbind (update s v) (\<lambda>t. streamed update t vs)"

subsection \<open>What an aggregator promises\<close>

text \<open>
  Counting is adding: an update adds the unit of its value, a merge adds two aggregates, and
  both refuse to pass the bound. The clients get what a stream amounts to, that its order and
  its split into merged parts do not matter, and that it never passes the bound.
\<close>

locale aggregator =
  fixes size :: "'s \<Rightarrow> int" and zero :: 's and plus :: "'s \<Rightarrow> 's \<Rightarrow> 's" and unit_of :: "'v \<Rightarrow> 's"
    and total :: "'v list \<Rightarrow> 's"
    and accepts :: "'v \<Rightarrow> bool" and update :: "'s \<Rightarrow> 'v \<Rightarrow> error + 's" and merge :: "'s \<Rightarrow> 's \<Rightarrow> error + 's"
  assumes plus_assoc: "plus (plus a b) c = plus a (plus b c)"
    and plus_commute: "plus a b = plus b a"
    and plus_zero: "plus zero a = a"
    and total_Nil: "total [] = zero"
    and total_Cons: "total (v # vs) = plus (unit_of v) (total vs)"
    and size_plus: "size (plus a b) = size a + size b"
    and size_zero: "size zero = 0"
    and size_unit: "accepts v \<Longrightarrow> size (unit_of v) = 1"
    and update_Inr: "update a v = Inr b \<longleftrightarrow> accepts v \<and> size a < max_statistical_trials \<and> b = plus a (unit_of v)"
    and merge_Inr: "merge a b = Inr c \<longleftrightarrow> size a + size b \<le> max_statistical_trials \<and> c = plus a b"
begin

lemma total_append: "total (vs @ ws) = plus (total vs) (total ws)"
  by (induction vs) (simp_all add: total_Nil total_Cons plus_zero plus_assoc)

lemma plus_left_commute: "plus a (plus b c) = plus b (plus a c)"
  by (metis plus_assoc plus_commute)

lemma total_remove: "v \<in> set ws \<Longrightarrow> total ws = plus (unit_of v) (total (remove1 v ws))"
proof (induction ws)
  case (Cons w ws)
  then show ?case
    by (cases "v = w") (auto simp: total_Cons plus_left_commute [of "unit_of v"])
qed simp

lemma total_perm: "mset vs = mset ws \<Longrightarrow> total vs = total ws"
proof (induction vs arbitrary: ws)
  case (Cons v vs)
  then have "v \<in> set ws" by (metis list.set_intros(1) set_mset_mset)
  moreover have "mset vs = mset (remove1 v ws)" using Cons.prems by (metis add_mset_remove_trivial mset.simps(2) mset_remove1)
  then have "total vs = total (remove1 v ws)" by (rule Cons.IH)
  ultimately show ?case by (simp add: total_Cons total_remove [of v ws])
qed (simp add: total_Nil)

lemma size_total: "list_all accepts vs \<Longrightarrow> size (total vs) = int (length vs)"
  by (induction vs) (simp_all add: total_Nil total_Cons size_zero size_plus size_unit)

lemma streamed_Inr:
  "size a \<le> max_statistical_trials \<Longrightarrow>
   streamed update a vs = Inr b \<longleftrightarrow>
     list_all accepts vs \<and> size a + int (length vs) \<le> max_statistical_trials \<and> b = plus a (total vs)"
proof (induction vs arbitrary: a)
  case Nil
  then show ?case using plus_commute [of a zero] by (auto simp: total_Nil plus_zero)
next
  case (Cons v vs)
  have "streamed update a (v # vs) = Inr b \<longleftrightarrow>
      accepts v \<and> size a < max_statistical_trials \<and> streamed update (plus a (unit_of v)) vs = Inr b"
    by (auto simp: rbind_Inr update_Inr)
  also have "\<dots> \<longleftrightarrow> accepts v \<and> size a < max_statistical_trials \<and> list_all accepts vs \<and>
      size a + 1 + int (length vs) \<le> max_statistical_trials \<and> b = plus (plus a (unit_of v)) (total vs)"
    using Cons.IH [of "plus a (unit_of v)"] by (auto simp: size_plus size_unit)
  finally show ?case by (auto simp: total_Cons plus_assoc)
qed

lemma bound_not_negative: "0 \<le> max_statistical_trials"
  by (simp add: max_statistical_trials_def)

lemma stream_Inr:
  "streamed update zero vs = Inr b \<longleftrightarrow>
     list_all accepts vs \<and> int (length vs) \<le> max_statistical_trials \<and> b = total vs"
  using streamed_Inr [of zero vs b] bound_not_negative by (simp add: size_zero plus_zero)

lemma stream_perm:
  assumes "mset vs = mset ws"
  shows "streamed update zero vs = Inr b \<longleftrightarrow> streamed update zero ws = Inr b"
  using total_perm [OF assms] mset_eq_setD [OF assms] mset_eq_length [OF assms]
  by (simp add: stream_Inr list_all_iff)

lemma stream_merge:
  assumes "streamed update zero vs = Inr a" "streamed update zero ws = Inr b"
  shows "merge a b = Inr c \<longleftrightarrow> streamed update zero (vs @ ws) = Inr c"
  using assms size_total [of vs] size_total [of ws] by (auto simp: stream_Inr merge_Inr total_append)

lemma stream_bounded: "streamed update zero vs = Inr b \<Longrightarrow> size b = int (length vs) \<and> size b \<le> max_statistical_trials"
  by (auto simp: stream_Inr size_total)

end

subsection \<open>Both aggregators\<close>

definition one_verdict :: "verdict \<Rightarrow> binary_stats" where
  "one_verdict v = count_verdict v (no_trials\<lparr>bs_trials := 1\<rparr>)"

definition one_pair :: "verdict \<times> verdict \<Rightarrow> paired_stats" where
  "one_pair p = count_pair p (no_pairs\<lparr>ps_pairs := 1\<rparr>)"

definition resolved_pair :: "verdict \<times> verdict \<Rightarrow> bool" where
  "resolved_pair p \<longleftrightarrow> \<not> unresolved (fst p) \<and> \<not> unresolved (snd p)"

fun binary_total :: "verdict list \<Rightarrow> binary_stats" where
  "binary_total [] = no_trials"
| "binary_total (v # vs) = binary_add (one_verdict v) (binary_total vs)"

fun paired_total :: "(verdict \<times> verdict) list \<Rightarrow> paired_stats" where
  "paired_total [] = no_pairs"
| "paired_total (p # ps) = paired_add (one_pair p) (paired_total ps)"

lemma count_verdict_add: "count_verdict v (a\<lparr>bs_trials := bs_trials a + 1\<rparr>) = binary_add a (one_verdict v)"
  by (cases v) (simp_all add: binary_add_def one_verdict_def no_trials_def)

lemma count_pair_add: "count_pair p (a\<lparr>ps_pairs := ps_pairs a + 1\<rparr>) = paired_add a (one_pair p)"
  by (simp add: count_pair_def paired_add_def one_pair_def no_pairs_def)

interpretation binary_counts:
  aggregator bs_trials no_trials binary_add one_verdict binary_total "\<lambda>v. True" binary_update binary_merge
proof
  show "bs_trials (one_verdict v) = 1" for v
    by (cases v) (simp_all add: one_verdict_def)
qed (auto simp: binary_add_def no_trials_def binary_update_def binary_merge_def count_verdict_add [unfolded binary_add_def])

interpretation paired_counts:
  aggregator ps_pairs no_pairs paired_add one_pair paired_total resolved_pair paired_update paired_merge
  by unfold_locales
    (auto simp: paired_add_def no_pairs_def paired_update_def paired_merge_def resolved_pair_def
      count_pair_add [unfolded paired_add_def] one_pair_def count_pair_def)

subsection \<open>A stream is its batch\<close>

lemma binary_total_fields:
  "bs_passes (fold count_verdict vs s) = bs_passes s + bs_passes (binary_total vs)"
  "bs_failures (fold count_verdict vs s) = bs_failures s + bs_failures (binary_total vs)"
  "bs_blocked (fold count_verdict vs s) = bs_blocked s + bs_blocked (binary_total vs)"
  "bs_inconclusive (fold count_verdict vs s) = bs_inconclusive s + bs_inconclusive (binary_total vs)"
proof (induction vs arbitrary: s)
  case (Cons v vs)
  { case 1 show ?case by (cases v) (simp_all add: Cons binary_add_def one_verdict_def no_trials_def) }
  { case 2 show ?case by (cases v) (simp_all add: Cons binary_add_def one_verdict_def no_trials_def) }
  { case 3 show ?case by (cases v) (simp_all add: Cons binary_add_def one_verdict_def no_trials_def) }
  { case 4 show ?case by (cases v) (simp_all add: Cons binary_add_def one_verdict_def no_trials_def) }
qed (simp_all add: no_trials_def)

lemma binary_counted: "(fold count_verdict vs no_trials)\<lparr>bs_trials := int (length vs)\<rparr> = binary_total vs"
  using binary_counts.size_total [of vs, unfolded list_all_iff]
  by (intro binary_stats.equality) (simp_all add: binary_total_fields no_trials_def)

lemma binary_total_valid: "bs_trials (binary_total vs) \<le> max_statistical_trials \<Longrightarrow> validate_binary (binary_total vs) = Inr (binary_total vs)"
proof -
  have "0 \<le> bs_passes (binary_total vs) \<and> 0 \<le> bs_failures (binary_total vs) \<and> 0 \<le> bs_blocked (binary_total vs) \<and>
      0 \<le> bs_inconclusive (binary_total vs) \<and> 0 \<le> bs_trials (binary_total vs) \<and>
      bs_trials (binary_total vs) = bs_passes (binary_total vs) + bs_failures (binary_total vs) +
        bs_blocked (binary_total vs) + bs_inconclusive (binary_total vs)"
  proof (induction vs)
    case (Cons v vs)
    then show ?case by (cases v) (simp_all add: binary_add_def one_verdict_def no_trials_def)
  qed (simp add: no_trials_def)
  then show "bs_trials (binary_total vs) \<le> max_statistical_trials \<Longrightarrow> validate_binary (binary_total vs) = Inr (binary_total vs)"
    by (simp add: validate_binary_def non_negative_def)
qed

lemma binary_from_verdicts_Inr:
  "binary_from_verdicts vs = Inr s \<longleftrightarrow> int (length vs) \<le> max_statistical_trials \<and> s = binary_total vs"
  using binary_total_valid [of vs] binary_counts.size_total [of vs, unfolded list_all_iff]
  by (auto simp: binary_from_verdicts_def validate_vector_def binary_counted)

lemma binary_stream_batch:
  "rbind (streamed binary_update no_trials vs) binary_snapshot = Inr s \<longleftrightarrow> binary_from_verdicts vs = Inr s"
  using binary_total_valid [of vs] binary_counts.size_total [of vs, unfolded list_all_iff]
  by (auto simp: rbind_Inr binary_counts.stream_Inr binary_snapshot_def binary_from_verdicts_Inr list_all_iff)

lemma count_pairs_Inr:
  "count_pairs ps s = Inr t \<longleftrightarrow> list_all resolved_pair ps \<and>
     t\<lparr>ps_pairs := ps_pairs s + int (length ps)\<rparr> = paired_add s (paired_total ps) \<and> ps_pairs t = ps_pairs s"
proof (induction ps arbitrary: s)
  case Nil
  then show ?case by (cases s; cases t) (auto simp: paired_add_def no_pairs_def)
next
  case (Cons p ps)
  have kept: "ps_pairs (count_pair p s) = ps_pairs s" by (simp add: count_pair_def)
  have "(t\<lparr>ps_pairs := ps_pairs s + int (length ps)\<rparr> = paired_add (count_pair p s) (paired_total ps)) \<longleftrightarrow>
      (t\<lparr>ps_pairs := ps_pairs s + int (length (p # ps))\<rparr> = paired_add s (paired_total (p # ps)))"
    by (cases s; cases t) (auto simp: paired_add_def one_pair_def no_pairs_def count_pair_def)
  with Cons.IH [of "count_pair p s"] kept show ?case by (auto simp: resolved_pair_def)
qed

lemma paired_total_valid:
  assumes "ps \<noteq> []" "int (length ps) \<le> max_statistical_trials" "list_all resolved_pair ps"
  shows "validate_paired (paired_total ps) = Inr (paired_total ps)"
proof -
  have "0 \<le> ps_both_pass (paired_total ps) \<and> 0 \<le> ps_baseline_only_pass (paired_total ps) \<and>
      0 \<le> ps_candidate_only_pass (paired_total ps) \<and> 0 \<le> ps_both_fail (paired_total ps) \<and>
      ps_pairs (paired_total ps) = ps_both_pass (paired_total ps) + ps_baseline_only_pass (paired_total ps) +
        ps_candidate_only_pass (paired_total ps) + ps_both_fail (paired_total ps)"
    by (induction ps) (auto simp: paired_add_def one_pair_def no_pairs_def count_pair_def)
  with assms paired_counts.size_total [OF assms(3)] show ?thesis
    by (simp add: validate_paired_def non_negative_def)
qed

text \<open>The paired batch takes two vectors; the stream sees them zipped.\<close>

lemma paired_from_verdicts_Inr:
  "paired_from_verdicts bs cs = Inr s \<longleftrightarrow> (length bs = length cs \<and> bs \<noteq> [] \<and>
     int (length bs) \<le> max_statistical_trials \<and> list_all resolved_pair (zip bs cs)) \<and> s = paired_total (zip bs cs)"
  (is "_ \<longleftrightarrow> ?ok \<and> s = _")
proof (cases "length bs = length cs \<and> bs \<noteq> [] \<and> int (length bs) \<le> max_statistical_trials")
  case True
  let ?ps = "zip bs cs"
  have len: "int (length ?ps) = int (length bs)" and ne: "?ps \<noteq> []" using True by (auto simp: zip_eq_Nil_iff)
  have batch: "paired_from_verdicts bs cs = rbind (count_pairs ?ps no_pairs) (\<lambda>s. validate_paired (s\<lparr>ps_pairs := int (length bs)\<rparr>))"
    using True by (auto simp: paired_from_verdicts_def validate_vector_def)
  have add: "paired_add no_pairs a = a" for a by (rule paired_counts.plus_zero)
  have pairs: "ps_pairs no_pairs = 0" by (simp add: no_pairs_def)
  show ?thesis
  proof
    assume "paired_from_verdicts bs cs = Inr s"
    then obtain t where t: "count_pairs ?ps no_pairs = Inr t" "validate_paired (t\<lparr>ps_pairs := int (length bs)\<rparr>) = Inr s"
      by (auto simp: batch rbind_Inr)
    then have "t\<lparr>ps_pairs := int (length bs)\<rparr> = paired_total ?ps" "list_all resolved_pair ?ps"
      using len by (simp_all add: count_pairs_Inr add pairs)
    with t(2) True show "?ok \<and> s = paired_total ?ps" by (auto simp: validate_paired_def rbind_Inr)
  next
    assume ok: "?ok \<and> s = paired_total ?ps"
    define t where "t = s\<lparr>ps_pairs := 0\<rparr>"
    have "ps_pairs s = int (length bs)" using ok len paired_counts.size_total [of ?ps] by simp
    then have upd: "t\<lparr>ps_pairs := int (length bs)\<rparr> = s" by (simp add: t_def)
    have "count_pairs ?ps no_pairs = Inr t"
      using ok len upd by (simp add: count_pairs_Inr add pairs t_def)
    then show "paired_from_verdicts bs cs = Inr s"
      using ok upd ne len paired_total_valid [of ?ps] by (simp add: batch)
  qed
next
  case False
  then have "\<not> (\<exists>s. paired_from_verdicts bs cs = Inr s)"
    by (auto simp: paired_from_verdicts_def validate_vector_def)
  with False show ?thesis by auto
qed

lemma paired_stream_batch:
  assumes "length bs = length cs"
  shows "rbind (streamed paired_update no_pairs (zip bs cs)) paired_snapshot = Inr s \<longleftrightarrow>
     paired_from_verdicts bs cs = Inr s"
proof (cases "bs = []")
  case True
  with assms show ?thesis
    by (simp add: paired_snapshot_def validate_paired_def no_pairs_def non_negative_def paired_from_verdicts_def validate_vector_def)
next
  case False
  then have "cs \<noteq> []" using assms by auto
  with False show ?thesis
    using assms paired_total_valid [of "zip bs cs"]
    by (auto simp: rbind_Inr paired_counts.stream_Inr paired_snapshot_def paired_from_verdicts_Inr zip_eq_Nil_iff)
qed

end
