(* ===== verification/FloatOps.thy ===== *)
theory FloatOps
  imports PyFloat
begin

section \<open>Division, square root and fixed-point text of floats\<close>

text \<open>
  The statistics use the operations of the hardware that are rounded correctly, division and
  \<open>math.sqrt\<close>, and \<open>format(x, '.nf')\<close>, the decimal nearest to the exact binary value, ties to
  even. Division by zero and the root of a negative number raise in Python; the code divides
  by positive numbers and takes roots of sums of squares, so both are given no value here
  (\<open>FNaN\<close>).
\<close>

fun fl_div :: "pyfloat \<Rightarrow> pyfloat \<Rightarrow> pyfloat" where
  "fl_div (FFin s m e) (FFin s' m' e') =
     (if m' = 0 then FNaN
      else fl_ratio (s \<noteq> s') (m * 2 ^ nat (e - e')) (m' * 2 ^ nat (e' - e)))"
| "fl_div FNaN _ = FNaN"
| "fl_div _ FNaN = FNaN"
| "fl_div (FInf s) (FFin s' _ _) = FInf (s \<noteq> s')"
| "fl_div (FFin s _ _) (FInf s') = FFin (s \<noteq> s') 0 0"
| "fl_div (FInf _) (FInf _) = FNaN"

text \<open>\<open>a / b\<close> of integers with \<open>b\<close> positive: the exact ratio, rounded once.\<close>

definition int_ratio :: "int \<Rightarrow> int \<Rightarrow> pyfloat" where
  "int_ratio a b = fl_ratio (a < 0) (nat \<bar>a\<bar>) (nat b)"

fun isqrt :: "nat \<Rightarrow> nat" where
  "isqrt n = (if n = 0 then 0
     else let r = 2 * isqrt (n div 4) in if (r + 1) * (r + 1) \<le> n then r + 1 else r)"

declare isqrt.simps [simp del]

text \<open>
  The root of \<open>m * 2^e\<close> to sixty bits and one more that says whether something is left, which
  decides the rounding to fifty-three.
\<close>

fun fl_sqrt :: "pyfloat \<Rightarrow> pyfloat" where
  "fl_sqrt (FFin s m e) =
     (if m = 0 then FFin s 0 0
      else if s then FNaN
      else (let m' = (if even e then m else 2 * m); e' = (if even e then e else e - 1);
                n = m' * 4 ^ 60; q = isqrt n
            in fl_dyadic False (int (2 * q + (if q * q = n then 0 else 1))) (e' div 2 - 61)))"
| "fl_sqrt (FInf s) = (if s then FNaN else FInf False)"
| "fl_sqrt FNaN = FNaN"

text \<open>Python's \<open>min(a, b)\<close> keeps the first of two equal or unordered arguments.\<close>

definition fl_min :: "pyfloat \<Rightarrow> pyfloat \<Rightarrow> pyfloat" where
  "fl_min a b = (if fl_lt b a then b else a)"

definition fl_1 :: pyfloat where
  "fl_1 = fl_of_int 1"

definition fl_2 :: pyfloat where
  "fl_2 = fl_of_int 2"

definition fl_4 :: pyfloat where
  "fl_4 = fl_of_int 4"

text \<open>\<open>x == y\<close> and \<open>x <= y <= z\<close> on floats are \<open>fl_eq\<close> and \<open>fl_le\<close>.\<close>

definition fl_unit :: "pyfloat \<Rightarrow> bool" where
  "fl_unit x \<longleftrightarrow> fl_le fl_0 x \<and> fl_le x fl_1"

subsection \<open>\<open>format(x, '.nf')\<close>\<close>

definition round_ratio :: "nat \<Rightarrow> nat \<Rightarrow> nat" where
  "round_ratio num den = (let q = num div den; r = num mod den in
     if 2 * r > den \<or> (2 * r = den \<and> odd q) then q + 1 else q)"

definition zero_padded :: "nat \<Rightarrow> string \<Rightarrow> string" where
  "zero_padded n s = replicate (n - length s) (CHR ''0'') @ s"

fun fixed_str :: "nat \<Rightarrow> pyfloat \<Rightarrow> string" where
  "fixed_str n (FFin s m e) =
     (let scaled = (if e \<ge> 0 then m * 2 ^ nat e * 10 ^ n else round_ratio (m * 10 ^ n) (2 ^ nat (- e)))
      in (if s then ''-'' else []) @ nat_str (scaled div 10 ^ n) @ ''.'' @ zero_padded n (nat_str (scaled mod 10 ^ n)))"
| "fixed_str n (FInf s) = (if s then ''-inf'' else ''inf'')"
| "fixed_str n FNaN = ''nan''"

subsection \<open>The root\<close>

lemma isqrt_bounds: "isqrt n * isqrt n \<le> n \<and> n < (isqrt n + 1) * (isqrt n + 1)"
proof (induction n rule: isqrt.induct)
  case (1 n)
  show ?case
  proof (cases "n = 0")
    case False
    define k where "k = isqrt (n div 4)"
    have k: "k * k \<le> n div 4" "n div 4 < (k + 1) * (k + 1)" using 1 [OF False] by (simp_all add: k_def)
    have "4 * (k * k) \<le> n" using k(1) by linarith
    moreover have "n < 4 * ((k + 1) * (k + 1))" using k(2) by linarith
    ultimately show ?thesis
      using False by (subst (1 2 3 4) isqrt.simps) (auto simp: k_def [symmetric] Let_def algebra_simps)
  qed (simp add: isqrt.simps)
qed

end
