(* ===== verification/Reliability.thy ===== *)
theory Reliability
  imports Aggregates FloatOps
begin

section \<open>Reliability reports (\<open>statistics/reliability.py\<close>)\<close>

text \<open>
  A report holds the counts of a verdict vector and the statistics derived from them; its
  validation derives them again. Powers with an integer exponent go to the C library's
  \<open>pow\<close>, whose rounding IEEE 754 leaves open: it is the parameter \<open>pow\<close>.
\<close>

definition default_confidence_z :: pyfloat where
  "default_confidence_z = ratio10 False 1959963984540054 (- 15)"

record reliability_metrics =
  rm_success_rate :: pyfloat
  rm_wilson_low :: pyfloat
  rm_wilson_high :: pyfloat
  rm_pass_at_k :: pyfloat
  rm_pass_power_k :: pyfloat

record reliability_report =
  rl_trials :: int
  rl_resolved_trials :: int
  rl_passes :: int
  rl_failures :: int
  rl_blocked :: int
  rl_inconclusive :: int
  rl_metrics :: reliability_metrics
  rl_k :: int
  rl_confidence_z :: pyfloat

definition validate_confidence_z :: "pyfloat \<Rightarrow> error + unit" where
  "validate_confidence_z z =
     raise_if [(\<not> isfinite z \<or> fl_le z fl_0, vale ''confidence_z must be finite and positive'')]"

definition wilson_interval :: "int \<Rightarrow> int \<Rightarrow> pyfloat \<Rightarrow> error + pyfloat \<times> pyfloat" where
  "wilson_interval successes trials z =
     rbind (raise_if
       [(trials \<le> 0, vale ''trials must be positive''),
        (\<not> (0 \<le> successes \<and> successes \<le> trials), vale ''successes must be between zero and trials'')]) (\<lambda>_.
     rbind (validate_confidence_z z) (\<lambda>_.
     let n = fl_of_int trials;
         p = int_ratio successes trials;
         z2 = fl_mul z z;
         denominator = fl_add fl_1 (fl_div z2 n);
         centre = fl_div (fl_add p (fl_div z2 (fl_mul fl_2 n))) denominator;
         root = fl_sqrt (fl_add (fl_div (fl_mul p (fl_sub fl_1 p)) n)
                                (fl_div z2 (fl_mul (fl_mul fl_4 n) n)));
         margin = fl_div (fl_mul z root) denominator
     in Inr (fl_max fl_0 (fl_sub centre margin), fl_min fl_1 (fl_add centre margin))))"

definition derive_metrics ::
  "(pyfloat \<Rightarrow> int \<Rightarrow> pyfloat) \<Rightarrow> int \<Rightarrow> int \<Rightarrow> int \<Rightarrow> pyfloat \<Rightarrow> error + reliability_metrics" where
  "derive_metrics pow passes resolved k z =
     rbind (validate_reliability_k k) (\<lambda>_.
     if resolved \<noteq> 0 then
       rbind (wilson_interval passes resolved z) (\<lambda>(low, high).
       let rate = int_ratio passes resolved in
       Inr \<lparr>rm_success_rate = rate, rm_wilson_low = low, rm_wilson_high = high,
            rm_pass_at_k = fl_sub fl_1 (pow (fl_sub fl_1 rate) k), rm_pass_power_k = pow rate k\<rparr>)
     else Inr \<lparr>rm_success_rate = fl_0, rm_wilson_low = fl_0, rm_wilson_high = fl_1,
               rm_pass_at_k = fl_0, rm_pass_power_k = fl_0\<rparr>)"

definition metric_values :: "reliability_metrics \<Rightarrow> (string \<times> pyfloat) list" where
  "metric_values m =
     [(''success_rate'', rm_success_rate m), (''wilson_low'', rm_wilson_low m), (''wilson_high'', rm_wilson_high m),
      (''pass_at_k'', rm_pass_at_k m), (''pass_power_k'', rm_pass_power_k m)]"

definition count_guards :: "reliability_report \<Rightarrow> (bool \<times> error) list" where
  "count_guards r =
     [(rl_trials r < 0, vale ''trials cannot be negative''),
      (rl_trials r > max_statistical_trials,
       vale (''trials exceeds maximum statistical trial count '' @ int_str max_statistical_trials)),
      (rl_resolved_trials r < 0, vale ''resolved_trials cannot be negative''),
      (rl_passes r < 0, vale ''passes cannot be negative''),
      (rl_failures r < 0, vale ''failures cannot be negative''),
      (rl_blocked r < 0, vale ''blocked cannot be negative''),
      (rl_inconclusive r < 0, vale ''inconclusive cannot be negative'')]"

definition sum_guards :: "reliability_report \<Rightarrow> (bool \<times> error) list" where
  "sum_guards r =
     map (\<lambda>(name, v). (\<not> isfinite v, vale (name @ '' must be a finite float''))) (metric_values (rl_metrics r)) @
     [(rl_resolved_trials r \<noteq> rl_passes r + rl_failures r, vale ''resolved_trials must equal passes + failures''),
      (rl_trials r \<noteq> rl_resolved_trials r + rl_blocked r + rl_inconclusive r,
       vale ''trials must equal passes + failures + blocked + inconclusive'')]"

definition recomputed_guards :: "reliability_metrics \<Rightarrow> reliability_metrics \<Rightarrow> (bool \<times> error) list" where
  "recomputed_guards m expected =
     map (\<lambda>((name, v), (_, e)). (\<not> fl_eq v e, vale (name @ '' does not recompute from reliability counts'')))
       (zip (metric_values m) (metric_values expected))"

definition validate_report :: "(pyfloat \<Rightarrow> int \<Rightarrow> pyfloat) \<Rightarrow> reliability_report \<Rightarrow> error + reliability_report" where
  "validate_report pow r =
     rbind (raise_if (count_guards r)) (\<lambda>_.
     rbind (validate_reliability_k (rl_k r)) (\<lambda>_.
     rbind (validate_confidence_z (rl_confidence_z r)) (\<lambda>_.
     rbind (raise_if (sum_guards r)) (\<lambda>_.
     rbind (derive_metrics pow (rl_passes r) (rl_resolved_trials r) (rl_k r) (rl_confidence_z r)) (\<lambda>expected.
     rbind (raise_if (recomputed_guards (rl_metrics r) expected)) (\<lambda>_. Inr r))))))"

definition report_from_verdicts ::
  "(pyfloat \<Rightarrow> int \<Rightarrow> pyfloat) \<Rightarrow> verdict list \<Rightarrow> int \<Rightarrow> pyfloat \<Rightarrow> error + reliability_report" where
  "report_from_verdicts pow vs k z =
     rbind (validate_vector ''trial verdict vector'' vs) (\<lambda>n.
     if n = 0 then Inl (vale ''at least one trial verdict is required'')
     else
      rbind (validate_reliability_k k) (\<lambda>_.
      rbind (validate_confidence_z z) (\<lambda>_.
      let c = fold count_verdict vs no_trials; resolved = bs_passes c + bs_failures c in
      rbind (derive_metrics pow (bs_passes c) resolved k z) (\<lambda>m.
      validate_report pow
        \<lparr>rl_trials = n, rl_resolved_trials = resolved, rl_passes = bs_passes c, rl_failures = bs_failures c,
         rl_blocked = bs_blocked c, rl_inconclusive = bs_inconclusive c, rl_metrics = m, rl_k = k,
         rl_confidence_z = z\<rparr>))))"

text \<open>\<open>_reliability_report_sha256\<close> (\<open>gates/release.py\<close>)\<close>

definition report_json :: "reliability_report \<Rightarrow> json" where
  "report_json r = JObj
     [(''trials'', JInt (rl_trials r)), (''resolved_trials'', JInt (rl_resolved_trials r)),
      (''passes'', JInt (rl_passes r)), (''failures'', JInt (rl_failures r)), (''blocked'', JInt (rl_blocked r)),
      (''inconclusive'', JInt (rl_inconclusive r)), (''success_rate'', JFloat (rm_success_rate (rl_metrics r))),
      (''wilson_low'', JFloat (rm_wilson_low (rl_metrics r))),
      (''wilson_high'', JFloat (rm_wilson_high (rl_metrics r))),
      (''pass_at_k'', JFloat (rm_pass_at_k (rl_metrics r))),
      (''pass_power_k'', JFloat (rm_pass_power_k (rl_metrics r))), (''k'', JInt (rl_k r)),
      (''confidence_z'', JFloat (rl_confidence_z r))]"

definition report_domain :: string where
  "report_domain = ''agent-evals/reliability-report/v1'' @ [CHR 0x00]"

definition report_sha256 :: "(pyfloat \<Rightarrow> int \<Rightarrow> pyfloat) \<Rightarrow> reliability_report \<Rightarrow> error + string" where
  "report_sha256 pow r =
     rbind (validate_report pow r) (\<lambda>r.
     rbind (checked_dumps (report_json r)) (\<lambda>text. Inr (sha256_hex (report_domain @ text))))"

subsection \<open>What a valid report says\<close>

definition counts_agree :: "reliability_report \<Rightarrow> bool" where
  "counts_agree r \<longleftrightarrow> 0 \<le> rl_passes r \<and> 0 \<le> rl_failures r \<and> 0 \<le> rl_blocked r \<and> 0 \<le> rl_inconclusive r \<and>
     rl_resolved_trials r = rl_passes r + rl_failures r \<and>
     rl_trials r = rl_resolved_trials r + rl_blocked r + rl_inconclusive r \<and>
     rl_trials r \<le> max_statistical_trials"

lemma validate_report_id: "validate_report pow r = Inr s \<Longrightarrow> s = r"
  by (auto simp: validate_report_def rbind_Inr)

lemma valid_report_counts: "validate_report pow r = Inr s \<Longrightarrow> counts_agree r"
  by (auto simp: validate_report_def rbind_Inr raise_if_Inr_iff count_guards_def sum_guards_def counts_agree_def)

lemma valid_report_metrics:
  assumes "validate_report pow r = Inr s"
  shows "list_all (\<lambda>(name, v). isfinite v) (metric_values (rl_metrics r))"
  using assms
  by (auto simp: validate_report_def rbind_Inr raise_if_Inr_iff sum_guards_def metric_values_def)

text \<open>A report made from verdicts is valid, and counts them.\<close>

lemma report_from_verdicts_Inr:
  assumes "report_from_verdicts pow vs k z = Inr r"
  shows "validate_report pow r = Inr r \<and> vs \<noteq> [] \<and> int (length vs) \<le> max_statistical_trials \<and>
    rl_trials r = int (length vs) \<and> rl_passes r = bs_passes (binary_total vs) \<and>
    rl_failures r = bs_failures (binary_total vs) \<and> rl_blocked r = bs_blocked (binary_total vs) \<and>
    rl_inconclusive r = bs_inconclusive (binary_total vs) \<and> rl_k r = k \<and> rl_confidence_z r = z"
proof -
  obtain x where x: "validate_report pow x = Inr r" "vs \<noteq> []" "int (length vs) \<le> max_statistical_trials"
    "rl_trials x = int (length vs)" "rl_passes x = bs_passes (binary_total vs)"
    "rl_failures x = bs_failures (binary_total vs)" "rl_blocked x = bs_blocked (binary_total vs)"
    "rl_inconclusive x = bs_inconclusive (binary_total vs)" "rl_k x = k" "rl_confidence_z x = z"
    using assms
    by (auto simp: report_from_verdicts_def rbind_Inr validate_vector_def Let_def binary_total_fields no_trials_def
        split: if_splits)
  with validate_report_id [OF x(1)] show ?thesis by simp
qed

lemma fl_max_above: "isfinite a \<Longrightarrow> fl_le a (fl_max a b)"
  by (cases a; cases b) (auto simp: fl_max_def fl_le_def Let_def align_def)

lemma fl_min_below: "isfinite a \<Longrightarrow> fl_le (fl_min a b) a"
  by (cases a; cases b) (auto simp: fl_min_def fl_le_def Let_def align_def)

lemma wilson_bounded:
  assumes "wilson_interval successes trials z = Inr (low, high)"
  shows "fl_le fl_0 low \<and> fl_le high fl_1"
proof -
  have "isfinite fl_0" "isfinite fl_1"
    by (simp_all add: fl_0_def fl_1_def fl_of_int_def fl_dyadic_def fl_ratio_def nlog2.simps Let_def)
  then show ?thesis
    using assms by (auto simp: wilson_interval_def rbind_Inr Let_def intro: fl_max_above fl_min_below)
qed

end
