(* ===== verification/ReleaseGate.thy ===== *)
theory ReleaseGate
  imports Reliability
begin

section \<open>Release gates (\<open>gates/release.py\<close>, \<open>gates/advanced.py\<close>)\<close>

text \<open>
  The gate of one reliability report, the gate over slices and risk families, and the gate
  over the tails of an operational summary. A gate collects the reasons that reject and the
  reasons that leave the release undecided; its decision is read off the two lists.
\<close>

datatype gate_decision = GAccept | GReject | GInconclusive

record release_policy =
  rp_min_resolved_trials :: int
  rp_min_success_rate :: pyfloat
  rp_min_wilson_low :: pyfloat
  rp_max_critical_violations :: int
  rp_max_blocked_trials :: int
  rp_max_inconclusive_trials :: int

record gate_result =
  gr_decision :: gate_decision
  gr_reasons :: "string list"

text \<open>The \<open>ge\<close> and \<open>le\<close> constraints of the policy's fields.\<close>

definition release_policy_fields :: "release_policy \<Rightarrow> bool" where
  "release_policy_fields p \<longleftrightarrow>
     1 \<le> rp_min_resolved_trials p \<and> fl_unit (rp_min_success_rate p) \<and> fl_unit (rp_min_wilson_low p) \<and>
     0 \<le> rp_max_critical_violations p \<and> 0 \<le> rp_max_blocked_trials p \<and> 0 \<le> rp_max_inconclusive_trials p"

definition default_release_policy :: release_policy where
  "default_release_policy =
     \<lparr>rp_min_resolved_trials = 20, rp_min_success_rate = ratio10 False 95 (- 2),
      rp_min_wilson_low = ratio10 False 8 (- 1), rp_max_critical_violations = 0, rp_max_blocked_trials = 0,
      rp_max_inconclusive_trials = 0\<rparr>"

text \<open>The messages of the guards that hold, in the order of the guards.\<close>

definition reasons_of :: "(bool \<times> string) list \<Rightarrow> string list" where
  "reasons_of gs = map snd (filter fst gs)"

definition gate_result_of :: "string list \<Rightarrow> string list \<Rightarrow> gate_result" where
  "gate_result_of hard soft =
     (if hard \<noteq> [] then \<lparr>gr_decision = GReject, gr_reasons = hard @ soft\<rparr>
      else if soft \<noteq> [] then \<lparr>gr_decision = GInconclusive, gr_reasons = soft\<rparr>
      else \<lparr>gr_decision = GAccept, gr_reasons = []\<rparr>)"

definition hard_failures :: "release_policy \<Rightarrow> reliability_report \<Rightarrow> int \<Rightarrow> string list" where
  "hard_failures p r critical = reasons_of
     [(critical > rp_max_critical_violations p,
       ''critical violations '' @ int_str critical @ '' exceed maximum '' @ int_str (rp_max_critical_violations p)),
      (rl_resolved_trials r \<noteq> 0 \<and> fl_lt (rm_success_rate (rl_metrics r)) (rp_min_success_rate p),
       ''success rate '' @ fixed_str 4 (rm_success_rate (rl_metrics r)) @ '' is below ''
         @ fixed_str 4 (rp_min_success_rate p))]"

definition gate_uncertainty :: "release_policy \<Rightarrow> reliability_report \<Rightarrow> string list" where
  "gate_uncertainty p r = reasons_of
     [(rl_blocked r > rp_max_blocked_trials p,
       ''blocked trials '' @ int_str (rl_blocked r) @ '' exceed maximum '' @ int_str (rp_max_blocked_trials p)),
      (rl_inconclusive r > rp_max_inconclusive_trials p,
       ''inconclusive trials '' @ int_str (rl_inconclusive r) @ '' exceed maximum ''
         @ int_str (rp_max_inconclusive_trials p)),
      (rl_resolved_trials r < rp_min_resolved_trials p,
       ''resolved trial count '' @ int_str (rl_resolved_trials r) @ '' is below required ''
         @ int_str (rp_min_resolved_trials p)),
      (rl_resolved_trials r \<noteq> 0 \<and> fl_lt (rm_wilson_low (rl_metrics r)) (rp_min_wilson_low p),
       ''Wilson lower bound '' @ fixed_str 4 (rm_wilson_low (rl_metrics r)) @ '' is below ''
         @ fixed_str 4 (rp_min_wilson_low p))]"

definition gate_decide ::
  "(pyfloat \<Rightarrow> int \<Rightarrow> pyfloat) \<Rightarrow> release_policy \<Rightarrow> reliability_report \<Rightarrow> int \<Rightarrow> error + gate_result" where
  "gate_decide pow p r critical =
     rbind (validate_report pow r) (\<lambda>r.
     if critical < 0 then Inl (vale ''critical_violations must be a non-negative integer'')
     else Inr (gate_result_of (hard_failures p r critical) (gate_uncertainty p r)))"

subsection \<open>Criticality issued by the evaluator (\<open>verification.py\<close>)\<close>

record criticality_record =
  cr_subject_identity :: string
  cr_scenario_identity :: string
  cr_trial_evidence_roots :: "string list"
  cr_reliability_sha256 :: string
  cr_critical_violations :: int

definition require_sha256 :: "string \<Rightarrow> string \<Rightarrow> bool \<times> error" where
  "require_sha256 v name = (\<not> is_sha256 v, vale (name @ '' must be a lowercase SHA-256 digest''))"

definition issue_criticality :: "criticality_record \<Rightarrow> error + criticality_record" where
  "issue_criticality c =
     rbind (raise_if
       ([require_sha256 (cr_subject_identity c) ''criticality subject_identity'',
         require_sha256 (cr_scenario_identity c) ''criticality scenario_identity'',
         (cr_trial_evidence_roots c = [], vale ''criticality record requires finalized trial evidence roots'')] @
        map (\<lambda>root. require_sha256 root ''criticality trial evidence root'') (cr_trial_evidence_roots c) @
        [(\<not> distinct (cr_trial_evidence_roots c), vale ''criticality record trial evidence roots must be unique''),
         require_sha256 (cr_reliability_sha256 c) ''criticality reliability_sha256'',
         (cr_critical_violations c < 0, vale ''critical_violations must be a non-negative integer'')])) (\<lambda>_.
     Inr c)"

definition gate_decide_verified ::
  "(pyfloat \<Rightarrow> int \<Rightarrow> pyfloat) \<Rightarrow> release_policy \<Rightarrow> reliability_report \<Rightarrow> criticality_record \<Rightarrow> error + gate_result" where
  "gate_decide_verified pow p r c =
     rbind (report_sha256 pow r) (\<lambda>digest.
     if cr_reliability_sha256 c \<noteq> digest
     then Inl (vale ''verified criticality does not bind the supplied reliability report'')
     else gate_decide pow p r (cr_critical_violations c))"

subsection \<open>Slices and risk families\<close>

definition max_label :: nat where
  "max_label = 160"

definition label_ok :: "string \<Rightarrow> bool" where
  "label_ok s \<longleftrightarrow> s \<noteq> [] \<and> length s \<le> max_label \<and> py_strip s = s \<and>
     list_all (\<lambda>c. let n = (of_char c :: nat) in 32 \<le> n \<and> n \<noteq> 127) s"

definition validate_label :: "string \<Rightarrow> string \<Rightarrow> error + unit" where
  "validate_label v name = raise_if
     [(\<not> label_ok v, vale (name @ '' must contain 1..160 trimmed characters without controls''))]"

record slice_evidence =
  sl_slice_id :: string
  sl_risk_family :: string
  sl_reliability :: reliability_report
  sl_critical_violations :: int

record risk_family_result =
  rf_risk_family :: string
  rf_decision :: gate_decision
  rf_worst_slice :: string
  rf_reasons :: "string list"

record slice_gate_result =
  sg_decision :: gate_decision
  sg_worst_slice :: string
  sg_family_results :: "risk_family_result list"
  sg_reasons :: "string list"

definition make_slice :: "(pyfloat \<Rightarrow> int \<Rightarrow> pyfloat) \<Rightarrow> slice_evidence \<Rightarrow> error + slice_evidence" where
  "make_slice pow s =
     rbind (validate_label (sl_slice_id s) ''slice_id'') (\<lambda>_.
     rbind (validate_label (sl_risk_family s) ''risk_family'') (\<lambda>_.
     rbind (validate_report pow (sl_reliability s)) (\<lambda>_.
     if sl_critical_violations s < 0
     then Inl (vale ''critical_violations must be a non-negative exact integer'') else Inr s)))"

definition make_family_result :: "risk_family_result \<Rightarrow> error + risk_family_result" where
  "make_family_result f =
     rbind (validate_label (rf_risk_family f) ''risk_family'') (\<lambda>_.
     rbind (validate_label (rf_worst_slice f) ''worst_slice'') (\<lambda>_. Inr f))"

definition make_slice_result :: "slice_gate_result \<Rightarrow> error + slice_gate_result" where
  "make_slice_result g =
     rbind (validate_label (sg_worst_slice g) ''worst_slice'') (\<lambda>_.
     if \<not> distinct (map rf_risk_family (sg_family_results g))
     then Inl (vale ''family_results risk families must be unique'') else Inr g)"

text \<open>\<open>SliceReleaseGate(policy, required_risk_families)\<close>\<close>

fun required_families_ok :: "string list \<Rightarrow> string list \<Rightarrow> error + unit" where
  "required_families_ok seen [] = Inr ()"
| "required_families_ok seen (f # fs) =
     rbind (validate_label f ''required risk family'') (\<lambda>_.
     if f \<in> set seen then Inl (vale ''required risk families must be unique'')
     else required_families_ok (f # seen) fs)"

text \<open>Tuples of two floats and a text are compared at their first unequal position.\<close>

definition worse :: "slice_evidence \<Rightarrow> slice_evidence \<Rightarrow> bool" where
  "worse a b =
     (let ma = rl_metrics (sl_reliability a); mb = rl_metrics (sl_reliability b) in
      if \<not> fl_eq (rm_wilson_low ma) (rm_wilson_low mb) then fl_lt (rm_wilson_low ma) (rm_wilson_low mb)
      else if \<not> fl_eq (rm_success_rate ma) (rm_success_rate mb) then fl_lt (rm_success_rate ma) (rm_success_rate mb)
      else sl_slice_id a < sl_slice_id b)"

definition worst_of :: "slice_evidence \<Rightarrow> slice_evidence list \<Rightarrow> slice_evidence" where
  "worst_of x xs = fold (\<lambda>y best. if worse y best then y else best) xs x"

type_synonym graded_slice = "slice_evidence \<times> gate_result"

text \<open>\<open>by_family.setdefault(family, []).append(pair)\<close> on the dict as its items.\<close>

fun append_member :: "string \<Rightarrow> 'a \<Rightarrow> (string \<times> 'a list) list \<Rightarrow> (string \<times> 'a list) list" where
  "append_member f x [] = [(f, [x])]"
| "append_member f x ((g, ys) # rest) =
     (if f = g then (g, ys @ [x]) # rest else (g, ys) # append_member f x rest)"

fun grade_slices ::
  "(pyfloat \<Rightarrow> int \<Rightarrow> pyfloat) \<Rightarrow> release_policy \<Rightarrow> string list \<Rightarrow> slice_evidence list \<Rightarrow> error + graded_slice list" where
  "grade_slices pow p seen [] = Inr []"
| "grade_slices pow p seen (s # ss) =
     (if sl_slice_id s \<in> set seen then Inl (vale ''slice identifiers must be unique'')
      else rbind (gate_decide pow p (sl_reliability s) (sl_critical_violations s)) (\<lambda>g.
           rbind (grade_slices pow p (sl_slice_id s # seen) ss) (\<lambda>gs. Inr ((s, g) # gs))))"

definition families_of :: "graded_slice list \<Rightarrow> (string \<times> graded_slice list) list" where
  "families_of gs = fold (\<lambda>sg m. append_member (sl_risk_family (fst sg)) sg m) gs []"

text \<open>Rejection first, then the undecided, then acceptance.\<close>

definition combine :: "gate_decision list \<Rightarrow> gate_decision" where
  "combine ds = (if GReject \<in> set ds then GReject else if GInconclusive \<in> set ds then GInconclusive else GAccept)"

definition member_reasons :: "graded_slice list \<Rightarrow> string list" where
  "member_reasons ms = concat (map (\<lambda>(s, g). map (\<lambda>reason. sl_slice_id s @ '': '' @ reason) (gr_reasons g)) ms)"

definition family_result :: "string \<Rightarrow> graded_slice list \<Rightarrow> error + risk_family_result" where
  "family_result f ms = make_family_result
     \<lparr>rf_risk_family = f, rf_decision = combine (map (\<lambda>sg. gr_decision (snd sg)) ms),
      rf_worst_slice = sl_slice_id (worst_of (fst (hd ms)) (map fst (tl ms))),
      rf_reasons = member_reasons ms\<rparr>"

definition missing_families :: "string list \<Rightarrow> (string \<times> 'a) list \<Rightarrow> string list" where
  "missing_families required fam = py_sorted (set required - set (map fst fam))"

definition overall_decision :: "graded_slice list \<Rightarrow> string list \<Rightarrow> gate_decision" where
  "overall_decision gs missing =
     (let ds = map (\<lambda>sg. gr_decision (snd sg)) gs in
      if GReject \<in> set ds then GReject
      else if GInconclusive \<in> set ds \<or> missing \<noteq> [] then GInconclusive else GAccept)"

definition slice_decide ::
  "(pyfloat \<Rightarrow> int \<Rightarrow> pyfloat) \<Rightarrow> release_policy \<Rightarrow> string list \<Rightarrow> slice_evidence list \<Rightarrow> error + slice_gate_result" where
  "slice_decide pow p required slices =
     (if slices = [] then Inl (vale ''slices must be a non-empty exact tuple'')
      else if int (length slices) > max_statistical_trials
      then Inl (vale (''slice count exceeds maximum statistical work bound '' @ int_str max_statistical_trials))
      else
       rbind (grade_slices pow p [] slices) (\<lambda>gs.
       let fam = families_of gs; missing = missing_families required fam;
           names = sort (map fst fam)
       in rbind (rmap (\<lambda>f. family_result f (the (map_of fam f))) names) (\<lambda>results.
          make_slice_result
            \<lparr>sg_decision = overall_decision gs missing,
             sg_worst_slice = sl_slice_id (worst_of (hd slices) (tl slices)),
             sg_family_results = results,
             sg_reasons = map (\<lambda>f. ''required risk family '' @ str_repr f @ '' has no slice evidence'') missing @
               concat (map (\<lambda>r. map (\<lambda>reason. rf_risk_family r @ '': '' @ reason) (rf_reasons r)) results)\<rparr>)))"

subsection \<open>Lemmas\<close>

lemma reasons_of_Nil: "reasons_of gs = [] \<longleftrightarrow> list_all (\<lambda>(c, _). \<not> c) gs"
  by (induction gs) (auto simp: reasons_of_def)

lemma gate_result_of_decision [simp]:
  "gr_decision (gate_result_of hard soft) =
     (if hard \<noteq> [] then GReject else if soft \<noteq> [] then GInconclusive else GAccept)"
  by (simp add: gate_result_of_def)

lemma gate_result_of_reasons [simp]: "gr_reasons (gate_result_of hard soft) = hard @ soft"
  by (simp add: gate_result_of_def)

lemma gate_decide_Inr:
  "gate_decide pow p r critical = Inr g \<longleftrightarrow>
     validate_report pow r = Inr r \<and> 0 \<le> critical \<and> g = gate_result_of (hard_failures p r critical) (gate_uncertainty p r)"
  by (auto simp: gate_decide_def rbind_Inr dest: validate_report_id)

lemma append_member_keys [simp]:
  "map fst (append_member f x m) = (if f \<in> set (map fst m) then map fst m else map fst m @ [f])"
  by (induction m rule: append_member.induct) auto

lemma append_member_lookup:
  "map_of (append_member f x m) g =
     (if g = f then Some ((case map_of m f of None \<Rightarrow> [] | Some ys \<Rightarrow> ys) @ [x]) else map_of m g)"
  by (induction f x m rule: append_member.induct) auto

text \<open>The dict holds, for each family, its slices in their order.\<close>

definition members :: "graded_slice list \<Rightarrow> string \<Rightarrow> graded_slice list" where
  "members gs f = filter (\<lambda>sg. sl_risk_family (fst sg) = f) gs"

lemma families_of_snoc:
  "families_of (gs @ [sg]) = append_member (sl_risk_family (fst sg)) sg (families_of gs)"
  by (simp add: families_of_def)

lemma families_of_keys:
  "distinct (map fst (families_of gs)) \<and> set (map fst (families_of gs)) = (\<lambda>sg. sl_risk_family (fst sg)) ` set gs"
proof (induction gs rule: rev_induct)
  case (snoc sg gs)
  then show ?case by (simp add: families_of_snoc del: map_append set_map) auto
qed (simp add: families_of_def)

lemma families_of_lookup:
  "map_of (families_of gs) f = (if members gs f = [] then None else Some (members gs f))"
proof (induction gs rule: rev_induct)
  case (snoc sg gs)
  then show ?case by (auto simp: families_of_snoc append_member_lookup members_def)
qed (simp add: families_of_def members_def)

end
