(* ===== verification/FloatOrder.thy ===== *)
theory FloatOrder
  imports FloatOps Complex_Main
begin

section \<open>The order of finite floats\<close>

text \<open>Finite floats compare as the numbers they stand for.\<close>

fun fl_val :: "pyfloat \<Rightarrow> real" where
  "fl_val (FFin s m e) = of_int (signed s m) * 2 powi e"
| "fl_val _ = 0"

lemma scaled_int: "(of_int (a * 2 ^ nat (e - c)) :: real) * 2 powi c = of_int a * 2 powi e" if "c \<le> e"
proof -
  have "(2::real) powi e = 2 powi (int (nat (e - c))) * 2 powi c"
    using that by (simp flip: power_int_add)
  then show ?thesis by (simp only: power_int_of_nat of_int_mult of_int_power of_int_numeral mult.assoc)
qed

lemma fl_compare:
  assumes "isfinite x" "isfinite y"
  shows "fl_lt x y \<longleftrightarrow> fl_val x < fl_val y" "fl_eq x y \<longleftrightarrow> fl_val x = fl_val y"
proof -
  obtain s m e s' m' e' where xy: "x = FFin s m e" "y = FFin s' m' e'"
    using assms by (cases x; cases y) auto
  define c where "c = min e e'"
  have v: "fl_val x = of_int (signed s m * 2 ^ nat (e - c)) * 2 powi c"
          "fl_val y = of_int (signed s' m' * 2 ^ nat (e' - c)) * 2 powi c"
    unfolding xy fl_val.simps by (subst scaled_int; simp add: c_def)+
  have p: "(2::real) powi c > 0" by simp
  show "fl_lt x y \<longleftrightarrow> fl_val x < fl_val y"
    unfolding v mult_less_cancel_right_pos [OF p] of_int_less_iff by (simp add: xy align_def c_def Let_def)
  show "fl_eq x y \<longleftrightarrow> fl_val x = fl_val y"
    unfolding v using p by (simp add: xy align_def c_def Let_def del: of_int_mult of_int_power)
qed

lemma fl_le_val: "isfinite x \<Longrightarrow> isfinite y \<Longrightarrow> fl_le x y \<longleftrightarrow> fl_val x \<le> fl_val y"
  by (auto simp: fl_le_def fl_compare)

end
