(* ===== verification/ReleaseProofs.thy ===== *)
theory ReleaseProofs
  imports ReleaseGate FloatOrder
begin

section \<open>Lemmas on the release gates\<close>

text \<open>
  When a report may be released, when a slice gate accepts, and which slice is the worst one:
  the order on slices is total, so the named slice has the lowest Wilson bound of all.
\<close>

subsection \<open>One report\<close>

definition releasable :: "release_policy \<Rightarrow> reliability_report \<Rightarrow> bool" where
  "releasable p r \<longleftrightarrow>
     rl_blocked r \<le> rp_max_blocked_trials p \<and> rl_inconclusive r \<le> rp_max_inconclusive_trials p \<and>
     rp_min_resolved_trials p \<le> rl_resolved_trials r \<and>
     fl_le (rp_min_success_rate p) (rm_success_rate (rl_metrics r)) \<and>
     fl_le (rp_min_wilson_low p) (rm_wilson_low (rl_metrics r))"

definition refused :: "release_policy \<Rightarrow> reliability_report \<Rightarrow> int \<Rightarrow> bool" where
  "refused p r critical \<longleftrightarrow> rp_max_critical_violations p < critical \<or>
     (0 < rl_resolved_trials r \<and> fl_lt (rm_success_rate (rl_metrics r)) (rp_min_success_rate p))"

lemma unit_finite: "fl_unit x \<Longrightarrow> isfinite x"
  by (cases x) (auto simp: fl_unit_def fl_le_def fl_0_def fl_1_def fl_of_int_def fl_dyadic_def fl_ratio_def
      nlog2.simps Let_def)

lemma not_below: "isfinite x \<Longrightarrow> isfinite y \<Longrightarrow> \<not> fl_lt x y \<longleftrightarrow> fl_le y x"
  by (auto simp: fl_le_val fl_compare)

lemma hard_failures_Nil:
  assumes "validate_report pow r = Inr r" "release_policy_fields p"
  shows "hard_failures p r critical = [] \<longleftrightarrow> \<not> refused p r critical"
  using valid_report_counts [OF assms(1)]
  by (auto simp: hard_failures_def reasons_of_Nil refused_def counts_agree_def)

lemma accepted_report:
  assumes "validate_report pow r = Inr r" "release_policy_fields p"
  shows "hard_failures p r critical = [] \<and> gate_uncertainty p r = [] \<longleftrightarrow>
    critical \<le> rp_max_critical_violations p \<and> releasable p r"
proof -
  have fin: "isfinite (rp_min_success_rate p)" "isfinite (rp_min_wilson_low p)" "1 \<le> rp_min_resolved_trials p"
    using assms(2) by (auto simp: release_policy_fields_def unit_finite)
  have m: "isfinite (rm_success_rate (rl_metrics r))" "isfinite (rm_wilson_low (rl_metrics r))"
    using valid_report_metrics [OF assms(1)] by (simp_all add: metric_values_def)
  show ?thesis
    using fin(3)
    by (auto simp: hard_failures_def gate_uncertainty_def reasons_of_Nil releasable_def not_below [OF m(1) fin(1)]
        not_below [OF m(2) fin(2)])
qed

lemma gate_decision_iff:
  assumes "gate_decide pow p r critical = Inr g" "release_policy_fields p"
  shows "gr_decision g = (if refused p r critical then GReject
    else if critical \<le> rp_max_critical_violations p \<and> releasable p r then GAccept else GInconclusive)"
    and "gr_reasons g = hard_failures p r critical @ gate_uncertainty p r"
proof -
  have v: "validate_report pow r = Inr r" and
       g: "g = gate_result_of (hard_failures p r critical) (gate_uncertainty p r)"
    using assms(1) by (simp_all add: gate_decide_Inr)
  show "gr_decision g = (if refused p r critical then GReject
      else if critical \<le> rp_max_critical_violations p \<and> releasable p r then GAccept else GInconclusive)"
    using hard_failures_Nil [OF v assms(2), of critical] accepted_report [OF v assms(2), of critical]
    by (auto simp: g)
  show "gr_reasons g = hard_failures p r critical @ gate_uncertainty p r" by (simp add: g)
qed

text \<open>A report that may be released is not refused for its success rate.\<close>

lemma refused_not_releasable:
  assumes "validate_report pow r = Inr r" "release_policy_fields p"
  shows "refused p r critical \<Longrightarrow> \<not> (critical \<le> rp_max_critical_violations p \<and> releasable p r)"
  using accepted_report [OF assms, of critical] hard_failures_Nil [OF assms, of critical] by blast

text \<open>The counts of a report are those of the verdicts it was made from.\<close>

lemma binary_total_counts:
  "bs_passes (binary_total vs) = int (count_list vs PASS) \<and> bs_failures (binary_total vs) = int (count_list vs FAIL) \<and>
   bs_blocked (binary_total vs) = int (count_list vs BLOCKED) \<and>
   bs_inconclusive (binary_total vs) = int (count_list vs INCONCLUSIVE)"
proof (induction vs)
  case (Cons v vs)
  then show ?case by (cases v) (simp_all add: binary_add_def one_verdict_def no_trials_def)
qed (simp add: no_trials_def)

lemma report_counts:
  assumes "report_from_verdicts pow vs k z = Inr r"
  shows "rl_blocked r = int (count_list vs BLOCKED) \<and> rl_inconclusive r = int (count_list vs INCONCLUSIVE) \<and>
    rl_resolved_trials r = int (count_list vs PASS) + int (count_list vs FAIL)"
  using report_from_verdicts_Inr [OF assms] valid_report_counts [of pow r r] binary_total_counts [of vs]
  by (simp add: counts_agree_def)

subsection \<open>Slices\<close>

lemma grade_slices_Inr:
  "grade_slices pow p seen ss = Inr gs \<Longrightarrow>
     map fst gs = ss \<and> distinct (map sl_slice_id ss) \<and> set (map sl_slice_id ss) \<inter> set seen = {} \<and>
     list_all (\<lambda>(s, g). gate_decide pow p (sl_reliability s) (sl_critical_violations s) = Inr g) gs"
proof (induction ss arbitrary: seen gs)
  case (Cons s ss)
  from Cons.prems obtain g rest where
    "sl_slice_id s \<notin> set seen" "gate_decide pow p (sl_reliability s) (sl_critical_violations s) = Inr g"
    "grade_slices pow p (sl_slice_id s # seen) ss = Inr rest" "gs = (s, g) # rest"
    by (auto simp: rbind_Inr split: if_splits)
  with Cons.IH [of "sl_slice_id s # seen" rest] show ?case by auto
qed simp

lemma missing_families_Nil: "missing_families required fam = [] \<longleftrightarrow> set required \<subseteq> set (map fst fam)"
  by (simp add: missing_families_def)

text \<open>What the decision says of the slices, their gates and their families.\<close>

definition slice_decision :: "(pyfloat \<Rightarrow> int \<Rightarrow> pyfloat) \<Rightarrow> release_policy \<Rightarrow> slice_evidence \<Rightarrow> gate_decision" where
  "slice_decision pow p s = (case gate_decide pow p (sl_reliability s) (sl_critical_violations s) of
     Inl _ \<Rightarrow> GReject | Inr g \<Rightarrow> gr_decision g)"

lemma graded_decisions:
  assumes "grade_slices pow p [] ss = Inr gs"
  shows "map (\<lambda>sg. gr_decision (snd sg)) gs = map (slice_decision pow p) ss"
proof -
  have "map fst gs = ss" and g: "list_all (\<lambda>(s, g). gate_decide pow p (sl_reliability s) (sl_critical_violations s) = Inr g) gs"
    using grade_slices_Inr [OF assms] by simp_all
  then have "ss = map fst gs" by simp
  with g show ?thesis by (auto simp: slice_decision_def list_all_iff split: prod.splits)
qed

lemma rmap_same: "(\<And>x. x \<in> set xs \<Longrightarrow> f x = g x) \<Longrightarrow> rmap f xs = rmap g xs"
  by (induction xs) simp_all

lemma slice_decide_Inr:
  assumes "slice_decide pow p required slices = Inr r"
  obtains gs results where "grade_slices pow p [] slices = Inr gs" "slices \<noteq> []"
    "rmap (\<lambda>f. family_result f (members gs f)) (sort (map fst (families_of gs))) = Inr results"
    "sg_decision r = overall_decision gs (missing_families required (families_of gs))"
    "sg_worst_slice r = sl_slice_id (worst_of (hd slices) (tl slices))" "sg_family_results r = results"
proof -
  obtain gs results where gs: "grade_slices pow p [] slices = Inr gs" "slices \<noteq> []"
    "rmap (\<lambda>f. family_result f (the (map_of (families_of gs) f))) (sort (map fst (families_of gs))) = Inr results"
    "sg_decision r = overall_decision gs (missing_families required (families_of gs))"
    "sg_worst_slice r = sl_slice_id (worst_of (hd slices) (tl slices))" "sg_family_results r = results"
    using assms by (auto simp: slice_decide_def rbind_Inr Let_def make_slice_result_def split: if_splits)
  have same: "the (map_of (families_of gs) f) = members gs f" if "f \<in> set (sort (map fst (families_of gs)))" for f
  proof -
    have "map_of (families_of gs) f \<noteq> None" using that by (simp add: map_of_eq_None_iff)
    then show ?thesis by (auto simp: families_of_lookup split: if_splits)
  qed
  have "rmap (\<lambda>f. family_result f (members gs f)) (sort (map fst (families_of gs))) = Inr results"
    using gs(3) by (subst rmap_same [where g = "\<lambda>f. family_result f (the (map_of (families_of gs) f))"]) (simp only: same)
  with gs show thesis by (intro that)
qed

lemma slice_families:
  assumes "grade_slices pow p [] slices = Inr gs"
  shows "set (map fst (families_of gs)) = sl_risk_family ` set slices"
    and "sort (map fst (families_of gs)) = py_sorted (sl_risk_family ` set slices)"
proof -
  have "slices = map fst gs" using grade_slices_Inr [OF assms] by simp
  then show k: "set (map fst (families_of gs)) = sl_risk_family ` set slices"
    using families_of_keys [of gs] by (simp add: image_image)
  show "sort (map fst (families_of gs)) = py_sorted (sl_risk_family ` set slices)"
    unfolding k [symmetric] using families_of_keys [of gs]
    by (intro sorted_distinct_set_unique) (simp_all del: set_map)
qed

text \<open>The slices graded in the loop, as a function of the slices.\<close>

definition family_decision ::
  "(pyfloat \<Rightarrow> int \<Rightarrow> pyfloat) \<Rightarrow> release_policy \<Rightarrow> slice_evidence list \<Rightarrow> string \<Rightarrow> gate_decision" where
  "family_decision pow p slices f = combine (map (slice_decision pow p) (filter (\<lambda>s. sl_risk_family s = f) slices))"

lemma member_decisions:
  assumes "grade_slices pow p [] slices = Inr gs"
  shows "combine (map (\<lambda>sg. gr_decision (snd sg)) (members gs f)) = family_decision pow p slices f"
proof -
  have "slices = map fst gs" and g: "list_all (\<lambda>(s, g). gate_decide pow p (sl_reliability s) (sl_critical_violations s) = Inr g) gs"
    using grade_slices_Inr [OF assms] by simp_all
  then show ?thesis
    by (auto simp: family_decision_def members_def filter_map slice_decision_def list_all_iff o_def
        intro!: arg_cong [of _ _ combine] split: prod.splits)
qed

lemma family_result_Inr:
  "family_result f ms = Inr r \<Longrightarrow> rf_risk_family r = f \<and>
     rf_decision r = combine (map (\<lambda>sg. gr_decision (snd sg)) ms) \<and>
     rf_worst_slice r = sl_slice_id (worst_of (fst (hd ms)) (map fst (tl ms)))"
  by (auto simp: family_result_def make_family_result_def rbind_Inr)

lemma family_results_agree:
  assumes "grade_slices pow p [] slices = Inr gs"
    "rmap (\<lambda>f. family_result f (members gs f)) fs = Inr results"
  shows "map (\<lambda>r. (rf_risk_family r, rf_decision r)) results = map (\<lambda>f. (f, family_decision pow p slices f)) fs"
proof -
  have "list_all2 (\<lambda>f r. family_result f (members gs f) = Inr r) fs results"
    using assms(2) by (simp add: rmap_Inr)
  then show ?thesis
    by (induction rule: list_all2_induct) (auto dest!: family_result_Inr simp: member_decisions [OF assms(1)])
qed

lemma overall_decision_iff:
  assumes "grade_slices pow p [] slices = Inr gs"
  shows "(overall_decision gs (missing_families required (families_of gs)) = GAccept \<longleftrightarrow>
      list_all (\<lambda>s. slice_decision pow p s = GAccept) slices \<and> set required \<subseteq> sl_risk_family ` set slices) \<and>
    (overall_decision gs (missing_families required (families_of gs)) = GReject \<longleftrightarrow>
      GReject \<in> slice_decision pow p ` set slices)"
proof -
  have all: "list_all (\<lambda>s. slice_decision pow p s = GAccept) slices \<longleftrightarrow>
      GReject \<notin> slice_decision pow p ` set slices \<and> GInconclusive \<notin> slice_decision pow p ` set slices"
    by (auto simp: list_all_iff image_iff) (metis gate_decision.exhaust)
  have "overall_decision gs (missing_families required (families_of gs)) =
      (if GReject \<in> slice_decision pow p ` set slices then GReject
       else if GInconclusive \<in> slice_decision pow p ` set slices \<or> \<not> set required \<subseteq> sl_risk_family ` set slices
       then GInconclusive else GAccept)"
    unfolding overall_decision_def graded_decisions [OF assms] Let_def missing_families_Nil
      slice_families(1) [OF assms] by (simp only: list.set_map)
  then show ?thesis by (auto simp: all)
qed

subsection \<open>The worst slice\<close>

definition slice_key :: "slice_evidence \<Rightarrow> real \<times> real \<times> string" where
  "slice_key s = (fl_val (rm_wilson_low (rl_metrics (sl_reliability s))),
     fl_val (rm_success_rate (rl_metrics (sl_reliability s))), sl_slice_id s)"

definition finite_slice :: "slice_evidence \<Rightarrow> bool" where
  "finite_slice s \<longleftrightarrow> isfinite (rm_wilson_low (rl_metrics (sl_reliability s))) \<and>
     isfinite (rm_success_rate (rl_metrics (sl_reliability s)))"

lemma worse_key: "finite_slice a \<Longrightarrow> finite_slice b \<Longrightarrow> worse a b \<longleftrightarrow> slice_key a < slice_key b"
  by (auto simp: worse_def finite_slice_def slice_key_def Let_def fl_compare less_prod_def)

lemma worst_of_least:
  assumes "finite_slice x" "list_all finite_slice xs"
  shows "worst_of x xs \<in> set (x # xs) \<and> list_all (\<lambda>y. slice_key (worst_of x xs) \<le> slice_key y) (x # xs)"
  using assms
proof (induction xs arbitrary: x)
  case (Cons y ys)
  have step: "worst_of x (y # ys) = worst_of (if worse y x then y else x) ys" by (simp add: worst_of_def)
  have "finite_slice (if worse y x then y else x)" "list_all finite_slice ys" using Cons.prems by simp_all
  from Cons.IH [OF this] show ?case
    using Cons.prems by (auto simp: step worse_key list_all_iff split: if_splits)
qed (simp add: worst_of_def)

lemma graded_finite:
  assumes "grade_slices pow p seen ss = Inr gs"
  shows "list_all finite_slice ss"
proof -
  have "finite_slice (fst sg)" if "sg \<in> set gs" for sg
  proof -
    have "gate_decide pow p (sl_reliability (fst sg)) (sl_critical_violations (fst sg)) = Inr (snd sg)"
      using grade_slices_Inr [OF assms] that by (auto simp: list_all_iff split: prod.splits)
    then have "validate_report pow (sl_reliability (fst sg)) = Inr (sl_reliability (fst sg))"
      by (simp add: gate_decide_Inr)
    from valid_report_metrics [OF this] show ?thesis by (simp add: finite_slice_def metric_values_def)
  qed
  moreover have "ss = map fst gs" using grade_slices_Inr [OF assms] by simp
  ultimately show ?thesis by (auto simp: list_all_iff)
qed

lemma worst_slice_named:
  assumes "slice_decide pow p required slices = Inr r"
  shows "\<exists>s \<in> set slices. sg_worst_slice r = sl_slice_id s \<and> list_all (\<lambda>t. slice_key s \<le> slice_key t) slices"
proof -
  obtain gs results where g: "grade_slices pow p [] slices = Inr gs" "slices \<noteq> []"
    "sg_worst_slice r = sl_slice_id (worst_of (hd slices) (tl slices))"
    using slice_decide_Inr [OF assms] by metis
  then obtain x xs where "slices = x # xs" by (cases slices) auto
  with g worst_of_least [of x xs] graded_finite [OF g(1)] show ?thesis by auto
qed

end
