(* ===== verification/OperationalGate.thy ===== *)
theory OperationalGate
  imports ReleaseProofs
begin

section \<open>Operational tails (\<open>statistics/operational.py\<close>, \<open>gates/advanced.py\<close>)\<close>

text \<open>
  Latency, cost, tool calls and retries are summarised by nearest-rank quantiles over the
  attempts an inclusion policy keeps, and a gate compares the tails with thresholds. The
  summary is a value with its invariants checked when it is made; its quantiles are functions of
  it. The product \<open>q * n\<close> is rounded as the code rounds it, before its ceiling is taken.
\<close>

datatype inclusion = ALL_ATTEMPTS | RESOLVED_ONLY

record operational_observation =
  oo_verdict :: verdict
  oo_latency_ms :: pyfloat
  oo_cost_usd :: pyfloat
  oo_tool_calls :: int
  oo_retries :: int

record operational_summary =
  os_observations :: "operational_observation list"
  os_inclusion :: inclusion

definition make_observation :: "operational_observation \<Rightarrow> error + operational_observation" where
  "make_observation r =
     rbind (raise_if
       [(\<not> isfinite (oo_latency_ms r), vale ''latency_ms must be a finite float''),
        (fl_lt (oo_latency_ms r) fl_0, vale ''latency_ms cannot be negative''),
        (\<not> isfinite (oo_cost_usd r), vale ''cost_usd must be a finite float''),
        (fl_lt (oo_cost_usd r) fl_0, vale ''cost_usd cannot be negative''),
        (oo_tool_calls r < 0, vale ''tool_calls must be a non-negative exact integer''),
        (oo_retries r < 0, vale ''retries must be a non-negative exact integer'')]) (\<lambda>_. Inr r)"

definition included :: "operational_summary \<Rightarrow> operational_observation list" where
  "included s = (case os_inclusion s of ALL_ATTEMPTS \<Rightarrow> os_observations s
     | RESOLVED_ONLY \<Rightarrow> filter (\<lambda>r. oo_verdict r = PASS \<or> oo_verdict r = FAIL) (os_observations s))"

definition make_summary :: "operational_summary \<Rightarrow> error + operational_summary" where
  "make_summary s =
     rbind (raise_if
       [(\<not> (1 \<le> length (os_observations s) \<and> int (length (os_observations s)) \<le> max_statistical_trials),
         vale (''observation count must be in 1..'' @ int_str max_statistical_trials)),
        (included s = [], vale ''operational summary has no observations under its inclusion policy'')]) (\<lambda>_. Inr s)"

definition included_attempts :: "operational_summary \<Rightarrow> int" where
  "included_attempts s = int (length (included s))"

definition excluded :: "verdict \<Rightarrow> operational_summary \<Rightarrow> int" where
  "excluded v s = (case os_inclusion s of ALL_ATTEMPTS \<Rightarrow> 0
     | RESOLVED_ONLY \<Rightarrow> int (length (filter (\<lambda>r. oo_verdict r = v) (os_observations s))))"

subsection \<open>Quantiles\<close>

text \<open>\<open>sorted\<close> on floats: a stable insertion that only asks \<open>a < b\<close>.\<close>

fun fl_insert :: "pyfloat \<Rightarrow> pyfloat list \<Rightarrow> pyfloat list" where
  "fl_insert x [] = [x]"
| "fl_insert x (y # ys) = (if fl_lt y x then y # fl_insert x ys else x # y # ys)"

definition fl_sort :: "pyfloat list \<Rightarrow> pyfloat list" where
  "fl_sort xs = foldr fl_insert xs []"

text \<open>\<open>math.ceil\<close> of a finite float.\<close>

fun fl_ceil :: "pyfloat \<Rightarrow> int" where
  "fl_ceil (FFin s m e) =
     (if e \<ge> 0 then PyFloat.signed s m * 2 ^ nat e else - ((- PyFloat.signed s m) div 2 ^ nat (- e)))"
| "fl_ceil _ = 0"

text \<open>The rank of a quantile given in hundredths: 50, 95 or 99.\<close>

definition quantile_rank :: "nat \<Rightarrow> nat \<Rightarrow> int" where
  "quantile_rank q n = max 1 (fl_ceil (fl_mul (ratio10 False q (- 2)) (fl_of_int (int n))))"

definition float_quantile :: "pyfloat list \<Rightarrow> nat \<Rightarrow> pyfloat" where
  "float_quantile xs q = fl_sort xs ! nat (quantile_rank q (length xs) - 1)"

definition int_quantile :: "int list \<Rightarrow> nat \<Rightarrow> int" where
  "int_quantile xs q = sort xs ! nat (quantile_rank q (length xs) - 1)"

definition latency_ms :: "nat \<Rightarrow> operational_summary \<Rightarrow> pyfloat" where
  "latency_ms q s = float_quantile (map oo_latency_ms (included s)) q"

definition cost_usd :: "nat \<Rightarrow> operational_summary \<Rightarrow> pyfloat" where
  "cost_usd q s = float_quantile (map oo_cost_usd (included s)) q"

definition tool_call_tail :: "nat \<Rightarrow> operational_summary \<Rightarrow> int" where
  "tool_call_tail q s = int_quantile (map oo_tool_calls (included s)) q"

definition retry_tail :: "nat \<Rightarrow> operational_summary \<Rightarrow> int" where
  "retry_tail q s = int_quantile (map oo_retries (included s)) q"

subsection \<open>The gate\<close>

record tail_policy =
  tp_minimum_samples :: int
  tp_max_latency_p95_ms :: "pyfloat option"
  tp_max_cost_p95_usd :: "pyfloat option"
  tp_max_tool_calls_p99 :: "int option"
  tp_max_retries_p99 :: "int option"
  tp_allow_excluded_unresolved :: bool

definition float_bound_bad :: "pyfloat option \<Rightarrow> bool" where
  "float_bound_bad v = (case v of None \<Rightarrow> False | Some x \<Rightarrow> \<not> isfinite x \<or> fl_lt x fl_0)"

definition int_bound_bad :: "int option \<Rightarrow> bool" where
  "int_bound_bad v = (case v of None \<Rightarrow> False | Some x \<Rightarrow> x < 0)"

definition make_tail_policy :: "tail_policy \<Rightarrow> error + tail_policy" where
  "make_tail_policy p =
     rbind (raise_if
       [(\<not> (1 \<le> tp_minimum_samples p \<and> tp_minimum_samples p \<le> max_statistical_trials),
         vale ''minimum_samples must be a positive exact integer inside the statistical bound''),
        (float_bound_bad (tp_max_latency_p95_ms p), vale ''max_latency_p95_ms must be None or a finite non-negative float''),
        (float_bound_bad (tp_max_cost_p95_usd p), vale ''max_cost_p95_usd must be None or a finite non-negative float''),
        (int_bound_bad (tp_max_tool_calls_p99 p), vale ''max_tool_calls_p99 must be None or a non-negative exact integer''),
        (int_bound_bad (tp_max_retries_p99 p), vale ''max_retries_p99 must be None or a non-negative exact integer''),
        (tp_max_latency_p95_ms p = None \<and> tp_max_cost_p95_usd p = None \<and> tp_max_tool_calls_p99 p = None \<and>
           tp_max_retries_p99 p = None, vale ''operational tail policy requires at least one threshold'')]) (\<lambda>_. Inr p)"

definition exceeds :: "('a \<Rightarrow> 'b \<Rightarrow> bool) \<Rightarrow> 'a option \<Rightarrow> 'b \<Rightarrow> bool" where
  "exceeds below bound v = (case bound of None \<Rightarrow> False | Some b \<Rightarrow> below b v)"

definition tail_failures :: "tail_policy \<Rightarrow> operational_summary \<Rightarrow> string list" where
  "tail_failures p s = reasons_of
     [(exceeds fl_lt (tp_max_latency_p95_ms p) (latency_ms 95 s),
       ''latency p95 '' @ fixed_str 4 (latency_ms 95 s) @ '' ms exceeds '' @
         fixed_str 4 (the (tp_max_latency_p95_ms p)) @ '' ms''),
      (exceeds fl_lt (tp_max_cost_p95_usd p) (cost_usd 95 s),
       ''cost p95 '' @ fixed_str 8 (cost_usd 95 s) @ '' USD exceeds '' @
         fixed_str 8 (the (tp_max_cost_p95_usd p)) @ '' USD''),
      (exceeds (<) (tp_max_tool_calls_p99 p) (tool_call_tail 99 s),
       ''tool-call p99 '' @ int_str (tool_call_tail 99 s) @ '' exceeds '' @ int_str (the (tp_max_tool_calls_p99 p))),
      (exceeds (<) (tp_max_retries_p99 p) (retry_tail 99 s),
       ''retry p99 '' @ int_str (retry_tail 99 s) @ '' exceeds '' @ int_str (the (tp_max_retries_p99 p)))]"

definition tail_uncertainty :: "tail_policy \<Rightarrow> operational_summary \<Rightarrow> string list" where
  "tail_uncertainty p s = reasons_of
     [(included_attempts s < tp_minimum_samples p,
       ''included operational samples '' @ int_str (included_attempts s) @ '' are below required '' @
         int_str (tp_minimum_samples p)),
      (os_inclusion s = RESOLVED_ONLY \<and> \<not> tp_allow_excluded_unresolved p \<and>
         (excluded BLOCKED s \<noteq> 0 \<or> excluded INCONCLUSIVE s \<noteq> 0),
       ''resolved-only operational summary excluded '' @ int_str (excluded BLOCKED s) @ '' blocked and '' @
         int_str (excluded INCONCLUSIVE s) @ '' inconclusive attempts'')]"

definition tail_decide :: "tail_policy \<Rightarrow> operational_summary \<Rightarrow> gate_result" where
  "tail_decide p s = gate_result_of (tail_failures p s) (tail_uncertainty p s)"

subsection \<open>The quantile is one of the values, in the order of the values\<close>

lemma fl_insert_mset [simp]: "mset (fl_insert x ys) = add_mset x (mset ys)"
  by (induction ys) auto

lemma fl_sort_mset [simp]: "mset (fl_sort xs) = mset xs"
  by (induction xs) (auto simp: fl_sort_def)

lemma fl_sort_length [simp]: "length (fl_sort xs) = length xs"
  by (metis fl_sort_mset size_mset)

lemma fl_sort_set [simp]: "set (fl_sort xs) = set xs"
  by (metis fl_sort_mset set_mset_mset)

lemma fl_insert_sorted:
  assumes "list_all isfinite (x # ys)" "sorted (map fl_val ys)"
  shows "sorted (map fl_val (fl_insert x ys))"
  using assms
proof (induction ys)
  case (Cons y ys)
  have s: "set (fl_insert x ys) = insert x (set ys)" by (metis fl_insert_mset set_mset_mset set_mset_add_mset_insert)
  show ?case using Cons by (auto simp: fl_compare s)
qed simp

lemma fl_sort_sorted: "list_all isfinite xs \<Longrightarrow> sorted (map fl_val (fl_sort xs))"
proof (induction xs)
  case (Cons x xs)
  then have "list_all isfinite (x # fl_sort xs)" by (simp add: list_all_iff)
  with Cons show ?case by (simp add: fl_sort_def fl_insert_sorted)
qed (simp add: fl_sort_def)

text \<open>At most \<open>rank - 1\<close> values lie below the quantile, and at least \<open>rank\<close> do not lie above.\<close>

lemma sorted_rank:
  fixes ys :: "'a::linorder list"
  assumes "sorted ys" "i < length ys"
  shows "length (filter (\<lambda>y. y < ys ! i) ys) \<le> i \<and> i + 1 \<le> length (filter (\<lambda>y. y \<le> ys ! i) ys)"
proof
  have split: "ys = take i ys @ drop i ys" by simp
  have "y \<ge> ys ! i" if "y \<in> set (drop i ys)" for y
    using that assms by (auto simp: in_set_conv_nth sorted_iff_nth_mono)
  then have n: "filter (\<lambda>y. y < ys ! i) (drop i ys) = []" by (force simp: filter_empty_conv)
  have "filter (\<lambda>y. y < ys ! i) ys = filter (\<lambda>y. y < ys ! i) (take i ys)"
    by (subst (2) split, subst filter_append) (simp add: n)
  also have "length \<dots> \<le> length (take i ys)" by (rule length_filter_le)
  finally show "length (filter (\<lambda>y. y < ys ! i) ys) \<le> i" by simp
  have "y \<le> ys ! i" if "y \<in> set (take (Suc i) ys)" for y
    using that assms by (auto simp: in_set_conv_nth sorted_iff_nth_mono)
  then have t: "filter (\<lambda>y. y \<le> ys ! i) (take (Suc i) ys) = take (Suc i) ys" by (simp add: filter_id_conv)
  have "filter (\<lambda>y. y \<le> ys ! i) ys = filter (\<lambda>y. y \<le> ys ! i) (take (Suc i) ys) @ filter (\<lambda>y. y \<le> ys ! i) (drop (Suc i) ys)"
    by (metis append_take_drop_id filter_append)
  then show "i + 1 \<le> length (filter (\<lambda>y. y \<le> ys ! i) ys)" using assms(2) by (simp add: t)
qed

lemma rank_int: "a \<le> nat (r - 1) \<and> nat (r - 1) + 1 \<le> b \<Longrightarrow> 1 \<le> r \<Longrightarrow> int a < r \<and> r \<le> int b"
  by linarith

lemma filter_map_length: "length (filter P (map f xs)) = length (filter (P \<circ> f) xs)"
  by (simp add: filter_map)

lemma filter_length_mset: "mset xs = mset ys \<Longrightarrow> length (filter P xs) = length (filter P ys)"
  by (metis mset_filter size_mset)

lemma float_quantile_rank:
  assumes "list_all isfinite xs" "nat (quantile_rank q (length xs) - 1) < length xs"
  defines "v \<equiv> float_quantile xs q"
  shows "v \<in> set xs \<and> int (length (filter (\<lambda>x. fl_lt x v) xs)) < quantile_rank q (length xs) \<and>
    quantile_rank q (length xs) \<le> int (length (filter (\<lambda>x. fl_le x v) xs))"
proof -
  let ?i = "nat (quantile_rank q (length xs) - 1)" let ?ys = "map fl_val (fl_sort xs)"
  have i: "?i < length ?ys" using assms(2) by simp
  have r: "1 \<le> quantile_rank q (length xs)" by (simp add: quantile_rank_def)
  have v: "v \<in> set xs" unfolding v_def float_quantile_def using i by (metis fl_sort_set length_map nth_mem)
  have y: "?ys ! ?i = fl_val v" unfolding v_def float_quantile_def using i by (simp add: nth_map)
  have f: "isfinite x" if "x \<in> set xs" for x using assms(1) that by (simp add: list_all_iff)
  have lt: "length (filter (\<lambda>y. y < fl_val v) ?ys) = length (filter (\<lambda>x. fl_lt x v) xs)"
    unfolding filter_map_length o_def
    by (subst filter_length_mset [OF fl_sort_mset], rule arg_cong [where f = length], rule filter_cong)
      (simp_all add: fl_compare f v)
  have le: "length (filter (\<lambda>y. y \<le> fl_val v) ?ys) = length (filter (\<lambda>x. fl_le x v) xs)"
    unfolding filter_map_length o_def
    by (subst filter_length_mset [OF fl_sort_mset], rule arg_cong [where f = length], rule filter_cong)
      (simp_all add: fl_le_val f v)
  from rank_int [OF sorted_rank [OF fl_sort_sorted [OF assms(1)] i] r] v show ?thesis
    unfolding y lt le by blast
qed

lemma int_quantile_rank:
  assumes "nat (quantile_rank q (length xs) - 1) < length xs"
  defines "v \<equiv> int_quantile xs q"
  shows "v \<in> set xs \<and> int (length (filter (\<lambda>x. x < v) xs)) < quantile_rank q (length xs) \<and>
    quantile_rank q (length xs) \<le> int (length (filter (\<lambda>x. x \<le> v) xs))"
proof -
  let ?i = "nat (quantile_rank q (length xs) - 1)"
  have i: "?i < length (sort xs)" using assms(1) by simp
  have r: "1 \<le> quantile_rank q (length xs)" by (simp add: quantile_rank_def)
  have v: "v = sort xs ! ?i" by (simp add: v_def int_quantile_def)
  have m: "length (filter P (sort xs)) = length (filter P xs)" for P by (rule filter_length_mset) simp
  have "v \<in> set xs" using i unfolding v by (metis nth_mem set_sort)
  with rank_int [OF sorted_rank [OF sorted_sort i] r] show ?thesis unfolding m v by blast
qed

subsection \<open>The rank is a rank\<close>

lemma nlog2_bounds: "0 < n \<Longrightarrow> 2 ^ nlog2 n \<le> n \<and> n < 2 * 2 ^ nlog2 n"
proof (induction n rule: nlog2.induct)
  case (1 n)
  show ?case
  proof (cases "n \<le> 1")
    case True
    with "1.prems" show ?thesis by (simp add: nlog2.simps)
  next
    case False
    then have "nlog2 n = Suc (nlog2 (n div 2))" by (subst nlog2.simps) simp
    moreover have "2 ^ nlog2 (n div 2) \<le> n div 2" "n div 2 < 2 * 2 ^ nlog2 (n div 2)"
      using "1.IH" [OF False] False by simp_all
    ultimately show ?thesis by simp linarith
  qed
qed

lemma round_le: "0 < den \<Longrightarrow> num \<le> den * c \<Longrightarrow>
   (if 2 * (num mod den) > den \<or> (2 * (num mod den) = den \<and> odd (num div den)) then num div den + 1 else num div den) \<le> (c::nat)"
proof -
  assume d: "0 < den" and le: "num \<le> den * c"
  have "num div den \<le> c" using d le by (metis div_le_mono nonzero_mult_div_cancel_left not_gr0)
  moreover have "num div den \<noteq> c" if "0 < num mod den"
  proof
    assume "num div den = c"
    then have "num = den * c + num mod den" by (metis mult_div_mod_eq)
    with that le show False by linarith
  qed
  ultimately show ?thesis using d by (auto simp: Suc_le_eq le_neq_implies_less)
qed

lemma fl_ratio_le:
  assumes "0 < den" "num \<le> den * c" "c < 2 ^ 52"
  shows "\<exists>m e. fl_ratio False num den = FFin False m e \<and> e \<le> 0 \<and> m \<le> c * 2 ^ nat (- e)"
proof (cases "num = 0")
  case True
  then show ?thesis by (simp add: fl_ratio_def)
next
  case False
  define k0 where "k0 = int (nlog2 num) - int (nlog2 den)"
  define ge where "ge = (if k0 \<ge> 0 then num \<ge> den * 2 ^ nat k0 else num * 2 ^ nat (- k0) \<ge> den)"
  define k where "k = (if ge then k0 else k0 - 1)"
  define e where "e = max (k - 52) (- 1074)"
  have n: "2 ^ nlog2 num \<le> num" and d: "den < 2 * 2 ^ nlog2 den"
    using nlog2_bounds [of num] nlog2_bounds [of den] False assms(1) by simp_all
  have small: "num < den * 2 ^ 52"
    using assms by (meson le_less_trans mult_less_mono2)
  have "k < 52"
  proof (rule ccontr)
    assume k: "\<not> k < 52"
    have "den * 2 ^ 52 \<le> num"
    proof (cases ge)
      case True
      then have k0: "52 \<le> k0" using k by (simp add: k_def)
      then have "den * 2 ^ nat k0 \<le> num" "52 \<le> nat k0" using True by (simp_all add: ge_def)
      moreover from this(2) have "(2::nat) ^ 52 \<le> 2 ^ nat k0" by (rule power_increasing) simp
      ultimately show ?thesis by (meson le_trans mult_le_mono2)
    next
      case False
      then have "nlog2 den + 53 \<le> nlog2 num" using k by (simp add: k_def k0_def)
      then have "(2::nat) ^ (nlog2 den + 53) \<le> 2 ^ nlog2 num" by (rule power_increasing) simp
      then show ?thesis using n d by (simp add: power_add)
    qed
    with small show False by simp
  qed
  then have e: "e < 0" by (simp add: e_def)
  define q where "q = (let r = (num * 2 ^ nat (- e)) mod den; t = (num * 2 ^ nat (- e)) div den in
    if 2 * r > den \<or> (2 * r = den \<and> odd t) then t + 1 else t)"
  have "num * 2 ^ nat (- e) \<le> den * (c * 2 ^ nat (- e))" using assms(2) by (simp add: mult.assoc [symmetric])
  then have q: "q \<le> c * 2 ^ nat (- e)" using round_le [OF assms(1)] by (simp add: q_def Let_def)
  have eq: "fl_ratio False num den =
      (let m = (if q = 2 ^ 53 then 2 ^ 52 else q); e' = (if q = 2 ^ 53 then e + 1 else e)
       in if m = 0 then FFin False 0 0 else if e' > 971 then FInf False else FFin False m e')"
    unfolding fl_ratio_def if_not_P [OF False]
    by (subst Let_def, fold k0_def, subst Let_def, fold ge_def, subst Let_def, fold k_def, subst Let_def, fold e_def)
      (use e in \<open>simp only: Let_def q_def if_P simp_thms\<close>)
  have "nat (- e) = Suc (nat (- (e + 1)))" using e by simp
  with q e show ?thesis by (auto simp: eq Let_def)
qed

text \<open>A factor below one times a count stays within the count, after rounding too.\<close>

definition quantile_float :: "nat \<Rightarrow> bool" where
  "quantile_float q \<longleftrightarrow> (\<exists>m. ratio10 False q (- 2) = FFin False m (- 53) \<and> m < 2 ^ 53)"

lemma quantile_floats: "quantile_float 50" "quantile_float 95" "quantile_float 99"
  by (simp_all add: quantile_float_def ratio10_def fl_ratio_def nlog2.simps Let_def cong: let_weak_cong)

lemma fl_dyadic_down: "i \<le> 0 \<Longrightarrow> 0 \<le> m \<Longrightarrow> fl_dyadic False m i = fl_ratio False (nat m) (2 ^ nat (- i))"
  by (cases "i = 0") (auto simp: fl_dyadic_def Let_def)

lemma quantile_rank_le:
  assumes "quantile_float q" "0 < n" "n < 2 ^ 52"
  shows "quantile_rank q n \<le> int n"
proof -
  obtain m where m: "ratio10 False q (- 2) = FFin False m (- 53)" "m < 2 ^ 53"
    using assms(1) by (auto simp: quantile_float_def)
  obtain m' e' where n: "fl_of_int (int n) = FFin False m' e'" "e' \<le> 0" "m' \<le> n * 2 ^ nat (- e')"
    using fl_ratio_le [of 1 n n] assms(3) by (auto simp: fl_of_int_def fl_dyadic_down)
  have split: "nat (- (e' - 53)) = 53 + nat (- e')" using n(2) by simp
  have "m * m' \<le> 2 ^ 53 * (n * 2 ^ nat (- e'))" using m(2) n(3) by (intro mult_mono) simp_all
  then have "m * m' \<le> 2 ^ nat (- (e' - 53)) * n" unfolding split power_add by (simp add: mult_ac)
  then obtain r e where r: "fl_ratio False (m * m') (2 ^ nat (- (e' - 53))) = FFin False r e" "e \<le> 0"
      "r \<le> n * 2 ^ nat (- e)"
    using fl_ratio_le [of "2 ^ nat (- (e' - 53))" "m * m'" n] assms(3) by auto
  have p: "fl_mul (ratio10 False q (- 2)) (fl_of_int (int n)) = FFin False r e"
    using n(2) r(1) by (simp add: m(1) n(1) PyFloat.signed_def fl_dyadic_down nat_mult_distrib)
  have "fl_ceil (FFin False r e) \<le> int n"
  proof (cases "e = 0")
    case True
    with r(3) show ?thesis by (simp add: PyFloat.signed_def)
  next
    case False
    have "int r \<le> int n * 2 ^ nat (- e)" using r(3) by (metis of_nat_le_iff of_nat_mult of_nat_numeral of_nat_power)
    then have "(- int n * 2 ^ nat (- e)) div 2 ^ nat (- e) \<le> (- int r) div 2 ^ nat (- e)"
      by (intro zdiv_mono1) simp_all
    then have "- int n \<le> (- int r) div 2 ^ nat (- e)"
      by (subst (asm) nonzero_mult_div_cancel_right) simp_all
    with False r(2) show ?thesis by (simp add: PyFloat.signed_def)
  qed
  with assms(2) show ?thesis by (simp add: quantile_rank_def p)
qed

subsection \<open>A tail is a share of the attempts\<close>

text \<open>Enough values lie within the bound to cover the rank of the quantile.\<close>

definition tail_within :: "nat \<Rightarrow> ('a \<Rightarrow> bool) \<Rightarrow> 'a list \<Rightarrow> bool" where
  "tail_within q P xs \<longleftrightarrow> quantile_rank q (length xs) \<le> int (length (filter P xs))"

lemma filter_length_mono: "(\<And>x. x \<in> set xs \<Longrightarrow> P x \<Longrightarrow> Q x) \<Longrightarrow> length (filter P xs) \<le> length (filter Q xs)"
  by (induction xs) auto

lemma rank_index:
  assumes "quantile_float q" "xs \<noteq> []" "int (length xs) \<le> max_statistical_trials"
  shows "nat (quantile_rank q (length xs) - 1) < length xs"
  using quantile_rank_le [OF assms(1), of "length xs"] assms(2,3)
  by (simp add: max_statistical_trials_def quantile_rank_def) (cases xs, auto)

lemma float_tail:
  assumes "quantile_float q" "xs \<noteq> []" "int (length xs) \<le> max_statistical_trials" "list_all isfinite xs" "isfinite b"
  shows "fl_lt b (float_quantile xs q) \<longleftrightarrow> \<not> tail_within q (\<lambda>x. fl_le x b) xs"
proof -
  define v where "v = float_quantile xs q"
  note r = float_quantile_rank [OF assms(4) rank_index [OF assms(1-3)], folded v_def]
  have f: "isfinite x" if "x \<in> set xs" for x using assms(4) that by (simp add: list_all_iff)
  have fv: "isfinite v" using r f by blast
  show ?thesis
  proof (cases "fl_lt b v")
    case True
    have "length (filter (\<lambda>x. fl_le x b) xs) \<le> length (filter (\<lambda>x. fl_lt x v) xs)"
      using True f fv assms(5) by (intro filter_length_mono) (simp add: fl_compare fl_le_val)
    with r True show ?thesis by (simp add: tail_within_def flip: v_def)
  next
    case False
    have "length (filter (\<lambda>x. fl_le x v) xs) \<le> length (filter (\<lambda>x. fl_le x b) xs)"
      using False f fv assms(5) by (intro filter_length_mono) (simp add: fl_compare fl_le_val)
    with r False show ?thesis by (simp add: tail_within_def flip: v_def)
  qed
qed

lemma int_tail:
  assumes "quantile_float q" "xs \<noteq> []" "int (length xs) \<le> max_statistical_trials"
  shows "b < int_quantile xs q \<longleftrightarrow> \<not> tail_within q (\<lambda>x. x \<le> b) xs"
proof -
  define v where "v = int_quantile xs q"
  note r = int_quantile_rank [OF rank_index [OF assms], folded v_def]
  show ?thesis
  proof (cases "b < v")
    case True
    have "length (filter (\<lambda>x. x \<le> b) xs) \<le> length (filter (\<lambda>x. x < v) xs)"
      using True by (intro filter_length_mono) simp
    with r True show ?thesis by (simp add: tail_within_def flip: v_def)
  next
    case False
    have "length (filter (\<lambda>x. x \<le> v) xs) \<le> length (filter (\<lambda>x. x \<le> b) xs)"
      using False by (intro filter_length_mono) simp
    with r False show ?thesis by (simp add: tail_within_def flip: v_def)
  qed
qed

text \<open>What a policy asks of the attempts that are included.\<close>

definition tails_met :: "tail_policy \<Rightarrow> operational_summary \<Rightarrow> bool" where
  "tails_met p s \<longleftrightarrow>
     (case tp_max_latency_p95_ms p of None \<Rightarrow> True | Some b \<Rightarrow> tail_within 95 (\<lambda>x. fl_le x b) (map oo_latency_ms (included s))) \<and>
     (case tp_max_cost_p95_usd p of None \<Rightarrow> True | Some b \<Rightarrow> tail_within 95 (\<lambda>x. fl_le x b) (map oo_cost_usd (included s))) \<and>
     (case tp_max_tool_calls_p99 p of None \<Rightarrow> True | Some b \<Rightarrow> tail_within 99 (\<lambda>x. x \<le> b) (map oo_tool_calls (included s))) \<and>
     (case tp_max_retries_p99 p of None \<Rightarrow> True | Some b \<Rightarrow> tail_within 99 (\<lambda>x. x \<le> b) (map oo_retries (included s)))"

definition sample_population :: "tail_policy \<Rightarrow> operational_summary \<Rightarrow> bool" where
  "sample_population p s \<longleftrightarrow> tp_minimum_samples p \<le> int (length (included s)) \<and>
     (tp_allow_excluded_unresolved p \<or> included s = os_observations s)"

definition valid_summary :: "operational_summary \<Rightarrow> bool" where
  "valid_summary s \<longleftrightarrow> make_summary s = Inr s \<and> list_all (\<lambda>r. make_observation r = Inr r) (os_observations s)"

lemma included_subset: "set (included s) \<subseteq> set (os_observations s)"
  by (auto simp: included_def split: inclusion.splits)

lemma valid_included:
  assumes "valid_summary s"
  shows "included s \<noteq> []" "int (length (included s)) \<le> max_statistical_trials"
    "list_all isfinite (map oo_latency_ms (included s))" "list_all isfinite (map oo_cost_usd (included s))"
proof -
  have le: "length (included s) \<le> length (os_observations s)"
    by (simp add: included_def split: inclusion.splits)
  show "included s \<noteq> []" "int (length (included s)) \<le> max_statistical_trials"
    using assms le by (auto simp: valid_summary_def make_summary_def rbind_Inr raise_if_Inr_iff)
  show "list_all isfinite (map oo_latency_ms (included s))" "list_all isfinite (map oo_cost_usd (included s))"
    using assms included_subset [of s]
    by (auto simp: valid_summary_def make_observation_def rbind_Inr raise_if_Inr_iff list_all_iff)
qed

lemma tail_failures_Nil:
  assumes "make_tail_policy p = Inr p" "valid_summary s"
  shows "tail_failures p s = [] \<longleftrightarrow> tails_met p s"
proof -
  note v = valid_included [OF assms(2)]
  have b: "isfinite b" if "tp_max_latency_p95_ms p = Some b \<or> tp_max_cost_p95_usd p = Some b" for b
    using assms(1) that by (auto simp: make_tail_policy_def rbind_Inr raise_if_Inr_iff float_bound_bad_def)
  show ?thesis
    using v b
    by (auto simp: tail_failures_def reasons_of_Nil exceeds_def tails_met_def latency_ms_def cost_usd_def
        tool_call_tail_def retry_tail_def float_tail [OF quantile_floats(2)] int_tail [OF quantile_floats(3)]
        split: option.splits)
qed

lemma nothing_excluded:
  "(os_inclusion s = RESOLVED_ONLY \<longrightarrow> excluded BLOCKED s = 0 \<and> excluded INCONCLUSIVE s = 0) \<longleftrightarrow>
     included s = os_observations s"
proof (cases "os_inclusion s")
  case RESOLVED_ONLY
  have v: "v = PASS \<or> v = FAIL \<longleftrightarrow> v \<noteq> BLOCKED \<and> v \<noteq> INCONCLUSIVE" for v by (cases v) auto
  show ?thesis by (auto simp: RESOLVED_ONLY included_def excluded_def filter_empty_conv filter_id_conv v)
qed (simp add: included_def)

lemma tail_uncertainty_Nil: "tail_uncertainty p s = [] \<longleftrightarrow> sample_population p s"
  using nothing_excluded [of s]
  by (auto simp: tail_uncertainty_def reasons_of_Nil sample_population_def included_attempts_def)

lemma tail_decision:
  assumes "make_tail_policy p = Inr p" "valid_summary s"
  shows "gr_decision (tail_decide p s) =
    (if \<not> tails_met p s then GReject else if sample_population p s then GAccept else GInconclusive)"
  by (simp add: tail_decide_def tail_failures_Nil [OF assms] tail_uncertainty_Nil)

text \<open>Every tail the gate reads is the value of some attempt.\<close>

lemma tails_exist:
  assumes "valid_summary s"
  shows "latency_ms 95 s \<in> oo_latency_ms ` set (included s) \<and> cost_usd 95 s \<in> oo_cost_usd ` set (included s) \<and>
    tool_call_tail 99 s \<in> oo_tool_calls ` set (included s) \<and> retry_tail 99 s \<in> oo_retries ` set (included s)"
proof -
  note v = valid_included [OF assms]
  have "latency_ms 95 s \<in> set (map oo_latency_ms (included s))" "cost_usd 95 s \<in> set (map oo_cost_usd (included s))"
    "tool_call_tail 99 s \<in> set (map oo_tool_calls (included s))" "retry_tail 99 s \<in> set (map oo_retries (included s))"
    using v float_quantile_rank [OF v(3) rank_index [OF quantile_floats(2)]]
      float_quantile_rank [OF v(4) rank_index [OF quantile_floats(2)]]
      int_quantile_rank [OF rank_index [OF quantile_floats(3)]]
    by (simp_all only: latency_ms_def cost_usd_def tool_call_tail_def retry_tail_def map_is_Nil_conv length_map
        not_False_eq_True simp_thms)
  then show ?thesis by simp
qed

subsection \<open>A sample\<close>

definition sample_summary :: operational_summary where
  "sample_summary = \<lparr>os_observations =
     [\<lparr>oo_verdict = PASS, oo_latency_ms = fl_0, oo_cost_usd = fl_0, oo_tool_calls = 2, oo_retries = 1\<rparr>],
     os_inclusion = ALL_ATTEMPTS\<rparr>"

definition sample_tail_policy :: tail_policy where
  "sample_tail_policy = \<lparr>tp_minimum_samples = 1, tp_max_latency_p95_ms = Some fl_0, tp_max_cost_p95_usd = None,
     tp_max_tool_calls_p99 = Some 3, tp_max_retries_p99 = None, tp_allow_excluded_unresolved = False\<rparr>"

lemma sample_summary_valid: "valid_summary sample_summary"
  by (simp add: valid_summary_def sample_summary_def make_summary_def make_observation_def included_def
      max_statistical_trials_def fl_0_def align_def)

lemma sample_tail_policy_made: "make_tail_policy sample_tail_policy = Inr sample_tail_policy"
  by (simp add: make_tail_policy_def sample_tail_policy_def float_bound_bad_def int_bound_bad_def
      max_statistical_trials_def fl_0_def align_def)

lemma sample_tails: "tails_met sample_tail_policy sample_summary" "sample_population sample_tail_policy sample_summary"
  using quantile_rank_le [OF quantile_floats(2), of 1] quantile_rank_le [OF quantile_floats(3), of 1]
  by (simp_all add: tails_met_def sample_population_def sample_tail_policy_def sample_summary_def included_def
      tail_within_def fl_0_def fl_le_def align_def)

end
