(* ===== verification/SessionReceipts.thy ===== *)
theory SessionReceipts
  imports SealedReceipts FloatOps
begin

section \<open>Reset and randomness receipts (\<open>runtime/reset_isolation.py\<close>, \<open>runtime/sampling.py\<close>)\<close>

text \<open>
  Between two attempts of a campaign the evaluator may call a reset control, and before an
  attempt a randomness control. Each call leaves a receipt the evaluator makes itself: it names
  the attempt, the identities of the campaign and what the control observed, under a digest.
  A sequence of receipts is verified by making every receipt again.
\<close>

definition rierr :: "string \<Rightarrow> error" where
  "rierr msg = Err ResetIsolationError msg"

definition sperr :: "string \<Rightarrow> error" where
  "sperr msg = Err SamplingProvenanceError msg"

text \<open>\<open>^[A-Za-z0-9][A-Za-z0-9._-]{0,127}$\<close>\<close>

definition ascii_alnum :: "char \<Rightarrow> bool" where
  "ascii_alnum c \<longleftrightarrow> (let n = (of_char c :: nat) in
     (65 \<le> n \<and> n \<le> 90) \<or> (97 \<le> n \<and> n \<le> 122) \<or> (48 \<le> n \<and> n \<le> 57))"

definition campaign_name :: "string \<Rightarrow> bool" where
  "campaign_name s \<longleftrightarrow> (case s of [] \<Rightarrow> False
     | c # cs \<Rightarrow> ascii_alnum c \<and> length cs \<le> 127 \<and> list_all (\<lambda>d. ascii_alnum d \<or> d \<in> set ''._-'') cs)"

text \<open>\<open>campaign:{id}:attempt:{index:04d}\<close>\<close>

definition campaign_trial_id :: "string \<Rightarrow> int \<Rightarrow> string" where
  "campaign_trial_id cid i = ''campaign:'' @ cid @ '':attempt:'' @
     (if i < 0 then ''-'' @ zero_padded 3 (nat_str (nat (- i))) else zero_padded 4 (nat_str (nat i)))"

definition trimmed_field :: "string \<Rightarrow> string \<Rightarrow> (bool \<times> error) list" where
  "trimmed_field msg v = [(v \<noteq> py_strip v, verr msg)]"

subsection \<open>Reset receipts\<close>

record reset_context =
  rx_campaign_id :: string
  rx_attempt_index :: int
  rx_previous_trial_id :: string
  rx_next_trial_id :: string
  rx_subject_identity :: string
  rx_scenario_identity :: string
  rx_runtime_adapter_name :: string
  rx_subject_adapter :: string
  rx_subject_adapter_version :: string
  rx_previous_evidence_root :: string

record reset_receipt =
  rr_context :: reset_context
  rr_strategy_name :: string
  rr_strategy_version :: string
  rr_control_evidence_identity :: string
  rr_receipt_root :: string

definition reset_schema :: string where
  "reset_schema = ''agent-evals/reset-isolation-receipt/v1''"

definition reset_domain :: string where
  "reset_domain = ''agent-evals/reset-isolation-receipt/v1'' @ [CHR 0x00]"

definition reset_dict :: "reset_receipt \<Rightarrow> dict" where
  "reset_dict r = (let x = rr_context r in
     [(''schema_version'', JStr reset_schema), (''campaign_id'', JStr (rx_campaign_id x)),
      (''attempt_index'', JInt (rx_attempt_index x)), (''previous_trial_id'', JStr (rx_previous_trial_id x)),
      (''next_trial_id'', JStr (rx_next_trial_id x)), (''subject_identity'', JStr (rx_subject_identity x)),
      (''scenario_identity'', JStr (rx_scenario_identity x)),
      (''runtime_adapter_name'', JStr (rx_runtime_adapter_name x)),
      (''subject_adapter'', JStr (rx_subject_adapter x)),
      (''subject_adapter_version'', JStr (rx_subject_adapter_version x)),
      (''reset_strategy_name'', JStr (rr_strategy_name r)), (''reset_strategy_version'', JStr (rr_strategy_version r)),
      (''previous_evidence_root'', JStr (rx_previous_evidence_root x)),
      (''control_evidence_identity'', JStr (rr_control_evidence_identity r))])"

definition reset_material :: "reset_receipt \<Rightarrow> json" where
  "reset_material r = JObj (reset_dict r)"

definition reset_root :: "reset_receipt \<Rightarrow> string" where
  "reset_root r = sha256_hex (reset_domain @ json_dumps (reset_material r))"

definition untrimmed_control :: "string \<Rightarrow> string" where
  "untrimmed_control kind = kind @ '' receipt control identities must not contain surrounding whitespace''"

definition reset_fields :: "reset_receipt \<Rightarrow> (bool \<times> error) list" where
  "reset_fields r = (let x = rr_context r in
       text_field ''campaign_id'' 128 (rx_campaign_id x)
     @ [(\<not> campaign_name (rx_campaign_id x), verr ''reset receipt campaign_id is not canonical'')]
     @ int_field ''attempt_index'' 1 (Some 1000000) (rx_attempt_index x)
     @ text_field ''previous_trial_id'' 256 (rx_previous_trial_id x)
     @ text_field ''next_trial_id'' 256 (rx_next_trial_id x)
     @ sha_field ''subject_identity'' (rx_subject_identity x)
     @ sha_field ''scenario_identity'' (rx_scenario_identity x)
     @ text_field ''runtime_adapter_name'' 256 (rx_runtime_adapter_name x)
     @ trimmed_field (untrimmed_control ''reset'') (rx_runtime_adapter_name x)
     @ text_field ''subject_adapter'' 512 (rx_subject_adapter x)
     @ text_field ''subject_adapter_version'' 512 (rx_subject_adapter_version x)
     @ text_field ''reset_strategy_name'' 256 (rr_strategy_name r)
     @ trimmed_field (untrimmed_control ''reset'') (rr_strategy_name r)
     @ text_field ''reset_strategy_version'' 256 (rr_strategy_version r)
     @ trimmed_field (untrimmed_control ''reset'') (rr_strategy_version r)
     @ sha_field ''previous_evidence_root'' (rx_previous_evidence_root x)
     @ sha_field ''control_evidence_identity'' (rr_control_evidence_identity r)
     @ sha_field ''receipt_root'' (rr_receipt_root r))"

definition reset_relations :: "reset_receipt \<Rightarrow> (bool \<times> error) list" where
  "reset_relations r = (let x = rr_context r in
     [(rx_previous_trial_id x \<noteq> campaign_trial_id (rx_campaign_id x) (rx_attempt_index x - 1),
       verr ''reset receipt previous trial ID does not match campaign transition''),
      (rx_next_trial_id x \<noteq> campaign_trial_id (rx_campaign_id x) (rx_attempt_index x),
       verr ''reset receipt next trial ID does not match campaign transition''),
      (rr_receipt_root r \<noteq> reset_root r, verr ''reset/isolation receipt root mismatch'')])"

definition validate_reset_receipt :: "reset_receipt \<Rightarrow> error + reset_receipt" where
  "validate_reset_receipt r = rbind (raise_if (reset_fields r @ reset_relations r)) (\<lambda>_. Inr r)"

definition create_reset_receipt :: "reset_context \<Rightarrow> string \<Rightarrow> string \<Rightarrow> string \<Rightarrow> error + reset_receipt" where
  "create_reset_receipt x name version control =
     (let r = \<lparr>rr_context = x, rr_strategy_name = name, rr_strategy_version = version,
               rr_control_evidence_identity = control, rr_receipt_root = []\<rparr>
      in validate_reset_receipt (r\<lparr>rr_receipt_root := reset_root r\<rparr>))"

text \<open>The identities of a campaign, which every receipt of it repeats.\<close>

record campaign =
  cp_campaign_id :: string
  cp_subject_identity :: string
  cp_scenario_identity :: string
  cp_runtime_adapter_name :: string
  cp_subject_adapter :: string
  cp_subject_adapter_version :: string

definition reset_context_of :: "campaign \<Rightarrow> int \<Rightarrow> string \<Rightarrow> string \<Rightarrow> string \<Rightarrow> reset_context" where
  "reset_context_of c i previous next_id root =
     \<lparr>rx_campaign_id = cp_campaign_id c, rx_attempt_index = i, rx_previous_trial_id = previous,
      rx_next_trial_id = next_id, rx_subject_identity = cp_subject_identity c,
      rx_scenario_identity = cp_scenario_identity c, rx_runtime_adapter_name = cp_runtime_adapter_name c,
      rx_subject_adapter = cp_subject_adapter c, rx_subject_adapter_version = cp_subject_adapter_version c,
      rx_previous_evidence_root = root\<rparr>"

text \<open>\<open>except ValueError\<close> around \<open>create\<close>.\<close>

definition reset_step ::
  "campaign \<Rightarrow> string \<Rightarrow> string \<Rightarrow> string list \<Rightarrow> string list \<Rightarrow> nat \<times> reset_receipt \<Rightarrow> error + unit" where
  "reset_step c name version ids roots = (\<lambda>(i, r).
     rbind (rcatch is_value_error (rierr (''reset receipt '' @ nat_str i @ '' could not be reconstructed''))
       (create_reset_receipt (reset_context_of c (int i) (ids ! (i - 1)) (ids ! i) (roots ! (i - 1))) name version
         (rr_control_evidence_identity r))) (\<lambda>expected.
     if r \<noteq> expected
     then Inl (rierr (''reset receipt '' @ nat_str i @ '' does not match the finalized campaign transition''))
     else Inr ()))"

definition verify_reset_sequence ::
  "campaign \<Rightarrow> string \<Rightarrow> string \<Rightarrow> reset_receipt list \<Rightarrow> string list \<Rightarrow> string list \<Rightarrow> error + unit" where
  "verify_reset_sequence c name version rs ids roots =
     rbind (raise_if
       [(length ids \<noteq> length roots, rierr ''trial IDs and evidence roots must have equal length''),
        (length ids < 2, rierr ''verified independence requires at least two trials''),
        (length rs \<noteq> length ids - 1, rierr ''verified campaign requires exactly trials - 1 reset receipts''),
        (\<not> distinct (map rr_receipt_root rs), rierr ''reset receipt roots must be unique across attempt transitions'')]) (\<lambda>_.
     rfor (reset_step c name version ids roots) (zip [1..<Suc (length rs)] rs))"

definition strategy_guards :: "(string \<Rightarrow> error) \<Rightarrow> string \<Rightarrow> string \<Rightarrow> string \<Rightarrow> (bool \<times> error) list" where
  "strategy_guards mk kind name version =
     [(name = [] \<or> name \<noteq> py_strip name, mk (kind @ '' strategy name must be a non-empty, whitespace-trimmed string'')),
      (length name > 256, mk (kind @ '' strategy name must be at most 256 characters'')),
      (version = [] \<or> version \<noteq> py_strip version,
       mk (kind @ '' strategy version must be a non-empty, whitespace-trimmed string'')),
      (length version > 256, mk (kind @ '' strategy version must be at most 256 characters''))]"

definition validate_reset_strategy :: "string \<Rightarrow> string \<Rightarrow> error + string \<times> string" where
  "validate_reset_strategy name version =
     rbind (raise_if (strategy_guards rierr ''reset'' name version)) (\<lambda>_. Inr (name, version))"

subsection \<open>Randomness receipts\<close>

record randomness_context =
  nx_campaign_id :: string
  nx_attempt_index :: int
  nx_trial_id :: string
  nx_subject_identity :: string
  nx_scenario_identity :: string
  nx_runtime_adapter_name :: string
  nx_subject_adapter :: string
  nx_subject_adapter_version :: string

record randomness_receipt =
  nr_context :: randomness_context
  nr_strategy_name :: string
  nr_strategy_version :: string
  nr_seed_identity :: string
  nr_control_evidence_identity :: string
  nr_receipt_root :: string

definition randomness_schema :: string where
  "randomness_schema = ''agent-evals/randomness-control-receipt/v1''"

definition randomness_domain :: string where
  "randomness_domain = ''agent-evals/randomness-control-receipt/v1'' @ [CHR 0x00]"

definition randomness_dict :: "randomness_receipt \<Rightarrow> dict" where
  "randomness_dict r = (let x = nr_context r in
     [(''schema_version'', JStr randomness_schema), (''campaign_id'', JStr (nx_campaign_id x)),
      (''attempt_index'', JInt (nx_attempt_index x)), (''trial_id'', JStr (nx_trial_id x)),
      (''subject_identity'', JStr (nx_subject_identity x)), (''scenario_identity'', JStr (nx_scenario_identity x)),
      (''runtime_adapter_name'', JStr (nx_runtime_adapter_name x)),
      (''subject_adapter'', JStr (nx_subject_adapter x)),
      (''subject_adapter_version'', JStr (nx_subject_adapter_version x)),
      (''randomness_strategy_name'', JStr (nr_strategy_name r)),
      (''randomness_strategy_version'', JStr (nr_strategy_version r)),
      (''seed_identity'', JStr (nr_seed_identity r)),
      (''control_evidence_identity'', JStr (nr_control_evidence_identity r))])"

definition randomness_material :: "randomness_receipt \<Rightarrow> json" where
  "randomness_material r = JObj (randomness_dict r)"

definition randomness_root :: "randomness_receipt \<Rightarrow> string" where
  "randomness_root r = sha256_hex (randomness_domain @ json_dumps (randomness_material r))"

definition randomness_fields :: "randomness_receipt \<Rightarrow> (bool \<times> error) list" where
  "randomness_fields r = (let x = nr_context r in
       text_field ''campaign_id'' 128 (nx_campaign_id x)
     @ [(\<not> campaign_name (nx_campaign_id x), verr ''randomness receipt campaign_id is not canonical'')]
     @ int_field ''attempt_index'' 0 (Some 1000000) (nx_attempt_index x)
     @ text_field ''trial_id'' 256 (nx_trial_id x)
     @ sha_field ''subject_identity'' (nx_subject_identity x)
     @ sha_field ''scenario_identity'' (nx_scenario_identity x)
     @ text_field ''runtime_adapter_name'' 256 (nx_runtime_adapter_name x)
     @ trimmed_field (untrimmed_control ''randomness'') (nx_runtime_adapter_name x)
     @ text_field ''subject_adapter'' 512 (nx_subject_adapter x)
     @ text_field ''subject_adapter_version'' 512 (nx_subject_adapter_version x)
     @ text_field ''randomness_strategy_name'' 256 (nr_strategy_name r)
     @ trimmed_field (untrimmed_control ''randomness'') (nr_strategy_name r)
     @ text_field ''randomness_strategy_version'' 256 (nr_strategy_version r)
     @ trimmed_field (untrimmed_control ''randomness'') (nr_strategy_version r)
     @ sha_field ''seed_identity'' (nr_seed_identity r)
     @ sha_field ''control_evidence_identity'' (nr_control_evidence_identity r)
     @ sha_field ''receipt_root'' (nr_receipt_root r))"

definition randomness_relations :: "randomness_receipt \<Rightarrow> (bool \<times> error) list" where
  "randomness_relations r =
     [(nx_trial_id (nr_context r) \<noteq> campaign_trial_id (nx_campaign_id (nr_context r)) (nx_attempt_index (nr_context r)),
       verr ''randomness receipt trial ID does not match campaign attempt''),
      (nr_receipt_root r \<noteq> randomness_root r, verr ''randomness control receipt root mismatch'')]"

definition validate_randomness_receipt :: "randomness_receipt \<Rightarrow> error + randomness_receipt" where
  "validate_randomness_receipt r = rbind (raise_if (randomness_fields r @ randomness_relations r)) (\<lambda>_. Inr r)"

definition create_randomness_receipt ::
  "randomness_context \<Rightarrow> string \<Rightarrow> string \<Rightarrow> string \<Rightarrow> string \<Rightarrow> error + randomness_receipt" where
  "create_randomness_receipt x name version seed control =
     (let r = \<lparr>nr_context = x, nr_strategy_name = name, nr_strategy_version = version, nr_seed_identity = seed,
               nr_control_evidence_identity = control, nr_receipt_root = []\<rparr>
      in validate_randomness_receipt (r\<lparr>nr_receipt_root := randomness_root r\<rparr>))"

definition randomness_context_of :: "campaign \<Rightarrow> int \<Rightarrow> string \<Rightarrow> randomness_context" where
  "randomness_context_of c i trial_id =
     \<lparr>nx_campaign_id = cp_campaign_id c, nx_attempt_index = i, nx_trial_id = trial_id,
      nx_subject_identity = cp_subject_identity c, nx_scenario_identity = cp_scenario_identity c,
      nx_runtime_adapter_name = cp_runtime_adapter_name c, nx_subject_adapter = cp_subject_adapter c,
      nx_subject_adapter_version = cp_subject_adapter_version c\<rparr>"

definition randomness_step ::
  "campaign \<Rightarrow> string \<Rightarrow> string \<Rightarrow> string list \<Rightarrow> nat \<times> randomness_receipt \<Rightarrow> error + unit" where
  "randomness_step c name version ids = (\<lambda>(i, r).
     rbind (rcatch is_value_error (sperr (''randomness receipt '' @ nat_str i @ '' could not be reconstructed''))
       (create_randomness_receipt (randomness_context_of c (int i) (ids ! i)) name version (nr_seed_identity r)
         (nr_control_evidence_identity r))) (\<lambda>expected.
     if r \<noteq> expected
     then Inl (sperr (''randomness receipt '' @ nat_str i @ '' does not match the finalized campaign attempt''))
     else Inr ()))"

definition verify_randomness_sequence ::
  "campaign \<Rightarrow> string \<Rightarrow> string \<Rightarrow> randomness_receipt list \<Rightarrow> string list \<Rightarrow> error + unit" where
  "verify_randomness_sequence c name version rs ids =
     rbind (raise_if
       [(ids = [], sperr ''randomness control sequence requires at least one trial''),
        (length rs \<noteq> length ids, sperr ''evaluator-controlled randomness requires exactly one receipt per trial''),
        (\<not> distinct (map nr_receipt_root rs), sperr ''randomness receipt roots must be unique across attempts''),
        (\<not> distinct (map nr_seed_identity rs),
         sperr ''evaluator-controlled attempt seed identities must be unique across attempts'')]) (\<lambda>_.
     rfor (randomness_step c name version ids) (zip [0..<length rs] rs))"

definition validate_randomness_strategy :: "string \<Rightarrow> string \<Rightarrow> error + string \<times> string" where
  "validate_randomness_strategy name version =
     rbind (raise_if (strategy_guards sperr ''randomness'' name version)) (\<lambda>_. Inr (name, version))"

subsection \<open>Sampling metadata\<close>

datatype sampling_policy = PREDECLARED_ALL_ATTEMPTS | EXTERNAL_SELECTION | UNKNOWN_SAMPLING

datatype randomness_status = EVALUATOR_CONTROLLED | EXTERNALLY_CONTROLLED | UNAVAILABLE | UNKNOWN_RANDOMNESS

datatype stopping_rule = FIXED_HORIZON | ADAPTIVE_SEQUENTIAL | UNKNOWN_STOPPING

fun randomness_value :: "randomness_status \<Rightarrow> string" where
  "randomness_value EVALUATOR_CONTROLLED = ''evaluator_controlled''"
| "randomness_value EXTERNALLY_CONTROLLED = ''externally_controlled''"
| "randomness_value UNAVAILABLE = ''unavailable''"
| "randomness_value UNKNOWN_RANDOMNESS = ''unknown''"

record session_sampling =
  sm_sampling_policy :: sampling_policy
  sm_randomness_status :: randomness_status
  sm_stopping_rule :: stopping_rule
  sm_planned_trials :: "int option"
  sm_sampling_basis :: "string option"
  sm_randomness_basis :: "string option"
  sm_stopping_basis :: "string option"
  sm_strategy_name :: "string option"
  sm_strategy_version :: "string option"
  sm_receipts :: "randomness_receipt list"

definition sampling_schema :: string where
  "sampling_schema = ''agent-evals/session-sampling/v1''"

definition max_basis_length :: nat where
  "max_basis_length = 2000"

definition optional_text :: "string \<Rightarrow> nat \<Rightarrow> string \<Rightarrow> string option \<Rightarrow> (bool \<times> error) list" where
  "optional_text name hi msg v = (case v of None \<Rightarrow> [] | Some s \<Rightarrow>
     [(length s > hi, verr (name @ '': length'')), (s = [] \<or> s \<noteq> py_strip s, verr msg)])"

definition untrimmed_basis :: string where
  "untrimmed_basis = ''sampling provenance basis strings must be non-empty and trimmed''"

definition untrimmed_strategy :: string where
  "untrimmed_strategy = ''randomness strategy identity must be non-empty and trimmed''"

definition sampling_fields :: "session_sampling \<Rightarrow> (bool \<times> error) list" where
  "sampling_fields m =
       (case sm_planned_trials m of None \<Rightarrow> [] | Some n \<Rightarrow> int_field ''planned_trials'' 1 (Some 1000000) n)
     @ optional_text ''sampling_basis'' max_basis_length untrimmed_basis (sm_sampling_basis m)
     @ optional_text ''randomness_basis'' max_basis_length untrimmed_basis (sm_randomness_basis m)
     @ optional_text ''stopping_basis'' max_basis_length untrimmed_basis (sm_stopping_basis m)
     @ optional_text ''randomness_strategy_name'' 256 untrimmed_strategy (sm_strategy_name m)
     @ optional_text ''randomness_strategy_version'' 256 untrimmed_strategy (sm_strategy_version m)"

definition policy_guards :: "session_sampling \<Rightarrow> (bool \<times> error) list" where
  "policy_guards m = (case sm_sampling_policy m of
       PREDECLARED_ALL_ATTEMPTS \<Rightarrow>
         [(sm_sampling_basis m \<noteq> None, verr ''predeclared sampling must not carry an external sampling basis'')]
     | EXTERNAL_SELECTION \<Rightarrow>
         [(sm_sampling_basis m = None, verr ''external sampling selection requires an explicit basis'')]
     | UNKNOWN_SAMPLING \<Rightarrow>
         [(sm_sampling_basis m \<noteq> None, verr ''unknown sampling policy must not carry an asserted basis'')])"

definition stopping_guards :: "session_sampling \<Rightarrow> (bool \<times> error) list" where
  "stopping_guards m = (case sm_stopping_rule m of
       FIXED_HORIZON \<Rightarrow>
         [(sm_planned_trials m = None, verr ''fixed-horizon stopping requires planned_trials''),
          (sm_stopping_basis m \<noteq> None, verr ''fixed-horizon stopping must not carry an adaptive stopping basis'')]
     | ADAPTIVE_SEQUENTIAL \<Rightarrow>
         [(sm_planned_trials m \<noteq> None, verr ''adaptive/sequential stopping must not claim a fixed horizon''),
          (sm_stopping_basis m = None, verr ''adaptive/sequential stopping requires an explicit rule basis'')]
     | UNKNOWN_STOPPING \<Rightarrow>
         [(sm_planned_trials m \<noteq> None \<or> sm_stopping_basis m \<noteq> None,
           verr ''unknown stopping provenance must not claim a horizon or rule basis'')])"

definition strategy_present :: "session_sampling \<Rightarrow> bool" where
  "strategy_present m \<longleftrightarrow> sm_strategy_name m \<noteq> None \<or> sm_strategy_version m \<noteq> None"

definition strategy_missing :: "session_sampling \<Rightarrow> bool" where
  "strategy_missing m \<longleftrightarrow> sm_strategy_name m = None \<or> sm_strategy_version m = None"

definition randomness_guards :: "session_sampling \<Rightarrow> (bool \<times> error) list" where
  "randomness_guards m =
     (strategy_present m \<and> strategy_missing m,
      verr ''randomness strategy name/version must be both present or both absent'') #
     (case sm_randomness_status m of
       EVALUATOR_CONTROLLED \<Rightarrow>
         [(sm_randomness_basis m \<noteq> None, verr ''evaluator-controlled randomness must not carry an external basis''),
          (strategy_missing m, verr ''evaluator-controlled randomness requires strategy provenance''),
          (sm_receipts m = [], verr ''evaluator-controlled randomness requires per-attempt receipts'')]
     | UNKNOWN_RANDOMNESS \<Rightarrow>
         [(sm_randomness_basis m \<noteq> None \<or> strategy_present m \<or> sm_receipts m \<noteq> [],
           verr ''unknown randomness must not carry a seed/control claim'')]
     | status \<Rightarrow>
         [(sm_randomness_basis m = None, verr (randomness_value status @ '' randomness requires an explicit basis'')),
          (strategy_present m \<or> sm_receipts m \<noteq> [],
           verr ''non-evaluator-controlled randomness must not carry evaluator control provenance'')])"

text \<open>The receipts of a model are validated values; a dump that is validated again validates them again.\<close>

definition validate_sampling :: "session_sampling \<Rightarrow> error + session_sampling" where
  "validate_sampling m =
     rbind (raise_if (sampling_fields m)) (\<lambda>_.
     rbind (rmap validate_randomness_receipt (sm_receipts m)) (\<lambda>_.
     rbind (raise_if (policy_guards m @ stopping_guards m @ randomness_guards m)) (\<lambda>_. Inr m)))"

definition basis_guards :: "(string \<Rightarrow> error) \<Rightarrow> string \<Rightarrow> string option \<Rightarrow> (bool \<times> error) list" where
  "basis_guards mk label basis =
     [(case basis of None \<Rightarrow> True | Some s \<Rightarrow> s = [] \<or> s \<noteq> py_strip s,
       mk (label @ '' requires a non-empty, whitespace-trimmed basis'')),
      (case basis of None \<Rightarrow> False | Some s \<Rightarrow> length s > max_basis_length,
       mk (label @ '' basis must be at most 2000 characters''))]"

definition validate_randomness_request :: "randomness_status \<Rightarrow> string option \<Rightarrow> bool \<Rightarrow> error + unit" where
  "validate_randomness_request status basis control = (case status of
       EVALUATOR_CONTROLLED \<Rightarrow> raise_if
         [(basis \<noteq> None, sperr ''evaluator-controlled randomness must not carry an external basis''),
          (\<not> control, sperr ''evaluator-controlled randomness requires a separate randomness control'')]
     | _ \<Rightarrow> raise_if
         ((control, sperr ''randomness control may be supplied only for evaluator-controlled randomness'') #
          (if status = UNKNOWN_RANDOMNESS
           then [(basis \<noteq> None, sperr ''unknown randomness must not carry an asserted basis'')]
           else basis_guards sperr (randomness_value status @ '' randomness'') basis)))"

definition verify_session_sampling ::
  "session_sampling \<Rightarrow> string option \<Rightarrow> string \<Rightarrow> string \<Rightarrow> string option \<Rightarrow> string option \<Rightarrow> string option
     \<Rightarrow> string list \<Rightarrow> error + unit" where
  "verify_session_sampling m cid subject scenario runtime adapter adapter_version ids =
     rbind (rcatch (\<lambda>e. err_class e = ValidationError) (sperr ''session sampling metadata is malformed'')
       (validate_sampling m)) (\<lambda>m.
     if sm_stopping_rule m = FIXED_HORIZON \<and> sm_planned_trials m \<noteq> Some (int (length ids))
     then Inl (sperr ''fixed-horizon session trial count does not match the predeclared horizon'')
     else if sm_randomness_status m = EVALUATOR_CONTROLLED then
       (case (cid, runtime, adapter, adapter_version, sm_strategy_name m, sm_strategy_version m) of
         (Some c, Some rt, Some a, Some av, Some name, Some version) \<Rightarrow>
           verify_randomness_sequence
             \<lparr>cp_campaign_id = c, cp_subject_identity = subject, cp_scenario_identity = scenario,
              cp_runtime_adapter_name = rt, cp_subject_adapter = a, cp_subject_adapter_version = av\<rparr>
             name version (sm_receipts m) ids
       | _ \<Rightarrow> Inl (sperr ''evaluator-controlled randomness requires complete campaign/adapter provenance''))
     else Inr ())"

definition require_qualifiable_sampling :: "session_sampling option \<Rightarrow> error + session_sampling" where
  "require_qualifiable_sampling v = (case v of
       None \<Rightarrow> Inl (sperr ''independent-attempt metrics require versioned sampling/stopping provenance'')
     | Some m \<Rightarrow>
        if sm_sampling_policy m \<noteq> PREDECLARED_ALL_ATTEMPTS
        then Inl (sperr ''independent-attempt metrics require predeclared inclusion of all campaign attempts'')
        else if sm_stopping_rule m \<noteq> FIXED_HORIZON
        then Inl (sperr ''independent-attempt metrics require a predeclared fixed-horizon stopping rule'')
        else Inr m)"

end
