(* ===== verification/Session.thy ===== *)
theory Session
  imports SessionReceipts RunOutcome ReleaseGate
begin

section \<open>Evaluation sessions (\<open>runtime/session.py\<close>, \<open>runtime/release_verification.py\<close>)\<close>

text \<open>
  A session repeats a trial a number of times fixed in advance and reports on all attempts. The
  runner is an argument, as it is of the class; the controls, which are objects of the operator,
  are what they answer for a context, and every context occurs at most once. The world decides
  whether the controls are the adapter itself and which fresh campaign name would be drawn.
\<close>

datatype independence_status = UNVERIFIED | OPERATOR_ASSERTED | VERIFIED

text \<open>A control raised, returned its observation, or returned something else.\<close>

datatype 'o control_outcome = OBSERVED 'o | OTHER_OBJECT | CONTROL_RAISED

record reset_control =
  rc_is_adapter :: bool
  rc_strategy :: "(string \<times> string) option"
  rc_reset :: "reset_context \<Rightarrow> string control_outcome"

record randomness_control =
  nc_is_adapter :: bool
  nc_strategy :: "(string \<times> string) option"
  nc_prepare :: "randomness_context \<Rightarrow> (string \<times> string) control_outcome"

record session_request =
  sq_trials :: int
  sq_k :: int
  sq_campaign_id :: "string option"
  sq_fresh_id :: string
  sq_independence_status :: independence_status
  sq_independence_basis :: "string option"
  sq_reset_control :: "reset_control option"
  sq_randomness_status :: randomness_status
  sq_randomness_basis :: "string option"
  sq_randomness_control :: "randomness_control option"
  sq_adapter_name :: string

record 'c session_result =
  sn_subject_identity :: string
  sn_scenario_identity :: string
  sn_trials :: "'c evaluated_trial list"
  sn_reliability :: reliability_report
  sn_campaign_id :: "string option"
  sn_independence_status :: independence_status
  sn_independence_basis :: "string option"
  sn_runtime_adapter_name :: "string option"
  sn_subject_adapter :: "string option"
  sn_subject_adapter_version :: "string option"
  sn_reset_strategy_name :: "string option"
  sn_reset_strategy_version :: "string option"
  sn_reset_receipts :: "reset_receipt list"
  sn_sampling :: "session_sampling option"

subsection \<open>Validation of the parts\<close>

definition validate_campaign_id :: "string \<Rightarrow> error + unit" where
  "validate_campaign_id cid = raise_if
     [(\<not> campaign_name cid, vale (''campaign_id must be 1-128 ASCII letters, digits, '.', '_' or '-', ''
        @ ''starting with a letter or digit''))]"

definition resolve_campaign_id :: "string option \<Rightarrow> string \<Rightarrow> error + string" where
  "resolve_campaign_id cid fresh = (case cid of
       None \<Rightarrow> Inr fresh
     | Some c \<Rightarrow> rbind (validate_campaign_id c) (\<lambda>_. Inr c))"

definition validate_independence :: "independence_status \<Rightarrow> string option \<Rightarrow> error + unit" where
  "validate_independence status basis = (case status of
       UNVERIFIED \<Rightarrow> raise_if
         [(basis \<noteq> None, vale ''unverified independence must not carry an operator assertion basis'')]
     | OPERATOR_ASSERTED \<Rightarrow> raise_if
         [(case basis of None \<Rightarrow> True | Some s \<Rightarrow> s = [] \<or> s \<noteq> py_strip s,
           vale ''operator_asserted independence requires a non-empty, whitespace-trimmed basis''),
          (case basis of None \<Rightarrow> False | Some s \<Rightarrow> length s > max_basis_length,
           vale ''independence_basis must be at most 2000 characters'')]
     | VERIFIED \<Rightarrow> raise_if
         [(basis \<noteq> None, vale ''verified independence must not carry an operator assertion basis'')])"

definition validate_reset_request :: "independence_status \<Rightarrow> int \<Rightarrow> reset_control option \<Rightarrow> error + unit" where
  "validate_reset_request status n control = (case status of
       VERIFIED \<Rightarrow> raise_if
         [(n < 2, vale ''verified independence requires at least two trials''),
          (control = None, vale ''verified independence requires a reset/isolation control''),
          (case control of None \<Rightarrow> False | Some c \<Rightarrow> rc_is_adapter c,
           vale ''reset/isolation control must be separate from the subject adapter'')]
     | _ \<Rightarrow> raise_if
         [(control \<noteq> None, vale ''reset/isolation control may be supplied only for verified independence'')])"

definition adapter_name_guards :: "string \<Rightarrow> (bool \<times> error) list" where
  "adapter_name_guards name =
     [(name = [] \<or> name \<noteq> py_strip name, vale ''runtime adapter name must be a non-empty, whitespace-trimmed string''),
      (length name > 256, vale ''runtime adapter name must be at most 256 characters'')]"

definition adapter_text_guards :: "string \<Rightarrow> string \<Rightarrow> (bool \<times> error) list" where
  "adapter_text_guards label v =
     [(v = [], vale (label @ '' must be a non-empty string'')),
      (length v > 512, vale (label @ '' must be at most 512 characters''))]"

definition validate_adapter_provenance :: "string option \<Rightarrow> string option \<Rightarrow> string option \<Rightarrow> error + unit" where
  "validate_adapter_provenance runtime adapter version = (case (runtime, adapter, version) of
       (None, None, None) \<Rightarrow> Inr ()
     | (Some rt, Some a, Some v) \<Rightarrow>
         raise_if (adapter_name_guards rt @ adapter_text_guards ''subject adapter'' a
                   @ adapter_text_guards ''subject adapter version'' v)
     | _ \<Rightarrow> Inl (vale ''session adapter provenance must be all present or all absent''))"

subsection \<open>\<open>EvaluationSessionResult.validate\<close>\<close>

text \<open>The loop over the trials, with the identifiers seen so far.\<close>

fun check_trials ::
  "string \<Rightarrow> string \<Rightarrow> string option \<Rightarrow> nat \<Rightarrow> string list \<Rightarrow> 'c evaluated_trial list \<Rightarrow> error + unit" where
  "check_trials subject scenario cid i seen [] = Inr ()"
| "check_trials subject scenario cid i seen (t # ts) = (let e = rt_evidence t in
     rbind (raise_if
       [(te_subject_identity e \<noteq> subject, vale ''trial evidence subject identity does not match session''),
        (te_scenario_identity e \<noteq> scenario, vale ''trial evidence scenario identity does not match session''),
        (te_trial_id e \<in> set seen, vale ''session contains duplicate trial IDs''),
        (case cid of None \<Rightarrow> False | Some c \<Rightarrow> te_trial_id e \<noteq> campaign_trial_id c (int i),
         vale ''trial ID does not match session campaign and attempt index''),
        (evidence_root e \<noteq> completion_evidence_root t, vale ''evidence root changed after evaluation finalization'')]) (\<lambda>_.
     check_trials subject scenario cid (Suc i) (te_trial_id e # seen) ts))"

definition session_ids :: "'c session_result \<Rightarrow> string list" where
  "session_ids s = map (\<lambda>t. te_trial_id (rt_evidence t)) (sn_trials s)"

definition session_roots :: "'c session_result \<Rightarrow> string list" where
  "session_roots s = map completion_evidence_root (sn_trials s)"

definition validate_session_reset :: "'c session_result \<Rightarrow> error + unit" where
  "validate_session_reset s =
     (if sn_independence_status s = VERIFIED then
       (if sn_campaign_id s = None then Inl (vale ''verified independence requires a campaign identity'')
        else if length (sn_trials s) < 2 then Inl (vale ''verified independence requires at least two trials'')
        else (case (sn_campaign_id s, sn_runtime_adapter_name s, sn_subject_adapter s, sn_subject_adapter_version s,
                    sn_reset_strategy_name s, sn_reset_strategy_version s) of
           (Some c, Some rt, Some a, Some av, Some name, Some version) \<Rightarrow>
             rcatch (\<lambda>e. err_class e = ResetIsolationError)
               (vale ''verified reset/isolation receipt sequence is invalid'')
               (verify_reset_sequence
                 \<lparr>cp_campaign_id = c, cp_subject_identity = sn_subject_identity s,
                  cp_scenario_identity = sn_scenario_identity s, cp_runtime_adapter_name = rt,
                  cp_subject_adapter = a, cp_subject_adapter_version = av\<rparr>
                 name version (sn_reset_receipts s) (session_ids s) (session_roots s))
         | _ \<Rightarrow> Inl (vale ''verified independence requires runtime, subject-adapter, and reset provenance'')))
      else if sn_reset_strategy_name s \<noteq> None \<or> sn_reset_strategy_version s \<noteq> None \<or> sn_reset_receipts s \<noteq> []
      then Inl (vale ''reset/isolation receipt provenance is valid only for verified independence'')
      else Inr ())"

definition report_differs :: "reliability_report \<Rightarrow> reliability_report \<Rightarrow> bool" where
  "report_differs a b \<longleftrightarrow>
     rl_trials a \<noteq> rl_trials b \<or> rl_resolved_trials a \<noteq> rl_resolved_trials b \<or> rl_passes a \<noteq> rl_passes b \<or>
     rl_failures a \<noteq> rl_failures b \<or> rl_blocked a \<noteq> rl_blocked b \<or> rl_inconclusive a \<noteq> rl_inconclusive b \<or>
     list_ex (\<lambda>((_, v), (_, w)). \<not> fl_eq v w) (zip (metric_values (rl_metrics a)) (metric_values (rl_metrics b))) \<or>
     rl_k a \<noteq> rl_k b \<or> \<not> fl_eq (rl_confidence_z a) (rl_confidence_z b)"

definition validate_session :: "(pyfloat \<Rightarrow> int \<Rightarrow> pyfloat) \<Rightarrow> 'c session_result \<Rightarrow> error + unit" where
  "validate_session pow s =
     (if sn_trials s = [] then Inl (vale ''evaluation session requires at least one trial'') else
     rbind (case sn_campaign_id s of None \<Rightarrow> Inr () | Some c \<Rightarrow> validate_campaign_id c) (\<lambda>_.
     rbind (validate_independence (sn_independence_status s) (sn_independence_basis s)) (\<lambda>_.
     rbind (validate_adapter_provenance (sn_runtime_adapter_name s) (sn_subject_adapter s)
       (sn_subject_adapter_version s)) (\<lambda>_.
     rbind (check_trials (sn_subject_identity s) (sn_scenario_identity s) (sn_campaign_id s) 0 [] (sn_trials s)) (\<lambda>_.
     rbind (validate_report pow (sn_reliability s)) (\<lambda>r.
     rbind (report_from_verdicts pow (map rt_verdict (sn_trials s)) (rl_k r) (rl_confidence_z r)) (\<lambda>expected.
     if report_differs r expected then Inl (vale ''session reliability does not recompute from trial verdicts'')
     else rbind (case sn_sampling s of None \<Rightarrow> Inr () | Some m \<Rightarrow>
         verify_session_sampling m (sn_campaign_id s) (sn_subject_identity s) (sn_scenario_identity s)
           (sn_runtime_adapter_name s) (sn_subject_adapter s) (sn_subject_adapter_version s) (session_ids s)) (\<lambda>_.
       validate_session_reset s))))))))"

definition session_critical_violations :: "(pyfloat \<Rightarrow> int \<Rightarrow> pyfloat) \<Rightarrow> 'c session_result \<Rightarrow> error + int" where
  "session_critical_violations pow s =
     rbind (validate_session pow s) (\<lambda>_. Inr (int (sum_list (map critical_violations (sn_trials s)))))"

subsection \<open>Qualified metrics\<close>

record qualified_metrics =
  qm_status :: independence_status
  qm_basis :: "string option"
  qm_reset_strategy_name :: "string option"
  qm_reset_strategy_version :: "string option"
  qm_reset_receipt_roots :: "string list"
  qm_sampling :: session_sampling
  qm_randomness_receipt_roots :: "string list"
  qm_planned_trials :: int
  qm_k :: int
  qm_pass_at_k :: pyfloat
  qm_pass_power_k :: pyfloat

text \<open>The fields copied from the sampling metadata are kept as the metadata itself.\<close>

definition independence_qualified_metrics ::
  "(pyfloat \<Rightarrow> int \<Rightarrow> pyfloat) \<Rightarrow> 'c session_result \<Rightarrow> error + qualified_metrics" where
  "independence_qualified_metrics pow s =
     rbind (validate_session pow s) (\<lambda>_.
     if sn_independence_status s = UNVERIFIED
     then Inl (vale (''independent-attempt pass@k/pass^k interpretation is unavailable because session ''
            @ ''independence is unverified''))
     else rbind (require_qualifiable_sampling (sn_sampling s)) (\<lambda>m.
       case sm_planned_trials m of
         None \<Rightarrow> Inl (sperr ''qualified fixed-horizon sampling lost planned_trials'')
       | Some n \<Rightarrow>
          let q = \<lparr>qm_status = sn_independence_status s, qm_basis = None, qm_reset_strategy_name = None,
                   qm_reset_strategy_version = None, qm_reset_receipt_roots = [], qm_sampling = m,
                   qm_randomness_receipt_roots = map nr_receipt_root (sm_receipts m), qm_planned_trials = n,
                   qm_k = rl_k (sn_reliability s), qm_pass_at_k = rm_pass_at_k (rl_metrics (sn_reliability s)),
                   qm_pass_power_k = rm_pass_power_k (rl_metrics (sn_reliability s))\<rparr>
          in if sn_independence_status s = OPERATOR_ASSERTED then
               (if sn_independence_basis s = None
                then Inl (vale ''operator-asserted independence is missing its basis'')
                else Inr (q\<lparr>qm_basis := sn_independence_basis s\<rparr>))
             else if sn_reset_strategy_name s = None \<or> sn_reset_strategy_version s = None \<or> sn_reset_receipts s = []
             then Inl (vale ''verified independence is missing reset/isolation provenance'')
             else Inr (q\<lparr>qm_reset_strategy_name := sn_reset_strategy_name s,
                         qm_reset_strategy_version := sn_reset_strategy_version s,
                         qm_reset_receipt_roots := map rr_receipt_root (sn_reset_receipts s)\<rparr>)))"

subsection \<open>\<open>EvaluationSession.run\<close>\<close>

text \<open>A strategy whose properties raise is no strategy.\<close>

definition reset_strategy :: "independence_status \<Rightarrow> reset_control option \<Rightarrow> error + (string \<times> string) option" where
  "reset_strategy status control =
     (if status \<noteq> VERIFIED then Inr None
      else case control of
        None \<Rightarrow> Inl (vale ''verified independence requires a reset/isolation control'')
      | Some c \<Rightarrow> (case rc_strategy c of
          None \<Rightarrow> Inl (rierr ''reset/isolation control strategy metadata could not be read'')
        | Some (name, version) \<Rightarrow> rbind (validate_reset_strategy name version) (\<lambda>nv. Inr (Some nv))))"

definition randomness_strategy :: "randomness_status \<Rightarrow> randomness_control option \<Rightarrow> error + (string \<times> string) option" where
  "randomness_strategy status control =
     (if status \<noteq> EVALUATOR_CONTROLLED then Inr None
      else case control of
        None \<Rightarrow> Inl (sperr ''evaluator-controlled randomness requires a randomness control'')
      | Some c \<Rightarrow> (case nc_strategy c of
          None \<Rightarrow> Inl (sperr ''randomness control strategy metadata could not be read'')
        | Some (name, version) \<Rightarrow> rbind (validate_randomness_strategy name version) (\<lambda>nv. Inr (Some nv))))"

record 'c session_state =
  ss_trials :: "'c evaluated_trial list"
  ss_reset_receipts :: "reset_receipt list"
  ss_randomness_receipts :: "randomness_receipt list"

text \<open>What a run has settled before its first attempt.\<close>

record session_plan =
  pl_campaign :: campaign
  pl_reset :: "((string \<times> string) \<times> reset_control) option"
  pl_randomness :: "((string \<times> string) \<times> randomness_control) option"

definition reset_turn :: "session_plan \<Rightarrow> nat \<Rightarrow> 'c session_state \<Rightarrow> error + 'c session_state" where
  "reset_turn p i st = (case pl_reset p of
       None \<Rightarrow> Inr st
     | Some ((name, version), control) \<Rightarrow>
        if i = 0 then Inr st
        else (let previous = last (ss_trials st);
                  x = reset_context_of (pl_campaign p) (int i) (te_trial_id (rt_evidence previous))
                        (campaign_trial_id (cp_campaign_id (pl_campaign p)) (int i)) (completion_evidence_root previous)
              in case rc_reset control x of
                CONTROL_RAISED \<Rightarrow> Inl (rierr (''reset/isolation control failed before attempt '' @ nat_str i))
              | OTHER_OBJECT \<Rightarrow> Inl (rierr ''reset/isolation control must return an exact ResetIsolationObservation'')
              | OBSERVED identity \<Rightarrow>
                 rbind (create_reset_receipt x name version identity) (\<lambda>r.
                 Inr (st\<lparr>ss_reset_receipts := ss_reset_receipts st @ [r]\<rparr>))))"

definition randomness_turn :: "session_plan \<Rightarrow> nat \<Rightarrow> 'c session_state \<Rightarrow> error + 'c session_state" where
  "randomness_turn p i st = (case pl_randomness p of
       None \<Rightarrow> Inr st
     | Some ((name, version), control) \<Rightarrow>
        (let x = randomness_context_of (pl_campaign p) (int i)
                   (campaign_trial_id (cp_campaign_id (pl_campaign p)) (int i))
         in case nc_prepare control x of
           CONTROL_RAISED \<Rightarrow> Inl (sperr (''randomness control failed before attempt '' @ nat_str i))
         | OTHER_OBJECT \<Rightarrow> Inl (sperr ''randomness control must return an exact RandomnessControlObservation'')
         | OBSERVED (seed, identity) \<Rightarrow>
            if seed \<in> set (map nr_seed_identity (ss_randomness_receipts st))
            then Inl (sperr ''evaluator-controlled attempt seed identity was reused across attempts'')
            else rbind (create_randomness_receipt x name version seed identity) (\<lambda>r.
                 Inr (st\<lparr>ss_randomness_receipts := ss_randomness_receipts st @ [r]\<rparr>))))"

definition attempt ::
  "(nat \<Rightarrow> string \<Rightarrow> error + 'c evaluated_trial) \<Rightarrow> session_plan \<Rightarrow> nat \<Rightarrow> 'c session_state \<Rightarrow> error + 'c session_state" where
  "attempt run p i st =
     rbind (reset_turn p i st) (\<lambda>st.
     rbind (randomness_turn p i st) (\<lambda>st.
     rbind (run i (campaign_trial_id (cp_campaign_id (pl_campaign p)) (int i))) (\<lambda>t.
     Inr (st\<lparr>ss_trials := ss_trials st @ [t]\<rparr>))))"

fun attempts ::
  "(nat \<Rightarrow> string \<Rightarrow> error + 'c evaluated_trial) \<Rightarrow> session_plan \<Rightarrow> nat list \<Rightarrow> 'c session_state \<Rightarrow> error + 'c session_state" where
  "attempts run p [] st = Inr st"
| "attempts run p (i # js) st = rbind (attempt run p i st) (attempts run p js)"

text \<open>The guards on the request, in the order of the code up to the first look at the subject.\<close>

definition request_guards :: "session_request \<Rightarrow> error + string" where
  "request_guards q =
     rbind (raise_if [(sq_trials q < 1, vale ''trials must be a positive integer''),
                      (sq_k q < 1, vale ''k must be a positive integer'')]) (\<lambda>_.
     rbind (resolve_campaign_id (sq_campaign_id q) (sq_fresh_id q)) (\<lambda>cid.
     rbind (validate_independence (sq_independence_status q) (sq_independence_basis q)) (\<lambda>_.
     rbind (validate_reset_request (sq_independence_status q) (sq_trials q) (sq_reset_control q)) (\<lambda>_.
     rbind (validate_randomness_request (sq_randomness_status q) (sq_randomness_basis q)
              (sq_randomness_control q \<noteq> None)) (\<lambda>_.
     rbind (raise_if [(case sq_randomness_control q of None \<Rightarrow> False | Some c \<Rightarrow> nc_is_adapter c,
              sperr ''randomness control must be separate from the subject adapter'')]) (\<lambda>_.
     rbind (raise_if (adapter_name_guards (sq_adapter_name q))) (\<lambda>_. Inr cid)))))))"

definition plan_session ::
  "session_request \<Rightarrow> string \<Rightarrow> subject_fingerprint \<Rightarrow> evaluation_scenario \<Rightarrow> error + session_plan" where
  "plan_session q cid sf s =
     rbind (validate_adapter_provenance (Some (sq_adapter_name q)) (Some (sf_adapter sf)) (Some (sf_adapter_version sf))) (\<lambda>_.
     rbind (reset_strategy (sq_independence_status q) (sq_reset_control q)) (\<lambda>reset.
     rbind (randomness_strategy (sq_randomness_status q) (sq_randomness_control q)) (\<lambda>randomness.
     Inr
       \<lparr>pl_campaign = \<lparr>cp_campaign_id = cid, cp_subject_identity = subject_identity sf,
          cp_scenario_identity = scenario_identity s, cp_runtime_adapter_name = sq_adapter_name q,
          cp_subject_adapter = sf_adapter sf, cp_subject_adapter_version = sf_adapter_version sf\<rparr>,
        pl_reset = map_option (\<lambda>nv. (nv, the (sq_reset_control q))) reset,
        pl_randomness = map_option (\<lambda>nv. (nv, the (sq_randomness_control q))) randomness\<rparr>)))"

definition sampling_of :: "session_request \<Rightarrow> session_plan \<Rightarrow> randomness_receipt list \<Rightarrow> session_sampling" where
  "sampling_of q p rs =
     \<lparr>sm_sampling_policy = PREDECLARED_ALL_ATTEMPTS, sm_randomness_status = sq_randomness_status q,
      sm_stopping_rule = FIXED_HORIZON, sm_planned_trials = Some (sq_trials q), sm_sampling_basis = None,
      sm_randomness_basis = sq_randomness_basis q, sm_stopping_basis = None,
      sm_strategy_name = map_option (fst \<circ> fst) (pl_randomness p),
      sm_strategy_version = map_option (snd \<circ> fst) (pl_randomness p), sm_receipts = rs\<rparr>"

definition session_of ::
  "session_request \<Rightarrow> session_plan \<Rightarrow> 'c session_state \<Rightarrow> reliability_report \<Rightarrow> session_sampling \<Rightarrow> 'c session_result" where
  "session_of q p st rel m = (let c = pl_campaign p in
     \<lparr>sn_subject_identity = cp_subject_identity c, sn_scenario_identity = cp_scenario_identity c,
      sn_trials = ss_trials st, sn_reliability = rel, sn_campaign_id = Some (cp_campaign_id c),
      sn_independence_status = sq_independence_status q, sn_independence_basis = sq_independence_basis q,
      sn_runtime_adapter_name = Some (cp_runtime_adapter_name c), sn_subject_adapter = Some (cp_subject_adapter c),
      sn_subject_adapter_version = Some (cp_subject_adapter_version c),
      sn_reset_strategy_name = map_option (fst \<circ> fst) (pl_reset p),
      sn_reset_strategy_version = map_option (snd \<circ> fst) (pl_reset p),
      sn_reset_receipts = ss_reset_receipts st, sn_sampling = Some m\<rparr>)"

definition no_attempts :: "'c session_state" where
  "no_attempts = \<lparr>ss_trials = [], ss_reset_receipts = [], ss_randomness_receipts = []\<rparr>"

definition finish_session ::
  "(pyfloat \<Rightarrow> int \<Rightarrow> pyfloat) \<Rightarrow> session_request \<Rightarrow> session_plan \<Rightarrow> 'c session_state \<Rightarrow> error + 'c session_result" where
  "finish_session pow q p st =
     rbind (report_from_verdicts pow (map rt_verdict (ss_trials st)) (sq_k q) default_confidence_z) (\<lambda>rel.
     rbind (validate_sampling (sampling_of q p (ss_randomness_receipts st))) (\<lambda>m.
     rbind (validate_session pow (session_of q p st rel m)) (\<lambda>_. Inr (session_of q p st rel m))))"

definition run_session ::
  "(pyfloat \<Rightarrow> int \<Rightarrow> pyfloat) \<Rightarrow>
   (nat \<Rightarrow> subject_fingerprint \<Rightarrow> evaluation_scenario \<Rightarrow> string \<Rightarrow> error + 'c evaluated_trial) \<Rightarrow>
   subject_fingerprint \<Rightarrow> evaluation_scenario \<Rightarrow> session_request \<Rightarrow> error + 'c session_result" where
  "run_session pow run subject scenario q =
     rbind (request_guards q) (\<lambda>cid.
     rbind (snapshot_subject subject) (\<lambda>sf.
     rbind (snapshot_scenario scenario) (\<lambda>s.
     rbind (plan_session q cid sf s) (\<lambda>p.
     rbind (attempts (\<lambda>i. run i sf s) p [0..<nat (sq_trials q)] no_attempts) (\<lambda>st.
     finish_session pow q p st)))))"

subsection \<open>Criticality of a session\<close>

definition verify_session_criticality ::
  "(pyfloat \<Rightarrow> int \<Rightarrow> pyfloat) \<Rightarrow> 'c session_result \<Rightarrow> error + criticality_record" where
  "verify_session_criticality pow s =
     rbind (validate_session pow s) (\<lambda>_.
     rbind (report_sha256 pow (sn_reliability s)) (\<lambda>digest.
     rbind (session_critical_violations pow s) (\<lambda>n.
     issue_criticality
       \<lparr>cr_subject_identity = sn_subject_identity s, cr_scenario_identity = sn_scenario_identity s,
        cr_trial_evidence_roots = session_roots s, cr_reliability_sha256 = digest,
        cr_critical_violations = n\<rparr>)))"

end
