(* ===== verification/SessionProofs.thy ===== *)
theory SessionProofs
  imports Session ReleaseProofs
begin

section \<open>Lemmas on sessions\<close>

text \<open>
  What a session keeps of its attempts, what its receipts bind, when a session completes, and
  how its criticality reaches the release gate.
\<close>

subsection \<open>Trial identifiers\<close>

lemma digits_val_padded [simp]: "digits_val (zero_padded n s) = digits_val s"
proof -
  have "foldl (\<lambda>n c. 10 * n + digit_val c) 0 (replicate k (CHR ''0'') @ s) = digits_val s" for k
    by (induction k) (simp_all add: digits_val_def digit_val_def)
  then show ?thesis by (simp add: zero_padded_def digits_val_def)
qed

lemma campaign_trial_id_inj [simp]:
  "campaign_trial_id cid (int i) = campaign_trial_id cid (int j) \<longleftrightarrow> i = j"
  by (auto simp: campaign_trial_id_def dest: arg_cong [of _ _ digits_val])

definition campaign_ids :: "string \<Rightarrow> nat \<Rightarrow> string list" where
  "campaign_ids cid n = map (\<lambda>i. campaign_trial_id cid (int i)) [0..<n]"

lemma campaign_ids_simps [simp]:
  "length (campaign_ids cid n) = n" "i < n \<Longrightarrow> campaign_ids cid n ! i = campaign_trial_id cid (int i)"
  "distinct (campaign_ids cid n)"
  by (simp_all add: campaign_ids_def distinct_map inj_on_def)

subsection \<open>The loop over the attempts\<close>

text \<open>What holds of the state after the first \<open>n\<close> attempts.\<close>

definition attempts_kept ::
  "(nat \<Rightarrow> string \<Rightarrow> error + 'c evaluated_trial) \<Rightarrow> string \<Rightarrow> nat \<Rightarrow> 'c evaluated_trial list \<Rightarrow> bool" where
  "attempts_kept run cid n ts \<longleftrightarrow> map (\<lambda>i. run i (campaign_trial_id cid (int i))) [0..<n] = map Inr ts"

lemma attempts_kept_length: "attempts_kept run cid n ts \<Longrightarrow> length ts = n"
  unfolding attempts_kept_def by (metis diff_zero length_map length_upt)

lemma attempts_kept_nth: "attempts_kept run cid n ts \<Longrightarrow> i < n \<Longrightarrow> run i (campaign_trial_id cid (int i)) = Inr (ts ! i)"
proof -
  assume k: "attempts_kept run cid n ts" and i: "i < n"
  then have "map (\<lambda>i. run i (campaign_trial_id cid (int i))) [0..<n] ! i = map Inr ts ! i"
    by (simp add: attempts_kept_def)
  then show ?thesis using attempts_kept_length [OF k] i by simp
qed

lemma attempts_kept_Suc:
  "attempts_kept run cid n ts \<Longrightarrow> run n (campaign_trial_id cid (int n)) = Inr t \<Longrightarrow> attempts_kept run cid (Suc n) (ts @ [t])"
  by (simp add: attempts_kept_def)

lemma reset_turn_trials: "reset_turn p i st = Inr st' \<Longrightarrow>
    ss_trials st' = ss_trials st \<and> ss_randomness_receipts st' = ss_randomness_receipts st"
  by (auto simp: reset_turn_def Let_def rbind_Inr split: option.splits prod.splits if_splits control_outcome.splits)

lemma randomness_turn_trials: "randomness_turn p i st = Inr st' \<Longrightarrow>
    ss_trials st' = ss_trials st \<and> ss_reset_receipts st' = ss_reset_receipts st"
  by (auto simp: randomness_turn_def Let_def rbind_Inr split: option.splits prod.splits if_splits control_outcome.splits)

lemma attempt_Inr:
  assumes "attempt run p i st = Inr st'"
  obtains t where "run i (campaign_trial_id (cp_campaign_id (pl_campaign p)) (int i)) = Inr t"
    "ss_trials st' = ss_trials st @ [t]"
proof -
  from assms obtain s1 s2 t where "reset_turn p i st = Inr s1" "randomness_turn p i s1 = Inr s2"
    "run i (campaign_trial_id (cp_campaign_id (pl_campaign p)) (int i)) = Inr t" "st' = s2\<lparr>ss_trials := ss_trials s2 @ [t]\<rparr>"
    by (auto simp: attempt_def rbind_Inr)
  with reset_turn_trials [of p i st s1] randomness_turn_trials [of p i s1 s2] show thesis by (intro that) auto
qed

lemma attempts_append:
  "attempts run p (is' @ js) st = rbind (attempts run p is' st) (attempts run p js)"
proof (induction is' arbitrary: st)
  case (Cons i is')
  then show ?case by (cases "attempt run p i st") auto
qed simp

lemma attempts_keep:
  "attempts run p [0..<n] no_attempts = Inr st \<Longrightarrow>
   attempts_kept run (cp_campaign_id (pl_campaign p)) n (ss_trials st)"
proof (induction n arbitrary: st)
  case 0
  then show ?case by (auto simp: attempts_kept_def no_attempts_def)
next
  case (Suc n)
  then obtain st' where s: "attempts run p [0..<n] no_attempts = Inr st'"
    "attempt run p n st' = Inr st"
    by (auto simp: attempts_append rbind_Inr)
  from s(2) obtain t where "run n (campaign_trial_id (cp_campaign_id (pl_campaign p)) (int n)) = Inr t"
    "ss_trials st = ss_trials st' @ [t]"
    by (rule attempt_Inr)
  with Suc.IH [OF s(1)] show ?case by (simp add: attempts_kept_Suc)
qed

text \<open>Without controls an attempt is the runner's.\<close>

lemma attempts_plain:
  assumes "pl_reset p = None" "pl_randomness p = None" "attempts_kept run (cp_campaign_id (pl_campaign p)) n ts"
  shows "attempts run p [0..<n] no_attempts =
    Inr \<lparr>ss_trials = ts, ss_reset_receipts = [], ss_randomness_receipts = []\<rparr>"
  using assms(3)
proof (induction n arbitrary: ts)
  case 0
  then show ?case by (simp add: attempts_kept_def no_attempts_def)
next
  case (Suc n)
  then obtain us t where ts: "ts = us @ [t]" by (cases ts rule: rev_cases) (auto simp: attempts_kept_def)
  then have "attempts_kept run (cp_campaign_id (pl_campaign p)) n us"
    and t: "run n (campaign_trial_id (cp_campaign_id (pl_campaign p)) (int n)) = Inr t"
    using Suc.prems by (simp_all add: attempts_kept_def)
  from Suc.IH [OF this(1)] t show ?case
    by (simp add: ts attempts_append attempt_def reset_turn_def randomness_turn_def assms(1,2))
qed

subsection \<open>What a returned session is\<close>

lemma finish_session_Inr:
  assumes "finish_session pow q p st = Inr r"
  shows "\<exists>rel m. report_from_verdicts pow (map rt_verdict (ss_trials st)) (sq_k q) default_confidence_z = Inr rel \<and>
    m = sampling_of q p (ss_randomness_receipts st) \<and> validate_sampling m = Inr m \<and>
    r = session_of q p st rel m \<and> validate_session pow r = Inr ()"
  using assms by (auto simp: finish_session_def rbind_Inr validate_sampling_def)

lemma plan_session_Inr: "plan_session q cid sf s = Inr p \<Longrightarrow>
    cp_campaign_id (pl_campaign p) = cid \<and> cp_subject_identity (pl_campaign p) = subject_identity sf \<and>
    cp_scenario_identity (pl_campaign p) = scenario_identity s"
  by (auto simp: plan_session_def rbind_Inr)

lemma request_trials: "request_guards q = Inr cid \<Longrightarrow> 1 \<le> sq_trials q \<and> 1 \<le> sq_k q"
  by (auto simp: request_guards_def rbind_Inr raise_if_Inr_iff)

lemma run_session_Inr:
  assumes "run_session pow run subject scenario q = Inr r"
  obtains sf s cid p st rel m where "snapshot_subject subject = Inr sf" "snapshot_scenario scenario = Inr s"
    "request_guards q = Inr cid" "plan_session q cid sf s = Inr p"
    "attempts (\<lambda>i. run i sf s) p [0..<nat (sq_trials q)] no_attempts = Inr st"
    "attempts_kept (\<lambda>i. run i sf s) cid (nat (sq_trials q)) (ss_trials st)"
    "report_from_verdicts pow (map rt_verdict (ss_trials st)) (sq_k q) default_confidence_z = Inr rel"
    "m = sampling_of q p (ss_randomness_receipts st)" "validate_sampling m = Inr m"
    "r = session_of q p st rel m" "validate_session pow r = Inr ()"
proof -
  obtain cid sf s p st where r: "request_guards q = Inr cid" "snapshot_subject subject = Inr sf"
    "snapshot_scenario scenario = Inr s" "plan_session q cid sf s = Inr p"
    "attempts (\<lambda>i. run i sf s) p [0..<nat (sq_trials q)] no_attempts = Inr st" "finish_session pow q p st = Inr r"
    using assms unfolding run_session_def rbind_Inr by blast
  from finish_session_Inr [OF r(6)] attempts_keep [OF r(5)] plan_session_Inr [OF r(4)] r show thesis
    by (elim exE conjE) (rule that, assumption+, simp_all)
qed

lemma session_of_fields [simp]:
  "sn_trials (session_of q p st rel m) = ss_trials st" "sn_reliability (session_of q p st rel m) = rel"
  "sn_campaign_id (session_of q p st rel m) = Some (cp_campaign_id (pl_campaign p))"
  "sn_subject_identity (session_of q p st rel m) = cp_subject_identity (pl_campaign p)"
  "sn_scenario_identity (session_of q p st rel m) = cp_scenario_identity (pl_campaign p)"
  "sn_independence_status (session_of q p st rel m) = sq_independence_status q"
  "sn_sampling (session_of q p st rel m) = Some m"
  by (simp_all add: session_of_def Let_def)

subsection \<open>A session with nothing to control\<close>

definition plain_request :: "session_request \<Rightarrow> bool" where
  "plain_request q \<longleftrightarrow> sq_independence_status q = UNVERIFIED \<and> sq_reset_control q = None \<and>
     sq_randomness_status q = UNKNOWN_RANDOMNESS \<and> sq_randomness_control q = None"

definition adapter_named :: "session_request \<Rightarrow> subject_fingerprint \<Rightarrow> bool" where
  "adapter_named q sf \<longleftrightarrow>
     validate_adapter_provenance (Some (sq_adapter_name q)) (Some (sf_adapter sf)) (Some (sf_adapter_version sf)) = Inr ()"

lemma plain_plan:
  assumes "plain_request q"
  shows "plan_session q cid sf s = Inr p \<longleftrightarrow> adapter_named q sf \<and>
    p = \<lparr>pl_campaign = \<lparr>cp_campaign_id = cid, cp_subject_identity = subject_identity sf,
          cp_scenario_identity = scenario_identity s, cp_runtime_adapter_name = sq_adapter_name q,
          cp_subject_adapter = sf_adapter sf, cp_subject_adapter_version = sf_adapter_version sf\<rparr>,
        pl_reset = None, pl_randomness = None\<rparr>"
  using assms by (auto simp: plan_session_def plain_request_def rbind_Inr adapter_named_def reset_strategy_def randomness_strategy_def)

lemma run_trial_snapshots:
  assumes "run_trial env sf s trial_id = Inr t" "snapshot_subject subject = Inr sf" "snapshot_scenario scenario = Inr s"
  shows "te_subject_identity (rt_evidence t) = subject_identity sf \<and>
    te_scenario_identity (rt_evidence t) = scenario_identity s \<and> te_trial_id (rt_evidence t) = trial_id"
proof -
  have "validate_subject sf = Inr sf" using assms(2) by (auto simp: snapshot_subject_def validate_subject_def rbind_Inr)
  moreover have "validate_scenario s = Inr s" using assms(3) validate_scenario_idem by (simp add: snapshot_scenario_def)
  ultimately show ?thesis
    using assms(1) by (elim run_trial_evidence) (auto simp: snapshot_subject_def snapshot_scenario_def own_evidence_def context_of_def)
qed

text \<open>Trials in their places pass the loop of the validation.\<close>

lemma check_trials_Inr:
  assumes "\<And>k. k < length ts \<Longrightarrow> te_subject_identity (rt_evidence (ts ! k)) = subject \<and>
      te_scenario_identity (rt_evidence (ts ! k)) = scenario \<and>
      te_trial_id (rt_evidence (ts ! k)) = campaign_trial_id cid (int (i + k))"
    and "set seen \<subseteq> (\<lambda>j. campaign_trial_id cid (int j)) ` {..<i}"
  shows "check_trials subject scenario (Some cid) i seen ts = Inr ()"
  using assms
proof (induction ts arbitrary: i seen)
  case (Cons t ts)
  have t: "te_subject_identity (rt_evidence t) = subject" "te_scenario_identity (rt_evidence t) = scenario"
    "te_trial_id (rt_evidence t) = campaign_trial_id cid (int i)"
    using Cons.prems(1) [of 0] by simp_all
  have "check_trials subject scenario (Some cid) (Suc i) (te_trial_id (rt_evidence t) # seen) ts = Inr ()"
  proof (rule Cons.IH)
    show "te_subject_identity (rt_evidence (ts ! k)) = subject \<and> te_scenario_identity (rt_evidence (ts ! k)) = scenario \<and>
        te_trial_id (rt_evidence (ts ! k)) = campaign_trial_id cid (int (Suc i + k))" if "k < length ts" for k
      using Cons.prems(1) [of "Suc k"] that by simp
    show "set (te_trial_id (rt_evidence t) # seen) \<subseteq> (\<lambda>j. campaign_trial_id cid (int j)) ` {..<Suc i}"
      using Cons.prems(2) by (auto simp: t)
  qed
  moreover have "campaign_trial_id cid (int i) \<notin> set seen" using Cons.prems(2) by auto
  ultimately show ?case by (simp add: Let_def t completion_evidence_root_def)
qed simp

lemma report_same: "validate_report pow r = Inr r \<Longrightarrow> isfinite (rl_confidence_z r) \<Longrightarrow> \<not> report_differs r r"
  using valid_report_metrics [of pow r r] by (auto simp: report_differs_def metric_values_def fl_compare)

lemma valid_report_z: "validate_report pow r = Inr s \<Longrightarrow> isfinite (rl_confidence_z r)"
  by (auto simp: validate_report_def rbind_Inr validate_confidence_z_def raise_if_Inr_iff)

lemma plain_session_valid:
  assumes "plain_request q" "request_guards q = Inr cid" "campaign_name cid" "plan_session q cid sf s = Inr p"
    and "snapshot_subject subject = Inr sf" "snapshot_scenario scenario = Inr s"
    and "attempts_kept (\<lambda>i. run_trial (env i) sf s) cid (nat (sq_trials q)) ts"
    and "report_from_verdicts pow (map rt_verdict ts) (sq_k q) default_confidence_z = Inr rel"
  shows "finish_session pow q p \<lparr>ss_trials = ts, ss_reset_receipts = [], ss_randomness_receipts = []\<rparr> =
    Inr (session_of q p \<lparr>ss_trials = ts, ss_reset_receipts = [], ss_randomness_receipts = []\<rparr> rel (sampling_of q p []))"
proof -
  note p = assms(4) [unfolded plain_plan [OF assms(1)]]
  note pl = assms(1) [unfolded plain_request_def]
  have n: "1 \<le> sq_trials q" using request_trials [OF assms(2)] by simp
  have len: "length ts = nat (sq_trials q)" using assms(7) by (rule attempts_kept_length)
  note rep = report_from_verdicts_Inr [OF assms(8)]
  have bound: "sq_trials q \<le> 100000" using rep len n by (simp add: max_statistical_trials_def)
  have basis: "sq_independence_basis q = None" "sq_randomness_basis q = None"
    using assms(2) pl by (auto simp: request_guards_def rbind_Inr validate_independence_def
        validate_randomness_request_def raise_if_Inr_iff)
  have m: "validate_sampling (sampling_of q p []) = Inr (sampling_of q p [])"
    using n bound pl basis p
    by (simp add: validate_sampling_def sampling_of_def sampling_fields_def int_field_def optional_text_def policy_guards_def
        stopping_guards_def randomness_guards_def strategy_present_def strategy_missing_def)
  have c: "check_trials (subject_identity sf) (scenario_identity s) (Some cid) 0 [] ts = Inr ()"
  proof (rule check_trials_Inr)
    fix k assume "k < length ts"
    then have "run_trial (env k) sf s (campaign_trial_id cid (int k)) = Inr (ts ! k)"
      using attempts_kept_nth [OF assms(7)] len by simp
    from run_trial_snapshots [OF this assms(5,6)] show "te_subject_identity (rt_evidence (ts ! k)) = subject_identity sf \<and>
        te_scenario_identity (rt_evidence (ts ! k)) = scenario_identity s \<and>
        te_trial_id (rt_evidence (ts ! k)) = campaign_trial_id cid (int (0 + k))" by simp
  qed simp
  have v: "validate_report pow rel = Inr rel" "rl_k rel = sq_k q" "rl_confidence_z rel = default_confidence_z" "ts \<noteq> []"
    using rep by auto
  have d: "\<not> report_differs rel rel" by (rule report_same [OF v(1) valid_report_z [OF v(1)]])
  have sm: "verify_session_sampling (sampling_of q p []) (Some cid) a b c d e (map f ts) = Inr ()" for a b c d e f
    using m pl n len by (simp add: verify_session_sampling_def) (simp add: sampling_of_def)
  have ids: "session_ids (session_of q p \<lparr>ss_trials = ts, ss_reset_receipts = [], ss_randomness_receipts = []\<rparr> rel
      (sampling_of q p [])) = map (\<lambda>t. te_trial_id (rt_evidence t)) ts" by (simp add: session_ids_def)
  have r: "validate_session_reset (session_of q p \<lparr>ss_trials = ts, ss_reset_receipts = [], ss_randomness_receipts = []\<rparr> rel
      (sampling_of q p [])) = Inr ()"
    using pl p by (simp add: validate_session_reset_def) (simp add: session_of_def)
  have "validate_session pow (session_of q p \<lparr>ss_trials = ts, ss_reset_receipts = [], ss_randomness_receipts = []\<rparr> rel
      (sampling_of q p [])) = Inr ()"
    using p pl basis assms(3) c v d sm assms(8) r ids
    by (simp add: validate_session_def validate_campaign_id_def validate_independence_def adapter_named_def)
      (simp add: session_of_def validate_independence_def adapter_named_def)
  with m assms(8) show ?thesis by (simp add: finish_session_def)
qed

lemma plain_session_completes:
  assumes "plain_request q"
  shows "returns (run_session pow (\<lambda>i. run_trial (env i)) subject scenario q) \<longleftrightarrow>
    (\<exists>cid sf s ts. request_guards q = Inr cid \<and> campaign_name cid \<and> snapshot_subject subject = Inr sf \<and>
       snapshot_scenario scenario = Inr s \<and> adapter_named q sf \<and>
       attempts_kept (\<lambda>i. run_trial (env i) sf s) cid (nat (sq_trials q)) ts \<and>
       returns (report_from_verdicts pow (map rt_verdict ts) (sq_k q) default_confidence_z))" (is "?l \<longleftrightarrow> ?r")
proof
  assume ?l
  then obtain r where "run_session pow (\<lambda>i. run_trial (env i)) subject scenario q = Inr r" by (auto simp: returns_iff)
  then obtain sf s cid p st rel m where x: "snapshot_subject subject = Inr sf" "snapshot_scenario scenario = Inr s"
    "request_guards q = Inr cid" "plan_session q cid sf s = Inr p"
    "attempts_kept (\<lambda>i. run_trial (env i) sf s) cid (nat (sq_trials q)) (ss_trials st)"
    "report_from_verdicts pow (map rt_verdict (ss_trials st)) (sq_k q) default_confidence_z = Inr rel"
    "r = session_of q p st rel m" "validate_session pow r = Inr ()"
    by (rule run_session_Inr) blast
  have "cp_campaign_id (pl_campaign p) = cid" using plan_session_Inr [OF x(4)] by simp
  then have "campaign_name cid"
    using x(8) by (simp add: x(7) validate_session_def validate_campaign_id_def rbind_Inr split: if_splits)
      (simp add: raise_if.simps split: if_splits)
  moreover have "adapter_named q sf" using x(4) by (simp add: plain_plan [OF assms])
  ultimately show ?r using x by (intro exI conjI) (assumption | simp)+
next
  assume ?r
  then obtain cid sf s ts rel where x: "request_guards q = Inr cid" "campaign_name cid" "snapshot_subject subject = Inr sf"
    "snapshot_scenario scenario = Inr s" "adapter_named q sf"
    "attempts_kept (\<lambda>i. run_trial (env i) sf s) cid (nat (sq_trials q)) ts"
    "report_from_verdicts pow (map rt_verdict ts) (sq_k q) default_confidence_z = Inr rel"
    by (auto simp: returns_iff)
  then obtain p where p: "plan_session q cid sf s = Inr p" by (simp add: plain_plan [OF assms])
  have "pl_reset p = None" "pl_randomness p = None" "cp_campaign_id (pl_campaign p) = cid"
    using p by (simp_all add: plain_plan [OF assms])
  then have a: "attempts (\<lambda>i. run_trial (env i) sf s) p [0..<nat (sq_trials q)] no_attempts =
      Inr \<lparr>ss_trials = ts, ss_reset_receipts = [], ss_randomness_receipts = []\<rparr>"
    using x(6) by (intro attempts_plain) simp_all
  note f = plain_session_valid [OF assms x(1,2) p x(3,4,6,7)]
  show ?l by (simp add: run_session_def x(1,3,4) p a f)
qed

subsection \<open>What the receipts of a session bind\<close>

lemma create_reset_Inr: "create_reset_receipt x name version control = Inr r \<Longrightarrow>
    rr_context r = x \<and> rr_strategy_name r = name \<and> rr_strategy_version r = version \<and>
    rr_control_evidence_identity r = control \<and> validate_reset_receipt r = Inr r"
  by (auto simp: create_reset_receipt_def Let_def validate_reset_receipt_def rbind_Inr)

lemma create_randomness_Inr: "create_randomness_receipt x name version seed control = Inr r \<Longrightarrow>
    nr_context r = x \<and> nr_strategy_name r = name \<and> nr_strategy_version r = version \<and>
    nr_seed_identity r = seed \<and> validate_randomness_receipt r = Inr r"
  by (auto simp: create_randomness_receipt_def Let_def validate_randomness_receipt_def rbind_Inr)

lemma reset_sequence_nth:
  assumes "verify_reset_sequence c name version rs ids roots = Inr u" "i < length rs"
  shows "rr_context (rs ! i) = reset_context_of c (int (Suc i)) (ids ! i) (ids ! Suc i) (roots ! i) \<and>
    validate_reset_receipt (rs ! i) = Inr (rs ! i) \<and> rr_strategy_name (rs ! i) = name \<and>
    rr_strategy_version (rs ! i) = version"
proof -
  have "(Suc i, rs ! i) \<in> set (zip [1..<Suc (length rs)] rs)"
    using assms(2) by (auto simp: in_set_zip simp del: upt_Suc intro!: exI [of _ i])
  then have "reset_step c name version ids roots (Suc i, rs ! i) = Inr ()"
    using assms(1) by (auto simp: verify_reset_sequence_def rbind_Inr rfor_Inr)
  then have "create_reset_receipt (reset_context_of c (int (Suc i)) (ids ! i) (ids ! Suc i) (roots ! i)) name version
      (rr_control_evidence_identity (rs ! i)) = Inr (rs ! i)"
    by (auto simp: reset_step_def rbind_Inr rcatch_Inr split: if_splits)
  from create_reset_Inr [OF this] show ?thesis by simp
qed

lemma randomness_sequence_nth:
  assumes "verify_randomness_sequence c name version rs ids = Inr u" "i < length rs"
  shows "nr_context (rs ! i) = randomness_context_of c (int i) (ids ! i) \<and>
    validate_randomness_receipt (rs ! i) = Inr (rs ! i)"
proof -
  have "(i, rs ! i) \<in> set (zip [0..<length rs] rs)"
    using assms(2) by (auto simp: in_set_zip intro!: exI [of _ i])
  then have "randomness_step c name version ids (i, rs ! i) = Inr ()"
    using assms(1) by (auto simp: verify_randomness_sequence_def rbind_Inr rfor_Inr)
  then have "create_randomness_receipt (randomness_context_of c (int i) (ids ! i)) name version
      (nr_seed_identity (rs ! i)) (nr_control_evidence_identity (rs ! i)) = Inr (rs ! i)"
    by (auto simp: randomness_step_def rbind_Inr rcatch_Inr split: if_splits)
  from create_randomness_Inr [OF this] show ?thesis by simp
qed

text \<open>Every transition of the trials has its receipt, bound to the evidence before it.\<close>

definition transitions_bound :: "'c session_result \<Rightarrow> bool" where
  "transitions_bound s \<longleftrightarrow>
     2 \<le> length (sn_trials s) \<and> distinct (map rr_receipt_root (sn_reset_receipts s)) \<and>
     map (\<lambda>r. let x = rr_context r in
         (rx_attempt_index x, rx_previous_trial_id x, rx_previous_evidence_root x, rx_next_trial_id x))
       (sn_reset_receipts s) =
     map (\<lambda>i. (int (Suc i), session_ids s ! i, session_roots s ! i, session_ids s ! Suc i))
       [0..<length (sn_trials s) - 1] \<and>
     list_all (\<lambda>r. validate_reset_receipt r = Inr r \<and> rx_subject_identity (rr_context r) = sn_subject_identity s \<and>
       rx_scenario_identity (rr_context r) = sn_scenario_identity s) (sn_reset_receipts s)"

text \<open>Every trial has its own seed.\<close>

definition seeds_bound :: "'c session_result \<Rightarrow> randomness_receipt list \<Rightarrow> bool" where
  "seeds_bound s rs \<longleftrightarrow> distinct (map nr_seed_identity rs) \<and>
     map (\<lambda>r. nx_trial_id (nr_context r)) rs = session_ids s \<and>
     list_all (\<lambda>r. validate_randomness_receipt r = Inr r) rs"

lemma verified_transitions:
  assumes "validate_session pow s = Inr ()" "sn_independence_status s = VERIFIED"
  shows "transitions_bound s"
proof -
  have "validate_session_reset s = Inr ()"
    using assms(1) by (auto simp: validate_session_def rbind_Inr split: if_splits)
  then obtain c name version where v: "verify_reset_sequence c name version (sn_reset_receipts s) (session_ids s)
        (session_roots s) = Inr ()"
    and c: "cp_subject_identity c = sn_subject_identity s" "cp_scenario_identity c = sn_scenario_identity s"
    using assms(2) by (auto simp: validate_session_reset_def rcatch_Inr split: if_splits option.splits prod.splits)
  have len: "length (session_ids s) = length (sn_trials s)" by (simp add: session_ids_def)
  have l: "2 \<le> length (sn_trials s)" "length (sn_reset_receipts s) = length (sn_trials s) - 1"
    "distinct (map rr_receipt_root (sn_reset_receipts s))"
    using v by (auto simp: verify_reset_sequence_def rbind_Inr raise_if_Inr_iff len)
  note n = reset_sequence_nth [OF v]
  show ?thesis
    unfolding transitions_bound_def
  proof (intro conjI)
    show "map (\<lambda>r. let x = rr_context r in
         (rx_attempt_index x, rx_previous_trial_id x, rx_previous_evidence_root x, rx_next_trial_id x))
       (sn_reset_receipts s) =
     map (\<lambda>i. (int (Suc i), session_ids s ! i, session_roots s ! i, session_ids s ! Suc i)) [0..<length (sn_trials s) - 1]"
      using n l(2) by (intro nth_equalityI) (simp_all add: Let_def reset_context_of_def)
    show "list_all (\<lambda>r. validate_reset_receipt r = Inr r \<and> rx_subject_identity (rr_context r) = sn_subject_identity s \<and>
       rx_scenario_identity (rr_context r) = sn_scenario_identity s) (sn_reset_receipts s)"
      using n c by (simp add: list_all_length reset_context_of_def)
  qed (use l in auto)
qed

lemma controlled_seeds:
  assumes "validate_session pow s = Inr ()" "sn_sampling s = Some m" "sm_randomness_status m = EVALUATOR_CONTROLLED"
  shows "seeds_bound s (sm_receipts m)"
proof -
  have "verify_session_sampling m (sn_campaign_id s) (sn_subject_identity s) (sn_scenario_identity s)
      (sn_runtime_adapter_name s) (sn_subject_adapter s) (sn_subject_adapter_version s) (session_ids s) = Inr ()"
    using assms(1,2) by (auto simp: validate_session_def rbind_Inr split: if_splits)
  then obtain c name version where v: "verify_randomness_sequence c name version (sm_receipts m) (session_ids s) = Inr ()"
    using assms(3) by (auto simp: verify_session_sampling_def rbind_Inr rcatch_Inr validate_sampling_def
        split: if_splits option.splits prod.splits)
  have l: "length (sm_receipts m) = length (session_ids s)" "distinct (map nr_seed_identity (sm_receipts m))"
    using v by (auto simp: verify_randomness_sequence_def rbind_Inr raise_if_Inr_iff)
  note n = randomness_sequence_nth [OF v]
  show ?thesis
    unfolding seeds_bound_def
  proof (intro conjI)
    show "map (\<lambda>r. nx_trial_id (nr_context r)) (sm_receipts m) = session_ids s"
      using n l(1) by (intro nth_equalityI) (simp_all add: randomness_context_of_def)
    show "list_all (\<lambda>r. validate_randomness_receipt r = Inr r) (sm_receipts m)" using n by (simp add: list_all_length)
  qed (use l in auto)
qed

subsection \<open>From the session to the release gate\<close>

lemma session_criticality_gate:
  assumes "verify_session_criticality pow s = Inr c"
  shows "gate_decide_verified pow p (sn_reliability s) c =
    gate_decide pow p (sn_reliability s) (int (sum_list (map critical_violations (sn_trials s))))"
  using assms
  by (auto simp: verify_session_criticality_def session_critical_violations_def issue_criticality_def rbind_Inr
      gate_decide_verified_def)

lemma session_report:
  assumes "validate_session pow s = Inr ()"
  shows "\<exists>expected. report_from_verdicts pow (map rt_verdict (sn_trials s)) (rl_k (sn_reliability s))
      (rl_confidence_z (sn_reliability s)) = Inr expected \<and> \<not> report_differs (sn_reliability s) expected \<and>
    validate_report pow (sn_reliability s) = Inr (sn_reliability s)"
proof -
  from assms obtain r expected where r: "validate_report pow (sn_reliability s) = Inr r"
    "report_from_verdicts pow (map rt_verdict (sn_trials s)) (rl_k r) (rl_confidence_z r) = Inr expected"
    "\<not> report_differs r expected"
    by (auto simp: validate_session_def rbind_Inr split: if_splits)
  with validate_report_id [OF r(1)] show ?thesis by auto
qed

lemma session_checked:
  assumes "check_trials subject scenario cid i seen ts = Inr u"
  shows "distinct (map (\<lambda>t. te_trial_id (rt_evidence t)) ts) \<and>
    set (map (\<lambda>t. te_trial_id (rt_evidence t)) ts) \<inter> set seen = {} \<and>
    list_all (\<lambda>t. te_subject_identity (rt_evidence t) = subject \<and> te_scenario_identity (rt_evidence t) = scenario) ts"
  using assms
proof (induction ts arbitrary: i seen)
  case (Cons t ts)
  then have "check_trials subject scenario cid (Suc i) (te_trial_id (rt_evidence t) # seen) ts = Inr u"
    "te_trial_id (rt_evidence t) \<notin> set seen" "te_subject_identity (rt_evidence t) = subject"
    "te_scenario_identity (rt_evidence t) = scenario"
    by (auto simp: Let_def rbind_Inr raise_if_Inr_iff)
  with Cons.IH [of "Suc i" "te_trial_id (rt_evidence t) # seen"] show ?case by auto
qed simp

lemma session_named:
  assumes "validate_session pow s = Inr ()" "sn_campaign_id s = Some cid"
  shows "session_ids s = campaign_ids cid (length (sn_trials s))"
proof -
  have "check_trials a b (Some cid) i seen ts = Inr u \<Longrightarrow>
      map (\<lambda>t. te_trial_id (rt_evidence t)) ts = map (\<lambda>k. campaign_trial_id cid (int k)) [i..<i + length ts]"
    for a b i seen and ts :: "'a evaluated_trial list" and u
  proof (induction ts arbitrary: i seen)
    case (Cons t ts)
    then have "check_trials a b (Some cid) (Suc i) (te_trial_id (rt_evidence t) # seen) ts = Inr u"
      "te_trial_id (rt_evidence t) = campaign_trial_id cid (int i)"
      by (auto simp: Let_def rbind_Inr raise_if_Inr_iff)
    with Cons.IH [of "Suc i"] show ?case by (simp add: upt_conv_Cons del: upt_Suc)
  qed simp
  moreover have "check_trials (sn_subject_identity s) (sn_scenario_identity s) (Some cid) 0 [] (sn_trials s) = Inr ()"
    using assms by (auto simp: validate_session_def rbind_Inr split: if_splits)
  ultimately show ?thesis by (simp add: session_ids_def campaign_ids_def)
qed

lemma unverified_no_receipts:
  "validate_session pow s = Inr () \<Longrightarrow> sn_independence_status s \<noteq> VERIFIED \<Longrightarrow> sn_reset_receipts s = []"
  by (auto simp: validate_session_def validate_session_reset_def rbind_Inr split: if_splits)

lemma session_criticality_valid: "verify_session_criticality pow s = Inr c \<Longrightarrow> validate_session pow s = Inr ()"
  by (auto simp: verify_session_criticality_def rbind_Inr)

lemma session_criticality_roots: "verify_session_criticality pow s = Inr c \<Longrightarrow>
    cr_trial_evidence_roots c = map completion_evidence_root (sn_trials s)"
  by (auto simp: verify_session_criticality_def issue_criticality_def rbind_Inr session_roots_def)

end
