(* ===== verification/SampleSession.thy ===== *)
theory SampleSession
  imports ReleaseProofs SessionProofs Sample
begin

section \<open>A sample campaign for the release gates\<close>

text \<open>
  Three trials, two of them passed, at one standard deviation. The floats are computed by the
  simplifier, one operation at a time; the power is the identity, which is exact for
  \<open>k = 1\<close>.
\<close>

lemmas fl_eval =
  Let_def fl_ratio_def fl_dyadic_def fl_of_int_def int_ratio_def nlog2.simps isqrt.simps align_def PyFloat.signed_def
  fl_sub_def fl_0_def fl_1_def fl_2_def fl_4_def ratio10_def

lemma sample_steps:
  "fl_of_int 3 = FFin False 6755399441055744 (-51)"
  "int_ratio 2 3 = FFin False 6004799503160661 (-53)"
  "fl_1 = FFin False 4503599627370496 (-52)"
  "fl_2 = FFin False 4503599627370496 (-51)"
  "fl_4 = FFin False 4503599627370496 (-50)"
  "fl_0 = FFin False 0 0"
  "fl_mul (FFin False 4503599627370496 (-52)) (FFin False 4503599627370496 (-52)) = FFin False 4503599627370496 (-52)"
  "fl_div (FFin False 4503599627370496 (-52)) (FFin False 6755399441055744 (-51)) = FFin False 6004799503160661 (-54)"
  "fl_add (FFin False 4503599627370496 (-52)) (FFin False 6004799503160661 (-54)) = FFin False 6004799503160661 (-52)"
  "fl_mul (FFin False 4503599627370496 (-51)) (FFin False 6755399441055744 (-51)) = FFin False 6755399441055744 (-50)"
  "fl_div (FFin False 4503599627370496 (-52)) (FFin False 6755399441055744 (-50)) = FFin False 6004799503160661 (-55)"
  "fl_add (FFin False 6004799503160661 (-53)) (FFin False 6004799503160661 (-55)) = FFin False 7505999378950826 (-53)"
  "fl_div (FFin False 7505999378950826 (-53)) (FFin False 6004799503160661 (-52)) = FFin False 5629499534213120 (-53)"
  "fl_sub (FFin False 4503599627370496 (-52)) (FFin False 6004799503160661 (-53)) = FFin False 6004799503160662 (-54)"
  "fl_mul (FFin False 6004799503160661 (-53)) (FFin False 6004799503160662 (-54)) = FFin False 8006399337547549 (-55)"
  "fl_div (FFin False 8006399337547549 (-55)) (FFin False 6755399441055744 (-51)) = FFin False 5337599558365033 (-56)"
  "fl_mul (FFin False 4503599627370496 (-50)) (FFin False 6755399441055744 (-51)) = FFin False 6755399441055744 (-49)"
  "fl_mul (FFin False 6755399441055744 (-49)) (FFin False 6755399441055744 (-51)) = FFin False 5066549580791808 (-47)"
  "fl_div (FFin False 4503599627370496 (-52)) (FFin False 5066549580791808 (-47)) = FFin False 8006399337547548 (-58)"
  "fl_add (FFin False 5337599558365033 (-56)) (FFin False 8006399337547548 (-58)) = FFin False 7339199392751920 (-56)"
  "fl_sqrt (FFin False 7339199392751920 (-56)) = FFin False 5749157820967808 (-54)"
  "fl_mul (FFin False 4503599627370496 (-52)) (FFin False 5749157820967808 (-54)) = FFin False 5749157820967808 (-54)"
  "fl_div (FFin False 5749157820967808 (-54)) (FFin False 6004799503160661 (-52)) = FFin False 8623736731451712 (-55)"
  "fl_sub (FFin False 5629499534213120 (-53)) (FFin False 8623736731451712 (-55)) = FFin False 6947130702700384 (-54)"
  "fl_add (FFin False 5629499534213120 (-53)) (FFin False 8623736731451712 (-55)) = FFin False 7785433717076048 (-53)"
  "fl_sub (FFin False 4503599627370496 (-52)) (FFin False 6004799503160662 (-54)) = FFin False 6004799503160661 (-53)"
  by (simp_all add: fl_eval fl_le_def cong: let_weak_cong prod.case_cong_weak)

abbreviation z1 :: pyfloat where
  "z1 \<equiv> FFin False 4503599627370496 (-52)"

definition pow_id :: "pyfloat \<Rightarrow> int \<Rightarrow> pyfloat" where
  "pow_id x k = x"

definition sample_verdicts :: "verdict list" where
  "sample_verdicts = [PASS, PASS, FAIL]"

definition sample_metrics :: reliability_metrics where
  "sample_metrics =
     \<lparr>rm_success_rate = FFin False 6004799503160661 (-53), rm_wilson_low = FFin False 6947130702700384 (-54),
      rm_wilson_high = FFin False 7785433717076048 (-53), rm_pass_at_k = FFin False 6004799503160661 (-53),
      rm_pass_power_k = FFin False 6004799503160661 (-53)\<rparr>"

definition sample_report :: reliability_report where
  "sample_report =
     \<lparr>rl_trials = 3, rl_resolved_trials = 3, rl_passes = 2, rl_failures = 1, rl_blocked = 0, rl_inconclusive = 0,
      rl_metrics = sample_metrics, rl_k = 1, rl_confidence_z = z1\<rparr>"

text \<open>A policy the sample meets, and one whose success rate it misses.\<close>

definition sample_release_policy :: release_policy where
  "sample_release_policy = \<lparr>rp_min_resolved_trials = 3, rp_min_success_rate = fl_0, rp_min_wilson_low = fl_0,
     rp_max_critical_violations = 0, rp_max_blocked_trials = 0, rp_max_inconclusive_trials = 0\<rparr>"

text \<open>From here on the operations are known on the values of the sample only.\<close>

lemmas fl_ops = fl_mul.simps fl_div.simps fl_add.simps fl_sqrt.simps fl_lt.simps fl_neg.simps

lemma sample_compare:
  "fl_le (FFin False 4503599627370496 (-52)) (FFin False 0 0) = False" "fl_le fl_0 fl_0" "fl_le fl_0 fl_1"
  "fl_lt (FFin False 0 0) (FFin False 6947130702700384 (-54))"
  "fl_lt (FFin False 4503599627370496 (-52)) (FFin False 7785433717076048 (-53)) = False"
  "fl_lt (FFin False 7785433717076048 (-53)) (FFin False 4503599627370496 (-52))"
  "fl_lt (FFin False 6004799503160661 (-53)) (FFin False 0 0) = False"
  "fl_lt (FFin False 6947130702700384 (-54)) (FFin False 0 0) = False"
  by (simp_all add: sample_steps fl_le_def align_def PyFloat.signed_def Let_def)

lemma sample_wilson: "wilson_interval 2 3 z1 = Inr (rm_wilson_low sample_metrics, rm_wilson_high sample_metrics)"
  by (simp add: wilson_interval_def validate_confidence_z_def sample_metrics_def Let_def fl_max_def fl_min_def
      sample_steps sample_compare del: fl_ops)

lemma sample_derived: "derive_metrics pow_id 2 3 1 z1 = Inr sample_metrics"
  by (simp add: derive_metrics_def validate_reliability_k_def max_reliability_k_def sample_wilson pow_id_def
      sample_steps Let_def del: fl_ops) (simp add: sample_metrics_def)

lemma sample_valid: "validate_report pow_id sample_report = Inr sample_report"
  by (simp add: validate_report_def sample_report_def count_guards_def max_statistical_trials_def
      validate_reliability_k_def max_reliability_k_def validate_confidence_z_def sum_guards_def recomputed_guards_def
      metric_values_def sample_derived sample_steps sample_compare del: fl_ops)
    (simp add: sample_metrics_def sample_steps sample_compare align_def del: fl_ops)

lemma sample_from_verdicts: "report_from_verdicts pow_id sample_verdicts 1 z1 = Inr sample_report"
  using sample_valid
  by (simp add: report_from_verdicts_def sample_verdicts_def validate_vector_def max_statistical_trials_def
      validate_reliability_k_def max_reliability_k_def validate_confidence_z_def no_trials_def Let_def
      sample_derived sample_report_def sample_steps sample_compare del: fl_ops)

lemma sample_release_policy_fields: "release_policy_fields sample_release_policy"
  by (simp add: release_policy_fields_def sample_release_policy_def fl_unit_def sample_compare)

lemma sample_gate: "gate_decide pow_id sample_release_policy sample_report 0 = Inr \<lparr>gr_decision = GAccept, gr_reasons = []\<rparr>"
  by (simp add: gate_decide_Inr sample_valid hard_failures_def gate_uncertainty_def reasons_of_def gate_result_of_def)
    (simp add: sample_release_policy_def sample_report_def sample_metrics_def sample_steps sample_compare del: fl_ops)

definition sample_slice :: slice_evidence where
  "sample_slice = \<lparr>sl_slice_id = ''billing'', sl_risk_family = ''money'', sl_reliability = sample_report,
     sl_critical_violations = 0\<rparr>"

lemma sample_slices:
  "slice_decide pow_id sample_release_policy [''money''] [sample_slice] = Inr
     \<lparr>sg_decision = GAccept, sg_worst_slice = ''billing'',
      sg_family_results = [\<lparr>rf_risk_family = ''money'', rf_decision = GAccept, rf_worst_slice = ''billing'', rf_reasons = []\<rparr>],
      sg_reasons = []\<rparr>"
  by (simp add: slice_decide_def max_statistical_trials_def sample_slice_def sample_gate families_of_def
      missing_families_def family_result_def combine_def member_reasons_def worst_of_def make_family_result_def
      validate_label_def label_ok_def max_label_def py_strip_def py_space_def overall_decision_def
      make_slice_result_def Let_def)

section \<open>Sample sessions\<close>

text \<open>
  Trials of the sample scenario that were blocked: two of them in a campaign with a reset
  control, and one alone.
\<close>

definition blocked_sample :: "int \<Rightarrow> unit evaluated_trial" where
  "blocked_sample i = \<lparr>rt_evidence = sample_evidence\<lparr>te_trial_id := campaign_trial_id ''c'' i\<rparr>,
     rt_oracle_results = [], rt_verdict = BLOCKED, rt_semantic_judgment = None\<rparr>"

definition blocked_metrics :: reliability_metrics where
  "blocked_metrics = \<lparr>rm_success_rate = fl_0, rm_wilson_low = fl_0, rm_wilson_high = fl_1, rm_pass_at_k = fl_0,
     rm_pass_power_k = fl_0\<rparr>"

definition blocked_report :: "int \<Rightarrow> reliability_report" where
  "blocked_report n = \<lparr>rl_trials = n, rl_resolved_trials = 0, rl_passes = 0, rl_failures = 0, rl_blocked = n,
     rl_inconclusive = 0, rl_metrics = blocked_metrics, rl_k = 1, rl_confidence_z = z1\<rparr>"

lemma sample_units: "isfinite fl_0" "isfinite fl_1" "fl_eq fl_0 fl_0" "fl_eq fl_1 fl_1" "isfinite z1" "\<not> fl_le z1 fl_0"
    "fl_eq z1 z1"
  by (simp_all add: sample_steps(3,6) sample_compare align_def)

lemma blocked_derived: "derive_metrics pow_id 0 0 1 z1 = Inr blocked_metrics"
  by (simp add: derive_metrics_def validate_reliability_k_def max_reliability_k_def blocked_metrics_def)

lemma blocked_report_valid:
  assumes "0 \<le> n" "n \<le> 10"
  shows "validate_report pow_id (blocked_report n) = Inr (blocked_report n)"
  using assms
  by (simp add: validate_report_def blocked_report_def count_guards_def max_statistical_trials_def
      validate_reliability_k_def max_reliability_k_def validate_confidence_z_def sum_guards_def recomputed_guards_def
      metric_values_def blocked_derived sample_units del: isfinite.simps)
    (simp add: blocked_metrics_def sample_units del: isfinite.simps)

lemma blocked_from_verdicts:
  "report_from_verdicts pow_id [BLOCKED] 1 z1 = Inr (blocked_report 1)"
  "report_from_verdicts pow_id [BLOCKED, BLOCKED] 1 z1 = Inr (blocked_report 2)"
  using blocked_report_valid [of 1] blocked_report_valid [of 2]
  by (simp_all add: report_from_verdicts_def validate_vector_def max_statistical_trials_def validate_reliability_k_def
      max_reliability_k_def validate_confidence_z_def no_trials_def Let_def blocked_derived sample_units blocked_report_def
      del: isfinite.simps)

definition sample_campaign_of :: campaign where
  "sample_campaign_of = \<lparr>cp_campaign_id = ''c'', cp_subject_identity = subject_identity sample_subject,
     cp_scenario_identity = scenario_identity sample_scenario, cp_runtime_adapter_name = ''plain'',
     cp_subject_adapter = ''a'', cp_subject_adapter_version = ''1''\<rparr>"

definition unsealed_reset :: reset_receipt where
  "unsealed_reset = \<lparr>rr_context = reset_context_of sample_campaign_of 1 (campaign_trial_id ''c'' 0) (campaign_trial_id ''c'' 1)
       (completion_evidence_root (blocked_sample 0)),
     rr_strategy_name = ''fresh'', rr_strategy_version = ''1'', rr_control_evidence_identity = zeros, rr_receipt_root = []\<rparr>"

definition sample_reset :: reset_receipt where
  "sample_reset = unsealed_reset\<lparr>rr_receipt_root := reset_root unsealed_reset\<rparr>"

definition sample_session :: "unit session_result" where
  "sample_session = \<lparr>sn_subject_identity = subject_identity sample_subject,
     sn_scenario_identity = scenario_identity sample_scenario, sn_trials = [blocked_sample 0, blocked_sample 1],
     sn_reliability = blocked_report 2, sn_campaign_id = Some ''c'', sn_independence_status = VERIFIED,
     sn_independence_basis = None, sn_runtime_adapter_name = Some ''plain'', sn_subject_adapter = Some ''a'',
     sn_subject_adapter_version = Some ''1'', sn_reset_strategy_name = Some ''fresh'',
     sn_reset_strategy_version = Some ''1'', sn_reset_receipts = [sample_reset], sn_sampling = None\<rparr>"

definition single_session :: "unit session_result" where
  "single_session = sample_session\<lparr>sn_trials := [blocked_sample 0], sn_reliability := blocked_report 1,
     sn_independence_status := UNVERIFIED, sn_reset_strategy_name := None, sn_reset_strategy_version := None,
     sn_reset_receipts := []\<rparr>"

lemma char_of_49: "char_of (49 :: nat) = CHR ''1''"
proof -
  have "(of_char (CHR ''1'') :: nat) = 49" by simp
  then show ?thesis by (metis char_of_char)
qed

lemma zero_padded_digit: "zero_padded 4 [c] = ''000'' @ [c]"
  by (simp add: zero_padded_def numeral_eq_Suc)

lemma trial_id_texts: "campaign_trial_id ''c'' 0 = ''campaign:c:attempt:0000''" "campaign_trial_id ''c'' 1 = ''campaign:c:attempt:0001''"
  by (simp_all add: campaign_trial_id_def zero_padded_digit nat_str.simps digit_char_def char_of_48 char_of_49)

lemma sample_reset_root: "reset_root sample_reset = reset_root unsealed_reset"
  by (simp add: reset_root_def reset_material_def reset_dict_def sample_reset_def Let_def)

lemma sample_reset_created:
  "create_reset_receipt (reset_context_of sample_campaign_of 1 (campaign_trial_id ''c'' 0) (campaign_trial_id ''c'' 1)
     (completion_evidence_root (blocked_sample 0))) ''fresh'' ''1'' zeros = Inr sample_reset"
proof -
  have "validate_reset_receipt sample_reset = Inr sample_reset"
    by (simp add: validate_reset_receipt_def reset_relations_def reset_fields_def sample_reset_root raise_if_append Let_def)
      (simp add: sample_reset_def unsealed_reset_def reset_context_of_def sample_campaign_of_def trial_id_texts text_field_def
        bounded_text_def campaign_name_def ascii_alnum_def int_field_def sha_field_def trimmed_field_def py_strip_def py_space_def
        subject_identity_def scenario_identity_def completion_evidence_root_def evidence_root_def reset_root_def)
  then show ?thesis
    by (simp add: create_reset_receipt_def sample_reset_def unsealed_reset_def Let_def)
qed

lemma sample_trials_checked:
  "check_trials (subject_identity sample_subject) (scenario_identity sample_scenario) (Some ''c'') 0 []
     [blocked_sample 0, blocked_sample 1] = Inr ()"
  "check_trials (subject_identity sample_subject) (scenario_identity sample_scenario) (Some ''c'') 0 []
     [blocked_sample 0] = Inr ()"
  by (simp_all add: blocked_sample_def sample_evidence_def completion_evidence_root_def trial_id_texts Let_def)

lemma sample_provenance: "validate_adapter_provenance (Some ''plain'') (Some ''a'') (Some ''1'') = Inr ()"
  by (simp add: validate_adapter_provenance_def adapter_name_guards_def adapter_text_guards_def py_strip_def py_space_def)

lemma sample_campaign_name: "validate_campaign_id ''c'' = Inr ()"
  by (simp add: validate_campaign_id_def campaign_name_def ascii_alnum_def)

lemma blocked_differs: "\<not> report_differs (blocked_report 1) (blocked_report 1)" "\<not> report_differs (blocked_report 2) (blocked_report 2)"
  by (rule report_same [OF blocked_report_valid]; simp add: blocked_report_def)+

lemma sample_session_reset: "validate_session_reset sample_session = Inr ()"
  using sample_reset_created
  by (simp add: validate_session_reset_def sample_session_def verify_reset_sequence_def session_ids_def session_roots_def
      reset_step_def sample_campaign_of_def [symmetric] blocked_sample_def [of 0, symmetric])
    (simp add: blocked_sample_def sample_reset_def unsealed_reset_def)

lemma blocked_verdict: "rt_verdict (blocked_sample i) = BLOCKED"
  by (simp add: blocked_sample_def)

lemma sample_session_valid: "validate_session pow_id sample_session = Inr ()"
proof -
  have s: "sn_trials sample_session = [blocked_sample 0, blocked_sample 1]" "sn_reliability sample_session = blocked_report 2"
    "sn_campaign_id sample_session = Some ''c''" "sn_independence_status sample_session = VERIFIED"
    "sn_independence_basis sample_session = None" "sn_sampling sample_session = None"
    "sn_runtime_adapter_name sample_session = Some ''plain''" "sn_subject_adapter sample_session = Some ''a''"
    "sn_subject_adapter_version sample_session = Some ''1''" "sn_subject_identity sample_session = subject_identity sample_subject"
    "sn_scenario_identity sample_session = scenario_identity sample_scenario"
    by (simp_all add: sample_session_def)
  have b: "rl_k (blocked_report 2) = 1" "rl_confidence_z (blocked_report 2) = z1" by (simp_all add: blocked_report_def)
  show ?thesis
    using sample_session_reset
    by (simp add: validate_session_def s b sample_campaign_name validate_independence_def sample_provenance
        sample_trials_checked blocked_report_valid blocked_verdict blocked_from_verdicts blocked_differs del: check_trials.simps)
qed

lemma single_session_valid: "validate_session pow_id single_session = Inr ()"
proof -
  have s: "sn_trials single_session = [blocked_sample 0]" "sn_reliability single_session = blocked_report 1"
    "sn_campaign_id single_session = Some ''c''" "sn_independence_status single_session = UNVERIFIED"
    "sn_independence_basis single_session = None" "sn_sampling single_session = None"
    "sn_runtime_adapter_name single_session = Some ''plain''" "sn_subject_adapter single_session = Some ''a''"
    "sn_subject_adapter_version single_session = Some ''1''" "sn_subject_identity single_session = subject_identity sample_subject"
    "sn_scenario_identity single_session = scenario_identity sample_scenario"
    "sn_reset_strategy_name single_session = None" "sn_reset_strategy_version single_session = None"
    "sn_reset_receipts single_session = []"
    by (simp_all add: single_session_def sample_session_def)
  have b: "rl_k (blocked_report 1) = 1" "rl_confidence_z (blocked_report 1) = z1" by (simp_all add: blocked_report_def)
  show ?thesis
    by (simp add: validate_session_def s b sample_campaign_name validate_independence_def sample_provenance
        sample_trials_checked blocked_report_valid blocked_verdict blocked_from_verdicts blocked_differs
        validate_session_reset_def del: check_trials.simps)
qed

lemma single_session_criticality: "\<exists>c. verify_session_criticality pow_id single_session = Inr c"
proof -
  have "finite_json (report_json (blocked_report 1))"
    by (simp add: report_json_def blocked_report_def blocked_metrics_def sample_units sample_steps(3,6))
  then obtain t where t: "report_sha256 pow_id (blocked_report 1) = Inr (sha256_hex t)"
    by (auto simp: report_sha256_def blocked_report_valid checked_dumps_def)
  have s: "sn_trials single_session = [blocked_sample 0]" "sn_reliability single_session = blocked_report 1"
    "sn_subject_identity single_session = subject_identity sample_subject"
    "sn_scenario_identity single_session = scenario_identity sample_scenario"
    by (simp_all add: single_session_def sample_session_def)
  show ?thesis
    by (simp add: verify_session_criticality_def session_critical_violations_def single_session_valid s t issue_criticality_def
        require_sha256_def session_roots_def subject_identity_def scenario_identity_def completion_evidence_root_def
        evidence_root_def Let_def)
qed

lemma single_not_refused:
  "\<not> refused sample_release_policy (sn_reliability single_session)
     (int (sum_list (map critical_violations (sn_trials single_session))))"
proof -
  have "events_of POLICY_VIOLATION (rt_evidence (blocked_sample 0)) = []"
    by (simp add: blocked_sample_def sample_evidence_def events_of_def)
  then have "critical_violations (blocked_sample 0) = 0"
    by (simp add: critical_violations_def) (simp add: blocked_sample_def)
  then show ?thesis
    by (simp add: refused_def single_session_def sample_session_def blocked_report_def sample_release_policy_def)
qed

subsection \<open>A session that runs\<close>

definition sample_request :: session_request where
  "sample_request = \<lparr>sq_trials = 2, sq_k = 1, sq_campaign_id = Some ''c'', sq_fresh_id = [],
     sq_independence_status = UNVERIFIED, sq_independence_basis = None, sq_reset_control = None,
     sq_randomness_status = UNKNOWN_RANDOMNESS, sq_randomness_basis = None, sq_randomness_control = None,
     sq_adapter_name = ''plain''\<rparr>"

lemma sample_request_plain: "plain_request sample_request"
  by (simp add: plain_request_def sample_request_def)

lemma sample_request_guards: "request_guards sample_request = Inr ''c''"
  by (simp add: request_guards_def sample_request_def resolve_campaign_id_def sample_campaign_name validate_independence_def
      validate_reset_request_def validate_randomness_request_def adapter_name_guards_def py_strip_def py_space_def)

definition plain_report :: reliability_report where
  "plain_report = (blocked_report 2)\<lparr>rl_confidence_z := default_confidence_z\<rparr>"

definition plain_plan_of :: session_plan where
  "plain_plan_of = \<lparr>pl_campaign = sample_campaign_of, pl_reset = None, pl_randomness = None\<rparr>"

definition plain_session :: "unit session_result" where
  "plain_session = session_of sample_request plain_plan_of
     \<lparr>ss_trials = [blocked_sample 0, blocked_sample 1], ss_reset_receipts = [], ss_randomness_receipts = []\<rparr>
     plain_report (sampling_of sample_request plain_plan_of [])"

lemma default_z: "default_confidence_z = FFin False 8826893070434180 (-52)"
  by (simp add: default_confidence_z_def fl_eval cong: let_weak_cong prod.case_cong_weak)

lemma default_z_positive: "isfinite default_confidence_z" "\<not> fl_le default_confidence_z fl_0"
  by (simp_all add: default_z fl_le_def fl_0_def align_def PyFloat.signed_def)

lemma plain_report_valid: "validate_report pow_id plain_report = Inr plain_report"
  by (simp add: validate_report_def plain_report_def blocked_report_def count_guards_def max_statistical_trials_def
      validate_reliability_k_def max_reliability_k_def validate_confidence_z_def sum_guards_def recomputed_guards_def
      metric_values_def derive_metrics_def default_z_positive sample_units del: isfinite.simps)
    (simp add: blocked_metrics_def sample_units del: isfinite.simps)

lemma plain_from_verdicts: "report_from_verdicts pow_id [BLOCKED, BLOCKED] 1 default_confidence_z = Inr plain_report"
  using plain_report_valid
  by (simp add: report_from_verdicts_def validate_vector_def max_statistical_trials_def validate_reliability_k_def
      max_reliability_k_def validate_confidence_z_def no_trials_def Let_def derive_metrics_def default_z_positive
      plain_report_def blocked_report_def blocked_metrics_def del: isfinite.simps)

lemma plain_request_plan: "plan_session sample_request ''c'' sample_subject sample_scenario = Inr plain_plan_of"
proof -
  have "sf_adapter sample_subject = ''a''" "sf_adapter_version sample_subject = ''1''" by (simp_all add: sample_subject_def)
  then show ?thesis
    unfolding plain_plan [OF sample_request_plain] adapter_named_def
    using sample_provenance by (simp add: plain_plan_of_def sample_campaign_of_def sample_request_def)
qed

lemma plain_sampling: "validate_sampling (sampling_of sample_request plain_plan_of []) = Inr (sampling_of sample_request plain_plan_of [])"
  by (simp add: validate_sampling_def sampling_of_def sampling_fields_def int_field_def optional_text_def policy_guards_def
      stopping_guards_def randomness_guards_def strategy_present_def strategy_missing_def sample_request_def plain_plan_of_def)

lemma plain_session_valid_sample: "validate_session pow_id plain_session = Inr ()"
proof -
  have s: "sn_trials plain_session = [blocked_sample 0, blocked_sample 1]" "sn_reliability plain_session = plain_report"
    "sn_campaign_id plain_session = Some ''c''" "sn_independence_status plain_session = UNVERIFIED"
    "sn_independence_basis plain_session = None"
    "sn_sampling plain_session = Some (sampling_of sample_request plain_plan_of [])"
    "sn_runtime_adapter_name plain_session = Some ''plain''" "sn_subject_adapter plain_session = Some ''a''"
    "sn_subject_adapter_version plain_session = Some ''1''" "sn_subject_identity plain_session = subject_identity sample_subject"
    "sn_scenario_identity plain_session = scenario_identity sample_scenario"
    "sn_reset_strategy_name plain_session = None" "sn_reset_strategy_version plain_session = None"
    "sn_reset_receipts plain_session = []"
    by (simp_all add: plain_session_def session_of_def plain_plan_of_def sample_campaign_of_def sample_request_def)
  have b: "rl_k plain_report = 1" "rl_confidence_z plain_report = default_confidence_z"
    by (simp_all add: plain_report_def blocked_report_def)
  have d: "\<not> report_differs plain_report plain_report"
    by (rule report_same [OF plain_report_valid]) (simp add: b default_z_positive del: isfinite.simps)
  have m: "verify_session_sampling (sampling_of sample_request plain_plan_of []) x a b y z w (session_ids plain_session) = Inr ()"
    for x a b y z w
    by (simp add: verify_session_sampling_def plain_sampling session_ids_def s)
      (simp add: sampling_of_def sample_request_def)
  show ?thesis
    by (simp add: validate_session_def s b sample_campaign_name validate_independence_def sample_provenance
        sample_trials_checked plain_report_valid blocked_verdict plain_from_verdicts d m
        validate_session_reset_def del: check_trials.simps)
qed

lemma plain_session_run:
  "run_session pow_id (\<lambda>i sf s id. Inr (blocked_sample (int i))) sample_subject sample_scenario sample_request = Inr plain_session"
proof -
  have f: "finish_session pow_id sample_request plain_plan_of
      \<lparr>ss_trials = [blocked_sample 0, blocked_sample 1], ss_reset_receipts = [], ss_randomness_receipts = []\<rparr> = Inr plain_session"
    using plain_session_valid_sample
    by (simp add: finish_session_def blocked_verdict plain_from_verdicts plain_sampling plain_session_def
        sample_request_def [THEN arg_cong [where f = sq_k], simplified])
  have a: "attempts (\<lambda>i id. Inr (blocked_sample (int i))) plain_plan_of [0..<nat (sq_trials sample_request)] no_attempts =
      Inr \<lparr>ss_trials = [blocked_sample 0, blocked_sample 1], ss_reset_receipts = [], ss_randomness_receipts = []\<rparr>"
    by (rule attempts_plain) (simp_all add: plain_plan_of_def attempts_kept_def sample_request_def numeral_eq_Suc)
  show ?thesis
    by (simp add: run_session_def sample_request_guards snapshot_subject_def snapshot_scenario_def sample_subject_valid
        sample_scenario_valid plain_request_plan a f)
qed

end
