(* ===== verification/Chaos.thy ===== *)
theory Chaos
  imports Recomputed
begin

section \<open>Environment chaos (\<open>runtime/chaos.py\<close>)\<close>

text \<open>
  Disturbances that an evaluator injected are counted by outcome and judged against ceilings; a
  campaign is complete when every required domain was disturbed within bounds and nothing was
  blocked, whatever the subject did.
\<close>

datatype chaos_domain = CHAOS_CLOCK | CHAOS_DNS | CHAOS_FILESYSTEM | CHAOS_NETWORK | CHAOS_CREDENTIAL_EXPIRY
  | CHAOS_LATENCY | CHAOS_RESOURCE_PRESSURE

fun domain_value :: "chaos_domain \<Rightarrow> string" where
  "domain_value CHAOS_CLOCK = ''clock''"
| "domain_value CHAOS_DNS = ''dns''"
| "domain_value CHAOS_FILESYSTEM = ''filesystem''"
| "domain_value CHAOS_NETWORK = ''network''"
| "domain_value CHAOS_CREDENTIAL_EXPIRY = ''credential-expiry''"
| "domain_value CHAOS_LATENCY = ''latency''"
| "domain_value CHAOS_RESOURCE_PRESSURE = ''resource-pressure''"

text \<open>The domains by their values.\<close>

definition all_domains :: "chaos_domain list" where
  "all_domains = [CHAOS_CLOCK, CHAOS_CREDENTIAL_EXPIRY, CHAOS_DNS, CHAOS_FILESYSTEM, CHAOS_LATENCY, CHAOS_NETWORK,
     CHAOS_RESOURCE_PRESSURE]"

datatype chaos_outcome = CHAOS_RECOVERED | CHAOS_SUBJECT_FAILURE | CHAOS_BLOCKED

fun chaos_outcome_value :: "chaos_outcome \<Rightarrow> string" where
  "chaos_outcome_value CHAOS_RECOVERED = ''recovered''"
| "chaos_outcome_value CHAOS_SUBJECT_FAILURE = ''subject-failure''"
| "chaos_outcome_value CHAOS_BLOCKED = ''blocked''"

record chaos_policy =
  xp_required_domains :: "chaos_domain set"
  xp_max_recovery_ticks :: int
  xp_max_resource_bytes :: int
  xp_require_secret_suppression :: bool

record chaos_observation =
  xo_domain :: chaos_domain
  xo_injection_id :: string
  xo_injected :: bool
  xo_outcome :: chaos_outcome
  xo_recovery_ticks :: "int option"
  xo_resource_peak_bytes :: int
  xo_secret_exposed :: bool
  xo_error_code :: "string option"

record chaos_receipt =
  xr_policy :: chaos_policy
  xr_observations :: "chaos_observation list"
  xr_covered_domains :: "chaos_domain list"
  xr_recovered :: int
  xr_subject_failures :: int
  xr_blocked :: int
  xr_complete :: bool
  xr_receipt_root :: string

definition chaos_policy_schema :: string where
  "chaos_policy_schema = ''agent-evals/chaos-policy/v1''"

definition chaos_observation_schema :: string where
  "chaos_observation_schema = ''agent-evals/chaos-observation/v1''"

definition chaos_receipt_schema :: string where
  "chaos_receipt_schema = ''agent-evals/chaos-receipt/v1''"

definition chaos_root_domain :: string where
  "chaos_root_domain = ''agent-evals/chaos-receipt/v1'' @ [CHR 0x00]"

definition max_chaos_bytes :: int where
  "max_chaos_bytes = 64 * 1024 * 1024 * 1024"

definition validate_chaos_policy :: "chaos_policy \<Rightarrow> error + unit" where
  "validate_chaos_policy p = raise_if
     (int_field ''max_recovery_ticks'' 1 (Some 10000000) (xp_max_recovery_ticks p)
      @ int_field ''max_resource_bytes'' 1 (Some max_chaos_bytes) (xp_max_resource_bytes p))"

definition chaos_outcome_guards :: "chaos_observation \<Rightarrow> (bool \<times> error) list" where
  "chaos_outcome_guards x =
     [(\<not> xo_injected x, verr ''chaos observation must prove disturbance injection''),
      (xo_outcome x = CHAOS_RECOVERED \<and> xo_recovery_ticks x = None,
       verr ''recovered chaos observation requires recovery ticks''),
      (xo_outcome x = CHAOS_RECOVERED \<and> xo_error_code x \<noteq> None,
       verr ''recovered chaos observation cannot carry evaluator error code''),
      (xo_outcome x = CHAOS_BLOCKED \<and> xo_error_code x = None,
       verr ''BLOCKED chaos observation requires evaluator error code'')]"

definition validate_chaos_observation :: "chaos_observation \<Rightarrow> error + unit" where
  "validate_chaos_observation x = raise_if
     (name_field ''injection_id'' (xo_injection_id x)
      @ opt_int_field ''recovery_ticks'' 0 (Some 10000001) (xo_recovery_ticks x)
      @ int_field ''resource_peak_bytes'' 0 (Some (max_chaos_bytes + 1)) (xo_resource_peak_bytes x)
      @ opt_name_field ''error_code'' ''._-'' 1 127 (xo_error_code x) @ chaos_outcome_guards x)"

subsection \<open>The judgment\<close>

definition covered_domains :: "chaos_observation list \<Rightarrow> chaos_domain list" where
  "covered_domains xs = covered all_domains (map xo_domain xs)"

definition outcomes_of :: "chaos_outcome \<Rightarrow> chaos_observation list \<Rightarrow> int" where
  "outcomes_of v xs = int (length (filter (\<lambda>x. xo_outcome x = v) xs))"

definition chaos_bounded :: "chaos_policy \<Rightarrow> chaos_observation \<Rightarrow> bool" where
  "chaos_bounded p x \<longleftrightarrow>
     xo_resource_peak_bytes x \<le> xp_max_resource_bytes p \<and>
     (case xo_recovery_ticks x of None \<Rightarrow> True | Some t \<Rightarrow> t \<le> xp_max_recovery_ticks p) \<and>
     (\<not> xp_require_secret_suppression p \<or> \<not> xo_secret_exposed x)"

definition chaos_complete :: "chaos_policy \<Rightarrow> chaos_observation list \<Rightarrow> bool" where
  "chaos_complete p xs \<longleftrightarrow>
     xp_required_domains p \<subseteq> set (covered_domains xs) \<and> list_all (chaos_bounded p) xs \<and> outcomes_of CHAOS_BLOCKED xs = 0"

definition chaos_policy_json :: "chaos_policy \<Rightarrow> json" where
  "chaos_policy_json p = JObj
     [(''schema_version'', JStr chaos_policy_schema),
      (''required_domains'', JArr (map JStr (py_sorted (domain_value ` xp_required_domains p)))),
      (''max_recovery_ticks'', JInt (xp_max_recovery_ticks p)), (''max_resource_bytes'', JInt (xp_max_resource_bytes p)),
      (''require_secret_suppression'', JBool (xp_require_secret_suppression p))]"

definition chaos_observation_json :: "chaos_observation \<Rightarrow> json" where
  "chaos_observation_json x = JObj
     [(''schema_version'', JStr chaos_observation_schema), (''domain'', JStr (domain_value (xo_domain x))),
      (''injection_id'', JStr (xo_injection_id x)), (''injected'', JBool (xo_injected x)),
      (''outcome'', JStr (chaos_outcome_value (xo_outcome x))), (''recovery_ticks'', opt_int (xo_recovery_ticks x)),
      (''resource_peak_bytes'', JInt (xo_resource_peak_bytes x)), (''secret_exposed'', JBool (xo_secret_exposed x)),
      (''error_code'', opt_str (xo_error_code x))]"

definition chaos_material :: "chaos_receipt \<Rightarrow> json" where
  "chaos_material r = JObj
     [(''schema_version'', JStr chaos_receipt_schema), (''policy'', chaos_policy_json (xr_policy r)),
      (''observations'', JArr (map chaos_observation_json (xr_observations r))),
      (''covered_domains'', JArr (map (JStr \<circ> domain_value) (xr_covered_domains r))),
      (''recovered'', JInt (xr_recovered r)), (''subject_failures'', JInt (xr_subject_failures r)),
      (''blocked'', JInt (xr_blocked r)), (''qualification_complete'', JBool (xr_complete r))]"

definition chaos_root :: "chaos_receipt \<Rightarrow> string" where
  "chaos_root r = domain_root chaos_root_domain (chaos_material r)"

definition chaos_fields :: "chaos_receipt \<Rightarrow> error + unit" where
  "chaos_fields r = raise_if
     (count_field ''observations'' 1 100000 (xr_observations r) @ int_field ''recovered'' 0 None (xr_recovered r)
      @ int_field ''subject_failures'' 0 None (xr_subject_failures r) @ int_field ''blocked'' 0 None (xr_blocked r)
      @ sha_field ''receipt_root'' (xr_receipt_root r))"

definition chaos_summary :: "chaos_policy \<times> chaos_observation list \<Rightarrow> chaos_receipt" where
  "chaos_summary = (\<lambda>(p, xs).
     let r = \<lparr>xr_policy = p, xr_observations = xs, xr_covered_domains = covered_domains xs,
              xr_recovered = outcomes_of CHAOS_RECOVERED xs, xr_subject_failures = outcomes_of CHAOS_SUBJECT_FAILURE xs,
              xr_blocked = outcomes_of CHAOS_BLOCKED xs, xr_complete = chaos_complete p xs, xr_receipt_root = []\<rparr>
     in r\<lparr>xr_receipt_root := chaos_root r\<rparr>)"

definition check_chaos :: "chaos_policy \<times> chaos_observation list \<Rightarrow> error + unit" where
  "check_chaos = (\<lambda>(p, xs). checks
     [validate_chaos_policy p, rfor validate_chaos_observation xs,
      raise_if [(\<not> distinct (map xo_injection_id xs), vale ''chaos injection IDs must be unique'')]])"

definition create_chaos :: "chaos_policy \<times> chaos_observation list \<Rightarrow> error + chaos_receipt" where
  "create_chaos = sealed_create check_chaos chaos_fields chaos_summary"

definition chaos_inputs :: "chaos_receipt \<Rightarrow> chaos_policy \<times> chaos_observation list" where
  "chaos_inputs r = (xr_policy r, xr_observations r)"

definition chaos_derived :: "chaos_receipt \<Rightarrow> (chaos_domain list \<times> int \<times> int \<times> int \<times> bool) \<times> string" where
  "chaos_derived r = ((xr_covered_domains r, xr_recovered r, xr_subject_failures r, xr_blocked r, xr_complete r),
     xr_receipt_root r)"

definition chaos_mismatch ::
  "(chaos_domain list \<times> int \<times> int \<times> int \<times> bool) \<times> string \<Rightarrow> (chaos_domain list \<times> int \<times> int \<times> int \<times> bool) \<times> string \<Rightarrow> string" where
  "chaos_mismatch d e =
     (if fst d \<noteq> fst e then ''chaos assurance receipt metrics do not recompute''
      else ''chaos assurance receipt root mismatch'')"

definition verify_chaos :: "chaos_receipt \<Rightarrow> error + chaos_receipt" where
  "verify_chaos = verify_recomputed chaos_fields create_chaos chaos_inputs chaos_derived chaos_mismatch"

interpretation chaos_receipts: summarised check_chaos chaos_fields chaos_summary chaos_inputs chaos_derived chaos_mismatch
  create_chaos verify_chaos
  by unfold_locales
    (auto simp: create_chaos_def verify_chaos_def chaos_summary_def chaos_inputs_def chaos_derived_def Let_def)

subsection \<open>What a complete campaign shows\<close>

lemma covered_domains_set [simp]: "set (covered_domains xs) = xo_domain ` set xs"
proof -
  have "d \<in> set all_domains" for d by (cases d) (simp_all add: all_domains_def)
  then show ?thesis by (auto simp: covered_domains_def covered_def)
qed

lemma outcomes_none: "outcomes_of v xs = 0 \<longleftrightarrow> list_all (\<lambda>x. xo_outcome x \<noteq> v) xs"
  by (simp add: outcomes_of_def filter_empty_conv list_all_iff)

text \<open>The three counts leave no observation out.\<close>

lemma outcomes_total:
  "outcomes_of CHAOS_RECOVERED xs + outcomes_of CHAOS_SUBJECT_FAILURE xs + outcomes_of CHAOS_BLOCKED xs = int (length xs)"
proof (induction xs)
  case (Cons x xs)
  then show ?case by (cases "xo_outcome x") (simp_all add: outcomes_of_def)
qed (simp add: outcomes_of_def)

text \<open>A campaign is complete when every required domain was disturbed and every disturbance stayed in its
  bounds and was not blocked.\<close>

definition chaos_contained :: "chaos_policy \<Rightarrow> chaos_observation \<Rightarrow> bool" where
  "chaos_contained p x \<longleftrightarrow> xo_injected x \<and> xo_outcome x \<noteq> CHAOS_BLOCKED \<and>
     xo_resource_peak_bytes x \<le> xp_max_resource_bytes p \<and>
     (xo_outcome x = CHAOS_RECOVERED \<longrightarrow> (\<exists>t. xo_recovery_ticks x = Some t \<and> t \<le> xp_max_recovery_ticks p)) \<and>
     (xp_require_secret_suppression p \<longrightarrow> \<not> xo_secret_exposed x)"

lemma complete_contained:
  assumes "rfor validate_chaos_observation xs = Inr ()" "chaos_complete p xs"
  shows "list_all (chaos_contained p) xs \<and> xp_required_domains p \<subseteq> xo_domain ` set xs"
proof -
  have "chaos_contained p x" if "x \<in> set xs" for x
  proof -
    have v: "validate_chaos_observation x = Inr ()" "chaos_bounded p x" "xo_outcome x \<noteq> CHAOS_BLOCKED"
      using assms that by (auto simp: list_all_iff rfor_Inr chaos_complete_def outcomes_none)
    from v(1) have "xo_injected x" "xo_outcome x = CHAOS_RECOVERED \<longrightarrow> xo_recovery_ticks x \<noteq> None"
      by (auto simp: validate_chaos_observation_def chaos_outcome_guards_def raise_if_Inr_iff)
    with v(2,3) show ?thesis by (cases "xo_recovery_ticks x") (simp_all add: chaos_contained_def chaos_bounded_def)
  qed
  then show ?thesis using assms(2) by (auto simp: list_all_iff chaos_complete_def)
qed

end
