(* ===== verification/McpRemote.thy ===== *)
theory McpRemote
  imports Recomputed
begin

section \<open>Hosted MCP servers (\<open>mcp/advanced.py\<close>)\<close>

text \<open>
  A hosted endpoint is probed over HTTPS; what a probe met is classified as a condition. A campaign
  of probes qualifies the endpoint when every required condition was observed and the healthy
  observations stay within its limits. Hostile servers are judged by whether the evaluator stopped
  them within its budget. The parts of a URL are those of \<open>urllib.parse.urlsplit\<close>, an argument
  of the endpoint's validator.
\<close>

datatype remote_condition = HEALTHY | TLS_FAILURE | DNS_FAILURE | PROXY_FAILURE | GATEWAY_FAILURE | LATENCY_LIMIT
  | DISCONNECT | STREAM_INTERRUPTION | RATE_LIMIT | OVERSIZED_RESPONSE | HANG_TIMEOUT | PROTOCOL_TRICKERY
  | RESOURCE_PRESSURE

fun condition_value :: "remote_condition \<Rightarrow> string" where
  "condition_value HEALTHY = ''healthy''"
| "condition_value TLS_FAILURE = ''tls-failure''"
| "condition_value DNS_FAILURE = ''dns-failure''"
| "condition_value PROXY_FAILURE = ''proxy-failure''"
| "condition_value GATEWAY_FAILURE = ''gateway-failure''"
| "condition_value LATENCY_LIMIT = ''latency-limit''"
| "condition_value DISCONNECT = ''disconnect''"
| "condition_value STREAM_INTERRUPTION = ''stream-interruption''"
| "condition_value RATE_LIMIT = ''rate-limit''"
| "condition_value OVERSIZED_RESPONSE = ''oversized-response''"
| "condition_value HANG_TIMEOUT = ''hang-timeout''"
| "condition_value PROTOCOL_TRICKERY = ''protocol-trickery''"
| "condition_value RESOURCE_PRESSURE = ''resource-pressure''"

text \<open>The conditions by their values.\<close>

definition all_conditions :: "remote_condition list" where
  "all_conditions = [DISCONNECT, DNS_FAILURE, GATEWAY_FAILURE, HANG_TIMEOUT, HEALTHY, LATENCY_LIMIT, OVERSIZED_RESPONSE,
     PROTOCOL_TRICKERY, PROXY_FAILURE, RATE_LIMIT, RESOURCE_PRESSURE, STREAM_INTERRUPTION, TLS_FAILURE]"

lemma all_conditions_all [simp]: "c \<in> set all_conditions"
  by (cases c) (simp_all add: all_conditions_def)

subsection \<open>The endpoint and its policy\<close>

record url_parts =
  up_scheme :: string
  up_hostname :: "string option"
  up_username :: "string option"
  up_password :: "string option"
  up_fragment :: string

type_synonym url_split = "string \<Rightarrow> error + url_parts"

record hosted_endpoint =
  he_endpoint_id :: string
  he_url :: string
  he_expected_server_identity :: string
  he_protocol_version :: string
  he_proxy_url :: "string option"
  he_gateway_identity :: "string option"
  he_timeout_ms :: int
  he_max_latency_ms :: int
  he_max_response_bytes :: int
  he_max_stream_frames :: int

definition endpoint_schema :: string where
  "endpoint_schema = ''agent-evals/mcp-hosted-endpoint/v1''"

definition protocol_version_now :: string where
  "protocol_version_now = ''2026-07-28''"

definition max_response_size :: int where
  "max_response_size = 64 * 1024 * 1024"

definition no_host :: "url_parts \<Rightarrow> bool" where
  "no_host u \<longleftrightarrow> up_hostname u = None \<or> up_hostname u = Some []"

definition require_https :: "url_split \<Rightarrow> string \<Rightarrow> error + unit" where
  "require_https split value = rbind (as_validation (split value)) (\<lambda>u. raise_if
     [(up_scheme u \<noteq> ''https'' \<or> no_host u, verr ''hosted MCP endpoint must be an absolute https URL''),
      (up_username u \<noteq> None \<or> up_password u \<noteq> None, verr ''hosted MCP endpoint URL must not embed credentials''),
      (up_fragment u \<noteq> [], verr ''hosted MCP endpoint URL must not contain a fragment'')])"

definition validate_proxy :: "url_split \<Rightarrow> string option \<Rightarrow> error + unit" where
  "validate_proxy split value = (case value of None \<Rightarrow> Inr ()
     | Some v \<Rightarrow> rbind (as_validation (split v)) (\<lambda>u. raise_if
         [(up_scheme u \<notin> {''http'', ''https''} \<or> no_host u, verr ''MCP proxy URL must be an absolute http/https URL''),
          (up_username u \<noteq> None \<or> up_password u \<noteq> None, verr ''MCP proxy URL must not embed credentials'')]))"

definition endpoint_fields :: "hosted_endpoint \<Rightarrow> (bool \<times> error) list" where
  "endpoint_fields e =
     name_field ''endpoint_id'' (he_endpoint_id e) @ text_field ''url'' 2048 (he_url e)
     @ text_field ''expected_server_identity'' 256 (he_expected_server_identity e)
     @ text_field ''protocol_version'' 64 (he_protocol_version e)
     @ (case he_proxy_url e of None \<Rightarrow> [] | Some v \<Rightarrow> [(length v > 2048, verr ''proxy_url: length'')])
     @ opt_text_field ''gateway_identity'' 256 (he_gateway_identity e)
     @ int_field ''timeout_ms'' 100 (Some 120000) (he_timeout_ms e)
     @ int_field ''max_latency_ms'' 1 (Some 120000) (he_max_latency_ms e)
     @ int_field ''max_response_bytes'' 1 (Some max_response_size) (he_max_response_bytes e)
     @ int_field ''max_stream_frames'' 1 (Some 100000) (he_max_stream_frames e)"

definition validate_endpoint :: "url_split \<Rightarrow> hosted_endpoint \<Rightarrow> error + unit" where
  "validate_endpoint split e = checks
     [raise_if (endpoint_fields e), require_https split (he_url e), validate_proxy split (he_proxy_url e)]"

definition endpoint_json :: "hosted_endpoint \<Rightarrow> json" where
  "endpoint_json e = JObj
     [(''schema_version'', JStr endpoint_schema), (''endpoint_id'', JStr (he_endpoint_id e)), (''url'', JStr (he_url e)),
      (''expected_server_identity'', JStr (he_expected_server_identity e)),
      (''protocol_version'', JStr (he_protocol_version e)), (''proxy_url'', opt_str (he_proxy_url e)),
      (''gateway_identity'', opt_str (he_gateway_identity e)), (''timeout_ms'', JInt (he_timeout_ms e)),
      (''max_latency_ms'', JInt (he_max_latency_ms e)), (''max_response_bytes'', JInt (he_max_response_bytes e)),
      (''max_stream_frames'', JInt (he_max_stream_frames e))]"

definition endpoint_identity :: "hosted_endpoint \<Rightarrow> string" where
  "endpoint_identity e = domain_root (''agent-evals/mcp-hosted-endpoint/v1'' @ [CHR 0x00]) (endpoint_json e)"

record remote_policy =
  mp_required_conditions :: "remote_condition set"
  mp_require_tls :: bool
  mp_require_dns :: bool

definition remote_policy_schema :: string where
  "remote_policy_schema = ''agent-evals/mcp-remote-policy/v1''"

definition validate_remote_policy :: "remote_policy \<Rightarrow> error + unit" where
  "validate_remote_policy p = raise_if
     [(HEALTHY \<notin> mp_required_conditions p, verr ''remote MCP policy must require a healthy baseline'')]"

definition conditions_json :: "remote_condition set \<Rightarrow> json" where
  "conditions_json cs = JArr (map JStr (py_sorted (condition_value ` cs)))"

definition remote_policy_json :: "remote_policy \<Rightarrow> json" where
  "remote_policy_json p = JObj
     [(''schema_version'', JStr remote_policy_schema), (''required_conditions'', conditions_json (mp_required_conditions p)),
      (''require_tls_on_healthy'', JBool (mp_require_tls p)), (''require_dns_on_healthy'', JBool (mp_require_dns p))]"

subsection \<open>Observations\<close>

record remote_observation =
  ro_endpoint_identity :: string
  ro_condition :: remote_condition
  ro_dns_resolved :: bool
  ro_tls_verified :: bool
  ro_connected :: bool
  ro_latency_ms :: int
  ro_http_status :: "int option"
  ro_response_bytes :: int
  ro_stream_frames :: int
  ro_complete :: bool
  ro_protocol_valid :: bool
  ro_server_identity :: "string option"
  ro_retry_after_ms :: "int option"
  ro_error_code :: "string option"

definition remote_observation_schema :: string where
  "remote_observation_schema = ''agent-evals/mcp-remote-observation/v1''"

definition successful_status :: "int option \<Rightarrow> bool" where
  "successful_status s \<longleftrightarrow> (case s of None \<Rightarrow> False | Some n \<Rightarrow> 200 \<le> n \<and> n < 300)"

definition condition_shape :: "remote_observation \<Rightarrow> (bool \<times> error) list" where
  "condition_shape x =
     [(ro_condition x = HEALTHY \<and> (\<not> ro_complete x \<or> \<not> ro_protocol_valid x \<or> \<not> ro_connected x),
       verr ''healthy hosted MCP observation must complete a valid protocol response''),
      (ro_condition x = HEALTHY \<and> \<not> successful_status (ro_http_status x),
       verr ''healthy hosted MCP observation requires a 2xx HTTP status''),
      (ro_condition x = HEALTHY \<and> ro_server_identity x = None,
       verr ''healthy hosted MCP observation requires server identity''),
      (ro_condition x = HEALTHY \<and> ro_error_code x \<noteq> None,
       verr ''healthy hosted MCP observation cannot carry an error code''),
      (ro_condition x \<noteq> HEALTHY \<and> ro_error_code x = None,
       verr ''faulted hosted MCP observation requires a bounded error code''),
      (ro_condition x = RATE_LIMIT \<and> ro_http_status x \<noteq> Some 429, verr ''rate-limit observation must bind HTTP 429''),
      (ro_condition x = TLS_FAILURE \<and> ro_tls_verified x, verr ''TLS-failure observation cannot claim verified TLS''),
      (ro_condition x = DNS_FAILURE \<and> ro_dns_resolved x,
       verr ''DNS-failure observation cannot claim successful resolution'')]"

definition remote_observation_fields :: "remote_observation \<Rightarrow> (bool \<times> error) list" where
  "remote_observation_fields x =
     sha_field ''endpoint_identity'' (ro_endpoint_identity x)
     @ int_field ''latency_ms'' 0 (Some 120000) (ro_latency_ms x)
     @ opt_int_field ''http_status'' 100 (Some 599) (ro_http_status x)
     @ int_field ''response_bytes'' 0 (Some (max_response_size + 1)) (ro_response_bytes x)
     @ int_field ''stream_frames'' 0 (Some 100001) (ro_stream_frames x)
     @ (case ro_server_identity x of None \<Rightarrow> [] | Some v \<Rightarrow> [(length v > 256, verr ''observed_server_identity: length'')])
     @ opt_int_field ''retry_after_ms'' 0 (Some 86400000) (ro_retry_after_ms x)
     @ opt_name_field ''error_code'' ''._-'' 1 127 (ro_error_code x)"

definition validate_remote_observation :: "remote_observation \<Rightarrow> error + unit" where
  "validate_remote_observation x = raise_if (remote_observation_fields x @ condition_shape x)"

definition remote_observation_json :: "remote_observation \<Rightarrow> json" where
  "remote_observation_json x = JObj
     [(''schema_version'', JStr remote_observation_schema), (''endpoint_identity'', JStr (ro_endpoint_identity x)),
      (''condition'', JStr (condition_value (ro_condition x))), (''dns_resolved'', JBool (ro_dns_resolved x)),
      (''tls_verified'', JBool (ro_tls_verified x)), (''connected'', JBool (ro_connected x)),
      (''latency_ms'', JInt (ro_latency_ms x)), (''http_status'', opt_int (ro_http_status x)),
      (''response_bytes'', JInt (ro_response_bytes x)), (''stream_frames'', JInt (ro_stream_frames x)),
      (''complete'', JBool (ro_complete x)), (''protocol_valid'', JBool (ro_protocol_valid x)),
      (''observed_server_identity'', opt_str (ro_server_identity x)), (''retry_after_ms'', opt_int (ro_retry_after_ms x)),
      (''error_code'', opt_str (ro_error_code x))]"

subsection \<open>The remote receipt\<close>

record remote_inputs =
  ri_endpoint :: hosted_endpoint
  ri_policy :: remote_policy
  ri_observations :: "remote_observation list"

record remote_receipt =
  rm_inputs :: remote_inputs
  rm_covered :: "remote_condition list"
  rm_accepted :: bool
  rm_receipt_root :: string

definition remote_receipt_schema :: string where
  "remote_receipt_schema = ''agent-evals/mcp-remote-receipt/v1''"

definition remote_domain :: string where
  "remote_domain = ''agent-evals/mcp-remote-receipt/v1'' @ [CHR 0x00]"

definition healthy_observations :: "remote_observation list \<Rightarrow> remote_observation list" where
  "healthy_observations = filter (\<lambda>x. ro_condition x = HEALTHY)"

definition remote_accepted :: "remote_inputs \<Rightarrow> bool" where
  "remote_accepted i \<longleftrightarrow>
     (let e = ri_endpoint i; p = ri_policy i; xs = ri_observations i; healthy = healthy_observations xs in
      mp_required_conditions p \<subseteq> set (covered all_conditions (map ro_condition xs)) \<and> 1 \<le> length healthy \<and>
      list_all (\<lambda>x. ro_latency_ms x \<le> he_max_latency_ms e) healthy \<and>
      list_all (\<lambda>x. ro_response_bytes x \<le> he_max_response_bytes e) xs \<and>
      list_all (\<lambda>x. ro_stream_frames x \<le> he_max_stream_frames e) xs \<and>
      list_all (\<lambda>x. ro_server_identity x = Some (he_expected_server_identity e)) healthy \<and>
      (\<not> mp_require_tls p \<or> list_all ro_tls_verified healthy) \<and>
      (\<not> mp_require_dns p \<or> list_all ro_dns_resolved healthy))"

definition remote_material :: "remote_receipt \<Rightarrow> json" where
  "remote_material r = JObj
     [(''schema_version'', JStr remote_receipt_schema), (''endpoint'', endpoint_json (ri_endpoint (rm_inputs r))),
      (''policy'', remote_policy_json (ri_policy (rm_inputs r))),
      (''observations'', JArr (map remote_observation_json (ri_observations (rm_inputs r)))),
      (''covered_conditions'', JArr (map (JStr \<circ> condition_value) (rm_covered r))), (''accepted'', JBool (rm_accepted r))]"

definition remote_root :: "remote_receipt \<Rightarrow> string" where
  "remote_root r = domain_root remote_domain (remote_material r)"

definition remote_fields :: "remote_receipt \<Rightarrow> error + unit" where
  "remote_fields r = raise_if
     ((ri_observations (rm_inputs r) = [], verr ''observations: length'') # sha_field ''receipt_root'' (rm_receipt_root r))"

definition remote_summary :: "remote_inputs \<Rightarrow> remote_receipt" where
  "remote_summary i =
     (let r = \<lparr>rm_inputs = i, rm_covered = covered all_conditions (map ro_condition (ri_observations i)),
               rm_accepted = remote_accepted i, rm_receipt_root = []\<rparr>
      in r\<lparr>rm_receipt_root := remote_root r\<rparr>)"

definition check_remote_observation :: "hosted_endpoint \<Rightarrow> remote_observation \<Rightarrow> error + unit" where
  "check_remote_observation e x = checks
     [validate_remote_observation x,
      raise_if [(ro_endpoint_identity x \<noteq> endpoint_identity e, vale ''hosted MCP observation endpoint identity mismatch'')]]"

definition check_remote :: "url_split \<Rightarrow> remote_inputs \<Rightarrow> error + unit" where
  "check_remote split i = checks
     [validate_endpoint split (ri_endpoint i), validate_remote_policy (ri_policy i),
      rfor (check_remote_observation (ri_endpoint i)) (ri_observations i)]"

definition create_remote :: "url_split \<Rightarrow> remote_inputs \<Rightarrow> error + remote_receipt" where
  "create_remote split = sealed_create (check_remote split) remote_fields remote_summary"

definition remote_derived :: "remote_receipt \<Rightarrow> remote_condition list \<times> bool \<times> string" where
  "remote_derived r = (rm_covered r, rm_accepted r, rm_receipt_root r)"

definition remote_mismatch ::
  "remote_condition list \<times> bool \<times> string \<Rightarrow> remote_condition list \<times> bool \<times> string \<Rightarrow> string" where
  "remote_mismatch d e = ''hosted MCP receipt does not recompute''"

definition verify_remote :: "url_split \<Rightarrow> remote_receipt \<Rightarrow> error + remote_receipt" where
  "verify_remote split = verify_recomputed remote_fields (create_remote split) rm_inputs remote_derived remote_mismatch"

interpretation remote_receipts: summarised "check_remote split" remote_fields remote_summary rm_inputs remote_derived
  remote_mismatch "create_remote split" "verify_remote split"
  for split
  by unfold_locales (auto simp: create_remote_def verify_remote_def remote_summary_def remote_derived_def Let_def)

subsection \<open>Hostile servers\<close>

record hostile_budget =
  hb_required_conditions :: "remote_condition set"
  hb_max_response_bytes :: int
  hb_max_duration_ms :: int
  hb_max_protocol_messages :: int

record hostile_observation =
  ho_condition :: remote_condition
  ho_response_bytes :: int
  ho_duration_ms :: int
  ho_protocol_messages :: int
  ho_terminated :: bool
  ho_escaped :: bool

record hostile_receipt =
  hs_budget :: hostile_budget
  hs_observations :: "hostile_observation list"
  hs_covered :: "remote_condition list"
  hs_accepted :: bool
  hs_receipt_root :: string

definition hostile_schema :: string where
  "hostile_schema = ''agent-evals/mcp-hostile-server-receipt/v1''"

definition hostile_domain :: string where
  "hostile_domain = ''agent-evals/mcp-hostile-server-receipt/v1'' @ [CHR 0x00]"

definition hostile_conditions :: "remote_condition set" where
  "hostile_conditions = {OVERSIZED_RESPONSE, HANG_TIMEOUT, PROTOCOL_TRICKERY, RESOURCE_PRESSURE}"

definition validate_hostile_budget :: "hostile_budget \<Rightarrow> error + unit" where
  "validate_hostile_budget b = raise_if
     (int_field ''max_response_bytes'' 1 (Some max_response_size) (hb_max_response_bytes b)
      @ int_field ''max_duration_ms'' 1 (Some 120000) (hb_max_duration_ms b)
      @ int_field ''max_protocol_messages'' 1 (Some 100000) (hb_max_protocol_messages b)
      @ [(hb_required_conditions b = {} \<or> \<not> hb_required_conditions b \<subseteq> hostile_conditions,
          verr ''hostile-server budget requires supported hostile condition coverage'')])"

definition validate_hostile_observation :: "hostile_observation \<Rightarrow> error + unit" where
  "validate_hostile_observation x = raise_if
     (int_field ''response_bytes'' 0 (Some (max_response_size + 1)) (ho_response_bytes x)
      @ int_field ''duration_ms'' 0 (Some 120001) (ho_duration_ms x)
      @ int_field ''protocol_messages'' 0 (Some 100001) (ho_protocol_messages x)
      @ [(ho_condition x \<notin> hostile_conditions, verr ''hostile-server observation uses unsupported condition'')])"

definition hostile_contained :: "hostile_budget \<Rightarrow> hostile_observation \<Rightarrow> bool" where
  "hostile_contained b x \<longleftrightarrow>
     ho_terminated x \<and> \<not> ho_escaped x \<and>
     (ho_response_bytes x \<le> hb_max_response_bytes b \<or> ho_condition x = OVERSIZED_RESPONSE) \<and>
     (ho_duration_ms x \<le> hb_max_duration_ms b \<or> ho_condition x = HANG_TIMEOUT) \<and>
     (ho_protocol_messages x \<le> hb_max_protocol_messages b \<or> ho_condition x \<in> {PROTOCOL_TRICKERY, RESOURCE_PRESSURE})"

definition hostile_accepted :: "hostile_budget \<Rightarrow> hostile_observation list \<Rightarrow> bool" where
  "hostile_accepted b xs \<longleftrightarrow>
     hb_required_conditions b \<subseteq> set (covered all_conditions (map ho_condition xs)) \<and> list_all (hostile_contained b) xs"

definition hostile_budget_json :: "hostile_budget \<Rightarrow> json" where
  "hostile_budget_json b = JObj
     [(''required_conditions'', conditions_json (hb_required_conditions b)),
      (''max_response_bytes'', JInt (hb_max_response_bytes b)), (''max_duration_ms'', JInt (hb_max_duration_ms b)),
      (''max_protocol_messages'', JInt (hb_max_protocol_messages b))]"

definition hostile_observation_json :: "hostile_observation \<Rightarrow> json" where
  "hostile_observation_json x = JObj
     [(''condition'', JStr (condition_value (ho_condition x))), (''response_bytes'', JInt (ho_response_bytes x)),
      (''duration_ms'', JInt (ho_duration_ms x)), (''protocol_messages'', JInt (ho_protocol_messages x)),
      (''terminated_by_evaluator'', JBool (ho_terminated x)), (''escaped_budget'', JBool (ho_escaped x))]"

definition hostile_material :: "hostile_receipt \<Rightarrow> json" where
  "hostile_material r = JObj
     [(''schema_version'', JStr hostile_schema), (''budget'', hostile_budget_json (hs_budget r)),
      (''observations'', JArr (map hostile_observation_json (hs_observations r))),
      (''covered_conditions'', JArr (map (JStr \<circ> condition_value) (hs_covered r))), (''accepted'', JBool (hs_accepted r))]"

definition hostile_root :: "hostile_receipt \<Rightarrow> string" where
  "hostile_root r = domain_root hostile_domain (hostile_material r)"

definition hostile_fields :: "hostile_receipt \<Rightarrow> error + unit" where
  "hostile_fields r = raise_if
     ((hs_observations r = [], verr ''observations: length'') # sha_field ''receipt_root'' (hs_receipt_root r))"

definition hostile_summary :: "hostile_budget \<times> hostile_observation list \<Rightarrow> hostile_receipt" where
  "hostile_summary = (\<lambda>(b, xs).
     let r = \<lparr>hs_budget = b, hs_observations = xs, hs_covered = covered all_conditions (map ho_condition xs),
              hs_accepted = hostile_accepted b xs, hs_receipt_root = []\<rparr>
     in r\<lparr>hs_receipt_root := hostile_root r\<rparr>)"

definition check_hostile :: "hostile_budget \<times> hostile_observation list \<Rightarrow> error + unit" where
  "check_hostile = (\<lambda>(b, xs). checks [validate_hostile_budget b, rfor validate_hostile_observation xs])"

definition create_hostile :: "hostile_budget \<times> hostile_observation list \<Rightarrow> error + hostile_receipt" where
  "create_hostile = sealed_create check_hostile hostile_fields hostile_summary"

definition hostile_inputs :: "hostile_receipt \<Rightarrow> hostile_budget \<times> hostile_observation list" where
  "hostile_inputs r = (hs_budget r, hs_observations r)"

definition hostile_derived :: "hostile_receipt \<Rightarrow> remote_condition list \<times> bool \<times> string" where
  "hostile_derived r = (hs_covered r, hs_accepted r, hs_receipt_root r)"

definition hostile_mismatch ::
  "remote_condition list \<times> bool \<times> string \<Rightarrow> remote_condition list \<times> bool \<times> string \<Rightarrow> string" where
  "hostile_mismatch d e = ''MCP hostile-server receipt does not recompute''"

definition verify_hostile :: "hostile_receipt \<Rightarrow> error + hostile_receipt" where
  "verify_hostile = verify_recomputed hostile_fields create_hostile hostile_inputs hostile_derived hostile_mismatch"

interpretation hostile_receipts: summarised check_hostile hostile_fields hostile_summary hostile_inputs hostile_derived
  hostile_mismatch create_hostile verify_hostile
  by unfold_locales
    (auto simp: create_hostile_def verify_hostile_def hostile_summary_def hostile_inputs_def hostile_derived_def Let_def)

subsection \<open>Qualification\<close>

lemma covered_conditions_set [simp]: "set (covered all_conditions cs) = set cs"
  by (rule covered_set) auto

text \<open>An endpoint qualifies when each required condition was met, and every healthy probe reached the
  expected server in time, over verified TLS and DNS where the policy asks for it.\<close>

definition endpoint_qualifies :: "remote_inputs \<Rightarrow> bool" where
  "endpoint_qualifies i \<longleftrightarrow>
     mp_required_conditions (ri_policy i) \<subseteq> ro_condition ` set (ri_observations i) \<and>
     (\<forall>x\<in>set (ri_observations i). ro_response_bytes x \<le> he_max_response_bytes (ri_endpoint i) \<and>
        ro_stream_frames x \<le> he_max_stream_frames (ri_endpoint i) \<and>
        (ro_condition x = HEALTHY \<longrightarrow>
           ro_latency_ms x \<le> he_max_latency_ms (ri_endpoint i) \<and>
           ro_server_identity x = Some (he_expected_server_identity (ri_endpoint i)) \<and>
           (mp_require_tls (ri_policy i) \<longrightarrow> ro_tls_verified x) \<and> (mp_require_dns (ri_policy i) \<longrightarrow> ro_dns_resolved x)))"

lemma remote_accepted_iff:
  assumes "HEALTHY \<in> mp_required_conditions (ri_policy i)"
  shows "remote_accepted i \<longleftrightarrow> endpoint_qualifies i"
proof -
  have h: "set (healthy_observations xs) = {x \<in> set xs. ro_condition x = HEALTHY}" for xs
    by (auto simp: healthy_observations_def)
  have "1 \<le> length (healthy_observations xs) \<longleftrightarrow> HEALTHY \<in> ro_condition ` set xs" for xs
    by (induction xs) (auto simp: healthy_observations_def)
  then show ?thesis
    using assms unfolding remote_accepted_def endpoint_qualifies_def Let_def list_all_iff h covered_conditions_set set_map
    by auto
qed

end
