(* ===== verification/McpProbe.thy ===== *)
theory McpProbe
  imports McpRemote
begin

section \<open>Probing a hosted server (\<open>probe_hosted_mcp_endpoint\<close>)\<close>

text \<open>
  What the network does with one initialize request is a value of \<open>probe_event\<close>: a response with
  its bytes and what \<open>json.loads\<close> makes of them, or the exception that came out of \<open>urllib\<close>,
  \<open>http.client\<close>, \<open>ssl\<close> or \<open>socket\<close>. The six \<open>except\<close> clauses of the probe have a constructor each;
  every exception that none of them names is an \<open>OtherException\<close>, for instance \<open>http.client\<close>'s
  \<open>BadStatusLine\<close>, \<open>LineTooLong\<close> and \<open>InvalidURL\<close>, an \<open>ssl.SSLError\<close> while the body is read, or a
  \<open>ConnectionAbortedError\<close>. Likewise the probe catches two exceptions of \<open>json.loads\<close> (\<open>Undecodable\<close>)
  and lets the others pass (\<open>DecoderRaised\<close>): \<open>RecursionError\<close> for deep nesting, \<open>ValueError\<close> for an
  integer of more digits than Python converts. The probe turns an event into an observation, or into
  an exception that leaves it: one of a validation, or one it let pass, of which the model keeps the
  class name.
\<close>

datatype body_reading = Decoded json | Undecodable | DecoderRaised string

record http_response =
  hp_status :: int
  hp_raw :: string
  hp_body :: body_reading

datatype url_reason = SSL_ERROR | GAI_ERROR | TIMEOUT_REASON | OTHER_REASON

datatype probe_event =
    Responded http_response
  | HttpFailed int "string option"
  | UrlFailed url_reason
  | StreamInterrupted
  | ConnectionBroken
  | ReadTimedOut
  | OtherException string

datatype probe_failure = Rejected error | Uncaught string

definition elapsed_ms :: "int \<Rightarrow> int \<Rightarrow> int" where
  "elapsed_ms start_ns now_ns = min ((now_ns - start_ns) div 1000000) 120000"

text \<open>\<open>raw.count(b"\n\n")\<close> does not count overlapping occurrences.\<close>

fun blank_lines :: "string \<Rightarrow> nat" where
  "blank_lines (c # d # s) = (if c = CHR 0x0A \<and> d = CHR 0x0A then Suc (blank_lines s) else blank_lines (d # s))"
| "blank_lines _ = 0"

definition stream_frame_count :: "string \<Rightarrow> int" where
  "stream_frame_count raw = (if raw = [] then 0 else max 1 (int (blank_lines raw)))"

text \<open>\<open>int(value)\<close> of a text: surrounding space, one sign, digits in groups joined by single
  underscores, at most 4300 of them.\<close>

definition unsigned_text :: "string \<Rightarrow> int option" where
  "unsigned_text s = (let ds = filter is_digit_char s in
     if list_all (\<lambda>g. g \<noteq> [] \<and> list_all is_digit_char g) (str_split (CHR ''_'') s) \<and> length ds \<le> 4300
     then Some (int (digits_val ds)) else None)"

definition int_of_text :: "string \<Rightarrow> int option" where
  "int_of_text value = (case py_strip value of
       [] \<Rightarrow> None
     | c # s \<Rightarrow> if c = CHR ''-'' then map_option uminus (unsigned_text s)
                else if c = CHR ''+'' then unsigned_text s else unsigned_text (c # s))"

definition parse_retry_after_ms :: "string option \<Rightarrow> int option" where
  "parse_retry_after_ms value = (case value of None \<Rightarrow> None
     | Some v \<Rightarrow> (case int_of_text v of None \<Rightarrow> None
         | Some seconds \<Rightarrow> if seconds < 0 then None else Some (min (seconds * 1000) 86400000)))"

text \<open>An observation that is constructed is validated.\<close>

definition observed :: "remote_observation \<Rightarrow> error + remote_observation" where
  "observed x = rbind (validate_remote_observation x) (\<lambda>_. Inr x)"

text \<open>\<open>_remote_fault\<close>, with the three flags of the connection, the status, bytes and frames of an answer
  and the delay a server asked for.\<close>

definition remote_fault ::
  "hosted_endpoint \<Rightarrow> remote_condition \<Rightarrow> int \<Rightarrow> bool \<Rightarrow> bool \<Rightarrow> bool \<Rightarrow> int option \<Rightarrow> int \<Rightarrow> int \<Rightarrow> int option \<Rightarrow> string
   \<Rightarrow> error + remote_observation" where
  "remote_fault e c latency dns tls connected status bytes frames retry code = observed
     \<lparr>ro_endpoint_identity = endpoint_identity e, ro_condition = c, ro_dns_resolved = dns, ro_tls_verified = tls,
      ro_connected = connected, ro_latency_ms = min latency 120000, ro_http_status = status, ro_response_bytes = bytes,
      ro_stream_frames = frames, ro_complete = False, ro_protocol_valid = False, ro_server_identity = None,
      ro_retry_after_ms = retry, ro_error_code = Some code\<rparr>"

text \<open>\<open>result.serverInfo.name\<close> of a parsed body, with its identifier.\<close>

definition initialize_answer :: "json \<Rightarrow> json option \<times> json option" where
  "initialize_answer parsed = (case parsed of
       JObj d \<Rightarrow> (dict_get d ''id'',
         (case dict_get d ''result'' of
            Some (JObj r) \<Rightarrow> (case dict_get r ''serverInfo'' of Some (JObj s) \<Rightarrow> dict_get s ''name'' | _ \<Rightarrow> None)
          | _ \<Rightarrow> None))
     | _ \<Rightarrow> (None, None))"

definition answered_name :: "json \<Rightarrow> string option" where
  "answered_name parsed = (case initialize_answer parsed of (i, n) \<Rightarrow>
     if \<not> py_eq (opt_json i) (JInt 1) then None
     else (case n of Some (JStr s) \<Rightarrow> if s = [] then None else Some s | _ \<Rightarrow> None))"

definition probe_body :: "hosted_endpoint \<Rightarrow> int \<Rightarrow> body_reading \<Rightarrow> int \<Rightarrow> int \<Rightarrow> int \<Rightarrow> probe_failure + remote_observation" where
  "probe_body e status body elapsed bytes frames =
     (let fault = (\<lambda>c code. map_error Rejected (remote_fault e c elapsed True True True (Some status) bytes frames None code)) in
      if frames > he_max_stream_frames e then fault RESOURCE_PRESSURE ''stream-frame-limit''
      else if elapsed > he_max_latency_ms e then fault LATENCY_LIMIT ''latency-limit''
      else (case body of
          DecoderRaised c \<Rightarrow> Inl (Uncaught c)
        | Undecodable \<Rightarrow> fault PROTOCOL_TRICKERY ''invalid-json''
        | Decoded parsed \<Rightarrow>
            (case answered_name parsed of
               None \<Rightarrow> fault PROTOCOL_TRICKERY ''invalid-initialize-response''
             | Some name \<Rightarrow> map_error Rejected (observed \<lparr>ro_endpoint_identity = endpoint_identity e, ro_condition = HEALTHY,
                 ro_dns_resolved = True, ro_tls_verified = True, ro_connected = True, ro_latency_ms = elapsed,
                 ro_http_status = Some status, ro_response_bytes = bytes, ro_stream_frames = frames,
                 ro_complete = True, ro_protocol_valid = True, ro_server_identity = Some name, ro_retry_after_ms = None,
                 ro_error_code = None\<rparr>))))"

definition probe_response :: "hosted_endpoint \<Rightarrow> http_response \<Rightarrow> int \<Rightarrow> probe_failure + remote_observation" where
  "probe_response e h elapsed =
     (let raw = take (nat (he_max_response_bytes e + 1)) (hp_raw h); size = int (length raw) in
      if size > he_max_response_bytes e
      then map_error Rejected (remote_fault e OVERSIZED_RESPONSE elapsed True True True (Some (hp_status h)) size 0 None
             ''response-too-large'')
      else probe_body e (hp_status h) (hp_body h) elapsed size (stream_frame_count raw))"

definition probe_http_error :: "hosted_endpoint \<Rightarrow> int \<Rightarrow> string option \<Rightarrow> int \<Rightarrow> error + remote_observation" where
  "probe_http_error e code retry_after elapsed =
     (if code = 429
      then remote_fault e RATE_LIMIT elapsed True True True (Some 429) 0 0 (parse_retry_after_ms retry_after) ''rate-limited''
      else remote_fault e (if code \<in> {502, 503, 504} then GATEWAY_FAILURE else PROTOCOL_TRICKERY) elapsed True True True
             (Some code) 0 0 None (''http-'' @ int_str code))"

fun probe_url_error :: "hosted_endpoint \<Rightarrow> url_reason \<Rightarrow> int \<Rightarrow> error + remote_observation" where
  "probe_url_error e SSL_ERROR elapsed = remote_fault e TLS_FAILURE elapsed True False False None 0 0 None ''tls-failure''"
| "probe_url_error e GAI_ERROR elapsed = remote_fault e DNS_FAILURE elapsed False False False None 0 0 None ''dns-failure''"
| "probe_url_error e TIMEOUT_REASON elapsed = remote_fault e HANG_TIMEOUT elapsed True False False None 0 0 None ''timeout''"
| "probe_url_error e OTHER_REASON elapsed =
     (if he_proxy_url e \<noteq> None then remote_fault e PROXY_FAILURE elapsed True False False None 0 0 None ''proxy-failure''
      else remote_fault e DISCONNECT elapsed True False False None 0 0 None ''connection-failure'')"

fun probe_endpoint :: "hosted_endpoint \<Rightarrow> probe_event \<Rightarrow> int \<Rightarrow> probe_failure + remote_observation" where
  "probe_endpoint e (Responded h) elapsed = probe_response e h elapsed"
| "probe_endpoint e (HttpFailed code retry_after) elapsed = map_error Rejected (probe_http_error e code retry_after elapsed)"
| "probe_endpoint e (UrlFailed reason) elapsed = map_error Rejected (probe_url_error e reason elapsed)"
| "probe_endpoint e StreamInterrupted elapsed = map_error Rejected
     (remote_fault e STREAM_INTERRUPTION elapsed True True True None 0 0 None ''stream-interrupted'')"
| "probe_endpoint e ConnectionBroken elapsed = map_error Rejected
     (remote_fault e DISCONNECT elapsed True True False None 0 0 None ''connection-reset'')"
| "probe_endpoint e ReadTimedOut elapsed = map_error Rejected
     (remote_fault e HANG_TIMEOUT elapsed True True True None 0 0 None ''timeout'')"
| "probe_endpoint e (OtherException c) elapsed = Inl (Uncaught c)"

text \<open>The probe as it is called: the endpoint is validated again and the clock read twice.\<close>

definition probe_hosted ::
  "url_split \<Rightarrow> hosted_endpoint \<Rightarrow> (hosted_endpoint \<Rightarrow> probe_event) \<Rightarrow> int \<Rightarrow> int \<Rightarrow> probe_failure + remote_observation" where
  "probe_hosted split e network start_ns now_ns =
     rbind (map_error Rejected (validate_endpoint split e))
       (\<lambda>_. probe_endpoint e (network e) (elapsed_ms start_ns now_ns))"

subsection \<open>What is reported and what escapes\<close>

text \<open>
  The events that leave the probe as an exception: one that no clause catches, from the transport or
  from the decoder; an HTTP status an observation cannot hold, as \<open>http.client\<close> reads any of three
  digits; more frames than an observation counts; and a healthy server with a name that is too long.
  The body is decoded only when frames and latency are within the endpoint's limits.
\<close>

definition reportable_status :: "int \<Rightarrow> bool" where
  "reportable_status status \<longleftrightarrow> 100 \<le> status \<and> status \<le> 599"

definition body_escapes :: "hosted_endpoint \<Rightarrow> int \<Rightarrow> body_reading \<Rightarrow> int \<Rightarrow> int \<Rightarrow> bool" where
  "body_escapes e status body elapsed frames \<longleftrightarrow> frames > 100001 \<or>
     frames \<le> he_max_stream_frames e \<and> elapsed \<le> he_max_latency_ms e \<and>
     (case body of
        DecoderRaised _ \<Rightarrow> True
      | Undecodable \<Rightarrow> False
      | Decoded v \<Rightarrow> (case answered_name v of
            None \<Rightarrow> False
          | Some name \<Rightarrow> 256 < length name \<or> status < 200 \<or> 300 \<le> status))"

definition escapes_probe :: "hosted_endpoint \<Rightarrow> probe_event \<Rightarrow> int \<Rightarrow> bool" where
  "escapes_probe e ev elapsed \<longleftrightarrow> (case ev of
       Responded h \<Rightarrow> \<not> reportable_status (hp_status h) \<or>
         int (length (hp_raw h)) \<le> he_max_response_bytes e \<and>
         body_escapes e (hp_status h) (hp_body h) elapsed (stream_frame_count (hp_raw h))
     | HttpFailed code _ \<Rightarrow> \<not> reportable_status code
     | OtherException _ \<Rightarrow> True
     | _ \<Rightarrow> False)"

lemma endpoint_identity_sha [simp]: "is_sha256 (endpoint_identity e)"
  by (simp add: endpoint_identity_def domain_root_def)

lemma observed_Inr: "(\<exists>y. observed x = Inr y) \<longleftrightarrow> validate_remote_observation x = Inr ()"
  by (auto simp: observed_def rbind_Inr)

lemma stream_frames_bound: "0 \<le> stream_frame_count s"
  by (auto simp: stream_frame_count_def max_def)

text \<open>The texts and numbers of an observation are in range.\<close>

definition in_range :: "remote_observation \<Rightarrow> bool" where
  "in_range x \<longleftrightarrow>
     is_sha256 (ro_endpoint_identity x) \<and> 0 \<le> ro_latency_ms x \<and> ro_latency_ms x \<le> 120000 \<and>
     pred_option (within 100 (Some 599)) (ro_http_status x) \<and>
     0 \<le> ro_response_bytes x \<and> ro_response_bytes x \<le> max_response_size + 1 \<and>
     0 \<le> ro_stream_frames x \<and> ro_stream_frames x \<le> 100001 \<and>
     pred_option (\<lambda>s. length s \<le> 256) (ro_server_identity x) \<and>
     pred_option (within 0 (Some 86400000)) (ro_retry_after_ms x) \<and>
     pred_option (id_pattern ''._-'' 1 127) (ro_error_code x)"

lemma fields_in_range: "raise_if (remote_observation_fields x) = Inr () \<longleftrightarrow> in_range x"
  by (cases "ro_server_identity x")
    (simp_all add: in_range_def remote_observation_fields_def field_ok raise_if_Inr not_less)

lemma validate_remote_iff:
  "validate_remote_observation x = Inr () \<longleftrightarrow> in_range x \<and> raise_if (condition_shape x) = Inr ()"
  by (simp add: validate_remote_observation_def raise_if_append rbind_Inr fields_in_range)

lemma retry_after_range: "pred_option (within 0 (Some 86400000)) (parse_retry_after_ms v)"
  by (auto simp: parse_retry_after_ms_def split: option.splits)

lemma nat_str_short: "n < 1000 \<Longrightarrow> length (nat_str n) \<le> 3"
proof -
  have one: "length (nat_str k) = 1" if "k < 10" for k using that by (subst nat_str.simps) simp
  have two: "length (nat_str k) \<le> 2" if "k < 100" for k
    using that one [of "k div 10"] one [of k] by (subst nat_str.simps) auto
  show "n < 1000 \<Longrightarrow> length (nat_str n) \<le> 3"
    using two [of "n div 10"] one [of n] by (subst nat_str.simps) auto
qed

lemma http_code_pattern:
  assumes "100 \<le> code" "code \<le> 599"
  shows "id_pattern ''._-'' 1 127 (''http-'' @ int_str code)"
proof -
  have "list_all (id_char ''._-'') (nat_str (nat code))"
    using nat_str_digits [of "nat code"] by (auto simp: list_all_iff id_char_def)
  moreover have "length (nat_str (nat code)) \<le> 3" using assms by (intro nat_str_short) simp
  ultimately show ?thesis using assms
    by (simp add: id_pattern_def int_str_def id_char_def is_lower_char_def)
qed

lemmas code_pattern = id_pattern_def id_char_def is_lower_char_def is_digit_char_def

text \<open>A fault is reported unless its frames are too many or its status out of range.\<close>

definition fault_fits :: "remote_condition \<Rightarrow> bool \<Rightarrow> bool \<Rightarrow> int option \<Rightarrow> bool" where
  "fault_fits c dns tls status \<longleftrightarrow> c \<noteq> HEALTHY \<and> (c = RATE_LIMIT \<longrightarrow> status = Some 429) \<and> (c = TLS_FAILURE \<longrightarrow> \<not> tls) \<and>
     (c = DNS_FAILURE \<longrightarrow> \<not> dns)"

lemma fault_reported:
  assumes "0 \<le> elapsed" "0 \<le> bytes" "bytes \<le> max_response_size + 1" "0 \<le> frames" "pred_option (within 0 (Some 86400000)) retry"
    and "fault_fits c dns tls status" "pred_option reportable_status status \<Longrightarrow> id_pattern ''._-'' 1 127 code"
  shows "(\<exists>y. remote_fault e c elapsed dns tls conn status bytes frames retry code = Inr y) \<longleftrightarrow>
    frames \<le> 100001 \<and> pred_option reportable_status status"
proof -
  have "pred_option (within 100 (Some 599)) status \<longleftrightarrow> pred_option reportable_status status"
    by (cases status) (auto simp: reportable_status_def)
  then show ?thesis
    using assms unfolding remote_fault_def observed_Inr validate_remote_iff
    by (auto simp: in_range_def fault_fits_def condition_shape_def raise_if_Inr_iff)
qed

lemma healthy_reported:
  assumes "0 \<le> elapsed" "elapsed \<le> 120000" "0 \<le> bytes" "bytes \<le> max_response_size + 1" "0 \<le> frames" "frames \<le> 100001"
  shows "(\<exists>y. observed \<lparr>ro_endpoint_identity = endpoint_identity e, ro_condition = HEALTHY, ro_dns_resolved = True,
      ro_tls_verified = True, ro_connected = True, ro_latency_ms = elapsed, ro_http_status = Some status,
      ro_response_bytes = bytes, ro_stream_frames = frames, ro_complete = True, ro_protocol_valid = True,
      ro_server_identity = Some name, ro_retry_after_ms = None, ro_error_code = None\<rparr> = Inr y) \<longleftrightarrow>
    length name \<le> 256 \<and> 200 \<le> status \<and> status < 300"
  using assms unfolding observed_Inr validate_remote_iff
  by (auto simp: in_range_def condition_shape_def raise_if_Inr_iff successful_status_def)

text \<open>The bounds of an endpoint that was validated.\<close>

lemma endpoint_bounds:
  assumes "validate_endpoint split e = Inr ()"
  shows "1 \<le> he_max_response_bytes e" "he_max_response_bytes e \<le> max_response_size" "he_max_stream_frames e \<le> 100000"
  using assms by (simp_all add: validate_endpoint_def endpoint_fields_def field_ok)

lemma response_codes:
  "id_pattern ''._-'' 1 127 ''stream-frame-limit''" "id_pattern ''._-'' 1 127 ''latency-limit''"
  "id_pattern ''._-'' 1 127 ''invalid-json''" "id_pattern ''._-'' 1 127 ''invalid-initialize-response''"
  "id_pattern ''._-'' 1 127 ''response-too-large''" "id_pattern ''._-'' 1 127 ''rate-limited''"
  by (simp_all add: code_pattern)

text \<open>The body of a response that is not too large.\<close>

lemma body_reported:
  assumes "he_max_stream_frames e \<le> 100000" "0 \<le> elapsed" "elapsed \<le> 120000"
    and "0 \<le> size'" "size' \<le> max_response_size + 1" "0 \<le> frames"
  shows "(\<exists>x. probe_body e status body elapsed size' frames = Inr x) \<longleftrightarrow>
    reportable_status status \<and> \<not> body_escapes e status body elapsed frames"
proof -
  have fault: "(\<exists>y. remote_fault e c elapsed True True True (Some status) size' frames None s = Inr y) \<longleftrightarrow>
      frames \<le> 100001 \<and> reportable_status status"
    if "c \<in> {RESOURCE_PRESSURE, LATENCY_LIMIT, PROTOCOL_TRICKERY}" "id_pattern ''._-'' 1 127 s" for c s
    using that by (subst fault_reported [OF assms(2,4,5,6)]) (auto simp: fault_fits_def)
  show ?thesis
  proof (cases "frames > he_max_stream_frames e \<or> elapsed > he_max_latency_ms e")
    case True
    then have "(\<exists>x. probe_body e status body elapsed size' frames = Inr x) \<longleftrightarrow> frames \<le> 100001 \<and> reportable_status status"
      using fault [of RESOURCE_PRESSURE, OF _ response_codes(1)] fault [of LATENCY_LIMIT, OF _ response_codes(2)]
      by (cases "frames > he_max_stream_frames e") (simp_all add: probe_body_def result_simps)
    with True show ?thesis by (auto simp: body_escapes_def)
  next
    case False
    then have f: "frames \<le> 100001" using assms(1) by simp
    have undecoded: "(\<exists>x. probe_body e status Undecodable elapsed size' frames = Inr x) \<longleftrightarrow> reportable_status status"
      using False f fault [of PROTOCOL_TRICKERY, OF _ response_codes(3)] by (simp add: probe_body_def result_simps)
    have unnamed: "(\<exists>x. probe_body e status (Decoded v) elapsed size' frames = Inr x) \<longleftrightarrow> reportable_status status"
      if "answered_name v = None" for v
      using False f that fault [of PROTOCOL_TRICKERY, OF _ response_codes(4)] by (simp add: probe_body_def result_simps)
    have named: "(\<exists>x. probe_body e status (Decoded v) elapsed size' frames = Inr x) \<longleftrightarrow>
        length name \<le> 256 \<and> 200 \<le> status \<and> status < 300" if "answered_name v = Some name" for v name
      using False that healthy_reported [OF assms(2-6) f] by (simp add: probe_body_def result_simps)
    have raised: "probe_body e status (DecoderRaised c) elapsed size' frames = Inl (Uncaught c)" for c
      using False by (simp add: probe_body_def result_simps)
    show ?thesis
    proof (cases body)
      case (Decoded v)
      with False f unnamed [of v] named [of v] show ?thesis
        by (cases "answered_name v") (auto simp: body_escapes_def reportable_status_def)
    qed (use False f undecoded raised in \<open>auto simp: body_escapes_def\<close>)
  qed
qed

lemma response_reported:
  assumes "validate_endpoint split e = Inr ()" "0 \<le> elapsed" "elapsed \<le> 120000"
  shows "(\<exists>x. probe_response e h elapsed = Inr x) \<longleftrightarrow> \<not> escapes_probe e (Responded h) elapsed"
proof -
  let ?raw = "take (nat (he_max_response_bytes e + 1)) (hp_raw h)"
  note b = endpoint_bounds [OF assms(1)]
  have size: "0 \<le> int (length ?raw)" "int (length ?raw) \<le> max_response_size + 1" using b by simp_all
  have whole: "int (length ?raw) \<le> he_max_response_bytes e \<longleftrightarrow> int (length (hp_raw h)) \<le> he_max_response_bytes e" using b by auto
  show ?thesis
  proof (cases "int (length ?raw) > he_max_response_bytes e")
    case True
    have "(\<exists>x. probe_response e h elapsed = Inr x) \<longleftrightarrow> reportable_status (hp_status h)"
      unfolding probe_response_def Let_def if_P [OF True]
      using fault_reported [OF assms(2) size _ _ _ response_codes(5)] by (simp add: fault_fits_def result_simps)
    with True whole show ?thesis by (auto simp: escapes_probe_def)
  next
    case False
    then have le: "int (length (hp_raw h)) \<le> he_max_response_bytes e" using whole by linarith
    then have r: "?raw = hp_raw h" using b by simp
    show ?thesis
      unfolding probe_response_def Let_def if_not_P [OF False]
      using body_reported [OF b(3) assms(2-3) size stream_frames_bound] le by (auto simp: escapes_probe_def r)
  qed
qed

lemma probe_reported:
  assumes "validate_endpoint split e = Inr ()" "0 \<le> elapsed" "elapsed \<le> 120000"
  shows "(\<exists>x. probe_endpoint e ev elapsed = Inr x) \<longleftrightarrow> \<not> escapes_probe e ev elapsed"
proof -
  note fault = fault_reported [where elapsed = elapsed and e = e and bytes = 0 and frames = 0, OF assms(2)]
  show ?thesis
  proof (cases ev)
    case (Responded h)
    with response_reported [OF assms] show ?thesis by simp
  next
    case (HttpFailed code retry)
    have "(\<exists>x. probe_http_error e code retry elapsed = Inr x) \<longleftrightarrow> reportable_status code"
    proof (cases "code = 429")
      case True
      with retry_after_range [of retry] fault [OF _ _ _ _ _ response_codes(6)] show ?thesis
        by (simp add: probe_http_error_def fault_fits_def max_response_size_def reportable_status_def)
    next
      case False
      have "reportable_status code \<Longrightarrow> id_pattern ''._-'' 1 127 (''http-'' @ int_str code)"
        using http_code_pattern [of code] by (simp add: reportable_status_def)
      with False show ?thesis
        unfolding probe_http_error_def if_not_P [OF False]
        by (subst fault) (simp_all add: fault_fits_def max_response_size_def)
    qed
    with HttpFailed show ?thesis by (simp add: escapes_probe_def result_simps)
  next
    case (UrlFailed reason)
    then show ?thesis
      by (cases reason) (simp_all add: fault fault_fits_def escapes_probe_def max_response_size_def code_pattern result_simps)
  qed (simp_all add: fault fault_fits_def escapes_probe_def max_response_size_def code_pattern result_simps)
qed

end
