(* ===== verification/McpSurface.thy ===== *)
theory McpSurface
  imports McpRemote "HOL-Library.Multiset"
begin

section \<open>Surfaces of MCP servers (\<open>mcp/advanced.py\<close>)\<close>

text \<open>
  What servers offer and how they are used: capabilities that were exercised, a change of the tool
  list, operations in parallel, tool names that several servers claim. A tuple of names that a
  validator sorts and keeps free of repetitions is a set here.
\<close>

definition names_guards :: "(string \<Rightarrow> error) \<Rightarrow> string \<Rightarrow> string list \<Rightarrow> (bool \<times> error) list" where
  "names_guards mk label ns =
     [(\<not> list_all trimmed_name ns, mk (label @ '' must contain trimmed non-empty names'')),
      (\<not> distinct ns, mk (label @ '' must not contain duplicates''))]"

definition canonical_names :: "(string \<Rightarrow> error) \<Rightarrow> string \<Rightarrow> string list \<Rightarrow> error + string list" where
  "canonical_names mk label ns = rbind (raise_if (names_guards mk label ns)) (\<lambda>_. Inr (sort ns))"

subsection \<open>Capabilities\<close>

datatype capability = RESOURCES | PROMPTS | ROOTS | SUBSCRIPTIONS | ELICITATION | SAMPLING | TASKS | TOOLS_LIST_CHANGED

fun capability_value :: "capability \<Rightarrow> string" where
  "capability_value RESOURCES = ''resources''"
| "capability_value PROMPTS = ''prompts''"
| "capability_value ROOTS = ''roots''"
| "capability_value SUBSCRIPTIONS = ''subscriptions''"
| "capability_value ELICITATION = ''elicitation''"
| "capability_value SAMPLING = ''sampling''"
| "capability_value TASKS = ''tasks''"
| "capability_value TOOLS_LIST_CHANGED = ''tools/list_changed''"

definition all_capabilities :: "capability list" where
  "all_capabilities = [ELICITATION, PROMPTS, RESOURCES, ROOTS, SAMPLING, SUBSCRIPTIONS, TASKS, TOOLS_LIST_CHANGED]"

record capability_snapshot =
  cs_server_identity :: string
  cs_protocol_version :: string
  cs_capabilities :: "capability set"
  cs_revision :: string

record capability_operation =
  co_capability :: capability
  co_operation_id :: string
  co_request_sha256 :: string
  co_response_sha256 :: string
  co_response_bytes :: int
  co_succeeded :: bool

record exercise_inputs =
  ei_snapshot :: capability_snapshot
  ei_required :: "capability set"
  ei_operations :: "capability_operation list"

record exercise_receipt =
  er_inputs :: exercise_inputs
  er_exercised :: "capability list"
  er_accepted :: bool
  er_receipt_root :: string

definition capability_schema :: string where
  "capability_schema = ''agent-evals/mcp-capability-snapshot/v1''"

definition exercise_schema :: string where
  "exercise_schema = ''agent-evals/mcp-capability-exercise-receipt/v1''"

definition exercise_domain :: string where
  "exercise_domain = ''agent-evals/mcp-capability-exercise-receipt/v1'' @ [CHR 0x00]"

definition validate_snapshot :: "capability_snapshot \<Rightarrow> error + unit" where
  "validate_snapshot s = raise_if
     (text_field ''server_identity'' 256 (cs_server_identity s) @ text_field ''protocol_version'' 64 (cs_protocol_version s)
      @ text_field ''capability_revision'' 128 (cs_revision s))"

definition capabilities_json :: "capability set \<Rightarrow> json" where
  "capabilities_json cs = JArr (map JStr (py_sorted (capability_value ` cs)))"

definition snapshot_json :: "capability_snapshot \<Rightarrow> json" where
  "snapshot_json s = JObj
     [(''schema_version'', JStr capability_schema), (''server_identity'', JStr (cs_server_identity s)),
      (''protocol_version'', JStr (cs_protocol_version s)), (''capabilities'', capabilities_json (cs_capabilities s)),
      (''capability_revision'', JStr (cs_revision s))]"

definition snapshot_identity :: "capability_snapshot \<Rightarrow> string" where
  "snapshot_identity s = domain_root (''agent-evals/mcp-capability-snapshot/v1'' @ [CHR 0x00]) (snapshot_json s)"

definition validate_operation :: "capability_operation \<Rightarrow> error + unit" where
  "validate_operation x = raise_if
     (name_field ''operation_id'' (co_operation_id x) @ sha_field ''request_sha256'' (co_request_sha256 x)
      @ sha_field ''response_sha256'' (co_response_sha256 x)
      @ int_field ''response_bytes'' 0 (Some max_response_size) (co_response_bytes x))"

definition operation_json :: "capability_operation \<Rightarrow> json" where
  "operation_json x = JObj
     [(''capability'', JStr (capability_value (co_capability x))), (''operation_id'', JStr (co_operation_id x)),
      (''request_sha256'', JStr (co_request_sha256 x)), (''response_sha256'', JStr (co_response_sha256 x)),
      (''response_bytes'', JInt (co_response_bytes x)), (''succeeded'', JBool (co_succeeded x))]"

definition exercised :: "capability_operation list \<Rightarrow> capability list" where
  "exercised xs = covered all_capabilities (map co_capability (filter co_succeeded xs))"

definition exercise_accepted :: "exercise_inputs \<Rightarrow> bool" where
  "exercise_accepted i \<longleftrightarrow>
     ei_required i \<subseteq> cs_capabilities (ei_snapshot i) \<and> ei_required i \<subseteq> set (exercised (ei_operations i))"

definition check_exercise :: "exercise_inputs \<Rightarrow> error + unit" where
  "check_exercise i = checks
     [validate_snapshot (ei_snapshot i),
      raise_if [(ei_required i = {}, vale ''MCP capability exercise requires evaluator-owned capability expectations'')],
      rfor validate_operation (ei_operations i),
      raise_if
        [(\<not> distinct (map co_operation_id (ei_operations i)), vale ''MCP capability operation IDs must be unique''),
         (\<not> co_capability ` set (ei_operations i) \<subseteq> cs_capabilities (ei_snapshot i),
          vale ''MCP exercise observes capability absent from bound snapshot'')]]"

definition exercise_material :: "exercise_receipt \<Rightarrow> json" where
  "exercise_material r = JObj
     [(''schema_version'', JStr exercise_schema), (''snapshot'', snapshot_json (ei_snapshot (er_inputs r))),
      (''required_capabilities'', capabilities_json (ei_required (er_inputs r))),
      (''observations'', JArr (map operation_json (ei_operations (er_inputs r)))),
      (''exercised_capabilities'', JArr (map (JStr \<circ> capability_value) (er_exercised r))),
      (''accepted'', JBool (er_accepted r))]"

definition exercise_root :: "exercise_receipt \<Rightarrow> string" where
  "exercise_root r = domain_root exercise_domain (exercise_material r)"

definition exercise_fields :: "exercise_receipt \<Rightarrow> error + unit" where
  "exercise_fields r = raise_if
     (count_field ''observations'' 1 10000 (ei_operations (er_inputs r)) @ sha_field ''receipt_root'' (er_receipt_root r))"

definition exercise_summary :: "exercise_inputs \<Rightarrow> exercise_receipt" where
  "exercise_summary i =
     (let r = \<lparr>er_inputs = i, er_exercised = exercised (ei_operations i), er_accepted = exercise_accepted i,
               er_receipt_root = []\<rparr>
      in r\<lparr>er_receipt_root := exercise_root r\<rparr>)"

definition create_exercise :: "exercise_inputs \<Rightarrow> error + exercise_receipt" where
  "create_exercise = sealed_create check_exercise exercise_fields exercise_summary"

definition exercise_derived :: "exercise_receipt \<Rightarrow> capability list \<times> bool \<times> string" where
  "exercise_derived r = (er_exercised r, er_accepted r, er_receipt_root r)"

definition exercise_mismatch :: "capability list \<times> bool \<times> string \<Rightarrow> capability list \<times> bool \<times> string \<Rightarrow> string" where
  "exercise_mismatch d e = ''MCP capability exercise receipt does not recompute''"

definition verify_exercise :: "exercise_receipt \<Rightarrow> error + exercise_receipt" where
  "verify_exercise = verify_recomputed exercise_fields create_exercise er_inputs exercise_derived exercise_mismatch"

interpretation exercise_receipts: summarised check_exercise exercise_fields exercise_summary er_inputs exercise_derived
  exercise_mismatch create_exercise verify_exercise
  by unfold_locales (auto simp: create_exercise_def verify_exercise_def exercise_summary_def exercise_derived_def Let_def)

subsection \<open>A changed tool list\<close>

record list_changed =
  lc_server_identity :: string
  lc_protocol_version :: string
  lc_before :: "string list"
  lc_after :: "string list"
  lc_sequence :: int
  lc_receipt_root :: string

definition list_changed_schema :: string where
  "list_changed_schema = ''agent-evals/mcp-list-changed-receipt/v1''"

definition list_changed_domain :: string where
  "list_changed_domain = ''agent-evals/mcp-list-changed-receipt/v1'' @ [CHR 0x00]"

definition list_changed_root :: "list_changed \<Rightarrow> string" where
  "list_changed_root r = domain_root list_changed_domain (JObj
     [(''schema_version'', JStr list_changed_schema), (''server_identity'', JStr (lc_server_identity r)),
      (''protocol_version'', JStr (lc_protocol_version r)), (''before_tools'', JArr (map JStr (lc_before r))),
      (''after_tools'', JArr (map JStr (lc_after r))), (''notification_sequence'', JInt (lc_sequence r))])"

definition validate_list_changed :: "list_changed \<Rightarrow> error + list_changed" where
  "validate_list_changed r = rbind (raise_if
     (text_field ''server_identity'' 256 (lc_server_identity r) @ text_field ''protocol_version'' 64 (lc_protocol_version r)
      @ int_field ''notification_sequence'' 0 None (lc_sequence r) @ sha_field ''receipt_root'' (lc_receipt_root r)
      @ [(lc_receipt_root r \<noteq> list_changed_root r, verr ''tools/list_changed receipt root mismatch''),
         (lc_before r = lc_after r, verr ''tools/list_changed receipt requires discovery delta'')])) (\<lambda>_. Inr r)"

text \<open>\<open>MCPToolsListChangedReceipt.create\<close> on a receipt without its root.\<close>

definition create_list_changed :: "list_changed \<Rightarrow> error + list_changed" where
  "create_list_changed r =
     rbind (canonical_names vale ''before tools'' (lc_before r)) (\<lambda>before.
     rbind (canonical_names vale ''after tools'' (lc_after r)) (\<lambda>after.
     if before = after then Inl (vale ''tools/list_changed receipt requires an actual discovery delta'')
     else (let s = r\<lparr>lc_before := before, lc_after := after\<rparr>
           in validate_list_changed (s\<lparr>lc_receipt_root := list_changed_root s\<rparr>))))"

subsection \<open>Operations in parallel\<close>

record concurrent_operation =
  op_request_id :: string
  op_server_identity :: string
  op_target_identity :: string
  op_started :: int
  op_completed :: int
  op_outcome_sha256 :: string

record concurrency_receipt =
  cr_operations :: "concurrent_operation list"
  cr_minimum :: int
  cr_peak :: int
  cr_accepted :: bool
  cr_receipt_root :: string

definition concurrency_schema :: string where
  "concurrency_schema = ''agent-evals/mcp-concurrency-receipt/v1''"

definition concurrency_domain :: string where
  "concurrency_domain = ''agent-evals/mcp-concurrency-receipt/v1'' @ [CHR 0x00]"

definition validate_concurrent :: "concurrent_operation \<Rightarrow> error + unit" where
  "validate_concurrent x = raise_if
     (text_field ''request_id'' 256 (op_request_id x) @ text_field ''server_identity'' 256 (op_server_identity x)
      @ text_field ''target_identity'' 256 (op_target_identity x) @ int_field ''started_tick'' 0 None (op_started x)
      @ int_field ''completed_tick'' 0 None (op_completed x) @ sha_field ''outcome_sha256'' (op_outcome_sha256 x)
      @ [(op_completed x < op_started x, verr ''MCP concurrent operation cannot complete before it starts'')])"

definition active_at :: "concurrent_operation list \<Rightarrow> int \<Rightarrow> int" where
  "active_at xs tick = int (length (filter (\<lambda>x. op_started x \<le> tick \<and> tick \<le> op_completed x) xs))"

definition sampled_ticks :: "concurrent_operation list \<Rightarrow> int set" where
  "sampled_ticks xs = op_started ` set xs \<union> op_completed ` set xs"

definition peak_parallelism :: "concurrent_operation list \<Rightarrow> int" where
  "peak_parallelism xs = Max (active_at xs ` sampled_ticks xs)"

definition concurrent_json :: "concurrent_operation \<Rightarrow> json" where
  "concurrent_json x = JObj
     [(''request_id'', JStr (op_request_id x)), (''server_identity'', JStr (op_server_identity x)),
      (''target_identity'', JStr (op_target_identity x)), (''started_tick'', JInt (op_started x)),
      (''completed_tick'', JInt (op_completed x)), (''outcome_sha256'', JStr (op_outcome_sha256 x))]"

definition concurrency_material :: "concurrency_receipt \<Rightarrow> json" where
  "concurrency_material r = JObj
     [(''schema_version'', JStr concurrency_schema), (''operations'', JArr (map concurrent_json (cr_operations r))),
      (''peak_parallelism'', JInt (cr_peak r)), (''minimum_parallelism'', JInt (cr_minimum r)),
      (''accepted'', JBool (cr_accepted r))]"

definition concurrency_root :: "concurrency_receipt \<Rightarrow> string" where
  "concurrency_root r = domain_root concurrency_domain (concurrency_material r)"

definition concurrency_fields :: "concurrency_receipt \<Rightarrow> error + unit" where
  "concurrency_fields r = raise_if
     (count_field ''operations'' 2 10000 (cr_operations r) @ int_field ''peak_parallelism'' 1 (Some 10000) (cr_peak r)
      @ int_field ''minimum_parallelism'' 2 (Some 10000) (cr_minimum r) @ sha_field ''receipt_root'' (cr_receipt_root r))"

definition check_concurrency :: "concurrent_operation list \<times> int \<Rightarrow> error + unit" where
  "check_concurrency = (\<lambda>(xs, minimum). checks
     [raise_if [(\<not> (2 \<le> minimum \<and> minimum \<le> 10000),
        vale ''minimum MCP parallelism must be an integer between 2 and 10000'')],
      rfor validate_concurrent xs,
      raise_if [(\<not> distinct (map op_request_id xs), vale ''parallel MCP request IDs must be unique''),
                (xs = [], vale ''max() iterable argument is empty'')]])"

definition concurrency_summary :: "concurrent_operation list \<times> int \<Rightarrow> concurrency_receipt" where
  "concurrency_summary = (\<lambda>(xs, minimum).
     let peak = peak_parallelism xs;
         r = \<lparr>cr_operations = xs, cr_minimum = minimum, cr_peak = peak, cr_accepted = (minimum \<le> peak), cr_receipt_root = []\<rparr>
     in r\<lparr>cr_receipt_root := concurrency_root r\<rparr>)"

definition create_concurrency :: "concurrent_operation list \<times> int \<Rightarrow> error + concurrency_receipt" where
  "create_concurrency = sealed_create check_concurrency concurrency_fields concurrency_summary"

definition concurrency_inputs :: "concurrency_receipt \<Rightarrow> concurrent_operation list \<times> int" where
  "concurrency_inputs r = (cr_operations r, cr_minimum r)"

definition concurrency_derived :: "concurrency_receipt \<Rightarrow> int \<times> bool \<times> string" where
  "concurrency_derived r = (cr_peak r, cr_accepted r, cr_receipt_root r)"

definition concurrency_mismatch :: "int \<times> bool \<times> string \<Rightarrow> int \<times> bool \<times> string \<Rightarrow> string" where
  "concurrency_mismatch d e = ''MCP concurrency receipt does not recompute''"

definition verify_concurrency :: "concurrency_receipt \<Rightarrow> error + concurrency_receipt" where
  "verify_concurrency =
     verify_recomputed concurrency_fields create_concurrency concurrency_inputs concurrency_derived concurrency_mismatch"

interpretation concurrency_receipts: summarised check_concurrency concurrency_fields concurrency_summary concurrency_inputs
  concurrency_derived concurrency_mismatch create_concurrency verify_concurrency
  by unfold_locales
    (auto simp: create_concurrency_def verify_concurrency_def concurrency_summary_def concurrency_inputs_def
      concurrency_derived_def Let_def)

subsection \<open>Several servers\<close>

record server_surface =
  sv_server_identity :: string
  sv_tool_names :: "string set"

record multi_server_receipt =
  ms_servers :: "server_surface list"
  ms_collisions :: "string list"
  ms_accepted :: bool
  ms_receipt_root :: string

definition multi_server_schema :: string where
  "multi_server_schema = ''agent-evals/mcp-multi-server-receipt/v1''"

definition multi_server_domain :: string where
  "multi_server_domain = ''agent-evals/mcp-multi-server-receipt/v1'' @ [CHR 0x00]"

definition validate_surface :: "server_surface \<Rightarrow> error + unit" where
  "validate_surface s = raise_if
     (text_field ''server_identity'' 256 (sv_server_identity s)
      @ names_guards verr ''MCP server tool names'' (py_sorted (sv_tool_names s)))"

text \<open>A surface as it is constructed from a tuple of names.\<close>

definition mk_surface :: "string \<Rightarrow> string list \<Rightarrow> error + server_surface" where
  "mk_surface identity names =
     rbind (raise_if (text_field ''server_identity'' 256 identity)) (\<lambda>_.
     rbind (canonical_names verr ''MCP server tool names'' names) (\<lambda>ns.
     Inr \<lparr>sv_server_identity = identity, sv_tool_names = set ns\<rparr>))"

text \<open>\<open>owners.setdefault(name, set()).add(server_identity)\<close> over all servers and names.\<close>

definition add_owner :: "string \<Rightarrow> string \<Rightarrow> (string \<rightharpoonup> string set) \<Rightarrow> (string \<rightharpoonup> string set)" where
  "add_owner server name owners =
     owners(name \<mapsto> insert server (case owners name of None \<Rightarrow> {} | Some s \<Rightarrow> s))"

definition name_owners :: "server_surface list \<Rightarrow> (string \<rightharpoonup> string set)" where
  "name_owners ss = fold (\<lambda>s. fold (add_owner (sv_server_identity s)) (py_sorted (sv_tool_names s))) ss Map.empty"

definition collision_names :: "server_surface list \<Rightarrow> string list" where
  "collision_names ss = (let owners = name_owners ss in
     filter (\<lambda>n. case owners n of None \<Rightarrow> False | Some s \<Rightarrow> card s > 1) (py_sorted (\<Union> (sv_tool_names ` set ss))))"

definition surface_json :: "server_surface \<Rightarrow> json" where
  "surface_json s = JObj
     [(''server_identity'', JStr (sv_server_identity s)), (''tool_names'', JArr (map JStr (py_sorted (sv_tool_names s))))]"

definition multi_server_material :: "multi_server_receipt \<Rightarrow> json" where
  "multi_server_material r = JObj
     [(''schema_version'', JStr multi_server_schema), (''servers'', JArr (map surface_json (ms_servers r))),
      (''collision_names'', JArr (map JStr (ms_collisions r))), (''accepted'', JBool (ms_accepted r))]"

definition multi_server_root :: "multi_server_receipt \<Rightarrow> string" where
  "multi_server_root r = domain_root multi_server_domain (multi_server_material r)"

definition multi_server_fields :: "multi_server_receipt \<Rightarrow> error + unit" where
  "multi_server_fields r = raise_if
     (count_field ''servers'' 2 256 (ms_servers r) @ sha_field ''receipt_root'' (ms_receipt_root r))"

definition check_servers :: "server_surface list \<Rightarrow> error + unit" where
  "check_servers ss = checks
     [rfor validate_surface ss,
      raise_if [(\<not> distinct (map sv_server_identity ss), vale ''MCP multi-server identities must be unique'')]]"

definition multi_server_summary :: "server_surface list \<Rightarrow> multi_server_receipt" where
  "multi_server_summary ss =
     (let cs = collision_names ss;
          r = \<lparr>ms_servers = ss, ms_collisions = cs, ms_accepted = (cs = []), ms_receipt_root = []\<rparr>
      in r\<lparr>ms_receipt_root := multi_server_root r\<rparr>)"

definition create_multi_server :: "server_surface list \<Rightarrow> error + multi_server_receipt" where
  "create_multi_server = sealed_create check_servers multi_server_fields multi_server_summary"

definition multi_server_derived :: "multi_server_receipt \<Rightarrow> string list \<times> bool \<times> string" where
  "multi_server_derived r = (ms_collisions r, ms_accepted r, ms_receipt_root r)"

definition multi_server_mismatch :: "string list \<times> bool \<times> string \<Rightarrow> string list \<times> bool \<times> string \<Rightarrow> string" where
  "multi_server_mismatch d e = ''MCP multi-server receipt does not recompute''"

definition verify_multi_server :: "multi_server_receipt \<Rightarrow> error + multi_server_receipt" where
  "verify_multi_server =
     verify_recomputed multi_server_fields create_multi_server ms_servers multi_server_derived multi_server_mismatch"

interpretation multi_server_receipts: summarised check_servers multi_server_fields multi_server_summary ms_servers
  multi_server_derived multi_server_mismatch create_multi_server verify_multi_server
  by unfold_locales
    (auto simp: create_multi_server_def verify_multi_server_def multi_server_summary_def multi_server_derived_def Let_def)

subsection \<open>Parallelism is measured exactly\<close>

text \<open>Sampling where operations start and end misses nothing: no instant has more of them in flight.\<close>

lemma active_sampled:
  assumes "active_at xs t > 0"
  shows "\<exists>x\<in>set xs. active_at xs t \<le> active_at xs (op_started x)"
proof -
  let ?on = "\<lambda>t x. op_started x \<le> t \<and> t \<le> op_completed x"
  let ?ss = "op_started ` {x \<in> set xs. ?on t x}"
  have ne: "?ss \<noteq> {}" using assms by (auto simp: active_at_def filter_empty_conv)
  then have "Max ?ss \<in> ?ss" by (intro Max_in) auto
  then obtain x where x: "x \<in> set xs" "?on t x" "op_started x = Max ?ss" by auto
  have "?on (op_started x) y" if "y \<in> set xs" "?on t y" for y
    using that x Max_ge [of ?ss "op_started y"] by auto
  then have "length (filter (?on t) xs) \<le> length (filter (?on (op_started x)) xs)"
    by (induction xs) auto
  with x(1) show ?thesis unfolding active_at_def by auto
qed

lemma peak_is_maximum:
  assumes "xs \<noteq> []"
  shows "active_at xs t \<le> peak_parallelism xs" "\<exists>t. active_at xs t = peak_parallelism xs"
proof -
  have fin: "finite (active_at xs ` sampled_ticks xs)" "active_at xs ` sampled_ticks xs \<noteq> {}"
    using assms by (auto simp: sampled_ticks_def)
  show "\<exists>t. active_at xs t = peak_parallelism xs"
    using Max_in [OF fin] by (auto simp: peak_parallelism_def)
  show "active_at xs t \<le> peak_parallelism xs"
  proof (cases "active_at xs t > 0")
    case True
    then obtain x where "x \<in> set xs" "active_at xs t \<le> active_at xs (op_started x)" using active_sampled by blast
    moreover from this(1) have "active_at xs (op_started x) \<le> peak_parallelism xs"
      unfolding peak_parallelism_def using fin(1) by (intro Max_ge) (auto simp: sampled_ticks_def)
    ultimately show ?thesis by linarith
  next
    case False
    obtain x where "x \<in> set xs" using assms by (cases xs) auto
    then have "active_at xs (op_started x) \<le> peak_parallelism xs"
      unfolding peak_parallelism_def using fin(1) by (intro Max_ge) (auto simp: sampled_ticks_def)
    with False show ?thesis by (simp add: active_at_def)
  qed
qed

lemma enough_in_parallel:
  "xs \<noteq> [] \<Longrightarrow> n \<le> peak_parallelism xs \<longleftrightarrow> (\<exists>t. n \<le> active_at xs t)"
  using peak_is_maximum [of xs] by (metis order_trans)

subsection \<open>Collisions\<close>

lemma fold_add_owner:
  "distinct ns \<Longrightarrow> fold (add_owner server) ns owners n =
     (if n \<in> set ns then Some (insert server (case owners n of None \<Rightarrow> {} | Some s \<Rightarrow> s)) else owners n)"
  by (induction ns arbitrary: owners) (auto simp: add_owner_def)

definition owners_of :: "server_surface list \<Rightarrow> string \<Rightarrow> string set" where
  "owners_of ss n = {sv_server_identity s |s. s \<in> set ss \<and> n \<in> sv_tool_names s}"

lemma name_owners_eq:
  assumes "list_all (\<lambda>s. finite (sv_tool_names s)) ss"
  shows "name_owners ss n = (if owners_of ss n = {} then None else Some (owners_of ss n))"
  using assms
proof (induction ss rule: rev_induct)
  case (snoc s ss)
  have "owners_of (ss @ [s]) n = (if n \<in> sv_tool_names s then insert (sv_server_identity s) (owners_of ss n) else owners_of ss n)"
    by (auto simp: owners_of_def)
  with snoc show ?case by (auto simp: name_owners_def fold_add_owner)
qed (simp add: name_owners_def owners_of_def)

text \<open>A name collides when two servers of different identity expose it.\<close>

definition collides :: "server_surface list \<Rightarrow> string \<Rightarrow> bool" where
  "collides ss n \<longleftrightarrow> (\<exists>a\<in>set ss. \<exists>b\<in>set ss. sv_server_identity a \<noteq> sv_server_identity b \<and> n \<in> sv_tool_names a \<and> n \<in> sv_tool_names b)"

lemma collision_names_set:
  assumes "list_all (\<lambda>s. finite (sv_tool_names s)) ss"
  shows "set (collision_names ss) = {n. collides ss n}"
proof -
  have fin: "finite (\<Union> (sv_tool_names ` set ss))" "finite (owners_of ss n)" for n
    using assms by (auto simp: list_all_iff owners_of_def)
  have "(case name_owners ss n of None \<Rightarrow> False | Some s \<Rightarrow> card s > 1) \<longleftrightarrow> collides ss n" for n
  proof -
    have "card (owners_of ss n) > 1 \<longleftrightarrow> collides ss n"
    proof
      assume "card (owners_of ss n) > 1"
      then obtain a b where "a \<in> owners_of ss n" "b \<in> owners_of ss n" "a \<noteq> b"
        by (metis One_nat_def card_le_Suc0_iff_eq fin(2) not_less)
      then show "collides ss n" by (auto simp: owners_of_def collides_def)
    next
      assume "collides ss n"
      then obtain a b where "{a, b} \<subseteq> owners_of ss n" "a \<noteq> b" by (auto simp: owners_of_def collides_def)
      then show "card (owners_of ss n) > 1" using card_mono [OF fin(2), of "{a, b}" n] by simp
    qed
    then show ?thesis by (auto simp: name_owners_eq [OF assms])
  qed
  then show ?thesis using fin(1) by (auto simp: collision_names_def Let_def collides_def)
qed

subsection \<open>Changes of the tool list\<close>

lemma canonical_names_Inr:
  "canonical_names mk label ns = Inr ms \<longleftrightarrow> list_all trimmed_name ns \<and> distinct ns \<and> ms = sort ns"
  by (auto simp: canonical_names_def names_guards_def rbind_Inr raise_if_Inr)

lemma validate_list_changed_Inr:
  "validate_list_changed r = Inr s \<longleftrightarrow> s = r \<and> bounded_text 1 256 (lc_server_identity r) \<and>
     bounded_text 1 64 (lc_protocol_version r) \<and> 0 \<le> lc_sequence r \<and> lc_receipt_root r = list_changed_root r \<and>
     lc_before r \<noteq> lc_after r"
  by (auto simp: validate_list_changed_def rbind_Inr field_ok raise_if_Inr list_changed_root_def)

lemma list_changed_delta:
  assumes "create_list_changed r = Inr s"
  shows "set (lc_before s) \<noteq> set (lc_after s)"
proof -
  from assms have d: "distinct (lc_before r)" "distinct (lc_after r)" "sort (lc_before r) \<noteq> sort (lc_after r)"
    and s: "lc_before s = sort (lc_before r)" "lc_after s = sort (lc_after r)"
    by (auto simp: create_list_changed_def rbind_Inr canonical_names_Inr validate_list_changed_Inr Let_def split: if_splits)
  then show ?thesis using sorted_distinct_set_unique [of "lc_before s" "lc_after s"] by auto
qed

text \<open>A receipt that is built from fields instead may name the same tools in another order.\<close>

lemma reordered_list_accepted:
  assumes "validate_list_changed r = Inr r" "mset ns = mset (lc_before r)" "ns \<noteq> lc_before r"
  shows "\<exists>s. validate_list_changed s = Inr s \<and> lc_before s = lc_before r \<and> lc_after s = ns"
proof -
  let ?s = "r\<lparr>lc_after := ns\<rparr>"
  have "list_changed_root (?s\<lparr>lc_receipt_root := x\<rparr>) = list_changed_root ?s" for x by (simp add: list_changed_root_def)
  then show ?thesis
    using assms by (intro exI [of _ "?s\<lparr>lc_receipt_root := list_changed_root ?s\<rparr>"]) (simp add: validate_list_changed_Inr)
qed

end
