(* ===== verification/OAuthAssurance.thy ===== *)
theory OAuthAssurance
  imports Recomputed
begin

section \<open>OAuth sessions (\<open>mcp/oauth_advanced.py\<close>)\<close>

text \<open>
  Externally verified events of token sessions are replayed in order: what may follow what, and
  whether rotation, refresh, revocation, replay rejection and sender constraints were observed. A
  second receipt observes the contraction of an authorization. A tuple of key identifiers that its
  validator sorts and keeps free of repetitions is a set.
\<close>

datatype sender_binding = BEARER | DPOP | MTLS_BINDING

fun binding_value :: "sender_binding \<Rightarrow> string" where
  "binding_value BEARER = ''bearer''"
| "binding_value DPOP = ''dpop''"
| "binding_value MTLS_BINDING = ''mtls''"

datatype session_event_kind = INITIAL | REFRESH | REVOKE | REQUEST | REPLAY

fun session_kind_value :: "session_event_kind \<Rightarrow> string" where
  "session_kind_value INITIAL = ''initial''"
| "session_kind_value REFRESH = ''refresh''"
| "session_kind_value REVOKE = ''revoke''"
| "session_kind_value REQUEST = ''request''"
| "session_kind_value REPLAY = ''replay''"

record key_set =
  ks_issuer :: string
  ks_jwks_uri :: string
  ks_key_ids :: "string set"
  ks_epoch :: int
  ks_verifier_revision :: string

record oauth_event =
  oe_event_id :: string
  oe_kind :: session_event_kind
  oe_epoch :: int
  oe_issuer :: string
  oe_subject :: string
  oe_audience :: string
  oe_token :: string
  oe_jti :: string
  oe_signing_kid :: string
  oe_scopes :: "string set"
  oe_binding :: sender_binding
  oe_sender_key :: "string option"
  oe_binding_verified :: bool
  oe_signature_verified :: bool
  oe_accepted :: bool
  oe_parent :: "string option"

record oauth_policy =
  oa_allowed_issuers :: "string set"
  oa_require_key_rotation :: bool
  oa_require_refresh :: bool
  oa_require_revocation :: bool
  oa_require_replay :: bool
  oa_require_sender_constraint :: bool
  oa_allowed_bindings :: "sender_binding set"

definition keyset_schema :: string where
  "keyset_schema = ''agent-evals/oauth-keyset-snapshot/v1''"

definition oauth_event_schema :: string where
  "oauth_event_schema = ''agent-evals/oauth-session-event/v1''"

definition oauth_policy_schema :: string where
  "oauth_policy_schema = ''agent-evals/oauth-advanced-policy/v1''"

definition oauth_schema :: string where
  "oauth_schema = ''agent-evals/oauth-advanced-receipt/v1''"

definition oauth_domain :: string where
  "oauth_domain = ''agent-evals/oauth-advanced-receipt/v1'' @ [CHR 0x00]"

definition untrimmed :: "string set \<Rightarrow> bool" where
  "untrimmed names \<longleftrightarrow> (\<exists>s\<in>names. \<not> trimmed_name s)"

definition validate_keyset :: "key_set \<Rightarrow> error + unit" where
  "validate_keyset k = raise_if
     (text_field ''issuer'' 1024 (ks_issuer k) @ text_field ''jwks_uri'' 2048 (ks_jwks_uri k)
      @ [(\<not> (1 \<le> card (ks_key_ids k) \<and> card (ks_key_ids k) \<le> 256), verr ''key_ids: length''),
         (untrimmed (ks_key_ids k), verr ''OAuth key IDs must be trimmed non-empty strings'')]
      @ int_field ''epoch'' 0 None (ks_epoch k) @ text_field ''verifier_revision'' 128 (ks_verifier_revision k))"

text \<open>The validator of the tuple a key set is constructed from.\<close>

definition canonical_keys :: "string list \<Rightarrow> error + string set" where
  "canonical_keys ids = rbind (raise_if
     [(\<not> (1 \<le> length ids \<and> length ids \<le> 256), verr ''key_ids: length''),
      (\<not> list_all trimmed_name ids, verr ''OAuth key IDs must be trimmed non-empty strings''),
      (\<not> distinct ids, verr ''OAuth key IDs must be unique'')]) (\<lambda>_. Inr (set ids))"

definition keyset_json :: "key_set \<Rightarrow> json" where
  "keyset_json k = JObj
     [(''schema_version'', JStr keyset_schema), (''issuer'', JStr (ks_issuer k)), (''jwks_uri'', JStr (ks_jwks_uri k)),
      (''key_ids'', JArr (map JStr (py_sorted (ks_key_ids k)))), (''epoch'', JInt (ks_epoch k)),
      (''verifier_revision'', JStr (ks_verifier_revision k))]"

definition keyset_identity :: "key_set \<Rightarrow> string" where
  "keyset_identity k = domain_root (''agent-evals/oauth-keyset-snapshot/v1'' @ [CHR 0x00]) (keyset_json k)"

definition binding_guards :: "oauth_event \<Rightarrow> (bool \<times> error) list" where
  "binding_guards x =
     [(oe_binding x = BEARER \<and> oe_sender_key x \<noteq> None, verr ''bearer token event cannot carry sender-key binding''),
      (oe_binding x = BEARER \<and> oe_binding_verified x, verr ''bearer token event cannot claim sender-binding verification''),
      (oe_binding x \<noteq> BEARER \<and> oe_sender_key x = None, verr ''DPoP/mTLS event requires sender-key fingerprint''),
      (oe_binding x \<noteq> BEARER \<and> \<not> oe_binding_verified x,
       verr ''DPoP/mTLS event requires external sender-binding verification''),
      (oe_kind x = REFRESH \<and> oe_parent x = None, verr ''refresh event requires parent token identity''),
      (oe_kind x = INITIAL \<and> oe_parent x \<noteq> None, verr ''initial token event cannot carry parent token identity''),
      (oe_kind x \<in> {REPLAY, REVOKE} \<and> oe_accepted x,
       verr ''replay/revocation event must not be accepted by resource server'')]"

definition validate_oauth_event :: "oauth_event \<Rightarrow> error + unit" where
  "validate_oauth_event x = raise_if
     (name_field ''event_id'' (oe_event_id x) @ int_field ''epoch'' 0 None (oe_epoch x)
      @ text_field ''issuer'' 1024 (oe_issuer x) @ text_field ''subject'' 512 (oe_subject x)
      @ text_field ''audience'' 1024 (oe_audience x) @ sha_field ''token_sha256'' (oe_token x)
      @ sha_field ''jti_sha256'' (oe_jti x) @ text_field ''signing_kid'' 256 (oe_signing_kid x)
      @ [(untrimmed (oe_scopes x), verr ''OAuth scopes must be trimmed non-empty strings'')]
      @ opt_sha_field ''sender_key_sha256'' (oe_sender_key x) @ opt_sha_field ''parent_token_sha256'' (oe_parent x)
      @ binding_guards x)"

definition oauth_event_json :: "oauth_event \<Rightarrow> json" where
  "oauth_event_json x = JObj
     [(''schema_version'', JStr oauth_event_schema), (''event_id'', JStr (oe_event_id x)),
      (''kind'', JStr (session_kind_value (oe_kind x))), (''epoch'', JInt (oe_epoch x)), (''issuer'', JStr (oe_issuer x)),
      (''subject'', JStr (oe_subject x)), (''audience'', JStr (oe_audience x)), (''token_sha256'', JStr (oe_token x)),
      (''jti_sha256'', JStr (oe_jti x)), (''signing_kid'', JStr (oe_signing_kid x)),
      (''scopes'', JArr (map JStr (py_sorted (oe_scopes x)))), (''sender_binding'', JStr (binding_value (oe_binding x))),
      (''sender_key_sha256'', opt_str (oe_sender_key x)), (''sender_binding_verified'', JBool (oe_binding_verified x)),
      (''jwt_signature_verified'', JBool (oe_signature_verified x)), (''accepted_by_resource'', JBool (oe_accepted x)),
      (''parent_token_sha256'', opt_str (oe_parent x))]"

definition validate_oauth_policy :: "oauth_policy \<Rightarrow> error + unit" where
  "validate_oauth_policy p = raise_if
     [(oa_allowed_issuers p = {}, verr ''allowed_issuers: length''),
      (untrimmed (oa_allowed_issuers p), verr ''OAuth allowed issuers must be trimmed non-empty strings''),
      (oa_require_sender_constraint p \<and> oa_allowed_bindings p = {},
       verr ''sender-constrained OAuth policy requires at least one binding mode'')]"

definition oauth_policy_json :: "oauth_policy \<Rightarrow> json" where
  "oauth_policy_json p = JObj
     [(''schema_version'', JStr oauth_policy_schema),
      (''allowed_issuers'', JArr (map JStr (py_sorted (oa_allowed_issuers p)))),
      (''require_key_rotation'', JBool (oa_require_key_rotation p)), (''require_refresh'', JBool (oa_require_refresh p)),
      (''require_revocation_rejection'', JBool (oa_require_revocation p)),
      (''require_replay_rejection'', JBool (oa_require_replay p)),
      (''require_sender_constraint'', JBool (oa_require_sender_constraint p)),
      (''allowed_sender_bindings'', JArr (map JStr (py_sorted (binding_value ` oa_allowed_bindings p))))]"

subsection \<open>The session events in order\<close>

record token_state =
  tk_seen :: "string set"
  tk_revoked :: "string set"

definition no_tokens :: token_state where
  "no_tokens = \<lparr>tk_seen = {}, tk_revoked = {}\<rparr>"

fun event_step :: "token_state \<Rightarrow> oauth_event \<Rightarrow> error + token_state" where
  "event_step st x =
     (case oe_kind x of
        INITIAL \<Rightarrow> Inr (st\<lparr>tk_seen := insert (oe_token x) (tk_seen st)\<rparr>)
      | REFRESH \<Rightarrow>
          (let st' = st\<lparr>tk_seen := insert (oe_token x) (tk_seen st)\<rparr> in
           if (case oe_parent x of None \<Rightarrow> True | Some p \<Rightarrow> p \<notin> tk_seen st')
           then Inl (vale ''OAuth refresh parent must reference a previously observed token'') else Inr st')
      | REVOKE \<Rightarrow>
          if oe_token x \<notin> tk_seen st then Inl (vale ''OAuth revocation must reference a previously observed token'')
          else Inr (st\<lparr>tk_revoked := insert (oe_token x) (tk_revoked st)\<rparr>)
      | REPLAY \<Rightarrow>
          if oe_token x \<notin> tk_seen st then Inl (vale ''OAuth replay must reference a previously observed token'') else Inr st
      | REQUEST \<Rightarrow>
          if oe_token x \<in> tk_revoked st \<and> oe_accepted x
          then Inl (vale ''revoked OAuth token cannot be accepted after revocation'') else Inr st)"

fun event_run :: "token_state \<Rightarrow> oauth_event list \<Rightarrow> error + token_state" where
  "event_run st [] = Inr st"
| "event_run st (x # xs) = rbind (event_step st x) (\<lambda>st'. event_run st' xs)"

definition check_keysets :: "key_set list \<Rightarrow> error + unit" where
  "check_keysets ks = checks
     [rfor validate_keyset ks,
      raise_if
        [(ks = [], vale ''advanced OAuth qualification requires keyset snapshots''),
         (\<not> (sorted (map ks_epoch ks) \<and> distinct (map ks_epoch ks)),
          vale ''OAuth keyset epochs must be unique and increasing'')]]"

definition check_events :: "oauth_event list \<Rightarrow> error + unit" where
  "check_events xs = checks
     [rfor validate_oauth_event xs,
      raise_if
        [(xs = [], vale ''advanced OAuth qualification requires session events''),
         (\<not> distinct (map oe_event_id xs), vale ''OAuth event IDs must be unique''),
         (\<not> sorted (map oe_epoch xs), vale ''OAuth session events must be ordered by epoch'')],
      rbind (event_run no_tokens xs) (\<lambda>_. Inr ())]"

subsection \<open>The receipt\<close>

record oauth_inputs =
  oi_policy :: oauth_policy
  oi_keysets :: "key_set list"
  oi_events :: "oauth_event list"

record oauth_receipt =
  or_inputs :: oauth_inputs
  or_key_rotation :: bool
  or_refresh :: bool
  or_revocation :: bool
  or_replay :: bool
  or_sender_constraint :: bool
  or_accepted :: bool
  or_receipt_root :: string

definition check_oauth :: "oauth_inputs \<Rightarrow> error + unit" where
  "check_oauth i = checks
     [validate_oauth_policy (oi_policy i), check_keysets (oi_keysets i), check_events (oi_events i),
      raise_if
        [(\<not> ks_issuer ` set (oi_keysets i) \<union> oe_issuer ` set (oi_events i) \<subseteq> oa_allowed_issuers (oi_policy i),
          vale ''OAuth observations contain issuer outside policy''),
         (\<not> oe_signing_kid ` set (oi_events i) \<subseteq> \<Union> (ks_key_ids ` set (oi_keysets i)),
          vale ''OAuth event signing kid is absent from observed JWKS snapshots''),
         (\<not> list_all oe_signature_verified (oi_events i), vale ''OAuth event lacks external JWT signature verification'')]]"

definition key_rotation_seen :: "key_set list \<Rightarrow> bool" where
  "key_rotation_seen ks \<longleftrightarrow> card (ks_key_ids ` set ks) > 1"

definition rejected_kind :: "session_event_kind \<Rightarrow> oauth_event list \<Rightarrow> bool" where
  "rejected_kind k xs \<longleftrightarrow> list_ex (\<lambda>x. oe_kind x = k \<and> \<not> oe_accepted x) xs"

definition sender_constraint_seen :: "oauth_policy \<Rightarrow> oauth_event list \<Rightarrow> bool" where
  "sender_constraint_seen p xs \<longleftrightarrow>
     list_ex (\<lambda>x. oe_binding x \<in> oa_allowed_bindings p \<and> oe_sender_key x \<noteq> None \<and> oe_binding_verified x)
       (filter (\<lambda>x. oe_kind x \<in> {INITIAL, REFRESH}) xs)"

definition oauth_accepted :: "oauth_inputs \<Rightarrow> bool" where
  "oauth_accepted i \<longleftrightarrow> (let p = oi_policy i; xs = oi_events i in
     (key_rotation_seen (oi_keysets i) \<or> \<not> oa_require_key_rotation p) \<and>
     (list_ex (\<lambda>x. oe_kind x = REFRESH) xs \<or> \<not> oa_require_refresh p) \<and>
     (rejected_kind REVOKE xs \<or> \<not> oa_require_revocation p) \<and> (rejected_kind REPLAY xs \<or> \<not> oa_require_replay p) \<and>
     (sender_constraint_seen p xs \<or> \<not> oa_require_sender_constraint p))"

definition oauth_material :: "oauth_receipt \<Rightarrow> json" where
  "oauth_material r = JObj
     [(''schema_version'', JStr oauth_schema), (''policy'', oauth_policy_json (oi_policy (or_inputs r))),
      (''keysets'', JArr (map keyset_json (oi_keysets (or_inputs r)))),
      (''events'', JArr (map oauth_event_json (oi_events (or_inputs r)))),
      (''key_rotation_observed'', JBool (or_key_rotation r)), (''refresh_observed'', JBool (or_refresh r)),
      (''revocation_rejected'', JBool (or_revocation r)), (''replay_rejected'', JBool (or_replay r)),
      (''sender_constraint_observed'', JBool (or_sender_constraint r)), (''accepted'', JBool (or_accepted r))]"

definition oauth_root :: "oauth_receipt \<Rightarrow> string" where
  "oauth_root r = domain_root oauth_domain (oauth_material r)"

definition oauth_fields :: "oauth_receipt \<Rightarrow> error + unit" where
  "oauth_fields r = raise_if
     ((oi_keysets (or_inputs r) = [], verr ''keysets: length'') # (oi_events (or_inputs r) = [], verr ''events: length'')
      # sha_field ''receipt_root'' (or_receipt_root r))"

definition oauth_summary :: "oauth_inputs \<Rightarrow> oauth_receipt" where
  "oauth_summary i =
     (let r = \<lparr>or_inputs = i, or_key_rotation = key_rotation_seen (oi_keysets i),
               or_refresh = list_ex (\<lambda>x. oe_kind x = REFRESH) (oi_events i), or_revocation = rejected_kind REVOKE (oi_events i),
               or_replay = rejected_kind REPLAY (oi_events i),
               or_sender_constraint = sender_constraint_seen (oi_policy i) (oi_events i), or_accepted = oauth_accepted i,
               or_receipt_root = []\<rparr>
      in r\<lparr>or_receipt_root := oauth_root r\<rparr>)"

definition create_oauth :: "oauth_inputs \<Rightarrow> error + oauth_receipt" where
  "create_oauth = sealed_create check_oauth oauth_fields oauth_summary"

definition oauth_derived :: "oauth_receipt \<Rightarrow> bool list \<times> string" where
  "oauth_derived r = ([or_key_rotation r, or_refresh r, or_revocation r, or_replay r, or_sender_constraint r, or_accepted r],
     or_receipt_root r)"

definition oauth_mismatch :: "bool list \<times> string \<Rightarrow> bool list \<times> string \<Rightarrow> string" where
  "oauth_mismatch d e = (if fst d \<noteq> fst e then ''advanced OAuth receipt metrics do not recompute''
     else ''advanced OAuth receipt root mismatch'')"

definition verify_oauth :: "oauth_receipt \<Rightarrow> error + oauth_receipt" where
  "verify_oauth = verify_recomputed oauth_fields create_oauth or_inputs oauth_derived oauth_mismatch"

interpretation oauth_receipts: summarised check_oauth oauth_fields oauth_summary or_inputs oauth_derived oauth_mismatch
  create_oauth verify_oauth
  by unfold_locales (auto simp: create_oauth_def verify_oauth_def oauth_summary_def oauth_derived_def Let_def)

subsection \<open>Drift of an authorization\<close>

record authorization_epoch =
  ae_epoch :: int
  ae_scopes :: "string set"
  ae_resource_identity :: string
  ae_operation :: string
  ae_allowed :: bool

record drift_receipt =
  dt_observations :: "authorization_epoch list"
  dt_contraction :: bool
  dt_denial :: bool
  dt_accepted :: bool
  dt_receipt_root :: string

definition drift_schema :: string where
  "drift_schema = ''agent-evals/oauth-authorization-drift-receipt/v1''"

definition drift_domain :: string where
  "drift_domain = ''agent-evals/oauth-authorization-drift-receipt/v1'' @ [CHR 0x00]"

definition validate_epoch :: "authorization_epoch \<Rightarrow> error + unit" where
  "validate_epoch x = raise_if
     (int_field ''epoch'' 0 None (ae_epoch x)
      @ [(untrimmed (ae_scopes x), verr ''authorization-drift scopes must be trimmed'')]
      @ text_field ''resource_identity'' 1024 (ae_resource_identity x) @ text_field ''operation'' 256 (ae_operation x))"

definition epoch_json :: "authorization_epoch \<Rightarrow> json" where
  "epoch_json x = JObj
     [(''epoch'', JInt (ae_epoch x)), (''scopes'', JArr (map JStr (py_sorted (ae_scopes x)))),
      (''resource_identity'', JStr (ae_resource_identity x)), (''operation'', JStr (ae_operation x)),
      (''allowed'', JBool (ae_allowed x))]"

text \<open>The loop over consecutive observations, with the two flags it sets.\<close>

fun drift_scan :: "authorization_epoch \<Rightarrow> authorization_epoch list \<Rightarrow> bool \<times> bool \<Rightarrow> bool \<times> bool" where
  "drift_scan previous [] flags = flags"
| "drift_scan previous (x # xs) (contraction, denial) =
     drift_scan x xs
       (if ae_scopes x \<subset> ae_scopes previous
        then (True, if ae_scopes previous - ae_scopes x \<noteq> {} \<and> \<not> ae_allowed x then True else denial)
        else (contraction, denial))"

definition drift_flags :: "authorization_epoch list \<Rightarrow> bool \<times> bool" where
  "drift_flags xs = drift_scan (hd xs) (tl xs) (False, False)"

definition drift_material :: "drift_receipt \<Rightarrow> json" where
  "drift_material r = JObj
     [(''schema_version'', JStr drift_schema), (''observations'', JArr (map epoch_json (dt_observations r))),
      (''contraction_observed'', JBool (dt_contraction r)), (''post_contraction_denial_observed'', JBool (dt_denial r)),
      (''accepted'', JBool (dt_accepted r))]"

definition drift_root :: "drift_receipt \<Rightarrow> string" where
  "drift_root r = domain_root drift_domain (drift_material r)"

definition drift_fields :: "drift_receipt \<Rightarrow> error + unit" where
  "drift_fields r = raise_if
     ((length (dt_observations r) < 2, verr ''observations: length'') # sha_field ''receipt_root'' (dt_receipt_root r))"

definition check_drift :: "authorization_epoch list \<Rightarrow> error + unit" where
  "check_drift xs = checks
     [rfor validate_epoch xs,
      raise_if
        [(\<not> (sorted (map ae_epoch xs) \<and> distinct (map ae_epoch xs)),
          vale ''authorization-drift epochs must be unique and increasing''),
         (card (set (map (\<lambda>x. (ae_resource_identity x, ae_operation x)) xs)) \<noteq> 1,
          vale ''authorization-drift observations must bind one resource and operation'')]]"

definition drift_summary :: "authorization_epoch list \<Rightarrow> drift_receipt" where
  "drift_summary xs =
     (let (contraction, denial) = drift_flags xs;
          r = \<lparr>dt_observations = xs, dt_contraction = contraction, dt_denial = denial,
               dt_accepted = (contraction \<and> denial), dt_receipt_root = []\<rparr>
      in r\<lparr>dt_receipt_root := drift_root r\<rparr>)"

definition create_drift :: "authorization_epoch list \<Rightarrow> error + drift_receipt" where
  "create_drift = sealed_create check_drift drift_fields drift_summary"

definition drift_derived :: "drift_receipt \<Rightarrow> bool \<times> bool \<times> bool \<times> string" where
  "drift_derived r = (dt_contraction r, dt_denial r, dt_accepted r, dt_receipt_root r)"

definition drift_mismatch :: "bool \<times> bool \<times> bool \<times> string \<Rightarrow> bool \<times> bool \<times> bool \<times> string \<Rightarrow> string" where
  "drift_mismatch d e = ''authorization-drift receipt does not recompute''"

definition verify_drift :: "drift_receipt \<Rightarrow> error + drift_receipt" where
  "verify_drift = verify_recomputed drift_fields create_drift dt_observations drift_derived drift_mismatch"

interpretation drift_receipts: summarised check_drift drift_fields drift_summary dt_observations drift_derived drift_mismatch
  create_drift verify_drift
  by unfold_locales
    (auto simp: create_drift_def verify_drift_def drift_summary_def drift_derived_def Let_def split: prod.splits)

subsection \<open>The session as a transition system\<close>

text \<open>The steps the code takes, as a relation on what was seen and revoked. A refresh may name the token it
  issues as its own parent.\<close>

inductive token_step :: "token_state \<Rightarrow> oauth_event \<Rightarrow> token_state \<Rightarrow> bool" where
  Issue: "oe_kind x = INITIAL \<Longrightarrow> token_step st x (st\<lparr>tk_seen := insert (oe_token x) (tk_seen st)\<rparr>)"
| Refresh: "oe_kind x = REFRESH \<Longrightarrow> oe_parent x = Some p \<Longrightarrow> p = oe_token x \<or> p \<in> tk_seen st \<Longrightarrow>
    token_step st x (st\<lparr>tk_seen := insert (oe_token x) (tk_seen st)\<rparr>)"
| Revoke: "oe_kind x = REVOKE \<Longrightarrow> oe_token x \<in> tk_seen st \<Longrightarrow>
    token_step st x (st\<lparr>tk_revoked := insert (oe_token x) (tk_revoked st)\<rparr>)"
| Replay: "oe_kind x = REPLAY \<Longrightarrow> oe_token x \<in> tk_seen st \<Longrightarrow> token_step st x st"
| Request: "oe_kind x = REQUEST \<Longrightarrow> \<not> (oe_token x \<in> tk_revoked st \<and> oe_accepted x) \<Longrightarrow> token_step st x st"

inductive token_trace :: "token_state \<Rightarrow> oauth_event list \<Rightarrow> token_state \<Rightarrow> bool" where
  Done: "token_trace st [] st"
| Step: "token_step st x st' \<Longrightarrow> token_trace st' xs st'' \<Longrightarrow> token_trace st (x # xs) st''"

inductive_cases token_stepE: "token_step st x st'"
inductive_simps token_trace_simps: "token_trace st [] st'" "token_trace st (x # xs) st'"

lemma event_step_iff: "event_step st x = Inr st' \<longleftrightarrow> token_step st x st'"
proof
  assume "event_step st x = Inr st'"
  then show "token_step st x st'"
    by (cases "oe_kind x"; cases "oe_parent x")
      (auto simp: Let_def split: if_splits intro: token_step.intros)
next
  assume "token_step st x st'"
  then show "event_step st x = Inr st'" by cases (auto simp: Let_def)
qed

lemma event_run_iff: "event_run st xs = Inr st' \<longleftrightarrow> token_trace st xs st'"
  by (induction xs arbitrary: st) (auto simp: token_trace_simps rbind_Inr event_step_iff simp del: event_step.simps)

text \<open>Only seen tokens are revoked, and what was revoked stays so.\<close>

lemma token_step_mono:
  assumes "token_step st x st'"
  shows "tk_seen st \<subseteq> tk_seen st'" "tk_revoked st \<subseteq> tk_revoked st'"
    "tk_revoked st \<subseteq> tk_seen st \<Longrightarrow> tk_revoked st' \<subseteq> tk_seen st'"
  using assms by (cases, auto)+

lemma token_trace_mono:
  assumes "token_trace st xs st'"
  shows "tk_revoked st \<subseteq> tk_revoked st'" "tk_revoked st \<subseteq> tk_seen st \<Longrightarrow> tk_revoked st' \<subseteq> tk_seen st'"
  using assms by (induction rule: token_trace.induct) (use token_step_mono in blast)+

lemma token_trace_append:
  "token_trace st (xs @ ys) st'' \<longleftrightarrow> (\<exists>st'. token_trace st xs st' \<and> token_trace st' ys st'')"
  by (induction xs arbitrary: st) (auto simp: token_trace_simps)

text \<open>A token is seen by being issued or refreshed.\<close>

lemma seen_was_issued:
  assumes "token_trace st xs st'" "t \<in> tk_seen st'" "t \<notin> tk_seen st"
  shows "\<exists>y\<in>set xs. oe_kind y \<in> {INITIAL, REFRESH} \<and> oe_token y = t"
  using assms
proof (induction rule: token_trace.induct)
  case (Step st x st' xs st'')
  show ?case
  proof (cases "t \<in> tk_seen st'")
    case True
    with Step.hyps(1) Step.prems show ?thesis by cases auto
  qed (use Step in auto)
qed simp

lemma revoked_was_seen:
  assumes "token_trace no_tokens (xs @ x # ys) st" "oe_kind x = REVOKE"
  shows "\<exists>y\<in>set xs. oe_kind y \<in> {INITIAL, REFRESH} \<and> oe_token y = oe_token x"
proof -
  obtain s1 s2 where t: "token_trace no_tokens xs s1" "token_step s1 x s2"
    using assms(1) by (auto simp: token_trace_append token_trace_simps)
  from t(2) assms(2) have "oe_token x \<in> tk_seen s1" by cases auto
  then show ?thesis using seen_was_issued [OF t(1)] by (simp add: no_tokens_def)
qed

text \<open>After a token's revocation no request with it is accepted.\<close>

lemma revoked_stays_out:
  assumes "token_trace st (xs @ x # ys) st'" "oe_kind x = REVOKE" "y \<in> set ys" "oe_kind y = REQUEST" "oe_token y = oe_token x"
  shows "\<not> oe_accepted y"
proof -
  obtain zs ws where ys: "ys = zs @ y # ws" using assms(3) by (meson split_list)
  from assms(1) obtain s1 s2 s3 s4 where t: "token_trace st xs s1" "token_step s1 x s2" "token_trace s2 zs s3" "token_step s3 y s4"
    unfolding ys by (auto simp: token_trace_append token_trace_simps)
  have "oe_token x \<in> tk_revoked s2" using t(2) assms(2) by cases auto
  then have "oe_token y \<in> tk_revoked s3" using token_trace_mono(1) [OF t(3)] assms(5) by auto
  with t(4) assms(4) show ?thesis by cases auto
qed

subsection \<open>What drift shows\<close>

definition contracts :: "authorization_epoch \<times> authorization_epoch \<Rightarrow> bool" where
  "contracts = (\<lambda>(a, b). ae_scopes b \<subset> ae_scopes a)"

lemma drift_scan_eq:
  "drift_scan p xs (c, d) =
     (c \<or> list_ex contracts (zip (p # xs) xs), d \<or> list_ex (\<lambda>ab. contracts ab \<and> \<not> ae_allowed (snd ab)) (zip (p # xs) xs))"
  by (induction xs arbitrary: p c d) (auto simp: contracts_def)

lemma drift_flags_eq:
  assumes "xs \<noteq> []"
  shows "drift_flags xs = (list_ex contracts (zip xs (tl xs)),
    list_ex (\<lambda>ab. contracts ab \<and> \<not> ae_allowed (snd ab)) (zip xs (tl xs)))"
  using assms by (cases xs) (simp_all add: drift_flags_def drift_scan_eq)

text \<open>Accepted drift holds a contraction that was answered by a denial; one is enough.\<close>

lemma drift_accepted_iff:
  assumes "xs \<noteq> []"
  shows "dt_accepted (drift_summary xs) \<longleftrightarrow>
    (\<exists>us a b vs. xs = us @ a # b # vs \<and> ae_scopes b \<subset> ae_scopes a \<and> \<not> ae_allowed b)"
proof -
  have "dt_accepted (drift_summary xs) \<longleftrightarrow> list_ex (\<lambda>ab. contracts ab \<and> \<not> ae_allowed (snd ab)) (zip xs (tl xs))"
    unfolding drift_summary_def drift_flags_eq [OF assms] by (auto simp: Let_def list_ex_iff)
  also have "\<dots> \<longleftrightarrow> (\<exists>us a b vs. xs = us @ a # b # vs \<and> ae_scopes b \<subset> ae_scopes a \<and> \<not> ae_allowed b)"
  proof
    assume "list_ex (\<lambda>ab. contracts ab \<and> \<not> ae_allowed (snd ab)) (zip xs (tl xs))"
    then obtain i where z: "i < length (zip xs (tl xs))" "contracts (zip xs (tl xs) ! i)" "\<not> ae_allowed (snd (zip xs (tl xs) ! i))"
      unfolding list_ex_length by blast
    then have i: "Suc i < length xs" "ae_scopes (xs ! Suc i) \<subset> ae_scopes (xs ! i)" "\<not> ae_allowed (xs ! Suc i)"
      by (simp_all add: contracts_def nth_tl)
    then have "xs = take i xs @ xs ! i # xs ! Suc i # drop (Suc (Suc i)) xs"
      by (simp add: id_take_nth_drop Cons_nth_drop_Suc)
    with i show "\<exists>us a b vs. xs = us @ a # b # vs \<and> ae_scopes b \<subset> ae_scopes a \<and> \<not> ae_allowed b" by metis
  next
    assume "\<exists>us a b vs. xs = us @ a # b # vs \<and> ae_scopes b \<subset> ae_scopes a \<and> \<not> ae_allowed b"
    then obtain us a b vs where "xs = us @ a # b # vs" "ae_scopes b \<subset> ae_scopes a" "\<not> ae_allowed b" by blast
    then show "list_ex (\<lambda>ab. contracts ab \<and> \<not> ae_allowed (snd ab)) (zip xs (tl xs))"
      unfolding list_ex_length by (intro exI [of _ "length us"]) (simp add: contracts_def nth_append nth_tl)
  qed
  finally show ?thesis .
qed

end
