(* ===== verification/Multiplicity.thy ===== *)
theory Multiplicity
  imports FloatOrder Aggregates
begin

section \<open>Multiplicity control (\<open>statistics/multiplicity.py\<close>)\<close>

text \<open>
  P-values of several hypotheses are adjusted by Holm's or by Benjamini and Hochberg's method and
  given back in the caller's order. The loops run on the floats the code computes; what they decide
  is stated without them, as the step-down and step-up rules over ranks.
\<close>

datatype multiplicity_method = HOLM_FWER | BENJAMINI_HOCHBERG_FDR

record hypothesis =
  hy_id :: string
  hy_p :: pyfloat

record adjusted_hypothesis =
  ah_id :: string
  ah_p :: pyfloat
  ah_adjusted :: pyfloat
  ah_rejected :: bool

definition max_hypotheses :: int where
  "max_hypotheses = 10000"

definition max_hypothesis_id :: int where
  "max_hypothesis_id = 160"

definition control_char :: "char \<Rightarrow> bool" where
  "control_char c \<longleftrightarrow> (of_char c :: nat) < 32 \<or> (of_char c :: nat) = 127"

definition validate_hypothesis_id :: "string \<Rightarrow> error + unit" where
  "validate_hypothesis_id v = raise_if
     [(v = [] \<or> int (length v) > max_hypothesis_id \<or> py_strip v \<noteq> v \<or> list_ex control_char v,
       vale (''hypothesis_id must contain 1..160 trimmed characters without controls''))]"

definition validate_unit_float :: "string \<Rightarrow> bool \<Rightarrow> pyfloat \<Rightarrow> error + unit" where
  "validate_unit_float name allow_zero v = raise_if
     [(\<not> isfinite v, vale (name @ '' must be a finite float'')),
      (\<not> (if allow_zero then fl_le fl_0 v \<and> fl_le v fl_1 else fl_lt fl_0 v \<and> fl_lt v fl_1),
       vale (name @ '' is outside the permitted probability interval''))]"

definition make_hypothesis :: "hypothesis \<Rightarrow> error + hypothesis" where
  "make_hypothesis h =
     rbind (validate_hypothesis_id (hy_id h)) (\<lambda>_. rbind (validate_unit_float ''p_value'' True (hy_p h)) (\<lambda>_. Inr h))"

definition make_adjusted :: "adjusted_hypothesis \<Rightarrow> error + adjusted_hypothesis" where
  "make_adjusted a =
     rbind (validate_hypothesis_id (ah_id a)) (\<lambda>_.
     rbind (validate_unit_float ''p_value'' True (ah_p a)) (\<lambda>_.
     rbind (validate_unit_float ''adjusted_p_value'' True (ah_adjusted a)) (\<lambda>_. Inr a)))"

subsection \<open>The two adjustments\<close>

fun holm_loop :: "nat \<Rightarrow> pyfloat \<Rightarrow> pyfloat list \<Rightarrow> pyfloat list" where
  "holm_loop left running [] = []"
| "holm_loop left running (p # ps) =
     (let running = fl_max running (fl_min fl_1 (fl_mul (fl_of_int (int left)) p))
      in running # holm_loop (left - 1) running ps)"

definition holm_adjusted :: "pyfloat list \<Rightarrow> pyfloat list" where
  "holm_adjusted ps = holm_loop (length ps) fl_0 ps"

text \<open>The loop of the other method runs from the last rank to the first; \<open>bh_loop n rank ps\<close> is what
  it leaves for the values from \<open>rank\<close> on.\<close>

fun bh_loop :: "nat \<Rightarrow> nat \<Rightarrow> pyfloat list \<Rightarrow> pyfloat list" where
  "bh_loop n rank [] = []"
| "bh_loop n rank (p # ps) =
     (let rest = bh_loop n (rank + 1) ps; running = (case rest of [] \<Rightarrow> fl_1 | r # _ \<Rightarrow> r);
          candidate = fl_min fl_1 (fl_div (fl_mul (fl_of_int (int n)) p) (fl_of_int (int rank)))
      in fl_min running candidate # rest)"

definition bh_adjusted :: "pyfloat list \<Rightarrow> pyfloat list" where
  "bh_adjusted ps = bh_loop (length ps) 1 ps"

text \<open>\<open>sorted\<close> on pairs of a float and a text, stable and by \<open><\<close>.\<close>

definition hyp_lt :: "hypothesis \<Rightarrow> hypothesis \<Rightarrow> bool" where
  "hyp_lt a b \<longleftrightarrow> fl_lt (hy_p a) (hy_p b) \<or> fl_eq (hy_p a) (hy_p b) \<and> hy_id a < hy_id b"

fun hyp_insert :: "nat \<times> hypothesis \<Rightarrow> (nat \<times> hypothesis) list \<Rightarrow> (nat \<times> hypothesis) list" where
  "hyp_insert x [] = [x]"
| "hyp_insert x (y # ys) = (if hyp_lt (snd y) (snd x) then y # hyp_insert x ys else x # y # ys)"

definition hyp_sort :: "(nat \<times> hypothesis) list \<Rightarrow> (nat \<times> hypothesis) list" where
  "hyp_sort xs = foldr hyp_insert xs []"

fun restore :: "pyfloat \<Rightarrow> ((nat \<times> hypothesis) \<times> pyfloat) list \<Rightarrow> adjusted_hypothesis option list
    \<Rightarrow> error + adjusted_hypothesis option list" where
  "restore alpha [] acc = Inr acc"
| "restore alpha (((i, h), a) # xs) acc =
     rbind (make_adjusted \<lparr>ah_id = hy_id h, ah_p = hy_p h, ah_adjusted = a, ah_rejected = fl_le a alpha\<rparr>) (\<lambda>x.
     restore alpha xs (acc[i := Some x]))"

definition adjustment :: "multiplicity_method \<Rightarrow> pyfloat list \<Rightarrow> pyfloat list" where
  "adjustment m ps = (case m of HOLM_FWER \<Rightarrow> holm_adjusted ps | BENJAMINI_HOCHBERG_FDR \<Rightarrow> bh_adjusted ps)"

definition adjust_guards :: "pyfloat \<Rightarrow> hypothesis list \<Rightarrow> error + unit" where
  "adjust_guards alpha hs =
     rbind (raise_if
       [(hs = [], vale ''at least one hypothesis is required''),
        (int (length hs) > max_hypotheses, vale (''hypothesis count exceeds maximum 10000''))]) (\<lambda>_.
     rbind (validate_unit_float ''alpha'' False alpha) (\<lambda>_.
     raise_if [(\<not> distinct (map hy_id hs), vale ''hypothesis identifiers must be unique'')]))"

definition adjust_p_values :: "multiplicity_method \<Rightarrow> pyfloat \<Rightarrow> hypothesis list \<Rightarrow> error + adjusted_hypothesis list" where
  "adjust_p_values m alpha hs =
     rbind (adjust_guards alpha hs) (\<lambda>_.
     let ordered = hyp_sort (zip [0..<length hs] hs); adjusted = adjustment m (map (hy_p \<circ> snd) ordered) in
     rbind (restore alpha (zip ordered adjusted) (replicate (length hs) None)) (\<lambda>restored.
     if None \<in> set restored
     then Inl (Err AssertionError ''internal multiplicity ordering did not cover every hypothesis'')
     else Inr (map the restored)))"

subsection \<open>Signs of products and quotients\<close>

definition fl_nonneg :: "pyfloat \<Rightarrow> bool" where
  "fl_nonneg x \<longleftrightarrow> (case x of FFin s m e \<Rightarrow> \<not> s \<or> m = 0 | FInf s \<Rightarrow> \<not> s | FNaN \<Rightarrow> False)"

definition of_sign :: "bool \<Rightarrow> pyfloat \<Rightarrow> bool" where
  "of_sign s x \<longleftrightarrow> (\<exists>m e. x = FFin s m e) \<or> x = FInf s"

lemma fl_nonneg_simps [simp]:
  "fl_nonneg (FFin s m e) \<longleftrightarrow> \<not> s \<or> m = 0" "fl_nonneg (FInf s) \<longleftrightarrow> \<not> s" "\<not> fl_nonneg FNaN"
  by (simp_all add: fl_nonneg_def)

lemma of_sign_intros:
  "of_sign s (FFin s m e)" "of_sign s (FInf s)"
  "of_sign s a \<Longrightarrow> of_sign s b \<Longrightarrow> of_sign s (if c then a else b)"
  "(\<And>x. of_sign s (f x)) \<Longrightarrow> of_sign s (Let v f)"
  by (auto simp: of_sign_def)

lemma fl_ratio_cases: "of_sign s (fl_ratio s a b)"
  unfolding fl_ratio_def by (intro of_sign_intros)

lemma fl_ratio_nonneg [simp]: "fl_nonneg (fl_ratio False a b)"
  using fl_ratio_cases [of False a b] by (auto simp: of_sign_def)

lemma fl_ratio_zero: "fl_nonneg (fl_ratio s 0 b)"
  by (simp add: fl_ratio_def)

lemma fl_dyadic_nonneg: "0 \<le> m \<Longrightarrow> fl_nonneg (fl_dyadic s m e)"
  by (cases "m = 0") (simp_all add: fl_dyadic_def fl_ratio_zero)

lemma fl_of_int_nonneg [simp]: "fl_nonneg (fl_of_int (int n))"
  by (simp add: fl_of_int_def fl_dyadic_nonneg)

lemma fl_mul_nonneg:
  assumes "fl_nonneg x" "fl_nonneg y" "isfinite y"
  shows "fl_nonneg (fl_mul x y) \<or> fl_mul x y = FNaN"
proof -
  obtain s m e where y: "y = FFin s m e" using assms(3) by (cases y) auto
  show ?thesis
  proof (cases x)
    case (FFin s' m' e')
    then have "0 \<le> PyFloat.signed s' m' * PyFloat.signed s m"
      using assms y by (auto simp: PyFloat.signed_def)
    then show ?thesis by (simp add: FFin y fl_dyadic_nonneg)
  qed (use assms y in auto)
qed

lemma fl_of_int_positive: "of_sign False (fl_of_int (int n))"
  by (simp add: fl_of_int_def fl_dyadic_def fl_ratio_cases)

lemma fl_div_nonneg:
  assumes "fl_nonneg x" "of_sign False y"
  shows "fl_nonneg (fl_div x y) \<or> fl_div x y = FNaN"
proof (cases x; cases y)
  fix s m e s' m' e' assume xy: "x = FFin s m e" "y = FFin s' m' e'"
  then show ?thesis
    using assms fl_ratio_zero by (cases "m = 0"; cases "m' = 0") (auto simp: of_sign_def)
qed (use assms in \<open>auto simp: of_sign_def\<close>)

lemma powi_positive [simp]: "\<not> (2::real) powi e \<le> 0"
  by (simp add: not_le)

lemma fl_1_form: "fl_1 = FFin False (2 ^ 52) (- 52)"
  by (simp add: fl_1_def fl_of_int_def fl_dyadic_def fl_ratio_def nlog2.simps Let_def)

lemma isfinite_units [simp]: "isfinite fl_0" "isfinite fl_1"
  by (simp_all add: fl_0_def fl_1_form)

lemma fl_val_units [simp]: "fl_val fl_0 = 0" "fl_val fl_1 = 1"
  by (simp_all add: fl_0_def fl_1_form PyFloat.signed_def power_int_minus)

lemma fl_nonneg_val: "isfinite x \<Longrightarrow> fl_nonneg x \<longleftrightarrow> 0 \<le> fl_val x"
  by (cases x) (auto simp: PyFloat.signed_def zero_le_mult_iff not_le)

definition unit_val :: "pyfloat \<Rightarrow> bool" where
  "unit_val x \<longleftrightarrow> isfinite x \<and> 0 \<le> fl_val x \<and> fl_val x \<le> 1"

text \<open>A candidate is a number of the unit interval, even where the product is none.\<close>

lemma candidate_unit:
  assumes "fl_nonneg x \<or> x = FNaN"
  shows "unit_val (fl_min fl_1 x)"
proof (cases "fl_lt x fl_1")
  case True
  then have "isfinite x" using assms by (cases x) (auto simp: fl_1_form)
  with True assms show ?thesis by (auto simp: unit_val_def fl_min_def fl_nonneg_val fl_compare)
qed (simp add: unit_val_def fl_min_def)

lemma fl_max_val: "isfinite a \<Longrightarrow> isfinite b \<Longrightarrow> isfinite (fl_max a b) \<and> fl_val (fl_max a b) = max (fl_val a) (fl_val b)"
  by (auto simp: fl_max_def fl_compare)

lemma fl_min_val: "isfinite a \<Longrightarrow> isfinite b \<Longrightarrow> isfinite (fl_min a b) \<and> fl_val (fl_min a b) = min (fl_val a) (fl_val b)"
  by (auto simp: fl_min_def fl_compare)

subsection \<open>What the loops decide\<close>

definition holm_bound :: "nat \<Rightarrow> pyfloat \<Rightarrow> pyfloat" where
  "holm_bound left p = fl_min fl_1 (fl_mul (fl_of_int (int left)) p)"

definition bh_bound :: "nat \<Rightarrow> nat \<Rightarrow> pyfloat \<Rightarrow> pyfloat" where
  "bh_bound n rank p = fl_min fl_1 (fl_div (fl_mul (fl_of_int (int n)) p) (fl_of_int (int rank)))"

lemma unit_val_nonneg: "unit_val x \<Longrightarrow> fl_nonneg x \<and> isfinite x"
  by (simp add: unit_val_def fl_nonneg_val)

lemma holm_bound_unit: "unit_val p \<Longrightarrow> unit_val (holm_bound left p)"
  unfolding holm_bound_def
  by (intro candidate_unit fl_mul_nonneg) (simp_all add: unit_val_nonneg)

lemma fl_div_nan [simp]: "fl_div FNaN x = FNaN"
  by (cases x) simp_all

lemma bh_bound_unit:
  assumes "unit_val p"
  shows "unit_val (bh_bound n rank p)"
proof -
  let ?m = "fl_mul (fl_of_int (int n)) p"
  have "fl_nonneg ?m \<or> ?m = FNaN" using assms by (intro fl_mul_nonneg) (simp_all add: unit_val_nonneg)
  then have "fl_nonneg (fl_div ?m (fl_of_int (int rank))) \<or> fl_div ?m (fl_of_int (int rank)) = FNaN"
    using fl_div_nonneg [OF _ fl_of_int_positive] by auto
  then show ?thesis unfolding bh_bound_def by (rule candidate_unit)
qed

lemma unit_max_min:
  assumes "unit_val a" "unit_val b"
  shows "unit_val (fl_max a b)" "unit_val (fl_min a b)"
    "isfinite alpha \<Longrightarrow> fl_le (fl_max a b) alpha \<longleftrightarrow> fl_le a alpha \<and> fl_le b alpha"
    "isfinite alpha \<Longrightarrow> fl_le (fl_min a b) alpha \<longleftrightarrow> fl_le a alpha \<or> fl_le b alpha"
  using assms fl_max_val [of a b] fl_min_val [of a b] by (auto simp: unit_val_def fl_le_val)

lemma unit_units [simp]: "unit_val fl_0" "unit_val fl_1"
  by (simp_all add: unit_val_def)

lemma holm_loop_length [simp]: "length (holm_loop left r ps) = length ps"
  by (induction ps arbitrary: left r) (simp_all add: Let_def)

lemma bh_loop_length [simp]: "length (bh_loop n rank ps) = length ps"
  by (induction ps arbitrary: rank) (simp_all add: Let_def)

lemma all_upto_Suc: "(\<forall>j \<le> Suc k. P j) \<longleftrightarrow> P 0 \<and> (\<forall>j \<le> k. P (Suc j))"
  by (metis Suc_le_mono le0 not0_implies_Suc)

lemma holm_loop_nth:
  assumes "\<forall>p \<in> set ps. unit_val p" "unit_val r" "k < length ps" "isfinite alpha"
  shows "unit_val (holm_loop left r ps ! k) \<and>
    (fl_le (holm_loop left r ps ! k) alpha \<longleftrightarrow>
       fl_le r alpha \<and> (\<forall>j \<le> k. fl_le (holm_bound (left - j) (ps ! j)) alpha))"
  using assms
proof (induction ps arbitrary: left r k)
  case (Cons p ps)
  let ?r = "fl_max r (holm_bound left p)"
  have r: "unit_val ?r" and le: "fl_le ?r alpha \<longleftrightarrow> fl_le r alpha \<and> fl_le (holm_bound left p) alpha"
    using Cons.prems holm_bound_unit [of p left] by (simp_all add: unit_max_min)
  have step: "holm_loop left r (p # ps) = ?r # holm_loop (left - 1) ?r ps"
    by (simp add: Let_def holm_bound_def)
  show ?case
  proof (cases k)
    case 0
    then show ?thesis using r le by (simp add: step del: holm_loop.simps)
  next
    case (Suc k')
    then have "unit_val (holm_loop (left - 1) ?r ps ! k') \<and> (fl_le (holm_loop (left - 1) ?r ps ! k') alpha \<longleftrightarrow>
        fl_le ?r alpha \<and> (\<forall>j \<le> k'. fl_le (holm_bound (left - 1 - j) (ps ! j)) alpha))"
      using Cons.prems r by (intro Cons.IH) auto
    then show ?thesis unfolding step Suc all_upto_Suc by (simp add: le conj_ac)
  qed
qed simp

lemma bh_loop_nth:
  assumes "\<forall>p \<in> set ps. unit_val p" "k < length ps" "isfinite alpha" "\<not> fl_le fl_1 alpha"
  shows "unit_val (bh_loop n rank ps ! k) \<and>
    (fl_le (bh_loop n rank ps ! k) alpha \<longleftrightarrow>
       (\<exists>j. k \<le> j \<and> j < length ps \<and> fl_le (bh_bound n (rank + j) (ps ! j)) alpha))"
  using assms
proof (induction ps arbitrary: rank k)
  case (Cons p ps)
  let ?rest = "bh_loop n (rank + 1) ps"
  define r where "r = (case ?rest of [] \<Rightarrow> fl_1 | r # _ \<Rightarrow> r)"
  have step: "bh_loop n rank (p # ps) = fl_min r (bh_bound n rank p) # ?rest"
    by (simp add: Let_def bh_bound_def r_def)
  have rest: "k' < length ps \<Longrightarrow> unit_val (?rest ! k') \<and> (fl_le (?rest ! k') alpha \<longleftrightarrow>
       (\<exists>j. k' \<le> j \<and> j < length ps \<and> fl_le (bh_bound n (rank + 1 + j) (ps ! j)) alpha))" for k'
    using Cons.prems by (intro Cons.IH) auto
  have r: "unit_val r \<and> (fl_le r alpha \<longleftrightarrow> (\<exists>j < length ps. fl_le (bh_bound n (rank + 1 + j) (ps ! j)) alpha))"
  proof (cases ?rest)
    case Nil
    then have "ps = []" using bh_loop_length [of n "rank + 1" ps] by simp
    with Cons.prems show ?thesis by (simp add: r_def)
  next
    case (Cons x xs)
    then have "0 < length ps" using bh_loop_length [of n "rank + 1" ps] by (metis length_Cons zero_less_Suc)
    from rest [OF this] Cons show ?thesis by (simp add: r_def)
  qed
  have ex: "(\<exists>j < Suc (length ps). P j) \<longleftrightarrow> P 0 \<or> (\<exists>j < length ps. P (Suc j))" for P
    by (metis Suc_less_eq not0_implies_Suc zero_less_Suc)
  show ?case
  proof (cases k)
    case 0
    then show ?thesis using r unit_max_min [of r "bh_bound n rank p"] bh_bound_unit [of p] Cons.prems
      ex [of "\<lambda>j. fl_le (bh_bound n (rank + j) ((p # ps) ! j)) alpha"]
      unfolding step by auto
  next
    case (Suc k')
    have "(\<exists>j. Suc k' \<le> j \<and> j < Suc (length ps) \<and> P j) \<longleftrightarrow> (\<exists>j. k' \<le> j \<and> j < length ps \<and> P (Suc j))" for P
      by (metis Suc_le_D Suc_le_mono Suc_less_eq)
    then show ?thesis using rest [of k'] Cons.prems(2) Suc unfolding step by simp
  qed
qed simp

subsection \<open>Order and ranks\<close>

definition valid_hypothesis :: "hypothesis \<Rightarrow> bool" where
  "valid_hypothesis h \<longleftrightarrow> make_hypothesis h = Inr h"

lemma validate_unit_iff: "validate_unit_float name True v = Inr () \<longleftrightarrow> unit_val v"
  by (cases "isfinite v") (simp_all add: validate_unit_float_def unit_val_def raise_if_Inr_iff fl_le_val)

lemma valid_hypothesis_iff: "valid_hypothesis h \<longleftrightarrow> validate_hypothesis_id (hy_id h) = Inr () \<and> unit_val (hy_p h)"
  by (auto simp: valid_hypothesis_def make_hypothesis_def validate_unit_iff [of "''p_value''", symmetric] rbind_Inr)

definition hkey :: "hypothesis \<Rightarrow> real \<times> string" where
  "hkey h = (fl_val (hy_p h), hy_id h)"

lemma hyp_lt_key: "unit_val (hy_p a) \<Longrightarrow> unit_val (hy_p b) \<Longrightarrow> hyp_lt a b \<longleftrightarrow> hkey a < hkey b"
  by (auto simp: hyp_lt_def hkey_def unit_val_def fl_compare)

lemma hyp_insert_key:
  "\<forall>y \<in> set (x # xs). unit_val (hy_p (snd y)) \<Longrightarrow> hyp_insert x xs = insort_key (\<lambda>y. hkey (snd y)) x xs"
  by (induction xs) (auto simp: hyp_lt_key not_less)

lemma hyp_sort_key:
  "\<forall>y \<in> set xs. unit_val (hy_p (snd y)) \<Longrightarrow> hyp_sort xs = sort_key (\<lambda>y. hkey (snd y)) xs"
proof (induction xs)
  case (Cons x xs)
  then show ?case using hyp_insert_key [of x "hyp_sort xs"] by (simp add: hyp_sort_def)
qed (simp add: hyp_sort_def)

text \<open>How many hypotheses come before one.\<close>

definition before :: "hypothesis list \<Rightarrow> hypothesis \<Rightarrow> nat" where
  "before hs h = length (filter (\<lambda>g. hyp_lt g h) hs)"

lemma strict_count:
  assumes "sorted_wrt (\<lambda>a b. R a b) xs" "k < length xs" "\<And>a b. R a b \<Longrightarrow> \<not> R b a" "\<And>a. \<not> R a a"
  shows "length (filter (\<lambda>g. R g (xs ! k)) xs) = k"
proof -
  have "filter (\<lambda>g. R g (xs ! k)) (take k xs @ drop k xs) = take k xs @ []"
    unfolding filter_append
  proof (rule arg_cong2 [where f = "(@)"])
    show "filter (\<lambda>g. R g (xs ! k)) (take k xs) = take k xs"
      using assms(1,2) by (auto simp: filter_id_conv in_set_conv_nth sorted_wrt_iff_nth_less)
    have "\<not> R (xs ! (k + j)) (xs ! k)" if "k + j < length xs" for j
      using assms(1,3,4) that by (cases j) (auto simp: sorted_wrt_iff_nth_less)
    then show "filter (\<lambda>g. R g (xs ! k)) (drop k xs) = []"
      by (auto simp: filter_empty_conv in_set_conv_nth)
  qed
  then show ?thesis using assms(2) by simp
qed

lemma restore_Inr:
  assumes "\<forall>((i, h), a) \<in> set xs. valid_hypothesis h \<and> unit_val a \<and> i < length acc" "distinct (map (fst \<circ> fst) xs)"
  shows "\<exists>ys. restore alpha xs acc = Inr ys \<and> length ys = length acc
    \<and> (\<forall>((i, h), a) \<in> set xs. ys ! i = Some \<lparr>ah_id = hy_id h, ah_p = hy_p h, ah_adjusted = a, ah_rejected = fl_le a alpha\<rparr>)
    \<and> (\<forall>i. i \<notin> (fst \<circ> fst) ` set xs \<longrightarrow> ys ! i = acc ! i)"
  using assms
proof (induction xs arbitrary: acc)
  case (Cons x xs)
  obtain i h a where x: "x = ((i, h), a)" by (cases x) auto
  let ?a = "\<lparr>ah_id = hy_id h, ah_p = hy_p h, ah_adjusted = a, ah_rejected = fl_le a alpha\<rparr>"
  have made: "make_adjusted ?a = Inr ?a"
    using Cons.prems x by (auto simp: make_adjusted_def valid_hypothesis_iff validate_unit_iff rbind_Inr)
  have "\<exists>ys. restore alpha xs (acc[i := Some ?a]) = Inr ys \<and> length ys = length (acc[i := Some ?a])
    \<and> (\<forall>((i, h), a) \<in> set xs. ys ! i = Some \<lparr>ah_id = hy_id h, ah_p = hy_p h, ah_adjusted = a, ah_rejected = fl_le a alpha\<rparr>)
    \<and> (\<forall>j. j \<notin> (fst \<circ> fst) ` set xs \<longrightarrow> ys ! j = acc[i := Some ?a] ! j)"
    using Cons.prems x by (intro Cons.IH) auto
  then obtain ys where ys: "restore alpha xs (acc[i := Some ?a]) = Inr ys" "length ys = length acc"
    "\<forall>((i, h), a) \<in> set xs. ys ! i = Some \<lparr>ah_id = hy_id h, ah_p = hy_p h, ah_adjusted = a, ah_rejected = fl_le a alpha\<rparr>"
    "\<forall>j. j \<notin> (fst \<circ> fst) ` set xs \<longrightarrow> ys ! j = acc[i := Some ?a] ! j"
    by auto
  have "i \<notin> (fst \<circ> fst) ` set xs" "i < length acc" using Cons.prems x by auto
  then have "ys ! i = Some ?a" using ys(4) by simp
  then show ?case using ys made by (intro exI [of _ ys]) (auto simp: x)
qed simp

subsection \<open>The step-down and the step-up rule\<close>

definition rejected_by :: "multiplicity_method \<Rightarrow> pyfloat \<Rightarrow> hypothesis list \<Rightarrow> hypothesis \<Rightarrow> bool" where
  "rejected_by m alpha hs h = (case m of
     HOLM_FWER \<Rightarrow> \<forall>g \<in> set hs. \<not> hyp_lt h g \<longrightarrow> fl_le (holm_bound (length hs - before hs g) (hy_p g)) alpha
   | BENJAMINI_HOCHBERG_FDR \<Rightarrow>
       \<exists>g \<in> set hs. \<not> hyp_lt g h \<and> fl_le (bh_bound (length hs) (1 + before hs g) (hy_p g)) alpha)"

lemma adjustment_length [simp]: "length (adjustment m ps) = length ps"
  by (cases m) (simp_all add: adjustment_def holm_adjusted_def bh_adjusted_def)

lemma adjustment_nth:
  assumes "\<forall>p \<in> set ps. unit_val p" "k < length ps" "isfinite alpha" "fl_lt fl_0 alpha" "fl_lt alpha fl_1"
  shows "unit_val (adjustment m ps ! k)"
    "m = HOLM_FWER \<Longrightarrow> fl_le (adjustment m ps ! k) alpha \<longleftrightarrow>
       (\<forall>j \<le> k. fl_le (holm_bound (length ps - j) (ps ! j)) alpha)"
    "m = BENJAMINI_HOCHBERG_FDR \<Longrightarrow> fl_le (adjustment m ps ! k) alpha \<longleftrightarrow>
       (\<exists>j. k \<le> j \<and> j < length ps \<and> fl_le (bh_bound (length ps) (1 + j) (ps ! j)) alpha)"
proof -
  have "fl_le fl_0 alpha" "\<not> fl_le fl_1 alpha" using assms(3-5) by (auto simp: fl_le_val fl_compare)
  then show "unit_val (adjustment m ps ! k)"
    "m = HOLM_FWER \<Longrightarrow> fl_le (adjustment m ps ! k) alpha \<longleftrightarrow>
       (\<forall>j \<le> k. fl_le (holm_bound (length ps - j) (ps ! j)) alpha)"
    "m = BENJAMINI_HOCHBERG_FDR \<Longrightarrow> fl_le (adjustment m ps ! k) alpha \<longleftrightarrow>
       (\<exists>j. k \<le> j \<and> j < length ps \<and> fl_le (bh_bound (length ps) (1 + j) (ps ! j)) alpha)"
    using holm_loop_nth [of ps fl_0 k alpha "length ps"] bh_loop_nth [of ps k alpha "length ps" 1] assms(1-3)
    by (cases m; simp add: adjustment_def holm_adjusted_def bh_adjusted_def)+
qed

lemma ordered_facts:
  assumes "\<forall>h \<in> set hs. valid_hypothesis h" "distinct (map hy_id hs)"
  defines "ordered \<equiv> hyp_sort (zip [0..<length hs] hs)"
  shows "mset ordered = mset (zip [0..<length hs] hs)" "length ordered = length hs"
    "sorted_wrt hyp_lt (map snd ordered)"
proof -
  have units: "\<forall>y \<in> set (zip [0..<length hs] hs). unit_val (hy_p (snd y))"
    using assms(1) by (auto simp: valid_hypothesis_iff dest: set_zip_rightD)
  then have o: "ordered = sort_key (\<lambda>y. hkey (snd y)) (zip [0..<length hs] hs)"
    unfolding ordered_def by (rule hyp_sort_key)
  then show ms: "mset ordered = mset (zip [0..<length hs] hs)" "length ordered = length hs" by simp_all
  have "mset (map hy_id (map snd ordered)) = mset (map hy_id hs)"
    using ms(1) by (metis mset_map map_snd_zip length_upt minus_nat.diff_0)
  then have d: "distinct (map hy_id (map snd ordered))" using assms(2) mset_eq_imp_distinct_iff by blast
  have s: "sorted (map hkey (map snd ordered))" unfolding o by (simp add: comp_def)
  have u: "unit_val (hy_p (map snd ordered ! i))" if "i < length ordered" for i
    using units that ms by (metis (no_types) length_map mset_eq_setD nth_map nth_mem)
  show "sorted_wrt hyp_lt (map snd ordered)"
    unfolding sorted_wrt_iff_nth_less
  proof (intro allI impI)
    fix i j assume ij: "i < j" "j < length (map snd ordered)"
    have "hkey (map snd ordered ! i) \<le> hkey (map snd ordered ! j)"
      using sorted_nth_mono [OF s] ij by simp
    moreover have "hy_id (map snd ordered ! i) \<noteq> hy_id (map snd ordered ! j)"
      using d ij by (simp add: distinct_conv_nth)
    ultimately have "hkey (map snd ordered ! i) < hkey (map snd ordered ! j)"
      by (auto simp: hkey_def)
    then show "hyp_lt (map snd ordered ! i) (map snd ordered ! j)"
      using u ij by (simp add: hyp_lt_key)
  qed
qed

lemma before_ordered:
  assumes "\<forall>h \<in> set hs. valid_hypothesis h" "distinct (map hy_id hs)" "k < length hs"
  defines "xs \<equiv> map snd (hyp_sort (zip [0..<length hs] hs))"
  shows "before hs (xs ! k) = k"
proof -
  have m: "mset xs = mset hs"
    using ordered_facts(1) [OF assms(1,2)] unfolding xs_def
    by (metis mset_map map_snd_zip length_upt minus_nat.diff_0)
  then have st: "set xs = set hs" by (rule mset_eq_setD)
  have u: "\<forall>g \<in> set xs. unit_val (hy_p g)" using assms(1) st by (simp add: valid_hypothesis_iff)
  have k: "k < length xs" using assms(3) ordered_facts(2) [OF assms(1,2)] by (simp add: xs_def)
  have "before hs (xs ! k) = length (filter (\<lambda>g. hyp_lt g (xs ! k)) xs)"
    unfolding before_def using m by (metis mset_filter size_mset)
  also have "\<dots> = length (filter (\<lambda>g. hkey g < hkey (xs ! k)) xs)"
    using u k by (intro arg_cong [where f = length] filter_cong) (simp_all add: hyp_lt_key)
  also have "\<dots> = k"
  proof (rule strict_count [where R = "\<lambda>a b. hkey a < hkey b"])
    show "sorted_wrt (\<lambda>a b. hkey a < hkey b) xs"
      using ordered_facts(3) [OF assms(1,2)] u
      by (auto simp flip: xs_def simp: hyp_lt_key intro: sorted_wrt_mono_rel [rotated])
  qed (use k in auto)
  finally show ?thesis .
qed

lemma bex_set_conv_ex_nth: "(\<exists>g \<in> set xs. Q g) \<longleftrightarrow> (\<exists>j < length xs. Q (xs ! j))"
  by (metis in_set_conv_nth)

lemma ordered_prefix:
  assumes "sorted_wrt R xs" "\<And>a. \<not> R a a" "\<And>a b. R a b \<Longrightarrow> \<not> R b a" "k < length xs"
  shows "(\<forall>g \<in> set xs. \<not> R (xs ! k) g \<longrightarrow> P g) \<longleftrightarrow> (\<forall>j \<le> k. P (xs ! j))"
    "(\<exists>g \<in> set xs. \<not> R g (xs ! k) \<and> P g) \<longleftrightarrow> (\<exists>j. k \<le> j \<and> j < length xs \<and> P (xs ! j))"
proof -
  have r: "R (xs ! i) (xs ! j) \<longleftrightarrow> i < j" if "i < length xs" "j < length xs" for i j
    using assms(1-3) that by (metis linorder_neqE_nat sorted_wrt_iff_nth_less)
  show "(\<forall>g \<in> set xs. \<not> R (xs ! k) g \<longrightarrow> P g) \<longleftrightarrow> (\<forall>j \<le> k. P (xs ! j))"
    unfolding all_set_conv_all_nth using r assms(4) by (metis le_less_trans not_le)
  show "(\<exists>g \<in> set xs. \<not> R g (xs ! k) \<and> P g) \<longleftrightarrow> (\<exists>j. k \<le> j \<and> j < length xs \<and> P (xs ! j))"
    unfolding bex_set_conv_ex_nth using r assms(4) by (auto simp: not_less)
qed

lemma adjustment_rule:
  assumes "\<forall>h \<in> set hs. valid_hypothesis h" "adjust_guards alpha hs = Inr ()" "k < length hs"
  defines "xs \<equiv> map snd (hyp_sort (zip [0..<length hs] hs))"
  shows "unit_val (adjustment m (map hy_p xs) ! k)
    \<and> (fl_le (adjustment m (map hy_p xs) ! k) alpha \<longleftrightarrow> rejected_by m alpha hs (xs ! k))"
proof -
  have d: "distinct (map hy_id hs)" and a: "isfinite alpha" "fl_lt fl_0 alpha" "fl_lt alpha fl_1"
    using assms(2) by (auto simp: adjust_guards_def rbind_Inr raise_if_Inr_iff validate_unit_float_def)
  note of = ordered_facts [OF assms(1) d, folded xs_def]
  have st: "set xs = set hs"
    using of(1) unfolding xs_def by (metis mset_map map_snd_zip length_upt minus_nat.diff_0 mset_eq_setD)
  have len: "length xs = length hs" using of(2) by (simp add: xs_def)
  have k: "k < length xs" using assms(3) len by simp
  have xk: "xs ! k \<in> set hs" using nth_mem [OF k] st by metis
  have u: "\<forall>g \<in> set xs. unit_val (hy_p g)" using assms(1) st by (simp add: valid_hypothesis_iff)
  have "sorted_wrt (\<lambda>a b. hkey a < hkey b) xs"
    using of(3) u by (auto simp: hyp_lt_key intro: sorted_wrt_mono_rel [rotated])
  note pre = ordered_prefix [OF this _ _ k, simplified]
  have lt: "hyp_lt a b \<longleftrightarrow> hkey a < hkey b" if "a \<in> set xs" "b \<in> set xs" for a b
    using u that by (simp add: hyp_lt_key)
  have bf: "before hs (xs ! j) = j" if "j < length xs" for j
    using before_ordered [OF assms(1) d, folded xs_def] that len by simp
  have ps: "\<forall>p \<in> set (map hy_p xs). unit_val p" "k < length (map hy_p xs)" using u k by auto
  note nth = adjustment_nth [OF ps a]
  have "fl_le (adjustment m (map hy_p xs) ! k) alpha \<longleftrightarrow> rejected_by m alpha hs (xs ! k)"
  proof (cases m)
    case HOLM_FWER
    have "rejected_by m alpha hs (xs ! k) \<longleftrightarrow> (\<forall>g \<in> set xs. \<not> hkey (xs ! k) < hkey g
        \<longrightarrow> fl_le (holm_bound (length hs - before hs g) (hy_p g)) alpha)"
      using lt xk by (simp add: rejected_by_def HOLM_FWER st)
    also have "\<dots> \<longleftrightarrow> (\<forall>j \<le> k. fl_le (holm_bound (length hs - j) (hy_p (xs ! j))) alpha)"
      using pre(1) bf k by simp
    finally show ?thesis using nth(2) [OF HOLM_FWER] len k by simp
  next
    case BENJAMINI_HOCHBERG_FDR
    have "rejected_by m alpha hs (xs ! k) \<longleftrightarrow> (\<exists>g \<in> set xs. \<not> hkey g < hkey (xs ! k)
        \<and> fl_le (bh_bound (length hs) (1 + before hs g) (hy_p g)) alpha)"
      using lt xk by (auto simp: rejected_by_def BENJAMINI_HOCHBERG_FDR st)
    also have "\<dots> \<longleftrightarrow> (\<exists>j. k \<le> j \<and> j < length xs \<and> fl_le (bh_bound (length hs) (1 + j) (hy_p (xs ! j))) alpha)"
      using pre(2) bf by auto
    finally show ?thesis using nth(3) [OF BENJAMINI_HOCHBERG_FDR] len by auto
  qed
  then show ?thesis using nth(1) by simp
qed

text \<open>The result, in the caller's order.\<close>

definition adjusted_of :: "multiplicity_method \<Rightarrow> pyfloat \<Rightarrow> hypothesis list \<Rightarrow> adjusted_hypothesis list \<Rightarrow> bool" where
  "adjusted_of m alpha hs ys \<longleftrightarrow> map ah_id ys = map hy_id hs \<and> map ah_p ys = map hy_p hs
     \<and> map ah_rejected ys = map (rejected_by m alpha hs) hs"

lemma adjust_decides:
  assumes valid: "\<forall>h \<in> set hs. valid_hypothesis h"
  shows "(\<exists>ys. adjust_p_values m alpha hs = Inr ys \<and> adjusted_of m alpha hs ys) \<longleftrightarrow> adjust_guards alpha hs = Inr ()"
proof
  assume g: "adjust_guards alpha hs = Inr ()"
  then have d: "distinct (map hy_id hs)"
    by (auto simp: adjust_guards_def rbind_Inr raise_if_Inr_iff)
  let ?zs = "zip [0..<length hs] hs" and ?o = "hyp_sort (zip [0..<length hs] hs)"
  let ?a = "adjustment m (map (hy_p \<circ> snd) ?o)"
  note of = ordered_facts [OF valid d]
  have mem: "set ?o = set ?zs" using of(1) by (rule mset_eq_setD)
  have "mset (map fst ?o) = mset [0..<length hs]" using of(1) by (metis mset_map map_fst_zip length_upt minus_nat.diff_0)
  then have "distinct (map fst ?o)" by (metis distinct_upt mset_eq_imp_distinct_iff)
  have rule: "unit_val (?a ! k) \<and> (fl_le (?a ! k) alpha \<longleftrightarrow> rejected_by m alpha hs (snd (?o ! k)))" if "k < length hs" for k
    using adjustment_rule [OF valid g that, of m] that of(2) by (simp add: comp_def)
  have pairs: "valid_hypothesis h \<and> unit_val a \<and> i < length hs \<and> h = hs ! i \<and> fl_le a alpha = rejected_by m alpha hs h"
    if pair: "((i, h), a) \<in> set (zip ?o ?a)" for i h a
  proof -
    obtain k where k: "k < length hs" "(i, h) = ?o ! k" "a = ?a ! k"
      using pair of(2) by (auto simp: in_set_zip)
    then have "(i, h) \<in> set ?zs" using mem of(2) by (metis nth_mem)
    then have "i < length hs" "h = hs ! i" by (auto simp: in_set_zip)
    then show ?thesis using rule [OF k(1)] k valid by (metis nth_mem snd_conv)
  qed
  have "\<exists>ys. restore alpha (zip ?o ?a) (replicate (length hs) None) = Inr ys \<and> length ys = length (replicate (length hs) None :: adjusted_hypothesis option list)
    \<and> (\<forall>((i, h), a) \<in> set (zip ?o ?a). ys ! i = Some \<lparr>ah_id = hy_id h, ah_p = hy_p h, ah_adjusted = a, ah_rejected = fl_le a alpha\<rparr>)
    \<and> (\<forall>i. i \<notin> (fst \<circ> fst) ` set (zip ?o ?a) \<longrightarrow> ys ! i = replicate (length hs) None ! i)"
    using pairs \<open>distinct (map fst ?o)\<close> of(2) by (intro restore_Inr) (auto simp flip: map_map)
  then obtain ys where ys: "restore alpha (zip ?o ?a) (replicate (length hs) None) = Inr ys" "length ys = length hs"
    "\<forall>((i, h), a) \<in> set (zip ?o ?a). ys ! i = Some \<lparr>ah_id = hy_id h, ah_p = hy_p h, ah_adjusted = a, ah_rejected = fl_le a alpha\<rparr>"
    by auto
  have each: "\<exists>a. ys ! i = Some \<lparr>ah_id = hy_id (hs ! i), ah_p = hy_p (hs ! i), ah_adjusted = a, ah_rejected = rejected_by m alpha hs (hs ! i)\<rparr>"
    if "i < length hs" for i
  proof -
    have "(i, hs ! i) \<in> set ?o" unfolding mem using that by (auto simp: in_set_zip intro!: exI [of _ i])
    then obtain k where "k < length hs" "?o ! k = (i, hs ! i)" using of(2) by (metis in_set_conv_nth)
    then have "((i, hs ! i), ?a ! k) \<in> set (zip ?o ?a)" using of(2) by (auto simp: in_set_zip intro!: exI [of _ k])
    then have "ys ! i = Some \<lparr>ah_id = hy_id (hs ! i), ah_p = hy_p (hs ! i), ah_adjusted = ?a ! k, ah_rejected = fl_le (?a ! k) alpha\<rparr>"
      and "fl_le (?a ! k) alpha = rejected_by m alpha hs (hs ! i)"
      using ys(3) pairs by blast+
    then show ?thesis by simp
  qed
  then have "None \<notin> set ys" using ys(2) by (metis in_set_conv_nth option.distinct(1))
  moreover have "adjusted_of m alpha hs (map the ys)"
    unfolding adjusted_of_def
  proof (intro conjI nth_equalityI)
  qed (use each ys(2) in \<open>fastforce+\<close>)
  ultimately show "\<exists>ys. adjust_p_values m alpha hs = Inr ys \<and> adjusted_of m alpha hs ys"
    by (simp add: adjust_p_values_def g ys(1) Let_def)
qed (auto simp: adjust_p_values_def rbind_Inr)

end
