(* ===== verification/Metamorphic.thy ===== *)
theory Metamorphic
  imports Recomputed Runner
begin

section \<open>Metamorphic relations and mutations (\<open>metamorphic/\<close>)\<close>

text \<open>
  A relation compares two trials or two policies and says \<open>SATISFIED\<close>, \<open>VIOLATED\<close> or
  \<open>INCONCLUSIVE\<close>. A mutation recipe turns a scenario into a mutant and a record that binds both; a
  report counts how many mutants a suite killed.
\<close>

datatype metamorphic_decision = SATISFIED | VIOLATED | META_INCONCLUSIVE

record relation_result =
  rr_decision :: metamorphic_decision
  rr_reasons :: "string list"

subsection \<open>Terminal state along chosen paths\<close>

datatype path_segment = Key string | Index int

fun resolve_path :: "json \<Rightarrow> path_segment list \<Rightarrow> json option" where
  "resolve_path current [] = Some current"
| "resolve_path current (Key k # path) = (case current of
       JObj d \<Rightarrow> (case dict_get d k of Some v \<Rightarrow> resolve_path v path | None \<Rightarrow> None)
     | _ \<Rightarrow> None)"
| "resolve_path current (Index i # path) = (case current of
       JArr xs \<Rightarrow> if 0 \<le> i \<and> i < int (length xs) then resolve_path (xs ! nat i) path else None
     | _ \<Rightarrow> None)"

fun render_segment :: "path_segment \<Rightarrow> string" where
  "render_segment (Key k) = ''['' @ str_repr k @ '']''"
| "render_segment (Index i) = ''['' @ int_str i @ '']''"

definition render_path :: "path_segment list \<Rightarrow> string" where
  "render_path path = ''$'' @ concat (map render_segment path)"

definition make_invariant :: "path_segment list list \<Rightarrow> error + unit" where
  "make_invariant paths = raise_if
     [(paths = [], vale ''at least one state path is required''),
      ([] \<in> set paths, vale ''state paths cannot be empty'')]"

definition path_missing :: "dict \<Rightarrow> dict \<Rightarrow> path_segment list \<Rightarrow> bool" where
  "path_missing a b path \<longleftrightarrow> resolve_path (JObj a) path = None \<or> resolve_path (JObj b) path = None"

definition path_changed :: "dict \<Rightarrow> dict \<Rightarrow> path_segment list \<Rightarrow> string list" where
  "path_changed a b path = (case (resolve_path (JObj a) path, resolve_path (JObj b) path) of
       (Some v, Some w) \<Rightarrow> if py_eq v w then [] else
         [render_path path @ '': baseline='' @ py_repr v @ '', transformed='' @ py_repr w]
     | _ \<Rightarrow> [])"

definition unsettled :: "verdict \<Rightarrow> bool" where
  "unsettled v \<longleftrightarrow> v \<in> {BLOCKED, INCONCLUSIVE}"

definition evaluate_invariant ::
  "path_segment list list \<Rightarrow> 'c evaluated_trial \<Rightarrow> 'c evaluated_trial \<Rightarrow> error + relation_result" where
  "evaluate_invariant paths baseline transformed =
     (let a = rt_evidence baseline; b = rt_evidence transformed in
      if te_subject_identity a \<noteq> te_subject_identity b
      then Inl (vale ''metamorphic state invariants require the same evaluated subject identity'')
      else if unsettled (rt_verdict baseline) \<or> unsettled (rt_verdict transformed)
      then Inr \<lparr>rr_decision = META_INCONCLUSIVE,
                rr_reasons = [''one or both trials lack resolved behavioral evidence'']\<rparr>
      else (let missing = map render_path (filter (path_missing (te_final_state a) (te_final_state b)) paths);
                changed = concat (map (path_changed (te_final_state a) (te_final_state b)) paths) in
        if missing \<noteq> [] then Inr \<lparr>rr_decision = META_INCONCLUSIVE,
             rr_reasons = map (\<lambda>p. ''state path unavailable in one or both trials: '' @ p) missing\<rparr>
        else if changed \<noteq> [] then Inr \<lparr>rr_decision = VIOLATED, rr_reasons = changed\<rparr>
        else Inr \<lparr>rr_decision = SATISFIED, rr_reasons = []\<rparr>))"

subsection \<open>Authority does not expand\<close>

definition effective_tools :: "authority_policy \<Rightarrow> string set" where
  "effective_tools p = ap_allowed_tools p - ap_forbidden_tools p"

definition broadened_resource_scopes :: "resource_scope list \<Rightarrow> resource_scope list \<Rightarrow> string list" where
  "broadened_resource_scopes baseline transformed =
     map scope_canonical_json (filter (\<lambda>s. \<not> list_ex (\<lambda>parent. contains_scope parent s) baseline) transformed)"

definition grant_expansion_reasons :: "handoff_grant \<Rightarrow> handoff_grant \<Rightarrow> string list" where
  "grant_expansion_reasons b t =
     (let tr = transition_repr (hg_source_agent b) (hg_target_agent b);
          extra = hg_allowed_tools t - hg_allowed_tools b;
          retained = hg_allowed_tools t \<inter> hg_allowed_tools b;
          weakened = (hg_additional_approval b \<inter> retained) - hg_additional_approval t;
          broadened = broadened_resource_scopes (hg_allowed_resource_scopes b) (hg_allowed_resource_scopes t)
      in (if extra \<noteq> {} then [''delegated tools broadened for '' @ tr @ '': '' @ strs_repr (py_sorted extra)] else [])
       @ (if weakened \<noteq> {} then [''delegated approval requirement removed for retained tools on '' @ tr @ '': ''
            @ strs_repr (py_sorted weakened)] else [])
       @ (if broadened \<noteq> [] then [''delegated resource scope broadened for '' @ tr @ '': '' @ strs_repr broadened] else [])
       @ (if hg_max_tool_calls t > hg_max_tool_calls b then [''delegated tool-call budget expanded for '' @ tr @ '': ''
            @ int_str (hg_max_tool_calls b) @ '' -> '' @ int_str (hg_max_tool_calls t)] else [])
       @ (if hg_max_handoffs t > hg_max_handoffs b then [''delegated handoff budget expanded for '' @ tr @ '': ''
            @ int_str (hg_max_handoffs b) @ '' -> '' @ int_str (hg_max_handoffs t)] else []))"

text \<open>\<open>{grant.transition: grant for grant in grants}\<close>\<close>

definition grants_by_transition :: "authority_policy \<Rightarrow> (string \<times> string) \<Rightarrow> handoff_grant option" where
  "grants_by_transition p = map_of (rev (map (\<lambda>g. (grant_transition g, g)) (ap_handoff_grants p)))"

definition transitions_of :: "authority_policy \<Rightarrow> (string \<times> string) set" where
  "transitions_of p = grant_transition ` set (ap_handoff_grants p)"

definition transition_pairs_repr :: "(string \<times> string) list \<Rightarrow> string" where
  "transition_pairs_repr ts =
     ''['' @ str_join '', '' (map (\<lambda>(s, t). ''('' @ str_repr s @ '', '' @ str_repr t @ '')'') ts) @ '']''"

definition delegated_expansion_reasons :: "authority_policy \<Rightarrow> authority_policy \<Rightarrow> string list" where
  "delegated_expansion_reasons b t =
     (if \<not> has_handoff_authority b then []
      else if \<not> has_handoff_authority t then [''delegated handoff attenuation removed from transformed authority'']
      else (let new = transitions_of t - transitions_of b in
        (if ap_root_agent t \<noteq> ap_root_agent b then [''delegated handoff root identity changed: ''
           @ opt_str_repr (ap_root_agent b) @ '' -> '' @ opt_str_repr (ap_root_agent t)] else [])
        @ (if new \<noteq> {} then [''new delegated handoff transitions granted: ''
             @ transition_pairs_repr (sorted_list_of_set new)] else [])
        @ concat (map (\<lambda>tr. case (grants_by_transition b tr, grants_by_transition t tr) of
               (Some g, Some h) \<Rightarrow> grant_expansion_reasons g h | _ \<Rightarrow> [])
             (sorted_list_of_set (transitions_of t \<inter> transitions_of b)))))"

definition expansion_reasons :: "authority_policy \<Rightarrow> authority_policy \<Rightarrow> string list" where
  "expansion_reasons b t =
     (let extra = effective_tools t - effective_tools b;
          weakened = {x \<in> effective_tools t. x \<in> ap_approval_required_tools b \<and> x \<notin> ap_approval_required_tools t};
          broadened = broadened_resource_scopes (ap_allowed_resource_scopes b) (ap_allowed_resource_scopes t)
      in (if extra \<noteq> {} then [''new effective tools granted: '' @ strs_repr (py_sorted extra)] else [])
       @ (if weakened \<noteq> {} then [''approval requirement removed from retained tools: '' @ strs_repr (py_sorted weakened)] else [])
       @ (if ap_allowed_resource_scopes t = [] then []
          else if ap_allowed_resource_scopes b = []
          then [''resource authority introduced where baseline authorized no resources'']
          else if broadened \<noteq> [] then [''resource scope broadened: '' @ strs_repr broadened] else [])
       @ (if ap_max_turns t > ap_max_turns b then [''turn budget expanded: ''
            @ int_str (ap_max_turns b) @ '' -> '' @ int_str (ap_max_turns t)] else [])
       @ (if ap_max_tool_calls t > ap_max_tool_calls b then [''tool-call budget expanded: ''
            @ int_str (ap_max_tool_calls b) @ '' -> '' @ int_str (ap_max_tool_calls t)] else [])
       @ (if ap_max_handoffs t > ap_max_handoffs b then [''handoff budget expanded: ''
            @ int_str (ap_max_handoffs b) @ '' -> '' @ int_str (ap_max_handoffs t)] else [])
       @ delegated_expansion_reasons b t)"

definition authority_does_not_expand :: "authority_policy \<Rightarrow> authority_policy \<Rightarrow> relation_result" where
  "authority_does_not_expand b t =
     (let reasons = expansion_reasons b t in
      \<lparr>rr_decision = (if reasons \<noteq> [] then VIOLATED else SATISFIED), rr_reasons = reasons\<rparr>)"

subsection \<open>Mutation recipes\<close>

record mutation_spec =
  ms_mutation_id :: string
  ms_relation_id :: string
  ms_mutant_scenario_id :: string
  ms_mutant_revision :: string
  ms_objective_suffix :: "string option"
  ms_overlay :: dict
  ms_drop_keys :: "string list"
  ms_add_tags :: "string list"

definition mutation_schema :: string where
  "mutation_schema = ''agent-evals/metamorphic-mutation-spec/v1''"

definition mutation_domain :: string where
  "mutation_domain = ''agent-evals/metamorphic-mutation-spec/v1'' @ [CHR 0x00]"

definition canonical_labels :: "string list \<Rightarrow> (bool \<times> error) list" where
  "canonical_labels ns =
     [(list_ex (\<lambda>n. py_strip n = []) ns, verr ''metamorphic mutation labels must be non-empty strings''),
      (\<not> distinct ns, verr ''metamorphic mutation labels must be unique''),
      (\<not> sorted ns, verr ''metamorphic mutation labels must be canonically sorted'')]"

definition validate_mutation :: "mutation_spec \<Rightarrow> error + unit" where
  "validate_mutation m = raise_if
     (name_field ''mutation_id'' (ms_mutation_id m) @ name_field ''relation_id'' (ms_relation_id m)
      @ name_field ''mutant_scenario_id'' (ms_mutant_scenario_id m)
      @ text_field ''mutant_revision'' 128 (ms_mutant_revision m)
      @ opt_text_field ''objective_suffix'' 4000 (ms_objective_suffix m)
      @ [(\<not> finite_json (JObj (ms_overlay m)), verr ''metamorphic mutation material must be finite JSON-compatible data'')]
      @ canonical_labels (ms_drop_keys m) @ canonical_labels (ms_add_tags m)
      @ [(ms_objective_suffix m = None \<and> ms_overlay m = [] \<and> ms_drop_keys m = [] \<and> ms_add_tags m = [],
          verr ''metamorphic mutation spec requires at least one transformation''),
         (set (map fst (ms_overlay m)) \<inter> set (ms_drop_keys m) \<noteq> {},
          verr (''state keys cannot be both dropped and overlaid: ''
            @ strs_repr (py_sorted (set (map fst (ms_overlay m)) \<inter> set (ms_drop_keys m)))))])"

definition mutation_json :: "mutation_spec \<Rightarrow> json" where
  "mutation_json m = JObj
     [(''schema_version'', JStr mutation_schema), (''mutation_id'', JStr (ms_mutation_id m)),
      (''relation_id'', JStr (ms_relation_id m)), (''mutant_scenario_id'', JStr (ms_mutant_scenario_id m)),
      (''mutant_revision'', JStr (ms_mutant_revision m)), (''objective_suffix'', opt_str (ms_objective_suffix m)),
      (''initial_state_overlay'', JObj (ms_overlay m)),
      (''drop_initial_state_keys'', JArr (map JStr (ms_drop_keys m))), (''add_tags'', JArr (map JStr (ms_add_tags m)))]"

definition mutation_identity :: "mutation_spec \<Rightarrow> string" where
  "mutation_identity m = domain_root mutation_domain (mutation_json m)"

record mutation_record =
  mr_mutation_id :: string
  mr_relation_id :: string
  mr_parent :: string
  mr_mutant :: string
  mr_spec :: string

definition validate_mutation_record :: "mutation_record \<Rightarrow> error + unit" where
  "validate_mutation_record r = raise_if
     (name_field ''mutation_id'' (mr_mutation_id r) @ name_field ''relation_id'' (mr_relation_id r)
      @ sha_field ''parent_scenario_identity'' (mr_parent r) @ sha_field ''mutant_scenario_identity'' (mr_mutant r)
      @ sha_field ''mutation_spec_identity'' (mr_spec r))"

text \<open>\<open>state.pop(key, None)\<close> for every dropped key and \<open>state.update(overlay)\<close>: a key that stays keeps its
  place.\<close>

fun dict_put :: "dict \<Rightarrow> string \<times> json \<Rightarrow> dict" where
  "dict_put [] kv = [kv]"
| "dict_put (x # d) kv = (if fst x = fst kv then (fst x, snd kv) # d else x # dict_put d kv)"

definition mutate_state :: "mutation_spec \<Rightarrow> dict \<Rightarrow> dict" where
  "mutate_state m d = foldl dict_put (filter (\<lambda>kv. fst kv \<notin> set (ms_drop_keys m)) d) (ms_overlay m)"

definition mutated :: "mutation_spec \<Rightarrow> evaluation_scenario \<Rightarrow> evaluation_scenario" where
  "mutated m s = s\<lparr>es_scenario_id := ms_mutant_scenario_id m, es_revision := ms_mutant_revision m, es_kind := METAMORPHIC,
     es_objective := (case ms_objective_suffix m of None \<Rightarrow> es_objective s | Some x \<Rightarrow> es_objective s @ CHR 0x0A # x),
     es_initial_state := mutate_state m (es_initial_state s), es_tags := es_tags s \<union> set (ms_add_tags m)\<rparr>"

definition generate_mutant :: "evaluation_scenario \<Rightarrow> mutation_spec \<Rightarrow> error + evaluation_scenario \<times> mutation_record" where
  "generate_mutant base m =
     rbind (validate_scenario base) (\<lambda>checked.
     rbind (validate_mutation m) (\<lambda>_.
     rbind (validate_scenario (mutated m checked)) (\<lambda>mutant.
     if scenario_identity mutant = scenario_identity checked
     then Inl (vale ''metamorphic mutation must produce a distinct scenario identity'')
     else (let r = \<lparr>mr_mutation_id = ms_mutation_id m, mr_relation_id = ms_relation_id m,
                    mr_parent = scenario_identity checked, mr_mutant = scenario_identity mutant,
                    mr_spec = mutation_identity m\<rparr>
           in rbind (validate_mutation_record r) (\<lambda>_. Inr (mutant, r))))))"

subsection \<open>Effectiveness\<close>

datatype mutant_result = KILLED | SURVIVED | MUTANT_BLOCKED

record mutant_outcome =
  mo_mutation :: mutation_record
  mo_result :: mutant_result

record effectiveness_policy =
  fp_min_evaluable :: int
  fp_min_numerator :: int
  fp_min_denominator :: int

record effectiveness_report =
  fr_parent :: string
  fr_policy :: effectiveness_policy
  fr_outcomes :: "mutant_outcome list"
  fr_total :: int
  fr_evaluable :: int
  fr_killed :: int
  fr_survived :: int
  fr_blocked :: int
  fr_accepted :: bool

definition validate_effectiveness_policy :: "effectiveness_policy \<Rightarrow> error + unit" where
  "validate_effectiveness_policy p = raise_if
     (int_field ''min_evaluable_mutants'' 1 (Some 100000) (fp_min_evaluable p)
      @ int_field ''min_kill_numerator'' 0 (Some 10000) (fp_min_numerator p)
      @ int_field ''min_kill_denominator'' 1 (Some 10000) (fp_min_denominator p)
      @ [(fp_min_numerator p > fp_min_denominator p, verr ''minimum kill ratio cannot exceed 1'')])"

definition results_of :: "mutant_result \<Rightarrow> mutant_outcome list \<Rightarrow> int" where
  "results_of v xs = int (length (filter (\<lambda>x. mo_result x = v) xs))"

definition effectiveness_accepted :: "effectiveness_policy \<Rightarrow> mutant_outcome list \<Rightarrow> bool" where
  "effectiveness_accepted p xs \<longleftrightarrow>
     (let killed = results_of KILLED xs; evaluable = killed + results_of SURVIVED xs in
      evaluable \<ge> fp_min_evaluable p \<and> killed * fp_min_denominator p \<ge> evaluable * fp_min_numerator p)"

definition effectiveness_guards :: "mutant_outcome list \<Rightarrow> error + unit" where
  "effectiveness_guards xs = raise_if
     [(xs = [], vale ''metamorphic effectiveness requires outcomes''),
      (\<not> distinct (map (mr_mutation_id \<circ> mo_mutation) xs), vale ''metamorphic effectiveness mutation ids must be unique'')]"

definition effectiveness_of :: "string \<Rightarrow> effectiveness_policy \<Rightarrow> mutant_outcome list \<Rightarrow> effectiveness_report" where
  "effectiveness_of parent p xs =
     \<lparr>fr_parent = parent, fr_policy = p, fr_outcomes = xs, fr_total = int (length xs),
      fr_evaluable = results_of KILLED xs + results_of SURVIVED xs, fr_killed = results_of KILLED xs,
      fr_survived = results_of SURVIVED xs, fr_blocked = results_of MUTANT_BLOCKED xs,
      fr_accepted = effectiveness_accepted p xs\<rparr>"

text \<open>The validators of a report that is made or read back.\<close>

definition validate_effectiveness :: "effectiveness_report \<Rightarrow> error + effectiveness_report" where
  "validate_effectiveness r =
     rbind (validate_effectiveness_policy (fr_policy r)) (\<lambda>_.
     rbind (rfor (\<lambda>x. validate_mutation_record (mo_mutation x)) (fr_outcomes r)) (\<lambda>_.
     rbind (raise_if
       (sha_field ''parent_scenario_identity'' (fr_parent r)
        @ [(fr_outcomes r = [], verr ''outcomes: length'')]
        @ int_field ''total_mutants'' 1 None (fr_total r) @ int_field ''evaluable_mutants'' 0 None (fr_evaluable r)
        @ int_field ''killed'' 0 None (fr_killed r) @ int_field ''survived'' 0 None (fr_survived r)
        @ int_field ''blocked'' 0 None (fr_blocked r)
        @ [(list_ex (\<lambda>x. mr_parent (mo_mutation x) \<noteq> fr_parent r) (fr_outcomes r),
            verr ''metamorphic effectiveness outcome parent mismatch'')])) (\<lambda>_.
     rbind (as_validation (effectiveness_guards (fr_outcomes r))) (\<lambda>_.
     let e = effectiveness_of (fr_parent r) (fr_policy r) (fr_outcomes r) in
     rbind (raise_if
       [(fr_total r \<noteq> fr_total e, verr ''metamorphic effectiveness total_mutants does not recompute''),
        (fr_evaluable r \<noteq> fr_evaluable e, verr ''metamorphic effectiveness evaluable_mutants does not recompute''),
        (fr_killed r \<noteq> fr_killed e, verr ''metamorphic effectiveness killed does not recompute''),
        (fr_survived r \<noteq> fr_survived e, verr ''metamorphic effectiveness survived does not recompute''),
        (fr_blocked r \<noteq> fr_blocked e, verr ''metamorphic effectiveness blocked does not recompute''),
        (fr_accepted r \<noteq> fr_accepted e, verr ''metamorphic effectiveness accepted does not recompute'')]) (\<lambda>_.
     Inr r)))))"

definition create_effectiveness :: "effectiveness_policy \<Rightarrow> mutant_outcome list \<Rightarrow> error + effectiveness_report" where
  "create_effectiveness p xs =
     rbind (validate_effectiveness_policy p) (\<lambda>_.
     rbind (rfor (\<lambda>x. validate_mutation_record (mo_mutation x)) xs) (\<lambda>_.
     rbind (raise_if [(card (set (map (mr_parent \<circ> mo_mutation) xs)) \<noteq> 1,
        vale ''metamorphic effectiveness report requires exactly one parent scenario'')]) (\<lambda>_.
     rbind (effectiveness_guards xs) (\<lambda>_.
     validate_effectiveness (effectiveness_of (mr_parent (mo_mutation (hd xs))) p xs)))))"

end
