(* ===== verification/MetamorphicProofs.thy ===== *)
theory MetamorphicProofs
  imports Complex_Main Metamorphic PolicyGraph OracleProofs
begin

section \<open>Mutants, state relations and effectiveness\<close>

lemma validated_scenario_parts:
  assumes "validate_scenario s = Inr t"
  obtains a r k e where "validate_policy (es_authority s) = Inr a"
    "validate_optional validate_rubric (es_semantic_rubric s) = Inr r"
    "validate_optional validate_retrieval_contract (es_retrieval s) = Inr k"
    "validate_optional validate_side_effect_spec (es_side_effect s) = Inr e"
    "t = s\<lparr>es_authority := a, es_semantic_rubric := r, es_retrieval := k, es_side_effect := e\<rparr>"
  using assms unfolding validate_scenario_def Let_def rbind_Inr by blast

lemma validated_fixed_parts:
  assumes "validate_scenario s = Inr s"
  shows "validate_policy (es_authority s) = Inr (es_authority s)"
    "validate_optional validate_rubric (es_semantic_rubric s) = Inr (es_semantic_rubric s)"
    "validate_optional validate_retrieval_contract (es_retrieval s) = Inr (es_retrieval s)"
    "validate_optional validate_side_effect_spec (es_side_effect s) = Inr (es_side_effect s)"
proof -
  obtain a r k e where f: "validate_policy (es_authority s) = Inr a"
    "validate_optional validate_rubric (es_semantic_rubric s) = Inr r"
    "validate_optional validate_retrieval_contract (es_retrieval s) = Inr k"
    "validate_optional validate_side_effect_spec (es_side_effect s) = Inr e"
    and s: "s = s\<lparr>es_authority := a, es_semantic_rubric := r, es_retrieval := k, es_side_effect := e\<rparr>"
    using assms by (rule validated_scenario_parts)
  have "es_authority s = a" "es_semantic_rubric s = r" "es_retrieval s = k" "es_side_effect s = e"
    by (subst s, simp)+
  with f show "validate_policy (es_authority s) = Inr (es_authority s)"
    "validate_optional validate_rubric (es_semantic_rubric s) = Inr (es_semantic_rubric s)"
    "validate_optional validate_retrieval_contract (es_retrieval s) = Inr (es_retrieval s)"
    "validate_optional validate_side_effect_spec (es_side_effect s) = Inr (es_side_effect s)"
    by simp_all
qed

lemma mutated_fields [simp]:
  "es_authority (mutated m s) = es_authority s" "es_semantic_rubric (mutated m s) = es_semantic_rubric s"
  "es_retrieval (mutated m s) = es_retrieval s" "es_side_effect (mutated m s) = es_side_effect s"
  "es_required_outcomes (mutated m s) = es_required_outcomes s" "es_forbidden_outcomes (mutated m s) = es_forbidden_outcomes s"
  "es_approval_intent (mutated m s) = es_approval_intent s"
  by (simp_all add: mutated_def)

text \<open>Validation changes nothing of a mutant: its contract is that of the validated parent.\<close>

lemma mutant_is_mutated:
  assumes "validate_scenario c = Inr c" "validate_scenario (mutated m c) = Inr s"
  shows "s = mutated m c"
proof -
  obtain a r k e where f: "validate_policy (es_authority (mutated m c)) = Inr a"
    "validate_optional validate_rubric (es_semantic_rubric (mutated m c)) = Inr r"
    "validate_optional validate_retrieval_contract (es_retrieval (mutated m c)) = Inr k"
    "validate_optional validate_side_effect_spec (es_side_effect (mutated m c)) = Inr e"
    and s: "s = (mutated m c)\<lparr>es_authority := a, es_semantic_rubric := r, es_retrieval := k, es_side_effect := e\<rparr>"
    using assms(2) by (rule validated_scenario_parts)
  have "a = es_authority (mutated m c)" "r = es_semantic_rubric (mutated m c)" "k = es_retrieval (mutated m c)"
    "e = es_side_effect (mutated m c)"
    using f validated_fixed_parts [OF assms(1)] by simp_all
  then show ?thesis using s by simp
qed

definition mutation_bound :: "evaluation_scenario \<Rightarrow> mutation_spec \<Rightarrow> evaluation_scenario \<Rightarrow> mutation_record \<Rightarrow> bool" where
  "mutation_bound parent m mutant r \<longleftrightarrow>
     mr_mutation_id r = ms_mutation_id m \<and> mr_relation_id r = ms_relation_id m \<and>
     mr_parent r = scenario_identity parent \<and> mr_mutant r = scenario_identity mutant \<and> mr_spec r = mutation_identity m"

lemma record_eq: "mutation_bound p m s r \<longleftrightarrow> r = \<lparr>mr_mutation_id = ms_mutation_id m, mr_relation_id = ms_relation_id m,
    mr_parent = scenario_identity p, mr_mutant = scenario_identity s, mr_spec = mutation_identity m\<rparr>"
  by (cases r) (auto simp: mutation_bound_def)

lemma generated_iff:
  "generate_mutant base m = Inr (mutant, r) \<longleftrightarrow>
     (\<exists>parent. validate_scenario base = Inr parent \<and> validate_mutation m = Inr () \<and> mutant = mutated m parent \<and>
        validate_scenario mutant = Inr mutant \<and> scenario_identity mutant \<noteq> scenario_identity parent \<and>
        mutation_bound parent m mutant r)"
proof
  assume "generate_mutant base m = Inr (mutant, r)"
  then obtain c s where g: "validate_scenario base = Inr c" "validate_mutation m = Inr ()" "validate_scenario (mutated m c) = Inr s"
    "scenario_identity s \<noteq> scenario_identity c" "s = mutant" "mutation_bound c m s r"
    unfolding generate_mutant_def Let_def rbind_Inr record_eq by (auto simp: rbind_Inr split: if_splits)
  then have "mutant = mutated m c" using mutant_is_mutated [OF validate_scenario_idem [OF g(1)] g(3)] by simp
  with g show "\<exists>parent. validate_scenario base = Inr parent \<and> validate_mutation m = Inr () \<and> mutant = mutated m parent \<and>
        validate_scenario mutant = Inr mutant \<and> scenario_identity mutant \<noteq> scenario_identity parent \<and>
        mutation_bound parent m mutant r" by auto
next
  assume "\<exists>parent. validate_scenario base = Inr parent \<and> validate_mutation m = Inr () \<and> mutant = mutated m parent \<and>
        validate_scenario mutant = Inr mutant \<and> scenario_identity mutant \<noteq> scenario_identity parent \<and>
        mutation_bound parent m mutant r"
  then obtain c where g: "validate_scenario base = Inr c" "validate_mutation m = Inr ()" "mutant = mutated m c"
    "validate_scenario mutant = Inr mutant" "scenario_identity mutant \<noteq> scenario_identity c" "mutation_bound c m mutant r" by blast
  have "validate_mutation_record r = Inr ()"
    using g(2,6) by (simp add: validate_mutation_def validate_mutation_record_def field_ok mutation_bound_def
        scenario_identity_def mutation_identity_def sha256_json_def)
  then show "generate_mutant base m = Inr (mutant, r)"
    using g by (simp add: generate_mutant_def Let_def record_eq)
qed

subsection \<open>The mutant's state\<close>

lemma dict_put_get: "dict_get (dict_put d kv) k = (if k = fst kv then Some (snd kv) else dict_get d k)"
  by (induction d) auto

lemma mutate_state_get:
  assumes "distinct (map fst (ms_overlay m))"
  shows "dict_get (mutate_state m d) k =
    (case dict_get (ms_overlay m) k of Some v \<Rightarrow> Some v
     | None \<Rightarrow> if k \<in> set (ms_drop_keys m) then None else dict_get d k)"
proof -
  have "dict_get (foldl dict_put d ov) k = (case dict_get ov k of Some v \<Rightarrow> Some v | None \<Rightarrow> dict_get d k)"
    if "distinct (map fst ov)" for ov d
    using that
  proof (induction ov arbitrary: d)
    case (Cons kv ov)
    then show ?case
      by (cases "k = fst kv") (auto simp: dict_put_get map_of_eq_None_iff image_iff split: option.splits)
  qed simp
  moreover have "dict_get (filter (\<lambda>kv. fst kv \<notin> set (ms_drop_keys m)) d) k =
      (if k \<in> set (ms_drop_keys m) then None else dict_get d k)"
    by (induction d) auto
  ultimately show ?thesis using assms by (auto simp: mutate_state_def split: option.splits)
qed

subsection \<open>When a state relation holds\<close>

definition state_kept :: "path_segment list list \<Rightarrow> dict \<Rightarrow> dict \<Rightarrow> bool" where
  "state_kept paths a b \<longleftrightarrow> (\<forall>path \<in> set paths. \<exists>v w. resolve_path (JObj a) path = Some v \<and>
     resolve_path (JObj b) path = Some w \<and> py_eq v w)"

lemma invariant_satisfied_iff:
  "(\<exists>r. evaluate_invariant paths x y = Inr r \<and> rr_decision r = SATISFIED) \<longleftrightarrow>
     te_subject_identity (rt_evidence x) = te_subject_identity (rt_evidence y) \<and>
     \<not> unsettled (rt_verdict x) \<and> \<not> unsettled (rt_verdict y) \<and>
     state_kept paths (te_final_state (rt_evidence x)) (te_final_state (rt_evidence y))"
proof -
  let ?a = "te_final_state (rt_evidence x)" and ?b = "te_final_state (rt_evidence y)"
  have one: "\<not> path_missing ?a ?b path \<and> path_changed ?a ?b path = [] \<longleftrightarrow>
      (\<exists>v w. resolve_path (JObj ?a) path = Some v \<and> resolve_path (JObj ?b) path = Some w \<and> py_eq v w)" for path
    by (auto simp: path_missing_def path_changed_def split: option.splits)
  have "state_kept paths ?a ?b \<longleftrightarrow> filter (path_missing ?a ?b) paths = [] \<and> concat (map (path_changed ?a ?b) paths) = []"
    unfolding state_kept_def one [symmetric] by (auto simp: filter_empty_conv)
  then show ?thesis
    by (simp add: evaluate_invariant_def Let_def)
qed

subsection \<open>Which suites are effective\<close>

lemma validate_effectiveness_iff:
  "validate_effectiveness r = Inr s \<longleftrightarrow> s = r \<and>
     validate_effectiveness_policy (fr_policy r) = Inr () \<and>
     (\<forall>x \<in> set (fr_outcomes r). validate_mutation_record (mo_mutation x) = Inr () \<and> mr_parent (mo_mutation x) = fr_parent r) \<and>
     fr_outcomes r \<noteq> [] \<and> distinct (map (mr_mutation_id \<circ> mo_mutation) (fr_outcomes r)) \<and>
     r = effectiveness_of (fr_parent r) (fr_policy r) (fr_outcomes r)"
proof -
  have nn: "0 \<le> results_of v xs" for v xs by (simp add: results_of_def)
  have sha: "is_sha256 (fr_parent r)" if some: "\<forall>x \<in> set (fr_outcomes r). validate_mutation_record (mo_mutation x) = Inr () \<and>
      mr_parent (mo_mutation x) = fr_parent r" "fr_outcomes r \<noteq> []"
  proof -
    obtain x where x: "x \<in> set (fr_outcomes r)" using some(2) by (cases "fr_outcomes r") auto
    then have "is_sha256 (mr_parent (mo_mutation x))"
      using some(1) by (auto simp: validate_mutation_record_def field_ok)
    then show ?thesis using some(1) x by simp
  qed
  have eq: "r = effectiveness_of (fr_parent r) (fr_policy r) (fr_outcomes r) \<longleftrightarrow>
      fr_total r = int (length (fr_outcomes r)) \<and>
      fr_evaluable r = results_of KILLED (fr_outcomes r) + results_of SURVIVED (fr_outcomes r) \<and>
      fr_killed r = results_of KILLED (fr_outcomes r) \<and> fr_survived r = results_of SURVIVED (fr_outcomes r) \<and>
      fr_blocked r = results_of MUTANT_BLOCKED (fr_outcomes r) \<and>
      fr_accepted r = effectiveness_accepted (fr_policy r) (fr_outcomes r)"
    by (cases r) (auto simp: effectiveness_of_def)
  have pos: "1 \<le> int (length (fr_outcomes r))" if "fr_outcomes r \<noteq> []"
    using that by (cases "fr_outcomes r") auto
  show ?thesis
    unfolding validate_effectiveness_def Let_def rbind_Inr rfor_Inr eq as_validation_Inr effectiveness_guards_def
    using nn sha pos by (auto simp: raise_if_Inr field_ok effectiveness_of_def list_ex_iff)
qed

text \<open>The accepted verdict is a bound on the exact share of killed mutants.\<close>

lemma effectiveness_share:
  assumes "validate_effectiveness_policy p = Inr ()"
  shows "effectiveness_accepted p xs \<longleftrightarrow>
    fp_min_evaluable p \<le> results_of KILLED xs + results_of SURVIVED xs \<and>
    of_int (fp_min_numerator p) / of_int (fp_min_denominator p)
      \<le> (of_int (results_of KILLED xs) / of_int (results_of KILLED xs + results_of SURVIVED xs) :: real)"
proof -
  have p: "0 < fp_min_denominator p" "0 < fp_min_evaluable p"
    using assms by (auto simp: validate_effectiveness_policy_def field_ok raise_if_Inr)
  have "(n * k \<le> a * d \<longleftrightarrow> (of_int n :: real) / of_int d \<le> of_int a / of_int k)" if "0 < d" "0 < k" for n d a k :: int
  proof -
    have "(of_int n :: real) / of_int d \<le> of_int a / of_int k \<longleftrightarrow> (of_int (n * k) :: real) \<le> of_int (a * d)"
      using that by (simp add: field_simps)
    then show ?thesis by (simp only: of_int_le_iff)
  qed
  note m = this [OF p(1), of "results_of KILLED xs + results_of SURVIVED xs" "fp_min_numerator p" "results_of KILLED xs"]
  show ?thesis
  proof (cases "fp_min_evaluable p \<le> results_of KILLED xs + results_of SURVIVED xs")
    case True
    then have "0 < results_of KILLED xs + results_of SURVIVED xs" using p by simp
    from m [OF this] True show ?thesis
      by (simp add: effectiveness_accepted_def Let_def mult.commute)
  qed (simp add: effectiveness_accepted_def Let_def)
qed

section \<open>What a satisfied authority relation promises\<close>

text \<open>
  A run that passes the policy oracle under the transformed policy passes it under the baseline, if
  the baseline's graph attenuates along its paths and requests name their resource. Without either
  condition it may not: both counterexamples are at the end.
\<close>

abbreviation satisfied :: "authority_policy \<Rightarrow> authority_policy \<Rightarrow> bool" where
  "satisfied b t \<equiv> rr_decision (authority_does_not_expand b t) = SATISFIED"

lemma broadened_Nil: "broadened_resource_scopes b t = [] \<longleftrightarrow> scopes.covers b t"
  by (auto simp: broadened_resource_scopes_def filter_empty_conv scopes.covers_def list_ex_iff)

definition grant_narrows :: "handoff_grant \<Rightarrow> handoff_grant \<Rightarrow> bool" where
  "grant_narrows b t \<longleftrightarrow>
     hg_allowed_tools t \<subseteq> hg_allowed_tools b \<and>
     hg_additional_approval b \<inter> hg_allowed_tools t \<subseteq> hg_additional_approval t \<and>
     scopes.covers (hg_allowed_resource_scopes b) (hg_allowed_resource_scopes t) \<and>
     hg_max_tool_calls t \<le> hg_max_tool_calls b \<and> hg_max_handoffs t \<le> hg_max_handoffs b"

lemma grant_expansion_Nil: "grant_expansion_reasons b t = [] \<longleftrightarrow> grant_narrows b t"
  by (auto simp: grant_expansion_reasons_def Let_def grant_narrows_def broadened_Nil)

lemma satisfied_reasons: "satisfied b t \<longleftrightarrow> expansion_reasons b t = []"
  by (simp add: authority_does_not_expand_def Let_def)

lemma grants_by_transition_find:
  assumes "distinct (map grant_transition (ap_handoff_grants p))"
  shows "grants_by_transition p (s, t) = find_handoff_grant p s t"
proof -
  have "map_of (rev (map (\<lambda>g. (grant_transition g, g)) gs)) (s, t)
      = List.find (\<lambda>g. hg_source_agent g = s \<and> hg_target_agent g = t) gs"
    if "distinct (map grant_transition gs)" for gs
    using that
  proof (induction gs)
    case (Cons g gs)
    have "map_of (rev (map (\<lambda>g. (grant_transition g, g)) gs)) (grant_transition g) = None"
      using Cons.prems by (auto simp: map_of_eq_None_iff image_image)
    then show ?case using Cons
      by (auto simp: map_add_def grant_transition_def split: option.splits)
  qed simp
  then show ?thesis using assms by (simp add: grants_by_transition_def find_handoff_grant_def)
qed

lemma find_grant_transition:
  "find_handoff_grant p s t = Some g \<Longrightarrow> g \<in> set (ap_handoff_grants p) \<and> grant_transition g = (s, t)"
  by (auto simp: find_handoff_grant_def find_Some_iff grant_transition_def)

lemma find_grant_None: "find_handoff_grant p s t = None \<longleftrightarrow> (s, t) \<notin> transitions_of p"
  by (auto simp: find_handoff_grant_def find_None_iff transitions_of_def grant_transition_def image_iff)

lemma satisfied_root:
  assumes "satisfied b t"
  shows "authority_within (from_root t) (from_root b)"
  using assms unfolding satisfied_reasons
  by (auto simp: expansion_reasons_def Let_def authority_within_def from_root_def effective_tools_def broadened_Nil
      scopes.covers_def split: if_splits)

lemma satisfied_grants:
  assumes "satisfied b t" "has_handoff_authority b" "wf_policy b" "wf_policy t"
  shows "has_handoff_authority t" "ap_root_agent t = ap_root_agent b"
    "find_handoff_grant t x y = Some h \<Longrightarrow> \<exists>g. find_handoff_grant b x y = Some g \<and> grant_narrows g h"
proof -
  have r: "delegated_expansion_reasons b t = []"
    using assms(1) unfolding satisfied_reasons by (simp add: expansion_reasons_def Let_def)
  show h: "has_handoff_authority t" and "ap_root_agent t = ap_root_agent b"
    using r assms(2) by (auto simp: delegated_expansion_reasons_def Let_def split: if_splits)
  have fin: "finite (transitions_of t)" by (simp add: transitions_of_def)
  have new: "transitions_of t \<subseteq> transitions_of b"
    using r assms(2) h by (auto simp: delegated_expansion_reasons_def Let_def split: if_splits)
  have each: "\<forall>tr \<in> transitions_of t \<inter> transitions_of b. (case (grants_by_transition b tr, grants_by_transition t tr) of
      (Some g, Some h) \<Rightarrow> grant_expansion_reasons g h | _ \<Rightarrow> []) = []"
    using r assms(2) h fin by (auto simp: delegated_expansion_reasons_def Let_def split: if_splits)
  assume ht: "find_handoff_grant t x y = Some h"
  then have tr: "(x, y) \<in> transitions_of t" by (metis find_grant_None option.distinct(1))
  with new obtain g where g: "find_handoff_grant b x y = Some g" by (metis find_grant_None not_None_eq subset_iff)
  have m: "grants_by_transition b (x, y) = Some g" "grants_by_transition t (x, y) = Some h"
    using grants_by_transition_find g ht assms(3,4) by (simp_all add: wf_policy_def)
  have "(x, y) \<in> transitions_of t \<inter> transitions_of b" using tr new by blast
  from bspec [OF each this] m have "grant_expansion_reasons g h = []" by simp
  then show "\<exists>g. find_handoff_grant b x y = Some g \<and> grant_narrows g h"
    using g grant_expansion_Nil by blast
qed

subsection \<open>Simulation of paths\<close>

text \<open>The baseline's graph attenuates: what a grant hands on is within each grant that leads to it.\<close>

definition attenuating :: "authority_policy \<Rightarrow> bool" where
  "attenuating p \<longleftrightarrow> (\<forall>g \<in> set (ap_handoff_grants p). \<forall>h \<in> set (ap_handoff_grants p).
     hg_source_agent h = hg_target_agent g \<longrightarrow>
       hg_allowed_tools h \<subseteq> hg_allowed_tools g \<and>
       scopes.covers (hg_allowed_resource_scopes g) (hg_allowed_resource_scopes h) \<and>
       hg_max_tool_calls h \<le> hg_max_tool_calls g \<and> hg_max_handoffs h \<le> hg_max_handoffs g)"

definition ready :: "authority_policy \<Rightarrow> handoff_path_state \<Rightarrow> bool" where
  "ready p st \<longleftrightarrow> (\<forall>h \<in> set (ap_handoff_grants p). hp_active_agent st = Some (hg_source_agent h) \<longrightarrow>
     snd (attenuate_authority (hp_authority st) h) = [])"

definition path_sim :: "authority_policy \<Rightarrow> handoff_path_state \<Rightarrow> handoff_path_state \<Rightarrow> bool" where
  "path_sim b x y \<longleftrightarrow> hp_active_agent x = hp_active_agent y \<and>
     authority_within (hp_authority x) (hp_authority y) \<and> ready b y"

lemma attenuate_sim:
  assumes "authority_within x y" "grant_narrows g h" "hg_additional_approval g \<subseteq> hg_allowed_tools g"
    and "snd (attenuate_authority x h) = []"
  shows "authority_within (fst (attenuate_authority x h)) (fst (attenuate_authority y g))"
  using assms unfolding attenuate_within
  by (auto simp: authority_within_def grant_narrows_def attenuate_authority_def Let_def)

lemma accepted_step:
  assumes "ev_kind e = HANDOFF" "advance_handoff p st e = Inr (st', [])"
  obtains source target g where
    "payload_get e ''source_agent'' = Some (JStr source)" "payload_get e ''target_agent'' = Some (JStr target)"
    "hp_active_agent st = Some source" "find_handoff_grant p source target = Some g"
    "snd (attenuate_authority (hp_authority st) g) = []" "hp_active_agent st' = Some target"
    "hp_authority st' = fst (attenuate_authority (hp_authority st) g)"
    "event_agent_identity (payload_get e ''source_agent'') = Some source"
    "event_agent_identity (payload_get e ''target_agent'') = Some target"
  using assms(1)
proof (cases rule: advance_handoff_cases [of e p st])
  case (accepted source target g)
  moreover have "event_agent_identity (payload_get e ''source_agent'') = Some source"
    "event_agent_identity (payload_get e ''target_agent'') = Some target"
    using accepted(6) assms accepted(1,2)
    by (auto simp: advance_handoff_def event_agent_identity_def split: if_splits)
  ultimately show thesis using assms(2) by (intro that) auto
qed (use assms in auto)

lemma advance_sim:
  assumes "satisfied b t" "has_handoff_authority b" "wf_policy b" "wf_policy t" "attenuating b"
    and "path_sim b x y" "ev_kind e = HANDOFF" "advance_handoff t x e = Inr (x', [])"
  shows "\<exists>y'. advance_handoff b y e = Inr (y', []) \<and> path_sim b x' y'"
proof -
  from assms(7,8) obtain source target h where h:
    "hp_active_agent x = Some source" "find_handoff_grant t source target = Some h"
    "snd (attenuate_authority (hp_authority x) h) = []" "hp_active_agent x' = Some target"
    "hp_authority x' = fst (attenuate_authority (hp_authority x) h)"
    "event_agent_identity (payload_get e ''source_agent'') = Some source"
    "event_agent_identity (payload_get e ''target_agent'') = Some target"
    by (rule accepted_step)
  obtain g where g: "find_handoff_grant b source target = Some g" "grant_narrows g h"
    using satisfied_grants(3) [OF assms(1-4) h(2)] by blast
  then have gs: "g \<in> set (ap_handoff_grants b)" "hg_source_agent g = source" "hg_target_agent g = target"
    using find_grant_transition [OF g(1)] by (auto simp: grant_transition_def)
  have act: "hp_active_agent y = Some source" using assms(6) h(1) by (simp add: path_sim_def)
  then have ok: "snd (attenuate_authority (hp_authority y) g) = []"
    using assms(6) gs by (auto simp: path_sim_def ready_def)
  let ?y = "\<lparr>hp_root_agent = hp_root_agent y, hp_active_agent = Some target,
         hp_authority = fst (attenuate_authority (hp_authority y) g),
         hp_transitions = hp_transitions y @ [(source, target)]\<rparr>"
  have "advance_handoff b y e = Inr (?y, [])"
    using assms(7) h(6,7) act g(1) ok by (simp add: advance_handoff_def split_beta)
  moreover have "authority_within (hp_authority x') (hp_authority ?y)"
    using assms(3,6) g(2) h(3,5) gs(1) attenuate_sim by (simp add: path_sim_def wf_policy_def)
  moreover have "ready b ?y"
    unfolding ready_def attenuate_within
    using assms(5) gs by (auto simp: attenuating_def attenuate_authority_def Let_def)
  ultimately show ?thesis using h(4) by (intro exI [of _ ?y]) (simp add: path_sim_def)
qed

subsection \<open>Simulation of the policy oracle\<close>

text \<open>Requests name their resource, or the baseline has no scopes.\<close>

definition resources_named :: "authority_policy \<Rightarrow> evidence_event list \<Rightarrow> bool" where
  "resources_named b es \<longleftrightarrow> ap_allowed_resource_scopes b = [] \<or>
     list_all (\<lambda>e. ev_kind e = TOOL_REQUEST \<longrightarrow> payload_get e ''resource'' \<noteq> None) es"

text \<open>
  In a scenario that binds an approval: approval requests ask for a tool that the baseline requires an
  approval for, and name their resource, or the baseline has no scopes.
\<close>

definition approvals_asked :: "authority_policy \<Rightarrow> evidence_event list \<Rightarrow> bool" where
  "approvals_asked b es \<longleftrightarrow> list_all (\<lambda>e. ev_kind e = APPROVAL_REQUEST \<longrightarrow>
     (\<exists>tool \<in> ap_approval_required_tools b. payload_get e ''tool'' = Some (JStr tool)) \<and>
     (ap_allowed_resource_scopes b = [] \<or> payload_get e ''resource'' \<noteq> None)) es"

definition state_sim :: "authority_policy \<Rightarrow> policy_state \<Rightarrow> policy_state \<Rightarrow> bool" where
  "state_sim b x y \<longleftrightarrow>
     gs_reasons y = [] \<and> gs_tool_calls x = gs_tool_calls y \<and> gs_handoffs x = gs_handoffs y \<and>
     gs_persistent x = gs_persistent y \<and> gs_legacy x \<subseteq> gs_legacy y \<and>
     gs_strong x \<subseteq> gs_strong y \<and> gs_rejected x = gs_rejected y \<and>
     authority_within (hp_authority (gs_path x)) (hp_authority (gs_path y)) \<and>
     (has_handoff_authority b \<longrightarrow> path_sim b (gs_path x) (gs_path y) \<and>
        gs_calls_by x = gs_calls_by y \<and> gs_handoffs_by x = gs_handoffs_by y)"

lemma add_reasons_Nil: "gs_reasons (add_reasons rs st) = [] \<longleftrightarrow> rs = [] \<and> gs_reasons st = []"
  by (auto simp: add_reasons_def)

lemma add_reasons_none [simp]: "add_reasons [] st = st"
  by (simp add: add_reasons_def)

lemma approval_step_sim:
  assumes "state_sim b x y" "gs_reasons (approval_step e x) = []"
  shows "state_sim b (approval_step e x) (approval_step e y)"
  using assms
  by (auto simp: approval_step_def state_sim_def Let_def add_reasons_Nil split: option.splits if_splits list.splits)

lemma decision_step_sim:
  assumes "state_sim b x y" "gs_reasons (approval_decision_step e x) = []"
  shows "state_sim b (approval_decision_step e x) (approval_decision_step e y)"
  using assms
  by (auto simp: approval_decision_step_def state_sim_def Let_def add_reasons_Nil split: sum.splits if_splits)

lemma resource_reasons_sim:
  assumes "resource_reasons a1 a2 a3 a4 sx e tool = []" "scopes.covers sy sx"
    and "sy = [] \<or> payload_get e ''resource'' \<noteq> None"
  shows "resource_reasons a1 a2 a3 a4 sy e tool = []"
proof (cases "payload_get e ''resource''")
  case None
  then show ?thesis using assms by (auto simp: resource_reasons_def)
next
  case (Some raw)
  then obtain r where r: "sx \<noteq> []" "parse_resource_identifier_payload raw = Inr r" "scopes_admit sx r"
    using assms(1) by (auto simp: resource_reasons_def split: if_splits sum.splits)
  then have "scopes_admit sy r" "sy \<noteq> []"
    using assms(2) scopes.covers_admits [OF assms(2), of r] by (auto simp: scopes_admit_def list_ex_iff)
  then show ?thesis using Some r by (simp add: resource_reasons_def)
qed

definition strong_target :: "approval_intent_spec option \<Rightarrow> evidence_event \<Rightarrow> string \<Rightarrow> bool" where
  "strong_target i e tool \<longleftrightarrow> (case i of None \<Rightarrow> False | Some a \<Rightarrow> tool = ai_tool a \<and> payload_is e ''agent'' (ai_agent a))"

lemma consume_clean:
  assumes "gs_reasons (consume_approval i e tool x) = []"
  obtains "\<not> strong_target i e tool" "tool \<in> gs_persistent x" "consume_approval i e tool x = x"
  | c where "\<not> strong_target i e tool" "tool \<notin> gs_persistent x" "bindable_call_id e = Some c" "(tool, c) \<in> gs_legacy x"
      "consume_approval i e tool x = x\<lparr>gs_legacy := gs_legacy x - {(tool, c)}\<rparr>"
  | c where "strong_target i e tool" "bindable_call_id e = Some c" "(tool, c) \<notin> gs_rejected x" "(tool, c) \<in> gs_strong x"
      "consume_approval i e tool x = x\<lparr>gs_strong := gs_strong x - {(tool, c)}\<rparr>"
proof (cases "\<not> strong_target i e tool \<and> tool \<in> gs_persistent x")
  case True
  then show thesis by (intro that(1)) (simp_all add: consume_approval_def strong_target_def [symmetric])
next
  case False
  have "bindable_call_id e \<noteq> None"
  proof
    assume "bindable_call_id e = None"
    then show False using assms False
      by (cases "strong_target i e tool") (simp_all add: consume_approval_def strong_target_def [symmetric] Let_def add_reasons_Nil)
  qed
  then obtain c where c: "bindable_call_id e = Some c" by blast
  show thesis
  proof (cases "strong_target i e tool")
    case True
    then have "(tool, c) \<notin> gs_rejected x" "(tool, c) \<in> gs_strong x"
      using assms c by (simp_all add: consume_approval_def strong_target_def [symmetric] Let_def add_reasons_Nil split: if_splits)
    with True c show thesis by (intro that(3) [of c]) (simp_all add: consume_approval_def strong_target_def [symmetric])
  next
    case weak: False
    then have "(tool, c) \<in> gs_legacy x"
      using assms c False by (simp add: consume_approval_def strong_target_def [symmetric] Let_def add_reasons_Nil split: if_splits)
    with weak False c show thesis by (intro that(2) [of c]) (simp_all add: consume_approval_def strong_target_def [symmetric])
  qed
qed

lemma consume_sim:
  assumes "state_sim b x y" "gs_reasons (consume_approval i e tool x) = []"
  shows "state_sim b (consume_approval i e tool x) (consume_approval i e tool y) \<and> state_sim b (consume_approval i e tool x) y"
  using assms(2)
proof (cases rule: consume_clean)
  case 1
  then have "consume_approval i e tool y = y"
    using assms(1) by (simp add: consume_approval_def strong_target_def [symmetric] state_sim_def)
  then show ?thesis using 1 assms(1) by simp
next
  case (2 c)
  then have "consume_approval i e tool y = y\<lparr>gs_legacy := gs_legacy y - {(tool, c)}\<rparr>"
    using assms(1) by (auto simp: consume_approval_def strong_target_def [symmetric] state_sim_def)
  then show ?thesis using 2 assms(1) by (simp add: state_sim_def) blast
next
  case (3 c)
  then have "consume_approval i e tool y = y\<lparr>gs_strong := gs_strong y - {(tool, c)}\<rparr>"
    using assms(1) by (auto simp: consume_approval_def strong_target_def [symmetric] state_sim_def)
  then show ?thesis using 3 assms(1) by (simp add: state_sim_def) blast
qed

text \<open>How the oracle reads a state, under either kind of policy.\<close>

definition follows :: "authority_policy \<Rightarrow> policy_state \<Rightarrow> bool" where
  "follows p st \<longleftrightarrow> (\<not> has_handoff_authority p \<longrightarrow> hp_authority (gs_path st) = from_root p)"

lemma follows_reads:
  assumes "follows p st"
  shows "tool_authorized p st tool \<longleftrightarrow> tool \<in> ea_allowed_tools (hp_authority (gs_path st))"
    "approval_required p st = ea_approval_required_tools (hp_authority (gs_path st))"
    "allowed_scopes p st = ea_allowed_resource_scopes (hp_authority (gs_path st))"
  using assms
  by (auto simp: follows_def tool_authorized_def approval_required_def allowed_scopes_def from_root_def
      policy_authorizes_tool_def authority_authorizes_tool_def)

lemma body_sim:
  assumes "state_sim b x y" "follows t x" "follows b y" "gs_reasons (tool_request_body t i e x) = []"
    and "ea_allowed_resource_scopes (hp_authority (gs_path y)) = [] \<or> payload_get e ''resource'' \<noteq> None"
  shows "state_sim b (tool_request_body t i e x) (tool_request_body b i e y)"
proof -
  from assms(4) obtain tool where tool: "payload_get e ''tool'' = Some (JStr tool)" "tool_authorized t x tool"
    and res: "resource_reasons ''resource identity missing for scoped tool request: ''
       ''resource identity malformed for scoped tool request: '' ''unauthorized resource requested by ''
       ''resource-bearing request has no authorized resource scope: '' (allowed_scopes t x) e tool = []"
    and ap: "tool \<in> approval_required t x \<Longrightarrow> gs_reasons (consume_approval i e tool x) = []"
    by (rule body_clean) (rule that)
  have valid: "\<not> (opt_json (payload_get e ''call_id'') \<noteq> JNull \<and> bindable_call_id e = None)"
  proof
    assume bad: "opt_json (payload_get e ''call_id'') \<noteq> JNull \<and> bindable_call_id e = None"
    have "gs_reasons (consume_approval i e tool (add_reasons [r] x)) \<noteq> []" for r
      using consume_approval_grows [of "add_reasons [r] x" i e tool] by (auto simp: grows_def)
    then show False using assms(4) tool bad
      by (auto simp: tool_request_body_def Let_def add_reasons_Nil split: if_splits)
  qed
  have within: "authority_within (hp_authority (gs_path x)) (hp_authority (gs_path y))"
    using assms(1) by (simp add: state_sim_def)
  have "tool_authorized b y tool" using tool within follows_reads assms(2,3) by (auto simp: authority_within_def)
  moreover have "resource_reasons ''resource identity missing for scoped tool request: ''
       ''resource identity malformed for scoped tool request: '' ''unauthorized resource requested by ''
       ''resource-bearing request has no authorized resource scope: '' (allowed_scopes b y) e tool = []"
    using res assms(5) within unfolding follows_reads [OF assms(2)] follows_reads [OF assms(3)]
    by (intro resource_reasons_sim [OF res [unfolded follows_reads [OF assms(2)]]]) (auto simp: authority_within_def)
  moreover have "state_sim b (if tool \<in> approval_required t x then consume_approval i e tool x else x)
      (if tool \<in> approval_required b y then consume_approval i e tool y else y)"
  proof -
    have "tool \<in> approval_required t x" if "tool \<in> approval_required b y"
      using that tool within follows_reads assms(2,3) by (auto simp: authority_within_def)
    then show ?thesis using consume_sim [OF assms(1)] ap assms(1) by auto
  qed
  ultimately show ?thesis using tool res valid
    by (cases "bindable_call_id e") (simp_all add: tool_request_body_def Let_def)
qed

lemma charge_sim:
  assumes "state_sim b x y" "has_handoff_authority b" "gs_reasons (charge_tool_call a x) = []"
  shows "state_sim b (charge_tool_call a x) (charge_tool_call a y)"
  using assms by (auto simp: state_sim_def charge_tool_call_def Let_def add_reasons_Nil authority_within_def split: if_splits)

lemma charge_handoff_sim:
  assumes "state_sim b x y" "has_handoff_authority b" "gs_reasons (charge_handoff e x) = []"
  shows "state_sim b (charge_handoff e x) (charge_handoff e y)"
proof (cases "event_agent_identity (payload_get e ''source_agent'')")
  case None
  then show ?thesis using assms(1) by (simp add: charge_handoff_def)
next
  case (Some a)
  have "hp_active_agent (gs_path x) = hp_active_agent (gs_path y)" using assms(1,2) by (simp add: state_sim_def path_sim_def)
  then show ?thesis using assms Some
    by (auto simp: state_sim_def charge_handoff_def Let_def add_reasons_Nil authority_within_def split: if_splits)
qed

lemma charge_legacy_sim:
  assumes "state_sim b x y" "\<not> has_handoff_authority b"
  shows "state_sim b (charge_tool_call a x) y" "state_sim b (charge_handoff e x) y"
  using assms by (auto simp: state_sim_def charge_tool_call_def charge_handoff_def Let_def split: option.splits)

lemma count_sim:
  "state_sim b x y \<Longrightarrow> state_sim b (x\<lparr>gs_tool_calls := Suc (gs_tool_calls x)\<rparr>) (y\<lparr>gs_tool_calls := Suc (gs_tool_calls y)\<rparr>)"
  "state_sim b x y \<Longrightarrow> state_sim b (x\<lparr>gs_handoffs := Suc (gs_handoffs x)\<rparr>) (y\<lparr>gs_handoffs := Suc (gs_handoffs y)\<rparr>)"
  by (simp_all add: state_sim_def)

lemma follows_updates [simp]:
  "follows p (st\<lparr>gs_tool_calls := n\<rparr>) \<longleftrightarrow> follows p st" "follows p (charge_tool_call a st) \<longleftrightarrow> follows p st"
  by (simp_all add: follows_def charge_tool_call_def Let_def)

lemma request_sim:
  assumes "satisfied b t" "wf_policy b" "wf_policy t" "state_sim b x y" "follows t x" "follows b y"
    and "gs_reasons (tool_request_step t i e x) = []"
    and "ea_allowed_resource_scopes (hp_authority (gs_path y)) = [] \<or> payload_get e ''resource'' \<noteq> None"
  shows "state_sim b (tool_request_step t i e x) (tool_request_step b i e y)"
proof -
  let ?x = "x\<lparr>gs_tool_calls := Suc (gs_tool_calls x)\<rparr>" and ?y = "y\<lparr>gs_tool_calls := Suc (gs_tool_calls y)\<rparr>"
  have s: "state_sim b ?x ?y" using assms(4) by (rule count_sim)
  have grew: "gs_reasons st = []" if "gs_reasons (tool_request_body t i e st) = []" for st
    using that tool_request_body_grows [of st t i e] by (auto simp: grows_def)
  show ?thesis
  proof (cases "has_handoff_authority t")
    case False
    then have "\<not> has_handoff_authority b" using satisfied_grants(1) assms(1-3) by blast
    then show ?thesis using False assms(5-8) body_sim [OF s] by (simp add: tool_request_step_def)
  next
    case True
    then obtain a where a: "event_agent_identity (payload_get e ''agent'') = Some a" "hp_active_agent (gs_path x) = Some a"
      and body: "gs_reasons (tool_request_body t i e (charge_tool_call a ?x)) = []"
      using assms(7) by (auto simp: tool_request_step_def Let_def add_reasons_Nil split: option.splits if_splits)
    have step: "tool_request_step t i e x = tool_request_body t i e (charge_tool_call a ?x)"
      using a True by (simp add: tool_request_step_def)
    show ?thesis
    proof (cases "has_handoff_authority b")
      case b: True
      have "hp_active_agent (gs_path y) = Some a" using assms(4) b a by (simp add: state_sim_def path_sim_def)
      then have "tool_request_step b i e y = tool_request_body b i e (charge_tool_call a ?y)"
        using a b by (simp add: tool_request_step_def)
      moreover have "state_sim b (charge_tool_call a ?x) (charge_tool_call a ?y)"
        using charge_sim [OF s b grew [OF body]] .
      moreover have "gs_path (charge_tool_call a ?y) = gs_path y" using charge_tool_call_grows [of "?y" a] by simp
      ultimately show ?thesis
        unfolding step using body_sim [of b "charge_tool_call a ?x" "charge_tool_call a ?y" t i e] body assms(5,6,8) by simp
    next
      case b: False
      then have "tool_request_step b i e y = tool_request_body b i e ?y" by (simp add: tool_request_step_def)
      then show ?thesis unfolding step using charge_legacy_sim(1) [OF s b] body assms(5,6,8)
        by (auto intro!: body_sim)
    qed
  qed
qed

lemma handoff_sim:
  assumes "satisfied b t" "wf_policy b" "wf_policy t" "attenuating b" "state_sim b x y" "ev_kind e = HANDOFF"
    and "gs_reasons (handoff_event_step t e x) = []"
  shows "state_sim b (handoff_event_step t e x) (handoff_event_step b e y)"
proof -
  let ?x = "x\<lparr>gs_handoffs := Suc (gs_handoffs x)\<rparr>" and ?y = "y\<lparr>gs_handoffs := Suc (gs_handoffs y)\<rparr>"
  have s: "state_sim b ?x ?y" using assms(5) by (rule count_sim)
  show ?thesis
  proof (cases "has_handoff_authority t")
    case False
    then have "\<not> has_handoff_authority b" using satisfied_grants(1) assms(1-3) by blast
    then show ?thesis using False s by (simp add: handoff_event_step_def)
  next
    case t: True
    obtain rs where adv: "advance_handoff t (gs_path x) e = Inr (handoff_step t (gs_path x) e, rs)"
      using advance_total [OF assms(6)] by blast
    have path: "gs_path (charge_handoff e ?x) = gs_path x"
      using charge_handoff_grows [of "?x" e] by simp
    have rs: "rs = []" "gs_reasons (charge_handoff e ?x) = []"
      using assms(7) t adv path
      by (auto simp: handoff_event_step_def Let_def follow_handoff_def add_reasons_Nil split: if_splits)
    have step: "handoff_event_step t e x = (charge_handoff e ?x)\<lparr>gs_path := handoff_step t (gs_path x) e\<rparr>"
      using t adv path rs by (simp add: handoff_event_step_def follow_handoff_def)
    show ?thesis
    proof (cases "has_handoff_authority b")
      case False
      have c: "state_sim b (charge_handoff e ?x) ?y" using charge_legacy_sim(2) [OF s False] .
      have "authority_within (hp_authority (handoff_step t (gs_path x) e)) (hp_authority (gs_path y))"
        using step_within authority_within_trans s unfolding state_sim_def by simp blast
      then show ?thesis using c False unfolding step by (simp add: handoff_event_step_def state_sim_def)
    next
      case b: True
      have ps: "path_sim b (gs_path x) (gs_path y)" using s b by (simp add: state_sim_def)
      obtain y' where y': "advance_handoff b (gs_path y) e = Inr (y', [])" "path_sim b (handoff_step t (gs_path x) e) y'"
        using advance_sim [OF assms(1) b assms(2-4) ps assms(6)] adv rs(1) by blast
      have pathy: "gs_path (charge_handoff e ?y) = gs_path y"
        using charge_handoff_grows [of "?y" e] by simp
      have c: "state_sim b (charge_handoff e ?x) (charge_handoff e ?y)"
        using charge_handoff_sim [OF s b rs(2)] .
      have "handoff_event_step b e y = (charge_handoff e ?y)\<lparr>gs_path := y'\<rparr>"
        using b y'(1) pathy by (simp add: handoff_event_step_def follow_handoff_def)
      then show ?thesis using c b y'(2) unfolding step by (simp add: state_sim_def path_sim_def)
    qed
  qed
qed

lemma asked_sim:
  assumes "satisfied b t" "wf_policy b" "wf_policy t" "state_sim b x y" "follows t x" "follows b y"
    and "gs_reasons (approval_request_step t e x) = []"
    and "(\<exists>tool. payload_get e ''tool'' = Some (JStr tool) \<and>
        (tool \<in> ea_allowed_tools (hp_authority (gs_path y)) \<longrightarrow> tool \<in> approval_required b y)) \<and>
      (ea_allowed_resource_scopes (hp_authority (gs_path y)) = [] \<or> payload_get e ''resource'' \<noteq> None)"
  shows "state_sim b (approval_request_step t e x) (approval_request_step b e y)"
proof -
  from assms(8) obtain tool where tool: "payload_get e ''tool'' = Some (JStr tool)"
      "tool \<in> ea_allowed_tools (hp_authority (gs_path y)) \<Longrightarrow> tool \<in> approval_required b y" by blast
  obtain a where a: "event_agent_identity (payload_get e ''agent'') = Some a"
    and active: "has_handoff_authority t \<Longrightarrow> hp_active_agent (gs_path x) = Some a"
    and auth: "tool_authorized t x tool"
    and res: "resource_reasons ''resource identity missing for scoped approval request: ''
       ''resource identity malformed for scoped approval request: '' ''unauthorized resource in approval request for ''
       ''resource-bearing approval request has no authorized resource scope: '' (allowed_scopes t x) e tool = []"
    and same: "approval_request_step t e x = x"
    using assms(7) tool(1) by (auto simp: approval_request_step_def add_reasons_Nil split: option.splits if_splits)
  have within: "authority_within (hp_authority (gs_path x)) (hp_authority (gs_path y))"
    using assms(4) by (simp add: state_sim_def)
  have "tool \<in> ea_allowed_tools (hp_authority (gs_path y))"
    using auth within follows_reads(1) [OF assms(5)] by (auto simp: authority_within_def)
  then have "tool_authorized b y tool" "tool \<in> approval_required b y"
    using tool(2) follows_reads(1) [OF assms(6)] by auto
  moreover have "\<not> (has_handoff_authority b \<and> Some a \<noteq> hp_active_agent (gs_path y))"
    using assms(4) active satisfied_grants(1) assms(1-3) by (auto simp: state_sim_def path_sim_def)
  moreover have "resource_reasons ''resource identity missing for scoped approval request: ''
       ''resource identity malformed for scoped approval request: '' ''unauthorized resource in approval request for ''
       ''resource-bearing approval request has no authorized resource scope: '' (allowed_scopes b y) e tool = []"
    using assms(8) within unfolding follows_reads [OF assms(5)] follows_reads [OF assms(6)]
    by (intro resource_reasons_sim [OF res [unfolded follows_reads [OF assms(5)]]]) (auto simp: authority_within_def)
  ultimately have "approval_request_step b e y = y"
    using tool(1) a by (simp add: approval_request_step_def del: de_Morgan_conj)
  with same assms(4) show ?thesis by simp
qed

lemma step_sim:
  assumes "satisfied b t" "wf_policy b" "wf_policy t" "attenuating b" "state_sim b x y" "follows t x" "follows b y"
    and "gs_reasons (policy_step t i x e) = []"
    and "ev_kind e = TOOL_REQUEST \<Longrightarrow>
      ea_allowed_resource_scopes (hp_authority (gs_path y)) = [] \<or> payload_get e ''resource'' \<noteq> None"
    and "i \<noteq> None \<Longrightarrow> ev_kind e = APPROVAL_REQUEST \<Longrightarrow>
      (\<exists>tool. payload_get e ''tool'' = Some (JStr tool) \<and>
        (tool \<in> ea_allowed_tools (hp_authority (gs_path y)) \<longrightarrow> tool \<in> approval_required b y)) \<and>
      (ea_allowed_resource_scopes (hp_authority (gs_path y)) = [] \<or> payload_get e ''resource'' \<noteq> None)"
  shows "state_sim b (policy_step t i x e) (policy_step b i y e)"
proof (cases "ev_kind e")
  case TOOL_REQUEST
  then show ?thesis using assms request_sim [OF assms(1-3,5-7), of i e] by (simp add: policy_step_def)
next
  case HANDOFF
  then show ?thesis using assms handoff_sim [OF assms(1-5) HANDOFF] by (simp add: policy_step_def)
next
  case APPROVAL_REQUEST
  then show ?thesis
    using assms(5,8,10) asked_sim [OF assms(1-3,5-7), of e] by (auto simp: policy_step_def simp del: not_None_eq)
qed (use assms in \<open>auto simp: policy_step_def approval_step_sim decision_step_sim add_reasons_Nil\<close>)

lemma initial_sim:
  assumes "satisfied b t" "wf_policy b" "wf_policy t"
  shows "state_sim b (initial_policy_state t) (initial_policy_state b)"
proof -
  have "authority_within (from_root t) (from_root b)" using assms(1) by (rule satisfied_root)
  moreover have "ready b (path_from_policy b)"
    using root_grant_accepted [OF assms(2)] by (simp add: ready_def path_from_policy_def Let_def)
  moreover have "has_handoff_authority b \<Longrightarrow> has_handoff_authority t \<and> ap_root_agent t = ap_root_agent b"
    using satisfied_grants assms by blast
  ultimately show ?thesis
    by (auto simp: state_sim_def initial_policy_state_def path_sim_def path_from_policy_def Let_def)
qed

lemma follows_run: "follows p (policy_run p i es)"
  by (simp add: follows_def policy_run_path path_from_policy_def Let_def)

lemma run_scopes_empty:
  assumes "ap_allowed_resource_scopes p = []"
  shows "ea_allowed_resource_scopes (hp_authority (gs_path (policy_run p i es))) = []"
proof -
  have "authority_within (hp_authority (gs_path (policy_run p i es))) (from_root p)"
    using path_inv_run [OF path_inv_init, of p es] path_inv_init [of p]
    by (simp add: policy_run_path path_inv_def)
  then show ?thesis using assms by (auto simp: authority_within_def from_root_def scopes.covers_def)
qed

text \<open>An authorized tool that the root requires an approval for needs it along every path.\<close>

lemma run_approval_required:
  assumes "tool \<in> ap_approval_required_tools p"
    and "tool \<in> ea_allowed_tools (hp_authority (gs_path (policy_run p i es)))"
  shows "tool \<in> approval_required p (policy_run p i es)"
proof -
  have "authority_within (hp_authority (gs_path (policy_run p i es))) (from_root p)"
    using path_inv_run [OF path_inv_init, of p es] path_inv_init [of p]
    by (simp add: policy_run_path path_inv_def)
  then show ?thesis using assms by (auto simp: authority_within_def from_root_def follows_reads [OF follows_run])
qed

lemma run_sim:
  assumes "satisfied b t" "wf_policy b" "wf_policy t" "attenuating b" "resources_named b es"
    and "i = None \<or> approvals_asked b es" "gs_reasons (policy_run t i es) = []"
  shows "state_sim b (policy_run t i es) (policy_run b i es)"
  using assms(5-7)
proof (induction es rule: rev_induct)
  case Nil
  then show ?case using initial_sim [OF assms(1-3)] by (simp add: policy_run_def)
next
  case (snoc e es)
  have "gs_reasons (policy_run t i es) = []"
    using snoc.prems policy_run_grows [of t i es "[e]"] by (auto simp: grows_def)
  then have s: "state_sim b (policy_run t i es) (policy_run b i es)"
    using snoc by (auto simp: resources_named_def approvals_asked_def)
  show ?case
    unfolding policy_run_snoc
  proof (rule step_sim [OF assms(1-4) s follows_run follows_run])
    show "gs_reasons (policy_step t i (policy_run t i es) e) = []" using snoc.prems(3) by (simp add: policy_run_snoc)
    show "ea_allowed_resource_scopes (hp_authority (gs_path (policy_run b i es))) = [] \<or> payload_get e ''resource'' \<noteq> None"
      if "ev_kind e = TOOL_REQUEST"
      using that snoc.prems(1) run_scopes_empty by (auto simp: resources_named_def)
    show "(\<exists>tool. payload_get e ''tool'' = Some (JStr tool) \<and>
        (tool \<in> ea_allowed_tools (hp_authority (gs_path (policy_run b i es))) \<longrightarrow> tool \<in> approval_required b (policy_run b i es))) \<and>
      (ea_allowed_resource_scopes (hp_authority (gs_path (policy_run b i es))) = [] \<or> payload_get e ''resource'' \<noteq> None)"
      if "i \<noteq> None" "ev_kind e = APPROVAL_REQUEST"
      using that snoc.prems(2) run_scopes_empty run_approval_required by (auto simp: approvals_asked_def)
  qed
qed

text \<open>The claim of the relation, for the verdicts of the oracle.\<close>

lemma satisfied_is_sound:
  assumes "satisfied b t" "wf_policy b" "wf_policy t" "attenuating b" "resources_named b (te_events e)"
    and "es_approval_intent s = None \<or> approvals_asked b (te_events e)"
    and "or_verdict (policy_oracle (s\<lparr>es_authority := t\<rparr>) e) = PASS"
  shows "or_verdict (policy_oracle (s\<lparr>es_authority := b\<rparr>) e) = PASS"
proof -
  let ?es = "te_events e" and ?i = "es_approval_intent s"
  have rs: "policy_reasons (s\<lparr>es_authority := t\<rparr>) ?es = []"
    using assms(7) by (auto simp: policy_oracle_def Let_def split: if_splits)
  then have clean: "gs_reasons (policy_run t ?i ?es) = []" "int (gs_tool_calls (policy_run t ?i ?es)) \<le> ap_max_tool_calls t"
      "int (gs_handoffs (policy_run t ?i ?es)) \<le> ap_max_handoffs t"
    by (auto simp: policy_reasons_def Let_def split: if_splits)
  have "state_sim b (policy_run t ?i ?es) (policy_run b ?i ?es)"
    using run_sim [OF assms(1-6) clean(1)] .
  moreover have "ap_max_tool_calls t \<le> ap_max_tool_calls b" "ap_max_handoffs t \<le> ap_max_handoffs b"
    using satisfied_root [OF assms(1)] by (auto simp: authority_within_def from_root_def)
  ultimately show ?thesis using clean
    by (auto simp: policy_oracle_def policy_reasons_def Let_def state_sim_def)
qed

end
