(* ===== verification/Calibration.thy ===== *)
theory Calibration
  imports Recomputed Semantic FloatOps SemanticProofs McpReceipts
begin

section \<open>Calibration of a judge (\<open>semantic/calibration.py\<close>)\<close>

text \<open>
  A judge is measured against labelled cases, which a receipt keeps by commitment, and may judge if
  its errors stay within a policy. The tags a policy requires are a \<open>frozenset\<close>, which is dumped in
  the order the interpreter iterates it: that order is the parameter \<open>order\<close>, one for a process.
\<close>

type_synonym set_order = "string set \<Rightarrow> string list"

definition iterates :: "set_order \<Rightarrow> bool" where
  "iterates order \<longleftrightarrow> (\<forall>S. finite S \<longrightarrow> set (order S) = S \<and> distinct (order S))"

definition set_json :: "set_order \<Rightarrow> string set \<Rightarrow> json" where
  "set_json order S = JArr (map JStr (order S))"

subsection \<open>Cases and their commitments\<close>

record calibration_case =
  ca_case_id :: string
  ca_rev :: string
  ca_objective :: string
  ca_rubric :: semantic_rubric
  ca_candidate_output :: string
  ca_expected :: semantic_decision
  ca_tags :: "string set"

record case_commitment =
  cm_case_id :: string
  cm_revision :: string
  cm_objective_sha256 :: string
  cm_rubric :: semantic_rubric
  cm_rubric_identity :: string
  cm_candidate_sha256 :: string
  cm_expected :: semantic_decision
  cm_tags :: "string list"
  cm_root :: string

definition case_schema :: string where
  "case_schema = ''agent-evals/semantic-calibration-case/v2''"

definition commitment_schema :: string where
  "commitment_schema = ''agent-evals/semantic-calibration-case-commitment/v1''"

definition commitment_domain :: string where
  "commitment_domain = ''agent-evals/semantic-calibration-case-commitment/v1'' @ [CHR 0x00]"

definition blank_tags :: "string list \<Rightarrow> bool" where
  "blank_tags ts \<longleftrightarrow> list_ex (\<lambda>t. py_strip t = []) ts"

definition validate_case :: "calibration_case \<Rightarrow> error + calibration_case" where
  "validate_case c =
     rbind (raise_if (name_field ''case_id'' (ca_case_id c) @ text_field ''revision'' 128 (ca_rev c)
       @ text_field ''objective'' 20000 (ca_objective c))) (\<lambda>_.
     rbind (validate_rubric (ca_rubric c)) (\<lambda>_.
     rbind (raise_if
       [(length (ca_candidate_output c) > 100000, verr ''candidate_output: length''),
        (ca_expected c = SEM_ABSTAIN, verr ''calibration cases require evaluator-owned PASS or FAIL labels''),
        (\<exists>t\<in>ca_tags c. py_strip t = [], verr ''semantic calibration tags must be non-empty strings'')]) (\<lambda>_. Inr c)))"

definition case_judge_input :: "calibration_case \<Rightarrow> error + judge_input" where
  "case_judge_input c = mk_judge_input (ca_objective c) (ca_rubric c) (ca_candidate_output c)"

definition commitment_material :: "case_commitment \<Rightarrow> json" where
  "commitment_material c = JObj
     [(''schema_version'', JStr commitment_schema), (''source_case_schema'', JStr case_schema),
      (''case_id'', JStr (cm_case_id c)), (''revision'', JStr (cm_revision c)),
      (''objective_sha256'', JStr (cm_objective_sha256 c)), (''rubric'', rubric_material (cm_rubric c)),
      (''rubric_identity'', JStr (cm_rubric_identity c)), (''candidate_output_sha256'', JStr (cm_candidate_sha256 c)),
      (''expected'', JStr (semantic_value (cm_expected c))), (''tags'', JArr (map JStr (cm_tags c)))]"

definition commitment_root :: "case_commitment \<Rightarrow> string" where
  "commitment_root c = domain_root commitment_domain (commitment_material c)"

definition validate_commitment :: "case_commitment \<Rightarrow> error + unit" where
  "validate_commitment c = raise_if
     (name_field ''case_id'' (cm_case_id c) @ text_field ''revision'' 128 (cm_revision c)
      @ sha_field ''objective_sha256'' (cm_objective_sha256 c) @ sha_field ''rubric_identity'' (cm_rubric_identity c)
      @ sha_field ''candidate_output_sha256'' (cm_candidate_sha256 c) @ sha_field ''commitment_root'' (cm_root c)
      @ [(cm_expected c = SEM_ABSTAIN, verr ''calibration case commitment requires evaluator-owned PASS or FAIL label''),
         (cm_rubric_identity c \<noteq> rubric_identity (cm_rubric c),
          verr ''semantic calibration commitment rubric identity does not match rubric''),
         (blank_tags (cm_tags c), verr ''semantic calibration commitment tags must be non-empty strings''),
         (cm_tags c \<noteq> py_sorted (set (cm_tags c)), verr ''semantic calibration commitment tags must be sorted and unique''),
         (commitment_root c \<noteq> cm_root c, verr ''semantic calibration case commitment root does not match content'')])"

definition commitment_of :: "calibration_case \<Rightarrow> error + case_commitment" where
  "commitment_of c =
     (let m = \<lparr>cm_case_id = ca_case_id c, cm_revision = ca_rev c, cm_objective_sha256 = sha256_text (ca_objective c),
               cm_rubric = ca_rubric c, cm_rubric_identity = rubric_identity (ca_rubric c),
               cm_candidate_sha256 = sha256_text (ca_candidate_output c), cm_expected = ca_expected c,
               cm_tags = py_sorted (ca_tags c), cm_root = []\<rparr>;
          m = m\<lparr>cm_root := commitment_root m\<rparr>
      in rbind (validate_commitment m) (\<lambda>_. Inr m))"

subsection \<open>Policies and observations\<close>

record calibration_policy =
  cq_min_cases :: int
  cq_min_pass_cases :: int
  cq_min_fail_cases :: int
  cq_min_accuracy :: pyfloat
  cq_max_false_passes :: int
  cq_max_false_pass_rate :: pyfloat
  cq_max_abstentions :: int
  cq_max_judge_failures :: int
  cq_required_tags :: "string set"

definition cal_policy_schema :: string where
  "cal_policy_schema = ''agent-evals/semantic-calibration-policy/v1''"

definition unit_field :: "string \<Rightarrow> pyfloat \<Rightarrow> (bool \<times> error) list" where
  "unit_field name v = [(\<not> (isfinite v \<and> fl_unit v), verr (name @ '': range''))]"

definition validate_calibration_policy :: "calibration_policy \<Rightarrow> error + unit" where
  "validate_calibration_policy p = raise_if
     (int_field ''min_cases'' 2 (Some 10000) (cq_min_cases p) @ int_field ''min_pass_cases'' 1 (Some 10000) (cq_min_pass_cases p)
      @ int_field ''min_fail_cases'' 1 (Some 10000) (cq_min_fail_cases p) @ unit_field ''min_accuracy'' (cq_min_accuracy p)
      @ int_field ''max_false_passes'' 0 (Some 10000) (cq_max_false_passes p)
      @ unit_field ''max_false_pass_rate'' (cq_max_false_pass_rate p)
      @ int_field ''max_abstentions'' 0 (Some 10000) (cq_max_abstentions p)
      @ int_field ''max_judge_failures'' 0 (Some 10000) (cq_max_judge_failures p)
      @ [(cq_min_pass_cases p + cq_min_fail_cases p > cq_min_cases p,
          verr ''semantic calibration class-support minima cannot exceed minimum case count''),
         (\<exists>t\<in>cq_required_tags p. py_strip t = [], verr ''semantic calibration required tags must be non-empty strings'')])"

definition calibration_policy_json :: "set_order \<Rightarrow> calibration_policy \<Rightarrow> json" where
  "calibration_policy_json order p = JObj
     [(''schema_version'', JStr cal_policy_schema), (''min_cases'', JInt (cq_min_cases p)),
      (''min_pass_cases'', JInt (cq_min_pass_cases p)), (''min_fail_cases'', JInt (cq_min_fail_cases p)),
      (''min_accuracy'', JFloat (cq_min_accuracy p)), (''max_false_passes'', JInt (cq_max_false_passes p)),
      (''max_false_pass_rate'', JFloat (cq_max_false_pass_rate p)), (''max_abstentions'', JInt (cq_max_abstentions p)),
      (''max_judge_failures'', JInt (cq_max_judge_failures p)), (''required_tags'', set_json order (cq_required_tags p))]"

definition calibration_policy_identity :: "set_order \<Rightarrow> calibration_policy \<Rightarrow> string" where
  "calibration_policy_identity order p = sha256_unicode_json (calibration_policy_json order p)"

record calibration_observation =
  cv_commitment :: case_commitment
  cv_response :: "judge_response option"
  cv_failure_code :: "string option"

definition cal_observation_schema :: string where
  "cal_observation_schema = ''agent-evals/semantic-calibration-observation/v2''"

text \<open>\<open>observed\<close>: what the response decides, \<open>None\<close> for a failed judge.\<close>

definition observed_decision :: "semantic_rubric \<Rightarrow> judge_response option \<Rightarrow> error + semantic_decision option" where
  "observed_decision rubric response = (case response of None \<Rightarrow> Inr None
     | Some r \<Rightarrow> rbind (derive_semantic_decision rubric r) (\<lambda>d. Inr (Some d)))"

definition cv_observed :: "calibration_observation \<Rightarrow> error + semantic_decision option" where
  "cv_observed x = observed_decision (cm_rubric (cv_commitment x)) (cv_response x)"

definition validate_calibration_observation :: "calibration_observation \<Rightarrow> error + unit" where
  "validate_calibration_observation x =
     rbind (raise_if (opt_name_field ''failure_code'' ''._-'' 1 127 (cv_failure_code x)
       @ [(cv_response x = None \<and> cv_failure_code x = None,
           verr ''failed semantic calibration observation requires a failure code''),
          (cv_response x \<noteq> None \<and> cv_failure_code x \<noteq> None,
           verr ''resolved semantic calibration observation cannot carry a failure code'')])) (\<lambda>_.
     rbind (as_validation (cv_observed x)) (\<lambda>_. Inr ()))"

definition observe_response :: "calibration_case \<Rightarrow> judge_response \<Rightarrow> error + calibration_observation" where
  "observe_response c response =
     rbind (derive_semantic_decision (ca_rubric c) response) (\<lambda>_.
     rbind (commitment_of c) (\<lambda>m.
     let x = \<lparr>cv_commitment = m, cv_response = Some response, cv_failure_code = None\<rparr> in
     rbind (validate_calibration_observation x) (\<lambda>_. Inr x)))"

definition observe_failure :: "calibration_case \<Rightarrow> string \<Rightarrow> error + calibration_observation" where
  "observe_failure c code =
     rbind (commitment_of c) (\<lambda>m.
     let x = \<lparr>cv_commitment = m, cv_response = None, cv_failure_code = Some code\<rparr> in
     rbind (validate_calibration_observation x) (\<lambda>_. Inr x))"

definition commitment_json :: "case_commitment \<Rightarrow> json" where
  "commitment_json c = (case commitment_material c of
     JObj d \<Rightarrow> JObj (d @ [(''commitment_root'', JStr (cm_root c))]) | v \<Rightarrow> v)"

definition calibration_observation_json :: "calibration_observation \<Rightarrow> json" where
  "calibration_observation_json x = JObj
     [(''schema_version'', JStr cal_observation_schema), (''case_commitment'', commitment_json (cv_commitment x)),
      (''response'', opt_json (map_option response_material (cv_response x))), (''failure_code'', opt_str (cv_failure_code x))]"

subsection \<open>Metrics and receipts\<close>

record calibration_metrics =
  cx_total :: int
  cx_pass_cases :: int
  cx_fail_cases :: int
  cx_correct :: int
  cx_false_passes :: int
  cx_false_pass_rate :: pyfloat
  cx_abstentions :: int
  cx_judge_failures :: int
  cx_covered_tags :: "string list"
  cx_accuracy :: pyfloat
  cx_accepted :: bool

definition labelled :: "semantic_decision \<Rightarrow> calibration_observation list \<Rightarrow> int" where
  "labelled d xs = int (length (filter (\<lambda>x. cm_expected (cv_commitment x) = d) xs))"

definition tally :: "(semantic_decision \<Rightarrow> semantic_decision option \<Rightarrow> bool) \<Rightarrow> calibration_observation list
    \<Rightarrow> semantic_decision option list \<Rightarrow> int" where
  "tally f xs os = int (length (filter (\<lambda>(x, ob). f (cm_expected (cv_commitment x)) ob) (zip xs os)))"

definition covered_tags :: "calibration_observation list \<Rightarrow> string list" where
  "covered_tags xs = py_sorted (\<Union> (set ` cm_tags ` cv_commitment ` set xs))"

definition share :: "int \<Rightarrow> int \<Rightarrow> pyfloat" where
  "share n k = (if k \<noteq> 0 then int_ratio n k else fl_0)"

definition calibration_accepted :: "calibration_policy \<Rightarrow> calibration_metrics \<Rightarrow> bool" where
  "calibration_accepted p m \<longleftrightarrow>
     cx_total m \<ge> cq_min_cases p \<and> cx_pass_cases m \<ge> cq_min_pass_cases p \<and> cx_fail_cases m \<ge> cq_min_fail_cases p \<and>
     fl_le (cq_min_accuracy p) (cx_accuracy m) \<and> cx_false_passes m \<le> cq_max_false_passes p \<and>
     fl_le (cx_false_pass_rate m) (cq_max_false_pass_rate p) \<and> cx_abstentions m \<le> cq_max_abstentions p \<and>
     cx_judge_failures m \<le> cq_max_judge_failures p \<and> cq_required_tags p \<subseteq> set (cx_covered_tags m)"

definition metrics_over :: "calibration_policy \<Rightarrow> calibration_observation list \<Rightarrow> semantic_decision option list \<Rightarrow> calibration_metrics" where
  "metrics_over p xs os =
     (let correct = tally (\<lambda>e ob. ob = Some e) xs os;
          false_passes = tally (\<lambda>e ob. e = SEM_FAIL \<and> ob = Some SEM_PASS) xs os;
          m = \<lparr>cx_total = int (length xs), cx_pass_cases = labelled SEM_PASS xs, cx_fail_cases = labelled SEM_FAIL xs,
               cx_correct = correct, cx_false_passes = false_passes,
               cx_false_pass_rate = share false_passes (labelled SEM_FAIL xs),
               cx_abstentions = tally (\<lambda>e ob. ob = Some SEM_ABSTAIN) xs os,
               cx_judge_failures = tally (\<lambda>e ob. ob = None) xs os, cx_covered_tags = covered_tags xs,
               cx_accuracy = int_ratio correct (int (length xs)), cx_accepted = False\<rparr>
      in m\<lparr>cx_accepted := calibration_accepted p m\<rparr>)"

definition calibration_metrics_of :: "calibration_policy \<Rightarrow> calibration_observation list \<Rightarrow> error + calibration_metrics" where
  "calibration_metrics_of p xs =
     rbind (raise_if
       [(xs = [], vale ''semantic calibration requires at least one observation''),
        (\<not> distinct (map (cm_root \<circ> cv_commitment) xs), vale ''semantic calibration case commitments must be unique'')]) (\<lambda>_.
     rbind (rmap cv_observed xs) (\<lambda>os. Inr (metrics_over p xs os)))"

record calibration_receipt =
  kr_judge_profile :: judge_profile
  kr_policy :: calibration_policy
  kr_observations :: "calibration_observation list"
  kr_metrics :: calibration_metrics
  kr_root :: string

definition calibration_schema :: string where
  "calibration_schema = ''agent-evals/semantic-calibration-receipt/v2''"

definition calibration_domain :: string where
  "calibration_domain = ''agent-evals/semantic-calibration-receipt/v2'' @ [CHR 0x00]"

definition metrics_fields :: "calibration_metrics \<Rightarrow> dict" where
  "metrics_fields m =
     [(''total_cases'', JInt (cx_total m)), (''pass_cases'', JInt (cx_pass_cases m)), (''fail_cases'', JInt (cx_fail_cases m)),
      (''correct'', JInt (cx_correct m)), (''false_passes'', JInt (cx_false_passes m)),
      (''false_pass_rate'', JFloat (cx_false_pass_rate m)), (''abstentions'', JInt (cx_abstentions m)),
      (''judge_failures'', JInt (cx_judge_failures m)), (''covered_tags'', JArr (map JStr (cx_covered_tags m))),
      (''accuracy'', JFloat (cx_accuracy m)), (''accepted'', JBool (cx_accepted m))]"

definition calibration_dict :: "set_order \<Rightarrow> calibration_receipt \<Rightarrow> dict" where
  "calibration_dict order r =
     [(''schema_version'', JStr calibration_schema), (''judge_profile'', profile_material (kr_judge_profile r)),
      (''policy'', calibration_policy_json order (kr_policy r)),
      (''observations'', JArr (map calibration_observation_json (kr_observations r)))] @ metrics_fields (kr_metrics r)"

definition calibration_root :: "set_order \<Rightarrow> calibration_receipt \<Rightarrow> string" where
  "calibration_root order r = domain_root calibration_domain (JObj (calibration_dict order r))"

definition calibration_json :: "set_order \<Rightarrow> calibration_receipt \<Rightarrow> json" where
  "calibration_json order r = JObj (calibration_dict order r @ [(''receipt_root'', JStr (kr_root r))])"

definition same_metrics :: "calibration_metrics \<Rightarrow> calibration_metrics \<Rightarrow> (bool \<times> error) list" where
  "same_metrics m e =
     (let bad = (\<lambda>name. verr (''semantic calibration '' @ name @ '' does not recompute from observations'')) in
     [(cx_total m \<noteq> cx_total e, bad ''total_cases''), (cx_pass_cases m \<noteq> cx_pass_cases e, bad ''pass_cases''),
      (cx_fail_cases m \<noteq> cx_fail_cases e, bad ''fail_cases''), (cx_correct m \<noteq> cx_correct e, bad ''correct''),
      (cx_false_passes m \<noteq> cx_false_passes e, bad ''false_passes''),
      (\<not> fl_eq (cx_false_pass_rate m) (cx_false_pass_rate e), bad ''false_pass_rate''),
      (cx_abstentions m \<noteq> cx_abstentions e, bad ''abstentions''), (cx_judge_failures m \<noteq> cx_judge_failures e, bad ''judge_failures''),
      (cx_covered_tags m \<noteq> cx_covered_tags e, bad ''covered_tags''), (\<not> fl_eq (cx_accuracy m) (cx_accuracy e), bad ''accuracy''),
      (cx_accepted m \<noteq> cx_accepted e, bad ''accepted'')])"

definition calibration_fields :: "calibration_receipt \<Rightarrow> (bool \<times> error) list" where
  "calibration_fields r =
     (let m = kr_metrics r in
      [(kr_observations r = [], verr ''observations: length'')]
      @ int_field ''total_cases'' 1 None (cx_total m) @ int_field ''pass_cases'' 0 None (cx_pass_cases m)
      @ int_field ''fail_cases'' 0 None (cx_fail_cases m) @ int_field ''correct'' 0 None (cx_correct m)
      @ int_field ''false_passes'' 0 None (cx_false_passes m) @ unit_field ''false_pass_rate'' (cx_false_pass_rate m)
      @ int_field ''abstentions'' 0 None (cx_abstentions m) @ int_field ''judge_failures'' 0 None (cx_judge_failures m)
      @ unit_field ''accuracy'' (cx_accuracy m) @ sha_field ''receipt_root'' (kr_root r))"

definition validate_calibration :: "set_order \<Rightarrow> calibration_receipt \<Rightarrow> error + calibration_receipt" where
  "validate_calibration order r =
     rbind (raise_if (calibration_fields r)) (\<lambda>_.
     rbind (as_validation (calibration_metrics_of (kr_policy r) (kr_observations r))) (\<lambda>e.
     rbind (raise_if (same_metrics (kr_metrics r) e)) (\<lambda>_.
     rbind (raise_if [(calibration_root order r \<noteq> kr_root r,
        verr ''semantic calibration receipt root does not match receipt content'')]) (\<lambda>_. Inr r))))"

definition create_calibration ::
  "set_order \<Rightarrow> judge_profile \<Rightarrow> calibration_policy \<Rightarrow> calibration_observation list \<Rightarrow> error + calibration_receipt" where
  "create_calibration order profile p xs =
     rbind (calibration_metrics_of p xs) (\<lambda>m.
     let r = \<lparr>kr_judge_profile = profile, kr_policy = p, kr_observations = xs, kr_metrics = m, kr_root = []\<rparr> in
     validate_calibration order (r\<lparr>kr_root := calibration_root order r\<rparr>))"

section \<open>Calibration receipts read back\<close>

text \<open>
  A judgment embeds the receipt of its judge and validates it again from its own dump. Reading is
  written out for every model of the receipt, and what is read from a dump is decided: the receipt
  itself, if the reader iterates the required tags as the writer did.
\<close>

fun as_float :: "json option \<Rightarrow> pyfloat option" where
  "as_float (Some (JFloat x)) = Some x"
| "as_float (Some (JInt i)) = Some (fl_of_int i)"
| "as_float _ = None"

definition read_literal :: "string \<Rightarrow> json option \<Rightarrow> unit option" where
  "read_literal expected v = do { s \<leftarrow> with_default expected as_str v; (if s = expected then Some () else None) }"

definition read_commitment :: "json option \<Rightarrow> case_commitment option" where
  "read_commitment v = do {
     m \<leftarrow> as_obj v;
     (if only_keys [''schema_version'', ''source_case_schema'', ''case_id'', ''revision'', ''objective_sha256'', ''rubric'',
        ''rubric_identity'', ''candidate_output_sha256'', ''expected'', ''tags'', ''commitment_root''] m
      then Some () else None);
     _ \<leftarrow> read_literal commitment_schema (dict_get m ''schema_version'');
     _ \<leftarrow> read_literal case_schema (dict_get m ''source_case_schema'');
     cid \<leftarrow> as_str (dict_get m ''case_id'');
     revision \<leftarrow> as_str (dict_get m ''revision'');
     objective \<leftarrow> as_str (dict_get m ''objective_sha256'');
     rubric \<leftarrow> read_rubric (dict_get m ''rubric'');
     rid \<leftarrow> as_str (dict_get m ''rubric_identity'');
     candidate \<leftarrow> as_str (dict_get m ''candidate_output_sha256'');
     expected \<leftarrow> read_enum semantic_value semantic_decisions (dict_get m ''expected'');
     tags \<leftarrow> with_default [] str_list (dict_get m ''tags'');
     root \<leftarrow> as_str (dict_get m ''commitment_root'');
     (let c = \<lparr>cm_case_id = cid, cm_revision = revision, cm_objective_sha256 = objective, cm_rubric = rubric,
               cm_rubric_identity = rid, cm_candidate_sha256 = candidate, cm_expected = expected, cm_tags = tags,
               cm_root = root\<rparr> in
      case validate_commitment c of Inl _ \<Rightarrow> None | Inr _ \<Rightarrow> Some c) }"

definition read_calibration_policy :: "json option \<Rightarrow> calibration_policy option" where
  "read_calibration_policy v = do {
     m \<leftarrow> as_obj v;
     (if only_keys [''schema_version'', ''min_cases'', ''min_pass_cases'', ''min_fail_cases'', ''min_accuracy'',
        ''max_false_passes'', ''max_false_pass_rate'', ''max_abstentions'', ''max_judge_failures'', ''required_tags''] m
      then Some () else None);
     _ \<leftarrow> read_literal cal_policy_schema (dict_get m ''schema_version'');
     cases \<leftarrow> with_default 4 as_int (dict_get m ''min_cases'');
     passes \<leftarrow> with_default 1 as_int (dict_get m ''min_pass_cases'');
     fails \<leftarrow> with_default 1 as_int (dict_get m ''min_fail_cases'');
     accuracy \<leftarrow> with_default (int_ratio 9 10) as_float (dict_get m ''min_accuracy'');
     false_passes \<leftarrow> with_default 0 as_int (dict_get m ''max_false_passes'');
     rate \<leftarrow> with_default fl_0 as_float (dict_get m ''max_false_pass_rate'');
     abstentions \<leftarrow> with_default 0 as_int (dict_get m ''max_abstentions'');
     failures \<leftarrow> with_default 0 as_int (dict_get m ''max_judge_failures'');
     tags \<leftarrow> with_default [''judge-prompt-injection''] str_list (dict_get m ''required_tags'');
     (let p = \<lparr>cq_min_cases = cases, cq_min_pass_cases = passes, cq_min_fail_cases = fails, cq_min_accuracy = accuracy,
               cq_max_false_passes = false_passes, cq_max_false_pass_rate = rate, cq_max_abstentions = abstentions,
               cq_max_judge_failures = failures, cq_required_tags = set tags\<rparr> in
      case validate_calibration_policy p of Inl _ \<Rightarrow> None | Inr _ \<Rightarrow> Some p) }"

definition read_response :: "json option \<Rightarrow> judge_response option" where
  "read_response v = do {
     m \<leftarrow> as_obj v;
     (if only_keys [''schema_version'', ''criteria'', ''overall''] m then Some () else None);
     schema \<leftarrow> with_default response_schema as_str (dict_get m ''schema_version'');
     criteria \<leftarrow> read_all read_criterion_result (dict_get m ''criteria'');
     overall \<leftarrow> read_enum semantic_value semantic_decisions (dict_get m ''overall'');
     of_result (validate_response \<lparr>jr_schema_version = schema, jr_criteria = criteria, jr_overall = overall\<rparr>) }"

definition read_calibration_observation :: "json \<Rightarrow> calibration_observation option" where
  "read_calibration_observation v = do {
     m \<leftarrow> as_obj (Some v);
     (if only_keys [''schema_version'', ''case_commitment'', ''response'', ''failure_code''] m then Some () else None);
     _ \<leftarrow> read_literal cal_observation_schema (dict_get m ''schema_version'');
     commitment \<leftarrow> read_commitment (dict_get m ''case_commitment'');
     response \<leftarrow> nullable read_response (dict_get m ''response'');
     code \<leftarrow> nullable as_str (dict_get m ''failure_code'');
     (let x = \<lparr>cv_commitment = commitment, cv_response = response, cv_failure_code = code\<rparr> in
      case validate_calibration_observation x of Inl _ \<Rightarrow> None | Inr _ \<Rightarrow> Some x) }"

definition read_metrics :: "dict \<Rightarrow> calibration_metrics option" where
  "read_metrics m = do {
     total \<leftarrow> as_int (dict_get m ''total_cases'');
     passes \<leftarrow> as_int (dict_get m ''pass_cases'');
     fails \<leftarrow> as_int (dict_get m ''fail_cases'');
     correct \<leftarrow> as_int (dict_get m ''correct'');
     false_passes \<leftarrow> as_int (dict_get m ''false_passes'');
     rate \<leftarrow> as_float (dict_get m ''false_pass_rate'');
     abstentions \<leftarrow> as_int (dict_get m ''abstentions'');
     failures \<leftarrow> as_int (dict_get m ''judge_failures'');
     tags \<leftarrow> with_default [] str_list (dict_get m ''covered_tags'');
     accuracy \<leftarrow> as_float (dict_get m ''accuracy'');
     accepted \<leftarrow> as_bool (dict_get m ''accepted'');
     Some \<lparr>cx_total = total, cx_pass_cases = passes, cx_fail_cases = fails, cx_correct = correct,
           cx_false_passes = false_passes, cx_false_pass_rate = rate, cx_abstentions = abstentions,
           cx_judge_failures = failures, cx_covered_tags = tags, cx_accuracy = accuracy, cx_accepted = accepted\<rparr> }"

definition calibration_keys :: "string list" where
  "calibration_keys = [''schema_version'', ''judge_profile'', ''policy'', ''observations'', ''total_cases'', ''pass_cases'',
     ''fail_cases'', ''correct'', ''false_passes'', ''false_pass_rate'', ''abstentions'', ''judge_failures'', ''covered_tags'',
     ''accuracy'', ''accepted'', ''receipt_root'']"

definition read_calibration :: "set_order \<Rightarrow> json \<Rightarrow> calibration_receipt option" where
  "read_calibration order v = do {
     m \<leftarrow> as_obj (Some v);
     (if only_keys calibration_keys m then Some () else None);
     _ \<leftarrow> read_literal calibration_schema (dict_get m ''schema_version'');
     profile \<leftarrow> read_profile (dict_get m ''judge_profile'');
     policy \<leftarrow> read_calibration_policy (dict_get m ''policy'');
     observations \<leftarrow> read_all read_calibration_observation (dict_get m ''observations'');
     metrics \<leftarrow> read_metrics m;
     root \<leftarrow> as_str (dict_get m ''receipt_root'');
     of_result (validate_calibration order
       \<lparr>kr_judge_profile = profile, kr_policy = policy, kr_observations = observations, kr_metrics = metrics, kr_root = root\<rparr>) }"

text \<open>The calibrations of a process, as a judgment uses them.\<close>

definition judge_calibrations :: "set_order \<Rightarrow> calibration_receipt calibration_ops" where
  "judge_calibrations order = \<lparr>co_accepted = (\<lambda>r. cx_accepted (kr_metrics r)), co_profile = kr_judge_profile,
     co_material = calibration_json order, co_read = read_calibration order\<rparr>"

subsection \<open>What is read from a dump\<close>

lemma read_literal_self [simp]: "read_literal s (Some (JStr s)) = Some ()"
  by (simp add: read_literal_def with_default_def)

lemma those_map: "(\<And>x. x \<in> set xs \<Longrightarrow> f (g x) = Some x) \<Longrightarrow> those (map (\<lambda>x. f (g x)) xs) = Some xs"
  by (induction xs) auto

lemma read_all_map: "(\<And>x. x \<in> set xs \<Longrightarrow> f (g x) = Some x) \<Longrightarrow> read_all f (Some (JArr (map g xs))) = Some xs"
  by (simp add: read_all_def comp_def those_map)

lemma read_decision [simp]: "read_enum semantic_value semantic_decisions (Some (JStr (semantic_value d))) = Some d"
  by (cases d) (simp_all add: read_enum_def semantic_decisions_def)

lemma read_criterion_material [simp]: "read_criterion (criterion_material c) = Some c"
  by (cases c) (simp add: read_criterion_def criterion_material_def only_keys_def)

lemma read_rubric_material: "validate_rubric r = Inr r \<Longrightarrow> read_rubric (Some (rubric_material r)) = Some r"
  by (cases r) (simp add: read_rubric_def rubric_material_def only_keys_def with_default_def read_all_map)

lemma read_profile_material: "validate_profile p = Inr p \<Longrightarrow> read_profile (Some (profile_material p)) = Some p"
  by (cases p) (simp add: read_profile_def profile_material_def only_keys_def with_default_def)

lemma read_criterion_result_material:
  "validate_criterion_result c = Inr () \<Longrightarrow> read_criterion_result (criterion_result_material c) = Some c"
  by (cases c; cases "cs_score c")
    (simp_all add: read_criterion_result_def criterion_result_material_def only_keys_def nullable_def opt_json_def Let_def)

lemma read_response_material:
  assumes "validate_response r = Inr r"
  shows "read_response (Some (response_material r)) = Some r"
proof -
  have "\<forall>c \<in> set (jr_criteria r). validate_criterion_result c = Inr ()"
    using assms by (auto simp: validate_response_def rbind_Inr rfor_Inr)
  then have "read_all read_criterion_result (Some (JArr (map criterion_result_material (jr_criteria r)))) = Some (jr_criteria r)"
    by (intro read_all_map) (simp add: read_criterion_result_material)
  then show ?thesis using assms
    by (cases r) (simp add: read_response_def response_material_def only_keys_def with_default_def)
qed

lemma read_optional_response:
  assumes "pred_option (\<lambda>r. validate_response r = Inr r) v"
  shows "nullable read_response (Some (opt_json (map_option response_material v))) = Some v"
proof (cases v)
  case (Some r)
  obtain d where d: "response_material r = JObj d" by (simp add: response_material_def)
  have "read_response (Some (response_material r)) = Some r" using assms Some by (intro read_response_material) simp
  then show ?thesis by (simp add: Some d nullable_def opt_json_def)
qed (simp add: nullable_def opt_json_def)

lemma read_optional_text: "nullable as_str (Some (opt_str v)) = Some v"
  by (cases v) (simp_all add: nullable_def opt_str_def opt_json_def)

lemma read_commitment_json:
  assumes "validate_commitment c = Inr ()" "validate_rubric (cm_rubric c) = Inr (cm_rubric c)"
  shows "read_commitment (Some (commitment_json c)) = Some c"
  using assms read_rubric_material [OF assms(2)]
  by (cases c) (simp add: Let_def read_commitment_def commitment_json_def commitment_material_def only_keys_def with_default_def)

lemma read_policy_json:
  assumes "validate_calibration_policy p = Inr ()" "set (order (cq_required_tags p)) = cq_required_tags p"
  shows "read_calibration_policy (Some (calibration_policy_json order p)) = Some p"
  using assms
  by (cases p) (simp add: Let_def read_calibration_policy_def calibration_policy_json_def only_keys_def with_default_def set_json_def)

definition well_observed :: "calibration_observation \<Rightarrow> bool" where
  "well_observed x \<longleftrightarrow> validate_calibration_observation x = Inr () \<and> validate_commitment (cv_commitment x) = Inr () \<and>
     validate_rubric (cm_rubric (cv_commitment x)) = Inr (cm_rubric (cv_commitment x)) \<and>
     pred_option (\<lambda>r. validate_response r = Inr r) (cv_response x)"

lemma read_observation_json:
  assumes "well_observed x"
  shows "read_calibration_observation (calibration_observation_json x) = Some x"
  using assms read_commitment_json [of "cv_commitment x"] read_optional_response [of "cv_response x"]
    read_optional_text [of "cv_failure_code x"]
  by (cases x) (simp add: well_observed_def read_calibration_observation_def calibration_observation_json_def only_keys_def
      Let_def)

lemma read_metrics_fields: "read_metrics (a # b # c # d # metrics_fields m @ rest) = Some m"
  if "fst a = ''schema_version''" "fst b = ''judge_profile''" "fst c = ''policy''" "fst d = ''observations''"
  using that by (cases a; cases b; cases c; cases d) (simp add: read_metrics_def metrics_fields_def with_default_def)

text \<open>A receipt whose parts are valid, as every constructed one is.\<close>

definition well_calibrated :: "calibration_receipt \<Rightarrow> bool" where
  "well_calibrated r \<longleftrightarrow> validate_profile (kr_judge_profile r) = Inr (kr_judge_profile r) \<and>
     validate_calibration_policy (kr_policy r) = Inr () \<and> finite (cq_required_tags (kr_policy r)) \<and>
     list_all well_observed (kr_observations r)"

lemma validate_calibration_order:
  assumes "validate_calibration order r = Inr r"
  shows "validate_calibration order' r = Inr s \<longleftrightarrow> s = r \<and> calibration_root order' r = calibration_root order r"
proof -
  have "kr_root r = calibration_root order r"
    using assms by (auto simp: validate_calibration_def rbind_Inr raise_if_Inr)
  then show ?thesis using assms by (auto simp: validate_calibration_def rbind_Inr raise_if_Inr)
qed

lemma read_calibration_json:
  assumes "well_calibrated r" "iterates order" "validate_calibration order r = Inr r"
  shows "read_calibration order' (calibration_json order r) =
    (if calibration_root order' r = calibration_root order r then Some r else None)"
proof -
  have o: "set (order (cq_required_tags (kr_policy r))) = cq_required_tags (kr_policy r)"
    using assms(1,2) by (simp add: well_calibrated_def iterates_def)
  have p: "read_calibration_policy (Some (calibration_policy_json order (kr_policy r))) = Some (kr_policy r)"
    using assms(1) o by (intro read_policy_json) (simp_all add: well_calibrated_def)
  have x: "read_all read_calibration_observation (Some (JArr (map calibration_observation_json (kr_observations r))))
      = Some (kr_observations r)"
    using assms(1) by (intro read_all_map read_observation_json) (auto simp: well_calibrated_def list_all_iff)
  have j: "read_profile (Some (profile_material (kr_judge_profile r))) = Some (kr_judge_profile r)"
    using assms(1) by (intro read_profile_material) (simp add: well_calibrated_def)
  have eta: "\<lparr>kr_judge_profile = kr_judge_profile r, kr_policy = kr_policy r, kr_observations = kr_observations r,
      kr_metrics = kr_metrics r, kr_root = kr_root r\<rparr> = r" by (cases r) simp
  have "read_calibration order' (calibration_json order r) = of_result (validate_calibration order'
      \<lparr>kr_judge_profile = kr_judge_profile r, kr_policy = kr_policy r, kr_observations = kr_observations r,
       kr_metrics = kr_metrics r, kr_root = kr_root r\<rparr>)"
    using p x j
    by (simp add: read_calibration_def calibration_json_def calibration_dict_def only_keys_def calibration_keys_def
        read_metrics_fields) (simp add: metrics_fields_def)
  also have "\<dots> = of_result (validate_calibration order' r)" by (simp only: eta)
  also have "\<dots> = (if calibration_root order' r = calibration_root order r then Some r else None)"
    using validate_calibration_order [OF assms(3), of order']
    by (cases "validate_calibration order' r") (auto simp: of_result_def)
  finally show ?thesis .
qed

subsection \<open>The order of iteration is part of the root\<close>

lemma str_join_cancel: "str_join sep (us @ x # vs) = str_join sep (us @ y # vs) \<Longrightarrow> x = y"
proof (induction us)
  case Nil
  then show ?case by (cases vs) simp_all
next
  case (Cons u us)
  then show ?case by (cases us) simp_all
qed

lemma dumps_member:
  assumes "dumps_raw ea (JObj (us @ (k, v) # vs)) = dumps_raw ea (JObj (us @ (k, w) # vs))"
  shows "dumps_raw ea v = dumps_raw ea w"
  using assms str_join_cancel [of "'',''" "map (\<lambda>kv. json_str ea (fst kv) @ '':'' @ dumps_raw ea (snd kv)) us"]
  by auto

lemma dumps_member_eq:
  "us = us' \<Longrightarrow> vs = vs' \<Longrightarrow> dumps_raw ea (JObj (us @ (k, v) # vs)) = dumps_raw ea (JObj (us' @ (k, w) # vs'))
    \<longleftrightarrow> dumps_raw ea v = dumps_raw ea w"
  using dumps_member [of ea us k v vs w] by auto

lemma sorted_calibration_policy:
  "sort_keys (calibration_policy_json order p) = JObj
     ([(''max_abstentions'', JInt (cq_max_abstentions p)), (''max_false_pass_rate'', JFloat (cq_max_false_pass_rate p)),
       (''max_false_passes'', JInt (cq_max_false_passes p)), (''max_judge_failures'', JInt (cq_max_judge_failures p)),
       (''min_accuracy'', JFloat (cq_min_accuracy p)), (''min_cases'', JInt (cq_min_cases p)),
       (''min_fail_cases'', JInt (cq_min_fail_cases p)), (''min_pass_cases'', JInt (cq_min_pass_cases p))]
      @ (''required_tags'', sort_keys (set_json order (cq_required_tags p)))
      # [(''schema_version'', JStr cal_policy_schema)])"
  by (simp add: calibration_policy_json_def)

lemma sorted_calibration:
  "sort_keys (JObj (calibration_dict order r)) = JObj
     (map (\<lambda>k. (k, sort_keys (the (map_of (calibration_dict order r) k))))
        [''abstentions'', ''accepted'', ''accuracy'', ''correct'', ''covered_tags'', ''fail_cases'', ''false_pass_rate'',
         ''false_passes'', ''judge_failures'', ''judge_profile'', ''observations'', ''pass_cases'']
      @ (''policy'', sort_keys (calibration_policy_json order (kr_policy r)))
      # map (\<lambda>k. (k, sort_keys (the (map_of (calibration_dict order r) k)))) [''schema_version'', ''total_cases''])"
  by (simp add: calibration_dict_def metrics_fields_def)

lemma calibration_dict_order:
  "''policy'' \<noteq> k \<Longrightarrow> map_of (calibration_dict order r) k = map_of (calibration_dict order' r) k"
  by (simp add: calibration_dict_def)

definition calibration_bytes :: "set_order \<Rightarrow> calibration_receipt \<Rightarrow> string" where
  "calibration_bytes order r = calibration_domain @ utf8 (json_dumps_unicode (JObj (calibration_dict order r)))"

lemma tag_texts:
  assumes "dumps_raw False (sort_keys (set_json order X)) = dumps_raw False (sort_keys (set_json order' Y))"
  shows "order X = order' Y"
proof -
  have "sort_keys (set_json order X) = sort_keys (set_json order' Y)"
    using assms by (intro json_dumps_unicode_inj) (simp_all add: set_json_def json_dumps_unicode_def list_all_iff)
  then have "map JStr (order X) = map JStr (order' Y)" by (simp add: set_json_def comp_def)
  then show ?thesis by (rule map_injective) (simp add: inj_def)
qed

lemma calibration_order_bound:
  assumes "calibration_bytes order r = calibration_bytes order' r"
  shows "order (cq_required_tags (kr_policy r)) = order' (cq_required_tags (kr_policy r))"
proof -
  let ?p = "kr_policy r"
  have "dumps_raw False (sort_keys (JObj (calibration_dict order r))) = dumps_raw False (sort_keys (JObj (calibration_dict order' r)))"
    using assms by - (rule utf8_inj, simp add: calibration_bytes_def json_dumps_unicode_def del: dumps_raw.simps sort_keys.simps)
  moreover have "map (\<lambda>k. (k, sort_keys (the (map_of (calibration_dict order r) k)))) ks
      = map (\<lambda>k. (k, sort_keys (the (map_of (calibration_dict order' r) k)))) ks" if "''policy'' \<notin> set ks" for ks
    using that by (induction ks) (simp_all add: calibration_dict_order [of _ order r order'])
  ultimately have "dumps_raw False (sort_keys (calibration_policy_json order ?p)) = dumps_raw False (sort_keys (calibration_policy_json order' ?p))"
    unfolding sorted_calibration by (simp del: dumps_raw.simps sort_keys.simps list.map add: dumps_member_eq)
  then have "dumps_raw False (sort_keys (set_json order (cq_required_tags ?p))) = dumps_raw False (sort_keys (set_json order' (cq_required_tags ?p)))"
    unfolding sorted_calibration_policy by (rule dumps_member)
  then show ?thesis by (rule tag_texts)
qed

lemma calibration_root_order:
  "calibration_root order r = calibration_root order' r \<longleftrightarrow>
     order (cq_required_tags (kr_policy r)) = order' (cq_required_tags (kr_policy r)) \<or>
     sha256_collision (calibration_bytes order r) (calibration_bytes order' r)"
proof
  assume "calibration_root order r = calibration_root order' r"
  then have "sha256_hex (calibration_bytes order r) = sha256_hex (calibration_bytes order' r)"
    by (simp add: calibration_root_def domain_root_def calibration_bytes_def)
  from sha256_hex_eqD [OF this] calibration_order_bound
  show "order (cq_required_tags (kr_policy r)) = order' (cq_required_tags (kr_policy r)) \<or>
      sha256_collision (calibration_bytes order r) (calibration_bytes order' r)" by blast
next
  have "calibration_root order r = calibration_root order' r"
    if "order (cq_required_tags (kr_policy r)) = order' (cq_required_tags (kr_policy r))"
    using that by (simp add: calibration_root_def calibration_dict_def calibration_policy_json_def set_json_def)
  moreover have "calibration_root order r = calibration_root order' r"
    if "sha256_collision (calibration_bytes order r) (calibration_bytes order' r)"
    using that by (simp add: calibration_root_def domain_root_def sha256_collision_def sha256_hex_def calibration_bytes_def)
  ultimately show "order (cq_required_tags (kr_policy r)) = order' (cq_required_tags (kr_policy r)) \<or>
      sha256_collision (calibration_bytes order r) (calibration_bytes order' r) \<Longrightarrow>
      calibration_root order r = calibration_root order' r" by blast
qed

end
