(* ===== verification/SampleRelations.thy ===== *)
theory SampleRelations
  imports MetamorphicProofs Sample Calibration Multiplicity McpProbe OAuthAssurance
begin

section \<open>Policies compared\<close>

text \<open>
  A baseline with a wider buyer and larger budgets than the delegated policy; and three pairs of policies
  on which the authority relation is satisfied while the transformed policy passes a run that the
  baseline fails.
\<close>

definition wide_grant :: handoff_grant where
  "wide_grant = buyer_grant\<lparr>hg_allowed_tools := {''pay'', ''search''}, hg_additional_approval := {},
     hg_max_tool_calls := 2\<rparr>"

definition wide_policy :: authority_policy where
  "wide_policy = delegated_policy\<lparr>ap_max_tool_calls := 3, ap_handoff_grants := [wide_grant]\<rparr>"

lemma grant_fields [simp]:
  "hg_source_agent buyer_grant = ''root''" "hg_target_agent buyer_grant = ''buyer''" "hg_allowed_tools buyer_grant = {''pay''}"
  "hg_allowed_resource_scopes buyer_grant = []" "hg_additional_approval buyer_grant = {''pay''}"
  "hg_max_tool_calls buyer_grant = 1" "hg_max_handoffs buyer_grant = 0"
  "hg_source_agent wide_grant = ''root''" "hg_target_agent wide_grant = ''buyer''"
  "hg_allowed_tools wide_grant = {''pay'', ''search''}" "hg_allowed_resource_scopes wide_grant = []"
  "hg_additional_approval wide_grant = {}" "hg_max_tool_calls wide_grant = 2" "hg_max_handoffs wide_grant = 0"
  by (simp_all add: wide_grant_def buyer_grant_def)

lemma wide_fields [simp]:
  "ap_allowed_tools wide_policy = {''pay'', ''search''}" "ap_forbidden_tools wide_policy = {}"
  "ap_approval_required_tools wide_policy = {}" "ap_allowed_resource_scopes wide_policy = []"
  "ap_max_turns wide_policy = 8" "ap_max_tool_calls wide_policy = 3" "ap_max_handoffs wide_policy = 1"
  "ap_root_agent wide_policy = Some ''root''" "ap_handoff_grants wide_policy = [wide_grant]"
  "ap_max_turns delegated_policy = 8"
  by (simp_all add: wide_policy_def delegated_policy_def)

lemma samples_wf: "wf_policy wide_policy" "wf_policy delegated_policy"
  by (auto simp: wf_policy_def grant_transition_def scopes.covers_def intro: reaches.intros)

lemma wide_satisfied: "satisfied wide_policy delegated_policy"
  by (simp add: authority_does_not_expand_def expansion_reasons_def Let_def effective_tools_def broadened_resource_scopes_def
      delegated_expansion_reasons_def has_handoff_authority_def transitions_of_def grant_transition_def
      grants_by_transition_def grant_expansion_reasons_def)

lemma sample_without_approval: "es_approval_intent sample_scenario = None"
  by (simp add: sample_scenario_def)

lemma wide_attenuating: "attenuating wide_policy"
  by (simp add: attenuating_def)

subsection \<open>A narrowed grant admits a handoff the baseline refuses\<close>

definition plain_grant :: "string \<Rightarrow> string \<Rightarrow> string set \<Rightarrow> handoff_grant" where
  "plain_grant a b tools = \<lparr>hg_source_agent = a, hg_target_agent = b, hg_allowed_tools = tools,
     hg_allowed_resource_scopes = [], hg_additional_approval = {}, hg_max_tool_calls = 2, hg_max_handoffs = 2\<rparr>"

definition chain_policy :: "string set \<Rightarrow> authority_policy" where
  "chain_policy tools = delegated_policy\<lparr>ap_max_handoffs := 2,
     ap_handoff_grants := [plain_grant ''buyer'' ''clerk'' tools, plain_grant ''root'' ''buyer'' {''pay''}]\<rparr>"

definition clerk_event :: evidence_event where
  "clerk_event = sample_event 1 HANDOFF [(''source_agent'', JStr ''buyer''), (''target_agent'', JStr ''clerk'')]"

lemma clerk_fields [simp]:
  "ev_kind clerk_event = HANDOFF"
  "ev_payload clerk_event = [(''source_agent'', JStr ''buyer''), (''target_agent'', JStr ''clerk'')]"
  by (simp_all add: clerk_event_def sample_event_def)

lemma chain_fields [simp]:
  "ap_allowed_tools (chain_policy X) = {''pay'', ''search''}" "ap_forbidden_tools (chain_policy X) = {}"
  "ap_approval_required_tools (chain_policy X) = {}" "ap_allowed_resource_scopes (chain_policy X) = []"
  "ap_max_turns (chain_policy X) = 8" "ap_max_tool_calls (chain_policy X) = 2" "ap_max_handoffs (chain_policy X) = 2"
  "ap_root_agent (chain_policy X) = Some ''root''"
  "ap_handoff_grants (chain_policy X) = [plain_grant ''buyer'' ''clerk'' X, plain_grant ''root'' ''buyer'' {''pay''}]"
  by (simp_all add: chain_policy_def delegated_policy_def)

lemma plain_grant_fields [simp]:
  "hg_source_agent (plain_grant a b X) = a" "hg_target_agent (plain_grant a b X) = b" "hg_allowed_tools (plain_grant a b X) = X"
  "hg_allowed_resource_scopes (plain_grant a b X) = []" "hg_additional_approval (plain_grant a b X) = {}"
  "hg_max_tool_calls (plain_grant a b X) = 2" "hg_max_handoffs (plain_grant a b X) = 2"
  by (simp_all add: plain_grant_def)

lemma chain_wf: "X \<subseteq> {''pay'', ''search''} \<Longrightarrow> wf_policy (chain_policy X)"
proof -
  assume X: "X \<subseteq> {''pay'', ''search''}"
  let ?gs = "ap_handoff_grants (chain_policy X)"
  have "reaches ?gs ''root'' ''root''" by (rule reaches_root)
  moreover have "reaches ?gs ''root'' ''buyer''"
    using reaches_step [of ?gs "''root''" "plain_grant ''root'' ''buyer'' {''pay''}"] calculation by simp
  ultimately show ?thesis
    using X by (auto simp: wf_policy_def grant_transition_def scopes.covers_def)
qed

lemma chain_satisfied: "satisfied (chain_policy {''pay'', ''search''}) (chain_policy {''pay''})"
  by (simp add: authority_does_not_expand_def expansion_reasons_def Let_def effective_tools_def broadened_resource_scopes_def
      delegated_expansion_reasons_def has_handoff_authority_def transitions_of_def grant_transition_def
      grants_by_transition_def grant_expansion_reasons_def)

lemma strip_clerk [simp]: "py_strip ''clerk'' = ''clerk''"
  by (simp add: py_strip_def py_space_def)

definition chain_evidence :: trial_evidence where
  "chain_evidence = sample_evidence\<lparr>te_events := [handoff_event, clerk_event]\<rparr>"

lemma chain_verdicts:
  "or_verdict (policy_oracle (sample_scenario\<lparr>es_authority := chain_policy {''pay''}\<rparr>) chain_evidence) = PASS"
  "or_verdict (policy_oracle (sample_scenario\<lparr>es_authority := chain_policy {''pay'', ''search''}\<rparr>) chain_evidence) = FAIL"
  by (simp_all add: policy_oracle_def policy_reasons_def policy_run_def policy_step_def handoff_event_step_def Let_def
      initial_policy_state_def path_from_policy_def has_handoff_authority_def charge_handoff_def follow_handoff_def
      event_agent_identity_def advance_handoff_def find_handoff_grant_def attenuate_authority_def from_root_def
      add_reasons_def chain_evidence_def)

subsection \<open>Without scopes a request need not name its resource\<close>

definition scoped_policy :: "resource_scope list \<Rightarrow> authority_policy" where
  "scoped_policy ss = delegated_policy\<lparr>ap_allowed_resource_scopes := ss, ap_root_agent := None, ap_handoff_grants := []\<rparr>"

definition some_scope :: resource_scope where
  "some_scope = \<lparr>rs_schema_version = resource_schema, rs_kind = HIERARCHICAL, rs_domain = ''files'', rs_components = [''a'']\<rparr>"

definition bare_evidence :: trial_evidence where
  "bare_evidence = sample_evidence\<lparr>te_events := [payment_event]\<rparr>"

lemma scoped_satisfied: "satisfied (scoped_policy [some_scope]) (scoped_policy [])"
  by (simp add: authority_does_not_expand_def expansion_reasons_def Let_def effective_tools_def broadened_resource_scopes_def
      delegated_expansion_reasons_def has_handoff_authority_def scoped_policy_def)

lemma scoped_wf: "wf_policy (scoped_policy ss)"
  by (simp add: wf_policy_def scoped_policy_def)

lemma scoped_verdicts:
  "or_verdict (policy_oracle (sample_scenario\<lparr>es_authority := scoped_policy []\<rparr>) bare_evidence) = PASS"
  "or_verdict (policy_oracle (sample_scenario\<lparr>es_authority := scoped_policy [some_scope]\<rparr>) bare_evidence) = FAIL"
  by (simp_all add: policy_oracle_def policy_reasons_def policy_run_def policy_step_def Let_def
      initial_policy_state_def path_from_policy_def has_handoff_authority_def tool_request_step_def tool_request_body_def
      tool_authorized_def policy_authorizes_tool_def approval_required_def allowed_scopes_def resource_reasons_def
      bindable_call_id_def from_root_def scoped_policy_def add_reasons_def bare_evidence_def)

subsection \<open>A further approval requirement admits a request for that approval\<close>

definition gated_policy :: "string set \<Rightarrow> authority_policy" where
  "gated_policy tools = delegated_policy\<lparr>ap_approval_required_tools := tools, ap_root_agent := None, ap_handoff_grants := []\<rparr>"

definition approved_scenario :: evaluation_scenario where
  "approved_scenario = sample_scenario\<lparr>es_approval_intent :=
     Some \<lparr>ai_agent = ''buyer'', ai_tool = ''search'', ai_decision = APPROVE\<rparr>\<rparr>"

definition asking_evidence :: trial_evidence where
  "asking_evidence = sample_evidence\<lparr>te_events :=
     [sample_event 0 APPROVAL_REQUEST [(''agent'', JStr ''buyer''), (''tool'', JStr ''pay'')]]\<rparr>"

lemma gated_satisfied:
  "satisfied (gated_policy {''search''}) (gated_policy {''pay'', ''search''})"
  "satisfied (gated_policy {''pay''}) (gated_policy {''pay'', ''search''})"
  by (simp_all add: authority_does_not_expand_def expansion_reasons_def Let_def effective_tools_def broadened_resource_scopes_def
      delegated_expansion_reasons_def has_handoff_authority_def gated_policy_def delegated_policy_def)

lemma gated_fields [simp]:
  "ap_allowed_resource_scopes (gated_policy X) = []" "ap_handoff_grants (gated_policy X) = []"
  "ap_allowed_tools (gated_policy X) = {''pay'', ''search''}" "ap_approval_required_tools (gated_policy X) = X"
  by (simp_all add: gated_policy_def delegated_policy_def)

lemma asking_conditions:
  "attenuating (gated_policy X)" "resources_named (gated_policy X) es"
  "approvals_asked (gated_policy {''pay''}) (te_events asking_evidence)"
  by (simp_all add: attenuating_def resources_named_def approvals_asked_def asking_evidence_def sample_event_def)

lemma gated_wf: "X \<subseteq> {''pay'', ''search''} \<Longrightarrow> wf_policy (gated_policy X)"
  by (simp add: wf_policy_def gated_policy_def delegated_policy_def)

lemma gated_verdicts:
  "or_verdict (policy_oracle (approved_scenario\<lparr>es_authority := gated_policy {''pay'', ''search''}\<rparr>) asking_evidence) = PASS"
  "or_verdict (policy_oracle (approved_scenario\<lparr>es_authority := gated_policy {''search''}\<rparr>) asking_evidence) = FAIL"
  by (simp_all add: policy_oracle_def policy_reasons_def policy_run_def policy_step_def Let_def
      initial_policy_state_def path_from_policy_def has_handoff_authority_def approval_request_step_def
      tool_authorized_def policy_authorizes_tool_def approval_required_def allowed_scopes_def resource_reasons_def
      event_agent_identity_def from_root_def gated_policy_def delegated_policy_def add_reasons_def asking_evidence_def
      approved_scenario_def sample_event_def)

section \<open>A calibration receipt\<close>

text \<open>
  One labelled case on which the judge failed, under a policy that requires two tags, and two orders in
  which a process may iterate them.
\<close>

definition ascending_tags :: set_order where
  "ascending_tags S = py_sorted S"

definition descending_tags :: set_order where
  "descending_tags S = rev (py_sorted S)"

lemma sample_orders: "iterates ascending_tags" "iterates descending_tags"
  by (simp_all add: iterates_def ascending_tags_def descending_tags_def)

definition tone_rubric :: semantic_rubric where
  "tone_rubric = sample_rubric\<lparr>ru_criteria := [\<lparr>cr_criterion_id = ''polite'', cr_description = ''is polite'', cr_minimum_score = 3\<rparr>]\<rparr>"

definition sample_case :: calibration_case where
  "sample_case = \<lparr>ca_case_id = ''rude-answer'', ca_rev = ''1'', ca_objective = ''answer politely'',
     ca_rubric = tone_rubric, ca_candidate_output = ''no'', ca_expected = SEM_FAIL, ca_tags = {''tone''}\<rparr>"

definition unsealed_commitment :: case_commitment where
  "unsealed_commitment = \<lparr>cm_case_id = ''rude-answer'', cm_revision = ''1'',
     cm_objective_sha256 = sha256_text ''answer politely'', cm_rubric = tone_rubric,
     cm_rubric_identity = rubric_identity tone_rubric, cm_candidate_sha256 = sha256_text ''no'',
     cm_expected = SEM_FAIL, cm_tags = [''tone''], cm_root = []\<rparr>"

definition sample_commitment :: case_commitment where
  "sample_commitment = unsealed_commitment\<lparr>cm_root := commitment_root unsealed_commitment\<rparr>"

lemma commitment_fields [simp]:
  "cm_case_id sample_commitment = ''rude-answer''" "cm_revision sample_commitment = ''1''"
  "cm_objective_sha256 sample_commitment = sha256_text ''answer politely''" "cm_rubric sample_commitment = tone_rubric"
  "cm_rubric_identity sample_commitment = rubric_identity tone_rubric"
  "cm_candidate_sha256 sample_commitment = sha256_text ''no''" "cm_expected sample_commitment = SEM_FAIL"
  "cm_tags sample_commitment = [''tone'']" "cm_root sample_commitment = commitment_root sample_commitment"
  by (simp_all add: sample_commitment_def) (simp_all add: unsealed_commitment_def commitment_root_def commitment_material_def)

lemma commitment_shas [simp]: "is_sha256 (commitment_root c)" "is_sha256 (sha256_text s)" "is_sha256 (rubric_identity r)"
  by (simp_all add: commitment_root_def domain_root_def sha256_text_def rubric_identity_def)

lemma strip_tone [simp]: "py_strip ''tone'' = ''tone''"
  by (simp add: py_strip_def py_space_def)

lemma tone_rubric_valid: "validate_rubric tone_rubric = Inr tone_rubric"
  by (simp add: validate_rubric_def tone_rubric_def sample_rubric_def py_strip_def py_space_def rubric_schema_def raise_if_Inr bounded_text_def validate_criterion_def id_pattern_def id_char_def is_lower_char_def is_digit_char_def)

lemma sample_commitment_valid: "validate_commitment sample_commitment = Inr ()"
  by (simp add: validate_commitment_def field_ok raise_if_Inr blank_tags_def bounded_text_def id_pattern_def id_char_def
      is_lower_char_def is_digit_char_def)

lemma sample_commitment_of: "commitment_of sample_case = Inr sample_commitment"
proof -
  have "commitment_of sample_case = rbind (validate_commitment sample_commitment) (\<lambda>_. Inr sample_commitment)"
    by (simp add: commitment_of_def sample_case_def sample_commitment_def unsealed_commitment_def Let_def)
  then show ?thesis by (simp add: sample_commitment_valid)
qed

definition sample_failure :: calibration_observation where
  "sample_failure = \<lparr>cv_commitment = sample_commitment, cv_response = None, cv_failure_code = Some ''timeout''\<rparr>"

lemma sample_failure_parts [simp]:
  "cv_commitment sample_failure = sample_commitment" "cv_response sample_failure = None"
  "cv_failure_code sample_failure = Some ''timeout''"
  by (simp_all add: sample_failure_def)

lemma sample_failure_valid: "validate_calibration_observation sample_failure = Inr ()"
  by (simp add: validate_calibration_observation_def rbind_Inr field_ok raise_if_Inr as_validation_Inr cv_observed_def
      observed_decision_def id_pattern_def id_char_def is_lower_char_def is_digit_char_def)

lemma sample_failure_observed: "observe_failure sample_case ''timeout'' = Inr sample_failure"
  using sample_failure_valid
  by (simp add: observe_failure_def sample_commitment_of Let_def sample_failure_def)

definition strict_policy :: calibration_policy where
  "strict_policy = \<lparr>cq_min_cases = 2, cq_min_pass_cases = 1, cq_min_fail_cases = 1, cq_min_accuracy = fl_0,
     cq_max_false_passes = 0, cq_max_false_pass_rate = fl_0, cq_max_abstentions = 0, cq_max_judge_failures = 0,
     cq_required_tags = {''injection'', ''tone''}\<rparr>"

definition sample_profile :: judge_profile where
  "sample_profile = co_profile no_calibration ()"

lemma sample_profile_valid: "validate_profile sample_profile = Inr sample_profile"
  by (simp add: validate_profile_def sample_profile_def no_calibration_def bounded_text_def profile_schema_def response_schema_def)

definition unsealed_calibration :: calibration_receipt where
  "unsealed_calibration = \<lparr>kr_judge_profile = sample_profile, kr_policy = strict_policy, kr_observations = [sample_failure],
     kr_metrics = metrics_over strict_policy [sample_failure] [None], kr_root = []\<rparr>"

definition judged_calibration :: "set_order \<Rightarrow> calibration_receipt" where
  "judged_calibration order = unsealed_calibration\<lparr>kr_root := calibration_root order unsealed_calibration\<rparr>"

lemma calibration_parts [simp]:
  "kr_judge_profile (judged_calibration order) = sample_profile" "kr_policy (judged_calibration order) = strict_policy"
  "kr_observations (judged_calibration order) = [sample_failure]"
  "kr_metrics (judged_calibration order) = metrics_over strict_policy [sample_failure] [None]"
  "kr_root (judged_calibration order) = calibration_root order (judged_calibration order)"
  by (simp_all add: judged_calibration_def) (simp_all add: unsealed_calibration_def calibration_root_def calibration_dict_def)

lemma no_ratio: "int_ratio 0 1 = fl_0"
  by (simp add: int_ratio_def fl_0_def fl_of_int_def fl_dyadic_def fl_ratio_def)

lemma sample_rates:
  "cx_total (metrics_over strict_policy [sample_failure] [None]) = 1"
  "cx_pass_cases (metrics_over strict_policy [sample_failure] [None]) = 0"
  "cx_fail_cases (metrics_over strict_policy [sample_failure] [None]) = 1"
  "cx_correct (metrics_over strict_policy [sample_failure] [None]) = 0"
  "cx_false_passes (metrics_over strict_policy [sample_failure] [None]) = 0"
  "cx_false_pass_rate (metrics_over strict_policy [sample_failure] [None]) = fl_0"
  "cx_abstentions (metrics_over strict_policy [sample_failure] [None]) = 0"
  "cx_judge_failures (metrics_over strict_policy [sample_failure] [None]) = 1"
  "cx_accuracy (metrics_over strict_policy [sample_failure] [None]) = fl_0"
  by (simp_all add: metrics_over_def Let_def tally_def labelled_def share_def no_ratio)

lemma sample_calibration_metrics:
  "calibration_metrics_of strict_policy [sample_failure] = Inr (metrics_over strict_policy [sample_failure] [None])"
  by (simp add: calibration_metrics_of_def cv_observed_def observed_decision_def)

lemma zero_rate: "isfinite fl_0" "fl_unit fl_0" "fl_eq fl_0 fl_0"
  by (simp_all add: fl_unit_def fl_le_val fl_compare)

lemma judged_valid: "validate_calibration order (judged_calibration order) = Inr (judged_calibration order)"
  by (simp add: validate_calibration_def rbind_Inr as_validation_Inr sample_calibration_metrics calibration_fields_def
      field_ok raise_if_Inr unit_field_def sample_rates zero_rate same_metrics_def Let_def calibration_root_def)

lemma judged_well: "well_calibrated (judged_calibration order)"
proof -
  have "validate_calibration_policy strict_policy = Inr ()"
    by (simp add: validate_calibration_policy_def strict_policy_def field_ok raise_if_Inr unit_field_def zero_rate py_strip_def py_space_def)
  moreover have "well_observed sample_failure"
    using sample_failure_valid sample_commitment_valid by (simp add: well_observed_def tone_rubric_valid)
  ultimately show ?thesis using sample_profile_valid by (simp add: well_calibrated_def strict_policy_def)
qed

text \<open>The two orders differ on the required tags.\<close>

lemma orders_differ: "ascending_tags (cq_required_tags strict_policy) \<noteq> descending_tags (cq_required_tags strict_policy)"
  by (simp add: ascending_tags_def descending_tags_def strict_policy_def)

section \<open>An endpoint and a session\<close>

text \<open>A hosted endpoint whose URL splits as expected, and a token that is issued, revoked and denied.\<close>

definition sample_split :: url_split where
  "sample_split s = Inr \<lparr>up_scheme = ''https'', up_hostname = Some ''mcp'', up_username = None, up_password = None,
     up_fragment = []\<rparr>"

definition sample_endpoint :: hosted_endpoint where
  "sample_endpoint = \<lparr>he_endpoint_id = ''hosted'', he_url = ''https://mcp'', he_expected_server_identity = ''server'',
     he_protocol_version = ''2026-07-28'', he_proxy_url = None, he_gateway_identity = None, he_timeout_ms = 1000,
     he_max_latency_ms = 500, he_max_response_bytes = 4096, he_max_stream_frames = 10\<rparr>"

lemma sample_endpoint_valid: "validate_endpoint sample_split sample_endpoint = Inr ()"
  by (simp add: validate_endpoint_def checks_Inr endpoint_fields_def field_ok raise_if_Inr sample_endpoint_def
      require_https_def validate_proxy_def sample_split_def as_validation_def no_host_def bounded_text_def id_pattern_def
      id_char_def is_lower_char_def is_digit_char_def max_response_size_def)

definition named_answer :: "nat \<Rightarrow> probe_event" where
  "named_answer n = Responded \<lparr>hp_status = 200, hp_raw = ''{}'', hp_body = Decoded (JObj
     [(''id'', JInt 1), (''result'', JObj [(''serverInfo'', JObj [(''name'', JStr (replicate n (CHR ''x'')))])])])\<rparr>"

lemma sample_escapes:
  "escapes_probe sample_endpoint (named_answer n) 5 \<longleftrightarrow> 256 < n"
  "escapes_probe sample_endpoint (HttpFailed code retry) 5 \<longleftrightarrow> code < 100 \<or> 599 < code"
  by (auto simp: named_answer_def escapes_probe_def body_escapes_def reportable_status_def sample_endpoint_def
      stream_frame_count_def answered_name_def initialize_answer_def opt_json_def)

definition token_event :: "string \<Rightarrow> session_event_kind \<Rightarrow> oauth_event" where
  "token_event i k = \<lparr>oe_event_id = i, oe_kind = k, oe_epoch = 0, oe_issuer = ''issuer'', oe_subject = ''subject'',
     oe_audience = ''audience'', oe_token = sha256_hex ''token'', oe_jti = sha256_hex ''jti'', oe_signing_kid = ''key'',
     oe_scopes = {}, oe_binding = BEARER, oe_sender_key = None, oe_binding_verified = False,
     oe_signature_verified = True, oe_accepted = False, oe_parent = None\<rparr>"

definition token_session :: "oauth_event list" where
  "token_session = [token_event ''issue'' INITIAL, token_event ''revoke'' REVOKE, token_event ''request'' REQUEST]"

lemma token_event_valid:
  "k \<noteq> REFRESH \<Longrightarrow> id_pattern ''._-'' 2 127 i \<Longrightarrow> validate_oauth_event (token_event i k) = Inr ()"
  by (simp add: validate_oauth_event_def token_event_def field_ok raise_if_Inr untrimmed_def binding_guards_def bounded_text_def)

lemma token_session_checked: "check_events token_session = Inr ()"
proof -
  have "rfor validate_oauth_event token_session = Inr ()"
    by (simp add: token_session_def rfor_Inr token_event_valid id_pattern_def id_char_def is_lower_char_def is_digit_char_def)
  then show ?thesis
    by (simp add: check_events_def checks_Inr raise_if_Inr token_session_def) (simp add: token_event_def no_tokens_def)
qed

end
