(* ===== verification/Population.thy ===== *)
theory Population
  imports SessionProofs Recomputed
begin

section \<open>Populations and population-bound sessions\<close>

text \<open>
  \<open>runtime/population.py\<close>, \<open>runtime/sampling_v2.py\<close> and \<open>runtime/population_session.py\<close>: what population
  a sample is meant to stand for, the envelope that binds the claim to a session's sampling
  metadata, and the session that requires the claim before its first attempt.
\<close>

subsection \<open>Frames and provenance\<close>

definition pperr :: "string \<Rightarrow> error" where
  "pperr msg = Err PopulationProvenanceError msg"

datatype population_status = IDENTIFIED | EXTERNALLY_DECLARED | UNKNOWN_POPULATION

fun population_value :: "population_status \<Rightarrow> string" where
  "population_value IDENTIFIED = ''identified''"
| "population_value EXTERNALLY_DECLARED = ''externally_declared''"
| "population_value UNKNOWN_POPULATION = ''unknown''"

record population_frame =
  pf_namespace :: string
  pf_population_id :: string
  pf_revision :: string
  pf_definition_identity :: string
  pf_frame_identity :: string

record population_provenance =
  pv_status :: population_status
  pv_frame :: "population_frame option"
  pv_basis :: "string option"

definition frame_schema :: string where
  "frame_schema = ''agent-evals/population-frame/v1''"

definition population_schema :: string where
  "population_schema = ''agent-evals/population-provenance/v1''"

definition frame_domain :: string where
  "frame_domain = ''agent-evals/population-frame/v1'' @ [CHR 0x00]"

definition frame_material :: "population_frame \<Rightarrow> json" where
  "frame_material f = JObj
     [(''schema_version'', JStr frame_schema), (''namespace'', JStr (pf_namespace f)),
      (''population_id'', JStr (pf_population_id f)), (''revision'', JStr (pf_revision f)),
      (''definition_identity'', JStr (pf_definition_identity f))]"

definition frame_identity :: "population_frame \<Rightarrow> string" where
  "frame_identity f = sha256_hex (frame_domain @ json_dumps (frame_material f))"

definition canonical_id :: "string \<Rightarrow> bool" where
  "canonical_id s \<longleftrightarrow> id_pattern ''._-'' 0 127 s"

definition canonical_id_guard :: "string \<Rightarrow> (bool \<times> error) list" where
  "canonical_id_guard v = [(\<not> canonical_id v,
     verr (''population frame identifiers must be lowercase ASCII letters/digits plus '.', ''
       @ '''_' or '-', starting with a letter or digit''))]"

definition frame_field :: "string \<Rightarrow> string \<Rightarrow> (bool \<times> error) list" where
  "frame_field name v = text_field name 128 v @ canonical_id_guard v"

definition validate_frame :: "population_frame \<Rightarrow> error + unit" where
  "validate_frame f = raise_if
     (frame_field ''namespace'' (pf_namespace f) @ frame_field ''population_id'' (pf_population_id f)
      @ frame_field ''revision'' (pf_revision f) @ sha_field ''definition_identity'' (pf_definition_identity f)
      @ sha_field ''frame_identity'' (pf_frame_identity f)
      @ [(pf_frame_identity f \<noteq> frame_identity f, verr ''population frame identity does not match canonical frame material'')])"

definition create_frame :: "string \<Rightarrow> string \<Rightarrow> string \<Rightarrow> string \<Rightarrow> error + population_frame" where
  "create_frame ns pid revision definition_identity =
     (if \<not> is_sha256 definition_identity
      then Inl (pperr ''population definition identity must be a lowercase SHA-256 hex digest'')
      else let unsigned = \<lparr>pf_namespace = ns, pf_population_id = pid, pf_revision = revision,
                           pf_definition_identity = definition_identity, pf_frame_identity = []\<rparr>;
               f = unsigned\<lparr>pf_frame_identity := frame_identity unsigned\<rparr>
           in rbind (rcatch (\<lambda>e. err_class e = ValidationError) (pperr ''population frame material is not canonical'')
                (validate_frame f)) (\<lambda>_. Inr f))"

definition basis_fields :: "string option \<Rightarrow> (bool \<times> error) list" where
  "basis_fields v = optional_text ''basis'' 2000 ''population provenance basis must be non-empty and trimmed'' v"

definition provenance_shape :: "population_provenance \<Rightarrow> (bool \<times> error) list" where
  "provenance_shape p = (case pv_status p of
       IDENTIFIED \<Rightarrow>
         [(pv_frame p = None, verr ''identified population provenance requires a canonical frame''),
          (pv_basis p \<noteq> None, verr ''identified population provenance must not carry declaration basis'')]
     | EXTERNALLY_DECLARED \<Rightarrow>
         [(pv_frame p \<noteq> None, verr ''externally declared population must not claim an identified frame''),
          (pv_basis p = None, verr ''externally declared population requires a bounded basis'')]
     | UNKNOWN_POPULATION \<Rightarrow>
         [(pv_frame p \<noteq> None \<or> pv_basis p \<noteq> None, verr ''unknown population provenance must not carry a population claim'')])"

definition validate_provenance :: "population_provenance \<Rightarrow> error + unit" where
  "validate_provenance p = checks
     [case pv_frame p of None \<Rightarrow> Inr () | Some f \<Rightarrow> validate_frame f,
      raise_if (basis_fields (pv_basis p) @ provenance_shape p)]"

text \<open>The three constructors; the first takes a frame as it is.\<close>

definition identified :: "population_frame \<Rightarrow> population_provenance" where
  "identified f = \<lparr>pv_status = IDENTIFIED, pv_frame = Some f, pv_basis = None\<rparr>"

definition externally_declared :: "string \<Rightarrow> error + population_provenance" where
  "externally_declared basis =
     (let p = \<lparr>pv_status = EXTERNALLY_DECLARED, pv_frame = None, pv_basis = Some basis\<rparr>
      in rbind (rcatch (\<lambda>e. err_class e = ValidationError) (pperr ''external population declaration is malformed'')
           (validate_provenance p)) (\<lambda>_. Inr p))"

definition unknown_population :: population_provenance where
  "unknown_population = \<lparr>pv_status = UNKNOWN_POPULATION, pv_frame = None, pv_basis = None\<rparr>"

definition population_identity :: "population_provenance \<Rightarrow> string option" where
  "population_identity p = map_option pf_frame_identity (pv_frame p)"

definition validate_population :: "population_provenance \<Rightarrow> error + population_provenance" where
  "validate_population p =
     rbind (rcatch (\<lambda>e. err_class e = ValidationError) (pperr ''population provenance is malformed'')
       (validate_provenance p)) (\<lambda>_. Inr p)"

subsection \<open>The envelope\<close>

fun sampling_policy_value :: "sampling_policy \<Rightarrow> string" where
  "sampling_policy_value PREDECLARED_ALL_ATTEMPTS = ''predeclared_all_attempts''"
| "sampling_policy_value EXTERNAL_SELECTION = ''external_selection''"
| "sampling_policy_value UNKNOWN_SAMPLING = ''unknown''"

fun stopping_value :: "stopping_rule \<Rightarrow> string" where
  "stopping_value FIXED_HORIZON = ''fixed_horizon''"
| "stopping_value ADAPTIVE_SEQUENTIAL = ''adaptive_sequential''"
| "stopping_value UNKNOWN_STOPPING = ''unknown''"

definition randomness_json :: "randomness_receipt \<Rightarrow> json" where
  "randomness_json r = JObj (randomness_dict r @ [(''receipt_root'', JStr (nr_receipt_root r))])"

definition sampling_json :: "session_sampling \<Rightarrow> json" where
  "sampling_json m = JObj
     [(''schema_version'', JStr sampling_schema),
      (''sampling_policy'', JStr (sampling_policy_value (sm_sampling_policy m))),
      (''randomness_status'', JStr (randomness_value (sm_randomness_status m))),
      (''stopping_rule'', JStr (stopping_value (sm_stopping_rule m))),
      (''planned_trials'', opt_int (sm_planned_trials m)), (''sampling_basis'', opt_str (sm_sampling_basis m)),
      (''randomness_basis'', opt_str (sm_randomness_basis m)), (''stopping_basis'', opt_str (sm_stopping_basis m)),
      (''randomness_strategy_name'', opt_str (sm_strategy_name m)),
      (''randomness_strategy_version'', opt_str (sm_strategy_version m)),
      (''randomness_control_receipts'', JArr (map randomness_json (sm_receipts m)))]"

definition frame_json :: "population_frame \<Rightarrow> json" where
  "frame_json f = JObj
     [(''schema_version'', JStr frame_schema), (''namespace'', JStr (pf_namespace f)),
      (''population_id'', JStr (pf_population_id f)), (''revision'', JStr (pf_revision f)),
      (''definition_identity'', JStr (pf_definition_identity f)), (''frame_identity'', JStr (pf_frame_identity f))]"

definition population_json :: "population_provenance \<Rightarrow> json" where
  "population_json p = JObj
     [(''schema_version'', JStr population_schema), (''status'', JStr (population_value (pv_status p))),
      (''frame'', opt_json (map_option frame_json (pv_frame p))), (''basis'', opt_str (pv_basis p))]"

record sampling_v2 =
  sv_campaign_id :: string
  sv_subject_identity :: string
  sv_scenario_identity :: string
  sv_attempts :: session_sampling
  sv_population :: population_provenance
  sv_metadata_root :: string

definition sampling_v2_schema :: string where
  "sampling_v2_schema = ''agent-evals/session-sampling/v2''"

definition sampling_v2_domain :: string where
  "sampling_v2_domain = ''agent-evals/session-sampling/v2'' @ [CHR 0x00]"

definition sampling_v2_material :: "sampling_v2 \<Rightarrow> json" where
  "sampling_v2_material m = JObj
     [(''schema_version'', JStr sampling_v2_schema), (''campaign_id'', JStr (sv_campaign_id m)),
      (''subject_identity'', JStr (sv_subject_identity m)), (''scenario_identity'', JStr (sv_scenario_identity m)),
      (''attempt_provenance'', sampling_json (sv_attempts m)),
      (''population_provenance'', population_json (sv_population m))]"

definition sampling_v2_root :: "sampling_v2 \<Rightarrow> string" where
  "sampling_v2_root m = sha256_hex (sampling_v2_domain @ json_dumps (sampling_v2_material m))"

definition sampling_v2_guards :: "sampling_v2 \<Rightarrow> (bool \<times> error) list" where
  "sampling_v2_guards m =
     text_field ''campaign_id'' 128 (sv_campaign_id m) @ sha_field ''subject_identity'' (sv_subject_identity m)
     @ sha_field ''scenario_identity'' (sv_scenario_identity m) @ sha_field ''metadata_root'' (sv_metadata_root m)
     @ [(\<not> campaign_name (sv_campaign_id m), verr ''session-sampling v2 campaign_id is not canonical''),
        (sampling_v2_root m \<noteq> sv_metadata_root m, verr ''session-sampling v2 root does not match canonical metadata'')]"

definition validate_sampling_v2 :: "sampling_v2 \<Rightarrow> error + sampling_v2" where
  "validate_sampling_v2 m =
     rbind (validate_sampling (sv_attempts m)) (\<lambda>_.
     rbind (validate_provenance (sv_population m)) (\<lambda>_.
     rbind (raise_if (sampling_v2_guards m)) (\<lambda>_. Inr m)))"

definition seal_v2 :: "string \<Rightarrow> string \<Rightarrow> string \<Rightarrow> session_sampling \<Rightarrow> population_provenance \<Rightarrow> sampling_v2" where
  "seal_v2 cid subject scenario m p =
     (let unsigned = \<lparr>sv_campaign_id = cid, sv_subject_identity = subject, sv_scenario_identity = scenario,
                      sv_attempts = m, sv_population = p, sv_metadata_root = []\<rparr>
      in unsigned\<lparr>sv_metadata_root := sampling_v2_root unsigned\<rparr>)"

definition v2_from_session ::
  "(pyfloat \<Rightarrow> int \<Rightarrow> pyfloat) \<Rightarrow> 'c session_result \<Rightarrow> population_provenance \<Rightarrow> error + sampling_v2" where
  "v2_from_session pow s p =
     rbind (validate_session pow s) (\<lambda>_.
     case sn_campaign_id s of
       None \<Rightarrow> Inl (pperr ''session-sampling v2 requires a campaign identity'')
     | Some cid \<Rightarrow> (case sn_sampling s of
         None \<Rightarrow> Inl (pperr ''session-sampling v2 requires historical v1 attempt provenance'')
       | Some m \<Rightarrow>
          rbind (validate_population p) (\<lambda>population.
          rbind (validate_sampling m) (\<lambda>attempts.
          validate_sampling_v2 (seal_v2 cid (sn_subject_identity s) (sn_scenario_identity s) attempts population)))))"

definition v2_against_session ::
  "(pyfloat \<Rightarrow> int \<Rightarrow> pyfloat) \<Rightarrow> sampling_v2 \<Rightarrow> 'c session_result \<Rightarrow> error + unit" where
  "v2_against_session pow m s =
     rbind (validate_session pow s) (\<lambda>_.
     case (sn_campaign_id s, sn_sampling s) of
       (Some cid, Some v1) \<Rightarrow>
         rbind (raise_if
           [(sv_campaign_id m \<noteq> cid, pperr ''session-sampling v2 campaign does not match finalized session''),
            (sv_subject_identity m \<noteq> sn_subject_identity s,
             pperr ''session-sampling v2 subject does not match finalized session''),
            (sv_scenario_identity m \<noteq> sn_scenario_identity s,
             pperr ''session-sampling v2 scenario does not match finalized session'')]) (\<lambda>_.
         rbind (validate_sampling v1) (\<lambda>expected.
         rbind (raise_if [(sv_attempts m \<noteq> expected,
            pperr ''session-sampling v2 attempt provenance does not match finalized session'')]) (\<lambda>_.
         rbind (rcatch (\<lambda>e. err_class e = PopulationProvenanceError)
            (pperr ''session-sampling v2 population provenance is invalid'') (validate_population (sv_population m))) (\<lambda>_.
         Inr ()))))
     | _ \<Rightarrow> Inl (pperr ''session-sampling v2 cannot bind a legacy session without campaign/sampling data''))"

subsection \<open>The population-bound session\<close>

record 'c population_result =
  pb_session :: "'c session_result"
  pb_sampling :: sampling_v2

record population_metrics =
  pq_attempts :: qualified_metrics
  pq_schema_version :: string
  pq_status :: string
  pq_identity :: "string option"
  pq_basis :: "string option"

definition validate_bound :: "(pyfloat \<Rightarrow> int \<Rightarrow> pyfloat) \<Rightarrow> 'c population_result \<Rightarrow> error + unit" where
  "validate_bound pow r =
     rbind (validate_session pow (pb_session r)) (\<lambda>_. v2_against_session pow (pb_sampling r) (pb_session r))"

definition population_metrics_of :: "(pyfloat \<Rightarrow> int \<Rightarrow> pyfloat) \<Rightarrow> 'c population_result \<Rightarrow> error + population_metrics" where
  "population_metrics_of pow r =
     rbind (validate_bound pow r) (\<lambda>_.
     rbind (independence_qualified_metrics pow (pb_session r)) (\<lambda>attempts.
     let p = sv_population (pb_sampling r) in
     Inr \<lparr>pq_attempts = attempts, pq_schema_version = population_schema, pq_status = population_value (pv_status p), pq_identity = population_identity p,
          pq_basis = pv_basis p\<rparr>))"

definition run_population_session ::
  "(pyfloat \<Rightarrow> int \<Rightarrow> pyfloat) \<Rightarrow>
   (nat \<Rightarrow> subject_fingerprint \<Rightarrow> evaluation_scenario \<Rightarrow> string \<Rightarrow> error + 'c evaluated_trial) \<Rightarrow>
   subject_fingerprint \<Rightarrow> evaluation_scenario \<Rightarrow> session_request \<Rightarrow> population_provenance \<Rightarrow> error + 'c population_result" where
  "run_population_session pow run subject scenario q p =
     rbind (validate_population p) (\<lambda>population.
     rbind (run_session pow run subject scenario q) (\<lambda>s.
     rbind (v2_from_session pow s population) (\<lambda>m.
     let r = \<lparr>pb_session = s, pb_sampling = m\<rparr> in
     rbind (validate_bound pow r) (\<lambda>_. Inr r))))"

subsection \<open>A population-bound session is a session and its claim\<close>

lemma validate_population_Inr: "validate_population p = Inr s \<longleftrightarrow> s = p \<and> validate_provenance p = Inr ()"
  by (cases "validate_provenance p") (auto simp: validate_population_def rcatch_def)

lemma validate_sampling_Inr: "validate_sampling m = Inr s \<Longrightarrow> s = m"
  by (auto simp: validate_sampling_def rbind_Inr)

lemma validate_sampling_v2_Inr:
  "validate_sampling_v2 m = Inr s \<longleftrightarrow> s = m \<and> validate_sampling (sv_attempts m) = Inr (sv_attempts m) \<and>
     validate_provenance (sv_population m) = Inr () \<and> campaign_name (sv_campaign_id m) \<and>
     is_sha256 (sv_subject_identity m) \<and> is_sha256 (sv_scenario_identity m) \<and> sv_metadata_root m = sampling_v2_root m"
proof -
  have "campaign_name c \<Longrightarrow> bounded_text 1 128 c" for c
    by (cases c) (auto simp: campaign_name_def bounded_text_def)
  then show ?thesis
    by (auto simp: validate_sampling_v2_def sampling_v2_guards_def rbind_Inr field_ok raise_if_Inr sampling_v2_root_def
        dest: validate_sampling_Inr)
qed

lemma seal_v2_fields [simp]:
  "sv_campaign_id (seal_v2 c i j m p) = c" "sv_subject_identity (seal_v2 c i j m p) = i"
  "sv_scenario_identity (seal_v2 c i j m p) = j" "sv_attempts (seal_v2 c i j m p) = m"
  "sv_population (seal_v2 c i j m p) = p" "sv_metadata_root (seal_v2 c i j m p) = sampling_v2_root (seal_v2 c i j m p)"
  by (simp_all add: seal_v2_def Let_def sampling_v2_root_def sampling_v2_material_def)

text \<open>What a session that ran has.\<close>

definition bindable_session :: "(pyfloat \<Rightarrow> int \<Rightarrow> pyfloat) \<Rightarrow> 'c session_result \<Rightarrow> string \<Rightarrow> session_sampling \<Rightarrow> bool" where
  "bindable_session pow s cid m \<longleftrightarrow> validate_session pow s = Inr () \<and> sn_campaign_id s = Some cid \<and> sn_sampling s = Some m \<and>
     validate_sampling m = Inr m \<and> is_sha256 (sn_subject_identity s) \<and> is_sha256 (sn_scenario_identity s)"

lemma run_session_bindable:
  assumes "run_session pow run subject scenario q = Inr s"
  shows "\<exists>cid m. bindable_session pow s cid m"
proof -
  from assms obtain cid sf sc p st where p: "plan_session q cid sf sc = Inr p" and f: "finish_session pow q p st = Inr s"
    by (auto simp: run_session_def rbind_Inr)
  from finish_session_Inr [OF f] obtain rel m where "validate_sampling m = Inr m" "s = session_of q p st rel m"
    "validate_session pow s = Inr ()" by blast
  moreover have "is_sha256 (subject_identity sf)" "is_sha256 (scenario_identity sc)"
    by (simp_all add: subject_identity_def scenario_identity_def)
  ultimately show ?thesis using plan_session_Inr [OF p] by (auto simp: bindable_session_def)
qed

definition bind_population :: "'c session_result \<Rightarrow> population_provenance \<Rightarrow> 'c population_result" where
  "bind_population s p = \<lparr>pb_session = s, pb_sampling =
     seal_v2 (the (sn_campaign_id s)) (sn_subject_identity s) (sn_scenario_identity s) (the (sn_sampling s)) p\<rparr>"

lemma validated_campaign: "validate_session pow s = Inr () \<Longrightarrow> sn_campaign_id s = Some cid \<Longrightarrow> campaign_name cid"
  by (auto simp: validate_session_def rbind_Inr validate_campaign_id_def raise_if_Inr split: if_splits)

lemma v2_of_session:
  assumes "bindable_session pow s cid m" "validate_provenance p = Inr ()"
  shows "v2_from_session pow s p = Inr (pb_sampling (bind_population s p))" "validate_bound pow (bind_population s p) = Inr ()"
  using assms validated_campaign [of pow s cid] validate_population_Inr [of p p]
  by (simp_all add: bindable_session_def v2_from_session_def bind_population_def validate_sampling_v2_Inr validate_bound_def
      v2_against_session_def rcatch_def)

lemma run_population_Inr:
  "run_population_session pow run subject scenario q p = Inr r \<longleftrightarrow>
     validate_population p = Inr p \<and> (\<exists>s. run_session pow run subject scenario q = Inr s \<and> r = bind_population s p)"
proof -
  have "rbind (v2_from_session pow s p) (\<lambda>m. let r = \<lparr>pb_session = s, pb_sampling = m\<rparr> in
      rbind (validate_bound pow r) (\<lambda>_. Inr r)) = Inr (bind_population s p)"
    if run: "run_session pow run subject scenario q = Inr s" and valid: "validate_provenance p = Inr ()" for s
  proof -
    obtain cid m where b: "bindable_session pow s cid m" using run_session_bindable [OF run] by blast
    have "\<lparr>pb_session = s, pb_sampling = pb_sampling (bind_population s p)\<rparr> = bind_population s p"
      by (simp add: bind_population_def)
    with v2_of_session [OF b valid] show ?thesis by simp
  qed
  then show ?thesis
    by (auto simp: run_population_session_def rbind_Inr validate_population_Inr)
qed

subsection \<open>Identities and roots bind their content\<close>

lemma value_inj:
  shows "population_value a = population_value b \<longleftrightarrow> a = b"
    and "sampling_policy_value c = sampling_policy_value d \<longleftrightarrow> c = d"
    and "stopping_value e = stopping_value f \<longleftrightarrow> e = f" and "randomness_value g = randomness_value h \<longleftrightarrow> g = h"
proof -
  show "population_value a = population_value b \<longleftrightarrow> a = b" by (cases a; cases b) simp_all
  show "sampling_policy_value c = sampling_policy_value d \<longleftrightarrow> c = d" by (cases c; cases d) simp_all
  show "stopping_value e = stopping_value f \<longleftrightarrow> e = f" by (cases e; cases f) simp_all
  show "randomness_value g = randomness_value h \<longleftrightarrow> g = h" by (cases g; cases h) simp_all
qed

lemma opt_keys:
  "sort_keys (opt_str v) = opt_str v" "sort_keys (opt_int n) = opt_int n"
  "opt_str v = opt_str w \<longleftrightarrow> v = w" "opt_int n = opt_int k \<longleftrightarrow> n = k"
  by (cases v; cases w; cases n; cases k; simp add: opt_str_def opt_int_def opt_json_def)+

lemma frame_keys_inj: "sort_keys (frame_json f) = sort_keys (frame_json g) \<Longrightarrow> f = g"
  by (cases f; cases g) (simp add: frame_json_def)

lemma optional_frame_inj:
  "sort_keys (opt_json (map_option frame_json v)) = sort_keys (opt_json (map_option frame_json w)) \<Longrightarrow> v = w"
  using frame_keys_inj by (cases v; cases w) (auto simp: opt_json_def frame_json_def)

lemma population_keys_inj: "sort_keys (population_json p) = sort_keys (population_json q) \<Longrightarrow> p = q"
  using optional_frame_inj [of "pv_frame p" "pv_frame q"]
  by (cases p; cases q) (simp add: population_json_def opt_keys value_inj)

lemma randomness_keys_inj: "sort_keys (randomness_json r) = sort_keys (randomness_json s) \<Longrightarrow> r = s"
  by (cases r; cases s; cases "nr_context r"; cases "nr_context s") (simp add: randomness_json_def randomness_dict_def Let_def)

lemma sampling_keys_inj: "sort_keys (sampling_json m) = sort_keys (sampling_json n) \<Longrightarrow> m = n"
proof -
  assume "sort_keys (sampling_json m) = sort_keys (sampling_json n)"
  then have e: "sampling_policy_value (sm_sampling_policy m) = sampling_policy_value (sm_sampling_policy n)"
    "randomness_value (sm_randomness_status m) = randomness_value (sm_randomness_status n)"
    "stopping_value (sm_stopping_rule m) = stopping_value (sm_stopping_rule n)" "sm_planned_trials m = sm_planned_trials n"
    "sm_sampling_basis m = sm_sampling_basis n" "sm_randomness_basis m = sm_randomness_basis n"
    "sm_stopping_basis m = sm_stopping_basis n" "sm_strategy_name m = sm_strategy_name n"
    "sm_strategy_version m = sm_strategy_version n"
    and r: "map (sort_keys \<circ> randomness_json) (sm_receipts m) = map (sort_keys \<circ> randomness_json) (sm_receipts n)"
    by (simp_all add: sampling_json_def opt_keys comp_def)
  have "sm_receipts m = sm_receipts n"
    using r by (rule map_injective) (auto simp: inj_def dest: randomness_keys_inj)
  with e show "m = n" by (cases m; cases n) (simp add: value_inj)
qed

interpretation frame_digest: canonical_digest frame_material frame_domain "\<lambda>f. pf_frame_identity f = frame_identity f"
proof unfold_locales
  show "plain_json (frame_material f)" for f by (simp add: frame_material_def)
  show "f = g" if "pf_frame_identity f = frame_identity f" "pf_frame_identity g = frame_identity g"
    "sort_keys (frame_material f) = sort_keys (frame_material g)" for f g
  proof -
    have "pf_namespace f = pf_namespace g \<and> pf_population_id f = pf_population_id g \<and> pf_revision f = pf_revision g \<and>
        pf_definition_identity f = pf_definition_identity g"
      using that(3) by (simp add: frame_material_def)
    moreover from this have "frame_identity f = frame_identity g" by (simp add: frame_identity_def frame_material_def)
    ultimately show ?thesis using that(1,2) by (cases f; cases g) simp
  qed
qed

lemma nat_str_length: "n < 10 ^ k \<Longrightarrow> 0 < k \<Longrightarrow> length (nat_str n) \<le> k"
proof (induction k arbitrary: n)
  case (Suc k)
  show ?case
  proof (cases "n < 10")
    case True
    then show ?thesis by (subst nat_str.simps) simp
  next
    case False
    then have "n div 10 < 10 ^ k" "0 < k" using Suc.prems by (auto intro: Nat.gr0I)
    then show ?thesis using Suc.IH [of "n div 10"] False by (subst nat_str.simps) simp
  qed
qed simp

lemma plain_bounded: "0 \<le> i \<Longrightarrow> i \<le> 1000000 \<Longrightarrow> plain_json (JInt i)"
  using nat_str_length [of "nat \<bar>i\<bar>" 7] by (simp add: nat_less_iff)

lemma plain_randomness:
  assumes "validate_randomness_receipt r = Inr s"
  shows "plain_json (randomness_json r)"
proof -
  have "0 \<le> nx_attempt_index (nr_context r)" "nx_attempt_index (nr_context r) \<le> 1000000"
    using assms by (auto simp: validate_randomness_receipt_def rbind_Inr randomness_fields_def Let_def field_ok raise_if_Inr)
  from plain_bounded [OF this] show ?thesis by (simp add: randomness_json_def randomness_dict_def Let_def)
qed

lemma plain_optional: "plain_json (opt_str v)"
  by (cases v) (simp_all add: opt_str_def opt_json_def)

lemma plain_sampling_v2:
  assumes "validate_sampling m = Inr m"
  shows "plain_json (sampling_json m)"
proof -
  from assms have f: "raise_if (sampling_fields m) = Inr ()" and r: "\<exists>ys. rmap validate_randomness_receipt (sm_receipts m) = Inr ys"
    by (auto simp: validate_sampling_def rbind_Inr)
  have "plain_json (opt_int (sm_planned_trials m))"
  proof (cases "sm_planned_trials m")
    case (Some n)
    then have "0 \<le> n" "n \<le> 1000000" using f by (simp_all add: sampling_fields_def field_ok)
    from plain_bounded [OF this] Some show ?thesis by (simp add: opt_int_def opt_json_def)
  qed (simp add: opt_int_def opt_json_def)
  moreover have "list_all (plain_json \<circ> randomness_json) (sm_receipts m)"
    using r by (auto simp: rmap_Inr list_all2_conv_all_nth list_all_length intro: plain_randomness)
  ultimately show ?thesis by (simp add: sampling_json_def plain_optional list_all_iff)
qed

interpretation sampling_v2_digest: canonical_digest sampling_v2_material sampling_v2_domain
  "\<lambda>m. validate_sampling_v2 m = Inr m"
proof unfold_locales
  show "plain_json (sampling_v2_material m)" if "validate_sampling_v2 m = Inr m" for m
    using that plain_sampling_v2 [of "sv_attempts m"]
    by (cases "pv_frame (sv_population m)")
      (simp_all add: validate_sampling_v2_Inr sampling_v2_material_def population_json_def plain_optional opt_json_def frame_json_def)
  show "m = n" if "validate_sampling_v2 m = Inr m" "validate_sampling_v2 n = Inr n"
    "sort_keys (sampling_v2_material m) = sort_keys (sampling_v2_material n)" for m n
  proof -
    have e: "sv_campaign_id m = sv_campaign_id n \<and> sv_subject_identity m = sv_subject_identity n \<and>
        sv_scenario_identity m = sv_scenario_identity n \<and> sort_keys (sampling_json (sv_attempts m)) = sort_keys (sampling_json (sv_attempts n)) \<and>
        sort_keys (population_json (sv_population m)) = sort_keys (population_json (sv_population n))"
      using that(3) by (simp add: sampling_v2_material_def)
    then have a: "sv_attempts m = sv_attempts n" "sv_population m = sv_population n"
      using sampling_keys_inj population_keys_inj by blast+
    moreover have "sampling_v2_root m = sampling_v2_root n" using e a by (simp add: sampling_v2_root_def sampling_v2_material_def)
    ultimately show ?thesis using e that(1,2) by (cases m; cases n) (simp add: validate_sampling_v2_Inr)
  qed
qed

lemma sampling_v2_root_binds:
  assumes "validate_sampling_v2 m = Inr m" "validate_sampling_v2 n = Inr n" "sv_metadata_root m = sv_metadata_root n"
  shows "m = n \<or> sha256_collision (sampling_v2_domain @ json_dumps (sampling_v2_material m))
    (sampling_v2_domain @ json_dumps (sampling_v2_material n))"
  using sampling_v2_digest.binding [OF assms(1,2)] assms by (simp add: validate_sampling_v2_Inr sampling_v2_root_def)

end
