(* ===== verification/Stratified.thy ===== *)
theory Stratified
  imports Calibration Multiplicity
begin

section \<open>Stratified calibration (\<open>semantic/stratified_calibration.py\<close>)\<close>

text \<open>
  A judge is calibrated on a validation and on a holdout stratum apart, each under its own policy,
  with minimal support of failing cases for each risk and an upper bound on the rate of false
  passes. The holdout receipt is what a judgment may embed.
\<close>

datatype calibration_split = DEVELOPMENT | VALIDATION | HOLDOUT

fun split_value :: "calibration_split \<Rightarrow> string" where
  "split_value DEVELOPMENT = ''development''"
| "split_value VALIDATION = ''validation''"
| "split_value HOLDOUT = ''holdout''"

fun split_rank :: "calibration_split \<Rightarrow> nat" where
  "split_rank DEVELOPMENT = 0"
| "split_rank VALIDATION = 1"
| "split_rank HOLDOUT = 2"

record risk_requirement =
  rq_tag :: string
  rq_min_validation :: int
  rq_min_holdout :: int

record stratified_policy =
  tp_validation :: calibration_policy
  tp_holdout :: calibration_policy
  tp_min_development :: int
  tp_confidence_z :: pyfloat
  tp_max_validation_upper :: pyfloat
  tp_max_holdout_upper :: pyfloat
  tp_requirements :: "risk_requirement list"

record stratified_observation =
  so_split :: calibration_split
  so_observation :: calibration_observation

record risk_support =
  rs_tag :: string
  rs_fail_cases :: int

record stratified_receipt =
  tr_profile :: judge_profile
  tr_policy :: stratified_policy
  tr_observations :: "stratified_observation list"
  tr_validation :: calibration_receipt
  tr_holdout :: calibration_receipt
  tr_validation_upper :: pyfloat
  tr_holdout_upper :: pyfloat
  tr_validation_support :: "risk_support list"
  tr_holdout_support :: "risk_support list"
  tr_accepted :: bool
  tr_root :: string

definition stratified_policy_schema :: string where
  "stratified_policy_schema = ''agent-evals/semantic-stratified-calibration-policy/v1''"

definition stratified_observation_schema :: string where
  "stratified_observation_schema = ''agent-evals/semantic-stratified-calibration-observation/v1''"

definition stratified_schema :: string where
  "stratified_schema = ''agent-evals/semantic-stratified-calibration-receipt/v1''"

definition stratified_domain :: string where
  "stratified_domain = ''agent-evals/semantic-stratified-calibration-receipt/v1'' @ [CHR 0x00]"

definition default_one_sided_z :: pyfloat where
  "default_one_sided_z = ratio10 False 16448536269514722 (- 16)"

subsection \<open>Policies and observations\<close>

definition validate_requirement :: "risk_requirement \<Rightarrow> error + unit" where
  "validate_requirement q = raise_if
     (text_field ''tag'' 128 (rq_tag q)
      @ [(rq_tag q \<noteq> py_strip (rq_tag q), verr ''calibration risk tag must not contain surrounding whitespace'')]
      @ int_field ''min_validation_fail_cases'' 1 (Some 10000) (rq_min_validation q)
      @ int_field ''min_holdout_fail_cases'' 1 (Some 10000) (rq_min_holdout q))"

definition fl_8 :: pyfloat where
  "fl_8 = fl_of_int 8"

definition validate_stratified_policy :: "stratified_policy \<Rightarrow> error + unit" where
  "validate_stratified_policy p = checks
     [validate_calibration_policy (tp_validation p), validate_calibration_policy (tp_holdout p),
      rfor validate_requirement (tp_requirements p),
      raise_if
        (int_field ''min_development_cases'' 0 (Some 10000) (tp_min_development p)
         @ [(\<not> (isfinite (tp_confidence_z p) \<and> fl_lt fl_0 (tp_confidence_z p) \<and> fl_le (tp_confidence_z p) fl_8),
             verr ''confidence_z: range'')]
         @ unit_field ''max_validation_false_pass_upper_bound'' (tp_max_validation_upper p)
         @ unit_field ''max_holdout_false_pass_upper_bound'' (tp_max_holdout_upper p)
         @ count_field ''risk_requirements'' 1 128 (tp_requirements p)
         @ [(\<not> distinct (map rq_tag (tp_requirements p)),
             verr ''stratified calibration risk requirements must have unique tags''),
            (\<not> sorted (map rq_tag (tp_requirements p)),
             verr ''stratified calibration risk requirements must be sorted by tag'')])]"

definition so_identity :: "stratified_observation \<Rightarrow> string" where
  "so_identity x = cm_root (cv_commitment (so_observation x))"

definition validate_stratified_observation :: "stratified_observation \<Rightarrow> error + unit" where
  "validate_stratified_observation x = checks
     [validate_commitment (cv_commitment (so_observation x)), validate_calibration_observation (so_observation x)]"

subsection \<open>The partition\<close>

definition canonical_partition :: "stratified_observation list \<Rightarrow> error + stratified_observation list" where
  "canonical_partition xs =
     (if \<not> distinct (map so_identity xs)
      then Inl (vale ''one calibration case cannot appear in multiple declared splits'')
      else Inr (sort_key (\<lambda>x. (split_rank (so_split x), so_identity x)) xs))"

definition stratum :: "calibration_split \<Rightarrow> stratified_observation list \<Rightarrow> calibration_observation list" where
  "stratum s xs = map so_observation (filter (\<lambda>x. so_split x = s) xs)"

subsection \<open>Derived metrics\<close>

definition false_pass_upper_bound :: "int \<Rightarrow> int \<Rightarrow> pyfloat \<Rightarrow> pyfloat" where
  "false_pass_upper_bound false_passes fail_cases z =
     (if fail_cases \<le> 0 then fl_1
      else let n = fl_of_int fail_cases; proportion = int_ratio false_passes fail_cases; z2 = fl_mul z z;
               denominator = fl_add fl_1 (fl_div z2 n);
               center = fl_div (fl_add proportion (fl_div z2 (fl_mul fl_2 n))) denominator;
               radius = fl_div (fl_mul z (fl_sqrt (fl_div (fl_add (fl_mul proportion (fl_sub fl_1 proportion))
                          (fl_div z2 (fl_mul fl_4 n))) n))) denominator
           in fl_min fl_1 (fl_add center radius))"

definition make_support :: "risk_support \<Rightarrow> error + risk_support" where
  "make_support s = rbind (raise_if (text_field ''tag'' 128 (rs_tag s) @ int_field ''fail_cases'' 0 (Some 10000) (rs_fail_cases s)))
     (\<lambda>_. Inr s)"

definition fail_support :: "calibration_observation list \<Rightarrow> string \<Rightarrow> int" where
  "fail_support xs tag = int (length (filter (\<lambda>x. cm_expected (cv_commitment x) = SEM_FAIL \<and>
     tag \<in> set (cm_tags (cv_commitment x))) xs))"

definition risk_support_of :: "calibration_observation list \<Rightarrow> risk_requirement list \<Rightarrow> error + risk_support list" where
  "risk_support_of xs qs = rmap (\<lambda>q. make_support \<lparr>rs_tag = rq_tag q, rs_fail_cases = fail_support xs (rq_tag q)\<rparr>) qs"

record stratified_metrics =
  tm_validation :: calibration_receipt
  tm_holdout :: calibration_receipt
  tm_validation_upper :: pyfloat
  tm_holdout_upper :: pyfloat
  tm_validation_support :: "risk_support list"
  tm_holdout_support :: "risk_support list"
  tm_accepted :: bool

definition support_accepted :: "risk_requirement list \<Rightarrow> risk_support list \<Rightarrow> risk_support list \<Rightarrow> bool" where
  "support_accepted qs vs hs \<longleftrightarrow> list_all (\<lambda>(q, v, h). rs_fail_cases v \<ge> rq_min_validation q \<and> rs_fail_cases h \<ge> rq_min_holdout q)
     (zip qs (zip vs hs))"

definition upper_of :: "calibration_receipt \<Rightarrow> pyfloat \<Rightarrow> pyfloat" where
  "upper_of r z = false_pass_upper_bound (cx_false_passes (kr_metrics r)) (cx_fail_cases (kr_metrics r)) z"

definition derive_stratified ::
  "set_order \<Rightarrow> judge_profile \<Rightarrow> stratified_policy \<Rightarrow> stratified_observation list \<Rightarrow> error + stratified_metrics" where
  "derive_stratified order profile p xs =
     (let validation = stratum VALIDATION xs; holdout = stratum HOLDOUT xs in
      rbind (raise_if [(validation = [], vale ''stratified calibration requires validation observations''),
                       (holdout = [], vale ''stratified calibration requires holdout observations'')]) (\<lambda>_.
      rbind (create_calibration order profile (tp_validation p) validation) (\<lambda>v.
      rbind (create_calibration order profile (tp_holdout p) holdout) (\<lambda>h.
      rbind (risk_support_of validation (tp_requirements p)) (\<lambda>vs.
      rbind (risk_support_of holdout (tp_requirements p)) (\<lambda>hs.
      let vu = upper_of v (tp_confidence_z p); hu = upper_of h (tp_confidence_z p) in
      Inr \<lparr>tm_validation = v, tm_holdout = h, tm_validation_upper = vu, tm_holdout_upper = hu,
           tm_validation_support = vs, tm_holdout_support = hs,
           tm_accepted =
             int (length (stratum DEVELOPMENT xs)) \<ge> tp_min_development p \<and> cx_accepted (kr_metrics v) \<and>
             cx_accepted (kr_metrics h) \<and> fl_le vu (tp_max_validation_upper p) \<and>
             fl_le hu (tp_max_holdout_upper p) \<and> support_accepted (tp_requirements p) vs hs\<rparr>))))))"

subsection \<open>The receipt\<close>

definition requirement_json :: "risk_requirement \<Rightarrow> json" where
  "requirement_json q = JObj
     [(''tag'', JStr (rq_tag q)), (''min_validation_fail_cases'', JInt (rq_min_validation q)),
      (''min_holdout_fail_cases'', JInt (rq_min_holdout q))]"

definition stratified_policy_json :: "set_order \<Rightarrow> stratified_policy \<Rightarrow> json" where
  "stratified_policy_json order p = JObj
     [(''schema_version'', JStr stratified_policy_schema),
      (''validation_policy'', calibration_policy_json order (tp_validation p)),
      (''holdout_policy'', calibration_policy_json order (tp_holdout p)),
      (''min_development_cases'', JInt (tp_min_development p)), (''confidence_z'', JFloat (tp_confidence_z p)),
      (''max_validation_false_pass_upper_bound'', JFloat (tp_max_validation_upper p)),
      (''max_holdout_false_pass_upper_bound'', JFloat (tp_max_holdout_upper p)),
      (''risk_requirements'', JArr (map requirement_json (tp_requirements p)))]"

definition stratified_policy_identity :: "set_order \<Rightarrow> stratified_policy \<Rightarrow> string" where
  "stratified_policy_identity order p = sha256_unicode_json (stratified_policy_json order p)"

definition stratified_observation_json :: "stratified_observation \<Rightarrow> json" where
  "stratified_observation_json x = JObj
     [(''schema_version'', JStr stratified_observation_schema), (''split'', JStr (split_value (so_split x))),
      (''observation'', calibration_observation_json (so_observation x))]"

definition support_json :: "risk_support \<Rightarrow> json" where
  "support_json s = JObj [(''tag'', JStr (rs_tag s)), (''fail_cases'', JInt (rs_fail_cases s))]"

definition stratified_material :: "set_order \<Rightarrow> stratified_receipt \<Rightarrow> json" where
  "stratified_material order r = JObj
     [(''schema_version'', JStr stratified_schema), (''judge_profile'', profile_material (tr_profile r)),
      (''policy'', stratified_policy_json order (tr_policy r)),
      (''observations'', JArr (map stratified_observation_json (tr_observations r))),
      (''validation_receipt'', calibration_json order (tr_validation r)),
      (''holdout_receipt'', calibration_json order (tr_holdout r)),
      (''validation_false_pass_upper_bound'', JFloat (tr_validation_upper r)),
      (''holdout_false_pass_upper_bound'', JFloat (tr_holdout_upper r)),
      (''validation_risk_support'', JArr (map support_json (tr_validation_support r))),
      (''holdout_risk_support'', JArr (map support_json (tr_holdout_support r))), (''accepted'', JBool (tr_accepted r))]"

definition stratified_root :: "set_order \<Rightarrow> stratified_receipt \<Rightarrow> error + string" where
  "stratified_root order r =
     (if within_budget receipt_material_budget (stratified_material order r)
      then Inr (domain_root stratified_domain (stratified_material order r))
      else Inl (Err ResourceLimitError ''stratified semantic calibration receipt material exceeds the receipt material budget''))"

text \<open>\<open>==\<close> of two calibration receipts compares their floats as numbers.\<close>

definition same_calibration :: "calibration_receipt \<Rightarrow> calibration_receipt \<Rightarrow> bool" where
  "same_calibration r s \<longleftrightarrow> (let p = kr_policy r; q = kr_policy s in
     kr_judge_profile r = kr_judge_profile s \<and>
     p\<lparr>cq_min_accuracy := fl_0, cq_max_false_pass_rate := fl_0\<rparr> = q\<lparr>cq_min_accuracy := fl_0, cq_max_false_pass_rate := fl_0\<rparr> \<and>
     fl_eq (cq_min_accuracy p) (cq_min_accuracy q) \<and> fl_eq (cq_max_false_pass_rate p) (cq_max_false_pass_rate q) \<and>
     kr_observations r = kr_observations s \<and> raise_if (same_metrics (kr_metrics r) (kr_metrics s)) = Inr () \<and>
     kr_root r = kr_root s)"

definition stratified_relations :: "stratified_receipt \<Rightarrow> stratified_metrics \<Rightarrow> (bool \<times> error) list" where
  "stratified_relations r d =
     [(\<not> same_calibration (tr_validation r) (tm_validation d), verr ''stratified validation receipt does not recompute''),
      (\<not> same_calibration (tr_holdout r) (tm_holdout d), verr ''stratified holdout receipt does not recompute''),
      (\<not> fl_eq (tr_validation_upper r) (tm_validation_upper d),
       verr ''stratified validation false-pass bound does not recompute''),
      (\<not> fl_eq (tr_holdout_upper r) (tm_holdout_upper d), verr ''stratified holdout false-pass bound does not recompute''),
      (tr_validation_support r \<noteq> tm_validation_support d, verr ''stratified validation risk support does not recompute''),
      (tr_holdout_support r \<noteq> tm_holdout_support d, verr ''stratified holdout risk support does not recompute''),
      (tr_accepted r \<noteq> tm_accepted d, verr ''stratified calibration acceptance does not recompute'')]"

definition stratified_fields :: "stratified_receipt \<Rightarrow> (bool \<times> error) list" where
  "stratified_fields r =
     count_field ''observations'' 1 30000 (tr_observations r)
     @ unit_field ''validation_false_pass_upper_bound'' (tr_validation_upper r)
     @ unit_field ''holdout_false_pass_upper_bound'' (tr_holdout_upper r) @ sha_field ''receipt_root'' (tr_root r)"

definition validate_stratified :: "set_order \<Rightarrow> stratified_receipt \<Rightarrow> error + stratified_receipt" where
  "validate_stratified order r =
     rbind (raise_if (stratified_fields r)) (\<lambda>_.
     rbind (as_validation (canonical_partition (tr_observations r))) (\<lambda>canonical.
     rbind (raise_if [(canonical \<noteq> tr_observations r,
        verr ''stratified calibration observations are not in canonical split order'')]) (\<lambda>_.
     rbind (as_validation (derive_stratified order (tr_profile r) (tr_policy r) (tr_observations r))) (\<lambda>d.
     rbind (raise_if (stratified_relations r d)) (\<lambda>_.
     rbind (as_validation (stratified_root order r)) (\<lambda>root.
     rbind (raise_if [(root \<noteq> tr_root r, verr ''stratified semantic calibration receipt root mismatch'')]) (\<lambda>_. Inr r)))))))"

definition stratified_of ::
  "judge_profile \<Rightarrow> stratified_policy \<Rightarrow> stratified_observation list \<Rightarrow> stratified_metrics \<Rightarrow> stratified_receipt" where
  "stratified_of profile p xs d =
     \<lparr>tr_profile = profile, tr_policy = p, tr_observations = xs, tr_validation = tm_validation d, tr_holdout = tm_holdout d,
      tr_validation_upper = tm_validation_upper d, tr_holdout_upper = tm_holdout_upper d,
      tr_validation_support = tm_validation_support d, tr_holdout_support = tm_holdout_support d,
      tr_accepted = tm_accepted d, tr_root = []\<rparr>"

definition create_stratified ::
  "set_order \<Rightarrow> judge_profile \<Rightarrow> stratified_policy \<Rightarrow> stratified_observation list \<Rightarrow> error + stratified_receipt" where
  "create_stratified order profile p xs =
     rbind (validate_profile profile) (\<lambda>_.
     rbind (validate_stratified_policy p) (\<lambda>_.
     rbind (rfor validate_stratified_observation xs) (\<lambda>_.
     rbind (canonical_partition xs) (\<lambda>canonical.
     rbind (derive_stratified order profile p canonical) (\<lambda>d.
     let unsigned = stratified_of profile p canonical d in
     rbind (stratified_root order unsigned) (\<lambda>root.
     validate_stratified order (unsigned\<lparr>tr_root := root\<rparr>)))))))"

text \<open>\<open>require_accepted_holdout\<close> validates the receipt, and the models inside, again.\<close>

definition revalidate_calibration :: "set_order \<Rightarrow> calibration_receipt \<Rightarrow> error + unit" where
  "revalidate_calibration order c =
     rbind (validate_profile (kr_judge_profile c)) (\<lambda>_.
     rbind (validate_calibration_policy (kr_policy c)) (\<lambda>_.
     rbind (rfor (\<lambda>x. checks [validate_commitment (cv_commitment x), validate_calibration_observation x]) (kr_observations c)) (\<lambda>_.
     rbind (validate_calibration order c) (\<lambda>_. Inr ()))))"

definition revalidate_stratified :: "set_order \<Rightarrow> stratified_receipt \<Rightarrow> error + stratified_receipt" where
  "revalidate_stratified order r =
     rbind (validate_profile (tr_profile r)) (\<lambda>_.
     rbind (validate_stratified_policy (tr_policy r)) (\<lambda>_.
     rbind (rfor validate_stratified_observation (tr_observations r)) (\<lambda>_.
     rbind (revalidate_calibration order (tr_validation r)) (\<lambda>_.
     rbind (revalidate_calibration order (tr_holdout r)) (\<lambda>_.
     rbind (rmap make_support (tr_validation_support r @ tr_holdout_support r)) (\<lambda>_.
     validate_stratified order r))))))"

definition require_accepted_holdout :: "set_order \<Rightarrow> stratified_receipt \<Rightarrow> error + calibration_receipt" where
  "require_accepted_holdout order r =
     rbind (revalidate_stratified order r) (\<lambda>s.
     if \<not> tr_accepted s then Inl (vale ''stratified semantic calibration is not accepted'') else Inr (tr_holdout s))"

subsection \<open>The order of the observations does not matter\<close>

lemma canonical_partition_Inr:
  "canonical_partition xs = Inr ys \<longleftrightarrow> distinct (map so_identity xs) \<and>
     ys = sort_key (\<lambda>x. (split_rank (so_split x), so_identity x)) xs"
  by (auto simp: canonical_partition_def)

lemma canonical_partition_perm:
  assumes "canonical_partition xs = Inr zs" "mset ys = mset xs"
  shows "canonical_partition ys = Inr zs"
proof -
  have d: "distinct (map so_identity xs)" using assms(1) by (simp add: canonical_partition_Inr)
  then have inj: "inj_on (\<lambda>x. (split_rank (so_split x), so_identity x)) (set xs)"
    by (auto simp: distinct_map inj_on_def)
  have "mset (map so_identity ys) = mset (map so_identity xs)" using assms(2) by simp
  then have "distinct (map so_identity ys)" using d mset_eq_imp_distinct_iff by blast
  with assms(1) sort_key_perm [OF assms(2) [symmetric] inj] show ?thesis by (simp add: canonical_partition_Inr)
qed

lemma create_stratified_perm:
  assumes "create_stratified order profile p xs = Inr r" "mset ys = mset xs"
  shows "create_stratified order profile p ys = Inr r"
proof -
  from assms(1) obtain zs where "canonical_partition xs = Inr zs" by (auto simp: create_stratified_def rbind_Inr)
  moreover from this have "canonical_partition ys = Inr zs" using assms(2) by (rule canonical_partition_perm)
  moreover have "rfor validate_stratified_observation ys = Inr () \<longleftrightarrow> rfor validate_stratified_observation xs = Inr ()"
    using mset_eq_setD [OF assms(2)] by (simp add: rfor_Inr)
  ultimately show ?thesis using assms(1) by (simp add: create_stratified_def rbind_Inr)
qed

subsection \<open>What an accepted holdout receipt rests on\<close>

lemma create_calibration_Inr:
  assumes "create_calibration order profile p xs = Inr r"
  shows "kr_judge_profile r = profile" "kr_policy r = p" "kr_observations r = xs" "calibration_metrics_of p xs = Inr (kr_metrics r)"
  using assms by (auto simp: create_calibration_def rbind_Inr Let_def validate_calibration_def raise_if_Inr)

lemma metrics_acceptance: "calibration_metrics_of p xs = Inr m \<Longrightarrow> cx_accepted m \<longleftrightarrow> calibration_accepted p m"
  by (auto simp: calibration_metrics_of_def rbind_Inr metrics_over_def Let_def calibration_accepted_def)

lemma risk_support_Inr:
  "risk_support_of xs qs = Inr ss \<Longrightarrow> ss = map (\<lambda>q. \<lparr>rs_tag = rq_tag q, rs_fail_cases = fail_support xs (rq_tag q)\<rparr>) qs"
  unfolding risk_support_of_def rmap_Inr make_support_def
  by (induction qs arbitrary: ss) (auto simp: list_all2_Cons1 rbind_Inr)

lemma zip_map_all: "list_all P (zip qs (zip (map f qs) (map g qs))) \<longleftrightarrow> (\<forall>q\<in>set qs. P (q, f q, g q))"
  by (induction qs) auto

definition supported :: "stratified_policy \<Rightarrow> stratified_observation list \<Rightarrow> bool" where
  "supported p xs \<longleftrightarrow> (\<forall>q\<in>set (tp_requirements p).
     rq_min_validation q \<le> fail_support (stratum VALIDATION xs) (rq_tag q) \<and>
     rq_min_holdout q \<le> fail_support (stratum HOLDOUT xs) (rq_tag q))"

lemma derive_stratified_Inr:
  assumes "derive_stratified order profile p xs = Inr d"
  shows "create_calibration order profile (tp_validation p) (stratum VALIDATION xs) = Inr (tm_validation d)"
    "create_calibration order profile (tp_holdout p) (stratum HOLDOUT xs) = Inr (tm_holdout d)"
    "tm_accepted d \<longleftrightarrow> tp_min_development p \<le> int (length (stratum DEVELOPMENT xs)) \<and>
       cx_accepted (kr_metrics (tm_validation d)) \<and> cx_accepted (kr_metrics (tm_holdout d)) \<and>
       fl_le (upper_of (tm_validation d) (tp_confidence_z p)) (tp_max_validation_upper p) \<and>
       fl_le (upper_of (tm_holdout d) (tp_confidence_z p)) (tp_max_holdout_upper p) \<and> supported p xs"
  using assms unfolding derive_stratified_def Let_def
  by (auto simp: rbind_Inr supported_def support_accepted_def zip_map_all dest!: risk_support_Inr)

lemma same_calibration_fields:
  assumes "same_calibration r s"
  shows "kr_judge_profile r = kr_judge_profile s" "kr_observations r = kr_observations s"
    "cx_accepted (kr_metrics r) = cx_accepted (kr_metrics s)" "cx_false_passes (kr_metrics r) = cx_false_passes (kr_metrics s)"
    "cx_fail_cases (kr_metrics r) = cx_fail_cases (kr_metrics s)"
  using assms by (simp_all add: same_calibration_def Let_def same_metrics_def raise_if_Inr)

text \<open>No case of the holdout was seen in development or validation.\<close>

definition holdout_separate :: "stratified_observation list \<Rightarrow> bool" where
  "holdout_separate xs \<longleftrightarrow> (\<forall>x\<in>set (stratum HOLDOUT xs). \<forall>y\<in>set (stratum DEVELOPMENT xs @ stratum VALIDATION xs).
     cm_root (cv_commitment x) \<noteq> cm_root (cv_commitment y))"

lemma partition_separates:
  assumes "distinct (map so_identity xs)"
  shows "holdout_separate xs"
  using assms by (auto simp: holdout_separate_def stratum_def distinct_map inj_on_def so_identity_def)

lemma accepted_holdout:
  assumes "require_accepted_holdout order r = Inr h"
  shows "h = tr_holdout r" "cx_accepted (kr_metrics h)" "kr_judge_profile h = tr_profile r"
    "kr_observations h = stratum HOLDOUT (tr_observations r)" "holdout_separate (tr_observations r)"
    "supported (tr_policy r) (tr_observations r)"
    "fl_le (upper_of h (tp_confidence_z (tr_policy r))) (tp_max_holdout_upper (tr_policy r))"
    "tp_min_development (tr_policy r) \<le> int (length (stratum DEVELOPMENT (tr_observations r)))"
proof -
  from assms have v: "validate_stratified order r = Inr r" "tr_accepted r" and h: "h = tr_holdout r"
    by (auto simp: require_accepted_holdout_def revalidate_stratified_def validate_stratified_def rbind_Inr split: if_splits)
  from v(1) obtain d where d: "derive_stratified order (tr_profile r) (tr_policy r) (tr_observations r) = Inr d"
    and rel: "raise_if (stratified_relations r d) = Inr ()" and c: "canonical_partition (tr_observations r) = Inr (tr_observations r)"
    by (auto simp: validate_stratified_def rbind_Inr as_validation_Inr raise_if_Inr)
  have s: "same_calibration (tr_holdout r) (tm_holdout d)" "tr_accepted r = tm_accepted d"
    using rel by (simp_all add: stratified_relations_def raise_if_Inr)
  note f = derive_stratified_Inr [OF d] and k = create_calibration_Inr [OF derive_stratified_Inr(2) [OF d]]
  show "h = tr_holdout r" by (rule h)
  show "cx_accepted (kr_metrics h)" "kr_judge_profile h = tr_profile r" "kr_observations h = stratum HOLDOUT (tr_observations r)"
    "supported (tr_policy r) (tr_observations r)"
    "tp_min_development (tr_policy r) \<le> int (length (stratum DEVELOPMENT (tr_observations r)))"
    "fl_le (upper_of h (tp_confidence_z (tr_policy r))) (tp_max_holdout_upper (tr_policy r))"
    using v(2) s f(3) k same_calibration_fields [OF s(1)] h by (simp_all add: upper_of_def)
  show "holdout_separate (tr_observations r)" using c by (intro partition_separates) (simp add: canonical_partition_Inr)
qed

subsection \<open>How many observations fit into a receipt\<close>

lemma observation_nodes: "19 \<le> json_nodes (stratified_observation_json x)"
proof -
  have p: "1 \<le> json_nodes v" for v using json_nodes_pos [of v] by simp
  show ?thesis
    using p [of "rubric_material (cm_rubric (cv_commitment (so_observation x)))"] p [of "opt_str (cv_failure_code (so_observation x))"]
      p [of "opt_json (map_option response_material (cv_response (so_observation x)))"]
    by (simp add: stratified_observation_json_def calibration_observation_json_def commitment_json_def commitment_material_def)
qed

lemma nodes_of_many: "\<forall>x\<in>set xs. k \<le> json_nodes (f x) \<Longrightarrow> k * length xs \<le> json_nodes (JArr (map f xs))"
  by (induction xs) auto

lemma stratified_size:
  assumes "validate_stratified order r = Inr s"
  shows "length (tr_observations r) \<le> 3449"
proof -
  have "within_budget receipt_material_budget (stratified_material order r)"
    using assms by (auto simp: validate_stratified_def rbind_Inr as_validation_Inr stratified_root_def split: if_splits)
  then have "json_nodes (stratified_material order r) \<le> 65536" by (simp add: within_budget_def receipt_material_budget_def)
  moreover have "json_nodes (JArr (map stratified_observation_json (tr_observations r))) \<le> json_nodes (stratified_material order r)"
    by (simp add: stratified_material_def)
  ultimately show ?thesis
    using nodes_of_many [of "tr_observations r" 19 stratified_observation_json] observation_nodes by simp
qed

end
