(* ===== verification/CalibrationProbes.thy ===== *)
theory CalibrationProbes
  imports Stratified
begin

section \<open>Diagnostics of judges\<close>

text \<open>
  \<open>semantic/adversarial_calibration.py\<close>: classes of prompt injection, blinding, probes for leaked
  calibration cases and calibrated abstention; \<open>semantic/robustness.py\<close>: counts of changed and
  disagreeing decisions. None of them decides a trial.
\<close>

subsection \<open>Classes of prompt injection\<close>

datatype injection_class = DIRECT_OVERRIDE | MARKUP_ESCAPE | FAKE_RUBRIC | FAKE_SYSTEM_MESSAGE | LONG_CONTEXT | MULTILINGUAL

fun injection_value :: "injection_class \<Rightarrow> string" where
  "injection_value DIRECT_OVERRIDE = ''direct-override''"
| "injection_value MARKUP_ESCAPE = ''markup-escape''"
| "injection_value FAKE_RUBRIC = ''fake-rubric''"
| "injection_value FAKE_SYSTEM_MESSAGE = ''fake-system-message''"
| "injection_value LONG_CONTEXT = ''long-context''"
| "injection_value MULTILINGUAL = ''multilingual''"

definition injection_classes :: "injection_class list" where
  "injection_classes = [DIRECT_OVERRIDE, MARKUP_ESCAPE, FAKE_RUBRIC, FAKE_SYSTEM_MESSAGE, LONG_CONTEXT, MULTILINGUAL]"

definition injection_tag :: string where
  "injection_tag = ''judge-prompt-injection''"

definition injection_risk_tag :: "injection_class \<Rightarrow> string" where
  "injection_risk_tag c = injection_tag @ ''/'' @ injection_value c"

definition injection_tags :: "injection_class \<Rightarrow> string set" where
  "injection_tags c = {injection_tag, injection_risk_tag c}"

definition injection_requirements :: "int \<Rightarrow> int \<Rightarrow> error + risk_requirement list" where
  "injection_requirements v h =
     rmap (\<lambda>c. let q = \<lparr>rq_tag = injection_risk_tag c, rq_min_validation = v, rq_min_holdout = h\<rparr>
               in rbind (validate_requirement q) (\<lambda>_. Inr q))
       (sort_key injection_risk_tag injection_classes)"

subsection \<open>Blinding\<close>

datatype blind_field = CANDIDATE_IDENTITY | BLIND_PROVIDER | BLIND_MODEL | BASELINE_LABEL

fun blind_value :: "blind_field \<Rightarrow> string" where
  "blind_value CANDIDATE_IDENTITY = ''candidate_identity''"
| "blind_value BLIND_PROVIDER = ''provider''"
| "blind_value BLIND_MODEL = ''model''"
| "blind_value BASELINE_LABEL = ''baseline_label''"

record blinding_envelope =
  be_case_identity :: string
  be_judge_input :: judge_input
  be_fields :: "blind_field list"
  be_hidden_sha256 :: string

definition validate_blinding :: "blinding_envelope \<Rightarrow> error + blinding_envelope" where
  "validate_blinding e =
     rbind (raise_if
       (sha_field ''case_identity'' (be_case_identity e) @ sha_field ''hidden_metadata_sha256'' (be_hidden_sha256 e)
        @ [(be_fields e = [], verr ''blinded_fields: length''),
           (\<not> distinct (map blind_value (be_fields e)), verr ''semantic blinding fields must be unique''),
           (\<not> sorted (map blind_value (be_fields e)), verr ''semantic blinding fields must be canonically sorted'')])) (\<lambda>_. Inr e)"

definition blind_case :: "calibration_case \<Rightarrow> dict \<Rightarrow> blind_field list \<Rightarrow> error + blinding_envelope" where
  "blind_case c hidden blinded =
     rbind (validate_case c) (\<lambda>snapshot.
     let fields = sort_key blind_value blinded; missing = filter (\<lambda>f. dict_get hidden (blind_value f) = None) fields in
     rbind (raise_if [(missing \<noteq> [],
        vale (''blinded metadata fields are absent from source metadata: '' @ strs_repr (sort (map blind_value missing))))]) (\<lambda>_.
     rbind (commitment_of snapshot) (\<lambda>m.
     rbind (case_judge_input snapshot) (\<lambda>i.
     if \<not> finite_json (JObj hidden) then Inl (vale ''semantic adversarial material must be finite JSON-compatible data'')
     else validate_blinding \<lparr>be_case_identity = cm_root m, be_judge_input = i, be_fields = fields,
            be_hidden_sha256 = sha256_unicode_json (JObj hidden)\<rparr>))))"

subsection \<open>Leakage probes\<close>

datatype leakage_probe = EXACT_CASE_EXPOSURE | CANARY_RECALL | PARAPHRASE_MEMORIZATION | TRAINING_MEMBERSHIP

fun probe_value :: "leakage_probe \<Rightarrow> string" where
  "probe_value EXACT_CASE_EXPOSURE = ''exact-case-exposure''"
| "probe_value CANARY_RECALL = ''canary-recall''"
| "probe_value PARAPHRASE_MEMORIZATION = ''paraphrase-memorization''"
| "probe_value TRAINING_MEMBERSHIP = ''training-membership''"

definition leakage_probes :: "leakage_probe list" where
  "leakage_probes = [CANARY_RECALL, EXACT_CASE_EXPOSURE, PARAPHRASE_MEMORIZATION, TRAINING_MEMBERSHIP]"

record leakage_observation =
  lo_case_identity :: string
  lo_probe :: leakage_probe
  lo_detected :: bool
  lo_evidence_sha256 :: string

record leakage_policy =
  lp_min_cases :: int
  lp_max_detections :: int
  lp_required :: "leakage_probe set"

record leakage_receipt =
  lk_policy :: leakage_policy
  lk_observations :: "leakage_observation list"
  lk_total :: int
  lk_detections :: int
  lk_covered :: "leakage_probe list"
  lk_accepted :: bool
  lk_root :: string

definition leakage_observation_schema :: string where
  "leakage_observation_schema = ''agent-evals/calibration-leakage-observation/v1''"

definition leakage_policy_schema :: string where
  "leakage_policy_schema = ''agent-evals/calibration-leakage-policy/v1''"

definition leakage_schema :: string where
  "leakage_schema = ''agent-evals/calibration-leakage-receipt/v1''"

definition leakage_domain :: string where
  "leakage_domain = ''agent-evals/calibration-leakage-receipt/v1'' @ [CHR 0x00]"

definition validate_leakage_observation :: "leakage_observation \<Rightarrow> error + unit" where
  "validate_leakage_observation x =
     raise_if (sha_field ''case_identity'' (lo_case_identity x) @ sha_field ''evidence_sha256'' (lo_evidence_sha256 x))"

definition validate_leakage_policy :: "leakage_policy \<Rightarrow> error + unit" where
  "validate_leakage_policy p =
     raise_if (int_field ''min_cases'' 1 (Some 10000) (lp_min_cases p)
       @ int_field ''max_detections'' 0 (Some 10000) (lp_max_detections p))"

definition leakage_guards :: "leakage_observation list \<Rightarrow> error + unit" where
  "leakage_guards xs = raise_if
     [(xs = [], vale ''calibration leakage receipt requires observations''),
      (\<not> distinct (map (\<lambda>x. (lo_case_identity x, lo_probe x)) xs),
       vale ''calibration leakage probe observations must be unique per case and kind'')]"

definition detections_of :: "leakage_observation list \<Rightarrow> int" where
  "detections_of xs = int (length (filter lo_detected xs))"

definition leakage_covered :: "leakage_observation list \<Rightarrow> leakage_probe list" where
  "leakage_covered xs = filter (\<lambda>k. k \<in> lo_probe ` set xs) leakage_probes"

definition leakage_accepted :: "leakage_policy \<Rightarrow> leakage_observation list \<Rightarrow> bool" where
  "leakage_accepted p xs \<longleftrightarrow> int (length xs) \<ge> lp_min_cases p \<and> detections_of xs \<le> lp_max_detections p \<and>
     lp_required p \<subseteq> set (leakage_covered xs)"

text \<open>The order in which a process iterates a set of strings is the order it iterates the probe kinds.\<close>

definition leakage_policy_json :: "set_order \<Rightarrow> leakage_policy \<Rightarrow> json" where
  "leakage_policy_json order p = JObj
     [(''schema_version'', JStr leakage_policy_schema), (''min_cases'', JInt (lp_min_cases p)),
      (''max_detections'', JInt (lp_max_detections p)),
      (''required_probe_kinds'', set_json order (probe_value ` lp_required p))]"

definition leakage_observation_json :: "leakage_observation \<Rightarrow> json" where
  "leakage_observation_json x = JObj
     [(''schema_version'', JStr leakage_observation_schema), (''case_identity'', JStr (lo_case_identity x)),
      (''probe_kind'', JStr (probe_value (lo_probe x))), (''detected'', JBool (lo_detected x)),
      (''evidence_sha256'', JStr (lo_evidence_sha256 x))]"

definition leakage_material :: "set_order \<Rightarrow> leakage_receipt \<Rightarrow> json" where
  "leakage_material order r = JObj
     [(''schema_version'', JStr leakage_schema), (''policy'', leakage_policy_json order (lk_policy r)),
      (''observations'', JArr (map leakage_observation_json (lk_observations r))), (''total_cases'', JInt (lk_total r)),
      (''detections'', JInt (lk_detections r)),
      (''covered_probe_kinds'', JArr (map (\<lambda>k. JStr (probe_value k)) (lk_covered r))), (''accepted'', JBool (lk_accepted r))]"

definition leakage_root :: "set_order \<Rightarrow> leakage_receipt \<Rightarrow> string" where
  "leakage_root order r = domain_root leakage_domain (leakage_material order r)"

definition leakage_of :: "leakage_policy \<Rightarrow> leakage_observation list \<Rightarrow> leakage_receipt" where
  "leakage_of p xs = \<lparr>lk_policy = p, lk_observations = xs, lk_total = int (length xs), lk_detections = detections_of xs,
     lk_covered = leakage_covered xs, lk_accepted = leakage_accepted p xs, lk_root = []\<rparr>"

definition leakage_fields :: "leakage_receipt \<Rightarrow> (bool \<times> error) list" where
  "leakage_fields r =
     [(lk_observations r = [], verr ''observations: length'')] @ int_field ''total_cases'' 1 None (lk_total r)
     @ int_field ''detections'' 0 None (lk_detections r) @ sha_field ''receipt_root'' (lk_root r)"

definition leakage_relations :: "leakage_receipt \<Rightarrow> (bool \<times> error) list" where
  "leakage_relations r = (let e = leakage_of (lk_policy r) (lk_observations r);
       bad = (\<lambda>name. verr (''calibration leakage '' @ name @ '' does not recompute'')) in
     [(lk_total r \<noteq> lk_total e, bad ''total_cases''), (lk_detections r \<noteq> lk_detections e, bad ''detections''),
      (lk_covered r \<noteq> lk_covered e, bad ''covered_probe_kinds''), (lk_accepted r \<noteq> lk_accepted e, bad ''accepted'')])"

definition validate_leakage :: "set_order \<Rightarrow> leakage_receipt \<Rightarrow> error + leakage_receipt" where
  "validate_leakage order r =
     rbind (raise_if (leakage_fields r)) (\<lambda>_.
     rbind (as_validation (leakage_guards (lk_observations r))) (\<lambda>_.
     rbind (raise_if (leakage_relations r @ [(leakage_root order r \<noteq> lk_root r, verr ''calibration leakage receipt root mismatch'')])) (\<lambda>_.
     Inr r)))"

definition create_leakage :: "set_order \<Rightarrow> leakage_policy \<Rightarrow> leakage_observation list \<Rightarrow> error + leakage_receipt" where
  "create_leakage order p xs =
     rbind (validate_leakage_policy p) (\<lambda>_.
     rbind (rfor validate_leakage_observation xs) (\<lambda>_.
     rbind (leakage_guards xs) (\<lambda>_.
     let r = leakage_of p xs in validate_leakage order (r\<lparr>lk_root := leakage_root order r\<rparr>))))"

subsection \<open>Calibrated abstention\<close>

record abstention_case =
  ac_case_id :: string
  ac_revision :: string
  ac_objective :: string
  ac_rubric :: semantic_rubric
  ac_candidate :: string
  ac_tags :: "string set"

record abstention_observation =
  ab_case :: abstention_case
  ab_response :: "judge_response option"
  ab_failure_code :: "string option"

record abstention_policy =
  ap_min_cases :: int
  ap_max_incorrect :: int
  ap_max_failures :: int
  ap_required_tags :: "string set"

record abstention_metrics =
  am_total :: int
  am_abstentions :: int
  am_incorrect :: int
  am_failures :: int
  am_covered :: "string list"
  am_accepted :: bool

record abstention_receipt =
  ax_policy :: abstention_policy
  ax_observations :: "abstention_observation list"
  ax_metrics :: abstention_metrics
  ax_root :: string

definition abstention_case_schema :: string where
  "abstention_case_schema = ''agent-evals/semantic-abstention-case/v1''"

definition abstention_observation_schema :: string where
  "abstention_observation_schema = ''agent-evals/semantic-abstention-observation/v1''"

definition abstention_policy_schema :: string where
  "abstention_policy_schema = ''agent-evals/semantic-abstention-policy/v1''"

definition abstention_schema :: string where
  "abstention_schema = ''agent-evals/semantic-abstention-receipt/v1''"

definition abstention_case_domain :: string where
  "abstention_case_domain = ''agent-evals/semantic-abstention-case/v1'' @ [CHR 0x00]"

definition abstention_domain :: string where
  "abstention_domain = ''agent-evals/semantic-abstention-receipt/v1'' @ [CHR 0x00]"

definition validate_abstention_case :: "abstention_case \<Rightarrow> error + unit" where
  "validate_abstention_case c = checks
     [raise_if (name_field ''case_id'' (ac_case_id c) @ text_field ''revision'' 128 (ac_revision c)
        @ text_field ''objective'' 20000 (ac_objective c)),
      rbind (validate_rubric (ac_rubric c)) (\<lambda>_. Inr ()),
      raise_if [(length (ac_candidate c) > 100000, verr ''candidate_output: length''),
        (\<exists>t\<in>ac_tags c. py_strip t = [], verr ''semantic abstention tags must be non-empty strings'')]]"

definition abstention_input :: "abstention_case \<Rightarrow> error + judge_input" where
  "abstention_input c = mk_judge_input (ac_objective c) (ac_rubric c) (ac_candidate c)"

definition abstention_case_json :: "set_order \<Rightarrow> abstention_case \<Rightarrow> json" where
  "abstention_case_json order c = JObj
     [(''schema_version'', JStr abstention_case_schema), (''case_id'', JStr (ac_case_id c)),
      (''revision'', JStr (ac_revision c)), (''objective'', JStr (ac_objective c)),
      (''rubric'', rubric_material (ac_rubric c)), (''candidate_output'', JStr (ac_candidate c)),
      (''tags'', set_json order (ac_tags c))]"

definition abstention_case_identity :: "set_order \<Rightarrow> abstention_case \<Rightarrow> string" where
  "abstention_case_identity order c = domain_root abstention_case_domain (abstention_case_json order c)"

definition ab_observed :: "abstention_observation \<Rightarrow> error + semantic_decision option" where
  "ab_observed x = observed_decision (ac_rubric (ab_case x)) (ab_response x)"

definition validate_abstention_observation :: "abstention_observation \<Rightarrow> error + unit" where
  "validate_abstention_observation x = checks
     [validate_abstention_case (ab_case x),
      (case ab_response x of None \<Rightarrow> Inr () | Some r \<Rightarrow> rbind (validate_response r) (\<lambda>_. Inr ())),
      raise_if (opt_name_field ''failure_code'' ''._-'' 1 127 (ab_failure_code x)
        @ [(ab_response x = None \<and> ab_failure_code x = None,
            verr ''failed abstention observation requires failure_code''),
           (ab_response x \<noteq> None \<and> ab_failure_code x \<noteq> None,
            verr ''resolved abstention observation cannot carry failure_code'')]),
      rbind (as_validation (ab_observed x)) (\<lambda>_. Inr ())]"

definition validate_abstention_policy :: "abstention_policy \<Rightarrow> error + unit" where
  "validate_abstention_policy p = raise_if
     (int_field ''min_cases'' 1 (Some 10000) (ap_min_cases p)
      @ int_field ''max_incorrect_resolutions'' 0 (Some 10000) (ap_max_incorrect p)
      @ int_field ''max_judge_failures'' 0 (Some 10000) (ap_max_failures p))"

definition observed_count :: "semantic_decision option set \<Rightarrow> semantic_decision option list \<Rightarrow> int" where
  "observed_count D os = int (length (filter (\<lambda>d. d \<in> D) os))"

definition abstention_accepted :: "abstention_policy \<Rightarrow> abstention_metrics \<Rightarrow> bool" where
  "abstention_accepted p m \<longleftrightarrow> am_total m \<ge> ap_min_cases p \<and> am_incorrect m \<le> ap_max_incorrect p \<and>
     am_failures m \<le> ap_max_failures p \<and> ap_required_tags p \<subseteq> set (am_covered m)"

definition abstention_counts ::
  "abstention_policy \<Rightarrow> abstention_observation list \<Rightarrow> semantic_decision option list \<Rightarrow> abstention_metrics" where
  "abstention_counts p xs os =
     (let m = \<lparr>am_total = int (length xs), am_abstentions = observed_count {Some SEM_ABSTAIN} os,
               am_incorrect = observed_count {Some SEM_PASS, Some SEM_FAIL} os, am_failures = observed_count {None} os,
               am_covered = py_sorted (\<Union> (ac_tags ` ab_case ` set xs)), am_accepted = False\<rparr>
      in m\<lparr>am_accepted := abstention_accepted p m\<rparr>)"

definition abstention_metrics_of ::
  "set_order \<Rightarrow> abstention_policy \<Rightarrow> abstention_observation list \<Rightarrow> error + abstention_metrics" where
  "abstention_metrics_of order p xs =
     rbind (raise_if
       [(xs = [], vale ''semantic abstention receipt requires observations''),
        (\<not> distinct (map (abstention_case_identity order \<circ> ab_case) xs),
         vale ''semantic abstention case identities must be unique'')]) (\<lambda>_.
     rbind (rmap ab_observed xs) (\<lambda>os. Inr (abstention_counts p xs os)))"

definition abstention_policy_json :: "set_order \<Rightarrow> abstention_policy \<Rightarrow> json" where
  "abstention_policy_json order p = JObj
     [(''schema_version'', JStr abstention_policy_schema), (''min_cases'', JInt (ap_min_cases p)),
      (''max_incorrect_resolutions'', JInt (ap_max_incorrect p)), (''max_judge_failures'', JInt (ap_max_failures p)),
      (''required_tags'', set_json order (ap_required_tags p))]"

definition abstention_observation_json :: "set_order \<Rightarrow> abstention_observation \<Rightarrow> json" where
  "abstention_observation_json order x = JObj
     [(''schema_version'', JStr abstention_observation_schema), (''case'', abstention_case_json order (ab_case x)),
      (''response'', opt_json (map_option response_material (ab_response x))), (''failure_code'', opt_str (ab_failure_code x))]"

definition abstention_material :: "set_order \<Rightarrow> abstention_receipt \<Rightarrow> json" where
  "abstention_material order r = (let m = ax_metrics r in JObj
     [(''schema_version'', JStr abstention_schema), (''policy'', abstention_policy_json order (ax_policy r)),
      (''observations'', JArr (map (abstention_observation_json order) (ax_observations r))),
      (''total_cases'', JInt (am_total m)), (''abstentions'', JInt (am_abstentions m)),
      (''incorrect_resolutions'', JInt (am_incorrect m)), (''judge_failures'', JInt (am_failures m)),
      (''covered_tags'', JArr (map JStr (am_covered m))), (''accepted'', JBool (am_accepted m))])"

definition abstention_root :: "set_order \<Rightarrow> abstention_receipt \<Rightarrow> string" where
  "abstention_root order r = domain_root abstention_domain (abstention_material order r)"

definition abstention_fields :: "abstention_receipt \<Rightarrow> (bool \<times> error) list" where
  "abstention_fields r = (let m = ax_metrics r in
     [(ax_observations r = [], verr ''observations: length'')] @ int_field ''total_cases'' 1 None (am_total m)
     @ int_field ''abstentions'' 0 None (am_abstentions m) @ int_field ''incorrect_resolutions'' 0 None (am_incorrect m)
     @ int_field ''judge_failures'' 0 None (am_failures m) @ sha_field ''receipt_root'' (ax_root r))"

definition abstention_relations :: "abstention_metrics \<Rightarrow> abstention_metrics \<Rightarrow> (bool \<times> error) list" where
  "abstention_relations m e = (let bad = (\<lambda>name. verr (''semantic abstention '' @ name @ '' does not recompute'')) in
     [(am_total m \<noteq> am_total e, bad ''total_cases''), (am_abstentions m \<noteq> am_abstentions e, bad ''abstentions''),
      (am_incorrect m \<noteq> am_incorrect e, bad ''incorrect_resolutions''), (am_failures m \<noteq> am_failures e, bad ''judge_failures''),
      (am_covered m \<noteq> am_covered e, bad ''covered_tags''), (am_accepted m \<noteq> am_accepted e, bad ''accepted'')])"

definition validate_abstention :: "set_order \<Rightarrow> abstention_receipt \<Rightarrow> error + abstention_receipt" where
  "validate_abstention order r =
     rbind (raise_if (abstention_fields r)) (\<lambda>_.
     rbind (as_validation (abstention_metrics_of order (ax_policy r) (ax_observations r))) (\<lambda>e.
     rbind (raise_if (abstention_relations (ax_metrics r) e
       @ [(abstention_root order r \<noteq> ax_root r, verr ''semantic abstention receipt root mismatch'')])) (\<lambda>_. Inr r)))"

definition create_abstention ::
  "set_order \<Rightarrow> abstention_policy \<Rightarrow> abstention_observation list \<Rightarrow> error + abstention_receipt" where
  "create_abstention order p xs =
     rbind (validate_abstention_policy p) (\<lambda>_.
     rbind (rfor validate_abstention_observation xs) (\<lambda>_.
     rbind (abstention_metrics_of order p xs) (\<lambda>m.
     let r = \<lparr>ax_policy = p, ax_observations = xs, ax_metrics = m, ax_root = []\<rparr> in
     validate_abstention order (r\<lparr>ax_root := abstention_root order r\<rparr>))))"

subsection \<open>Robustness (\<open>semantic/robustness.py\<close>)\<close>

datatype semantic_probe = PARAPHRASE | PROBE_ORDER | PROBE_FORMAT

datatype ensemble_consensus = UNANIMOUS_RESOLVED | UNANIMOUS_ABSTAIN | DISAGREEMENT

record stability_observation =
  sb_case_identity :: string
  sb_profile :: string
  sb_probe :: semantic_probe
  sb_baseline :: semantic_decision
  sb_transformed :: semantic_decision

record semantic_drift =
  sd_case_identity :: string
  sd_baseline_profile :: string
  sd_candidate_profile :: string
  sd_baseline :: semantic_decision
  sd_candidate :: semantic_decision

record semantic_agreement =
  sg_case_identity :: string
  sg_left_profile :: string
  sg_right_profile :: string
  sg_left :: semantic_decision
  sg_right :: semantic_decision

record ensemble_vote =
  sv_profile :: string
  sv_decision :: semantic_decision

record ensemble_observation =
  sn_case_identity :: string
  sn_votes :: "ensemble_vote list"

record robustness_summary =
  rb_stability :: int
  rb_stability_changes :: int
  rb_stability_abstentions :: int
  rb_drift :: int
  rb_drift_changes :: int
  rb_drift_abstentions :: int
  rb_agreement :: int
  rb_disagreements :: int
  rb_agreement_abstentions :: int
  rb_ensembles :: int
  rb_ensemble_disagreements :: int
  rb_unanimous_abstentions :: int

definition validate_stability :: "stability_observation \<Rightarrow> error + unit" where
  "validate_stability x = raise_if
     (sha_field ''case_identity'' (sb_case_identity x) @ sha_field ''judge_profile_identity'' (sb_profile x))"

definition validate_semantic_drift :: "semantic_drift \<Rightarrow> error + unit" where
  "validate_semantic_drift x = raise_if
     (sha_field ''case_identity'' (sd_case_identity x) @ sha_field ''baseline_profile_identity'' (sd_baseline_profile x)
      @ sha_field ''candidate_profile_identity'' (sd_candidate_profile x)
      @ [(sd_baseline_profile x = sd_candidate_profile x,
          verr ''semantic drift observation requires distinct judge profile identities'')])"

definition validate_agreement :: "semantic_agreement \<Rightarrow> error + unit" where
  "validate_agreement x = raise_if
     (sha_field ''case_identity'' (sg_case_identity x) @ sha_field ''left_profile_identity'' (sg_left_profile x)
      @ sha_field ''right_profile_identity'' (sg_right_profile x)
      @ [(sg_right_profile x \<le> sg_left_profile x,
          verr ''semantic agreement profile identities must be distinct and canonical'')])"

definition validate_ensemble :: "ensemble_observation \<Rightarrow> error + unit" where
  "validate_ensemble x = (let ids = map sv_profile (sn_votes x) in checks
     [raise_if (sha_field ''case_identity'' (sn_case_identity x)),
      rfor (\<lambda>i. raise_if (sha_field ''profile_identity'' i)) ids,
      raise_if (count_field ''votes'' 2 32 (sn_votes x)
        @ [(\<not> distinct ids, verr ''semantic ensemble requires unique judge profile identities''),
           (\<not> sorted ids, verr ''semantic ensemble votes must be ordered by judge profile identity'')])])"

definition stability_changed :: "stability_observation \<Rightarrow> bool" where
  "stability_changed x \<longleftrightarrow> sb_baseline x \<noteq> sb_transformed x"

definition stability_abstains :: "stability_observation \<Rightarrow> bool" where
  "stability_abstains x \<longleftrightarrow> sb_baseline x = SEM_ABSTAIN \<or> sb_transformed x = SEM_ABSTAIN"

definition drift_changed :: "semantic_drift \<Rightarrow> bool" where
  "drift_changed x \<longleftrightarrow> sd_baseline x \<noteq> sd_candidate x"

definition drift_abstains :: "semantic_drift \<Rightarrow> bool" where
  "drift_abstains x \<longleftrightarrow> sd_baseline x = SEM_ABSTAIN \<or> sd_candidate x = SEM_ABSTAIN"

definition judges_agree :: "semantic_agreement \<Rightarrow> bool" where
  "judges_agree x \<longleftrightarrow> sg_left x = sg_right x"

definition agreement_abstains :: "semantic_agreement \<Rightarrow> bool" where
  "agreement_abstains x \<longleftrightarrow> sg_left x = SEM_ABSTAIN \<or> sg_right x = SEM_ABSTAIN"

text \<open>The set of the decisions has one member exactly if all are the first.\<close>

definition consensus_of :: "ensemble_observation \<Rightarrow> ensemble_consensus" where
  "consensus_of x = (case remdups (map sv_decision (sn_votes x)) of
       [d] \<Rightarrow> if d = SEM_ABSTAIN then UNANIMOUS_ABSTAIN else UNANIMOUS_RESOLVED
     | _ \<Rightarrow> DISAGREEMENT)"

definition subcount_guards :: "robustness_summary \<Rightarrow> (bool \<times> error) list" where
  "subcount_guards s = map (\<lambda>(label, n, t). (n > t, verr (label @ '' cannot exceed its observation count'')))
     [(''stability_changes'', rb_stability_changes s, rb_stability s),
      (''stability_with_abstention'', rb_stability_abstentions s, rb_stability s),
      (''drift_changes'', rb_drift_changes s, rb_drift s), (''drift_with_abstention'', rb_drift_abstentions s, rb_drift s),
      (''agreement_disagreements'', rb_disagreements s, rb_agreement s),
      (''agreement_with_abstention'', rb_agreement_abstentions s, rb_agreement s),
      (''ensemble_disagreements'', rb_ensemble_disagreements s, rb_ensembles s),
      (''ensemble_unanimous_abstentions'', rb_unanimous_abstentions s, rb_ensembles s)]"

definition robustness_fields :: "robustness_summary \<Rightarrow> (bool \<times> error) list" where
  "robustness_fields s = concat (map (\<lambda>(label, n). int_field label 0 None n)
     [(''stability_observations'', rb_stability s), (''stability_changes'', rb_stability_changes s),
      (''stability_with_abstention'', rb_stability_abstentions s), (''drift_observations'', rb_drift s),
      (''drift_changes'', rb_drift_changes s), (''drift_with_abstention'', rb_drift_abstentions s),
      (''agreement_observations'', rb_agreement s), (''agreement_disagreements'', rb_disagreements s),
      (''agreement_with_abstention'', rb_agreement_abstentions s), (''ensemble_observations'', rb_ensembles s),
      (''ensemble_disagreements'', rb_ensemble_disagreements s),
      (''ensemble_unanimous_abstentions'', rb_unanimous_abstentions s)])"

definition validate_robustness :: "robustness_summary \<Rightarrow> error + robustness_summary" where
  "validate_robustness s = rbind (raise_if (robustness_fields s @ subcount_guards s)) (\<lambda>_. Inr s)"

definition how_many :: "('a \<Rightarrow> bool) \<Rightarrow> 'a list \<Rightarrow> int" where
  "how_many P xs = int (length (filter P xs))"

definition create_robustness ::
  "stability_observation list \<Rightarrow> semantic_drift list \<Rightarrow> semantic_agreement list \<Rightarrow> ensemble_observation list
    \<Rightarrow> error + robustness_summary" where
  "create_robustness stability drift agreement ensembles =
     rbind (checks [rfor validate_stability stability, rfor validate_semantic_drift drift,
                    rfor validate_agreement agreement, rfor validate_ensemble ensembles]) (\<lambda>_.
     validate_robustness
       \<lparr>rb_stability = int (length stability), rb_stability_changes = how_many stability_changed stability,
        rb_stability_abstentions = how_many stability_abstains stability,
        rb_drift = int (length drift), rb_drift_changes = how_many drift_changed drift,
        rb_drift_abstentions = how_many drift_abstains drift,
        rb_agreement = int (length agreement), rb_disagreements = how_many (Not \<circ> judges_agree) agreement,
        rb_agreement_abstentions = how_many agreement_abstains agreement,
        rb_ensembles = int (length ensembles),
        rb_ensemble_disagreements = how_many (\<lambda>x. consensus_of x = DISAGREEMENT) ensembles,
        rb_unanimous_abstentions = how_many (\<lambda>x. consensus_of x = UNANIMOUS_ABSTAIN) ensembles\<rparr>)"

subsection \<open>Counts never exceed their totals\<close>

lemma how_many_bounds: "0 \<le> how_many P xs" "\<not> int (length xs) < how_many P xs"
  by (simp_all add: how_many_def not_less)

definition robustness_of ::
  "stability_observation list \<Rightarrow> semantic_drift list \<Rightarrow> semantic_agreement list \<Rightarrow> ensemble_observation list
    \<Rightarrow> robustness_summary" where
  "robustness_of stability drift agreement ensembles =
     \<lparr>rb_stability = int (length stability), rb_stability_changes = how_many stability_changed stability,
      rb_stability_abstentions = how_many stability_abstains stability,
      rb_drift = int (length drift), rb_drift_changes = how_many drift_changed drift,
      rb_drift_abstentions = how_many drift_abstains drift,
      rb_agreement = int (length agreement), rb_disagreements = how_many (Not \<circ> judges_agree) agreement,
      rb_agreement_abstentions = how_many agreement_abstains agreement,
      rb_ensembles = int (length ensembles),
      rb_ensemble_disagreements = how_many (\<lambda>x. consensus_of x = DISAGREEMENT) ensembles,
      rb_unanimous_abstentions = how_many (\<lambda>x. consensus_of x = UNANIMOUS_ABSTAIN) ensembles\<rparr>"

lemma create_robustness_Inr:
  "create_robustness ss ds gs es = Inr r \<longleftrightarrow> r = robustness_of ss ds gs es \<and>
     list_all (\<lambda>x. validate_stability x = Inr ()) ss \<and> list_all (\<lambda>x. validate_semantic_drift x = Inr ()) ds \<and>
     list_all (\<lambda>x. validate_agreement x = Inr ()) gs \<and> list_all (\<lambda>x. validate_ensemble x = Inr ()) es"
proof -
  have "validate_robustness (robustness_of ss ds gs es) = Inr (robustness_of ss ds gs es)"
    by (simp add: validate_robustness_def rbind_Inr robustness_fields_def subcount_guards_def robustness_of_def how_many_bounds
        field_ok raise_if_Inr)
  then show ?thesis
    by (auto simp: create_robustness_def robustness_of_def rbind_Inr rfor_Inr list_all_iff)
qed

lemma consensus_cases:
  "consensus_of x = UNANIMOUS_ABSTAIN \<longleftrightarrow> set (map sv_decision (sn_votes x)) = {SEM_ABSTAIN}"
  "consensus_of x = UNANIMOUS_RESOLVED \<longleftrightarrow> (\<exists>d. d \<noteq> SEM_ABSTAIN \<and> set (map sv_decision (sn_votes x)) = {d})"
proof -
  have single: "remdups xs = [d] \<longleftrightarrow> set xs = {d}" for xs and d :: semantic_decision
  proof
    assume "set xs = {d}"
    then have "length (remdups xs) = 1" "set (remdups xs) = {d}" by (simp_all add: length_remdups_card_conv)
    then obtain y where "remdups xs = [y]" by (auto simp: length_Suc_conv)
    then show "remdups xs = [d]" using \<open>set (remdups xs) = {d}\<close> by simp
  next
    assume "remdups xs = [d]"
    then show "set xs = {d}" by (metis set_remdups list.set(1) list.simps(15))
  qed
  show "consensus_of x = UNANIMOUS_ABSTAIN \<longleftrightarrow> set (map sv_decision (sn_votes x)) = {SEM_ABSTAIN}"
    "consensus_of x = UNANIMOUS_RESOLVED \<longleftrightarrow> (\<exists>d. d \<noteq> SEM_ABSTAIN \<and> set (map sv_decision (sn_votes x)) = {d})"
    unfolding single [symmetric] consensus_of_def by (auto split: list.splits)
qed

subsection \<open>Abstention\<close>

text \<open>Every observation is an abstention, a wrong resolution or a failure of the judge.\<close>

lemma observed_partition:
  "observed_count {Some SEM_ABSTAIN} os + observed_count {Some SEM_PASS, Some SEM_FAIL} os + observed_count {None} os = int (length os)"
proof -
  have "d = None \<or> d = Some SEM_ABSTAIN \<or> d = Some SEM_PASS \<or> d = Some SEM_FAIL" for d
    by (cases d; cases "the d") auto
  then show ?thesis
    by (induction os) (force simp: observed_count_def)+
qed

lemma abstention_metrics_Inr:
  "abstention_metrics_of order p xs = Inr m \<longleftrightarrow> xs \<noteq> [] \<and> distinct (map (abstention_case_identity order \<circ> ab_case) xs) \<and>
     (\<exists>os. rmap ab_observed xs = Inr os \<and> m = abstention_counts p xs os)"
  by (auto simp: abstention_metrics_of_def rbind_Inr raise_if_Inr)

lemma abstention_metrics_partition:
  assumes "abstention_metrics_of order p xs = Inr m"
  shows "am_abstentions m + am_incorrect m + am_failures m = am_total m" "am_total m = int (length xs)"
proof -
  from assms obtain os where os: "rmap ab_observed xs = Inr os" "m = abstention_counts p xs os"
    by (auto simp: abstention_metrics_Inr)
  then have "length os = length xs" by (auto simp: rmap_Inr list_all2_lengthD)
  then show "am_abstentions m + am_incorrect m + am_failures m = am_total m" "am_total m = int (length xs)"
    using observed_partition [of os] os(2) by (simp_all add: abstention_counts_def Let_def)
qed

lemma create_abstention_Inr:
  "create_abstention order p xs = Inr r \<longleftrightarrow> validate_abstention_policy p = Inr () \<and>
     list_all (\<lambda>x. validate_abstention_observation x = Inr ()) xs \<and>
     (\<exists>m. abstention_metrics_of order p xs = Inr m \<and>
       r = \<lparr>ax_policy = p, ax_observations = xs, ax_metrics = m,
            ax_root = abstention_root order \<lparr>ax_policy = p, ax_observations = xs, ax_metrics = m, ax_root = []\<rparr>\<rparr>)"
proof -
  have root: "abstention_root order (s\<lparr>ax_root := t\<rparr>) = abstention_root order s" for s t
    by (simp add: abstention_root_def abstention_material_def)
  have "validate_abstention order (s\<lparr>ax_root := abstention_root order s\<rparr>) = Inr (s\<lparr>ax_root := abstention_root order s\<rparr>)"
    if m: "abstention_metrics_of order p xs = Inr m" and s: "s = \<lparr>ax_policy = p, ax_observations = xs, ax_metrics = m, ax_root = []\<rparr>"
    for m s
  proof -
    have "xs \<noteq> []" using m by (simp add: abstention_metrics_Inr)
    moreover have "1 \<le> am_total m" "0 \<le> am_abstentions m" "0 \<le> am_incorrect m" "0 \<le> am_failures m"
      using m by (cases xs; auto simp: abstention_metrics_Inr abstention_counts_def Let_def observed_count_def)+
    ultimately show ?thesis using m s
      by (simp add: validate_abstention_def abstention_fields_def abstention_relations_def Let_def rbind_Inr
          raise_if_Inr field_ok as_validation_Inr root)
         (simp add: abstention_root_def abstention_material_def)
  qed
  then show ?thesis
    by (auto simp: create_abstention_def rbind_Inr rfor_Inr list_all_iff)
qed

subsection \<open>An identity that is not one\<close>

text \<open>The identity of an abstention case is taken over its tags in the order a process iterates them.\<close>

definition abstention_case_bytes :: "set_order \<Rightarrow> abstention_case \<Rightarrow> string" where
  "abstention_case_bytes order c = abstention_case_domain @ utf8 (json_dumps_unicode (abstention_case_json order c))"

lemma sorted_abstention_case:
  "sort_keys (abstention_case_json order c) = JObj
     ([(''candidate_output'', JStr (ac_candidate c)), (''case_id'', JStr (ac_case_id c)), (''objective'', JStr (ac_objective c)),
       (''revision'', JStr (ac_revision c)), (''rubric'', sort_keys (rubric_material (ac_rubric c))),
       (''schema_version'', JStr abstention_case_schema)] @ (''tags'', sort_keys (set_json order (ac_tags c))) # [])"
  by (simp add: abstention_case_json_def)

lemma abstention_case_order:
  "abstention_case_identity order c = abstention_case_identity order' c \<longleftrightarrow>
     order (ac_tags c) = order' (ac_tags c) \<or>
     sha256_collision (abstention_case_bytes order c) (abstention_case_bytes order' c)"
proof
  assume "abstention_case_identity order c = abstention_case_identity order' c"
  then have "sha256_hex (abstention_case_bytes order c) = sha256_hex (abstention_case_bytes order' c)"
    by (simp add: abstention_case_identity_def domain_root_def abstention_case_bytes_def)
  moreover have "order (ac_tags c) = order' (ac_tags c)"
    if "abstention_case_bytes order c = abstention_case_bytes order' c"
  proof -
    have "dumps_raw False (sort_keys (abstention_case_json order c)) = dumps_raw False (sort_keys (abstention_case_json order' c))"
      using that by - (rule utf8_inj, simp add: abstention_case_bytes_def json_dumps_unicode_def del: dumps_raw.simps sort_keys.simps)
    then have "dumps_raw False (sort_keys (set_json order (ac_tags c))) = dumps_raw False (sort_keys (set_json order' (ac_tags c)))"
      unfolding sorted_abstention_case by (rule dumps_member)
    then show ?thesis by (rule tag_texts)
  qed
  ultimately show "order (ac_tags c) = order' (ac_tags c) \<or>
      sha256_collision (abstention_case_bytes order c) (abstention_case_bytes order' c)"
    using sha256_hex_eqD by blast
next
  have "abstention_case_identity order c = abstention_case_identity order' c"
    if "order (ac_tags c) = order' (ac_tags c)"
    using that by (simp add: abstention_case_identity_def abstention_case_json_def set_json_def)
  moreover have "abstention_case_identity order c = abstention_case_identity order' c"
    if "sha256_collision (abstention_case_bytes order c) (abstention_case_bytes order' c)"
    using that by (simp add: abstention_case_identity_def domain_root_def sha256_collision_def sha256_hex_def abstention_case_bytes_def)
  ultimately show "order (ac_tags c) = order' (ac_tags c) \<or>
      sha256_collision (abstention_case_bytes order c) (abstention_case_bytes order' c) \<Longrightarrow>
      abstention_case_identity order c = abstention_case_identity order' c" by blast
qed

subsection \<open>Leakage is counted in probes, not in cases\<close>

lemma leakage_covered_all: "set (leakage_covered xs) = lo_probe ` set xs"
proof -
  have "k \<in> set leakage_probes" for k by (cases k) (simp_all add: leakage_probes_def)
  then show ?thesis by (auto simp: leakage_covered_def)
qed

lemma create_leakage_Inr:
  "create_leakage order p xs = Inr r \<longleftrightarrow> validate_leakage_policy p = Inr () \<and>
     list_all (\<lambda>x. validate_leakage_observation x = Inr ()) xs \<and> xs \<noteq> [] \<and>
     distinct (map (\<lambda>x. (lo_case_identity x, lo_probe x)) xs) \<and>
     r = (leakage_of p xs)\<lparr>lk_root := leakage_root order (leakage_of p xs)\<rparr>"
proof -
  have root: "leakage_root order (s\<lparr>lk_root := t\<rparr>) = leakage_root order s" for s t
    by (simp add: leakage_root_def leakage_material_def)
  have "validate_leakage order ((leakage_of p xs)\<lparr>lk_root := leakage_root order (leakage_of p xs)\<rparr>)
      = Inr ((leakage_of p xs)\<lparr>lk_root := leakage_root order (leakage_of p xs)\<rparr>)"
    if "xs \<noteq> []" "distinct (map (\<lambda>x. (lo_case_identity x, lo_probe x)) xs)"
  proof -
    have "1 \<le> int (length xs)" using that(1) by (cases xs) simp_all
    then show ?thesis using that
      by (simp add: validate_leakage_def leakage_fields_def leakage_relations_def Let_def rbind_Inr raise_if_Inr
          field_ok as_validation_Inr root leakage_guards_def)
         (simp add: leakage_of_def detections_of_def leakage_root_def leakage_material_def)
  qed
  then show ?thesis
    by (auto simp: create_leakage_def Let_def rbind_Inr rfor_Inr list_all_iff leakage_guards_def raise_if_Inr)
qed

text \<open>Four probes of one case meet the default minimum of four cases.\<close>

definition one_case_probes :: "string \<Rightarrow> string \<Rightarrow> leakage_observation list" where
  "one_case_probes identity evidence =
     map (\<lambda>k. \<lparr>lo_case_identity = identity, lo_probe = k, lo_detected = False, lo_evidence_sha256 = evidence\<rparr>) leakage_probes"

definition default_leakage_policy :: leakage_policy where
  "default_leakage_policy = \<lparr>lp_min_cases = 4, lp_max_detections = 0, lp_required = set leakage_probes\<rparr>"

lemma one_case_accepted:
  "(\<exists>r. create_leakage order default_leakage_policy (one_case_probes i e) = Inr r \<and> lk_accepted r) \<longleftrightarrow>
     is_sha256 i \<and> is_sha256 e"
  unfolding create_leakage_Inr
  by (auto simp: one_case_probes_def default_leakage_policy_def leakage_probes_def validate_leakage_policy_def field_ok
      raise_if_Inr validate_leakage_observation_def leakage_of_def leakage_accepted_def leakage_covered_all
      detections_of_def list_all_iff)

end
