(* ===== verification/Redaction.thy ===== *)
theory Redaction
  imports EvidenceProofs Recomputed Retrieval
begin

section \<open>Minimization of evidence before it is stored (\<open>evidence/minimization.py\<close>)\<close>

text \<open>
  Credentials found by a fixed set of recognisers and values at paths the operator declares are
  replaced by markers in the surfaces a store may rewrite; on every other surface they refuse the
  evidence. The budget of visited nodes and the counts of replacements are a state that the traversal
  threads. A regular expression is a list of items that is matched by trying every way; only whether
  a match exists matters.
\<close>

definition emerr :: "string \<Rightarrow> error" where
  "emerr msg = Err EvidenceMinimizationError msg"

subsection \<open>Threading a state through a list\<close>

fun rthread :: "('a \<Rightarrow> 's \<Rightarrow> 'e + 'b \<times> 's) \<Rightarrow> 'a list \<Rightarrow> 's \<Rightarrow> 'e + 'b list \<times> 's" where
  "rthread f [] s = Inr ([], s)"
| "rthread f (x # xs) s = rbind (f x s) (\<lambda>(y, t). rbind (rthread f xs t) (\<lambda>(ys, u). Inr (y # ys, u)))"

lemma rthread_cong [fundef_cong]:
  "xs = ys \<Longrightarrow> s = t \<Longrightarrow> (\<And>x u. x \<in> set ys \<Longrightarrow> f x u = g x u) \<Longrightarrow> rthread f xs s = rthread g ys t"
proof -
  have "(\<And>x u. x \<in> set ys \<Longrightarrow> f x u = g x u) \<Longrightarrow> rthread f ys t = rthread g ys t" for t
  proof (induction ys arbitrary: t)
    case (Cons y ys)
    then have "f y t = g y t" "rthread f ys u = rthread g ys u" for u by simp_all
    then show ?case by simp
  qed simp
  then show "xs = ys \<Longrightarrow> s = t \<Longrightarrow> (\<And>x u. x \<in> set ys \<Longrightarrow> f x u = g x u) \<Longrightarrow> rthread f xs s = rthread g ys t"
    by simp
qed

fun rfold :: "('a \<Rightarrow> 's \<Rightarrow> 'e + 's) \<Rightarrow> 'a list \<Rightarrow> 's \<Rightarrow> 'e + 's" where
  "rfold f [] s = Inr s"
| "rfold f (x # xs) s = rbind (f x s) (rfold f xs)"

subsection \<open>Recognisers of credentials\<close>

datatype rx = One "char \<Rightarrow> bool" | Maybe "char \<Rightarrow> bool" | Many nat "char \<Rightarrow> bool" | Boundary

definition word_char :: "char \<Rightarrow> bool" where
  "word_char c \<longleftrightarrow> is_alnum c \<or> c = CHR ''_''"

definition at_boundary :: "char option \<Rightarrow> string \<Rightarrow> bool" where
  "at_boundary p s \<longleftrightarrow> (case p of None \<Rightarrow> False | Some c \<Rightarrow> word_char c) \<noteq> (case s of [] \<Rightarrow> False | c # _ \<Rightarrow> word_char c)"

text \<open>A match that begins where \<open>p\<close> is the character before and \<open>s\<close> what follows.\<close>

fun rx_match :: "rx list \<Rightarrow> char option \<Rightarrow> string \<Rightarrow> bool" where
  "rx_match [] p s = True"
| "rx_match (Boundary # r) p s = (at_boundary p s \<and> rx_match r p s)"
| "rx_match (One P # r) p [] = False"
| "rx_match (One P # r) p (c # s) = (P c \<and> rx_match r (Some c) s)"
| "rx_match (Maybe P # r) p [] = rx_match r p []"
| "rx_match (Maybe P # r) p (c # s) = (P c \<and> rx_match r (Some c) s \<or> rx_match r p (c # s))"
| "rx_match (Many n P # r) p [] = (n = 0 \<and> rx_match r p [])"
| "rx_match (Many n P # r) p (c # s) =
     (P c \<and> rx_match (Many (n - 1) P # r) (Some c) s \<or> n = 0 \<and> rx_match r p (c # s))"

fun rx_search :: "rx list \<Rightarrow> char option \<Rightarrow> string \<Rightarrow> bool" where
  "rx_search r p [] = rx_match r p []"
| "rx_search r p (c # s) = (rx_match r p (c # s) \<or> rx_search r (Some c) s)"

definition ascii_lower :: "char \<Rightarrow> char" where
  "ascii_lower c = (let n = (of_char c :: nat) in if 65 \<le> n \<and> n \<le> 90 then char_of (n + 32) else c)"

text \<open>The letters of a word under \<open>(?i)\<close>.\<close>

definition any_case :: "string \<Rightarrow> rx list" where
  "any_case w = map (\<lambda>c. One (\<lambda>d. ascii_lower d = c)) w"

definition among :: "string \<Rightarrow> char \<Rightarrow> bool" where
  "among extra c \<longleftrightarrow> is_digit_char (ascii_lower c) \<or> is_lower_char (ascii_lower c) \<or> c \<in> set extra"

definition upper_alnum :: "char \<Rightarrow> bool" where
  "upper_alnum c \<longleftrightarrow> (let n = (of_char c :: nat) in is_digit_char c \<or> (65 \<le> n \<and> n \<le> 90))"

definition token_pattern :: "rx list \<Rightarrow> string \<Rightarrow> rx list" where
  "token_pattern start extra = Boundary # start @ [Many 8 (among extra), Boundary]"

definition assignment_pattern :: "rx list \<Rightarrow> rx list" where
  "assignment_pattern name = Boundary # name
     @ [Many 0 py_space, One (\<lambda>c. c \<in> set '':=''), Many 0 py_space, Many 8 (\<lambda>c. \<not> py_space c)]"

definition credential_patterns :: "rx list list" where
  "credential_patterns =
     [token_pattern (any_case ''bearer'' @ [Many 1 py_space]) ''._~+/=-'',
      token_pattern (any_case ''sk-'') ''_-'',
      token_pattern (any_case ''gh'' @ [One (\<lambda>c. ascii_lower c \<in> set ''pousr'')] @ any_case ''_'') ''_'',
      token_pattern (any_case ''github_pat_'') ''_'',
      Boundary # map (\<lambda>c. One (\<lambda>d. d = c)) ''AKIA'' @ replicate 16 (One upper_alnum) @ [Boundary],
      assignment_pattern (any_case ''api'' @ [Maybe (\<lambda>c. c \<in> set ''_ -'')] @ any_case ''key''),
      assignment_pattern (any_case ''access'' @ [Maybe (\<lambda>c. c \<in> set ''_ -'')] @ any_case ''token''),
      assignment_pattern (any_case ''refresh'' @ [Maybe (\<lambda>c. c \<in> set ''_ -'')] @ any_case ''token''),
      assignment_pattern (any_case ''secret''), assignment_pattern (any_case ''password'')]"

definition has_credential :: "string \<Rightarrow> bool" where
  "has_credential s \<longleftrightarrow> list_ex (\<lambda>r. rx_search r None s) credential_patterns"

definition sensitive_parts :: "string list" where
  "sensitive_parts = [''apikey'', ''authorization'', ''cookie'', ''credential'', ''password'', ''privatekey'', ''refreshtoken'',
     ''secret'', ''setcookie'', ''token'']"

text \<open>\<open>casefold\<close> up to code point 255, of what the pattern keeps: only \<open>ss\<close> for the sharp s is more than lower case.\<close>

definition key_letters :: "string \<Rightarrow> string" where
  "key_letters k = filter (\<lambda>c. is_digit_char c \<or> is_lower_char c)
     (concat (map (\<lambda>c. if (of_char c :: nat) = 223 then ''ss'' else [py_lower_char c]) k))"

definition sensitive_key :: "string \<Rightarrow> bool" where
  "sensitive_key k \<longleftrightarrow> list_ex (\<lambda>part. suffix part (key_letters k)) sensitive_parts"

definition credential_marker :: string where
  "credential_marker = ''[REDACTED:CREDENTIAL]''"

definition pii_marker :: string where
  "pii_marker = ''[REDACTED:OPERATOR_PII]''"

subsection \<open>Paths\<close>

datatype path_scope = FINAL_STATE | FINAL_OUTPUT | EVENTS

datatype event_selector = AllEvents | EventIndex nat

record parsed_path =
  pp_scope :: path_scope
  pp_selector :: "event_selector option"
  pp_tail :: "string list"
  pp_canonical :: string

fun decode_chars :: "string \<Rightarrow> error + string" where
  "decode_chars [] = Inr []"
| "decode_chars (c # s) =
     (if c \<noteq> CHR ''~'' then rbind (decode_chars s) (\<lambda>t. Inr (c # t))
      else (case s of
          CHR ''0'' # r \<Rightarrow> rbind (decode_chars r) (\<lambda>t. Inr (CHR ''~'' # t))
        | CHR ''1'' # r \<Rightarrow> rbind (decode_chars r) (\<lambda>t. Inr (CHR ''/'' # t))
        | _ \<Rightarrow> Inl (vale ''operator PII path contains invalid JSON Pointer escaping'')))"

definition decode_segment :: "string \<Rightarrow> error + string" where
  "decode_segment s = rbind (decode_chars s) (\<lambda>t.
     if t = [] then Inl (vale ''operator PII path segments must not be empty'') else Inr t)"

definition encode_segment :: "string \<Rightarrow> string" where
  "encode_segment s = concat (map (\<lambda>c. if c = CHR ''~'' then ''~0'' else if c = CHR ''/'' then ''~1'' else [c]) s)"

definition list_index :: "string \<Rightarrow> nat option" where
  "list_index s =
     (if s = [] \<or> \<not> list_all is_digit_char s \<or> 1 < length s \<and> hd s = CHR ''0'' then None else Some (digits_val s))"

definition encoded_tail :: "string list \<Rightarrow> string" where
  "encoded_tail tail = str_join ''/'' (map encode_segment tail)"

definition parse_selector :: "string \<Rightarrow> error + event_selector" where
  "parse_selector s = (if s = ''*'' then Inr AllEvents
     else (case list_index s of None \<Rightarrow> Inl (vale ''event PII path index must be '*' or a canonical integer'')
           | Some i \<Rightarrow> Inr (EventIndex i)))"

fun selector_text :: "event_selector \<Rightarrow> string" where
  "selector_text AllEvents = ''*''"
| "selector_text (EventIndex i) = nat_str i"

definition parse_segments :: "string list \<Rightarrow> error + parsed_path" where
  "parse_segments segments =
     (if hd segments = ''final_output'' then
        if length segments \<noteq> 1 then Inl (vale ''final_output PII path must classify the whole text value'')
        else Inr \<lparr>pp_scope = FINAL_OUTPUT, pp_selector = None, pp_tail = [], pp_canonical = ''/final_output''\<rparr>
      else if hd segments = ''final_state'' then
        if length segments < 2 then Inl (vale ''final_state PII path must target a nested JSON value'')
        else Inr \<lparr>pp_scope = FINAL_STATE, pp_selector = None, pp_tail = tl segments,
                  pp_canonical = ''/final_state/'' @ encoded_tail (tl segments)\<rparr>
      else if hd segments = ''events'' then
        if length segments < 4 \<or> segments ! 2 \<noteq> ''payload''
        then Inl (vale ''event PII path must target /events/<index|*>/payload/...'')
        else rbind (parse_selector (segments ! 1)) (\<lambda>sel.
          let tail = drop 3 segments in
          if tail = [] \<or> ''*'' \<in> set tail then Inl (vale ''wildcards are allowed only for the event index'')
          else Inr \<lparr>pp_scope = EVENTS, pp_selector = Some sel, pp_tail = tail,
                    pp_canonical = ''/events/'' @ selector_text sel @ ''/payload/'' @ encoded_tail tail\<rparr>)
      else Inl (vale ''operator PII path must target final_state, final_output, or event payload''))"

definition parse_path :: "string \<Rightarrow> error + parsed_path" where
  "parse_path path =
     (if path = [] \<or> hd path \<noteq> CHR ''/'' \<or> 512 < length (utf8 path)
      then Inl (vale ''operator PII path is malformed or exceeds its byte ceiling'')
      else let encoded = str_split (CHR ''/'') (tl path) in
        if 32 < length encoded \<or> [] \<in> set encoded then Inl (vale ''operator PII path has invalid segment structure'')
        else rbind (rmap decode_segment encoded) parse_segments)"

definition selectors_overlap :: "event_selector option \<Rightarrow> event_selector option \<Rightarrow> bool" where
  "selectors_overlap a b \<longleftrightarrow> a = Some AllEvents \<or> b = Some AllEvents \<or> a = b"

definition paths_overlap :: "parsed_path \<Rightarrow> parsed_path \<Rightarrow> bool" where
  "paths_overlap a b \<longleftrightarrow> pp_scope a = pp_scope b \<and>
     (pp_scope a = FINAL_OUTPUT \<or>
      (pp_scope a = EVENTS \<longrightarrow> selectors_overlap (pp_selector a) (pp_selector b)) \<and>
      (prefix (pp_tail a) (pp_tail b) \<or> prefix (pp_tail b) (pp_tail a)))"

subsection \<open>The policy\<close>

record min_policy =
  mn_paths :: "string list"
  mn_max_nodes :: int
  mn_max_redactions :: int

definition min_policy_schema :: string where
  "min_policy_schema = ''agent-evals/evidence-minimization-policy/v1''"

definition min_policy_domain :: string where
  "min_policy_domain = ''agent-evals/evidence-minimization-policy/v1'' @ [CHR 0x00]"

definition canonical_paths :: "string list \<Rightarrow> error + string list" where
  "canonical_paths raw =
     (if 64 < length raw then Inl (vale ''operator PII path count exceeds configured policy ceiling'')
      else rbind (rmap parse_path raw) (\<lambda>parsed.
        rbind (raise_if
          [(\<not> distinct (map pp_canonical parsed), vale ''operator PII paths must be unique''),
           (\<not> sorted_wrt (\<lambda>a b. \<not> paths_overlap a b) parsed, vale ''operator PII paths must not overlap'')]) (\<lambda>_.
        Inr (sort (map pp_canonical parsed)))))"

definition create_min_policy :: "string list \<Rightarrow> int \<Rightarrow> int \<Rightarrow> error + min_policy" where
  "create_min_policy raw nodes redactions =
     rbind (as_validation (canonical_paths raw)) (\<lambda>paths.
     rbind (raise_if (int_field ''max_traversal_nodes'' 1 (Some 100000) nodes
       @ int_field ''max_redactions'' 1 (Some 16384) redactions)) (\<lambda>_.
     Inr \<lparr>mn_paths = paths, mn_max_nodes = nodes, mn_max_redactions = redactions\<rparr>))"

definition min_policy_id :: "min_policy \<Rightarrow> string" where
  "min_policy_id p = domain_root min_policy_domain (JObj
     [(''schema_version'', JStr min_policy_schema), (''credential_heuristics'', JBool True),
      (''operator_pii_paths'', JArr (map JStr (mn_paths p))), (''max_traversal_nodes'', JInt (mn_max_nodes p)),
      (''max_redactions'', JInt (mn_max_redactions p))])"

subsection \<open>The traversal\<close>

record traversal =
  tv_visited :: int
  tv_credential :: int
  tv_pii :: int

definition consume :: "min_policy \<Rightarrow> traversal \<Rightarrow> error + traversal" where
  "consume p st = (let n = tv_visited st + 1 in
     if n > mn_max_nodes p then Inl (emerr ''evidence minimization traversal exceeds configured node ceiling'')
     else Inr (st\<lparr>tv_visited := n\<rparr>))"

definition checked_counts :: "min_policy \<Rightarrow> traversal \<Rightarrow> error + traversal" where
  "checked_counts p st = (if tv_credential st + tv_pii st > mn_max_redactions p
     then Inl (emerr ''evidence minimization exceeds configured redaction ceiling'') else Inr st)"

definition add_credential :: "min_policy \<Rightarrow> traversal \<Rightarrow> error + traversal" where
  "add_credential p st = checked_counts p (st\<lparr>tv_credential := tv_credential st + 1\<rparr>)"

definition add_pii :: "min_policy \<Rightarrow> traversal \<Rightarrow> error + traversal" where
  "add_pii p st = checked_counts p (st\<lparr>tv_pii := tv_pii st + 1\<rparr>)"

definition authority_conflict :: error where
  "authority_conflict = emerr ''credential material intersects an authority-bearing event payload''"

definition transform_string :: "min_policy \<Rightarrow> bool \<Rightarrow> string \<Rightarrow> traversal \<Rightarrow> error + string \<times> traversal" where
  "transform_string p allow s st =
     (if s = credential_marker then rbind (add_credential p st) (\<lambda>st'. Inr (s, st'))
      else if \<not> has_credential s then Inr (s, st)
      else if \<not> allow then Inl authority_conflict
      else rbind (add_credential p st) (\<lambda>st'. Inr (credential_marker, st')))"

fun transform :: "min_policy \<Rightarrow> bool \<Rightarrow> json \<Rightarrow> traversal \<Rightarrow> error + json \<times> traversal" where
  "transform p allow (JObj ms) st = rbind (consume p st) (\<lambda>st.
     rbind (rthread (\<lambda>kv st.
         if sensitive_key (fst kv) then
           if \<not> allow \<and> snd kv \<noteq> JStr credential_marker then Inl authority_conflict
           else rbind (add_credential p st) (\<lambda>st. Inr ((fst kv, JStr credential_marker), st))
         else rbind (transform p allow (snd kv) st) (\<lambda>(v, st). Inr ((fst kv, v), st))) ms st)
       (\<lambda>(ms, st). Inr (JObj ms, st)))"
| "transform p allow (JArr xs) st = rbind (consume p st) (\<lambda>st.
     rbind (rthread (transform p allow) xs st) (\<lambda>(xs, st). Inr (JArr xs, st)))"
| "transform p allow (JStr s) st = rbind (consume p st) (\<lambda>st.
     rbind (transform_string p allow s st) (\<lambda>(s, st). Inr (JStr s, st)))"
| "transform p allow v st = rbind (consume p st) (\<lambda>st. Inr (v, st))"

text \<open>\<open>any(...)\<close> stops at the first member that contains one.\<close>

fun contains_credential :: "min_policy \<Rightarrow> string option \<Rightarrow> json \<Rightarrow> traversal \<Rightarrow> error + bool \<times> traversal"
  and contains_members :: "min_policy \<Rightarrow> (string \<times> json) list \<Rightarrow> traversal \<Rightarrow> error + bool \<times> traversal"
  and contains_items :: "min_policy \<Rightarrow> json list \<Rightarrow> traversal \<Rightarrow> error + bool \<times> traversal" where
  "contains_credential p key v st = rbind (consume p st) (\<lambda>st.
     if (case key of None \<Rightarrow> False | Some k \<Rightarrow> sensitive_key k) then Inr (True, st)
     else (case v of
         JObj ms \<Rightarrow> contains_members p ms st
       | JArr xs \<Rightarrow> contains_items p xs st
       | JStr s \<Rightarrow> Inr (s = credential_marker \<or> has_credential s, st)
       | _ \<Rightarrow> Inr (False, st)))"
| "contains_members p [] st = Inr (False, st)"
| "contains_members p ((k, v) # ms) st =
     rbind (contains_credential p (Some k) v st) (\<lambda>(b, st). if b then Inr (True, st) else contains_members p ms st)"
| "contains_items p [] st = Inr (False, st)"
| "contains_items p (v # vs) st =
     rbind (contains_credential p None v st) (\<lambda>(b, st). if b then Inr (True, st) else contains_items p vs st)"

definition resolve_child :: "json \<Rightarrow> string \<Rightarrow> error + json option" where
  "resolve_child v seg = (case v of
       JObj ms \<Rightarrow> Inr (dict_get ms seg)
     | JArr xs \<Rightarrow> (case list_index seg of
           None \<Rightarrow> Inl (emerr ''operator PII path is incompatible with JSON container shape'')
         | Some i \<Rightarrow> Inr (if i < length xs then Some (xs ! i) else None))
     | _ \<Rightarrow> Inl (emerr ''operator PII path traverses a non-container JSON value''))"

text \<open>The container with the resolved child put in its place, as the assignment in place leaves it.\<close>

fun replace_member :: "dict \<Rightarrow> string \<Rightarrow> json \<Rightarrow> dict" where
  "replace_member [] seg w = []"
| "replace_member (kv # ms) seg w = (if fst kv = seg then (fst kv, w) # ms else kv # replace_member ms seg w)"

definition replace_child :: "json \<Rightarrow> string \<Rightarrow> json \<Rightarrow> json" where
  "replace_child v seg w = (case v of
       JObj ms \<Rightarrow> JObj (replace_member ms seg w)
     | JArr xs \<Rightarrow> JArr (case list_index seg of None \<Rightarrow> xs | Some i \<Rightarrow> xs[i := w])
     | _ \<Rightarrow> v)"

definition redact_target :: "min_policy \<Rightarrow> bool \<Rightarrow> string \<Rightarrow> json \<Rightarrow> traversal \<Rightarrow> error + json \<times> traversal" where
  "redact_target p allow seg target st =
     (if \<not> allow then Inl (emerr ''operator PII path intersects an authority-bearing event payload'')
      else rbind (contains_credential p (Some seg) target st) (\<lambda>(c, st).
        if c then Inl (emerr ''operator PII classification conflicts with credential classification'')
        else rbind (add_pii p st) (\<lambda>st. Inr (JStr pii_marker, st))))"

text \<open>A parsed path has a tail of at least one segment here.\<close>

fun redact_path :: "min_policy \<Rightarrow> bool \<Rightarrow> string list \<Rightarrow> json \<Rightarrow> traversal \<Rightarrow> error + json \<times> traversal" where
  "redact_path p allow [] v st = Inr (v, st)"
| "redact_path p allow (seg # rest) v st = rbind (consume p st) (\<lambda>st.
     rbind (resolve_child v seg) (\<lambda>child. case child of
         None \<Rightarrow> Inr (v, st)
       | Some w \<Rightarrow> rbind (if rest = [] then redact_target p allow seg w st else redact_path p allow rest w st) (\<lambda>(w, st).
           Inr (replace_child v seg w, st))))"

subsection \<open>Minimizing evidence\<close>

definition payload_redactable :: "evidence_event \<Rightarrow> bool" where
  "payload_redactable e \<longleftrightarrow> \<not> ev_critical e \<and> ev_kind e \<in> {STATE, OUTPUT, EVALUATION_ERROR, RUNTIME_ERROR}"

record surfaces =
  sf_state :: json
  sf_output :: "string option"
  sf_payloads :: "json list"

definition selected_events :: "event_selector option \<Rightarrow> nat \<Rightarrow> nat list" where
  "selected_events sel n = (case sel of Some AllEvents \<Rightarrow> [0..<n] | Some (EventIndex i) \<Rightarrow> if i < n then [i] else [] | None \<Rightarrow> [])"

definition redact_event :: "min_policy \<Rightarrow> evidence_event list \<Rightarrow> string list \<Rightarrow> nat \<Rightarrow> surfaces \<times> traversal \<Rightarrow> error + surfaces \<times> traversal" where
  "redact_event p events tail i w = (case w of (s, st) \<Rightarrow>
     rbind (redact_path p (payload_redactable (events ! i)) tail (sf_payloads s ! i) st) (\<lambda>(v, st).
     Inr (s\<lparr>sf_payloads := (sf_payloads s)[i := v]\<rparr>, st)))"

definition apply_path :: "min_policy \<Rightarrow> evidence_event list \<Rightarrow> parsed_path \<Rightarrow> surfaces \<times> traversal \<Rightarrow> error + surfaces \<times> traversal" where
  "apply_path p events q w = (case w of (s, st) \<Rightarrow> (case pp_scope q of
       FINAL_OUTPUT \<Rightarrow> (case sf_output s of
           None \<Rightarrow> Inr (s, st)
         | Some text \<Rightarrow> rbind (consume p st) (\<lambda>st.
             if has_credential text
             then Inl (emerr ''operator PII classification conflicts with credential classification'')
             else rbind (add_pii p st) (\<lambda>st. Inr (s\<lparr>sf_output := Some pii_marker\<rparr>, st))))
     | FINAL_STATE \<Rightarrow> rbind (redact_path p True (pp_tail q) (sf_state s) st) (\<lambda>(v, st). Inr (s\<lparr>sf_state := v\<rparr>, st))
     | EVENTS \<Rightarrow> rfold (redact_event p events (pp_tail q)) (selected_events (pp_selector q) (length events)) (s, st)))"

definition minimize_event :: "min_policy \<Rightarrow> evidence_event \<times> json \<Rightarrow> traversal \<Rightarrow> error + evidence_event \<times> traversal" where
  "minimize_event p ev st = (case ev of (e, payload) \<Rightarrow>
     rbind (transform p (payload_redactable e) payload st) (\<lambda>(v, st).
     rbind (snapshot_event (e\<lparr>ev_payload := (case v of JObj d \<Rightarrow> d | _ \<Rightarrow> [])\<rparr>)) (\<lambda>e. Inr (e, st))))"

datatype sensitive_class = CREDENTIAL | OPERATOR_PII

fun sensitive_value :: "sensitive_class \<Rightarrow> string" where
  "sensitive_value CREDENTIAL = ''credential''"
| "sensitive_value OPERATOR_PII = ''operator_pii''"

record min_receipt =
  mz_policy_id :: string
  mz_classifications :: "(sensitive_class \<times> int) list"
  mz_result_root :: string
  mz_receipt_root :: string

definition min_receipt_schema :: string where
  "min_receipt_schema = ''agent-evals/evidence-minimization-receipt/v1''"

definition min_receipt_domain :: string where
  "min_receipt_domain = ''agent-evals/evidence-minimization-receipt/v1'' @ [CHR 0x00]"

definition min_receipt_root :: "min_receipt \<Rightarrow> string" where
  "min_receipt_root r = domain_root min_receipt_domain (JObj
     [(''schema_version'', JStr min_receipt_schema), (''policy_id'', JStr (mz_policy_id r)),
      (''classifications'', JArr (map (\<lambda>(c, n). JObj [(''classification'', JStr (sensitive_value c)), (''count'', JInt n)])
         (mz_classifications r))),
      (''result_evidence_root'', JStr (mz_result_root r))])"

definition verify_min_receipt :: "min_receipt \<Rightarrow> error + min_receipt" where
  "verify_min_receipt r =
     rbind (raise_if (concat (map (\<lambda>x. int_field ''count'' 0 None (snd x)) (mz_classifications r))
       @ sha_field ''policy_id'' (mz_policy_id r) @ count_field ''classifications'' 2 2 (mz_classifications r)
       @ sha_field ''result_evidence_root'' (mz_result_root r) @ sha_field ''receipt_root'' (mz_receipt_root r)
       @ [(map fst (mz_classifications r) \<noteq> [CREDENTIAL, OPERATOR_PII],
           verr ''minimization classifications must be complete and canonical''),
          (min_receipt_root r \<noteq> mz_receipt_root r, verr ''evidence minimization receipt root mismatch'')])) (\<lambda>_. Inr r)"

definition create_min_receipt :: "min_policy \<Rightarrow> traversal \<Rightarrow> string \<Rightarrow> error + min_receipt" where
  "create_min_receipt p st result =
     (let r = \<lparr>mz_policy_id = min_policy_id p,
               mz_classifications = [(CREDENTIAL, tv_credential st), (OPERATOR_PII, tv_pii st)],
               mz_result_root = result, mz_receipt_root = []\<rparr>
      in verify_min_receipt (r\<lparr>mz_receipt_root := min_receipt_root r\<rparr>))"

definition minimize_output :: "min_policy \<Rightarrow> string option \<Rightarrow> traversal \<Rightarrow> error + string option \<times> traversal" where
  "minimize_output p out st = (case out of None \<Rightarrow> Inr (None, st)
     | Some text \<Rightarrow> rbind (transform_string p True text st) (\<lambda>(t, st). Inr (Some t, st)))"

definition minimize_evidence :: "min_policy \<Rightarrow> trial_evidence \<Rightarrow> error + trial_evidence \<times> min_receipt" where
  "minimize_evidence p evidence =
     rbind (snapshot_evidence evidence) (\<lambda>t.
     rbind (rmap parse_path (mn_paths p)) (\<lambda>paths.
     rbind (rfold (apply_path p (te_events t)) paths
        (\<lparr>sf_state = JObj (te_final_state t), sf_output = te_final_output t,
          sf_payloads = map (\<lambda>e. JObj (ev_payload e)) (te_events t)\<rparr>,
         \<lparr>tv_visited = 0, tv_credential = 0, tv_pii = 0\<rparr>)) (\<lambda>(s, st).
     rbind (transform p True (sf_state s) st) (\<lambda>(state, st).
     rbind (minimize_output p (sf_output s) st) (\<lambda>(out, st).
     rbind (rthread (minimize_event p) (zip (te_events t) (sf_payloads s)) st) (\<lambda>(events, st).
     rbind (validate_evidence (t\<lparr>te_events := events, te_final_output := out,
        te_final_state := (case state of JObj d \<Rightarrow> d | _ \<Rightarrow> [])\<rparr>)) (\<lambda>m.
     rbind (create_min_receipt p st (evidence_root m)) (\<lambda>r. Inr (m, r)))))))))"

end
