(* ===== verification/RedactionProofs.thy ===== *)
theory RedactionProofs
  imports Redaction StrictJsonProofs Sample
begin

section \<open>What minimization leaves\<close>

text \<open>
  The traversal is a function \<open>redacted\<close> of the value, metered by the nodes it visits and the markers
  it counts: it returns exactly within its budgets, and on surfaces that may not be rewritten exactly
  where nothing has to be.
\<close>

subsection \<open>The value\<close>

fun redacted :: "json \<Rightarrow> json" where
  "redacted (JObj ms) = JObj (map (\<lambda>kv. (fst kv, if sensitive_key (fst kv) then JStr credential_marker else redacted (snd kv))) ms)"
| "redacted (JArr xs) = JArr (map redacted xs)"
| "redacted (JStr s) = JStr (if has_credential s then credential_marker else s)"
| "redacted v = v"

text \<open>
  No value is left that the recognisers would replace. Like the code, this looks at the name of a member
  only to see whether it is a sensitive one: a token within a name counts for nothing.
\<close>

fun unclassified :: "json \<Rightarrow> bool" where
  "unclassified (JObj ms) = list_all (\<lambda>kv. if sensitive_key (fst kv) then snd kv = JStr credential_marker else unclassified (snd kv)) ms"
| "unclassified (JArr xs) = list_all unclassified xs"
| "unclassified (JStr s) = (\<not> has_credential s)"
| "unclassified v = True"

fun node_visits :: "json \<Rightarrow> nat" where
  "node_visits (JObj ms) = 1 + sum_list (map (\<lambda>kv. if sensitive_key (fst kv) then 0 else node_visits (snd kv)) ms)"
| "node_visits (JArr xs) = 1 + sum_list (map node_visits xs)"
| "node_visits v = 1"

fun classified :: "json \<Rightarrow> nat" where
  "classified (JObj ms) = sum_list (map (\<lambda>kv. if sensitive_key (fst kv) then 1 else classified (snd kv)) ms)"
| "classified (JArr xs) = sum_list (map classified xs)"
| "classified (JStr s) = (if s = credential_marker \<or> has_credential s then 1 else 0)"
| "classified v = 0"

subsection \<open>Markers are not credentials\<close>

text \<open>Every recogniser begins with a word.\<close>

lemma match_word: "rx_match (any_case w @ r) p s \<Longrightarrow> prefix w (map ascii_lower s)"
proof (induction w arbitrary: p s)
  case (Cons c w)
  then show ?case by (cases s) (auto simp: any_case_def)
qed simp

lemma match_letters: "rx_match (map (\<lambda>c. One (\<lambda>d. d = c)) w @ r) p s \<Longrightarrow> prefix w s"
proof (induction w arbitrary: p s)
  case (Cons c w)
  then show ?case by (cases s) auto
qed simp

lemma search_prefix:
  assumes "rx_search (Boundary # r) p s" "\<And>p s. rx_match r p s \<Longrightarrow> prefix w (map ascii_lower s)"
  shows "sublist w (map ascii_lower s)"
  using assms(1)
proof (induction s arbitrary: p)
  case Nil
  then show ?case using assms(2) [of p "[]"] by simp
next
  case (Cons c s)
  then consider "rx_match r p (c # s)" | "rx_search (Boundary # r) (Some c) s" by auto
  then show ?case
  proof cases
    case 1
    from assms(2) [OF this] show ?thesis by (rule prefix_imp_sublist)
  next
    case 2
    from Cons.IH [OF this] have "sublist w (map ascii_lower s)" .
    then show ?thesis by (simp add: sublist_Cons_right)
  qed
qed

lemma search_word: "rx_search (Boundary # any_case w @ r) p s \<Longrightarrow> sublist w (map ascii_lower s)"
  by (erule search_prefix) (rule match_word)

lemma search_letters: "rx_search (Boundary # map (\<lambda>c. One (\<lambda>d. d = c)) w @ r) p s \<Longrightarrow> sublist (map ascii_lower w) (map ascii_lower s)"
  by (erule search_prefix) (metis match_letters map_mono_prefix)

lemma credential_words:
  assumes "has_credential s"
  shows "\<exists>w\<in>set [''bearer'', ''sk-'', ''gh'', ''github_pat_'', ''akia'', ''api'', ''access'', ''refresh'', ''secret'', ''password''].
    sublist w (map ascii_lower s)"
proof -
  have akia: "map ascii_lower ''AKIA'' = ''akia''" by code_simp
  have t: "rx_search (token_pattern (any_case w @ y) e) None s \<Longrightarrow> sublist w (map ascii_lower s)"
    "rx_search (token_pattern (any_case w) e) None s \<Longrightarrow> sublist w (map ascii_lower s)"
    "rx_search (assignment_pattern (any_case w @ y)) None s \<Longrightarrow> sublist w (map ascii_lower s)"
    "rx_search (assignment_pattern (any_case w)) None s \<Longrightarrow> sublist w (map ascii_lower s)" for w y e
    unfolding token_pattern_def assignment_pattern_def append_assoc by (rule search_word, assumption)+
  have u: "rx_search (Boundary # map (\<lambda>c. One (\<lambda>d. d = c)) ''AKIA'' @ y) None s \<Longrightarrow> sublist ''akia'' (map ascii_lower s)" for y
    using search_letters [of "''AKIA''" y None s] unfolding akia .
  let ?W = "[''bearer'', ''sk-'', ''gh'', ''github_pat_'', ''akia'', ''api'', ''access'', ''refresh'', ''secret'', ''password'']"
  have "list_all (\<lambda>r. rx_search r None s \<longrightarrow> (\<exists>w\<in>set ?W. sublist w (map ascii_lower s))) credential_patterns"
    unfolding credential_patterns_def list.pred_inject(2)
    by (intro conjI list.pred_inject(1) impI; (drule t(1) | drule t(2) | drule t(3) | drule t(4) | drule u); simp)
  with assms show ?thesis by (auto simp: has_credential_def list_ex_iff list_all_iff)
qed

lemma lowered_markers:
  "map ascii_lower credential_marker = ''[redacted:credential]''" "map ascii_lower pii_marker = ''[redacted:operator_pii]''"
  by code_simp+

lemma markers_plain [simp]: "\<not> has_credential credential_marker" "\<not> has_credential pii_marker"
  by (rule notI, drule credential_words, simp add: lowered_markers sublist_Cons_right)+

subsection \<open>The traversal is the redacted, within its budgets\<close>

definition advance :: "nat \<Rightarrow> nat \<Rightarrow> traversal \<Rightarrow> traversal" where
  "advance a c st = st\<lparr>tv_visited := tv_visited st + int a, tv_credential := tv_credential st + int c\<rparr>"

definition affordable :: "min_policy \<Rightarrow> nat \<Rightarrow> nat \<Rightarrow> traversal \<Rightarrow> bool" where
  "affordable p a c st \<longleftrightarrow> (a = 0 \<or> tv_visited st + int a \<le> mn_max_nodes p) \<and>
     (c = 0 \<or> tv_credential st + tv_pii st + int c \<le> mn_max_redactions p)"

lemma advance_simps [simp]:
  "advance 0 0 st = st" "advance a c (advance b d st) = advance (b + a) (d + c) st"
  "affordable p 0 0 st"
  by (simp_all add: advance_def affordable_def algebra_simps)

lemma affordable_add:
  "affordable p (a + b) (c + d) st \<longleftrightarrow> affordable p a c st \<and> affordable p b d (advance a c st)"
  by (auto simp: affordable_def advance_def)

lemma consume_Inr: "consume p st = Inr t \<longleftrightarrow> t = advance 1 0 st \<and> affordable p 1 0 st"
  by (auto simp: consume_def Let_def advance_def affordable_def)

lemma add_credential_Inr: "add_credential p st = Inr t \<longleftrightarrow> t = advance 0 1 st \<and> affordable p 0 1 st"
  by (auto simp: add_credential_def checked_counts_def advance_def affordable_def)

definition metered :: "min_policy \<Rightarrow> bool \<Rightarrow> (traversal \<Rightarrow> error + 'b \<times> traversal) \<Rightarrow> 'b \<Rightarrow> nat \<Rightarrow> nat \<Rightarrow> bool" where
  "metered p adm f y a c \<longleftrightarrow> (\<forall>st r. f st = Inr r \<longleftrightarrow> adm \<and> r = (y, advance a c st) \<and> affordable p a c st)"

lemma meteredI:
  "(\<And>st z t. f st = Inr (z, t) \<longleftrightarrow> adm \<and> z = y \<and> t = advance a c st \<and> affordable p a c st) \<Longrightarrow> metered p adm f y a c"
  by (auto simp: metered_def)

lemma metered_Inr:
  "metered p adm f y a c \<Longrightarrow> f st = Inr (z, t) \<longleftrightarrow> adm \<and> z = y \<and> t = advance a c st \<and> affordable p a c st"
  by (simp add: metered_def)

lemma metered_thread:
  assumes "\<And>x. x \<in> set xs \<Longrightarrow> metered p (adm x) (f x) (g x) (a x) (c x)"
  shows "metered p (list_all adm xs) (rthread f xs) (map g xs) (sum_list (map a xs)) (sum_list (map c xs))"
  using assms
proof (induction xs)
  case Nil
  then show ?case by (auto simp: metered_def)
next
  case (Cons x xs)
  note h = metered_Inr [OF Cons.prems [of x]] and t = metered_Inr [OF Cons.IH]
  show ?case
    by (rule meteredI) (auto simp: rbind_Inr h t Cons.prems affordable_add)
qed

lemma metered_map:
  assumes "metered p adm f y a c"
  shows "metered p adm (\<lambda>st. rbind (f st) (\<lambda>(z, st). Inr (h z, st))) (h y) a c"
  by (rule meteredI) (auto simp: rbind_Inr metered_Inr [OF assms])

lemma metered_consume:
  assumes "metered p adm f y a c"
  shows "metered p adm (\<lambda>st. rbind (consume p st) f) y (1 + a) c"
proof -
  have "affordable p (1 + a) c st \<longleftrightarrow> affordable p 1 0 st \<and> affordable p a c (advance 1 0 st)" for st
    using affordable_add [of p 1 a 0 c st] by simp
  then show ?thesis by (intro meteredI) (auto simp: rbind_Inr metered_Inr [OF assms] consume_Inr)
qed

lemma transform_string_metered:
  "metered p (allow \<or> \<not> has_credential s) (transform_string p allow s) (if has_credential s then credential_marker else s)
     0 (if s = credential_marker \<or> has_credential s then 1 else 0)"
  by (rule meteredI) (auto simp: transform_string_def rbind_Inr add_credential_Inr)

definition member_step :: "min_policy \<Rightarrow> bool \<Rightarrow> string \<times> json \<Rightarrow> traversal \<Rightarrow> error + (string \<times> json) \<times> traversal" where
  "member_step p allow kv st =
     (if sensitive_key (fst kv) then
        if \<not> allow \<and> snd kv \<noteq> JStr credential_marker then Inl authority_conflict
        else rbind (add_credential p st) (\<lambda>st. Inr ((fst kv, JStr credential_marker), st))
      else rbind (transform p allow (snd kv) st) (\<lambda>(v, st). Inr ((fst kv, v), st)))"

lemma transform_object:
  "transform p allow (JObj ms) = (\<lambda>st. rbind (consume p st) (\<lambda>st. rbind (rthread (member_step p allow) ms st) (\<lambda>(ms, st). Inr (JObj ms, st))))"
  by (rule ext) (simp add: member_step_def cong: rthread_cong)

lemma transform_metered: "metered p (allow \<or> unclassified v) (transform p allow v) (redacted v) (node_visits v) (classified v)"
proof (induction v rule: json_induct)
  case (Obj ms)
  let ?adm = "\<lambda>kv. if sensitive_key (fst kv) then snd kv = JStr credential_marker else unclassified (snd kv)"
  have m: "metered p (allow \<or> ?adm kv) (member_step p allow kv)
      (fst kv, if sensitive_key (fst kv) then JStr credential_marker else redacted (snd kv))
      (if sensitive_key (fst kv) then 0 else node_visits (snd kv)) (if sensitive_key (fst kv) then 1 else classified (snd kv))"
    if "kv \<in> set ms" for kv
  proof (cases "sensitive_key (fst kv)")
    case True
    then show ?thesis by (intro meteredI) (auto simp: member_step_def rbind_Inr add_credential_Inr)
  next
    case False
    from Obj [of "fst kv" "snd kv"] that have "metered p (allow \<or> unclassified (snd kv)) (transform p allow (snd kv)) (redacted (snd kv))
        (node_visits (snd kv)) (classified (snd kv))" by simp
    from metered_map [OF this, where h = "\<lambda>v. (fst kv, v)"] False show ?thesis by (simp add: member_step_def metered_def)
  qed
  from metered_consume [OF metered_map [OF metered_thread [of ms, OF m], where h = JObj]] show ?case
    unfolding transform_object by (cases allow) (simp_all add: list.pred_True)
next
  case (Arr xs)
  from metered_consume [OF metered_map [OF metered_thread [of xs, OF Arr], where h = JArr]] show ?case
    by (cases allow) (simp_all add: list.pred_True metered_def)
next
  case (Str s)
  from metered_consume [OF metered_map [OF transform_string_metered, where h = JStr]] show ?case
    by (simp add: metered_def)
qed (auto intro!: meteredI simp: rbind_Inr consume_Inr)

subsection \<open>Redacting again\<close>

lemma redacted_again:
  "redacted (redacted v) = redacted v" "node_visits (redacted v) = node_visits v" "classified (redacted v) = classified v"
  by (induction v rule: json_induct) (auto simp: comp_def cong: map_cong intro!: arg_cong [of _ _ sum_list])

lemma unclassified_iff: "unclassified v \<longleftrightarrow> redacted v = v"
proof (induction v rule: json_induct)
  case (Arr xs)
  then show ?case by (auto simp: list_all_iff map_idI dest: map_eq_conv [THEN iffD1, of _ _ id, simplified])
next
  case (Obj ms)
  have "(\<forall>kv\<in>set ms. (if sensitive_key (fst kv) then snd kv = JStr credential_marker else unclassified (snd kv)) \<longleftrightarrow>
      (fst kv, if sensitive_key (fst kv) then JStr credential_marker else redacted (snd kv)) = kv)"
  proof
    fix kv assume "kv \<in> set ms"
    then show "(if sensitive_key (fst kv) then snd kv = JStr credential_marker else unclassified (snd kv)) \<longleftrightarrow>
      (fst kv, if sensitive_key (fst kv) then JStr credential_marker else redacted (snd kv)) = kv"
      using Obj [of "fst kv" "snd kv"] by (auto simp: prod_eq_iff)
  qed
  moreover have "map f ms = ms \<longleftrightarrow> (\<forall>kv\<in>set ms. f kv = kv)" for f
    using map_eq_conv [of f ms id] by simp
  ultimately show ?case by (simp add: list_all_iff)
qed auto

lemma redacted_unclassified [simp]: "unclassified (redacted v)"
  by (simp add: unclassified_iff redacted_again)

lemma sort_key_through: "(\<And>x. f (g x) = f x) \<Longrightarrow> sort_key f (map g xs) = map g (sort_key f xs)"
proof (induction xs)
  case (Cons x xs)
  have "insort_key f (g x) (map g ys) = map g (insort_key f x ys)" for ys
    by (induction ys) (simp_all add: Cons.prems)
  with Cons show ?case by simp
qed simp

lemma sort_redacted: "sort_keys (redacted v) = redacted (sort_keys v)"
proof (induction v rule: json_induct)
  case (Obj ms)
  let ?g = "\<lambda>kv. (fst kv, if sensitive_key (fst kv) then JStr credential_marker else redacted (snd kv))"
  let ?h = "\<lambda>kv. (fst kv, sort_keys (snd kv))"
  have e: "map (?h \<circ> ?g) ms = map (?g \<circ> ?h) ms" using Obj by auto
  have "sort_key fst (map (?g \<circ> ?h) ms) = map ?g (sort_key fst (map ?h ms))"
    using sort_key_through [of fst ?g "map ?h ms"] by simp
  then show ?case unfolding redacted.simps sort_keys.simps list.map_comp e by simp
qed (auto simp: comp_def)

lemma unclassified_sorted: "unclassified v \<Longrightarrow> unclassified (sort_keys v)"
  by (simp add: unclassified_iff flip: sort_redacted)

definition redacted_dict :: "dict \<Rightarrow> dict" where
  "redacted_dict d = map (\<lambda>kv. (fst kv, if sensitive_key (fst kv) then JStr credential_marker else redacted (snd kv))) d"

lemma redacted_object: "redacted (JObj d) = JObj (redacted_dict d)"
  by (simp add: redacted_dict_def)

lemma redacted_dict_facts:
  "redacted_dict (redacted_dict d) = redacted_dict d" "unclassified (JObj (redacted_dict d))"
  "sort_dict d = d \<Longrightarrow> sort_dict (redacted_dict d) = redacted_dict d"
  "redacted_dict d = d \<longleftrightarrow> unclassified (JObj d)"
  "node_visits (JObj (redacted_dict d)) = node_visits (JObj d)" "classified (JObj (redacted_dict d)) = classified (JObj d)"
proof -
  show "redacted_dict (redacted_dict d) = redacted_dict d"
    using redacted_again(1) [of "JObj d"] by (simp add: redacted_object del: redacted.simps)
  show "unclassified (JObj (redacted_dict d))" using redacted_unclassified [of "JObj d"] by (simp only: redacted_object)
  show "redacted_dict d = d \<longleftrightarrow> unclassified (JObj d)" by (simp add: unclassified_iff redacted_object del: redacted.simps unclassified.simps)
  show "node_visits (JObj (redacted_dict d)) = node_visits (JObj d)" "classified (JObj (redacted_dict d)) = classified (JObj d)"
    using redacted_again(2,3) [of "JObj d"] by (simp_all only: redacted_object)
  have "JObj (sort_dict (redacted_dict d)) = redacted (sort_keys (JObj d))"
    by (simp only: sort_dict_json sort_redacted flip: redacted_object)
  then show "sort_dict d = d \<Longrightarrow> sort_dict (redacted_dict d) = redacted_dict d"
    by (simp add: redacted_object del: redacted.simps sort_keys.simps flip: sort_dict_json)
qed

subsection \<open>Events\<close>

lemma snapshot_payload: "snapshot_event e = Inr x \<Longrightarrow> x = e\<lparr>ev_payload := sort_dict (ev_payload e)\<rparr>"
  by (cases e) (auto simp: snapshot_event_def mk_event_def rbind_Inr detached_dict_def require_aware_utc_def split: if_splits)

definition redacted_event :: "evidence_event \<Rightarrow> evidence_event" where
  "redacted_event e = e\<lparr>ev_payload := redacted_dict (ev_payload e)\<rparr>"

definition event_admitted :: "evidence_event \<Rightarrow> bool" where
  "event_admitted e \<longleftrightarrow> (payload_redactable e \<or> unclassified (JObj (ev_payload e))) \<and>
     snapshot_event (redacted_event e) = Inr (redacted_event e)"

lemma minimize_event_metered:
  assumes "snapshot_event e = Inr e"
  shows "metered p (event_admitted e) (minimize_event p (e, JObj (ev_payload e))) (redacted_event e)
    (node_visits (JObj (ev_payload e))) (classified (JObj (ev_payload e)))"
proof -
  have s: "sort_dict (ev_payload e) = ev_payload e" using snapshot_payload [OF assms] by (cases e) simp
  have v: "snapshot_event (redacted_event e) = Inr x \<longleftrightarrow> x = redacted_event e \<and> snapshot_event (redacted_event e) = Inr (redacted_event e)" for x
    using snapshot_payload [of "redacted_event e" x] redacted_dict_facts(3) [OF s] by (auto simp: redacted_event_def)
  show ?thesis
  proof (rule meteredI)
    fix st z t
    let ?d = "ev_payload e"
    have "minimize_event p (e, JObj ?d) st = Inr (z, t) \<longleftrightarrow> (\<exists>w. transform p (payload_redactable e) (JObj ?d) st = Inr (w, t) \<and>
        snapshot_event (e\<lparr>ev_payload := (case w of JObj d \<Rightarrow> d | _ \<Rightarrow> [])\<rparr>) = Inr z)"
      by (auto simp: minimize_event_def rbind_Inr simp del: transform.simps)
    also have "\<dots> \<longleftrightarrow> (payload_redactable e \<or> unclassified (JObj ?d)) \<and> t = advance (node_visits (JObj ?d)) (classified (JObj ?d)) st \<and>
        affordable p (node_visits (JObj ?d)) (classified (JObj ?d)) st \<and> snapshot_event (redacted_event e) = Inr z"
      unfolding metered_Inr [OF transform_metered] redacted_object redacted_event_def
      by (auto simp del: node_visits.simps classified.simps unclassified.simps)
    finally show "minimize_event p (e, JObj ?d) st = Inr (z, t) \<longleftrightarrow> event_admitted e \<and> z = redacted_event e \<and>
        t = advance (node_visits (JObj ?d)) (classified (JObj ?d)) st \<and> affordable p (node_visits (JObj ?d)) (classified (JObj ?d)) st"
      using v [of z] unfolding event_admitted_def by blast
  qed
qed

subsection \<open>Policies without declared paths\<close>

definition redacted_evidence :: "trial_evidence \<Rightarrow> trial_evidence" where
  "redacted_evidence t = t\<lparr>te_events := map redacted_event (te_events t),
     te_final_output := map_option (\<lambda>s. if has_credential s then credential_marker else s) (te_final_output t),
     te_final_state := redacted_dict (te_final_state t)\<rparr>"

definition evidence_visits :: "trial_evidence \<Rightarrow> nat" where
  "evidence_visits t = node_visits (JObj (te_final_state t)) + sum_list (map (\<lambda>e. node_visits (JObj (ev_payload e))) (te_events t))"

definition output_marks :: "string option \<Rightarrow> nat" where
  "output_marks out = (case out of None \<Rightarrow> 0 | Some s \<Rightarrow> if s = credential_marker \<or> has_credential s then 1 else 0)"

definition evidence_marks :: "trial_evidence \<Rightarrow> nat" where
  "evidence_marks t = classified (JObj (te_final_state t)) + (output_marks (te_final_output t)
     + sum_list (map (\<lambda>e. classified (JObj (ev_payload e))) (te_events t)))"

definition untouched :: traversal where
  "untouched = \<lparr>tv_visited = 0, tv_credential = 0, tv_pii = 0\<rparr>"

lemma minimize_output_metered:
  "metered p True (minimize_output p out) (map_option (\<lambda>s. if has_credential s then credential_marker else s) out) 0 (output_marks out)"
  by (cases out; rule meteredI)
    (auto simp: minimize_output_def output_marks_def rbind_Inr metered_Inr [OF transform_string_metered])

lemma minimize_events_metered:
  assumes "\<And>e. e \<in> set es \<Longrightarrow> snapshot_event e = Inr e"
  shows "metered p (list_all event_admitted es) (rthread (minimize_event p) (zip es (map (\<lambda>e. JObj (ev_payload e)) es)))
    (map redacted_event es) (sum_list (map (\<lambda>e. node_visits (JObj (ev_payload e))) es))
    (sum_list (map (\<lambda>e. classified (JObj (ev_payload e))) es))"
proof -
  have z: "zip es (map f es) = map (\<lambda>e. (e, f e)) es" for f :: "evidence_event \<Rightarrow> json"
    by (induction es) simp_all
  have "metered p (event_admitted (fst x)) (minimize_event p x) (redacted_event (fst x))
      (node_visits (JObj (ev_payload (fst x)))) (classified (JObj (ev_payload (fst x))))"
    if "x \<in> set (map (\<lambda>e. (e, JObj (ev_payload e))) es)" for x
    using that assms minimize_event_metered by auto
  then have "metered p (list_all (\<lambda>x. event_admitted (fst x)) (map (\<lambda>e. (e, JObj (ev_payload e))) es))
      (rthread (minimize_event p) (map (\<lambda>e. (e, JObj (ev_payload e))) es))
      (map (\<lambda>x. redacted_event (fst x)) (map (\<lambda>e. (e, JObj (ev_payload e))) es))
      (sum_list (map (\<lambda>x. node_visits (JObj (ev_payload (fst x)))) (map (\<lambda>e. (e, JObj (ev_payload e))) es)))
      (sum_list (map (\<lambda>x. classified (JObj (ev_payload (fst x)))) (map (\<lambda>e. (e, JObj (ev_payload e))) es)))"
    by (rule metered_thread)
  then show ?thesis
    unfolding z by (simp add: comp_def list_all_iff del: node_visits.simps classified.simps)
qed

lemma thread_three:
  assumes "metered p True f x a c" "metered p True g y b d" "metered p adm h z a' c'"
  shows "(\<exists>v s1 out s2 es s3. f st = Inr (v, s1) \<and> g s1 = Inr (out, s2) \<and> h s2 = Inr (es, s3) \<and> Q v out es s3) \<longleftrightarrow>
    adm \<and> Q x y z (advance (a + (b + a')) (c + (d + c')) st) \<and> affordable p (a + (b + a')) (c + (d + c')) st"
  by (auto simp: metered_Inr [OF assms(1)] metered_Inr [OF assms(2)] metered_Inr [OF assms(3)] affordable_add add.assoc)

lemma snapshot_fixed:
  assumes "snapshot_evidence e = Inr t"
  shows "validate_evidence t = Inr t" "list_all (\<lambda>x. snapshot_event x = Inr x) (te_events t)" "sort_dict (te_final_state t) = te_final_state t"
proof -
  show v: "validate_evidence t = Inr t" using assms validate_evidence_idem by (simp add: snapshot_evidence_def)
  from v obtain es fs where es: "rmap snapshot_event (te_events t) = Inr es" "t = t\<lparr>te_events := es, te_final_state := fs\<rparr>"
    and d: "detached_dict ''final_state must be finite JSON-compatible data within resource limits'' final_state_budget
       (te_final_state t) = Inr fs" by (rule validate_evidence_Inr)
  have "te_events t = es" "te_final_state t = fs"
    using arg_cong [OF es(2), of te_events] arg_cong [OF es(2), of te_final_state] by simp_all
  with es(1) d show "list_all (\<lambda>x. snapshot_event x = Inr x) (te_events t)" "sort_dict (te_final_state t) = te_final_state t"
    by (auto simp: rmap_Inr list_all2_same list_all_iff detached_dict_def split: if_splits)
qed

lemma validate_redacted:
  assumes "list_all event_admitted (te_events t)" "sort_dict (te_final_state t) = te_final_state t"
  shows "validate_evidence (redacted_evidence t) = Inr m \<longleftrightarrow> m = redacted_evidence t \<and> validate_evidence m = Inr m"
proof -
  have "m = redacted_evidence t" if "validate_evidence (redacted_evidence t) = Inr m"
  proof -
    from that obtain es fs where "rmap snapshot_event (te_events (redacted_evidence t)) = Inr es"
      "detached_dict ''final_state must be finite JSON-compatible data within resource limits'' final_state_budget
         (te_final_state (redacted_evidence t)) = Inr fs" "m = (redacted_evidence t)\<lparr>te_events := es, te_final_state := fs\<rparr>"
      by (rule validate_evidence_Inr)
    moreover have "rmap snapshot_event (te_events (redacted_evidence t)) = Inr (te_events (redacted_evidence t))"
      using assms(1) by (auto simp: rmap_Inr list_all2_same redacted_evidence_def list_all_iff event_admitted_def)
    ultimately show ?thesis
      using redacted_dict_facts(3) [OF assms(2)] by (auto simp: redacted_evidence_def detached_dict_def split: if_splits)
  qed
  then show ?thesis by blast
qed

definition minimized_as :: "min_policy \<Rightarrow> trial_evidence \<Rightarrow> trial_evidence \<Rightarrow> min_receipt \<Rightarrow> bool" where
  "minimized_as p t m r \<longleftrightarrow> list_all event_admitted (te_events t) \<and>
     (validate_evidence (redacted_evidence t) = Inr m \<and>
      create_min_receipt p (advance (evidence_visits t) (evidence_marks t) untouched) (evidence_root m) = Inr r) \<and>
     affordable p (evidence_visits t) (evidence_marks t) untouched"

lemma stages_minimized:
  assumes "snapshot_evidence e = Inr t"
  shows "(\<exists>v s1 out s2 es s3.
      transform p True (JObj (te_final_state t)) untouched = Inr (v, s1) \<and> minimize_output p (te_final_output t) s1 = Inr (out, s2) \<and>
      rthread (minimize_event p) (zip (te_events t) (map (\<lambda>e. JObj (ev_payload e)) (te_events t))) s2 = Inr (es, s3) \<and>
      validate_evidence (t\<lparr>te_events := es, te_final_output := out, te_final_state := (case v of JObj d \<Rightarrow> d | _ \<Rightarrow> [])\<rparr>) = Inr m \<and>
      create_min_receipt p s3 (evidence_root m) = Inr r) \<longleftrightarrow> minimized_as p t m r"
proof -
  have "snapshot_event x = Inr x" if "x \<in> set (te_events t)" for x
    using snapshot_fixed(2) [OF assms] that by (auto simp: list_all_iff)
  then have m: "metered p (list_all event_admitted (te_events t))
      (rthread (minimize_event p) (zip (te_events t) (map (\<lambda>e. JObj (ev_payload e)) (te_events t))))
      (map redacted_event (te_events t)) (sum_list (map (\<lambda>e. node_visits (JObj (ev_payload e))) (te_events t)))
      (sum_list (map (\<lambda>e. classified (JObj (ev_payload e))) (te_events t)))"
    by (rule minimize_events_metered)
  have o: "metered p True (transform p True (JObj (te_final_state t))) (redacted (JObj (te_final_state t)))
      (node_visits (JObj (te_final_state t))) (classified (JObj (te_final_state t)))"
    using transform_metered [of p True "JObj (te_final_state t)"] by (simp only: simp_thms)
  let ?Q = "\<lambda>v out es s3. validate_evidence (t\<lparr>te_events := es, te_final_output := out,
      te_final_state := (case v of JObj d \<Rightarrow> d | _ \<Rightarrow> [])\<rparr>) = Inr m \<and> create_min_receipt p s3 (evidence_root m) = Inr r"
  from thread_three [OF o minimize_output_metered m, where Q = ?Q and st = untouched] show ?thesis
    unfolding minimized_as_def evidence_visits_def evidence_marks_def redacted_evidence_def redacted_object json.case add_0 .
qed

lemma minimize_without_paths:
  assumes "mn_paths p = []"
  shows "minimize_evidence p e = Inr (m, r) \<longleftrightarrow> (\<exists>t. snapshot_evidence e = Inr t \<and> minimized_as p t m r)"
proof -
  have "minimize_evidence p e = Inr (m, r) \<longleftrightarrow> (\<exists>t. snapshot_evidence e = Inr t \<and> (\<exists>v s1 out s2 es s3.
      transform p True (JObj (te_final_state t)) untouched = Inr (v, s1) \<and> minimize_output p (te_final_output t) s1 = Inr (out, s2) \<and>
      rthread (minimize_event p) (zip (te_events t) (map (\<lambda>e. JObj (ev_payload e)) (te_events t))) s2 = Inr (es, s3) \<and>
      validate_evidence (t\<lparr>te_events := es, te_final_output := out, te_final_state := (case v of JObj d \<Rightarrow> d | _ \<Rightarrow> [])\<rparr>) = Inr m \<and>
      create_min_receipt p s3 (evidence_root m) = Inr r))"
    unfolding minimize_evidence_def assms untouched_def rmap.simps rfold.simps rbind.simps prod.case
    by (auto simp: rbind_Inr simp del: transform.simps)
  also have "\<dots> \<longleftrightarrow> (\<exists>t. snapshot_evidence e = Inr t \<and> minimized_as p t m r)"
    by (rule ex_cong1, rule conj_cong [OF refl], erule stages_minimized)
  finally show ?thesis .
qed

text \<open>The result is the snapshot redacted, and minimizing it again changes nothing, the receipt included.\<close>

lemma minimized_result:
  assumes "snapshot_evidence e = Inr t" "minimized_as p t m r"
  shows "m = redacted_evidence t" "validate_evidence m = Inr m"
  using validate_redacted [of t m] snapshot_fixed(3) [OF assms(1)] assms(2) by (auto simp: minimized_as_def)

lemma redacted_evidence_again:
  "redacted_evidence (redacted_evidence t) = redacted_evidence t" "evidence_visits (redacted_evidence t) = evidence_visits t"
  "evidence_marks (redacted_evidence t) = evidence_marks t"
proof -
  have e: "redacted_event (redacted_event x) = redacted_event x" for x
    by (simp add: redacted_event_def redacted_dict_facts)
  show "redacted_evidence (redacted_evidence t) = redacted_evidence t"
    by (cases "te_final_output t") (simp_all add: redacted_evidence_def e redacted_dict_facts comp_def)
  have p: "ev_payload (redacted_event x) = redacted_dict (ev_payload x)" for x by (simp add: redacted_event_def)
  show "evidence_visits (redacted_evidence t) = evidence_visits t"
    by (simp add: evidence_visits_def redacted_evidence_def comp_def p redacted_dict_facts del: node_visits.simps)
  show "evidence_marks (redacted_evidence t) = evidence_marks t"
    by (cases "te_final_output t")
      (simp_all add: evidence_marks_def output_marks_def redacted_evidence_def comp_def p redacted_dict_facts del: classified.simps)
qed

lemma minimize_again:
  assumes "mn_paths p = []" "minimize_evidence p e = Inr (m, r)"
  shows "minimize_evidence p m = Inr (m, r)"
proof -
  from assms obtain t where t: "snapshot_evidence e = Inr t" "minimized_as p t m r" by (auto simp: minimize_without_paths)
  note m = minimized_result [OF t]
  have "event_admitted (redacted_event x)" if "event_admitted x" for x
    using that redacted_dict_facts(1,2) [of "ev_payload x"]
    by (simp add: event_admitted_def redacted_event_def del: unclassified.simps)
  then have "minimized_as p m m r"
    using t(2) m by (auto simp: minimized_as_def redacted_evidence_again list_all_iff) (auto simp: redacted_evidence_def list_all_iff)
  with m(2) assms(1) show ?thesis by (auto simp: minimize_without_paths snapshot_evidence_def)
qed

subsection \<open>Declared paths\<close>

text \<open>Escaping is undone by unescaping, and a parsed path is written as it was read.\<close>

lemma decode_encode: "decode_chars (encode_segment s) = Inr s"
proof -
  have "decode_chars (encode_segment s @ r) = rbind (decode_chars r) (\<lambda>t. Inr (s @ t))" for r
  proof (induction s)
    case Nil
    show ?case by (cases "decode_chars r") (simp_all add: encode_segment_def)
  next
    case (Cons c s)
    then show ?case by (cases "decode_chars r") (simp_all add: encode_segment_def)
  qed
  from this [of "[]"] show ?thesis by simp
qed

lemma decode_escape:
  "decode_chars (CHR ''~'' # s) = Inr t \<Longrightarrow> \<exists>r u. decode_chars r = Inr u \<and> (s = CHR ''0'' # r \<and> t = CHR ''~'' # u \<or> s = CHR ''1'' # r \<and> t = CHR ''/'' # u)"
  by (auto simp: rbind_Inr split: list.splits char.splits bool.splits)

lemma encode_decode: "decode_chars s = Inr t \<Longrightarrow> CHR ''/'' \<notin> set s \<Longrightarrow> encode_segment t = s"
proof (induction s arbitrary: t rule: length_induct)
  case (1 s)
  show ?case
  proof (cases s)
    case Nil
    with 1(2) show ?thesis by (simp add: encode_segment_def)
  next
    case (Cons c s')
    show ?thesis
    proof (cases "c = CHR ''~''")
      case True
      with 1(2) Cons obtain r u where u: "decode_chars r = Inr u"
        "s' = CHR ''0'' # r \<and> t = CHR ''~'' # u \<or> s' = CHR ''1'' # r \<and> t = CHR ''/'' # u"
        using decode_escape by blast
      moreover have "encode_segment u = r" using 1(1,3) u Cons by auto
      ultimately show ?thesis using True Cons by (auto simp: encode_segment_def)
    next
      case False
      with 1(2) Cons obtain u where u: "decode_chars s' = Inr u" "t = c # u" by (auto simp: rbind_Inr)
      moreover have "encode_segment u = s'" using 1(1,3) u Cons by auto
      ultimately show ?thesis using False 1(3) Cons by (auto simp: encode_segment_def)
    qed
  qed
qed

lemma encode_segments:
  assumes "rmap decode_segment ws = Inr ss" "\<forall>w\<in>set ws. CHR ''/'' \<notin> set w"
  shows "map encode_segment ss = ws"
  using assms
proof (induction ws arbitrary: ss)
  case (Cons w ws)
  from Cons.prems(1) obtain t ts where t: "decode_segment w = Inr t" "rmap decode_segment ws = Inr ts" "ss = t # ts"
    by (auto simp: rbind_Inr)
  from t(1) have "decode_chars w = Inr t" by (auto simp: decode_segment_def rbind_Inr split: if_splits)
  with Cons.prems(2) have "encode_segment t = w" by (intro encode_decode) simp_all
  with Cons.IH [OF t(2)] Cons.prems(2) t(3) show ?case by simp
qed simp

lemma list_index_text: "list_index s = Some i \<Longrightarrow> nat_str i = s"
proof -
  assume i: "list_index s = Some i"
  then have "numeral_digits s" by (cases s) (auto simp: list_index_def numeral_digits_def split: if_splits)
  from nat_str_digits_val [OF this] i show ?thesis by (auto simp: list_index_def split: if_splits)
qed

lemma selector_text_parse: "parse_selector s = Inr sel \<Longrightarrow> selector_text sel = s"
  by (auto simp: parse_selector_def list_index_text split: if_splits option.splits)

lemma encode_plain: "CHR ''~'' \<notin> set s \<Longrightarrow> CHR ''/'' \<notin> set s \<Longrightarrow> encode_segment s = s"
  by (induction s) (auto simp: encode_segment_def)

lemma selector_plain: "encode_segment (selector_text sel) = selector_text sel"
proof (cases sel)
  case (EventIndex i)
  have "\<not> is_digit_char (CHR ''~'')" "\<not> is_digit_char (CHR ''/'')" by (simp_all add: is_digit_char_def)
  then show ?thesis using nat_str_digits [of i] EventIndex by (auto intro!: encode_plain)
qed (simp add: encode_segment_def)

lemma canonical_of_segments:
  assumes "parse_segments ss = Inr q"
  shows "pp_canonical q = CHR ''/'' # encoded_tail ss"
proof -
  have join: "xs \<noteq> [] \<Longrightarrow> encoded_tail (x # xs) = encode_segment x @ ''/'' @ encoded_tail xs" for x xs
    by (cases xs) (simp_all add: encoded_tail_def)
  have plain: "encode_segment ''final_output'' = ''final_output''" "encode_segment ''final_state'' = ''final_state''"
    "encode_segment ''events'' = ''events''" "encode_segment ''payload'' = ''payload''"
    by (simp_all add: encode_plain)
  consider "hd ss = ''final_output''" | "hd ss = ''final_state''" | "hd ss = ''events''"
    using assms by (auto simp: parse_segments_def split: if_splits)
  then show ?thesis
  proof cases
    case 1
    with assms have "ss = [''final_output'']" by (cases ss) (auto simp: parse_segments_def split: if_splits)
    then show ?thesis using assms plain by (auto simp: parse_segments_def encoded_tail_def)
  next
    case 2
    with assms obtain x xs where "ss = ''final_state'' # x # xs"
      by (cases ss; cases "tl ss") (auto simp: parse_segments_def split: if_splits)
    then show ?thesis using assms join [of "x # xs" "''final_state''"] plain by (auto simp: parse_segments_def)
  next
    case 3
    with assms obtain sel x xs where ss: "ss = ''events'' # selector_text sel # ''payload'' # x # xs" and q: "parse_selector (ss ! 1) = Inr sel"
      by (cases ss; cases "tl ss"; cases "tl (tl ss)"; cases "tl (tl (tl ss))")
         (auto simp: parse_segments_def rbind_Inr selector_text_parse split: if_splits)
    then show ?thesis using assms plain selector_plain [of sel]
      by (auto simp: parse_segments_def rbind_Inr Let_def join split: if_splits)
  qed
qed

lemma parsed_canonical: "parse_path path = Inr q \<Longrightarrow> pp_canonical q = path"
proof -
  assume p: "parse_path path = Inr q"
  then obtain rest where path: "path = CHR ''/'' # rest"
    by (cases path) (auto simp: parse_path_def split: if_splits)
  with p obtain ss where ss: "rmap decode_segment (str_split (CHR ''/'') rest) = Inr ss" "parse_segments ss = Inr q"
    by (auto simp: parse_path_def Let_def rbind_Inr split: if_splits)
  have "map encode_segment ss = str_split (CHR ''/'') rest"
    using ss(1) by (rule encode_segments) (use str_split_no_sep in blast)
  then have "encoded_tail ss = rest" by (simp add: encoded_tail_def join_split)
  with canonical_of_segments [OF ss(2)] path show ?thesis by simp
qed

subsection \<open>Authority-bearing payloads are never rewritten\<close>

lemma replace_member_same: "dict_get ms seg = Some w \<Longrightarrow> replace_member ms seg w = ms"
  by (induction ms) (auto split: if_splits)

lemma replace_same: "resolve_child v seg = Inr (Some w) \<Longrightarrow> replace_child v seg w = v"
  by (auto simp: resolve_child_def replace_child_def replace_member_same split: json.splits option.splits if_splits)

lemma redact_forbidden: "redact_path p False tail v st = Inr (w, u) \<Longrightarrow> w = v"
proof (induction tail arbitrary: v st w u)
  case (Cons seg rest)
  from Cons.prems obtain s1 child where c: "resolve_child v seg = Inr child"
    and n: "(case child of None \<Rightarrow> Inr (v, s1) | Some x \<Rightarrow>
       rbind (if rest = [] then redact_target p False seg x s1 else redact_path p False rest x s1) (\<lambda>(x, st). Inr (replace_child v seg x, st))) = Inr (w, u)"
    by (auto simp: rbind_Inr)
  show ?case
  proof (cases child)
    case (Some x)
    with n obtain y where "redact_path p False rest x s1 = Inr (y, u)" "w = replace_child v seg y" "rest \<noteq> []"
      by (auto simp: rbind_Inr redact_target_def split: if_splits)
    with Cons.IH [of x s1 y u] c Some show ?thesis by (simp add: replace_same)
  qed (use n in simp)
qed simp

lemma rfold_inv:
  assumes "rfold f xs s = Inr t" "I s" "\<And>x a b. x \<in> set xs \<Longrightarrow> I a \<Longrightarrow> f x a = Inr b \<Longrightarrow> I b"
  shows "I t"
  using assms
proof (induction xs arbitrary: s)
  case (Cons x xs)
  from Cons.prems(1) obtain a where a: "f x s = Inr a" "rfold f xs a = Inr t" by (auto simp: rbind_Inr)
  have "I a" using Cons.prems(2) a(1) Cons.prems(3) [of x s a] by simp
  with a(2) show ?case by (rule Cons.IH) (use Cons.prems(3) in auto)
qed simp

definition payloads_kept :: "evidence_event list \<Rightarrow> surfaces \<times> traversal \<Rightarrow> bool" where
  "payloads_kept es w \<longleftrightarrow> length (sf_payloads (fst w)) = length es \<and>
     (\<forall>i < length es. \<not> payload_redactable (es ! i) \<longrightarrow> sf_payloads (fst w) ! i = JObj (ev_payload (es ! i)))"

lemma redact_event_keeps:
  assumes "redact_event p es tail i w = Inr w'" "i < length es" "payloads_kept es w"
  shows "payloads_kept es w'"
proof -
  obtain s st where w: "w = (s, st)" by (cases w)
  with assms(1) obtain v u where r: "redact_path p (payload_redactable (es ! i)) tail (sf_payloads s ! i) st = Inr (v, u)"
    and w': "w' = (s\<lparr>sf_payloads := (sf_payloads s)[i := v]\<rparr>, u)"
    by (auto simp: redact_event_def rbind_Inr)
  have "v = sf_payloads s ! i" if "\<not> payload_redactable (es ! i)"
    using redact_forbidden [of p tail "sf_payloads s ! i" st v u] r that by simp
  with assms(2,3) show ?thesis by (auto simp: payloads_kept_def w w' nth_list_update)
qed

lemma apply_path_keeps:
  assumes "apply_path p es q w = Inr w'" "payloads_kept es w"
  shows "payloads_kept es w'"
proof -
  obtain s st where w: "w = (s, st)" by (cases w)
  show ?thesis
  proof (cases "pp_scope q")
    case FINAL_STATE
    with assms w show ?thesis by (auto simp: apply_path_def rbind_Inr payloads_kept_def)
  next
    case FINAL_OUTPUT
    with assms w show ?thesis by (auto simp: apply_path_def rbind_Inr payloads_kept_def split: option.splits if_splits)
  next
    case EVENTS
    with assms(1) w have f: "rfold (redact_event p es (pp_tail q)) (selected_events (pp_selector q) (length es)) w = Inr w'"
      by (simp add: apply_path_def)
    have "i < length es" if "i \<in> set (selected_events (pp_selector q) (length es))" for i
      using that by (cases "pp_selector q"; cases "the (pp_selector q)") (auto simp: selected_events_def split: if_splits)
    with f assms(2) show ?thesis by - (erule rfold_inv, assumption, rule redact_event_keeps)
  qed
qed

subsection \<open>What is rewritten\<close>

text \<open>
  \<open>rewritten v w\<close>: \<open>w\<close> is \<open>v\<close> with some of its values replaced by a marker. The names of members and
  the shape of what is not replaced stay.
\<close>

inductive rewritten :: "json \<Rightarrow> json \<Rightarrow> bool" where
  kept: "rewritten v v"
| marked: "s \<in> {credential_marker, pii_marker} \<Longrightarrow> rewritten v (JStr s)"
| members: "list_all2 (\<lambda>x y. fst x = fst y \<and> rewritten (snd x) (snd y)) ms ns \<Longrightarrow> rewritten (JObj ms) (JObj ns)"
| items: "list_all2 rewritten xs ys \<Longrightarrow> rewritten (JArr xs) (JArr ys)"
monos list_all2_mono

inductive_cases rewritten_str: "rewritten (JStr s) w"
inductive_cases rewritten_obj: "rewritten (JObj ms) w"
inductive_cases rewritten_arr: "rewritten (JArr xs) w"

lemma rewritten_trans: "rewritten u v \<Longrightarrow> rewritten v w \<Longrightarrow> rewritten u w"
proof (induction arbitrary: w rule: rewritten.induct)
  case (marked s v)
  from marked.prems show ?case by (rule rewritten_str) (use marked.hyps in \<open>auto intro: rewritten.marked\<close>)
next
  case (members ms ns)
  from members.prems show ?case
  proof (rule rewritten_obj)
    fix os assume w: "w = JObj os" and "list_all2 (\<lambda>x y. fst x = fst y \<and> rewritten (snd x) (snd y)) ns os"
    with members.IH have "list_all2 (\<lambda>x y. fst x = fst y \<and> rewritten (snd x) (snd y)) ms os"
      by (simp add: list_all2_conv_all_nth)
    then show ?case unfolding w by (rule rewritten.members)
  qed (use members.IH in \<open>auto intro: rewritten.marked intro!: rewritten.members elim: list_all2_mono\<close>)
next
  case (items xs ys)
  from items.prems show ?case
  proof (rule rewritten_arr)
    fix zs assume w: "w = JArr zs" and "list_all2 rewritten ys zs"
    with items.IH have "list_all2 rewritten xs zs" by (simp add: list_all2_conv_all_nth)
    then show ?case unfolding w by (rule rewritten.items)
  qed (use items.IH in \<open>auto intro: rewritten.marked intro!: rewritten.items elim: list_all2_mono\<close>)
qed

lemma rewritten_redacted: "rewritten v (redacted v)"
proof (induction v rule: json_induct)
  case (Obj ms)
  then have "rewritten (snd (ms ! i)) (redacted (snd (ms ! i)))" if "i < length ms" for i
    using that nth_mem [of i ms] by (cases "ms ! i") simp
  then show ?case by (auto intro!: rewritten.members rewritten.marked simp: list_all2_conv_all_nth)
next
  case (Arr xs)
  then show ?case by (auto intro!: rewritten.items simp: list_all2_conv_all_nth)
qed (auto intro: rewritten.intros)

lemma sorted_members:
  "sort_keys (JObj ms) = JObj ms \<longleftrightarrow> sorted (map fst ms) \<and> (\<forall>kv \<in> set ms. sort_keys (snd kv) = snd kv)"
proof -
  let ?h = "\<lambda>kv. (fst kv, sort_keys (snd kv))"
  have s: "sorted (map fst ms) \<Longrightarrow> sort_key fst (map ?h ms) = map ?h ms" by (intro sort_key_id_if_sorted) (simp add: comp_def)
  have "sort_key fst (map ?h ms) = ms \<Longrightarrow> sorted (map fst ms)" using sorted_sort_key [of fst "map ?h ms"] by simp
  moreover have "map ?h ms = ms \<longleftrightarrow> (\<forall>kv \<in> set ms. sort_keys (snd kv) = snd kv)"
    using map_eq_conv [of ?h ms id] by (auto simp: prod_eq_iff)
  ultimately show ?thesis using s by auto
qed

lemma rewritten_sorted: "rewritten v w \<Longrightarrow> sort_keys v = v \<Longrightarrow> sort_keys w = w"
proof (induction rule: rewritten.induct)
  case (members ms ns)
  have "map fst ns = map fst ms" using members.IH by (auto simp: list_all2_conv_all_nth intro: nth_equalityI)
  moreover have "sort_keys (snd kv) = snd kv" if "kv \<in> set ns" for kv
    using that members unfolding sorted_members by (fastforce simp: list_all2_conv_all_nth in_set_conv_nth)
  ultimately show ?case using members.prems unfolding sorted_members by simp
next
  case (items xs ys)
  then have "map sort_keys xs = xs" by simp
  then have "sort_keys (xs ! i) = xs ! i" if "i < length xs" for i using that nth_map by metis
  with items.IH show ?case by (auto simp: list_all2_conv_all_nth intro!: nth_equalityI)
qed simp_all

lemma rewritten_replace:
  assumes "resolve_child v seg = Inr (Some x)" "rewritten x y"
  shows "rewritten v (replace_child v seg y)"
proof (cases v)
  case (JObj ms)
  with assms(1) have "dict_get ms seg = Some x" by (simp add: resolve_child_def)
  then have "list_all2 (\<lambda>x y. fst x = fst y \<and> rewritten (snd x) (snd y)) ms (replace_member ms seg y)"
    by (induction ms) (auto simp: assms(2) rewritten.kept list_all2_same split: if_splits)
  with JObj show ?thesis by (simp add: replace_child_def rewritten.members)
next
  case (JArr xs)
  with assms show ?thesis
    by (auto simp: resolve_child_def replace_child_def list_all2_conv_all_nth nth_list_update rewritten.kept
        intro!: rewritten.items split: option.splits if_splits)
qed (use assms in \<open>simp_all add: resolve_child_def\<close>)

text \<open>A path into an object leaves it an object.\<close>

definition rooted :: "dict \<Rightarrow> json \<Rightarrow> bool" where
  "rooted d w \<longleftrightarrow> rewritten (JObj d) w \<and> (\<exists>d'. w = JObj d')"

lemma redact_path_rewrites: "redact_path p allow tail v st = Inr (w, u) \<Longrightarrow> rewritten v w \<and> ((\<exists>d. v = JObj d) \<longrightarrow> (\<exists>d. w = JObj d))"
proof (induction tail arbitrary: v st w u)
  case (Cons seg rest)
  from Cons.prems obtain s1 child where c: "resolve_child v seg = Inr child"
    and n: "(case child of None \<Rightarrow> Inr (v, s1) | Some x \<Rightarrow>
       rbind (if rest = [] then redact_target p allow seg x s1 else redact_path p allow rest x s1) (\<lambda>(x, st). Inr (replace_child v seg x, st))) = Inr (w, u)"
    by (auto simp: rbind_Inr)
  show ?case
  proof (cases child)
    case (Some x)
    with n obtain y where y: "(if rest = [] then redact_target p allow seg x s1 else redact_path p allow rest x s1) = Inr (y, u)"
        "w = replace_child v seg y"
      by (auto simp: rbind_Inr)
    then have "rewritten x y"
      using Cons.IH [of x s1 y u] by (auto simp: redact_target_def rbind_Inr intro: rewritten.marked split: if_splits)
    with c Some y(2) rewritten_replace [of v seg x y] show ?thesis by (auto simp: replace_child_def)
  qed (use n in \<open>auto intro: rewritten.kept\<close>)
qed (auto intro: rewritten.kept)

lemma redact_path_rooted: "redact_path p allow tail v st = Inr (w, u) \<Longrightarrow> rooted d v \<Longrightarrow> rooted d w"
  using redact_path_rewrites rewritten_trans unfolding rooted_def by blast

definition output_rewritten :: "string option \<Rightarrow> string option \<Rightarrow> bool" where
  "output_rewritten a b \<longleftrightarrow> b = a \<or> a \<noteq> None \<and> b \<in> {Some credential_marker, Some pii_marker}"

definition surfaces_rewritten :: "trial_evidence \<Rightarrow> surfaces \<Rightarrow> bool" where
  "surfaces_rewritten t s \<longleftrightarrow> rooted (te_final_state t) (sf_state s) \<and> output_rewritten (te_final_output t) (sf_output s) \<and>
     list_all2 (\<lambda>e v. rooted (ev_payload e) v) (te_events t) (sf_payloads s)"

lemma apply_path_rewrites:
  assumes "apply_path p (te_events t) q w = Inr w'" "surfaces_rewritten t (fst w)"
  shows "surfaces_rewritten t (fst w')"
proof -
  obtain s st where w: "w = (s, st)" by (cases w)
  show ?thesis
  proof (cases "pp_scope q")
    case FINAL_STATE
    with assms w show ?thesis
      by (auto simp: apply_path_def rbind_Inr surfaces_rewritten_def dest: redact_path_rooted)
  next
    case FINAL_OUTPUT
    with assms w show ?thesis
      by (auto simp: apply_path_def rbind_Inr surfaces_rewritten_def output_rewritten_def dest: sym split: option.splits if_splits)
  next
    case EVENTS
    with assms(1) w have "rfold (redact_event p (te_events t) (pp_tail q)) (selected_events (pp_selector q) (length (te_events t))) w = Inr w'"
      by (simp add: apply_path_def)
    then show ?thesis
    proof (rule rfold_inv [where I = "\<lambda>w. surfaces_rewritten t (fst w)", OF _ assms(2)])
      fix i a b
      assume "surfaces_rewritten t (fst a)" "redact_event p (te_events t) (pp_tail q) i a = Inr b"
      moreover obtain s st where a: "a = (s, st)" by (cases a)
      ultimately obtain v u where v: "redact_path p (payload_redactable (te_events t ! i)) (pp_tail q) (sf_payloads s ! i) st = Inr (v, u)"
          "b = (s\<lparr>sf_payloads := (sf_payloads s)[i := v]\<rparr>, u)" and s: "surfaces_rewritten t s"
        by (auto simp: redact_event_def rbind_Inr)
      have "rooted (ev_payload (te_events t ! k)) ((sf_payloads s)[i := v] ! k)" if "k < length (te_events t)" for k
        using that s redact_path_rooted [OF v(1)]
        by (cases "k = i") (auto simp: surfaces_rewritten_def list_all2_conv_all_nth)
      with s v(2) show "surfaces_rewritten t (fst b)" by (auto simp: surfaces_rewritten_def list_all2_conv_all_nth)
    qed
  qed
qed

lemma rooted_redacted: "rooted d v \<Longrightarrow> rooted d (redacted v)"
  using rewritten_trans [OF _ rewritten_redacted] by (auto simp: rooted_def)

lemma rooted_sorted: "rooted d v \<Longrightarrow> sort_dict d = d \<Longrightarrow> \<exists>d'. v = JObj d' \<and> sort_dict d' = d' \<and> rewritten (JObj d) (JObj d')"
  unfolding rooted_def using rewritten_sorted [of "JObj d" v] by (auto simp del: sort_keys.simps simp flip: sort_dict_json)

text \<open>A token that is the name of a member passes, in payloads that may not be rewritten as well.\<close>

definition token_name :: string where
  "token_name = ''sk-abcdefgh''"

lemma token_name_passes:
  "has_credential token_name" "\<not> sensitive_key token_name"
  "affordable p 2 0 st \<Longrightarrow> transform p False (JObj [(token_name, JNull)]) st = Inr (JObj [(token_name, JNull)], advance 2 0 st)"
proof -
  show "has_credential token_name" by code_simp
  show n: "\<not> sensitive_key token_name"
    by (simp add: token_name_def sensitive_key_def key_letters_def sensitive_parts_def is_digit_char_def is_lower_char_def
        py_lower_char_def suffix_def)
  show "affordable p 2 0 st \<Longrightarrow> transform p False (JObj [(token_name, JNull)]) st = Inr (JObj [(token_name, JNull)], advance 2 0 st)"
    using n by (simp add: metered_Inr [OF transform_metered] numeral_2_eq_2 del: transform.simps)
qed

text \<open>What the documentation calls authority-bearing.\<close>

definition authority_bearing :: "evidence_event \<Rightarrow> bool" where
  "authority_bearing e \<longleftrightarrow> ev_critical e \<or> ev_kind e \<notin> {STATE, OUTPUT, EVALUATION_ERROR, RUNTIME_ERROR}"

lemma redactable_iff: "payload_redactable e \<longleftrightarrow> \<not> authority_bearing e"
  by (auto simp: payload_redactable_def authority_bearing_def)

text \<open>
  An event is kept but for its payload, and an authority-bearing one is kept. In the payload no value is
  left that the recognisers would replace, and what was replaced is a marker now.
\<close>

definition event_minimized :: "evidence_event \<Rightarrow> evidence_event \<Rightarrow> bool" where
  "event_minimized e m \<longleftrightarrow> m = e\<lparr>ev_payload := ev_payload m\<rparr> \<and> (\<not> authority_bearing e \<or> m = e) \<and>
     unclassified (JObj (ev_payload m)) \<and> rewritten (JObj (ev_payload e)) (JObj (ev_payload m))"

lemma object_unclassified: "unclassified v \<Longrightarrow> unclassified (JObj (case v of JObj d \<Rightarrow> d | _ \<Rightarrow> []))"
  by (cases v) simp_all

lemma minimize_event_result:
  assumes "minimize_event p (e, v) st = Inr (m, u)" "snapshot_event e = Inr e" "payload_redactable e \<or> v = JObj (ev_payload e)"
    and "rooted (ev_payload e) v"
  shows "event_minimized e m \<and> snapshot_event m = Inr m"
proof -
  from assms(1) obtain w where w: "transform p (payload_redactable e) v st = Inr (w, u)"
    and m: "snapshot_event (e\<lparr>ev_payload := (case w of JObj d \<Rightarrow> d | _ \<Rightarrow> [])\<rparr>) = Inr m"
    by (auto simp: minimize_event_def rbind_Inr simp del: transform.simps)
  have sorted: "sort_dict (ev_payload e) = ev_payload e" using snapshot_payload [OF assms(2)] by (cases e) simp
  from w have t: "payload_redactable e \<or> unclassified v" "w = redacted v" by (auto simp: metered_Inr [OF transform_metered])
  obtain d where d: "w = JObj d" "sort_dict d = d" "rewritten (JObj (ev_payload e)) (JObj d)"
    using rooted_sorted [OF rooted_redacted [OF assms(4)] sorted] t(2) by blast
  have "unclassified (JObj d)" using redacted_unclassified [of v] by (simp only: d(1) flip: t(2))
  moreover have "d = ev_payload e" if "\<not> payload_redactable e"
    using that t assms(3) d(1) unclassified_iff [of v] by simp
  moreover have "m = e\<lparr>ev_payload := d\<rparr>" using snapshot_payload [OF m] d(1,2) by simp
  ultimately have "event_minimized e m" using d(3) by (cases e) (auto simp: event_minimized_def redactable_iff simp del: unclassified.simps)
  with snapshot_event_snapshot [OF m] show ?thesis by simp
qed

lemma rthread_result:
  assumes "rthread f xs s = Inr (ys, t)" "\<And>x a y b. x \<in> set xs \<Longrightarrow> f x a = Inr (y, b) \<Longrightarrow> P x y"
  shows "list_all2 P xs ys"
  using assms
proof (induction xs arbitrary: s ys)
  case (Cons x xs)
  then show ?case by (fastforce simp: rbind_Inr)
qed simp

definition evidence_minimized :: "trial_evidence \<Rightarrow> trial_evidence \<Rightarrow> bool" where
  "evidence_minimized t m \<longleftrightarrow>
     m = t\<lparr>te_events := te_events m, te_final_state := te_final_state m, te_final_output := te_final_output m\<rparr> \<and>
     list_all2 event_minimized (te_events t) (te_events m) \<and>
     unclassified (JObj (te_final_state m)) \<and> rewritten (JObj (te_final_state t)) (JObj (te_final_state m)) \<and>
     pred_option (\<lambda>s. \<not> has_credential s) (te_final_output m) \<and> output_rewritten (te_final_output t) (te_final_output m)"

lemma minimize_sound:
  assumes "minimize_evidence p e = Inr (m, r)"
  shows "\<exists>t. snapshot_evidence e = Inr t \<and> evidence_minimized t m \<and> validate_evidence m = Inr m \<and>
    mz_policy_id r = min_policy_id p \<and> mz_result_root r = evidence_root m \<and> verify_min_receipt r = Inr r"
proof -
  from assms obtain t paths s st v s1 out s2 es s3 where t: "snapshot_evidence e = Inr t"
    and f: "rfold (apply_path p (te_events t)) paths
        (\<lparr>sf_state = JObj (te_final_state t), sf_output = te_final_output t, sf_payloads = map (\<lambda>e. JObj (ev_payload e)) (te_events t)\<rparr>,
         \<lparr>tv_visited = 0, tv_credential = 0, tv_pii = 0\<rparr>) = Inr (s, st)"
    and v: "transform p True (sf_state s) st = Inr (v, s1)" and out: "minimize_output p (sf_output s) s1 = Inr (out, s2)"
    and es: "rthread (minimize_event p) (zip (te_events t) (sf_payloads s)) s2 = Inr (es, s3)"
    and m: "validate_evidence (t\<lparr>te_events := es, te_final_output := out, te_final_state := (case v of JObj d \<Rightarrow> d | _ \<Rightarrow> [])\<rparr>) = Inr m"
    and r: "create_min_receipt p s3 (evidence_root m) = Inr r"
    unfolding minimize_evidence_def rbind_Inr split_paired_Ex prod.case by (auto simp del: transform.simps)
  from f have k: "payloads_kept (te_events t) (s, st)"
    by (rule rfold_inv) (simp add: payloads_kept_def, erule apply_path_keeps)
  from f have "surfaces_rewritten t (fst (s, st))"
    by (rule rfold_inv [where I = "\<lambda>w. surfaces_rewritten t (fst w)"])
      (simp add: surfaces_rewritten_def rooted_def rewritten.kept output_rewritten_def list_all2_conv_all_nth, erule apply_path_rewrites)
  then have rooted: "rooted (te_final_state t) (sf_state s)" "output_rewritten (te_final_output t) (sf_output s)"
      "\<And>i. i < length (te_events t) \<Longrightarrow> rooted (ev_payload (te_events t ! i)) (sf_payloads s ! i)"
    by (auto simp: surfaces_rewritten_def list_all2_conv_all_nth)
  have "list_all2 (\<lambda>x y. event_minimized (fst x) y \<and> snapshot_event y = Inr y) (zip (te_events t) (sf_payloads s)) es"
    using es
  proof (rule rthread_result)
    fix x a y b
    assume x: "x \<in> set (zip (te_events t) (sf_payloads s))" and y: "minimize_event p x a = Inr (y, b)"
    then obtain i where i: "i < length (te_events t)" "x = (te_events t ! i, sf_payloads s ! i)"
      using k by (auto simp: set_zip payloads_kept_def)
    with snapshot_fixed(2) [OF t] have "snapshot_event (fst x) = Inr (fst x)" by (simp add: list_all_length)
    moreover have "payload_redactable (fst x) \<or> snd x = JObj (ev_payload (fst x))" using k i by (auto simp: payloads_kept_def)
    ultimately show "event_minimized (fst x) y \<and> snapshot_event y = Inr y"
      using minimize_event_result [of p "fst x" "snd x" a y b] y rooted(3) [OF i(1)] i(2) by simp
  qed
  then have em: "list_all2 (\<lambda>x y. event_minimized x y \<and> snapshot_event y = Inr y) (te_events t) es"
    using k by (simp add: list_all2_conv_all_nth payloads_kept_def)
  from m obtain es' fs where "rmap snapshot_event es = Inr es'" "fs = sort_dict (case v of JObj d \<Rightarrow> d | _ \<Rightarrow> [])"
    and m': "m = t\<lparr>te_events := es', te_final_output := out, te_final_state := fs\<rparr>"
    by (rule validate_evidence_Inr) (auto simp: detached_dict_def split: if_splits)
  moreover from em have "rmap snapshot_event es = Inr es" by (auto simp: rmap_Inr list_all2_conv_all_nth)
  ultimately have e': "es' = es" and fs: "fs = sort_dict (case v of JObj d \<Rightarrow> d | _ \<Rightarrow> [])" by simp_all
  from v have "v = redacted (sf_state s)" by (auto simp: metered_Inr [OF transform_metered])
  moreover have "sort_dict (te_final_state t) = te_final_state t" using snapshot_fixed(3) [OF t] .
  ultimately obtain d where d: "v = JObj d" "sort_dict d = d" "rewritten (JObj (te_final_state t)) (JObj d)" "unclassified v"
    using rooted_sorted [OF rooted_redacted [OF rooted(1)]] redacted_unclassified [of "sf_state s"] by blast
  then have "unclassified (JObj fs)" "rewritten (JObj (te_final_state t)) (JObj fs)"
    using fs by (simp_all del: unclassified.simps)
  moreover have "pred_option (\<lambda>s. \<not> has_credential s) out \<and> output_rewritten (te_final_output t) out"
    using out rooted(2) by (cases "sf_output s") (auto simp: metered_Inr [OF minimize_output_metered] output_rewritten_def)
  ultimately have "evidence_minimized t m" using em by (auto simp: evidence_minimized_def m' e' list_all2_conv_all_nth)
  moreover have "mz_policy_id r = min_policy_id p" "mz_result_root r = evidence_root m" "verify_min_receipt r = Inr r"
    using r by (auto simp: create_min_receipt_def Let_def verify_min_receipt_def rbind_Inr)
  ultimately show ?thesis using t validate_evidence_idem [OF m] by blast
qed

subsection \<open>A path below a credential key\<close>

text \<open>
  The first minimization redacts the declared value and then replaces the credential above it; the
  second finds a text where the path descends.
\<close>

definition token_path :: string where
  "token_path = ''/final_state/token/x''"

definition token_policy :: min_policy where
  "token_policy = \<lparr>mn_paths = [token_path], mn_max_nodes = 100, mn_max_redactions = 100\<rparr>"

definition token_evidence :: "json \<Rightarrow> trial_evidence" where
  "token_evidence v = sample_evidence\<lparr>te_final_state := [(''token'', v)], te_final_output := None\<rparr>"

lemma token_evidence_fields [simp]:
  "te_events (token_evidence v) = []" "te_final_state (token_evidence v) = [(''token'', v)]"
  "te_final_output (token_evidence v) = None"
  by (simp_all add: token_evidence_def sample_evidence_def)

lemma token_parsed:
  "parse_path token_path = Inr \<lparr>pp_scope = FINAL_STATE, pp_selector = None, pp_tail = [''token'', ''x''], pp_canonical = token_path\<rparr>"
  by (simp add: token_path_def parse_path_def utf8_def utf8_char_def decode_segment_def parse_segments_def encoded_tail_def
      encode_segment_def)

lemma token_policy_created: "create_min_policy [token_path] 100 100 = Inr token_policy"
  by (simp add: create_min_policy_def canonical_paths_def token_parsed token_policy_def int_field_def as_validation_def)

lemma token_keys: "sensitive_key ''token''" "\<not> sensitive_key ''x''"
  by (simp_all add: sensitive_key_def key_letters_def sensitive_parts_def is_digit_char_def is_lower_char_def py_lower_char_def
      suffix_def)

lemma token_valid:
  assumes "within_budget final_state_budget (JObj [(''token'', v)])" "sort_keys v = v"
  shows "validate_evidence (token_evidence v) = Inr (token_evidence v)"
proof -
  have "detached_dict m final_state_budget [(''token'', v)] = Inr [(''token'', v)]" for m
    using assms by (simp add: detached_dict_def sort_dict_def)
  then show ?thesis
    by (simp add: validate_evidence_def token_evidence_def sample_evidence_def max_trial_events_def subject_identity_def
        scenario_identity_def event_sequence_check_def map_error_def validate_utf8_text_def)
qed

lemma token_values:
  "validate_evidence (token_evidence (JObj [(''x'', JStr ''a'')])) = Inr (token_evidence (JObj [(''x'', JStr ''a'')]))"
  "validate_evidence (token_evidence (JStr credential_marker)) = Inr (token_evidence (JStr credential_marker))"
proof -
  have "depth_within (JObj [(''token'', JObj [(''x'', JStr ''a'')])]) (Suc (Suc (Suc 29)))" by simp
  then show "validate_evidence (token_evidence (JObj [(''x'', JStr ''a'')])) = Inr (token_evidence (JObj [(''x'', JStr ''a'')]))"
    by (intro token_valid) (simp_all add: within_budget_def final_state_budget_def utf8_def utf8_char_def)
  have "depth_within (JObj [(''token'', JStr credential_marker)]) (Suc (Suc 30))" by simp
  then show "validate_evidence (token_evidence (JStr credential_marker)) = Inr (token_evidence (JStr credential_marker))"
    by (intro token_valid) (simp_all add: within_budget_def final_state_budget_def utf8_def utf8_char_def credential_marker_def)
qed

lemma plain_a: "\<not> has_credential ''a''"
  by (rule notI, drule credential_words) (simp add: ascii_lower_def sublist_Cons_right)

lemma token_runs:
  "\<exists>r. minimize_evidence token_policy (token_evidence (JObj [(''x'', JStr ''a'')])) = Inr (token_evidence (JStr credential_marker), r)"
  "\<exists>r. minimize_evidence (token_policy\<lparr>mn_paths := []\<rparr>) (token_evidence (JObj [(''x'', JStr ''a'')]))
     = Inr (token_evidence (JStr credential_marker), r)"
proof -
  have t: "token_evidence (JObj [(''x'', JStr ''a'')])\<lparr>te_events := [], te_final_output := None, te_final_state := [(''token'', JStr credential_marker)]\<rparr>
      = token_evidence (JStr credential_marker)"
    by (simp add: token_evidence_def sample_evidence_def)
  have "is_sha256 (evidence_root m)" "is_sha256 (min_policy_id p)" "is_sha256 (min_receipt_root r)" for m p r
    by (simp_all add: evidence_root_def Let_def min_policy_id_def min_receipt_root_def)
  then have c: "\<exists>r. create_min_receipt p \<lparr>tv_visited = int a, tv_credential = 1, tv_pii = int b\<rparr> (evidence_root m) = Inr r" for p a b m
    by (simp add: create_min_receipt_def Let_def verify_min_receipt_def rbind_Inr field_ok raise_if_Inr)
       (simp add: min_receipt_root_def)
  have n: "''a'' \<noteq> credential_marker" by (simp add: credential_marker_def)
  note run = minimize_evidence_def snapshot_evidence_def token_values token_parsed token_policy_def apply_path_def
    consume_def resolve_child_def redact_target_def token_keys plain_a add_pii_def add_credential_def checked_counts_def
    replace_child_def minimize_output_def t n
  obtain r where "create_min_receipt token_policy \<lparr>tv_visited = int 4, tv_credential = 1, tv_pii = int 1\<rparr>
      (evidence_root (token_evidence (JStr credential_marker))) = Inr r"
    using c by blast
  then have "minimize_evidence token_policy (token_evidence (JObj [(''x'', JStr ''a'')])) = Inr (token_evidence (JStr credential_marker), r)"
    by (simp add: run)
  then show "\<exists>r. minimize_evidence token_policy (token_evidence (JObj [(''x'', JStr ''a'')])) = Inr (token_evidence (JStr credential_marker), r)" ..
  obtain q where "create_min_receipt (token_policy\<lparr>mn_paths := []\<rparr>) \<lparr>tv_visited = int 1, tv_credential = 1, tv_pii = int 0\<rparr>
      (evidence_root (token_evidence (JStr credential_marker))) = Inr q"
    using c by blast
  then have "minimize_evidence (token_policy\<lparr>mn_paths := []\<rparr>) (token_evidence (JObj [(''x'', JStr ''a'')]))
      = Inr (token_evidence (JStr credential_marker), q)"
    by (simp add: run)
  then show "\<exists>r. minimize_evidence (token_policy\<lparr>mn_paths := []\<rparr>) (token_evidence (JObj [(''x'', JStr ''a'')]))
      = Inr (token_evidence (JStr credential_marker), r)" ..
qed

lemmas token_first = token_runs(1) and token_alone = token_runs(2)

lemma token_second:
  "minimize_evidence token_policy (token_evidence (JStr credential_marker)) =
     Inl (emerr ''operator PII path traverses a non-container JSON value'')"
  by (simp add: minimize_evidence_def snapshot_evidence_def token_values token_parsed token_policy_def apply_path_def
      consume_def resolve_child_def)

end
