(* ===== verification/Spec2Isabelle.thy ===== *)
theory Spec2Isabelle
  imports Sample SampleReceipts StrictJsonProofs RunSafety Minimization OperationalGate SampleSession Chaos McpProbe McpSurface OAuthAssurance Multiplicity SampleRelations MetamorphicProofs Population CalibrationProbes RedactionProofs
begin

text \<open>
  A verification library of \<open>agent_evals\<close> (\<open>src/src/agent_evals\<close>), which evaluates an AI
  agent on scenarios and refuses to trust evidence it cannot close.

  The program. A trial runs one adapter of an agent on one scenario (\<open>runtime/_evaluator_core.py\<close>).
  The adapter returns a result with typed evidence events; the runner rejects evidence only the
  framework may produce, verifies every relation the scenario asks for
  (\<open>runtime/preconditions.py\<close>: attack delivery, MCP protocol delivery, retrieval, side
  effects, resources, provenance, approvals), grades with deterministic oracles
  (\<open>oracles/deterministic.py\<close>) and, where a rubric asks for it, with a bound judgment of a
  calibrated judge (\<open>semantic/\<close>). Whatever does not close makes the trial \<open>BLOCKED\<close>. A
  session (\<open>runtime/session.py\<close>) runs a campaign of such trials and reports on their verdicts
  (\<open>statistics/\<close>); the gates (\<open>gates/\<close>) decide on the report. Beside them stand receipts about
  systems outside the trial (memory, approvals, distributed effects, retrieval pipelines, hosted MCP
  servers and OAuth) and relations between scenarios (\<open>metamorphic/\<close>). Evidence, receipts and
  identities are canonical JSON under SHA-256 (\<open>evidence/models.py\<close>, \<open>evidence/limits.py\<close>).

  Foundations: \<open>Prelude\<close> (errors as sums, guard tables, texts), \<open>Sha256\<close>, \<open>PyFloat\<close>,
  \<open>FloatOps\<close> and \<open>FloatOrder\<close> (binary floats, their arithmetic and order), \<open>PyJson\<close> (values,
  \<open>json.dumps\<close>, \<open>json.loads\<close>), \<open>StrictJson\<close> (\<open>_strict_json.py\<close>), \<open>EvidenceLimits\<close>.

  Trials. Contracts: \<open>Resource\<close>, \<open>SpecModels\<close>, \<open>RetrievalModels\<close>, \<open>Contracts\<close>
  (scenarios, policies, their validators, identities, snapshots), \<open>Selector\<close>, \<open>ModelFields\<close>.
  Evidence: \<open>Evidence\<close>. Relations: \<open>Authority\<close>, \<open>ApprovalIntent\<close>, \<open>Retrieval\<close>,
  \<open>SideEffect\<close>, \<open>Adversarial\<close>, \<open>McpFaults\<close>, \<open>McpBridges\<close>, \<open>McpDrift\<close>,
  \<open>McpDelivery\<close> (\<open>mcp/models.py\<close>, the six \<open>mcp/agent_*_bridge.py\<close>, \<open>mcp/delivery.py\<close>),
  \<open>Runtime\<close> (the closure, deterministic grading and regrading). Verdicts: \<open>Oracles\<close>,
  \<open>Semantic\<close>, \<open>Runner\<close> (whose \<open>run_trial\<close> is \<open>TrialRunner._run_trial\<close>). Apart:
  \<open>Minimization\<close> (\<open>minimization/delta.py\<close>) and \<open>Redaction\<close>
  (\<open>evidence/minimization.py\<close>, what is taken out of evidence before it is stored).

  Campaigns. \<open>SessionReceipts\<close> (reset and randomness receipts), \<open>Session\<close> (the loop and the
  validation of its result), \<open>Population\<close> (\<open>runtime/population*.py\<close>, \<open>sampling_v2.py\<close>),
  \<open>Chaos\<close>; \<open>Aggregates\<close>, \<open>Reliability\<close> (statistics and the report), \<open>Multiplicity\<close>,
  \<open>ReleaseGate\<close>, \<open>OperationalGate\<close>.

  Receipts and relations. \<open>Recomputed\<close> (the interface of a receipt that is derived again from what
  it carries), \<open>MemoryAssurance\<close>, \<open>ApprovalGovernance\<close>, \<open>DistributedEffects\<close>,
  \<open>RetrievalPipeline\<close>, \<open>McpRemote\<close>, \<open>McpProbe\<close>, \<open>McpSurface\<close>, \<open>OAuthAssurance\<close>
  (\<open>mcp/advanced.py\<close>, \<open>mcp/oauth_advanced.py\<close>); \<open>Metamorphic\<close>; \<open>Calibration\<close>,
  \<open>Stratified\<close>, \<open>CalibrationProbes\<close> (\<open>semantic/*calibration.py\<close>, \<open>robustness.py\<close>).

  A Python class is a record with a two-letter prefix on its fields, a method a function of it; a
  pydantic model has a function \<open>validate_x\<close> that is its validators in their order, and
  \<open>read_x\<close> where it is parsed from JSON; \<open>create_x\<close> and \<open>verify_x\<close> are the two ways to a
  receipt.

  What the lemmas show. \<open>PolicyGraph\<close>: validation decides the authority contract and is
  idempotent. \<open>JsonRoundtrip\<close>, \<open>StrictJsonProofs\<close>, \<open>EvidenceProofs\<close>: canonical text is
  injective, decoding is characterised, the evidence root binds; the locale \<open>canonical_digest\<close>
  gives the same for every identity. \<open>ApprovalProofs\<close>, \<open>RetrievalProofs\<close>,
  \<open>SideEffectProofs\<close>, \<open>AdversarialProofs\<close>, \<open>McpProofs\<close>, \<open>SemanticProofs\<close>: each verifier
  decides a declarative relation; \<open>ClosureProofs\<close> composes them. \<open>SealedReceipts\<close> states what a
  sealed receipt promises of its members, its text, its validation and its reading as a locale,
  \<open>McpReceipts\<close> interprets it; \<open>Recomputed\<close> and \<open>AssuranceProofs\<close> do so for derived receipts.
  \<open>OracleProofs\<close>: what a policy pass guarantees. \<open>RunnerProofs\<close>, \<open>RunOutcome\<close>,
  \<open>RunSafety\<close>: every outcome of a run is explained, a \<open>PASS\<close> is earned, a replay is faithful,
  and where an exception leaves the runner instead of blocking. \<open>SessionProofs\<close>,
  \<open>ReleaseProofs\<close>: a session keeps and counts what it ran, the gates decide on those counts.
  \<open>RedactionProofs\<close>: minimization is a function of the value within its budgets; it puts markers
  in place of values and does not look into the names of members. \<open>MetamorphicProofs\<close>: when the
  authority relation is sound. \<open>McpProbe\<close>: which network events a probe reports and which leave it. \<open>Sample\<close>, \<open>SampleReceipts\<close>,
  \<open>SampleSession\<close>, \<open>SampleRelations\<close> hold concrete inputs for the witnesses. The properties
  below name what a reader should look at first.

  Bounds and fuel. \<open>json_scan\<close> gives its scanner two steps per character and two more, which
  \<open>json_scan_fuel\<close> shows to be enough for any fuel to agree; \<open>ddmin\<close> runs on the code's own
  probe budget; \<open>reach_loop\<close> and \<open>path_search\<close> recurse on measures of the graph. Powers
  of ten in decimal-to-binary conversion are computed exactly and rounded once.

  Conventions. Texts are code points up to 255; an escape above is refused by the scanner.
  Dictionaries are association lists in insertion order. An exception is a value of \<open>error\<close>
  with its class and message; what the runner lets escape is a value too, and an exception of
  the standard library that the probe passes on is known by its class name (\<open>probe_failure\<close>). A
  completed trial carries the root of its evidence, which as a value cannot change after it. Parameters stand for
  what is outside \<open>src/\<close> or decided by the world: pydantic's lax boolean conversion
  (\<open>lax_bool\<close>), the operations of the calibration a judgment embeds (\<open>calibration_ops\<close>, which
  \<open>judge_calibrations\<close> instantiates), the power function of the C library (\<open>pow\<close>), the splitting
  of URLs (\<open>url_split\<close>), the order in which a process iterates a set of strings
  (\<open>set_order\<close>, a function of the set; Python's order also depends on how the set was built), the outcomes of adapters, judges, clocks and networks (\<open>run_env\<close>,
  \<open>probe_event\<close>, the trial a session's runner returns).

  Not modelled. Sockets, threads, files and subprocesses (MCP laboratory, OAuth flows, adapters
  of third-party SDKs, evidence stores, command line), comparative and sequential statistics,
  scenario registries, reports assembled from sessions, and the repository's own automation. The
  manifest lists every part with its reason.
\<close>
section \<open>A run of a trial\<close>

text \<open>C1: Every trial the runner returns is explained: it is blocked on evidence of its own subject and
  scenario, or its adapter returned a conforming result whose evidence is free of blocking and of
  injected framework events, closed every relation of the scenario, and was graded by the
  deterministic oracles and, where they pass and a rubric asks for it, by a bound judgment.\<close>

theorem trial_outcome:
  assumes "run_trial env subject scenario trial_id = Inr r"
  shows "\<exists>sf s. snapshot_subject subject = Inr sf \<and> snapshot_scenario scenario = Inr s \<and>
    (blocked_outcome (context_of sf s trial_id) r \<or>
     (\<exists>x t. rn_outcome env = RETURNED (RESULT x) \<and> to_evidence x (context_of sf s trial_id) = Inr t \<and>
        graded_outcome env (context_of sf s trial_id) t r))"
proof (cases "rt_verdict r = BLOCKED")
  case True
  with assms show ?thesis
    by (elim run_trial_outcome) (fastforce dest: graded_not_blocked)
next
  case False
  with assms show ?thesis by (rule graded_run) blast
qed

theorem trial_outcome_witness:
  "\<exists>sf s. snapshot_subject sample_subject = Inr sf \<and> snapshot_scenario sample_scenario = Inr s \<and>
    (blocked_outcome (context_of sf s ''t1'') sample_trial \<or>
     (\<exists>x t. rn_outcome (sample_env (RETURNED (RESULT sample_result))) = RETURNED (RESULT x) \<and>
        to_evidence x (context_of sf s ''t1'') = Inr t \<and>
        graded_outcome (sample_env (RETURNED (RESULT sample_result))) (context_of sf s ''t1'') t sample_trial))"
  by (rule trial_outcome [OF sample_run])

text \<open>C2: The evidence of a returned trial is valid evidence of exactly the subject, scenario and trial
  that were asked for; the verdict is BLOCKED exactly when it holds an evaluation or runtime error,
  and exactly when no oracle result is reported.\<close>

theorem blocked_exactly:
  assumes "run_trial env subject scenario trial_id = Inr r"
  shows "\<exists>sf s. snapshot_subject subject = Inr sf \<and> snapshot_scenario scenario = Inr s \<and>
    own_evidence (context_of sf s trial_id) (rt_evidence r) \<and>
    (rt_verdict r = BLOCKED \<longleftrightarrow> has_blocking_evidence (rt_evidence r)) \<and>
    (rt_verdict r = BLOCKED \<longleftrightarrow> rt_oracle_results r = [])"
  using assms by (rule run_trial_evidence) blast

theorem blocked_exactly_witness:
  "\<exists>sf s. snapshot_subject sample_subject = Inr sf \<and> snapshot_scenario sample_scenario = Inr s \<and>
    own_evidence (context_of sf s ''t1'') (rt_evidence sample_trial) \<and>
    (rt_verdict sample_trial = BLOCKED \<longleftrightarrow> has_blocking_evidence (rt_evidence sample_trial)) \<and>
    (rt_verdict sample_trial = BLOCKED \<longleftrightarrow> rt_oracle_results sample_trial = [])"
  by (rule blocked_exactly [OF sample_run])

text \<open>C3: A PASS is earned: the adapter's evidence closed every relation of the scenario, the policy
  and side-effect oracles pass, every required outcome is met and no forbidden one is, and where
  the scenario has a rubric the judgment's decision is PASS and follows from its criteria.\<close>

theorem pass_is_earned:
  assumes "run_trial env subject scenario trial_id = Inr r" "rt_verdict r = PASS"
  shows "\<exists>sf s x t. snapshot_subject subject = Inr sf \<and> snapshot_scenario scenario = Inr s \<and>
    rn_outcome env = RETURNED (RESULT x) \<and> to_evidence x (context_of sf s trial_id) = Inr t \<and>
    pass_earned env s t r"
proof -
  have "rt_verdict r \<noteq> BLOCKED" using assms(2) by simp
  with assms(1) show ?thesis
    by (rule graded_run) (use assms(2) graded_pass [of env] in \<open>fastforce simp: context_of_def\<close>)
qed

theorem pass_is_earned_witness:
  "\<exists>sf s x t. snapshot_subject sample_subject = Inr sf \<and> snapshot_scenario sample_scenario = Inr s \<and>
    rn_outcome (sample_env (RETURNED (RESULT sample_result))) = RETURNED (RESULT x) \<and>
    to_evidence x (context_of sf s ''t1'') = Inr t \<and>
    pass_earned (sample_env (RETURNED (RESULT sample_result))) s t sample_trial"
  by (rule pass_is_earned [OF sample_run]) (simp add: sample_trial_def)

text \<open>C4: Evidence of the framework's own kinds cannot be injected: a trial that is not blocked was
  reported by an adapter none of whose events is framework-owned for that adapter.\<close>

theorem no_injected_evidence:
  assumes "run_trial env subject scenario trial_id = Inr r" "rt_verdict r \<noteq> BLOCKED"
  shows "\<exists>x. rn_outcome env = RETURNED (RESULT x) \<and>
    \<not> list_ex (framework_evidence (rn_adapter env)) (ad_events x)"
  using assms by (rule graded_reported) blast

theorem no_injected_evidence_witness:
  "\<exists>x. rn_outcome (sample_env (RETURNED (RESULT sample_result))) = RETURNED (RESULT x) \<and>
    \<not> list_ex (framework_evidence (rn_adapter (sample_env (RETURNED (RESULT sample_result))))) (ad_events x)"
  by (rule no_injected_evidence [OF sample_run]) (simp add: sample_trial_def)

text \<open>C5: Replaying the recorded evidence of a trial of a scenario without a rubric, through the replay
  adapter and without a deadline, gives exactly the recorded trial again, blocked or not.\<close>

theorem replay_is_faithful:
  assumes "run_trial env subject s trial_id = Inr r" "validate_scenario s = Inr s"
    and "validate_subject subject = Inr subject" "es_semantic_rubric s = None"
    and "replays env subject s trial_id (rt_evidence r) env'"
  shows "run_trial env' subject s trial_id = Inr r"
  using assms by (rule replay_reproduces)

theorem replay_is_faithful_witness:
  "run_trial ((sample_env (replay_execute sample_evidence (subject_identity sample_subject)
     (scenario_identity sample_scenario) ''t1''))\<lparr>rn_adapter := REPLAY_ADAPTER\<rparr>)
     sample_subject sample_scenario ''t1'' = Inr sample_trial"
  by (rule replay_is_faithful [OF sample_run sample_scenario_valid sample_subject_valid])
    (simp_all add: sample_scenario_def replays_def sample_env_def sample_trial_def)

text \<open>C6: Regrading the recorded evidence of a trial of a scenario without a rubric finds the verdict,
  the oracle results and the evidence root of the trial.\<close>

theorem regrade_confirms:
  assumes "run_trial env subject s trial_id = Inr r" "validate_scenario s = Inr s" "es_semantic_rubric s = None"
  shows "deterministic_regrade_one (rn_lax_bool env) i s (rt_evidence r) =
    Inr \<lparr>rg_index = i, rg_trial_id = te_trial_id (rt_evidence r), rg_evidence_root = evidence_root (rt_evidence r),
         rg_verdict = rt_verdict r, rg_oracle_results = rt_oracle_results r\<rparr>"
  using assms by (rule regrade_agrees)

theorem regrade_confirms_witness:
  "deterministic_regrade_one (rn_lax_bool (sample_env (RETURNED (RESULT sample_result)))) 0 sample_scenario (rt_evidence sample_trial) =
   Inr \<lparr>rg_index = 0, rg_trial_id = te_trial_id (rt_evidence sample_trial),
        rg_evidence_root = evidence_root (rt_evidence sample_trial),
        rg_verdict = rt_verdict sample_trial, rg_oracle_results = rt_oracle_results sample_trial\<rparr>"
  by (rule regrade_confirms [OF sample_run sample_scenario_valid]) (simp add: sample_scenario_def)

text \<open>C7: The pre-grading closure decides its specification: it accepts evidence exactly when the attack,
  protocol, retrieval and side-effect relations hold, resources are canonical, delegated specialised
  runs are provenanced and the approval evidence closes.\<close>

theorem closure_decides:
  "verify_pregrading_closure lax_bool s t = Inr () \<longleftrightarrow> relations_closed lax_bool s t"
  by (rule verify_pregrading_closure_Inr)

section \<open>The policy oracle\<close>

text \<open>C8: When the policy oracle passes, every tool request of the trial is admissible under the authority
  its place in the handoff history has: the tool is allowed, the agent is the active one, and the
  resource lies in the scopes in force.\<close>

theorem policy_pass_admits_requests:
  assumes "or_verdict (policy_oracle s t) = PASS" "n < length (te_events t)"
    and "ev_kind (te_events t ! n) = TOOL_REQUEST"
  shows "request_admissible (es_authority s) (authority_before (es_authority s) (te_events t) n) (te_events t ! n)"
  using assms by (rule policy_pass_requests)

theorem policy_pass_admits_requests_witness:
  "request_admissible delegated_policy (authority_before delegated_policy (te_events delegated_evidence) 2)
     (te_events delegated_evidence ! 2)"
  using policy_pass_admits_requests [OF delegated_pass, of 2] by (simp add: numeral_2_eq_2)

text \<open>C9: When the policy oracle passes, approvals are one-shot: every request that needs an approval of
  its call is preceded by a grant for exactly that tool and call, with no other such request since.\<close>

theorem approvals_are_one_shot:
  assumes "or_verdict (policy_oracle s t) = PASS"
    and "protected_call (es_authority s) (es_approval_intent s) (te_events t) n tool c"
  shows "\<exists>j < n. grants_call tool c (te_events t ! j) \<and>
    \<not> (\<exists>k. j < k \<and> k < n \<and> protected_call (es_authority s) (es_approval_intent s) (te_events t) k tool c)"
  using policy_pass_one_shot [OF assms] by blast

theorem approvals_are_one_shot_witness:
  "\<exists>j < (2 :: nat). grants_call ''pay'' ''c1'' (te_events delegated_evidence ! j) \<and>
    \<not> (\<exists>k. j < k \<and> k < 2 \<and> protected_call delegated_policy None (te_events delegated_evidence) k ''pay'' ''c1'')"
  using approvals_are_one_shot [OF delegated_pass, of 2 "''pay''" "''c1''"] delegated_protected by simp

text \<open>C10: When the policy oracle passes, the number of tool requests stays within the root budget.\<close>

theorem tool_budget_respected:
  assumes "or_verdict (policy_oracle s t) = PASS"
  shows "int (length (filter (\<lambda>e. ev_kind e = TOOL_REQUEST) (te_events t))) \<le> ap_max_tool_calls (es_authority s)"
  using assms by (rule policy_pass_budget)

theorem tool_budget_respected_witness:
  "int (length (filter (\<lambda>e. ev_kind e = TOOL_REQUEST) (te_events delegated_evidence))) \<le> ap_max_tool_calls delegated_policy"
  using tool_budget_respected [OF delegated_pass] by simp


section \<open>Approvals and delegation\<close>

text \<open>C11: Approval evidence is accepted exactly when it closes: no decision without an intent, and with
  one a single decision whose receipt binds scenario, target, request, arguments, resource and
  authority path, followed by exactly the continuation it decided.\<close>

theorem approval_evidence_closed_iff:
  "verify_approval_intent s t = Inr () \<longleftrightarrow> approval_closed s t"
  by (rule verify_approval_intent_Inr)

text \<open>C12: A policy's authority is accepted exactly when no grant widens the root, no tool is both allowed
  and forbidden, transitions are unique and every granting agent is reachable from the root agent.\<close>

theorem policy_authority_accepted_iff:
  "validate_authority p = Inr () \<longleftrightarrow> authority_contract p"
  unfolding validate_authority_iff grant_within_root_iff authority_contract_def by (rule refl)

text \<open>C13: A validated policy is well formed, and validating it again changes nothing.\<close>

theorem validated_policy_stable:
  assumes "validate_policy p = Inr q"
  shows "wf_policy q \<and> validate_policy q = Inr q"
  using validate_policy_wf [OF assms] validate_policy_idem [OF assms] by simp

theorem validated_policy_stable_witness:
  "wf_policy sample_policy \<and> validate_policy sample_policy = Inr sample_policy"
  by (rule validated_policy_stable [OF sample_policy_valid])

section \<open>Evidence relations\<close>

text \<open>C14: A side-effect observation is accepted exactly when it closes, and then passes the oracle
  exactly when the effect is idempotent: at most one of the two attempts changed the state, and the
  first did where the scenario demands it.\<close>

theorem idempotent_effect_passes:
  "verify_side_effect_observation lax_bool s t = Inr (Some r) \<and> or_verdict (side_effect_oracle lax_bool s t) = PASS \<longleftrightarrow>
   (\<exists>k a1 a2. es_side_effect s = Some k \<and> effect_closed lax_bool s k t r \<and> er_attempts r = [a1, a2] \<and>
      idempotent_effect k a1 a2)"
proof -
  have "(\<exists>a1 a2. er_attempts r = [a1, a2] \<and> idempotent_effect k a1 a2) \<longleftrightarrow>
      or_verdict (side_effect_oracle lax_bool s t) = PASS"
    if "es_side_effect s = Some k" "effect_closed lax_bool s k t r" for k
    using that(2,1) by (rule side_effect_oracle_closed) simp
  then show ?thesis unfolding verify_side_effect_observation_iff by blast
qed

text \<open>C15: Protocol-delivery evidence is accepted exactly when it closes: every event carries a sealed
  receipt of the trial's scenario whose calls are asked and answered in its order, and no receipt
  is delivered twice.\<close>

theorem protocol_delivery_closed_iff:
  "verify_protocol_delivery t = Inr rs \<longleftrightarrow> protocol_closed t rs"
  by (rule verify_protocol_delivery_Inr)

text \<open>C16: A protocol receipt of any of the six families survives its event: what a bridge writes into the
  evidence is what the verification reads back.\<close>

theorem protocol_receipt_roundtrip:
  assumes "accepted_receipt r" "protocol_event r n now = Inr e"
  shows "read_protocol_receipt e = Inr r"
  using assms by (rule read_protocol_event)

theorem protocol_receipt_roundtrip_witness:
  "read_protocol_receipt sample_delivery = Inr (ToolResult sample_tool_result)"
  by (rule protocol_receipt_roundtrip [OF sample_tool_result_accepted sample_delivery_made])

section \<open>Adversarial scenarios\<close>


section \<open>Semantic judgments\<close>

section \<open>Evidence, identities and JSON\<close>

text \<open>C17: The evidence root binds the whole trial: equal roots mean equal envelope, events and terminal
  state, or two different hashed messages with the same digest.\<close>

theorem evidence_root_binds:
  assumes "evidence_root t = evidence_root t'"
  shows "(te_trial_id t = te_trial_id t' \<and> te_subject_identity t = te_subject_identity t' \<and>
      te_scenario_identity t = te_scenario_identity t' \<and>
      map event_text (te_events t) = map event_text (te_events t') \<and>
      json_dumps (terminal_material t) = json_dumps (terminal_material t'))
    \<or> messages_collide (root_messages t) (root_messages t')"
  using assms by (rule evidence_root_binding)

definition state_of :: "dict \<Rightarrow> trial_evidence" where
  "state_of d = sample_evidence\<lparr>te_final_state := d\<rparr>"

theorem evidence_root_binds_witness:
  "state_of [(''b'', JNull), (''a'', JNull)] \<noteq> state_of [(''a'', JNull), (''b'', JNull)] \<and>
   (json_dumps (terminal_material (state_of [(''b'', JNull), (''a'', JNull)])) =
      json_dumps (terminal_material (state_of [(''a'', JNull), (''b'', JNull)])) \<or>
    messages_collide (root_messages (state_of [(''b'', JNull), (''a'', JNull)]))
      (root_messages (state_of [(''a'', JNull), (''b'', JNull)])))"
proof
  show "state_of [(''b'', JNull), (''a'', JNull)] \<noteq> state_of [(''a'', JNull), (''b'', JNull)]"
    by (simp add: state_of_def sample_evidence_def)
  have "evidence_root (state_of [(''b'', JNull), (''a'', JNull)]) = evidence_root (state_of [(''a'', JNull), (''b'', JNull)])"
    by (simp add: evidence_root_def state_of_def sample_evidence_def envelope_identity_def terminal_material_def json_dumps_def)
  from evidence_root_binds [OF this]
  show "json_dumps (terminal_material (state_of [(''b'', JNull), (''a'', JNull)])) =
      json_dumps (terminal_material (state_of [(''a'', JNull), (''b'', JNull)])) \<or>
    messages_collide (root_messages (state_of [(''b'', JNull), (''a'', JNull)]))
      (root_messages (state_of [(''a'', JNull), (''b'', JNull)]))" by blast
qed

text \<open>C18: Strict decoding accepts exactly the texts of values within its bounds: the plain scanner reads
  the value, its containers nest no deeper than the maximum, no object repeats a key, numbers are
  finite, integers have at most 4096 digits and the root is an object where one is required. The
  depth check on the text is the depth of the value.\<close>

theorem strict_decoding_accepted_iff:
  "strict_json_loads label require_object max_depth text = Inr v \<longleftrightarrow>
   decodes require_object max_depth text v"
  by (rule strict_json_loads_Inr)

section \<open>Minimization\<close>

text \<open>C19: Delta debugging returns a non-empty subsequence of a non-empty input that was seen to fail,
  within the evaluation budget. Unless the budget ran out, every single element of a result of two or more was seen
  to be needed. The last element is the exception: a single one is returned without trying it away, and
  the answer to the empty sequence is never asked for.\<close>

theorem minimization_result_sound:
  assumes "ddmin items p budget = Inr res" "items \<noteq> []"
  shows "loop_result p (nat budget) items 1 (mr_minimized res, mr_evaluations res, mr_exhausted res) \<and> p 1 items \<and>
    (\<forall>q. agree_on_nonempty p q \<longrightarrow> ddmin items q budget = Inr res)"
  using ddmin_Inr [OF assms] ddmin_agree [OF _ assms(2)] assms(1) by simp

definition needs_two :: "nat failure_predicate" where
  "needs_two k xs \<longleftrightarrow> 1 \<in> set xs \<and> 3 \<in> set xs"

lemma needs_two_minimized: "ddmin [1, 2, 3] needs_two 50 =
    Inr \<lparr>mr_original_size = 3, mr_minimized = [1, 3], mr_evaluations = 14, mr_exhausted = False\<rparr>"
  by code_simp

theorem minimization_result_sound_witness:
  "no_single_drop needs_two 1 14 [1, 3] \<and> subseq [1, 3] [1, 2, 3 :: nat] \<and>
   ddmin [1, 2, 3] (\<lambda>k xs. xs = [] \<or> needs_two k xs) 50 = ddmin [1, 2, 3] needs_two 50"
  using minimization_result_sound [OF needs_two_minimized] needs_two_minimized
  by (simp add: loop_result_def agree_on_nonempty_def)

text \<open>C20: A cubic budget is enough: with it the minimization of an input that fails returns a result and
  ends by itself, on any predicate.\<close>

theorem minimization_finishes:
  assumes "p 1 items" "sufficient_budget (length items) \<le> nat budget"
  shows "\<exists>res. ddmin items p budget = Inr res \<and> \<not> mr_exhausted res"
  using assms by (rule ddmin_finishes)

theorem minimization_finishes_witness:
  "\<exists>res. ddmin [1, 2, 3 :: nat] (\<lambda>_ xs. 2 \<in> set xs) 97 = Inr res \<and> \<not> mr_exhausted res"
  by (rule minimization_finishes) (simp_all add: sufficient_budget_def power2_eq_square)

section \<open>Where the fail-closed runner is not\<close>


section \<open>Statistics and release\<close>

text \<open>C21: Streams that are merged give the statistics of the whole campaign, in whatever order its verdicts
  or pairs arrived: the merged aggregator's snapshot is the batch count of any permutation, and
  fails exactly when the batch does.\<close>

theorem merged_streams_are_the_batch:
  assumes "streamed binary_update no_trials vs = Inr a" "streamed binary_update no_trials ws = Inr b"
    and "mset us = mset (vs @ ws)"
    and "streamed paired_update no_pairs ps = Inr x" "streamed paired_update no_pairs qs = Inr y"
    and "mset rs = mset (ps @ qs)"
  shows "(rbind (binary_merge a b) binary_snapshot = Inr s \<longleftrightarrow> binary_from_verdicts us = Inr s) \<and>
    (rbind (paired_merge x y) paired_snapshot = Inr t \<longleftrightarrow> paired_from_verdicts (map fst rs) (map snd rs) = Inr t)"
proof (rule conjI)
  have "rbind (binary_merge a b) binary_snapshot = Inr s \<longleftrightarrow>
      rbind (streamed binary_update no_trials us) binary_snapshot = Inr s"
    using binary_counts.stream_merge [OF assms(1,2)] binary_counts.stream_perm [OF assms(3)] by (simp add: rbind_Inr)
  then show "rbind (binary_merge a b) binary_snapshot = Inr s \<longleftrightarrow> binary_from_verdicts us = Inr s"
    by (simp only: binary_stream_batch)
  have "rbind (paired_merge x y) paired_snapshot = Inr t \<longleftrightarrow>
      rbind (streamed paired_update no_pairs rs) paired_snapshot = Inr t"
    using paired_counts.stream_merge [OF assms(4,5)] paired_counts.stream_perm [OF assms(6)] by (simp add: rbind_Inr)
  then show "rbind (paired_merge x y) paired_snapshot = Inr t \<longleftrightarrow>
      paired_from_verdicts (map fst rs) (map snd rs) = Inr t"
    using paired_stream_batch [of "map fst rs" "map snd rs" t] by (simp add: zip_map_fst_snd)
qed

theorem merged_streams_are_the_batch_witness:
  "(rbind (binary_merge (binary_total [PASS]) (binary_total [BLOCKED])) binary_snapshot = Inr (binary_total [BLOCKED, PASS])
     \<longleftrightarrow> binary_from_verdicts [BLOCKED, PASS] = Inr (binary_total [BLOCKED, PASS])) \<and>
   (rbind (paired_merge (paired_total [(PASS, FAIL)]) (paired_total [])) paired_snapshot = Inr (paired_total [(PASS, FAIL)])
     \<longleftrightarrow> paired_from_verdicts (map fst [(PASS, FAIL)]) (map snd [(PASS, FAIL)]) = Inr (paired_total [(PASS, FAIL)]))"
  by (rule merged_streams_are_the_batch [where vs = "[PASS]" and ws = "[BLOCKED]" and qs = "[]" and ps = "[(PASS, FAIL)]"])
    (simp_all add: binary_counts.stream_Inr paired_counts.stream_Inr max_statistical_trials_def resolved_pair_def unresolved_def
      del: streamed.simps)

text \<open>C22: The release gate on a campaign's report: it refuses exactly when there are too many critical
  violations, whatever the success rate is, or when resolved trials succeed too rarely; and it
  accepts exactly when no bound is missed, counted on the verdicts themselves.\<close>

theorem release_gate_decides:
  assumes "report_from_verdicts pow vs k z = Inr r" "release_policy_fields p" "0 \<le> critical"
  shows "\<exists>g. gate_decide pow p r critical = Inr g \<and>
    (gr_decision g = GReject \<longleftrightarrow> refused p r critical) \<and>
    (gr_decision g = GAccept \<longleftrightarrow>
       critical \<le> rp_max_critical_violations p \<and>
       int (count_list vs BLOCKED) \<le> rp_max_blocked_trials p \<and>
       int (count_list vs INCONCLUSIVE) \<le> rp_max_inconclusive_trials p \<and>
       rp_min_resolved_trials p \<le> int (count_list vs PASS) + int (count_list vs FAIL) \<and>
       fl_le (rp_min_success_rate p) (rm_success_rate (rl_metrics r)) \<and>
       fl_le (rp_min_wilson_low p) (rm_wilson_low (rl_metrics r)))"
proof -
  have r: "validate_report pow r = Inr r" using report_from_verdicts_Inr [OF assms(1)] by simp
  then obtain g where g: "gate_decide pow p r critical = Inr g" using assms(3) by (simp add: gate_decide_Inr)
  show ?thesis
    using g gate_decision_iff(1) [OF g assms(2)] report_counts [OF assms(1)]
      refused_not_releasable [OF r assms(2), of critical]
    by (intro exI [of _ g]) (auto simp: releasable_def)
qed

theorem release_gate_decides_witness:
  "\<exists>g. gate_decide pow_id sample_release_policy sample_report 0 = Inr g \<and>
    (gr_decision g = GReject \<longleftrightarrow> refused sample_release_policy sample_report 0) \<and>
    (gr_decision g = GAccept \<longleftrightarrow>
       0 \<le> rp_max_critical_violations sample_release_policy \<and>
       int (count_list sample_verdicts BLOCKED) \<le> rp_max_blocked_trials sample_release_policy \<and>
       int (count_list sample_verdicts INCONCLUSIVE) \<le> rp_max_inconclusive_trials sample_release_policy \<and>
       rp_min_resolved_trials sample_release_policy \<le> int (count_list sample_verdicts PASS) + int (count_list sample_verdicts FAIL) \<and>
       fl_le (rp_min_success_rate sample_release_policy) (rm_success_rate (rl_metrics sample_report)) \<and>
       fl_le (rp_min_wilson_low sample_release_policy) (rm_wilson_low (rl_metrics sample_report)))"
  by (rule release_gate_decides [OF sample_from_verdicts sample_release_policy_fields]) simp


section \<open>Evaluation sessions\<close>

text \<open>C23: A session with nothing to control completes exactly when its request is well formed and every one of
  its attempts completes and can be counted: its own validation never refuses what it ran.\<close>

theorem session_completes_iff:
  assumes "plain_request q"
  shows "returns (run_session pow (\<lambda>i. run_trial (env i)) subject scenario q) \<longleftrightarrow>
    (\<exists>cid sf s ts. request_guards q = Inr cid \<and> campaign_name cid \<and> snapshot_subject subject = Inr sf \<and>
       snapshot_scenario scenario = Inr s \<and> adapter_named q sf \<and>
       attempts_kept (\<lambda>i. run_trial (env i) sf s) cid (nat (sq_trials q)) ts \<and>
       returns (report_from_verdicts pow (map rt_verdict ts) (sq_k q) default_confidence_z))"
  by (rule plain_session_completes [OF assms])

theorem session_completes_iff_witness:
  "returns (run_session pow_id (\<lambda>i. run_trial (sample_env LATE)) sample_subject sample_scenario sample_request) \<longleftrightarrow>
    (\<exists>cid sf s ts. request_guards sample_request = Inr cid \<and> campaign_name cid \<and> snapshot_subject sample_subject = Inr sf \<and>
       snapshot_scenario sample_scenario = Inr s \<and> adapter_named sample_request sf \<and>
       attempts_kept (\<lambda>i. run_trial (sample_env LATE) sf s) cid (nat (sq_trials sample_request)) ts \<and>
       returns (report_from_verdicts pow_id (map rt_verdict ts) (sq_k sample_request) default_confidence_z))"
  by (rule session_completes_iff [OF sample_request_plain])

text \<open>C24: The receipts of a session bind what they control. Verified independence means a reset receipt for
  every transition between two trials, bound to the evidence of the trial before it; controlled
  randomness means a receipt for every trial, with a seed no other trial has.\<close>

theorem session_receipts_bind:
  assumes "validate_session pow s = Inr ()"
  shows "(sn_independence_status s = VERIFIED \<longrightarrow> transitions_bound s) \<and>
    (\<forall>m. sn_sampling s = Some m \<longrightarrow> sm_randomness_status m = EVALUATOR_CONTROLLED \<longrightarrow> seeds_bound s (sm_receipts m)) \<and>
    (sn_independence_status s \<noteq> VERIFIED \<longrightarrow> sn_reset_receipts s = [])"
  using verified_transitions [OF assms] controlled_seeds [OF assms] unverified_no_receipts [OF assms] by blast

theorem session_receipts_bind_witness: "transitions_bound sample_session"
  using session_receipts_bind [OF sample_session_valid] by (simp add: sample_session_def)

text \<open>C25: From trials to release: the criticality issued for a session binds its report, so that the gate
  decides on the sum of the trials' critical violations; more of them than the policy allows
  reject the release whatever the report says, and it is accepted exactly when they are within
  the policy and the report is.\<close>

theorem session_release_decided:
  assumes "verify_session_criticality pow s = Inr c" "release_policy_fields p"
  shows "\<exists>g. gate_decide_verified pow p (sn_reliability s) c = Inr g \<and>
    cr_trial_evidence_roots c = map completion_evidence_root (sn_trials s) \<and>
    (gr_decision g = GReject \<longleftrightarrow> refused p (sn_reliability s) (int (sum_list (map critical_violations (sn_trials s))))) \<and>
    (gr_decision g = GAccept \<longleftrightarrow>
      int (sum_list (map critical_violations (sn_trials s))) \<le> rp_max_critical_violations p \<and> releasable p (sn_reliability s))"
proof -
  have r: "validate_report pow (sn_reliability s) = Inr (sn_reliability s)"
    using session_report [OF session_criticality_valid [OF assms(1)]] by blast
  then obtain g where g: "gate_decide pow p (sn_reliability s) (int (sum_list (map critical_violations (sn_trials s)))) = Inr g"
    by (simp add: gate_decide_Inr)
  with session_criticality_gate [OF assms(1)] gate_decision_iff(1) [OF g assms(2)] session_criticality_roots [OF assms(1)]
    refused_not_releasable [OF r assms(2)]
  show ?thesis by (intro exI [of _ g]) auto
qed

theorem session_release_decided_witness:
  "\<exists>c g. verify_session_criticality pow_id single_session = Inr c \<and>
    gate_decide_verified pow_id sample_release_policy (sn_reliability single_session) c = Inr g \<and> gr_decision g \<noteq> GReject"
proof -
  obtain c where c: "verify_session_criticality pow_id single_session = Inr c" using single_session_criticality by blast
  from session_release_decided [OF c sample_release_policy_fields] single_not_refused c show ?thesis by blast
qed

section \<open>Assurance receipts\<close>

text \<open>C26: An assurance receipt, of any of the five kinds that recompute, is read back exactly when it is
  what its constructor makes of the inputs it carries: verdict, counts and root leave no choice.\<close>

theorem assurance_receipts_recompute:
  "(verify_governance g = Inr g' \<longleftrightarrow> g' = g \<and> create_governance (gv_inputs g) = Inr g) \<and>
   (verify_resume h = Inr h' \<longleftrightarrow> h' = h \<and> create_resume (hr_checkpoint h, hr_attempts h) = Inr h) \<and>
   (verify_memory_receipt m = Inr m' \<longleftrightarrow> m' = m \<and> create_memory_receipt (mr_policy m, mr_observations m) = Inr m) \<and>
   (verify_distributed d = Inr d' \<longleftrightarrow> d' = d \<and> create_distributed (dr_policy d, dr_attempts d) = Inr d) \<and>
   (verify_pipeline p = Inr p' \<longleftrightarrow> p' = p \<and> create_pipeline (pr_inputs p) = Inr p)"
  by (simp only: governance_receipts.verify_Inr resume_receipts.verify_Inr memory_receipts.verify_Inr
      distributed_receipts.verify_Inr pipeline_receipts.verify_Inr resume_inputs_def memory_inputs_def distributed_inputs_def)

text \<open>C27: An accepted approval receipt rests on a quorum of different people: each authenticated outside by
  an allowed method, not revoked, no older than the policy allows and not of the future, not the
  requester where duties are separated, delegated only by a verified live delegation; and all of
  them decided the same on the same call.\<close>

theorem approval_quorum_sound:
  assumes "verify_governance r = Inr s" "gv_accepted s"
  shows "\<exists>as. set as \<subseteq> set (gi_approvals (gv_inputs s)) \<and> distinct (map ha_signer_id as) \<and>
    gp_quorum (gi_policy (gv_inputs s)) \<le> int (length as) \<and> list_all (qualifies (gv_inputs s)) as \<and>
    list_all (\<lambda>a. list_all (\<lambda>b. ha_invocation_sha256 a = ha_invocation_sha256 b \<and> ha_decision a = ha_decision b \<and>
      ha_scenario_identity a = ha_scenario_identity b) as) as"
proof -
  have v: "s = r" "r = governance_summary (gv_inputs r)" "one_invocation (gi_approvals (gv_inputs r))"
    using verified_governance [OF assms(1)] by simp_all
  have "governance_accepted (gv_inputs r)" using assms(2) unfolding v(1) by (subst (asm) v(2)) simp
  then obtain as where "set as \<subseteq> set (gi_approvals (gv_inputs r)) \<and> distinct (map ha_signer_id as) \<and>
      gp_quorum (gi_policy (gv_inputs r)) \<le> int (length as) \<and> list_all (qualifies (gv_inputs r)) as"
    using quorum_of_signers by blast
  with one_invocation_same [OF v(3)] show ?thesis unfolding v(1)
    by (intro exI [of _ as]) (auto simp: list_all_iff)
qed

theorem approval_quorum_sound_witness:
  "\<exists>as. set as \<subseteq> set (gi_approvals (gv_inputs (governance_summary sample_governance))) \<and> distinct (map ha_signer_id as) \<and>
    gp_quorum (gi_policy (gv_inputs (governance_summary sample_governance))) \<le> int (length as) \<and>
    list_all (qualifies (gv_inputs (governance_summary sample_governance))) as \<and>
    list_all (\<lambda>a. list_all (\<lambda>b. ha_invocation_sha256 a = ha_invocation_sha256 b \<and> ha_decision a = ha_decision b \<and>
      ha_scenario_identity a = ha_scenario_identity b) as) as"
  by (rule approval_quorum_sound [OF sample_governance_verified sample_governance_accepted])

text \<open>C28: What a memory receipt accepts it goes on accepting: appending to an accepted trace any later read of
  the owner's that the contract lets through, with the content, after deletion and after expiry,
  gives an accepted receipt. Deletion and expiry count as enforced once one read was denied.\<close>

theorem memory_acceptance_survives_disclosure:
  assumes "create_memory_receipt (p, ms) = Inr r" "mr_accepted r" "length ms < 10000"
    and "validate_memory_observation m = Inr m" "mo_operation m = MEM_READ" "same_principal m" "mo_allowed m"
    and "memory_relations p [m]" "\<forall>x\<in>set ms. mo_tick x \<le> mo_tick m"
  shows "\<exists>s. create_memory_receipt (p, ms @ [m]) = Inr s \<and> mr_accepted s"
proof -
  have c: "validate_memory_policy p = Inr p" "memory_relations p ms" "r = memory_summary p ms"
    using assms(1) by (simp_all add: create_memory_iff)
  have "memory_relations p (ms @ [m])"
    using c(2) assms(3,8,9) by (auto simp: memory_relations_def sorted_append)
  moreover have "memory_accepted p (ms @ [m])"
    using assms(2,5,6) c(3) by (simp add: memory_accepted_append harmless_def is_read_def)
  ultimately show ?thesis
    using c(1) by (intro exI [of _ "memory_summary p (ms @ [m])"]) (simp add: create_memory_iff)
qed

theorem memory_acceptance_survives_disclosure_witness:
  "(\<exists>s. create_memory_receipt (sample_memory_policy, sample_trace @ [late_read]) = Inr s \<and> mr_accepted s) \<and>
   mo_expires_tick late_read \<le> mo_tick late_read \<and> mo_returned_content_sha256 late_read = Some zeros"
proof (rule conjI)
  show "\<exists>s. create_memory_receipt (sample_memory_policy, sample_trace @ [late_read]) = Inr s \<and> mr_accepted s"
    by (rule memory_acceptance_survives_disclosure [OF sample_memory_created sample_memory_accepted late_read_follows(6)
        late_read_valid late_read_follows(1-5)])
  show "mo_expires_tick late_read \<le> mo_tick late_read \<and> mo_returned_content_sha256 late_read = Some zeros"
    by (simp add: late_read_def observe_def)
qed


section \<open>Relations between policies, calibration and hosted protocols\<close>

text \<open>C29: The authority relation is sound under three conditions: grants attenuate along the baseline's
  graph; requests name their resource (or the baseline has no scopes); and, if the scenario binds an
  approval, the run's approval requests name theirs too and ask for a tool that the baseline requires an
  approval for. Then whatever run passes the policy oracle under the transformed policy passes it under
  the baseline.\<close>

theorem satisfied_relation_is_sound:
  assumes "rr_decision (authority_does_not_expand b t) = SATISFIED" "wf_policy b" "wf_policy t"
    and "attenuating b" "resources_named b (te_events e)"
    and "es_approval_intent s = None \<or> approvals_asked b (te_events e)"
    and "or_verdict (policy_oracle (s\<lparr>es_authority := t\<rparr>) e) = PASS"
  shows "or_verdict (policy_oracle (s\<lparr>es_authority := b\<rparr>) e) = PASS"
  using assms by (rule satisfied_is_sound)

theorem satisfied_relation_is_sound_witness:
  "or_verdict (policy_oracle (sample_scenario\<lparr>es_authority := wide_policy\<rparr>) delegated_evidence) = PASS \<and>
   or_verdict (policy_oracle (approved_scenario\<lparr>es_authority := gated_policy {''pay''}\<rparr>) asking_evidence) = PASS"
proof
  show "or_verdict (policy_oracle (sample_scenario\<lparr>es_authority := wide_policy\<rparr>) delegated_evidence) = PASS"
    by (rule satisfied_relation_is_sound [OF wide_satisfied samples_wf wide_attenuating _ disjI1 [OF sample_without_approval]])
      (simp_all add: resources_named_def delegated_pass flip: delegated_scenario_def)
  show "or_verdict (policy_oracle (approved_scenario\<lparr>es_authority := gated_policy {''pay''}\<rparr>) asking_evidence) = PASS"
    by (rule satisfied_relation_is_sound [OF gated_satisfied(2) _ _ asking_conditions(1,2) disjI2 [OF asking_conditions(3)] gated_verdicts(1)])
      (simp_all add: gated_wf)
qed


text \<open>C31: Adjusting hypotheses succeeds exactly within its guards, and then, in the caller's order, rejects by the
  step-down rule of Holm or the step-up rule of Benjamini and Hochberg over the ranks.\<close>

theorem multiplicity_control_decides:
  assumes "\<forall>h \<in> set hs. valid_hypothesis h"
  shows "(\<exists>ys. adjust_p_values m alpha hs = Inr ys \<and> map ah_id ys = map hy_id hs \<and> map ah_p ys = map hy_p hs \<and>
      map ah_rejected ys = map (rejected_by m alpha hs) hs) \<longleftrightarrow> adjust_guards alpha hs = Inr ()"
  using adjust_decides [OF assms] by (simp only: adjusted_of_def)

theorem multiplicity_control_decides_witness:
  "\<exists>ys. adjust_p_values HOLM_FWER (FFin False 1 (- 1)) [\<lparr>hy_id = ''a'', hy_p = fl_0\<rparr>] = Inr ys \<and> map ah_id ys = [''a'']"
proof -
  let ?hs = "[\<lparr>hy_id = ''a'', hy_p = fl_0\<rparr>]" and ?alpha = "FFin False 1 (- 1)"
  have "\<forall>h \<in> set ?hs. valid_hypothesis h"
    by (simp add: valid_hypothesis_iff validate_hypothesis_id_def raise_if_Inr max_hypothesis_id_def py_strip_def py_space_def control_char_def)
  moreover have "adjust_guards ?alpha ?hs = Inr ()"
    by (simp add: adjust_guards_def rbind_Inr raise_if_Inr max_hypotheses_def validate_unit_float_def fl_compare
        PyFloat.signed_def power_int_minus)
  ultimately show ?thesis using multiplicity_control_decides [of ?hs HOLM_FWER ?alpha] by auto
qed

text \<open>C32: The probe of a valid endpoint returns an observation exactly when what the network did does not escape.
  These escape: an exception that none of its clauses names, from the transport or from decoding the body;
  an HTTP status outside 100 to 599; more than 100,001 frames in a response within the size limit; and, in
  one within all limits, a healthy server with a name of more than 256 characters or a status that is no
  success.\<close>

theorem probe_reports_or_escapes:
  assumes "validate_endpoint split e = Inr ()" "start_ns \<le> now_ns"
  shows "(\<exists>x. probe_hosted split e network start_ns now_ns = Inr x) \<longleftrightarrow>
    \<not> escapes_probe e (network e) (elapsed_ms start_ns now_ns)"
proof -
  have "0 \<le> elapsed_ms start_ns now_ns" "elapsed_ms start_ns now_ns \<le> 120000"
    using assms(2) by (simp_all add: elapsed_ms_def)
  from probe_reported [OF assms(1) this] show ?thesis by (simp add: probe_hosted_def assms(1))
qed

theorem probe_reports_or_escapes_witness:
  "(\<exists>x. probe_hosted sample_split sample_endpoint (\<lambda>_. named_answer 6) 0 5000000 = Inr x) \<and>
   \<not> (\<exists>x. probe_hosted sample_split sample_endpoint (\<lambda>_. named_answer 257) 0 5000000 = Inr x) \<and>
   (\<exists>x. probe_hosted sample_split sample_endpoint (\<lambda>_. HttpFailed 503 None) 0 5000000 = Inr x) \<and>
   \<not> (\<exists>x. probe_hosted sample_split sample_endpoint (\<lambda>_. HttpFailed 999 None) 0 5000000 = Inr x)"
  by (simp add: probe_reports_or_escapes [OF sample_endpoint_valid] sample_escapes elapsed_ms_def del: not_ex)

text \<open>C33: In session events that are accepted a token is revoked only after it was issued or refreshed, and
  no request with a token is accepted after its revocation.\<close>

theorem revoked_token_stays_out:
  assumes "check_events xs = Inr ()" "xs = us @ x # vs" "oe_kind x = REVOKE"
  shows "(\<exists>y\<in>set us. oe_kind y \<in> {INITIAL, REFRESH} \<and> oe_token y = oe_token x) \<and>
    (\<forall>y\<in>set vs. oe_kind y = REQUEST \<and> oe_token y = oe_token x \<longrightarrow> \<not> oe_accepted y)"
proof -
  obtain st where "token_trace no_tokens (us @ x # vs) st"
    using assms(1,2) by (auto simp: check_events_def checks_Inr rbind_Inr event_run_iff)
  from revoked_stays_out [OF this assms(3)] revoked_was_seen [OF this assms(3)] show ?thesis by blast
qed

theorem revoked_token_stays_out_witness:
  "\<not> oe_accepted (token_event ''request'' REQUEST)"
  using revoked_token_stays_out [OF token_session_checked, of "[token_event ''issue'' INITIAL]" "token_event ''revoke'' REVOKE"
      "[token_event ''request'' REQUEST]"]
  by (simp add: token_session_def token_event_def)

text \<open>C34: A calibration receipt is read back from its own dump by a process exactly if that process iterates the
  required tags in the order of the one that wrote it, or the two dumps collide under SHA-256.\<close>

theorem calibration_bound_to_iteration_order:
  assumes "well_calibrated r" "iterates order" "validate_calibration order r = Inr r"
  shows "read_calibration order' (calibration_json order r) =
    (if order' (cq_required_tags (kr_policy r)) = order (cq_required_tags (kr_policy r)) \<or>
        sha256_collision (calibration_bytes order' r) (calibration_bytes order r) then Some r else None)"
  by (simp add: read_calibration_json [OF assms] calibration_root_order)

theorem calibration_bound_to_iteration_order_witness:
  "read_calibration ascending_tags (calibration_json ascending_tags (judged_calibration ascending_tags)) = Some (judged_calibration ascending_tags) \<and>
   (read_calibration descending_tags (calibration_json ascending_tags (judged_calibration ascending_tags)) = None \<or>
    sha256_collision (calibration_bytes descending_tags (judged_calibration ascending_tags)) (calibration_bytes ascending_tags (judged_calibration ascending_tags)))"
  using orders_differ by (simp add: calibration_bound_to_iteration_order [OF judged_well sample_orders(1) judged_valid])

section \<open>Populations and stratified calibration\<close>

text \<open>C35: A population-bound session returns a result exactly when the population claim is well formed and the session
  under it returns one, and the result is that session with the claim sealed to its campaign, subject,
  scenario and attempts: every later check of the envelope passes.\<close>

theorem population_session_iff:
  "run_population_session pow run subject scenario q p = Inr r \<longleftrightarrow>
     validate_population p = Inr p \<and> (\<exists>s. run_session pow run subject scenario q = Inr s \<and> r = bind_population s p)"
  by (rule run_population_Inr)

text \<open>C36: Valid sampling envelopes have the same root exactly if they are the same, up to a SHA-256 collision: a root
  fixes the population claim together with the attempts, the campaign, the subject and the scenario.\<close>

theorem population_envelope_binds:
  assumes "validate_sampling_v2 m = Inr m" "validate_sampling_v2 n = Inr n"
  shows "sv_metadata_root m = sv_metadata_root n \<longleftrightarrow> m = n \<or>
    sha256_collision (sampling_v2_domain @ json_dumps (sampling_v2_material m))
      (sampling_v2_domain @ json_dumps (sampling_v2_material n))"
proof -
  have "sv_metadata_root m = sv_metadata_root n"
    if "sha256_collision (sampling_v2_domain @ json_dumps (sampling_v2_material m))
      (sampling_v2_domain @ json_dumps (sampling_v2_material n))"
    using that assms by (simp add: validate_sampling_v2_Inr sampling_v2_root_def sha256_collision_def sha256_hex_def)
  then show ?thesis using sampling_v2_root_binds [OF assms] by blast
qed

definition sample_envelope :: "population_provenance \<Rightarrow> sampling_v2" where
  "sample_envelope = seal_v2 ''c'' zeros zeros (sampling_of sample_request plain_plan_of [])"

lemma sample_envelope_valid:
  "validate_provenance p = Inr () \<Longrightarrow> validate_sampling_v2 (sample_envelope p) = Inr (sample_envelope p)"
  by (simp add: sample_envelope_def validate_sampling_v2_Inr plain_sampling campaign_name_def ascii_alnum_def id_char_def is_lower_char_def is_digit_char_def)

lemma sample_claims:
  "validate_provenance unknown_population = Inr ()"
  "validate_provenance \<lparr>pv_status = EXTERNALLY_DECLARED, pv_frame = None, pv_basis = Some ''all users''\<rparr> = Inr ()"
  by (simp_all add: validate_provenance_def unknown_population_def basis_fields_def optional_text_def provenance_shape_def
      raise_if_Inr py_strip_def py_space_def)

theorem population_envelope_binds_witness:
  "sv_metadata_root (sample_envelope unknown_population) =
     sv_metadata_root (sample_envelope \<lparr>pv_status = EXTERNALLY_DECLARED, pv_frame = None, pv_basis = Some ''all users''\<rparr>) \<longleftrightarrow>
   sha256_collision (sampling_v2_domain @ json_dumps (sampling_v2_material (sample_envelope unknown_population)))
     (sampling_v2_domain @ json_dumps (sampling_v2_material (sample_envelope
        \<lparr>pv_status = EXTERNALLY_DECLARED, pv_frame = None, pv_basis = Some ''all users''\<rparr>)))"
proof -
  let ?d = "\<lparr>pv_status = EXTERNALLY_DECLARED, pv_frame = None, pv_basis = Some ''all users''\<rparr>"
  have "sv_population (sample_envelope unknown_population) \<noteq> sv_population (sample_envelope ?d)"
    by (simp add: sample_envelope_def unknown_population_def)
  then have "sample_envelope unknown_population \<noteq> sample_envelope ?d" by metis
  then show ?thesis
    using population_envelope_binds [OF sample_envelope_valid sample_envelope_valid, OF sample_claims] by blast
qed

text \<open>C37: The field of a stratified calibration receipt admits 30,000 observations, and its policy 10,000 of each
  stratum; its material budget does not: no receipt is created of more than 3,449.\<close>

theorem stratified_receipt_bounded:
  assumes "3449 < length xs"
  shows "\<exists>e. create_stratified order profile p xs = Inl e"
proof (rule ccontr)
  assume "\<not> ?thesis"
  then obtain r where r: "create_stratified order profile p xs = Inr r" by (cases "create_stratified order profile p xs") auto
  then obtain zs t where zs: "canonical_partition xs = Inr zs" and t: "validate_stratified order t = Inr r"
    and "tr_observations t = zs"
    by (auto simp: create_stratified_def rbind_Inr Let_def stratified_of_def)
  then have "length (tr_observations t) = length xs" by (simp add: canonical_partition_Inr)
  with stratified_size [OF t] assms show False by simp
qed

definition strict_strata :: stratified_policy where
  "strict_strata = \<lparr>tp_validation = strict_policy, tp_holdout = strict_policy, tp_min_development = 0,
     tp_confidence_z = default_one_sided_z, tp_max_validation_upper = fl_1, tp_max_holdout_upper = fl_1,
     tp_requirements = [\<lparr>rq_tag = ''tone'', rq_min_validation = 1, rq_min_holdout = 1\<rparr>]\<rparr>"

definition numbered_observation :: "nat \<Rightarrow> stratified_observation" where
  "numbered_observation n = (let c = sample_commitment\<lparr>cm_case_id := ''case-'' @ nat_str n\<rparr> in
     \<lparr>so_split = HOLDOUT, so_observation = sample_failure\<lparr>cv_commitment := c\<lparr>cm_root := commitment_root c\<rparr>\<rparr>\<rparr>)"

lemma numbered_valid:
  assumes "n < 3450"
  shows "validate_stratified_observation (numbered_observation n) = Inr ()"
proof -
  have "length (nat_str n) \<le> 4"
    using assms nat_str_short [of "n div 10"] by (subst nat_str.simps) auto
  moreover have "list_all (id_char ''._-'') (nat_str n)"
    using nat_str_digits [of n] by (auto simp: list_all_iff id_char_def)
  ultimately have "id_pattern ''._-'' 2 127 (''case-'' @ nat_str n)"
    by (simp add: id_pattern_def id_char_def is_lower_char_def)
  moreover have "commitment_root (c\<lparr>cm_root := r\<rparr>) = commitment_root c" for c r
    by (simp add: commitment_root_def commitment_material_def)
  ultimately have "validate_commitment (cv_commitment (so_observation (numbered_observation n))) = Inr ()"
    by (simp add: numbered_observation_def Let_def validate_commitment_def field_ok raise_if_Inr blank_tags_def bounded_text_def)
  moreover have "validate_calibration_observation (so_observation (numbered_observation n)) = Inr ()"
    by (simp add: numbered_observation_def Let_def validate_calibration_observation_def rbind_Inr field_ok raise_if_Inr
        as_validation_Inr cv_observed_def observed_decision_def id_pattern_def id_char_def is_lower_char_def is_digit_char_def)
  ultimately show ?thesis by (simp add: validate_stratified_observation_def checks_Inr)
qed

theorem stratified_receipt_bounded_witness:
  "list_all (\<lambda>x. validate_stratified_observation x = Inr ()) (map numbered_observation [0..<3450]) \<and>
   (\<exists>e. create_stratified ascending_tags sample_profile strict_strata (map numbered_observation [0..<3450]) = Inl e)"
proof
  show "list_all (\<lambda>x. validate_stratified_observation x = Inr ()) (map numbered_observation [0..<3450])"
    by (auto simp: list_all_iff numbered_valid simp del: upt_conv_Cons)
  show "\<exists>e. create_stratified ascending_tags sample_profile strict_strata (map numbered_observation [0..<3450]) = Inl e"
    by (rule stratified_receipt_bounded) simp
qed


section \<open>Evidence minimization\<close>

text \<open>C38: Whatever a policy declares, minimization that returns keeps the trial but for the surfaces a store may
  rewrite: authority-bearing events stay as they were, and in the payloads of the others and the final state
  values are kept or replaced by a marker. In all payloads, the final state and the output no value is left
  that the recognisers would replace. The names of members and all other fields are kept and not scanned:
  a token in one of them stays. The receipt is valid and bound to the policy and the result.\<close>

theorem minimization_sound:
  assumes "minimize_evidence p e = Inr (m, r)"
  shows "\<exists>t. snapshot_evidence e = Inr t \<and> evidence_minimized t m \<and> validate_evidence m = Inr m \<and>
    mz_policy_id r = min_policy_id p \<and> mz_result_root r = evidence_root m \<and> verify_min_receipt r = Inr r"
  using assms by (rule minimize_sound)

theorem minimization_sound_witness:
  "evidence_minimized (token_evidence (JObj [(''x'', JStr ''a'')])) (token_evidence (JStr credential_marker))"
proof -
  obtain r where "minimize_evidence token_policy (token_evidence (JObj [(''x'', JStr ''a'')])) = Inr (token_evidence (JStr credential_marker), r)"
    using token_first by blast
  from minimization_sound [OF this] show ?thesis by (auto simp: snapshot_evidence_def token_values)
qed

text \<open>C39: Under the recognisers alone, minimizing minimized evidence again returns the same evidence and the same
  receipt.\<close>

theorem minimization_repeatable:
  assumes "mn_paths p = []" "minimize_evidence p e = Inr (m, r)"
  shows "minimize_evidence p m = Inr (m, r)"
  using assms by (rule minimize_again)

theorem minimization_repeatable_witness:
  "\<exists>r. minimize_evidence (token_policy\<lparr>mn_paths := []\<rparr>) (token_evidence (JStr credential_marker)) = Inr (token_evidence (JStr credential_marker), r)"
proof -
  obtain r where "minimize_evidence (token_policy\<lparr>mn_paths := []\<rparr>) (token_evidence (JObj [(''x'', JStr ''a'')]))
      = Inr (token_evidence (JStr credential_marker), r)"
    using token_alone by blast
  from minimization_repeatable [OF _ this] show ?thesis by auto
qed

text \<open>C40: With a declared path below a credential key it does not: a valid policy minimizes evidence to evidence that
  the same policy refuses.\<close>

theorem minimization_not_repeatable:
  "\<exists>p e m r err. create_min_policy [token_path] 100 100 = Inr p \<and> minimize_evidence p e = Inr (m, r) \<and>
     minimize_evidence p m = Inl err"
  using token_policy_created token_first token_second by blast

end
